(* ===== verification/Prelude.thy ===== *)
theory Prelude
  imports Main
begin

text \<open>
  Shared layer of the development: the theorem collections the components fill, the
  order-preserving deduplication that the Python code writes as a loop over a list with a
  \<open>seen\<close> set, keyed tables (a database table as the list of its rows, looked up by its
  primary key) and the locales that state what those two offer to their clients.
\<close>

named_theorems table_simps \<open>how table operations act on keys and lookups\<close>
named_theorems frame_simps \<open>components of the state an operation leaves alone\<close>

type_synonym time = int

subsection \<open>Lists and options\<close>

lemma find_Some_mem: "List.find P xs = Some x \<Longrightarrow> x \<in> set xs \<and> P x"
  by (induction xs) (auto split: if_splits)

lemma find_None_iff_all: "List.find P xs = None \<longleftrightarrow> (\<forall>x\<in>set xs. \<not> P x)"
  by (induction xs) auto

lemma find_eq_Some_unique:
  "distinct (map k xs) \<Longrightarrow> x \<in> set xs \<Longrightarrow> List.find (\<lambda>y. k y = k x) xs = Some x"
  by (induction xs) auto

lemma filter_length_take_le [intro]: "length (take n xs) \<le> n"
  by simp

lemma butlast_set_subset: "set (butlast xs) \<subseteq> set xs"
  by (auto dest: in_set_butlastD)

subsection \<open>Deduplication in order of first appearance\<close>

text \<open>
  The loop
  \<^verbatim>\<open>
  out, seen = [], set()
  for x in items:
      s = clean(x)
      if s and key(s) not in seen: seen.add(key(s)); out.append(s)
  \<close>
  with \<open>seen\<close> threaded through the recursion. The code uses it for organizational units,
  alternate domain suffixes, extra SANs, trusted domains and notification recipients.
\<close>

fun dedup_key :: "('s list \<Rightarrow> 'k) \<Rightarrow> 'k list \<Rightarrow> 's list list \<Rightarrow> 's list list" where
  "dedup_key key seen [] = []"
| "dedup_key key seen (s # ss) =
     (if s \<noteq> [] \<and> key s \<notin> set seen
      then s # dedup_key key (key s # seen) ss
      else dedup_key key seen ss)"

lemma dedup_key_subset: "set (dedup_key key seen ss) \<subseteq> {s \<in> set ss. s \<noteq> []}"
  by (induction key seen ss rule: dedup_key.induct) auto

lemma dedup_key_seen: "x \<in> set (dedup_key key seen ss) \<Longrightarrow> key x \<notin> set seen"
  by (induction key seen ss rule: dedup_key.induct) (auto split: if_splits)

lemma dedup_key_distinct: "distinct (map key (dedup_key key seen ss))"
  by (induction key seen ss rule: dedup_key.induct) (auto dest: dedup_key_seen)

lemma dedup_key_complete:
  "s \<in> set ss \<Longrightarrow> s \<noteq> [] \<Longrightarrow> key s \<in> set seen \<union> key ` set (dedup_key key seen ss)"
  by (induction key seen ss rule: dedup_key.induct) auto

lemma dedup_key_fixpoint:
  "distinct (map key ss) \<Longrightarrow> [] \<notin> set ss \<Longrightarrow> key ` set ss \<inter> set seen = {} \<Longrightarrow>
     dedup_key key seen ss = ss"
  by (induction key seen ss rule: dedup_key.induct) auto

lemmas dedup_key_facts = dedup_key_subset dedup_key_distinct dedup_key_seen

subsection \<open>Keyed tables\<close>

text \<open>
  A database table is the list of its rows in insertion order. \<open>row_by\<close> is
  \<open>SELECT ... WHERE key = ?\<close> with \<open>fetchone()\<close>, \<open>update_where\<close> is \<open>UPDATE ... WHERE\<close>
  (every matching row), \<open>delete_where\<close> is \<open>DELETE ... WHERE\<close>, and \<open>insert_row\<close> is
  \<open>INSERT\<close>, which fails with an integrity error (None) when the primary key is taken.
\<close>

definition row_by :: "('r \<Rightarrow> 'k) \<Rightarrow> 'k \<Rightarrow> 'r list \<Rightarrow> 'r option" where
  "row_by key k rows = List.find (\<lambda>r. key r = k) rows"

definition update_where :: "('r \<Rightarrow> bool) \<Rightarrow> ('r \<Rightarrow> 'r) \<Rightarrow> 'r list \<Rightarrow> 'r list" where
  "update_where P f rows = map (\<lambda>r. if P r then f r else r) rows"

definition delete_where :: "('r \<Rightarrow> bool) \<Rightarrow> 'r list \<Rightarrow> 'r list" where
  "delete_where P rows = filter (\<lambda>r. \<not> P r) rows"

definition insert_row :: "('r \<Rightarrow> 'k) \<Rightarrow> 'r \<Rightarrow> 'r list \<Rightarrow> 'r list option" where
  "insert_row key r rows = (if key r \<in> key ` set rows then None else Some (rows @ [r]))"

definition rowcount :: "('r \<Rightarrow> bool) \<Rightarrow> 'r list \<Rightarrow> nat" where
  "rowcount P rows = length (filter P rows)"

definition modify_row :: "('r \<Rightarrow> 'k) \<Rightarrow> 'k \<Rightarrow> ('r \<Rightarrow> 'r) \<Rightarrow> 'r list \<Rightarrow> 'r list" where
  "modify_row key k f rows = update_where (\<lambda>r. key r = k) f rows"

definition remove_row :: "('r \<Rightarrow> 'k) \<Rightarrow> 'k \<Rightarrow> 'r list \<Rightarrow> 'r list" where
  "remove_row key k rows = delete_where (\<lambda>r. key r = k) rows"

definition unique_key :: "('r \<Rightarrow> 'k) \<Rightarrow> 'r list \<Rightarrow> bool" where
  "unique_key key rows \<longleftrightarrow> distinct (map key rows)"

lemma row_by_Nil [simp]: "row_by key k [] = None"
  by (simp add: row_by_def)

lemma row_by_Cons [simp]:
  "row_by key k (r # rows) = (if key r = k then Some r else row_by key k rows)"
  by (simp add: row_by_def)

lemma row_by_SomeD: "row_by key k rows = Some r \<Longrightarrow> r \<in> set rows \<and> key r = k"
  by (auto simp: row_by_def dest: find_Some_mem)

lemma row_by_None_iff [table_simps]: "row_by key k rows = None \<longleftrightarrow> k \<notin> key ` set rows"
  by (induction rows) auto

lemma row_by_append [table_simps]:
  "row_by key k (rows @ rows') =
     (case row_by key k rows of None \<Rightarrow> row_by key k rows' | Some r \<Rightarrow> Some r)"
  by (induction rows) auto

lemma row_by_snoc [table_simps]:
  "row_by key k (rows @ [r]) =
     (if k \<in> key ` set rows then row_by key k rows else if key r = k then Some r else None)"
  by (induction rows) auto

lemma row_by_unique:
  "unique_key key rows \<Longrightarrow> r \<in> set rows \<Longrightarrow> row_by key (key r) rows = Some r"
  by (simp add: row_by_def unique_key_def find_eq_Some_unique)

lemma map_key_update_where:
  "(\<And>r. key (f r) = key r) \<Longrightarrow> map key (update_where P f rows) = map key rows"
  by (simp add: update_where_def)

lemma row_by_update_where [table_simps]:
  "(\<And>r. key (f r) = key r) \<Longrightarrow>
     row_by key k (update_where P f rows) =
       map_option (\<lambda>r. if P r then f r else r) (row_by key k rows)"
  by (induction rows) (auto simp: update_where_def)

lemma row_by_delete_where_key [table_simps]:
  "row_by key k (delete_where (\<lambda>r. key r = k') rows) =
     (if k = k' then None else row_by key k rows)"
  by (induction rows) (auto simp: delete_where_def)

lemma unique_key_update [table_simps]:
  "(\<And>r. key (f r) = key r) \<Longrightarrow> unique_key key (update_where P f rows) = unique_key key rows"
  by (simp add: unique_key_def map_key_update_where)

lemma unique_key_delete: "unique_key key rows \<Longrightarrow> unique_key key (delete_where P rows)"
  by (auto simp: unique_key_def delete_where_def intro: distinct_map_filter)

lemma unique_key_insert:
  "unique_key key rows \<Longrightarrow> insert_row key r rows = Some rows' \<Longrightarrow> unique_key key rows'"
  by (auto simp: unique_key_def insert_row_def split: if_splits)

text \<open>
  The contract of a table: what a lookup returns after each operation, and which operations
  keep keys unique. Its clients are the session stores, the user table, the settings and
  the job queue.
\<close>

locale keyed_store =
  fixes lookup :: "'k \<Rightarrow> 't \<Rightarrow> 'r option"
    and insert :: "'r \<Rightarrow> 't \<Rightarrow> 't option"
    and modify :: "'k \<Rightarrow> ('r \<Rightarrow> 'r) \<Rightarrow> 't \<Rightarrow> 't"
    and remove :: "'k \<Rightarrow> 't \<Rightarrow> 't"
    and key :: "'r \<Rightarrow> 'k"
    and wf :: "'t \<Rightarrow> bool"
  assumes lookup_key: "lookup k t = Some r \<Longrightarrow> key r = k"
    and insert_iff: "insert r t = None \<longleftrightarrow> lookup (key r) t \<noteq> None"
    and lookup_insert: "insert r t = Some t' \<Longrightarrow> lookup k t' = (if k = key r then Some r else lookup k t)"
    and lookup_modify: "(\<And>r. key (f r) = key r) \<Longrightarrow>
      lookup k (modify k' f t) = (if k = k' then map_option f (lookup k t) else lookup k t)"
    and lookup_remove: "lookup k (remove k' t) = (if k = k' then None else lookup k t)"
    and wf_insert: "wf t \<Longrightarrow> insert r t = Some t' \<Longrightarrow> wf t'"
    and wf_modify: "wf t \<Longrightarrow> (\<And>r. key (f r) = key r) \<Longrightarrow> wf (modify k f t)"
    and wf_remove: "wf t \<Longrightarrow> wf (remove k t)"
begin

lemma insert_fresh: "lookup (key r) t = None \<Longrightarrow> \<exists>t'. insert r t = Some t' \<and> lookup (key r) t' = Some r"
  using insert_iff [of r t] lookup_insert by fastforce

lemma insert_other: "insert r t = Some t' \<Longrightarrow> k \<noteq> key r \<Longrightarrow> lookup k t' = lookup k t"
  by (simp add: lookup_insert)

lemma insert_remove: "insert r t = Some t' \<Longrightarrow> lookup (key r) (remove (key r) t') = None"
  by (simp add: lookup_remove)

lemma modify_other:
  "(\<And>r. key (f r) = key r) \<Longrightarrow> k \<noteq> k' \<Longrightarrow> lookup k (modify k' f t) = lookup k t"
  by (simp add: lookup_modify)

lemma modify_stays_absent:
  "(\<And>r. key (f r) = key r) \<Longrightarrow> lookup k t = None \<Longrightarrow> lookup k (modify k' f t) = None"
  by (auto simp: lookup_modify)

end

lemma row_store:
  "keyed_store (row_by key) (insert_row key) (modify_row key) (remove_row key) key (unique_key key)"
proof (rule keyed_store.intro, goal_cases)
  case (1 k t r) then show ?case by (blast dest: row_by_SomeD)
next
  case (2 r t) then show ?case by (simp add: insert_row_def row_by_None_iff)
next
  case (3 r t t' k) then show ?case
    by (auto simp: insert_row_def row_by_snoc row_by_None_iff split: if_splits
      intro: row_by_None_iff [THEN iffD2, symmetric])
next
  case (4 f k k' t) then show ?case
    by (cases "row_by key k t") (auto simp: modify_row_def row_by_update_where dest: row_by_SomeD)
next
  case (5 k k' t) then show ?case by (simp add: remove_row_def row_by_delete_where_key)
next
  case (6 t r t') then show ?case by (rule unique_key_insert)
next
  case (7 t f k) then show ?case by (simp add: modify_row_def unique_key_update)
next
  case (8 t k) then show ?case by (simp add: remove_row_def unique_key_delete)
qed

text \<open>
  The contract of a cleaning function: its output stays within a whitelist of characters
  and below a length bound. Clients of it print the output into a line-oriented file.
\<close>

locale sanitizer =
  fixes clean :: "'v \<Rightarrow> 'c list" and allowed :: "'c \<Rightarrow> bool" and bound :: nat
  assumes clean_allowed: "list_all allowed (clean v)"
    and clean_bound: "length (clean v) \<le> bound"
begin

lemma clean_mem: "c \<in> set (clean v) \<Longrightarrow> allowed c"
  using clean_allowed by (simp add: list_all_iff)

lemma clean_excludes: "\<not> allowed c \<Longrightarrow> c \<notin> set (clean v)"
  using clean_mem by blast

end

end
