(* ===== verification/PyText.thy ===== *)
theory PyText
  imports Prelude "HOL-Library.Char_ord"
begin

text \<open>
  Python's text operations on HOL strings. A \<open>char\<close> is read as a code point below 256
  (Latin-1), which covers every character the program's own patterns name; on that range
  \<open>strip\<close>, \<open>lower\<close>, \<open>isdigit\<close>, \<open>split\<close>, slicing and \<open>int()\<close> are exact. Regular
  expressions are written out as predicates; \<open>at_end\<close> is what a final \<open>$\<close> accepts, which
  in Python is the end of the text or a newline just before it.
\<close>

definition cp :: "char \<Rightarrow> nat" where
  "cp c = of_char c"

definition is_space :: "char \<Rightarrow> bool" where
  "is_space c = (let n = cp c in (9 \<le> n \<and> n \<le> 13) \<or> (28 \<le> n \<and> n \<le> 32) \<or> n = 133 \<or> n = 160)"

definition is_lower :: "char \<Rightarrow> bool" where
  "is_lower c = (let n = cp c in 97 \<le> n \<and> n \<le> 122)"

definition is_upper :: "char \<Rightarrow> bool" where
  "is_upper c = (let n = cp c in 65 \<le> n \<and> n \<le> 90)"

definition is_digit :: "char \<Rightarrow> bool" where
  "is_digit c = (let n = cp c in 48 \<le> n \<and> n \<le> 57)"

definition is_alpha :: "char \<Rightarrow> bool" where
  "is_alpha c = (is_lower c \<or> is_upper c)"

definition is_alnum :: "char \<Rightarrow> bool" where
  "is_alnum c = (is_alpha c \<or> is_digit c)"

definition lower_char :: "char \<Rightarrow> char" where
  "lower_char c = (let n = cp c in
     if (65 \<le> n \<and> n \<le> 90) \<or> (192 \<le> n \<and> n \<le> 222 \<and> n \<noteq> 215) then char_of (n + 32) else c)"

definition upper_ascii :: "char \<Rightarrow> char" where
  "upper_ascii c = (if is_lower c then char_of (cp c - 32) else c)"

definition upper_char :: "char \<Rightarrow> char" where
  "upper_char c = (let n = cp c in
     if (97 \<le> n \<and> n \<le> 122) \<or> (224 \<le> n \<and> n \<le> 254 \<and> n \<noteq> 247) then char_of (n - 32) else c)"

definition is_cased :: "char \<Rightarrow> bool" where
  "is_cased c = (let n = cp c in is_alpha c \<or> n = 170 \<or> n = 181 \<or> n = 186
     \<or> (192 \<le> n \<and> n \<noteq> 215 \<and> n \<noteq> 247))"

text \<open>
  \<open>s.title()\<close>. A letter whose upper case lies outside Latin-1 is left as it is.
\<close>

fun title_go :: "bool \<Rightarrow> string \<Rightarrow> string" where
  "title_go prev [] = []"
| "title_go prev (c # s) = (if prev then lower_char c else upper_char c) # title_go (is_cased c) s"

definition title :: "string \<Rightarrow> string" where
  "title s = title_go False s"

definition nl :: char where "nl = CHR 0x0A"
definition cr :: char where "cr = CHR 0x0D"

definition lower :: "string \<Rightarrow> string" where
  "lower s = map lower_char s"

definition rdrop_while :: "(char \<Rightarrow> bool) \<Rightarrow> string \<Rightarrow> string" where
  "rdrop_while P s = rev (dropWhile P (rev s))"

definition strip :: "string \<Rightarrow> string" where
  "strip s = rdrop_while is_space (dropWhile is_space s)"

definition strip_chars :: "char list \<Rightarrow> string \<Rightarrow> string" where
  "strip_chars cs s = rdrop_while (\<lambda>c. c \<in> set cs) (dropWhile (\<lambda>c. c \<in> set cs) s)"

definition rstrip_char :: "char \<Rightarrow> string \<Rightarrow> string" where
  "rstrip_char c s = rdrop_while (\<lambda>d. d = c) s"

definition starts_with :: "string \<Rightarrow> string \<Rightarrow> bool" where
  "starts_with p s = (take (length p) s = p)"

definition ends_with :: "string \<Rightarrow> string \<Rightarrow> bool" where
  "ends_with p s = starts_with (rev p) (rev s)"

definition replace_char :: "char \<Rightarrow> char \<Rightarrow> string \<Rightarrow> string" where
  "replace_char a b s = map (\<lambda>c. if c = a then b else c) s"

fun split_on :: "char \<Rightarrow> string \<Rightarrow> string list" where
  "split_on c [] = [[]]"
| "split_on c (x # xs) =
     (if x = c then [] # split_on c xs
      else (case split_on c xs of [] \<Rightarrow> [[x]] | y # ys \<Rightarrow> (x # y) # ys))"

text \<open>\<open>s.split(c, 1)\<close>: None when the separator does not occur.\<close>

definition split_once :: "char \<Rightarrow> string \<Rightarrow> (string \<times> string) option" where
  "split_once c s =
     (case dropWhile (\<lambda>d. d \<noteq> c) s of [] \<Rightarrow> None
      | _ # rest \<Rightarrow> Some (takeWhile (\<lambda>d. d \<noteq> c) s, rest))"

fun join :: "string \<Rightarrow> string list \<Rightarrow> string" where
  "join sep [] = []"
| "join sep [x] = x"
| "join sep (x # y # ys) = x @ sep @ join sep (y # ys)"

fun contains :: "string \<Rightarrow> string \<Rightarrow> bool" where
  "contains p [] = (p = [])"
| "contains p (x # xs) = (starts_with p (x # xs) \<or> contains p xs)"

fun after_first :: "string \<Rightarrow> string \<Rightarrow> string option" where
  "after_first p [] = (if p = [] then Some [] else None)"
| "after_first p (x # xs) =
     (if starts_with p (x # xs) then Some (drop (length p) (x # xs)) else after_first p xs)"

definition at_end :: "(string \<Rightarrow> bool) \<Rightarrow> string \<Rightarrow> bool" where
  "at_end P s = (P s \<or> (s \<noteq> [] \<and> last s = nl \<and> P (butlast s)))"

definition len_between :: "nat \<Rightarrow> nat \<Rightarrow> string \<Rightarrow> bool" where
  "len_between lo hi s = (lo \<le> length s \<and> length s \<le> hi)"

definition mem_chars :: "string \<Rightarrow> char \<Rightarrow> bool" where
  "mem_chars cs c = (c \<in> set cs)"

text \<open>
  \<open>cut p s\<close>: the text before and after the first \<open>p\<close> in \<open>s\<close>. \<open>search_at f s\<close> is \<^verbatim>\<open>re.search\<close>
  of a pattern whose match at a position is \<open>f\<close> of the rest of the text.
\<close>

fun cut :: "string \<Rightarrow> string \<Rightarrow> (string \<times> string) option" where
  "cut p [] = (if p = [] then Some ([], []) else None)"
| "cut p (c # s) =
     (if starts_with p (c # s) then Some ([], drop (length p) (c # s))
      else map_option (\<lambda>(a, b). (c # a, b)) (cut p s))"

fun search_at :: "(string \<Rightarrow> 'a option) \<Rightarrow> string \<Rightarrow> 'a option" where
  "search_at f [] = f []"
| "search_at f (c # s) = (case f (c # s) of Some v \<Rightarrow> Some v | None \<Rightarrow> search_at f s)"

lemma cut_SomeD: "cut p s = Some (a, b) \<Longrightarrow> s = a @ p @ b"
proof (induction p s arbitrary: a b rule: cut.induct)
  case (2 p c s)
  then show ?case by (auto simp: starts_with_def split: if_splits) (metis append_take_drop_id)+
qed (auto split: if_splits)


text \<open>
  \<open>s.splitlines()\<close> and \<open>s.split()\<close>; the first argument is the piece being read, reversed.
\<close>

definition line_break :: "char \<Rightarrow> bool" where
  "line_break c = (let n = cp c in (10 \<le> n \<and> n \<le> 13) \<or> (28 \<le> n \<and> n \<le> 30) \<or> n = 133)"

fun lines_go :: "string \<Rightarrow> string \<Rightarrow> string list" where
  "lines_go acc [] = (if acc = [] then [] else [rev acc])"
| "lines_go acc [c] = (if line_break c then [rev acc] else [rev (c # acc)])"
| "lines_go acc (c # d # s) =
     (if c = cr \<and> d = nl then rev acc # lines_go [] s
      else if line_break c then rev acc # lines_go [] (d # s)
      else lines_go (c # acc) (d # s))"

definition splitlines :: "string \<Rightarrow> string list" where
  "splitlines s = lines_go [] s"

fun words_go :: "string \<Rightarrow> string \<Rightarrow> string list" where
  "words_go acc [] = (if acc = [] then [] else [rev acc])"
| "words_go acc (c # s) =
     (if is_space c then (if acc = [] then [] else [rev acc]) @ words_go [] s
      else words_go (c # acc) s)"

definition words :: "string \<Rightarrow> string list" where
  "words s = words_go [] s"

text \<open>The non-empty pieces between separator characters; the first argument is as above.\<close>

fun pieces_go :: "(char \<Rightarrow> bool) \<Rightarrow> string \<Rightarrow> string \<Rightarrow> string list" where
  "pieces_go P acc [] = (if acc = [] then [] else [rev acc])"
| "pieces_go P acc (c # s) =
     (if P c then (if acc = [] then [] else [rev acc]) @ pieces_go P [] s
      else pieces_go P (c # acc) s)"

definition pieces :: "(char \<Rightarrow> bool) \<Rightarrow> string \<Rightarrow> string list" where
  "pieces P s = pieces_go P [] s"

subsection \<open>Decimal numerals\<close>

definition digit_char :: "nat \<Rightarrow> char" where
  "digit_char d = char_of (48 + d)"

fun nat_str :: "nat \<Rightarrow> string" where
  "nat_str n = (if n < 10 then [digit_char n] else nat_str (n div 10) @ [digit_char (n mod 10)])"

declare nat_str.simps [simp del]

definition int_str :: "int \<Rightarrow> string" where
  "int_str i = (if i < 0 then CHR ''-'' # nat_str (nat (- i)) else nat_str (nat i))"

definition digit_val :: "char \<Rightarrow> nat" where
  "digit_val c = cp c - 48"

definition digits_val :: "string \<Rightarrow> nat" where
  "digits_val s = foldl (\<lambda>n c. 10 * n + digit_val c) 0 s"

text \<open>
  The digits of \<open>int(text)\<close>: at least one digit, single underscores allowed between digits.
\<close>

fun int_digits :: "string \<Rightarrow> string option" where
  "int_digits [] = None"
| "int_digits [c] = (if is_digit c then Some [c] else None)"
| "int_digits (c # d # rest) =
     (if \<not> is_digit c then None
      else if d = CHR ''_'' then map_option ((#) c) (int_digits rest)
      else map_option ((#) c) (int_digits (d # rest)))"

definition int_of :: "string \<Rightarrow> int option" where
  "int_of s =
     (case strip s of
        [] \<Rightarrow> None
      | c # rest \<Rightarrow>
          if c = CHR ''-'' then map_option (\<lambda>ds. - int (digits_val ds)) (int_digits rest)
          else if c = CHR ''+'' then map_option (\<lambda>ds. int (digits_val ds)) (int_digits rest)
          else map_option (\<lambda>ds. int (digits_val ds)) (int_digits (c # rest)))"

text \<open>\<open>str.isdigit\<close> on Latin-1: the ASCII digits and the three superscripts.\<close>

definition all_digits :: "string \<Rightarrow> bool" where
  "all_digits s = (s \<noteq> [] \<and> list_all (\<lambda>c. is_digit c \<or> cp c = 178 \<or> cp c = 179 \<or> cp c = 185) s)"

subsection \<open>Facts\<close>

lemma cp_nl [simp]: "cp nl = 10" by (simp add: cp_def nl_def)

lemma cp_inject [simp]: "cp c = cp d \<longleftrightarrow> c = d"
  by (simp add: cp_def)

lemma cp_bound [simp]: "cp c < 256"
  by (simp add: cp_def)

lemma nl_is_space [simp]: "is_space nl"
  by (simp add: is_space_def)

lemma length_lower [simp]: "length (lower s) = length s"
  by (simp add: lower_def)

lemma lower_Nil_iff [simp]: "lower s = [] \<longleftrightarrow> s = []"
  by (simp add: lower_def)

lemma cp_char_of: "n < 256 \<Longrightarrow> cp (char_of n) = n"
  by (simp add: cp_def char_of_nat of_char_of)

lemma lower_char_upper_cp:
  "(65 \<le> cp c \<and> cp c \<le> 90) \<or> (192 \<le> cp c \<and> cp c \<le> 222 \<and> cp c \<noteq> 215) \<Longrightarrow>
     cp (lower_char c) = cp c + 32"
  by (auto simp: lower_char_def Let_def intro!: cp_char_of)

lemma lower_char_nl [simp]: "lower_char c = nl \<longleftrightarrow> c = nl"
proof (cases "(65 \<le> cp c \<and> cp c \<le> 90) \<or> (192 \<le> cp c \<and> cp c \<le> 222 \<and> cp c \<noteq> 215)")
  case True
  then have "cp (lower_char c) \<noteq> cp nl" "cp c \<noteq> cp nl" using lower_char_upper_cp by auto
  then show ?thesis by (metis cp_inject)
qed (auto simp: lower_char_def Let_def)

lemma nl_not_ascii [simp]:
  "nl \<noteq> CHR ''.''" "nl \<noteq> CHR '',''" "nl \<noteq> CHR '':''" "nl \<noteq> CHR ''=''" "nl \<noteq> CHR '' ''"
  "nl \<noteq> CHR ''-''" "nl \<noteq> CHR ''_''" "nl \<noteq> CHR ''@''"
  by (simp_all add: nl_def)

lemma nl_lower [simp]: "nl \<in> set (lower s) \<longleftrightarrow> nl \<in> set s"
  by (auto simp: lower_def image_iff eq_commute [of nl])

lemma lower_char_idem [simp]: "lower_char (lower_char c) = lower_char c"
proof -
  have "(65 \<le> cp c \<and> cp c \<le> 90) \<or> (192 \<le> cp c \<and> cp c \<le> 222 \<and> cp c \<noteq> 215) \<Longrightarrow>
      cp (char_of (cp c + 32)) = cp c + 32"
    by (intro cp_char_of) auto
  then show ?thesis by (auto simp: lower_char_def Let_def)
qed

lemma lower_idem [simp]: "lower (lower s) = lower s"
  by (simp add: lower_def)

lemma set_rdrop_while: "set (rdrop_while P s) \<subseteq> set s"
  by (auto simp: rdrop_while_def dest: set_dropWhileD)

lemma set_strip: "set (strip s) \<subseteq> set s"
  unfolding strip_def using set_rdrop_while [of is_space] by (auto dest: set_dropWhileD)

lemma length_rdrop_while: "length (rdrop_while P s) \<le> length s"
  using length_dropWhile_le [of P "rev s"] by (simp add: rdrop_while_def)

lemma length_strip: "length (strip s) \<le> length s"
  unfolding strip_def
  by (rule order_trans [OF length_rdrop_while length_dropWhile_le])

lemma dropWhile_hd: "s \<noteq> [] \<Longrightarrow> \<not> P (hd s) \<Longrightarrow> dropWhile P s = s"
  by (cases s) auto

lemma rdrop_while_last: "s \<noteq> [] \<Longrightarrow> \<not> P (last s) \<Longrightarrow> rdrop_while P s = s"
  by (simp add: rdrop_while_def dropWhile_hd hd_rev)

lemma strip_fixed:
  "s \<noteq> [] \<Longrightarrow> \<not> is_space (hd s) \<Longrightarrow> \<not> is_space (last s) \<Longrightarrow> strip s = s"
  by (simp add: strip_def dropWhile_hd rdrop_while_last)

lemma rstrip_char_fixed: "s \<noteq> [] \<Longrightarrow> last s \<noteq> c \<Longrightarrow> rstrip_char c s = s"
  by (simp add: rstrip_char_def rdrop_while_last)

lemma split_on_not_Nil [simp]: "split_on c s \<noteq> []"
  by (induction s) (auto split: list.splits)

lemma split_on_no_sep: "c \<notin> set s \<Longrightarrow> split_on c s = [s]"
  by (induction s) auto

lemma split_on_append_sep: "c \<notin> set a \<Longrightarrow> split_on c (a @ c # b) = a # split_on c b"
  by (induction a) auto

lemma split_on_pieces: "p \<in> set (split_on c s) \<Longrightarrow> c \<notin> set p"
  by (induction s arbitrary: p) (auto split: list.splits if_splits)

lemma split_on_set: "p \<in> set (split_on c s) \<Longrightarrow> set p \<subseteq> set s"
proof (induction s arbitrary: p)
  case (Cons x xs)
  then show ?case by (cases "split_on c xs") (fastforce split: if_splits)+
qed simp

lemma join_split_on: "join [c] (split_on c s) = s"
proof (induction s)
  case (Cons x xs)
  then show ?case by (cases "split_on c xs"; cases "tl (split_on c xs)") auto
qed simp

lemma split_on_join:
  "xs \<noteq> [] \<Longrightarrow> \<forall>x\<in>set xs. c \<notin> set x \<Longrightarrow> split_on c (join [c] xs) = xs"
  by (induction "[c]" xs rule: join.induct) (auto simp: split_on_no_sep split_on_append_sep)

lemma split_once_append: "c \<notin> set a \<Longrightarrow> split_once c (a @ c # b) = Some (a, b)"
proof -
  assume "c \<notin> set a"
  then have "dropWhile (\<lambda>d. d \<noteq> c) (a @ c # b) = c # b" "takeWhile (\<lambda>d. d \<noteq> c) (a @ c # b) = a"
    by (induction a) auto
  then show ?thesis by (simp add: split_once_def)
qed

lemma starts_with_append [simp]: "starts_with p (p @ s)"
  by (simp add: starts_with_def)

lemma starts_with_iff: "starts_with p s \<longleftrightarrow> (\<exists>t. s = p @ t)"
  unfolding starts_with_def by (metis append_eq_conv_conj append_take_drop_id)

lemma starts_with_Cons [simp]: "starts_with (a # p) (b # s) \<longleftrightarrow> a = b \<and> starts_with p s"
  by (auto simp: starts_with_def)

lemma starts_with_Nil [simp]: "starts_with [] s" "starts_with (a # p) [] = False"
  by (simp_all add: starts_with_def)

lemma pieces_go_props:
  "(\<And>c. c \<in> set acc \<Longrightarrow> \<not> P c) \<Longrightarrow> p \<in> set (pieces_go P acc s) \<Longrightarrow>
     p \<noteq> [] \<and> (\<forall>c\<in>set p. \<not> P c \<and> c \<in> set acc \<union> set s)"
proof (induction P acc s rule: pieces_go.induct)
  case (2 P acc c s)
  then show ?case by (cases "P c") (fastforce split: if_splits)+
qed (auto split: if_splits)

lemma pieces_go_no_sep:
  "(\<And>c. c \<in> set a \<Longrightarrow> \<not> P c) \<Longrightarrow> pieces_go P acc (a @ s) = pieces_go P (rev a @ acc) s"
  by (induction a arbitrary: acc) auto

lemma pieces_join:
  assumes "\<And>x. x \<in> set xs \<Longrightarrow> x \<noteq> [] \<and> (\<forall>c\<in>set x. \<not> P c)" "P sep"
  shows "pieces P (join [sep] xs) = xs"
  using assms
proof (induction "[sep]" xs rule: join.induct)
  case (2 x)
  then have "pieces_go P [] (x @ []) = pieces_go P (rev x @ []) []" by (intro pieces_go_no_sep) auto
  with 2 show ?case by (simp add: pieces_def)
next
  case (3 x y ys)
  then have "pieces_go P [] (x @ [sep] @ join [sep] (y # ys)) = pieces_go P (rev x @ []) ([sep] @ join [sep] (y # ys))"
    by (intro pieces_go_no_sep) auto
  moreover have "pieces_go P [] (join [sep] (y # ys)) = y # ys"
    using 3 unfolding pieces_def by (metis list.set_intros(2))
  ultimately show ?case using 3(2) [of x] \<open>P sep\<close> by (simp add: pieces_def)
qed (simp add: pieces_def)

lemma nat_str_not_Nil [simp]: "nat_str n \<noteq> []"
  by (subst nat_str.simps) simp

lemma is_digit_digit_char: "d < 10 \<Longrightarrow> is_digit (digit_char d)"
  by (simp add: is_digit_def digit_char_def cp_char_of)

lemma digit_val_digit_char: "d < 10 \<Longrightarrow> digit_val (digit_char d) = d"
  by (simp add: digit_val_def digit_char_def cp_char_of)

lemma nat_str_digits: "list_all is_digit (nat_str n)"
proof (induction n rule: nat_str.induct)
  case (1 n)
  then show ?case
    by (cases "n < 10") (subst nat_str.simps, simp add: is_digit_digit_char)+
qed

lemma digits_val_snoc: "digits_val (s @ [c]) = 10 * digits_val s + digit_val c"
  by (simp add: digits_val_def)

lemma digits_val_nat_str [simp]: "digits_val (nat_str n) = n"
proof (induction n rule: nat_str.induct)
  case (1 n)
  show ?case
  proof (cases "n < 10")
    case True
    then show ?thesis
      by (subst nat_str.simps) (simp add: digits_val_def digit_val_digit_char)
  next
    case False
    with 1 have "digits_val (nat_str (n div 10)) = n div 10" by simp
    with False show ?thesis
      by (subst nat_str.simps) (simp add: digits_val_snoc digit_val_digit_char)
  qed
qed

lemma is_digit_not_space: "is_digit c \<Longrightarrow> \<not> is_space c \<and> c \<noteq> CHR ''-'' \<and> c \<noteq> CHR ''+'' \<and> c \<noteq> CHR ''_''"
  by (auto simp: is_digit_def is_space_def Let_def cp_def)

lemma int_digits_digits: "s \<noteq> [] \<Longrightarrow> list_all is_digit s \<Longrightarrow> int_digits s = Some s"
  by (induction s rule: int_digits.induct) (auto dest: is_digit_not_space)

lemma nat_str_inject [simp]: "nat_str m = nat_str n \<longleftrightarrow> m = n"
  by (metis digits_val_nat_str)

lemma int_of_nat_str [simp]: "int_of (nat_str n) = Some (int n)"
proof -
  have d: "list_all is_digit (nat_str n)" by (rule nat_str_digits)
  obtain c r where c: "nat_str n = c # r" by (cases "nat_str n") auto
  have "last (nat_str n) \<in> set (nat_str n)" by simp
  with d have "is_digit (last (nat_str n))" "is_digit c" by (auto simp: list_all_iff c)
  then have "strip (nat_str n) = nat_str n" using c is_digit_not_space by (intro strip_fixed) auto
  moreover have "int_digits (nat_str n) = Some (nat_str n)" using d by (intro int_digits_digits) simp_all
  moreover have "digits_val (c # r) = n" using digits_val_nat_str [of n] by (simp only: c)
  ultimately show ?thesis
    using \<open>is_digit c\<close> is_digit_not_space [of c] by (simp only: int_of_def c) simp
qed

lemma at_end_no_nl: "nl \<notin> set s \<Longrightarrow> at_end P s = P s"
  by (auto simp: at_end_def dest: last_in_set)

subsection \<open>Code equations on binary integers\<close>

text \<open>
  The character classes compare code points; these equations do it on \<open>int\<close>, whose
  numerals are binary, so that closed terms evaluate quickly in the kernel. Lowering an
  upper-case letter sets bit 5.
\<close>

definition cpi :: "char \<Rightarrow> int" where
  "cpi c = of_char c"

lemma cpi_cp: "cpi c = int (cp c)"
  by (simp add: cpi_def cp_def of_nat_of_char)

lemma is_space_code [code]:
  "is_space c = (let n = cpi c in (9 \<le> n \<and> n \<le> 13) \<or> (28 \<le> n \<and> n \<le> 32) \<or> n = 133 \<or> n = 160)"
  by (auto simp: is_space_def cpi_cp Let_def)

lemma is_lower_code [code]: "is_lower c = (let n = cpi c in 97 \<le> n \<and> n \<le> 122)"
  by (auto simp: is_lower_def cpi_cp Let_def)

lemma is_upper_code [code]: "is_upper c = (let n = cpi c in 65 \<le> n \<and> n \<le> 90)"
  by (auto simp: is_upper_def cpi_cp Let_def)

lemma is_digit_code [code]: "is_digit c = (let n = cpi c in 48 \<le> n \<and> n \<le> 57)"
  by (auto simp: is_digit_def cpi_cp Let_def)

lemma line_break_code [code]:
  "line_break c = (let n = cpi c in (10 \<le> n \<and> n \<le> 13) \<or> (28 \<le> n \<and> n \<le> 30) \<or> n = 133)"
  by (simp add: line_break_def Let_def cpi_cp)

lemma lower_char_code [code]:
  "lower_char (Char b0 b1 b2 b3 b4 b5 b6 b7) =
     (let c = Char b0 b1 b2 b3 b4 b5 b6 b7; n = cpi c in
      if (65 \<le> n \<and> n \<le> 90) \<or> (192 \<le> n \<and> n \<le> 222 \<and> n \<noteq> 215)
      then Char b0 b1 b2 b3 b4 True b6 b7 else c)"
proof -
  let ?c = "Char b0 b1 b2 b3 b4 b5 b6 b7"
  let ?U = "(65 \<le> cp ?c \<and> cp ?c \<le> 90) \<or> (192 \<le> cp ?c \<and> cp ?c \<le> 222 \<and> cp ?c \<noteq> 215)"
  have "?U \<Longrightarrow> \<not> b5"
    by (cases b0; cases b1; cases b2; cases b3; cases b4; cases b5; cases b6; cases b7; simp add: cp_def)
  then have "?U \<Longrightarrow> cp (lower_char ?c) = cp (Char b0 b1 b2 b3 b4 True b6 b7)"
    by (subst lower_char_upper_cp) (auto simp: cp_def)
  then show ?thesis unfolding cp_inject by (auto simp: cpi_cp lower_char_def Let_def)
qed

end
