(* ===== verification/Runtime.thy ===== *)
theory Runtime
  imports PyText
begin

text \<open>
  What the program runs on: JSON values with Python's truth value and accessors, the errors
  a handler can raise, HTTP responses, and the record of everything outside the repository
  that the code calls (the process environment, files, \<open>openssl\<close>, the root helper, random
  tokens, password hashing, outgoing HTTP). Numbers are integers: clock readings are whole
  seconds, and JSON numbers with a fraction are outside the model.
\<close>

subsection \<open>JSON\<close>

datatype json = JNull | JBool bool | JInt int | JStr string | JArr "json list"
  | JObj "(string \<times> json) list"

fun truthy :: "json \<Rightarrow> bool" where
  "truthy JNull = False"
| "truthy (JBool b) = b"
| "truthy (JInt i) = (i \<noteq> 0)"
| "truthy (JStr s) = (s \<noteq> [])"
| "truthy (JArr xs) = (xs \<noteq> [])"
| "truthy (JObj kvs) = (kvs \<noteq> [])"

datatype py_error = AttributeError | TypeError | ValueError | IntegrityError | PyError string

fun err_name :: "py_error \<Rightarrow> string" where
  "err_name AttributeError = ''AttributeError''"
| "err_name TypeError = ''TypeError''"
| "err_name ValueError = ''ValueError''"
| "err_name IntegrityError = ''IntegrityError''"
| "err_name (PyError s) = s"

type_synonym 'a result = "py_error + 'a"

text \<open>\<open>payload.get(k)\<close>, with \<open>None\<close> for a missing key as for JSON null, and \<open>k in payload\<close>.\<close>

fun jget :: "string \<Rightarrow> json \<Rightarrow> json" where
  "jget k (JObj kvs) = (case map_of kvs k of None \<Rightarrow> JNull | Some v \<Rightarrow> v)"
| "jget k _ = JNull"

fun jhas :: "string \<Rightarrow> json \<Rightarrow> bool" where
  "jhas k (JObj kvs) = (map_of kvs k \<noteq> None)"
| "jhas k _ = False"

text \<open>
  \<open>request.get_json(silent=True) or {}\<close> followed by \<open>.get\<close>: an unparseable or falsy body
  is the empty object, any other non-object has no \<open>get\<close>.
\<close>

definition payload_of :: "json option \<Rightarrow> json result" where
  "payload_of b =
     (case b of None \<Rightarrow> Inr (JObj [])
      | Some j \<Rightarrow> if \<not> truthy j then Inr (JObj [])
                 else case j of JObj kvs \<Rightarrow> Inr j | _ \<Rightarrow> Inl AttributeError)"

text \<open>\<open>(payload.get(k) or "")\<close> where a string method follows.\<close>

definition str_or_empty :: "json \<Rightarrow> string result" where
  "str_or_empty j = (if \<not> truthy j then Inr [] else case j of JStr s \<Rightarrow> Inr s | _ \<Rightarrow> Inl AttributeError)"

text \<open>\<open>int(x)\<close> of a JSON value.\<close>

definition int_of_json :: "json \<Rightarrow> int result" where
  "int_of_json j =
     (case j of
        JInt i \<Rightarrow> Inr i
      | JBool b \<Rightarrow> Inr (if b then 1 else 0)
      | JStr s \<Rightarrow> (case int_of s of None \<Rightarrow> Inl ValueError | Some i \<Rightarrow> Inr i)
      | _ \<Rightarrow> Inl TypeError)"

definition jopt :: "string option \<Rightarrow> json" where
  "jopt s = (case s of None \<Rightarrow> JNull | Some v \<Rightarrow> JStr v)"

definition jint_opt :: "int option \<Rightarrow> json" where
  "jint_opt i = (case i of None \<Rightarrow> JNull | Some v \<Rightarrow> JInt v)"

definition strs :: "string list \<Rightarrow> json" where
  "strs xs = JArr (map JStr xs)"

fun or_empty :: "string option \<Rightarrow> string" where
  "or_empty None = []"
| "or_empty (Some s) = s"

definition set_opt :: "string option \<Rightarrow> bool" where
  "set_opt s = (or_empty s \<noteq> [])"

subsection \<open>Responses\<close>

record response =
  status_code :: nat
  body :: json
  cookies :: "(string \<times> string) list"
  content :: "string option"

definition reply :: "nat \<Rightarrow> json \<Rightarrow> response" where
  "reply n j = \<lparr>status_code = n, body = j, cookies = [], content = None\<rparr>"

definition ok_reply :: "(string \<times> json) list \<Rightarrow> response" where
  "ok_reply kvs = reply 200 (JObj kvs)"

definition error_reply :: "nat \<Rightarrow> string \<Rightarrow> response" where
  "error_reply n msg = reply n (JObj [(''error'', JStr msg)])"

definition content_reply :: "string \<Rightarrow> response" where
  "content_reply c = \<lparr>status_code = 200, body = JNull, cookies = [], content = Some c\<rparr>"

lemma status_code_replies [simp]:
  "status_code (reply n j) = n" "status_code (ok_reply kvs) = 200"
  "status_code (error_reply n msg) = n" "status_code (content_reply c) = 200"
  by (simp_all add: reply_def ok_reply_def error_reply_def content_reply_def)

lemma content_replies [simp]:
  "content (reply n j) = None" "content (ok_reply kvs) = None"
  "content (error_reply n msg) = None" "content (content_reply c) = Some c"
  by (simp_all add: reply_def ok_reply_def error_reply_def content_reply_def)

lemma body_replies [simp]:
  "body (reply n j) = j" "body (ok_reply kvs) = JObj kvs"
  "body (error_reply n msg) = JObj [(''error'', JStr msg)]" "body (content_reply c) = JNull"
  by (simp_all add: reply_def ok_reply_def error_reply_def content_reply_def)

subsection \<open>The outside world\<close>

text \<open>
  \<open>openssl args input\<close> is the exit code, standard output and standard error of a run, or
  None when the call itself raises (a missing binary, a timeout). The root helper and the
  services reached over HTTP act on a host state of their own, a type parameter of the
  model. \<open>rand n\<close> is the n-th token drawn from the random source, \<open>choice\<close> picks a character of a text with it. \<open>http\<close> is a request: method, URL,
  token, body, answered by a body, an error status with its text, or a transport error.
  \<open>other_ca\<close> signs for a backend other than OpenBao: an error text, or certificate and chain.
  \<open>post_hook\<close> posts a JSON text with headers to a webhook: a success status, an HTTP error with its
  reason, a URL error, or another exception (its type and text). \<open>sha256\<close> and \<open>hmac_sha256\<close> (key, text)
  are the hexadecimal digests of byte strings.
  \<open>http_description\<close> is the framework's text for a status code. \<open>send_mail\<close> is the answer of a
  notification (its kind, its data): sent or not with a reason, or the text of an exception.
  \<open>issued_error\<close> is the exception of a write to the directory of issued certificates, if it fails.
\<close>

type_synonym openssl = "string list \<Rightarrow> string \<Rightarrow> (int \<times> string \<times> string) option"

datatype post_result = Posted int | PostStatus int string | PostUrlError string | PostBroken string string

datatype http_result = HttpOk string | HttpStatus nat string | HttpUnreachable string | HttpBroken string

record build =
  EDITION :: string
  RELEASE_BUILD :: bool

record 'h env =
  environ :: "string \<Rightarrow> string option"
  read_file :: "string \<Rightarrow> string option"
  stamp :: build
  openssl :: openssl
  helper :: "string list \<Rightarrow> string \<Rightarrow> 'h \<Rightarrow> (int \<times> string \<times> string) \<times> 'h"
  rand :: "nat \<Rightarrow> string"
  choice :: "string \<Rightarrow> nat \<Rightarrow> char"
  json_loads :: "string \<Rightarrow> json option"
  json_dumps :: "json \<Rightarrow> string"
  py_repr :: "json \<Rightarrow> string"
  verify_sig :: "string \<Rightarrow> string \<Rightarrow> string \<Rightarrow> string + bool"
  pbkdf2 :: "string \<Rightarrow> string \<Rightarrow> int \<Rightarrow> string"
  http :: "string \<Rightarrow> string \<Rightarrow> string option \<Rightarrow> string option \<Rightarrow> 'h \<Rightarrow> http_result \<times> 'h"
  other_ca :: "string \<Rightarrow> string \<Rightarrow> 'h \<Rightarrow> (string + string \<times> string) \<times> 'h"
  post_hook :: "string \<Rightarrow> string \<Rightarrow> (string \<times> string) list \<Rightarrow> 'h \<Rightarrow> post_result \<times> 'h"
  sha256 :: "string \<Rightarrow> string"
  hmac_sha256 :: "string \<Rightarrow> string \<Rightarrow> string"
  hostname :: string
  http_description :: "nat \<Rightarrow> string"
  send_mail :: "string \<Rightarrow> (string \<times> json) list \<Rightarrow> string + bool \<times> string"
  svc_active :: "string \<Rightarrow> bool"
  egress_probe :: bool
  BOOTSTRAP_FIRST_ADMIN :: bool
  CONTAINER_MODE :: bool
  IS_POSTGRES :: bool
  issued_error :: "string option"
  SESSION_TTL :: int
  MAX_CSR_BYTES :: nat
  MAX_CERT_BYTES :: nat
  MAX_CERTLIST_BYTES :: nat

text \<open>\<open>str(x)\<close>: lists and objects print as Python's \<open>repr\<close>, a field of \<open>env\<close>.\<close>

fun str_of :: "'h env \<Rightarrow> json \<Rightarrow> string" where
  "str_of e (JStr s) = s"
| "str_of e (JInt i) = int_str i"
| "str_of e (JBool b) = (if b then ''True'' else ''False'')"
| "str_of e JNull = ''None''"
| "str_of e (JArr xs) = py_repr e (JArr xs)"
| "str_of e (JObj kvs) = py_repr e (JObj kvs)"

text \<open>\<^verbatim>\<open>envcompat.getenv\<close>: the canonical name only, then the default.\<close>

definition candidates :: "string \<Rightarrow> string list" where
  "candidates name = [name]"

definition getenv :: "'h env \<Rightarrow> string \<Rightarrow> string \<Rightarrow> string" where
  "getenv e name default_value = (case environ e name of None \<Rightarrow> default_value | Some v \<Rightarrow> v)"

text \<open>
  A concrete outside world, for the closed instances of theorems about \<open>env\<close>: a helper and
  an \<open>openssl\<close> that succeed without output, hashing by concatenation, no environment.
\<close>

definition quiet_env :: "'h env" where
  "quiet_env =
    \<lparr>environ = (\<lambda>n. None), read_file = (\<lambda>p. None),
     stamp = \<lparr>EDITION = ''community'', RELEASE_BUILD = False\<rparr>,
     openssl = (\<lambda>args i. Some (0, [], [])), helper = (\<lambda>args i h. ((0, [], []), h)),
     rand = (\<lambda>n. ''tok'' @ nat_str n), choice = (\<lambda>pool n. pool ! (n mod length pool)), json_loads = (\<lambda>s. Some (JObj [])), json_dumps = (\<lambda>j. ''{}''),
     py_repr = (\<lambda>j. ''{}''), verify_sig = (\<lambda>k s m. Inr True),
     pbkdf2 = (\<lambda>pw salt n. pw @ salt), http = (\<lambda>m u t b h. (HttpUnreachable ''offline'', h)),
     other_ca = (\<lambda>b c h. (Inl ''offline'', h)), post_hook = (\<lambda>u b k h. (Posted 200, h)),
     sha256 = (\<lambda>s. ''00''), hmac_sha256 = (\<lambda>k s. k @ s), hostname = ''host'',
     http_description = (\<lambda>n. ''error''), send_mail = (\<lambda>k d. Inr (True, ''sent'')),
     svc_active = (\<lambda>u. False), egress_probe = False, BOOTSTRAP_FIRST_ADMIN = False,
     CONTAINER_MODE = False, IS_POSTGRES = False, issued_error = None, SESSION_TTL = 28800, MAX_CSR_BYTES = 65536, MAX_CERT_BYTES = 65536,
     MAX_CERTLIST_BYTES = 1048576\<rparr>"

abbreviation sample_env :: "unit env" where
  "sample_env \<equiv> quiet_env"

lemmas sample_env_def = quiet_env_def

end
