(* ===== verification/Domains.thy ===== *)
theory Domains
  imports Runtime
begin

text \<open>
  \<^verbatim>\<open>backend/domains.py\<close>: registrable domains (eTLD+1) of host names, the domains a
  CSR names, and the signing quota over them. \<open>openssl\<close> is a parameter of the model (see
  \<open>Runtime\<close>).
\<close>

definition multi_suffixes :: "string list" where
  "multi_suffixes =
    [''co.uk'', ''org.uk'', ''gov.uk'', ''ac.uk'', ''ltd.uk'', ''plc.uk'', ''me.uk'', ''net.uk'',
     ''com.au'', ''net.au'', ''org.au'', ''edu.au'', ''gov.au'', ''id.au'',
     ''co.nz'', ''net.nz'', ''org.nz'', ''govt.nz'',
     ''co.jp'', ''or.jp'', ''ne.jp'', ''go.jp'', ''ac.jp'',
     ''co.za'', ''org.za'', ''gov.za'',
     ''com.br'', ''net.br'', ''gov.br'', ''org.br'',
     ''com.mx'', ''gob.mx'', ''com.sg'', ''com.hk'', ''com.cn'', ''net.cn'', ''gov.cn'',
     ''co.in'', ''net.in'', ''org.in'', ''gov.in'', ''co.kr'', ''or.kr'']"

text \<open>\<^verbatim>\<open>_LABEL = ^[a-z0-9_-]+$\<close>\<close>

definition label_char :: "char \<Rightarrow> bool" where
  "label_char c = (is_lower c \<or> is_digit c \<or> c = CHR ''_'' \<or> c = CHR ''-'')"

definition label_re :: "string \<Rightarrow> bool" where
  "label_re = at_end (\<lambda>s. s \<noteq> [] \<and> list_all label_char s)"

definition ipv4_re :: "string \<Rightarrow> bool" where
  "ipv4_re = at_end (\<lambda>s. let gs = split_on (CHR ''.'') s in
     length gs = 4 \<and> list_all (\<lambda>g. g \<noteq> [] \<and> list_all is_digit g) gs)"

definition registrable_domain :: "string option \<Rightarrow> string" where
  "registrable_domain host =
     (let h0 = lower (rstrip_char (CHR ''.'') (strip (case host of None \<Rightarrow> [] | Some s \<Rightarrow> s)));
          h = (if starts_with ''*.'' h0 then drop 2 h0 else h0) in
      if h = [] \<or> CHR '':'' \<in> set h \<or> starts_with ''['' h then []
      else if ipv4_re h then []
      else let labels = split_on (CHR ''.'') h; n = length labels in
        if n < 2 \<or> list_ex (\<lambda>l. \<not> label_re l) labels then []
        else let last2 = join ''.'' (drop (n - 2) labels) in
          if last2 \<in> set multi_suffixes \<and> 3 \<le> n then join ''.'' (drop (n - 3) labels)
          else last2)"

text \<open>
  \<^verbatim>\<open>re.search(r"Subject:.*?CN\s*=\s*([^,/\n]+)", out)\<close>, its group stripped. The dot does
  not cross a line end; \<open>\s*\<close> before the group is greedy and gives whitespace back when
  the group would be empty, in which case the stripped group is empty.
\<close>

definition cn_group_char :: "char \<Rightarrow> bool" where
  "cn_group_char c = (c \<noteq> CHR '','' \<and> c \<noteq> CHR ''/'' \<and> c \<noteq> nl)"

definition cn_value_at :: "string \<Rightarrow> string option" where
  "cn_value_at s =
     (if \<not> starts_with ''CN'' s then None
      else case dropWhile is_space (drop 2 s) of
        [] \<Rightarrow> None
      | c # rest \<Rightarrow>
          if c \<noteq> CHR ''='' then None
          else let body = dropWhile is_space rest; ws = takeWhile is_space rest;
                   g = takeWhile cn_group_char body in
            if g \<noteq> [] then Some (strip g)
            else if list_ex cn_group_char ws then Some [] else None)"

fun cn_on_line :: "string \<Rightarrow> string option" where
  "cn_on_line [] = None"
| "cn_on_line (c # s) =
     (case cn_value_at (c # s) of
        Some v \<Rightarrow> Some v
      | None \<Rightarrow> if c = nl then None else cn_on_line s)"

fun search_subject_cn :: "string \<Rightarrow> string option" where
  "search_subject_cn [] = None"
| "search_subject_cn (c # s) =
     (case (if starts_with ''Subject:'' (c # s) then cn_on_line (drop 8 (c # s)) else None) of
        Some v \<Rightarrow> Some v
      | None \<Rightarrow> search_subject_cn s)"

text \<open>\<^verbatim>\<open>re.findall(r"DNS:([^,\s]+)", out)\<close>; \<open>skip\<close> counts the characters of the last match.\<close>

definition dns_char :: "char \<Rightarrow> bool" where
  "dns_char c = (c \<noteq> CHR '','' \<and> \<not> is_space c)"

fun find_dns :: "nat \<Rightarrow> string \<Rightarrow> string list" where
  "find_dns skip [] = []"
| "find_dns (Suc k) (c # s) = find_dns k s"
| "find_dns 0 (c # s) =
     (if starts_with ''DNS:'' (c # s) then
        (let g = takeWhile dns_char (drop 4 (c # s)) in
         if g = [] then find_dns 0 s else g # find_dns (3 + length g) s)
      else find_dns 0 s)"

definition csr_domains :: "openssl \<Rightarrow> string \<Rightarrow> string set" where
  "csr_domains ossl csr_pem =
     (case ossl [''req'', ''-noout'', ''-text''] csr_pem of
        None \<Rightarrow> {}
      | Some (rc, out, _) \<Rightarrow>
          if rc \<noteq> 0 then {}
          else
            let cn = (case search_subject_cn out of None \<Rightarrow> [] | Some v \<Rightarrow> [v]);
                names = set (cn @ map strip (find_dns 0 out))
            in Set.filter (\<lambda>d. d \<noteq> []) ((\<lambda>n. registrable_domain (Some n)) ` names))"

definition over_quota :: "string set \<Rightarrow> string set \<Rightarrow> int \<Rightarrow> bool \<times> string set \<times> string set" where
  "over_quota new_domains current_domains cap =
     (let new = Set.filter (\<lambda>d. d \<noteq> []) new_domains;
          would_be = current_domains \<union> new in
      if cap = 0 \<or> new \<subseteq> current_domains \<or> int (card would_be) \<le> cap
      then (False, would_be, {}) else (True, would_be, new - current_domains))"

subsection \<open>Registrable domains\<close>

lemma label_re_no_nl: "nl \<notin> set s \<Longrightarrow> label_re s \<longleftrightarrow> s \<noteq> [] \<and> list_all label_char s"
  by (simp add: label_re_def at_end_no_nl)

lemma label_char_simps:
  "label_char c \<Longrightarrow> \<not> is_space c" "label_char c \<Longrightarrow> lower_char c = c"
  "label_char c \<Longrightarrow> c \<noteq> CHR ''.''" "label_char c \<Longrightarrow> c \<noteq> CHR '':''"
  "label_char c \<Longrightarrow> c \<noteq> CHR ''['' \<and> c \<noteq> CHR ''*''"
  by (auto simp: label_char_def is_lower_def is_digit_def is_space_def lower_char_def Let_def cp_def)

text \<open>What a non-empty result looks like: two or three labels of the host, joined by dots.\<close>

definition domain_labels :: "string list \<Rightarrow> bool" where
  "domain_labels ls \<longleftrightarrow>
     (length ls = 2 \<or> length ls = 3 \<and> join ''.'' (drop 1 ls) \<in> set multi_suffixes) \<and>
     list_all (\<lambda>l. l \<noteq> [] \<and> list_all label_char l) ls"

lemma domain_labels_cases:
  assumes "domain_labels ls"
  obtains a b where "ls = [a, b]" | a b c where "ls = [a, b, c]"
  using assms by (auto simp: domain_labels_def length_Suc_conv numeral_eq_Suc)

lemma join_labels_chars:
  assumes "domain_labels ls" "c \<in> set (join ''.'' ls)"
  shows "label_char c \<or> c = CHR ''.''"
  using assms(1)
proof (cases rule: domain_labels_cases)
  case (1 a b) with assms show ?thesis by (auto simp: domain_labels_def list_all_iff)
next
  case (2 a b d) with assms show ?thesis by (auto simp: domain_labels_def list_all_iff)
qed

lemma join_labels_ends:
  assumes "domain_labels ls"
  shows "join ''.'' ls \<noteq> [] \<and> label_char (hd (join ''.'' ls)) \<and> label_char (last (join ''.'' ls))"
  using assms
proof (cases rule: domain_labels_cases)
  case (1 a b)
  with assms show ?thesis by (cases a) (auto simp: domain_labels_def list_all_iff)
next
  case (2 a b d)
  with assms show ?thesis by (cases a) (auto simp: domain_labels_def list_all_iff)
qed

lemma split_join_labels:
  assumes "domain_labels ls"
  shows "split_on (CHR ''.'') (join ''.'' ls) = ls"
proof (rule split_on_join)
  show "ls \<noteq> []" using assms by (auto simp: domain_labels_def)
  show "\<forall>x\<in>set ls. CHR ''.'' \<notin> set x"
    using assms label_char_simps(3) by (auto simp: domain_labels_def list_all_iff)
qed

lemma join_labels_lower: "domain_labels ls \<Longrightarrow> lower (join ''.'' ls) = join ''.'' ls"
proof -
  assume "domain_labels ls"
  then have "\<forall>c\<in>set (join ''.'' ls). lower_char c = c"
    using join_labels_chars label_char_simps(2) by (fastforce simp: lower_char_def cp_def)
  then show ?thesis by (simp add: lower_def map_idI)
qed

lemma registrable_of_labels:
  assumes "domain_labels ls"
  shows "registrable_domain (Some (join ''.'' ls)) = join ''.'' ls"
proof -
  let ?r = "join ''.'' ls"
  note ends = join_labels_ends [OF assms]
  have nonl: "nl \<notin> set ?r"
    using join_labels_chars [OF assms, of nl] label_char_simps(1) [of nl] by auto
  have norm: "lower (rstrip_char (CHR ''.'') (strip ?r)) = ?r"
    using ends label_char_simps(1,3)
    by (simp add: strip_fixed rstrip_char_fixed join_labels_lower [OF assms])
  have nowild: "\<not> starts_with ''*.'' ?r" "\<not> starts_with ''['' ?r"
    using ends label_char_simps(5) by (cases ?r; auto)+
  have nocolon: "CHR '':'' \<notin> set ?r"
    using join_labels_chars [OF assms, of "CHR '':''"] label_char_simps(4) by auto
  have noip: "\<not> ipv4_re ?r"
    using assms nonl by (auto simp: ipv4_re_def at_end_no_nl split_join_labels domain_labels_def Let_def)
  have lab: "\<not> list_ex (\<lambda>l. \<not> label_re l) ls"
  proof -
    have "label_re l" if "l \<in> set ls" for l
    proof -
      have l: "l \<noteq> []" "list_all label_char l" using assms that by (auto simp: domain_labels_def list_all_iff)
      then have "nl \<notin> set l" using label_char_simps(1) [of nl] by (auto simp: list_all_iff)
      with l show ?thesis by (simp add: label_re_no_nl)
    qed
    then show ?thesis by (auto simp: list_ex_iff)
  qed
  show ?thesis
    using assms
  proof (cases rule: domain_labels_cases)
    case (1 a b)
    then show ?thesis
      using norm nowild nocolon noip lab ends split_join_labels [OF assms]
      by (simp add: registrable_domain_def Let_def)
  next
    case (2 a b c)
    then have "join ''.'' [b, c] \<in> set multi_suffixes" using assms by (simp add: domain_labels_def)
    with 2 show ?thesis
      using norm nowild nocolon noip lab ends split_join_labels [OF assms]
      by (simp add: registrable_domain_def Let_def)
  qed
qed

lemma list_all_drop: "list_all P xs \<Longrightarrow> list_all P (drop n xs)"
  by (metis list_all_append append_take_drop_id)

lemma domain_labels_pick:
  assumes "2 \<le> length ls" "list_all (\<lambda>l. l \<noteq> [] \<and> list_all label_char l) ls"
  shows "domain_labels (if join ''.'' (drop (length ls - 2) ls) \<in> set multi_suffixes \<and> 3 \<le> length ls
    then drop (length ls - 3) ls else drop (length ls - 2) ls)"
proof -
  have "3 \<le> length ls \<Longrightarrow> drop 1 (drop (length ls - 3) ls) = drop (length ls - 2) ls"
  proof -
    assume "3 \<le> length ls"
    then have "Suc (length ls - 3) = length ls - 2" by arith
    then show ?thesis by simp
  qed
  then show ?thesis using assms by (auto simp: domain_labels_def list_all_drop)
qed

lemma registrable_unfold:
  assumes "g = lower (rstrip_char (CHR ''.'') (strip h))"
    and "h' = (if starts_with ''*.'' g then drop 2 g else g)"
    and "ls = split_on (CHR ''.'') h'"
  shows "registrable_domain (Some h) =
    (if h' = [] \<or> CHR '':'' \<in> set h' \<or> starts_with ''['' h' then [] else if ipv4_re h' then []
     else if length ls < 2 \<or> list_ex (\<lambda>l. \<not> label_re l) ls then []
     else join ''.'' (if join ''.'' (drop (length ls - 2) ls) \<in> set multi_suffixes \<and> 3 \<le> length ls
       then drop (length ls - 3) ls else drop (length ls - 2) ls))"
  unfolding registrable_domain_def Let_def option.case assms if_distrib [of "join ''.''"] by (rule refl)

lemma registrable_shape:
  assumes "nl \<notin> set h"
  shows "registrable_domain (Some h) = [] \<or>
         (\<exists>ls. domain_labels ls \<and> registrable_domain (Some h) = join ''.'' ls)"
proof (cases "registrable_domain (Some h) = []")
  case False
  define g where "g = lower (rstrip_char (CHR ''.'') (strip h))"
  define h' where "h' = (if starts_with ''*.'' g then drop 2 g else g)"
  define ls where "ls = split_on (CHR ''.'') h'"
  note unf = registrable_unfold [OF g_def h'_def ls_def]
  from False have n: "2 \<le> length ls" and lab: "list_all label_re ls"
    and eq: "registrable_domain (Some h) = join ''.'' (if join ''.'' (drop (length ls - 2) ls) \<in> set multi_suffixes
      \<and> 3 \<le> length ls then drop (length ls - 3) ls else drop (length ls - 2) ls)"
    by (auto simp: unf list_ex_iff list_all_iff split: if_split_asm)
  have "nl \<notin> set g"
    using assms set_strip [of h] set_rdrop_while [of "\<lambda>d. d = CHR ''.''" "strip h"]
    by (auto simp: g_def rstrip_char_def)
  then have "nl \<notin> set h'" by (auto simp: h'_def dest: in_set_dropD)
  then have "\<forall>l\<in>set ls. nl \<notin> set l" using split_on_set by (auto simp: ls_def)
  with lab have good: "list_all (\<lambda>l. l \<noteq> [] \<and> list_all label_char l) ls"
    by (auto simp: list_all_iff label_re_no_nl)
  from domain_labels_pick [OF n good] eq show ?thesis by blast
qed simp

lemma csr_domains_finite [simp]: "finite (csr_domains ossl csr)"
proof -
  have "finite (Set.filter P (f ` set xs))" for P :: "string \<Rightarrow> bool" and f and xs :: "string list" by simp
  then show ?thesis
    by (simp only: csr_domains_def Let_def split: option.split prod.split) simp
qed

lemma csr_domains_nonempty: "[] \<notin> csr_domains ossl csr"
  by (auto simp: csr_domains_def Let_def split: option.splits if_splits)

subsection \<open>The quota over a history of signatures\<close>

text \<open>
  \<open>licensed_after cap cur news\<close> replays a history: each request names a set of domains; a
  blocked one leaves the licensed set alone, an allowed one replaces it by the set
  \<open>over_quota\<close> returns.
\<close>

fun licensed_after :: "int \<Rightarrow> string set \<Rightarrow> string set list \<Rightarrow> string set" where
  "licensed_after cap cur [] = cur"
| "licensed_after cap cur (new # news) =
     (case over_quota new cur cap of (blocked, would_be, _) \<Rightarrow>
        licensed_after cap (if blocked then cur else would_be) news)"

lemma over_quota_step:
  assumes "over_quota new cur cap = (blocked, would_be, offending)" "0 < cap" "finite cur"
  shows "int (card (if blocked then cur else would_be)) \<le> max cap (int (card cur))"
    and "cur \<subseteq> (if blocked then cur else would_be)"
  using assms by (auto simp: over_quota_def Let_def Un_absorb2 Set.filter_eq split: if_splits)

lemma over_quota_finite:
  "over_quota new cur cap = (blocked, would_be, offending) \<Longrightarrow> finite new \<Longrightarrow> finite cur \<Longrightarrow> finite would_be"
  by (auto simp: over_quota_def Let_def Set.filter_eq split: if_splits)

lemma over_quota_grows:
  "over_quota new cur cap = (b, u, off) \<Longrightarrow> cur \<subseteq> (if b then cur else u)"
  by (auto simp: over_quota_def Let_def split: if_splits)

lemma licensed_after_mono: "cur \<subseteq> licensed_after cap cur news"
proof (induction news arbitrary: cur)
  case (Cons new news)
  obtain b u off where o: "over_quota new cur cap = (b, u, off)" by (cases "over_quota new cur cap")
  have "(if b then cur else u) \<subseteq> licensed_after cap (if b then cur else u) news" by (rule Cons.IH)
  with over_quota_grows [OF o] show ?case by (simp add: o)
qed simp

lemma over_quota_renewal: "Set.filter (\<lambda>d. d \<noteq> []) new \<subseteq> cur \<Longrightarrow> over_quota new cur cap = (False, cur, {})"
  by (simp add: over_quota_def Let_def Un_absorb2)

text \<open>
  Extracting the registrable domain is stable. The result for a host name without a line
  break is empty or two or three well-formed labels, and extracting again returns it
  unchanged, so a domain is counted once however often it is normalized.
\<close>
theorem registrable_domain_stable:
  assumes "nl \<notin> set h"
  shows "let d = registrable_domain (Some h) in
    (d = [] \<or> (\<exists>ls. domain_labels ls \<and> split_on (CHR ''.'') d = ls)) \<and>
    registrable_domain (Some d) = d"
proof -
  have empty: "registrable_domain (Some []) = []"
    by (simp add: registrable_domain_def strip_def rdrop_while_def rstrip_char_def lower_def)
  from registrable_shape [OF assms] show ?thesis
    using empty registrable_of_labels split_join_labels by (auto simp: Let_def)
qed

theorem registrable_domain_stable_witness:
  "registrable_domain (Some ''*.Shop.Example.CO.UK.'') = ''example.co.uk'' \<and>
   registrable_domain (Some ''example.co.uk'') = ''example.co.uk''"
proof -
  have e: "registrable_domain (Some ''*.Shop.Example.CO.UK.'') = ''example.co.uk''" by code_simp
  have "nl \<notin> set ''*.Shop.Example.CO.UK.''" by code_simp
  from registrable_domain_stable [OF this] e show ?thesis by (simp add: Let_def)
qed



end
