(* ===== verification/Base64.thy ===== *)
theory Base64
  imports Runtime
begin

text \<open>
  The base64url codec of \<^verbatim>\<open>backend/licensing.py\<close> (\<open>b64u\<close>, \<open>_b64u_decode\<close>) over Python's
  \<open>base64\<close>: encoding in groups of three bytes, and the lenient decoder that skips foreign
  characters, stops at a completed padding and rejects a dangling group. Bytes are HOL
  characters.
\<close>

definition b64_alphabet :: string where
  "b64_alphabet = ''ABCDEFGHIJKLMNOPQRSTUVWXYZabcdefghijklmnopqrstuvwxyz0123456789-_''"

definition b64_char :: "nat \<Rightarrow> char" where
  "b64_char n = b64_alphabet ! n"

text \<open>Both alphabets decode: \<open>urlsafe_b64decode\<close> maps \<open>-\<close> and \<open>_\<close> to \<open>+\<close> and \<open>/\<close> first.\<close>

definition b64_val :: "char \<Rightarrow> nat option" where
  "b64_val c =
     (if is_upper c then Some (cp c - 65)
      else if is_lower c then Some (cp c - 71)
      else if is_digit c then Some (cp c + 4)
      else if c = CHR ''-'' \<or> c = CHR ''+'' then Some 62
      else if c = CHR ''_'' \<or> c = CHR ''/'' then Some 63
      else None)"

fun utf8 :: "string \<Rightarrow> string" where
  "utf8 [] = []"
| "utf8 (c # s) =
     (if cp c < 128 then c # utf8 s
      else char_of (192 + cp c div 64) # char_of (128 + cp c mod 64) # utf8 s)"

fun b64_encode :: "string \<Rightarrow> string" where
  "b64_encode [] = []"
| "b64_encode [a] = [b64_char (cp a div 4), b64_char (cp a mod 4 * 16), CHR ''='', CHR ''='']"
| "b64_encode [a, b] =
     [b64_char (cp a div 4), b64_char (cp a mod 4 * 16 + cp b div 16),
      b64_char (cp b mod 16 * 4), CHR ''='']"
| "b64_encode (a # b # c # s) =
     [b64_char (cp a div 4), b64_char (cp a mod 4 * 16 + cp b div 16),
      b64_char (cp b mod 16 * 4 + cp c div 64), b64_char (cp c mod 64)] @ b64_encode s"

text \<open>\<open>b64_go q left pads s\<close>: \<open>q\<close> is the position in the group, \<open>left\<close> the bits carried over.\<close>

fun b64_go :: "nat \<Rightarrow> nat \<Rightarrow> nat \<Rightarrow> string \<Rightarrow> string option" where
  "b64_go q left pads [] = (if q = 0 then Some [] else None)"
| "b64_go q left pads (c # s) =
     (if c = CHR ''='' then
        (if 2 \<le> q \<and> 4 \<le> q + Suc pads then Some []
         else b64_go q left (if 2 \<le> q then Suc pads else pads) s)
      else case b64_val c of
        None \<Rightarrow> b64_go q left pads s
      | Some v \<Rightarrow>
          if q = 0 then b64_go 1 v 0 s
          else if q = 1 then map_option ((#) (char_of (left * 4 + v div 16))) (b64_go 2 (v mod 16) 0 s)
          else if q = 2 then map_option ((#) (char_of (left * 16 + v div 4))) (b64_go 3 (v mod 4) 0 s)
          else map_option ((#) (char_of (left * 64 + v))) (b64_go 0 0 0 s))"

definition b64u :: "string \<Rightarrow> string" where
  "b64u data = rstrip_char (CHR ''='') (b64_encode data)"

definition b64u_decode :: "string \<Rightarrow> string option" where
  "b64u_decode s =
     (let b = utf8 s in b64_go 0 0 0 (b @ replicate ((4 - length b mod 4) mod 4) (CHR ''='')))"

subsection \<open>Round trip\<close>

fun b64_body :: "string \<Rightarrow> string" where
  "b64_body [] = []"
| "b64_body [a] = [b64_char (cp a div 4), b64_char (cp a mod 4 * 16)]"
| "b64_body [a, b] =
     [b64_char (cp a div 4), b64_char (cp a mod 4 * 16 + cp b div 16), b64_char (cp b mod 16 * 4)]"
| "b64_body (a # b # c # s) =
     [b64_char (cp a div 4), b64_char (cp a mod 4 * 16 + cp b div 16),
      b64_char (cp b mod 16 * 4 + cp c div 64), b64_char (cp c mod 64)] @ b64_body s"

lemma b64_encode_body:
  "b64_encode s = b64_body s @ replicate ((3 - length s mod 3) mod 3) (CHR ''='')"
proof (induction s rule: b64_body.induct)
  case (4 a b c s)
  have "Suc (Suc (Suc (length s))) mod 3 = length s mod 3" by presburger
  with 4 show ?case by simp
qed (simp_all add: numeral_2_eq_2)

lemma b64_char_val:
  assumes "n < 64"
  shows "b64_val (b64_char n) = Some n \<and> b64_char n \<noteq> CHR ''='' \<and> cp (b64_char n) < 128"
proof -
  have "list_all (\<lambda>n. b64_val (b64_char n) = Some n \<and> b64_char n \<noteq> CHR ''='' \<and> cp (b64_char n) < 128) [0..<64]"
    by code_simp
  with assms show ?thesis by (auto simp: list_all_iff)
qed

lemma sextet_bound:
  fixes a b :: nat
  assumes "a < 256" "b < 256"
  shows "a div 4 < 64" "a mod 4 * 16 < 64" "a mod 4 * 16 + b div 16 < 64"
    "a mod 16 * 4 < 64" "a mod 16 * 4 + b div 64 < 64" "a mod 64 < 64"
proof -
  have "a mod 4 < 4" "a mod 16 < 16" "b div 16 < 16" "b div 64 < 4" "a div 4 < 64"
    using assms by (simp_all add: less_mult_imp_div_less)
  then show "a div 4 < 64" "a mod 4 * 16 < 64" "a mod 4 * 16 + b div 16 < 64"
    "a mod 16 * 4 < 64" "a mod 16 * 4 + b div 64 < 64" "a mod 64 < 64"
    by (linarith | simp)+
qed

lemmas sextets [simp] = sextet_bound [OF cp_bound cp_bound]

lemma b64_body_chars: "c \<in> set (b64_body s) \<Longrightarrow> c \<noteq> CHR ''='' \<and> cp c < 128"
  by (induction s rule: b64_body.induct) (auto simp: b64_char_val)

lemma utf8_ascii: "(\<And>c. c \<in> set s \<Longrightarrow> cp c < 128) \<Longrightarrow> utf8 s = s"
  by (induction s) auto

lemma dropWhile_replicate: "dropWhile (\<lambda>d. d = c) (replicate n c @ xs) = dropWhile (\<lambda>d. d = c) xs"
  by (induction n) simp_all

lemma rstrip_replicate:
  assumes "c \<notin> set s"
  shows "rstrip_char c (s @ replicate n c) = s"
proof -
  have "dropWhile (\<lambda>d. d = c) (rev s) = rev s"
    using assms by (cases s rule: rev_cases) auto
  then show ?thesis by (simp add: rstrip_char_def rdrop_while_def dropWhile_replicate)
qed

lemma b64u_body: "b64u s = b64_body s"
  unfolding b64u_def b64_encode_body using b64_body_chars by (intro rstrip_replicate) blast

lemma group_bits:
  fixes a b c :: nat
  assumes "b < 256" "c < 256"
  shows "a div 4 * 4 + (a mod 4 * 16 + b div 16) div 16 = a"
    and "(a mod 4 * 16 + b div 16) mod 16 * 16 + (b mod 16 * 4 + c div 64) div 4 = b"
    and "(b mod 16 * 4 + c div 64) mod 4 * 64 + c mod 64 = c"
proof -
  have b: "b div 16 < 16" and c: "c div 64 < 4" using assms by (simp_all add: less_mult_imp_div_less)
  have "(a mod 4 * 16 + b div 16) div 16 = a mod 4" "(a mod 4 * 16 + b div 16) mod 16 = b div 16"
    using b by simp_all
  moreover have "(b mod 16 * 4 + c div 64) div 4 = b mod 16" "(b mod 16 * 4 + c div 64) mod 4 = c div 64"
    using c by simp_all
  ultimately show "a div 4 * 4 + (a mod 4 * 16 + b div 16) div 16 = a"
    "(a mod 4 * 16 + b div 16) mod 16 * 16 + (b mod 16 * 4 + c div 64) div 4 = b"
    "(b mod 16 * 4 + c div 64) mod 4 * 64 + c mod 64 = c"
    by (simp_all only: div_mult_mod_eq)
qed

lemmas sextet_bytes = group_bits [OF cp_bound cp_bound]
  group_bits(1) [where b = 0 and c = 0, simplified] group_bits(2) [where c = 0, OF cp_bound, simplified]

lemma char_of_cp [simp]: "char_of (cp c) = c"
  by (simp add: cp_def)

lemma b64_go_group:
  assumes "x < 64" "y < 64" "z < 64" "w < 64"
  shows "b64_go 0 0 0 (b64_char x # b64_char y # b64_char z # b64_char w # s) =
      map_option (\<lambda>t. char_of (x * 4 + y div 16) # char_of (y mod 16 * 16 + z div 4)
        # char_of (z mod 4 * 64 + w) # t) (b64_go 0 0 0 s)"
  using assms by (simp_all add: b64_char_val option.map_comp comp_def)

lemma b64_go_pad2:
  "x < 64 \<Longrightarrow> y < 64 \<Longrightarrow>
     b64_go 0 0 0 [b64_char x, b64_char y, CHR ''='', CHR ''=''] = Some [char_of (x * 4 + y div 16)]"
  by (simp add: b64_char_val)

lemma b64_go_pad1:
  "x < 64 \<Longrightarrow> y < 64 \<Longrightarrow> z < 64 \<Longrightarrow>
     b64_go 0 0 0 [b64_char x, b64_char y, b64_char z, CHR ''=''] =
       Some [char_of (x * 4 + y div 16), char_of (y mod 16 * 16 + z div 4)]"
  by (simp add: b64_char_val)

lemma b64_go_body:
  "b64_go 0 0 0 (b64_body s @ replicate ((4 - length (b64_body s) mod 4) mod 4) (CHR ''='')) = Some s"
proof (induction s rule: b64_body.induct)
  case (2 a)
  have "[b64_char x, b64_char y] @ replicate ((4 - length [b64_char x, b64_char y] mod 4) mod 4) (CHR ''='')
      = [b64_char x, b64_char y, CHR ''='', CHR ''='']" for x y by (simp add: numeral_2_eq_2)
  moreover have "cp a div 4 * 4 + cp a mod 4 * 16 div 16 = cp a" by simp
  ultimately show ?case by (simp only: b64_body.simps b64_go_pad2 sextets char_of_cp)
next
  case (3 a b)
  have "[x, y, z] @ replicate ((4 - length [x, y, z] mod 4) mod 4) (CHR ''='') = [x, y, z, CHR ''='']"
    for x y z :: char by simp
  moreover have "(cp a mod 4 * 16 + cp b div 16) mod 16 * 16 + cp b mod 16 * 4 div 4 = cp b"
    using group_bits(2) [of "cp b" 0 "cp a"] by simp
  ultimately show ?case
    by (simp only: b64_body.simps b64_go_pad1 sextets group_bits(1) [OF cp_bound cp_bound [of a]] char_of_cp)
next
  case (4 a b c s)
  have "length ([x, y, z, w] @ t) mod 4 = length t mod 4" for x y z w :: char and t
    by (simp only: list.size length_append) presburger
  then show ?case
    by (simp only: b64_body.simps append.simps b64_go_group sextets sextet_bytes char_of_cp
        append_assoc 4 option.map)
qed simp

text \<open>
  The base64url codec of the license format round-trips: decoding what \<open>b64u\<close> wrote,
  whose padding was stripped, gives back exactly the bytes, for every byte string.
\<close>
theorem b64u_roundtrip: "b64u_decode (b64u data) = Some data"
  by (simp add: b64u_decode_def b64u_body utf8_ascii b64_body_chars b64_go_body)

end
