(* ===== verification/Licensing.thy ===== *)
theory Licensing
  imports Base64
begin

text \<open>
  \<^verbatim>\<open>backend/build_mode.py\<close> (the edition of this artifact and the release hardening) and
  \<^verbatim>\<open>backend/licensing.py\<close> (the offline license: where the blob comes from, its signature
  check behind a cache, expiry, the edition mismatch, the domain cap and the renewal
  notice). The edition and the release stamp are fields of \<open>build\<close>; this repository's are
  \<open>this_build\<close>. Signature verification is a field of \<open>env\<close>. A character outside Latin-1 in
  a message is written \<open>-\<close>.
\<close>

subsection \<open>The build\<close>

definition this_build :: build where
  "this_build = \<lparr>EDITION = ''community'', RELEASE_BUILD = False\<rparr>"

definition is_community_build :: "build \<Rightarrow> bool" where
  "is_community_build b = (EDITION b = ''community'')"

definition EDITION_RANK :: "(string \<times> nat) list" where
  "EDITION_RANK = [(''community'', 0), (''commercial'', 1), (''government'', 2), (''full'', 3)]"

definition edition_rank :: "build \<Rightarrow> nat" where
  "edition_rank b = (case map_of EDITION_RANK (EDITION b) of None \<Rightarrow> 3 | Some n \<Rightarrow> n)"

definition build_includes_tier :: "build \<Rightarrow> nat \<Rightarrow> bool" where
  "build_includes_tier b tier = (tier \<le> edition_rank b)"

definition falsy_flags :: "string list" where
  "falsy_flags = ['''', ''0'', ''false'', ''False'']"

definition is_release :: "'h env \<Rightarrow> bool" where
  "is_release e =
     (RELEASE_BUILD (stamp e) \<or> strip (getenv e ''CERTHEIM_RELEASE'' '''') \<notin> set falsy_flags)"

definition dev_overrides_allowed :: "'h env \<Rightarrow> bool" where
  "dev_overrides_allowed e = (\<not> is_release e)"

definition describe_build :: "'h env \<Rightarrow> string" where
  "describe_build e = (if is_release e then ''release'' else ''development'')"

subsection \<open>Verifying a license\<close>

text \<open>The PEM text of \<^verbatim>\<open>VENDOR_PUBLIC_KEY\<close>, line by line.\<close>

definition VENDOR_PUBLIC_KEY :: string where
  "VENDOR_PUBLIC_KEY = join [nl]
    [''-----BEGIN PUBLIC KEY-----'',
     ''MIIBIjANBgkqhkiG9w0BAQEFAAOCAQ8AMIIBCgKCAQEApBorenlxBbgY0JcyQQKC'',
     ''8Oncsh0mlldHa5pYDZxSMaOoRCrUaWehUjvMXagZxxIoJjtPybrUbdzcrpFKqrhu'',
     ''M5ygrR4Z4o8ey0+2cokOUBMXDGji6M1YjaXC3UctJn26dQZBLC3mKNDaq7Kuobtz'',
     ''VQojVKxsRFFSfHKPpxK853CeSmucIactvJmPEnTKmncU6GEi/8oDS2VaUcVufou4'',
     ''twpnGhsa9C8Kzmcq6vbHpQEsljcePUVTiI16Xg8dUIikUdiSYpcdw2U8BFkjY8a2'',
     ''o7H3SlNMK5o5b5ADUzVwjOefspENBk2HhK+DUpaOm+GmJkQb/lYpFO9LR4VzyHFI'',
     ''TQIDAQAB'',
     ''-----END PUBLIC KEY-----'',
     '''']"

definition license_pubkey :: "'h env \<Rightarrow> string" where
  "license_pubkey e =
     (if dev_overrides_allowed e \<and> set_opt (environ e ''CERTHEIM_LICENSE_PUBKEY'')
      then or_empty (environ e ''CERTHEIM_LICENSE_PUBKEY'') else VENDOR_PUBLIC_KEY)"

text \<open>\<open>setting\<close> is the stored \<^verbatim>\<open>license_blob\<close>; the file named by the environment wins.\<close>

definition raw_license :: "'h env \<Rightarrow> string option \<Rightarrow> string" where
  "raw_license e setting =
     (let path = strip (getenv e ''CERTHEIM_LICENSE_FILE'' '''') in
      case (if path \<noteq> [] then read_file e path else None) of
        Some text \<Rightarrow> strip text
      | None \<Rightarrow> strip (or_empty setting))"

definition verify_license :: "'h env \<Rightarrow> string \<Rightarrow> string \<Rightarrow> string + json" where
  "verify_license e blob pubkey_pem =
     (case split_once (CHR ''.'') blob of
        None \<Rightarrow> Inl ''malformed license (expected payload.signature)''
      | Some (payload_b64, sig_b64) \<Rightarrow>
        (case b64u_decode sig_b64 of
           None \<Rightarrow> Inl ''Incorrect padding''
         | Some sig \<Rightarrow>
           (case verify_sig e pubkey_pem sig payload_b64 of
              Inl err \<Rightarrow> Inl err
            | Inr ok \<Rightarrow>
              if \<not> ok then Inl ''signature does not verify against the vendor key''
              else (case Option.bind (b64u_decode payload_b64) (json_loads e) of
                      None \<Rightarrow> Inl ''license payload is not valid JSON''
                    | Some p \<Rightarrow> Inr p))))"

text \<open>The cached answer: a payload, or an object with the single key \<open>__error__\<close>.\<close>

definition payload_fresh :: "'h env \<Rightarrow> string \<Rightarrow> json" where
  "payload_fresh e blob =
     (case verify_license e blob (license_pubkey e) of
        Inl err \<Rightarrow> JObj [(''__error__'', JStr err)] | Inr p \<Rightarrow> p)"

type_synonym verify_cache = "(string \<times> json) list"

definition cache_put :: "string \<Rightarrow> json \<Rightarrow> verify_cache \<Rightarrow> verify_cache" where
  "cache_put blob p c = (if map_of c blob = None then c @ [(blob, p)]
     else map (\<lambda>(b, q). if b = blob then (b, p) else (b, q)) c)"

definition payload_for :: "'h env \<Rightarrow> string \<Rightarrow> verify_cache \<Rightarrow> json \<times> verify_cache" where
  "payload_for e blob cache =
     (case map_of cache blob of
        Some p \<Rightarrow>
          if p \<noteq> JNull then (p, cache)
          else let q = payload_fresh e blob in (q, cache_put blob q (if 16 < length cache then [] else cache))
      | None \<Rightarrow>
          let q = payload_fresh e blob in (q, cache_put blob q (if 16 < length cache then [] else cache)))"

definition reset_cache :: "verify_cache \<Rightarrow> verify_cache" where
  "reset_cache c = []"

subsection \<open>License information\<close>

record license_info =
  li_valid :: bool
  li_edition :: string
  li_build_edition :: string
  li_edition_mismatch :: "string option"
  li_reason :: string
  li_customer :: json
  li_entitlements :: "json list"
  li_issued :: json
  li_expires :: json
  li_expired :: bool
  li_max_domains :: int
  li_bind_host :: json
  li_warnings :: "string list"

definition community :: "'h env \<Rightarrow> string \<Rightarrow> license_info" where
  "community e why =
    \<lparr>li_valid = False, li_edition = ''community'', li_build_edition = EDITION (stamp e),
     li_edition_mismatch = None, li_reason = why, li_customer = JNull, li_entitlements = [], li_issued = JNull,
     li_expires = JNull, li_expired = False, li_max_domains = 0, li_bind_host = JNull, li_warnings = []\<rparr>"

definition deployment_host :: "'h env \<Rightarrow> string" where
  "deployment_host e =
     strip (if set_opt (environ e ''CERTHEIM_LICENSE_HOST'')
            then or_empty (environ e ''CERTHEIM_LICENSE_HOST'') else hostname e)"

definition binding_warnings :: "'h env \<Rightarrow> json \<Rightarrow> string list result" where
  "binding_warnings e payload =
     (case str_or_empty (jget ''bind_host'' payload) of
        Inl err \<Rightarrow> Inl err
      | Inr raw \<Rightarrow>
        let want = strip raw; here = deployment_host e in
        Inr (if want \<noteq> [] \<and> lower want \<noteq> lower here
             then [''license is bound to host '' @ [CHR 0x27] @ want @ [CHR 0x27]
                   @ '' but this deployment reports '' @ [CHR 0x27]
                   @ (if here = [] then ''unknown'' else here) @ [CHR 0x27]]
             else []))"

definition default_max_domains :: "json \<Rightarrow> int" where
  "default_max_domains ed = 0"

definition LICENSE_EDITION_RANK :: "(string \<times> nat) list" where
  "LICENSE_EDITION_RANK =
     [(''community'', 0), (''commercial'', 1), (''unlimited'', 1), (''government'', 2), (''full'', 3)]"

definition license_rank :: "string \<Rightarrow> nat" where
  "license_rank ed = (case map_of LICENSE_EDITION_RANK (lower ed) of None \<Rightarrow> 0 | Some n \<Rightarrow> n)"

definition capitalize :: "string \<Rightarrow> string" where
  "capitalize s = (case s of [] \<Rightarrow> [] | c # r \<Rightarrow> upper_ascii c # lower r)"

definition build_mismatch :: "build \<Rightarrow> string \<Rightarrow> string" where
  "build_mismatch b ed =
     (if license_rank ed \<le> edition_rank b then []
      else let e = capitalize ed in
        ''This license grants the '' @ e @ '' edition, but this deployment is the ''
        @ capitalize (EDITION b) @ '' build - the '' @ e @ '' features are not ''
        @ ''present in this artifact, so installing the license alone does not ''
        @ ''enable them. To upgrade, redeploy with the '' @ e @ '' edition image using ''
        @ ''the registry pull credentials from your license email (username = ''
        @ ''license ID, token = pull token), then keep this same license. Your ''
        @ ''data and configuration carry over.'')"

text \<open>\<open>float(x)\<close> of a license date, whole seconds.\<close>

definition float_of :: "json \<Rightarrow> int result" where
  "float_of j = int_of_json j"

definition has_error_key :: "json \<Rightarrow> bool result" where
  "has_error_key p =
     (case p of
        JObj _ \<Rightarrow> Inr (jhas ''__error__'' p)
      | JStr s \<Rightarrow> if contains ''__error__'' s then Inl TypeError else Inl AttributeError
      | JArr xs \<Rightarrow> if JStr ''__error__'' \<in> set xs then Inl TypeError else Inl AttributeError
      | _ \<Rightarrow> Inl TypeError)"

definition list_of_json :: "json option \<Rightarrow> json list result" where
  "list_of_json v =
     (case v of
        None \<Rightarrow> Inr []
      | Some (JArr xs) \<Rightarrow> Inr xs
      | Some (JStr s) \<Rightarrow> Inr (map (\<lambda>c. JStr [c]) s)
      | Some (JObj kvs) \<Rightarrow> Inr (map (JStr \<circ> fst) kvs)
      | _ \<Rightarrow> Inl TypeError)"

definition jlookup :: "string \<Rightarrow> json \<Rightarrow> json option" where
  "jlookup k j = (case j of JObj kvs \<Rightarrow> map_of kvs k | _ \<Rightarrow> None)"

definition info_expired :: "time \<Rightarrow> json \<Rightarrow> bool result" where
  "info_expired now ex =
     (if \<not> truthy ex then Inr False
      else case float_of ex of Inl err \<Rightarrow> Inl err | Inr t \<Rightarrow> Inr (t < now))"

definition info_max_domains :: "json \<Rightarrow> int result" where
  "info_max_domains p =
     (if jget ''max_domains'' p \<noteq> JNull then int_of_json (jget ''max_domains'' p)
      else Inr (default_max_domains (jget ''edition'' p)))"

text \<open>The edition a payload grants; a non-string one fails at \<open>.lower()\<close> in \<open>build_mismatch\<close>.\<close>

definition info_edition :: "json \<Rightarrow> string result" where
  "info_edition p =
     (let ed = jget ''edition'' p in
      if \<not> truthy ed then Inr ''commercial''
      else case ed of JStr s \<Rightarrow> Inr s | _ \<Rightarrow> Inl AttributeError)"

definition info_granted :: "'h env \<Rightarrow> json \<Rightarrow> license_info result" where
  "info_granted e p =
     (case info_max_domains p of Inl err \<Rightarrow> Inl err | Inr md \<Rightarrow>
      (case info_edition p of Inl err \<Rightarrow> Inl err | Inr ed \<Rightarrow>
      (case binding_warnings e p of Inl err \<Rightarrow> Inl err | Inr ws \<Rightarrow>
      (case list_of_json (jlookup ''entitlements'' p) of Inl err \<Rightarrow> Inl err | Inr ents \<Rightarrow>
       let mismatch = build_mismatch (stamp e) ed in
       Inr \<lparr>li_valid = True, li_edition = ed, li_build_edition = EDITION (stamp e),
            li_edition_mismatch = (if mismatch = [] then None else Some mismatch),
            li_reason = ''ok'', li_customer = jget ''customer'' p, li_entitlements = ents,
            li_issued = jget ''issued'' p, li_expires = jget ''expires'' p, li_expired = False,
            li_max_domains = md, li_bind_host = jget ''bind_host'' p,
            li_warnings = ws @ (if mismatch = [] then [] else [mismatch])\<rparr>))))"

definition info_of_payload :: "'h env \<Rightarrow> time \<Rightarrow> json \<Rightarrow> license_info result" where
  "info_of_payload e now p =
     (case has_error_key p of
        Inl err \<Rightarrow> Inl err
      | Inr True \<Rightarrow> Inr (community e (''invalid license: '' @ str_of e (jget ''__error__'' p)))
      | Inr False \<Rightarrow>
        (case info_expired now (jget ''expires'' p) of
           Inl err \<Rightarrow> Inl err
         | Inr True \<Rightarrow> Inr (community e ''license expired'')
         | Inr False \<Rightarrow> info_granted e p))"

definition info :: "'h env \<Rightarrow> string option \<Rightarrow> time \<Rightarrow> verify_cache \<Rightarrow> license_info result \<times> verify_cache" where
  "info e setting now cache =
     (let blob = raw_license e setting in
      if blob = [] then (Inr (community e ''Community Edition (no license installed)''), cache)
      else case payload_for e blob cache of (p, cache') \<Rightarrow> (info_of_payload e now p, cache'))"

definition license_entitlements :: "license_info \<Rightarrow> json set" where
  "license_entitlements i = set (li_entitlements i)"

definition license_max_domains :: "license_info \<Rightarrow> int" where
  "license_max_domains i = li_max_domains i"

definition SECONDS_PER_DAY :: int where
  "SECONDS_PER_DAY = 86400"

text \<open>\<open>math.ceil\<close> of a quotient of whole seconds.\<close>

definition ceil_div :: "int \<Rightarrow> int \<Rightarrow> int" where
  "ceil_div a b = - ((- a) div b)"

record notice =
  days_left :: int
  n_expires :: int
  n_edition :: string
  n_customer :: json

definition expiry_notice :: "license_info \<Rightarrow> time \<Rightarrow> int \<Rightarrow> notice option result" where
  "expiry_notice i now within_days =
     (if \<not> li_valid i \<or> \<not> truthy (li_expires i) then Inr None
      else case float_of (li_expires i) of
        Inl err \<Rightarrow> Inl err
      | Inr ex \<Rightarrow>
        let left = ceil_div (ex - now) SECONDS_PER_DAY in
        if within_days < left then Inr None
        else Inr (Some \<lparr>days_left = max left 0, n_expires = ex, n_edition = li_edition i,
                        n_customer = li_customer i\<rparr>))"

subsection \<open>The cache changes no answer\<close>

definition cache_ok :: "'h env \<Rightarrow> verify_cache \<Rightarrow> bool" where
  "cache_ok e c \<longleftrightarrow> length c \<le> 17 \<and> (\<forall>(b, p)\<in>set c. p = payload_fresh e b)"

lemma cache_ok_Nil [simp]: "cache_ok e []"
  by (simp add: cache_ok_def)

lemma cache_put_ok:
  assumes "\<forall>(b, p)\<in>set c. p = payload_fresh e b"
  shows "\<forall>(b, p)\<in>set (cache_put blob (payload_fresh e blob) c). p = payload_fresh e b"
  using assms by (auto simp: cache_put_def split: if_splits)

lemma length_cache_put: "length (cache_put blob p c) \<le> Suc (length c)"
  by (simp add: cache_put_def)

lemma payload_for_fresh:
  assumes "cache_ok e cache"
  shows "fst (payload_for e blob cache) = payload_fresh e blob"
    and "cache_ok e (snd (payload_for e blob cache))"
proof -
  have hit: "map_of cache blob = Some p \<Longrightarrow> p = payload_fresh e blob" for p
    using assms by (auto simp: cache_ok_def dest: map_of_SomeD)
  then show "fst (payload_for e blob cache) = payload_fresh e blob"
    by (auto simp: payload_for_def Let_def split: option.split)
  have "cache_ok e (cache_put blob (payload_fresh e blob) (if 16 < length cache then [] else cache))"
    using assms cache_put_ok [of "if 16 < length cache then [] else cache" e blob]
      length_cache_put [of blob "payload_fresh e blob" "if 16 < length cache then [] else cache"]
    by (auto simp: cache_ok_def split: if_splits)
  then show "cache_ok e (snd (payload_for e blob cache))"
    using assms by (auto simp: payload_for_def Let_def split: option.split)
qed

definition license_now :: "'h env \<Rightarrow> string option \<Rightarrow> time \<Rightarrow> license_info result" where
  "license_now e setting now =
     (let blob = raw_license e setting in
      if blob = [] then Inr (community e ''Community Edition (no license installed)'')
      else info_of_payload e now (payload_fresh e blob))"

subsection \<open>What a valid license rests on\<close>

lemma info_of_payload_valid:
  assumes "info_of_payload e now p = Inr i" "li_valid i"
  shows "has_error_key p = Inr False" "info_expired now (jget ''expires'' p) = Inr False"
    "li_edition_mismatch i = (if build_mismatch (stamp e) (li_edition i) = [] then None
       else Some (build_mismatch (stamp e) (li_edition i)))"
  using assms
  by (auto simp: info_of_payload_def info_granted_def community_def Let_def
      split: sum.splits bool.splits)

lemma payload_fresh_ok:
  assumes "has_error_key (payload_fresh e blob) = Inr False"
  obtains payload_b64 sig_b64 sig where "split_once (CHR ''.'') blob = Some (payload_b64, sig_b64)"
    "b64u_decode sig_b64 = Some sig" "verify_sig e (license_pubkey e) sig payload_b64 = Inr True"
    "Option.bind (b64u_decode payload_b64) (json_loads e) = Some (payload_fresh e blob)"
  using assms
  by (auto simp: payload_fresh_def verify_license_def has_error_key_def
      split: sum.splits option.splits if_splits prod.splits)

lemma split_once_SomeD: "split_once c s = Some (a, b) \<Longrightarrow> s = a @ c # b"
proof -
  assume "split_once c s = Some (a, b)"
  then obtain d where d: "dropWhile (\<lambda>d. d \<noteq> c) s = d # b" "a = takeWhile (\<lambda>d. d \<noteq> c) s"
    by (auto simp: split_once_def split: list.splits)
  then have "d = c" using hd_dropWhile [of "\<lambda>d. d \<noteq> c" s] by simp
  with d takeWhile_dropWhile_id [of "\<lambda>d. d \<noteq> c" s] show ?thesis by simp
qed



text \<open>
  The renewal notice counts down correctly. It appears exactly for a valid license with an
  expiry at most \<open>within\<close> days away, and the days it names are enough to cover the remaining
  time but one day less would not be; while the license is still running it never reads 0.
\<close>
theorem expiry_notice_countdown:
  assumes "li_valid i" "truthy (li_expires i)" "float_of (li_expires i) = Inr ex" "now < ex"
  shows "(\<exists>n. expiry_notice i now within_days = Inr (Some n) \<and> 0 < days_left n \<and>
            ex - now \<le> days_left n * 86400 \<and> (days_left n - 1) * 86400 < ex - now)
          \<longleftrightarrow> ex - now \<le> within_days * 86400"
proof -
  let ?left = "ceil_div (ex - now) SECONDS_PER_DAY"
  have b: "ex - now \<le> ?left * 86400" "(?left - 1) * 86400 < ex - now"
    using div_mult_mod_eq [of "- (ex - now)" 86400]
      pos_mod_bound [of 86400 "- (ex - now)"] pos_mod_sign [of 86400 "- (ex - now)"]
    by (simp_all add: ceil_div_def SECONDS_PER_DAY_def)
  then have pos: "0 < ?left" using assms(4) by linarith
  have "?left \<le> within_days \<longleftrightarrow> ex - now \<le> within_days * 86400"
    using b by (auto simp: algebra_simps)
  with b pos assms(1-3) show ?thesis by (auto simp: expiry_notice_def Let_def)
qed

theorem expiry_notice_countdown_witness:
  "\<exists>n. expiry_notice ((community sample_env []) \<lparr>li_valid := True, li_expires := JInt 100000\<rparr>) 50 30
     = Inr (Some n) \<and> 0 < days_left n"
proof -
  let ?i = "(community sample_env []) \<lparr>li_valid := True, li_expires := JInt 100000\<rparr>"
  have "li_valid ?i" "truthy (li_expires ?i)" "float_of (li_expires ?i) = Inr 100000"
    by (simp_all add: float_of_def int_of_json_def)
  from expiry_notice_countdown [OF this, of 50 30] show ?thesis by auto
qed

end
