(* ===== verification/Capabilities.thy ===== *)
theory Capabilities
  imports Licensing
begin

text \<open>
  \<^verbatim>\<open>backend/capabilities.py\<close>: which features this deployment can run. A capability needs
  the build to contain its tier, a license (or, in a development build, an operator
  override) to grant it, and the environment to provide what it depends on. The license is
  read without its cache, which \<open>Licensing.license_fail_closed\<close> justifies; the environment
  is detected once and cached.
\<close>

subsection \<open>The catalog\<close>

record cap_spec =
  needs :: "string list"
  desc :: string

definition CAPABILITIES :: "(string \<times> cap_spec) list" where
  "CAPABILITIES =
    [(''auth.local'', \<lparr>needs = [], desc = ''Username / password authentication''\<rparr>),
     (''auth.cac'', \<lparr>needs = [], desc = ''CAC / mTLS authentication''\<rparr>),
     (''notify.email.smtp'', \<lparr>needs = [], desc = ''Email via SMTP / SMG relay''\<rparr>),
     (''notify.email.api'', \<lparr>needs = [''egress_internet''], desc = ''Email via Mailgun / SendGrid HTTP API''\<rparr>),
     (''integrations.webhooks'', \<lparr>needs = [], desc = ''Generic outbound webhooks (may be internal)''\<rparr>),
     (''integrations.chat'', \<lparr>needs = [''egress_internet''], desc = ''Slack / Teams / Discord notifications''\<rparr>),
     (''integrations.slack.interactive'', \<lparr>needs = [''egress_internet''], desc = ''Assign jobs from a Slack message''\<rparr>),
     (''ca.signing.openbao'', \<lparr>needs = [''openbao''], desc = ''In-UI certificate signing via OpenBao PKI''\<rparr>),
     (''ca.signing.windows_ca'', \<lparr>needs = [''winca''], desc = ''In-UI signing via a Windows CA (AD CS / certreq)''\<rparr>),
     (''ca.signing.cyberark'', \<lparr>needs = [], desc = ''In-UI signing via CyberArk (configurable slot)''\<rparr>),
     (''ca.signing.acme'', \<lparr>needs = [''acme''], desc = ''In-UI signing via any ACME (RFC 8555) CA''\<rparr>),
     (''ca.signing.ejbca'', \<lparr>needs = [''ejbca''], desc = ''In-UI signing via EJBCA (REST enrollment)''\<rparr>),
     (''ca.signing.venafi'', \<lparr>needs = [''venafi''], desc = ''In-UI signing via Venafi TPP''\<rparr>),
     (''ca.signing.aws_pca'', \<lparr>needs = [''aws_pca''], desc = ''In-UI signing via AWS Private CA (ACM PCA)''\<rparr>),
     (''ca.server.acme'', \<lparr>needs = [''acme_server''], desc = ''Expose an ACME (RFC 8555) server for external clients''\<rparr>),
     (''delivery.openbao'', \<lparr>needs = [''openbao''], desc = ''Deliver issued certs to OpenBao / Vault KV''\<rparr>),
     (''delivery.ssh'', \<lparr>needs = [''openbao''], desc = ''Deliver issued certs to a host over SSH (creds from Vault)''\<rparr>),
     (''delivery.pull'', \<lparr>needs = [], desc = ''Deliver via a scoped pull token the destination fetches''\<rparr>),
     (''delivery.k8s'', \<lparr>needs = [''openbao''], desc = ''Deliver issued certs into a Kubernetes TLS Secret''\<rparr>),
     (''delivery.webhook'', \<lparr>needs = [], desc = ''Deliver issued certs by POST to an mTLS/HMAC webhook receiver''\<rparr>),
     (''delivery.cyberark'', \<lparr>needs = [], desc = ''Deliver issued certs into CyberArk Conjur''\<rparr>),
     (''trust.store'', \<lparr>needs = [], desc = ''Build & manage a CA trust bundle from uploaded roots/intermediates''\<rparr>),
     (''trust.distribute.ssh'', \<lparr>needs = [''openbao''], desc = ''Push the trust bundle to fleet hosts over SSH (creds from Vault)''\<rparr>),
     (''lifecycle.auto_renew'', \<lparr>needs = [], desc = ''Automated certificate renewal (licensed)''\<rparr>),
     (''profiles.public_sector'', \<lparr>needs = [], desc = ''Government / public-sector CSR profiles + consent banners (licensed)''\<rparr>),
     (''compliance.airgap'', \<lparr>needs = [], desc = ''Air-gapped / offline operation''\<rparr>)]"

definition EDITIONS :: "string list" where
  "EDITIONS = [''community'', ''commercial'', ''unlimited'', ''government'']"

definition COMMERCIAL_CAPABILITIES :: "string list" where
  "COMMERCIAL_CAPABILITIES =
    [''ca.signing.openbao'', ''ca.signing.windows_ca'', ''ca.signing.cyberark'',
     ''ca.signing.ejbca'', ''ca.signing.venafi'', ''ca.signing.aws_pca'', ''ca.server.acme'',
     ''delivery.openbao'', ''delivery.ssh'', ''delivery.pull'', ''delivery.k8s'',
     ''delivery.webhook'', ''delivery.cyberark'', ''lifecycle.auto_renew'',
     ''integrations.chat'', ''integrations.slack.interactive'', ''notify.email.api'']"

definition GOVERNMENT_CAPABILITIES :: "string list" where
  "GOVERNMENT_CAPABILITIES = [''profiles.public_sector'', ''auth.cac'']"

definition LICENSED_CAPABILITIES :: "string list" where
  "LICENSED_CAPABILITIES = COMMERCIAL_CAPABILITIES @ GOVERNMENT_CAPABILITIES"

definition FREE_CAPABILITIES :: "string list" where
  "FREE_CAPABILITIES = [''ca.signing.manual'', ''ca.signing.acme'']"

definition CAPABILITY_EQUIVALENTS :: "(string \<times> string) list" where
  "CAPABILITY_EQUIVALENTS = [(''ca.signing.hsm'', ''crypto.hsm'')]"

definition HIGHER_TIER_REFERENCES :: "string list" where
  "HIGHER_TIER_REFERENCES = [''visibility.inventory'', ''crypto.hsm'']"

subsection \<open>The environment\<close>

text \<open>\<open>get\<close> reads a stored setting, None when it is absent.\<close>

type_synonym getter = "string \<Rightarrow> string option"

definition flag :: "'h env \<Rightarrow> getter \<Rightarrow> string \<Rightarrow> bool \<Rightarrow> bool" where
  "flag e get name dflt =
     (case environ e (''CERTHEIM_CAP_'' @ map upper_ascii name) of
        Some v \<Rightarrow> strip v \<notin> set falsy_flags
      | None \<Rightarrow> (case get (''cap_'' @ name) of
          Some s \<Rightarrow> strip s \<notin> set falsy_flags
        | None \<Rightarrow> dflt))"

record fips_provider =
  fp_name :: string
  fp_version :: string

text \<open>The scan of \<open>openssl list -providers\<close>: the current block and the attributes seen in it.\<close>

fun fips_scan :: "string option \<Rightarrow> string option \<Rightarrow> string option \<Rightarrow> string list \<Rightarrow> fips_provider option" where
  "fips_scan blk nm ver [] = None"
| "fips_scan blk nm ver (line # ls) =
     (if strip line = [] \<or> \<not> list_all is_space (take 1 line) then fips_scan blk nm ver ls
      else let s = strip line in
        (case split_once (CHR '':'') s of
           None \<Rightarrow> fips_scan (Some s) None None ls
         | Some (k, v) \<Rightarrow>
             if blk = Some ''fips'' then
               (if k = ''name'' then fips_scan blk (Some (strip v)) ver ls
                else if k = ''version'' then fips_scan blk nm (Some (strip v)) ls
                else if k = ''status'' \<and> contains ''active'' s
                then Some \<lparr>fp_name = (if set_opt nm then or_empty nm else ''OpenSSL FIPS Provider''),
                           fp_version = or_empty ver\<rparr>
                else fips_scan blk nm ver ls)
             else fips_scan blk nm ver ls))"

definition openssl_fips_provider :: "'h env \<Rightarrow> fips_provider option" where
  "openssl_fips_provider e =
     (case openssl e [''list'', ''-providers''] [] of
        None \<Rightarrow> None
      | Some (_, out, _) \<Rightarrow> fips_scan None None None (splitlines out))"

definition openssl_major :: "'h env \<Rightarrow> int option" where
  "openssl_major e =
     (case openssl e [''version''] [] of
        None \<Rightarrow> None
      | Some (_, text, _) \<Rightarrow>
        (case words text of
           a # b # _ \<Rightarrow> if a = ''OpenSSL'' then int_of (hd (split_on (CHR ''.'') b)) else None
         | _ \<Rightarrow> None))"

record env_state =
  es_flags :: "(string \<times> bool) list"
  es_provider :: "fips_provider option"
  es_major :: "int option"

definition file_is_one :: "'h env \<Rightarrow> string \<Rightarrow> bool" where
  "file_is_one e path = (case read_file e path of None \<Rightarrow> False | Some t \<Rightarrow> strip t = ''1'')"

definition detect_env :: "'h env \<Rightarrow> getter \<Rightarrow> env_state" where
  "detect_env e get =
    \<lparr>es_flags =
      [(''fips'', file_is_one e ''/proc/sys/crypto/fips_enabled''),
       (''selinux_enforcing'', file_is_one e ''/sys/fs/selinux/enforce''),
       (''fapolicyd'', svc_active e ''fapolicyd''),
       (''egress_internet'',
          if environ e ''CERTHEIM_CAP_EGRESS_INTERNET'' \<noteq> None \<or> get ''cap_egress_internet'' \<noteq> None
          then flag e get ''egress_internet'' False else egress_probe e)]
      @ map (\<lambda>n. (n, flag e get n False))
          [''openbao'', ''winca'', ''acme'', ''ejbca'', ''venafi'', ''aws_pca'', ''acme_server''],
     es_provider = openssl_fips_provider e, es_major = openssl_major e\<rparr>"

definition env_caps :: "'h env \<Rightarrow> getter \<Rightarrow> bool \<Rightarrow> env_state option \<Rightarrow> env_state \<times> env_state option" where
  "env_caps e get refresh cache =
     (let c = (case cache of Some s \<Rightarrow> if refresh then detect_env e get else s
               | None \<Rightarrow> detect_env e get) in (c, Some c))"

text \<open>\<open>env.get(c)\<close> as a truth value.\<close>

definition env_has :: "env_state \<Rightarrow> string \<Rightarrow> bool" where
  "env_has s c =
     (case map_of (es_flags s) c of
        Some b \<Rightarrow> b
      | None \<Rightarrow> c = ''openssl_fips_provider'' \<and> es_provider s \<noteq> None
             \<or> c = ''openssl_major'' \<and> es_major s \<noteq> None \<and> es_major s \<noteq> Some 0)"

record fips_report =
  kernel_fips :: bool
  fr_provider :: "fips_provider option"
  fr_major :: "int option"
  standard :: "string option"
  validated :: bool
  required :: bool
  compliant :: bool

definition fips_status :: "env_state \<Rightarrow> getter \<Rightarrow> fips_report" where
  "fips_status s get =
     (let kernel = env_has s ''fips'';
          (ok, std) = (if es_provider s \<noteq> None then (True, Some ''140-3'')
            else if kernel \<and> es_major s \<noteq> None \<and> the (es_major s) < 3 then (True, Some ''140-2'')
            else (False, None));
          req = lower (strip (or_empty (get ''fips_required''))) \<in> set [''1'', ''true'', ''yes'', ''on'']
      in \<lparr>kernel_fips = kernel, fr_provider = es_provider s, fr_major = es_major s, standard = std,
          validated = ok, required = req, compliant = (ok \<or> \<not> req)\<rparr>)"

subsection \<open>Entitlements\<close>

definition operator_entitlements :: "'h env \<Rightarrow> string list option" where
  "operator_entitlements e =
     (case environ e ''CERTHEIM_ENTITLEMENTS'' of
        None \<Rightarrow> None
      | Some v \<Rightarrow> if v = [] then None else Some (filter (\<lambda>x. x \<noteq> []) (map strip (split_on (CHR '','') v))))"

definition edition_capabilities :: "string \<Rightarrow> string list" where
  "edition_capabilities ed =
     (if ed \<in> set [''commercial'', ''unlimited'', ''government''] then COMMERCIAL_CAPABILITIES else [])
     @ (if ed = ''government'' then GOVERNMENT_CAPABILITIES else [])"

definition cap_build_tier :: "string \<Rightarrow> nat" where
  "cap_build_tier key =
     (if key \<in> set GOVERNMENT_CAPABILITIES then 2
      else if key \<in> set COMMERCIAL_CAPABILITIES then 1 else 0)"

fun hashable :: "json \<Rightarrow> bool" where
  "hashable (JArr _) = False"
| "hashable (JObj _) = False"
| "hashable _ = True"

definition license_grants :: "license_info result \<Rightarrow> string \<Rightarrow> bool" where
  "license_grants lic key =
     (case lic of
        Inl _ \<Rightarrow> False
      | Inr i \<Rightarrow> li_valid i \<and> list_all hashable (li_entitlements i) \<and>
                (key \<in> set (edition_capabilities (li_edition i)) \<or> JStr key \<in> set (li_entitlements i)))"

definition override_grants :: "'h env \<Rightarrow> string \<Rightarrow> bool" where
  "override_grants e key =
     (case operator_entitlements e of None \<Rightarrow> False | Some ent \<Rightarrow> ''*'' \<in> set ent \<or> key \<in> set ent)"

definition resolve_key :: "string \<Rightarrow> string" where
  "resolve_key key = (case map_of CAPABILITY_EQUIVALENTS key of None \<Rightarrow> key | Some k \<Rightarrow> k)"

definition is_entitled :: "'h env \<Rightarrow> license_info result \<Rightarrow> string \<Rightarrow> bool" where
  "is_entitled e lic key0 =
     (let key = resolve_key key0 in
      if key \<in> set LICENSED_CAPABILITIES then
        (if \<not> build_includes_tier (stamp e) (cap_build_tier key) then False
         else if dev_overrides_allowed e \<and> override_grants e key then True
         else license_grants lic key)
      else operator_entitlements e = None \<or> override_grants e key)"

record cap_status =
  cs_key :: string
  cs_available :: bool
  cs_reason :: string
  cs_upgrade :: bool

definition cap_status_of :: "'h env \<Rightarrow> license_info result \<Rightarrow> env_state \<Rightarrow> string \<Rightarrow> cap_status" where
  "cap_status_of e lic s key =
     (case map_of CAPABILITIES key of
        None \<Rightarrow> \<lparr>cs_key = key, cs_available = False, cs_reason = ''unknown capability'', cs_upgrade = False\<rparr>
      | Some spec \<Rightarrow>
          let licensed = key \<in> set LICENSED_CAPABILITIES;
              missing = filter (\<lambda>c. \<not> env_has s c) (needs spec) in
          if \<not> is_entitled e lic key
          then \<lparr>cs_key = key, cs_available = False,
                cs_reason = (if licensed then ''upgrade'' else ''not licensed''), cs_upgrade = licensed\<rparr>
          else if missing \<noteq> []
          then \<lparr>cs_key = key, cs_available = False,
                cs_reason = ''unavailable in this environment: needs '' @ join '', '' missing,
                cs_upgrade = False\<rparr>
          else \<lparr>cs_key = key, cs_available = True, cs_reason = [], cs_upgrade = False\<rparr>)"

definition available :: "'h env \<Rightarrow> license_info result \<Rightarrow> env_state \<Rightarrow> string \<Rightarrow> bool" where
  "available e lic s key = cs_available (cap_status_of e lic s key)"

definition all_status :: "'h env \<Rightarrow> license_info result \<Rightarrow> env_state \<Rightarrow> (cap_status \<times> string) list" where
  "all_status e lic s = map (\<lambda>(k, spec). (cap_status_of e lic s k, desc spec)) CAPABILITIES"

subsection \<open>Facts\<close>

lemma licensed_keys_fixed:
  "key \<in> set LICENSED_CAPABILITIES \<Longrightarrow> resolve_key key = key"
  "key \<in> set LICENSED_CAPABILITIES \<Longrightarrow> 1 \<le> cap_build_tier key"
proof -
  have "list_all (\<lambda>k. resolve_key k = k \<and> 1 \<le> cap_build_tier k) LICENSED_CAPABILITIES"
    by code_simp
  then show "key \<in> set LICENSED_CAPABILITIES \<Longrightarrow> resolve_key key = key"
    "key \<in> set LICENSED_CAPABILITIES \<Longrightarrow> 1 \<le> cap_build_tier key"
    by (auto simp: list_all_iff)
qed

lemma community_rank [simp]: "edition_rank this_build = 0"
  by code_simp

lemma available_iff:
  "available e lic s key \<longleftrightarrow>
     (\<exists>spec. map_of CAPABILITIES key = Some spec \<and> is_entitled e lic key \<and> (\<forall>c\<in>set (needs spec). env_has s c))"
  by (auto simp: available_def cap_status_of_def Let_def filter_empty_conv split: option.splits)

text \<open>
  The build is the ceiling and the license the key. A licensed capability is available
  exactly when this build contains its tier, the environment provides what it needs, and
  either a valid license grants it or the build honours an operator override naming it;
  so a release build ignores the override, and no license unlocks a tier the build lacks.
\<close>
theorem licensed_capability_gate:
  assumes "key \<in> set LICENSED_CAPABILITIES" "map_of CAPABILITIES key = Some spec"
  shows "available e lic s key \<longleftrightarrow>
    cap_build_tier key \<le> edition_rank (stamp e) \<and>
    (license_grants lic key \<or> (\<not> is_release e \<and> override_grants e key)) \<and>
    (\<forall>c\<in>set (needs spec). env_has s c)"
  using assms
  by (auto simp: available_iff is_entitled_def Let_def licensed_keys_fixed build_includes_tier_def
      dev_overrides_allowed_def)

theorem licensed_capability_gate_witness:
  "\<not> available sample_env (Inl ValueError) \<lparr>es_flags = [], es_provider = None, es_major = None\<rparr> ''auth.cac''"
proof -
  have "''auth.cac'' \<in> set LICENSED_CAPABILITIES" "cap_build_tier ''auth.cac'' = 2"
    "map_of CAPABILITIES ''auth.cac'' = Some \<lparr>needs = [], desc = ''CAC / mTLS authentication''\<rparr>"
    by code_simp+
  moreover have "edition_rank (stamp sample_env) = 0" by (simp add: sample_env_def edition_rank_def EDITION_RANK_def)
  ultimately show ?thesis by (simp add: licensed_capability_gate)
qed

text \<open>
  In the Community build no license file and no environment variable makes any of the
  paid capabilities available.
\<close>
theorem community_build_unlocks_nothing:
  assumes "stamp e = this_build" "key \<in> set LICENSED_CAPABILITIES"
  shows "\<not> available e lic s key \<and> \<not> is_entitled e lic key"
  using assms licensed_keys_fixed [OF assms(2)]
  by (auto simp: available_iff is_entitled_def Let_def build_includes_tier_def)

theorem community_build_unlocks_nothing_witness:
  "\<not> is_entitled (sample_env \<lparr>stamp := this_build, environ := (\<lambda>n. Some ''*'')\<rparr>) (Inl ValueError)
     ''ca.signing.openbao''"
proof -
  have "''ca.signing.openbao'' \<in> set LICENSED_CAPABILITIES" by code_simp
  then show ?thesis
    using community_build_unlocks_nothing [of "sample_env \<lparr>stamp := this_build, environ := (\<lambda>n. Some ''*'')\<rparr>"]
    by simp
qed

text \<open>
  Every capability of the catalog that carries a paid tier is registered as licensed, the
  registries do not overlap, each edition's grants include those of the editions below it,
  and an unregistered key is granted only when the operator set no override list that
  leaves it out.
\<close>
theorem capability_registry:
  "set FREE_CAPABILITIES \<inter> set LICENSED_CAPABILITIES = {} \<and>
   set HIGHER_TIER_REFERENCES \<inter> set LICENSED_CAPABILITIES = {} \<and>
   set LICENSED_CAPABILITIES \<subseteq> fst ` set CAPABILITIES \<and>
   (\<forall>key. cap_build_tier key > 0 \<longleftrightarrow> key \<in> set LICENSED_CAPABILITIES) \<and>
   set (edition_capabilities ''community'') = {} \<and>
   set (edition_capabilities ''unlimited'') = set (edition_capabilities ''commercial'') \<and>
   set (edition_capabilities ''commercial'') \<subseteq> set (edition_capabilities ''government'') \<and>
   set (edition_capabilities ''government'') = set LICENSED_CAPABILITIES"
proof -
  have "list_all (\<lambda>k. k \<notin> set LICENSED_CAPABILITIES) (FREE_CAPABILITIES @ HIGHER_TIER_REFERENCES)"
    "list_all (\<lambda>k. k \<in> set (map fst CAPABILITIES)) LICENSED_CAPABILITIES"
    by code_simp+
  moreover have "cap_build_tier key > 0 \<longleftrightarrow> key \<in> set LICENSED_CAPABILITIES" for key
    by (auto simp: cap_build_tier_def LICENSED_CAPABILITIES_def)
  moreover have "edition_capabilities ''community'' = []"
    "edition_capabilities ''unlimited'' = COMMERCIAL_CAPABILITIES"
    "edition_capabilities ''commercial'' = COMMERCIAL_CAPABILITIES"
    "edition_capabilities ''government'' = LICENSED_CAPABILITIES"
    by (simp_all add: edition_capabilities_def LICENSED_CAPABILITIES_def)
  ultimately show ?thesis by (auto simp: list_all_iff LICENSED_CAPABILITIES_def)
qed

theorem capability_registry_witness:
  "cap_build_tier ''auth.cac'' > 0 \<and> ''auth.cac'' \<in> set LICENSED_CAPABILITIES"
proof -
  have "''auth.cac'' \<in> set LICENSED_CAPABILITIES" by code_simp
  then show ?thesis using capability_registry by blast
qed

end
