(* ===== verification/World.thy ===== *)
theory World
  imports Capabilities
begin

text \<open>
  The state of the application and the request plumbing of \<^verbatim>\<open>backend/app.py\<close>: one record per
  database table, the in-memory sessions, the two audit sinks, settings, dates, and how a
  handler ends (a reply, an abort, an unexpected exception). A \<open>handler\<close> is a function of
  the request and the state, composed with its decorators the way the code stacks them.
\<close>

subsection \<open>Tables\<close>

record user =
  u_dn :: string
  u_cn :: string
  u_email :: "string option"
  u_is_admin :: bool
  u_is_active :: bool
  u_tutorial_dismissed :: bool
  u_created_at :: time
  u_last_seen_at :: time
  u_notes :: "string option"
  u_username :: "string option"
  u_password_hash :: "string option"
  u_auth_status :: string
  u_failed_attempts :: int
  u_locked_until :: time
  u_first_name :: "string option"
  u_last_name :: "string option"

definition new_user :: "string \<Rightarrow> string \<Rightarrow> time \<Rightarrow> user" where
  "new_user dn cn now =
    \<lparr>u_dn = dn, u_cn = cn, u_email = None, u_is_admin = False, u_is_active = True,
     u_tutorial_dismissed = False, u_created_at = now, u_last_seen_at = now, u_notes = None,
     u_username = None, u_password_hash = None, u_auth_status = ''active'',
     u_failed_attempts = 0, u_locked_until = 0, u_first_name = None, u_last_name = None\<rparr>"

record local_session =
  s_token :: string
  s_dn :: string
  s_created_at :: time
  s_expires_at :: time

record key_session =
  k_sid :: string
  k_dn :: string
  k_created :: time
  k_expires :: time
  k_keys :: "string list"

record grp =
  g_id :: int
  g_name :: string
  g_description :: "string option"
  g_email :: "string option"
  g_notify :: bool
  g_created_at :: time

datatype role = Owner | Member

fun role_str :: "role \<Rightarrow> string" where
  "role_str Owner = ''owner''"
| "role_str Member = ''member''"

record member =
  m_dn :: string
  m_gid :: int
  m_added_at :: time
  m_role :: role

datatype status = Pending | Issued | Failed | Cancelled | Expired | Revoked

fun status_str :: "status \<Rightarrow> string" where
  "status_str Pending = ''pending''"
| "status_str Issued = ''issued''"
| "status_str Failed = ''failed''"
| "status_str Cancelled = ''cancelled''"
| "status_str Expired = ''expired''"
| "status_str Revoked = ''revoked''"

record job =
  j_id :: string
  j_created_at :: time
  j_requester_dn :: string
  j_requester_serial :: "string option"
  j_requester_ip :: "string option"
  j_requester_email :: "string option"
  j_target_host :: string
  j_sans :: "string list"
  j_csr_pem :: string
  j_cert_pem :: "string option"
  j_status :: status
  j_completed_at :: "time option"
  j_completed_by_dn :: "string option"
  j_error :: "string option"
  j_has_local_key :: bool
  j_local_key_name :: "string option"
  j_source :: string
  j_auto_renewed_at :: "time option"
  j_group_id :: "int option"
  j_cert_type :: "string option"
  j_expires_at :: "time option"
  j_renewed_from :: "string option"
  j_key_algo :: "string option"
  j_expiry_warned :: int
  j_approved_by_dn :: "string option"
  j_approved_at :: "time option"
  j_signed_via :: "string option"
  j_template_id :: "int option"
  j_revoked_at :: "time option"
  j_revoked_by_dn :: "string option"
  j_delivery_status :: "string option"
  j_key_vault_path :: "string option"
  j_key_storage :: "string option"
  j_chain_pem :: "string option"

record template =
  t_id :: int
  t_name :: string
  t_description :: "string option"
  t_cert_types :: string
  t_owner_dn :: "string option"
  t_group_id :: "int option"
  t_created_at :: time
  t_created_by_dn :: string
  t_signer_backend :: string
  t_openbao_role :: "string option"
  t_max_ttl :: "int option"
  t_auto_sign :: bool
  t_auto_renew :: bool
  t_renew_before_days :: "int option"
  t_delivery_backend :: string
  t_key_mode :: string
  t_delivery_target :: "string option"
  t_delivery_reload :: "string option"
  t_key_storage :: "string option"

record webhook =
  h_id :: int
  h_name :: string
  h_url :: string
  h_events :: string
  h_headers :: "string option"
  h_enabled :: bool
  h_type :: string
  h_created_at :: time
  h_created_by_dn :: "string option"
  h_last_called :: "time option"
  h_last_status :: "int option"
  h_last_error :: "string option"
  h_calls :: nat

record fleet_cert =
  f_id :: int
  f_host :: string
  f_path :: string
  f_fingerprint :: string
  f_cn :: "string option"
  f_sans :: "string list"
  f_issuer :: "string option"
  f_serial :: "string option"
  f_not_before :: "time option"
  f_expires_at :: "time option"
  f_cert_types :: "string option"
  f_notify_email :: "string option"
  f_first_seen :: time
  f_last_seen :: time
  f_expiry_warned :: int
  f_pem :: "string option"

record trust_cert =
  tc_id :: int
  tc_name :: string
  tc_fingerprint :: string
  tc_pem :: string
  tc_role :: string
  tc_subject :: string
  tc_issuer :: string
  tc_serial :: "string option"
  tc_not_before :: "time option"
  tc_expires_at :: "time option"
  tc_enabled :: bool
  tc_created_at :: time
  tc_created_by :: string
  tc_notes :: "string option"

record trust_target =
  tt_id :: int
  tt_host :: string
  tt_label :: "string option"
  tt_enabled :: bool
  tt_last_status :: "string option"
  tt_last_pushed_at :: "time option"
  tt_last_detail :: "string option"
  tt_created_at :: time
  tt_created_by :: string

record trust_pull =
  tp_token :: string
  tp_created_at :: time
  tp_expires_at :: time
  tp_max_uses :: nat
  tp_uses :: nat
  tp_last_pull_at :: "time option"
  tp_last_pull_ip :: "string option"

record feedback =
  fb_id :: int
  fb_user_dn :: string
  fb_submitted_at :: time
  fb_category :: string
  fb_message :: string
  fb_status :: string
  fb_read_at :: "time option"
  fb_read_by_dn :: "string option"
  fb_resolved_at :: "time option"
  fb_resolved_by_dn :: "string option"
  fb_notes :: "string option"

text \<open>A line of the audit stream, and its copy in the searchable table.\<close>

record log_entry =
  e_req :: string
  e_src :: string
  e_user :: string
  e_serial :: string
  e_action :: string
  e_result :: string
  e_extra :: "(string \<times> string) list"

record audit_row =
  a_ts :: time
  a_actor :: "string option"
  a_action :: string
  a_result :: string
  a_detail :: "(string \<times> string) list"

record 'h world =
  w_users :: "user list"
  w_sessions :: "local_session list"
  w_keysess :: "key_session list"
  w_settings :: "string \<Rightarrow> string option"
  w_groups :: "grp list"
  w_members :: "member list"
  w_gid_seq :: int
  w_jobs :: "job list"
  w_templates :: "template list"
  w_tid_seq :: int
  w_webhooks :: "webhook list"
  w_hid_seq :: int
  w_trust :: "trust_cert list"
  w_trust_seq :: int
  w_targets :: "trust_target list"
  w_target_seq :: int
  w_pulls :: "trust_pull list"
  w_feedback :: "feedback list"
  w_fid_seq :: int
  w_fleet :: "fleet_cert list"
  w_fleet_seq :: int
  w_issued :: "(string \<times> string) list"
  w_log :: "log_entry list"
  w_audit :: "audit_row list"
  w_fired :: "(int \<times> string \<times> json \<times> json) list"
  w_mail :: "(string \<times> (string \<times> json) list) list"
  w_envcaps :: "env_state option"
  w_rand :: nat
  w_host :: 'h

subsection \<open>Requests\<close>

record identity =
  id_dn :: string
  id_serial :: string
  id_via :: string

text \<open>
  The request context; \<open>c_identity\<close> is None in a background pass. \<open>c_now\<close> is the clock,
  read once per request.
\<close>

record ctx =
  c_now :: time
  c_identity :: "identity option"
  c_user :: "user option"
  c_method :: string
  c_headers :: "string \<Rightarrow> string option"
  c_cookies :: "string \<Rightarrow> string option"
  c_body :: "json option"
  c_args :: "string \<Rightarrow> string option"
  c_remote :: string
  c_req_id :: string

type_synonym 'h handler = "ctx \<Rightarrow> 'h world \<Rightarrow> response \<times> 'h world"

definition me :: "ctx \<Rightarrow> string" where
  "me c = (case c_identity c of None \<Rightarrow> [] | Some i \<Rightarrow> id_dn i)"

definition is_admin :: "ctx \<Rightarrow> bool" where
  "is_admin c = (case c_user c of None \<Rightarrow> False | Some u \<Rightarrow> u_is_admin u)"

definition drawn :: "'h env \<Rightarrow> 'h world \<Rightarrow> string" where
  "drawn e w = rand e (w_rand w)"

definition tick :: "'h world \<Rightarrow> 'h world" where
  "tick w = w\<lparr>w_rand := Suc (w_rand w)\<rparr>"

lemma tick_frame [simp]:
  "w_users (tick w) = w_users w" "w_sessions (tick w) = w_sessions w" "w_keysess (tick w) = w_keysess w"
  "w_settings (tick w) = w_settings w" "w_jobs (tick w) = w_jobs w" "w_groups (tick w) = w_groups w"
  "w_members (tick w) = w_members w" "w_host (tick w) = w_host w" "w_templates (tick w) = w_templates w"
  by (simp_all add: tick_def)

subsection \<open>Audit\<close>

text \<open>
  \<^verbatim>\<open>log_event\<close>: one line in the audit stream, one row in the table. The row is written over
  a connection of its own; called while the caller's transaction holds the write lock of an
  SQLite database it waits for the lock, fails, and the failure is swallowed
  (\<open>log_event_in_tx\<close>); PostgreSQL has no such lock.
\<close>

definition log_line :: "ctx \<Rightarrow> string \<Rightarrow> string \<Rightarrow> (string \<times> string) list \<Rightarrow> log_entry" where
  "log_line c action result extra =
     (case c_identity c of
        None \<Rightarrow> \<lparr>e_req = ''system'', e_src = ''-'', e_user = ''-'', e_serial = ''-'',
                 e_action = action, e_result = result, e_extra = extra\<rparr>
      | Some i \<Rightarrow> \<lparr>e_req = c_req_id c, e_src = c_remote c, e_user = id_dn i, e_serial = id_serial i,
                 e_action = action, e_result = result, e_extra = extra\<rparr>)"

definition log_row :: "ctx \<Rightarrow> string \<Rightarrow> string \<Rightarrow> (string \<times> string) list \<Rightarrow> audit_row" where
  "log_row c action result extra =
    \<lparr>a_ts = c_now c, a_actor = map_option id_dn (c_identity c), a_action = action, a_result = result,
     a_detail = map (\<lambda>(k, v). (k, take 256 v)) extra\<rparr>"

definition log_event :: "ctx \<Rightarrow> string \<Rightarrow> string \<Rightarrow> (string \<times> string) list \<Rightarrow> 'h world \<Rightarrow> 'h world" where
  "log_event c action result extra w =
     w\<lparr>w_log := w_log w @ [log_line c action result extra],
       w_audit := w_audit w @ [log_row c action result extra]\<rparr>"

definition log_event_in_tx ::
  "'h env \<Rightarrow> ctx \<Rightarrow> string \<Rightarrow> string \<Rightarrow> (string \<times> string) list \<Rightarrow> 'h world \<Rightarrow> 'h world" where
  "log_event_in_tx e c action result extra w =
     (if IS_POSTGRES e then log_event c action result extra w
      else w\<lparr>w_log := w_log w @ [log_line c action result extra]\<rparr>)"

subsection \<open>How a handler ends\<close>

text \<open>The error handler: \<open>abort\<close> is an HTTP exception, \<open>crash\<close> any other exception.\<close>

definition failure :: "'h env \<Rightarrow> ctx \<Rightarrow> nat \<Rightarrow> string \<Rightarrow> response" where
  "failure e c code msg = reply code (JObj [(''error'', JStr msg), (''request_id'', JStr (c_req_id c))])"

definition http_name :: "nat \<Rightarrow> string" where
  "http_name code = (if code = 400 then ''BadRequest'' else if code = 403 then ''Forbidden''
     else if code = 404 then ''NotFound'' else ''HTTPException'')"

definition abort :: "'h env \<Rightarrow> ctx \<Rightarrow> nat \<Rightarrow> 'h world \<Rightarrow> response \<times> 'h world" where
  "abort e c code w =
     (failure e c code (http_description e code),
      log_event c ''error'' ''exception'' [(''code'', nat_str code), (''type'', http_name code)] w)"

definition crash :: "'h env \<Rightarrow> ctx \<Rightarrow> py_error \<Rightarrow> 'h world \<Rightarrow> response \<times> 'h world" where
  "crash e c err w =
     (failure e c 500 ''internal error'',
      log_event c ''error'' ''exception'' [(''code'', ''500''), (''type'', err_name err)] w)"

definition attempt ::
  "'h env \<Rightarrow> ctx \<Rightarrow> 'a result \<Rightarrow> 'h world \<Rightarrow> ('a \<Rightarrow> response \<times> 'h world) \<Rightarrow> response \<times> 'h world" where
  "attempt e c r w k = (case r of Inl err \<Rightarrow> crash e c err w | Inr x \<Rightarrow> k x)"

definition with_payload ::
  "'h env \<Rightarrow> ctx \<Rightarrow> 'h world \<Rightarrow> (json \<Rightarrow> response \<times> 'h world) \<Rightarrow> response \<times> 'h world" where
  "with_payload e c w k = attempt e c (payload_of (c_body c)) w k"

definition refuse :: "nat \<Rightarrow> string \<Rightarrow> 'h world \<Rightarrow> response \<times> 'h world" where
  "refuse code msg w = (error_reply code msg, w)"

lemma attempt_simps [simp]:
  "attempt e c (Inl err) w k = crash e c err w" "attempt e c (Inr x) w k = k x"
  by (simp_all add: attempt_def)

lemma status_failures [simp]:
  "status_code (failure e c n m) = n" "status_code (fst (abort e c n w)) = n"
  "status_code (fst (crash e c err w)) = 500" "status_code (fst (refuse n m w)) = n"
  by (simp_all add: failure_def abort_def crash_def refuse_def)

text \<open>Logging touches the two sinks only.\<close>

lemma log_event_frame [frame_simps, simp]:
  "w_users (log_event c a r x w) = w_users w" "w_sessions (log_event c a r x w) = w_sessions w"
  "w_keysess (log_event c a r x w) = w_keysess w" "w_settings (log_event c a r x w) = w_settings w"
  "w_groups (log_event c a r x w) = w_groups w" "w_members (log_event c a r x w) = w_members w"
  "w_jobs (log_event c a r x w) = w_jobs w" "w_templates (log_event c a r x w) = w_templates w"
  "w_rand (log_event c a r x w) = w_rand w" "w_host (log_event c a r x w) = w_host w"
  "w_webhooks (log_event c a r x w) = w_webhooks w" "w_gid_seq (log_event c a r x w) = w_gid_seq w"
  "w_fired (log_event c a r x w) = w_fired w" "w_mail (log_event c a r x w) = w_mail w"
  "w_fleet (log_event c a r x w) = w_fleet w" "w_tid_seq (log_event c a r x w) = w_tid_seq w"
  "w_issued (log_event c a r x w) = w_issued w" "w_envcaps (log_event c a r x w) = w_envcaps w"
  "w_trust (log_event c a r x w) = w_trust w" "w_targets (log_event c a r x w) = w_targets w"
  "w_pulls (log_event c a r x w) = w_pulls w" "w_feedback (log_event c a r x w) = w_feedback w"
  by (simp_all add: log_event_def)

lemma log_event_in_tx_frame [frame_simps, simp]:
  "w_users (log_event_in_tx e c a r x w) = w_users w"
  "w_sessions (log_event_in_tx e c a r x w) = w_sessions w"
  "w_settings (log_event_in_tx e c a r x w) = w_settings w"
  "w_keysess (log_event_in_tx e c a r x w) = w_keysess w"
  "w_groups (log_event_in_tx e c a r x w) = w_groups w"
  "w_members (log_event_in_tx e c a r x w) = w_members w"
  "w_jobs (log_event_in_tx e c a r x w) = w_jobs w"
  "w_rand (log_event_in_tx e c a r x w) = w_rand w"
  "w_fired (log_event_in_tx e c a r x w) = w_fired w"
  "\<not> IS_POSTGRES e \<Longrightarrow> w_audit (log_event_in_tx e c a r x w) = w_audit w"
  by (simp_all add: log_event_in_tx_def)

lemma failure_frame [frame_simps, simp]:
  "w_users (snd (abort e c n w)) = w_users w" "w_users (snd (crash e c err w)) = w_users w"
  "w_sessions (snd (abort e c n w)) = w_sessions w" "w_sessions (snd (crash e c err w)) = w_sessions w"
  "w_settings (snd (abort e c n w)) = w_settings w" "w_settings (snd (crash e c err w)) = w_settings w"
  "w_keysess (snd (abort e c n w)) = w_keysess w" "w_keysess (snd (crash e c err w)) = w_keysess w"
  "w_groups (snd (abort e c n w)) = w_groups w" "w_groups (snd (crash e c err w)) = w_groups w"
  "w_members (snd (abort e c n w)) = w_members w" "w_members (snd (crash e c err w)) = w_members w"
  "w_jobs (snd (abort e c n w)) = w_jobs w" "w_jobs (snd (crash e c err w)) = w_jobs w"
  "w_fired (snd (abort e c n w)) = w_fired w" "w_fired (snd (crash e c err w)) = w_fired w"
  by (simp_all add: abort_def crash_def)

lemma refuse_snd [frame_simps, simp]: "snd (refuse n m w) = w"
  by (simp add: refuse_def)

subsection \<open>Settings\<close>

definition SETTINGS_DEFAULTS :: "(string \<times> string) list" where
  "SETTINGS_DEFAULTS =
    [(''trusted_email_domain'', ''''), (''require_admin_approval'', ''0''),
     (''allow_registration'', ''0''), (''login_banner'', ''none''),
     (''login_banner_custom_title'', ''Notice and Consent''), (''login_banner_custom_text'', '''')]"

definition get_setting :: "'h world \<Rightarrow> string \<Rightarrow> string option" where
  "get_setting w key = (case w_settings w key of Some v \<Rightarrow> Some v | None \<Rightarrow> map_of SETTINGS_DEFAULTS key)"

definition set_setting :: "string \<Rightarrow> string \<Rightarrow> 'h world \<Rightarrow> 'h world" where
  "set_setting key v w = w\<lparr>w_settings := (w_settings w)(key \<mapsto> v)\<rparr>"

lemma get_set_setting [simp]:
  "get_setting (set_setting k v w) k' = (if k' = k then Some v else get_setting w k')"
  by (simp add: get_setting_def set_setting_def)

lemma set_setting_frame [frame_simps, simp]:
  "w_users (set_setting k v w) = w_users w" "w_sessions (set_setting k v w) = w_sessions w"
  "w_jobs (set_setting k v w) = w_jobs w" "w_rand (set_setting k v w) = w_rand w"
  "w_groups (set_setting k v w) = w_groups w" "w_members (set_setting k v w) = w_members w"
  "w_keysess (set_setting k v w) = w_keysess w" "w_audit (set_setting k v w) = w_audit w"
  "w_trust (set_setting k v w) = w_trust w" "w_host (set_setting k v w) = w_host w"
  by (simp_all add: set_setting_def)

lemma get_setting_cong: "w_settings w' = w_settings w \<Longrightarrow> get_setting w' = get_setting w"
  by (simp add: get_setting_def fun_eq_iff)

text \<open>The capability layer reads the license blob and the declared flags from the settings.\<close>

definition license_in :: "'h env \<Rightarrow> ctx \<Rightarrow> 'h world \<Rightarrow> license_info result" where
  "license_in e c w = license_now e (get_setting w ''license_blob'') (c_now c)"

definition entitled_in :: "'h env \<Rightarrow> ctx \<Rightarrow> 'h world \<Rightarrow> string \<Rightarrow> bool" where
  "entitled_in e c w key = is_entitled e (license_in e c w) key"

text \<open>
  \<open>w_envcaps\<close> is the snapshot of the environment detection the process holds (None: every lookup detects
  again, which gives the same answer, as detection is a function of the environment).
\<close>

definition available_in :: "'h env \<Rightarrow> ctx \<Rightarrow> 'h world \<Rightarrow> string \<Rightarrow> bool" where
  "available_in e c w key =
     available e (license_in e c w) (fst (env_caps e (get_setting w) False (w_envcaps w))) key"

lemma entitled_in_cong:
  "w_settings w' = w_settings w \<Longrightarrow> entitled_in e c w' = entitled_in e c w"
  by (simp add: entitled_in_def license_in_def fun_eq_iff get_setting_cong [of w' w])

subsection \<open>Dates\<close>

text \<open>\<^verbatim>\<open>time.strptime(s, "%b %d %H:%M:%S %Y %Z")\<close> followed by \<open>calendar.timegm\<close>.\<close>

definition month_names :: "string list" where
  "month_names = [''jan'', ''feb'', ''mar'', ''apr'', ''may'', ''jun'', ''jul'', ''aug'',
                  ''sep'', ''oct'', ''nov'', ''dec'']"

definition is_leap :: "int \<Rightarrow> bool" where
  "is_leap y = (y mod 4 = 0 \<and> (y mod 100 \<noteq> 0 \<or> y mod 400 = 0))"

definition month_days :: "int \<Rightarrow> nat \<Rightarrow> int" where
  "month_days y m = (if m = 1 then (if is_leap y then 29 else 28)
     else if m \<in> {3, 5, 8, 10} then 30 else 31)"

definition days_before_year :: "int \<Rightarrow> int" where
  "days_before_year y = (let p = y - 1 in p * 365 + p div 4 - p div 100 + p div 400)"

definition timegm :: "int \<Rightarrow> nat \<Rightarrow> int \<Rightarrow> int \<Rightarrow> int \<Rightarrow> int \<Rightarrow> time" where
  "timegm y m d h mi s =
     (let days = days_before_year y + sum_list (map (month_days y) [0..<m]) + d - 1 - days_before_year 1970
      in ((days * 24 + h) * 60 + mi) * 60 + s)"

definition index_of :: "string list \<Rightarrow> string \<Rightarrow> nat option" where
  "index_of xs x = (let n = length (takeWhile (\<lambda>y. y \<noteq> x) xs) in if n < length xs then Some n else None)"

definition num_in :: "nat \<Rightarrow> int \<Rightarrow> int \<Rightarrow> string \<Rightarrow> int option" where
  "num_in width lo hi s =
     (if s \<noteq> [] \<and> length s \<le> width \<and> list_all is_digit s \<and> lo \<le> int (digits_val s) \<and> int (digits_val s) \<le> hi
      then Some (int (digits_val s)) else None)"

definition parse_time :: "string \<Rightarrow> (int \<times> int \<times> int) option" where
  "parse_time s =
     (case split_on (CHR '':'') s of
        [h, m, sec] \<Rightarrow>
          (case (num_in 2 0 23 h, num_in 2 0 59 m, num_in 2 0 61 sec) of
             (Some a, Some b, Some d) \<Rightarrow> Some (a, b, d) | _ \<Rightarrow> None)
      | _ \<Rightarrow> None)"

definition parse_date :: "string \<Rightarrow> time option" where
  "parse_date s =
     (case (if s \<noteq> [] \<and> (is_space (hd s) \<or> is_space (last s)) then [] else words s) of
        [mon, day, clock, year, zone] \<Rightarrow>
          (case (index_of month_names (lower mon), num_in 2 1 31 day, parse_time clock) of
             (Some m, Some d, Some (h, mi, sec)) \<Rightarrow>
               (if length year = 4 \<and> list_all is_digit year \<and> lower zone \<in> {''gmt'', ''utc''}
                   \<and> 0 < int (digits_val year) \<and> d \<le> month_days (int (digits_val year)) m
                then Some (timegm (int (digits_val year)) m d h mi sec) else None)
           | _ \<Rightarrow> None)
      | _ \<Rightarrow> None)"

lemma epoch_start: "timegm 1970 0 1 0 0 0 = 0"
  by code_simp

subsection \<open>A concrete state and request\<close>

text \<open>Empty tables and a request without a session, for closed instances.\<close>

definition sample_world :: "unit world" where
  "sample_world =
    \<lparr>w_users = [], w_sessions = [], w_keysess = [], w_settings = (\<lambda>k. None), w_groups = [],
     w_members = [], w_gid_seq = 0, w_jobs = [], w_templates = [], w_tid_seq = 0, w_webhooks = [], w_hid_seq = 0,
     w_trust = [], w_trust_seq = 0, w_targets = [], w_target_seq = 0, w_pulls = [], w_feedback = [], w_fid_seq = 0,
     w_fleet = [], w_fleet_seq = 0, w_issued = [], w_log = [], w_audit = [], w_fired = [], w_mail = [], w_envcaps = None,
     w_rand = 0, w_host = ()\<rparr>"

definition sample_ctx :: ctx where
  "sample_ctx =
    \<lparr>c_now = 1000, c_identity = Some \<lparr>id_dn = ''CN=ADA'', id_serial = ''1'', id_via = ''cac''\<rparr>,
     c_user = None, c_method = ''POST'', c_headers = (\<lambda>k. None), c_cookies = (\<lambda>k. None),
     c_body = None, c_args = (\<lambda>k. None), c_remote = ''10.0.0.1'', c_req_id = ''r''\<rparr>"

end
