(* ===== verification/Identity.thy ===== *)
theory Identity
  imports World "HOL-Library.List_Lexorder"
begin

text \<open>
  Who is calling, in \<^verbatim>\<open>backend/app.py\<close>: user names, passwords, trusted domains, the
  authentication mode, local sessions and key-access sessions, resolving the identity of a
  request, creating the user row on first contact, and the decorators that guard handlers.
\<close>

subsection \<open>Names\<close>

definition client_identity :: "ctx \<Rightarrow> string \<times> string" where
  "client_identity c =
     (let hd = (\<lambda>k. strip (or_empty (c_headers c k))) in
      if hd ''X-Client-Verify'' = ''SUCCESS'' \<and> hd ''X-Client-DN'' \<noteq> []
      then (hd ''X-Client-DN'', hd ''X-Client-Serial'')
      else (''ip:'' @ c_remote c, ''-''))"

text \<open>\<^verbatim>\<open>NAME_RE = ^[A-Za-z][A-Za-z .'\-]{0,63}$\<close>\<close>

definition name_char :: "char \<Rightarrow> bool" where
  "name_char c = (is_alpha c \<or> c \<in> set [CHR '' '', CHR ''.'', CHR 0x27, CHR ''-''])"

definition NAME_RE :: "string \<Rightarrow> bool" where
  "NAME_RE = at_end (\<lambda>s. case s of [] \<Rightarrow> False
     | c # r \<Rightarrow> is_alpha c \<and> list_all name_char r \<and> length r \<le> 63)"

definition normalize_name_part :: "string \<Rightarrow> string" where
  "normalize_name_part s = filter (\<lambda>c. is_lower c \<or> is_digit c) (lower (strip s))"

definition ascii_fold :: "char \<Rightarrow> char" where
  "ascii_fold c = (if is_upper c then lower_char c else c)"

text \<open>\<open>x LIKE p%\<close> for a \<open>p\<close> without wildcards: SQLite folds ASCII case, PostgreSQL does not.\<close>

definition like_prefix :: "'h env \<Rightarrow> string \<Rightarrow> string \<Rightarrow> bool" where
  "like_prefix e p s =
     (if IS_POSTGRES e then starts_with p s else starts_with (map ascii_fold p) (map ascii_fold s))"

definition username_base :: "string \<Rightarrow> string \<Rightarrow> string" where
  "username_base fname lname =
     (let b = join ''.'' (filter (\<lambda>p. p \<noteq> []) [normalize_name_part fname, normalize_name_part lname])
      in take 60 (if b = [] then ''user'' else b))"

definition taken_names :: "'h env \<Rightarrow> string \<Rightarrow> user list \<Rightarrow> string list" where
  "taken_names e base us =
     (let rows = filter (\<lambda>u. u_username u = Some base
            \<or> (case u_username u of None \<Rightarrow> False | Some n \<Rightarrow> like_prefix e base n)
            \<or> u_dn u = ''local:'' @ base \<or> like_prefix e (''local:'' @ base) (u_dn u)) us
      in concat (map (\<lambda>u. (if set_opt (u_username u) then [or_empty (u_username u)] else [])
            @ (if starts_with ''local:'' (u_dn u) then [drop 6 (u_dn u)] else [])) rows))"

lemma suffix_progress:
  assumes "base @ nat_str n \<in> set taken"
  shows "card {s \<in> set taken. \<exists>m\<ge>Suc n. s = base @ nat_str m} < card {s \<in> set taken. \<exists>m\<ge>n. s = base @ nat_str m}"
proof (rule psubset_card_mono)
  have "base @ nat_str n \<in> {s \<in> set taken. \<exists>m\<ge>n. s = base @ nat_str m}" using assms by auto
  moreover have "base @ nat_str n \<notin> {s \<in> set taken. \<exists>m\<ge>Suc n. s = base @ nat_str m}" by auto
  moreover have "{s \<in> set taken. \<exists>m\<ge>Suc n. s = base @ nat_str m} \<subseteq> {s \<in> set taken. \<exists>m\<ge>n. s = base @ nat_str m}"
    using Suc_leD by fastforce
  ultimately show "{s \<in> set taken. \<exists>m\<ge>Suc n. s = base @ nat_str m} \<subset> {s \<in> set taken. \<exists>m\<ge>n. s = base @ nat_str m}"
    by blast
qed simp

text \<open>The \<open>while\<close> loop over suffixes; it ends because each step uses up a taken name.\<close>

function suffix_search :: "string list \<Rightarrow> string \<Rightarrow> nat \<Rightarrow> string" where
  "suffix_search taken base n =
     (if base @ nat_str n \<in> set taken then suffix_search taken base (Suc n) else base @ nat_str n)"
  by auto
termination
  by (relation "measure (\<lambda>(taken, base, n). card {s \<in> set taken. \<exists>m\<ge>n. s = base @ nat_str m})")
    (simp_all add: suffix_progress)

declare suffix_search.simps [simp del]

definition derive_username :: "'h env \<Rightarrow> string \<Rightarrow> string \<Rightarrow> user list \<Rightarrow> string" where
  "derive_username e fname lname us =
     (let base = username_base fname lname; taken = taken_names e base us in
      if base \<notin> set taken then base else suffix_search taken base 2)"

definition cn_from_dn :: "string \<Rightarrow> string" where
  "cn_from_dn dn =
     (case after_first ''CN='' dn of None \<Rightarrow> dn | Some r \<Rightarrow> strip (takeWhile (\<lambda>c. c \<noteq> CHR '','') r))"

definition find_cn_part :: "string \<Rightarrow> string" where
  "find_cn_part dn =
     (case List.find (\<lambda>p. map upper_ascii (take 3 p) = ''CN='') (map strip (split_on (CHR '','') dn)) of
        None \<Rightarrow> [] | Some p \<Rightarrow> drop 3 p)"

definition parse_dod_cn :: "string \<Rightarrow> string \<times> string" where
  "parse_dod_cn dn =
     (let cn0 = cn_from_dn dn;
          cn = (if cn0 = [] \<or> cn0 = dn then find_cn_part dn else cn0);
          toks0 = filter (\<lambda>t. t \<noteq> []) (split_on (CHR ''.'') cn);
          toks = (if toks0 \<noteq> [] \<and> all_digits (last toks0) then butlast toks0 else toks0)
      in if cn = [] then ([], [])
         else case toks of
           [] \<Rightarrow> ([], []) | [a] \<Rightarrow> ([], title a) | a # b # _ \<Rightarrow> (title b, title a))"

subsection \<open>Passwords\<close>

definition PBKDF2_ITERATIONS :: nat where "PBKDF2_ITERATIONS = 600000"
definition LOCKOUT_THRESHOLD :: int where "LOCKOUT_THRESHOLD = 5"
definition LOCKOUT_SECONDS :: int where "LOCKOUT_SECONDS = 900"
definition PWPOLICY_MIN_LEN :: nat where "PWPOLICY_MIN_LEN = 15"

definition b64encode :: "string \<Rightarrow> string" where
  "b64encode s = map (\<lambda>c. if c = CHR ''-'' then CHR ''+'' else if c = CHR ''_'' then CHR ''/'' else c)
     (b64_encode s)"

definition b64decode :: "string \<Rightarrow> string option" where
  "b64decode s =
     (if list_all (\<lambda>c. cp c < 128) s
      then b64_go 0 0 0 (filter (\<lambda>c. c \<noteq> CHR ''-'' \<and> c \<noteq> CHR ''_'') s) else None)"

definition hash_password :: "'h env \<Rightarrow> string \<Rightarrow> string \<Rightarrow> string" where
  "hash_password e salt password =
     join ''$'' [''pbkdf2_sha256'', nat_str PBKDF2_ITERATIONS, b64encode salt,
       b64encode (pbkdf2 e (utf8 password) salt (int PBKDF2_ITERATIONS))]"

definition verify_password :: "'h env \<Rightarrow> string \<Rightarrow> string option \<Rightarrow> bool" where
  "verify_password e password stored =
     (case split_on (CHR ''$'') (or_empty stored) of
        [algo, iters, b64salt, b64dk] \<Rightarrow>
          (if algo \<noteq> ''pbkdf2_sha256'' then False
           else case (b64decode b64salt, b64decode b64dk, int_of iters) of
             (Some salt, Some expected, Some n) \<Rightarrow>
               1 \<le> n \<and> pbkdf2 e (utf8 password) salt n = expected
           | _ \<Rightarrow> False)
      | _ \<Rightarrow> False)"

definition password_policy_errors :: "string \<Rightarrow> string list" where
  "password_policy_errors pw =
     (if length pw < PWPOLICY_MIN_LEN then [''at least '' @ nat_str PWPOLICY_MIN_LEN @ '' characters''] else [])
     @ (if \<not> list_ex is_upper pw then [''an uppercase letter''] else [])
     @ (if \<not> list_ex is_lower pw then [''a lowercase letter''] else [])
     @ (if \<not> list_ex is_digit pw then [''a digit''] else [])
     @ (if \<not> list_ex (\<lambda>c. \<not> is_alnum c) pw then [''a special character''] else [])"

definition domain_sep :: "char \<Rightarrow> bool" where
  "domain_sep c = (is_space c \<or> c = CHR '','' \<or> c = CHR '';'')"

definition lstrip_at :: "string \<Rightarrow> string" where
  "lstrip_at s = dropWhile (\<lambda>c. c = CHR ''@'') (strip s)"

definition parse_trusted_domains :: "string \<Rightarrow> string list" where
  "parse_trusted_domains raw =
     dedup_key (\<lambda>x. x) [] (map lstrip_at (pieces domain_sep (lower (strip raw))))"

subsection \<open>Authentication mode\<close>

definition auth_mode :: "'h env \<Rightarrow> 'h world \<Rightarrow> string \<times> 'h world" where
  "auth_mode e w =
     (let mode = or_empty (get_setting w ''auth_mode'') in
      if mode \<noteq> [] then (mode, w)
      else
        let env_mode = lower (strip (getenv e ''CERTHEIM_AUTH_MODE'' ''''));
            m = (if w_users w = [] \<and> env_mode \<in> set [''local'', ''mtls''] then env_mode else ''mtls'')
        in (m, set_setting ''auth_mode'' m w))"

subsection \<open>Local sessions\<close>

definition create_local_session :: "'h env \<Rightarrow> ctx \<Rightarrow> string \<Rightarrow> 'h world \<Rightarrow> string result \<times> 'h world" where
  "create_local_session e c user_dn w =
     (let tok = drawn e w; w1 = tick w in
      case insert_row s_token \<lparr>s_token = tok, s_dn = user_dn, s_created_at = c_now c,
             s_expires_at = c_now c + SESSION_TTL e\<rparr> (w_sessions w1) of
        None \<Rightarrow> (Inl IntegrityError, w1)
      | Some ss \<Rightarrow> (Inr tok, w1\<lparr>w_sessions := ss\<rparr>))"

definition session_user_dn :: "ctx \<Rightarrow> string \<Rightarrow> 'h world \<Rightarrow> string option \<times> 'h world" where
  "session_user_dn c token w =
     (if token = [] then (None, w)
      else case row_by s_token token (w_sessions w) of
        None \<Rightarrow> (None, w)
      | Some s \<Rightarrow>
          if s_expires_at s < c_now c
          then (None, w\<lparr>w_sessions := remove_row s_token token (w_sessions w)\<rparr>)
          else (Some (s_dn s), w))"

definition destroy_local_session :: "string \<Rightarrow> 'h world \<Rightarrow> 'h world" where
  "destroy_local_session token w =
     (if token = [] then w else w\<lparr>w_sessions := remove_row s_token token (w_sessions w)\<rparr>)"

definition local_identity :: "ctx \<Rightarrow> 'h world \<Rightarrow> identity option \<times> 'h world" where
  "local_identity c w =
     (case session_user_dn c (or_empty (c_cookies c ''csr_session'')) w of
        (dn, w1) \<Rightarrow> (if set_opt dn
                     then (Some \<lparr>id_dn = or_empty dn, id_serial = ''-'', id_via = ''local''\<rparr>, w1)
                     else (None, w1)))"

definition anonymous :: "ctx \<Rightarrow> identity" where
  "anonymous c = \<lparr>id_dn = ''ip:'' @ c_remote c, id_serial = ''-'', id_via = ''none''\<rparr>"

definition resolve_identity :: "'h env \<Rightarrow> ctx \<Rightarrow> 'h world \<Rightarrow> identity \<times> 'h world" where
  "resolve_identity e c w =
     (case auth_mode e w of
        (mode, w1) \<Rightarrow>
          if mode = ''mtls'' then
            (let hd = (\<lambda>k. strip (or_empty (c_headers c k))) in
             if hd ''X-Client-Verify'' = ''SUCCESS'' \<and> hd ''X-Client-DN'' \<noteq> []
             then (\<lparr>id_dn = hd ''X-Client-DN'', id_serial = hd ''X-Client-Serial'', id_via = ''cac''\<rparr>, w1)
             else (anonymous c, w1))
          else
            (case local_identity c w1 of
               (Some i, w2) \<Rightarrow> (i, w2) | (None, w2) \<Rightarrow> (anonymous c, w2)))"

subsection \<open>Users\<close>

definition load_user :: "string \<Rightarrow> 'h world \<Rightarrow> user option" where
  "load_user dn w = (if dn = [] then None else row_by u_dn dn (w_users w))"

text \<open>\<open>INSERT INTO users\<close> under its primary key and the unique index on set user names.\<close>

definition insert_user :: "user \<Rightarrow> user list \<Rightarrow> user list option" where
  "insert_user u us =
     (if u_username u \<noteq> None \<and> u_username u \<in> u_username ` set us then None
      else insert_row u_dn u us)"

definition nonempty :: "string \<Rightarrow> string option" where
  "nonempty s = (if s = [] then None else Some s)"

definition first_contact :: "'h env \<Rightarrow> ctx \<Rightarrow> string \<Rightarrow> user list \<Rightarrow> user" where
  "first_contact e c dn us =
     (let synthetic = (starts_with ''ip:'' dn \<or> starts_with ''local:'' dn);
          (fname, lname) = (if synthetic then ([], []) else parse_dod_cn dn)
      in (new_user dn (cn_from_dn dn) (c_now c))
         \<lparr>u_is_admin := BOOTSTRAP_FIRST_ADMIN e \<and> us = [],
          u_first_name := nonempty fname, u_last_name := nonempty lname,
          u_username := (if fname \<noteq> [] \<or> lname \<noteq> [] then Some (derive_username e fname lname us) else None)\<rparr>)"

definition upsert_user :: "'h env \<Rightarrow> ctx \<Rightarrow> string \<Rightarrow> 'h world \<Rightarrow> user option result \<times> 'h world" where
  "upsert_user e c dn w =
     (if dn = [] then (Inr None, w)
      else if row_by u_dn dn (w_users w) = None then
        (let u = first_contact e c dn (w_users w) in
         case insert_user u (w_users w) of
           None \<Rightarrow> (Inl IntegrityError, w)
         | Some us \<Rightarrow>
             let w1 = w\<lparr>w_users := us\<rparr>;
                 w2 = log_event_in_tx e c ''user_created'' ''ok''
                   ([(''dn'', take 128 dn)] @ (if u_is_admin u then [(''bootstrap_admin'', ''1'')] else [])
                    @ [(''username'', or_empty (u_username u))]) w1;
                 w3 = (if u_is_admin u
                       then log_event_in_tx e c ''admin_bootstrap'' ''ok'' [(''dn'', take 128 dn)] w2 else w2)
             in (Inr (row_by u_dn dn us), w3))
      else
        let us = modify_row u_dn dn (\<lambda>u. u\<lparr>u_last_seen_at := c_now c, u_cn := cn_from_dn dn\<rparr>) (w_users w)
        in (Inr (row_by u_dn dn us), w\<lparr>w_users := us\<rparr>))"

subsection \<open>Guards\<close>

text \<open>\<^verbatim>\<open>_setup\<close> before every request.\<close>

definition before_request :: "'h env \<Rightarrow> ctx \<Rightarrow> 'h world \<Rightarrow> ctx \<times> 'h world" where
  "before_request e c w =
     (case resolve_identity e c w of
        (i, w1) \<Rightarrow> (c\<lparr>c_identity := Some i, c_user := load_user (id_dn i) w1\<rparr>, w1))"

definition deny :: "'h env \<Rightarrow> ctx \<Rightarrow> string \<Rightarrow> string \<Rightarrow> (string \<times> string) list \<Rightarrow> 'h world \<Rightarrow> response \<times> 'h world" where
  "deny e c name why extra w = abort e c 403 (log_event c name why extra w)"

text \<open>
  The common part of \<^verbatim>\<open>require_auth\<close> and \<^verbatim>\<open>require_admin\<close>: identity present, the local mode's
  session, the user row loaded or created, active.
\<close>

definition ensure_user :: "'h env \<Rightarrow> ctx \<Rightarrow> identity \<Rightarrow> 'h world \<Rightarrow> user option result \<times> 'h world" where
  "ensure_user e c i w =
     (case c_user c of Some u \<Rightarrow> (Inr (Some u), w) | None \<Rightarrow> upsert_user e c (id_dn i) w)"

definition guard_user :: "'h env \<Rightarrow> string \<Rightarrow> 'h handler \<Rightarrow> 'h handler" where
  "guard_user e name h c w =
     (case c_identity c of
        None \<Rightarrow> deny e c name ''deny_unauth'' [] w
      | Some i \<Rightarrow>
          (case auth_mode e w of
             (mode, w1) \<Rightarrow>
               if mode = ''local'' \<and> id_via i \<noteq> ''local'' then deny e c name ''deny_unauth'' [] w1
               else case ensure_user e c i w1 of
                 (Inl err, w2) \<Rightarrow> crash e c err w2
               | (Inr u, w2) \<Rightarrow>
                   if u \<noteq> None \<and> u_is_active (the u) then h (c\<lparr>c_user := u\<rparr>) w2
                   else deny e (c\<lparr>c_user := u\<rparr>) name ''deny_inactive'' [(''dn'', take 128 (id_dn i))] w2))"

definition require_auth :: "'h env \<Rightarrow> string \<Rightarrow> 'h handler \<Rightarrow> 'h handler" where
  "require_auth e name h = guard_user e name h"

definition require_admin :: "'h env \<Rightarrow> string \<Rightarrow> 'h handler \<Rightarrow> 'h handler" where
  "require_admin e name h =
     guard_user e name (\<lambda>c w.
       if is_admin c then h c w
       else deny e c name ''deny_not_admin'' [(''dn'', take 128 (me c))] w)"

definition require_csrf :: "'h env \<Rightarrow> string \<Rightarrow> 'h handler \<Rightarrow> 'h handler" where
  "require_csrf e name h c w =
     (if c_method c \<in> set [''POST'', ''PUT'', ''DELETE'', ''PATCH'']
         \<and> c_headers c ''X-Requested-With'' \<noteq> Some ''certheim''
      then deny e c name ''deny_csrf'' [] w else h c w)"

subsection \<open>Key-access sessions\<close>

definition live_sessions :: "ctx \<Rightarrow> key_session list \<Rightarrow> key_session list" where
  "live_sessions c ks = delete_where (\<lambda>s. k_expires s < c_now c) ks"

definition get_or_create_session :: "'h env \<Rightarrow> ctx \<Rightarrow> 'h world \<Rightarrow> (string option \<times> bool) \<times> 'h world" where
  "get_or_create_session e c w =
     (case c_identity c of
        None \<Rightarrow> ((None, False), w)
      | Some i \<Rightarrow>
        (let sid = or_empty (c_cookies c ''csr_sid''); ks = live_sessions c (w_keysess w) in
         case (if sid = [] then None else row_by k_sid sid ks) of
           Some s \<Rightarrow>
             if k_dn s = id_dn i
             then ((Some sid, False),
                   w\<lparr>w_keysess := modify_row k_sid sid (\<lambda>s. s\<lparr>k_expires := c_now c + SESSION_TTL e\<rparr>) ks\<rparr>)
             else ((Some (drawn e w), True), (tick w)\<lparr>w_keysess := remove_row k_sid (drawn e w) ks @
                    [\<lparr>k_sid = drawn e w, k_dn = id_dn i, k_created = c_now c,
                      k_expires = c_now c + SESSION_TTL e, k_keys = []\<rparr>]\<rparr>)
         | None \<Rightarrow> ((Some (drawn e w), True), (tick w)\<lparr>w_keysess := remove_row k_sid (drawn e w) ks @
                    [\<lparr>k_sid = drawn e w, k_dn = id_dn i, k_created = c_now c,
                      k_expires = c_now c + SESSION_TTL e, k_keys = []\<rparr>]\<rparr>)))"

definition set_session_cookie :: "string option \<Rightarrow> response \<Rightarrow> response" where
  "set_session_cookie sid r =
     (if set_opt sid then r\<lparr>cookies := cookies r @ [(''csr_sid'', or_empty sid)]\<rparr> else r)"

definition get_session_keys :: "ctx \<Rightarrow> 'h world \<Rightarrow> string list \<times> 'h world" where
  "get_session_keys c w =
     (let sid = or_empty (c_cookies c ''csr_sid''); ks = live_sessions c (w_keysess w) in
      if sid = [] \<or> c_identity c = None then ([], w)
      else (case row_by k_sid sid ks of
              None \<Rightarrow> []
            | Some s \<Rightarrow> if k_dn s = me c then k_keys s else [],
            w\<lparr>w_keysess := ks\<rparr>))"

definition add_session_keys :: "'h env \<Rightarrow> ctx \<Rightarrow> string option \<Rightarrow> string list \<Rightarrow> 'h world \<Rightarrow> 'h world" where
  "add_session_keys e c sid new_keys w =
     w\<lparr>w_keysess := modify_row k_sid (or_empty sid)
         (\<lambda>s. s\<lparr>k_keys := sort (remdups (k_keys s @ new_keys)), k_expires := c_now c + SESSION_TTL e\<rparr>)
         (w_keysess w)\<rparr>"

subsection \<open>User names are fresh\<close>

lemma suffix_search_fresh:
  "suffix_search taken base n \<notin> set taken \<and> (\<exists>m\<ge>n. suffix_search taken base n = base @ nat_str m)"
proof (induction taken base n rule: suffix_search.induct)
  case (1 taken base n)
  show ?case
  proof (cases "base @ nat_str n \<in> set taken")
    case True
    with 1 show ?thesis by (auto simp: suffix_search.simps [of taken base n] dest: Suc_leD)
  next
    case False
    then show ?thesis by (auto simp: suffix_search.simps [of taken base n])
  qed
qed

lemma like_prefix_starts: "starts_with p s \<Longrightarrow> like_prefix e p s"
  by (auto simp: like_prefix_def starts_with_iff)

lemma username_base_not_Nil: "username_base f l \<noteq> []"
  by (auto simp: username_base_def Let_def)

lemma taken_names_complete:
  assumes "u \<in> set us" "starts_with base s" "base \<noteq> []"
    and "u_username u = Some s \<or> u_dn u = ''local:'' @ s"
  shows "s \<in> set (taken_names e base us)"
proof -
  have "s \<noteq> []" using assms(2,3) by (auto simp: starts_with_iff)
  have hit: "u_username u = Some base \<or>
      (case u_username u of None \<Rightarrow> False | Some n \<Rightarrow> like_prefix e base n)
      \<or> u_dn u = ''local:'' @ base \<or> like_prefix e (''local:'' @ base) (u_dn u)"
    using assms(2,4) like_prefix_starts [of base s e]
    by (auto intro!: like_prefix_starts simp: starts_with_iff)
  have "s \<in> set ((if set_opt (u_username u) then [or_empty (u_username u)] else [])
      @ (if starts_with ''local:'' (u_dn u) then [drop 6 (u_dn u)] else []))"
    using assms(4) \<open>s \<noteq> []\<close> by (auto simp: set_opt_def)
  with hit assms(1) show ?thesis unfolding taken_names_def Let_def by fastforce
qed

lemma derive_username_cases:
  obtains "derive_username e f l us = username_base f l" "username_base f l \<notin> set (taken_names e (username_base f l) us)"
  | m where "2 \<le> m" "derive_username e f l us = username_base f l @ nat_str m"
      "username_base f l @ nat_str m \<notin> set (taken_names e (username_base f l) us)"
proof (cases "username_base f l \<in> set (taken_names e (username_base f l) us)")
  case True
  then have d: "derive_username e f l us = suffix_search (taken_names e (username_base f l) us) (username_base f l) 2"
    by (simp add: derive_username_def Let_def)
  obtain m where "m \<ge> 2" "suffix_search (taken_names e (username_base f l) us) (username_base f l) 2
      = username_base f l @ nat_str m"
    using suffix_search_fresh by blast
  with d suffix_search_fresh [of "taken_names e (username_base f l) us" "username_base f l" 2] that(2)
  show ?thesis by simp
next
  case False
  then show ?thesis using that(1) by (simp add: derive_username_def Let_def)
qed

lemma derive_username_free:
  assumes "u \<in> set us"
  shows "u_username u \<noteq> Some (derive_username e f l us) \<and> u_dn u \<noteq> ''local:'' @ derive_username e f l us"
  using derive_username_cases [of e f l us]
proof cases
  case 1
  then show ?thesis using taken_names_complete [OF assms, of "username_base f l"]
    by (metis append_Nil2 starts_with_append username_base_not_Nil)
next
  case (2 m)
  then show ?thesis using taken_names_complete [OF assms, of "username_base f l"]
    by (metis starts_with_append username_base_not_Nil)
qed

text \<open>
  A derived user name is always free. The suffix search ends, and the name it returns is
  neither a user name in the table nor hidden in a \<open>local:\<close> primary key, so inserting a
  local account or a certificate holder under it cannot hit a uniqueness constraint; the name
  is the normalized \<open>first.last\<close>, alone or with a number from 2 up.
\<close>
theorem derive_username_fresh:
  "(\<forall>u\<in>set us. u_username u \<noteq> Some (derive_username e f l us) \<and>
                u_dn u \<noteq> ''local:'' @ derive_username e f l us) \<and>
   (derive_username e f l us = username_base f l \<or>
    (\<exists>m\<ge>2. derive_username e f l us = username_base f l @ nat_str m))"
proof -
  have "derive_username e f l us = username_base f l \<or>
      (\<exists>m\<ge>2. derive_username e f l us = username_base f l @ nat_str m)"
    using derive_username_cases [of e f l us] by cases auto
  then show ?thesis using derive_username_free by blast
qed

theorem derive_username_fresh_witness:
  "let us = [(new_user ''local:john.smith'' ''John'' 0), (new_user ''CN=x'' ''x'' 0)\<lparr>u_username := Some ''john.smith2''\<rparr>]
   in derive_username sample_env ''John'' ''Smith'' us = ''john.smith3'' \<and>
      (\<forall>u\<in>set us. u_username u \<noteq> Some ''john.smith3'' \<and> u_dn u \<noteq> ''local:'' @ ''john.smith3'')"
proof -
  let ?us = "[(new_user ''local:john.smith'' ''John'' 0), (new_user ''CN=x'' ''x'' 0)\<lparr>u_username := Some ''john.smith2''\<rparr>]"
  have b: "username_base ''John'' ''Smith'' = ''john.smith''" by code_simp
  have t: "taken_names sample_env ''john.smith'' ?us = [''john.smith'', ''john.smith2'']"
    by (simp add: taken_names_def new_user_def like_prefix_def sample_env_def ascii_fold_def is_upper_def cp_def
        set_opt_def)
  have n: "nat_str 2 = ''2''" "nat_str 3 = ''3''" by code_simp+
  have d: "derive_username sample_env ''John'' ''Smith'' ?us = ''john.smith3''"
    by (simp add: derive_username_def b t suffix_search.simps [of _ _ 2] suffix_search.simps [of _ _ 3]
        suffix_search.simps [of _ _ "Suc 2"] n)
  have "\<forall>u\<in>set ?us. u_username u \<noteq> Some (derive_username sample_env ''John'' ''Smith'' ?us) \<and>
      u_dn u \<noteq> ''local:'' @ derive_username sample_env ''John'' ''Smith'' ?us"
    using derive_username_fresh [of ?us sample_env "''John''" "''Smith''"] by (rule conjunct1)
  then show ?thesis unfolding Let_def d by (intro conjI refl)
qed

subsection \<open>The user table\<close>

definition users_ok :: "user list \<Rightarrow> bool" where
  "users_ok us \<longleftrightarrow> unique_key u_dn us \<and> distinct (filter (\<lambda>n. n \<noteq> None) (map u_username us))"

lemma users_ok_Nil [simp]: "users_ok []"
  by (simp add: users_ok_def unique_key_def)

lemma insert_user_ok:
  assumes "users_ok us" "insert_user u us = Some us'"
  shows "users_ok us'"
  using assms by (auto simp: users_ok_def insert_user_def insert_row_def unique_key_def split: if_splits)

lemma users_ok_modify:
  assumes "users_ok us" "\<And>u. u_dn (f u) = u_dn u" "\<And>u. u_username (f u) = u_username u"
  shows "users_ok (modify_row u_dn dn f us)"
proof -
  have "map u_username (modify_row u_dn dn f us) = map u_username us"
    using assms(3) by (simp add: modify_row_def map_key_update_where)
  then show ?thesis using assms by (simp add: users_ok_def modify_row_def unique_key_update)
qed

interpretation users: keyed_store "row_by u_dn" "insert_row u_dn" "modify_row u_dn" "remove_row u_dn" u_dn
  "unique_key u_dn"
  by (rule row_store)

interpretation sessions: keyed_store "row_by s_token" "insert_row s_token" "modify_row s_token"
  "remove_row s_token" s_token "unique_key s_token"
  by (rule row_store)

interpretation keysess: keyed_store "row_by k_sid" "insert_row k_sid" "modify_row k_sid"
  "remove_row k_sid" k_sid "unique_key k_sid"
  by (rule row_store)

lemma insert_user_fresh:
  assumes "\<forall>u'\<in>set us. u_username u = None \<or> u_username u' \<noteq> u_username u"
    and "row_by u_dn (u_dn u) us = None"
  shows "insert_user u us = Some (us @ [u])"
  using assms by (auto simp: insert_user_def insert_row_def row_by_None_iff)

lemma first_contact_fields [simp]:
  "u_dn (first_contact e c dn us) = dn"
  "u_is_active (first_contact e c dn us)"
  "u_is_admin (first_contact e c dn us) \<longleftrightarrow> BOOTSTRAP_FIRST_ADMIN e \<and> us = []"
  by (auto simp: first_contact_def Let_def new_user_def split: prod.splits)

lemma first_contact_username:
  "u_username (first_contact e c dn us) = None \<or>
     (\<exists>f l. u_username (first_contact e c dn us) = Some (derive_username e f l us))"
  by (auto simp: first_contact_def Let_def new_user_def split: prod.splits)

lemma first_contact_insert:
  assumes "row_by u_dn dn us = None"
  shows "insert_user (first_contact e c dn us) us = Some (us @ [first_contact e c dn us])"
proof (rule insert_user_fresh)
  show "row_by u_dn (u_dn (first_contact e c dn us)) us = None" using assms by simp
  show "\<forall>u'\<in>set us. u_username (first_contact e c dn us) = None \<or>
      u_username u' \<noteq> u_username (first_contact e c dn us)"
    using first_contact_username [of e c dn us] derive_username_free [of _ us e] by auto
qed

lemma upsert_new:
  assumes "dn \<noteq> []" "row_by u_dn dn (w_users w) = None"
  shows "fst (upsert_user e c dn w) = Inr (Some (first_contact e c dn (w_users w)))"
    and "w_users (snd (upsert_user e c dn w)) = w_users w @ [first_contact e c dn (w_users w)]"
    and "\<not> IS_POSTGRES e \<Longrightarrow> w_audit (snd (upsert_user e c dn w)) = w_audit w"
  using assms by (simp_all add: upsert_user_def first_contact_insert Let_def row_by_snoc row_by_None_iff)

lemma upsert_old:
  assumes "dn \<noteq> []" "row_by u_dn dn (w_users w) = Some u"
  shows "fst (upsert_user e c dn w) = Inr (Some (u\<lparr>u_last_seen_at := c_now c, u_cn := cn_from_dn dn\<rparr>))"
    and "w_users (snd (upsert_user e c dn w)) =
      modify_row u_dn dn (\<lambda>u. u\<lparr>u_last_seen_at := c_now c, u_cn := cn_from_dn dn\<rparr>) (w_users w)"
  using assms by (simp_all add: upsert_user_def Let_def users.lookup_modify)

lemma upsert_settings: "w_settings (snd (upsert_user e c dn w)) = w_settings w"
  by (simp add: upsert_user_def Let_def split: option.split)

text \<open>
  Creating the user row on first contact never fails and never grants more than the
  bootstrap rule. It returns a row for the caller's DN, keeps both uniqueness constraints, leaves
  every other user alone, makes the new user an administrator exactly when bootstrapping is
  on and the table was empty, and never changes the privileges or state of an existing user.
\<close>
theorem upsert_user_bootstrap:
  assumes "users_ok (w_users w)" "dn \<noteq> []"
  shows "\<exists>u. fst (upsert_user e c dn w) = Inr (Some u) \<and> u_dn u = dn \<and>
      users_ok (w_users (snd (upsert_user e c dn w))) \<and>
      row_by u_dn dn (w_users (snd (upsert_user e c dn w))) = Some u \<and>
      (\<forall>k. k \<noteq> dn \<longrightarrow> row_by u_dn k (w_users (snd (upsert_user e c dn w))) = row_by u_dn k (w_users w)) \<and>
      (case row_by u_dn dn (w_users w) of
         None \<Rightarrow> u_is_admin u \<longleftrightarrow> BOOTSTRAP_FIRST_ADMIN e \<and> w_users w = []
       | Some old \<Rightarrow> u_is_admin u = u_is_admin old \<and> u_is_active u = u_is_active old \<and>
           u_auth_status u = u_auth_status old \<and> u_password_hash u = u_password_hash old)"
proof (cases "row_by u_dn dn (w_users w)")
  case None
  let ?u = "first_contact e c dn (w_users w)"
  note up = upsert_new [OF assms(2) None, of e c]
  have "users_ok (w_users w @ [?u])"
    using insert_user_ok [OF assms(1) first_contact_insert [OF None]] by blast
  moreover have "row_by u_dn k (w_users w @ [?u]) = (if k = dn then Some ?u else row_by u_dn k (w_users w))" for k
    using None row_by_None_iff [of u_dn k "w_users w", THEN iffD2, symmetric]
    by (auto simp: row_by_snoc row_by_None_iff)
  ultimately show ?thesis using up None by simp
next
  case (Some old)
  note up = upsert_old [OF assms(2) Some, of e c]
  have "u_dn old = dn" using Some by (rule users.lookup_key)
  then show ?thesis
    using up Some assms(1) by (simp add: users.lookup_modify users_ok_modify)
qed

theorem upsert_user_bootstrap_witness:
  "\<exists>u. fst (upsert_user (sample_env\<lparr>BOOTSTRAP_FIRST_ADMIN := True\<rparr>) sample_ctx ''CN=DOE.JANE.1'' sample_world)
     = Inr (Some u) \<and> u_is_admin u"
  using upsert_user_bootstrap [of sample_world "''CN=DOE.JANE.1''" "sample_env\<lparr>BOOTSTRAP_FIRST_ADMIN := True\<rparr>"
      sample_ctx]
  by (auto simp: sample_world_def)

text \<open>
  On SQLite the audit trail never records the creation of an account. \<open>_upsert_user\<close>
  logs while its own transaction holds the write lock, so the row for \<open>user_created\<close> (and
  \<open>admin_bootstrap\<close>) is lost from the searchable table, although the line reaches the stream.
\<close>
theorem user_created_not_audited:
  assumes "\<not> IS_POSTGRES e" "dn \<noteq> []" "row_by u_dn dn (w_users w) = None"
  shows "w_audit (snd (upsert_user e c dn w)) = w_audit w \<and>
    (\<exists>x y. w_log (snd (upsert_user e c dn w)) = w_log w @ log_line c ''user_created'' ''ok'' x # y)"
  using assms
  by (auto simp: upsert_user_def first_contact_insert Let_def log_event_in_tx_def)

theorem user_created_not_audited_witness:
  "w_audit (snd (upsert_user sample_env sample_ctx ''CN=X'' sample_world)) = []"
  using user_created_not_audited [of sample_env "''CN=X''" sample_world sample_ctx]
  by (simp add: sample_env_def sample_world_def)

subsection \<open>Passwords and domains\<close>

lemma b64_go_encode: "b64_go 0 0 0 (b64_encode s) = Some s"
proof -
  have "(3 - length s mod 3) mod 3 = (4 - length (b64_body s) mod 4) mod 4"
  proof (induction s rule: b64_body.induct)
    case (4 a b c s)
    have "Suc (Suc (Suc n)) mod 3 = n mod 3" "Suc (Suc (Suc (Suc n))) mod 4 = n mod 4" for n :: nat
      by presburger+
    with 4 show ?case by simp
  qed simp_all
  then show ?thesis by (simp add: b64_encode_body b64_go_body)
qed

lemma b64_go_map:
  assumes "\<And>c. f c = CHR ''='' \<longleftrightarrow> c = CHR ''=''" "\<And>c. b64_val (f c) = b64_val c"
  shows "b64_go q left pads (map f s) = b64_go q left pads s"
  using assms(1) by (induction q left pads s rule: b64_go.induct) (auto simp: assms(2) split: option.splits)

lemma b64_encode_ascii: "c \<in> set (b64_encode s) \<Longrightarrow> cp c < 128"
  using b64_body_chars [of c s] by (auto simp: b64_encode_body cp_def split: if_splits)

lemma b64decode_encode: "b64decode (b64encode s) = Some s"
proof -
  let ?f = "\<lambda>c. if c = CHR ''-'' then CHR ''+'' else if c = CHR ''_'' then CHR ''/'' else c"
  have v: "b64_val (?f c) = b64_val c" for c
    by (auto simp: b64_val_def is_upper_def is_lower_def is_digit_def cp_def)
  have e: "?f c = CHR ''='' \<longleftrightarrow> c = CHR ''=''" for c by auto
  have "list_all (\<lambda>c. cp c < 128) (b64encode s)"
    using b64_encode_ascii by (auto simp: b64encode_def list_all_iff cp_def)
  moreover have "filter (\<lambda>c. c \<noteq> CHR ''-'' \<and> c \<noteq> CHR ''_'') (b64encode s) = b64encode s"
    by (auto simp: b64encode_def filter_id_conv)
  ultimately show ?thesis
    using b64_go_map [of ?f 0 0 0 "b64_encode s"] e v by (simp add: b64decode_def b64encode_def b64_go_encode)
qed

lemma b64encode_no_dollar: "CHR ''$'' \<notin> set (b64encode s)"
proof
  assume "CHR ''$'' \<in> set (b64encode s)"
  then have "CHR ''$'' \<in> set (b64_encode s)" by (auto simp: b64encode_def split: if_splits)
  then have "CHR ''$'' \<in> set (b64_body s)" by (auto simp: b64_encode_body)
  moreover have "list_all (\<lambda>n. b64_char n \<noteq> CHR ''$'') [0..<64]" by code_simp
  then have "n < 64 \<Longrightarrow> b64_char n \<noteq> CHR ''$''" for n by (auto simp: list_all_iff)
  then have "CHR ''$'' \<notin> set (b64_body s)"
    by (induction s rule: b64_body.induct) (auto simp: eq_commute [of "CHR ''$''"])
  ultimately show False by blast
qed

lemma digit_not_dollar: "CHR ''$'' \<notin> set (nat_str n)"
  using nat_str_digits [of n] by (auto simp: list_all_iff is_digit_def cp_def Let_def)

lemma verify_hash:
  "verify_password e pw' (Some (hash_password e salt pw)) \<longleftrightarrow>
     pbkdf2 e (utf8 pw') salt 600000 = pbkdf2 e (utf8 pw) salt 600000"
proof -
  let ?dk = "pbkdf2 e (utf8 pw) salt (int PBKDF2_ITERATIONS)"
  have "CHR ''$'' \<notin> set ''pbkdf2_sha256''" by simp
  then have "split_on (CHR ''$'') (hash_password e salt pw) =
      [''pbkdf2_sha256'', nat_str PBKDF2_ITERATIONS, b64encode salt, b64encode ?dk]"
    unfolding hash_password_def
    using digit_not_dollar b64encode_no_dollar by (intro split_on_join) auto
  then show ?thesis
    by (auto simp: verify_password_def b64decode_encode PBKDF2_ITERATIONS_def)
qed

text \<open>
  Password hashing and verification agree. A stored hash accepts exactly the passwords
  whose derived key under the stored salt and iteration count equals the stored one; in particular
  the password it was made from, and, when the key derivation has no collision for it, no other.
\<close>
theorem password_roundtrip:
  "verify_password e pw' (Some (hash_password e salt pw)) \<longleftrightarrow>
     pbkdf2 e (utf8 pw') salt 600000 = pbkdf2 e (utf8 pw) salt 600000"
  by (rule verify_hash)

lemma lower_strip_piece:
  assumes "p \<in> set (pieces domain_sep (lower s))"
  shows "p \<noteq> [] \<and> (\<forall>c\<in>set p. \<not> domain_sep c \<and> lower_char c = c)"
proof -
  have "p \<noteq> [] \<and> (\<forall>c\<in>set p. \<not> domain_sep c \<and> c \<in> set (lower s))"
    using assms pieces_go_props [of "[]" domain_sep p "lower s"] by (simp add: pieces_def)
  then show ?thesis by (auto simp: lower_def)
qed

lemma trusted_domain_shape:
  assumes "d \<in> set (parse_trusted_domains raw)"
  shows "d \<noteq> [] \<and> hd d \<noteq> CHR ''@'' \<and> (\<forall>c\<in>set d. \<not> domain_sep c \<and> lower_char c = c)"
proof -
  obtain p where p: "p \<in> set (pieces domain_sep (lower (strip raw)))" "d = lstrip_at p" "d \<noteq> []"
    using assms dedup_key_subset unfolding parse_trusted_domains_def by fastforce
  have "hd d \<noteq> CHR ''@''"
    using p(2,3) hd_dropWhile [of "\<lambda>c. c = CHR ''@''" "strip p"] by (auto simp: lstrip_at_def)
  moreover have "set d \<subseteq> set p"
    using p(2) set_strip [of p] by (auto simp: lstrip_at_def dest: set_dropWhileD)
  ultimately show ?thesis using lower_strip_piece [OF p(1)] p(3) by blast
qed

lemma not_sep_strip: "d \<noteq> [] \<Longrightarrow> \<forall>c\<in>set d. \<not> domain_sep c \<Longrightarrow> strip d = d"
  by (intro strip_fixed) (auto simp: domain_sep_def)

text \<open>
  The trusted-domain setting has a canonical form. Parsing yields non-empty, distinct,
  lower-case entries without separators and without a leading at sign, and storing them joined
  by commas and parsing again gives the same list.
\<close>
theorem trusted_domains_canonical:
  "distinct (parse_trusted_domains raw) \<and>
   parse_trusted_domains (join '','' (parse_trusted_domains raw)) = parse_trusted_domains raw"
proof -
  let ?ds = "parse_trusted_domains raw"
  note shape = trusted_domain_shape [of _ raw]
  have dist: "distinct ?ds"
    using dedup_key_distinct [of "\<lambda>x. x"] by (simp add: parse_trusted_domains_def)
  have low: "lower (join '','' ?ds) = join '','' ?ds"
  proof -
    have "c \<in> set (join '','' ds) \<Longrightarrow> c = CHR '','' \<or> (\<exists>d\<in>set ds. c \<in> set d)" for c ds
      by (induction "'',''" ds rule: join.induct) auto
    then have "\<forall>c\<in>set (join '','' ?ds). lower_char c = c"
      using shape by (fastforce simp: lower_char_def cp_def)
    then show ?thesis by (simp add: lower_def map_idI)
  qed
  have st: "strip (join '','' ?ds) = join '','' ?ds"
  proof (cases ?ds)
    case Nil
    then show ?thesis by (simp add: strip_def rdrop_while_def)
  next
    case (Cons d ds)
    have ends: "hd (join '','' (d # ds)) = hd d \<and> last (join '','' (d # ds)) = last (last (d # ds)) \<and> join '','' (d # ds) \<noteq> []"
      if "\<forall>x\<in>set (d # ds). x \<noteq> []" for d :: string and ds
      using that by (induction "'',''" "d # ds" arbitrary: d ds rule: join.induct) auto
    have ne: "\<forall>x\<in>set (d # ds). x \<noteq> [] \<and> \<not> is_space (hd x) \<and> \<not> is_space (last x)"
      using shape by (auto simp: Cons domain_sep_def)
    then have "\<not> is_space (hd d)" "\<not> is_space (last (last (d # ds)))" by (simp, metis last_in_set list.discI)
    then show ?thesis using ends [of d ds] ne unfolding Cons by (intro strip_fixed) auto
  qed
  have "pieces domain_sep (join '','' ?ds) = ?ds"
    using shape by (intro pieces_join) (auto simp: domain_sep_def)
  moreover have "map lstrip_at ?ds = ?ds"
  proof (rule map_idI)
    fix d assume "d \<in> set ?ds"
    then show "lstrip_at d = d"
      using shape [of d] not_sep_strip [of d] by (simp add: lstrip_at_def dropWhile_hd)
  qed
  ultimately have "parse_trusted_domains (join '','' ?ds) = dedup_key (\<lambda>x. x) [] ?ds"
    by (simp add: parse_trusted_domains_def [of "join '','' ?ds"] low st)
  also have "\<dots> = ?ds"
    using dist shape [of "[]"] by (intro dedup_key_fixpoint) auto
  finally show ?thesis using dist by simp
qed

subsection \<open>Identity of a request\<close>

lemma auth_mode_frame [simp]:
  "w_users (snd (auth_mode e w)) = w_users w" "w_sessions (snd (auth_mode e w)) = w_sessions w"
  "w_keysess (snd (auth_mode e w)) = w_keysess w" "w_jobs (snd (auth_mode e w)) = w_jobs w"
  "w_groups (snd (auth_mode e w)) = w_groups w" "w_members (snd (auth_mode e w)) = w_members w"
  by (simp_all add: auth_mode_def Let_def)

lemma auth_mode_stored: "get_setting (snd (auth_mode e w)) ''auth_mode'' = Some (fst (auth_mode e w))
    \<and> fst (auth_mode e w) \<noteq> []"
  by (cases "get_setting w ''auth_mode''") (auto simp: auth_mode_def Let_def lower_def)

text \<open>
  The authentication mode is decided once. The first reading stores its answer, and every
  later reading of that setting gives the same mode, whatever the environment variable says then
  and whatever happened to the user table; a database that already had accounts when it
  was first asked, and no stored mode, is frozen to certificate authentication.
\<close>
theorem auth_mode_stable:
  assumes "w_settings w2 ''auth_mode'' = w_settings (snd (auth_mode e w)) ''auth_mode''"
  shows "auth_mode e2 w2 = (fst (auth_mode e w), w2) \<and>
    (w_users w \<noteq> [] \<longrightarrow> or_empty (get_setting w ''auth_mode'') = [] \<longrightarrow> fst (auth_mode e w) = ''mtls'')"
proof -
  have "get_setting w2 ''auth_mode'' = get_setting (snd (auth_mode e w)) ''auth_mode''"
    using assms by (simp add: get_setting_def)
  then show ?thesis
    using auth_mode_stored [of e w] by (auto simp: auth_mode_def Let_def)
qed

theorem auth_mode_stable_witness:
  "auth_mode sample_env (snd (auth_mode (sample_env\<lparr>environ := (\<lambda>n. Some ''local'')\<rparr>) sample_world)) =
     (''local'', snd (auth_mode (sample_env\<lparr>environ := (\<lambda>n. Some ''local'')\<rparr>) sample_world))"
proof -
  let ?e = "sample_env\<lparr>environ := (\<lambda>n. Some ''local'')\<rparr>"
  have "lower (strip ''local'') = ''local''" by code_simp
  then have "fst (auth_mode ?e sample_world) = ''local''"
    by (simp add: auth_mode_def sample_world_def get_setting_def SETTINGS_DEFAULTS_def getenv_def Let_def)
  with auth_mode_stable [OF refl, of sample_env ?e sample_world] show ?thesis by simp
qed

text \<open>
  There is no cross-mode fallback. A certificate identity is only ever taken in certificate mode
  from a request the proxy marked as verified with a non-empty subject; a password identity
  only outside it, from a cookie whose session exists, is not expired and belongs to that DN;
  anything else is the anonymous address identity.
\<close>
theorem resolve_identity_strict:
  "case fst (resolve_identity e c w) of i \<Rightarrow>
     (id_via i = ''cac'' \<and> fst (auth_mode e w) = ''mtls'' \<and>
        strip (or_empty (c_headers c ''X-Client-Verify'')) = ''SUCCESS'' \<and>
        id_dn i = strip (or_empty (c_headers c ''X-Client-DN'')) \<and> id_dn i \<noteq> [])
   \<or> (id_via i = ''local'' \<and> fst (auth_mode e w) \<noteq> ''mtls'' \<and>
        (\<exists>s\<in>set (w_sessions w). Some (s_token s) = c_cookies c ''csr_session'' \<and> s_dn s = id_dn i \<and>
           c_now c \<le> s_expires_at s))
   \<or> i = anonymous c"
proof -
  obtain mode w1 where a: "auth_mode e w = (mode, w1)" by fastforce
  then have ws: "w_sessions w1 = w_sessions w" using auth_mode_frame(2) [of e w] by simp
  let ?tok = "or_empty (c_cookies c ''csr_session'')"
  have loc: "\<exists>s\<in>set (w_sessions w). Some (s_token s) = c_cookies c ''csr_session'' \<and> s_dn s = id_dn i \<and>
      c_now c \<le> s_expires_at s \<and> id_via i = ''local''"
    if "fst (local_identity c w1) = Some i" for i
  proof -
    from that have dn: "fst (session_user_dn c ?tok w1) = Some (id_dn i)" "id_via i = ''local''"
      by (auto simp: local_identity_def set_opt_def split: prod.splits if_splits)
        (metis fst_conv identity.select_convs(1) or_empty.elims)
    then obtain s where "row_by s_token ?tok (w_sessions w) = Some s" "s_dn s = id_dn i"
        "c_now c \<le> s_expires_at s" "?tok \<noteq> []"
      by (auto simp: session_user_dn_def ws split: if_splits option.splits)
    moreover from this have "s \<in> set (w_sessions w)" "s_token s = ?tok" by (blast dest: row_by_SomeD)+
    moreover have "c_cookies c ''csr_session'' = Some ?tok" if "?tok \<noteq> []"
      using that by (cases "c_cookies c ''csr_session''") auto
    ultimately show ?thesis using dn(2) by (metis (full_types))
  qed
  obtain li w2 where l: "local_identity c w1 = (li, w2)" by fastforce
  show ?thesis
  proof (cases "mode = ''mtls''")
    case True
    then show ?thesis by (simp add: resolve_identity_def a Let_def)
  next
    case False
    then show ?thesis using loc l by (cases li) (auto simp: resolve_identity_def a)
  qed
qed

subsection \<open>Guards\<close>

lemma deny_props [simp]:
  "status_code (fst (deny e c n why x w)) = 403" "w_users (snd (deny e c n why x w)) = w_users w"
  "w_jobs (snd (deny e c n why x w)) = w_jobs w" "w_groups (snd (deny e c n why x w)) = w_groups w"
  "w_settings (snd (deny e c n why x w)) = w_settings w" "w_members (snd (deny e c n why x w)) = w_members w"
  "w_sessions (snd (deny e c n why x w)) = w_sessions w" "w_keysess (snd (deny e c n why x w)) = w_keysess w"
  by (simp_all add: deny_def)

lemma upsert_frame [simp]:
  "w_jobs (snd (upsert_user e c dn w)) = w_jobs w" "w_groups (snd (upsert_user e c dn w)) = w_groups w"
  "w_members (snd (upsert_user e c dn w)) = w_members w" "w_sessions (snd (upsert_user e c dn w)) = w_sessions w"
  "w_keysess (snd (upsert_user e c dn w)) = w_keysess w"
  by (simp_all add: upsert_user_def Let_def split: option.split)

lemma ensure_user_frame [simp]:
  "w_jobs (snd (ensure_user e c i w)) = w_jobs w" "w_groups (snd (ensure_user e c i w)) = w_groups w"
  "w_members (snd (ensure_user e c i w)) = w_members w" "w_sessions (snd (ensure_user e c i w)) = w_sessions w"
  "w_keysess (snd (ensure_user e c i w)) = w_keysess w"
  by (simp_all add: ensure_user_def split: option.split)

lemma ensure_user_settings [simp]: "w_settings (snd (ensure_user e c i w)) = w_settings w"
  by (simp add: ensure_user_def upsert_settings split: option.split)

text \<open>What a guarded handler does: either it runs for an active user, or it never ran.\<close>

definition passed :: "'h env \<Rightarrow> ctx \<Rightarrow> 'h world \<Rightarrow> ctx \<Rightarrow> 'h world \<Rightarrow> bool" where
  "passed e c w c' w' \<longleftrightarrow>
     (\<exists>i u. c_identity c = Some i \<and> c' = c\<lparr>c_user := Some u\<rparr> \<and> u_is_active u \<and>
        (fst (auth_mode e w) = ''local'' \<longrightarrow> id_via i = ''local'') \<and>
        (c_user c = Some u \<or> c_user c = None \<and> fst (upsert_user e c (id_dn i) (snd (auth_mode e w))) = Inr (Some u)) \<and>
        w' = snd (ensure_user e c i (snd (auth_mode e w))))"

definition untouched :: "'h world \<Rightarrow> 'h world \<Rightarrow> bool" where
  "untouched w w' \<longleftrightarrow> w_jobs w' = w_jobs w \<and> w_groups w' = w_groups w \<and> w_members w' = w_members w \<and>
     w_sessions w' = w_sessions w \<and> w_keysess w' = w_keysess w"

lemma guard_user_cases:
  "(\<exists>c' w'. passed e c w c' w' \<and> guard_user e name h c w = h c' w') \<or>
   (status_code (fst (guard_user e name h c w)) \<in> {403, 500} \<and> untouched w (snd (guard_user e name h c w)))"
proof (cases "c_identity c")
  case None
  then show ?thesis by (simp add: guard_user_def untouched_def)
next
  case (Some i)
  obtain mode w1 where a: "auth_mode e w = (mode, w1)" by fastforce
  have fr: "untouched w w1" using auth_mode_frame [of e w] by (simp add: a untouched_def)
  obtain r w2 where u: "ensure_user e c i w1 = (r, w2)" by fastforce
  have fr2: "untouched w w2"
    using fr ensure_user_frame [of e c i w1] by (simp add: u untouched_def)
  have pass: "passed e c w (c\<lparr>c_user := Some x\<rparr>) w2"
    if "r = Inr (Some x)" "u_is_active x" "mode = ''local'' \<longrightarrow> id_via i = ''local''" for x
    using that Some u by (auto simp: passed_def a ensure_user_def split: option.splits)
  consider (deny) "mode = ''local''" "id_via i \<noteq> ''local''"
    | (err) err where "mode = ''local'' \<longrightarrow> id_via i = ''local''" "r = Inl err"
    | (none) "mode = ''local'' \<longrightarrow> id_via i = ''local''" "r = Inr None"
    | (user) x where "mode = ''local'' \<longrightarrow> id_via i = ''local''" "r = Inr (Some x)"
  proof (cases "mode = ''local'' \<and> id_via i \<noteq> ''local''")
    case False
    then show ?thesis using that(2-4) by (cases r; cases "projr r") auto
  qed (use that(1) in auto)
  then show ?thesis
  proof cases
    case deny
    then show ?thesis using fr by (simp add: guard_user_def Some a untouched_def)
  next
    case err
    then show ?thesis using fr2 by (auto simp: guard_user_def Some a u untouched_def)
  next
    case none
    then show ?thesis using fr2 by (auto simp: guard_user_def Some a u untouched_def)
  next
    case user
    then show ?thesis using fr2 pass by (cases "u_is_active x") (auto simp: guard_user_def Some a u untouched_def)
  qed
qed

text \<open>
  The administrator gate. A handler behind \<open>require_admin\<close> and \<open>require_csrf\<close> runs only for an
  identified, active administrator, in local mode only through a password session, and for a
  changing method only with the anti-forgery header; otherwise the answer is 403 (or 500), the handler
  has not run, and jobs, groups, memberships and sessions are untouched.
\<close>
theorem admin_gate:
  "(\<exists>c' w'. passed e c w c' w' \<and> is_admin c' \<and>
      (c_method c \<in> {''POST'', ''PUT'', ''DELETE'', ''PATCH''} \<longrightarrow> c_headers c ''X-Requested-With'' = Some ''certheim'') \<and>
      require_admin e name (require_csrf e name h) c w = h c' w')
   \<or> (status_code (fst (require_admin e name (require_csrf e name h) c w)) \<in> {403, 500} \<and>
      untouched w (snd (require_admin e name (require_csrf e name h) c w)))"
proof -
  let ?h = "\<lambda>c w. if is_admin c then require_csrf e name h c w
       else deny e c name ''deny_not_admin'' [(''dn'', take 128 (me c))] w"
  have run: "(is_admin c' \<and> (c_method c \<in> {''POST'', ''PUT'', ''DELETE'', ''PATCH''} \<longrightarrow>
        c_headers c ''X-Requested-With'' = Some ''certheim'') \<and> ?h c' w' = h c' w')
     \<or> (status_code (fst (?h c' w')) \<in> {403, 500} \<and> untouched w (snd (?h c' w')))"
    if "passed e c w c' w'" for c' w'
  proof -
    from that obtain i u where "c' = c\<lparr>c_user := Some u\<rparr>" "w' = snd (ensure_user e c i (snd (auth_mode e w)))"
      by (auto simp: passed_def)
    then have m: "c_method c' = c_method c" "c_headers c' = c_headers c" "untouched w w'"
      by (simp_all add: untouched_def)
    then show ?thesis
      by (auto simp: require_csrf_def untouched_def)
  qed
  from guard_user_cases [of e c w name ?h] show ?thesis
  proof (elim disjE exE conjE)
    fix c' w' assume p: "passed e c w c' w'" and eq: "guard_user e name ?h c w = ?h c' w'"
    then have r: "require_admin e name (require_csrf e name h) c w = ?h c' w'" by (simp only: require_admin_def)
    from run [OF p] show ?thesis
    proof (elim disjE conjE, goal_cases)
      case 1
      with p r show ?thesis by (intro disjI1 exI [of _ c'] exI [of _ w'] conjI) (simp_all only: r)
    next
      case 2
      then show ?thesis by (intro disjI2 conjI) (simp_all only: r)
    qed
  qed (simp add: require_admin_def)
qed

theorem admin_gate_witness:
  "status_code (fst (require_admin sample_env ''x'' (require_csrf sample_env ''x'' (\<lambda>c w. (ok_reply [], w)))
      sample_ctx sample_world)) \<in> {403, 500}"
proof -
  have "\<not> (\<exists>c' w'. (passed sample_env sample_ctx sample_world c' w' \<and> is_admin c' \<and>
      (c_method sample_ctx \<in> {''POST'', ''PUT'', ''DELETE'', ''PATCH''} \<longrightarrow>
        c_headers sample_ctx ''X-Requested-With'' = Some ''certheim'')))"
    by (simp add: sample_ctx_def)
  then show ?thesis
    using admin_gate [of sample_env sample_ctx sample_world "''x''" "\<lambda>c w. (ok_reply [], w)"] by blast
qed

subsection \<open>Sessions\<close>

text \<open>
  The life of a local session. A session made for a user resolves to exactly that user until
  it expires and to nobody afterwards; destroying it, or presenting it after its expiry, removes it
  for good; and none of this affects another token.
\<close>
theorem local_session_life:
  assumes "create_local_session e c dn w = (Inr tok, w1)" "tok \<noteq> []" "0 \<le> SESSION_TTL e"
  shows "(c_now c2 \<le> c_now c + SESSION_TTL e \<longrightarrow> session_user_dn c2 tok w1 = (Some dn, w1)) \<and>
    (c_now c + SESSION_TTL e < c_now c2 \<longrightarrow> fst (session_user_dn c2 tok w1) = None \<and>
       fst (session_user_dn c (tok) (snd (session_user_dn c2 tok w1))) = None) \<and>
    fst (session_user_dn c2 tok (destroy_local_session tok w1)) = None \<and>
    (\<forall>t. t \<noteq> tok \<longrightarrow> fst (session_user_dn c2 t w1) = fst (session_user_dn c2 t w) \<and>
       fst (session_user_dn c2 t (destroy_local_session tok w1)) = fst (session_user_dn c2 t w))"
proof -
  let ?s = "\<lparr>s_token = tok, s_dn = dn, s_created_at = c_now c, s_expires_at = c_now c + SESSION_TTL e\<rparr>"
  from assms(1) obtain ss where ss: "insert_row s_token ?s (w_sessions w) = Some ss"
    and w1: "w1 = (tick w)\<lparr>w_sessions := ss\<rparr>"
    by (auto simp: create_local_session_def Let_def tick_def split: option.splits)
  have look: "row_by s_token t ss = (if t = tok then Some ?s else row_by s_token t (w_sessions w))" for t
    using sessions.lookup_insert [OF ss, of t] by simp
  have rem: "row_by s_token t (remove_row s_token tok ss) = (if t = tok then None else row_by s_token t (w_sessions w))" for t
    by (simp add: sessions.lookup_remove look)
  have other: "fst (session_user_dn c2 t w1) = fst (session_user_dn c2 t w) \<and>
      fst (session_user_dn c2 t (destroy_local_session tok w1)) = fst (session_user_dn c2 t w)" if "t \<noteq> tok" for t
    using that assms(2)
    by (auto simp: session_user_dn_def destroy_local_session_def w1 look rem tick_def split: option.split)
  show ?thesis
    using assms(2,3) other
    by (auto simp: session_user_dn_def destroy_local_session_def w1 look rem)
qed

theorem local_session_life_witness:
  "session_user_dn sample_ctx ''tok0'' (snd (create_local_session sample_env sample_ctx ''CN=A'' sample_world))
     = (Some ''CN=A'', snd (create_local_session sample_env sample_ctx ''CN=A'' sample_world))"
proof -
  have n: "nat_str 0 = ''0''" by code_simp
  then have "fst (create_local_session sample_env sample_ctx ''CN=A'' sample_world) = Inr ''tok0''"
    by (simp add: create_local_session_def insert_row_def sample_world_def sample_env_def tick_def drawn_def Let_def)
  then have "create_local_session sample_env sample_ctx ''CN=A'' sample_world =
      (Inr ''tok0'', snd (create_local_session sample_env sample_ctx ''CN=A'' sample_world))"
    by (metis prod.collapse)
  from local_session_life [OF this, of sample_ctx] show ?thesis by (simp add: sample_env_def)
qed

lemma live_sessions_row:
  "row_by k_sid sid (live_sessions c ks) = Some s \<Longrightarrow> s \<in> set ks \<and> k_sid s = sid \<and> c_now c \<le> k_expires s"
  by (auto simp: live_sessions_def delete_where_def dest!: row_by_SomeD)

text \<open>
  Unlocked private keys stay with the user and session they were unlocked for. The keys a request
  can use come from a live session named by its cookie and recorded for its own DN;
  a stolen cookie presented by another identity yields nothing and is answered with a new,
  empty session.
\<close>
theorem session_keys_isolated:
  "(k \<in> set (fst (get_session_keys c w)) \<longrightarrow>
     (\<exists>s\<in>set (w_keysess w). Some (k_sid s) = c_cookies c ''csr_sid'' \<and> k_dn s = me c \<and>
        c_now c \<le> k_expires s \<and> k \<in> set (k_keys s))) \<and>
   (row_by k_sid sid (live_sessions c (w_keysess w)) = Some s \<longrightarrow> k_dn s \<noteq> id_dn i \<longrightarrow>
     c_identity c = Some i \<longrightarrow> c_cookies c ''csr_sid'' = Some sid \<longrightarrow>
     fst (get_session_keys c w) = [] \<and> fst (get_or_create_session e c w) = (Some (drawn e w), True))"
proof -
  have "\<exists>s\<in>set (w_keysess w). Some (k_sid s) = c_cookies c ''csr_sid'' \<and> k_dn s = me c \<and>
        c_now c \<le> k_expires s \<and> k \<in> set (k_keys s)" if "k \<in> set (fst (get_session_keys c w))"
  proof -
    let ?sid = "or_empty (c_cookies c ''csr_sid'')"
    from that obtain s where s: "row_by k_sid ?sid (live_sessions c (w_keysess w)) = Some s"
      "k_dn s = me c" "k \<in> set (k_keys s)" "?sid \<noteq> []"
      by (cases "row_by k_sid ?sid (live_sessions c (w_keysess w))")
        (auto simp: get_session_keys_def Let_def split: if_splits)
    then have "Some (k_sid s) = c_cookies c ''csr_sid''"
      using live_sessions_row [OF s(1)] by (cases "c_cookies c ''csr_sid''") auto
    with live_sessions_row [OF s(1)] s show ?thesis by blast
  qed
  moreover have "fst (get_session_keys c w) = [] \<and> fst (get_or_create_session e c w) = (Some (drawn e w), True)"
    if "row_by k_sid sid (live_sessions c (w_keysess w)) = Some s" "k_dn s \<noteq> id_dn i"
      "c_identity c = Some i" "c_cookies c ''csr_sid'' = Some sid"
    using that by (simp add: get_session_keys_def get_or_create_session_def me_def Let_def)
  ultimately show ?thesis by blast
qed

theorem session_keys_isolated_witness:
  "let s = \<lparr>k_sid = ''sid'', k_dn = ''CN=BOB'', k_created = 0, k_expires = 2000, k_keys = [''a.key'']\<rparr>;
       c = sample_ctx\<lparr>c_cookies := (\<lambda>k. Some ''sid'')\<rparr>; w = sample_world\<lparr>w_keysess := [s]\<rparr> in
   fst (get_session_keys c w) = []"
  using session_keys_isolated [of _ "sample_ctx\<lparr>c_cookies := (\<lambda>k. Some ''sid'')\<rparr>"
      "sample_world\<lparr>w_keysess := [\<lparr>k_sid = ''sid'', k_dn = ''CN=BOB'', k_created = 0, k_expires = 2000, k_keys = [''a.key'']\<rparr>]\<rparr>"
      "''sid''" "\<lparr>k_sid = ''sid'', k_dn = ''CN=BOB'', k_created = 0, k_expires = 2000, k_keys = [''a.key'']\<rparr>"
      "\<lparr>id_dn = ''CN=ADA'', id_serial = ''1'', id_via = ''cac''\<rparr>" sample_env]
  by (simp add: sample_ctx_def live_sessions_def delete_where_def Let_def)

end
