(* ===== verification/AuthRoutes.thy ===== *)
theory AuthRoutes
  imports Identity
begin

text \<open>
  \<^verbatim>\<open>backend/routes_auth.py\<close> and the login banners of \<^verbatim>\<open>backend/app.py\<close>: the public
  authentication endpoints (information, login with lockout, logout, self-registration), the
  administrator's authentication settings, the approval of a registration, and the key-access
  session endpoints.
\<close>

subsection \<open>Patterns\<close>

definition email_local_char :: "char \<Rightarrow> bool" where
  "email_local_char c = (is_alnum c \<or> c \<in> set ''._%+-'')"

definition host_char :: "char \<Rightarrow> bool" where
  "host_char c = (is_alnum c \<or> c = CHR ''.'' \<or> c = CHR ''-'')"

text \<open>\<^verbatim>\<open>[A-Za-z0-9.-]+\.[A-Za-z]{2,}\<close>: the top-level label has no dot, so the last dot separates it.\<close>

definition dotted_host :: "string \<Rightarrow> bool" where
  "dotted_host s =
     (let labels = split_on (CHR ''.'') s; tld = last labels; front = join ''.'' (butlast labels) in
      2 \<le> length labels \<and> front \<noteq> [] \<and> list_all host_char front \<and> 2 \<le> length tld \<and> list_all is_alpha tld)"

definition DOMAIN_RE :: "string \<Rightarrow> bool" where
  "DOMAIN_RE = at_end dotted_host"

definition EMAIL_RE :: "string \<Rightarrow> bool" where
  "EMAIL_RE = at_end (\<lambda>s. case split_once (CHR ''@'') s of None \<Rightarrow> False
     | Some (l, d) \<Rightarrow> l \<noteq> [] \<and> list_all email_local_char l \<and> dotted_host d)"

subsection \<open>Banners\<close>

record banner =
  b_label :: string
  b_link :: string
  b_title :: string
  b_paragraphs :: "string list"
  b_items :: "string list"

definition LOGIN_BANNERS :: "(string \<times> banner) list" where
  "LOGIN_BANNERS =
    [(''dod'',
      \<lparr>b_label = ''DoD / U.S. Government (USG)'',
       b_link = ''DoD System User Access Agreement'',
       b_title = ''U.S. Government (USG) Notice and Consent Banner'',
       b_paragraphs =
        [''You are accessing a U.S. Government (USG) Information System (IS) that is ''
         @ ''provided for USG-authorized use only.'',
         ''By using this IS (which includes any device attached to this IS), you consent ''
         @ ''to the following conditions:''],
       b_items =
        [''The USG routinely intercepts and monitors communications on this IS for ''
         @ ''purposes including, but not limited to, penetration testing, COMSEC monitoring, ''
         @ ''network operations and defense, personnel misconduct (PM), law enforcement ''
         @ ''(LE), and counterintelligence (CI) investigations.'',
         ''At any time, the USG may inspect and seize data stored on this IS.'',
         ''Communications using, or data stored on, this IS are not private, are subject ''
         @ ''to routine monitoring, interception, and search, and may be disclosed or used ''
         @ ''for any USG-authorized purpose.'',
         ''This IS includes security measures (e.g., authentication and access controls) ''
         @ ''to protect USG interests - not for your personal benefit or privacy.'',
         ''Notwithstanding the above, using this IS does not constitute consent to PM, LE ''
         @ ''or CI investigative searching or monitoring of the content of privileged ''
         @ ''communications, or work product, related to personal representation or services ''
         @ ''by attorneys, psychotherapists, or clergy, and their assistants. Such ''
         @ ''communications and work product are private and confidential. See User ''
         @ ''Agreement for details.'']\<rparr>),
     (''hipaa'',
      \<lparr>b_label = ''HIPAA Privacy Notice'',
       b_link = ''HIPAA Notice'',
       b_title = ''HIPAA Notice - Protected Health Information (PHI)'',
       b_paragraphs =
        [''This system may contain Protected Health Information (PHI) subject to the ''
         @ ''Health Insurance Portability and Accountability Act (HIPAA) and is restricted ''
         @ ''to authorized users only.'',
         ''By accessing this system you acknowledge and agree that:''],
       b_items =
        [''You will access, use, and disclose PHI only as permitted by HIPAA and your ''
         @ ''organization's policies, limited to the minimum necessary for your role.'',
         ''All access to PHI is logged and subject to audit; unauthorized access, use, or ''
         @ ''disclosure may result in disciplinary action and civil or criminal penalties.'',
         ''You will safeguard PHI from unauthorized viewing, sharing, or storage, and ''
         @ ''report any suspected breach immediately.'',
         ''This system is monitored to ensure compliance with the HIPAA Privacy and ''
         @ ''Security Rules.'']\<rparr>),
     (''nsa'',
      \<lparr>b_label = ''NSA / National Security System'',
       b_link = ''U.S. Government User Agreement'',
       b_title = ''U.S. Government Information System - Notice and Consent'',
       b_paragraphs =
        [''You are accessing a U.S. Government (USG) Information System (IS), which may be ''
         @ ''a National Security System, provided for USG-authorized use only.'',
         ''By using this IS, you consent to the following conditions:''],
       b_items =
        [''The USG routinely intercepts and monitors communications on this IS for ''
         @ ''authorized purposes, including security monitoring, network operations and ''
         @ ''defense, and investigations.'',
         ''At any time, the USG may inspect and seize data stored on this IS.'',
         ''Communications using, or data stored on, this IS are not private and may be ''
         @ ''disclosed or used for any USG-authorized purpose.'',
         ''This IS includes security measures to protect USG interests - not for your ''
         @ ''personal benefit or privacy.'',
         ''Unauthorized use may subject you to administrative action and civil or criminal ''
         @ ''penalties.'']\<rparr>)]"

definition GOV_BANNERS :: "string list" where
  "GOV_BANNERS = [''dod'', ''nsa'']"

text \<open>
  \<^verbatim>\<open>re.split(r"\n\s*\n", text)\<close>: a paragraph ends at a line break followed by white space that
  reaches another line break, as far as it can.
\<close>

definition last_break :: "string \<Rightarrow> nat option" where
  "last_break ws = (let ks = filter (\<lambda>k. ws ! k = nl) [0..<length ws] in if ks = [] then None else Some (last ks))"

fun para_go :: "nat \<Rightarrow> string \<Rightarrow> string \<Rightarrow> string list" where
  "para_go skip acc [] = [rev acc]"
| "para_go (Suc k) acc (c # s) = para_go k acc s"
| "para_go 0 acc (c # s) =
     (case (if c = nl then last_break (takeWhile is_space s) else None) of
        Some k \<Rightarrow> rev acc # para_go (Suc k) [] s
      | None \<Rightarrow> para_go 0 (c # acc) s)"

definition banner_json :: "string \<Rightarrow> banner \<Rightarrow> json" where
  "banner_json key b =
     JObj [(''key'', JStr key), (''label'', JStr (b_label b)), (''link'', JStr (b_link b)),
           (''title'', JStr (b_title b)), (''paragraphs'', strs (b_paragraphs b)), (''items'', strs (b_items b))]"

definition or_else :: "string \<Rightarrow> string \<Rightarrow> string" where
  "or_else s d = (if s = [] then d else s)"

definition current_banner :: "'h env \<Rightarrow> ctx \<Rightarrow> 'h world \<Rightarrow> json option" where
  "current_banner e c w =
     (let key = lower (strip (or_else (or_empty (get_setting w ''login_banner'')) ''none'')) in
      if key = ''none'' then None
      else if key = ''custom'' then
        (let t = strip (or_else (or_empty (get_setting w ''login_banner_custom_title'')) ''Notice and Consent'');
             text = strip (or_empty (get_setting w ''login_banner_custom_text''));
             paras = filter (\<lambda>p. p \<noteq> []) (map strip (para_go 0 [] text))
         in if text = [] then None
            else Some (banner_json ''custom''
              \<lparr>b_label = ''Custom'', b_link = or_else t ''Notice'', b_title = or_else t ''Notice and Consent'',
               b_paragraphs = (if paras = [] then [text] else paras), b_items = []\<rparr>))
      else case map_of LOGIN_BANNERS key of
        None \<Rightarrow> None
      | Some b \<Rightarrow>
          if key \<in> set GOV_BANNERS \<and> \<not> available_in e c w ''profiles.public_sector'' then None
          else Some (banner_json key b))"

definition banner_options :: "'h env \<Rightarrow> ctx \<Rightarrow> 'h world \<Rightarrow> json" where
  "banner_options e c w =
     (let opt = (\<lambda>k l. JObj [(''key'', JStr k), (''label'', JStr l)]);
          gov_ok = available_in e c w ''profiles.public_sector''
      in JArr (opt ''none'' ''No banner''
          # map (\<lambda>(k, b). opt k (b_label b)) (filter (\<lambda>(k, b). k \<notin> set GOV_BANNERS \<or> gov_ok) LOGIN_BANNERS)
          @ [opt ''custom'' ''Custom message...'']))"

subsection \<open>Public endpoints\<close>

definition setting_is_one :: "'h world \<Rightarrow> string \<Rightarrow> bool" where
  "setting_is_one w k = (get_setting w k = Some ''1'')"

definition auth_info :: "'h env \<Rightarrow> 'h handler" where
  "auth_info e c w =
     (case auth_mode e w of (mode, w1) \<Rightarrow>
      let domains = parse_trusted_domains (or_empty (get_setting w1 ''trusted_email_domain''));
          banner = current_banner e c w1; first_run = (w_users w1 = []); local = (mode = ''local'') in
      (ok_reply
        [(''auth_mode'', JStr mode), (''local_enabled'', JBool local),
         (''first_run'', JBool (local \<and> first_run)),
         (''registration_open'', JBool (local \<and> (setting_is_one w1 ''allow_registration'' \<or> first_run))),
         (''trusted_email_domain'', JStr (join '', '' domains)), (''trusted_email_domains'', strs domains),
         (''require_admin_approval'', JBool (setting_is_one w1 ''require_admin_approval'')),
         (''banner'', case banner of None \<Rightarrow> JNull | Some b \<Rightarrow> b),
         (''require_agreement'', JBool (banner \<noteq> None))], w1))"

definition update_user :: "string \<Rightarrow> (user \<Rightarrow> user) \<Rightarrow> 'h world \<Rightarrow> 'h world" where
  "update_user dn f w = w\<lparr>w_users := modify_row u_dn dn f (w_users w)\<rparr>"

definition user_by_name :: "string \<Rightarrow> user list \<Rightarrow> user option" where
  "user_by_name n us = List.find (\<lambda>u. u_username u = Some n) us"

definition verify_json :: "'h env \<Rightarrow> json \<Rightarrow> string option \<Rightarrow> bool" where
  "verify_json e pw stored = (case pw of JStr s \<Rightarrow> verify_password e s stored | _ \<Rightarrow> False)"

definition issue_session :: "'h env \<Rightarrow> ctx \<Rightarrow> string \<Rightarrow> (string \<times> json) list \<Rightarrow> ('h world \<Rightarrow> 'h world) \<Rightarrow> 'h world
    \<Rightarrow> response \<times> 'h world" where
  "issue_session e c dn answer after w =
     (case create_local_session e c dn w of
        (Inl err, w1) \<Rightarrow> crash e c err w1
      | (Inr tok, w1) \<Rightarrow> ((ok_reply answer)\<lparr>cookies := [(''csr_session'', tok)]\<rparr>, after w1))"

definition login_failed :: "ctx \<Rightarrow> string \<Rightarrow> user \<Rightarrow> 'h world \<Rightarrow> response \<times> 'h world" where
  "login_failed c username u w =
     (let attempts = u_failed_attempts u + 1;
          lock_until = (if LOCKOUT_THRESHOLD \<le> attempts then c_now c + LOCKOUT_SECONDS else 0) in
      refuse 401 ''invalid credentials''
        (log_event c ''login'' ''deny_badpass''
          [(''username'', take 64 username), (''attempts'', int_str attempts),
           (''locked'', if lock_until \<noteq> 0 then ''1'' else ''0'')]
          (update_user (u_dn u) (\<lambda>u. u\<lparr>u_failed_attempts := attempts, u_locked_until := lock_until\<rparr>) w)))"

definition login_user :: "'h env \<Rightarrow> string \<Rightarrow> json \<Rightarrow> user \<Rightarrow> 'h handler" where
  "login_user e username password u c w =
     (if c_now c < u_locked_until u
      then refuse 429 ''account temporarily locked - try again later''
             (log_event c ''login'' ''deny_locked'' [(''username'', take 64 username)] w)
      else if u_auth_status u = ''pending'' then refuse 403 ''account awaiting administrator approval'' w
      else if \<not> u_is_active u then refuse 403 ''account disabled'' w
      else if \<not> verify_json e password (u_password_hash u) then login_failed c username u w
      else issue_session e c (u_dn u) [(''ok'', JBool True)]
             (log_event c ''login'' ''ok'' [(''username'', take 64 username)])
             (update_user (u_dn u) (\<lambda>u. u\<lparr>u_failed_attempts := 0, u_locked_until := 0, u_last_seen_at := c_now c\<rparr>) w))"

definition auth_login :: "'h env \<Rightarrow> 'h handler" where
  "auth_login e c w =
     with_payload e c w (\<lambda>p.
     attempt e c (str_or_empty (jget ''username'' p)) w (\<lambda>u0.
     let username = strip u0; password = jget ''password'' p in
     case auth_mode e w of (mode, w1) \<Rightarrow>
     if mode = ''mtls'' then refuse 403 ''this host uses CAC authentication'' w1
     else if username = [] \<or> \<not> truthy password then refuse 400 ''username and password required'' w1
     else case user_by_name username (w_users w1) of
       None \<Rightarrow> refuse 401 ''invalid credentials''
                (log_event c ''login'' ''deny_unknown_user'' [(''username'', take 64 username)] w1)
     | Some u \<Rightarrow>
         if \<not> set_opt (u_password_hash u)
         then refuse 401 ''invalid credentials''
                (log_event c ''login'' ''deny_unknown_user'' [(''username'', take 64 username)] w1)
         else login_user e username password u c w1))"

definition auth_logout :: "'h handler" where
  "auth_logout c w =
     ((ok_reply [(''ok'', JBool True)])\<lparr>cookies := [(''csr_session'', [])]\<rparr>,
      destroy_local_session (or_empty (c_cookies c ''csr_session'')) w)"

subsection \<open>Registration\<close>

record registration =
  r_first :: string
  r_last :: string
  r_email :: string
  r_password :: string

definition after_last_at :: "string \<Rightarrow> string" where
  "after_last_at s = rev (takeWhile (\<lambda>c. c \<noteq> CHR ''@'') (rev s))"

definition registration_row :: "'h env \<Rightarrow> ctx \<Rightarrow> bool \<Rightarrow> string \<Rightarrow> registration \<Rightarrow> user list \<Rightarrow> user" where
  "registration_row e c approval pwhash r us =
     (let boot = (BOOTSTRAP_FIRST_ADMIN e \<and> us = []);
          username = derive_username e (r_first r) (r_last r) us
      in (new_user (''local:'' @ username) (take 128 (strip (r_first r @ '' '' @ r_last r))) (c_now c))
         \<lparr>u_email := Some (r_email r), u_username := Some username, u_password_hash := Some pwhash,
          u_first_name := nonempty (r_first r), u_last_name := nonempty (r_last r),
          u_is_admin := boot, u_is_active := boot \<or> \<not> approval,
          u_auth_status := (if \<not> boot \<and> approval then ''pending'' else ''active'')\<rparr>)"

fun insert_registration ::
  "nat \<Rightarrow> 'h env \<Rightarrow> ctx \<Rightarrow> bool \<Rightarrow> string \<Rightarrow> registration \<Rightarrow> user list \<Rightarrow> (user \<times> user list) option" where
  "insert_registration 0 e c approval pwhash r us = None"
| "insert_registration (Suc n) e c approval pwhash r us =
     (let u = registration_row e c approval pwhash r us in
      case insert_user u us of
        Some us' \<Rightarrow> Some (u, us')
      | None \<Rightarrow> insert_registration n e c approval pwhash r us)"

definition register_user :: "'h env \<Rightarrow> registration \<Rightarrow> 'h handler" where
  "register_user e r c w =
     (let pwhash = hash_password e (drawn e w) (r_password r); w1 = tick w in
      case insert_registration 5 e c (setting_is_one w ''require_admin_approval'') pwhash r (w_users w1) of
        None \<Rightarrow> refuse 503 ''could not assign a username, please retry''
                 (log_event c ''register'' ''error_collision'' [(''email'', take 128 (r_email r))] w1)
      | Some (u, us) \<Rightarrow>
          let name = or_empty (u_username u);
              w2 = log_event c ''register'' ''ok''
                     [(''username'', take 64 name), (''status'', u_auth_status u)] (w1\<lparr>w_users := us\<rparr>) in
          if u_auth_status u = ''pending''
          then (ok_reply [(''ok'', JBool True), (''status'', JStr ''pending''), (''username'', JStr name),
                 (''message'', JStr (''Account created as '' @ [CHR 0x27] @ name @ [CHR 0x27]
                    @ '' - awaiting administrator approval.''))], w2)
          else issue_session e c (u_dn u)
                 [(''ok'', JBool True), (''status'', JStr ''active''), (''username'', JStr name),
                  (''message'', JStr (''Your username is '' @ [CHR 0x27] @ name @ [CHR 0x27] @ ''.''))] (\<lambda>w. w) w2)"

text \<open>The checks between the request body and the insertion, in order.\<close>

definition register_checked ::
  "'h env \<Rightarrow> string list \<Rightarrow> string \<Rightarrow> string \<Rightarrow> string \<Rightarrow> json \<Rightarrow> 'h handler" where
  "register_checked e domains fname lname email password c w =
     (if \<not> NAME_RE fname \<or> \<not> NAME_RE lname then refuse 400 ''enter a valid first and last name'' w
      else if normalize_name_part fname = [] \<or> normalize_name_part lname = []
      then refuse 400 ''name must contain letters'' w
      else if \<not> EMAIL_RE email then refuse 400 ''valid email required'' w
      else if domains \<noteq> [] \<and> after_last_at email \<notin> set domains
      then refuse 403 (''email must be at one of: '' @ join '', '' (map (\<lambda>d. ''@'' @ d) domains))
             (log_event c ''register'' ''deny_domain'' [(''email'', take 128 email)] w)
      else
        (let checked = (\<lambda>pw. if password_policy_errors pw \<noteq> []
                then refuse 400 (''password needs '' @ join '', '' (password_policy_errors pw)) w
                else register_user e \<lparr>r_first = fname, r_last = lname, r_email = email, r_password = pw\<rparr> c w)
         in case password of
              JStr pw \<Rightarrow> checked pw
            | _ \<Rightarrow> if truthy password then crash e c TypeError w else checked []))"

definition auth_register :: "'h env \<Rightarrow> 'h handler" where
  "auth_register e c w =
     (case auth_mode e w of (mode, w1) \<Rightarrow>
      if mode \<noteq> ''local'' then refuse 403 ''registration not available'' w1
      else if \<not> setting_is_one w1 ''allow_registration'' \<and> w_users w1 \<noteq> []
      then refuse 403 ''self-registration is disabled'' w1
      else
        let domains = parse_trusted_domains (or_empty (get_setting w1 ''trusted_email_domain'')) in
        with_payload e c w1 (\<lambda>p.
        attempt e c (str_or_empty (jget ''first_name'' p)) w1 (\<lambda>f.
        attempt e c (str_or_empty (jget ''last_name'' p)) w1 (\<lambda>l.
        attempt e c (str_or_empty (jget ''email'' p)) w1 (\<lambda>m.
        register_checked e domains (strip f) (strip l) (lower (strip m)) (jget ''password'' p) c w1)))))"

subsection \<open>Administration\<close>

definition admin_get_auth_settings :: "'h env \<Rightarrow> 'h handler" where
  "admin_get_auth_settings e = require_admin e ''admin_get_auth_settings'' (\<lambda>c w.
     (let domains = parse_trusted_domains (or_empty (get_setting w ''trusted_email_domain''));
          s = (\<lambda>k d. JStr (or_else (or_empty (get_setting w k)) d)) in
      case auth_mode e w of (mode, w1) \<Rightarrow>
      (ok_reply
        [(''auth_mode'', JStr mode), (''trusted_email_domain'', JStr (join '', '' domains)),
         (''trusted_email_domains'', strs domains),
         (''require_admin_approval'', JBool (setting_is_one w ''require_admin_approval'')),
         (''allow_registration'', JBool (setting_is_one w ''allow_registration'')),
         (''login_banner'', s ''login_banner'' ''none''),
         (''login_banner_custom_title'', s ''login_banner_custom_title'' []),
         (''login_banner_custom_text'', s ''login_banner_custom_text'' []),
         (''banner_options'', banner_options e c w),
         (''mtls_mode'', s ''mtls_mode'' ''off''), (''mtls_ca_bundle_path'', s ''mtls_ca_bundle_path'' []),
         (''mtls_modes'', strs [''off'', ''optional'', ''enforce''])], w1)))"

text \<open>
  The update runs field by field; each stage either ends the request, leaving what earlier
  stages stored, or goes on with what it changed.
\<close>

type_synonym changes = "(string \<times> json) list"
type_synonym 'h staged = "(response \<times> 'h world) + (changes \<times> 'h world)"

definition next_stage :: "'h staged \<Rightarrow> (changes \<Rightarrow> 'h world \<Rightarrow> 'h staged) \<Rightarrow> 'h staged" where
  "next_stage r k = (case r of Inl done \<Rightarrow> Inl done | Inr (ch, w) \<Rightarrow> k ch w)"

definition CAC_LICENSED_ERR :: string where
  "CAC_LICENSED_ERR = ''CAC / mTLS is a licensed feature - it requires a ''
     @ ''Government license or the CAC add-on. Apply a license '' @ ''in Admin -> License, then enable it here.''"

definition stage_auth_mode :: "'h env \<Rightarrow> ctx \<Rightarrow> json \<Rightarrow> changes \<Rightarrow> 'h world \<Rightarrow> 'h staged" where
  "stage_auth_mode e c p ch w =
     (if \<not> jhas ''auth_mode'' p then Inr (ch, w)
      else let mode = jget ''auth_mode'' p in
        if mode \<noteq> JStr ''mtls'' \<and> mode \<noteq> JStr ''local''
        then Inl (refuse 400 (''auth_mode must be '' @ [CHR 0x27] @ ''mtls'' @ [CHR 0x27] @ '' or ''
               @ [CHR 0x27] @ ''local'' @ [CHR 0x27]) w)
        else if mode = JStr ''mtls'' \<and> \<not> available_in e c w ''auth.cac'' then Inl (refuse 403 CAC_LICENSED_ERR w)
        else if mode = JStr ''mtls'' \<and> \<not> truthy (jget ''confirm_mtls'' p)
        then Inl (refuse 400 (''enabling mTLS requires confirm_mtls=true; '' @ ''ensure CAC access works first'') w)
        else Inr (ch @ [(''auth_mode'', mode)],
                  set_setting ''auth_mode'' (if mode = JStr ''mtls'' then ''mtls'' else ''local'') w))"

definition py_isalnum :: "char \<Rightarrow> bool" where
  "py_isalnum c = (is_cased c \<or> is_digit c \<or> cp c \<in> {178, 179, 185, 188, 189, 190})"

definition bundle_path_ok :: "string \<Rightarrow> bool" where
  "bundle_path_ok p = (starts_with ''/'' p \<and> list_all (\<lambda>c. py_isalnum c \<or> c \<in> set ''._/-'') p)"

definition apply_mtls :: "'h env \<Rightarrow> string \<Rightarrow> string \<Rightarrow> changes \<Rightarrow> 'h world \<Rightarrow> 'h staged" where
  "apply_mtls e mmode mpath ch w =
     (if CONTAINER_MODE e
      then Inr (ch @ [(''mtls_applied'', JBool True), (''mtls_managed_by'', JStr ''ingress'')], w)
      else case helper e [''apply-mtls'', mmode, mpath] [] (w_host w) of
        ((rc, out, err), h) \<Rightarrow>
          Inr (ch @ [(''mtls_applied'', JBool (rc = 0))]
                @ (if rc \<noteq> 0 then [(''mtls_apply_error'', JStr (take 240 (strip (or_else err out))))] else []),
               w\<lparr>w_host := h\<rparr>))"

definition stage_mtls_mode :: "'h env \<Rightarrow> ctx \<Rightarrow> json \<Rightarrow> changes \<Rightarrow> 'h world \<Rightarrow> 'h staged" where
  "stage_mtls_mode e c p ch w =
     (if \<not> jhas ''mtls_mode'' p then Inr (ch, w)
      else case str_or_empty (jget ''mtls_mode'' p) of
        Inl err \<Rightarrow> Inl (crash e c err w)
      | Inr m0 \<Rightarrow>
        let m1 = strip (or_else m0 ''off''); licensed = available_in e c w ''auth.cac'';
            cur = or_else (or_empty (get_setting w ''mtls_mode'')) ''off'';
            mmode = (if licensed then m1 else ''off'') in
        if m1 \<notin> set [''off'', ''optional'', ''enforce''] then Inl (refuse 400 ''mtls_mode must be off|optional|enforce'' w)
        else if \<not> licensed \<and> m1 \<in> set [''optional'', ''enforce''] \<and> m1 \<noteq> cur then Inl (refuse 403 CAC_LICENSED_ERR w)
        else case str_or_empty (jget ''mtls_ca_bundle_path'' p) of
          Inl err \<Rightarrow> Inl (crash e c err w)
        | Inr mp \<Rightarrow>
          let mpath = strip mp in
          if mmode = ''enforce'' \<and> \<not> bundle_path_ok mpath
          then Inl (refuse 400 (''enforce mode needs a valid absolute '' @ ''client-CA bundle path'') w)
          else apply_mtls e mmode mpath (ch @ [(''mtls_mode'', JStr mmode)])
                 (set_setting ''mtls_ca_bundle_path'' mpath (set_setting ''mtls_mode'' mmode w)))"

definition trusted_domains_raw :: "'h env \<Rightarrow> json \<Rightarrow> string" where
  "trusted_domains_raw e p =
     (case jget ''trusted_email_domains'' p of
        JArr xs \<Rightarrow> join '','' (map (str_of e) xs)
      | _ \<Rightarrow> if truthy (jget ''trusted_email_domain'' p) then str_of e (jget ''trusted_email_domain'' p) else [])"

definition stage_domains :: "'h env \<Rightarrow> json \<Rightarrow> changes \<Rightarrow> 'h world \<Rightarrow> 'h staged" where
  "stage_domains e p ch w =
     (if \<not> jhas ''trusted_email_domains'' p \<and> \<not> jhas ''trusted_email_domain'' p then Inr (ch, w)
      else let domains = parse_trusted_domains (trusted_domains_raw e p);
               bad = filter (\<lambda>d. \<not> DOMAIN_RE d) domains; joined = join '','' domains in
        if bad \<noteq> [] then Inl (refuse 400 (''invalid domain(s): '' @ join '', '' bad) w)
        else Inr (ch @ [(''trusted_email_domain'', JStr joined)], set_setting ''trusted_email_domain'' joined w))"

definition stage_flag :: "string \<Rightarrow> json \<Rightarrow> changes \<Rightarrow> 'h world \<Rightarrow> 'h staged" where
  "stage_flag key p ch w =
     (if \<not> jhas key p then Inr (ch, w)
      else let v = (if truthy (jget key p) then ''1'' else ''0'') in Inr (ch @ [(key, JStr v)], set_setting key v w))"

definition stage_banner :: "'h env \<Rightarrow> ctx \<Rightarrow> json \<Rightarrow> changes \<Rightarrow> 'h world \<Rightarrow> 'h staged" where
  "stage_banner e c p ch w =
     (if \<not> jhas ''login_banner'' p then Inr (ch, w)
      else case str_or_empty (jget ''login_banner'' p) of
        Inl err \<Rightarrow> Inl (crash e c err w)
      | Inr b0 \<Rightarrow>
        let b = lower (strip (or_else b0 ''none'')) in
        if b \<notin> set [''none'', ''custom''] \<and> map_of LOGIN_BANNERS b = None then Inl (refuse 400 ''invalid login_banner'' w)
        else Inr (ch @ [(''login_banner'', JStr b)], set_setting ''login_banner'' b w))"

definition stage_banner_title :: "'h env \<Rightarrow> ctx \<Rightarrow> json \<Rightarrow> changes \<Rightarrow> 'h world \<Rightarrow> 'h staged" where
  "stage_banner_title e c p ch w =
     (if \<not> jhas ''login_banner_custom_title'' p then Inr (ch, w)
      else case str_or_empty (jget ''login_banner_custom_title'' p) of
        Inl err \<Rightarrow> Inl (crash e c err w)
      | Inr t0 \<Rightarrow> let t = take 120 (strip t0) in
          Inr (ch @ [(''login_banner_custom_title'', JStr t)], set_setting ''login_banner_custom_title'' t w))"

definition stage_banner_text :: "json \<Rightarrow> changes \<Rightarrow> 'h world \<Rightarrow> 'h staged" where
  "stage_banner_text p ch w =
     (if \<not> jhas ''login_banner_custom_text'' p then Inr (ch, w)
      else let save = (\<lambda>txt. Inr (ch @ [(''login_banner_custom_text'', JStr (if txt = [] then ''(empty)'' else ''set''))],
             set_setting ''login_banner_custom_text'' txt w))
        in case jget ''login_banner_custom_text'' p of
             JNull \<Rightarrow> save []
           | JStr s \<Rightarrow> save (take 8000 s)
           | _ \<Rightarrow> Inl (refuse 400 ''login_banner_custom_text must be string'' w))"

definition auth_stages :: "'h env \<Rightarrow> ctx \<Rightarrow> json \<Rightarrow> 'h world \<Rightarrow> 'h staged" where
  "auth_stages e c p w =
     next_stage (next_stage (next_stage (next_stage (next_stage (next_stage (next_stage
       (stage_auth_mode e c p [] w)
       (stage_mtls_mode e c p)) (stage_domains e p)) (stage_flag ''require_admin_approval'' p))
       (stage_flag ''allow_registration'' p)) (stage_banner e c p)) (stage_banner_title e c p)) (stage_banner_text p)"

definition admin_set_auth_settings :: "'h env \<Rightarrow> 'h handler" where
  "admin_set_auth_settings e =
     require_admin e ''admin_set_auth_settings'' (require_csrf e ''admin_set_auth_settings'' (\<lambda>c w.
       with_payload e c w (\<lambda>p.
         case auth_stages e c p w of
           Inl done \<Rightarrow> done
         | Inr (ch, w1) \<Rightarrow>
             (ok_reply ((''ok'', JBool True) # ch),
              log_event c ''admin_auth_settings'' ''ok'' (map (\<lambda>(k, v). (k, take 64 (str_of e v))) ch) w1))))"

definition admin_approve_user :: "'h env \<Rightarrow> string \<Rightarrow> 'h handler" where
  "admin_approve_user e user_dn =
     require_admin e ''admin_approve_user'' (require_csrf e ''admin_approve_user'' (\<lambda>c w.
       if row_by u_dn user_dn (w_users w) = None then refuse 404 ''user not found'' w
       else (ok_reply [(''ok'', JBool True)],
             log_event c ''admin_user_approve'' ''ok'' [(''target_dn'', take 128 user_dn)]
               (update_user user_dn (\<lambda>u. u\<lparr>u_auth_status := ''active'', u_is_active := True\<rparr>) w))))"

subsection \<open>Sessions\<close>

definition whoami :: "'h env \<Rightarrow> 'h handler" where
  "whoami e = require_auth e ''whoami'' (\<lambda>c w.
     (ok_reply [(''dn'', JStr (me c))], log_event c ''whoami'' ''ok'' [] w))"

definition session_info :: "'h env \<Rightarrow> 'h handler" where
  "session_info e = require_auth e ''session_info'' (\<lambda>c w.
     case get_or_create_session e c w of
       ((sid, is_new), w1) \<Rightarrow>
         (set_session_cookie sid (ok_reply [(''ok'', JBool True)]),
          log_event c ''session'' (if is_new then ''created'' else ''renewed'') [] w1))"

definition session_end :: "'h env \<Rightarrow> 'h handler" where
  "session_end e = require_auth e ''session_end'' (require_csrf e ''session_end'' (\<lambda>c w.
     let sid = or_empty (c_cookies c ''csr_sid'') in
     ((ok_reply [(''ok'', JBool True)])\<lparr>cookies := [(''csr_sid'', [])]\<rparr>,
      if sid = [] then w
      else log_event c ''session'' ''ended'' [] (w\<lparr>w_keysess := remove_row k_sid sid (w_keysess w)\<rparr>))))"

subsection \<open>Login\<close>

lemma failures_no_cookies [simp]:
  "cookies (fst (refuse n m w)) = []" "cookies (fst (crash e c err w)) = []" "cookies (fst (abort e c n w)) = []"
  by (simp_all add: refuse_def crash_def abort_def failure_def error_reply_def reply_def)

lemma update_user_frame [frame_simps, simp]:
  "w_sessions (update_user dn f w) = w_sessions w" "w_settings (update_user dn f w) = w_settings w"
  "w_rand (update_user dn f w) = w_rand w" "w_jobs (update_user dn f w) = w_jobs w"
  by (simp_all add: update_user_def)

lemma issue_session_cookies:
  assumes "cookies (fst (issue_session e c dn ans after w)) \<noteq> []" "\<And>w. w_sessions (after w) = w_sessions w"
  shows "\<exists>tok s. cookies (fst (issue_session e c dn ans after w)) = [(''csr_session'', tok)] \<and>
    row_by s_token tok (w_sessions (snd (issue_session e c dn ans after w))) = Some s \<and> s_dn s = dn"
proof -
  obtain r w1 where cl: "create_local_session e c dn w = (r, w1)" by fastforce
  then obtain tok where r: "r = Inr tok" using assms(1) by (cases r) (auto simp: issue_session_def)
  then obtain ss where ss: "insert_row s_token \<lparr>s_token = tok, s_dn = dn, s_created_at = c_now c,
      s_expires_at = c_now c + SESSION_TTL e\<rparr> (w_sessions w) = Some ss" "w_sessions w1 = ss"
    using cl by (auto simp: create_local_session_def Let_def tick_def split: option.splits)
  from sessions.lookup_insert [OF ss(1), of tok] show ?thesis
    by (simp add: issue_session_def cl r ss(2) assms(2))
qed

lemma user_by_name_SomeD: "user_by_name n us = Some u \<Longrightarrow> u \<in> set us \<and> u_username u = Some n"
  by (auto simp: user_by_name_def dest: find_Some_mem)

lemma login_user_cookies:
  assumes "cookies (fst (login_user e n pw u c w)) \<noteq> []"
  shows "u_locked_until u \<le> c_now c" "u_auth_status u \<noteq> ''pending''" "u_is_active u"
    "verify_json e pw (u_password_hash u)"
    "\<exists>tok s. cookies (fst (login_user e n pw u c w)) = [(''csr_session'', tok)] \<and>
       row_by s_token tok (w_sessions (snd (login_user e n pw u c w))) = Some s \<and> s_dn s = u_dn u"
proof -
  let ?w = "update_user (u_dn u) (\<lambda>u. u\<lparr>u_failed_attempts := 0, u_locked_until := 0, u_last_seen_at := c_now c\<rparr>) w"
  let ?f = "log_event c ''login'' ''ok'' [(''username'', take 64 n)]"
  have all: "u_locked_until u \<le> c_now c \<and> u_auth_status u \<noteq> ''pending'' \<and> u_is_active u \<and>
      verify_json e pw (u_password_hash u) \<and>
      login_user e n pw u c w = issue_session e c (u_dn u) [(''ok'', JBool True)] ?f ?w"
    using assms by (auto simp: login_user_def login_failed_def Let_def split: if_splits)
  then show "u_locked_until u \<le> c_now c" "u_auth_status u \<noteq> ''pending''" "u_is_active u"
    "verify_json e pw (u_password_hash u)" by blast+
  show "\<exists>tok s. cookies (fst (login_user e n pw u c w)) = [(''csr_session'', tok)] \<and>
       row_by s_token tok (w_sessions (snd (login_user e n pw u c w))) = Some s \<and> s_dn s = u_dn u"
    using issue_session_cookies [of e c "u_dn u" "[(''ok'', JBool True)]" ?f ?w] assms all by simp
qed


text \<open>The request that logs in as the only user of a sample database, for the instances below.\<close>

definition sample_login :: "string \<Rightarrow> ctx" where
  "sample_login pw = sample_ctx\<lparr>c_body := Some (JObj [(''username'', JStr ''ada''), (''password'', JStr pw)])\<rparr>"

definition sample_account :: "int \<Rightarrow> unit world" where
  "sample_account n = sample_world\<lparr>
     w_users := [(new_user ''local:ada'' ''Ada'' 0)\<lparr>u_username := Some ''ada'',
       u_password_hash := Some (hash_password sample_env [] ''pw''), u_failed_attempts := n\<rparr>],
     w_settings := [''auth_mode'' \<mapsto> ''local'']\<rparr>"

lemma sample_login_runs:
  "auth_login sample_env (sample_login pw) (sample_account n) =
     login_user sample_env ''ada'' (JStr pw) (hd (w_users (sample_account n))) (sample_login pw) (sample_account n)"
  if "pw \<noteq> []"
proof -
  have "strip ''ada'' = ''ada''" by code_simp
  moreover have "hash_password sample_env [] ''pw'' \<noteq> []"
    unfolding hash_password_def by (subst join.simps(3)) simp
  ultimately show ?thesis using that
    by (simp add: auth_login_def with_payload_def payload_of_def sample_login_def sample_account_def str_or_empty_def
        auth_mode_def get_setting_def user_by_name_def set_opt_def Let_def new_user_def)
qed

lemma sample_verify: "verify_password sample_env pw (Some (hash_password sample_env [] ''pw'')) \<longleftrightarrow> utf8 pw = ''pw''"
proof -
  have "utf8 ''pw'' = ''pw''" by code_simp
  then show ?thesis using verify_hash [of sample_env pw "[]" "''pw''"] by (simp add: sample_env_def)
qed


text \<open>
  C37: repeated wrong passwords lock the account. A wrong password raises the counter by one; from
  the fifth on it sets a lock of fifteen minutes, and while the lock runs every login, even with the
  right password, is answered 429 without touching the account or issuing a session.
\<close>
theorem login_lockout:
  assumes "u_locked_until u \<le> c_now c" "u_auth_status u \<noteq> ''pending''" "u_is_active u"
    "\<not> verify_json e pw (u_password_hash u)" "row_by u_dn (u_dn u) (w_users w) = Some u"
  shows "status_code (fst (login_user e n pw u c w)) = 401 \<and>
    (\<exists>u'. row_by u_dn (u_dn u) (w_users (snd (login_user e n pw u c w))) = Some u' \<and>
       u_failed_attempts u' = u_failed_attempts u + 1 \<and>
       (4 \<le> u_failed_attempts u \<longrightarrow> u_locked_until u' = c_now c + 900 \<and>
         (\<forall>c2 pw2 w2. c_now c2 < c_now c + 900 \<longrightarrow>
            status_code (fst (login_user e n pw2 u' c2 w2)) = 429 \<and>
            cookies (fst (login_user e n pw2 u' c2 w2)) = [] \<and>
            w_users (snd (login_user e n pw2 u' c2 w2)) = w_users w2 \<and>
            w_sessions (snd (login_user e n pw2 u' c2 w2)) = w_sessions w2)) \<and>
       (u_failed_attempts u < 4 \<longrightarrow> u_locked_until u' = 0))"
proof -
  define lock where "lock = (if LOCKOUT_THRESHOLD \<le> u_failed_attempts u + 1 then c_now c + LOCKOUT_SECONDS else 0)"
  define u' where "u' = u\<lparr>u_failed_attempts := u_failed_attempts u + 1, u_locked_until := lock\<rparr>"
  have run: "login_user e n pw u c w = login_failed c n u w"
    using assms by (simp add: login_user_def)
  have row: "row_by u_dn (u_dn u) (w_users (snd (login_failed c n u w))) = Some u'"
    using assms(5) by (simp add: login_failed_def Let_def update_user_def users.lookup_modify u'_def lock_def refuse_def)
  have locked: "status_code (fst (login_user e n pw2 u' c2 w2)) = 429 \<and> cookies (fst (login_user e n pw2 u' c2 w2)) = [] \<and>
      w_users (snd (login_user e n pw2 u' c2 w2)) = w_users w2 \<and> w_sessions (snd (login_user e n pw2 u' c2 w2)) = w_sessions w2"
    if "c_now c2 < lock" for c2 pw2 and w2
    using that by (simp add: login_user_def u'_def)
  show ?thesis
    unfolding run using row locked
    by (auto simp: u'_def lock_def LOCKOUT_THRESHOLD_def LOCKOUT_SECONDS_def login_failed_def Let_def)
qed

theorem login_lockout_witness:
  "\<exists>u'. row_by u_dn ''local:ada'' (w_users (snd (login_user sample_env ''ada'' (JStr ''no'')
       (hd (w_users (sample_account 4))) sample_ctx (sample_account 4)))) = Some u' \<and> u_locked_until u' = 1900"
proof -
  let ?u = "hd (w_users (sample_account 4))"
  have "utf8 ''no'' = ''no''" by code_simp
  then have "\<not> verify_json sample_env (JStr ''no'') (u_password_hash ?u)"
    by (simp add: verify_json_def sample_account_def sample_verify)
  moreover have "u_locked_until ?u \<le> c_now sample_ctx" "u_auth_status ?u \<noteq> ''pending''" "u_is_active ?u"
    "row_by u_dn (u_dn ?u) (w_users (sample_account 4)) = Some ?u" "u_dn ?u = ''local:ada''" "u_failed_attempts ?u = 4"
    "c_now sample_ctx = 1000"
    by (simp_all add: sample_account_def new_user_def sample_ctx_def)
  ultimately show ?thesis
    using login_lockout [of ?u sample_ctx sample_env "JStr ''no''" "sample_account 4" "''ada''"] by auto
qed

subsection \<open>Registration\<close>

lemma registration_row_fields:
  "u_dn (registration_row e c ap ph r us) = ''local:'' @ derive_username e (r_first r) (r_last r) us"
  "u_username (registration_row e c ap ph r us) = Some (derive_username e (r_first r) (r_last r) us)"
  "u_is_admin (registration_row e c ap ph r us) \<longleftrightarrow> BOOTSTRAP_FIRST_ADMIN e \<and> us = []"
  "u_is_active (registration_row e c ap ph r us) \<longleftrightarrow> BOOTSTRAP_FIRST_ADMIN e \<and> us = [] \<or> \<not> ap"
  "u_auth_status (registration_row e c ap ph r us) =
     (if \<not> (BOOTSTRAP_FIRST_ADMIN e \<and> us = []) \<and> ap then ''pending'' else ''active'')"
  "u_password_hash (registration_row e c ap ph r us) = Some ph"
  by (simp_all add: registration_row_def new_user_def Let_def)

lemma registration_insert:
  "insert_user (registration_row e c ap ph r us) us = Some (us @ [registration_row e c ap ph r us])"
proof (rule insert_user_fresh)
  show "\<forall>u'\<in>set us. u_username (registration_row e c ap ph r us) = None \<or>
      u_username u' \<noteq> u_username (registration_row e c ap ph r us)"
    using derive_username_free [of _ us e "r_first r" "r_last r"] by (auto simp: registration_row_fields)
  show "row_by u_dn (u_dn (registration_row e c ap ph r us)) us = None"
    using derive_username_free [of _ us e "r_first r" "r_last r"]
    by (fastforce simp: registration_row_fields row_by_None_iff)
qed

text \<open>
  Registration inserts one account, on the first try, under the rules. The retry loop never
  gives up, so 503 is never answered; the table gains exactly the derived row and keeps its
  uniqueness; the account is an administrator only as the very first one of a bootstrapping host; and
  with approval required any other account is pending, inactive, and gets no session.
\<close>
theorem register_inserts_one:
  assumes "users_ok (w_users w)"
  shows "\<exists>u. w_users (snd (register_user e r c w)) = w_users w @ [u] \<and>
    users_ok (w_users (snd (register_user e r c w))) \<and>
    status_code (fst (register_user e r c w)) \<in> {200, 500} \<and>
    u_username u = Some (derive_username e (r_first r) (r_last r) (w_users w)) \<and>
    (u_is_admin u \<longleftrightarrow> BOOTSTRAP_FIRST_ADMIN e \<and> w_users w = []) \<and>
    verify_password e (r_password r) (u_password_hash u) \<and>
    (setting_is_one w ''require_admin_approval'' \<and> w_users w \<noteq> [] \<longrightarrow>
       u_auth_status u = ''pending'' \<and> \<not> u_is_active u \<and> cookies (fst (register_user e r c w)) = [] \<and>
       w_sessions (snd (register_user e r c w)) = w_sessions w)"
proof -
  define ap where "ap = setting_is_one w ''require_admin_approval''"
  define u where "u = registration_row e c ap (hash_password e (drawn e w) (r_password r)) r (w_users w)"
  have ins: "insert_registration 5 e c ap (hash_password e (drawn e w) (r_password r)) r (w_users w)
      = Some (u, w_users w @ [u])"
    using registration_insert [of e c ap "hash_password e (drawn e w) (r_password r)" r "w_users w"]
    by (simp add: numeral_eq_Suc u_def Let_def)
  have ok: "users_ok (w_users w @ [u])"
    using insert_user_ok [OF assms registration_insert] by (simp add: u_def)
  have ver: "verify_password e (r_password r) (u_password_hash u)"
    by (simp add: u_def registration_row_fields verify_hash)
  have sess: "w_users (snd (issue_session e c dn ans (\<lambda>w. w) w2)) = w_users w2 \<and>
      status_code (fst (issue_session e c dn ans (\<lambda>w. w) w2)) \<in> {200, 500}" for dn ans w2
    by (auto simp: issue_session_def create_local_session_def Let_def tick_def split: option.splits)
  have users: "w_users (snd (register_user e r c w)) = w_users w @ [u]
      \<and> status_code (fst (register_user e r c w)) \<in> {200, 500}"
    using sess by (simp add: register_user_def Let_def ins ap_def [symmetric])
  have pend: "u_auth_status u = ''pending'' \<and> \<not> u_is_active u \<and> cookies (fst (register_user e r c w)) = [] \<and>
       w_sessions (snd (register_user e r c w)) = w_sessions w" if "ap" "w_users w \<noteq> []"
  proof -
    have st: "u_auth_status u = ''pending''" "\<not> u_is_active u"
      using that by (simp_all add: u_def registration_row_fields)
    moreover have "cookies (fst (register_user e r c w)) = [] \<and> w_sessions (snd (register_user e r c w)) = w_sessions w"
      using st by (simp add: register_user_def Let_def ins ap_def [symmetric] ok_reply_def reply_def)
    ultimately show ?thesis by blast
  qed
  have adm: "u_is_admin u \<longleftrightarrow> BOOTSTRAP_FIRST_ADMIN e \<and> w_users w = []"
    "u_username u = Some (derive_username e (r_first r) (r_last r) (w_users w))"
    by (simp_all add: u_def registration_row_fields)
  show ?thesis
    using users ok ver adm pend by (intro exI [of _ u]) (simp add: ap_def)
qed

theorem register_inserts_one_witness:
  "\<exists>u. w_users (snd (register_user sample_env \<lparr>r_first = ''Ada'', r_last = ''King'', r_email = ''a@b.org'',
       r_password = ''Secret-Phrase-15''\<rparr> sample_ctx sample_world)) = [u] \<and> \<not> u_is_admin u"
proof -
  have "w_users sample_world = []" "\<not> BOOTSTRAP_FIRST_ADMIN sample_env" by (simp_all add: sample_world_def sample_env_def)
  then show ?thesis
    using register_inserts_one [of sample_world sample_env "\<lparr>r_first = ''Ada'', r_last = ''King'',
      r_email = ''a@b.org'', r_password = ''Secret-Phrase-15''\<rparr>" sample_ctx] by auto
qed

end
