(* ===== verification/GroupRoutes.thy ===== *)
theory GroupRoutes
  imports AuthRoutes
begin

text \<open>
  Groups: the helpers of \<^verbatim>\<open>backend/app.py\<close> that read memberships and recipients, and the
  endpoints of \<^verbatim>\<open>backend/routes_groups.py\<close> through which owners and administrators manage
  them. \<open>ORDER BY ... COLLATE NOCASE\<close> is a stable sort by the ASCII-folded key.
\<close>

definition nocase :: "string \<Rightarrow> string" where
  "nocase s = map ascii_fold s"

definition memberships :: "string \<Rightarrow> 'h world \<Rightarrow> member list" where
  "memberships dn w = filter (\<lambda>m. m_dn m = dn) (w_members w)"

definition user_group_ids :: "string \<Rightarrow> 'h world \<Rightarrow> int list" where
  "user_group_ids dn w = (if dn = [] then [] else map m_gid (memberships dn w))"

definition user_groups :: "string \<Rightarrow> 'h world \<Rightarrow> grp list" where
  "user_groups dn w =
     (if dn = [] then []
      else sort_key g_name (concat (map (\<lambda>m. filter (\<lambda>g. g_id g = m_gid m) (w_groups w)) (memberships dn w))))"

definition group_by_id :: "int option \<Rightarrow> 'h world \<Rightarrow> grp option" where
  "group_by_id gid w = (case gid of None \<Rightarrow> None | Some i \<Rightarrow> row_by g_id i (w_groups w))"

definition group_email :: "int option \<Rightarrow> 'h world \<Rightarrow> string option" where
  "group_email gid w =
     (case group_by_id gid w of None \<Rightarrow> None | Some g \<Rightarrow> nonempty (strip (or_empty (g_email g))))"

definition is_member_row :: "string \<Rightarrow> int \<Rightarrow> member \<Rightarrow> bool" where
  "is_member_row dn gid m = (m_dn m = dn \<and> m_gid m = gid)"

definition group_role :: "string \<Rightarrow> int \<Rightarrow> 'h world \<Rightarrow> role option" where
  "group_role dn gid w =
     (if dn = [] \<or> gid = 0 then None
      else map_option m_role (List.find (is_member_row dn gid) (w_members w)))"

definition is_group_owner_or_admin :: "ctx \<Rightarrow> string \<Rightarrow> int \<Rightarrow> 'h world \<Rightarrow> bool" where
  "is_group_owner_or_admin c dn gid w = (is_admin c \<or> group_role dn gid w = Some Owner)"

definition group_owner_emails :: "int option \<Rightarrow> 'h world \<Rightarrow> string list" where
  "group_owner_emails gid w =
     (case gid of None \<Rightarrow> []
      | Some i \<Rightarrow>
        if i = 0 then []
        else concat (map (\<lambda>m. map (or_empty \<circ> u_email)
               (filter (\<lambda>u. u_dn u = m_dn m \<and> u_is_active u \<and> set_opt (u_email u)) (w_users w)))
             (filter (\<lambda>m. m_gid m = i \<and> m_role m = Owner) (w_members w))))"

definition signer_group :: "'h world \<Rightarrow> int \<Rightarrow> bool" where
  "signer_group w gid = list_ex (\<lambda>g. g_id g = gid \<and> g_notify g) (w_groups w)"

definition is_signer :: "string \<Rightarrow> 'h world \<Rightarrow> bool" where
  "is_signer dn w = (dn \<noteq> [] \<and> list_ex (\<lambda>m. signer_group w (m_gid m)) (memberships dn w))"

text \<open>SQL's \<open>TRIM\<close> removes spaces only.\<close>

definition sql_blank :: "string option \<Rightarrow> bool" where
  "sql_blank s = list_all (\<lambda>c. c = CHR '' '') (or_empty s)"

definition signer_recipients :: "'h world \<Rightarrow> string list" where
  "signer_recipients w =
     (let lists = map (or_empty \<circ> g_email) (filter (\<lambda>g. g_notify g \<and> \<not> sql_blank (g_email g)) (w_groups w));
          people = remdups (map (or_empty \<circ> u_email)
            (filter (\<lambda>u. u_is_active u \<and> \<not> sql_blank (u_email u)
               \<and> list_ex (\<lambda>m. signer_group w (m_gid m)) (filter (\<lambda>m. m_dn m = u_dn u) (w_members w))) (w_users w)))
      in dedup_key lower [] (map strip (lists @ people)))"

subsection \<open>Endpoints\<close>

definition owner_count :: "int \<Rightarrow> 'h world \<Rightarrow> nat" where
  "owner_count gid w = rowcount (\<lambda>m. m_gid m = gid \<and> m_role m = Owner) (w_members w)"

definition parse_role :: "string \<Rightarrow> role option" where
  "parse_role s = (if s = ''member'' then Some Member else if s = ''owner'' then Some Owner else None)"

definition set_role :: "string \<Rightarrow> int \<Rightarrow> role \<Rightarrow> 'h world \<Rightarrow> 'h world" where
  "set_role dn gid r w = w\<lparr>w_members := update_where (is_member_row dn gid) (\<lambda>m. m\<lparr>m_role := r\<rparr>) (w_members w)\<rparr>"

definition drop_member :: "string \<Rightarrow> int \<Rightarrow> 'h world \<Rightarrow> 'h world" where
  "drop_member dn gid w = w\<lparr>w_members := delete_where (is_member_row dn gid) (w_members w)\<rparr>"

definition member_label :: "string \<Rightarrow> string" where
  "member_label dn = or_else (cn_from_dn dn) dn"

definition ok_json :: response where
  "ok_json = ok_reply [(''ok'', JBool True)]"

definition admin_set_member_role :: "'h env \<Rightarrow> int \<Rightarrow> 'h handler" where
  "admin_set_member_role e gid =
     require_admin e ''admin_set_member_role'' (require_csrf e ''admin_set_member_role'' (\<lambda>c w.
       with_payload e c w (\<lambda>p.
       attempt e c (str_or_empty (jget ''dn'' p)) w (\<lambda>d.
       attempt e c (str_or_empty (jget ''role'' p)) w (\<lambda>r.
       let dn = strip d in
       case parse_role (strip r) of
         None \<Rightarrow> refuse 400 (''role must be '' @ [CHR 0x27] @ ''member'' @ [CHR 0x27] @ '' or ''
                   @ [CHR 0x27] @ ''owner'' @ [CHR 0x27]) w
       | Some role \<Rightarrow>
           if rowcount (is_member_row dn gid) (w_members w) = 0 then refuse 404 ''not a member of that group'' w
           else (ok_json, log_event c ''group_member_role'' ''ok''
                  [(''group_id'', int_str gid), (''member'', member_label dn), (''role'', role_str role)]
                  (set_role dn gid role w)))))))"

definition group_members_json :: "'h world \<Rightarrow> int \<Rightarrow> json" where
  "group_members_json w gid =
     (let rows = concat (map (\<lambda>m. map (Pair m) (filter (\<lambda>u. u_dn u = m_dn m) (w_users w)))
                   (filter (\<lambda>m. m_gid m = gid) (w_members w)));
          sorted = filter (\<lambda>(m, u). m_role m = Owner) (sort_key (\<lambda>(m, u). nocase (u_cn u)) rows)
                 @ filter (\<lambda>(m, u). m_role m \<noteq> Owner) (sort_key (\<lambda>(m, u). nocase (u_cn u)) rows)
      in JArr (map (\<lambda>(m, u). JObj [(''dn'', JStr (u_dn u)), (''cn'', JStr (u_cn u)), (''email'', jopt (u_email u)),
           (''role'', JStr (role_str (m_role m))), (''added_at'', JInt (m_added_at m))]) sorted))"

definition my_group_json :: "'h world \<Rightarrow> member \<times> grp \<Rightarrow> json" where
  "my_group_json w mg =
     (case mg of (m, g) \<Rightarrow>
      JObj ([(''id'', JInt (g_id g)), (''name'', JStr (g_name g)), (''description'', jopt (g_description g)),
             (''email'', jopt (g_email g)), (''notify_on_new'', JBool (g_notify g)),
             (''role'', JStr (role_str (m_role m))),
             (''member_count'', JInt (int (rowcount (\<lambda>x. m_gid x = g_id g) (w_members w))))]
            @ (if m_role m = Owner then [(''members'', group_members_json w (g_id g))] else [])))"

definition my_groups :: "'h env \<Rightarrow> 'h handler" where
  "my_groups e = require_auth e ''my_groups'' (\<lambda>c w.
     let rows = concat (map (\<lambda>m. map (Pair m) (filter (\<lambda>g. g_id g = m_gid m) (w_groups w))) (memberships (me c) w)) in
     (ok_reply [(''groups'', JArr (map (my_group_json w) (sort_key (\<lambda>(m, g). nocase (g_name g)) rows)))], w))"

definition add_member_body :: "'h env \<Rightarrow> int \<Rightarrow> 'h handler" where
  "add_member_body e gid c w =
     (if group_by_id (Some gid) w = None then refuse 404 ''group not found'' w
      else if \<not> is_group_owner_or_admin c (me c) gid w
      then refuse 403 ''only the group owner or an admin can add members''
             (log_event c ''group_add_member'' ''deny_not_owner'' [(''group_id'', int_str gid)] w)
      else with_payload e c w (\<lambda>p.
        attempt e c (str_or_empty (jget ''email'' p)) w (\<lambda>m0.
        let email = lower (strip m0) in
        if email = [] \<or> \<not> EMAIL_RE email then refuse 400 ''a valid member email is required'' w
        else case List.find (\<lambda>u. map_option nocase (u_email u) = Some email \<and> u_is_active u) (w_users w) of
          None \<Rightarrow> refuse 404 (''no active user with that email - they must ''
                   @ ''log into the dashboard and set their email '' @ ''in Settings first'') w
        | Some u \<Rightarrow>
            if List.find (is_member_row (u_dn u) gid) (w_members w) \<noteq> None then refuse 409 ''already a member'' w
            else (ok_reply [(''ok'', JBool True), (''cn'', JStr (u_cn u))],
                  log_event c ''group_add_member'' ''ok''
                    [(''group_id'', int_str gid), (''member'', or_else (u_cn u) email), (''by'', ''owner'')]
                    (w\<lparr>w_members := w_members w @
                       [\<lparr>m_dn = u_dn u, m_gid = gid, m_added_at = c_now c, m_role = Member\<rparr>]\<rparr>)))))"

definition remove_refusal :: "ctx \<Rightarrow> string \<Rightarrow> int \<Rightarrow> role \<Rightarrow> 'h world \<Rightarrow> (nat \<times> string) option" where
  "remove_refusal c dn gid target w =
     (if dn = me c then
        (if target = Owner \<and> \<not> is_admin c \<and> owner_count gid w \<le> 1
         then Some (400, ''you are the only owner - make another '' @ ''member an owner before leaving'') else None)
      else if \<not> (is_admin c \<or> group_role (me c) gid w = Some Owner)
      then Some (403, ''only the group owner or an admin can remove '' @ ''other members'')
      else if target = Owner \<and> \<not> is_admin c then Some (403, ''only an admin can remove a group owner'')
      else None)"

definition remove_member_body :: "'h env \<Rightarrow> int \<Rightarrow> 'h handler" where
  "remove_member_body e gid c w =
     (if group_by_id (Some gid) w = None then refuse 404 ''group not found'' w
      else with_payload e c w (\<lambda>p.
        attempt e c (str_or_empty (jget ''dn'' p)) w (\<lambda>d.
        let dn = strip d in
        if dn = [] then refuse 400 ''dn required'' w
        else case group_role dn gid w of
          None \<Rightarrow> refuse 404 ''not a member'' w
        | Some target \<Rightarrow>
            (case remove_refusal c dn gid target w of
               Some (code, msg) \<Rightarrow> refuse code msg w
             | None \<Rightarrow> (ok_json, log_event c ''group_remove_member'' ''ok''
                 [(''group_id'', int_str gid), (''member'', member_label dn),
                  (''self'', if dn = me c then ''1'' else ''0'')] (drop_member dn gid w))))))"

definition set_role_body :: "'h env \<Rightarrow> int \<Rightarrow> 'h handler" where
  "set_role_body e gid c w =
     (if group_by_id (Some gid) w = None then refuse 404 ''group not found'' w
      else if \<not> is_group_owner_or_admin c (me c) gid w
      then refuse 403 ''only the group owner or an admin can change roles''
             (log_event c ''group_set_role'' ''deny_not_owner'' [(''group_id'', int_str gid)] w)
      else with_payload e c w (\<lambda>p.
        attempt e c (str_or_empty (jget ''dn'' p)) w (\<lambda>d.
        attempt e c (str_or_empty (jget ''role'' p)) w (\<lambda>r.
        let dn = strip d in
        case parse_role (strip r) of
          None \<Rightarrow> refuse 400 (''role must be '' @ [CHR 0x27] @ ''member'' @ [CHR 0x27] @ '' or ''
                    @ [CHR 0x27] @ ''owner'' @ [CHR 0x27]) w
        | Some role \<Rightarrow>
            if dn = [] then refuse 400 ''dn required'' w
            else case group_role dn gid w of
              None \<Rightarrow> refuse 404 ''not a member of that group'' w
            | Some target \<Rightarrow>
                if target = role then (ok_json, w)
                else if target = Owner \<and> role = Member \<and> owner_count gid w \<le> 1
                then refuse 400 ''a group must have at least one owner'' w
                else (ok_json, log_event c ''group_set_role'' ''ok''
                       [(''group_id'', int_str gid), (''member'', member_label dn), (''role'', role_str role),
                        (''by'', ''owner'')] (set_role dn gid role w))))))"

definition group_owner_add_member :: "'h env \<Rightarrow> int \<Rightarrow> 'h handler" where
  "group_owner_add_member e gid =
     require_auth e ''group_owner_add_member'' (require_csrf e ''group_owner_add_member'' (add_member_body e gid))"

definition group_owner_remove_member :: "'h env \<Rightarrow> int \<Rightarrow> 'h handler" where
  "group_owner_remove_member e gid =
     require_auth e ''group_owner_remove_member'' (require_csrf e ''group_owner_remove_member'' (remove_member_body e gid))"

definition group_owner_set_member_role :: "'h env \<Rightarrow> int \<Rightarrow> 'h handler" where
  "group_owner_set_member_role e gid =
     require_auth e ''group_owner_set_member_role'' (require_csrf e ''group_owner_set_member_role'' (set_role_body e gid))"

subsection \<open>Ownership\<close>

definition member_key :: "member \<Rightarrow> string \<times> int" where
  "member_key m = (m_dn m, m_gid m)"

definition members_ok :: "'h world \<Rightarrow> bool" where
  "members_ok w \<longleftrightarrow> unique_key member_key (w_members w)"

definition has_owner :: "'h world \<Rightarrow> int \<Rightarrow> bool" where
  "has_owner w gid \<longleftrightarrow> (\<exists>m\<in>set (w_members w). m_gid m = gid \<and> m_role m = Owner)"

interpretation members: keyed_store "row_by member_key" "insert_row member_key" "modify_row member_key"
  "remove_row member_key" member_key "unique_key member_key"
  by (rule row_store)

lemma member_row_key: "is_member_row dn gid = (\<lambda>m. member_key m = (dn, gid))"
  by (auto simp: is_member_row_def member_key_def)

lemma group_role_row: "group_role dn gid w = (if dn = [] \<or> gid = 0 then None
    else map_option m_role (row_by member_key (dn, gid) (w_members w)))"
  by (simp add: group_role_def row_by_def member_row_key)

lemma set_role_modify: "w_members (set_role dn gid r w) = modify_row member_key (dn, gid) (\<lambda>m. m\<lparr>m_role := r\<rparr>) (w_members w)"
  by (simp add: set_role_def member_row_key modify_row_def)

lemma drop_member_remove: "w_members (drop_member dn gid w) = remove_row member_key (dn, gid) (w_members w)"
  by (simp add: drop_member_def member_row_key remove_row_def)

lemma has_owner_row:
  "members_ok w \<Longrightarrow> has_owner w gid \<longleftrightarrow> (\<exists>dn m. row_by member_key (dn, gid) (w_members w) = Some m \<and> m_role m = Owner)"
  by (auto simp: has_owner_def members_ok_def member_key_def dest!: row_by_SomeD)
    (metis member_key_def row_by_unique)

lemma other_owner:
  assumes "members_ok w" "1 < owner_count gid w"
  shows "\<exists>d m. d \<noteq> dn \<and> row_by member_key (d, gid) (w_members w) = Some m \<and> m_role m = Owner"
proof -
  let ?os = "filter (\<lambda>m. m_gid m = gid \<and> m_role m = Owner) (w_members w)"
  have "distinct (map member_key ?os)"
    using assms(1) by (auto simp: members_ok_def unique_key_def intro: distinct_map_filter)
  moreover have "member_key m = (m_dn m, gid)" if "m \<in> set ?os" for m using that by (simp add: member_key_def)
  ultimately have "distinct (map m_dn ?os)"
    by (auto simp: distinct_map inj_on_def)
  then have "card (set (map m_dn ?os)) = length (map m_dn ?os)" by (rule distinct_card)
  then have "1 < card (set (map m_dn ?os))" using assms(2) by (simp only: length_map owner_count_def rowcount_def)
  then have "\<not> set (map m_dn ?os) \<subseteq> {dn}" using card_mono [of "{dn}" "set (map m_dn ?os)"] by auto
  then obtain m where "m \<in> set ?os" "m_dn m \<noteq> dn" by auto
  then have "m \<in> set (w_members w)" "member_key m = (m_dn m, gid)" "m_role m = Owner"
    by (auto simp: member_key_def)
  with row_by_unique [of member_key "w_members w" m] assms(1) \<open>m_dn m \<noteq> dn\<close>
  show ?thesis by (auto simp: members_ok_def)
qed

lemma members_ok_cong: "w_members w' = w_members w \<Longrightarrow> members_ok w' = members_ok w"
  by (simp add: members_ok_def)

lemma has_owner_cong: "w_members w' = w_members w \<Longrightarrow> has_owner w' = has_owner w"
  by (simp add: has_owner_def fun_eq_iff)

text \<open>The effect of each endpoint's body on the membership table.\<close>

datatype group_op = AddMember int | RemoveMember int | SetRole int

fun group_body :: "'h env \<Rightarrow> group_op \<Rightarrow> 'h handler" where
  "group_body e (AddMember gid) = add_member_body e gid"
| "group_body e (RemoveMember gid) = remove_member_body e gid"
| "group_body e (SetRole gid) = set_role_body e gid"

fun group_endpoint :: "'h env \<Rightarrow> group_op \<Rightarrow> 'h handler" where
  "group_endpoint e (AddMember gid) = group_owner_add_member e gid"
| "group_endpoint e (RemoveMember gid) = group_owner_remove_member e gid"
| "group_endpoint e (SetRole gid) = group_owner_set_member_role e gid"

fun op_group :: "group_op \<Rightarrow> int" where
  "op_group (AddMember gid) = gid" | "op_group (RemoveMember gid) = gid" | "op_group (SetRole gid) = gid"

lemma with_payload_split:
  "P (with_payload e c w k) \<longleftrightarrow>
     (\<forall>err. payload_of (c_body c) = Inl err \<longrightarrow> P (crash e c err w)) \<and>
     (\<forall>p. payload_of (c_body c) = Inr p \<longrightarrow> P (k p))"
  by (simp add: with_payload_def attempt_def split: sum.split)

lemma attempt_split:
  "P (attempt e c r w k) \<longleftrightarrow>
     (\<forall>err. r = Inl err \<longrightarrow> P (crash e c err w)) \<and> (\<forall>x. r = Inr x \<longrightarrow> P (k x))"
  by (simp add: attempt_def split: sum.split)

definition member_change :: "ctx \<Rightarrow> int \<Rightarrow> 'h world \<Rightarrow> member list \<Rightarrow> bool" where
  "member_change c gid w ms \<longleftrightarrow>
     ms = w_members w
   \<or> (\<exists>dn. is_group_owner_or_admin c (me c) gid w \<and> row_by member_key (dn, gid) (w_members w) = None \<and>
        ms = w_members w @ [\<lparr>m_dn = dn, m_gid = gid, m_added_at = c_now c, m_role = Member\<rparr>])
   \<or> (\<exists>dn target. group_role dn gid w = Some target \<and> remove_refusal c dn gid target w = None \<and>
        ms = remove_row member_key (dn, gid) (w_members w))
   \<or> (\<exists>dn target role. is_group_owner_or_admin c (me c) gid w \<and> group_role dn gid w = Some target \<and>
        (target = Owner \<longrightarrow> 1 < owner_count gid w) \<and>
        ms = modify_row member_key (dn, gid) (\<lambda>m. m\<lparr>m_role := role\<rparr>) (w_members w))"

lemma member_change_same: "ms = w_members w \<Longrightarrow> member_change c gid w ms"
  by (simp add: member_change_def)

lemma member_change_add:
  "is_group_owner_or_admin c (me c) gid w \<Longrightarrow> row_by member_key (dn, gid) (w_members w) = None \<Longrightarrow>
     member_change c gid w (w_members w @ [\<lparr>m_dn = dn, m_gid = gid, m_added_at = c_now c, m_role = Member\<rparr>])"
  unfolding member_change_def by blast

lemma member_change_remove:
  "group_role dn gid w = Some target \<Longrightarrow> remove_refusal c dn gid target w = None \<Longrightarrow>
     member_change c gid w (remove_row member_key (dn, gid) (w_members w))"
  unfolding member_change_def by blast

lemma member_change_role:
  "is_group_owner_or_admin c (me c) gid w \<Longrightarrow> group_role dn gid w = Some target \<Longrightarrow>
     (target = Owner \<Longrightarrow> 1 < owner_count gid w) \<Longrightarrow>
     member_change c gid w (modify_row member_key (dn, gid) (\<lambda>m. m\<lparr>m_role := role\<rparr>) (w_members w))"
  unfolding member_change_def by blast

lemma add_member_change: "member_change c gid w (w_members (snd (add_member_body e gid c w)))"
proof -
  have none: "List.find (is_member_row dn gid) ms = None \<longleftrightarrow> row_by member_key (dn, gid) ms = None" for dn ms
    by (simp add: row_by_def member_row_key)
  show ?thesis
    by (simp add: add_member_body_def with_payload_split [of "\<lambda>r. member_change c gid w (w_members (snd r))"]
        attempt_split [of "\<lambda>r. member_change c gid w (w_members (snd r))"] none Let_def
        member_change_same member_change_add split: option.split)
qed

lemma remove_member_change: "member_change c gid w (w_members (snd (remove_member_body e gid c w)))"
  by (simp add: remove_member_body_def with_payload_split [of "\<lambda>r. member_change c gid w (w_members (snd r))"]
      attempt_split [of "\<lambda>r. member_change c gid w (w_members (snd r))"] Let_def drop_member_remove
      member_change_same member_change_remove split: option.split)

lemma set_role_change: "member_change c gid w (w_members (snd (set_role_body e gid c w)))"
proof -
  have role: "member_change c gid w (modify_row member_key (dn, gid) (\<lambda>m. m\<lparr>m_role := role\<rparr>) (w_members w))"
    if "is_group_owner_or_admin c (me c) gid w" "group_role dn gid w = Some target" "target \<noteq> role"
      "target = Owner \<longrightarrow> role = Member \<longrightarrow> \<not> owner_count gid w \<le> Suc 0" for dn target role
    using that by (intro member_change_role [OF that(1,2)]) (cases role; simp)
  show ?thesis
    by (simp add: set_role_body_def with_payload_split [of "\<lambda>r. member_change c gid w (w_members (snd r))"]
        attempt_split [of "\<lambda>r. member_change c gid w (w_members (snd r))"] Let_def set_role_modify
        member_change_same role split: option.split)
qed

lemma group_body_change: "member_change c (op_group q) w (w_members (snd (group_body e q c w)))"
  by (cases q) (simp_all add: add_member_change remove_member_change set_role_change)

lemma group_endpoint_change:
  assumes "c_user c = Some u"
  shows "member_change c (op_group q) w (w_members (snd (group_endpoint e q c w)))"
proof -
  have id: "member_change c gid w (w_members w)" for gid by (simp add: member_change_def)
  obtain name where eq: "group_endpoint e q = guard_user e name (require_csrf e name (group_body e q))"
    by (cases q) (auto simp: group_owner_add_member_def group_owner_remove_member_def
        group_owner_set_member_role_def require_auth_def)
  have un: "untouched w w' \<Longrightarrow> member_change c (op_group q) w (w_members w')" for w'
    by (simp add: untouched_def id)
  from guard_user_cases [of e c w name "require_csrf e name (group_body e q)"]
  show ?thesis
  proof (elim disjE exE conjE)
    fix c' w' assume p: "passed e c w c' w'"
      and g: "guard_user e name (require_csrf e name (group_body e q)) c w = require_csrf e name (group_body e q) c' w'"
    from p assms obtain i where c': "c' = c" and w': "w' = snd (ensure_user e c i (snd (auth_mode e w)))"
      by (auto simp: passed_def)
    have mem: "w_members w' = w_members w" by (simp add: w')
    then have role: "group_role dn gid w' = group_role dn gid w" "owner_count gid w' = owner_count gid w" for dn gid
      by (simp_all add: group_role_def owner_count_def)
    then have same: "is_group_owner_or_admin c dn gid w' = is_group_owner_or_admin c dn gid w"
      "remove_refusal c dn gid t w' = remove_refusal c dn gid t w" for dn gid t
      by (simp_all only: is_group_owner_or_admin_def remove_refusal_def)
    have "member_change c (op_group q) w' (w_members (snd (group_body e q c w')))" by (rule group_body_change)
    then have "member_change c (op_group q) w (w_members (snd (group_body e q c w')))"
      by (simp only: member_change_def mem role same)
    then show ?thesis by (simp add: eq g c' require_csrf_def mem id)
  qed (simp add: eq un)
qed

lemma member_change_ok:
  assumes "member_change c gid w ms" "members_ok w"
  shows "unique_key member_key ms"
  using assms
  by (auto simp: member_change_def members_ok_def members.wf_remove member_key_def row_by_None_iff unique_key_def
      intro!: members.wf_modify [unfolded unique_key_def])
    (auto simp: member_key_def remove_row_def delete_where_def intro: distinct_map_filter)

lemma member_change_owner:
  assumes ch: "member_change c gid w ms" and ok: "members_ok w" and na: "\<not> is_admin c"
    and own: "has_owner w g"
  shows "\<exists>m\<in>set ms. m_gid m = g \<and> m_role m = Owner"
proof -
  from own ok obtain d m where dm: "row_by member_key (d, g) (w_members w) = Some m" "m_role m = Owner"
    by (auto simp: has_owner_row)
  have found: "\<exists>m\<in>set ms. m_gid m = g \<and> m_role m = Owner"
    if "row_by member_key (x, g) ms = Some m'" "m_role m' = Owner" for x m'
    using row_by_SomeD [OF that(1)] that(2) by (auto simp: member_key_def)
  have later: "\<exists>x m'. x \<noteq> dn \<and> row_by member_key (x, g) (w_members w) = Some m' \<and> m_role m' = Owner"
    if "1 < owner_count g w" for dn
    using other_owner [OF ok that] .
  from ch show ?thesis
    unfolding member_change_def
  proof (elim disjE exE conjE)
    assume "ms = w_members w"
    with dm show ?thesis using found by blast
  next
    fix dn assume ms: "ms = w_members w @ [\<lparr>m_dn = dn, m_gid = gid, m_added_at = c_now c, m_role = Member\<rparr>]"
    then have "row_by member_key (d, g) ms = Some m" using dm(1) by (simp add: row_by_append)
    then show ?thesis using found dm(2) by blast
  next
    fix dn target
    assume t: "group_role dn gid w = Some target" and r: "remove_refusal c dn gid target w = None"
      and ms: "ms = remove_row member_key (dn, gid) (w_members w)"
    show ?thesis
    proof (cases "(d, g) = (dn, gid)")
      case False
      then have "row_by member_key (d, g) ms = Some m" using dm(1) by (simp add: ms members.lookup_remove)
      then show ?thesis using found dm(2) by blast
    next
      case True
      then have "target = Owner" using t dm by (simp add: group_role_row split: if_splits)
      then have "1 < owner_count g w"
        using r na True by (auto simp: remove_refusal_def not_le split: if_splits)
      then obtain x m' where x: "x \<noteq> dn" "row_by member_key (x, g) (w_members w) = Some m'" "m_role m' = Owner"
        using later by blast
      then have "row_by member_key (x, g) ms = Some m'" by (simp add: ms members.lookup_remove)
      then show ?thesis using found x(3) by blast
    qed
  next
    fix dn target role
    assume t: "group_role dn gid w = Some target" and r: "target = Owner \<longrightarrow> 1 < owner_count gid w"
      and ms: "ms = modify_row member_key (dn, gid) (\<lambda>m. m\<lparr>m_role := role\<rparr>) (w_members w)"
    have look: "row_by member_key k ms = (if k = (dn, gid) then map_option (\<lambda>m. m\<lparr>m_role := role\<rparr>) (row_by member_key k (w_members w))
        else row_by member_key k (w_members w))" for k
      unfolding ms by (rule members.lookup_modify) (simp add: member_key_def)
    show ?thesis
    proof (cases "(d, g) = (dn, gid)")
      case False
      then have "row_by member_key (d, g) ms = Some m" using dm(1) by (simp only: look False if_False)
      then show ?thesis using found dm(2) by blast
    next
      case True
      then have "target = Owner" using t dm by (simp add: group_role_row split: if_splits)
      then have "1 < owner_count g w" using r True by simp
      then obtain x m' where x: "x \<noteq> dn" "row_by member_key (x, g) (w_members w) = Some m'" "m_role m' = Owner"
        using later by blast
      then have "row_by member_key (x, g) ms = Some m'" by (simp add: look)
      then show ?thesis using found x(3) by blast
    qed
  qed
qed

text \<open>What non-administrators can do with a group's endpoints, any number of times.\<close>

inductive group_history :: "'h env \<Rightarrow> 'h world \<Rightarrow> 'h world \<Rightarrow> bool" for e where
  start: "group_history e w w"
| request: "group_history e w w1 \<Longrightarrow> c_user c = Some u \<Longrightarrow> \<not> u_is_admin u \<Longrightarrow>
    group_history e w (snd (group_endpoint e q c w1))"

inductive_cases group_historyE: "group_history e w w'"

text \<open>
  C15: a group never loses its last owner through its own members. Over any history of requests by
  users who are not administrators - adding members, leaving, removing others, promoting and demoting -
  every group that had an owner keeps one, and no membership is ever duplicated.
\<close>
theorem group_keeps_owner:
  assumes "group_history e w w'" "members_ok w" "has_owner w g"
  shows "has_owner w' g \<and> members_ok w'"
  using assms
proof (induction rule: group_history.induct)
  case (request w w1 c u q)
  then have IH: "has_owner w1 g" "members_ok w1" by simp_all
  note ch = group_endpoint_change [OF request.hyps(2), of q w1 e]
  have "\<not> is_admin c" using request.hyps by (simp add: is_admin_def)
  from member_change_owner [OF ch IH(2) this IH(1)] member_change_ok [OF ch IH(2)] show ?case
    by (simp add: has_owner_def members_ok_def)
qed simp

definition sample_group :: "unit world" where
  "sample_group = sample_world\<lparr>
     w_groups := [\<lparr>g_id = 1, g_name = ''ops'', g_description = None, g_email = None, g_notify = False, g_created_at = 0\<rparr>],
     w_members := [\<lparr>m_dn = ''CN=ADA'', m_gid = 1, m_added_at = 0, m_role = Owner\<rparr>]\<rparr>"

theorem group_keeps_owner_witness:
  "let c = sample_ctx\<lparr>c_user := Some (new_user ''CN=ADA'' ''ADA'' 0),
             c_body := Some (JObj [(''dn'', JStr ''CN=ADA'')])\<rparr> in
   has_owner (snd (group_endpoint sample_env (RemoveMember 1) c sample_group)) 1"
proof -
  let ?c = "sample_ctx\<lparr>c_user := Some (new_user ''CN=ADA'' ''ADA'' 0),
             c_body := Some (JObj [(''dn'', JStr ''CN=ADA'')])\<rparr>"
  have "group_history sample_env sample_group (snd (group_endpoint sample_env (RemoveMember 1) ?c sample_group))"
    by (rule group_history.request [OF group_history.start, of _ "new_user ''CN=ADA'' ''ADA'' 0"])
      (simp_all add: new_user_def)
  then show ?thesis
    using group_keeps_owner [of sample_env sample_group _ 1]
    by (simp add: members_ok_def unique_key_def has_owner_def sample_group_def Let_def)
qed

text \<open>
  A plain caller can change nothing about a group but leave it. For somebody who is neither
  administrator nor owner of the group, each endpoint leaves the membership table as it is or removes
  the caller's own row from it.
\<close>
theorem outsider_only_leaves:
  assumes "c_user c = Some u" "\<not> u_is_admin u" "group_role (me c) (op_group q) w \<noteq> Some Owner"
  shows "w_members (snd (group_endpoint e q c w)) = w_members w \<or>
    w_members (snd (group_endpoint e q c w)) = remove_row member_key (me c, op_group q) (w_members w)"
  using group_endpoint_change [OF assms(1), of q w e] assms(2,3)
  by (auto simp: member_change_def is_group_owner_or_admin_def is_admin_def assms(1) remove_refusal_def
      split: if_splits)

theorem outsider_only_leaves_witness:
  "let c = sample_ctx\<lparr>c_identity := Some \<lparr>id_dn = ''CN=EVE'', id_serial = ''2'', id_via = ''cac''\<rparr>,
             c_user := Some (new_user ''CN=EVE'' ''EVE'' 0)\<rparr> in
   has_owner (snd (group_endpoint sample_env (SetRole 1) c sample_group)) 1"
proof -
  let ?c = "sample_ctx\<lparr>c_identity := Some \<lparr>id_dn = ''CN=EVE'', id_serial = ''2'', id_via = ''cac''\<rparr>,
             c_user := Some (new_user ''CN=EVE'' ''EVE'' 0)\<rparr>"
  have "group_role (me ?c) (op_group (SetRole 1)) sample_group \<noteq> Some Owner"
    by (simp add: group_role_def me_def sample_group_def is_member_row_def)
  with outsider_only_leaves [of ?c "new_user ''CN=EVE'' ''EVE'' 0" "SetRole 1" sample_group sample_env]
  have "w_members (snd (group_endpoint sample_env (SetRole 1) ?c sample_group)) = w_members sample_group"
    by (auto simp: new_user_def me_def sample_group_def remove_row_def delete_where_def member_key_def)
  then show ?thesis unfolding Let_def has_owner_def by (simp add: sample_group_def)
qed

end
