(* ===== verification/Signer.thy ===== *)
theory Signer
  imports Domains GroupRoutes
begin

text \<open>
  \<^verbatim>\<open>backend/sign.py\<close>: producing and revoking certificates. Configuration (environment over
  settings), the HTTP layer to OpenBao, AppRole login and on-behalf-of tokens, the domain
  quota, the dispatch over backends with its license gate, and the signing policy of a job
  from \<^verbatim>\<open>backend/app.py\<close>. The backends that are not OpenBao are a field of \<open>env\<close>. A
  token or certificate in an answer of OpenBao is a string, as its API documents.
\<close>

datatype sign_error = Unavailable string | Refused string | Raised py_error

type_synonym 'a sign_result = "sign_error + 'a"

fun sign_error_text :: "sign_error \<Rightarrow> string" where
  "sign_error_text (Unavailable m) = m"
| "sign_error_text (Refused m) = m"
| "sign_error_text (Raised err) = err_name err"

definition cfg :: "'h env \<Rightarrow> getter \<Rightarrow> string \<Rightarrow> string \<Rightarrow> string \<Rightarrow> string" where
  "cfg e get setting_key env_var dflt =
     (if set_opt (environ e env_var) then strip (or_empty (environ e env_var))
      else if set_opt (get setting_key) then strip (or_empty (get setting_key)) else dflt)"

subsection \<open>OpenBao over HTTP\<close>

definition sign_http ::
  "'h env \<Rightarrow> string \<Rightarrow> json option \<Rightarrow> string option \<Rightarrow> bool \<Rightarrow> 'h \<Rightarrow> json sign_result \<times> 'h" where
  "sign_http e url payload token raw h =
     (case http e (if payload = None then ''GET'' else ''POST'') url
        (if set_opt token then token else None) (map_option (json_dumps e) payload) h of
        (r, h1) \<Rightarrow>
          ((case r of
              HttpStatus code detail \<Rightarrow>
                Inl (Refused (''OpenBao HTTP '' @ nat_str code @ '' for '' @ url @ '': '' @ take 300 detail))
            | HttpUnreachable why \<Rightarrow> Inl (Refused (''OpenBao unreachable at '' @ url @ '': '' @ why))
            | HttpBroken why \<Rightarrow> Inl (Refused (''OpenBao request failed: '' @ why))
            | HttpOk text \<Rightarrow>
                if raw then Inr (JStr text)
                else if text = [] then Inr (JObj [])
                else (case json_loads e text of
                        None \<Rightarrow> Inl (Refused ''OpenBao returned a non-JSON response'')
                      | Some j \<Rightarrow> Inr j)), h1))"

text \<open>\<open>d.get(k)\<close> and \<open>(x or {}).get(k)\<close>, which fail on anything but an object.\<close>

definition dget :: "string \<Rightarrow> json \<Rightarrow> json sign_result" where
  "dget k j = (case j of JObj kvs \<Rightarrow> Inr (jget k j) | _ \<Rightarrow> Inl (Raised AttributeError))"

definition or_obj :: "json \<Rightarrow> json" where
  "or_obj j = (if truthy j then j else JObj [])"

definition bind_sign :: "'a sign_result \<times> 's \<Rightarrow> ('a \<Rightarrow> 's \<Rightarrow> 'b sign_result \<times> 's) \<Rightarrow> 'b sign_result \<times> 's" where
  "bind_sign m k = (case m of (Inl err, s) \<Rightarrow> (Inl err, s) | (Inr x, s) \<Rightarrow> k x s)"

definition strip_slash :: "string \<Rightarrow> string" where
  "strip_slash s = strip_chars ''/'' s"

definition openbao_addr_mount :: "'h env \<Rightarrow> getter \<Rightarrow> string \<times> string" where
  "openbao_addr_mount e get =
     (rstrip_char (CHR ''/'') (cfg e get ''openbao_addr'' ''CERTHEIM_OPENBAO_ADDR'' ''https://openbao.example.com''),
      strip_slash (cfg e get ''openbao_pki_mount'' ''CERTHEIM_OPENBAO_PKI_MOUNT'' ''pki_csr''))"

definition client_token :: "json \<Rightarrow> json sign_result" where
  "client_token data =
     (case dget ''auth'' data of Inl err \<Rightarrow> Inl err | Inr a \<Rightarrow> dget ''client_token'' (or_obj a))"

definition openbao_login :: "'h env \<Rightarrow> string \<Rightarrow> 'h \<Rightarrow> string sign_result \<times> 'h" where
  "openbao_login e addr h =
     (let role_id = strip (getenv e ''CERTHEIM_OPENBAO_ROLE_ID'' '''');
          secret_id = strip (getenv e ''CERTHEIM_OPENBAO_SECRET_ID'' '''') in
      if role_id = [] \<or> secret_id = []
      then (Inl (Refused (''OpenBao AppRole credential not configured ''
              @ ''(set CERTHEIM_OPENBAO_ROLE_ID and CERTHEIM_OPENBAO_SECRET_ID in the env file)'')), h)
      else bind_sign
        (sign_http e (addr @ ''/v1/auth/approle/login'')
          (Some (JObj [(''role_id'', JStr role_id), (''secret_id'', JStr secret_id)])) None False h)
        (\<lambda>data h1.
          (case client_token data of
             Inl err \<Rightarrow> Inl err
           | Inr t \<Rightarrow> if truthy t then Inr (str_of e t)
                      else Inl (Refused ''OpenBao AppRole login returned no token''), h1)))"

definition obo_body :: "string \<Rightarrow> json" where
  "obo_body actor =
     (let a = take 256 actor;
          safe = take 64 (map (\<lambda>c. if py_isalnum c \<or> c \<in> set ''_.-@'' then c else CHR ''_'') a)
      in JObj [(''metadata'', JObj [(''certinel_actor'', JStr a)]),
               (''display_name'', JStr (''certheim-'' @ or_else safe ''user'')),
               (''ttl'', JStr ''3m''), (''num_uses'', JInt 3), (''renewable'', JBool False)])"

definition obo_token :: "'h env \<Rightarrow> string \<Rightarrow> string \<Rightarrow> string \<Rightarrow> 'h \<Rightarrow> string \<times> 'h" where
  "obo_token e addr parent actor h =
     (if actor = [] then (parent, h)
      else case sign_http e (addr @ ''/v1/auth/token/create'') (Some (obo_body actor)) (Some parent) False h of
        (Inl err, h1) \<Rightarrow> (parent, h1)
      | (Inr data, h1) \<Rightarrow>
          ((case client_token data of Inl err \<Rightarrow> parent | Inr t \<Rightarrow> if truthy t then str_of e t else parent), h1))"

subsection \<open>Signing policy\<close>

record policy =
  p_backend :: string
  p_role :: "string option"
  p_max_ttl :: "int option"
  p_auto_sign :: bool

definition template_row :: "int option \<Rightarrow> 'h world \<Rightarrow> template option" where
  "template_row tid w =
     (case tid of None \<Rightarrow> None | Some i \<Rightarrow> if i = 0 then None else row_by t_id i (w_templates w))"

definition coerce_template_id :: "json \<Rightarrow> 'h world \<Rightarrow> int option" where
  "coerce_template_id v w =
     (case int_of_json v of
        Inl _ \<Rightarrow> None
      | Inr i \<Rightarrow> if row_by t_id i (w_templates w) = None then None else Some i)"

definition default_role :: "'h world \<Rightarrow> string option" where
  "default_role w = nonempty (strip (or_empty (get_setting w ''openbao_default_role'')))"

definition resolve_signing_policy :: "int option \<Rightarrow> 'h world \<Rightarrow> policy" where
  "resolve_signing_policy tid w =
     (let global = \<lparr>p_backend = or_else (or_empty (get_setting w ''signing_default_backend'')) ''manual'',
                    p_role = default_role w,
                    p_max_ttl = (if set_opt (get_setting w ''signing_max_ttl'')
                                 then int_of (or_empty (get_setting w ''signing_max_ttl'')) else None),
                    p_auto_sign = False\<rparr> in
      case template_row tid w of
        None \<Rightarrow> global
      | Some t \<Rightarrow>
          if or_else (t_signer_backend t) ''manual'' \<noteq> ''manual''
          then \<lparr>p_backend = t_signer_backend t,
                p_role = (case nonempty (strip (or_empty (t_openbao_role t))) of
                            Some r \<Rightarrow> Some r | None \<Rightarrow> default_role w),
                p_max_ttl = t_max_ttl t, p_auto_sign = t_auto_sign t\<rparr>
          else global)"

definition sign_payload :: "string \<Rightarrow> policy \<Rightarrow> json" where
  "sign_payload csr pol =
     JObj ([(''csr'', JStr csr), (''format'', JStr ''pem'')]
       @ (case p_max_ttl pol of Some n \<Rightarrow> if n = 0 then [] else [(''ttl'', JStr (int_str n @ ''s''))] | None \<Rightarrow> []))"

definition chain_text :: "json \<Rightarrow> string sign_result" where
  "chain_text d =
     (case jget ''ca_chain'' d of
        JArr xs \<Rightarrow> if list_all (\<lambda>x. case x of JStr _ \<Rightarrow> True | _ \<Rightarrow> False) xs
                   then Inr (join [nl] (map (\<lambda>x. case x of JStr s \<Rightarrow> s | _ \<Rightarrow> []) xs)) else Inl (Raised TypeError)
      | _ \<Rightarrow> (case jget ''issuing_ca'' d of JStr s \<Rightarrow> Inr s | _ \<Rightarrow> Inr []))"

definition sign_openbao ::
  "'h env \<Rightarrow> getter \<Rightarrow> string \<Rightarrow> policy \<Rightarrow> string \<Rightarrow> 'h \<Rightarrow> (string \<times> string) sign_result \<times> 'h" where
  "sign_openbao e get csr pol actor h =
     (case openbao_addr_mount e get of (addr, mount) \<Rightarrow>
      let role = (if set_opt (p_role pol) then or_empty (p_role pol)
                  else cfg e get ''openbao_default_role'' ''CERTHEIM_OPENBAO_ROLE'' ''certinel'') in
      bind_sign (openbao_login e addr h) (\<lambda>login h1.
      case obo_token e addr login actor h1 of (token, h2) \<Rightarrow>
      bind_sign (sign_http e (addr @ ''/v1/'' @ mount @ ''/sign/'' @ role) (Some (sign_payload csr pol)) (Some token) False h2)
        (\<lambda>data h3.
          (case dget ''data'' data of Inl err \<Rightarrow> Inl err | Inr d0 \<Rightarrow>
           (case dget ''certificate'' (or_obj d0) of Inl err \<Rightarrow> Inl err | Inr cert \<Rightarrow>
            if \<not> truthy cert then Inl (Refused ''OpenBao sign returned no certificate'')
            else (case chain_text (or_obj d0) of Inl err \<Rightarrow> Inl err | Inr chain \<Rightarrow> Inr (str_of e cert, chain))), h3))))"

subsection \<open>The domain quota\<close>

definition licensed_domains :: "'h env \<Rightarrow> 'h world \<Rightarrow> string set" where
  "licensed_domains e w =
     (case json_loads e (or_else (or_empty (get_setting w ''licensed_domains'')) ''[]'') of
        Some (JArr xs) \<Rightarrow> if list_all hashable xs
          then set (concat (map (\<lambda>x. case x of JStr s \<Rightarrow> [s] | _ \<Rightarrow> []) xs)) else {}
      | Some (JStr s) \<Rightarrow> (\<lambda>c. [c]) ` set s
      | Some (JObj kvs) \<Rightarrow> fst ` set kvs
      | _ \<Rightarrow> {})"

definition set_licensed_domains :: "'h env \<Rightarrow> string set \<Rightarrow> 'h world \<Rightarrow> 'h world" where
  "set_licensed_domains e ds w =
     set_setting ''licensed_domains'' (json_dumps e (strs (sorted_list_of_set ds))) w"

definition quota_message :: "int \<Rightarrow> string set \<Rightarrow> string set \<Rightarrow> string" where
  "quota_message cap current offending =
     ''license domain limit reached: this license covers '' @ int_str cap
     @ '' registrable domain'' @ (if cap \<noteq> 1 then ''s'' else []) @ '' (''
     @ or_else (join '', '' (sorted_list_of_set current)) ''none yet'' @ ''); signing ''
     @ ''for '' @ join '', '' (sorted_list_of_set offending) @ '' would exceed it. Upgrade to the ''
     @ ''Unlimited edition or purchase additional domains to manage more.''"

definition license_cap :: "'h env \<Rightarrow> ctx \<Rightarrow> 'h world \<Rightarrow> int" where
  "license_cap e c w = (case license_in e c w of Inl _ \<Rightarrow> 0 | Inr i \<Rightarrow> li_max_domains i)"

definition enforce_domain_quota :: "'h env \<Rightarrow> ctx \<Rightarrow> string \<Rightarrow> 'h world \<Rightarrow> unit sign_result \<times> 'h world" where
  "enforce_domain_quota e c csr w =
     (let cap = license_cap e c w; new = csr_domains (openssl e) csr; current = licensed_domains e w in
      if cap = 0 \<or> new = {} then (Inr (), w)
      else case over_quota new current cap of (blocked, would_be, offending) \<Rightarrow>
        if blocked then (Inl (Refused (quota_message cap current offending)), w)
        else if would_be \<noteq> current then (Inr (), set_licensed_domains e would_be w)
        else (Inr (), w))"

subsection \<open>Dispatch\<close>

definition CYBERARK_TODO :: string where
  "CYBERARK_TODO =
     ''CyberArk is selected and its connection is saved, but the CyberArk signing ''
     @ ''API integration is not built in this release. Use OpenBao, or implement the ''
     @ ''CyberArk calls in sign.py (_sign_cyberark/_revoke_cyberark) against your ''
     @ ''CyberArk instance.''"

definition on_host :: "'h world \<Rightarrow> 'a sign_result \<times> 'h \<Rightarrow> 'a sign_result \<times> 'h world" where
  "on_host w r = (fst r, w\<lparr>w_host := snd r\<rparr>)"

definition sign_other :: "'h env \<Rightarrow> string \<Rightarrow> string \<Rightarrow> 'h \<Rightarrow> (string \<times> string) sign_result \<times> 'h" where
  "sign_other e backend csr h =
     (case other_ca e backend csr h of
        (Inl msg, h1) \<Rightarrow> (Inl (Refused msg), h1) | (Inr cc, h1) \<Rightarrow> (Inr cc, h1))"

definition dispatch_sign ::
  "'h env \<Rightarrow> string \<Rightarrow> string \<Rightarrow> policy \<Rightarrow> string \<Rightarrow> 'h world \<Rightarrow> (string \<times> string) sign_result \<times> 'h world" where
  "dispatch_sign e backend csr pol actor w =
     (if backend = ''openbao'' then on_host w (sign_openbao e (get_setting w) csr pol actor (w_host w))
      else if backend = ''cyberark'' then (Inl (Refused CYBERARK_TODO), w)
      else if backend \<in> set [''windows_ca'', ''acme'', ''ejbca'', ''venafi'', ''aws_pca'']
      then on_host w (sign_other e backend csr (w_host w))
      else (Inl (Refused (''unknown signer_backend: '' @ backend)), w))"

definition sign_csr ::
  "'h env \<Rightarrow> ctx \<Rightarrow> string \<Rightarrow> policy \<Rightarrow> string \<Rightarrow> 'h world \<Rightarrow> (string \<times> string) sign_result \<times> 'h world" where
  "sign_csr e c csr pol actor w =
     (let backend = strip (or_else (p_backend pol) ''manual'') in
      if backend = ''manual'' then (Inl (Unavailable ''manual signing - use the cert-upload path''), w)
      else if \<not> entitled_in e c w (''ca.signing.'' @ backend)
      then (Inl (Unavailable (backend @ '' signing requires a Certheim license (not available in this edition)'')), w)
      else if csr = [] \<or> \<not> contains ''REQUEST'' csr then (Inl (Refused ''no CSR to sign''), w)
      else case enforce_domain_quota e c csr w of
        (Inl err, w1) \<Rightarrow> (Inl err, w1)
      | (Inr _, w1) \<Rightarrow> dispatch_sign e backend csr pol actor w1)"

definition revoke_cert :: "'h env \<Rightarrow> getter \<Rightarrow> string \<Rightarrow> string \<Rightarrow> 'h \<Rightarrow> json sign_result \<times> 'h" where
  "revoke_cert e get serial backend h =
     (if serial = [] then (Inl (Refused ''no serial to revoke''), h)
      else if backend = ''openbao'' then
        (case openbao_addr_mount e get of (addr, mount) \<Rightarrow>
         bind_sign (openbao_login e addr h) (\<lambda>token h1.
         bind_sign (sign_http e (addr @ ''/v1/'' @ mount @ ''/revoke'')
                     (Some (JObj [(''serial_number'', JStr serial)])) (Some token) False h1) (\<lambda>data h2.
           (case dget ''data'' data of Inl err \<Rightarrow> Inl err | Inr d \<Rightarrow> dget ''revocation_time'' (or_obj d), h2))))
      else if backend = ''windows_ca'' then
        (case sign_other e ''revoke:windows_ca'' serial h of
           (Inl err, h1) \<Rightarrow> (Inl err, h1) | (Inr _, h1) \<Rightarrow> (Inr JNull, h1))
      else if backend = ''cyberark'' then (Inl (Refused CYBERARK_TODO), h)
      else if backend = ''acme'' then
        (Inl (Refused (''ACME revocation is not wired in this build; revoke the '' @ ''certificate at the ACME CA.'')), h)
      else (Inl (Refused (''revoke not supported for backend: '' @ backend)), h))"

definition crl_ocsp_urls :: "'h env \<Rightarrow> getter \<Rightarrow> (string \<times> string) list" where
  "crl_ocsp_urls e get =
     (case openbao_addr_mount e get of (addr, mount) \<Rightarrow>
      let base = addr @ ''/v1/'' @ mount in
      [(''crl'', base @ ''/crl''), (''ocsp'', base @ ''/ocsp''), (''ca'', base @ ''/ca/pem'')])"

definition credential_present :: "'h env \<Rightarrow> getter \<Rightarrow> string \<Rightarrow> bool" where
  "credential_present e get provider =
     (let has = (\<lambda>v. set_opt (environ e v)) in
      if provider = ''openbao'' then has ''CERTHEIM_OPENBAO_ROLE_ID'' \<and> has ''CERTHEIM_OPENBAO_SECRET_ID''
      else if provider = ''cyberark'' then has ''CERTHEIM_CYBERARK_TOKEN''
      else if provider = ''windows_ca'' then
        (let key = strip (getenv e ''CERTHEIM_WINCA_SSH_KEY'' '''') in key \<noteq> [] \<and> read_file e key \<noteq> None)
      else if provider = ''acme'' then cfg e get ''acme_directory_url'' ''CERTHEIM_ACME_DIRECTORY_URL'' [] \<noteq> []
      else if provider = ''ejbca'' then has ''CERTHEIM_EJBCA_PASSWORD'' \<or> has ''CERTHEIM_EJBCA_CLIENT_CERT''
      else if provider = ''venafi'' then has ''CERTHEIM_VENAFI_TOKEN''
      else if provider = ''aws_pca'' then has ''CERTHEIM_AWS_PCA_ACCESS_KEY'' \<and> has ''CERTHEIM_AWS_PCA_SECRET_KEY''
      else True)"

subsection \<open>What signing needs, and what it uses up\<close>

lemma dispatch_settings [frame_simps, simp]:
  "w_settings (snd (dispatch_sign e b csr pol actor w)) = w_settings w"
  "w_jobs (snd (dispatch_sign e b csr pol actor w)) = w_jobs w"
  by (simp_all add: dispatch_sign_def on_host_def)

lemma set_licensed_frame [frame_simps, simp]: "w_jobs (set_licensed_domains e ds w) = w_jobs w"
  by (simp add: set_licensed_domains_def set_setting_def)

lemma quota_jobs [frame_simps, simp]: "w_jobs (snd (enforce_domain_quota e c csr w)) = w_jobs w"
  by (simp add: enforce_domain_quota_def Let_def split: prod.split)

lemma sign_csr_jobs [frame_simps, simp]: "w_jobs (snd (sign_csr e c csr pol actor w)) = w_jobs w"
proof -
  obtain r w1 where q: "enforce_domain_quota e c csr w = (r, w1)" by force
  with quota_jobs [of e c csr w] have "w_jobs w1 = w_jobs w" by simp
  then show ?thesis by (simp add: sign_csr_def Let_def q split: sum.split)
qed

definition within_quota :: "'h env \<Rightarrow> ctx \<Rightarrow> string \<Rightarrow> 'h world \<Rightarrow> bool" where
  "within_quota e c csr w =
     (let cap = license_cap e c w; new = csr_domains (openssl e) csr; current = licensed_domains e w in
      cap = 0 \<or> new \<subseteq> current \<or> int (card (current \<union> new)) \<le> cap)"

lemma csr_domains_clean: "{d \<in> csr_domains ossl csr. d \<noteq> []} = csr_domains ossl csr"
  by (auto simp: csr_domains_def Let_def split: option.split prod.split)

lemma over_quota_csr:
  "fst (over_quota (csr_domains ossl csr) current cap) \<longleftrightarrow>
     \<not> (cap = 0 \<or> csr_domains ossl csr \<subseteq> current \<or> int (card (current \<union> csr_domains ossl csr)) \<le> cap)"
  by (simp add: over_quota_def Let_def csr_domains_clean)

lemma quota_ok: "enforce_domain_quota e c csr w = (Inr u, w1) \<Longrightarrow> within_quota e c csr w"
  using over_quota_csr [of "openssl e" csr "licensed_domains e w" "license_cap e c w"]
  by (auto simp: enforce_domain_quota_def within_quota_def Let_def split: if_splits prod.splits)

text \<open>A licensed deployment capped at one domain, whose CSRs all name \<open>example.com\<close>.\<close>

definition capped_env :: "unit env" where
  "capped_env = quiet_env\<lparr>stamp := \<lparr>EDITION = ''full'', RELEASE_BUILD = False\<rparr>,
     environ := (\<lambda>n. if n = ''CERTHEIM_ENTITLEMENTS'' then Some ''*'' else None),
     openssl := (\<lambda>args i. Some (0, ''Subject: CN = www.example.com'', [])),
     json_loads := (\<lambda>s. Some (if s = ''[]'' then JArr [] else JObj [(''max_domains'', JInt 1)])),
     other_ca := (\<lambda>b csr h. (if b = ''acme'' then Inr (''CERT'', []) else Inl ''refused'', h))\<rparr>"

definition capped_world :: "unit world" where
  "capped_world = set_setting ''license_blob'' ''.'' sample_world"

lemma capped_entitled: "entitled_in capped_env c w (''ca.signing.'' @ b)"
proof -
  have "strip ''*'' = ''*''" "split_on (CHR '','') ''*'' = [''*'']" by code_simp+
  moreover have "strip [] = []" by code_simp
  ultimately have o: "override_grants capped_env k" "operator_entitlements capped_env = Some [''*'']"
    "dev_overrides_allowed capped_env" for k
    by (simp_all add: override_grants_def operator_entitlements_def dev_overrides_allowed_def is_release_def
        capped_env_def quiet_env_def getenv_def falsy_flags_def)
  have "build_includes_tier (stamp capped_env) (cap_build_tier k)" for k
    by (simp add: build_includes_tier_def edition_rank_def EDITION_RANK_def capped_env_def cap_build_tier_def)
  then show ?thesis by (simp add: entitled_in_def is_entitled_def o Let_def)
qed

lemma capped_facts:
  "license_cap capped_env sample_ctx capped_world = 1" "licensed_domains capped_env capped_world = {}"
  "csr_domains (openssl capped_env) s = {''example.com''}"
proof -
  have "strip ''.'' = ''.''" "strip [] = []" by code_simp+
  then have raw: "raw_license capped_env (Some ''.'') = ''.''"
    by (simp add: raw_license_def getenv_def capped_env_def quiet_env_def)
  have "payload_fresh capped_env ''.'' = JObj [(''max_domains'', JInt 1)]"
    by (simp add: payload_fresh_def verify_license_def split_once_def b64u_decode_def capped_env_def quiet_env_def)
  then show "license_cap capped_env sample_ctx capped_world = 1"
    by (simp add: license_cap_def license_in_def capped_world_def license_now_def raw info_of_payload_def
        has_error_key_def info_expired_def info_granted_def info_max_domains_def info_edition_def int_of_json_def
        binding_warnings_def str_or_empty_def list_of_json_def jlookup_def Let_def)
  show "licensed_domains capped_env capped_world = {}"
    by (simp add: licensed_domains_def capped_world_def capped_env_def quiet_env_def or_else_def get_setting_def
        set_setting_def sample_world_def SETTINGS_DEFAULTS_def)
  have "search_subject_cn ''Subject: CN = www.example.com'' = Some ''www.example.com''"
    "find_dns 0 ''Subject: CN = www.example.com'' = []"
    "registrable_domain (Some ''www.example.com'') = ''example.com''" by code_simp+
  then show "csr_domains (openssl capped_env) s = {''example.com''}"
    by (auto simp: csr_domains_def capped_env_def quiet_env_def Let_def)
qed

definition acme_policy :: policy where
  "acme_policy = \<lparr>p_backend = ''acme'', p_role = None, p_max_ttl = None, p_auto_sign = False\<rparr>"

lemma capped_quota: "within_quota capped_env sample_ctx s capped_world"
  by (simp add: within_quota_def Let_def capped_facts)

lemma acme_backend: "strip (or_else (p_backend acme_policy) ''manual'') = ''acme''"
proof -
  have "strip ''acme'' = ''acme''" by code_simp
  then show ?thesis by (simp add: acme_policy_def or_else_def)
qed



text \<open>
  The slot is claimed before the CA is asked. When a licensed deployment with a cap is asked to
  sign for a domain that fits but is not yet covered, the domain is recorded as covered whatever
  the CA then answers: a refused or failed signature uses up a slot.
\<close>
theorem quota_claimed_before_signing:
  assumes "strip (or_else (p_backend pol) ''manual'') = b" "b \<noteq> ''manual''"
    and "entitled_in e c w (''ca.signing.'' @ b)" "contains ''REQUEST'' csr"
    and "license_cap e c w \<noteq> 0" "within_quota e c csr w"
    and "\<not> csr_domains (openssl e) csr \<subseteq> licensed_domains e w"
  shows "get_setting (snd (sign_csr e c csr pol actor w)) ''licensed_domains'' =
     Some (json_dumps e (strs (sorted_list_of_set (licensed_domains e w \<union> csr_domains (openssl e) csr))))"
proof -
  let ?new = "csr_domains (openssl e) csr" and ?cur = "licensed_domains e w"
  obtain bl wb off where o: "over_quota ?new ?cur (license_cap e c w) = (bl, wb, off)" by (metis prod.exhaust)
  have "\<not> bl" using over_quota_csr [of "openssl e" csr ?cur "license_cap e c w"] assms(5,6) o
    by (simp add: within_quota_def Let_def)
  moreover have "wb = ?cur \<union> ?new"
    using o assms(5,7) by (auto simp: over_quota_def Let_def csr_domains_clean split: if_splits)
  moreover have "?new \<noteq> {}" "?cur \<union> ?new \<noteq> ?cur" using assms(7) by auto
  ultimately have q: "enforce_domain_quota e c csr w = (Inr (), set_licensed_domains e (?cur \<union> ?new) w)"
    using assms(5) by (simp add: enforce_domain_quota_def Let_def o)
  have "csr \<noteq> []" using assms(4) by auto
  with assms(3) show ?thesis
    by (simp add: sign_csr_def Let_def assms(1,2,4) q get_setting_cong [OF dispatch_settings(1)] set_licensed_domains_def)
qed

theorem quota_claimed_before_signing_witness:
  "get_setting (snd (sign_csr capped_env sample_ctx ''REQUEST'' (acme_policy\<lparr>p_backend := ''venafi''\<rparr>) ''ada''
     capped_world)) ''licensed_domains'' = Some ''{}''"
proof -
  have "strip ''venafi'' = ''venafi''" by code_simp
  then have b: "strip (or_else (p_backend (acme_policy\<lparr>p_backend := ''venafi''\<rparr>)) ''manual'') = ''venafi''"
    by (simp add: or_else_def)
  have r: "contains ''REQUEST'' ''REQUEST''" by simp
  show ?thesis
    using quota_claimed_before_signing [OF b _ capped_entitled r, of sample_ctx capped_world "''ada''"]
    by (simp add: capped_facts capped_quota) (simp add: capped_env_def quiet_env_def)
qed

text \<open>
  How a template decides. A template that names an automated backend signs with its own backend,
  TTL and auto-sign flag, its role falling back to the global one; a template left at
  \<open>manual\<close>, or no template, follows the global configuration and never signs by itself.
\<close>
theorem signing_policy_of_template:
  assumes "template_row tid w = Some t"
  shows "(t_signer_backend t \<notin> {[], ''manual''} \<longrightarrow>
      p_backend (resolve_signing_policy tid w) = t_signer_backend t \<and>
      p_max_ttl (resolve_signing_policy tid w) = t_max_ttl t \<and>
      p_auto_sign (resolve_signing_policy tid w) = t_auto_sign t \<and>
      (strip (or_empty (t_openbao_role t)) = [] \<longrightarrow> p_role (resolve_signing_policy tid w) = default_role w))
    \<and> (t_signer_backend t \<in> {[], ''manual''} \<longrightarrow> resolve_signing_policy tid w = resolve_signing_policy None w)
    \<and> \<not> p_auto_sign (resolve_signing_policy None w)"
  using assms
  by (auto simp: resolve_signing_policy_def Let_def or_else_def nonempty_def template_row_def)

definition sample_template :: template where
  "sample_template =
    \<lparr>t_id = 1, t_name = ''web'', t_description = None, t_cert_types = ''web'', t_owner_dn = None,
     t_group_id = None, t_created_at = 0, t_created_by_dn = ''system'', t_signer_backend = ''openbao'',
     t_openbao_role = Some ''short'', t_max_ttl = Some 3600, t_auto_sign = False, t_auto_renew = False,
     t_renew_before_days = None, t_delivery_backend = ''none'', t_key_mode = ''destination'',
     t_delivery_target = None, t_delivery_reload = None, t_key_storage = None\<rparr>"

theorem signing_policy_of_template_witness:
  "let p = resolve_signing_policy (Some 1) (sample_world\<lparr>w_templates := [sample_template]\<rparr>) in
   p_backend p = ''openbao'' \<and> p_max_ttl p = Some 3600 \<and> \<not> p_auto_sign p"
proof -
  have "template_row (Some 1) (sample_world\<lparr>w_templates := [sample_template]\<rparr>) = Some sample_template"
    by (simp add: template_row_def sample_template_def)
  from signing_policy_of_template [OF this] show ?thesis
    by (simp add: Let_def sample_template_def)
qed

end
