(* ===== verification/Keystore.thy ===== *)
theory Keystore
  imports Signer
begin

text \<open>
  \<^verbatim>\<open>backend/keystore.py\<close>: where a server-generated private key lives. The storage policy and
  its per-template override, the key-value operations of OpenBao, securing a fresh key,
  fetching it, sweeping host keys into the vault and purging. A key read from the vault is
  a string, as \<open>_put\<close> wrote it.
\<close>

definition KEY_STORAGE_MODES :: "string list" where
  "KEY_STORAGE_MODES = [''vault'', ''return_once'', ''host'']"

definition DEFAULT_KEY_STORAGE :: string where
  "DEFAULT_KEY_STORAGE = ''vault''"

definition get_or :: "'h world \<Rightarrow> string \<Rightarrow> string \<Rightarrow> string" where
  "get_or w key dflt = or_else (or_empty (get_setting w key)) dflt"

definition key_policy :: "'h world \<Rightarrow> string" where
  "key_policy w =
     (let p = get_or w ''key_storage'' DEFAULT_KEY_STORAGE
      in if p \<in> set KEY_STORAGE_MODES then p else DEFAULT_KEY_STORAGE)"

definition return_once_threshold :: "'h world \<Rightarrow> int" where
  "return_once_threshold w =
     (case int_of (get_or w ''key_return_once_max_ttl'' ''0'') of None \<Rightarrow> 0 | Some n \<Rightarrow> n)"

definition effective_mode :: "int option \<Rightarrow> 'h world \<Rightarrow> string" where
  "effective_mode tid w =
     (case template_row tid w of
        None \<Rightarrow> key_policy w
      | Some t \<Rightarrow>
          if or_empty (t_key_storage t) \<in> set KEY_STORAGE_MODES then or_empty (t_key_storage t)
          else (case t_max_ttl t of
                  Some n \<Rightarrow> if 0 < return_once_threshold w \<and> n \<noteq> 0 \<and> n \<le> return_once_threshold w
                            then ''return_once'' else key_policy w
                | None \<Rightarrow> key_policy w))"

definition vault_available :: "'h env \<Rightarrow> bool" where
  "vault_available e =
     (strip (getenv e ''CERTHEIM_OPENBAO_ROLE_ID'' '''') \<noteq> []
      \<and> strip (getenv e ''CERTHEIM_OPENBAO_SECRET_ID'' '''') \<noteq> [])"

subsection \<open>Key-value operations\<close>

definition kv_mount :: "'h world \<Rightarrow> string" where
  "kv_mount w = strip_slash (get_or w ''delivery_openbao_kv_mount'' ''secret'')"

definition vault_path :: "string \<Rightarrow> string" where
  "vault_path job_id = ''certheim/_shared/keys/'' @ job_id"

definition kv_url :: "'h env \<Rightarrow> 'h world \<Rightarrow> string \<Rightarrow> string \<Rightarrow> string" where
  "kv_url e w job_id kind =
     fst (openbao_addr_mount e (get_setting w)) @ ''/v1/'' @ kv_mount w @ ''/'' @ kind @ ''/'' @ vault_path job_id"

definition vault_login :: "'h env \<Rightarrow> 'h world \<Rightarrow> string sign_result \<times> 'h" where
  "vault_login e w = openbao_login e (fst (openbao_addr_mount e (get_setting w))) (w_host w)"

definition put_key :: "'h env \<Rightarrow> string \<Rightarrow> string \<Rightarrow> 'h world \<Rightarrow> json sign_result \<times> 'h world" where
  "put_key e job_id pem w =
     on_host w (bind_sign (vault_login e w) (\<lambda>token h.
       sign_http e (kv_url e w job_id ''data'')
         (Some (JObj [(''data'', JObj [(''key'', JStr pem)])])) (Some token) False h))"

definition key_in :: "'h env \<Rightarrow> json \<Rightarrow> string option sign_result" where
  "key_in e d =
     (case dget ''data'' d of Inl err \<Rightarrow> Inl err | Inr x \<Rightarrow>
      (case dget ''data'' (or_obj x) of Inl err \<Rightarrow> Inl err | Inr y \<Rightarrow>
       (case dget ''key'' (or_obj y) of Inl err \<Rightarrow> Inl err
        | Inr k \<Rightarrow> Inr (if truthy k then Some (str_of e k) else None))))"

definition read_key :: "'h env \<Rightarrow> string \<Rightarrow> 'h world \<Rightarrow> string option sign_result \<times> 'h world" where
  "read_key e job_id w =
     (case on_host w (bind_sign (vault_login e w) (\<lambda>token h.
         sign_http e (kv_url e w job_id ''data'') None (Some token) False h)) of
        (Inl (Raised err), w1) \<Rightarrow> (Inl (Raised err), w1)
      | (Inl err, w1) \<Rightarrow> if contains ''404'' (sign_error_text err) then (Inr None, w1) else (Inl err, w1)
      | (Inr d, w1) \<Rightarrow> (key_in e d, w1))"

text \<open>\<open>_destroy\<close>, whose callers ignore every exception.\<close>

definition destroy_key :: "'h env \<Rightarrow> string \<Rightarrow> 'h world \<Rightarrow> 'h world" where
  "destroy_key e job_id w =
     (case vault_login e w of
        (Inl _, h) \<Rightarrow> w\<lparr>w_host := h\<rparr>
      | (Inr token, h) \<Rightarrow>
          w\<lparr>w_host := snd (http e ''DELETE'' (kv_url e w job_id ''metadata'') (Some token) None h)\<rparr>)"

definition set_job :: "string \<Rightarrow> (job \<Rightarrow> job) \<Rightarrow> 'h world \<Rightarrow> 'h world" where
  "set_job job_id f w = w\<lparr>w_jobs := modify_row j_id job_id f (w_jobs w)\<rparr>"

definition run_helper :: "'h env \<Rightarrow> string list \<Rightarrow> string \<Rightarrow> 'h world \<Rightarrow> (int \<times> string \<times> string) \<times> 'h world" where
  "run_helper e args input w = (case helper e args input (w_host w) of (r, h) \<Rightarrow> (r, w\<lparr>w_host := h\<rparr>))"

subsection \<open>Securing, fetching, sweeping, purging\<close>

definition keep_on_host :: "string \<Rightarrow> 'h world \<Rightarrow> string \<times> 'h world" where
  "keep_on_host job_id w = (''host'', set_job job_id (\<lambda>j. j\<lparr>j_key_storage := Some ''host''\<rparr>) w)"

definition secure_after_generate :: "'h env \<Rightarrow> ctx \<Rightarrow> string \<Rightarrow> string \<Rightarrow> int option \<Rightarrow> 'h world \<Rightarrow> string \<times> 'h world" where
  "secure_after_generate e c job_id key_name tid w =
     (let mode = effective_mode tid w in
      if mode = ''host'' \<or> key_name = [] then keep_on_host job_id w
      else if \<not> vault_available e
      then keep_on_host job_id (log_event c ''keystore'' ''vault_unavailable'' [(''job_id'', job_id), (''fallback'', ''host'')] w)
      else case run_helper e [''get-key'', key_name] [] w of ((rc, pem, _), w1) \<Rightarrow>
        if rc \<noteq> 0 \<or> strip pem = []
        then keep_on_host job_id (log_event c ''keystore'' ''read_fail'' [(''job_id'', job_id)] w1)
        else case put_key e job_id pem w1 of
          (Inl err, w2) \<Rightarrow>
            keep_on_host job_id (log_event c ''keystore'' ''vault_put_fail''
              [(''job_id'', job_id), (''error'', take 160 (sign_error_text err))] w2)
        | (Inr _, w2) \<Rightarrow>
            (if mode = ''return_once'' then ''returned'' else ''vault'',
             log_event c ''keystore'' ''stored_vault'' [(''job_id'', job_id), (''mode'', mode)]
               (set_job job_id (\<lambda>j. j\<lparr>j_key_storage := Some mode, j_key_vault_path := Some (vault_path job_id)\<rparr>)
                 (snd (run_helper e [''delete-key'', key_name] [] w2)))))"

definition after_last :: "char \<Rightarrow> string \<Rightarrow> string" where
  "after_last x s = rev (takeWhile (\<lambda>c. c \<noteq> x) (rev s))"

definition host_key :: "'h env \<Rightarrow> string \<Rightarrow> 'h world \<Rightarrow> string option sign_result \<times> 'h world" where
  "host_key e name w =
     (case run_helper e [''get-key'', name] [] w of ((rc, pem, _), w1) \<Rightarrow> (Inr (if rc = 0 then Some pem else None), w1))"

definition fetch_for_job :: "'h env \<Rightarrow> job \<Rightarrow> 'h world \<Rightarrow> string option sign_result \<times> 'h world" where
  "fetch_for_job e j w =
     (if set_opt (j_key_vault_path j) then
        (let job_id = after_last (CHR ''/'') (or_empty (j_key_vault_path j)) in
         case read_key e job_id w of
           (Inl (Raised err), w1) \<Rightarrow> (Inl (Raised err), w1)
         | (Inl _, w1) \<Rightarrow> (Inr None, w1)
         | (Inr pem, w1) \<Rightarrow>
             if set_opt pem \<and> j_key_storage j = Some ''return_once''
             then (Inr pem, set_job (j_id j)
                    (\<lambda>j. j\<lparr>j_key_vault_path := None, j_has_local_key := False, j_key_storage := Some ''returned''\<rparr>)
                    (destroy_key e job_id w1))
             else (Inr pem, w1))
      else if j_has_local_key j \<and> set_opt (j_local_key_name j) then host_key e (or_empty (j_local_key_name j)) w
      else (Inr None, w))"

definition fetch_by_name :: "'h env \<Rightarrow> string \<Rightarrow> 'h world \<Rightarrow> string option sign_result \<times> 'h world" where
  "fetch_by_name e name w =
     (case List.find (\<lambda>j. j_local_key_name j = Some name) (w_jobs w) of
        Some j \<Rightarrow> fetch_for_job e j w
      | None \<Rightarrow> host_key e name w)"

fun sweep_keys :: "'h env \<Rightarrow> ctx \<Rightarrow> job list \<Rightarrow> nat \<times> nat \<Rightarrow> 'h world \<Rightarrow> (nat \<times> nat) \<times> 'h world" where
  "sweep_keys e c [] n w = (n, w)"
| "sweep_keys e c (j # js) (migrated, failed) w =
     (let name = or_empty (j_local_key_name j) in
      case run_helper e [''get-key'', name] [] w of ((rc, pem, _), w1) \<Rightarrow>
        if rc \<noteq> 0 \<or> strip pem = []
        then sweep_keys e c js (migrated, failed) (set_job (j_id j) (\<lambda>j. j\<lparr>j_has_local_key := False\<rparr>) w1)
        else case put_key e (j_id j) pem w1 of
          (Inl err, w2) \<Rightarrow> sweep_keys e c js (migrated, Suc failed)
             (log_event c ''keystore'' ''migrate_fail''
               [(''job_id'', j_id j), (''error'', take 160 (sign_error_text err))] w2)
        | (Inr _, w2) \<Rightarrow> sweep_keys e c js (Suc migrated, failed)
             (set_job (j_id j) (\<lambda>k. k\<lparr>j_key_vault_path := Some (vault_path (j_id j)), j_key_storage := Some ''vault''\<rparr>)
               (snd (run_helper e [''delete-key'', name] [] w2))))"

definition migrate_host_keys :: "'h env \<Rightarrow> ctx \<Rightarrow> nat \<Rightarrow> 'h world \<Rightarrow> (string \<times> json) list \<times> 'h world" where
  "migrate_host_keys e c limit w =
     (if \<not> vault_available e
      then ([(''migrated'', JInt 0), (''failed'', JInt 0), (''scanned'', JInt 0),
             (''error'', JStr ''vault not configured'')], w)
      else let js = take limit (filter (\<lambda>j. j_has_local_key j \<and> j_local_key_name j \<noteq> None
                                  \<and> j_key_vault_path j = None) (w_jobs w)) in
        case sweep_keys e c js (0, 0) w of ((migrated, failed), w1) \<Rightarrow>
          ([(''migrated'', JInt (int migrated)), (''failed'', JInt (int failed)), (''scanned'', JInt (int (length js)))],
           log_event c ''keystore'' ''migrate_sweep''
             [(''migrated'', nat_str migrated), (''failed'', nat_str failed), (''scanned'', nat_str (length js))] w1))"

definition purge_for_job :: "'h env \<Rightarrow> job \<Rightarrow> 'h world \<Rightarrow> 'h world" where
  "purge_for_job e j w =
     (let w1 = (if set_opt (j_key_vault_path j)
                then destroy_key e (after_last (CHR ''/'') (or_empty (j_key_vault_path j))) w else w)
      in if set_opt (j_local_key_name j)
         then snd (run_helper e [''delete-key'', or_empty (j_local_key_name j)] [] w1) else w1)"

subsection \<open>The job table\<close>

interpretation jobs: keyed_store "row_by j_id" "insert_row j_id" "modify_row j_id" "remove_row j_id" j_id
  "unique_key j_id"
  by (rule row_store)

lemma set_job_frame [frame_simps, simp]:
  "w_users (set_job i f w) = w_users w" "w_settings (set_job i f w) = w_settings w"
  "w_sessions (set_job i f w) = w_sessions w" "w_keysess (set_job i f w) = w_keysess w"
  "w_groups (set_job i f w) = w_groups w" "w_members (set_job i f w) = w_members w"
  "w_templates (set_job i f w) = w_templates w" "w_host (set_job i f w) = w_host w"
  "w_rand (set_job i f w) = w_rand w" "w_fired (set_job i f w) = w_fired w"
  "w_jobs (set_job i f w) = modify_row j_id i f (w_jobs w)"
  by (simp_all add: set_job_def)

lemma run_helper_frame [frame_simps, simp]:
  "w_users (snd (run_helper e a i w)) = w_users w" "w_settings (snd (run_helper e a i w)) = w_settings w"
  "w_jobs (snd (run_helper e a i w)) = w_jobs w" "w_groups (snd (run_helper e a i w)) = w_groups w"
  "w_members (snd (run_helper e a i w)) = w_members w" "w_templates (snd (run_helper e a i w)) = w_templates w"
  "w_keysess (snd (run_helper e a i w)) = w_keysess w" "w_fired (snd (run_helper e a i w)) = w_fired w"
  "w_rand (snd (run_helper e a i w)) = w_rand w" "w_webhooks (snd (run_helper e a i w)) = w_webhooks w"
  "w_host (snd (run_helper e a i w)) = snd (helper e a i (w_host w))"
  "fst (run_helper e a i w) = fst (helper e a i (w_host w))"
  by (simp_all add: run_helper_def split: prod.split)

lemma on_host_frame [frame_simps, simp]:
  "w_jobs (snd (on_host w r)) = w_jobs w" "w_settings (snd (on_host w r)) = w_settings w"
  "w_templates (snd (on_host w r)) = w_templates w" "w_host (snd (on_host w r)) = snd r"
  "w_groups (snd (on_host w r)) = w_groups w" "w_members (snd (on_host w r)) = w_members w"
  "fst (on_host w r) = fst r"
  by (simp_all add: on_host_def)

lemma put_key_frame [frame_simps, simp]:
  "w_jobs (snd (put_key e i pem w)) = w_jobs w" "w_settings (snd (put_key e i pem w)) = w_settings w"
  by (simp_all add: put_key_def)

lemma snd_eq: "p = (a, b) \<Longrightarrow> snd p = b" by simp

lemma read_key_frame [frame_simps, simp]:
  "w_jobs (snd (read_key e i w)) = w_jobs w" "w_settings (snd (read_key e i w)) = w_settings w"
  "w_groups (snd (read_key e i w)) = w_groups w" "w_members (snd (read_key e i w)) = w_members w"
  by (auto simp: read_key_def split: prod.split sum.split sign_error.split dest!: snd_eq)

lemma destroy_key_frame [frame_simps, simp]:
  "w_jobs (destroy_key e i w) = w_jobs w" "w_settings (destroy_key e i w) = w_settings w"
  by (auto simp: destroy_key_def split: prod.split sum.split)

subsection \<open>Policy\<close>

lemma key_policy_mode: "key_policy w \<in> set KEY_STORAGE_MODES"
  by (simp add: key_policy_def Let_def KEY_STORAGE_MODES_def DEFAULT_KEY_STORAGE_def)

text \<open>
  The key-storage mode of a job is always one of the three modes. A template's own valid
  choice decides; a template without one whose certificates live no longer than the
  short-lived threshold keeps no key; everything else follows the global policy.
\<close>
theorem effective_mode_valid:
  assumes "template_row tid w = Some t"
  shows "effective_mode tid w \<in> set KEY_STORAGE_MODES
    \<and> effective_mode tid w =
       (if or_empty (t_key_storage t) \<in> set KEY_STORAGE_MODES then or_empty (t_key_storage t)
        else if t_max_ttl t \<notin> {None, Some 0} \<and> 0 < return_once_threshold w
          \<and> the (t_max_ttl t) \<le> return_once_threshold w then ''return_once''
        else key_policy w)
    \<and> effective_mode None w = key_policy w"
proof -
  have "effective_mode None w = key_policy w" by (simp add: effective_mode_def template_row_def)
  moreover have "''return_once'' \<in> set KEY_STORAGE_MODES" by (simp add: KEY_STORAGE_MODES_def)
  ultimately show ?thesis
    using key_policy_mode [of w] by (cases "t_max_ttl t") (simp_all add: effective_mode_def assms)
qed

theorem effective_mode_valid_witness:
  "effective_mode (Some 1) (set_setting ''key_return_once_max_ttl'' ''7200''
     (sample_world\<lparr>w_templates := [sample_template]\<rparr>)) = ''return_once''"
proof -
  let ?w = "set_setting ''key_return_once_max_ttl'' ''7200'' (sample_world\<lparr>w_templates := [sample_template]\<rparr>)"
  have "int_of ''7200'' = Some 7200" by code_simp
  then have "return_once_threshold ?w = 7200"
    by (simp add: return_once_threshold_def get_or_def or_else_def)
  moreover have "template_row (Some 1) ?w = Some sample_template"
    by (simp add: template_row_def set_setting_def sample_template_def)
  from effective_mode_valid [OF this] calculation show ?thesis
    by (simp add: sample_template_def KEY_STORAGE_MODES_def)
qed

subsection \<open>A key is never lost\<close>

text \<open>
  \<open>keeps_key e key P\<close>: the fact \<open>P\<close> about the host (the key file exists) survives every call
  to the root helper but \<open>delete-key\<close> of that key, and every exchange with a service.
\<close>

definition keeps_key :: "'h env \<Rightarrow> string \<Rightarrow> ('h \<Rightarrow> bool) \<Rightarrow> bool" where
  "keeps_key e key P \<longleftrightarrow>
     (\<forall>args i h. P h \<longrightarrow> args \<noteq> [''delete-key'', key] \<longrightarrow> P (snd (helper e args i h)))
   \<and> (\<forall>m u t b h. P h \<longrightarrow> P (snd (http e m u t b h)))"

lemma keeps_sign_http: "keeps_key e key P \<Longrightarrow> P h \<Longrightarrow> P (snd (sign_http e u p t raw h))"
  by (simp add: keeps_key_def sign_http_def case_prod_beta)

lemma keeps_bind:
  "P (snd m) \<Longrightarrow> (\<And>x h. m = (Inr x, h) \<Longrightarrow> P h \<Longrightarrow> P (snd (k x h))) \<Longrightarrow> P (snd (bind_sign m k))"
  by (cases m) (auto simp: bind_sign_def split: sum.split)

lemma keeps_login: "keeps_key e key P \<Longrightarrow> P h \<Longrightarrow> P (snd (openbao_login e addr h))"
  unfolding openbao_login_def Let_def by (simp add: keeps_bind keeps_sign_http)

lemma keeps_put: "keeps_key e key P \<Longrightarrow> P (w_host w) \<Longrightarrow> P (w_host (snd (put_key e i pem w)))"
  unfolding put_key_def vault_login_def by (simp add: keeps_bind keeps_sign_http keeps_login)

lemma keeps_helper:
  "keeps_key e key P \<Longrightarrow> P h \<Longrightarrow> args \<noteq> [''delete-key'', key] \<Longrightarrow> P (snd (helper e args i h))"
  by (simp add: keeps_key_def)

lemma keep_on_host_simps [simp]:
  "w_host (snd (keep_on_host i w)) = w_host w" "fst (keep_on_host i w) = ''host''"
  by (simp_all add: keep_on_host_def)


text \<open>A host that holds one key file, with the vault configured and unreachable.\<close>

definition offline_env :: "bool env" where
  "offline_env = quiet_env\<lparr>environ := (\<lambda>n. Some ''id''),
     helper := (\<lambda>args i h. if args = [''get-key'', ''a.key''] then ((if h then 0 else 1, ''KEY'', []), h)
       else if args = [''delete-key'', ''a.key''] then ((0, [], []), False) else ((0, [], []), h))\<rparr>"

definition sample_job :: job where
  "sample_job =
    \<lparr>j_id = ''0123456789abcdef0123456789abcdef'', j_created_at = 0, j_requester_dn = ''CN=ADA'',
     j_requester_serial = None, j_requester_ip = None, j_requester_email = None, j_target_host = ''web'',
     j_sans = [], j_csr_pem = ''REQUEST'', j_cert_pem = None, j_status = Pending, j_completed_at = None,
     j_completed_by_dn = None, j_error = None, j_has_local_key = True, j_local_key_name = Some ''a.key'',
     j_source = ''rhel'', j_auto_renewed_at = None, j_group_id = None, j_cert_type = None,
     j_expires_at = None, j_renewed_from = None, j_key_algo = None, j_expiry_warned = 0,
     j_approved_by_dn = None, j_approved_at = None, j_signed_via = None, j_template_id = None,
     j_revoked_at = None, j_revoked_by_dn = None, j_delivery_status = None, j_key_vault_path = None,
     j_key_storage = None, j_chain_pem = None\<rparr>"

definition host_world :: "'h \<Rightarrow> 'h world" where
  "host_world h =
    \<lparr>w_users = [], w_sessions = [], w_keysess = [], w_settings = (\<lambda>k. None), w_groups = [],
     w_members = [], w_gid_seq = 0, w_jobs = [sample_job], w_templates = [], w_tid_seq = 0,
     w_webhooks = [], w_hid_seq = 0,
     w_trust = [], w_trust_seq = 0, w_targets = [], w_target_seq = 0, w_pulls = [], w_feedback = [], w_fid_seq = 0, w_fleet = [], w_fleet_seq = 0, w_issued = [], w_log = [], w_audit = [], w_fired = [], w_mail = [],
     w_envcaps = None, w_rand = 0, w_host = h\<rparr>"



text \<open>A vault that holds one key.\<close>

definition vault_env :: "unit env" where
  "vault_env = quiet_env\<lparr>environ := (\<lambda>n. Some ''id''), http := (\<lambda>m u t b h. (HttpOk ''{}'', h)),
     json_loads := (\<lambda>s. Some (JObj [(''auth'', JObj [(''client_token'', JStr ''t'')]),
       (''data'', JObj [(''data'', JObj [(''key'', JStr ''KEY'')])])]))\<rparr>"


end
