(* ===== verification/Notices.thy ===== *)
theory Notices
  imports GroupRoutes
begin

text \<open>
  Outgoing notifications of \<^verbatim>\<open>backend/app.py\<close>: \<open>fire_webhooks\<close>, which hands an event to every
  enabled and subscribed webhook, and the best-effort e-mails the job endpoints send. A
  delivery is recorded when it is handed over (the webhook's id, the event, its data and
  headers; the kind of e-mail and its data); what a receiver answers is not modelled.
\<close>

definition WEBHOOK_EVENTS :: "string list" where
  "WEBHOOK_EVENTS =
    [''job.created'', ''job.issued'', ''job.revoked'', ''job.cancelled'', ''job.failed'', ''job.expired'',
     ''job.expiring'', ''job.renewed'', ''job.delivered'', ''job.delivery_failed'',
     ''fleet_cert.expiring'', ''feedback.submitted'']"

text \<open>\<open>event in set(json.loads(events or "[]"))\<close>, False when that raises.\<close>

definition hook_subscribed :: "'h env \<Rightarrow> string \<Rightarrow> webhook \<Rightarrow> bool" where
  "hook_subscribed e event h =
     (case json_loads e (or_else (h_events h) ''[]'') of
        Some (JArr xs) \<Rightarrow> list_all hashable xs \<and> JStr event \<in> set xs
      | Some (JObj kvs) \<Rightarrow> event \<in> fst ` set kvs
      | Some (JStr s) \<Rightarrow> event \<in> set (map (\<lambda>c. [c]) s)
      | _ \<Rightarrow> False)"

definition hook_headers :: "'h env \<Rightarrow> webhook \<Rightarrow> json" where
  "hook_headers e h =
     (if set_opt (h_headers h)
      then case json_loads e (or_empty (h_headers h)) of None \<Rightarrow> JObj [] | Some j \<Rightarrow> j
      else JObj [])"

definition hook_allowed :: "'h env \<Rightarrow> ctx \<Rightarrow> 'h world \<Rightarrow> webhook \<Rightarrow> bool" where
  "hook_allowed e c w h =
     (h_type h \<in> set [''slack'', ''teams'', ''discord''] \<longrightarrow> available_in e c w ''integrations.chat'')"

definition hook_wants :: "'h env \<Rightarrow> ctx \<Rightarrow> 'h world \<Rightarrow> string \<Rightarrow> webhook \<Rightarrow> bool" where
  "hook_wants e c w event h = (h_enabled h \<and> hook_subscribed e event h \<and> hook_allowed e c w h)"

definition fire_webhooks :: "'h env \<Rightarrow> ctx \<Rightarrow> string \<Rightarrow> (string \<times> json) list \<Rightarrow> 'h world \<Rightarrow> 'h world" where
  "fire_webhooks e c event data w =
     (if event \<notin> set WEBHOOK_EVENTS then w
      else w\<lparr>w_fired := w_fired w @ map (\<lambda>h. (h_id h, event, JObj data, hook_headers e h))
               (filter (hook_wants e c w event) (w_webhooks w))\<rparr>)"

text \<open>
  The mail a job endpoint sends at its end: the notification module is asked once, and the
  outcome, a refusal or an exception, is only logged. \<open>cc\<close> says whether the group address is
  logged as a copy.
\<close>

definition log_text :: "string option \<Rightarrow> string" where
  "log_text s = or_else (or_empty s) ''-''"

definition email_notify ::
  "'h env \<Rightarrow> ctx \<Rightarrow> string \<Rightarrow> (string \<times> json) list \<Rightarrow> string \<Rightarrow> job \<Rightarrow> bool \<Rightarrow> 'h world \<Rightarrow> 'h world" where
  "email_notify e c event data job_id j cc w =
     (let group = group_email (j_group_id j) w;
          mail = [(''id'', JStr job_id), (''target_host'', JStr (j_target_host j)),
                  (''requester_email'', jopt (j_requester_email j))] @ data @ [(''group_email'', jopt group)];
          w1 = w\<lparr>w_mail := w_mail w @ [(event, mail)]\<rparr>;
          recipient = (if set_opt (j_requester_email j) then j_requester_email j else group)
      in case send_mail e event mail of
           Inl err \<Rightarrow> log_event c ''email_notify'' ''exception''
                        [(''job_id'', job_id), (''error'', take 128 err)] w1
         | Inr (sent, reason) \<Rightarrow>
             log_event c ''email_notify'' (if sent then ''ok'' else ''skip'')
               ([(''job_id'', job_id), (''event'', event), (''recipient'', log_text recipient)]
                @ (if cc then [(''group_cc'', if set_opt (j_requester_email j) then log_text group else ''-'')] else [])
                @ [(''reason'', take 96 reason)]) w1)"

lemma fire_webhooks_frame [frame_simps, simp]:
  "w_users (fire_webhooks e c v d w) = w_users w" "w_sessions (fire_webhooks e c v d w) = w_sessions w"
  "w_keysess (fire_webhooks e c v d w) = w_keysess w" "w_settings (fire_webhooks e c v d w) = w_settings w"
  "w_groups (fire_webhooks e c v d w) = w_groups w" "w_members (fire_webhooks e c v d w) = w_members w"
  "w_jobs (fire_webhooks e c v d w) = w_jobs w" "w_templates (fire_webhooks e c v d w) = w_templates w"
  "w_rand (fire_webhooks e c v d w) = w_rand w" "w_host (fire_webhooks e c v d w) = w_host w"
  "w_webhooks (fire_webhooks e c v d w) = w_webhooks w" "w_issued (fire_webhooks e c v d w) = w_issued w"
  "w_fleet (fire_webhooks e c v d w) = w_fleet w" "w_envcaps (fire_webhooks e c v d w) = w_envcaps w"
  "w_log (fire_webhooks e c v d w) = w_log w" "w_audit (fire_webhooks e c v d w) = w_audit w"
  by (simp_all add: fire_webhooks_def)

lemma email_notify_frame [frame_simps, simp]:
  "w_users (email_notify e c v d i j b w) = w_users w" "w_sessions (email_notify e c v d i j b w) = w_sessions w"
  "w_keysess (email_notify e c v d i j b w) = w_keysess w" "w_settings (email_notify e c v d i j b w) = w_settings w"
  "w_groups (email_notify e c v d i j b w) = w_groups w" "w_members (email_notify e c v d i j b w) = w_members w"
  "w_jobs (email_notify e c v d i j b w) = w_jobs w" "w_templates (email_notify e c v d i j b w) = w_templates w"
  "w_rand (email_notify e c v d i j b w) = w_rand w" "w_host (email_notify e c v d i j b w) = w_host w"
  "w_webhooks (email_notify e c v d i j b w) = w_webhooks w" "w_issued (email_notify e c v d i j b w) = w_issued w"
  "w_fleet (email_notify e c v d i j b w) = w_fleet w" "w_fired (email_notify e c v d i j b w) = w_fired w"
  by (simp_all add: email_notify_def Let_def log_event_def split: sum.split prod.split)

lemma fired_prefix: "\<exists>new. w_fired (fire_webhooks e c v d w) = w_fired w @ new \<and>
    (\<forall>x\<in>set new. fst (snd x) = v \<and> (\<exists>h\<in>set (w_webhooks w). h_id h = fst x \<and> h_enabled h))"
  by (auto simp: fire_webhooks_def hook_wants_def)

end
