(* ===== verification/Certs.thy ===== *)
theory Certs
  imports Keystore Notices
begin

text \<open>
  Certificates as text: the PEM blocks of a bundle, the download formats of
  \<^verbatim>\<open>backend/cert_formats.py\<close>, what the program reads out of a certificate or a CSR by running
  \<open>openssl\<close> (\<^verbatim>\<open>backend/app.py\<close>), and the parser of \<^verbatim>\<open>backend/import_certs.py\<close> with its table of
  tracked certificates. Files a run reads are given to \<open>openssl\<close> as its input, in the order of
  their names on the command line, separated by NUL. Bytes and text are both character lists;
  text outside Latin-1 is outside the model.
\<close>

subsection \<open>PEM bundles\<close>

definition BEGIN_CERT :: string where
  "BEGIN_CERT = ''-----BEGIN CERTIFICATE-----''"

definition END_CERT :: string where
  "END_CERT = ''-----END CERTIFICATE-----''"

text \<open>\<^verbatim>\<open>re.findall("BEGIN.*?END", s, re.S)\<close>\<close>

function pem_blocks :: "string \<Rightarrow> string list" where
  "pem_blocks s =
     (case cut BEGIN_CERT s of None \<Rightarrow> []
      | Some (_, r) \<Rightarrow>
          (case cut END_CERT r of None \<Rightarrow> []
           | Some (b, r2) \<Rightarrow> (BEGIN_CERT @ b @ END_CERT) # pem_blocks r2))"
  by pat_completeness auto
termination
proof (relation "measure length", goal_cases)
  case (2 s p a r q b r2)
  then have "s = a @ BEGIN_CERT @ r" "r = b @ END_CERT @ r2" by (auto dest!: cut_SomeD)
  then show ?case by (simp add: BEGIN_CERT_def)
qed simp

declare pem_blocks.simps [simp del]

subsection \<open>Download formats\<close>

definition FORMATS :: "(string \<times> string \<times> string \<times> bool) list" where
  "FORMATS =
    [(''pem'', ''application/x-pem-file'', ''pem'', False),
     (''pem-chain'', ''application/x-pem-file'', ''pem'', False),
     (''der'', ''application/pkcs8'', ''cer'', False),
     (''p7b'', ''application/x-pkcs7-certificates'', ''p7b'', False),
     (''p12'', ''application/x-pkcs12'', ''pfx'', True)]"

type_synonym download = "string \<times> string \<times> string"

text \<open>A conversion gives a download, is refused (\<open>Inr (Inl message)\<close>), or raises (\<open>Inl\<close>).\<close>

type_synonym conversion = "(string + download) result"

definition split_chain :: "string \<Rightarrow> string + string list" where
  "split_chain chain =
     (let certs = pem_blocks chain in
      if certs = [] then Inl ''no PEM certificate found'' else Inr (map (\<lambda>c. c @ [nl]) certs))"

definition run_format :: "'h env \<Rightarrow> string list \<Rightarrow> string list \<Rightarrow> string \<Rightarrow> string \<Rightarrow> conversion" where
  "run_format e args files mimetype fname =
     (case openssl e args (join [CHR 0x00] files) of
        None \<Rightarrow> Inl (PyError ''FileNotFoundError'')
      | Some (rc, out, err) \<Rightarrow>
          Inr (if rc \<noteq> 0 then Inl (or_else (take 200 err) ''openssl failed'') else Inr (out, mimetype, fname)))"

definition convert_p12 ::
  "'h env \<Rightarrow> string list \<Rightarrow> string option \<Rightarrow> string option \<Rightarrow> string \<Rightarrow> string \<Rightarrow> string \<Rightarrow> conversion" where
  "convert_p12 e certs key_pem password base_name mimetype fname =
     (if \<not> set_opt key_pem
      then Inr (Inl (''PKCS#12 needs the private key, which is not '' @ ''available for this certificate''))
      else if \<not> set_opt password then Inr (Inl ''a password is required to build a PKCS#12 bundle'')
      else run_format e
        ([''pkcs12'', ''-export'', ''-inkey'', ''key.pem'', ''-in'', ''leaf.pem'', ''-name'', base_name,
          ''-passout'', ''env:CH_P12_PW'']
         @ (if 1 < length certs then [''-certfile'', ''ca.pem''] else []))
        ([or_empty key_pem, hd certs] @ (if 1 < length certs then [concat (tl certs)] else []) @ [or_empty password])
        mimetype fname)"

definition convert ::
  "'h env \<Rightarrow> string \<Rightarrow> string \<Rightarrow> string option \<Rightarrow> string option \<Rightarrow> string \<Rightarrow> conversion" where
  "convert e chain_pem fmt0 key_pem password base_name =
     (let fmt = lower (or_else fmt0 ''pem'') in
      case map_of FORMATS fmt of
        None \<Rightarrow> Inr (Inl (''unknown format '' @ py_repr e (JStr fmt) @ '' (want one of ''
                  @ join '', '' (sort (map fst FORMATS)) @ '')''))
      | Some (mimetype, ext, needs_key) \<Rightarrow>
          (case split_chain chain_pem of
             Inl msg \<Rightarrow> Inr (Inl msg)
           | Inr certs \<Rightarrow>
               let fname = base_name @ ''.'' @ ext in
               if fmt = ''pem'' then Inr (Inr (hd certs, mimetype, fname))
               else if fmt = ''pem-chain'' then Inr (Inr (concat certs, mimetype, fname))
               else if fmt = ''der''
               then run_format e [''x509'', ''-in'', ''leaf.pem'', ''-outform'', ''DER''] [hd certs] mimetype fname
               else if fmt = ''p7b''
               then run_format e [''crl2pkcs7'', ''-nocrl'', ''-certfile'', ''chain.pem'', ''-outform'', ''DER'']
                      [concat certs] mimetype fname
               else convert_p12 e certs key_pem password base_name mimetype fname))"

subsection \<open>Reading certificates and CSRs\<close>

definition openssl_out :: "'h env \<Rightarrow> string list \<Rightarrow> string \<Rightarrow> string option" where
  "openssl_out e args input =
     (case openssl e args input of Some (rc, out, _) \<Rightarrow> if rc = 0 then Some out else None | None \<Rightarrow> None)"

definition san_entry :: "string \<Rightarrow> string list" where
  "san_entry part =
     (let p = strip part in
      if starts_with ''DNS:'' p then [strip (drop 4 p)]
      else if starts_with ''IP Address:'' p then [strip (drop 11 p)]
      else if starts_with ''IP:'' p then [strip (drop 3 p)] else [])"

text \<open>The scan over the lines of \<open>openssl req -text\<close>: common name, SANs, and whether a SAN line follows.\<close>

fun subject_scan :: "string \<Rightarrow> string list \<Rightarrow> bool \<Rightarrow> string list \<Rightarrow> string \<times> string list" where
  "subject_scan cn sans capture [] = (cn, sans)"
| "subject_scan cn sans capture (line # rest) =
     (let s = strip line;
          cn1 = (if starts_with ''Subject:'' s then (case cn_on_line s of Some v \<Rightarrow> v | None \<Rightarrow> cn) else cn) in
      if contains ''X509v3 Subject Alternative Name:'' s then subject_scan cn1 sans True rest
      else if capture \<and> s \<noteq> []
      then subject_scan cn1 (sans @ concat (map san_entry (split_on (CHR '','') s))) False rest
      else subject_scan cn1 sans capture rest)"

definition parse_csr_subject :: "'h env \<Rightarrow> string \<Rightarrow> string \<times> string list" where
  "parse_csr_subject e csr_pem =
     (case openssl_out e [''req'', ''-noout'', ''-text''] csr_pem of
        None \<Rightarrow> ([], []) | Some out \<Rightarrow> subject_scan [] [] False (splitlines out))"

definition csr_pubkey :: "'h env \<Rightarrow> string \<Rightarrow> string option" where
  "csr_pubkey e csr_pem = map_option strip (openssl_out e [''req'', ''-noout'', ''-pubkey''] csr_pem)"

definition cert_pubkey :: "'h env \<Rightarrow> string \<Rightarrow> string option" where
  "cert_pubkey e cert_pem = map_option strip (openssl_out e [''x509'', ''-noout'', ''-pubkey''] cert_pem)"

definition dated :: "string \<Rightarrow> string option \<Rightarrow> time option" where
  "dated prefix out =
     (case out of None \<Rightarrow> None
      | Some text \<Rightarrow> let line = strip text in
          if starts_with prefix line then parse_date (drop (length prefix) line) else None)"

definition cert_expiry :: "'h env \<Rightarrow> string \<Rightarrow> time option" where
  "cert_expiry e cert_pem = dated ''notAfter='' (openssl_out e [''x509'', ''-noout'', ''-enddate''] cert_pem)"

definition cert_startdate :: "'h env \<Rightarrow> string \<Rightarrow> time option" where
  "cert_startdate e cert_pem = dated ''notBefore='' (openssl_out e [''x509'', ''-noout'', ''-startdate''] cert_pem)"

definition verify_cert_matches_csr :: "'h env \<Rightarrow> string \<Rightarrow> string \<Rightarrow> bool" where
  "verify_cert_matches_csr e csr_pem cert_pem =
     (set_opt (csr_pubkey e csr_pem) \<and> set_opt (cert_pubkey e cert_pem)
      \<and> csr_pubkey e csr_pem = cert_pubkey e cert_pem)"

fun in_pairs :: "string \<Rightarrow> string list" where
  "in_pairs (a # b # s) = [a, b] # in_pairs s"
| "in_pairs [a] = [[a]]"
| "in_pairs [] = []"

definition cert_serial_colons :: "'h env \<Rightarrow> string \<Rightarrow> string option" where
  "cert_serial_colons e cert_pem =
     (case openssl_out e [''x509'', ''-noout'', ''-serial''] cert_pem of
        None \<Rightarrow> None
      | Some out \<Rightarrow>
          let raw = lower (strip (case split_once (CHR ''='') (strip out) of None \<Rightarrow> strip out | Some (_, r) \<Rightarrow> r)) in
          if raw = [] then None
          else Some (join '':'' (in_pairs (if odd (length raw) then CHR ''0'' # raw else raw))))"

text \<open>Decoding UTF-8, in the range of Latin-1; \<open>replace\<close> puts a mark for a byte that does not decode.\<close>

fun utf8_decode :: "string \<Rightarrow> string option" where
  "utf8_decode [] = Some []"
| "utf8_decode (a # s) =
     (if cp a < 128 then map_option ((#) a) (utf8_decode s)
      else case s of
        b # t \<Rightarrow> if cp a \<in> {194, 195} \<and> 128 \<le> cp b \<and> cp b < 192
                 then map_option ((#) (char_of ((cp a - 192) * 64 + (cp b - 128)))) (utf8_decode t) else None
      | [] \<Rightarrow> None)"

definition first_block :: "string \<Rightarrow> string option" where
  "first_block out =
     (case (cut BEGIN_CERT out, cut END_CERT out) of
        (Some (a, _), Some (b, _)) \<Rightarrow> Some (drop (length a) (take (length b + length END_CERT) out) @ [nl])
      | _ \<Rightarrow> None)"

definition pkcs7_leaf :: "'h env \<Rightarrow> string \<Rightarrow> string \<Rightarrow> string option" where
  "pkcs7_leaf e inform raw =
     (case openssl_out e [''pkcs7'', ''-inform'', inform, ''-print_certs'', ''-outform'', ''PEM''] raw of
        None \<Rightarrow> None
      | Some out \<Rightarrow> if contains ''BEGIN CERTIFICATE'' out then first_block out else None)"

definition der_to_pem :: "'h env \<Rightarrow> string \<Rightarrow> string option" where
  "der_to_pem e raw =
     (case openssl_out e [''x509'', ''-inform'', ''DER'', ''-outform'', ''PEM''] raw of
        None \<Rightarrow> None
      | Some out \<Rightarrow> if contains ''BEGIN CERTIFICATE'' out then utf8_decode out else None)"

definition normalize_cert_to_pem :: "'h env \<Rightarrow> string \<Rightarrow> string option" where
  "normalize_cert_to_pem e raw =
     (if raw = [] then None
      else if (case utf8_decode raw of None \<Rightarrow> False | Some text \<Rightarrow> contains BEGIN_CERT text) then utf8_decode raw
      else case der_to_pem e raw of Some p \<Rightarrow> Some p
        | None \<Rightarrow> (case pkcs7_leaf e ''DER'' raw of Some p \<Rightarrow> Some p | None \<Rightarrow> pkcs7_leaf e ''PEM'' raw))"

definition CA_BUNDLE :: string where
  "CA_BUNDLE = ''/etc/pki/ca-trust/extracted/pem/tls-ca-bundle.pem''"

definition chain_warning :: "'h env \<Rightarrow> string \<Rightarrow> string list" where
  "chain_warning e cert_pem =
     (case openssl e [''verify'', ''-CAfile'', CA_BUNDLE] cert_pem of
        None \<Rightarrow> []
      | Some (rc, out, err) \<Rightarrow>
          if rc = 0 then []
          else let ls = splitlines (strip (or_else err out)) in
            [''Certificate does not chain to a trusted CA in the system ''
             @ ''bundle ('' @ (if ls = [] then ''unknown'' else last ls) @ ''). Verify the issuing CA is correct.''])"

definition date_warnings :: "time \<Rightarrow> time option \<Rightarrow> time option \<Rightarrow> string list" where
  "date_warnings now nb na =
     (case nb of Some b \<Rightarrow> if b \<noteq> 0 \<and> now + 300 < b
          then [''Certificate is not yet valid (notBefore is in the future).''] else [] | None \<Rightarrow> [])
     @ (case na of None \<Rightarrow> []
        | Some a \<Rightarrow>
            if a = 0 then []
            else if a \<le> now then [''Certificate is ALREADY EXPIRED - the job will immediately show as expired.'']
            else if a \<le> now + 30 * 86400
            then [''Certificate expires in only '' @ int_str ((a - now) div 86400) @ '' day(s).''] else [])"

definition cert_upload_warnings :: "'h env \<Rightarrow> time \<Rightarrow> string \<Rightarrow> string list" where
  "cert_upload_warnings e now cert_pem =
     chain_warning e cert_pem @ date_warnings now (cert_startdate e cert_pem) (cert_expiry e cert_pem)"

subsection \<open>Scanned certificates\<close>

definition EKU_TYPE_MAP :: "(string \<times> string) list" where
  "EKU_TYPE_MAP =
    [(''TLS Web Server Authentication'', ''web''), (''TLS Web Client Authentication'', ''client''),
     (''E-mail Protection'', ''email''), (''Code Signing'', ''codesign''), (''OCSP Signing'', ''ocsp''),
     (''Time Stamping'', ''timestamp''), (''ipsec Internet Key Exchange'', ''ipsec''),
     (''1.3.6.1.5.5.7.3.14'', ''8021x'')]"

record cert_facts =
  x_pem :: string
  x_cn :: "string option"
  x_issuer :: "string option"
  x_serial :: "string option"
  x_not_before :: "time option"
  x_expires_at :: "time option"
  x_fingerprint :: "string option"
  x_sans :: "string list"
  x_types :: "string list"
  x_is_ca :: bool

text \<open>\<^verbatim>\<open>re.search(r"CN=([^,]+)", line)\<close>\<close>

definition rfc_cn :: "string \<Rightarrow> string option" where
  "rfc_cn = search_at (\<lambda>s. let g = takeWhile (\<lambda>c. c \<noteq> CHR '','') (drop 3 s) in
     if starts_with ''CN='' s \<and> g \<noteq> [] then Some g else None)"

definition name_field :: "nat \<Rightarrow> string \<Rightarrow> string option" where
  "name_field n line = Some (case rfc_cn line of Some g \<Rightarrow> strip g | None \<Rightarrow> take 120 (drop n line))"

definition scan_date :: "string \<Rightarrow> string \<Rightarrow> time option" where
  "scan_date prefix line = (if starts_with prefix line then parse_date (strip (drop (length prefix) line)) else None)"

definition scan_line :: "string \<Rightarrow> cert_facts \<Rightarrow> cert_facts" where
  "scan_line raw x =
     (let line = strip raw in
      if starts_with ''subject='' line then x\<lparr>x_cn := name_field 8 line\<rparr>
      else if starts_with ''issuer='' line then x\<lparr>x_issuer := name_field 7 line\<rparr>
      else if starts_with ''serial='' line then x\<lparr>x_serial := Some (take 64 (strip (drop 7 line)))\<rparr>
      else if starts_with ''notBefore='' line then x\<lparr>x_not_before := scan_date ''notBefore='' line\<rparr>
      else if starts_with ''notAfter='' line then x\<lparr>x_expires_at := scan_date ''notAfter='' line\<rparr>
      else case cut ''Fingerprint='' line of
        Some (_, r) \<Rightarrow> x\<lparr>x_fingerprint := Some (lower (filter (\<lambda>c. c \<noteq> CHR '':'') r))\<rparr>
      | None \<Rightarrow> x)"

text \<open>
  The line after a heading: whitespace with a line end in it, then a line. For the extended
  key usage the word \<open>critical\<close> may stand between.
\<close>

definition next_line :: "string \<Rightarrow> string option" where
  "next_line s =
     (let r = dropWhile is_space s in
      if nl \<in> set (takeWhile is_space s) \<and> r \<noteq> [] then Some (takeWhile (\<lambda>c. c \<noteq> nl) r) else None)"

definition san_line :: "string \<Rightarrow> string option" where
  "san_line = search_at (\<lambda>s. if starts_with ''Subject Alternative Name:'' s
     then next_line (drop (length ''Subject Alternative Name:'') s) else None)"

definition eku_line :: "string \<Rightarrow> string option" where
  "eku_line = search_at (\<lambda>s. if starts_with ''Extended Key Usage:'' s
     then (let r = drop (length ''Extended Key Usage:'') s; t = dropWhile is_space r in
           case (if starts_with ''critical'' t then next_line (drop 8 t) else None) of
             Some l \<Rightarrow> Some l | None \<Rightarrow> next_line r)
     else None)"

definition ca_true :: "string \<Rightarrow> bool" where
  "ca_true s = (search_at (\<lambda>s. if starts_with ''CA:'' s \<and> starts_with ''TRUE'' (dropWhile is_space (drop 3 s))
     then Some () else None) s \<noteq> None)"

definition scan_sans :: "string \<Rightarrow> string list" where
  "scan_sans l =
     concat (map (\<lambda>tok. if starts_with ''DNS:'' (strip tok) \<or> starts_with ''IP Address:'' (strip tok)
                         \<or> starts_with ''email:'' (strip tok)
                       then case split_once (CHR '':'') (strip tok) of Some (_, r) \<Rightarrow> [strip r] | None \<Rightarrow> [] else [])
       (split_on (CHR '','') l))"

definition scan_types :: "string \<Rightarrow> string list" where
  "scan_types l =
     dedup_key (\<lambda>t. t) [] (map (\<lambda>tok. or_empty (map_of EKU_TYPE_MAP (strip tok))) (split_on (CHR '','') l))"

definition scan_extensions :: "string \<Rightarrow> cert_facts \<Rightarrow> cert_facts" where
  "scan_extensions out x =
     x\<lparr>x_sans := (case san_line out of None \<Rightarrow> [] | Some l \<Rightarrow> scan_sans l),
       x_types := (case eku_line out of None \<Rightarrow> [] | Some l \<Rightarrow> scan_types l),
       x_is_ca := ca_true out\<rparr>"

definition parse_cert :: "'h env \<Rightarrow> string \<Rightarrow> cert_facts option result" where
  "parse_cert e text =
     (case pem_blocks text of
        [] \<Rightarrow> Inr None
      | b # _ \<Rightarrow>
          let pem = b @ [nl] in
          (case openssl e [''x509'', ''-noout'', ''-subject'', ''-issuer'', ''-serial'', ''-startdate'', ''-enddate'',
                           ''-fingerprint'', ''-sha256'', ''-nameopt'', ''RFC2253''] pem of
             None \<Rightarrow> Inl (PyError ''FileNotFoundError'')
           | Some (rc, out, _) \<Rightarrow>
               if rc \<noteq> 0 then Inr None
               else let x = fold scan_line (splitlines out)
                      \<lparr>x_pem = pem, x_cn = None, x_issuer = None, x_serial = None, x_not_before = None,
                       x_expires_at = None, x_fingerprint = None, x_sans = [], x_types = [], x_is_ca = False\<rparr> in
                 (case openssl e [''x509'', ''-noout'', ''-text'', ''-certopt'', ''no_pubkey,no_sigdump''] pem of
                    None \<Rightarrow> Inl (PyError ''FileNotFoundError'')
                  | Some (rc2, out2, _) \<Rightarrow> Inr (Some (if rc2 = 0 then scan_extensions out2 x else x)))))"

text \<open>\<^verbatim>\<open>_fleet_track_issued\<close>: upsert keyed on host and path; a failure to parse changes nothing.\<close>

definition fleet_key :: "fleet_cert \<Rightarrow> string \<times> string" where
  "fleet_key f = (f_host f, f_path f)"

definition issued_row :: "int \<Rightarrow> string \<Rightarrow> string \<Rightarrow> string \<Rightarrow> string option \<Rightarrow> time \<Rightarrow> time \<Rightarrow> cert_facts \<Rightarrow> fleet_cert" where
  "issued_row i host path cert_pem email since now x =
    \<lparr>f_id = i, f_host = host, f_path = path, f_fingerprint = or_empty (x_fingerprint x), f_cn = x_cn x, f_sans = x_sans x,
     f_issuer = x_issuer x, f_serial = x_serial x, f_not_before = x_not_before x, f_expires_at = x_expires_at x,
     f_cert_types = Some (join '','' (x_types x)), f_notify_email = email, f_first_seen = since, f_last_seen = now,
     f_expiry_warned = 0, f_pem = Some cert_pem\<rparr>"

definition upsert_fleet ::
  "(int \<Rightarrow> time \<Rightarrow> fleet_cert) \<Rightarrow> time \<Rightarrow> int \<Rightarrow> fleet_cert list \<Rightarrow> fleet_cert list \<times> int" where
  "upsert_fleet row now seq fs =
     (let k = fleet_key (row 0 now) in
      case row_by fleet_key k fs of
        None \<Rightarrow> (fs @ [row (seq + 1) now], seq + 1)
      | Some f \<Rightarrow> (modify_row fleet_key k (\<lambda>g. row (f_id g) (f_first_seen g)) fs, seq))"

definition fleet_track_issued ::
  "'h env \<Rightarrow> ctx \<Rightarrow> string \<Rightarrow> string \<Rightarrow> string option \<Rightarrow> string \<Rightarrow> 'h world \<Rightarrow> 'h world" where
  "fleet_track_issued e c host cert_pem email job_id w =
     (case parse_cert e cert_pem of
        Inr (Some x) \<Rightarrow>
          let path = ''dashboard:'' @ (if job_id \<noteq> [] then job_id else take 16 (or_empty (x_fingerprint x))) in
          (case upsert_fleet (\<lambda>i since. issued_row i host path cert_pem email since (c_now c) x) (c_now c)
               (w_fleet_seq w) (w_fleet w) of
             (fs, n) \<Rightarrow> w\<lparr>w_fleet := fs, w_fleet_seq := n\<rparr>)
      | _ \<Rightarrow> w)"

subsection \<open>A bundle survives its download\<close>

lemma cut_local: "cut p (b @ p @ r) = Some (b, r) \<Longrightarrow> cut p (b @ p @ r') = Some (b, r')"
proof (induction b)
  case Nil
  have "cut p (p @ t) = Some ([], t)" for t
    by (cases p; cases t) (simp_all add: starts_with_def)
  then show ?case by simp
next
  case (Cons x b)
  have "\<not> starts_with p (x # b @ p @ r)" using Cons.prems by (auto split: if_splits)
  then have "\<not> starts_with p (x # b @ p @ r')" by (auto simp: starts_with_def take_Cons split: nat.splits)
  moreover have "cut p (b @ p @ r) = Some (b, r)"
    using Cons.prems \<open>\<not> starts_with p (x # b @ p @ r)\<close> by auto
  ultimately show ?case using Cons.IH by simp
qed

lemma cut_skip: "x \<notin> set a \<Longrightarrow> cut (x # p) (a @ (x # p) @ r) = Some (a, r)"
  by (induction a) auto

definition is_block :: "string \<Rightarrow> bool" where
  "is_block s \<longleftrightarrow> (\<exists>b. s = BEGIN_CERT @ b @ END_CERT \<and> cut END_CERT (b @ END_CERT @ []) = Some (b, []))"

lemma pem_blocks_are_blocks: "s \<in> set (pem_blocks t) \<Longrightarrow> is_block s"
proof (induction t rule: pem_blocks.induct)
  case (1 t)
  show ?case
  proof (cases "cut BEGIN_CERT t")
    case None then show ?thesis using "1.prems" by (simp add: pem_blocks.simps [of t])
  next
    case (Some ar)
    then obtain a r where ar: "cut BEGIN_CERT t = Some (a, r)" by (cases ar) auto
    show ?thesis
    proof (cases "cut END_CERT r")
      case None then show ?thesis using "1.prems" ar by (simp add: pem_blocks.simps [of t])
    next
      case (Some br)
      then obtain b r2 where br: "cut END_CERT r = Some (b, r2)" by (cases br) auto
      then have "cut END_CERT (b @ END_CERT @ []) = Some (b, [])"
        using cut_SomeD [OF br] cut_local [of END_CERT b r2 "[]"] by simp
      then have "is_block (BEGIN_CERT @ b @ END_CERT)" unfolding is_block_def by blast
      then show ?thesis using "1.prems" "1.IH" [OF ar refl br refl] ar br by (auto simp: pem_blocks.simps [of t])
    qed
  qed
qed

lemma pem_blocks_step:
  assumes "is_block s" "CHR ''-'' \<notin> set a"
  shows "pem_blocks (a @ s @ t) = s # pem_blocks t"
proof -
  from assms obtain b where b: "s = BEGIN_CERT @ b @ END_CERT" "cut END_CERT (b @ END_CERT @ []) = Some (b, [])"
    by (auto simp: is_block_def)
  have B: "BEGIN_CERT = CHR ''-'' # tl BEGIN_CERT" by (simp add: BEGIN_CERT_def)
  have "cut BEGIN_CERT (a @ BEGIN_CERT @ b @ END_CERT @ t) = Some (a, b @ END_CERT @ t)"
    using cut_skip [OF assms(2), of "tl BEGIN_CERT" "b @ END_CERT @ t"] B by simp
  moreover have "cut END_CERT (b @ END_CERT @ t) = Some (b, t)" by (rule cut_local [OF b(2)])
  moreover have "a @ s @ t = a @ BEGIN_CERT @ b @ END_CERT @ t" by (simp add: b(1))
  ultimately show ?thesis unfolding b(1) by (subst pem_blocks.simps) simp
qed

lemma pem_blocks_newline: "pem_blocks (nl # t) = pem_blocks t"
proof -
  have "cut BEGIN_CERT (nl # t) = map_option (\<lambda>(a, r). (nl # a, r)) (cut BEGIN_CERT t)"
    by (simp add: BEGIN_CERT_def nl_def starts_with_def)
  then show ?thesis
    by (subst (1 2) pem_blocks.simps) (simp split: option.split)
qed

lemma pem_blocks_concat: "\<forall>s\<in>set bs. is_block s \<Longrightarrow> pem_blocks (concat (map (\<lambda>c. c @ [nl]) bs)) = bs"
proof (induction bs)
  case Nil
  show ?case by (subst pem_blocks.simps) (simp add: BEGIN_CERT_def)
next
  case (Cons s bs)
  then show ?case using pem_blocks_step [of s "[]"] by (simp add: pem_blocks_newline)
qed

text \<open>
  A certificate bundle survives its download. The full-chain download of a stored bundle holds exactly
  its certificates, in order: downloading it again gives the same file, and the leaf and DER
  downloads of the copy are those of the original.
\<close>
theorem chain_download_roundtrip:
  assumes "convert e chain ''pem-chain'' k p base = Inr (Inr (text, mimetype, fname))"
  shows "pem_blocks text = pem_blocks chain
    \<and> convert e text ''pem-chain'' k p base = Inr (Inr (text, mimetype, fname))
    \<and> convert e text ''pem'' k p base = convert e chain ''pem'' k p base
    \<and> convert e text ''der'' k p base = convert e chain ''der'' k p base"
proof -
  have l: "lower (or_else ''pem-chain'' ''pem'') = ''pem-chain''" by code_simp
  from assms have t: "text = concat (map (\<lambda>c. c @ [nl]) (pem_blocks chain))" and "pem_blocks chain \<noteq> []"
    by (auto simp: convert_def l FORMATS_def Let_def split_chain_def split: if_splits)
  have b: "pem_blocks text = pem_blocks chain"
    unfolding t by (rule pem_blocks_concat) (blast intro: pem_blocks_are_blocks)
  then have "split_chain text = split_chain chain" by (simp add: split_chain_def)
  then have "convert e text f k p base = convert e chain f k p base" for f
    unfolding convert_def by (simp only:)
  with assms b show ?thesis by simp
qed

theorem chain_download_roundtrip_witness:
  "pem_blocks (''x'' @ BEGIN_CERT @ ''AA'' @ END_CERT @ ''y'') = [BEGIN_CERT @ ''AA'' @ END_CERT]
   \<and> convert sample_env (BEGIN_CERT @ ''AA'' @ END_CERT @ [nl]) ''pem'' None None ''web''
     = convert sample_env (''x'' @ BEGIN_CERT @ ''AA'' @ END_CERT @ ''y'') ''pem'' None None ''web''"
proof -
  let ?s = "''x'' @ BEGIN_CERT @ ''AA'' @ END_CERT @ ''y''"
  have c: "cut END_CERT (''AA'' @ END_CERT) = Some (''AA'', [])" by code_simp
  then have blk: "is_block (BEGIN_CERT @ ''AA'' @ END_CERT)" by (auto simp: is_block_def)
  have e: "pem_blocks ''y'' = []" by (subst pem_blocks.simps) (simp add: BEGIN_CERT_def starts_with_def)
  have b: "pem_blocks ?s = [BEGIN_CERT @ ''AA'' @ END_CERT]"
    using pem_blocks_step [OF blk, of "''x''" "''y''"] e by simp
  have l: "lower (or_else ''pem-chain'' ''pem'') = ''pem-chain''" by code_simp
  have "convert sample_env ?s ''pem-chain'' None None ''web''
     = Inr (Inr (BEGIN_CERT @ ''AA'' @ END_CERT @ [nl], ''application/x-pem-file'', ''web.pem''))"
    by (simp only: convert_def l split_chain_def b) (simp add: FORMATS_def Let_def)
  from chain_download_roundtrip [OF this] b show ?thesis by simp
qed

end
