(* ===== verification/JobCore.thy ===== *)
theory JobCore
  imports Certs
begin

text \<open>
  What every job endpoint shares (\<^verbatim>\<open>backend/app.py\<close>): identifier patterns, canonical
  certificate types, the listing printed by the root helper, and \<open>_attach_signed_cert\<close>, the one
  way a job becomes issued. The delivery module is not part of this repository, so its import
  in the completion path fails and is logged.
\<close>

definition is_hex :: "char \<Rightarrow> bool" where
  "is_hex c = (is_digit c \<or> (97 \<le> cp c \<and> cp c \<le> 102))"

definition JOB_ID_RE :: "string \<Rightarrow> bool" where
  "JOB_ID_RE = at_end (\<lambda>s. length s = 32 \<and> list_all is_hex s)"

definition file_char :: "char \<Rightarrow> bool" where
  "file_char c = (is_alnum c \<or> c \<in> set ''._-'')"

definition named_file :: "string \<Rightarrow> string \<Rightarrow> bool" where
  "named_file ext = at_end (\<lambda>s. let n = length s - length ext in
     length ext < length s \<and> n \<le> 128 \<and> drop n s = ext \<and> list_all file_char (take n s))"

definition KEY_NAME_RE :: "string \<Rightarrow> bool" where
  "KEY_NAME_RE = named_file ''.key''"

definition CERTHEIM_NAME_RE :: "string \<Rightarrow> bool" where
  "CERTHEIM_NAME_RE = named_file ''.csr''"

subsection \<open>Certificate types\<close>

definition CERT_TYPES_ALLOWED :: "string list" where
  "CERT_TYPES_ALLOWED =
    [''web'', ''client'', ''email'', ''codesign'', ''ipsec'', ''ocsp'', ''timestamp'', ''8021x'']"

definition EXCLUSIVE_CERT_TYPES :: "string list" where
  "EXCLUSIVE_CERT_TYPES = [''codesign'', ''ocsp'', ''timestamp'']"

definition KEY_ALGOS_ALLOWED :: "string list" where
  "KEY_ALGOS_ALLOWED = [''rsa2048'', ''rsa3072'', ''rsa4096'', ''ecdsa256'', ''ecdsa384'']"

definition add_new :: "string list \<Rightarrow> string list \<Rightarrow> string list" where
  "add_new qs out = foldl (\<lambda>acc q. if q \<in> set acc then acc else acc @ [q]) out qs"

fun collect_types :: "string list \<Rightarrow> string list \<Rightarrow> string + string list" where
  "collect_types out [] = Inr out"
| "collect_types out (p # ps) =
     (if p = [] then collect_types out ps
      else if p = ''server-client'' then collect_types (add_new [''client'', ''web''] out) ps
      else if p \<notin> set CERT_TYPES_ALLOWED then Inl (''unknown cert type: '' @ p)
      else collect_types (add_new [p] out) ps)"

text \<open>An error text, or the canonical types (None: the caller's default).\<close>

definition normalize_cert_types :: "'h env \<Rightarrow> json \<Rightarrow> string + string option" where
  "normalize_cert_types e value =
     (let finish = (\<lambda>parts. case collect_types [] (map (\<lambda>p. lower (strip p)) parts) of
            Inl err \<Rightarrow> Inl err
          | Inr out \<Rightarrow>
              if out = [] then Inr None
              else (case (if 1 < length out then filter (\<lambda>p. p \<in> set EXCLUSIVE_CERT_TYPES) out else []) of
                      b # _ \<Rightarrow> Inl (''type '' @ [CHR 0x27] @ b @ [CHR 0x27] @ '' cannot be combined with other types'')
                    | [] \<Rightarrow> Inr (Some (join '','' (sort out)))))
      in case value of
           JNull \<Rightarrow> Inr None
         | JStr s \<Rightarrow> finish (split_on (CHR '','') s)
         | JArr xs \<Rightarrow> finish (map (str_of e) xs)
         | _ \<Rightarrow> Inl ''cert_type must be a string or array'')"

subsection \<open>Listings of the root helper\<close>

record listing =
  l_name :: string
  l_size :: int
  l_mtime :: string
  l_epoch :: "int option"

text \<open>\<open>float(s)\<close> of a decimal numeral, in whole seconds.\<close>

definition float_seconds :: "string \<Rightarrow> int option" where
  "float_seconds s =
     (let t = strip s in
      case split_once (CHR ''.'') t of
        None \<Rightarrow> int_of t
      | Some (a, b) \<Rightarrow>
          if list_all is_digit (a @ b) \<and> a @ b \<noteq> [] then Some (int (digits_val a)) else None)"

definition nth_opt :: "string list \<Rightarrow> string option" where
  "nth_opt xs = (case xs of [] \<Rightarrow> None | x # _ \<Rightarrow> Some x)"

definition listing_row :: "string \<Rightarrow> listing option" where
  "listing_row line =
     (case split_on (CHR 0x09) line of
        n # sz # mt # xs \<Rightarrow>
          (case (int_of sz, map_option float_seconds (nth_opt xs)) of
             (Some k, None) \<Rightarrow> Some \<lparr>l_name = n, l_size = k, l_mtime = mt, l_epoch = None\<rparr>
           | (Some k, Some (Some t)) \<Rightarrow> Some \<lparr>l_name = n, l_size = k, l_mtime = mt, l_epoch = Some t\<rparr>
           | _ \<Rightarrow> None)
      | _ \<Rightarrow> None)"

definition parse_helper_listing :: "string \<Rightarrow> listing list" where
  "parse_helper_listing out = List.map_filter listing_row (splitlines out)"

subsection \<open>Completing a job\<close>

definition issue_job ::
  "'h env \<Rightarrow> time \<Rightarrow> string \<Rightarrow> string \<Rightarrow> string \<Rightarrow> string option \<Rightarrow> string \<Rightarrow> job \<Rightarrow> job" where
  "issue_job e now cert_pem actor signed_via approver chain j =
     j\<lparr>j_status := Issued, j_cert_pem := Some cert_pem, j_chain_pem := nonempty (strip chain),
       j_completed_at := Some now, j_completed_by_dn := Some actor, j_expires_at := cert_expiry e cert_pem,
       j_error := None, j_signed_via := Some signed_via, j_approved_by_dn := approver,
       j_approved_at := (if set_opt approver then Some now else None)\<rparr>"

definition drop_issued :: "'h env \<Rightarrow> ctx \<Rightarrow> string \<Rightarrow> string \<Rightarrow> string \<Rightarrow> 'h world \<Rightarrow> 'h world" where
  "drop_issued e c job_id host cert_pem w =
     (let name = host @ ''.cer'' in
      case issued_error e of
        Some err \<Rightarrow> log_event c ''filesystem_drop'' ''error'' [(''job_id'', job_id), (''error'', take 128 err)] w
      | None \<Rightarrow> snd (run_helper e [''chown-issued'', name] []
          (w\<lparr>w_issued := (name, cert_pem) # filter (\<lambda>x. fst x \<noteq> name) (w_issued w)\<rparr>)))"

definition completion_notices ::
  "'h env \<Rightarrow> ctx \<Rightarrow> string \<Rightarrow> string \<Rightarrow> string \<Rightarrow> string \<Rightarrow> string \<Rightarrow> job \<Rightarrow> 'h world \<Rightarrow> 'h world" where
  "completion_notices e c job_id cert_pem actor signed_via log_action j w =
     (let w1 = log_event c log_action ''ok''
            [(''job_id'', job_id), (''target'', j_target_host j), (''uploader'', actor), (''signed_via'', signed_via),
             (''warnings'', nat_str (length (cert_upload_warnings e (c_now c) cert_pem)))] w;
          w2 = fire_webhooks e c ''job.issued''
            [(''job_id'', JStr job_id), (''target_host'', JStr (j_target_host j)),
             (''requester_email'', jopt (j_requester_email j)), (''completed_by_dn'', JStr actor),
             (''completed_by_cn'', JStr (cn_from_dn actor)), (''group_id'', jint_opt (j_group_id j)),
             (''expires_at'', jint_opt (cert_expiry e cert_pem))] w1;
          w3 = email_notify e c ''cert_issued'' [(''actor'', JStr actor)] job_id j True w2
      in log_event c ''delivery'' ''hook_exception''
           [(''job_id'', job_id), (''error'', ''No module named '' @ [CHR 0x27] @ ''deliver'' @ [CHR 0x27])] w3)"

type_synonym refusal = "nat \<times> string"
type_synonym completed = "time option \<times> string list \<times> string"

definition attach_signed_cert ::
  "'h env \<Rightarrow> ctx \<Rightarrow> string \<Rightarrow> string \<Rightarrow> string \<Rightarrow> string \<Rightarrow> string option \<Rightarrow> string \<Rightarrow> string \<Rightarrow> 'h world
     \<Rightarrow> (refusal + completed) \<times> 'h world" where
  "attach_signed_cert e c job_id cert_pem actor signed_via approver log_action chain w =
     (case row_by j_id job_id (w_jobs w) of
        None \<Rightarrow> (Inl (404, ''job not found''), w)
      | Some j \<Rightarrow>
          if j_status j \<noteq> Pending
          then (Inl (409, ''job in status '' @ [CHR 0x27] @ status_str (j_status j) @ [CHR 0x27]
                  @ '', cannot accept cert''), w)
          else if \<not> verify_cert_matches_csr e (j_csr_pem j) cert_pem
          then (Inl (400, ''cert public key does not match this job'' @ [CHR 0x27] @ ''s CSR. ''
                  @ ''Verify you uploaded the cert for the correct job.''),
                log_event c log_action ''deny_pubkey_mismatch''
                  [(''job_id'', job_id), (''target'', j_target_host j), (''signed_via'', signed_via)] w)
          else
            let w1 = set_job job_id (issue_job e (c_now c) cert_pem actor signed_via approver chain) w;
                w2 = fleet_track_issued e c (j_target_host j) cert_pem (j_requester_email j) job_id w1;
                w3 = drop_issued e c job_id (j_target_host j) cert_pem w2
            in (Inr (cert_expiry e cert_pem, cert_upload_warnings e (c_now c) cert_pem, j_target_host j),
                completion_notices e c job_id cert_pem actor signed_via log_action j w3))"

lemma fleet_frame [frame_simps, simp]:
  "w_users (fleet_track_issued e c h p m i w) = w_users w" "w_settings (fleet_track_issued e c h p m i w) = w_settings w"
  "w_jobs (fleet_track_issued e c h p m i w) = w_jobs w" "w_groups (fleet_track_issued e c h p m i w) = w_groups w"
  "w_members (fleet_track_issued e c h p m i w) = w_members w" "w_host (fleet_track_issued e c h p m i w) = w_host w"
  "w_templates (fleet_track_issued e c h p m i w) = w_templates w"
  by (simp_all add: fleet_track_issued_def Let_def split: sum.split option.split prod.split)

lemma drop_issued_frame [frame_simps, simp]:
  "w_users (drop_issued e c i h p w) = w_users w" "w_settings (drop_issued e c i h p w) = w_settings w"
  "w_jobs (drop_issued e c i h p w) = w_jobs w" "w_groups (drop_issued e c i h p w) = w_groups w"
  "w_members (drop_issued e c i h p w) = w_members w" "w_templates (drop_issued e c i h p w) = w_templates w"
  by (simp_all add: drop_issued_def Let_def split: option.split)

lemma completion_notices_frame [frame_simps, simp]:
  "w_users (completion_notices e c i p a v l j w) = w_users w"
  "w_settings (completion_notices e c i p a v l j w) = w_settings w"
  "w_jobs (completion_notices e c i p a v l j w) = w_jobs w"
  "w_groups (completion_notices e c i p a v l j w) = w_groups w"
  "w_members (completion_notices e c i p a v l j w) = w_members w"
  "w_fleet (completion_notices e c i p a v l j w) = w_fleet w"
  "w_issued (completion_notices e c i p a v l j w) = w_issued w"
  by (simp_all add: completion_notices_def Let_def)

lemma issue_job_key [simp]: "j_id (issue_job e now p a v ap ch j) = j_id j"
  by (simp add: issue_job_def)

lemma attach_jobs:
  "w_jobs (snd (attach_signed_cert e c i p a v ap l ch w)) =
     (if isl (fst (attach_signed_cert e c i p a v ap l ch w)) then w_jobs w
      else modify_row j_id i (issue_job e (c_now c) p a v ap ch) (w_jobs w))"
  by (simp add: attach_signed_cert_def Let_def split: option.split)

text \<open>
  C9: a certificate completes a job only for its own key. \<open>_attach_signed_cert\<close> succeeds exactly for a
  pending job whose CSR has the public key of the certificate; it then rewrites that one row,
  with the certificate and its own expiry date. Refused, it leaves the jobs, the issued files, the
  tracked certificates and the webhooks as they were.
\<close>
theorem completion_matches_key:
  assumes "row_by j_id i (w_jobs w) = Some j"
  shows "case attach_signed_cert e c i cert actor via approver action chain w of
     (Inr (expires, warnings, host), w') \<Rightarrow>
        j_status j = Pending \<and> verify_cert_matches_csr e (j_csr_pem j) cert
        \<and> expires = cert_expiry e cert \<and> host = j_target_host j
        \<and> row_by j_id i (w_jobs w') = Some (issue_job e (c_now c) cert actor via approver chain j)
        \<and> (\<forall>k. k \<noteq> i \<longrightarrow> row_by j_id k (w_jobs w') = row_by j_id k (w_jobs w))
   | (Inl (code, msg), w') \<Rightarrow>
        (j_status j \<noteq> Pending \<and> code = 409 \<or> \<not> verify_cert_matches_csr e (j_csr_pem j) cert \<and> code = 400)
        \<and> w_jobs w' = w_jobs w \<and> w_issued w' = w_issued w \<and> w_fleet w' = w_fleet w \<and> w_fired w' = w_fired w"
  using assms
  by (auto simp: attach_signed_cert_def Let_def jobs.lookup_modify)

definition signed_env :: "unit env" where
  "signed_env = quiet_env\<lparr>openssl := (\<lambda>args i. Some (0, ''KEY'', []))\<rparr>"

theorem completion_matches_key_witness:
  "let w = (host_world ())\<lparr>w_jobs := [sample_job]\<rparr>;
       w' = snd (attach_signed_cert signed_env sample_ctx (j_id sample_job) ''CERT'' ''CN=EVE'' ''manual'' None
              ''upload_cert'' [] w) in
   map_option j_status (row_by j_id (j_id sample_job) (w_jobs w')) = Some Issued"
proof -
  let ?w = "(host_world ())\<lparr>w_jobs := [sample_job]\<rparr>"
  let ?r = "attach_signed_cert signed_env sample_ctx (j_id sample_job) ''CERT'' ''CN=EVE'' ''manual'' None ''upload_cert'' [] ?w"
  have "row_by j_id (j_id sample_job) (w_jobs ?w) = Some sample_job" by simp
  note c = completion_matches_key [where e = signed_env and c = sample_ctx and cert = "''CERT''" and actor = "''CN=EVE''"
    and via = "''manual''" and approver = None and action = "''upload_cert''" and chain = "[]", OF this]
  have k: "strip ''KEY'' = ''KEY''" by code_simp
  have "verify_cert_matches_csr signed_env (j_csr_pem sample_job) ''CERT''"
    by (simp add: verify_cert_matches_csr_def csr_pubkey_def cert_pubkey_def openssl_out_def signed_env_def set_opt_def k)
  moreover have "j_status sample_job = Pending" by (simp add: sample_job_def)
  ultimately obtain x w' where "?r = (Inr x, w')" using c by (cases ?r; cases "fst ?r") auto
  with c show ?thesis by (cases x) (auto simp: Let_def issue_job_def)
qed

subsection \<open>Canonical types\<close>

lemma add_new_props:
  "set (add_new qs out) = set out \<union> set qs" "distinct out \<Longrightarrow> distinct (add_new qs out)"
  by (induction qs arbitrary: out) (auto simp: add_new_def)

lemma collect_types_props:
  "collect_types out ps = Inr ts \<Longrightarrow> distinct out \<Longrightarrow> set out \<subseteq> set CERT_TYPES_ALLOWED \<Longrightarrow>
     distinct ts \<and> set out \<subseteq> set ts \<and> set ts \<subseteq> set CERT_TYPES_ALLOWED"
proof (induction out ps arbitrary: ts rule: collect_types.induct)
  case (2 out p ps)
  have "{''client'', ''web''} \<subseteq> set CERT_TYPES_ALLOWED" by (simp add: CERT_TYPES_ALLOWED_def)
  with 2 show ?case by (auto simp: add_new_props split: if_splits)
qed auto

lemma collect_allowed:
  "set ps \<subseteq> set CERT_TYPES_ALLOWED \<Longrightarrow> distinct (out @ ps) \<Longrightarrow> collect_types out ps = Inr (out @ ps)"
proof (induction ps arbitrary: out)
  case (Cons p ps)
  moreover have "p \<noteq> []" "p \<noteq> ''server-client''" using Cons.prems(1) by (auto simp: CERT_TYPES_ALLOWED_def)
  ultimately show ?case by (auto simp: add_new_def)
qed simp

lemma allowed_plain: "t \<in> set CERT_TYPES_ALLOWED \<Longrightarrow> lower (strip t) = t \<and> CHR '','' \<notin> set t \<and> t \<noteq> []"
proof -
  have "\<forall>t\<in>set CERT_TYPES_ALLOWED. lower (strip t) = t \<and> CHR '','' \<notin> set t \<and> t \<noteq> []" by code_simp
  then show "t \<in> set CERT_TYPES_ALLOWED \<Longrightarrow> ?thesis" by blast
qed

lemma normalize_shape:
  assumes "normalize_cert_types e value = Inr (Some csv)"
  obtains ts where "csv = join '','' (sort ts)" "ts \<noteq> []" "distinct ts" "set ts \<subseteq> set CERT_TYPES_ALLOWED"
    "1 < length ts \<longrightarrow> filter (\<lambda>p. p \<in> set EXCLUSIVE_CERT_TYPES) ts = []"
proof -
  from assms obtain parts ts where "collect_types [] parts = Inr ts" and r: "csv = join '','' (sort ts)" "ts \<noteq> []"
    "1 < length ts \<longrightarrow> filter (\<lambda>p. p \<in> set EXCLUSIVE_CERT_TYPES) ts = []"
    by (auto simp: normalize_cert_types_def Let_def split: json.splits sum.splits list.splits if_splits)
  from collect_types_props [OF this(1)] have "distinct ts" "set ts \<subseteq> set CERT_TYPES_ALLOWED" by simp_all
  with r that show thesis by blast
qed

text \<open>
  C23: certificate types have one canonical form. Whatever a request sends, an accepted value is the
  sorted, comma-joined list of distinct known types, an exclusive type stands alone in it, and
  the value normalizes to itself.
\<close>
theorem cert_types_canonical:
  assumes "normalize_cert_types e value = Inr (Some csv)"
  shows "\<exists>ts. csv = join '','' ts \<and> sorted ts \<and> distinct ts \<and> ts \<noteq> [] \<and> set ts \<subseteq> set CERT_TYPES_ALLOWED
     \<and> (1 < length ts \<longrightarrow> set ts \<inter> set EXCLUSIVE_CERT_TYPES = {})
     \<and> normalize_cert_types e (JStr csv) = Inr (Some csv)"
proof -
  from assms obtain ts where ts: "csv = join '','' (sort ts)" "ts \<noteq> []" "distinct ts" "set ts \<subseteq> set CERT_TYPES_ALLOWED"
    and ex: "1 < length ts \<longrightarrow> filter (\<lambda>p. p \<in> set EXCLUSIVE_CERT_TYPES) ts = []"
    by (rule normalize_shape)
  let ?s = "sort ts"
  have ne: "?s \<noteq> []" using ts(2) by (metis length_0_conv length_sort)
  have "split_on (CHR '','') csv = ?s"
    unfolding ts(1) by (rule split_on_join) (use ne ts(4) allowed_plain in auto)
  moreover have "map (\<lambda>p. lower (strip p)) ?s = ?s"
    by (rule map_idI) (use ts(4) allowed_plain in auto)
  moreover have "collect_types [] ?s = Inr ?s"
    using collect_allowed [of ?s "[]"] ts(3,4) by simp
  moreover have ex': "1 < length ?s \<longrightarrow> filter (\<lambda>p. p \<in> set EXCLUSIVE_CERT_TYPES) ?s = []"
    using ex by (simp add: filter_empty_conv)
  ultimately have "normalize_cert_types e (JStr csv) = Inr (Some csv)"
    using ne ts(1) by (simp add: normalize_cert_types_def sorted_sort_id)
  with ts ne ex' show ?thesis
    by (intro exI [of _ ?s]) (auto simp: filter_empty_conv)
qed

theorem cert_types_canonical_witness:
  "normalize_cert_types sample_env (JStr '' Web,server-client'') = Inr (Some ''client,web'')
   \<and> normalize_cert_types sample_env (JStr ''client,web'') = Inr (Some ''client,web'')"
proof -
  have "split_on (CHR '','') '' Web,server-client'' = ['' Web'', ''server-client'']"
    "map (\<lambda>p. lower (strip p)) ['' Web'', ''server-client''] = [''web'', ''server-client'']"
    "collect_types [] [''web'', ''server-client''] = Inr [''web'', ''client'']"
    "filter (\<lambda>p. p \<in> set EXCLUSIVE_CERT_TYPES) [''web'', ''client''] = []"
    "sort [''web'', ''client''] = [''client'', ''web'']" by code_simp+
  then have "normalize_cert_types sample_env (JStr '' Web,server-client'') = Inr (Some ''client,web'')"
    by (simp add: normalize_cert_types_def)
  from this cert_types_canonical [OF this] show ?thesis by blast
qed

end
