(* ===== verification/JobViews.thy ===== *)
theory JobViews
  imports JobCore
begin

text \<open>
  The read side of \<^verbatim>\<open>backend/routes_jobs.py\<close>: expiry of issued jobs, who sees which job, the job as
  the interface shows it, the list, the per-host rollup, single jobs with their CSR and
  certificate, key downloads, the text views and the signing-queue archive. A query is a list
  of conditions on rows; SQLite compares \<open>LIKE\<close> patterns ignoring ASCII case, PostgreSQL does
  not, and takes a backslash in them as an escape.
\<close>

subsection \<open>Expiry\<close>

definition due :: "time \<Rightarrow> job \<Rightarrow> bool" where
  "due now j = (j_status j = Issued \<and> (case j_expires_at j of None \<Rightarrow> False | Some t \<Rightarrow> t \<le> now))"

definition announce_expired :: "'h env \<Rightarrow> ctx \<Rightarrow> job \<Rightarrow> 'h world \<Rightarrow> 'h world" where
  "announce_expired e c j w =
     fire_webhooks e c ''job.expired''
       [(''job_id'', JStr (j_id j)), (''target_host'', JStr (j_target_host j)),
        (''requester_email'', jopt (j_requester_email j)), (''group_id'', jint_opt (j_group_id j))]
       (log_event c ''job_expired'' ''ok'' [(''job_id'', j_id j), (''target'', j_target_host j)] w)"

definition sweep_expired :: "'h env \<Rightarrow> ctx \<Rightarrow> 'h world \<Rightarrow> 'h world" where
  "sweep_expired e c w =
     (let rows = filter (due (c_now c)) (w_jobs w) in
      if rows = [] then w
      else fold (announce_expired e c) rows
             (w\<lparr>w_jobs := update_where (due (c_now c)) (\<lambda>j. j\<lparr>j_status := Expired\<rparr>) (w_jobs w)\<rparr>))"

subsection \<open>Visibility\<close>

definition job_visible_to :: "job \<Rightarrow> string \<Rightarrow> int list \<Rightarrow> bool \<Rightarrow> bool \<Rightarrow> bool" where
  "job_visible_to j dn gids signer admin =
     (signer \<or> admin \<or> j_requester_dn j = dn
      \<or> (case j_group_id j of None \<Rightarrow> False | Some g \<Rightarrow> gids \<noteq> [] \<and> g \<in> set gids))"

definition visible :: "ctx \<Rightarrow> 'h world \<Rightarrow> job \<Rightarrow> bool" where
  "visible c w j = job_visible_to j (me c) (user_group_ids (me c) w) (is_signer (me c) w) (is_admin c)"

definition require_job_visible ::
  "'h env \<Rightarrow> ctx \<Rightarrow> string \<Rightarrow> job \<Rightarrow> 'h world \<Rightarrow> ('h world \<Rightarrow> response \<times> 'h world) \<Rightarrow> response \<times> 'h world" where
  "require_job_visible e c shown_id j w k =
     (if visible c w j then k w
      else abort e c 403 (log_event c ''job_access'' ''deny_not_visible'' [(''job_id'', shown_id)] w))"

text \<open>\<^verbatim>\<open>_visibility_sql\<close>: no condition for signers and administrators, otherwise one disjunction.\<close>

definition visibility_sql :: "ctx \<Rightarrow> 'h world \<Rightarrow> (job \<Rightarrow> bool) list" where
  "visibility_sql c w =
     (if is_signer (me c) w \<or> is_admin c then []
      else let gids = user_group_ids (me c) w in
        [\<lambda>j. j_requester_dn j = me c \<or> (gids \<noteq> [] \<and> j_group_id j \<in> Some ` set gids)])"

definition select_jobs :: "(job \<Rightarrow> bool) list \<Rightarrow> 'h world \<Rightarrow> job list" where
  "select_jobs conds w = filter (\<lambda>j. list_all (\<lambda>p. p j) conds) (w_jobs w)"

fun sql_like :: "bool \<Rightarrow> string \<Rightarrow> string \<Rightarrow> bool" where
  "sql_like pg [] s = (s = [])"
| "sql_like pg (p # ps) [] = (p = CHR ''%'' \<and> sql_like pg ps [])"
| "sql_like pg (p # ps) (c # s) =
     (if p = CHR ''%'' then sql_like pg ps (c # s) \<or> sql_like pg (p # ps) s
      else if pg \<and> p = CHR 0x5C
      then (case ps of [] \<Rightarrow> False | q # qs \<Rightarrow> q = c \<and> sql_like pg qs s)
      else (p = CHR ''_'' \<or> (if pg then p = c else ascii_fold p = ascii_fold c)) \<and> sql_like pg ps s)"

definition has_part :: "'h env \<Rightarrow> string \<Rightarrow> string \<Rightarrow> bool" where
  "has_part e q s = sql_like (IS_POSTGRES e) (''%'' @ q @ ''%'') s"

subsection \<open>A job as the interface shows it\<close>

definition can_download_key :: "job \<Rightarrow> string \<Rightarrow> int list \<Rightarrow> bool" where
  "can_download_key j dn gids =
     (j_has_local_key j \<and> (j_requester_dn j = dn \<or> j_group_id j \<in> Some ` set gids))"

definition can_cancel :: "job \<Rightarrow> string \<Rightarrow> bool \<Rightarrow> bool" where
  "can_cancel j dn admin = (j_status j = Pending \<and> (j_requester_dn j = dn \<or> admin))"

definition row_to_job :: "job \<Rightarrow> string \<Rightarrow> int list \<Rightarrow> bool \<Rightarrow> bool \<Rightarrow> (string \<times> json) list" where
  "row_to_job j dn gids admin signer =
     (let cn = cn_from_dn (j_requester_dn j) in
      [(''id'', JStr (j_id j)), (''created_at'', JInt (j_created_at j)),
       (''requester_dn'', JStr (j_requester_dn j)), (''requester_cn'', JStr cn),
       (''requester_email'', jopt (j_requester_email j)),
       (''requester_display'', JStr (or_else (or_empty (j_requester_email j)) (or_else cn (j_requester_dn j)))),
       (''target_host'', JStr (j_target_host j)), (''sans'', strs (j_sans j)),
       (''status'', JStr (status_str (j_status j))),
       (''completed_at'', jint_opt (j_completed_at j)),
       (''completed_by_dn'', jopt (j_completed_by_dn j)),
       (''completed_by_cn'', if set_opt (j_completed_by_dn j)
          then JStr (cn_from_dn (or_empty (j_completed_by_dn j))) else JNull),
       (''error'', jopt (j_error j)), (''has_local_key'', JBool (j_has_local_key j)),
       (''local_key_name'', jopt (j_local_key_name j)), (''source'', JStr (j_source j)),
       (''group_id'', jint_opt (j_group_id j)), (''cert_type'', jopt (j_cert_type j)),
       (''expires_at'', jint_opt (j_expires_at j)), (''key_algo'', jopt (j_key_algo j)),
       (''renewed_from'', jopt (j_renewed_from j)),
       (''is_requester'', JBool (j_requester_dn j = dn)),
       (''can_download_key'', JBool (can_download_key j dn gids)),
       (''can_edit_group'', JBool (j_requester_dn j = dn \<or> admin)),
       (''can_cancel'', JBool (can_cancel j dn admin)),
       (''can_mark_failed'', JBool (j_status j = Pending \<and> signer))])"

subsection \<open>Per-host rollup\<close>

record current_cert =
  cc_id :: string
  cc_type :: "string option"
  cc_expires :: "time option"
  cc_issued_at :: time
  cc_sans :: "string list"
  cc_days_left :: "int option"

record host_row =
  h_host :: string
  h_total :: int
  h_counts :: "(string \<times> int) list"
  h_valid :: int
  h_current :: "current_cert option"
  h_last :: time

definition HOST_WARN_DAYS :: int where "HOST_WARN_DAYS = 30"
definition HOST_CRIT_DAYS :: int where "HOST_CRIT_DAYS = 7"

text \<open>\<open>rank > current\<close> where no expiry date ranks as infinity.\<close>

definition outranks :: "time option \<Rightarrow> time option \<Rightarrow> bool" where
  "outranks a b =
     (case b of None \<Rightarrow> False | Some y \<Rightarrow> (case a of None \<Rightarrow> True | Some x \<Rightarrow> y < x))"

fun bump :: "string \<Rightarrow> (string \<times> int) list \<Rightarrow> (string \<times> int) list" where
  "bump k [] = [(k, 1)]"
| "bump k ((k', n) # kvs) = (if k' = k then (k, n + 1) # kvs else (k', n) # bump k kvs)"

definition current_of :: "time \<Rightarrow> job \<Rightarrow> current_cert" where
  "current_of now j =
    \<lparr>cc_id = j_id j, cc_type = j_cert_type j, cc_expires = j_expires_at j,
     cc_issued_at = (case j_completed_at j of Some t \<Rightarrow> if t \<noteq> 0 then t else j_created_at j | None \<Rightarrow> j_created_at j),
     cc_sans = j_sans j,
     cc_days_left = map_option (\<lambda>x. (x - now) div 86400) (j_expires_at j)\<rparr>"

definition unexpired :: "time \<Rightarrow> job \<Rightarrow> bool" where
  "unexpired now j =
     (j_status j = Issued \<and> (case j_expires_at j of None \<Rightarrow> True | Some t \<Rightarrow> now < t))"

definition host_add :: "time \<Rightarrow> job \<Rightarrow> host_row \<Rightarrow> host_row" where
  "host_add now j h =
     (let h1 = h\<lparr>h_total := h_total h + 1, h_counts := bump (status_str (j_status j)) (h_counts h),
                 h_last := max (h_last h) (j_created_at j)\<rparr> in
      if \<not> unexpired now j then h1
      else let h2 = h1\<lparr>h_valid := h_valid h1 + 1\<rparr> in
        if (case h_current h2 of None \<Rightarrow> True | Some cur \<Rightarrow> outranks (j_expires_at j) (cc_expires cur))
        then h2\<lparr>h_current := Some (current_of now j)\<rparr> else h2)"

definition new_host :: "string \<Rightarrow> host_row" where
  "new_host name = \<lparr>h_host = name, h_total = 0, h_counts = [], h_valid = 0, h_current = None, h_last = 0\<rparr>"

fun add_to_hosts :: "time \<Rightarrow> job \<Rightarrow> host_row list \<Rightarrow> host_row list" where
  "add_to_hosts now j [] = [host_add now j (new_host (j_target_host j))]"
| "add_to_hosts now j (h # hs) =
     (if h_host h = j_target_host j then host_add now j h # hs else h # add_to_hosts now j hs)"

definition rollup :: "time \<Rightarrow> job list \<Rightarrow> host_row list" where
  "rollup now rows = fold (add_to_hosts now) rows []"

definition host_health :: "host_row \<Rightarrow> string" where
  "host_health h =
     (case h_current h of
        None \<Rightarrow> (case map_of (h_counts h) ''pending'' of Some n \<Rightarrow> if n \<noteq> 0 then ''pending'' else ''expired''
                 | None \<Rightarrow> ''expired'')
      | Some cur \<Rightarrow>
          (case cc_days_left cur of
             None \<Rightarrow> ''ok''
           | Some d \<Rightarrow> if d \<le> HOST_CRIT_DAYS then ''critical'' else if d \<le> HOST_WARN_DAYS then ''warn'' else ''ok''))"

definition health_order :: "host_row \<Rightarrow> nat" where
  "health_order h =
     the (map_of [(''expired'', 0), (''critical'', 1), (''pending'', 2), (''warn'', 3), (''ok'', 4)] (host_health h))"

text \<open>The sort key is a triple; three stable sorts, the last component first, order the same way.\<close>

definition host_expiry :: "host_row \<Rightarrow> time option" where
  "host_expiry h =
     (case h_current h of None \<Rightarrow> None
      | Some cur \<Rightarrow> (case cc_expires cur of None \<Rightarrow> None | Some t \<Rightarrow> if t = 0 then None else Some t))"

definition sort_hosts :: "host_row list \<Rightarrow> host_row list" where
  "sort_hosts hs =
     sort_key health_order (sort_key (\<lambda>h. host_expiry h = None)
       (sort_key (\<lambda>h. case host_expiry h of None \<Rightarrow> 0 | Some t \<Rightarrow> t) (sort_key h_host hs)))"

definition host_json :: "host_row \<Rightarrow> json" where
  "host_json h =
     JObj [(''host'', JStr (h_host h)), (''total'', JInt (h_total h)),
       (''counts'', JObj (map (\<lambda>(k, n). (k, JInt n)) (h_counts h))), (''valid'', JInt (h_valid h)),
       (''current'', case h_current h of None \<Rightarrow> JNull
          | Some cur \<Rightarrow> JObj [(''id'', JStr (cc_id cur)), (''cert_type'', jopt (cc_type cur)),
              (''expires_at'', jint_opt (cc_expires cur)), (''issued_at'', JInt (cc_issued_at cur)),
              (''sans'', strs (cc_sans cur)), (''days_left'', jint_opt (cc_days_left cur))]),
       (''last_activity'', JInt (h_last h)), (''health'', JStr (host_health h)),
       (''older_valid'', JInt (max 0 (h_valid h - 1)))]"

definition list_job_hosts :: "'h env \<Rightarrow> 'h handler" where
  "list_job_hosts e = require_auth e ''list_job_hosts'' (\<lambda>c w0.
     let w = sweep_expired e c w0;
         q = strip (or_empty (c_args c ''q''));
         rows = select_jobs ((if q = [] then [] else [\<lambda>j. has_part e q (j_target_host j)]) @ visibility_sql c w) w;
         hosts = sort_hosts (rollup (c_now c) rows)
     in (ok_reply [(''hosts'', JArr (map host_json hosts)), (''total'', JInt (int (length hosts)))], w))"

subsection \<open>The list\<close>

definition JOB_STATUSES :: "string list" where
  "JOB_STATUSES = [''pending'', ''issued'', ''failed'', ''cancelled'', ''expired'', ''revoked'']"

definition arg :: "ctx \<Rightarrow> string \<Rightarrow> string" where
  "arg c name = or_empty (c_args c name)"

definition expiring_by :: "time \<Rightarrow> int \<Rightarrow> job \<Rightarrow> bool" where
  "expiring_by now days j =
     (j_status j = Issued \<and> (case j_expires_at j of None \<Rightarrow> False
        | Some t \<Rightarrow> t \<le> now + max 1 (min days 365) * 86400))"

definition search_cond :: "'h env \<Rightarrow> string \<Rightarrow> job \<Rightarrow> bool" where
  "search_cond e q j =
     (has_part e q (j_target_host j) \<or> has_part e q (j_requester_dn j) \<or> has_part e q (j_id j))"

text \<open>The conditions of a list request, or the text of a 400.\<close>

definition list_conds :: "'h env \<Rightarrow> ctx \<Rightarrow> string + (job \<Rightarrow> bool) list" where
  "list_conds e c =
     (if arg c ''status'' \<noteq> [] \<and> arg c ''status'' \<notin> set JOB_STATUSES then Inl ''invalid status''
      else if arg c ''expiring_within'' \<noteq> [] \<and> int_of (arg c ''expiring_within'') = None
      then Inl ''invalid expiring_within''
      else if arg c ''source'' \<noteq> [] \<and> arg c ''source'' \<notin> set [''rhel'', ''external''] then Inl ''invalid source''
      else Inr (
        (if arg c ''status'' = [] then [] else [\<lambda>j. status_str (j_status j) = arg c ''status''])
        @ (case int_of (arg c ''expiring_within'') of
             Some d \<Rightarrow> if arg c ''expiring_within'' = [] then [] else [expiring_by (c_now c) d] | None \<Rightarrow> [])
        @ (if arg c ''requester'' = [] then [] else [\<lambda>j. has_part e (arg c ''requester'') (j_requester_dn j)])
        @ (if arg c ''target'' = [] then [] else [\<lambda>j. has_part e (arg c ''target'') (j_target_host j)])
        @ (if arg c ''source'' = [] then [] else [\<lambda>j. j_source j = arg c ''source''])
        @ (if arg c ''q'' = [] then [] else [search_cond e (arg c ''q'')])
        @ (case int_of (arg c ''days'') of
             Some d \<Rightarrow> if arg c ''days'' = [] then [] else [\<lambda>j. c_now c - d * 86400 \<le> j_created_at j] | None \<Rightarrow> [])))"

definition page_bounds :: "ctx \<Rightarrow> int \<times> int" where
  "page_bounds c =
     (case (case c_args c ''limit'' of None \<Rightarrow> Some 100 | Some s \<Rightarrow> int_of s,
            case c_args c ''offset'' of None \<Rightarrow> Some 0 | Some s \<Rightarrow> int_of s) of
        (Some l, Some off) \<Rightarrow> (min l 500, max off 0)
      | _ \<Rightarrow> (100, 0))"

text \<open>
  \<open>LIMIT ? OFFSET ?\<close>: a negative limit is no limit in SQLite and an error in PostgreSQL.
\<close>

definition page :: "'h env \<Rightarrow> int \<Rightarrow> int \<Rightarrow> 'a list \<Rightarrow> 'a list result" where
  "page e limit offset rows =
     (if 0 \<le> limit then Inr (take (nat limit) (drop (nat offset) rows))
      else if IS_POSTGRES e then Inl (PyError ''InvalidRowCountInLimitClause'')
      else Inr (drop (nat offset) rows))"

definition newest_first :: "job list \<Rightarrow> job list" where
  "newest_first js = sort_key (\<lambda>j. - j_created_at j) js"

definition shown_job :: "ctx \<Rightarrow> 'h world \<Rightarrow> job \<Rightarrow> (string \<times> json) list" where
  "shown_job c w j = row_to_job j (me c) (user_group_ids (me c) w) (is_admin c) (is_signer (me c) w)"

definition with_group_name :: "bool \<Rightarrow> 'h world \<Rightarrow> job \<Rightarrow> (string \<times> json) list \<Rightarrow> (string \<times> json) list" where
  "with_group_name null_name w j kvs =
     (if j_group_id j \<in> {None, Some 0} then kvs
      else case group_by_id (j_group_id j) w of
        Some g \<Rightarrow> kvs @ [(''group_name'', JStr (g_name g))]
      | None \<Rightarrow> if null_name then kvs @ [(''group_name'', JNull)] else kvs)"

definition list_jobs :: "'h env \<Rightarrow> 'h handler" where
  "list_jobs e = require_auth e ''list_jobs'' (\<lambda>c w0.
     let w = sweep_expired e c w0 in
     case list_conds e c of
       Inl msg \<Rightarrow> refuse 400 msg w
     | Inr conds \<Rightarrow>
         let rows = select_jobs (conds @ visibility_sql c w) w; (limit, offset) = page_bounds c in
         attempt e c (page e limit offset (newest_first rows)) w (\<lambda>shown.
           (ok_reply [(''jobs'', JArr (map (\<lambda>j. JObj (with_group_name True w j (shown_job c w j))) shown)),
                      (''total'', JInt (int (length rows))), (''limit'', JInt limit), (''offset'', JInt offset)],
            log_event c ''list_jobs'' ''ok''
              [(''count'', nat_str (length shown)), (''total'', nat_str (length rows))] w)))"

subsection \<open>One job\<close>

definition valid_job_id ::
  "'h env \<Rightarrow> string \<Rightarrow> ('h world \<Rightarrow> response \<times> 'h world) \<Rightarrow> ctx \<Rightarrow> 'h world \<Rightarrow> response \<times> 'h world" where
  "valid_job_id e job_id k c w = (if JOB_ID_RE job_id then k w else abort e c 400 w)"

definition with_job ::
  "'h env \<Rightarrow> ctx \<Rightarrow> string \<Rightarrow> 'h world \<Rightarrow> (job \<Rightarrow> response \<times> 'h world) \<Rightarrow> response \<times> 'h world" where
  "with_job e c job_id w k =
     (case row_by j_id job_id (w_jobs w) of None \<Rightarrow> abort e c 404 w | Some j \<Rightarrow> k j)"

definition may_sign_here :: "'h env \<Rightarrow> ctx \<Rightarrow> 'h world \<Rightarrow> job \<Rightarrow> bool" where
  "may_sign_here e c w j =
     (let b = p_backend (resolve_signing_policy (j_template_id j) w) in
      j_status j = Pending \<and> (is_signer (me c) w \<or> is_admin c) \<and> b \<noteq> ''manual''
      \<and> available_in e c w (''ca.signing.'' @ b))"

definition may_revoke_here :: "'h env \<Rightarrow> ctx \<Rightarrow> 'h world \<Rightarrow> job \<Rightarrow> bool" where
  "may_revoke_here e c w j =
     (let b = p_backend (resolve_signing_policy (j_template_id j) w) in
      j_status j = Issued \<and> (is_signer (me c) w \<or> is_admin c) \<and> b \<in> set [''openbao'', ''windows_ca'']
      \<and> available_in e c w (''ca.signing.'' @ b))"

definition get_job :: "'h env \<Rightarrow> string \<Rightarrow> 'h handler" where
  "get_job e job_id = require_auth e ''get_job'' (\<lambda>c w0. valid_job_id e job_id (\<lambda>w1.
     let w = sweep_expired e c w1 in
     with_job e c job_id w (\<lambda>j. require_job_visible e c (j_id j) j w (\<lambda>w.
       (ok_reply (with_group_name False w j (shown_job c w j)
          @ [(''can_sign'', JBool (may_sign_here e c w j)), (''can_revoke'', JBool (may_revoke_here e c w j))]),
        log_event c ''get_job'' ''ok'' [(''job_id'', job_id)] w)))) c w0)"

definition get_job_csr :: "'h env \<Rightarrow> string \<Rightarrow> 'h handler" where
  "get_job_csr e job_id = require_auth e ''get_job_csr'' (\<lambda>c w0. valid_job_id e job_id (\<lambda>w.
     with_job e c job_id w (\<lambda>j. require_job_visible e c ''-'' j w (\<lambda>w.
       (content_reply (j_csr_pem j),
        log_event c ''get_job_csr'' ''ok'' [(''job_id'', job_id), (''target'', j_target_host j)] w)))) c w0)"

definition has_cert :: "job \<Rightarrow> bool" where
  "has_cert j = (j_status j = Issued \<and> set_opt (j_cert_pem j))"

definition get_job_cert :: "'h env \<Rightarrow> string \<Rightarrow> 'h handler" where
  "get_job_cert e job_id = require_auth e ''get_job_cert'' (\<lambda>c w0. valid_job_id e job_id (\<lambda>w.
     with_job e c job_id w (\<lambda>j. require_job_visible e c ''-'' j w (\<lambda>w.
       if \<not> has_cert j then refuse 404 ''cert not yet available'' w
       else let fmt = lower (or_else (arg c ''format'') ''pem'') in
         if fmt = ''p12'' then refuse 400 ''use POST /api/jobs/<id>/cert.p12 for PKCS#12'' w
         else attempt e c (convert e (or_empty (j_cert_pem j)) fmt None None (or_else (j_target_host j) ''certificate'')) w
           (\<lambda>r. case r of
              Inl msg \<Rightarrow> refuse 400 msg w
            | Inr (file_body, _, _) \<Rightarrow>
                (content_reply file_body,
                 log_event c ''get_job_cert'' ''ok'' [(''job_id'', job_id), (''fmt'', fmt)] w))))) c w0)"

text \<open>Who may have a job's private key: its requester, a session that claims it, its group. Not administrators.\<close>

definition in_key_group :: "ctx \<Rightarrow> 'h world \<Rightarrow> job \<Rightarrow> bool" where
  "in_key_group c w j = (j_group_id j \<in> Some ` set (user_group_ids (me c) w))"

definition key_access :: "ctx \<Rightarrow> 'h world \<Rightarrow> string list \<Rightarrow> job \<Rightarrow> bool" where
  "key_access c w session_keys j =
     (j_requester_dn j = me c \<or> or_empty (j_local_key_name j) \<in> set session_keys \<or> in_key_group c w j)"

definition sign_result_of :: "'a sign_result \<Rightarrow> 'a result" where
  "sign_result_of r = (case r of Inl (Raised err) \<Rightarrow> Inl err | Inl m \<Rightarrow> Inl (PyError (sign_error_text m)) | Inr x \<Rightarrow> Inr x)"

definition get_job_cert_p12 :: "'h env \<Rightarrow> string \<Rightarrow> 'h handler" where
  "get_job_cert_p12 e job_id =
     require_auth e ''get_job_cert_p12'' (require_csrf e ''get_job_cert_p12'' (\<lambda>c w0. valid_job_id e job_id (\<lambda>w.
     with_payload e c w (\<lambda>p. attempt e c (str_or_empty (jget ''password'' p)) w (\<lambda>pw.
     if length (strip pw) < 8 then refuse 400 ''a password of at least 8 characters is required'' w
     else with_job e c job_id w (\<lambda>j.
       if \<not> has_cert j then refuse 404 ''cert not yet available'' w
       else if \<not> j_has_local_key j \<or> \<not> set_opt (j_local_key_name j)
       then refuse 404 (''no downloadable private key for this job - '' @ ''PKCS#12 is unavailable'') w
       else case get_session_keys c w of (sk, w1) \<Rightarrow>
         if \<not> key_access c w1 sk j
         then abort e c 403 (log_event c ''get_job_cert_p12'' ''deny_not_authorized''
                [(''job_id'', job_id), (''target'', j_target_host j)] w1)
         else case fetch_for_job e j w1 of (r, w2) \<Rightarrow>
           attempt e c (sign_result_of r) w2 (\<lambda>key.
           if strip (or_empty key) = [] then refuse 404 ''private key could not be retrieved'' w2
           else attempt e c (convert e (or_empty (j_cert_pem j)) ''p12'' key (Some (strip pw))
                  (or_else (j_target_host j) ''certificate'')) w2
             (\<lambda>q. case q of
                Inl msg \<Rightarrow> refuse 400 msg w2
              | Inr (file_body, _, _) \<Rightarrow>
                  (content_reply file_body,
                   log_event c ''get_job_cert_p12'' ''ok''
                     [(''job_id'', job_id), (''target'', j_target_host j)] w2))))))) c w0))"

definition auth_via :: "ctx \<Rightarrow> 'h world \<Rightarrow> job \<Rightarrow> string" where
  "auth_via c w j =
     (if j_requester_dn j = me c then ''requester''
      else if in_key_group c w j then ''group:'' @ (case j_group_id j of Some g \<Rightarrow> int_str g | None \<Rightarrow> [])
      else ''session'')"

definition send_job_key :: "'h env \<Rightarrow> ctx \<Rightarrow> string \<Rightarrow> job \<Rightarrow> 'h world \<Rightarrow> response \<times> 'h world" where
  "send_job_key e c job_id j w =
     (case get_session_keys c w of (sk, w1) \<Rightarrow>
        if \<not> key_access c w1 sk j
        then abort e c 403 (log_event c ''get_job_key'' ''deny_not_authorized''
               [(''job_id'', job_id), (''target'', j_target_host j)] w1)
        else case fetch_for_job e j w1 of (r, w2) \<Rightarrow>
          attempt e c (sign_result_of r) w2 (\<lambda>out.
          if strip (or_empty out) = []
          then refuse 404 ''key file not found''
                 (log_event c ''get_job_key'' ''not_found''
                   [(''job_id'', job_id), (''name'', or_empty (j_local_key_name j))] w2)
          else (content_reply (or_empty out),
                log_event c ''get_job_key'' ''ok''
                  [(''job_id'', job_id), (''name'', or_empty (j_local_key_name j)), (''target'', j_target_host j),
                   (''auth_via'', auth_via c w1 j)] w2)))"

definition get_job_key :: "'h env \<Rightarrow> string \<Rightarrow> 'h handler" where
  "get_job_key e job_id = require_auth e ''get_job_key'' (\<lambda>c w0. valid_job_id e job_id (\<lambda>w.
     with_job e c job_id w (\<lambda>j.
       if \<not> j_has_local_key j \<or> \<not> set_opt (j_local_key_name j) then refuse 404 ''no local key for this job'' w
       else if \<not> KEY_NAME_RE (or_empty (j_local_key_name j))
       then abort e c 400 (log_event c ''get_job_key'' ''deny_invalid_name'' [(''job_id'', job_id)] w)
       else send_job_key e c job_id j w)) c w0)"

text \<open>The text views.\<close>

definition text_view :: "'h env \<Rightarrow> ctx \<Rightarrow> string \<Rightarrow> string \<Rightarrow> string \<Rightarrow> string list \<Rightarrow> string \<Rightarrow> 'h world \<Rightarrow> response \<times> 'h world" where
  "text_view e c name what job_id args pem w =
     (case openssl e args pem of
        None \<Rightarrow> refuse 500 ''parse error''
                  (log_event c name ''exception'' [(''job_id'', job_id), (''error'', ''FileNotFoundError'')] w)
      | Some (rc, out, err) \<Rightarrow>
          if rc \<noteq> 0
          then (reply 500 (JObj [(''error'', JStr (''failed to parse '' @ what)), (''stderr'', JStr (take 512 err))]),
                log_event c name ''error'' [(''job_id'', job_id)] w)
          else (ok_reply [(''text'', JStr out)], log_event c name ''ok'' [(''job_id'', job_id)] w))"

definition get_job_csr_info :: "'h env \<Rightarrow> string \<Rightarrow> 'h handler" where
  "get_job_csr_info e job_id = require_auth e ''get_job_csr_info'' (\<lambda>c w0. valid_job_id e job_id (\<lambda>w.
     with_job e c job_id w (\<lambda>j. require_job_visible e c ''-'' j w (\<lambda>w.
       text_view e c ''get_job_csr_info'' ''CSR'' job_id [''req'', ''-noout'', ''-text''] (j_csr_pem j) w))) c w0)"

definition get_job_cert_info :: "'h env \<Rightarrow> string \<Rightarrow> 'h handler" where
  "get_job_cert_info e job_id = require_auth e ''get_job_cert_info'' (\<lambda>c w0. valid_job_id e job_id (\<lambda>w.
     with_job e c job_id w (\<lambda>j. require_job_visible e c ''-'' j w (\<lambda>w.
       if \<not> has_cert j then refuse 404 ''cert not yet available'' w
       else text_view e c ''get_job_cert_info'' ''cert'' job_id [''x509'', ''-noout'', ''-text'']
              (or_empty (j_cert_pem j)) w))) c w0)"

text \<open>The signing-queue archive: the names and contents of its members, in order.\<close>

definition safe_base :: "job \<Rightarrow> string" where
  "safe_base j = or_else (map (\<lambda>c. if file_char c then c else CHR ''_'') (j_target_host j)) (take 8 (j_id j))"

fun zip_members :: "(string \<Rightarrow> nat) \<Rightarrow> job list \<Rightarrow> (string \<times> string) list" where
  "zip_members seen [] = []"
| "zip_members seen (j # js) =
     (let b = safe_base j; n = seen b in
      ((if n = 0 then b @ ''.csr'' else b @ ''-'' @ nat_str n @ ''.csr''), j_csr_pem j)
        # zip_members (seen(b := Suc n)) js)"

definition queue_rows :: "ctx \<Rightarrow> 'h world \<Rightarrow> job list option" where
  "queue_rows c w =
     (let ids_param = strip (arg c ''ids''); pending = filter (\<lambda>j. j_status j = Pending) (w_jobs w) in
      if ids_param = [] then Some (sort_key j_created_at pending)
      else let ids = take 200 (filter JOB_ID_RE (split_on (CHR '','') ids_param)) in
        if ids = [] then None else Some (filter (\<lambda>j. j_id j \<in> set ids) pending))"

definition signing_queue_zip :: "'h env \<Rightarrow> ((string \<times> string) list \<Rightarrow> string) \<Rightarrow> 'h handler" where
  "signing_queue_zip e archive = require_auth e ''signing_queue_zip'' (\<lambda>c w.
     if \<not> (is_signer (me c) w \<or> is_admin c) then abort e c 403 (log_event c ''signing_queue_zip'' ''deny_not_signer'' [] w)
     else case queue_rows c w of
       None \<Rightarrow> refuse 400 ''no valid ids'' w
     | Some rows \<Rightarrow>
         if rows = [] then refuse 404 ''no pending CSRs'' w
         else (content_reply (archive (zip_members (\<lambda>b. 0) rows)),
               log_event c ''signing_queue_zip'' ''ok'' [(''count'', nat_str (length rows))] w))"

subsection \<open>Expiry moves exactly the due jobs\<close>

lemma announce_frame [simp]:
  "w_jobs (announce_expired e c j w) = w_jobs w" "w_groups (announce_expired e c j w) = w_groups w"
  "w_members (announce_expired e c j w) = w_members w" "w_settings (announce_expired e c j w) = w_settings w"
  "w_webhooks (announce_expired e c j w) = w_webhooks w" "w_keysess (announce_expired e c j w) = w_keysess w"
  by (simp_all add: announce_expired_def)

lemma fold_announce_frame [simp]:
  "w_jobs (fold (announce_expired e c) js w) = w_jobs w" "w_groups (fold (announce_expired e c) js w) = w_groups w"
  "w_members (fold (announce_expired e c) js w) = w_members w"
  "w_settings (fold (announce_expired e c) js w) = w_settings w"
  "w_keysess (fold (announce_expired e c) js w) = w_keysess w"
  by (induction js arbitrary: w) simp_all

lemma update_none: "filter P rows = [] \<Longrightarrow> update_where P f rows = rows"
  by (induction rows) (auto simp: update_where_def split: if_splits)

lemma sweep_jobs:
  "w_jobs (sweep_expired e c w) = update_where (due (c_now c)) (\<lambda>j. j\<lparr>j_status := Expired\<rparr>) (w_jobs w)"
  by (auto simp: sweep_expired_def Let_def update_none)

lemma sweep_frame [simp]:
  "w_groups (sweep_expired e c w) = w_groups w" "w_members (sweep_expired e c w) = w_members w"
  "w_settings (sweep_expired e c w) = w_settings w" "w_keysess (sweep_expired e c w) = w_keysess w"
  by (auto simp: sweep_expired_def Let_def)

lemma visibility_conds: "list_all (\<lambda>p. p j) (visibility_sql c w) = visible c w j"
  by (cases "j_group_id j") (auto simp: visibility_sql_def visible_def job_visible_to_def Let_def split: if_splits)

text \<open>
  C10: the query sees what the check sees. The condition that scopes the job list, the export and the host
  rollup selects exactly the jobs that the per-job endpoints let the caller read.
\<close>
theorem visibility_sql_exact:
  "select_jobs (conds @ visibility_sql c w) w =
     filter (\<lambda>j. list_all (\<lambda>p. p j) conds \<and> visible c w j) (w_jobs w)"
  by (simp add: select_jobs_def visibility_conds)

subsection \<open>The rollup\<close>

lemma host_add_host [simp]: "h_host (host_add now j h) = h_host h"
  by (simp add: host_add_def Let_def)

lemma add_to_hosts_row:
  "row_by h_host n (add_to_hosts now j hs) =
     (if n = j_target_host j
      then Some (host_add now j (case row_by h_host n hs of None \<Rightarrow> new_host n | Some h \<Rightarrow> h))
      else row_by h_host n hs)"
  by (induction hs) (auto simp: new_host_def)

lemma rollup_row:
  "row_by h_host n (rollup now rows) =
     (let js = filter (\<lambda>j. j_target_host j = n) rows in
      if js = [] then None else Some (fold (host_add now) js (new_host n)))"
  by (induction rows rule: rev_induct) (auto simp: rollup_def add_to_hosts_row Let_def)

definition host_facts :: "time \<Rightarrow> job list \<Rightarrow> host_row \<Rightarrow> bool" where
  "host_facts now js h \<longleftrightarrow>
     h_total h = int (length js) \<and> h_valid h = int (length (filter (unexpired now) js)) \<and>
     (case h_current h of
        None \<Rightarrow> \<forall>j\<in>set js. \<not> unexpired now j
      | Some cur \<Rightarrow> \<exists>j\<in>set js. unexpired now j \<and> cur = current_of now j \<and>
          (\<forall>k\<in>set js. unexpired now k \<longrightarrow> \<not> outranks (j_expires_at k) (j_expires_at j)))"

lemma outranks_trans: "outranks a b \<Longrightarrow> \<not> outranks c b \<Longrightarrow> \<not> outranks c a"
  by (auto simp: outranks_def split: option.splits)

lemma outranks_irrefl [simp]: "\<not> outranks a a"
  by (simp add: outranks_def split: option.split)

lemma current_of_expires [simp]: "cc_expires (current_of now j) = j_expires_at j"
  by (simp add: current_of_def)

lemma host_add_facts:
  assumes "host_facts now js h"
  shows "host_facts now (js @ [j]) (host_add now j h)"
proof (cases "unexpired now j")
  case False
  with assms show ?thesis by (auto simp: host_facts_def host_add_def Let_def split: option.splits)
next
  case True
  show ?thesis
  proof (cases "h_current h")
    case None
    with assms True show ?thesis by (simp add: host_facts_def host_add_def Let_def)
  next
    case (Some cur)
    with assms obtain k where k: "k \<in> set js" "unexpired now k" "cur = current_of now k"
      "\<forall>l\<in>set js. unexpired now l \<longrightarrow> \<not> outranks (j_expires_at l) (j_expires_at k)"
      by (auto simp: host_facts_def)
    show ?thesis
    proof (cases "outranks (j_expires_at j) (j_expires_at k)")
      case o: True
      have "\<forall>l\<in>set js. unexpired now l \<longrightarrow> \<not> outranks (j_expires_at l) (j_expires_at j)"
        using k(4) outranks_trans [OF o] by blast
      with assms True Some k o show ?thesis by (simp add: host_facts_def host_add_def Let_def)
    next
      case False
      with assms True Some k show ?thesis
        by (auto simp: host_facts_def host_add_def Let_def intro!: bexI [of _ k])
    qed
  qed
qed

lemma fold_host_facts: "host_facts now js (fold (host_add now) js (new_host n))"
proof (induction js rule: rev_induct)
  case Nil then show ?case by (simp add: host_facts_def new_host_def)
next
  case (snoc j js) then show ?case using host_add_facts by simp
qed

text \<open>
  The rollup of a host is about its best certificate. A host has a row exactly when it has a job; the
  row counts its jobs and its unexpired certificates, and its current certificate is an unexpired
  one that no other outlives, a certificate without an expiry date counting as the longest-lived.
\<close>
theorem host_rollup_current:
  "case row_by h_host n (rollup now rows) of
     None \<Rightarrow> n \<notin> j_target_host ` set rows
   | Some h \<Rightarrow> n \<in> j_target_host ` set rows \<and> host_facts now (filter (\<lambda>j. j_target_host j = n) rows) h"
  using fold_host_facts [of now "filter (\<lambda>j. j_target_host j = n) rows" n]
  by (auto simp: rollup_row Let_def filter_empty_conv image_iff split: if_splits)

subsection \<open>Key downloads\<close>

lemma guard_user_run:
  assumes "c_identity c = Some i" "c_user c = Some u" "u_is_active u" "fst (auth_mode e w) \<noteq> ''local''"
  shows "guard_user e name h c w = h c (snd (auth_mode e w))"
proof -
  have eq: "c\<lparr>c_user := Some u\<rparr> = c" using assms(2) by (cases c) simp
  obtain m w1 where a: "auth_mode e w = (m, w1)" by force
  with assms show ?thesis by (simp add: guard_user_def ensure_user_def eq)
qed

lemma passed_same:
  "passed e c w c' w' \<Longrightarrow> me c' = me c \<and> c_now c' = c_now c \<and> c_cookies c' = c_cookies c \<and> c_identity c' = c_identity c
     \<and> c_body c' = c_body c \<and> c_args c' = c_args c \<and> w_jobs w' = w_jobs w \<and> w_members w' = w_members w
     \<and> w_groups w' = w_groups w \<and> w_keysess w' = w_keysess w"
  by (auto simp: passed_def me_def)

lemma groups_of_members: "w_members w' = w_members w \<Longrightarrow> user_group_ids dn w' = user_group_ids dn w"
  by (simp add: user_group_ids_def memberships_def)

lemma session_keys_frame [simp]:
  "w_members (snd (get_session_keys c w)) = w_members w" "w_jobs (snd (get_session_keys c w)) = w_jobs w"
  by (simp_all add: get_session_keys_def Let_def)

lemma session_keys_cong:
  "c_cookies c' = c_cookies c \<Longrightarrow> c_identity c' = c_identity c \<Longrightarrow> c_now c' = c_now c \<Longrightarrow> w_keysess w' = w_keysess w \<Longrightarrow>
     fst (get_session_keys c' w') = fst (get_session_keys c w)"
proof -
  assume a: "c_cookies c' = c_cookies c" "c_identity c' = c_identity c" "c_now c' = c_now c" "w_keysess w' = w_keysess w"
  then have "me c' = me c" by (simp add: me_def)
  with a show ?thesis by (simp add: get_session_keys_def live_sessions_def Let_def split: option.split)
qed

lemma key_access_cong:
  "me c' = me c \<Longrightarrow> w_members w' = w_members w \<Longrightarrow> key_access c' w' sk j = key_access c w sk j"
  by (simp add: key_access_def in_key_group_def groups_of_members [of w' w])

lemma send_key_ok:
  assumes "status_code (fst (send_job_key e c i j w)) = 200"
  shows "key_access c w (fst (get_session_keys c w)) j"
proof (rule ccontr)
  assume n: "\<not> key_access c w (fst (get_session_keys c w)) j"
  obtain sk w1 where g: "get_session_keys c w = (sk, w1)" by force
  have "w_members w1 = w_members w" using session_keys_frame(1) [of c w] g by simp
  with n g have "\<not> key_access c w1 sk j" by (simp add: key_access_cong [of c c w1 w])
  then show False using assms by (simp add: send_job_key_def g)
qed


text \<open>A request by the requester of the one job in the queue, whose key is on the host.\<close>

definition ada_ctx :: ctx where
  "ada_ctx = sample_ctx\<lparr>c_user := Some (new_user ''CN=ADA'' ''ADA'' 0), c_headers := (\<lambda>k. Some ''certheim'')\<rparr>"

definition ada_world :: "bool world" where
  "ada_world = set_setting ''auth_mode'' ''mtls'' (host_world True)"

lemma ada_guard: "guard_user e name h ada_ctx ada_world = h ada_ctx ada_world"
proof -
  have "auth_mode e ada_world = (''mtls'', ada_world)" by (simp add: auth_mode_def ada_world_def Let_def)
  with guard_user_run [of ada_ctx "\<lparr>id_dn = ''CN=ADA'', id_serial = ''1'', id_via = ''cac''\<rparr>"
      "new_user ''CN=ADA'' ''ADA'' 0" e ada_world name h]
  show ?thesis by (simp add: ada_ctx_def sample_ctx_def new_user_def)
qed

lemma sample_job_id: "JOB_ID_RE (j_id sample_job)"
  by (simp add: JOB_ID_RE_def at_end_def sample_job_def is_hex_def is_digit_def cp_def)


subsection \<open>Names in the archive\<close>

text \<open>
  The counter that keeps archive members apart counts per host name, so a host whose own name ends in a
  number can meet the numbered name of another: two requests for web and one for web-1 give two members
  of one name, and unpacking keeps only one of the CSRs.
\<close>
theorem archive_names_collide:
  "let job = (\<lambda>host. sample_job\<lparr>j_target_host := host\<rparr>) in
   map fst (zip_members (\<lambda>b. 0) [job ''web'', job ''web'', job ''web-1'']) = [''web.csr'', ''web-1.csr'', ''web-1.csr'']"
proof -
  have b: "safe_base (sample_job\<lparr>j_target_host := ''web''\<rparr>) = ''web''"
    "safe_base (sample_job\<lparr>j_target_host := ''web-1''\<rparr>) = ''web-1''" by code_simp+
  have d: "nat_str 1 = ''1''" by code_simp
  show ?thesis using d by (simp add: Let_def b)
qed

end
