(* ===== verification/JobActions.thy ===== *)
theory JobActions
  imports JobViews "HOL-Library.Multiset"
begin

text \<open>
  The write side of \<^verbatim>\<open>backend/routes_jobs.py\<close>: reassigning a job's group, uploading a certificate,
  cancelling one or many pending jobs and marking failed. Renewing is in \<^verbatim>\<open>Requests\<close>. A reason or error text
  in a request is a string; any other truthy value raises where it is sliced.
\<close>

definition sliced :: "nat \<Rightarrow> string \<Rightarrow> json \<Rightarrow> string result" where
  "sliced n dflt j =
     (if \<not> truthy j then Inr (take n dflt) else case j of JStr s \<Rightarrow> Inr (take n s) | _ \<Rightarrow> Inl TypeError)"

definition pending_job :: "string \<Rightarrow> 'h world \<Rightarrow> job option" where
  "pending_job job_id w = List.find (\<lambda>j. j_id j = job_id \<and> j_status j = Pending) (w_jobs w)"

definition close_pending :: "string \<Rightarrow> (job \<Rightarrow> job) \<Rightarrow> 'h world \<Rightarrow> 'h world" where
  "close_pending job_id f w =
     w\<lparr>w_jobs := update_where (\<lambda>j. j_id j = job_id \<and> j_status j = Pending) f (w_jobs w)\<rparr>"

subsection \<open>Group\<close>

definition set_job_group :: "'h env \<Rightarrow> string \<Rightarrow> int option \<Rightarrow> ctx \<Rightarrow> 'h world \<Rightarrow> response \<times> 'h world" where
  "set_job_group e job_id gid c w =
     with_job e c job_id w (\<lambda>j.
       let requester = (j_requester_dn j = me c) in
       if \<not> (requester \<or> is_admin c)
       then abort e c 403 (log_event c ''update_job_group'' ''deny_not_authorized''
              [(''job_id'', job_id), (''target'', j_target_host j)] w)
       else if gid \<noteq> None \<and> \<not> is_admin c \<and> the gid \<notin> set (user_group_ids (me c) w)
       then refuse 403 ''you are not a member of that group''
              (log_event c ''update_job_group'' ''deny_not_in_group''
                [(''job_id'', job_id), (''target_group'', int_str (the gid))] w)
       else (ok_reply [(''ok'', JBool True), (''group_id'', jint_opt gid)],
             log_event c ''update_job_group'' ''ok''
               [(''job_id'', job_id), (''target'', j_target_host j),
                (''old_group'', case j_group_id j of None \<Rightarrow> ''-'' | Some g \<Rightarrow> int_str g),
                (''new_group'', case gid of None \<Rightarrow> ''-'' | Some g \<Rightarrow> int_str g),
                (''via'', if is_admin c \<and> \<not> requester then ''admin'' else ''requester'')]
               (set_job job_id (\<lambda>j. j\<lparr>j_group_id := gid\<rparr>) w)))"

definition update_job_group :: "'h env \<Rightarrow> string \<Rightarrow> 'h handler" where
  "update_job_group e job_id =
     require_auth e ''update_job_group'' (require_csrf e ''update_job_group'' (\<lambda>c w0. valid_job_id e job_id (\<lambda>w.
     with_payload e c w (\<lambda>p.
       if \<not> jhas ''group_id'' p then refuse 400 ''group_id is required (use null to unassign)'' w
       else if jget ''group_id'' p = JNull then set_job_group e job_id None c w
       else case int_of_json (jget ''group_id'' p) of
         Inl _ \<Rightarrow> refuse 400 ''invalid group_id'' w
       | Inr g \<Rightarrow>
           if group_by_id (Some g) w = None then refuse 400 ''group does not exist'' w
           else set_job_group e job_id (Some g) c w)) c w0))"

subsection \<open>Upload\<close>

definition upload_bytes :: "'h env \<Rightarrow> json \<Rightarrow> string + string" where
  "upload_bytes e p =
     (case (jget ''cert_b64'' p, jget ''cert_pem'' p) of
        (JStr (x # xs), _) \<Rightarrow>
          (case b64decode (x # xs) of
             None \<Rightarrow> Inl ''could not decode uploaded file''
           | Some raw \<Rightarrow> if 50 < length raw \<and> length raw \<le> MAX_CERT_BYTES e then Inr raw
                         else Inl ''invalid certificate file size'')
      | (_, JStr pem) \<Rightarrow>
          if 50 < length pem \<and> length pem \<le> MAX_CERT_BYTES e then Inr (utf8 pem) else Inl ''invalid cert_pem''
      | _ \<Rightarrow> Inl ''invalid cert_pem'')"

definition upload_body :: "'h env \<Rightarrow> string \<Rightarrow> ctx \<Rightarrow> 'h world \<Rightarrow> response \<times> 'h world" where
  "upload_body e job_id c w =
     with_payload e c w (\<lambda>p.
       case upload_bytes e p of
         Inl msg \<Rightarrow> refuse 400 msg w
       | Inr raw \<Rightarrow>
           (case normalize_cert_to_pem e raw of
              None \<Rightarrow> refuse 400 (''not a valid certificate. Accepted: PEM (.pem/.crt), '' @ ''DER (.cer), or PKCS#7 (.p7b).'')
                        (log_event c ''upload_cert'' ''deny_invalid_cert'' [(''job_id'', job_id)] w)
            | Some pem \<Rightarrow>
                (case openssl e [''x509'', ''-noout'', ''-subject''] pem of
                   None \<Rightarrow> refuse 400 ''cert validation error'' w
                 | Some (rc, _, _) \<Rightarrow>
                     if rc \<noteq> 0
                     then refuse 400 ''not a valid X.509 certificate''
                            (log_event c ''upload_cert'' ''deny_invalid_cert'' [(''job_id'', job_id)] w)
                     else case attach_signed_cert e c job_id pem (me c) ''manual'' None ''upload_cert'' [] w of
                       (Inl (code, msg), w1) \<Rightarrow> refuse code msg w1
                     | (Inr (expires, warnings, host), w1) \<Rightarrow>
                         (ok_reply [(''ok'', JBool True), (''status'', JStr ''issued''), (''target_host'', JStr host),
                            (''expires_at'', jint_opt expires), (''warnings'', strs warnings)], w1))))"

definition upload_cert :: "'h env \<Rightarrow> string \<Rightarrow> 'h handler" where
  "upload_cert e job_id =
     require_auth e ''upload_cert'' (require_csrf e ''upload_cert'' (\<lambda>c w0. valid_job_id e job_id (\<lambda>w.
     with_job e c job_id w (\<lambda>j. require_job_visible e c (j_id j) j w (upload_body e job_id c))) c w0))"

subsection \<open>Cancel\<close>

definition cancelled_job :: "ctx \<Rightarrow> string \<Rightarrow> job \<Rightarrow> job" where
  "cancelled_job c reason j =
     j\<lparr>j_status := Cancelled, j_completed_at := Some (c_now c), j_completed_by_dn := Some (me c),
       j_error := nonempty reason\<rparr>"

definition may_cancel :: "ctx \<Rightarrow> job \<Rightarrow> bool" where
  "may_cancel c j = (j_requester_dn j = me c \<or> is_admin c)"

definition cancel_notices :: "'h env \<Rightarrow> ctx \<Rightarrow> string \<Rightarrow> string \<Rightarrow> string \<Rightarrow> bool \<Rightarrow> job \<Rightarrow> 'h world \<Rightarrow> 'h world" where
  "cancel_notices e c job_id reason via cc j w =
     email_notify e c ''cancelled'' [(''actor'', JStr (me c)), (''reason'', JStr reason)] job_id j cc
       (fire_webhooks e c ''job.cancelled''
         [(''job_id'', JStr job_id), (''target_host'', JStr (j_target_host j)),
          (''requester_email'', jopt (j_requester_email j)), (''cancelled_by_dn'', JStr (me c)),
          (''cancelled_by_cn'', JStr (cn_from_dn (me c))), (''reason'', jopt (nonempty reason)),
          (''group_id'', jint_opt (j_group_id j))]
         (log_event c ''cancel_job'' ''ok''
           [(''job_id'', job_id), (''reason'', take 128 reason), (''via'', via)] w))"

definition cancel_body :: "'h env \<Rightarrow> string \<Rightarrow> string \<Rightarrow> ctx \<Rightarrow> 'h world \<Rightarrow> response \<times> 'h world" where
  "cancel_body e job_id reason c w =
     (case pending_job job_id w of
        None \<Rightarrow> refuse 409 ''job not in cancellable state'' w
      | Some j \<Rightarrow>
          if \<not> may_cancel c j
          then refuse 403 ''only the requester or an admin can cancel this job''
                 (log_event c ''cancel_job'' ''deny_not_authorized''
                   [(''job_id'', job_id), (''target'', j_target_host j)] w)
          else (ok_json,
                cancel_notices e c job_id reason
                  (if is_admin c \<and> j_requester_dn j \<noteq> me c then ''admin'' else ''requester'') True j
                  (close_pending job_id (cancelled_job c reason) w)))"

definition cancel_job :: "'h env \<Rightarrow> string \<Rightarrow> 'h handler" where
  "cancel_job e job_id =
     require_auth e ''cancel_job'' (require_csrf e ''cancel_job'' (\<lambda>c w0. valid_job_id e job_id (\<lambda>w.
     with_payload e c w (\<lambda>p. attempt e c (sliced 512 [] (jget ''reason'' p)) w (\<lambda>reason.
       cancel_body e job_id reason c w))) c w0))"

record bulk =
  bk_cancelled :: "string list"
  bk_skipped :: "string list"
  bk_denied :: "string list"

fun bulk_cancel :: "'h env \<Rightarrow> ctx \<Rightarrow> string \<Rightarrow> string list \<Rightarrow> bulk \<Rightarrow> 'h world \<Rightarrow> bulk \<times> 'h world" where
  "bulk_cancel e c reason [] b w = (b, w)"
| "bulk_cancel e c reason (i # is) b w =
     (case pending_job i w of
        None \<Rightarrow> bulk_cancel e c reason is (b\<lparr>bk_skipped := bk_skipped b @ [i]\<rparr>) w
      | Some j \<Rightarrow>
          if \<not> may_cancel c j
          then bulk_cancel e c reason is (b\<lparr>bk_denied := bk_denied b @ [i]\<rparr>)
                 (log_event c ''cancel_job'' ''deny_not_authorized''
                   [(''job_id'', i), (''target'', j_target_host j), (''via'', ''bulk'')] w)
          else bulk_cancel e c reason is (b\<lparr>bk_cancelled := bk_cancelled b @ [i]\<rparr>)
                 (cancel_notices e c i reason ''bulk'' False j (close_pending i (cancelled_job c reason) w)))"

fun id_strings :: "json list \<Rightarrow> string list option" where
  "id_strings [] = Some []"
| "id_strings (JStr s # js) = (if JOB_ID_RE s then map_option ((#) s) (id_strings js) else None)"
| "id_strings (_ # js) = None"

definition bulk_cancel_jobs :: "'h env \<Rightarrow> 'h handler" where
  "bulk_cancel_jobs e =
     require_auth e ''bulk_cancel_jobs'' (require_csrf e ''bulk_cancel_jobs'' (\<lambda>c w.
     with_payload e c w (\<lambda>p. attempt e c (sliced 512 [] (jget ''reason'' p)) w (\<lambda>reason.
       case jget ''job_ids'' p of
         JArr (x # xs) \<Rightarrow>
           if 200 < length (x # xs) then refuse 400 ''too many jobs in one call (max 200)'' w
           else (case id_strings (x # xs) of
             None \<Rightarrow> refuse 400 ''invalid job id in list'' w
           | Some is \<Rightarrow>
               (case bulk_cancel e c reason is \<lparr>bk_cancelled = [], bk_skipped = [], bk_denied = []\<rparr> w of
                  (b, w1) \<Rightarrow>
                    (ok_reply [(''ok'', JBool True), (''cancelled'', strs (bk_cancelled b)),
                               (''skipped'', strs (bk_skipped b)), (''denied'', strs (bk_denied b))],
                     log_event c ''bulk_cancel'' ''ok''
                       [(''requested'', nat_str (length is)), (''cancelled'', nat_str (length (bk_cancelled b))),
                        (''skipped'', nat_str (length (bk_skipped b))), (''denied'', nat_str (length (bk_denied b)))] w1)))
       | _ \<Rightarrow> refuse 400 ''job_ids must be a non-empty array'' w))))"

subsection \<open>Mark failed\<close>

definition failed_job :: "ctx \<Rightarrow> string \<Rightarrow> job \<Rightarrow> job" where
  "failed_job c err j =
     j\<lparr>j_status := Failed, j_error := Some err, j_completed_at := Some (c_now c), j_completed_by_dn := Some (me c)\<rparr>"

definition mark_failed_body :: "'h env \<Rightarrow> string \<Rightarrow> string \<Rightarrow> ctx \<Rightarrow> 'h world \<Rightarrow> response \<times> 'h world" where
  "mark_failed_body e job_id err c w =
     (case pending_job job_id w of
        None \<Rightarrow> refuse 409 ''job not in markable state'' w
      | Some j \<Rightarrow>
          (ok_json,
           email_notify e c ''failed'' [(''actor'', JStr (me c)), (''error'', JStr err)] job_id j True
             (fire_webhooks e c ''job.failed''
               [(''job_id'', JStr job_id), (''target_host'', JStr (j_target_host j)),
                (''requester_email'', jopt (j_requester_email j)), (''marked_by_dn'', JStr (me c)),
                (''marked_by_cn'', JStr (cn_from_dn (me c))), (''error'', JStr err),
                (''group_id'', jint_opt (j_group_id j))]
               (log_event c ''mark_failed'' ''ok'' [(''job_id'', job_id), (''error'', take 128 err)]
                 (close_pending job_id (failed_job c err) w)))))"

definition mark_failed :: "'h env \<Rightarrow> string \<Rightarrow> 'h handler" where
  "mark_failed e job_id =
     require_auth e ''mark_failed'' (require_csrf e ''mark_failed'' (\<lambda>c w0. valid_job_id e job_id (\<lambda>w.
     if \<not> is_signer (me c) w
     then refuse 403 ''only signer-group members can mark jobs failed''
            (log_event c ''mark_failed'' ''deny_not_signer'' [(''job_id'', job_id)] w)
     else with_payload e c w (\<lambda>p.
       attempt e c (sliced 2048 ''manual mark failed'' (jget ''error'' p)) w (\<lambda>err.
       mark_failed_body e job_id err c w))) c w0))"

subsection \<open>Cancelling\<close>

lemma close_pending_frame [simp]:
  "w_groups (close_pending i f w) = w_groups w" "w_members (close_pending i f w) = w_members w"
  "w_settings (close_pending i f w) = w_settings w" "w_webhooks (close_pending i f w) = w_webhooks w"
  "w_jobs (close_pending i f w) = update_where (\<lambda>j. j_id j = i \<and> j_status j = Pending) f (w_jobs w)"
  by (simp_all add: close_pending_def)

lemma cancel_notices_jobs [simp]: "w_jobs (cancel_notices e c i r v cc j w) = w_jobs w"
  by (simp add: cancel_notices_def)

lemma pending_job_row:
  "unique_key j_id (w_jobs w) \<Longrightarrow>
     pending_job i w = (case row_by j_id i (w_jobs w) of None \<Rightarrow> None | Some j \<Rightarrow> if j_status j = Pending then Some j else None)"
proof -
  have "unique_key j_id js \<Longrightarrow> List.find (\<lambda>j. j_id j = i \<and> j_status j = Pending) js =
      (case row_by j_id i js of None \<Rightarrow> None | Some j \<Rightarrow> if j_status j = Pending then Some j else None)" for js
  proof (induction js)
    case (Cons j js)
    have "\<forall>x\<in>set js. j_id x \<noteq> j_id j" using Cons.prems by (auto simp: unique_key_def image_iff)
    then have "j_id j = i \<Longrightarrow> List.find (\<lambda>j. j_id j = i \<and> j_status j = Pending) js = None"
      by (auto simp: find_None_iff_all)
    with Cons show ?case by (auto simp: unique_key_def)
  qed simp
  then show "unique_key j_id (w_jobs w) \<Longrightarrow> ?thesis" by (simp add: pending_job_def)
qed

lemma close_pending_row:
  "(\<And>j. j_id (f j) = j_id j) \<Longrightarrow>
     row_by j_id k (w_jobs (close_pending i f w)) =
       map_option (\<lambda>j. if j_id j = i \<and> j_status j = Pending then f j else j) (row_by j_id k (w_jobs w))"
  by (simp add: row_by_update_where)

text \<open>
  The cancel button tells the truth. For a job in the queue the flag the interface shows says exactly
  whether the cancel endpoint will cancel it for this caller; when it does, that row becomes
  cancelled with the reason, and otherwise no job changes.
\<close>
theorem cancel_flag_truthful:
  assumes "unique_key j_id (w_jobs w)" "row_by j_id i (w_jobs w) = Some j"
  shows "(status_code (fst (cancel_body e i reason c w)) = 200) = can_cancel j (me c) (is_admin c)
    \<and> row_by j_id k (w_jobs (snd (cancel_body e i reason c w))) =
        (if k = i \<and> can_cancel j (me c) (is_admin c) then Some (cancelled_job c reason j)
         else row_by j_id k (w_jobs w))"
proof -
  have key: "j_id (cancelled_job c reason x) = j_id x" for x by (simp add: cancelled_job_def)
  have sel: "row_by j_id k (w_jobs (close_pending i (cancelled_job c reason) w)) =
      (if k = i \<and> j_status j = Pending then Some (cancelled_job c reason j) else row_by j_id k (w_jobs w))" for k
    using close_pending_row [of "cancelled_job c reason" k i w] assms(2) key
    by (cases "row_by j_id k (w_jobs w)") (auto dest: row_by_SomeD)
  have p: "pending_job i w = (if j_status j = Pending then Some j else None)"
    by (simp add: pending_job_row [OF assms(1)] assms(2))
  show ?thesis
    by (auto simp: cancel_body_def p sel can_cancel_def may_cancel_def ok_json_def split: if_splits
        simp del: close_pending_frame)
qed

theorem cancel_flag_truthful_witness:
  "map_option j_status (row_by j_id (j_id sample_job)
     (w_jobs (snd (cancel_body offline_env (j_id sample_job) ''typo'' ada_ctx ada_world)))) = Some Cancelled"
proof -
  have "unique_key j_id (w_jobs ada_world)" "row_by j_id (j_id sample_job) (w_jobs ada_world) = Some sample_job"
    by (simp_all add: ada_world_def host_world_def unique_key_def)
  from cancel_flag_truthful [OF this, where c = ada_ctx and k = "j_id sample_job"]
  show ?thesis by (simp add: can_cancel_def sample_job_def me_def ada_ctx_def sample_ctx_def cancelled_job_def)
qed

text \<open>Two states that differ in their logs only.\<close>

definition same_but_logs :: "'h world \<Rightarrow> 'h world \<Rightarrow> bool" where
  "same_but_logs v w \<longleftrightarrow> v\<lparr>w_log := [], w_audit := []\<rparr> = w\<lparr>w_log := [], w_audit := []\<rparr>"

lemma same_but_logs_refl [simp]: "same_but_logs w w"
  by (simp add: same_but_logs_def)

lemma same_but_logs_eq:
  "same_but_logs v w \<Longrightarrow> w_jobs v = w_jobs w \<and> w_groups v = w_groups w \<and> w_webhooks v = w_webhooks w
     \<and> w_settings v = w_settings w \<and> w_envcaps v = w_envcaps w \<and> w_fired v = w_fired w \<and> w_mail v = w_mail w"
  unfolding same_but_logs_def by (cases v; cases w) simp

lemma same_log:
  "same_but_logs v w \<Longrightarrow> same_but_logs (log_event c a r x v) w"
  "same_but_logs v w \<Longrightarrow> same_but_logs v (log_event c a r x w)"
  by (simp_all add: same_but_logs_def log_event_def)

lemma same_close: "same_but_logs v w \<Longrightarrow> same_but_logs (close_pending i f v) (close_pending i f w)"
  unfolding same_but_logs_def close_pending_def by (cases v; cases w) simp

lemma available_in_cong:
  "w_settings v = w_settings w \<Longrightarrow> w_envcaps v = w_envcaps w \<Longrightarrow> available_in e c v key = available_in e c w key"
  by (simp add: available_in_def license_in_def get_setting_cong [of v w])

lemma same_fire: "same_but_logs v w \<Longrightarrow> same_but_logs (fire_webhooks e c ev d v) (fire_webhooks e c ev d w)"
proof -
  assume s: "same_but_logs v w"
  note eq = same_but_logs_eq [OF s]
  have "hook_wants e c v ev = hook_wants e c w ev"
    using eq by (simp add: fun_eq_iff hook_wants_def hook_allowed_def available_in_cong [of v w])
  with s eq show ?thesis
    unfolding same_but_logs_def fire_webhooks_def by (cases v; cases w) simp
qed

lemma same_mail: "same_but_logs v w \<Longrightarrow> same_but_logs (email_notify e c k d i j b v) (email_notify e c k d i j b' w)"
proof -
  assume s: "same_but_logs v w"
  then have g: "group_email (j_group_id j) v = group_email (j_group_id j) w"
    using same_but_logs_eq [OF s] by (simp add: group_email_def group_by_id_def split: option.split)
  have "same_but_logs (v\<lparr>w_mail := w_mail v @ m\<rparr>) (w\<lparr>w_mail := w_mail w @ m\<rparr>)" for m
    using s unfolding same_but_logs_def by (cases v; cases w) simp
  then show ?thesis
    by (simp add: email_notify_def Let_def g same_log split: sum.split prod.split)
qed

lemma same_cancel:
  "same_but_logs v w \<Longrightarrow> same_but_logs (cancel_notices e c i r via cc j v) (cancel_notices e c i r via' cc' j w)"
  unfolding cancel_notices_def by (intro same_mail same_fire same_log)

lemma bulk_step:
  assumes "same_but_logs v w"
  shows "\<exists>b2 v2. bulk_cancel e c reason (i # is) b v = bulk_cancel e c reason is b2 v2
      \<and> same_but_logs v2 (snd (cancel_body e i reason c w))
      \<and> mset (bk_cancelled b2 @ bk_skipped b2 @ bk_denied b2) = add_mset i (mset (bk_cancelled b @ bk_skipped b @ bk_denied b))"
proof -
  have p: "pending_job i v = pending_job i w" using same_but_logs_eq [OF assms] by (simp add: pending_job_def)
  show ?thesis
  proof (cases "pending_job i w")
    case None
    with p assms show ?thesis by (simp add: cancel_body_def) (intro exI conjI, rule refl, simp_all)
  next
    case (Some j)
    show ?thesis
    proof (cases "may_cancel c j")
      case True
      have "same_but_logs (cancel_notices e c i reason ''bulk'' False j (close_pending i (cancelled_job c reason) v))
          (snd (cancel_body e i reason c w))"
        using True Some by (simp add: cancel_body_def same_cancel same_close assms)
      with p Some True show ?thesis
        by (intro exI [of _ "b\<lparr>bk_cancelled := bk_cancelled b @ [i]\<rparr>"]
            exI [of _ "cancel_notices e c i reason ''bulk'' False j (close_pending i (cancelled_job c reason) v)"]) simp
    next
      case False
      with p Some assms show ?thesis
        by (simp add: cancel_body_def) (intro exI conjI, rule refl, simp_all add: same_log)
    qed
  qed
qed

lemma bulk_cancel_fold:
  "same_but_logs v w \<Longrightarrow>
     same_but_logs (snd (bulk_cancel e c reason is b v)) (fold (\<lambda>i w. snd (cancel_body e i reason c w)) is w)
     \<and> mset (bk_cancelled (fst (bulk_cancel e c reason is b v)) @ bk_skipped (fst (bulk_cancel e c reason is b v))
         @ bk_denied (fst (bulk_cancel e c reason is b v)))
       = mset is + mset (bk_cancelled b @ bk_skipped b @ bk_denied b)"
proof (induction "is" arbitrary: b v w)
  case (Cons i "is")
  from bulk_step [OF Cons.prems, of e c reason i "is" b] obtain b2 v2 where
    "bulk_cancel e c reason (i # is) b v = bulk_cancel e c reason is b2 v2"
    "same_but_logs v2 (snd (cancel_body e i reason c w))"
    "mset (bk_cancelled b2 @ bk_skipped b2 @ bk_denied b2) = add_mset i (mset (bk_cancelled b @ bk_skipped b @ bk_denied b))"
    by blast
  with Cons.IH [of v2 "snd (cancel_body e i reason c w)" b2] show ?case by simp
qed simp

text \<open>
  Cancelling in bulk is cancelling one by one. A bulk cancellation leaves the queue, the webhooks fired
  and the mails sent exactly as the same single cancellations in the same order would (only log
  lines differ), and it reports every requested id exactly once, as cancelled, skipped or denied.
\<close>
theorem bulk_cancel_is_singles:
  "case bulk_cancel e c reason is \<lparr>bk_cancelled = [], bk_skipped = [], bk_denied = []\<rparr> w of (b, w') \<Rightarrow>
     (let one = fold (\<lambda>i w. snd (cancel_body e i reason c w)) is w in
      w_jobs w' = w_jobs one \<and> w_fired w' = w_fired one \<and> w_mail w' = w_mail one)
   \<and> mset (bk_cancelled b @ bk_skipped b @ bk_denied b) = mset is"
  using bulk_cancel_fold [OF same_but_logs_refl, of e c reason "is" "\<lparr>bk_cancelled = [], bk_skipped = [], bk_denied = []\<rparr>" w]
  by (auto simp: Let_def case_prod_beta dest!: same_but_logs_eq)

end
