(* ===== verification/SigningRoutes.thy ===== *)
theory SigningRoutes
  imports JobActions
begin

text \<open>
  \<^verbatim>\<open>backend/routes_signing.py\<close> and the provider registry of \<^verbatim>\<open>backend/sign.py\<close>: approve-and-sign with
  its validity bounds, revocation, and the administrator's signing configuration. The connection
  test of a backend other than OpenBao is a parameter, as the backends themselves are.
\<close>

subsection \<open>Providers\<close>

record provider_field =
  pf_key :: string
  pf_setting :: string
  pf_label :: string
  pf_placeholder :: string
  pf_options :: "string list option"
  pf_show_if :: "(string \<times> string list) list"

record provider =
  pv_key :: string
  pv_label :: string
  pv_automated :: bool
  pv_stub :: bool
  pv_hint :: string
  pv_fields :: "provider_field list"

text \<open>The managed-DNS module is not in this repository, so those DNS-01 options are filtered out.\<close>

definition PROVIDERS :: "provider list" where
  "PROVIDERS = [
    \<lparr>pv_key = ''manual'', pv_label = ''Manual (signers upload certs by hand)'', pv_automated = False, pv_stub = False,
     pv_hint = '''',
     pv_fields = []\<rparr>,
    \<lparr>pv_key = ''openbao'', pv_label = ''OpenBao PKI'', pv_automated = True, pv_stub = False,
     pv_hint = (''AppRole CERTHEIM_OPENBAO_ROLE_ID / CERTHEIM_OPENBAO_SECRET_ID '' @ ''(service env)''),
     pv_fields = [
       \<lparr>pf_key = ''addr'', pf_setting = ''openbao_addr'', pf_label = ''OpenBao address'',
        pf_placeholder = ''https://openbao.example.com'', pf_options = None, pf_show_if = []\<rparr>,
       \<lparr>pf_key = ''pki_mount'', pf_setting = ''openbao_pki_mount'', pf_label = ''PKI mount'',
        pf_placeholder = ''pki_csr'', pf_options = None, pf_show_if = []\<rparr>,
       \<lparr>pf_key = ''default_role'', pf_setting = ''openbao_default_role'', pf_label = ''Default role'',
        pf_placeholder = ''certinel'', pf_options = None, pf_show_if = []\<rparr>]\<rparr>,
    \<lparr>pv_key = ''cyberark'', pv_label = ''CyberArk'', pv_automated = True, pv_stub = True,
     pv_hint = ''API token CERTHEIM_CYBERARK_TOKEN (service env)'',
     pv_fields = [
       \<lparr>pf_key = ''base_url'', pf_setting = ''signing_cyberark_base_url'', pf_label = ''CyberArk base URL'',
        pf_placeholder = ''https://cyberark.example.com'', pf_options = None, pf_show_if = []\<rparr>,
       \<lparr>pf_key = ''ca_id'', pf_setting = ''signing_cyberark_ca_id'', pf_label = ''Issuing CA / policy ID'',
        pf_placeholder = ''policy or CA identifier'', pf_options = None, pf_show_if = []\<rparr>,
       \<lparr>pf_key = ''app_id'', pf_setting = ''signing_cyberark_app_id'', pf_label = ''Application ID'',
        pf_placeholder = ''certheim'', pf_options = None, pf_show_if = []\<rparr>]\<rparr>,
    \<lparr>pv_key = ''windows_ca'', pv_label = ''Windows CA (AD CS / certreq)'', pv_automated = True, pv_stub = False,
     pv_hint = (''SSH key CERTHEIM_WINCA_SSH_KEY (+ optional '' @ ''CERTHEIM_WINCA_KNOWN_HOSTS) in the service env''),
     pv_fields = [
       \<lparr>pf_key = ''host'', pf_setting = ''winca_host'', pf_label = ''CA host (SSH)'',
        pf_placeholder = ''ca.example.com'', pf_options = None, pf_show_if = []\<rparr>,
       \<lparr>pf_key = ''config'', pf_setting = ''winca_config'', pf_label = ''CA config string'',
        pf_placeholder = (''HOSTNAME'' @ [CHR 0x5C] @ ''CA Common Name''), pf_options = None, pf_show_if = []\<rparr>,
       \<lparr>pf_key = ''ssh_user'', pf_setting = ''winca_ssh_user'', pf_label = ''SSH user (CA admin)'',
        pf_placeholder = ''Administrator'', pf_options = None, pf_show_if = []\<rparr>,
       \<lparr>pf_key = ''template'', pf_setting = ''winca_template'', pf_label = ''Certificate template (Enterprise CA; blank = standalone)'',
        pf_placeholder = ''WebServer'', pf_options = None, pf_show_if = []\<rparr>]\<rparr>,
    \<lparr>pv_key = ''acme'', pv_label = (''ACME (RFC 8555 - Let'' @ [CHR 0x27] @ ''s Encrypt, step-ca, ZeroSSL, ...)''), pv_automated = True, pv_stub = False,
     pv_hint = (''EAB HMAC CERTHEIM_ACME_EAB_HMAC (commercial CAs); DNS-01 secret in '' @ ''the service env per provider: TSIG CERTHEIM_ACME_DNS_TSIG_SECRET '' @ ''(rfc2136), CERTHEIM_ACME_DNS_API_TOKEN (cloudflare), '' @ ''CERTHEIM_ACME_DNS_ACCESS_KEY/SECRET_KEY (route53), '' @ ''CERTHEIM_ACME_DNS_CLIENT_ID/CLIENT_SECRET (azure)''),
     pv_fields = [
       \<lparr>pf_key = ''directory_url'', pf_setting = ''acme_directory_url'', pf_label = ''ACME directory URL'',
        pf_placeholder = ''https://acme-v02.api.letsencrypt.org/directory'', pf_options = None, pf_show_if = []\<rparr>,
       \<lparr>pf_key = ''account_email'', pf_setting = ''acme_account_email'', pf_label = ''Account contact email'',
        pf_placeholder = ''pki@example.com'', pf_options = None, pf_show_if = []\<rparr>,
       \<lparr>pf_key = ''eab_kid'', pf_setting = ''acme_eab_kid'', pf_label = ''EAB key id (optional)'',
        pf_placeholder = ''external account key id'', pf_options = None, pf_show_if = []\<rparr>,
       \<lparr>pf_key = ''challenge_type'', pf_setting = ''acme_challenge_type'', pf_label = ''Challenge type'',
        pf_placeholder = '''', pf_options = Some [''dns-01'', ''http-01''], pf_show_if = []\<rparr>,
       \<lparr>pf_key = ''http_webroot'', pf_setting = ''acme_http_webroot'', pf_label = ''HTTP-01: webroot path'',
        pf_placeholder = ''/var/www/acme'', pf_options = None, pf_show_if = [(''challenge_type'', [''http-01''])]\<rparr>,
       \<lparr>pf_key = ''dns_provider'', pf_setting = ''acme_dns_provider'', pf_label = ''DNS-01: provider'',
        pf_placeholder = '''', pf_options = Some [''rfc2136''], pf_show_if = [(''challenge_type'', [''dns-01''])]\<rparr>,
       \<lparr>pf_key = ''dns_server'', pf_setting = ''acme_dns_server'', pf_label = ''rfc2136: update server'',
        pf_placeholder = ''ns1.example.com'', pf_options = None, pf_show_if = [(''challenge_type'', [''dns-01'']), (''dns_provider'', [''rfc2136'', ''''])]\<rparr>,
       \<lparr>pf_key = ''dns_tsig_name'', pf_setting = ''acme_dns_tsig_name'', pf_label = ''rfc2136: TSIG key name'',
        pf_placeholder = ''acme-update.'', pf_options = None, pf_show_if = [(''challenge_type'', [''dns-01'']), (''dns_provider'', [''rfc2136'', ''''])]\<rparr>,
       \<lparr>pf_key = ''dns_tsig_algo'', pf_setting = ''acme_dns_tsig_algo'', pf_label = ''rfc2136: TSIG algorithm'',
        pf_placeholder = ''hmac-sha256'', pf_options = None, pf_show_if = [(''challenge_type'', [''dns-01'']), (''dns_provider'', [''rfc2136'', ''''])]\<rparr>,
       \<lparr>pf_key = ''dns_zone'', pf_setting = ''acme_dns_zone'', pf_label = ''Cloud DNS zone / id'',
        pf_placeholder = ''cloudflare: example.com | route53: ZID | azure: sub/rg/zone'', pf_options = None, pf_show_if = [(''challenge_type'', [''dns-01'']), (''dns_provider'', [''cloudflare'', ''route53'', ''azure''])]\<rparr>,
       \<lparr>pf_key = ''dns_azure_tenant'', pf_setting = ''acme_dns_azure_tenant'', pf_label = ''azure: tenant id'',
        pf_placeholder = ''tenant GUID'', pf_options = None, pf_show_if = [(''challenge_type'', [''dns-01'']), (''dns_provider'', [''azure''])]\<rparr>]\<rparr>,
    \<lparr>pv_key = ''ejbca'', pv_label = ''EJBCA (REST enrollment)'', pv_automated = True, pv_stub = False,
     pv_hint = (''Enrollment password CERTHEIM_EJBCA_PASSWORD; optional mTLS client '' @ ''cert CERTHEIM_EJBCA_CLIENT_CERT / CERTHEIM_EJBCA_CLIENT_KEY (+ '' @ ''CERTHEIM_EJBCA_CA_FILE), all in the service env''),
     pv_fields = [
       \<lparr>pf_key = ''base_url'', pf_setting = ''ejbca_base_url'', pf_label = ''EJBCA base URL'',
        pf_placeholder = ''https://ejbca.example.com'', pf_options = None, pf_show_if = []\<rparr>,
       \<lparr>pf_key = ''ca_name'', pf_setting = ''ejbca_ca_name'', pf_label = ''CA name'',
        pf_placeholder = ''ManagementCA'', pf_options = None, pf_show_if = []\<rparr>,
       \<lparr>pf_key = ''cert_profile'', pf_setting = ''ejbca_cert_profile'', pf_label = ''Certificate profile'',
        pf_placeholder = ''SERVER'', pf_options = None, pf_show_if = []\<rparr>,
       \<lparr>pf_key = ''ee_profile'', pf_setting = ''ejbca_ee_profile'', pf_label = ''End-entity profile'',
        pf_placeholder = ''ENDUSER'', pf_options = None, pf_show_if = []\<rparr>,
       \<lparr>pf_key = ''username'', pf_setting = ''ejbca_username'', pf_label = ''Enrollment username'',
        pf_placeholder = ''certheim'', pf_options = None, pf_show_if = []\<rparr>]\<rparr>,
    \<lparr>pv_key = ''venafi'', pv_label = ''Venafi TPP (Trust Protection Platform)'', pv_automated = True, pv_stub = False,
     pv_hint = ''OAuth bearer token CERTHEIM_VENAFI_TOKEN (service env)'',
     pv_fields = [
       \<lparr>pf_key = ''base_url'', pf_setting = ''venafi_base_url'', pf_label = ''TPP base URL'',
        pf_placeholder = ''https://tpp.example.com'', pf_options = None, pf_show_if = []\<rparr>,
       \<lparr>pf_key = ''policy_dn'', pf_setting = ''venafi_policy_dn'', pf_label = ''Policy folder (DN)'',
        pf_placeholder = ([CHR 0x5C] @ ''VED'' @ [CHR 0x5C] @ ''Policy'' @ [CHR 0x5C] @ ''Certificates'' @ [CHR 0x5C] @ ''Certheim''), pf_options = None, pf_show_if = []\<rparr>]\<rparr>,
    \<lparr>pv_key = ''aws_pca'', pv_label = ''AWS Private CA (ACM PCA)'', pv_automated = True, pv_stub = False,
     pv_hint = (''CERTHEIM_AWS_PCA_ACCESS_KEY / CERTHEIM_AWS_PCA_SECRET_KEY (+ optional '' @ ''CERTHEIM_AWS_PCA_SESSION_TOKEN) in the service env''),
     pv_fields = [
       \<lparr>pf_key = ''ca_arn'', pf_setting = ''aws_pca_ca_arn'', pf_label = ''CA ARN'',
        pf_placeholder = ''arn:aws:acm-pca:us-east-1:123456789012:certificate-authority/...'', pf_options = None, pf_show_if = []\<rparr>,
       \<lparr>pf_key = ''region'', pf_setting = ''aws_pca_region'', pf_label = ''Region'',
        pf_placeholder = ''us-east-1'', pf_options = None, pf_show_if = []\<rparr>,
       \<lparr>pf_key = ''signing_algorithm'', pf_setting = ''aws_pca_signing_algorithm'', pf_label = ''Signing algorithm'',
        pf_placeholder = ''SHA256WITHRSA'', pf_options = None, pf_show_if = []\<rparr>,
       \<lparr>pf_key = ''validity_days'', pf_setting = ''aws_pca_validity_days'', pf_label = ''Validity (days)'',
        pf_placeholder = ''365'', pf_options = None, pf_show_if = []\<rparr>]\<rparr>]"

definition BACKENDS :: "string list" where
  "BACKENDS = map pv_key PROVIDERS"

definition provider_fields :: "string \<Rightarrow> provider_field list" where
  "provider_fields key = (case row_by pv_key key PROVIDERS of None \<Rightarrow> [] | Some p \<Rightarrow> pv_fields p)"

definition field_setting :: "string \<Rightarrow> string \<Rightarrow> string option" where
  "field_setting key fkey = map_option pf_setting (row_by pf_key fkey (provider_fields key))"

definition field_json :: "getter \<Rightarrow> provider_field \<Rightarrow> json" where
  "field_json get f =
     JObj [(''key'', JStr (pf_key f)), (''label'', JStr (pf_label f)), (''placeholder'', JStr (pf_placeholder f)),
       (''value'', JStr (or_empty (get (pf_setting f)))),
       (''options'', case pf_options f of None \<Rightarrow> JNull | Some os \<Rightarrow> strs os),
       (''show_if'', if pf_show_if f = [] then JNull
          else JArr (map (\<lambda>(k, vs). JObj [(''field'', JStr k), (''in'', strs vs)]) (pf_show_if f)))]"

definition provider_meta :: "'h env \<Rightarrow> getter \<Rightarrow> json" where
  "provider_meta e get =
     JArr (map (\<lambda>p. JObj [(''key'', JStr (pv_key p)), (''label'', JStr (pv_label p)),
         (''automated'', JBool (pv_automated p)), (''stub'', JBool (pv_stub p)), (''secret_hint'', JStr (pv_hint p)),
         (''credential_present'', JBool (credential_present e get (pv_key p))),
         (''fields'', JArr (map (field_json get) (pv_fields p)))]) PROVIDERS)"

subsection \<open>Validity bounds\<close>

definition MIN_SIGN_TTL :: int where "MIN_SIGN_TTL = 1800"
definition DEFAULT_MAX_SIGN_TTL :: int where "DEFAULT_MAX_SIGN_TTL = 365 * 86400"
definition TTL_BACKENDS :: "string list" where "TTL_BACKENDS = [''openbao'']"

text \<open>The cap of the global signing configuration, where it is a decimal numeral.\<close>

definition global_cap :: "'h world \<Rightarrow> int result" where
  "global_cap w =
     (let s = or_empty (get_setting w ''signing_max_ttl'') in
      if all_digits (strip s) then (case int_of s of Some n \<Rightarrow> Inr n | None \<Rightarrow> Inl ValueError)
      else Inr DEFAULT_MAX_SIGN_TTL)"

definition ttl_cap :: "policy \<Rightarrow> 'h world \<Rightarrow> int result" where
  "ttl_cap pol w =
     (case p_max_ttl pol of
        Some n \<Rightarrow> if n \<noteq> 0 then Inr n else global_cap w
      | None \<Rightarrow> global_cap w)"

definition ttl_bounds :: "policy \<Rightarrow> 'h world \<Rightarrow> (int \<times> int \<times> int) result" where
  "ttl_bounds pol w =
     (case ttl_cap pol w of
        Inl err \<Rightarrow> Inl err
      | Inr n \<Rightarrow>
          let cap = max n MIN_SIGN_TTL;
              dflt = (case p_max_ttl pol of Some t \<Rightarrow> if t \<noteq> 0 then t else cap | None \<Rightarrow> cap)
          in Inr (MIN_SIGN_TTL, cap, max MIN_SIGN_TTL (min dflt cap)))"

text \<open>The requested validity: a refusal, or the one to sign with (None: the policy's own).\<close>

definition chosen_ttl :: "string \<Rightarrow> policy \<Rightarrow> json \<Rightarrow> 'h world \<Rightarrow> (string + int option) result" where
  "chosen_ttl backend pol v w =
     (if v = JNull \<or> v = JStr [] \<or> backend \<notin> set TTL_BACKENDS then Inr (Inr None)
      else case int_of_json v of
        Inl _ \<Rightarrow> Inr (Inl ''ttl must be an integer number of seconds'')
      | Inr t \<Rightarrow>
          (case ttl_bounds pol w of
             Inl err \<Rightarrow> Inl err
           | Inr (lo, hi, _) \<Rightarrow>
               if t < lo
               then Inr (Inl (''ttl must be at least '' @ int_str lo @ '' seconds ('' @ int_str (lo div 60) @ '' minutes)''))
               else Inr (Inr (Some (min t hi)))))"

subsection \<open>Capability reports\<close>

definition env_in :: "'h env \<Rightarrow> 'h world \<Rightarrow> env_state" where
  "env_in e w = fst (env_caps e (get_setting w) False (w_envcaps w))"

definition cap_json :: "'h env \<Rightarrow> ctx \<Rightarrow> 'h world \<Rightarrow> string \<Rightarrow> json" where
  "cap_json e c w key =
     (let s = cap_status_of e (license_in e c w) (env_in e w) key in
      JObj [(''key'', JStr (cs_key s)), (''available'', JBool (cs_available s)), (''reason'', JStr (cs_reason s)),
            (''upgrade'', JBool (cs_upgrade s))])"

definition fips_json :: "'h env \<Rightarrow> 'h world \<Rightarrow> json" where
  "fips_json e w =
     (let r = fips_status (env_in e w) (get_setting w) in
      JObj [(''kernel_fips'', JBool (kernel_fips r)),
        (''openssl_provider'', case fr_provider r of None \<Rightarrow> JNull
           | Some p \<Rightarrow> JObj [(''name'', JStr (fp_name p)), (''version'', JStr (fp_version p))]),
        (''openssl_major'', jint_opt (fr_major r)), (''standard'', jopt (standard r)),
        (''validated'', JBool (validated r)), (''required'', JBool (required r)), (''compliant'', JBool (compliant r))])"

subsection \<open>Approve and sign\<close>

definition may_approve :: "ctx \<Rightarrow> 'h world \<Rightarrow> bool" where
  "may_approve c w = (is_admin c \<or> is_signer (me c) w)"

definition signing_refused :: "'h env \<Rightarrow> ctx \<Rightarrow> string \<Rightarrow> string \<Rightarrow> sign_error \<Rightarrow> 'h world \<Rightarrow> response \<times> 'h world" where
  "signing_refused e c job_id backend err w =
     (case err of
        Unavailable msg \<Rightarrow> refuse 409 msg w
      | Refused msg \<Rightarrow>
          refuse 502 (''signing failed: '' @ msg)
            (log_event c ''sign'' ''backend_error''
              [(''job_id'', job_id), (''backend'', backend), (''error'', take 200 msg)] w)
      | Raised x \<Rightarrow> crash e c x w)"

definition sign_and_attach ::
  "'h env \<Rightarrow> string \<Rightarrow> job \<Rightarrow> string \<Rightarrow> policy \<Rightarrow> int option \<Rightarrow> ctx \<Rightarrow> 'h world \<Rightarrow> response \<times> 'h world" where
  "sign_and_attach e job_id j backend pol ttl c w =
     (case sign_csr e c (j_csr_pem j) pol (me c) w of
        (Inl err, w1) \<Rightarrow> signing_refused e c job_id backend err w1
      | (Inr (cert, chain), w1) \<Rightarrow>
          (case attach_signed_cert e c job_id cert (me c) backend (Some (me c)) ''sign'' chain w1 of
             (Inl (code, msg), w2) \<Rightarrow> refuse code msg w2
           | (Inr (expires, warnings, host), w2) \<Rightarrow>
               (ok_reply [(''ok'', JBool True), (''status'', JStr ''issued''), (''signed_via'', JStr backend),
                  (''target_host'', JStr host), (''expires_at'', jint_opt expires),
                  (''validity_seconds'', jint_opt ttl), (''warnings'', strs warnings), (''chain_pem'', JStr chain)],
                log_event c ''sign'' ''issued''
                  [(''job_id'', job_id), (''backend'', backend), (''role'', or_else (or_empty (p_role pol)) ''-''),
                   (''approver'', take 128 (me c)),
                   (''ttl'', case ttl of None \<Rightarrow> ''-'' | Some n \<Rightarrow> int_str n)] w2)))"

definition sign_pending :: "'h env \<Rightarrow> string \<Rightarrow> job \<Rightarrow> ctx \<Rightarrow> 'h world \<Rightarrow> response \<times> 'h world" where
  "sign_pending e job_id j c w =
     (let pol = resolve_signing_policy (j_template_id j) w; backend = p_backend pol; cap = ''ca.signing.'' @ backend in
      if backend = ''manual''
      then refuse 409 (''no automated signing backend is configured; '' @ ''use the manual cert-upload path'') w
      else if \<not> available_in e c w cap
      then (reply 409 (JObj [(''error'', JStr (backend @ '' signing is not available in this '' @ ''deployment'')),
              (''capability'', cap_json e c w cap)]), w)
      else with_payload e c w (\<lambda>p. attempt e c (chosen_ttl backend pol (jget ''ttl'' p) w) w (\<lambda>r.
        case r of
          Inl msg \<Rightarrow> refuse 400 msg w
        | Inr None \<Rightarrow> sign_and_attach e job_id j backend pol None c w
        | Inr (Some t) \<Rightarrow> sign_and_attach e job_id j backend (pol\<lparr>p_max_ttl := Some t\<rparr>) (Some t) c w)))"

definition sign_body :: "'h env \<Rightarrow> string \<Rightarrow> ctx \<Rightarrow> 'h world \<Rightarrow> response \<times> 'h world" where
  "sign_body e job_id c w =
     (if \<not> JOB_ID_RE job_id then refuse 400 ''invalid job id'' w
      else if \<not> may_approve c w
      then refuse 403 ''not authorized to sign (signer or admin only)''
             (log_event c ''sign'' ''deny_not_signer'' [(''job_id'', job_id), (''dn'', take 128 (me c))] w)
      else case row_by j_id job_id (w_jobs w) of
        None \<Rightarrow> refuse 404 ''job not found'' w
      | Some j \<Rightarrow>
          if j_status j \<noteq> Pending
          then refuse 409 (''job in status '' @ [CHR 0x27] @ status_str (j_status j) @ [CHR 0x27] @ '', cannot sign'') w
          else sign_pending e job_id j c w)"

definition sign_job :: "'h env \<Rightarrow> string \<Rightarrow> 'h handler" where
  "sign_job e job_id = require_auth e ''sign_job'' (require_csrf e ''sign_job'' (sign_body e job_id))"

definition sign_options :: "'h env \<Rightarrow> string \<Rightarrow> 'h handler" where
  "sign_options e job_id = require_auth e ''sign_options'' (\<lambda>c w.
     if \<not> JOB_ID_RE job_id then refuse 400 ''invalid job id'' w
     else if \<not> may_approve c w then refuse 403 ''not authorized'' w
     else case row_by j_id job_id (w_jobs w) of
       None \<Rightarrow> refuse 404 ''job not found'' w
     | Some j \<Rightarrow>
         let pol = resolve_signing_policy (j_template_id j) w in
         attempt e c (ttl_bounds pol w) w (\<lambda>(lo, hi, dflt).
           (ok_reply [(''backend'', JStr (p_backend pol)),
              (''supports_ttl'', JBool (p_backend pol \<in> set TTL_BACKENDS)),
              (''ttl_min'', JInt lo), (''ttl_max'', JInt hi), (''ttl_default'', JInt dflt)], w)))"

subsection \<open>Revocation\<close>

definition revoked_job :: "ctx \<Rightarrow> job \<Rightarrow> job" where
  "revoked_job c j = j\<lparr>j_status := Revoked, j_revoked_at := Some (c_now c), j_revoked_by_dn := Some (me c)\<rparr>"

definition revoke_issued :: "'h env \<Rightarrow> string \<Rightarrow> job \<Rightarrow> string \<Rightarrow> ctx \<Rightarrow> 'h world \<Rightarrow> response \<times> 'h world" where
  "revoke_issued e job_id j backend c w =
     (case cert_serial_colons e (or_empty (j_cert_pem j)) of
        None \<Rightarrow> refuse 500 ''could not read the certificate serial'' w
      | Some serial \<Rightarrow>
          (case on_host w (revoke_cert e (get_setting w) serial backend (w_host w)) of
             (Inl (Raised err), w1) \<Rightarrow> crash e c err w1
           | (Inl err, w1) \<Rightarrow>
               refuse 502 (''revoke failed: '' @ sign_error_text err)
                 (log_event c ''revoke'' ''backend_error''
                   [(''job_id'', job_id), (''error'', take 200 (sign_error_text err))] w1)
           | (Inr at, w1) \<Rightarrow>
               (ok_reply [(''ok'', JBool True), (''status'', JStr ''revoked''), (''serial'', JStr serial),
                          (''revocation_time'', at)],
                fire_webhooks e c ''job.revoked''
                  [(''job_id'', JStr job_id), (''target_host'', JStr (j_target_host j)),
                   (''revoked_by_dn'', JStr (me c)), (''revoked_by_cn'', JNull), (''serial'', JStr serial)]
                  (log_event c ''revoke'' ''ok''
                    [(''job_id'', job_id), (''serial'', serial), (''actor'', take 128 (me c))]
                    (set_job job_id (revoked_job c) w1)))))"

definition revoke_body :: "'h env \<Rightarrow> string \<Rightarrow> ctx \<Rightarrow> 'h world \<Rightarrow> response \<times> 'h world" where
  "revoke_body e job_id c w =
     (if \<not> JOB_ID_RE job_id then refuse 400 ''invalid job id'' w
      else if \<not> may_approve c w
      then refuse 403 ''not authorized to revoke (signer or admin only)''
             (log_event c ''revoke'' ''deny_not_signer'' [(''job_id'', job_id), (''dn'', take 128 (me c))] w)
      else case row_by j_id job_id (w_jobs w) of
        None \<Rightarrow> refuse 404 ''job not found'' w
      | Some j \<Rightarrow>
          if j_status j \<noteq> Issued
          then refuse 409 (''job in status '' @ [CHR 0x27] @ status_str (j_status j) @ [CHR 0x27] @ '', only issued ''
                 @ ''certificates can be revoked'') w
          else let backend = p_backend (resolve_signing_policy (j_template_id j) w) in
            if backend \<notin> set [''openbao'', ''windows_ca'']
            then refuse 409 (''this certificate'' @ [CHR 0x27] @ ''s backend does not support in-UI ''
                   @ ''revocation; revoke it at your CA'') w
            else if \<not> available_in e c w (''ca.signing.'' @ backend)
            then refuse 409 (backend @ '' is not available in this deployment'') w
            else revoke_issued e job_id j backend c w)"

definition revoke_job :: "'h env \<Rightarrow> string \<Rightarrow> 'h handler" where
  "revoke_job e job_id = require_auth e ''revoke_job'' (require_csrf e ''revoke_job'' (revoke_body e job_id))"

subsection \<open>Configuration\<close>

definition setting_on :: "'h world \<Rightarrow> string \<Rightarrow> bool" where
  "setting_on w k = (or_empty (get_setting w k) \<in> set [''1'', ''true'', ''yes'', ''on''])"

definition int_setting :: "'h world \<Rightarrow> string \<Rightarrow> int \<Rightarrow> int result" where
  "int_setting w k dflt =
     (let s = or_empty (get_setting w k) in
      if s = [] then Inr dflt else (case int_of s of Some n \<Rightarrow> Inr n | None \<Rightarrow> Inl ValueError))"

definition config_view :: "'h env \<Rightarrow> ctx \<Rightarrow> 'h world \<Rightarrow> (string \<times> json) list result" where
  "config_view e c w =
     (case (int_setting w ''auto_renew_before_days'' 30, int_setting w ''key_return_once_max_ttl'' 0) of
        (Inl err, _) \<Rightarrow> Inl err
      | (_, Inl err) \<Rightarrow> Inl err
      | (Inr days, Inr once) \<Rightarrow> Inr
          [(''default_backend'', JStr (or_else (or_empty (get_setting w ''signing_default_backend'')) ''manual'')),
           (''max_ttl'', JStr (or_empty (get_setting w ''signing_max_ttl''))),
           (''providers'', provider_meta e (get_setting w)), (''backends'', strs BACKENDS),
           (''capability'', cap_json e c w ''ca.signing.openbao''),
           (''crl_ocsp'', JObj (map (\<lambda>(k, v). (k, JStr v)) (crl_ocsp_urls e (get_setting w)))),
           (''auto_renew_enabled'', JBool (setting_on w ''auto_renew_enabled'')),
           (''auto_renew_before_days'', JInt days),
           (''acme_server_enabled'', JBool (setting_on w ''acme_server_enabled'')),
           (''acme_server_base_url'', JStr (or_empty (get_setting w ''acme_server_base_url''))),
           (''acme_server_capability'', cap_json e c w ''ca.server.acme''),
           (''key_storage'', JStr (or_else (or_empty (get_setting w ''key_storage'')) DEFAULT_KEY_STORAGE)),
           (''key_storage_options'', strs KEY_STORAGE_MODES),
           (''key_return_once_max_ttl'', JInt once), (''fips'', fips_json e w)])"

definition get_signing_config :: "'h env \<Rightarrow> 'h handler" where
  "get_signing_config e = require_admin e ''get_signing_config'' (\<lambda>c w.
     attempt e c (config_view e c w) w (\<lambda>kvs. (ok_reply kvs, w)))"

text \<open>
  The update runs step by step; a step that refuses ends the request and leaves what the steps
  before it stored.
\<close>

type_synonym 'h step = "'h world \<Rightarrow> (response \<times> 'h world) + 'h world"

fun run_steps :: "'h step list \<Rightarrow> 'h step" where
  "run_steps [] w = Inr w"
| "run_steps (s # ss) w = (case s w of Inl done \<Rightarrow> Inl done | Inr w1 \<Rightarrow> run_steps ss w1)"

definition put_flag :: "string \<Rightarrow> json \<Rightarrow> 'h step" where
  "put_flag k p w = Inr (if jhas k p then set_setting k (if truthy (jget k p) then ''1'' else ''0'') w else w)"

definition put_renew_days :: "json \<Rightarrow> 'h step" where
  "put_renew_days p w =
     (if \<not> jhas ''auto_renew_before_days'' p then Inr w
      else case int_of_json (jget ''auto_renew_before_days'' p) of
        Inl _ \<Rightarrow> Inl (refuse 400 ''auto_renew_before_days must be 1-365'' w)
      | Inr n \<Rightarrow> Inr (set_setting ''auto_renew_before_days'' (int_str (max 1 (min n 365))) w))"

definition put_key_storage :: "'h env \<Rightarrow> ctx \<Rightarrow> json \<Rightarrow> 'h step" where
  "put_key_storage e c p w =
     (if \<not> jhas ''key_storage'' p then Inr w
      else case str_or_empty (jget ''key_storage'' p) of
        Inl err \<Rightarrow> Inl (crash e c err w)
      | Inr s \<Rightarrow>
          let ks = strip (or_else s DEFAULT_KEY_STORAGE) in
          if ks \<notin> set KEY_STORAGE_MODES
          then Inl (refuse 400 (''key_storage must be one of '' @ py_repr e (strs KEY_STORAGE_MODES)) w)
          else Inr (set_setting ''key_storage'' ks w))"

definition put_return_once :: "json \<Rightarrow> 'h step" where
  "put_return_once p w =
     (let v = jget ''key_return_once_max_ttl'' p in
      if \<not> jhas ''key_return_once_max_ttl'' p then Inr w
      else case (if truthy v then int_of_json v else Inr 0) of
        Inl _ \<Rightarrow> Inl (refuse 400 ''key_return_once_max_ttl must be a non-negative integer'' w)
      | Inr n \<Rightarrow> Inr (set_setting ''key_return_once_max_ttl'' (int_str (max 0 n)) w))"

definition put_base_url :: "'h env \<Rightarrow> ctx \<Rightarrow> json \<Rightarrow> 'h step" where
  "put_base_url e c p w =
     (if \<not> jhas ''acme_server_base_url'' p then Inr w
      else case str_or_empty (jget ''acme_server_base_url'' p) of
        Inl err \<Rightarrow> Inl (crash e c err w)
      | Inr s \<Rightarrow> Inr (set_setting ''acme_server_base_url'' (strip s) w))"

fun put_fields :: "'h env \<Rightarrow> string \<Rightarrow> (string \<times> json) list \<Rightarrow> 'h world \<Rightarrow> 'h world" where
  "put_fields e backend [] w = w"
| "put_fields e backend ((k, v) # kvs) w =
     put_fields e backend kvs
       (case field_setting backend k of
          None \<Rightarrow> w
        | Some s \<Rightarrow> set_setting s (strip (if v = JNull then [] else str_of e v)) w)"

definition put_provider :: "'h env \<Rightarrow> string \<Rightarrow> json \<Rightarrow> 'h step" where
  "put_provider e backend p w =
     Inr (case jget ''fields'' p of JObj kvs \<Rightarrow> put_fields e backend kvs w | _ \<Rightarrow> w)"

definition put_steps :: "'h env \<Rightarrow> ctx \<Rightarrow> string \<Rightarrow> json \<Rightarrow> 'h step list" where
  "put_steps e c backend p =
    [put_flag ''auto_renew_enabled'' p, put_renew_days p, put_key_storage e c p, put_return_once p,
     put_flag ''fips_required'' p, put_flag ''acme_server_enabled'' p, put_base_url e c p, put_provider e backend p]"

text \<open>The validity cap in the payload: None for an absent one.\<close>

definition max_ttl_of :: "json \<Rightarrow> int option option" where
  "max_ttl_of v =
     (if v = JNull \<or> v = JStr [] then Some None
      else case int_of_json v of Inl _ \<Rightarrow> None | Inr n \<Rightarrow> if n \<le> 0 then None else Some (Some n))"

definition put_config_body :: "'h env \<Rightarrow> json \<Rightarrow> ctx \<Rightarrow> 'h world \<Rightarrow> response \<times> 'h world" where
  "put_config_body e p c w =
     attempt e c (str_or_empty (jget ''default_backend'' p)) w (\<lambda>b.
     let backend = strip (or_else b ''manual'') in
     if backend \<notin> set BACKENDS then refuse 400 (''default_backend must be one of '' @ py_repr e (strs BACKENDS)) w
     else case max_ttl_of (jget ''max_ttl'' p) of
       None \<Rightarrow> refuse 400 ''max_ttl must be a positive integer (seconds)'' w
     | Some ttl \<Rightarrow>
         (case run_steps (put_steps e c backend p)
                (set_setting ''signing_max_ttl'' (case ttl of None \<Rightarrow> [] | Some n \<Rightarrow> int_str n)
                  (set_setting ''signing_default_backend'' backend w)) of
            Inl done \<Rightarrow> done
          | Inr w1 \<Rightarrow>
              let w2 = log_event c ''signing_config'' ''update''
                    [(''backend'', backend), (''actor'', take 128 (me c))] w1 in
              attempt e c (config_view e c w2) w2 (\<lambda>kvs. (ok_reply ((''ok'', JBool True) # kvs), w2))))"

definition put_signing_config :: "'h env \<Rightarrow> 'h handler" where
  "put_signing_config e = require_admin e ''put_signing_config'' (require_csrf e ''put_signing_config'' (\<lambda>c w.
     with_payload e c w (\<lambda>p. put_config_body e p c w)))"

definition test_connection ::
  "'h env \<Rightarrow> (string \<Rightarrow> 'h \<Rightarrow> (string + (string \<times> json) list) \<times> 'h) \<Rightarrow> ctx \<Rightarrow> string \<Rightarrow> 'h world
     \<Rightarrow> (string \<times> json) list sign_result \<times> 'h world" where
  "test_connection e probe c backend w =
     (if \<not> entitled_in e c w (''ca.signing.'' @ backend)
      then (Inl (Refused (backend @ '' signing requires a Certheim license (not available in this edition)'')), w)
      else if backend = ''cyberark''
      then (Inl (Refused (''CyberArk connection test is not built in this release; '' @ ''the configuration has been saved.'')), w)
      else if backend \<in> set [''windows_ca'', ''acme'', ''ejbca'', ''venafi'', ''aws_pca'']
      then (case probe backend (w_host w) of
              (Inl msg, h) \<Rightarrow> (Inl (Refused msg), w\<lparr>w_host := h\<rparr>) | (Inr ans, h) \<Rightarrow> (Inr ans, w\<lparr>w_host := h\<rparr>))
      else if backend \<noteq> ''openbao'' then (Inl (Refused (''no connection test for backend: '' @ backend)), w)
      else case openbao_addr_mount e (get_setting w) of (addr, mount) \<Rightarrow>
        on_host w (bind_sign (openbao_login e addr (w_host w)) (\<lambda>token h1.
          bind_sign (sign_http e (addr @ ''/v1/'' @ mount @ ''/ca/pem'') None (Some token) True h1) (\<lambda>ca h2.
            (if contains ''BEGIN CERTIFICATE'' (str_of e ca)
             then Inr [(''ok'', JBool True), (''addr'', JStr addr), (''mount'', JStr mount)]
             else Inl (Refused (''PKI mount '' @ [CHR 0x27] @ mount @ [CHR 0x27] @ '' did not return a CA certificate'')),
             h2)))))"

definition test_signing_config ::
  "'h env \<Rightarrow> (string \<Rightarrow> 'h \<Rightarrow> (string + (string \<times> json) list) \<times> 'h) \<Rightarrow> 'h handler" where
  "test_signing_config e probe = require_admin e ''test_signing_config'' (require_csrf e ''test_signing_config'' (\<lambda>c w.
     with_payload e c w (\<lambda>p. attempt e c (str_or_empty (jget ''backend'' p)) w (\<lambda>b.
     let backend = strip (or_else b (or_else (or_empty (get_setting w ''signing_default_backend'')) ''openbao'')) in
     case test_connection e probe c backend w of
       (Inl (Raised err), w1) \<Rightarrow> crash e c err w1
     | (Inl err, w1) \<Rightarrow>
         (reply 502 (JObj [(''ok'', JBool False), (''error'', JStr (sign_error_text err))]),
          log_event c ''signing_config'' ''test_fail''
            [(''backend'', backend), (''error'', take 200 (sign_error_text err))] w1)
     | (Inr ans, w1) \<Rightarrow>
         (ok_reply ans,
          log_event c ''signing_config'' ''test_ok''
            [(''backend'', backend), (''addr'', case map_of ans ''addr'' of Some v \<Rightarrow> str_of e v | None \<Rightarrow> ''-'')] w1)))))"

subsection \<open>Bounds of a chosen validity\<close>

text \<open>
  A short-lived certificate stays within bounds. A validity is chosen per signature only for a backend
  that honours one; it is never below thirty minutes nor above what was requested, and never above
  the cap of the template, or of the global configuration, or a year, unless that cap itself lies
  below the floor; the default offered to the approver lies within the same bounds.
\<close>
theorem chosen_ttl_bounded:
  assumes "chosen_ttl backend pol v w = Inr (Inr (Some t))"
  shows "backend = ''openbao'' \<and> MIN_SIGN_TTL \<le> t
    \<and> (\<exists>req. int_of_json v = Inr req \<and> t \<le> req \<and> (\<exists>cap. ttl_cap pol w = Inr cap \<and> t = min req (max cap MIN_SIGN_TTL)))
    \<and> (\<exists>lo hi dflt. ttl_bounds pol w = Inr (lo, hi, dflt) \<and> lo \<le> dflt \<and> dflt \<le> hi \<and> lo \<le> t \<and> t \<le> hi)"
proof -
  from assms obtain req where r: "int_of_json v = Inr req" "backend = ''openbao''"
    by (auto simp: chosen_ttl_def TTL_BACKENDS_def split: if_splits sum.splits)
  from assms r obtain lo hi dflt where b: "ttl_bounds pol w = Inr (lo, hi, dflt)" "lo \<le> req" "t = min req hi"
    by (auto simp: chosen_ttl_def split: if_splits sum.splits)
  from b(1) obtain cap where "ttl_cap pol w = Inr cap" "lo = MIN_SIGN_TTL" "hi = max cap MIN_SIGN_TTL" "lo \<le> dflt" "dflt \<le> hi"
    by (auto simp: ttl_bounds_def Let_def split: sum.splits)
  with r b show ?thesis by auto
qed

theorem chosen_ttl_bounded_witness:
  "chosen_ttl ''openbao'' (resolve_signing_policy (Some 1) (sample_world\<lparr>w_templates := [sample_template]\<rparr>))
     (JInt 86400) (sample_world\<lparr>w_templates := [sample_template]\<rparr>) = Inr (Inr (Some 3600)) \<and> MIN_SIGN_TTL \<le> 3600"
proof -
  let ?w = "sample_world\<lparr>w_templates := [sample_template]\<rparr>"
  have "p_max_ttl (resolve_signing_policy (Some 1) ?w) = Some 3600"
    by (simp add: resolve_signing_policy_def template_row_def sample_template_def or_else_def)
  then have c: "chosen_ttl ''openbao'' (resolve_signing_policy (Some 1) ?w) (JInt 86400) ?w = Inr (Inr (Some 3600))"
    by (simp add: chosen_ttl_def TTL_BACKENDS_def ttl_bounds_def ttl_cap_def int_of_json_def Let_def MIN_SIGN_TTL_def)
  with chosen_ttl_bounded [OF c] show ?thesis by simp
qed

subsection \<open>Signing and revoking\<close>

lemma attach_run:
  "attach_signed_cert e c i p a v ap l ch w = (Inr x, w') \<Longrightarrow>
     \<exists>j. row_by j_id i (w_jobs w) = Some j \<and> j_status j = Pending \<and> verify_cert_matches_csr e (j_csr_pem j) p
       \<and> w_jobs w' = modify_row j_id i (issue_job e (c_now c) p a v ap ch) (w_jobs w)"
  using attach_jobs [of e c i p a v ap l ch w]
  by (auto simp: attach_signed_cert_def Let_def split: option.splits if_splits)

lemma attach_refused: "attach_signed_cert e c i p a v ap l ch w = (Inl x, w') \<Longrightarrow> w_jobs w' = w_jobs w"
  using attach_jobs [of e c i p a v ap l ch w] by simp

text \<open>What a signature does to the queue: nothing, or the completion of its job.\<close>

lemma sign_and_attach_jobs:
  assumes "row_by j_id i (w_jobs w) = Some j"
  shows "(status_code (fst (sign_and_attach e i j b pol ttl c w)) \<noteq> 200
           \<and> w_jobs (snd (sign_and_attach e i j b pol ttl c w)) = w_jobs w)
       \<or> (status_code (fst (sign_and_attach e i j b pol ttl c w)) = 200 \<and> j_status j = Pending
           \<and> (\<exists>cert chain w1. sign_csr e c (j_csr_pem j) pol (me c) w = (Inr (cert, chain), w1)
               \<and> verify_cert_matches_csr e (j_csr_pem j) cert
               \<and> w_jobs (snd (sign_and_attach e i j b pol ttl c w)) =
                   modify_row j_id i (issue_job e (c_now c) cert (me c) b (Some (me c)) chain) (w_jobs w)))"
proof -
  obtain r w1 where s: "sign_csr e c (j_csr_pem j) pol (me c) w = (r, w1)" by force
  have j1: "w_jobs w1 = w_jobs w" using sign_csr_jobs [of e c "j_csr_pem j" pol "me c" w] by (simp only: s snd_conv)
  show ?thesis
  proof (cases r)
    case (Inl err)
    with s j1 show ?thesis
      by (cases err) (simp_all add: sign_and_attach_def signing_refused_def)
  next
    case (Inr cc)
    obtain cert chain where cc: "cc = (cert, chain)" by force
    obtain x w2 where a: "attach_signed_cert e c i cert (me c) b (Some (me c)) ''sign'' chain w1 = (x, w2)" by force
    show ?thesis
    proof (cases x)
      case (Inl y)
      obtain code msg where y: "y = (code, msg)" by force
      from a Inl y have "code \<noteq> 200" by (auto simp: attach_signed_cert_def Let_def split: option.splits if_splits)
      with s Inr cc a Inl y j1 attach_refused [of e c i cert "me c" b "Some (me c)" "''sign''" chain w1 y w2] show ?thesis
        by (simp add: sign_and_attach_def)
    next
      case (Inr z)
      obtain ex wa host where z: "z = (ex, wa, host)" by (metis prod.exhaust)
      from attach_run [of e c i cert "me c" b "Some (me c)" "''sign''" chain w1 z w2] a Inr assms j1 obtain
        "j_status j = Pending" "verify_cert_matches_csr e (j_csr_pem j) cert"
        "w_jobs w2 = modify_row j_id i (issue_job e (c_now c) cert (me c) b (Some (me c)) chain) (w_jobs w)" by auto
      with s \<open>r = Inr cc\<close> cc a Inr z show ?thesis by (simp add: sign_and_attach_def)
    qed
  qed
qed

lemma guarded_run:
  "(\<exists>c' w'. passed e c w c' w' \<and>
      (c_method c \<in> {''POST'', ''PUT'', ''DELETE'', ''PATCH''} \<longrightarrow> c_headers c ''X-Requested-With'' = Some ''certheim'') \<and>
      require_auth e name (require_csrf e name h) c w = h c' w')
   \<or> (status_code (fst (require_auth e name (require_csrf e name h) c w)) \<in> {403, 500} \<and>
      untouched w (snd (require_auth e name (require_csrf e name h) c w)))"
proof -
  have eq: "require_auth e name (require_csrf e name h) c w = guard_user e name (require_csrf e name h) c w"
    by (simp only: require_auth_def)
  from guard_user_cases [of e c w name "require_csrf e name h"] show ?thesis
  proof (elim disjE exE conjE)
    fix c' w' assume p: "passed e c w c' w'" and r: "guard_user e name (require_csrf e name h) c w = require_csrf e name h c' w'"
    from p obtain i u where "c' = c\<lparr>c_user := Some u\<rparr>" "w' = snd (ensure_user e c i (snd (auth_mode e w)))"
      by (auto simp: passed_def)
    then have m: "c_method c' = c_method c" "c_headers c' = c_headers c" "untouched w w'"
      by (simp_all add: untouched_def)
    show ?thesis
    proof (cases "c_method c \<in> {''POST'', ''PUT'', ''DELETE'', ''PATCH''} \<longrightarrow> c_headers c ''X-Requested-With'' = Some ''certheim''")
      case True
      then have "require_csrf e name h c' w' = h c' w'" using m by (auto simp: require_csrf_def)
      with p True r show ?thesis by (intro disjI1 exI [of _ c'] exI [of _ w'] conjI) (simp_all only: eq)
    next
      case False
      then have "require_csrf e name h c' w' = deny e c' name ''deny_csrf'' [] w'" using m by (auto simp: require_csrf_def)
      then show ?thesis using m(3) by (intro disjI2) (simp add: eq r untouched_def)
    qed
  qed (simp add: eq)
qed


text \<open>An administrator approves the one pending job, with the ACME backend selected and available.\<close>

definition acme_env :: "unit env" where
  "acme_env = quiet_env\<lparr>openssl := (\<lambda>args i. Some (0, ''KEY'', [])), other_ca := (\<lambda>b csr h. (Inr (''CERT'', []), h))\<rparr>"

definition approver_ctx :: ctx where
  "approver_ctx = ada_ctx\<lparr>c_user := Some ((new_user ''CN=ADA'' ''ADA'' 0)\<lparr>u_is_admin := True\<rparr>)\<rparr>"

definition acme_world :: "unit world" where
  "acme_world = set_setting ''signing_default_backend'' ''acme'' (set_setting ''auth_mode'' ''mtls'' ((host_world ())
     \<lparr>w_envcaps := Some \<lparr>es_flags = [(''acme'', True)], es_provider = None, es_major = None\<rparr>\<rparr>))"

lemma acme_policy_here: "p_backend (resolve_signing_policy None acme_world) = ''acme''"
  by (simp add: resolve_signing_policy_def template_row_def acme_world_def or_else_def)

lemma acme_entitled: "entitled_in acme_env c w ''ca.signing.acme''"
proof -
  have "''ca.signing.acme'' \<notin> set LICENSED_CAPABILITIES" "resolve_key ''ca.signing.acme'' = ''ca.signing.acme''"
    by code_simp+
  then show ?thesis
    by (simp add: entitled_in_def is_entitled_def operator_entitlements_def acme_env_def quiet_env_def)
qed

lemma acme_available: "available_in acme_env c acme_world ''ca.signing.acme''"
proof -
  have "map_of CAPABILITIES ''ca.signing.acme'' = Some \<lparr>needs = [''acme''], desc = ''In-UI signing via any ACME (RFC 8555) CA''\<rparr>"
    by code_simp
  moreover have "env_has \<lparr>es_flags = [(''acme'', True)], es_provider = None, es_major = None\<rparr> ''acme''"
    by (simp add: env_has_def)
  moreover have "fst (env_caps acme_env (get_setting acme_world) False (w_envcaps acme_world))
      = \<lparr>es_flags = [(''acme'', True)], es_provider = None, es_major = None\<rparr>"
    by (simp add: env_caps_def acme_world_def set_setting_def Let_def)
  ultimately show ?thesis
    using acme_entitled [of c acme_world] by (simp add: available_in_def available_iff entitled_in_def)
qed

lemma acme_sign_csr:
  "fst (sign_csr acme_env c ''REQUEST'' (resolve_signing_policy None acme_world) who acme_world) = Inr (''CERT'', [])"
proof -
  have "search_subject_cn ''KEY'' = None" "find_dns 0 ''KEY'' = []" by code_simp+
  then have d: "csr_domains (openssl acme_env) ''REQUEST'' = {}"
    by (simp add: csr_domains_def acme_env_def quiet_env_def Let_def)
  then have q: "enforce_domain_quota acme_env c ''REQUEST'' acme_world = (Inr (), acme_world)"
    by (simp add: enforce_domain_quota_def Let_def)
  have "strip ''acme'' = ''acme''" by code_simp
  then have b: "strip (or_else (p_backend (resolve_signing_policy None acme_world)) ''manual'') = ''acme''"
    by (simp add: acme_policy_here or_else_def)
  have o: "fst (dispatch_sign acme_env ''acme'' ''REQUEST'' (resolve_signing_policy None acme_world) who acme_world) = Inr (''CERT'', [])"
    by (simp add: dispatch_sign_def on_host_def sign_other_def) (simp add: acme_env_def quiet_env_def)
  show ?thesis
    using acme_entitled [of c acme_world] by (simp add: sign_csr_def Let_def b q o)
qed


lemma revoke_issued_jobs:
  "(status_code (fst (revoke_issued e i j b c w)) \<noteq> 200 \<and> w_jobs (snd (revoke_issued e i j b c w)) = w_jobs w)
   \<or> (status_code (fst (revoke_issued e i j b c w)) = 200
      \<and> w_jobs (snd (revoke_issued e i j b c w)) = modify_row j_id i (revoked_job c) (w_jobs w))"
proof (cases "cert_serial_colons e (or_empty (j_cert_pem j))")
  case None then show ?thesis by (simp add: revoke_issued_def)
next
  case (Some serial)
  obtain r w1 where o: "on_host w (revoke_cert e (get_setting w) serial b (w_host w)) = (r, w1)" by force
  have "w_jobs w1 = w_jobs w" using on_host_frame(1) [of w "revoke_cert e (get_setting w) serial b (w_host w)"] by (simp add: o)
  with Some o show ?thesis
    by (cases r) (auto simp: revoke_issued_def split: sign_error.split)
qed

text \<open>
  Only an issued certificate is revoked. If the revocation endpoint answers 200, the caller is an
  authenticated signer or administrator, the job was issued, the backend of its template's current
  policy is one that can revoke and is available, and exactly this row becomes revoked; on any other
  answer no job has changed.
\<close>
theorem revoke_job_issued_only:
  "(if status_code (fst (revoke_job e i c w)) = 200
    then \<exists>c' w' j b. passed e c w c' w' \<and> may_approve c' w' \<and>
         row_by j_id i (w_jobs w) = Some j \<and> j_status j = Issued \<and>
         b = p_backend (resolve_signing_policy (j_template_id j) w') \<and> b \<in> {''openbao'', ''windows_ca''} \<and>
         available_in e c' w' (''ca.signing.'' @ b) \<and>
         w_jobs (snd (revoke_job e i c w)) = modify_row j_id i (revoked_job c) (w_jobs w)
    else w_jobs (snd (revoke_job e i c w)) = w_jobs w)"
proof -
  have run: "(status_code (fst (revoke_body e i c w)) \<noteq> 200 \<and> w_jobs (snd (revoke_body e i c w)) = w_jobs w) \<or>
      (status_code (fst (revoke_body e i c w)) = 200 \<and> may_approve c w \<and>
       (\<exists>j b. row_by j_id i (w_jobs w) = Some j \<and> j_status j = Issued \<and>
         b = p_backend (resolve_signing_policy (j_template_id j) w) \<and> b \<in> {''openbao'', ''windows_ca''} \<and>
         available_in e c w (''ca.signing.'' @ b) \<and>
         w_jobs (snd (revoke_body e i c w)) = modify_row j_id i (revoked_job c) (w_jobs w)))" for c w
  proof (cases "JOB_ID_RE i \<and> may_approve c w")
    case False then show ?thesis by (auto simp: revoke_body_def)
  next
    case ok: True
    show ?thesis
    proof (cases "row_by j_id i (w_jobs w)")
      case None with ok show ?thesis by (simp add: revoke_body_def)
    next
      case (Some j)
      with ok revoke_issued_jobs [of e i j "p_backend (resolve_signing_policy (j_template_id j) w)" c w]
      show ?thesis by (auto simp: revoke_body_def Let_def)
    qed
  qed
  from guarded_run [of e c w "''revoke_job''" "revoke_body e i"] show ?thesis
  proof (elim disjE exE conjE)
    fix c' w' assume p: "passed e c w c' w'"
      and r: "require_auth e ''revoke_job'' (require_csrf e ''revoke_job'' (revoke_body e i)) c w = revoke_body e i c' w'"
    note same = passed_same [OF p]
    have s: "revoke_job e i c w = revoke_body e i c' w'" using r by (simp add: revoke_job_def)
    have f: "revoked_job c' = revoked_job c" using same by (simp add: fun_eq_iff revoked_job_def)
    show ?thesis
      using run [of c' w'] same p f unfolding s by (elim disjE conjE exE) (simp, metis)
  qed (simp add: revoke_job_def untouched_def, auto)
qed

subsection \<open>What the configuration endpoint can change\<close>

definition signing_keys :: "string list" where
  "signing_keys =
    [''signing_default_backend'', ''signing_max_ttl'', ''auto_renew_enabled'', ''auto_renew_before_days'',
     ''key_storage'', ''key_return_once_max_ttl'', ''fips_required'', ''acme_server_enabled'', ''acme_server_base_url'']
    @ map pf_setting (concat (map pv_fields PROVIDERS))"

lemma field_setting_known: "field_setting b k = Some s \<Longrightarrow> s \<in> set signing_keys"
proof -
  assume f: "field_setting b k = Some s"
  then obtain p x where "row_by pv_key b PROVIDERS = Some p" "row_by pf_key k (pv_fields p) = Some x" "s = pf_setting x"
    by (auto simp: field_setting_def provider_fields_def split: option.splits)
  then have "p \<in> set PROVIDERS" "x \<in> set (pv_fields p)" "s = pf_setting x" by (auto dest: row_by_SomeD)
  then show ?thesis by (auto simp: signing_keys_def)
qed

definition after_step :: "(response \<times> 'h world) + 'h world \<Rightarrow> 'h world" where
  "after_step r = (case r of Inl done \<Rightarrow> snd done | Inr w \<Rightarrow> w)"

lemma after_step_simps [simp]: "after_step (Inl d) = snd d" "after_step (Inr w) = w"
  by (simp_all add: after_step_def)

lemma run_steps_obs:
  "(\<And>s w. s \<in> set ss \<Longrightarrow> obs (after_step (s w)) = obs w) \<Longrightarrow> obs (after_step (run_steps ss w)) = obs w"
proof (induction ss arbitrary: w)
  case (Cons s ss)
  from Cons.prems have s: "obs (after_step (s w)) = obs w" by simp
  show ?case
  proof (cases "s w")
    case (Inr w1)
    have "obs (after_step (run_steps ss w1)) = obs w1" using Cons.prems by (intro Cons.IH) simp
    with Inr s show ?thesis by simp
  qed (use s in simp)
qed simp

lemma set_setting_other: "k \<noteq> s \<Longrightarrow> w_settings (set_setting s v w) k = w_settings w k"
  by (simp add: set_setting_def)

lemma put_fields_other:
  "k \<notin> set signing_keys \<Longrightarrow> w_settings (put_fields e b kvs w) k = w_settings w k \<and> w_jobs (put_fields e b kvs w) = w_jobs w"
proof (induction e b kvs w rule: put_fields.induct)
  case (2 e b x v kvs w)
  show ?case
  proof (cases "field_setting b x")
    case None with 2 show ?thesis by simp
  next
    case (Some s)
    with field_setting_known 2(2) have "k \<noteq> s" by blast
    with 2(1) [OF 2(2)] Some show ?thesis by (simp add: set_setting_other)
  qed
qed simp

lemma put_steps_other:
  assumes "k \<notin> set signing_keys" "s \<in> set (put_steps e c b p)"
  shows "w_settings (after_step (s w)) k = w_settings w k \<and> w_jobs (after_step (s w)) = w_jobs w"
proof -
  have flag: "w_settings (after_step (put_flag f p w)) k = w_settings w k \<and> w_jobs (after_step (put_flag f p w)) = w_jobs w"
    if "f \<in> set signing_keys" for f
  proof -
    from that assms(1) have "k \<noteq> f" by blast
    then show ?thesis by (simp add: put_flag_def set_setting_other)
  qed
  have ks: "k \<noteq> ''auto_renew_before_days''" "k \<noteq> ''key_storage''" "k \<noteq> ''key_return_once_max_ttl''"
    "k \<noteq> ''acme_server_base_url''" "{''auto_renew_enabled'', ''fips_required'', ''acme_server_enabled''} \<subseteq> set signing_keys"
    using assms(1) by (auto simp: signing_keys_def)
  from assms(2) consider "s = put_flag ''auto_renew_enabled'' p" | "s = put_renew_days p" | "s = put_key_storage e c p"
    | "s = put_return_once p" | "s = put_flag ''fips_required'' p" | "s = put_flag ''acme_server_enabled'' p"
    | "s = put_base_url e c p" | "s = put_provider e b p" by (auto simp: put_steps_def)
  then show ?thesis
  proof cases
    case 2 with ks show ?thesis by (simp add: put_renew_days_def set_setting_other split: sum.split)
  next
    case 3 with ks show ?thesis by (simp add: put_key_storage_def Let_def set_setting_other split: sum.split)
  next
    case 4 with ks show ?thesis by (simp add: put_return_once_def Let_def set_setting_other split: sum.split)
  next
    case 7 with ks show ?thesis by (simp add: put_base_url_def set_setting_other split: sum.split)
  next
    case 8 then show ?thesis by (simp add: put_provider_def put_fields_other [OF assms(1)] split: json.split)
  qed (use flag ks in auto)
qed

lemma config_body_after:
  "snd (put_config_body e p c w) = w \<or> (\<exists>err. snd (put_config_body e p c w) = snd (crash e c err w)) \<or>
   (\<exists>b v w1. b \<in> set BACKENDS \<and>
      after_step (run_steps (put_steps e c b p) (set_setting ''signing_max_ttl'' v
        (set_setting ''signing_default_backend'' b w))) = w1 \<and>
      w_settings (snd (put_config_body e p c w)) = w_settings w1 \<and> w_jobs (snd (put_config_body e p c w)) = w_jobs w1)"
proof (cases "str_or_empty (jget ''default_backend'' p)")
  case (Inl err) then show ?thesis by (auto simp: put_config_body_def)
next
  case (Inr b0)
  let ?b = "strip (or_else b0 ''manual'')"
  show ?thesis
  proof (cases "?b \<in> set BACKENDS \<and> max_ttl_of (jget ''max_ttl'' p) \<noteq> None")
    case False with Inr show ?thesis by (auto simp: put_config_body_def Let_def)
  next
    case True
    then obtain ttl where t: "max_ttl_of (jget ''max_ttl'' p) = Some ttl" by auto
    let ?v = "case ttl of None \<Rightarrow> [] | Some n \<Rightarrow> int_str n"
    let ?r = "run_steps (put_steps e c ?b p) (set_setting ''signing_max_ttl'' ?v (set_setting ''signing_default_backend'' ?b w))"
    have "w_settings (snd (put_config_body e p c w)) = w_settings (after_step ?r)
        \<and> w_jobs (snd (put_config_body e p c w)) = w_jobs (after_step ?r)"
      using Inr True t by (cases ?r) (auto simp: put_config_body_def Let_def attempt_def split: sum.split)
    with True show ?thesis by blast
  qed
qed

text \<open>
  The signing configuration stays in its own corner. Whatever an administrator sends to it, the
  configuration endpoint writes only the signing settings: every other setting, the license and the
  authentication mode among them, and every job stay as they are.
\<close>
theorem signing_config_confined:
  assumes "k \<notin> set signing_keys"
  shows "get_setting (snd (put_config_body e p c w)) k = get_setting w k \<and> w_jobs (snd (put_config_body e p c w)) = w_jobs w"
proof -
  let ?obs = "\<lambda>w. (w_settings w k, w_jobs w)"
  have "?obs (snd (put_config_body e p c w)) = ?obs w"
    using config_body_after [of e p c w]
  proof (elim disjE exE conjE)
    fix b v w1
    let ?w0 = "set_setting ''signing_max_ttl'' v (set_setting ''signing_default_backend'' b w)"
    assume r: "after_step (run_steps (put_steps e c b p) ?w0) = w1"
      and s: "w_settings (snd (put_config_body e p c w)) = w_settings w1" "w_jobs (snd (put_config_body e p c w)) = w_jobs w1"
    have "?obs (after_step (run_steps (put_steps e c b p) ?w0)) = ?obs ?w0"
      using put_steps_other [OF assms] by (intro run_steps_obs) simp
    moreover have "?obs ?w0 = ?obs w" using assms by (simp add: set_setting_other signing_keys_def)
    ultimately show ?thesis using r s by simp
  qed simp_all
  then show ?thesis by (simp add: get_setting_def)
qed

theorem signing_config_confined_witness:
  "get_setting (snd (put_config_body quiet_env (JObj [(''default_backend'', JStr ''acme''),
       (''fields'', JObj [(''license_blob'', JStr ''stolen''), (''directory_url'', JStr ''https://ca'')])]) sample_ctx capped_world))
     ''license_blob'' = Some ''.''"
proof -
  have "list_all (\<lambda>x. x \<noteq> ''license_blob'') signing_keys" by code_simp
  then have "''license_blob'' \<notin> set signing_keys" by (auto simp: list_all_iff)
  from signing_config_confined [OF this, of quiet_env _ sample_ctx capped_world] show ?thesis by (simp add: capped_world_def)
qed

end
