(* ===== verification/CsrSubject.thy ===== *)
theory CsrSubject
  imports PyText
begin

text \<open>
  \<^verbatim>\<open>backend/csr_subject.py\<close>: the organization identity applied to every generated CSR.
  Sanitizing of each kind of value, normalization of a configuration that comes from the
  admin UI, its rendering to the helper's \<open>KEY=VALUE\<close> file and the subject preview. A
  value of the incoming configuration is \<open>None\<close> for JSON null or a missing key, else its
  text (\<open>str(value)\<close>).
\<close>

subsection \<open>Org profiles\<close>

record org_profile =
  p_key :: string
  p_label :: string
  p_country :: string
  p_state :: string
  p_locality :: string
  p_org :: string
  p_ous :: "string list"
  p_domain_suffix :: string

definition CORE_PROFILES :: "org_profile list" where
  "CORE_PROFILES =
    [\<lparr>p_key = ''commercial'', p_label = ''Commercial / Enterprise'', p_country = '''', p_state = '''',
      p_locality = '''', p_org = '''', p_ous = [], p_domain_suffix = ''''\<rparr>,
     \<lparr>p_key = ''blank'', p_label = ''Start blank (configure manually)'', p_country = '''', p_state = '''',
      p_locality = '''', p_org = '''', p_ous = [], p_domain_suffix = ''''\<rparr>]"

definition us_gov_profile :: "string \<Rightarrow> string \<Rightarrow> string list \<Rightarrow> org_profile" where
  "us_gov_profile k l ous =
    \<lparr>p_key = k, p_label = l, p_country = ''US'', p_state = '''', p_locality = '''',
     p_org = ''U.S. Government'', p_ous = ous, p_domain_suffix = ''''\<rparr>"

definition PUBLIC_SECTOR_PROFILES :: "org_profile list" where
  "PUBLIC_SECTOR_PROFILES =
    [us_gov_profile ''dod'' ''U.S. Department of Defense (DoD)'' [''DoD''],
     us_gov_profile ''dod_army'' ''U.S. Army'' [''DoD'', ''USA''],
     us_gov_profile ''dod_af'' ''U.S. Air Force'' [''DoD'', ''USAF''],
     us_gov_profile ''dod_navy'' ''U.S. Navy'' [''DoD'', ''USN''],
     us_gov_profile ''dod_usmc'' ''U.S. Marine Corps'' [''DoD'', ''USMC''],
     us_gov_profile ''dod_sf'' ''U.S. Space Force'' [''DoD'', ''USSF''],
     us_gov_profile ''fed_civilian'' ''U.S. Federal Civilian Agency'' []]"

definition CORE_SUGGESTED_OUS :: "string list" where
  "CORE_SUGGESTED_OUS = [''IT'', ''Security'', ''Engineering'', ''Operations'', ''PKI'']"

definition PUBLIC_SECTOR_OUS :: "string list" where
  "PUBLIC_SECTOR_OUS =
    [''DoD'', ''USA'', ''USAF'', ''USN'', ''USMC'', ''USSF'', ''USCG'',
     ''USEUCOM'', ''USAFRICOM'', ''USCENTCOM'', ''USINDOPACOM'', ''USNORTHCOM'',
     ''USSOUTHCOM'', ''USSPACECOM'', ''USSOCOM'', ''USSTRATCOM'', ''USTRANSCOM'',
     ''USCYBERCOM'', ''DISA'']"

definition org_profiles :: "bool \<Rightarrow> org_profile list" where
  "org_profiles public_sector = CORE_PROFILES @ (if public_sector then PUBLIC_SECTOR_PROFILES else [])"

definition suggested_ous :: "bool \<Rightarrow> string list" where
  "suggested_ous public_sector = CORE_SUGGESTED_OUS @ (if public_sector then PUBLIC_SECTOR_OUS else [])"

subsection \<open>Sanitizing\<close>

definition allowed_char :: "char \<Rightarrow> bool" where
  "allowed_char c = (is_alnum c \<or> c \<in> set '' ._,&/()@:-'')"

definition domain_allowed_char :: "char \<Rightarrow> bool" where
  "domain_allowed_char c = (is_alnum c \<or> c = CHR ''.'' \<or> c = CHR ''-'')"

definition dn_field_allowed_char :: "char \<Rightarrow> bool" where
  "dn_field_allowed_char c = (is_alnum c \<or> c = CHR ''.'')"

definition san_allowed_char :: "char \<Rightarrow> bool" where
  "san_allowed_char c = (is_alnum c \<or> c \<in> set '' ._@:-'')"

definition MAX_LEN :: nat where "MAX_LEN = 128"

definition one_line :: "string \<Rightarrow> string" where
  "one_line v = strip (replace_char cr (CHR '' '') (replace_char nl (CHR '' '') v))"

definition sanitize :: "bool \<Rightarrow> string option \<Rightarrow> string" where
  "sanitize domain value =
     (case value of None \<Rightarrow> []
      | Some v \<Rightarrow> take MAX_LEN (filter (if domain then domain_allowed_char else allowed_char) (one_line v)))"

definition clean_dn_field :: "string option \<Rightarrow> string" where
  "clean_dn_field name =
     (case name of None \<Rightarrow> [] | Some v \<Rightarrow> take 64 (filter dn_field_allowed_char (strip v)))"

definition clean_san :: "string option \<Rightarrow> string" where
  "clean_san value =
     (case value of None \<Rightarrow> [] | Some v \<Rightarrow> take MAX_LEN (filter san_allowed_char (one_line v)))"

text \<open>\<^verbatim>\<open>re.sub(r"[^a-z0-9]+", "-", s)\<close>: every maximal run of other characters becomes one dash.\<close>

definition slug_char :: "char \<Rightarrow> bool" where
  "slug_char c = (is_lower c \<or> is_digit c)"

fun slug_sub :: "bool \<Rightarrow> string \<Rightarrow> string" where
  "slug_sub in_run [] = []"
| "slug_sub in_run (c # s) =
     (if slug_char c then c # slug_sub False s
      else if in_run then slug_sub True s else CHR ''-'' # slug_sub True s)"

definition slugify :: "string option \<Rightarrow> string" where
  "slugify name =
     (let s = strip_chars ''-'' (slug_sub False (lower (strip (case name of None \<Rightarrow> [] | Some n \<Rightarrow> n))));
          t = take 64 s
      in if t = [] then ''profile'' else t)"

subsection \<open>The configuration\<close>

record raw_cfg =
  rc_country :: "string option"
  rc_state :: "string option"
  rc_locality :: "string option"
  rc_org :: "string option"
  rc_ous :: "string option list"
  rc_domain_suffix :: "string option"
  rc_domain_suffixes :: "string option list"
  rc_custom_dn :: "(string option \<times> string option) list"
  rc_extra_sans :: "string option list"

record subject_cfg =
  country :: string
  state :: string
  locality :: string
  org :: string
  ous :: "string list"
  domain_suffix :: string
  domain_suffixes :: "string list"
  custom_dn :: "(string \<times> string) list"
  extra_sans :: "string list"

definition dedup_domains :: "string option list \<Rightarrow> string list" where
  "dedup_domains items = take 16 (dedup_key lower [] (map (sanitize True) items))"

definition clean_config :: "raw_cfg \<Rightarrow> subject_cfg" where
  "clean_config cfg =
    \<lparr>country = sanitize False (rc_country cfg),
     state = sanitize False (rc_state cfg),
     locality = sanitize False (rc_locality cfg),
     org = sanitize False (rc_org cfg),
     ous = take 16 (dedup_key lower [] (map (sanitize False) (rc_ous cfg))),
     domain_suffix = sanitize True (rc_domain_suffix cfg),
     domain_suffixes = dedup_domains (rc_domain_suffixes cfg),
     custom_dn = take 16 (filter (\<lambda>(f, v). f \<noteq> [] \<and> v \<noteq> [])
       (map (\<lambda>(f, v). (clean_dn_field f, sanitize False v)) (rc_custom_dn cfg))),
     extra_sans = take 16 (dedup_key lower [] (map clean_san (rc_extra_sans cfg)))\<rparr>"

definition conf_lines :: "subject_cfg \<Rightarrow> string list" where
  "conf_lines c =
    [''C='' @ country c, ''ST='' @ state c, ''L='' @ locality c, ''O='' @ org c]
    @ map (\<lambda>ou. ''OU='' @ ou) (ous c)
    @ [''DOMAIN_SUFFIX='' @ domain_suffix c]
    @ map (\<lambda>d. ''DOMAIN_SUFFIX_ALT='' @ d) (domain_suffixes c)
    @ map (\<lambda>(f, v). ''XDN='' @ f @ '':'' @ v) (custom_dn c)
    @ map (\<lambda>s. ''XSAN='' @ s) (extra_sans c)"

definition render_conf :: "raw_cfg \<Rightarrow> string" where
  "render_conf cfg = join [nl] (conf_lines (clean_config cfg)) @ [nl]"

definition preview_dn :: "raw_cfg \<Rightarrow> string" where
  "preview_dn cfg =
    (let c = clean_config cfg in
     join '', ''
      ((if country c \<noteq> [] then [''C='' @ country c] else [])
       @ (if state c \<noteq> [] then [''ST='' @ state c] else [])
       @ (if locality c \<noteq> [] then [''L='' @ locality c] else [])
       @ (if org c \<noteq> [] then [''O='' @ org c] else [])
       @ map (\<lambda>ou. ''OU='' @ ou) (ous c)
       @ [''CN=<hostname>'']))"

subsection \<open>What a reader of the file gets back\<close>

text \<open>
  The consumer of \<open>subject.conf\<close> parses it line by line: the text before the first \<open>=\<close> is
  the key, the rest the value; \<open>XDN\<close> values split at the first colon. \<open>read_conf\<close> states
  that contract.
\<close>

definition conf_values :: "string \<Rightarrow> string \<Rightarrow> string list" where
  "conf_values key text =
     List.map_filter (\<lambda>l. case split_once (CHR ''='') l of
        Some (k, v) \<Rightarrow> if k = key then Some v else None | None \<Rightarrow> None) (split_on nl text)"

definition first_value :: "string list \<Rightarrow> string" where
  "first_value vs = (case vs of [] \<Rightarrow> [] | v # _ \<Rightarrow> v)"

definition read_conf :: "string \<Rightarrow> subject_cfg" where
  "read_conf text =
    \<lparr>country = first_value (conf_values ''C'' text),
     state = first_value (conf_values ''ST'' text),
     locality = first_value (conf_values ''L'' text),
     org = first_value (conf_values ''O'' text),
     ous = conf_values ''OU'' text,
     domain_suffix = first_value (conf_values ''DOMAIN_SUFFIX'' text),
     domain_suffixes = conf_values ''DOMAIN_SUFFIX_ALT'' text,
     custom_dn = List.map_filter (split_once (CHR '':'')) (conf_values ''XDN'' text),
     extra_sans = conf_values ''XSAN'' text\<rparr>"

subsection \<open>The cleaners are sanitizers\<close>

lemma list_all_take_filter: "list_all P (take n (filter P xs))"
  by (auto simp: list_all_iff dest: in_set_takeD)

interpretation san_value: sanitizer "sanitize False" allowed_char 128
  by unfold_locales (auto simp: sanitize_def MAX_LEN_def list_all_take_filter split: option.splits)

interpretation san_domain: sanitizer "sanitize True" domain_allowed_char 128
  by unfold_locales (auto simp: sanitize_def MAX_LEN_def list_all_take_filter split: option.splits)

interpretation san_field: sanitizer clean_dn_field dn_field_allowed_char 64
  by unfold_locales (auto simp: clean_dn_field_def list_all_take_filter split: option.splits)

interpretation san_san: sanitizer clean_san san_allowed_char 128
  by unfold_locales (auto simp: clean_san_def MAX_LEN_def list_all_take_filter split: option.splits)

lemma nl_not_allowed:
  "\<not> allowed_char nl" "\<not> domain_allowed_char nl" "\<not> dn_field_allowed_char nl" "\<not> san_allowed_char nl"
  by code_simp+

lemma colon_not_field: "\<not> dn_field_allowed_char (CHR '':'')"
  by code_simp

lemmas clean_no_nl [simp] =
  san_value.clean_excludes [OF nl_not_allowed(1)] san_domain.clean_excludes [OF nl_not_allowed(2)]
  san_field.clean_excludes [OF nl_not_allowed(3)] san_san.clean_excludes [OF nl_not_allowed(4)]

lemma dedup_take_from:
  "x \<in> set (take n (dedup_key key [] (map clean xs))) \<Longrightarrow> x \<noteq> [] \<and> (\<exists>v. x = clean v)"
  using dedup_key_subset [of key "[]" "map clean xs"] by (auto dest!: in_set_takeD)

lemma clean_config_lists:
  "ou \<in> set (ous (clean_config cfg)) \<Longrightarrow> ou \<noteq> [] \<and> nl \<notin> set ou"
  "d \<in> set (domain_suffixes (clean_config cfg)) \<Longrightarrow> d \<noteq> [] \<and> nl \<notin> set d"
  "s \<in> set (extra_sans (clean_config cfg)) \<Longrightarrow> s \<noteq> [] \<and> nl \<notin> set s"
  by (auto simp: clean_config_def dedup_domains_def dest!: dedup_take_from)

lemma clean_config_custom_dn:
  "(f, v) \<in> set (custom_dn (clean_config cfg)) \<Longrightarrow>
     f \<noteq> [] \<and> v \<noteq> [] \<and> nl \<notin> set f \<and> nl \<notin> set v \<and> CHR '':'' \<notin> set f"
  using san_field.clean_excludes [OF colon_not_field]
  by (auto simp: clean_config_def dest!: in_set_takeD)

text \<open>The lines as key-value pairs; keys come from a fixed list without \<open>=\<close> or line breaks.\<close>

definition conf_keys :: "string list" where
  "conf_keys = [''C'', ''ST'', ''L'', ''O'', ''OU'', ''DOMAIN_SUFFIX'', ''DOMAIN_SUFFIX_ALT'', ''XDN'', ''XSAN'']"

definition conf_pairs :: "subject_cfg \<Rightarrow> (string \<times> string) list" where
  "conf_pairs c =
    [(''C'', country c), (''ST'', state c), (''L'', locality c), (''O'', org c)]
    @ map (Pair ''OU'') (ous c) @ [(''DOMAIN_SUFFIX'', domain_suffix c)]
    @ map (Pair ''DOMAIN_SUFFIX_ALT'') (domain_suffixes c)
    @ map (\<lambda>(f, v). (''XDN'', f @ '':'' @ v)) (custom_dn c)
    @ map (Pair ''XSAN'') (extra_sans c)"

lemma conf_lines_pairs: "conf_lines c = map (\<lambda>(k, v). k @ ''='' @ v) (conf_pairs c)"
  by (simp add: conf_lines_def conf_pairs_def case_prod_beta)

lemma conf_keys_ok: "k \<in> set conf_keys \<Longrightarrow> CHR ''='' \<notin> set k \<and> nl \<notin> set k"
proof -
  have "list_all (\<lambda>k. CHR ''='' \<notin> set k \<and> nl \<notin> set k) conf_keys" by code_simp
  then show "k \<in> set conf_keys \<Longrightarrow> ?thesis" by (simp add: list_all_iff)
qed

lemma conf_pairs_ok:
  assumes "(k, v) \<in> set (conf_pairs (clean_config cfg))"
  shows "k \<in> set conf_keys \<and> nl \<notin> set v"
proof -
  have scalars: "nl \<notin> set (country (clean_config cfg))" "nl \<notin> set (state (clean_config cfg))"
    "nl \<notin> set (locality (clean_config cfg))" "nl \<notin> set (org (clean_config cfg))"
    "nl \<notin> set (domain_suffix (clean_config cfg))"
    by (simp_all add: clean_config_def)
  show ?thesis
    using assms scalars
    by (auto simp: conf_pairs_def conf_keys_def dest: clean_config_lists clean_config_custom_dn)
qed

lemma join_snoc_Nil: "xs \<noteq> [] \<Longrightarrow> join sep (xs @ [[]]) = join sep xs @ sep"
  by (induction sep xs rule: join.induct) auto

lemma conf_lines_not_Nil: "conf_lines c \<noteq> []"
  by (simp add: conf_lines_def)

lemma split_render_conf: "split_on nl (render_conf cfg) = conf_lines (clean_config cfg) @ [[]]"
proof -
  let ?ls = "conf_lines (clean_config cfg)"
  have "render_conf cfg = join [nl] (?ls @ [[]])"
    by (simp add: render_conf_def join_snoc_Nil conf_lines_not_Nil)
  moreover have "\<forall>x\<in>set (?ls @ [[]]). nl \<notin> set x"
    using conf_pairs_ok conf_keys_ok by (fastforce simp: conf_lines_pairs)
  ultimately show ?thesis using split_on_join [of "?ls @ [[]]" nl] by simp
qed

lemma map_filter_pairs:
  assumes "\<forall>(k, v)\<in>set ps. CHR ''='' \<notin> set k"
  shows "List.map_filter (\<lambda>l. case split_once (CHR ''='') l of
        Some (k, v) \<Rightarrow> if k = key then Some v else None | None \<Rightarrow> None)
      (map (\<lambda>(k, v). k @ ''='' @ v) ps) = map snd (filter (\<lambda>(k, v). k = key) ps)"
  using assms by (induction ps) (auto simp: map_filter_simps split_once_append)

lemma map_filter_append: "List.map_filter f (xs @ ys) = List.map_filter f xs @ List.map_filter f ys"
  by (induction xs) (auto simp: map_filter_simps split: option.splits)

lemma conf_values_render:
  "conf_values key (render_conf cfg) =
     map snd (filter (\<lambda>(k, v). k = key) (conf_pairs (clean_config cfg)))"
proof -
  have "\<forall>(k, v)\<in>set (conf_pairs (clean_config cfg)). CHR ''='' \<notin> set k"
    using conf_pairs_ok conf_keys_ok by blast
  from map_filter_pairs [OF this, of key] show ?thesis
    by (simp add: conf_values_def split_render_conf conf_lines_pairs map_filter_append
        map_filter_simps split_once_def)
qed

lemma filter_map_Pair: "filter (\<lambda>(k, v). k = key) (map (Pair k') xs) = (if k' = key then map (Pair k') xs else [])"
  by (induction xs) auto

lemma filter_map_xdn:
  "filter (\<lambda>(k, v). k = key) (map (\<lambda>(f, v). (k', g f v)) xs) =
     (if k' = key then map (\<lambda>(f, v). (k', g f v)) xs else [])"
  by (induction xs) auto

lemma map_filter_xdn:
  "\<forall>(f, v)\<in>set xs. CHR '':'' \<notin> set f \<Longrightarrow>
     List.map_filter (split_once (CHR '':'')) (map (\<lambda>(f, v). f @ '':'' @ v) xs) = xs"
  by (induction xs) (auto simp: map_filter_simps split_once_append)

lemma map_snd_Pair: "map snd (map (Pair k) xs) = xs"
  by (simp add: comp_def)

subsection \<open>Slugs\<close>

lemma slug_sub_chars: "c \<in> set (slug_sub r s) \<Longrightarrow> slug_char c \<or> c = CHR ''-''"
  by (induction r s rule: slug_sub.induct) (auto split: if_splits)

lemma hd_dropWhile_not: "dropWhile P s \<noteq> [] \<Longrightarrow> \<not> P (hd (dropWhile P s))"
  by (induction s) auto

lemma rdrop_while_prefix: "\<exists>t. s = rdrop_while P s @ t"
  unfolding rdrop_while_def
  by (metis rev_append rev_rev_ident takeWhile_dropWhile_id)

lemma hd_strip_chars:
  assumes "strip_chars cs s \<noteq> []"
  shows "hd (strip_chars cs s) \<notin> set cs"
proof -
  let ?d = "dropWhile (\<lambda>c. c \<in> set cs) s"
  obtain t where t: "?d = strip_chars cs s @ t"
    using rdrop_while_prefix unfolding strip_chars_def by blast
  with assms have "hd ?d = hd (strip_chars cs s)" by (simp add: hd_append)
  moreover have "?d \<noteq> []" using t assms by auto
  ultimately show ?thesis using hd_dropWhile_not [of "\<lambda>c. c \<in> set cs" s] by simp
qed

lemma set_strip_chars: "set (strip_chars cs s) \<subseteq> set s"
  unfolding strip_chars_def using set_rdrop_while by (fastforce dest: set_dropWhileD)

text \<open>The helper's profile allow-list \<^verbatim>\<open>^[a-z0-9][a-z0-9-]{0,63}$\<close>, without a trailing line break.\<close>

definition slug_ok :: "string \<Rightarrow> bool" where
  "slug_ok s = (case s of [] \<Rightarrow> False
     | c # rest \<Rightarrow> slug_char c \<and> list_all (\<lambda>d. slug_char d \<or> d = CHR ''-'') rest \<and> length rest \<le> 63)"

text \<open>
  The rendered subject file reads back as exactly the cleaned configuration. No value of
  the UI's configuration, whatever it contains, can add, remove, split or shadow a line of
  the file the root helper consumes.
\<close>
theorem render_conf_roundtrip: "read_conf (render_conf cfg) = clean_config cfg"
proof -
  have xdn: "List.map_filter (split_once (CHR '':''))
      (map (\<lambda>(f, v). f @ '':'' @ v) (custom_dn (clean_config cfg))) = custom_dn (clean_config cfg)"
    using clean_config_custom_dn by (intro map_filter_xdn) blast
  have snd_xdn: "map snd (map (\<lambda>(f, v). (k, f @ '':'' @ v)) xs) = map (\<lambda>(f, v). f @ '':'' @ v) xs"
    for k and xs :: "(string \<times> string) list"
    by (simp add: comp_def case_prod_beta)
  show ?thesis
    unfolding read_conf_def conf_values_render conf_pairs_def
    by (simp add: filter_map_Pair filter_map_xdn first_value_def snd_xdn xdn map_snd_Pair del: map_map append_Cons)
qed

text \<open>
  A profile slug always matches the helper's allow-list: it starts with a lower-case
  letter or digit, continues with those or dashes and has at most 64 characters. In
  particular it contains no slash, dot or white space.
\<close>
theorem slugify_allow_list: "slug_ok (slugify name)"
proof -
  let ?s = "strip_chars ''-'' (slug_sub False (lower (strip (case name of None \<Rightarrow> [] | Some n \<Rightarrow> n))))"
  have chars: "c \<in> set ?s \<Longrightarrow> slug_char c \<or> c = CHR ''-''" for c
    using set_strip_chars slug_sub_chars by blast
  show ?thesis
  proof (cases "take 64 ?s")
    case Nil
    have "slug_ok ''profile''" by code_simp
    with Nil show ?thesis by (simp add: slugify_def Let_def)
  next
    case (Cons c rest)
    then have "?s \<noteq> []" and c: "c = hd ?s" by (auto simp: hd_take dest: arg_cong [of _ _ hd])
    then have "c \<noteq> CHR ''-''" using hd_strip_chars [of "''-''"] by auto
    moreover have "set (c # rest) \<subseteq> set ?s" using Cons set_take_subset [of 64 ?s] by simp
    moreover have "length (c # rest) \<le> 64" using Cons [symmetric] by simp
    moreover have "slugify name = c # rest" using Cons \<open>?s \<noteq> []\<close> by (simp add: slugify_def Let_def)
    ultimately show ?thesis using chars by (auto simp: slug_ok_def list_all_iff subset_iff)
  qed
qed

text \<open>
  A cleaned configuration is bounded and free of case-insensitive duplicates: at most 16
  organizational units, domain suffixes, custom attributes and extra SANs, none empty; the
  units, suffixes and SANs pairwise different when lowered; and every one of the incoming
  non-empty units is represented as long as there are at most 16 different ones.
\<close>
theorem clean_config_dedup:
  "let c = clean_config cfg in
     length (ous c) \<le> 16 \<and> length (domain_suffixes c) \<le> 16 \<and> length (custom_dn c) \<le> 16 \<and>
     length (extra_sans c) \<le> 16 \<and>
     distinct (map lower (ous c)) \<and> distinct (map lower (domain_suffixes c)) \<and>
     distinct (map lower (extra_sans c)) \<and> [] \<notin> set (ous c @ domain_suffixes c @ extra_sans c) \<and>
     (length (dedup_key lower [] (map (sanitize False) (rc_ous cfg))) \<le> 16 \<longrightarrow>
       lower ` set (ous c) = lower ` {s \<in> sanitize False ` set (rc_ous cfg). s \<noteq> []})"
proof -
  have complete: "lower ` set (dedup_key lower [] ss) = lower ` {s \<in> set ss. s \<noteq> []}" for ss :: "string list"
    using dedup_key_subset [of lower "[]" ss] dedup_key_complete [of _ ss lower "[]"] by auto
  have dist: "distinct (map lower (take n (dedup_key lower [] ss)))" for n and ss :: "string list"
    by (simp add: take_map [symmetric] dedup_key_distinct)
  have ne: "[] \<notin> set (ous (clean_config cfg) @ domain_suffixes (clean_config cfg) @ extra_sans (clean_config cfg))"
    using clean_config_lists(1) [of "[]"] clean_config_lists(2) [of "[]"] clean_config_lists(3) [of "[]"] by auto
  have len: "length (ous (clean_config cfg)) \<le> 16" "length (domain_suffixes (clean_config cfg)) \<le> 16"
    "length (custom_dn (clean_config cfg)) \<le> 16" "length (extra_sans (clean_config cfg)) \<le> 16"
    by (simp_all add: clean_config_def dedup_domains_def)
  have all: "lower ` set (ous (clean_config cfg)) = lower ` {s \<in> sanitize False ` set (rc_ous cfg). s \<noteq> []}"
    if "length (dedup_key lower [] (map (sanitize False) (rc_ous cfg))) \<le> 16"
    using that complete [of "map (sanitize False) (rc_ous cfg)"] by (simp add: clean_config_def)
  have dist': "distinct (map lower (ous (clean_config cfg)))" "distinct (map lower (domain_suffixes (clean_config cfg)))"
    "distinct (map lower (extra_sans (clean_config cfg)))"
    by (simp_all add: clean_config_def dedup_domains_def dist)
  show ?thesis unfolding Let_def using ne len all dist' by blast
qed

theorem clean_config_dedup_witness:
  "ous (clean_config \<lparr>rc_country = Some ''US'', rc_state = None, rc_locality = None, rc_org = None,
     rc_ous = [Some ''DoD'', Some ''dod'', Some ''A=B''], rc_domain_suffix = None, rc_domain_suffixes = [],
     rc_custom_dn = [], rc_extra_sans = []\<rparr>) = [''DoD'', ''AB''] \<and>
   lower ` set [''DoD'', ''AB''] = lower ` {s \<in> sanitize False ` set [Some ''DoD'', Some ''dod'', Some ''A=B'']. s \<noteq> []}"
proof -
  let ?cfg = "\<lparr>rc_country = Some ''US'', rc_state = None, rc_locality = None, rc_org = None,
     rc_ous = [Some ''DoD'', Some ''dod'', Some ''A=B''], rc_domain_suffix = None, rc_domain_suffixes = [],
     rc_custom_dn = [], rc_extra_sans = []\<rparr>"
  have d: "dedup_key lower [] (map (sanitize False) (rc_ous ?cfg)) = [''DoD'', ''AB'']" by code_simp
  then have o: "ous (clean_config ?cfg) = [''DoD'', ''AB'']" by (simp add: clean_config_def)
  show ?thesis using clean_config_dedup [of ?cfg] o d by (simp add: Let_def)
qed

end
