(* ===== verification/Requests.thy ===== *)
theory Requests
  imports SigningRoutes CsrSubject
begin

text \<open>
  How jobs come to be: \<^verbatim>\<open>backend/routes_requests.py\<close> (the certificate list, generation on the host,
  external CSRs, automatic signing, key downloads of a session) and \<^verbatim>\<open>renew_job\<close> of
  \<^verbatim>\<open>backend/routes_jobs.py\<close>. A new job id is the next token of the random source. The text of an
  exception that only reaches a log line is the name of its class; the long dash of one message,
  outside Latin-1, is a hyphen here.
\<close>

subsection \<open>Input checks\<close>

definition HOSTNAME_RE :: "string \<Rightarrow> bool" where
  "HOSTNAME_RE = at_end (\<lambda>s. s \<noteq> [] \<and> is_alnum (hd s) \<and> length s \<le> 254 \<and> list_all file_char (tl s))"

definition CERTLIST_LINE_RE :: "string \<Rightarrow> bool" where
  "CERTLIST_LINE_RE = at_end (\<lambda>s. length s \<le> 253 \<and> list_all (\<lambda>c. is_alnum c \<or> c \<in> set ''._,@+:-'') s)"

definition validate_email :: "json \<Rightarrow> string + string option" where
  "validate_email v =
     (case v of
        JNull \<Rightarrow> Inr None
      | JStr raw \<Rightarrow>
          let a = strip raw in
          if a = [] then Inr None
          else if 254 < length a then Inl ''email too long''
          else if \<not> EMAIL_RE a then Inl ''invalid email format''
          else Inr (Some a)
      | _ \<Rightarrow> Inl ''email must be a string'')"

definition my_email :: "ctx \<Rightarrow> string option" where
  "my_email c = (case c_user c of None \<Rightarrow> None | Some u \<Rightarrow> u_email u)"

definition no_email :: string where
  "no_email = ''No notification email on file. Set your email '' @ ''in Settings before creating requests.''"

definition chosen_group :: "ctx \<Rightarrow> json \<Rightarrow> 'h world \<Rightarrow> (nat \<times> string) + int option" where
  "chosen_group c v w =
     (if v = JNull then Inr None
      else case int_of_json v of
        Inl _ \<Rightarrow> Inl (400, ''invalid group_id'')
      | Inr g \<Rightarrow>
          if group_by_id (Some g) w = None then Inl (400, ''group does not exist'')
          else if \<not> is_admin c \<and> g \<notin> set (user_group_ids (me c) w)
          then Inl (403, ''you are not a member of that group'')
          else Inr (Some g))"

subsection \<open>The certificate list\<close>

definition certlist_get :: "'h env \<Rightarrow> ctx \<Rightarrow> string \<Rightarrow> string \<Rightarrow> 'h world \<Rightarrow> response \<times> 'h world" where
  "certlist_get e c subcmd action w =
     (case run_helper e [subcmd] [] w of ((rc, out, _), w1) \<Rightarrow>
        if rc \<noteq> 0 then refuse 500 ''read failed'' (log_event c action ''error'' [(''rc'', int_str rc)] w1)
        else (ok_reply [(''content'', JStr out)],
              log_event c action ''ok'' [(''bytes'', nat_str (length out))] w1))"

fun bad_line :: "nat \<Rightarrow> string list \<Rightarrow> nat option" where
  "bad_line n [] = None"
| "bad_line n (l # ls) = (if CERTLIST_LINE_RE l then bad_line (Suc n) ls else Some n)"

definition certlist_put :: "'h env \<Rightarrow> ctx \<Rightarrow> string \<Rightarrow> string \<Rightarrow> 'h world \<Rightarrow> response \<times> 'h world" where
  "certlist_put e c subcmd action w =
     with_payload e c w (\<lambda>p.
       case (if jhas ''content'' p then jget ''content'' p else JStr []) of
         JStr text \<Rightarrow>
           if MAX_CERTLIST_BYTES e < length (utf8 text)
           then refuse 413 ''payload too large'' (log_event c action ''deny_size'' [] w)
           else (case bad_line 1 (splitlines text) of
             Some n \<Rightarrow> refuse 400 (''invalid characters on line '' @ nat_str n)
                         (log_event c action ''deny_invalid'' [(''line'', nat_str n)] w)
           | None \<Rightarrow>
               (case run_helper e [subcmd] text w of ((rc, _, _), w1) \<Rightarrow>
                  if rc \<noteq> 0 then refuse 400 ''write failed'' (log_event c action ''error'' [(''rc'', int_str rc)] w1)
                  else (ok_json, log_event c action ''ok'' [(''bytes'', nat_str (length text))] w1)))
       | _ \<Rightarrow> refuse 400 ''content must be string'' w)"

definition get_certlist_rhel :: "'h env \<Rightarrow> 'h handler" where
  "get_certlist_rhel e = require_auth e ''get_certlist_rhel'' (\<lambda>c w.
     certlist_get e c ''read-certlist-rhel'' ''read_certlist_rhel'' w)"

definition put_certlist_rhel :: "'h env \<Rightarrow> 'h handler" where
  "put_certlist_rhel e = require_auth e ''put_certlist_rhel'' (require_csrf e ''put_certlist_rhel'' (\<lambda>c w.
     certlist_put e c ''write-certlist-rhel'' ''write_certlist_rhel'' w))"

subsection \<open>Automatic signing\<close>

definition auto_sign_one :: "'h env \<Rightarrow> ctx \<Rightarrow> policy \<Rightarrow> string \<Rightarrow> 'h world \<Rightarrow> 'h world" where
  "auto_sign_one e c pol job_id w =
     (let failed = (\<lambda>msg w. log_event c ''auto_sign'' ''error'' [(''job_id'', job_id), (''error'', take 160 msg)] w) in
      case row_by j_id job_id (w_jobs w) of
        None \<Rightarrow> failed ''TypeError'' w
      | Some j \<Rightarrow>
          (case sign_csr e c (j_csr_pem j) pol (''auto-sign:'' @ me c) w of
             (Inl err, w1) \<Rightarrow> failed (sign_error_text err) w1
           | (Inr (cert, chain), w1) \<Rightarrow>
               (case attach_signed_cert e c job_id cert (me c) (p_backend pol) None ''auto_sign'' chain w1 of
                  (Inl (_, msg), w2) \<Rightarrow> failed msg w2
                | (Inr _, w2) \<Rightarrow>
                    log_event c ''auto_sign'' ''issued'' [(''job_id'', job_id), (''backend'', p_backend pol)] w2)))"

definition auto_sign_jobs :: "'h env \<Rightarrow> ctx \<Rightarrow> string list \<Rightarrow> int option \<Rightarrow> 'h world \<Rightarrow> 'h world" where
  "auto_sign_jobs e c ids tid w =
     (let pol = resolve_signing_policy tid w in
      if ids = [] \<or> \<not> (p_auto_sign pol \<and> p_backend pol \<noteq> ''manual'' \<and> available_in e c w ''ca.signing.openbao'')
      then w else fold (auto_sign_one e c pol) ids w)"

subsection \<open>Rows and notices\<close>

text \<open>What a request fixes about the jobs it creates.\<close>

record request =
  rq_email :: "string option"
  rq_group :: "int option"
  rq_type :: "string option"
  rq_algo :: "string option"
  rq_template :: "int option"
  rq_source :: string
  rq_renewed_from :: "string option"

definition pending_row ::
  "ctx \<Rightarrow> request \<Rightarrow> string \<Rightarrow> string \<Rightarrow> string list \<Rightarrow> string \<Rightarrow> string option \<Rightarrow> job" where
  "pending_row c rq job_id target sans csr key =
    \<lparr>j_id = job_id, j_created_at = c_now c, j_requester_dn = me c,
     j_requester_serial = map_option id_serial (c_identity c), j_requester_ip = Some (c_remote c),
     j_requester_email = rq_email rq, j_target_host = target, j_sans = sans, j_csr_pem = csr, j_cert_pem = None,
     j_status = Pending, j_completed_at = None, j_completed_by_dn = None, j_error = None,
     j_has_local_key = (key \<noteq> None), j_local_key_name = key, j_source = rq_source rq, j_auto_renewed_at = None,
     j_group_id = rq_group rq, j_cert_type = rq_type rq, j_expires_at = None, j_renewed_from = rq_renewed_from rq,
     j_key_algo = rq_algo rq, j_expiry_warned = 0, j_approved_by_dn = None, j_approved_at = None,
     j_signed_via = None, j_template_id = rq_template rq, j_revoked_at = None, j_revoked_by_dn = None,
     j_delivery_status = None, j_key_vault_path = None, j_key_storage = None, j_chain_pem = None\<rparr>"

definition add_job :: "'h env \<Rightarrow> ctx \<Rightarrow> request \<Rightarrow> string \<Rightarrow> string list \<Rightarrow> string \<Rightarrow> string option \<Rightarrow> 'h world
    \<Rightarrow> string result \<times> 'h world" where
  "add_job e c rq target sans csr key w =
     (let job_id = drawn e w in
      case insert_row j_id (pending_row c rq job_id target sans csr key) (w_jobs w) of
        None \<Rightarrow> (Inl IntegrityError, tick w)
      | Some js \<Rightarrow> (Inr job_id, (tick w)\<lparr>w_jobs := js\<rparr>))"

definition signer_mail :: "ctx \<Rightarrow> string list \<Rightarrow> string \<Rightarrow> string option \<Rightarrow> string list \<Rightarrow> (string \<times> json) list" where
  "signer_mail c targets ctype email recipients =
     [(''targets'', strs targets), (''cert_type'', JStr ctype), (''requester'', JStr (cn_from_dn (me c))),
      (''requester_email'', jopt email), (''recipients'', strs recipients)]"

definition notify_signers :: "'h env \<Rightarrow> ctx \<Rightarrow> string list \<Rightarrow> string \<Rightarrow> string option \<Rightarrow> 'h world \<Rightarrow> 'h world" where
  "notify_signers e c targets ctype email w =
     (let rs = signer_recipients w; m = signer_mail c targets ctype email rs;
          w1 = w\<lparr>w_mail := w_mail w @ [(''csrs_created'', m)]\<rparr> in
      if rs = [] then w
      else case send_mail e ''csrs_created'' m of
        Inl err \<Rightarrow> log_event c ''email_notify'' ''exception'' [(''event'', ''csrs_created''), (''error'', take 128 err)] w1
      | Inr (sent, reason) \<Rightarrow>
          log_event c ''email_notify'' (if sent then ''ok'' else ''skip'')
            [(''event'', ''csrs_created''), (''count'', nat_str (length targets)),
             (''recipients'', nat_str (length rs)), (''reason'', take 96 reason)] w1)"

subsection \<open>Generation on the host\<close>

text \<open>The names in a listing that are no older than two seconds before the run.\<close>

definition fresh_names :: "time \<Rightarrow> int \<times> string \<times> string \<Rightarrow> string list" where
  "fresh_names start run =
     (if fst run \<noteq> 0 then []
      else map l_name (filter (\<lambda>r. start \<le> (case l_epoch r of None \<Rightarrow> 0 | Some t \<Rightarrow> t))
             (parse_helper_listing (fst (snd run)))))"

definition key_file :: "string \<Rightarrow> string" where
  "key_file csr_name = take (length csr_name - 4) csr_name @ ''.key''"

text \<open>List the fresh CSRs and keys, and give the keys to the caller's session.\<close>

definition collect_fresh :: "'h env \<Rightarrow> ctx \<Rightarrow> string option \<Rightarrow> 'h world \<Rightarrow> (string list \<times> string list) \<times> 'h world" where
  "collect_fresh e c sid w =
     (case run_helper e [''list-csrs''] [] w of (r1, w1) \<Rightarrow>
      case run_helper e [''list-keys''] [] w1 of (r2, w2) \<Rightarrow>
      let csrs = fresh_names (c_now c - 2) r1; keys = fresh_names (c_now c - 2) r2 in
      ((csrs, keys), if set_opt sid \<and> keys \<noteq> [] then add_session_keys e c sid keys w2 else w2))"

definition announce_created :: "'h env \<Rightarrow> ctx \<Rightarrow> request \<Rightarrow> string \<Rightarrow> string \<Rightarrow> bool \<Rightarrow> 'h world \<Rightarrow> 'h world" where
  "announce_created e c rq job_id target has_key w =
     fire_webhooks e c ''job.created''
       [(''job_id'', JStr job_id), (''target_host'', JStr target), (''source'', JStr ''rhel''),
        (''requester_dn'', JStr (me c)), (''requester_email'', jopt (rq_email rq)),
        (''group_id'', jint_opt (rq_group rq)), (''cert_type'', jopt (rq_type rq)), (''has_local_key'', JBool has_key)]
       (log_event c ''job_created'' ''ok''
         [(''job_id'', job_id), (''target'', target), (''has_key'', if has_key then ''1'' else ''0''), (''source'', ''rhel''),
          (''email'', if set_opt (rq_email rq) then ''set'' else ''none''),
          (''group_id'', case rq_group rq of None \<Rightarrow> ''-'' | Some g \<Rightarrow> if g = 0 then ''-'' else int_str g),
          (''cert_type'', or_empty (rq_type rq))] w)"

text \<open>One generated CSR becomes a job; one the helper cannot read is skipped.\<close>

definition ingest_one :: "'h env \<Rightarrow> ctx \<Rightarrow> request \<Rightarrow> string list \<Rightarrow> string \<Rightarrow> 'h world
    \<Rightarrow> (string \<times> string) option result \<times> 'h world" where
  "ingest_one e c rq keys csr_name w =
     (case run_helper e [''get-csr'', csr_name] [] w of ((rc, csr, _), w1) \<Rightarrow>
      if rc \<noteq> 0 then (Inr None, w1)
      else case parse_csr_subject e csr of (cn, sans) \<Rightarrow>
        let target = or_else cn (take (length csr_name - 4) csr_name); kf = key_file csr_name; has = kf \<in> set keys in
        (case add_job e c rq target sans csr (if has then Some kf else None) w1 of
           (Inl err, w2) \<Rightarrow> (Inl err, w2)
         | (Inr job_id, w2) \<Rightarrow>
             let w3 = (if has then snd (secure_after_generate e c job_id kf (rq_template rq) w2) else w2);
                 w4 = snd (run_helper e [''delete-csr'', csr_name] [] w3)
             in (Inr (Some (job_id, target)), announce_created e c rq job_id target has w4)))"

fun ingest :: "'h env \<Rightarrow> ctx \<Rightarrow> request \<Rightarrow> string list \<Rightarrow> string list \<Rightarrow> (string \<times> string) list \<Rightarrow> 'h world
    \<Rightarrow> (string \<times> string) list result \<times> 'h world" where
  "ingest e c rq keys [] made w = (Inr made, w)"
| "ingest e c rq keys (n # ns) made w =
     (case ingest_one e c rq keys n w of
        (Inl err, w1) \<Rightarrow> (Inl err, w1)
      | (Inr None, w1) \<Rightarrow> ingest e c rq keys ns made w1
      | (Inr (Some m), w1) \<Rightarrow> ingest e c rq keys ns (made @ [m]) w1)"

definition clear_certlist :: "'h env \<Rightarrow> ctx \<Rightarrow> 'h world \<Rightarrow> 'h world" where
  "clear_certlist e c w =
     (case run_helper e [''write-certlist-rhel''] [] w of ((rc, _, _), w1) \<Rightarrow>
        if rc \<noteq> 0 then log_event c ''certlist_clear'' ''warn_failed'' [(''rc'', int_str rc)] w1
        else log_event c ''certlist_clear'' ''ok'' [] w1)"

definition generate_run :: "'h env \<Rightarrow> request \<Rightarrow> string list \<Rightarrow> ctx \<Rightarrow> string option \<Rightarrow> 'h world \<Rightarrow> response \<times> 'h world" where
  "generate_run e rq options c sid w =
     (let ctype = or_empty (rq_type rq) in
      case run_helper e ([''generate-typed'', ctype, or_empty (rq_algo rq)] @ options) [] w of ((rc, out, err), w1) \<Rightarrow>
      if rc \<noteq> 0
      then (reply 422 (JObj [(''error'', JStr (''certificate generation failed '' @ ''- check the cert type ''
                @ ''and the admin CSR-subject configuration'')),
              (''returncode'', JInt rc), (''output'', JStr (out @ err)), (''jobs'', JArr [])]),
            log_event c ''generate_rhel'' ''error'' [(''rc'', int_str rc), (''cert_type'', ctype)] w1)
      else case collect_fresh e c sid w1 of ((csrs, keys), w2) \<Rightarrow>
        (case ingest e c rq keys csrs [] w2 of
           (Inl x, w3) \<Rightarrow> crash e c x w3
         | (Inr made, w3) \<Rightarrow>
             let w4 = log_event c ''generate_rhel'' ''ok''
                   [(''jobs'', nat_str (length made)), (''keys'', nat_str (length keys)), (''cert_type'', ctype)] w3;
                 w5 = auto_sign_jobs e c (map fst made) (rq_template rq) w4;
                 w6 = (if made = [] then w5 else notify_signers e c (map snd made) ctype (my_email c) w5)
             in (set_session_cookie sid (ok_reply [(''returncode'', JInt rc), (''output'', JStr (out @ err)),
                   (''jobs'', strs (map fst made)), (''new_keys'', strs keys)]),
                 clear_certlist e c w6)))"

definition generate_checked :: "'h env \<Rightarrow> json \<Rightarrow> string \<Rightarrow> string \<Rightarrow> int option \<Rightarrow> ctx \<Rightarrow> 'h world \<Rightarrow> response \<times> 'h world" where
  "generate_checked e p email ctype gid c w =
     attempt e c (str_or_empty (jget ''key_algo'' p)) w (\<lambda>a.
     let algo = lower (strip (or_else a ''rsa2048'')) in
     if algo \<notin> set KEY_ALGOS_ALLOWED
     then refuse 400 (''invalid key_algo (allowed: '' @ join '', '' KEY_ALGOS_ALLOWED @ '')'') w
     else
       let rq = \<lparr>rq_email = Some email, rq_group = gid, rq_type = Some ctype, rq_algo = Some algo,
                 rq_template = coerce_template_id (jget ''template_id'' p) w, rq_source = ''rhel'', rq_renewed_from = None\<rparr>;
           w1 = log_event c ''generate_rhel'' ''start''
             [(''email'', ''set''), (''group_id'', case gid of None \<Rightarrow> ''-'' | Some g \<Rightarrow> if g = 0 then ''-'' else int_str g),
              (''cert_type'', ctype), (''key_algo'', algo)] w;
           suffix = jget ''domain_suffix'' p
       in case get_or_create_session e c w1 of ((sid, _), w2) \<Rightarrow>
         attempt e c (str_or_empty (jget ''subject_profile'' p)) w2 (\<lambda>prof.
           generate_run e rq [sanitize True (Some (if truthy suffix then str_of e suffix else [])),
               if prof = [] then [] else slugify (Some prof)] c sid w2))"

definition generate_rhel :: "'h env \<Rightarrow> 'h handler" where
  "generate_rhel e = require_auth e ''generate_rhel'' (require_csrf e ''generate_rhel'' (\<lambda>c w.
     with_payload e c w (\<lambda>p.
       let given = jget ''requester_email'' p;
           submitted = (case given of JNull \<Rightarrow> jopt (my_email c)
             | JStr s \<Rightarrow> if strip s = [] then jopt (my_email c) else given | _ \<Rightarrow> given) in
       case validate_email submitted of
         Inl msg \<Rightarrow> refuse 400 msg (log_event c ''generate_rhel'' ''deny_invalid_email'' [] w)
       | Inr None \<Rightarrow> refuse 400 no_email (log_event c ''generate_rhel'' ''deny_no_email'' [] w)
       | Inr (Some email) \<Rightarrow>
           (case normalize_cert_types e (jget ''cert_type'' p) of
              Inl msg \<Rightarrow> refuse 400 msg w
            | Inr ct \<Rightarrow>
                (case chosen_group c (jget ''group_id'' p) w of
                   Inl (code, msg) \<Rightarrow> refuse code msg w
                 | Inr gid \<Rightarrow> generate_checked e p email (case ct of None \<Rightarrow> ''web'' | Some t \<Rightarrow> t) gid c w)))))"

subsection \<open>External CSRs\<close>

definition external_job :: "'h env \<Rightarrow> json \<Rightarrow> string \<Rightarrow> request \<Rightarrow> string \<Rightarrow> ctx \<Rightarrow> 'h world \<Rightarrow> response \<times> 'h world" where
  "external_job e p csr rq target c w =
     (case parse_csr_subject e csr of (cn, sans) \<Rightarrow>
      case add_job e c rq target sans csr None w of
        (Inl err, w1) \<Rightarrow> crash e c err w1
      | (Inr job_id, w1) \<Rightarrow>
          let w2 = log_event c ''submit_external'' ''ok''
                [(''job_id'', job_id), (''target'', target), (''cn'', or_else cn ''-''), (''email'', ''set''),
                 (''group_id'', case rq_group rq of None \<Rightarrow> ''-'' | Some g \<Rightarrow> if g = 0 then ''-'' else int_str g),
                 (''cert_type'', log_text (rq_type rq))] w1;
              w3 = fire_webhooks e c ''job.created''
                [(''job_id'', JStr job_id), (''target_host'', JStr target), (''source'', JStr ''external''),
                 (''requester_dn'', JStr (me c)), (''requester_email'', jopt (rq_email rq)),
                 (''group_id'', jint_opt (rq_group rq)), (''cert_type'', jopt (rq_type rq)),
                 (''has_local_key'', JBool False), (''cn'', JStr cn)] w2;
              w4 = notify_signers e c [target] (or_else (or_empty (rq_type rq)) ''unspecified'') (my_email c) w3;
              w5 = auto_sign_jobs e c [job_id] (rq_template rq) w4
          in (ok_reply [(''job_id'', JStr job_id),
                (''status'', JStr (case row_by j_id job_id (w_jobs w5) of None \<Rightarrow> ''pending'' | Some j \<Rightarrow> status_str (j_status j))),
                (''cn'', JStr cn), (''sans'', strs sans)], w5))"

definition external_checked :: "'h env \<Rightarrow> json \<Rightarrow> string \<Rightarrow> string \<Rightarrow> string \<Rightarrow> ctx \<Rightarrow> 'h world \<Rightarrow> response \<times> 'h world" where
  "external_checked e p csr target email c w =
     (case chosen_group c (jget ''group_id'' p) w of
        Inl (code, msg) \<Rightarrow> refuse code msg w
      | Inr gid \<Rightarrow>
          (case normalize_cert_types e (jget ''cert_type'' p) of
             Inl msg \<Rightarrow> refuse 400 msg w
           | Inr ct \<Rightarrow>
               (case openssl e [''req'', ''-noout'', ''-verify''] csr of
                  None \<Rightarrow> refuse 400 ''CSR validation error'' (log_event c ''submit_external'' ''error_validation'' [] w)
                | Some (rc, out, err) \<Rightarrow>
                    if \<not> (contains ''verify OK'' (out @ err) \<or> rc = 0)
                    then refuse 400 ''CSR signature failed validation''
                           (log_event c ''submit_external'' ''deny_invalid_csr'' [] w)
                    else external_job e p csr
                      \<lparr>rq_email = Some email, rq_group = gid, rq_type = ct, rq_algo = None,
                       rq_template = coerce_template_id (jget ''template_id'' p) w, rq_source = ''external'',
                       rq_renewed_from = None\<rparr> target c w)))"

definition submit_external_body :: "'h env \<Rightarrow> ctx \<Rightarrow> 'h world \<Rightarrow> response \<times> 'h world" where
  "submit_external_body e c w =
     with_payload e c w (\<lambda>p.
     attempt e c (if \<not> jhas ''target_host'' p then Inr []
                  else case jget ''target_host'' p of JStr s \<Rightarrow> Inr (strip s) | _ \<Rightarrow> Inl AttributeError) w (\<lambda>target.
     case jget ''csr_pem'' p of
       JStr csr \<Rightarrow>
         if \<not> (50 < length csr \<and> length csr \<le> MAX_CSR_BYTES e) then refuse 400 ''invalid csr_pem'' w
         else if target = [] \<or> \<not> HOSTNAME_RE target then refuse 400 ''invalid target_host'' w
         else (case validate_email (jget ''requester_email'' p) of
           Inl msg \<Rightarrow> refuse 400 msg w
         | Inr given \<Rightarrow>
             let email = (case given of None \<Rightarrow> my_email c | Some a \<Rightarrow> Some a) in
             if \<not> set_opt email then refuse 400 no_email (log_event c ''submit_external'' ''deny_no_email'' [] w)
             else external_checked e p csr target (or_empty email) c w)
     | _ \<Rightarrow> refuse 400 ''invalid csr_pem'' w))"

definition submit_external :: "'h env \<Rightarrow> 'h handler" where
  "submit_external e = require_auth e ''submit_external'' (require_csrf e ''submit_external'' (submit_external_body e))"

subsection \<open>Keys of a session\<close>

definition list_session_keys :: "'h env \<Rightarrow> 'h handler" where
  "list_session_keys e = require_auth e ''list_session_keys'' (\<lambda>c w0.
     case get_session_keys c w0 of (claimed, w) \<Rightarrow>
     if claimed = [] then (ok_reply [(''keys'', JArr [])], w)
     else case run_helper e [''list-keys''] [] w of ((rc, out, _), w1) \<Rightarrow>
       if rc \<noteq> 0 then (ok_reply [(''keys'', JArr [])], log_event c ''list_keys'' ''error'' [(''rc'', int_str rc)] w1)
       else let rows = filter (\<lambda>r. l_name r \<in> set claimed) (parse_helper_listing out) in
         (ok_reply [(''keys'', JArr (map (\<lambda>r. JObj [(''name'', JStr (l_name r)), (''size'', JInt (l_size r)),
                                                    (''mtime'', JStr (l_mtime r))]) rows))],
          log_event c ''list_keys'' ''ok'' [(''count'', nat_str (length rows))] w1))"

definition fetch_key :: "'h env \<Rightarrow> string \<Rightarrow> 'h handler" where
  "fetch_key e name = require_auth e ''fetch_key'' (\<lambda>c w0.
     if \<not> KEY_NAME_RE name
     then abort e c 400 (log_event c ''fetch_key'' ''deny_invalid'' [(''name'', take 64 name)] w0)
     else case get_session_keys c w0 of (claimed, w) \<Rightarrow>
       if name \<notin> set claimed
       then abort e c 403 (log_event c ''fetch_key'' ''deny_not_in_session'' [(''name'', name)] w)
       else case fetch_by_name e name w of (r, w1) \<Rightarrow>
         attempt e c (sign_result_of r) w1 (\<lambda>out.
           if strip (or_empty out) = []
           then refuse 404 ''not found'' (log_event c ''fetch_key'' ''not_found'' [(''name'', name)] w1)
           else (content_reply (or_empty out),
                 log_event c ''fetch_key'' ''ok'' [(''name'', name), (''bytes'', nat_str (length (or_empty out)))] w1)))"

subsection \<open>Renewal\<close>

text \<open>\<open>s.replace(p, q)\<close>\<close>

fun replace_all :: "string \<Rightarrow> string \<Rightarrow> string \<Rightarrow> string" where
  "replace_all p q [] = []"
| "replace_all p q (c # s) =
     (if starts_with p (c # s) then q @ replace_all p q (drop (length p - 1) s) else c # replace_all p q s)"

definition renew_type :: "job \<Rightarrow> string" where
  "renew_type j = replace_all ''server-client'' ''client,web'' (or_else (or_empty (j_cert_type j)) ''web'')"

definition renew_algo :: "job \<Rightarrow> string" where
  "renew_algo j =
     (let a = or_else (or_empty (j_key_algo j)) ''rsa2048'' in if a \<in> set KEY_ALGOS_ALLOWED then a else ''rsa2048'')"

text \<open>One line of the certificate list: the host, then its other names.\<close>

definition renew_line :: "job \<Rightarrow> string" where
  "renew_line j =
     join '','' (j_target_host j # filter (\<lambda>s. s \<noteq> [] \<and> s \<noteq> j_target_host j) (j_sans j)) @ [nl]"

definition may_renew :: "ctx \<Rightarrow> 'h world \<Rightarrow> job \<Rightarrow> bool" where
  "may_renew c w j =
     (is_admin c \<or> j_requester_dn j = me c
      \<or> (case j_group_id j of None \<Rightarrow> False | Some g \<Rightarrow> g \<noteq> 0 \<and> g \<in> set (user_group_ids (me c) w)))"

definition renew_ingest ::
  "'h env \<Rightarrow> ctx \<Rightarrow> job \<Rightarrow> string \<Rightarrow> string \<Rightarrow> string list \<Rightarrow> string \<Rightarrow> 'h world \<Rightarrow> response \<times> 'h world" where
  "renew_ingest e c old job_id email keys csr_name w =
     (case run_helper e [''get-csr'', csr_name] [] w of ((rc, csr, _), w1) \<Rightarrow>
      if rc \<noteq> 0 then refuse 500 ''could not read generated CSR'' w1
      else case parse_csr_subject e csr of (cn, sans) \<Rightarrow>
        let kf = key_file csr_name; has = kf \<in> set keys; target = or_else cn (j_target_host old);
            rq = \<lparr>rq_email = Some email, rq_group = j_group_id old, rq_type = Some (renew_type old),
                  rq_algo = Some (renew_algo old), rq_template = None, rq_source = ''rhel'',
                  rq_renewed_from = Some job_id\<rparr> in
        (case add_job e c rq target sans csr (if has then Some kf else None) w1 of
           (Inl err, w2) \<Rightarrow> crash e c err w2
         | (Inr new_id, w2) \<Rightarrow>
             let w3 = (if has then snd (secure_after_generate e c new_id kf (j_template_id old) w2) else w2);
                 w4 = snd (run_helper e [''delete-csr'', csr_name] [] w3);
                 w5 = log_event c ''renew_job'' ''ok''
                   [(''job_id'', job_id), (''new_job_id'', new_id), (''target'', j_target_host old),
                    (''cert_type'', renew_type old), (''key_algo'', renew_algo old)] w4;
                 w6 = fire_webhooks e c ''job.created''
                   [(''job_id'', JStr new_id), (''target_host'', JStr target), (''source'', JStr ''rhel''),
                    (''requester_dn'', JStr (me c)), (''requester_email'', JStr email),
                    (''group_id'', jint_opt (j_group_id old)), (''cert_type'', JStr (renew_type old)),
                    (''renewed_from'', JStr job_id), (''has_local_key'', JBool has)] w5;
                 rs = signer_recipients w6
             in (ok_reply [(''ok'', JBool True), (''new_job_id'', JStr new_id)],
                 if rs = [] then w6
                 else w6\<lparr>w_mail := w_mail w6 @
                   [(''csrs_created'', signer_mail c [target] (renew_type old) (Some email) rs)]\<rparr>)))"

text \<open>
  The list is staged for one line, generation runs, and whatever was staged before is put back. When
  the line cannot be written the request ends at once.
\<close>

definition renew_generate ::
  "'h env \<Rightarrow> ctx \<Rightarrow> job \<Rightarrow> 'h world \<Rightarrow> (string + string option \<times> int \<times> string) \<times> 'h world" where
  "renew_generate e c old w =
     (case run_helper e [''read-certlist-rhel''] [] w of ((rc_r, text, _), w1) \<Rightarrow>
      let staged = (if rc_r = 0 then text else []) in
      case run_helper e [''write-certlist-rhel''] (renew_line old) w1 of ((rc_w, _, err_w), w2) \<Rightarrow>
      if rc_w \<noteq> 0 then (Inl err_w, w2)
      else case get_or_create_session e c w2 of ((sid, _), w3) \<Rightarrow>
        case run_helper e [''generate-typed'', renew_type old, renew_algo old] [] w3 of ((rc, out, err), w4) \<Rightarrow>
        (Inr (sid, rc, out @ err), snd (run_helper e [''write-certlist-rhel''] staged w4)))"

definition renew_body :: "'h env \<Rightarrow> string \<Rightarrow> job \<Rightarrow> string \<Rightarrow> ctx \<Rightarrow> 'h world \<Rightarrow> response \<times> 'h world" where
  "renew_body e job_id old email c w =
     (case renew_generate e c old w of
        (Inl err, w1) \<Rightarrow> refuse 500 (''could not stage renewal: '' @ take 200 err) w1
      | (Inr (sid, rc, text), w1) \<Rightarrow>
          if rc \<noteq> 0
          then (reply 500 (JObj [(''error'', JStr ''generation failed''), (''output'', JStr (take 500 text))]),
                log_event c ''renew_job'' ''error'' [(''job_id'', job_id), (''rc'', int_str rc)] w1)
          else case collect_fresh e c sid w1 of ((csrs, keys), w2) \<Rightarrow>
            (case csrs of
               [] \<Rightarrow> refuse 500 ''generation produced no CSR'' w2
             | csr_name # _ \<Rightarrow> renew_ingest e c old job_id email keys csr_name w2))"

definition renew_job :: "'h env \<Rightarrow> string \<Rightarrow> 'h handler" where
  "renew_job e job_id =
     require_auth e ''renew_job'' (require_csrf e ''renew_job'' (\<lambda>c w0. valid_job_id e job_id (\<lambda>w1.
     let w = sweep_expired e c w1 in
     with_job e c job_id w (\<lambda>old.
       if j_status old \<notin> {Issued, Expired}
       then refuse 409 (''cannot renew a job in status '' @ [CHR 0x27] @ status_str (j_status old) @ [CHR 0x27]) w
       else if \<not> may_renew c w old
       then refuse 403 ''only the requester, group members, or an admin can renew''
              (log_event c ''renew_job'' ''deny_not_authorized'' [(''job_id'', job_id)] w)
       else if \<not> set_opt (my_email c) then refuse 400 no_email w
       else renew_body e job_id old (or_empty (my_email c)) c w)) c w0))"

subsection \<open>The certificate list is checked\<close>

lemma bad_line_None: "bad_line n ls = None \<Longrightarrow> list_all CERTLIST_LINE_RE ls"
  by (induction n ls rule: bad_line.induct) (auto split: if_splits)

text \<open>
  Nothing unchecked reaches the certificate list. Storing the list either leaves the host as it was
  or runs the root helper once, with a text of bounded size whose every line matches the allowed pattern;
  a 200 is answered only when that run succeeded.
\<close>
theorem certlist_put_checked:
  "w_host (snd (certlist_put e c subcmd action w)) = w_host w \<and> status_code (fst (certlist_put e c subcmd action w)) \<noteq> 200
   \<or> (\<exists>text rc out err h. list_all CERTLIST_LINE_RE (splitlines text) \<and> length (utf8 text) \<le> MAX_CERTLIST_BYTES e
        \<and> helper e [subcmd] text (w_host w) = ((rc, out, err), h)
        \<and> w_host (snd (certlist_put e c subcmd action w)) = h
        \<and> (status_code (fst (certlist_put e c subcmd action w)) = 200) = (rc = 0))"
proof (cases "payload_of (c_body c)")
  case (Inl x)
  then show ?thesis by (simp add: certlist_put_def with_payload_def crash_def failure_def)
next
  case (Inr p)
  let ?v = "if jhas ''content'' p then jget ''content'' p else JStr []"
  have run: "certlist_put e c subcmd action w = (case ?v of
         JStr text \<Rightarrow>
           if MAX_CERTLIST_BYTES e < length (utf8 text)
           then refuse 413 ''payload too large'' (log_event c action ''deny_size'' [] w)
           else (case bad_line 1 (splitlines text) of
             Some n \<Rightarrow> refuse 400 (''invalid characters on line '' @ nat_str n)
                         (log_event c action ''deny_invalid'' [(''line'', nat_str n)] w)
           | None \<Rightarrow>
               (case run_helper e [subcmd] text w of ((rc, _, _), w1) \<Rightarrow>
                  if rc \<noteq> 0 then refuse 400 ''write failed'' (log_event c action ''error'' [(''rc'', int_str rc)] w1)
                  else (ok_json, log_event c action ''ok'' [(''bytes'', nat_str (length text))] w1)))
       | _ \<Rightarrow> refuse 400 ''content must be string'' w)"
    by (simp add: certlist_put_def with_payload_def Inr)
  show ?thesis
  proof (cases "\<exists>text. ?v = JStr text \<and> length (utf8 text) \<le> MAX_CERTLIST_BYTES e \<and> bad_line 1 (splitlines text) = None")
    case True
    then obtain q where t: "?v = JStr q" "length (utf8 q) \<le> MAX_CERTLIST_BYTES e"
      "bad_line 1 (splitlines q) = None" by blast
    obtain rc out err h where h: "helper e [subcmd] q (w_host w) = ((rc, out, err), h)" by (metis prod.exhaust)
    have "w_host (snd (certlist_put e c subcmd action w)) = h
        \<and> (status_code (fst (certlist_put e c subcmd action w)) = 200) = (rc = 0)"
      using t by (simp add: run run_helper_def h ok_json_def)
    with t h bad_line_None [OF t(3)] show ?thesis by blast
  next
    case False
    then show ?thesis unfolding run by (cases ?v) (auto split: option.split)
  qed
qed

subsection \<open>What a generation run claims\<close>

lemma keysess_set [simp]: "w_keysess (snd (run_helper e a i w)) = w_keysess w"
  by simp

text \<open>
  A generation run claims by time alone. After the run the caller's session holds, beside what it held, the
  name of every key file the helper lists that is no older than two seconds before the request, no matter
  whose request made it.
\<close>
theorem generation_claims_fresh_keys:
  assumes "collect_fresh e c (Some sid) w = ((csrs, keys), w')" "sid \<noteq> []"
    and "row_by k_sid sid (w_keysess w) = Some s"
  shows "\<exists>s'. row_by k_sid sid (w_keysess w') = Some s' \<and> k_dn s' = k_dn s \<and> set (k_keys s') = set (k_keys s) \<union> set keys
    \<and> keys = fresh_names (c_now c - 2) (fst (run_helper e [''list-keys''] [] (snd (run_helper e [''list-csrs''] [] w))))"
proof -
  obtain r1 w1 where 1: "run_helper e [''list-csrs''] [] w = (r1, w1)" by (metis prod.exhaust)
  obtain r2 w2 where 2: "run_helper e [''list-keys''] [] w1 = (r2, w2)" by (metis prod.exhaust)
  from 1 2 have k: "w_keysess w2 = w_keysess w"
    using keysess_set [of e "[''list-csrs'']" "[]" w] keysess_set [of e "[''list-keys'']" "[]" w1] by (simp only: snd_conv)
  from assms(1) 1 2 have ks: "keys = fresh_names (c_now c - 2) r2"
    and w': "w' = (if keys \<noteq> [] then add_session_keys e c (Some sid) keys w2 else w2)"
    using assms(2) by (auto simp: collect_fresh_def Let_def set_opt_def)
  have ex: "keys = fresh_names (c_now c - 2) (fst (run_helper e [''list-keys''] [] (snd (run_helper e [''list-csrs''] [] w))))"
    by (simp only: 1 2 snd_conv fst_conv ks)
  show ?thesis
  proof (cases "keys = []")
    case True
    with k w' assms(3) have "row_by k_sid sid (w_keysess w') = Some s" by simp
    with True ex show ?thesis by (intro exI [of _ s] conjI) simp_all
  next
    case False
    have "row_by k_sid sid (w_keysess w') = Some (s\<lparr>k_keys := sort (remdups (k_keys s @ keys)), k_expires := c_now c + SESSION_TTL e\<rparr>)"
      using False w' k assms(3) row_by_SomeD [OF assms(3)]
      by (simp add: add_session_keys_def modify_row_def row_by_update_where)
    with ex show ?thesis by (intro exI conjI) (assumption, simp, simp)
  qed
qed

text \<open>A host where somebody else's run has just left a key, and a session of the caller without keys.\<close>

definition busy_env :: "unit env" where
  "busy_env = quiet_env\<lparr>helper := (\<lambda>args i h. ((0, if args = [''list-keys'']
     then ''eve.key'' @ [CHR 0x09] @ ''10'' @ [CHR 0x09] @ ''now'' @ [CHR 0x09] @ ''999'' else [], []), h))\<rparr>"

definition ada_session :: "string list \<Rightarrow> key_session" where
  "ada_session ks = \<lparr>k_sid = ''s'', k_dn = ''CN=ADA'', k_created = 0, k_expires = 9000, k_keys = ks\<rparr>"

theorem generation_claims_fresh_keys_witness:
  "\<exists>s. row_by k_sid ''s'' (w_keysess (snd (collect_fresh busy_env sample_ctx (Some ''s'')
     (sample_world\<lparr>w_keysess := [ada_session []]\<rparr>)))) = Some s \<and> k_dn s = ''CN=ADA'' \<and> ''eve.key'' \<in> set (k_keys s)"
proof -
  let ?w = "sample_world\<lparr>w_keysess := [ada_session []]\<rparr>"
  obtain csrs keys w' where r: "collect_fresh busy_env sample_ctx (Some ''s'') ?w = ((csrs, keys), w')"
    by (metis prod.exhaust)
  have row: "row_by k_sid ''s'' (w_keysess ?w) = Some (ada_session [])" by (simp add: ada_session_def)
  have l: "map l_name (filter (\<lambda>r. 998 \<le> (case l_epoch r of None \<Rightarrow> 0 | Some t \<Rightarrow> t)) (parse_helper_listing
      (''eve.key'' @ [CHR 0x09] @ ''10'' @ [CHR 0x09] @ ''now'' @ [CHR 0x09] @ ''999''))) = [''eve.key'']"
    by code_simp
  have run: "fst (run_helper busy_env [''list-keys''] [] w1) =
      (0, ''eve.key'' @ [CHR 0x09] @ ''10'' @ [CHR 0x09] @ ''now'' @ [CHR 0x09] @ ''999'', [])" for w1
    by (simp add: busy_env_def quiet_env_def)
  have "c_now sample_ctx - 2 = 998" by (simp add: sample_ctx_def)
  then have "fresh_names (c_now sample_ctx - 2) (fst (run_helper busy_env [''list-keys''] [] w1)) = [''eve.key'']" for w1
    unfolding fresh_names_def run using l by simp
  with generation_claims_fresh_keys [OF r _ row] r show ?thesis by (auto simp: ada_session_def)
qed

subsection \<open>External requests\<close>

lemma add_job_row:
  assumes "add_job e c rq target sans csr key w = (Inr i, w')"
  shows "i = drawn e w \<and> row_by j_id i (w_jobs w) = None \<and>
    row_by j_id k (w_jobs w') = (if k = i then Some (pending_row c rq i target sans csr key) else row_by j_id k (w_jobs w))"
proof -
  let ?j = "pending_row c rq (drawn e w) target sans csr key"
  have id: "j_id ?j = drawn e w" by (simp add: pending_row_def)
  from assms obtain js where js: "insert_row j_id ?j (w_jobs w) = Some js" "i = drawn e w" "w' = (tick w)\<lparr>w_jobs := js\<rparr>"
    by (auto simp: add_job_def Let_def split: option.splits)
  have "insert_row j_id ?j (w_jobs w) \<noteq> None" using js(1) by simp
  then have "row_by j_id (drawn e w) (w_jobs w) = None" using jobs.insert_iff [of ?j "w_jobs w"] id by simp
  with jobs.lookup_insert [OF js(1), of k] js id show ?thesis by simp
qed

lemma add_job_failed: "add_job e c rq target sans csr key w = (Inl err, w') \<Longrightarrow> w_jobs w' = w_jobs w"
  by (auto simp: add_job_def Let_def split: option.splits)

lemma notify_signers_frame [simp]:
  "w_jobs (notify_signers e c t ct m w) = w_jobs w" "w_settings (notify_signers e c t ct m w) = w_settings w"
  by (auto simp: notify_signers_def Let_def split: sum.split)

lemma auto_sign_one_row:
  "row_by j_id k (w_jobs (auto_sign_one e c pol i w)) = row_by j_id k (w_jobs w) \<or>
   (\<exists>j cert chain. k = i \<and> row_by j_id i (w_jobs w) = Some j \<and> j_status j = Pending
     \<and> verify_cert_matches_csr e (j_csr_pem j) cert
     \<and> row_by j_id i (w_jobs (auto_sign_one e c pol i w)) =
         Some (issue_job e (c_now c) cert (me c) (p_backend pol) None chain j))"
proof (cases "row_by j_id i (w_jobs w)")
  case None then show ?thesis by (simp add: auto_sign_one_def)
next
  case (Some j)
  obtain r w1 where s: "sign_csr e c (j_csr_pem j) pol (''auto-sign:'' @ me c) w = (r, w1)" by (metis prod.exhaust)
  have j1: "w_jobs w1 = w_jobs w" using sign_csr_jobs [of e c "j_csr_pem j" pol "''auto-sign:'' @ me c" w] by (simp only: s snd_conv)
  show ?thesis
  proof (cases r)
    case (Inl err) with Some s j1 show ?thesis by (simp add: auto_sign_one_def)
  next
    case (Inr cc)
    obtain cert chain where cc: "cc = (cert, chain)" by force
    obtain x w2 where a: "attach_signed_cert e c i cert (me c) (p_backend pol) None ''auto_sign'' chain w1 = (x, w2)"
      by (metis prod.exhaust)
    show ?thesis
    proof (cases x)
      case (Inl y)
      with a have "w_jobs w2 = w_jobs w1" using attach_refused by blast
      with Some s Inr cc a Inl j1 show ?thesis by (simp add: auto_sign_one_def split: prod.split)
    next
      case (Inr z)
      from attach_run [OF a [unfolded Inr]] Some j1 have f: "j_status j = Pending" "verify_cert_matches_csr e (j_csr_pem j) cert"
        "w_jobs w2 = modify_row j_id i (issue_job e (c_now c) cert (me c) (p_backend pol) None chain) (w_jobs w)" by auto
      have "w_jobs (auto_sign_one e c pol i w) = w_jobs w2"
        using Some s \<open>r = Inr cc\<close> cc a Inr by (simp add: auto_sign_one_def)
      with f Some show ?thesis by (auto simp: jobs.lookup_modify)
    qed
  qed
qed

lemma auto_sign_single:
  "auto_sign_jobs e c [i] tid w = w \<or> (\<exists>pol. auto_sign_jobs e c [i] tid w = auto_sign_one e c pol i w)"
  by (simp add: auto_sign_jobs_def Let_def) metis

text \<open>A job as its request made it, or already signed by the automatic policy for its own CSR.\<close>

definition fresh_or_signed :: "'h env \<Rightarrow> job \<Rightarrow> job \<Rightarrow> bool" where
  "fresh_or_signed e j0 j \<longleftrightarrow>
     j = j0 \<or> (\<exists>now cert who via chain. verify_cert_matches_csr e (j_csr_pem j0) cert
                \<and> j = issue_job e now cert who via None chain j0)"

lemma external_job_row:
  "(\<exists>err w1. external_job e p csr rq target c w = crash e c err w1 \<and> w_jobs w1 = w_jobs w) \<or>
   (status_code (fst (external_job e p csr rq target c w)) = 200 \<and>
    (\<exists>i j sans. row_by j_id i (w_jobs w) = None \<and> fresh_or_signed e (pending_row c rq i target sans csr None) j \<and>
       (\<forall>k. row_by j_id k (w_jobs (snd (external_job e p csr rq target c w))) =
          (if k = i then Some j else row_by j_id k (w_jobs w)))))"
proof -
  obtain cn sans where cn: "parse_csr_subject e csr = (cn, sans)" by force
  obtain r w1 where a: "add_job e c rq target sans csr None w = (r, w1)" by force
  show ?thesis
  proof (cases r)
    case (Inl err)
    with a cn add_job_failed [of e c rq target sans csr None w err w1] show ?thesis by (auto simp: external_job_def)
  next
    case (Inr i)
    let ?row = "pending_row c rq i target sans csr None"
    from add_job_row [OF a [unfolded Inr]] have rows: "row_by j_id i (w_jobs w) = None"
      "\<And>k. row_by j_id k (w_jobs w1) = (if k = i then Some ?row else row_by j_id k (w_jobs w))" by auto
    have "\<exists>w4. auto_sign_jobs e c [i] (rq_template rq) w4 = snd (external_job e p csr rq target c w) \<and> w_jobs w4 = w_jobs w1"
      using a cn Inr by (simp add: external_job_def Let_def) (intro exI conjI, rule refl, simp)
    moreover have "status_code (fst (external_job e p csr rq target c w)) = 200"
      using a cn Inr by (simp add: external_job_def Let_def)
    ultimately obtain w4 where w4: "w_jobs w4 = w_jobs w1"
      "snd (external_job e p csr rq target c w) = auto_sign_jobs e c [i] (rq_template rq) w4"
      "status_code (fst (external_job e p csr rq target c w)) = 200" by metis
    have st: "j_status ?row = Pending" "j_csr_pem ?row = csr" by (simp_all add: pending_row_def)
    from auto_sign_single [of e c i "rq_template rq" w4] show ?thesis
    proof (elim disjE exE)
      assume "auto_sign_jobs e c [i] (rq_template rq) w4 = w4"
      with w4 rows show ?thesis
        by (intro disjI2 conjI exI [of _ i] exI [of _ ?row] exI [of _ sans]) (simp_all add: fresh_or_signed_def)
    next
      fix pol assume eq: "auto_sign_jobs e c [i] (rq_template rq) w4 = auto_sign_one e c pol i w4"
      have other: "k \<noteq> i \<Longrightarrow> row_by j_id k (w_jobs (auto_sign_one e c pol i w4)) = row_by j_id k (w_jobs w)" for k
        using auto_sign_one_row [of k e c pol i w4] w4(1) rows(2) by auto
      have now: "row_by j_id i (w_jobs w4) = Some ?row" using w4(1) rows(2) [of i] by simp
      from auto_sign_one_row [of i e c pol i w4]
      have "\<exists>j. row_by j_id i (w_jobs (auto_sign_one e c pol i w4)) = Some j \<and> fresh_or_signed e ?row j"
        unfolding now fresh_or_signed_def by (elim disjE exE conjE) (blast, metis option.inject)
      then obtain j where "row_by j_id i (w_jobs (auto_sign_one e c pol i w4)) = Some j" "fresh_or_signed e ?row j"
        by blast
      with other w4 rows(1) eq show ?thesis by (intro disjI2 conjI exI [of _ i] exI [of _ j] exI [of _ sans]) auto
    qed
  qed
qed

lemma chosen_group_ok:
  "chosen_group c v w = Inr gid \<Longrightarrow> gid \<in> {None} \<union> Some ` (if is_admin c then UNIV else set (user_group_ids (me c) w))"
  by (auto simp: chosen_group_def split: if_splits sum.splits)

lemma chosen_group_code: "chosen_group c v w = Inl (code, msg) \<Longrightarrow> code \<noteq> 200"
  by (auto simp: chosen_group_def split: if_splits sum.splits)

lemma external_checked_cases:
  "(w_jobs (snd (external_checked e p csr target m c w)) = w_jobs w \<and> status_code (fst (external_checked e p csr target m c w)) \<noteq> 200)
   \<or> (\<exists>rq. external_checked e p csr target m c w = external_job e p csr rq target c w \<and> rq_source rq = ''external''
        \<and> rq_email rq = Some m
        \<and> rq_group rq \<in> {None} \<union> Some ` (if is_admin c then UNIV else set (user_group_ids (me c) w)))"
proof (cases "chosen_group c (jget ''group_id'' p) w")
  case (Inl x)
  then show ?thesis using chosen_group_code by (cases x) (fastforce simp: external_checked_def)
next
  case (Inr gid)
  show ?thesis
  proof (cases "normalize_cert_types e (jget ''cert_type'' p)")
    case (Inl msg) with Inr show ?thesis by (simp add: external_checked_def)
  next
    case ct: (Inr ct)
    show ?thesis
    proof (cases "openssl e [''req'', ''-noout'', ''-verify''] csr")
      case None with Inr ct show ?thesis by (simp add: external_checked_def)
    next
      case (Some r)
      obtain rc out err where "r = (rc, out, err)" by (metis prod.exhaust)
      with Some Inr ct chosen_group_ok [OF Inr] show ?thesis
        by (cases "contains ''verify OK'' (out @ err) \<or> rc = 0") (auto simp: external_checked_def)
    qed
  qed
qed

lemma external_body_cases:
  "(w_jobs (snd (submit_external_body e c w)) = w_jobs w \<and> status_code (fst (submit_external_body e c w)) \<noteq> 200)
   \<or> (\<exists>p csr target m. submit_external_body e c w = external_checked e p csr target m c w \<and> payload_of (c_body c) = Inr p
        \<and> jget ''csr_pem'' p = JStr csr \<and> HOSTNAME_RE target)"
proof (cases "payload_of (c_body c)")
  case (Inl x) then show ?thesis by (simp add: submit_external_body_def with_payload_def)
next
  case (Inr p)
  let ?t = "if \<not> jhas ''target_host'' p then Inr [] else case jget ''target_host'' p of JStr s \<Rightarrow> Inr (strip s) | _ \<Rightarrow> Inl AttributeError"
  note body = submit_external_body_def with_payload_def Inr
  show ?thesis
  proof (cases ?t)
    case (Inl err) then show ?thesis by (simp add: body)
  next
    case t: (Inr target)
    show ?thesis
    proof (cases "\<exists>csr. jget ''csr_pem'' p = JStr csr \<and> 50 < length csr \<and> length csr \<le> MAX_CSR_BYTES e \<and> HOSTNAME_RE target \<and> target \<noteq> []")
      case False
      then show ?thesis by (auto simp: body t split: json.split)
    next
      case True
      then obtain csr where c: "jget ''csr_pem'' p = JStr csr" "50 < length csr" "length csr \<le> MAX_CSR_BYTES e"
        "HOSTNAME_RE target" "target \<noteq> []" by blast
      show ?thesis
      proof (cases "validate_email (jget ''requester_email'' p)")
        case (Inl msg) with c show ?thesis by (simp add: body t)
      next
        case (Inr given)
        with c show ?thesis
          by (cases "set_opt (case given of None \<Rightarrow> my_email c | Some a \<Rightarrow> Some a)") (auto simp: body t)
      qed
    qed
  qed
qed

text \<open>
  Between two states one job is added: it holds the CSR of the request and a well-formed host name,
  belongs to the caller and to no group or one the caller may assign to, and is pending, or
  issued with a certificate for its own CSR.
\<close>

definition adds_request :: "'h env \<Rightarrow> ctx \<Rightarrow> 'h world \<Rightarrow> 'h world \<Rightarrow> bool" where
  "adds_request e c w v \<longleftrightarrow>
     (\<exists>p i j0 j. payload_of (c_body c) = Inr p \<and> jget ''csr_pem'' p = JStr (j_csr_pem j0) \<and>
        row_by j_id i (w_jobs w) = None \<and> HOSTNAME_RE (j_target_host j0) \<and> j_requester_dn j0 = me c \<and>
        j_status j0 = Pending \<and>
        j_group_id j0 \<in> {None} \<union> Some ` (if is_admin c then UNIV else set (user_group_ids (me c) w)) \<and>
        fresh_or_signed e j0 j \<and>
        (\<forall>k. row_by j_id k (w_jobs v) = (if k = i then Some j else row_by j_id k (w_jobs w))))"

lemma external_body_adds:
  "(w_jobs (snd (submit_external_body e c w)) = w_jobs w \<and> status_code (fst (submit_external_body e c w)) \<noteq> 200) \<or>
   (status_code (fst (submit_external_body e c w)) = 200 \<and> adds_request e c w (snd (submit_external_body e c w)))"
  using external_body_cases [of e c w]
proof (elim disjE exE conjE)
  fix p csr target m
  assume b: "submit_external_body e c w = external_checked e p csr target m c w" "payload_of (c_body c) = Inr p"
    "jget ''csr_pem'' p = JStr csr" "HOSTNAME_RE target"
  from external_checked_cases [of e p csr target m c w] show ?thesis
  proof (elim disjE exE conjE)
    fix rq assume r: "external_checked e p csr target m c w = external_job e p csr rq target c w"
      and g: "rq_group rq \<in> {None} \<union> Some ` (if is_admin c then UNIV else set (user_group_ids (me c) w))"
    have row: "j_csr_pem (pending_row c rq i target sans csr None) = csr"
      "j_target_host (pending_row c rq i target sans csr None) = target"
      "j_requester_dn (pending_row c rq i target sans csr None) = me c"
      "j_status (pending_row c rq i target sans csr None) = Pending"
      "j_group_id (pending_row c rq i target sans csr None) = rq_group rq" for i sans
      by (simp_all add: pending_row_def)
    from external_job_row [of e p csr rq target c w] show ?thesis
    proof (elim disjE exE conjE)
      fix i j sans
      assume "status_code (fst (external_job e p csr rq target c w)) = 200" "row_by j_id i (w_jobs w) = None"
        "fresh_or_signed e (pending_row c rq i target sans csr None) j"
        "\<forall>k. row_by j_id k (w_jobs (snd (external_job e p csr rq target c w))) =
           (if k = i then Some j else row_by j_id k (w_jobs w))"
      with b r g row [of i sans] show ?thesis unfolding adds_request_def
        by (intro disjI2 conjI exI [of _ p] exI [of _ i] exI [of _ j]
            exI [of _ "pending_row c rq i target sans csr None"]) simp_all
    qed (use b r in simp)
  qed (use b in simp)
qed simp

text \<open>
  An external request adds one job, its sender's. If the endpoint answers 200, an authenticated caller
  has added exactly one job, as described above, and every other job is unchanged; on any other answer the
  queue is unchanged.
\<close>
theorem submit_external_adds_one:
  "(if status_code (fst (submit_external e c w)) = 200
    then \<exists>c' w'. passed e c w c' w' \<and> me c' = me c \<and> c_body c' = c_body c \<and> w_jobs w' = w_jobs w \<and>
           adds_request e c' w' (snd (submit_external e c w))
    else w_jobs (snd (submit_external e c w)) = w_jobs w)"
  using guarded_run [of e c w "''submit_external''" "submit_external_body e"]
proof (elim disjE exE conjE)
  fix c' w' assume p: "passed e c w c' w'"
    and r: "require_auth e ''submit_external'' (require_csrf e ''submit_external'' (submit_external_body e)) c w = submit_external_body e c' w'"
  note same = passed_same [OF p]
  have s: "submit_external e c w = submit_external_body e c' w'" using r by (simp add: submit_external_def)
  from external_body_adds [of e c' w'] same p show ?thesis unfolding s by (elim disjE conjE) (simp, auto)
qed (simp add: submit_external_def untouched_def, auto)

subsection \<open>Renewals\<close>

lemma secure_rows:
  "\<exists>f. w_jobs (snd (secure_after_generate e c i key tid w)) = modify_row j_id i f (w_jobs w)
     \<and> (\<forall>j. \<exists>s p. f j = j\<lparr>j_key_storage := s, j_key_vault_path := p\<rparr>)"
proof -
  have host: "\<exists>f. w_jobs (snd (keep_on_host i w1)) = modify_row j_id i f (w_jobs w)
      \<and> (\<forall>j. \<exists>s p. f j = j\<lparr>j_key_storage := s, j_key_vault_path := p\<rparr>)" if "w_jobs w1 = w_jobs w" for w1
  proof (intro exI conjI allI)
    show "w_jobs (snd (keep_on_host i w1)) = modify_row j_id i (\<lambda>j. j\<lparr>j_key_storage := Some ''host''\<rparr>) (w_jobs w)"
      using that by (simp add: keep_on_host_def)
    show "j\<lparr>j_key_storage := Some ''host''\<rparr> = j\<lparr>j_key_storage := Some ''host'', j_key_vault_path := j_key_vault_path j\<rparr>" for j
      by simp
  qed
  obtain rc pem err w1 where g: "run_helper e [''get-key'', key] [] w = ((rc, pem, err), w1)" by (metis prod.exhaust)
  then have w1: "w_jobs w1 = w_jobs w" using run_helper_frame(3) [of e "[''get-key'', key]" "[]" w] by (simp only: snd_conv)
  obtain r w2 where put: "put_key e i pem w1 = (r, w2)" by (metis prod.exhaust)
  then have w2: "w_jobs w2 = w_jobs w" using put_key_frame(1) [of e i pem w1] w1 by (simp only: snd_conv)
  let ?m = "effective_mode tid w"
  consider "?m = ''host'' \<or> key = []" | "\<not> (?m = ''host'' \<or> key = [])" "\<not> vault_available e"
    | "\<not> (?m = ''host'' \<or> key = [])" "vault_available e" "rc \<noteq> 0 \<or> strip pem = []"
    | x where "\<not> (?m = ''host'' \<or> key = [])" "vault_available e" "\<not> (rc \<noteq> 0 \<or> strip pem = [])" "r = Inl x"
    | x where "\<not> (?m = ''host'' \<or> key = [])" "vault_available e" "\<not> (rc \<noteq> 0 \<or> strip pem = [])" "r = Inr x"
    by (cases r) auto
  then show ?thesis
  proof cases
    case 5
    then have "w_jobs (snd (secure_after_generate e c i key tid w)) =
        modify_row j_id i (\<lambda>j. j\<lparr>j_key_storage := Some ?m, j_key_vault_path := Some (vault_path i)\<rparr>) (w_jobs w)"
      by (simp add: secure_after_generate_def g put w2 Let_def)
    then show ?thesis by blast
  qed (simp_all add: secure_after_generate_def g put host w1 w2)
qed

lemma secure_row:
  "row_by j_id k (w_jobs (snd (secure_after_generate e c i key tid w))) = row_by j_id k (w_jobs w) \<or>
   (\<exists>j s p. k = i \<and> row_by j_id i (w_jobs w) = Some j
      \<and> row_by j_id i (w_jobs (snd (secure_after_generate e c i key tid w))) =
          Some (j\<lparr>j_key_storage := s, j_key_vault_path := p\<rparr>))"
proof -
  obtain f where f: "w_jobs (snd (secure_after_generate e c i key tid w)) = modify_row j_id i f (w_jobs w)"
    "\<forall>j. \<exists>s p. f j = j\<lparr>j_key_storage := s, j_key_vault_path := p\<rparr>"
    using secure_rows [of e c i key tid w] by blast
  have id: "j_id (f j) = j_id j" for j using f(2) [rule_format, of j] by auto
  show ?thesis
  proof (cases "row_by j_id i (w_jobs w)")
    case None
    with f(1) show ?thesis by (auto simp: jobs.lookup_modify [OF id])
  next
    case (Some j)
    from f(2) obtain s p where "f j = j\<lparr>j_key_storage := s, j_key_vault_path := p\<rparr>" by blast
    with f(1) Some show ?thesis by (auto simp: jobs.lookup_modify [OF id])
  qed
qed

lemma same_row:
  "row_by j_id i (w_jobs w) = Some j \<Longrightarrow>
     \<exists>s p. row_by j_id i (w_jobs w) = Some (j\<lparr>j_key_storage := s, j_key_vault_path := p\<rparr>)"
  by (intro exI [of _ "j_key_storage j"] exI [of _ "j_key_vault_path j"]) simp

lemma secure_own_row:
  assumes "row_by j_id i (w_jobs w) = Some j"
  shows "\<exists>s p. row_by j_id i (w_jobs (snd (secure_after_generate e c i key tid w))) =
           Some (j\<lparr>j_key_storage := s, j_key_vault_path := p\<rparr>)"
  using secure_row [of i e c i key tid w]
proof (elim disjE exE conjE)
  assume "row_by j_id i (w_jobs (snd (secure_after_generate e c i key tid w))) = row_by j_id i (w_jobs w)"
  with assms show ?thesis by (intro same_row) simp
next
  fix j' s p
  assume "row_by j_id i (w_jobs w) = Some j'" "row_by j_id i (w_jobs (snd (secure_after_generate e c i key tid w))) =
    Some (j'\<lparr>j_key_storage := s, j_key_vault_path := p\<rparr>)"
  with assms show ?thesis by auto
qed

text \<open>The job a renewal creates, up to where its key has been put.\<close>

definition renewal_of :: "ctx \<Rightarrow> job \<Rightarrow> job \<Rightarrow> bool" where
  "renewal_of c old j \<longleftrightarrow>
     j_renewed_from j = Some (j_id old) \<and> j_status j = Pending \<and> j_requester_dn j = me c \<and>
     j_group_id j = j_group_id old \<and> j_cert_type j = Some (renew_type old) \<and>
     j_key_algo j = Some (renew_algo old) \<and> renew_algo old \<in> set KEY_ALGOS_ALLOWED \<and> j_template_id j = None"

lemma renew_algo_allowed: "renew_algo j \<in> set KEY_ALGOS_ALLOWED"
  by (simp add: renew_algo_def Let_def) (simp add: KEY_ALGOS_ALLOWED_def)

lemma renew_ingest_rows:
  assumes "row_by j_id i (w_jobs w) = Some old"
  shows "(status_code (fst (renew_ingest e c old i m keys n w)) \<noteq> 200 \<and> w_jobs (snd (renew_ingest e c old i m keys n w)) = w_jobs w)
   \<or> (status_code (fst (renew_ingest e c old i m keys n w)) = 200 \<and>
      (\<exists>new j. row_by j_id new (w_jobs w) = None \<and> renewal_of c old j \<and>
        (\<forall>k. row_by j_id k (w_jobs (snd (renew_ingest e c old i m keys n w))) =
           (if k = new then Some j else row_by j_id k (w_jobs w)))))"
proof -
  have old: "j_id old = i" using row_by_SomeD [OF assms] by simp
  obtain rc csr err w1 where g: "run_helper e [''get-csr'', n] [] w = ((rc, csr, err), w1)" by (metis prod.exhaust)
  then have w1: "w_jobs w1 = w_jobs w" using run_helper_frame(3) [of e "[''get-csr'', n]" "[]" w] by (simp only: snd_conv)
  obtain cn sans where cn: "parse_csr_subject e csr = (cn, sans)" by force
  let ?kf = "key_file n" and ?rq = "\<lparr>rq_email = Some m, rq_group = j_group_id old, rq_type = Some (renew_type old),
      rq_algo = Some (renew_algo old), rq_template = None, rq_source = ''rhel'', rq_renewed_from = Some i\<rparr>"
  let ?key = "if ?kf \<in> set keys then Some ?kf else None" and ?t = "or_else cn (j_target_host old)"
  obtain r w2 where a: "add_job e c ?rq ?t sans csr ?key w1 = (r, w2)" by (metis prod.exhaust)
  show ?thesis
  proof (cases "rc = 0 \<and> \<not> isl r")
    case False
    with g w1 cn a show ?thesis
      using add_job_failed [of e c ?rq ?t sans csr ?key w1 "projl r" w2]
      by (cases "rc = 0"; cases r) (auto simp: renew_ingest_def Let_def)
  next
    case True
    then obtain new where r: "r = Inr new" by (cases r) auto
    let ?row = "pending_row c ?rq new ?t sans csr ?key"
    from add_job_row [OF a [unfolded r]] w1 have rows: "row_by j_id new (w_jobs w) = None"
      "\<And>k. row_by j_id k (w_jobs w2) = (if k = new then Some ?row else row_by j_id k (w_jobs w))" by auto
    let ?w3 = "if ?kf \<in> set keys then snd (secure_after_generate e c new ?kf (j_template_id old) w2) else w2"
    have out: "status_code (fst (renew_ingest e c old i m keys n w)) = 200"
      "w_jobs (snd (renew_ingest e c old i m keys n w)) = w_jobs ?w3"
      using True g cn a r by (simp_all add: renew_ingest_def Let_def)
    have other: "k \<noteq> new \<Longrightarrow> row_by j_id k (w_jobs ?w3) = row_by j_id k (w_jobs w)" for k
      using rows(2) [of k] secure_row [of k e c new ?kf "j_template_id old" w2] by auto
    have new: "row_by j_id new (w_jobs w2) = Some ?row" using rows(2) [of new] by simp
    have "\<exists>s p. row_by j_id new (w_jobs ?w3) = Some (?row\<lparr>j_key_storage := s, j_key_vault_path := p\<rparr>)"
      using secure_own_row [OF new, of e c ?kf "j_template_id old"] same_row [OF new]
      by (cases "?kf \<in> set keys") (simp_all only: if_True if_False)
    then obtain s p where row: "row_by j_id new (w_jobs ?w3) = Some (?row\<lparr>j_key_storage := s, j_key_vault_path := p\<rparr>)" by blast
    have "renewal_of c old (?row\<lparr>j_key_storage := s, j_key_vault_path := p\<rparr>)"
      by (simp add: renewal_of_def pending_row_def old renew_algo_allowed)
    with out rows(1) other row show ?thesis
      by (intro disjI2 conjI exI [of _ new] exI [of _ "?row\<lparr>j_key_storage := s, j_key_vault_path := p\<rparr>"]) auto
  qed
qed

end
