(* ===== verification/JobMachine.thy ===== *)
theory JobMachine
  imports Requests
begin

text \<open>
  The life of a job, across every endpoint of \<^verbatim>\<open>routes_jobs\<close>, \<^verbatim>\<open>routes_signing\<close> and
  \<^verbatim>\<open>routes_requests\<close>. \<open>job_step\<close> says what one write may do to one row, \<open>moves\<close> what a request may do
  to the table, and one rule per operation (collected in \<open>move_rules\<close>) shows that the model's operations
  stay within it. The properties are then proved once, by induction over runs. Deleting jobs, and the
  column that counts expiry warnings, belong to the administration endpoints.
\<close>

named_theorems move_rules \<open>what an operation does to the job table stays within the step relation\<close>

subsection \<open>One row\<close>

inductive job_step :: "'h env \<Rightarrow> job \<Rightarrow> job \<Rightarrow> bool" for e where
  issue: "j_status j = Pending \<Longrightarrow> verify_cert_matches_csr e (j_csr_pem j) cert \<Longrightarrow>
            job_step e j (issue_job e now cert who via ap ch j)"
| cancel: "j_status j = Pending \<Longrightarrow> job_step e j (cancelled_job c reason j)"
| fail: "j_status j = Pending \<Longrightarrow> job_step e j (failed_job c err j)"
| expire: "due now j \<Longrightarrow> job_step e j (j\<lparr>j_status := Expired\<rparr>)"
| revoke: "j_status j = Issued \<Longrightarrow> job_step e j (revoked_job c j)"
| regroup: "job_step e j (j\<lparr>j_group_id := g\<rparr>)"
| rekey: "job_step e j (j\<lparr>j_key_vault_path := p, j_has_local_key := b, j_key_storage := s\<rparr>)"

inductive_cases job_stepE: "job_step e j j'"

abbreviation job_run :: "'h env \<Rightarrow> job \<Rightarrow> job \<Rightarrow> bool" where
  "job_run e \<equiv> (job_step e)\<^sup>*\<^sup>*"

text \<open>What no write ever changes, and the abstract life of a job.\<close>

definition request_part :: "job \<Rightarrow> (string \<times> string \<times> string) \<times> (string \<times> string list) \<times> (time \<times> string option)" where
  "request_part j =
     ((j_id j, j_csr_pem j, j_requester_dn j), (j_target_host j, j_sans j), (j_created_at j, j_local_key_name j))"

fun next_status :: "status \<Rightarrow> status list" where
  "next_status Pending = [Issued, Failed, Cancelled]"
| "next_status Issued = [Expired, Revoked]"
| "next_status s = []"

text \<open>Every status within reach.\<close>

definition later_status :: "status \<Rightarrow> status list" where
  "later_status s = s # next_status s @ concat (map next_status (next_status s))"

definition certified :: "'h env \<Rightarrow> job \<Rightarrow> bool" where
  "certified e j \<longleftrightarrow>
     (if j_status j \<in> {Issued, Expired, Revoked}
      then \<exists>cert. j_cert_pem j = Some cert \<and> verify_cert_matches_csr e (j_csr_pem j) cert
      else j_cert_pem j = None)"

lemma job_step_request: "job_step e j j' \<Longrightarrow> request_part j' = request_part j"
  by (erule job_stepE) (simp_all add: request_part_def issue_job_def cancelled_job_def failed_job_def revoked_job_def)

lemma job_step_status: "job_step e j j' \<Longrightarrow> j_status j' = j_status j \<or> j_status j' \<in> set (next_status (j_status j))"
  by (erule job_stepE) (simp_all add: issue_job_def cancelled_job_def failed_job_def revoked_job_def due_def)

lemma job_step_certified: "job_step e j j' \<Longrightarrow> certified e j \<Longrightarrow> certified e j'"
  by (erule job_stepE)
     (simp_all add: certified_def issue_job_def cancelled_job_def failed_job_def revoked_job_def due_def split: if_splits)

lemma later_status_closed: "s' \<in> set (later_status s) \<Longrightarrow> t \<in> set (next_status s') \<Longrightarrow> t \<in> set (later_status s)"
  by (cases s; cases s') (auto simp: later_status_def)

lemma job_run_request: "job_run e j j' \<Longrightarrow> request_part j' = request_part j"
  by (induction rule: rtranclp_induct) (simp_all add: job_step_request)

lemma job_run_id: "job_run e j j' \<Longrightarrow> j_id j' = j_id j"
  by (drule job_run_request) (simp add: request_part_def)

lemma job_run_certified: "job_run e j j' \<Longrightarrow> certified e j \<Longrightarrow> certified e j'"
  by (induction rule: rtranclp_induct) (simp_all add: job_step_certified)

lemma job_run_status: "job_run e j j' \<Longrightarrow> j_status j' \<in> set (later_status (j_status j))"
proof (induction rule: rtranclp_induct)
  case base show ?case by (simp add: later_status_def)
next
  case (step k l)
  from job_step_status [OF step.hyps(2)] step.IH show ?case by (auto dest: later_status_closed)
qed

subsection \<open>The table\<close>

text \<open>A row that was there has run on; a new one has run from a pending job without a certificate.\<close>

definition row_moves :: "'h env \<Rightarrow> job option \<Rightarrow> job option \<Rightarrow> bool" where
  "row_moves e r r' \<longleftrightarrow>
     (case r of
        Some j \<Rightarrow> \<exists>j'. r' = Some j' \<and> job_run e j j'
      | None \<Rightarrow> \<forall>j'. r' = Some j' \<longrightarrow> (\<exists>j0. j_status j0 = Pending \<and> j_cert_pem j0 = None \<and> job_run e j0 j'))"

definition moves :: "'h env \<Rightarrow> job list \<Rightarrow> job list \<Rightarrow> bool" where
  "moves e js js' \<longleftrightarrow>
     (\<forall>k. row_moves e (row_by j_id k js) (row_by j_id k js')) \<and> (unique_key j_id js \<longrightarrow> unique_key j_id js')"

lemma row_moves_refl: "row_moves e r r'" if "r' = r"
  using that by (cases r) (auto simp: row_moves_def)

lemma moves_refl [simp]: "moves e js js"
  by (simp add: moves_def row_moves_refl)

lemma row_moves_map:
  "row_moves e r r' \<Longrightarrow> (\<And>j. r' = Some j \<Longrightarrow> job_run e j (g j)) \<Longrightarrow> row_moves e r (map_option g r')"
  by (cases r'; cases r) (auto simp: row_moves_def dest: rtranclp_trans)

lemma moves_map:
  assumes "moves e js ks"
    and "\<And>k. row_by j_id k ls = map_option g (row_by j_id k ks)"
    and "\<And>k j. row_by j_id k ks = Some j \<Longrightarrow> job_run e j (g j)"
    and "unique_key j_id ks \<Longrightarrow> unique_key j_id ls"
  shows "moves e js ls"
  using assms by (simp add: moves_def row_moves_map)

lemma moves_update [move_rules]:
  assumes "moves e js ks" "\<And>j. j_id (f j) = j_id j" "\<And>j. P j \<Longrightarrow> job_run e j (f j)"
  shows "moves e js (update_where P f ks)"
  by (rule moves_map [OF assms(1), where g = "\<lambda>j. if P j then f j else j"])
     (simp_all add: row_by_update_where assms(2) unique_key_update assms(3))

lemma moves_modify:
  assumes "moves e js ks" "\<And>j. j_id (f j) = j_id j" "\<And>j. row_by j_id i ks = Some j \<Longrightarrow> job_run e j (f j)"
  shows "moves e js (modify_row j_id i f ks)"
proof (rule moves_map [OF assms(1), where g = "\<lambda>j. if j_id j = i then f j else j"])
  show "row_by j_id k (modify_row j_id i f ks) = map_option (\<lambda>j. if j_id j = i then f j else j) (row_by j_id k ks)" for k
    by (simp add: modify_row_def row_by_update_where assms(2))
  show "row_by j_id k ks = Some j \<Longrightarrow> job_run e j (if j_id j = i then f j else j)" for k j
    using assms(3) by (auto dest: row_by_SomeD)
qed (simp add: modify_row_def unique_key_update assms(2))

lemma moves_insert:
  assumes "moves e js ks" "insert_row j_id j ks = Some ls" "j_status j = Pending" "j_cert_pem j = None"
  shows "moves e js ls"
  unfolding moves_def
proof (intro conjI allI impI)
  fix k
  have fresh: "row_by j_id (j_id j) ks = None" using jobs.insert_iff [of j ks] assms(2) by auto
  have ks: "row_moves e (row_by j_id k js) (row_by j_id k ks)" using assms(1) by (simp add: moves_def)
  show "row_moves e (row_by j_id k js) (row_by j_id k ls)"
  proof (cases "k = j_id j")
    case False
    with ks show ?thesis by (simp add: jobs.lookup_insert [OF assms(2)])
  next
    case True
    with ks fresh have "row_by j_id k js = None" by (auto simp: row_moves_def split: option.splits)
    with True assms(3,4) show ?thesis by (auto simp: row_moves_def jobs.lookup_insert [OF assms(2)])
  qed
next
  assume "unique_key j_id js"
  then have "unique_key j_id ks" using assms(1) by (simp add: moves_def)
  then show "unique_key j_id ls" using assms(2) by (rule unique_key_insert)
qed


subsection \<open>Writers\<close>

lemma moves_sweep [move_rules]:
  "moves e js (w_jobs w) \<Longrightarrow> moves e js (w_jobs (sweep_expired e' c w))"
  unfolding sweep_jobs by (rule moves_update) (auto intro: job_step.expire)

lemma moves_set_job:
  assumes "moves e js (w_jobs w)" "\<And>j. j_id (f j) = j_id j" "\<And>j. row_by j_id i (w_jobs w) = Some j \<Longrightarrow> job_run e j (f j)"
  shows "moves e js (w_jobs (set_job i f w))"
  unfolding set_job_frame by (rule moves_modify [OF assms])

lemma rekey_run:
  "job_run e j (j\<lparr>j_key_vault_path := p, j_has_local_key := b, j_key_storage := s\<rparr>)"
  "job_run e j (j\<lparr>j_key_storage := s\<rparr>)"
  "job_run e j (j\<lparr>j_key_storage := s, j_key_vault_path := p\<rparr>)"
  "job_run e j (j\<lparr>j_key_vault_path := p, j_key_storage := s\<rparr>)"
  "job_run e j (j\<lparr>j_has_local_key := b\<rparr>)"
proof -
  show r: "job_run e j (j\<lparr>j_key_vault_path := p, j_has_local_key := b, j_key_storage := s\<rparr>)" for p b s
    by (rule r_into_rtranclp) (rule job_step.rekey)
  from r [where p = "j_key_vault_path j" and b = "j_has_local_key j" and s = s] show "job_run e j (j\<lparr>j_key_storage := s\<rparr>)" by simp
  from r [where p = p and b = "j_has_local_key j" and s = s] show "job_run e j (j\<lparr>j_key_storage := s, j_key_vault_path := p\<rparr>)"
    by (cases j) simp
  from r [where p = p and b = "j_has_local_key j" and s = s] show "job_run e j (j\<lparr>j_key_vault_path := p, j_key_storage := s\<rparr>)" by simp
  from r [where p = "j_key_vault_path j" and b = b and s = "j_key_storage j"] show "job_run e j (j\<lparr>j_has_local_key := b\<rparr>)" by simp
qed

lemma moves_fetch_for_job [move_rules]:
  "moves e js (w_jobs w) \<Longrightarrow> moves e js (w_jobs (snd (fetch_for_job e' j w)))"
  by (auto simp: fetch_for_job_def Let_def host_key_def case_prod_beta
      split: sum.split sign_error.split intro!: moves_modify rekey_run)

lemma moves_fetch_by_name [move_rules]:
  "moves e js (w_jobs w) \<Longrightarrow> moves e js (w_jobs (snd (fetch_by_name e' n w)))"
  by (simp add: fetch_by_name_def host_key_def case_prod_beta moves_fetch_for_job split: option.split)

lemma moves_keep_on_host [move_rules]:
  "moves e js (w_jobs w) \<Longrightarrow> moves e js (w_jobs (snd (keep_on_host i w)))"
  by (auto simp: keep_on_host_def intro!: moves_modify rekey_run)

lemma moves_secure [move_rules]:
  assumes "moves e js (w_jobs w)"
  shows "moves e js (w_jobs (snd (secure_after_generate e' c i key tid w)))"
proof -
  obtain f where f: "w_jobs (snd (secure_after_generate e' c i key tid w)) = modify_row j_id i f (w_jobs w)"
    "\<forall>j. \<exists>s p. f j = j\<lparr>j_key_storage := s, j_key_vault_path := p\<rparr>"
    using secure_rows [of e' c i key tid w] by blast
  have g: "\<exists>s p. f j = j\<lparr>j_key_storage := s, j_key_vault_path := p\<rparr>" for j using f(2) by blast
  have "j_id (f j) = j_id j" "job_run e j (f j)" for j using g [of j] rekey_run(3) by auto
  then show ?thesis unfolding f(1) by (intro moves_modify assms)
qed

lemma moves_attach [move_rules]:
  assumes "moves e js (w_jobs w)"
  shows "moves e js (w_jobs (snd (attach_signed_cert e c i p a v ap l ch w)))"
proof (cases "isl (fst (attach_signed_cert e c i p a v ap l ch w))")
  case True
  then show ?thesis using attach_jobs [of e c i p a v ap l ch w] assms by simp
next
  case False
  then obtain x w' where r: "attach_signed_cert e c i p a v ap l ch w = (Inr x, w')"
    by (cases "attach_signed_cert e c i p a v ap l ch w"; cases "fst (attach_signed_cert e c i p a v ap l ch w)") auto
  from attach_run [OF r] obtain j where j: "row_by j_id i (w_jobs w) = Some j" "j_status j = Pending"
    "verify_cert_matches_csr e (j_csr_pem j) p"
    "w_jobs w' = modify_row j_id i (issue_job e (c_now c) p a v ap ch) (w_jobs w)" by blast
  then show ?thesis unfolding r snd_conv j(4)
    by (intro moves_modify assms) (auto intro: job_step.issue)
qed

lemma moves_close_pending [move_rules]:
  assumes "moves e js (w_jobs w)" "\<And>j. j_id (f j) = j_id j" "\<And>j. j_status j = Pending \<Longrightarrow> job_run e j (f j)"
  shows "moves e js (w_jobs (close_pending i f w))"
  unfolding close_pending_frame using assms by (intro moves_update) auto

lemma cancelled_run: "j_status j = Pending \<Longrightarrow> job_run e j (cancelled_job c r j)" "j_id (cancelled_job c r j) = j_id j"
  by (auto intro: job_step.cancel) (simp add: cancelled_job_def)

lemma failed_run: "j_status j = Pending \<Longrightarrow> job_run e j (failed_job c r j)" "j_id (failed_job c r j) = j_id j"
  by (auto intro: job_step.fail) (simp add: failed_job_def)

lemma moves_add_job [move_rules]:
  assumes "moves e js (w_jobs w)"
  shows "moves e js (w_jobs (snd (add_job e' c rq t sans csr key w)))"
proof (cases "insert_row j_id (pending_row c rq (drawn e' w) t sans csr key) (w_jobs w)")
  case None
  with assms show ?thesis by (simp add: add_job_def Let_def)
next
  case (Some ls)
  then have "w_jobs (snd (add_job e' c rq t sans csr key w)) = ls" by (simp add: add_job_def Let_def)
  with moves_insert [OF assms Some] show ?thesis by (simp add: pending_row_def)
qed

lemma moves_auto_sign_one [move_rules]:
  assumes "moves e js (w_jobs w)"
  shows "moves e js (w_jobs (auto_sign_one e c pol i w))"
  by (simp add: auto_sign_one_def Let_def case_prod_beta moves_attach assms split: option.split sum.split)

lemma moves_auto_sign_fold: "moves e js (w_jobs w) \<Longrightarrow> moves e js (w_jobs (fold (auto_sign_one e c pol) is w))"
  by (induction "is" arbitrary: w) (simp_all add: moves_auto_sign_one)

lemma moves_auto_sign_jobs [move_rules]:
  "moves e js (w_jobs w) \<Longrightarrow> moves e js (w_jobs (auto_sign_jobs e c is tid w))"
  by (simp add: auto_sign_jobs_def Let_def moves_auto_sign_fold)

subsection \<open>Endpoints\<close>

definition steady :: "'h env \<Rightarrow> 'h handler \<Rightarrow> bool" where
  "steady e h \<longleftrightarrow> (\<forall>js c w. moves e js (w_jobs w) \<longrightarrow> moves e js (w_jobs (snd (h c w))))"

lemma steadyI: "(\<And>js c w. moves e js (w_jobs w) \<Longrightarrow> moves e js (w_jobs (snd (h c w)))) \<Longrightarrow> steady e h"
  by (simp add: steady_def)

lemma steadyD: "steady e h \<Longrightarrow> moves e js (w_jobs w) \<Longrightarrow> moves e js (w_jobs (snd (h c w)))"
  by (simp add: steady_def)

lemma steady_guard: "steady e h \<Longrightarrow> steady e (guard_user e n h)"
  by (auto simp: steady_def guard_user_def case_prod_beta split: option.split sum.split)

lemma steady_auth: "steady e h \<Longrightarrow> steady e (require_auth e n h)"
  by (simp add: require_auth_def [abs_def] steady_guard)

lemma steady_csrf: "steady e h \<Longrightarrow> steady e (require_csrf e n h)"
  by (simp add: steady_def require_csrf_def)

lemmas steady_guarded = steady_auth [OF steady_csrf]

lemma moves_valid_job_id [move_rules]:
  "(moves e js (w_jobs w) \<Longrightarrow> moves e js (w_jobs (snd (k w)))) \<Longrightarrow> moves e js (w_jobs w) \<Longrightarrow>
     moves e js (w_jobs (snd (valid_job_id e' i k c w)))"
  by (simp add: valid_job_id_def)

lemma moves_with_job [move_rules]:
  "(\<And>j. row_by j_id i (w_jobs w) = Some j \<Longrightarrow> moves e js (w_jobs (snd (k j)))) \<Longrightarrow> moves e js (w_jobs w) \<Longrightarrow>
     moves e js (w_jobs (snd (with_job e' c i w k)))"
  by (simp add: with_job_def split: option.split)

lemma moves_visible [move_rules]:
  "moves e js (w_jobs (snd (k w))) \<Longrightarrow> moves e js (w_jobs w) \<Longrightarrow>
     moves e js (w_jobs (snd (require_job_visible e' c s j w k)))"
  by (simp add: require_job_visible_def)

lemma moves_attempt [move_rules]:
  "(\<And>x. moves e js (w_jobs (snd (k x)))) \<Longrightarrow> moves e js (w_jobs w) \<Longrightarrow>
     moves e js (w_jobs (snd (attempt e' c r w k)))"
  by (simp add: attempt_def split: sum.split)

lemma moves_payload [move_rules]:
  "(\<And>x. moves e js (w_jobs (snd (k x)))) \<Longrightarrow> moves e js (w_jobs w) \<Longrightarrow>
     moves e js (w_jobs (snd (with_payload e' c w k)))"
  by (simp add: with_payload_def moves_attempt)

lemmas move_defs = Let_def case_prod_beta refuse_def

lemma steady_list_jobs: "steady e (list_jobs e)"
  unfolding list_jobs_def
  by (intro steady_auth steadyI) (simp add: move_defs move_rules split: sum.split)

lemma steady_list_job_hosts: "steady e (list_job_hosts e)"
  unfolding list_job_hosts_def
  by (intro steady_auth steadyI) (simp add: move_defs move_rules)

lemma steady_get_job: "steady e (get_job e i)"
  unfolding get_job_def by (intro steady_auth steadyI) (simp add: move_defs move_rules)

lemma steady_get_job_csr: "steady e (get_job_csr e i)"
  unfolding get_job_csr_def by (intro steady_auth steadyI) (simp add: move_defs move_rules)

lemma steady_get_job_cert: "steady e (get_job_cert e i)"
  unfolding get_job_cert_def
  by (intro steady_auth steadyI) (simp add: move_defs move_rules split: sum.split)

lemma steady_get_job_cert_p12: "steady e (get_job_cert_p12 e i)"
  unfolding get_job_cert_p12_def
  by (intro steady_guarded steadyI) (simp add: move_defs move_rules split: sum.split)

lemma steady_get_job_key: "steady e (get_job_key e i)"
  unfolding get_job_key_def send_job_key_def
  by (intro steady_auth steadyI) (simp add: move_defs move_rules)

lemma steady_text_views: "steady e (get_job_csr_info e i)" "steady e (get_job_cert_info e i)"
  unfolding get_job_csr_info_def get_job_cert_info_def text_view_def
  by (intro steady_auth steadyI, simp add: move_defs move_rules split: option.split)+

lemma steady_signing_queue: "steady e (signing_queue_zip e archive)"
  unfolding signing_queue_zip_def by (intro steady_auth steadyI) (simp add: move_defs move_rules split: option.split)

lemma steady_update_job_group: "steady e (update_job_group e i)"
proof -
  have set: "moves e js (w_jobs (snd (set_job_group e i g c w)))" if "moves e js (w_jobs w)" for js g c w
    using that
    by (auto simp: set_job_group_def move_defs abort_def intro!: moves_with_job moves_modify r_into_rtranclp job_step.regroup)
  show ?thesis unfolding update_job_group_def
    by (intro steady_guarded steadyI) (simp add: move_defs move_rules set split: sum.split)
qed

lemma steady_upload_cert: "steady e (upload_cert e i)"
  unfolding upload_cert_def upload_body_def
  by (intro steady_guarded steadyI) (simp add: move_defs move_rules split: sum.split option.split)

lemma moves_cancel_body [move_rules]:
  "moves e js (w_jobs w) \<Longrightarrow> moves e js (w_jobs (snd (cancel_body e' i r c w)))"
  by (auto simp: cancel_body_def move_defs split: option.split intro!: moves_update cancelled_run)

lemma steady_cancel_job: "steady e (cancel_job e i)"
  unfolding cancel_job_def by (intro steady_guarded steadyI) (simp add: move_rules)

lemma moves_bulk_cancel [move_rules]:
  "moves e js (w_jobs w) \<Longrightarrow> moves e js (w_jobs (snd (bulk_cancel e' c r is b w)))"
  by (induction e' c r "is" b w rule: bulk_cancel.induct)
     (auto split: option.split intro!: moves_update cancelled_run)

lemma steady_bulk_cancel_jobs: "steady e (bulk_cancel_jobs e)"
  unfolding bulk_cancel_jobs_def
  by (intro steady_guarded steadyI) (simp add: move_defs move_rules split: json.split list.split option.split)

lemma steady_mark_failed: "steady e (mark_failed e i)"
proof -
  have "moves e js (w_jobs (snd (mark_failed_body e i r c w)))" if "moves e js (w_jobs w)" for js r c w
    using that by (auto simp: mark_failed_body_def move_defs split: option.split intro!: moves_update failed_run)
  then show ?thesis unfolding mark_failed_def
    by (intro steady_guarded steadyI) (simp add: move_defs move_rules)
qed

lemma sign_csr_moves: "moves e js (w_jobs w) \<Longrightarrow> moves e js (w_jobs (snd (sign_csr e' c csr pol a w)))"
  by simp

lemma steady_sign_job: "steady e (sign_job e i)"
proof -
  have one: "moves e js (w_jobs (snd (sign_and_attach e i j b pol ttl c w)))" if "moves e js (w_jobs w)" for js j b pol ttl c w
    using that
    by (simp add: sign_and_attach_def signing_refused_def move_defs moves_attach split: sum.split sign_error.split)
  show ?thesis unfolding sign_job_def
    by (intro steady_guarded steadyI)
       (simp add: sign_body_def sign_pending_def move_defs move_rules one split: option.split sum.split)
qed

lemma steady_sign_options: "steady e (sign_options e i)"
  unfolding sign_options_def
  by (intro steady_auth steadyI) (simp add: move_defs move_rules split: option.split)

lemma on_host_jobs [simp]: "w_jobs (snd (on_host w r)) = w_jobs w"
  by (simp add: on_host_def split: prod.split)

lemma steady_revoke_job: "steady e (revoke_job e i)"
proof -
  have "moves e js (w_jobs (snd (revoke_issued e i j b c w)))"
    if "moves e js (w_jobs w)" "row_by j_id i (w_jobs w) = Some j" "j_status j = Issued" for js j b c w
  proof -
    have "j_id (revoked_job c k) = j_id k" for k by (simp add: revoked_job_def)
    with that show ?thesis
      by (auto simp: revoke_issued_def move_defs split: option.split sum.split sign_error.split
          intro!: moves_modify r_into_rtranclp job_step.revoke)
  qed
  then show ?thesis unfolding revoke_job_def
    by (intro steady_guarded steadyI) (simp add: revoke_body_def move_defs split: option.split)
qed

lemma steady_certlist: "steady e (get_certlist_rhel e)" "steady e (put_certlist_rhel e)"
  unfolding get_certlist_rhel_def put_certlist_rhel_def certlist_get_def certlist_put_def
  by (intro steady_auth steady_csrf steadyI, simp add: move_defs move_rules ok_json_def split: json.split option.split)+

lemma moves_ingest_one [move_rules]:
  "moves e js (w_jobs w) \<Longrightarrow> moves e js (w_jobs (snd (ingest_one e' c rq keys n w)))"
  by (simp add: ingest_one_def announce_created_def move_defs move_rules split: sum.split)

lemma moves_ingest [move_rules]:
  "moves e js (w_jobs w) \<Longrightarrow> moves e js (w_jobs (snd (ingest e' c rq keys ns made w)))"
proof (induction e' c rq keys ns made w rule: ingest.induct)
  case (2 e' c rq keys n ns made w)
  obtain r w1 where r: "ingest_one e' c rq keys n w = (r, w1)" by (metis prod.exhaust)
  with moves_ingest_one [OF 2(3), of e' c rq keys n] have "moves e js (w_jobs w1)" by simp
  with 2(1,2) [OF r [symmetric]] r show ?case by (simp split: sum.split option.split)
qed simp

lemma key_session_jobs [simp]:
  "w_jobs (add_session_keys e c sid ks w) = w_jobs w" "w_jobs (snd (get_or_create_session e c w)) = w_jobs w"
  by (auto simp: add_session_keys_def get_or_create_session_def Let_def split: option.split)

lemma collect_fresh_jobs [simp]: "w_jobs (snd (collect_fresh e c sid w)) = w_jobs w"
  by (simp add: collect_fresh_def move_defs)

lemma clear_certlist_jobs [simp]: "w_jobs (clear_certlist e c w) = w_jobs w"
  by (simp add: clear_certlist_def move_defs)

lemma moves_generate_run [move_rules]:
  "moves e js (w_jobs w) \<Longrightarrow> moves e js (w_jobs (snd (generate_run e rq opts c sid w)))"
  by (simp add: generate_run_def move_defs move_rules split: sum.split)

lemma steady_generate_rhel: "steady e (generate_rhel e)"
proof -
  have "moves e js (w_jobs (snd (generate_checked e p m t g c w)))" if "moves e js (w_jobs w)" for js p m t g c w
    unfolding generate_checked_def using that by (intro moves_attempt) (simp_all add: move_defs move_rules)
  then show ?thesis unfolding generate_rhel_def
    by (intro steady_guarded steadyI) (simp add: move_defs move_rules split: sum.split option.split)
qed

lemma moves_external_job [move_rules]:
  "moves e js (w_jobs w) \<Longrightarrow> moves e js (w_jobs (snd (external_job e p csr rq t c w)))"
  by (simp add: external_job_def move_defs move_rules split: sum.split)

lemma steady_submit_external: "steady e (submit_external e)"
  unfolding submit_external_def submit_external_body_def external_checked_def
  by (intro steady_guarded steadyI) (simp add: move_defs move_rules split: json.split sum.split option.split)

lemma steady_session_keys: "steady e (list_session_keys e)" "steady e (fetch_key e n)"
  unfolding list_session_keys_def fetch_key_def
  by (intro steady_auth steadyI, simp add: move_defs move_rules)+

lemma moves_renew_ingest [move_rules]:
  "moves e js (w_jobs w) \<Longrightarrow> moves e js (w_jobs (snd (renew_ingest e' c old i m keys n w)))"
  by (simp add: renew_ingest_def move_defs move_rules split: sum.split)

lemma renew_generate_jobs [simp]: "w_jobs (snd (renew_generate e c old w)) = w_jobs w"
  by (simp add: renew_generate_def move_defs)

lemma moves_renew_body [move_rules]:
  "moves e js (w_jobs w) \<Longrightarrow> moves e js (w_jobs (snd (renew_body e' i old m c w)))"
  by (simp add: renew_body_def move_defs move_rules split: sum.split list.split)

lemma steady_renew_job: "steady e (renew_job e i)"
  unfolding renew_job_def by (intro steady_guarded steadyI) (simp add: move_defs move_rules)

subsection \<open>Histories\<close>

datatype job_request =
    ListJobs | ListHosts | GetJob string | GetCsr string | GetCert string | GetP12 string | GetKey string
  | CsrText string | CertText string | QueueZip | SetGroup string | Upload string | Cancel string | CancelMany
  | MarkFailed string | Sign string | SignOptions string | Revoke string | Renew string
  | Generate | External | ReadList | WriteList | SessionKeys | FetchKey string

fun serve :: "'h env \<Rightarrow> ((string \<times> string) list \<Rightarrow> string) \<Rightarrow> job_request \<Rightarrow> 'h handler" where
  "serve e archive ListJobs = list_jobs e"
| "serve e archive ListHosts = list_job_hosts e"
| "serve e archive (GetJob i) = get_job e i"
| "serve e archive (GetCsr i) = get_job_csr e i"
| "serve e archive (GetCert i) = get_job_cert e i"
| "serve e archive (GetP12 i) = get_job_cert_p12 e i"
| "serve e archive (GetKey i) = get_job_key e i"
| "serve e archive (CsrText i) = get_job_csr_info e i"
| "serve e archive (CertText i) = get_job_cert_info e i"
| "serve e archive QueueZip = signing_queue_zip e archive"
| "serve e archive (SetGroup i) = update_job_group e i"
| "serve e archive (Upload i) = upload_cert e i"
| "serve e archive (Cancel i) = cancel_job e i"
| "serve e archive CancelMany = bulk_cancel_jobs e"
| "serve e archive (MarkFailed i) = mark_failed e i"
| "serve e archive (Sign i) = sign_job e i"
| "serve e archive (SignOptions i) = sign_options e i"
| "serve e archive (Revoke i) = revoke_job e i"
| "serve e archive (Renew i) = renew_job e i"
| "serve e archive Generate = generate_rhel e"
| "serve e archive External = submit_external e"
| "serve e archive ReadList = get_certlist_rhel e"
| "serve e archive WriteList = put_certlist_rhel e"
| "serve e archive SessionKeys = list_session_keys e"
| "serve e archive (FetchKey n) = fetch_key e n"

text \<open>
  Any number of requests by anybody at any time; between them everything but the job table may change.
\<close>

inductive job_history :: "'h env \<Rightarrow> ((string \<times> string) list \<Rightarrow> string) \<Rightarrow> 'h world \<Rightarrow> 'h world \<Rightarrow> bool"
  for e archive w where
  start: "job_history e archive w w"
| request: "job_history e archive w v \<Longrightarrow> job_history e archive w (snd (serve e archive r c v))"
| elsewhere: "job_history e archive w v \<Longrightarrow> w_jobs v' = w_jobs v \<Longrightarrow> job_history e archive w v'"

lemmas steady_endpoints =
  steady_list_jobs steady_list_job_hosts steady_get_job steady_get_job_csr steady_get_job_cert steady_get_job_cert_p12
  steady_get_job_key steady_text_views steady_signing_queue steady_update_job_group steady_upload_cert
  steady_cancel_job steady_bulk_cancel_jobs steady_mark_failed steady_sign_job steady_sign_options steady_revoke_job
  steady_renew_job steady_generate_rhel steady_submit_external steady_certlist steady_session_keys

lemma steady_serve: "steady e (serve e archive r)"
  by (cases r) (simp_all add: steady_endpoints)

lemma history_moves: "job_history e archive w w' \<Longrightarrow> moves e (w_jobs w) (w_jobs w')"
  by (induction rule: job_history.induct) (auto dest: steadyD [OF steady_serve])


lemma moves_certified:
  assumes "moves e js js'" "unique_key j_id js" "\<forall>j \<in> set js. certified e j"
  shows "unique_key j_id js' \<and> (\<forall>j \<in> set js'. certified e j)"
proof -
  from assms(1,2) have u: "unique_key j_id js'" and rows: "\<And>k. row_moves e (row_by j_id k js) (row_by j_id k js')"
    by (auto simp: moves_def)
  have "certified e j'" if "j' \<in> set js'" for j'
  proof -
    have r': "row_by j_id (j_id j') js' = Some j'" using u that by (rule row_by_unique)
    have r: "row_moves e (row_by j_id (j_id j') js) (row_by j_id (j_id j') js')" by (rule rows)
    show ?thesis
    proof (cases "row_by j_id (j_id j') js")
      case None
      with r r' obtain j0 where "j_status j0 = Pending" "j_cert_pem j0 = None" "job_run e j0 j'"
        by (auto simp: row_moves_def)
      moreover from this have "certified e j0" by (simp add: certified_def)
      ultimately show ?thesis by (blast intro: job_run_certified)
    next
      case (Some j)
      with assms(3) have "certified e j" by (blast dest: row_by_SomeD)
      with r r' Some show ?thesis by (auto simp: row_moves_def intro: job_run_certified)
    qed
  qed
  with u show ?thesis by blast
qed

text \<open>
  Every certificate in the queue belongs to the key that asked for it. Once each row is certified (a job has a
  certificate exactly when it is issued, expired or revoked, and then one with the public key of its
  own CSR) and identifiers are unique, no history of requests to the job endpoints changes that.
\<close>
theorem jobs_stay_certified:
  assumes "job_history e archive w w'"
    and "unique_key j_id (w_jobs w)" "\<forall>j \<in> set (w_jobs w). certified e j"
  shows "unique_key j_id (w_jobs w') \<and> (\<forall>j \<in> set (w_jobs w'). certified e j)"
  using history_moves [OF assms(1)] assms(2,3) by (rule moves_certified)

definition one_job :: "unit world" where
  "one_job = (host_world ())\<lparr>w_jobs := [sample_job]\<rparr>"

lemma one_job_row: "row_by j_id (j_id sample_job) (w_jobs one_job) = Some sample_job"
  by (simp add: one_job_def)


theorem jobs_stay_certified_witness:
  "list_all (certified signed_env) (w_jobs (snd (serve signed_env (\<lambda>ms. []) (Upload (j_id sample_job)) ada_ctx one_job)))"
proof -
  have h: "job_history signed_env (\<lambda>ms. []) one_job
      (snd (serve signed_env (\<lambda>ms. []) (Upload (j_id sample_job)) ada_ctx one_job))"
    by (rule job_history.request) (rule job_history.start)
  have "unique_key j_id (w_jobs one_job)" by (simp add: one_job_def unique_key_def)
  moreover have "\<forall>j \<in> set (w_jobs one_job). certified signed_env j" by (simp add: one_job_def certified_def sample_job_def)
  ultimately have "\<forall>j \<in> set (w_jobs (snd (serve signed_env (\<lambda>ms. []) (Upload (j_id sample_job)) ada_ctx one_job))). certified signed_env j"
    using jobs_stay_certified [OF h] by blast
  then show ?thesis by (simp only: list_all_iff)
qed

subsection \<open>The abstract queue\<close>

text \<open>What the queue promises: identifiers with a status, new ones pending, each moving along the life cycle.\<close>

type_synonym queue = "string \<Rightarrow> status option"

inductive queue_step :: "queue \<Rightarrow> queue \<Rightarrow> bool" where
  submit: "q k = None \<Longrightarrow> queue_step q (q(k \<mapsto> Pending))"
| advance: "q k = Some s \<Longrightarrow> t \<in> set (next_status s) \<Longrightarrow> queue_step q (q(k \<mapsto> t))"

definition queue_of :: "'h world \<Rightarrow> queue" where
  "queue_of w k = map_option j_status (row_by j_id k (w_jobs w))"

lemma job_run_queue: "job_run e j j' \<Longrightarrow> q k = Some (j_status j) \<Longrightarrow> queue_step\<^sup>*\<^sup>* q (q(k \<mapsto> j_status j'))"
proof (induction rule: rtranclp_induct)
  case base
  then have "q(k \<mapsto> j_status j) = q" by auto
  then show ?case by simp
next
  case (step m n)
  let ?q = "q(k \<mapsto> j_status m)"
  have "queue_step ?q (?q(k \<mapsto> t))" if "t \<in> set (next_status (j_status m))" for t
    by (rule queue_step.advance [OF _ that]) simp
  then have "queue_step\<^sup>*\<^sup>* ?q (q(k \<mapsto> j_status n))"
    using job_step_status [OF step.hyps(2)] by auto
  with step.IH [OF step.prems] show ?case by (rule rtranclp_trans)
qed

lemma row_moves_queue:
  assumes "row_moves e r r'" "q k = map_option j_status r"
  shows "queue_step\<^sup>*\<^sup>* q (q(k := map_option j_status r'))"
proof (cases r)
  case (Some j)
  with assms show ?thesis by (auto simp: row_moves_def intro: job_run_queue)
next
  case None
  show ?thesis
  proof (cases r')
    case None
    with \<open>r = None\<close> assms(2) have "q(k := map_option j_status r') = q" by auto
    then show ?thesis by simp
  next
    case (Some j')
    with None assms(1) obtain j0 where j0: "j_status j0 = Pending" "job_run e j0 j'" by (auto simp: row_moves_def)
    have "queue_step q (q(k \<mapsto> Pending))" using None assms(2) by (intro queue_step.submit) simp
    moreover have "queue_step\<^sup>*\<^sup>* (q(k \<mapsto> Pending)) ((q(k \<mapsto> Pending))(k \<mapsto> j_status j'))"
      using j0 by (intro job_run_queue [OF j0(2)]) simp
    ultimately show ?thesis using Some by (simp add: converse_rtranclp_into_rtranclp)
  qed
qed

lemma queue_runs:
  assumes "finite K" "\<And>k. k \<in> K \<Longrightarrow> row_moves e (f k) (g k)"
  shows "queue_step\<^sup>*\<^sup>* (\<lambda>k. map_option j_status (f k))
           (\<lambda>k. map_option j_status (if k \<in> K then g k else f k))"
  using assms
proof (induction rule: finite_induct)
  case (insert x K)
  let ?q = "\<lambda>k. map_option j_status (if k \<in> K then g k else f k)"
  have "queue_step\<^sup>*\<^sup>* ?q (?q(x := map_option j_status (g x)))"
    using insert by (intro row_moves_queue [of e "f x" "g x" ?q x]) auto
  moreover have "?q(x := map_option j_status (g x)) = (\<lambda>k. map_option j_status (if k \<in> insert x K then g k else f k))"
    by auto
  ultimately show ?case using insert by (simp only: insert_iff) (metis (no_types, lifting) insert.IH rtranclp_trans)
qed simp



subsection \<open>Completion\<close>

text \<open>
  C38: the right certificate always completes its job. When the uploaded file can be read as a certificate
  openssl accepts and its public key is that of the pending job's CSR, nothing else can refuse it: the
  answer is 200 and the row is issued with that certificate.
\<close>
theorem upload_completes:
  assumes "row_by j_id i (w_jobs w) = Some j" "j_status j = Pending"
    and "payload_of (c_body c) = Inr p" "upload_bytes e p = Inr raw" "normalize_cert_to_pem e raw = Some pem"
    and "openssl e [''x509'', ''-noout'', ''-subject''] pem = Some (0, out, err)"
    and "verify_cert_matches_csr e (j_csr_pem j) pem"
  shows "status_code (fst (upload_body e i c w)) = 200 \<and>
     row_by j_id i (w_jobs (snd (upload_body e i c w))) =
       Some (issue_job e (c_now c) pem (me c) ''manual'' None [] j)"
proof -
  obtain r w1 where a: "attach_signed_cert e c i pem (me c) ''manual'' None ''upload_cert'' [] w = (r, w1)"
    by (metis prod.exhaust)
  with assms(1,2,7) obtain x where r: "r = Inr x"
    by (simp add: attach_signed_cert_def Let_def) blast
  obtain t ws h where x: "x = (t, ws, h)" by (metis prod.exhaust)
  have row: "w_jobs w1 = modify_row j_id i (issue_job e (c_now c) pem (me c) ''manual'' None []) (w_jobs w)"
    using attach_run [OF a [unfolded r]] by blast
  show ?thesis using assms(1,3-6) a r x row
    by (simp add: upload_body_def with_payload_def jobs.lookup_modify)
qed

definition cert_text :: string where
  "cert_text = BEGIN_CERT @ replicate 30 (CHR ''A'')"

theorem upload_completes_witness:
  "let c = ada_ctx\<lparr>c_body := Some (JObj [(''cert_pem'', JStr cert_text)])\<rparr> in
   status_code (fst (upload_body signed_env (j_id sample_job) c one_job)) = 200"
proof -
  let ?p = "JObj [(''cert_pem'', JStr cert_text)]"
  have p: "payload_of (Some ?p) = Inr ?p" by (simp add: payload_of_def)
  have u: "utf8 cert_text = cert_text" "utf8_decode cert_text = Some cert_text" "cert_text \<noteq> []"
    by (simp_all add: cert_text_def BEGIN_CERT_def numeral_eq_Suc cp_def)
  have l: "50 < length cert_text \<and> length cert_text < 65536" by (simp add: cert_text_def BEGIN_CERT_def)
  have k: "contains BEGIN_CERT cert_text" by code_simp
  have m: "MAX_CERT_BYTES signed_env = 65536" by (simp add: signed_env_def quiet_env_def)
  have b: "upload_bytes signed_env ?p = Inr cert_text"
    using u l by (cases cert_text) (simp_all add: upload_bytes_def m)
  have n: "normalize_cert_to_pem signed_env cert_text = Some cert_text"
    using u k by (simp add: normalize_cert_to_pem_def)
  have s: "j_status sample_job = Pending" by (simp add: sample_job_def)
  have o: "openssl signed_env [''x509'', ''-noout'', ''-subject''] cert_text = Some (0, ''KEY'', [])"
    by (simp add: signed_env_def)
  have "strip ''KEY'' = ''KEY''" by code_simp
  then have v: "verify_cert_matches_csr signed_env (j_csr_pem sample_job) cert_text"
    by (simp add: verify_cert_matches_csr_def csr_pubkey_def cert_pubkey_def openssl_out_def signed_env_def set_opt_def)
  from upload_completes [OF one_job_row s _ b n o v, of "ada_ctx\<lparr>c_body := Some ?p\<rparr>"] p
  show ?thesis by (simp add: Let_def)
qed

end
