(* ===== verification/Truststore.thy ===== *)
theory Truststore
  imports JobActions
begin

text \<open>
  The in-app CA trust store (\<^verbatim>\<open>backend/truststore.py\<close> and \<^verbatim>\<open>backend/routes_truststore.py\<close>): CA certificates
  uploaded by an administrator, the bundle built from them, the hosts it is meant for, pull tokens, and
  the installer script a host runs. A failed operation is an error text (\<open>TrustError\<close>) or an exception
  of the code's own. Pushing over SSH needs the delivery module, which is not part of this repository:
  the import fails and every push reports so.
\<close>

definition HOST_RE :: "string \<Rightarrow> bool" where
  "HOST_RE = at_end (\<lambda>s. len_between 1 253 s \<and> list_all file_char s)"

text \<open>An error text, an exception, or a result.\<close>

type_synonym 'a trusted = "(string + 'a) result"

subsection \<open>Parsing\<close>

definition full_dn :: "'h env \<Rightarrow> string \<Rightarrow> string \<Rightarrow> string result" where
  "full_dn e pem which =
     (case openssl e [''x509'', ''-noout'', if which = ''subject'' then ''-subject'' else ''-issuer'',
                      ''-nameopt'', ''RFC2253''] pem of
        None \<Rightarrow> Inl (PyError ''FileNotFoundError'')
      | Some (rc, out, _) \<Rightarrow>
          let line = strip out; pre = which @ ''='' in
          Inr (if rc \<noteq> 0 then [] else if starts_with pre line then strip (drop (length pre) line) else line))"

record ca_cert =
  ca_pem :: string
  ca_fingerprint :: string
  ca_subject :: string
  ca_issuer :: string
  ca_cn :: "string option"
  ca_serial :: "string option"
  ca_not_before :: "time option"
  ca_expires_at :: "time option"
  ca_role :: string

definition parse_one :: "'h env \<Rightarrow> string \<Rightarrow> ca_cert trusted" where
  "parse_one e pem =
     (case parse_cert e pem of
        Inl err \<Rightarrow> Inl err
      | Inr None \<Rightarrow> Inr (Inl ''could not parse certificate (is it valid PEM?)'')
      | Inr (Some x) \<Rightarrow>
          if \<not> set_opt (x_fingerprint x) then Inr (Inl ''could not parse certificate (is it valid PEM?)'')
          else if \<not> x_is_ca x
          then Inr (Inl (''not a CA certificate (basicConstraints CA:TRUE required) - ''
                 @ ''the trust store holds roots/intermediates, not leaf certs''))
          else case full_dn e (x_pem x) ''subject'' of
            Inl err \<Rightarrow> Inl err
          | Inr subject \<Rightarrow>
              (case full_dn e (x_pem x) ''issuer'' of
                 Inl err \<Rightarrow> Inl err
               | Inr issuer \<Rightarrow>
                   Inr (Inr \<lparr>ca_pem = x_pem x, ca_fingerprint = or_empty (x_fingerprint x),
                     ca_subject = or_else subject (or_empty (x_cn x)), ca_issuer = or_else issuer (or_empty (x_issuer x)),
                     ca_cn = x_cn x, ca_serial = x_serial x, ca_not_before = x_not_before x,
                     ca_expires_at = x_expires_at x,
                     ca_role = (if subject \<noteq> [] \<and> subject = issuer then ''root'' else ''intermediate'')\<rparr>)))"

fun parse_blocks :: "'h env \<Rightarrow> string list \<Rightarrow> ca_cert list trusted" where
  "parse_blocks e [] = Inr (Inr [])"
| "parse_blocks e (b # bs) =
     (case parse_one e (b @ [nl]) of
        Inl err \<Rightarrow> Inl err
      | Inr (Inl msg) \<Rightarrow> Inr (Inl msg)
      | Inr (Inr x) \<Rightarrow>
          (case parse_blocks e bs of
             Inl err \<Rightarrow> Inl err
           | Inr (Inl msg) \<Rightarrow> Inr (Inl msg)
           | Inr (Inr xs) \<Rightarrow> Inr (Inr (x # xs))))"

definition parse_all :: "'h env \<Rightarrow> string \<Rightarrow> ca_cert list trusted" where
  "parse_all e text =
     (let blocks = pem_blocks text in
      if blocks = [] then Inr (Inl ''no PEM certificate blocks found in the upload'') else parse_blocks e blocks)"

subsection \<open>The store\<close>

text \<open>The rows are inserted one by one; one whose fingerprint is already there is only reported.\<close>

definition trust_row :: "ctx \<Rightarrow> string option \<Rightarrow> string option \<Rightarrow> int \<Rightarrow> ca_cert \<Rightarrow> trust_cert" where
  "trust_row c name notes i p =
    \<lparr>tc_id = i,
     tc_name = take 200 (or_else (or_empty name) (or_else (or_empty (ca_cn p)) (or_else (ca_subject p) ''ca''))),
     tc_fingerprint = ca_fingerprint p, tc_pem = ca_pem p, tc_role = ca_role p, tc_subject = ca_subject p,
     tc_issuer = ca_issuer p, tc_serial = ca_serial p, tc_not_before = ca_not_before p,
     tc_expires_at = ca_expires_at p, tc_enabled = True, tc_created_at = c_now c,
     tc_created_by = take 200 (me c), tc_notes = (if set_opt notes then notes else None)\<rparr>"

fun store_certs :: "ctx \<Rightarrow> string option \<Rightarrow> string option \<Rightarrow> ca_cert list \<Rightarrow> string list \<times> string list \<Rightarrow> 'h world
    \<Rightarrow> (string list \<times> string list) \<times> 'h world" where
  "store_certs c name notes [] r w = (r, w)"
| "store_certs c name notes (p # ps) (added, dupes) w =
     (if row_by tc_fingerprint (ca_fingerprint p) (w_trust w) \<noteq> None
      then store_certs c name notes ps (added, dupes @ [ca_fingerprint p]) w
      else let i = w_trust_seq w + 1 in
        store_certs c name notes ps (added @ [ca_fingerprint p], dupes)
          (w\<lparr>w_trust := w_trust w @ [trust_row c name notes i p], w_trust_seq := i\<rparr>))"

definition add_certs ::
  "'h env \<Rightarrow> ctx \<Rightarrow> string \<Rightarrow> string option \<Rightarrow> string option \<Rightarrow> 'h world
     \<Rightarrow> (string list \<times> string list) trusted \<times> 'h world" where
  "add_certs e c text name notes w =
     (case parse_all e text of
        Inl err \<Rightarrow> (Inl err, w)
      | Inr (Inl msg) \<Rightarrow> (Inr (Inl msg), w)
      | Inr (Inr ps) \<Rightarrow> (case store_certs c name notes ps ([], []) w of (r, w1) \<Rightarrow> (Inr (Inr r), w1)))"

definition cert_status :: "time \<Rightarrow> time option \<Rightarrow> string" where
  "cert_status now exp =
     (case exp of
        None \<Rightarrow> ''ok''
      | Some t \<Rightarrow> if t = 0 then ''ok'' else if t < now then ''expired''
                  else if t < now + 30 * 86400 then ''expiring'' else ''ok'')"

definition cert_json :: "time \<Rightarrow> trust_cert \<Rightarrow> json" where
  "cert_json now r =
     JObj [(''id'', JInt (tc_id r)), (''name'', JStr (tc_name r)), (''fingerprint'', JStr (tc_fingerprint r)),
       (''role'', JStr (tc_role r)), (''subject'', JStr (tc_subject r)), (''issuer'', JStr (tc_issuer r)),
       (''serial'', jopt (tc_serial r)), (''not_before'', jint_opt (tc_not_before r)),
       (''expires_at'', jint_opt (tc_expires_at r)), (''enabled'', JInt (if tc_enabled r then 1 else 0)),
       (''created_at'', JInt (tc_created_at r)), (''created_by'', JStr (tc_created_by r)),
       (''notes'', jopt (tc_notes r)), (''status'', JStr (cert_status now (tc_expires_at r)))]"

definition list_certs :: "ctx \<Rightarrow> 'h world \<Rightarrow> json" where
  "list_certs c w = JArr (map (cert_json (c_now c)) (sort_key (\<lambda>r. - tc_created_at r) (w_trust w)))"

definition set_enabled :: "int \<Rightarrow> bool \<Rightarrow> 'h world \<Rightarrow> bool \<times> 'h world" where
  "set_enabled i on w =
     (row_by tc_id i (w_trust w) \<noteq> None,
      w\<lparr>w_trust := modify_row tc_id i (\<lambda>r. r\<lparr>tc_enabled := on\<rparr>) (w_trust w)\<rparr>)"

definition remove_cert :: "int \<Rightarrow> 'h world \<Rightarrow> bool \<times> 'h world" where
  "remove_cert i w = (row_by tc_id i (w_trust w) \<noteq> None, w\<lparr>w_trust := remove_row tc_id i (w_trust w)\<rparr>)"

subsection \<open>The bundle\<close>

definition bundle_rows :: "bool \<Rightarrow> 'h world \<Rightarrow> trust_cert list" where
  "bundle_rows enabled_only w =
     sort_key (\<lambda>r. if tc_role r = ''root'' then 1 else 0 :: nat)
       (sort_key (\<lambda>r. lower (tc_name r)) (filter (\<lambda>r. enabled_only \<longrightarrow> tc_enabled r) (w_trust w)))"

definition bundle_label :: "trust_cert \<Rightarrow> string" where
  "bundle_label r = ''# '' @ tc_role r @ '': '' @ or_else (tc_subject r) (tc_name r)"

definition build_bundle :: "bool \<Rightarrow> 'h world \<Rightarrow> string" where
  "build_bundle enabled_only w =
     concat (map (\<lambda>r. bundle_label r @ [nl] @ strip (tc_pem r) @ [nl]) (bundle_rows enabled_only w))"

definition bundle_meta :: "'h env \<Rightarrow> bool \<Rightarrow> 'h world \<Rightarrow> json" where
  "bundle_meta e enabled_only w =
     (let rows = filter (\<lambda>r. enabled_only \<longrightarrow> tc_enabled r) (w_trust w);
          bundle = build_bundle enabled_only w;
          roots = length (filter (\<lambda>r. tc_role r = ''root'') rows)
      in JObj [(''count'', JInt (int (length rows))), (''roots'', JInt (int roots)),
           (''intermediates'', JInt (int (length rows - roots))), (''bytes'', JInt (int (length (utf8 bundle)))),
           (''sha256'', if bundle \<noteq> [] then JStr (sha256 e (utf8 bundle)) else JNull)])"

definition install_local :: "'h env \<Rightarrow> 'h world \<Rightarrow> (string + string) \<times> 'h world" where
  "install_local e w =
     (let bundle = build_bundle True w in
      if strip bundle = [] then (Inl ''trust store is empty - nothing to install'', w)
      else if CONTAINER_MODE e
      then (Inl (''not supported in container mode: the OS trust store is '' @ ''read-only here. Mount the bundle as a volume or bake it ''
              @ ''into the image; the bundle is still served and pushed normally.''), w)
      else case run_helper e [''install-ca-bundle''] bundle w of ((rc, out, err), w1) \<Rightarrow>
        if rc \<noteq> 0 then (Inl (''local trust install failed: '' @ take 200 (strip (or_else err out))), w1)
        else (Inr (strip out), w1))"

subsection \<open>Scripts\<close>

definition ANCHOR_NAME :: string where
  "ANCHOR_NAME = ''certheim-trust-bundle.crt''"

definition quote :: string where "quote = [CHR 0x27]"

definition install_body :: "string \<Rightarrow> string" where
  "install_body src =
     ''if command -v update-ca-trust >/dev/null 2>&1; then ''
     @ ''  install -m0644 '' @ src @ '' \"/etc/pki/ca-trust/source/anchors/'' @ ANCHOR_NAME @ ''\"; ''
     @ ''  update-ca-trust extract; ''
     @ ''elif command -v update-ca-certificates >/dev/null 2>&1; then ''
     @ ''  rm -f /usr/local/share/ca-certificates/certheim-trust-*.crt; ''
     @ ''  awk '' @ quote @ ''/BEGIN CERT/{n++} {print > (\"/usr/local/share/ca-certificates/certheim-trust-\" n \".crt\")}''
     @ quote @ '' '' @ src @ ''; ''
     @ ''  update-ca-certificates; ''
     @ ''else echo \"no supported trust tool (update-ca-trust/update-ca-certificates)\" >&2; exit 1; fi; ''
     @ ''rm -f '' @ src"

definition install_snippet :: "string \<Rightarrow> string" where
  "install_snippet src_path = ''set -e; SRC='' @ src_path @ ''; '' @ install_body ''\"$SRC\"''"

text \<open>\<^verbatim>\<open>_shquote\<close>: every single quote becomes a quoted one between two quoted pieces.\<close>

definition shquote :: "string \<Rightarrow> string" where
  "shquote s = quote @ concat (map (\<lambda>c. if c = CHR 0x27 then quote @ [CHR 0x22] @ quote @ [CHR 0x22] @ quote else [c]) s) @ quote"

definition public_base :: "'h world \<Rightarrow> string" where
  "public_base w = rstrip_char (CHR ''/'') (or_empty (get_setting w ''public_base_url''))"

definition bundle_url :: "string \<Rightarrow> string \<Rightarrow> string" where
  "bundle_url base token = base @ ''/api/truststore/bundle/'' @ token"

definition install_script :: "string \<Rightarrow> 'h world \<Rightarrow> string" where
  "install_script token w =
     (let url = bundle_url (rstrip_char (CHR ''/'') (public_base w)) token in
      ''#!/usr/bin/env bash'' @ [nl]
      @ ''# Certheim trust-bundle installer. Adds the Certheim CA bundle to this'' @ [nl]
      @ ''# host'' @ quote @ ''s OS trust store. Re-run any time to pick up CA changes.'' @ [nl]
      @ ''set -euo pipefail'' @ [nl]
      @ ''URL=\"'' @ url @ ''\"'' @ [nl]
      @ ''TMP=\"$(mktemp)\"'' @ [nl]
      @ ''trap '' @ quote @ ''rm -f \"$TMP\"'' @ quote @ '' EXIT'' @ [nl]
      @ ''if command -v curl >/dev/null 2>&1; then curl -fsSL \"$URL\" -o \"$TMP\";'' @ [nl]
      @ ''elif command -v wget >/dev/null 2>&1; then wget -qO \"$TMP\" \"$URL\";'' @ [nl]
      @ ''else echo \"need curl or wget\" >&2; exit 1; fi'' @ [nl]
      @ ''grep -q \"BEGIN CERTIFICATE\" \"$TMP\" || { echo \"no certificates fetched from $URL\" >&2; exit 1; }'' @ [nl]
      @ ''SUDO=\"\"; [ \"$(id -u)\" -eq 0 ] || SUDO=\"sudo -n\"'' @ [nl]
      @ ''$SUDO bash -c '' @ shquote (install_snippet ''\"$TMP\"'') @ [nl]
      @ ''echo \"Certheim trust bundle installed.\"'' @ [nl])"

subsection \<open>Targets\<close>

definition push_ssh :: "string \<Rightarrow> 'h world \<Rightarrow> (string + string) \<times> 'h world" where
  "push_ssh host w = (Inl ''SSH trust-bundle distribution requires a Certheim license'', w)"

definition pushed :: "time \<Rightarrow> string + string \<Rightarrow> trust_target \<Rightarrow> trust_target" where
  "pushed now r t =
     t\<lparr>tt_last_status := Some (if isl r then ''error'' else ''ok''), tt_last_pushed_at := Some now,
       tt_last_detail := Some (case r of Inl msg \<Rightarrow> take 200 msg | Inr d \<Rightarrow> d)\<rparr>"

fun push_all :: "time \<Rightarrow> string list \<Rightarrow> (string \<times> (string + string)) list \<Rightarrow> 'h world
    \<Rightarrow> (string \<times> (string + string)) list \<times> 'h world" where
  "push_all now [] done w = (done, w)"
| "push_all now (h # hs) done w =
     (case push_ssh h w of (r, w1) \<Rightarrow>
        push_all now hs (done @ [(h, r)])
          (w1\<lparr>w_targets := update_where (\<lambda>t. tt_host t = h) (pushed now r) (w_targets w1)\<rparr>))"

definition push_targets :: "ctx \<Rightarrow> string \<Rightarrow> 'h world \<Rightarrow> (string \<times> (string + string)) list \<times> 'h world" where
  "push_targets c host_filter w =
     push_all (c_now c)
       (map tt_host (filter (\<lambda>t. tt_enabled t \<and> (host_filter = [] \<or> tt_host t = host_filter)) (w_targets w))) [] w"

definition target_row :: "ctx \<Rightarrow> string \<Rightarrow> string option \<Rightarrow> int \<Rightarrow> trust_target" where
  "target_row c host label i =
    \<lparr>tt_id = i, tt_host = host, tt_label = label, tt_enabled = True, tt_last_status = None,
     tt_last_pushed_at = None, tt_last_detail = None, tt_created_at = c_now c, tt_created_by = take 200 (me c)\<rparr>"

definition add_target :: "'h env \<Rightarrow> ctx \<Rightarrow> string \<Rightarrow> string option \<Rightarrow> 'h world \<Rightarrow> (string + unit) \<times> 'h world" where
  "add_target e c raw label w =
     (let host = strip raw in
      if \<not> HOST_RE host then (Inl (''invalid host: '' @ py_repr e (JStr host)), w)
      else if row_by tt_host host (w_targets w) \<noteq> None then (Inr (), w)
      else let i = w_target_seq w + 1 in
        (Inr (), w\<lparr>w_targets := w_targets w @ [target_row c host (if set_opt label then label else None) i],
                   w_target_seq := i\<rparr>))"

definition target_json :: "trust_target \<Rightarrow> json" where
  "target_json t =
     JObj [(''id'', JInt (tt_id t)), (''host'', JStr (tt_host t)), (''label'', jopt (tt_label t)),
       (''enabled'', JInt (if tt_enabled t then 1 else 0)), (''last_status'', jopt (tt_last_status t)),
       (''last_pushed_at'', jint_opt (tt_last_pushed_at t)), (''last_detail'', jopt (tt_last_detail t)),
       (''created_at'', JInt (tt_created_at t))]"

definition list_targets :: "'h world \<Rightarrow> json" where
  "list_targets w = JArr (map target_json (sort_key tt_host (w_targets w)))"

definition remove_target :: "int \<Rightarrow> 'h world \<Rightarrow> bool \<times> 'h world" where
  "remove_target i w = (row_by tt_id i (w_targets w) \<noteq> None, w\<lparr>w_targets := remove_row tt_id i (w_targets w)\<rparr>)"

subsection \<open>Pull tokens\<close>

definition pull_ttl :: "'h world \<Rightarrow> int" where
  "pull_ttl w =
     (case int_of (or_else (or_empty (get_setting w ''trust_pull_ttl'')) ''86400'') of
        None \<Rightarrow> 86400 | Some n \<Rightarrow> max 60 n)"

record pull_ticket =
  pt_token :: string
  pt_url :: string
  pt_expires_at :: time
  pt_ttl :: int

definition mint_pull_token :: "'h env \<Rightarrow> ctx \<Rightarrow> 'h world \<Rightarrow> pull_ticket result \<times> 'h world" where
  "mint_pull_token e c w =
     (let ttl = pull_ttl w; token = drawn e w;
          row = \<lparr>tp_token = token, tp_created_at = c_now c, tp_expires_at = c_now c + ttl, tp_max_uses = 0,
                 tp_uses = 0, tp_last_pull_at = None, tp_last_pull_ip = None\<rparr> in
      case insert_row tp_token row (w_pulls w) of
        None \<Rightarrow> (Inl IntegrityError, tick w)
      | Some ps \<Rightarrow>
          (Inr \<lparr>pt_token = token, pt_url = bundle_url (public_base w) token, pt_expires_at = c_now c + ttl, pt_ttl = ttl\<rparr>,
           (tick w)\<lparr>w_pulls := ps\<rparr>))"

definition spent :: "time \<Rightarrow> trust_pull \<Rightarrow> bool" where
  "spent now p = (tp_expires_at p \<le> now \<or> (tp_max_uses p \<noteq> 0 \<and> tp_max_uses p \<le> tp_uses p))"

definition consume_pull :: "ctx \<Rightarrow> string \<Rightarrow> string \<Rightarrow> 'h world \<Rightarrow> string option \<times> 'h world" where
  "consume_pull c token ip w =
     (case row_by tp_token token (w_pulls w) of
        None \<Rightarrow> (None, w)
      | Some p \<Rightarrow>
          if spent (c_now c) p then (None, w\<lparr>w_pulls := remove_row tp_token token (w_pulls w)\<rparr>)
          else (Some (build_bundle True w),
                w\<lparr>w_pulls := modify_row tp_token token
                    (\<lambda>p. p\<lparr>tp_uses := Suc (tp_uses p), tp_last_pull_at := Some (c_now c),
                           tp_last_pull_ip := Some (take 64 ip)\<rparr>) (w_pulls w)\<rparr>))"

definition purge_expired_pulls :: "ctx \<Rightarrow> 'h world \<Rightarrow> nat \<times> 'h world" where
  "purge_expired_pulls c w =
     (rowcount (\<lambda>p. tp_expires_at p < c_now c) (w_pulls w),
      w\<lparr>w_pulls := delete_where (\<lambda>p. tp_expires_at p < c_now c) (w_pulls w)\<rparr>)"

subsection \<open>Endpoints\<close>

definition client_ip :: "ctx \<Rightarrow> string" where
  "client_ip c =
     or_else (strip (hd (split_on (CHR '','') (or_empty (c_headers c ''X-Forwarded-For''))))) (c_remote c)"

definition or_none :: "string \<Rightarrow> string option" where
  "or_none s = (if s = [] then None else Some s)"

definition ts_list :: "'h env \<Rightarrow> 'h handler" where
  "ts_list e = require_admin e ''ts_list'' (\<lambda>c w.
     (ok_reply [(''certs'', list_certs c w), (''bundle'', bundle_meta e True w), (''targets'', list_targets w)], w))"

definition upload_pem :: "'h env \<Rightarrow> ctx \<Rightarrow> string \<Rightarrow> string \<Rightarrow> string \<Rightarrow> 'h world \<Rightarrow> response \<times> 'h world" where
  "upload_pem e c pem name notes w =
     (case add_certs e c pem (or_none name) (or_none notes) w of
        (Inl err, w1) \<Rightarrow> crash e c err w1
      | (Inr (Inl msg), w1) \<Rightarrow> refuse 400 msg w1
      | (Inr (Inr (added, dupes)), w1) \<Rightarrow>
          (ok_reply [(''added'', strs added), (''duplicates'', strs dupes)],
           log_event c ''truststore_upload'' ''ok''
             [(''added'', nat_str (length added)), (''dupes'', nat_str (length dupes))] w1))"

definition ts_upload :: "'h env \<Rightarrow> 'h handler" where
  "ts_upload e = require_admin e ''ts_upload'' (require_csrf e ''ts_upload'' (\<lambda>c w.
     with_payload e c w (\<lambda>p. attempt e c (str_or_empty (jget ''pem'' p)) w (\<lambda>t.
       if strip t = [] then refuse 400 ''paste one or more PEM CA certificates'' w
       else attempt e c (str_or_empty (jget ''name'' p)) w (\<lambda>n. attempt e c (str_or_empty (jget ''notes'' p)) w (\<lambda>m.
         upload_pem e c (strip t) (strip n) (strip m) w))))))"

definition ts_set_enabled :: "'h env \<Rightarrow> int \<Rightarrow> 'h handler" where
  "ts_set_enabled e i = require_admin e ''ts_set_enabled'' (require_csrf e ''ts_set_enabled'' (\<lambda>c w.
     with_payload e c w (\<lambda>p.
       let on = truthy (jget ''enabled'' p) in
       case set_enabled i on w of (found, w1) \<Rightarrow>
         if \<not> found then refuse 404 ''not found'' w1
         else (ok_json, log_event c ''truststore_enabled'' ''ok''
                 [(''id'', int_str i), (''enabled'', if on then ''True'' else ''False'')] w1))))"

definition ts_delete :: "'h env \<Rightarrow> int \<Rightarrow> 'h handler" where
  "ts_delete e i = require_admin e ''ts_delete'' (require_csrf e ''ts_delete'' (\<lambda>c w.
     case remove_cert i w of (found, w1) \<Rightarrow>
       if \<not> found then refuse 404 ''not found'' w1
       else (ok_json, log_event c ''truststore_delete'' ''ok'' [(''id'', int_str i)] w1)))"

definition ts_download_bundle :: "'h env \<Rightarrow> 'h handler" where
  "ts_download_bundle e = require_admin e ''ts_download_bundle'' (\<lambda>c w.
     let bundle = build_bundle True w in
     if strip bundle = [] then refuse 404 ''trust store is empty'' w else (content_reply bundle, w))"

definition ts_install_local :: "'h env \<Rightarrow> 'h handler" where
  "ts_install_local e = require_admin e ''ts_install_local'' (require_csrf e ''ts_install_local'' (\<lambda>c w.
     case install_local e w of
       (Inl msg, w1) \<Rightarrow> refuse 400 msg (log_event c ''truststore_install_local'' ''error'' [(''detail'', take 160 msg)] w1)
     | (Inr out, w1) \<Rightarrow>
         (ok_reply [(''ok'', JBool True), (''detail'', JStr out)], log_event c ''truststore_install_local'' ''ok'' [] w1)))"

definition ts_add_target :: "'h env \<Rightarrow> 'h handler" where
  "ts_add_target e = require_admin e ''ts_add_target'' (require_csrf e ''ts_add_target'' (\<lambda>c w.
     with_payload e c w (\<lambda>p. attempt e c (str_or_empty (jget ''host'' p)) w (\<lambda>h.
       attempt e c (str_or_empty (jget ''label'' p)) w (\<lambda>l.
       case add_target e c (strip h) (or_none (strip l)) w of
         (Inl msg, w1) \<Rightarrow> refuse 400 msg w1
       | (Inr _, w1) \<Rightarrow>
           (ok_reply [(''targets'', list_targets w1)],
            log_event c ''truststore_target_add'' ''ok'' [(''host'', take 120 h)] w1))))))"

definition ts_del_target :: "'h env \<Rightarrow> int \<Rightarrow> 'h handler" where
  "ts_del_target e i = require_admin e ''ts_del_target'' (require_csrf e ''ts_del_target'' (\<lambda>c w.
     case remove_target i w of (found, w1) \<Rightarrow>
       if \<not> found then refuse 404 ''not found'' w1
       else (ok_reply [(''targets'', list_targets w1)],
             log_event c ''truststore_target_del'' ''ok'' [(''id'', int_str i)] w1)))"

definition push_json :: "string \<times> (string + string) \<Rightarrow> json" where
  "push_json r =
     JObj [(''host'', JStr (fst r)), (''ok'', JBool (\<not> isl (snd r))),
       (''detail'', JStr (case snd r of Inl msg \<Rightarrow> take 200 msg | Inr d \<Rightarrow> d))]"

definition ts_push :: "'h env \<Rightarrow> 'h handler" where
  "ts_push e = require_admin e ''ts_push'' (require_csrf e ''ts_push'' (\<lambda>c w.
     with_payload e c w (\<lambda>p. attempt e c (str_or_empty (jget ''host'' p)) w (\<lambda>h.
       case push_targets c (strip h) w of (rs, w1) \<Rightarrow>
         (ok_reply [(''results'', JArr (map push_json rs)), (''targets'', list_targets w1)],
          log_event c ''truststore_push'' ''ok''
            [(''hosts'', nat_str (length rs)),
             (''succeeded'', nat_str (length (filter (\<lambda>r. \<not> isl (snd r)) rs)))] w1)))))"

definition ts_pull_token :: "'h env \<Rightarrow> 'h handler" where
  "ts_pull_token e = require_admin e ''ts_pull_token'' (require_csrf e ''ts_pull_token'' (\<lambda>c w.
     case mint_pull_token e c w of (r, w1) \<Rightarrow> attempt e c r w1 (\<lambda>t.
       (ok_reply [(''token'', JStr (pt_token t)), (''url'', JStr (pt_url t)), (''expires_at'', JInt (pt_expires_at t)),
                  (''ttl'', JInt (pt_ttl t)), (''script'', JStr (install_script (pt_token t) w1))],
        log_event c ''truststore_pull_token'' ''ok'' [] w1))))"

text \<open>The one public endpoint: the token is the only credential.\<close>

definition ts_pull_bundle :: "'h env \<Rightarrow> string \<Rightarrow> 'h handler" where
  "ts_pull_bundle e token c w =
     (case consume_pull c token (client_ip c) w of
        (None, w1) \<Rightarrow> refuse 404 ''not found'' w1
      | (Some bundle, w1) \<Rightarrow> (content_reply bundle, log_event c ''truststore_pull'' ''ok'' [] w1))"

subsection \<open>Quoting for the shell\<close>

text \<open>
  How a shell reads a word of quoted pieces: nothing is special between single quotes, and between double quotes
  only a dollar sign, a backquote and a backslash are, which a piece must not hold. Unquoted text is refused.
\<close>

fun sh_read :: "char option \<Rightarrow> string \<Rightarrow> string option" where
  "sh_read None [] = Some []"
| "sh_read (Some q) [] = None"
| "sh_read None (c # s) = (if c \<in> {CHR 0x27, CHR 0x22} then sh_read (Some c) s else None)"
| "sh_read (Some q) (c # s) =
     (if c = q then sh_read None s
      else if q = CHR 0x22 \<and> c \<in> {CHR ''$'', CHR 0x60, CHR 0x5C} then None
      else map_option ((#) c) (sh_read (Some q) s))"

text \<open>
  A quoted argument is one word. Whatever the text (quotes, dollar signs, newlines), what the shell reads from its
  quoted form is exactly that text.
\<close>
theorem shquote_roundtrip: "sh_read None (shquote s) = Some s"
proof -
  have "sh_read (Some (CHR 0x27)) (concat (map (\<lambda>c. if c = CHR 0x27 then quote @ [CHR 0x22] @ quote @ [CHR 0x22] @ quote else [c]) s) @ quote)
      = Some s"
    by (induction s) (simp_all add: quote_def)
  then show ?thesis by (simp add: shquote_def quote_def)
qed

subsection \<open>Uploads\<close>

lemma store_known:
  "\<forall>p\<in>set ps. row_by tc_fingerprint (ca_fingerprint p) (w_trust w) \<noteq> None \<Longrightarrow>
     store_certs c name nt ps (a, d) w = ((a, d @ map ca_fingerprint ps), w)"
  by (induction ps arbitrary: d) auto

lemma store_certs_keeps:
  "row_by tc_fingerprint f (w_trust w) \<noteq> None \<Longrightarrow>
     row_by tc_fingerprint f (w_trust (snd (store_certs c name nt ps r w))) = row_by tc_fingerprint f (w_trust w)"
proof (induction c name nt ps r w rule: store_certs.induct)
  case (2 c name nt p ps added dupes w)
  from "2.prems" obtain y where "row_by tc_fingerprint f (w_trust w) = Some y" by blast
  with "2.IH" show ?case by (simp add: Let_def row_by_append)
qed simp

lemma store_certs_has:
  "p \<in> set ps \<Longrightarrow> row_by tc_fingerprint (ca_fingerprint p) (w_trust (snd (store_certs c name nt ps r w))) \<noteq> None"
proof (induction c name nt ps r w rule: store_certs.induct)
  case (2 c name nt q ps added dupes w)
  let ?w = "w\<lparr>w_trust := w_trust w @ [trust_row c name nt (w_trust_seq w + 1) q], w_trust_seq := w_trust_seq w + 1\<rparr>"
  show ?case
  proof (cases "p = q")
    case False
    with "2.prems" have "p \<in> set ps" by simp
    with "2.IH" show ?thesis by (simp add: Let_def)
  next
    case True
    show ?thesis
    proof (cases "row_by tc_fingerprint (ca_fingerprint q) (w_trust w) = None")
      case False
      with True store_certs_keeps [OF False] show ?thesis by simp
    next
      case new: True
      have "row_by tc_fingerprint (ca_fingerprint q) (w_trust ?w) \<noteq> None"
        using new by (simp add: row_by_snoc row_by_None_iff trust_row_def)
      from store_certs_keeps [OF this] this new True show ?thesis by (simp add: Let_def)
    qed
  qed
qed simp

definition trust_ok :: "'h world \<Rightarrow> bool" where
  "trust_ok w \<longleftrightarrow> unique_key tc_fingerprint (w_trust w) \<and> unique_key tc_id (w_trust w)
     \<and> (\<forall>r\<in>set (w_trust w). tc_id r \<le> w_trust_seq w)"

lemma trust_ok_insert:
  "trust_ok w \<Longrightarrow> row_by tc_fingerprint (ca_fingerprint p) (w_trust w) = None \<Longrightarrow>
     trust_ok (w\<lparr>w_trust := w_trust w @ [trust_row c name nt (w_trust_seq w + 1) p], w_trust_seq := w_trust_seq w + 1\<rparr>)"
  by (force simp: trust_ok_def unique_key_def row_by_None_iff trust_row_def)

lemma store_certs_ok: "trust_ok w \<Longrightarrow> trust_ok (snd (store_certs c name nt ps r w))"
proof (induction c name nt ps r w rule: store_certs.induct)
  case (2 c name nt p ps added dupes w)
  then show ?case using trust_ok_insert [of w p c name nt] by (auto simp: Let_def)
qed simp

text \<open>
  An upload is all or nothing, and repeating it is harmless. If any block of the upload is refused the store is
  unchanged; otherwise every certificate of the upload is in the store, fingerprints and identifiers
  stay unique, and the same upload again, by anyone, adds nothing and changes nothing.
\<close>
theorem upload_idempotent:
  assumes "trust_ok w"
  shows "case add_certs e c pems name nt w of
     (Inr (Inr (added, dupes)), w') \<Rightarrow>
        trust_ok w' \<and> (\<exists>ps. parse_all e pems = Inr (Inr ps) \<and>
          add_certs e c2 pems name2 nt2 w' = (Inr (Inr ([], map ca_fingerprint ps)), w'))
   | (r, w') \<Rightarrow> w' = w"
proof (cases "\<exists>ps. parse_all e pems = Inr (Inr ps)")
  case False
  then show ?thesis by (auto simp: add_certs_def split: sum.split)
next
  case True
  then obtain ps where p: "parse_all e pems = Inr (Inr ps)" by blast
  obtain r w' where s: "store_certs c name nt ps ([], []) w = (r, w')" by (metis prod.exhaust)
  obtain added dupes where r: "r = (added, dupes)" by (metis prod.exhaust)
  have "\<forall>p\<in>set ps. row_by tc_fingerprint (ca_fingerprint p) (w_trust w') \<noteq> None"
    using store_certs_has [of _ ps c name nt "([], [])" w] s by auto
  from store_known [OF this, of c2 name2 nt2 "[]" "[]"]
  have "add_certs e c2 pems name2 nt2 w' = (Inr (Inr ([], map ca_fingerprint ps)), w')"
    by (simp add: add_certs_def p)
  with store_certs_ok [OF assms, of c name nt ps "([], [])"] s r p show ?thesis by (simp add: add_certs_def)
qed

theorem upload_idempotent_witness:
  "snd (add_certs sample_env sample_ctx ''no certificate'' None None sample_world) = sample_world"
proof -
  have ok: "trust_ok sample_world" by (simp add: trust_ok_def sample_world_def unique_key_def)
  have "pem_blocks ''no certificate'' = []" by (subst pem_blocks.simps) (simp add: BEGIN_CERT_def starts_with_def)
  then have "fst (add_certs sample_env sample_ctx ''no certificate'' None None sample_world) =
      Inr (Inl ''no PEM certificate blocks found in the upload'')"
    by (simp add: add_certs_def parse_all_def)
  with upload_idempotent [OF ok, where e = sample_env and c = sample_ctx and pems = "''no certificate''" and name = None
      and nt = None] show ?thesis
    by (cases "add_certs sample_env sample_ctx ''no certificate'' None None sample_world") simp
qed

subsection \<open>The bundle reads back\<close>

lemma cut_label:
  assumes "\<not> contains p a" "x \<notin> set p" "p \<noteq> []"
  shows "cut p (a @ x # p @ r) = Some (a @ [x], r)"
  using assms(1)
proof (induction a)
  case Nil
  have "\<not> starts_with p (x # p @ r)" using assms(2,3) by (cases p) (auto simp: starts_with_def)
  moreover have "cut p (p @ r) = Some ([], r)" using assms(3) by (cases p) (auto simp: starts_with_def)
  ultimately show ?case by simp
next
  case (Cons c a)
  then have n: "\<not> starts_with p (c # a)" "\<not> contains p a" by auto
  have "\<not> starts_with p (c # a @ x # p @ r)"
  proof
    assume "starts_with p (c # a @ x # p @ r)"
    then have t: "p = take (length p) (c # a @ x # p @ r)" by (simp add: starts_with_def)
    show False
    proof (cases "length p \<le> length (c # a)")
      case True
      then have "take (length p) (c # a @ x # p @ r) = take (length p) (c # a)"
        using take_append [of "length p" "c # a" "x # p @ r"] by simp
      with t n(1) True show False by (simp add: starts_with_def)
    next
      case False
      then obtain m where "length p = length (c # a) + Suc m" by (metis add_Suc_right less_imp_Suc_add not_le_imp_less)
      then have "x \<in> set (take (length p) ((c # a) @ x # p @ r))" by simp
      with t assms(2) show False by simp
    qed
  qed
  with Cons.IH [OF n(2)] show ?case by simp
qed

lemma pem_blocks_labelled:
  assumes "is_block b" "\<not> contains BEGIN_CERT a"
  shows "pem_blocks (a @ nl # b @ t) = b # pem_blocks t"
proof -
  from assms obtain d where b: "b = BEGIN_CERT @ d @ END_CERT" "cut END_CERT (d @ END_CERT @ []) = Some (d, [])"
    by (auto simp: is_block_def)
  have "nl \<notin> set BEGIN_CERT" "BEGIN_CERT \<noteq> []" by (simp_all add: BEGIN_CERT_def nl_def)
  from cut_label [OF assms(2) this, of "d @ END_CERT @ t"]
  have "cut BEGIN_CERT (a @ nl # b @ t) = Some (a @ [nl], d @ END_CERT @ t)" by (simp add: b(1))
  moreover have "cut END_CERT (d @ END_CERT @ t) = Some (d, t)" by (rule cut_local [OF b(2)])
  ultimately show ?thesis unfolding b(1) by (subst pem_blocks.simps) simp
qed

lemma strip_block: "is_block b \<Longrightarrow> strip (b @ [nl]) = b"
proof -
  assume "is_block b"
  then obtain d where b: "b = BEGIN_CERT @ d @ END_CERT" by (auto simp: is_block_def)
  have h: "hd b = CHR ''-''" "last b = CHR ''-''" "b \<noteq> []" by (simp_all add: b BEGIN_CERT_def END_CERT_def)
  have s: "\<not> is_space (CHR ''-'')" "is_space nl" by code_simp+
  have "dropWhile is_space (b @ [nl]) = b @ [nl]" using h s(1) by (cases b) auto
  then have "strip (b @ [nl]) = rdrop_while is_space (b @ [nl])" by (simp add: strip_def)
  also have "\<dots> = rdrop_while is_space b" using s(2) by (simp add: rdrop_while_def)
  also have "\<dots> = b" using h s(1) by (simp add: rdrop_while_last)
  finally show ?thesis .
qed

definition store_readable :: "'h world \<Rightarrow> bool" where
  "store_readable w \<longleftrightarrow>
     (\<forall>r\<in>set (w_trust w). (\<exists>b. is_block b \<and> tc_pem r = b @ [nl]) \<and> \<not> contains BEGIN_CERT (bundle_label r))"

lemma bundle_rows_of:
  "mset (bundle_rows on w) = mset (filter (\<lambda>r. on \<longrightarrow> tc_enabled r) (w_trust w))"
  "set (bundle_rows on w) \<subseteq> set (w_trust w)"
  by (auto simp: bundle_rows_def)

text \<open>
  C12: The distributed bundle holds exactly the trusted certificates. When stored texts are the blocks they were
  parsed from, and no label imitates a certificate header, reading the bundle gives the PEM of every
  enabled certificate once, no other, every intermediate before every root.
\<close>
theorem bundle_roundtrip:
  assumes "store_readable w"
  shows "pem_blocks (build_bundle True w) = map (\<lambda>r. strip (tc_pem r)) (bundle_rows True w)
    \<and> mset (bundle_rows True w) = mset (filter tc_enabled (w_trust w))
    \<and> sorted (map (\<lambda>r. if tc_role r = ''root'' then 1 else 0 :: nat) (bundle_rows True w))"
proof -
  have "\<forall>r\<in>set rs. (\<exists>b. is_block b \<and> tc_pem r = b @ [nl]) \<and> \<not> contains BEGIN_CERT (bundle_label r) \<Longrightarrow>
      pem_blocks (concat (map (\<lambda>r. bundle_label r @ [nl] @ strip (tc_pem r) @ [nl]) rs)) = map (\<lambda>r. strip (tc_pem r)) rs" for rs
  proof (induction rs)
    case Nil
    show ?case by (subst pem_blocks.simps) (simp add: BEGIN_CERT_def)
  next
    case (Cons r rs)
    then obtain b where b: "is_block b" "tc_pem r = b @ [nl]" "\<not> contains BEGIN_CERT (bundle_label r)" by auto
    with Cons show ?case using pem_blocks_labelled [OF b(1,3)] by (simp add: strip_block pem_blocks_newline)
  qed
  moreover have "\<forall>r\<in>set (bundle_rows True w). (\<exists>b. is_block b \<and> tc_pem r = b @ [nl]) \<and> \<not> contains BEGIN_CERT (bundle_label r)"
    using assms bundle_rows_of(2) [of True w] by (auto simp: store_readable_def)
  ultimately show ?thesis by (simp add: build_bundle_def bundle_rows_of(1)) (simp add: bundle_rows_def)
qed

definition root_row :: trust_cert where
  "root_row =
    \<lparr>tc_id = 1, tc_name = ''acme'', tc_fingerprint = ''ff'', tc_pem = BEGIN_CERT @ ''AA'' @ END_CERT @ [nl],
     tc_role = ''root'', tc_subject = ''CN=Acme'', tc_issuer = ''CN=Acme'', tc_serial = None, tc_not_before = None,
     tc_expires_at = None, tc_enabled = True, tc_created_at = 0, tc_created_by = ''CN=ADA'', tc_notes = None\<rparr>"

theorem bundle_roundtrip_witness:
  "pem_blocks (build_bundle True (sample_world\<lparr>w_trust := [root_row]\<rparr>)) = [BEGIN_CERT @ ''AA'' @ END_CERT]"
proof -
  let ?w = "sample_world\<lparr>w_trust := [root_row]\<rparr>"
  have "cut END_CERT (''AA'' @ END_CERT) = Some (''AA'', [])" by code_simp
  then have blk: "is_block (BEGIN_CERT @ ''AA'' @ END_CERT)" by (auto simp: is_block_def)
  have pem: "tc_pem root_row = (BEGIN_CERT @ ''AA'' @ END_CERT) @ [nl]" by (simp add: root_row_def)
  have "bundle_label root_row = ''# root: CN=Acme''" by (simp add: bundle_label_def root_row_def or_else_def)
  then have "\<not> contains BEGIN_CERT (bundle_label root_row)" by (simp add: BEGIN_CERT_def starts_with_def)
  with blk pem have ok: "store_readable ?w" by (auto simp: store_readable_def)
  have "bundle_rows True ?w = [root_row]" by (simp add: bundle_rows_def root_row_def)
  with bundle_roundtrip [OF ok] strip_block [OF blk] show ?thesis by (simp add: pem)
qed

subsection \<open>Pull tokens\<close>

interpretation pulls: keyed_store "row_by tp_token" "insert_row tp_token" "modify_row tp_token" "remove_row tp_token"
  tp_token "unique_key tp_token"
  by (rule row_store)

text \<open>
  The life of a pull token. A freshly minted token opens the current bundle, as it is at the time of the pull, any
  number of times until its expiry, which lies at least a minute ahead, and never from then on; any
  other token opens exactly what it did before.
\<close>
theorem pull_token_life:
  assumes "mint_pull_token e c w = (Inr t, w1)" "w_pulls w2 = w_pulls w1"
  shows "fst (consume_pull c2 (pt_token t) ip w2) =
       (if c_now c2 < c_now c + pull_ttl w then Some (build_bundle True w2) else None)
    \<and> 60 \<le> pull_ttl w
    \<and> row_by tp_token (pt_token t) (w_pulls w) = None
    \<and> (\<forall>k. k \<noteq> pt_token t \<longrightarrow> fst (consume_pull c2 k ip (w2\<lparr>w_pulls := w_pulls w\<rparr>)) = fst (consume_pull c2 k ip w2))
    \<and> (\<forall>c3. c_now c3 < c_now c + pull_ttl w \<longrightarrow> c_now c2 < c_now c + pull_ttl w \<longrightarrow>
        fst (consume_pull c3 (pt_token t) ip (snd (consume_pull c2 (pt_token t) ip w2))) \<noteq> None)"
proof -
  let ?row = "\<lparr>tp_token = drawn e w, tp_created_at = c_now c, tp_expires_at = c_now c + pull_ttl w, tp_max_uses = 0,
      tp_uses = 0, tp_last_pull_at = None, tp_last_pull_ip = None\<rparr>"
  from assms(1) obtain ps where ps: "insert_row tp_token ?row (w_pulls w) = Some ps" "pt_token t = drawn e w" "w_pulls w1 = ps"
    by (auto simp: mint_pull_token_def Let_def split: option.splits)
  have rows: "row_by tp_token k ps = (if k = drawn e w then Some ?row else row_by tp_token k (w_pulls w))" for k
    using pulls.lookup_insert [OF ps(1), of k] by simp
  have fresh: "row_by tp_token (drawn e w) (w_pulls w) = None" using pulls.insert_iff [of ?row "w_pulls w"] ps(1) by simp
  have w2: "w_pulls w2 = ps" using assms(2) ps(3) by simp
  have ttl: "60 \<le> pull_ttl w" by (simp add: pull_ttl_def split: option.split)
  have again: "fst (consume_pull c3 (drawn e w) ip (snd (consume_pull c2 (drawn e w) ip w2))) \<noteq> None"
    if "c_now c3 < c_now c + pull_ttl w" "c_now c2 < c_now c + pull_ttl w" for c3
    using that by (simp add: consume_pull_def spent_def w2 rows pulls.lookup_modify)
  have b: "build_bundle True (w2\<lparr>w_pulls := x\<rparr>) = build_bundle True w2" for x
    by (simp add: build_bundle_def bundle_rows_def)
  have other: "fst (consume_pull c2 k ip (w2\<lparr>w_pulls := w_pulls w\<rparr>)) = fst (consume_pull c2 k ip w2)" if "k \<noteq> drawn e w" for k
    using that by (simp add: consume_pull_def w2 rows b split: option.split)
  have now: "fst (consume_pull c2 (drawn e w) ip w2) =
      (if c_now c2 < c_now c + pull_ttl w then Some (build_bundle True w2) else None)"
    by (simp add: consume_pull_def spent_def w2 rows)
  show ?thesis unfolding ps(2) using fresh ttl again other now by blast
qed

theorem pull_token_life_witness:
  "fst (consume_pull (sample_ctx\<lparr>c_now := 2000\<rparr>) ''tok0'' ''10.0.0.9'' (snd (mint_pull_token sample_env sample_ctx sample_world))) = Some []
   \<and> fst (consume_pull (sample_ctx\<lparr>c_now := 87400\<rparr>) ''tok0'' ''10.0.0.9'' (snd (mint_pull_token sample_env sample_ctx sample_world))) = None"
proof -
  have ttl: "pull_ttl sample_world = 86400"
  proof -
    have "strip ''86400'' = ''86400''" by code_simp
    then have "int_of ''86400'' = Some 86400" by (simp add: int_of_def is_digit_def cp_def digits_val_def digit_val_def)
    then show ?thesis by (simp add: pull_ttl_def get_setting_def sample_world_def SETTINGS_DEFAULTS_def or_else_def)
  qed
  have d: "drawn sample_env sample_world = ''tok0''"
  proof -
    have "nat_str 0 = ''0''" by code_simp
    then show ?thesis by (simp add: drawn_def quiet_env_def sample_world_def)
  qed
  obtain t w1 where m: "mint_pull_token sample_env sample_ctx sample_world = (Inr t, w1)" and t: "pt_token t = ''tok0''"
    using d by (simp add: mint_pull_token_def Let_def insert_row_def sample_world_def)
  have b: "build_bundle True w1 = []"
    using m by (auto simp: mint_pull_token_def Let_def insert_row_def sample_world_def build_bundle_def bundle_rows_def tick_def)
  from pull_token_life [OF m refl, of "sample_ctx\<lparr>c_now := 2000\<rparr>" "''10.0.0.9''"]
    pull_token_life [OF m refl, of "sample_ctx\<lparr>c_now := 87400\<rparr>" "''10.0.0.9''"]
  show ?thesis unfolding m t ttl by (simp add: b sample_ctx_def)
qed

end
