(* ===== verification/AdminUsers.thy ===== *)
theory AdminUsers
  imports Requests
begin

text \<open>
  Account administration (\<^verbatim>\<open>backend/routes_admin.py\<close>): listing, editing, creating and deleting users,
  setting passwords. An edit is a list of column changes, built by the checks of the handler in
  its order and applied to the row at once. A set of group identifiers is the list without repetitions
  (Python iterates over it in an unspecified order, which only orders the new membership rows).
\<close>

subsection \<open>Listing\<close>

definition user_json :: "'h world \<Rightarrow> user \<Rightarrow> json" where
  "user_json w u =
     (let ms = filter (\<lambda>m. m_dn m = u_dn u) (w_members w) in
      JObj [(''dn'', JStr (u_dn u)), (''cn'', JStr (u_cn u)), (''email'', jopt (u_email u)),
        (''is_admin'', JBool (u_is_admin u)), (''is_active'', JBool (u_is_active u)),
        (''username'', jopt (u_username u)), (''auth_status'', JStr (u_auth_status u)),
        (''first_name'', jopt (u_first_name u)), (''last_name'', jopt (u_last_name u)),
        (''created_at'', JInt (u_created_at u)), (''last_seen_at'', JInt (u_last_seen_at u)),
        (''notes'', jopt (u_notes u)), (''group_ids'', JArr (map (JInt \<circ> m_gid) ms)),
        (''owner_group_ids'', JArr (map (JInt \<circ> m_gid) (filter (\<lambda>m. m_role m = Owner) ms)))])"

definition admin_list_users :: "'h env \<Rightarrow> 'h handler" where
  "admin_list_users e = require_admin e ''admin_list_users'' (\<lambda>c w.
     (ok_reply [(''users'', JArr (map (user_json w) (sort_key (\<lambda>u. - u_last_seen_at u) (w_users w))))],
      log_event c ''admin_list_users'' ''ok'' [(''count'', nat_str (length (w_users w)))] w))"

subsection \<open>Editing\<close>

datatype user_change = SetAdmin bool | SetActive bool | SetEmail "string option" | SetNotes "string option"
  | SetFirst "string option" | SetLast "string option" | SetUsername string

fun change_name :: "user_change \<Rightarrow> string" where
  "change_name (SetAdmin b) = ''is_admin''"
| "change_name (SetActive b) = ''is_active''"
| "change_name (SetEmail m) = ''email''"
| "change_name (SetNotes n) = ''notes''"
| "change_name (SetFirst s) = ''first_name''"
| "change_name (SetLast s) = ''last_name''"
| "change_name (SetUsername s) = ''username''"

fun apply_change :: "user_change \<Rightarrow> user \<Rightarrow> user" where
  "apply_change (SetAdmin b) u = u\<lparr>u_is_admin := b\<rparr>"
| "apply_change (SetActive b) u = u\<lparr>u_is_active := b\<rparr>"
| "apply_change (SetEmail m) u = u\<lparr>u_email := m\<rparr>"
| "apply_change (SetNotes n) u = u\<lparr>u_notes := n\<rparr>"
| "apply_change (SetFirst s) u = u\<lparr>u_first_name := s\<rparr>"
| "apply_change (SetLast s) u = u\<lparr>u_last_name := s\<rparr>"
| "apply_change (SetUsername s) u = u\<lparr>u_username := Some s\<rparr>"

definition edit_target :: "json \<Rightarrow> string result" where
  "edit_target p = map_sum (\<lambda>x. x) strip (str_or_empty (jget ''dn'' p))"

definition demotes_self :: "ctx \<Rightarrow> string \<Rightarrow> json \<Rightarrow> string option" where
  "demotes_self c dn p =
     (if map_option u_dn (c_user c) = Some dn \<and> jhas ''is_admin'' p \<and> \<not> truthy (jget ''is_admin'' p)
      then Some ''cannot remove your own admin status''
      else if map_option u_dn (c_user c) = Some dn \<and> jhas ''is_active'' p \<and> \<not> truthy (jget ''is_active'' p)
      then Some ''cannot deactivate yourself'' else None)"

definition flag_changes :: "json \<Rightarrow> user_change list" where
  "flag_changes p =
     (if jhas ''is_admin'' p then [SetAdmin (truthy (jget ''is_admin'' p))] else [])
     @ (if jhas ''is_active'' p then [SetActive (truthy (jget ''is_active'' p))] else [])"

definition contact_changes :: "json \<Rightarrow> string + user_change list" where
  "contact_changes p =
     (let notes = (if \<not> jhas ''notes'' p then Inr []
            else case jget ''notes'' p of
              JNull \<Rightarrow> Inr [SetNotes None]
            | JStr s \<Rightarrow> if 4096 < length s then Inl ''notes too long (max 4KB)'' else Inr [SetNotes (Some s)]
            | _ \<Rightarrow> Inl ''notes must be string'') in
      if \<not> jhas ''email'' p then notes
      else case validate_email (jget ''email'' p) of
        Inl err \<Rightarrow> Inl (''email: '' @ err)
      | Inr m \<Rightarrow> map_sum (\<lambda>x. x) (\<lambda>ns. SetEmail m # ns) notes)"

text \<open>A name of the request: not given, or its first 64 characters.\<close>

definition new_name :: "json \<Rightarrow> string \<Rightarrow> string option result" where
  "new_name p k =
     (if jhas k p then map_sum (\<lambda>x. x) (\<lambda>s. Some (take 64 (strip s))) (str_or_empty (jget k p)) else Inr None)"

definition name_changes :: "string option \<Rightarrow> string option \<Rightarrow> user_change list" where
  "name_changes fname lname =
     (case fname of None \<Rightarrow> [] | Some s \<Rightarrow> [SetFirst (nonempty s)])
     @ (case lname of None \<Rightarrow> [] | Some s \<Rightarrow> [SetLast (nonempty s)])"

fun ints_of :: "json list \<Rightarrow> int list option" where
  "ints_of [] = Some []"
| "ints_of (x # xs) =
     (case int_of_json x of Inl _ \<Rightarrow> None | Inr i \<Rightarrow> map_option ((#) i) (ints_of xs))"

definition group_set :: "json \<Rightarrow> string + int list option" where
  "group_set p =
     (if \<not> jhas ''group_ids'' p then Inr None
      else case jget ''group_ids'' p of
        JArr xs \<Rightarrow> (case ints_of xs of None \<Rightarrow> Inl ''group_ids must be integers'' | Some is \<Rightarrow> Inr (Some (remdups is)))
      | _ \<Rightarrow> Inl ''group_ids must be a list'')"

text \<open>\<open>^base\d*$\<close>: the name is the base, possibly numbered.\<close>

definition numbered :: "string \<Rightarrow> string \<Rightarrow> bool" where
  "numbered base s = at_end (\<lambda>s. starts_with base s \<and> list_all is_digit (drop (length base) s)) s"

definition name_base :: "string \<Rightarrow> string \<Rightarrow> string" where
  "name_base fname lname =
     join ''.'' (filter (\<lambda>p. p \<noteq> []) [normalize_name_part fname, normalize_name_part lname])"

definition renamed :: "'h env \<Rightarrow> user \<Rightarrow> string option \<Rightarrow> string option \<Rightarrow> user list \<Rightarrow> user_change list" where
  "renamed e u fname lname us =
     (let f = (case fname of Some s \<Rightarrow> s | None \<Rightarrow> or_empty (u_first_name u));
          l = (case lname of Some s \<Rightarrow> s | None \<Rightarrow> or_empty (u_last_name u));
          base = name_base f l; current = or_empty (u_username u)
      in if normalize_name_part f = [] \<and> normalize_name_part l = [] then []
         else if current \<noteq> [] \<and> (current = base \<or> numbered base current) then []
         else [SetUsername (derive_username e f l us)])"

definition sync_groups :: "ctx \<Rightarrow> string \<Rightarrow> int list \<Rightarrow> member list \<Rightarrow> member list" where
  "sync_groups c dn gids ms =
     (let current = map m_gid (filter (\<lambda>m. m_dn m = dn) ms) in
      filter (\<lambda>m. m_dn m = dn \<longrightarrow> m_gid m \<in> set gids \<or> m_role m = Owner)
        (ms @ map (\<lambda>g. \<lparr>m_dn = dn, m_gid = g, m_added_at = c_now c, m_role = Member\<rparr>)
                (filter (\<lambda>g. g \<notin> set current) gids)))"

text \<open>The unique index on user names is checked when a row gets a new one.\<close>

definition name_clash :: "string \<Rightarrow> user_change list \<Rightarrow> user list \<Rightarrow> bool" where
  "name_clash dn chs us =
     list_ex (\<lambda>ch. case ch of
         SetUsername n \<Rightarrow> list_ex (\<lambda>u. u_dn u \<noteq> dn \<and> u_username u = Some n) us
       | _ \<Rightarrow> False) chs"

definition save_user ::
  "'h env \<Rightarrow> ctx \<Rightarrow> string \<Rightarrow> user_change list \<Rightarrow> int list option \<Rightarrow> 'h world \<Rightarrow> response \<times> 'h world" where
  "save_user e c dn chs gids w =
     (if name_clash dn chs (w_users w) then crash e c IntegrityError w
      else
        let w1 = w\<lparr>w_users := modify_row u_dn dn (fold apply_change chs) (w_users w),
                   w_members := (case gids of None \<Rightarrow> w_members w | Some is \<Rightarrow> sync_groups c dn is (w_members w))\<rparr>;
            names = List.map_filter (\<lambda>ch. case ch of SetUsername n \<Rightarrow> Some n | _ \<Rightarrow> None) chs
        in (ok_reply [(''ok'', JBool True), (''username'', jopt (if names = [] then None else Some (hd names)))],
            log_event c ''admin_user_update'' ''ok''
              [(''target_dn'', take 128 dn),
               (''fields'', join '','' (map change_name chs) @ (if gids \<noteq> None then ''+groups'' else []))] w1))"

definition edit_user ::
  "'h env \<Rightarrow> string \<Rightarrow> user_change list \<Rightarrow> string option \<Rightarrow> string option \<Rightarrow> int list option \<Rightarrow> 'h handler" where
  "edit_user e dn chs fname lname gids c w =
     (case row_by u_dn dn (w_users w) of
        None \<Rightarrow> refuse 404 ''user not found'' w
      | Some u \<Rightarrow>
          (case List.find (\<lambda>g. row_by g_id g (w_groups w) = None) (case gids of None \<Rightarrow> [] | Some is \<Rightarrow> is) of
             Some g \<Rightarrow> refuse 400 (''group '' @ int_str g @ '' does not exist'') w
           | None \<Rightarrow>
               save_user e c dn
                 (chs @ (if fname = None \<and> lname = None then [] else renamed e u fname lname (w_users w))) gids w))"

definition update_user_body :: "'h env \<Rightarrow> 'h handler" where
  "update_user_body e c w =
     with_payload e c w (\<lambda>p.
     attempt e c (edit_target p) w (\<lambda>dn.
     if dn = [] \<or> 512 < length dn then refuse 400 ''invalid dn'' w
     else case demotes_self c dn p of
       Some msg \<Rightarrow> refuse 400 msg w
     | None \<Rightarrow>
         (case contact_changes p of
            Inl msg \<Rightarrow> refuse 400 msg w
          | Inr contact \<Rightarrow>
              attempt e c (new_name p ''first_name'') w (\<lambda>fname.
              attempt e c (new_name p ''last_name'') w (\<lambda>lname.
              case group_set p of
                Inl msg \<Rightarrow> refuse 400 msg w
              | Inr gids \<Rightarrow>
                  let chs = flag_changes p @ contact @ name_changes fname lname in
                  if chs = [] \<and> gids = None then refuse 400 ''no fields to update'' w
                  else edit_user e dn chs fname lname gids c w)))))"

definition admin_update_user :: "'h env \<Rightarrow> 'h handler" where
  "admin_update_user e =
     require_admin e ''admin_update_user'' (require_csrf e ''admin_update_user'' (update_user_body e))"

subsection \<open>Passwords\<close>

definition set_password_body :: "'h env \<Rightarrow> 'h handler" where
  "set_password_body e c w =
     with_payload e c w (\<lambda>p.
     attempt e c (edit_target p) w (\<lambda>dn.
     if dn = [] then refuse 400 ''dn required'' w
     else attempt e c (case jget ''password'' p of JStr s \<Rightarrow> Inr s
            | j \<Rightarrow> if truthy j then Inl TypeError else Inr []) w (\<lambda>pw.
     if password_policy_errors pw \<noteq> []
     then refuse 400 (''password needs '' @ join '', '' (password_policy_errors pw)) w
     else case row_by u_dn dn (w_users w) of
       None \<Rightarrow> refuse 404 ''user not found'' w
     | Some u \<Rightarrow>
         if \<not> set_opt (u_username u)
         then refuse 400 (''set the user'' @ [CHR 0x27] @ ''s first/last name first so a '' @ ''username exists'') w
         else (ok_json, log_event c ''admin_set_password'' ''ok'' [(''target_dn'', take 128 dn)]
                ((tick w)\<lparr>w_users := modify_row u_dn dn
                   (\<lambda>u. u\<lparr>u_password_hash := Some (hash_password e (drawn e w) pw), u_failed_attempts := 0,
                          u_locked_until := 0\<rparr>) (w_users w)\<rparr>)))))"

definition admin_set_password :: "'h env \<Rightarrow> 'h handler" where
  "admin_set_password e =
     require_admin e ''admin_set_password'' (require_csrf e ''admin_set_password'' (set_password_body e))"

definition temp_pool :: string where
  "temp_pool = ''abcdefghijklmnopqrstuvwxyz'' @ ''ABCDEFGHIJKLMNOPQRSTUVWXYZ'' @ ''0123456789'' @ ''!@#$%^&*-_=+''"

fun temp_tries :: "nat \<Rightarrow> nat \<Rightarrow> 'h env \<Rightarrow> 'h world \<Rightarrow> string \<times> 'h world" where
  "temp_tries 0 n e w = (''Aa1!'' @ drawn e w, tick w)"
| "temp_tries (Suc k) n e w =
     (let pw = map (\<lambda>i. choice e temp_pool (w_rand w + i)) [0..<n]; w1 = w\<lparr>w_rand := w_rand w + n\<rparr> in
      if password_policy_errors pw = [] then (pw, w1) else temp_tries k n e w1)"

definition gen_temp_password :: "'h env \<Rightarrow> 'h world \<Rightarrow> string \<times> 'h world" where
  "gen_temp_password e w = temp_tries 50 16 e w"

subsection \<open>Creating\<close>

definition local_row :: "'h env \<Rightarrow> ctx \<Rightarrow> string \<Rightarrow> string \<Rightarrow> string option \<Rightarrow> bool \<Rightarrow> string \<Rightarrow> user list \<Rightarrow> user" where
  "local_row e c fname lname email adm pwhash us =
     (let username = derive_username e fname lname us in
      (new_user (''local:'' @ username) (take 128 (strip (fname @ '' '' @ lname))) (c_now c))
        \<lparr>u_email := email, u_username := Some username, u_password_hash := Some pwhash,
         u_first_name := Some fname, u_last_name := Some lname, u_is_admin := adm\<rparr>)"

definition insert_local ::
  "'h env \<Rightarrow> string \<Rightarrow> string \<Rightarrow> string option \<Rightarrow> bool \<Rightarrow> string \<Rightarrow> bool \<Rightarrow> 'h handler" where
  "insert_local e fname lname email adm pw generated c w =
     (let u = local_row e c fname lname email adm (hash_password e (drawn e w) pw) (w_users w); w1 = tick w in
      case insert_user u (w_users w1) of
        None \<Rightarrow> refuse 409 ''a user with that name already exists'' w1
      | Some us \<Rightarrow>
          (ok_reply ([(''ok'', JBool True), (''mode'', JStr ''local''), (''username'', jopt (u_username u))]
             @ (if generated then [(''temp_password'', JStr pw)] else [])),
           log_event c ''admin_user_create'' ''ok''
             [(''username'', or_empty (u_username u)), (''is_admin'', if adm then ''1'' else ''0'')] (w1\<lparr>w_users := us\<rparr>)))"

definition create_local :: "'h env \<Rightarrow> json \<Rightarrow> 'h handler" where
  "create_local e p c w =
     attempt e c (str_or_empty (jget ''first_name'' p)) w (\<lambda>f.
     attempt e c (str_or_empty (jget ''last_name'' p)) w (\<lambda>l.
     let fname = strip f; lname = strip l in
     if \<not> NAME_RE fname \<or> \<not> NAME_RE lname then refuse 400 ''a valid first and last name are required'' w
     else case validate_email (jget ''email'' p) of
       Inl err \<Rightarrow> refuse 400 (''email: '' @ err) w
     | Inr email \<Rightarrow>
         attempt e c (str_or_empty (jget ''password'' p)) w (\<lambda>given.
         let generated = (strip given = []);
             (pw, w1) = (if generated then gen_temp_password e w else (strip given, w)) in
         if password_policy_errors pw \<noteq> []
         then refuse 400 (''password needs '' @ join '', '' (password_policy_errors pw)) w1
         else insert_local e fname lname email (truthy (jget ''is_admin'' p)) pw generated c w1)))"

definition create_mtls :: "'h env \<Rightarrow> json \<Rightarrow> 'h handler" where
  "create_mtls e p c w =
     attempt e c (edit_target p) w (\<lambda>dn.
     if dn = [] \<or> 512 < length dn then refuse 400 ''invalid dn'' w
     else case validate_email (jget ''email'' p) of
       Inl err \<Rightarrow> refuse 400 (''email: '' @ err) w
     | Inr email \<Rightarrow>
         let adm = truthy (jget ''is_admin'' p);
             u = (new_user dn (cn_from_dn dn) (c_now c))\<lparr>u_email := email, u_is_admin := adm\<rparr> in
         case insert_user u (w_users w) of
           None \<Rightarrow> refuse 409 ''user already exists'' w
         | Some us \<Rightarrow>
             (ok_reply [(''ok'', JBool True), (''mode'', JStr ''mtls'')],
              log_event c ''admin_user_create'' ''ok''
                [(''target_dn'', take 128 dn), (''is_admin'', if adm then ''1'' else ''0'')] (w\<lparr>w_users := us\<rparr>)))"

definition admin_create_user :: "'h env \<Rightarrow> 'h handler" where
  "admin_create_user e =
     require_admin e ''admin_create_user'' (require_csrf e ''admin_create_user'' (\<lambda>c w.
       with_payload e c w (\<lambda>p.
         case auth_mode e w of (mode, w1) \<Rightarrow>
           if mode = ''local'' then create_local e p c w1 else create_mtls e p c w1)))"

subsection \<open>Deleting\<close>

definition delete_user_body :: "'h env \<Rightarrow> 'h handler" where
  "delete_user_body e c w =
     with_payload e c w (\<lambda>p.
     attempt e c (edit_target p) w (\<lambda>dn.
     if dn = [] \<or> 512 < length dn then refuse 400 ''invalid dn'' w
     else if map_option u_dn (c_user c) = Some dn then refuse 400 ''cannot delete your own account'' w
     else case row_by u_dn dn (w_users w) of
       None \<Rightarrow> refuse 404 ''user not found'' w
     | Some u \<Rightarrow>
         if u_is_admin u \<and> rowcount u_is_admin (w_users w) \<le> 1 then refuse 400 ''cannot delete the last admin'' w
         else
           let jobs = rowcount (\<lambda>j. j_requester_dn j = dn) (w_jobs w);
               owned = rowcount (\<lambda>t. t_owner_dn t = Some dn) (w_templates w);
               w1 = w\<lparr>w_members := delete_where (\<lambda>m. m_dn m = dn) (w_members w)\<rparr>;
               w2 = (if truthy (jget ''purge'' p)
                     then w1\<lparr>w_templates := update_where (\<lambda>t. t_owner_dn t = Some dn) (\<lambda>t. t\<lparr>t_owner_dn := None\<rparr>) (w_templates w1)\<rparr>
                     else w1);
               w3 = w2\<lparr>w_users := remove_row u_dn dn (w_users w2)\<rparr>
           in (ok_reply [(''ok'', JBool True), (''jobs_retained'', JInt (int jobs)), (''templates'', JInt (int owned))],
               log_event c ''admin_user_delete'' ''ok''
                 [(''target_dn'', take 128 dn), (''jobs_retained'', nat_str jobs), (''templates'', nat_str owned)] w3)))"

definition admin_delete_user :: "'h env \<Rightarrow> 'h handler" where
  "admin_delete_user e =
     require_admin e ''admin_delete_user'' (require_csrf e ''admin_delete_user'' (delete_user_body e))"

subsection \<open>An administrator always remains\<close>

definition admin_row :: "string \<Rightarrow> 'h world \<Rightarrow> bool" where
  "admin_row d w \<longleftrightarrow> (\<exists>u. row_by u_dn d (w_users w) = Some u \<and> u_is_admin u \<and> u_is_active u)"

definition keeps_admins :: "'h world \<Rightarrow> 'h world \<Rightarrow> bool" where
  "keeps_admins w w' \<longleftrightarrow> (\<forall>d. admin_row d w \<longrightarrow> admin_row d w')"

named_theorems admin_rules \<open>what an operation does to active administrators\<close>

lemma keeps_same [admin_rules]: "w_users w' = w_users w \<Longrightarrow> keeps_admins w w'"
  by (simp add: keeps_admins_def admin_row_def)

lemma keeps_trans: "keeps_admins w w1 \<Longrightarrow> keeps_admins w1 w2 \<Longrightarrow> keeps_admins w w2"
  by (simp add: keeps_admins_def)

lemma keeps_cong: "w_users w1 = w_users w2 \<Longrightarrow> keeps_admins w w1 \<longleftrightarrow> keeps_admins w w2"
  by (simp add: keeps_admins_def admin_row_def)

lemma keeps_cong_left: "w_users w1 = w_users w2 \<Longrightarrow> keeps_admins w1 w \<longleftrightarrow> keeps_admins w2 w"
  by (simp add: keeps_admins_def admin_row_def)

lemma keeps_append: "w_users w' = w_users w @ us \<Longrightarrow> keeps_admins w w'"
  by (auto simp: keeps_admins_def admin_row_def row_by_append split: option.split)

lemma keeps_modify:
  assumes "w_users w' = modify_row u_dn k f (w_users w)" "\<And>u. u_dn (f u) = u_dn u"
    "\<And>u. u_is_admin u \<Longrightarrow> u_is_active u \<Longrightarrow> u_is_admin (f u) \<and> u_is_active (f u)"
  shows "keeps_admins w w'"
proof -
  have "admin_row d w'" if "admin_row d w" for d
  proof -
    from that obtain u where u: "row_by u_dn d (w_users w) = Some u" "u_is_admin u" "u_is_active u"
      by (auto simp: admin_row_def)
    then have "row_by u_dn d (w_users w') = Some (if u_dn u = k then f u else u)"
      using assms(1,2) by (simp add: modify_row_def row_by_update_where)
    with u assms(3) [OF u(2,3)] show ?thesis by (auto simp: admin_row_def)
  qed
  then show ?thesis by (simp add: keeps_admins_def)
qed

lemma keeps_insert: "insert_user u (w_users w) = Some us \<Longrightarrow> w_users w' = us \<Longrightarrow> keeps_admins w w'"
  by (rule keeps_append [of _ _ "[u]"]) (auto simp: insert_user_def insert_row_def split: if_splits)

lemma keeps_upsert: "keeps_admins w (snd (upsert_user e c dn w))"
proof (cases "row_by u_dn dn (w_users w)")
  case None
  then show ?thesis
    by (cases "dn = []") (simp add: upsert_user_def keeps_same, rule keeps_append [OF upsert_new(2)])
next
  case (Some u)
  then show ?thesis
    by (cases "dn = []") (simp add: upsert_user_def keeps_same, rule keeps_modify [OF upsert_old(2)], simp_all)
qed

lemma keeps_ensure: "keeps_admins w (snd (ensure_user e c i w))"
  by (simp add: ensure_user_def keeps_upsert keeps_same split: option.split)

lemma auth_mode_users [simp]: "w_users (snd (auth_mode e w)) = w_users w"
  by simp

text \<open>
  A guarded request: either the handler runs for an active administrator whose row is in the state it
  is given, or the administrators of the state it found are still there.
\<close>

lemma guarded_admin:
  assumes "c_user c = load_user (me c) w"
  shows "keeps_admins w (snd (guard_user e name h c w))
    \<or> (\<exists>u c' w'. c' = c\<lparr>c_user := Some u\<rparr> \<and> row_by u_dn (u_dn u) (w_users w') = Some u \<and> u_is_active u
         \<and> keeps_admins w w' \<and> guard_user e name h c w = h c' w')"
proof (cases "c_identity c")
  case None
  then show ?thesis by (simp add: guard_user_def keeps_same)
next
  case (Some i)
  obtain mode w1 where a: "auth_mode e w = (mode, w1)" by fastforce
  have u1: "w_users w1 = w_users w" using auth_mode_users [of e w] by (simp only: a snd_conv)
  obtain r w2 where en: "ensure_user e c i w1 = (r, w2)" by fastforce
  have k: "keeps_admins w w2"
    using keeps_ensure [of w1 e c i] by (simp add: en keeps_cong_left [OF u1])
  have row: "row_by u_dn (u_dn u) (w_users w2) = Some u" if r: "r = Inr (Some u)" for u
  proof (cases "c_user c")
    case (Some u0)
    with r en have "u0 = u" "w2 = w1" by (auto simp: ensure_user_def)
    moreover have "row_by u_dn (me c) (w_users w) = Some u0"
      using assms Some by (auto simp: load_user_def split: if_splits)
    moreover from calculation have "u_dn u = me c" by (auto dest: row_by_SomeD)
    ultimately show ?thesis using u1 by simp
  next
    case none: None
    with en have up: "upsert_user e c (id_dn i) w1 = (r, w2)" by (simp add: ensure_user_def)
    have dn: "id_dn i \<noteq> []" using up r by (auto simp: upsert_user_def)
    have "row_by u_dn (id_dn i) (w_users w2) = Some u"
      using up r dn by (auto simp: upsert_user_def Let_def split: if_splits option.splits)
    moreover from this have "u_dn u = id_dn i" by (auto dest: row_by_SomeD)
    ultimately show ?thesis by simp
  qed
  show ?thesis
  proof (cases "(mode = ''local'' \<and> id_via i \<noteq> ''local'') \<or> (\<nexists>u. r = Inr (Some u) \<and> u_is_active u)")
    case True
    then have "w_users (snd (guard_user e name h c w)) \<in> {w_users w1, w_users w2}"
      by (auto simp: guard_user_def Some a en split: sum.split)
    with k u1 show ?thesis by (auto simp: keeps_admins_def admin_row_def)
  next
    case False
    then obtain u where u: "r = Inr (Some u)" "u_is_active u" by auto
    with False have "guard_user e name h c w = h (c\<lparr>c_user := Some u\<rparr>) w2"
      by (auto simp: guard_user_def Some a en)
    with u row k show ?thesis by blast
  qed
qed

text \<open>Handlers that leave the account of their caller alone.\<close>

definition spares_caller :: "'h handler \<Rightarrow> bool" where
  "spares_caller h \<longleftrightarrow> (\<forall>c w u. c_user c = Some u \<longrightarrow> admin_row (u_dn u) w \<longrightarrow> admin_row (u_dn u) (snd (h c w)))"

lemma spares_keeps: "(\<And>c w. keeps_admins w (snd (h c w))) \<Longrightarrow> spares_caller h"
  by (simp add: spares_caller_def keeps_admins_def)

definition some_admin :: "'h world \<Rightarrow> bool" where
  "some_admin w \<longleftrightarrow> (\<exists>u\<in>set (w_users w). u_is_admin u \<and> u_is_active u)"

lemma some_admin_row: "users_ok (w_users w) \<Longrightarrow> some_admin w \<longleftrightarrow> (\<exists>d. admin_row d w)"
  by (auto simp: some_admin_def admin_row_def users_ok_def dest: row_by_SomeD row_by_unique)

lemma admin_endpoint:
  assumes "c_user c = load_user (me c) w" "spares_caller h" "admin_row d w"
  shows "\<exists>d. admin_row d (snd (require_admin e name (require_csrf e name h) c w))"
proof -
  let ?h = "\<lambda>c w. if is_admin c then require_csrf e name h c w
       else deny e c name ''deny_not_admin'' [(''dn'', take 128 (me c))] w"
  from guarded_admin [OF assms(1), of e name ?h] consider
      "keeps_admins w (snd (guard_user e name ?h c w))"
    | u w' where "row_by u_dn (u_dn u) (w_users w') = Some u" "u_is_active u" "keeps_admins w w'"
        "guard_user e name ?h c w = ?h (c\<lparr>c_user := Some u\<rparr>) w'" by blast
  then show ?thesis
  proof cases
    case 1
    with assms(3) show ?thesis by (auto simp: require_admin_def keeps_admins_def)
  next
    case 2
    then have d: "admin_row d w'" using assms(3) by (simp add: keeps_admins_def)
    show ?thesis
    proof (cases "u_is_admin u \<and> \<not> (c_method c \<in> set [''POST'', ''PUT'', ''DELETE'', ''PATCH'']
         \<and> c_headers c ''X-Requested-With'' \<noteq> Some ''certheim'')")
      case True
      then have "admin_row (u_dn u) w'" using 2 by (auto simp: admin_row_def)
      then have "admin_row (u_dn u) (snd (h (c\<lparr>c_user := Some u\<rparr>) w'))"
        using assms(2) by (simp add: spares_caller_def)
      with True 2(4) show ?thesis by (auto simp: require_admin_def require_csrf_def is_admin_def)
    next
      case False
      then have "w_users (snd (?h (c\<lparr>c_user := Some u\<rparr>) w')) = w_users w'"
        by (auto simp: require_csrf_def is_admin_def)
      with d have "admin_row d (snd (?h (c\<lparr>c_user := Some u\<rparr>) w'))" by (simp add: admin_row_def)
      with 2(4) show ?thesis by (auto simp only: require_admin_def)
    qed
  qed
qed


lemma admin_row_cong: "w_users w' = w_users w \<Longrightarrow> admin_row d w' = admin_row d w"
  by (simp add: admin_row_def)

lemma admin_attempt:
  "admin_row d w \<Longrightarrow> (\<And>x. r = Inr x \<Longrightarrow> admin_row d (snd (k x))) \<Longrightarrow> admin_row d (snd (attempt e c r w k))"
  by (cases r) (simp_all add: admin_row_def)

lemma admin_payload:
  "admin_row d w \<Longrightarrow> (\<And>p. admin_row d (snd (k p))) \<Longrightarrow> admin_row d (snd (with_payload e c w k))"
  unfolding with_payload_def by (rule admin_attempt)

lemma admin_refuse: "admin_row d w \<Longrightarrow> admin_row d (snd (refuse n m w))"
  by simp

lemma admin_modify:
  fixes w w' :: "'h world"
  assumes "admin_row d w" "w_users w' = modify_row u_dn k f (w_users w)" "\<And>u. u_dn (f u) = u_dn u"
    "\<And>u. u_is_admin u \<Longrightarrow> u_is_active u \<Longrightarrow> u_is_admin (f u) \<and> u_is_active (f u)"
  shows "admin_row d w'"
  using keeps_modify [OF assms(2-4)] assms(1) by (simp add: keeps_admins_def)

lemma admin_if:
  "(P \<Longrightarrow> admin_row d (snd x)) \<Longrightarrow> (\<not> P \<Longrightarrow> admin_row d (snd y)) \<Longrightarrow> admin_row d (snd (if P then x else y))"
  by simp

text \<open>The changes that cost an administrator the role.\<close>

definition harmless :: "user_change list \<Rightarrow> bool" where
  "harmless chs \<longleftrightarrow> SetAdmin False \<notin> set chs \<and> SetActive False \<notin> set chs"

lemma apply_change_dn [simp]: "u_dn (fold apply_change chs u) = u_dn u"
proof (induction chs arbitrary: u)
  case (Cons ch chs) then show ?case by (cases ch) simp_all
qed simp

lemma harmless_fold:
  "harmless chs \<Longrightarrow> u_is_admin u \<Longrightarrow> u_is_active u \<Longrightarrow>
     u_is_admin (fold apply_change chs u) \<and> u_is_active (fold apply_change chs u)"
proof (induction chs arbitrary: u)
  case (Cons ch chs) then show ?case by (cases ch) (auto simp: harmless_def)
qed simp

lemma harmless_append [simp]: "harmless (xs @ ys) \<longleftrightarrow> harmless xs \<and> harmless ys"
  by (auto simp: harmless_def)

lemma harmless_parts [simp]:
  "harmless (name_changes f l)" "harmless (renamed e u f l us)" "harmless []" "harmless (if b then [] else renamed e u f l us)"
  by (auto simp: harmless_def name_changes_def renamed_def Let_def split: option.splits)

lemma harmless_contact: "contact_changes p = Inr chs \<Longrightarrow> harmless chs"
  by (auto simp: contact_changes_def harmless_def Let_def map_sum_def split: if_splits json.splits sum.splits)

lemma harmless_flags: "c_user c = Some u \<Longrightarrow> demotes_self c (u_dn u) p = None \<Longrightarrow> harmless (flag_changes p)"
  by (auto simp: demotes_self_def harmless_def flag_changes_def split: if_splits)

lemma save_user_admin:
  assumes "admin_row d w" "d = dn \<Longrightarrow> harmless chs"
  shows "admin_row d (snd (save_user e c dn chs gids w))"
proof (cases "name_clash dn chs (w_users w)")
  case True
  with assms(1) show ?thesis by (simp add: save_user_def admin_row_def)
next
  case False
  from assms obtain u where "row_by u_dn d (w_users w) = Some u" "u_is_admin u" "u_is_active u"
    by (auto simp: admin_row_def)
  with False assms(2) harmless_fold [of chs u] show ?thesis
    by (cases "d = dn") (simp_all add: save_user_def Let_def admin_row_def users.lookup_modify)
qed

lemma edit_user_admin:
  "admin_row d w \<Longrightarrow> (d = dn \<Longrightarrow> harmless chs) \<Longrightarrow> admin_row d (snd (edit_user e dn chs f l gids c w))"
  by (auto simp: edit_user_def split: option.split intro!: save_user_admin)

lemma update_user_spares:
  fixes e :: "'h env"
  shows "spares_caller (update_user_body e)"
  unfolding spares_caller_def
proof (intro allI impI)
  fix c :: ctx and w :: "'h world" and u
  assume a: "c_user c = Some u" "admin_row (u_dn u) w"
  show "admin_row (u_dn u) (snd (update_user_body e c w))"
    unfolding update_user_body_def
    by (rule admin_payload [OF a(2)], rule admin_attempt [OF a(2)])
      (auto simp: a Let_def harmless_flags [OF a(1)] harmless_contact
        split: option.split sum.split intro!: admin_attempt edit_user_admin)
qed

lemma set_password_spares: "spares_caller (set_password_body e)"
proof (rule spares_keeps)
  fix c w
  have "admin_row d (snd (set_password_body e c w))" if "admin_row d w" for d
    unfolding set_password_body_def
    by (rule admin_payload [OF that], rule admin_attempt [OF that], rule admin_if, simp add: that,
        rule admin_attempt [OF that])
      (use that in \<open>auto intro: admin_modify split: option.split\<close>)
  then show "keeps_admins w (snd (set_password_body e c w))" by (simp add: keeps_admins_def)
qed

lemma gen_temp_users [simp]: "w_users (snd (gen_temp_password e w)) = w_users w"
proof -
  have "w_users (snd (temp_tries k n e w)) = w_users w" for k n
    by (induction k arbitrary: w) (simp_all add: Let_def)
  then show ?thesis by (simp add: gen_temp_password_def)
qed

lemma insert_user_admin:
  fixes w w' :: "'h world"
  shows "admin_row d w \<Longrightarrow> insert_user u (w_users w) = Some us \<Longrightarrow> w_users w' = us \<Longrightarrow> admin_row d w'"
  using keeps_insert [of u w us w'] by (simp add: keeps_admins_def)

lemma insert_local_admin: "admin_row d w \<Longrightarrow> admin_row d (snd (insert_local e f l m adm pw g c w))"
  by (auto simp: insert_local_def Let_def intro: insert_user_admin split: option.split)
    (simp_all add: admin_row_def)

lemma create_user_admin: "admin_row d w \<Longrightarrow> admin_row d (snd (create_local e p c w)) \<and> admin_row d (snd (create_mtls e p c w))"
proof (rule conjI)
  assume a: "admin_row d w"
  then have g: "admin_row d (snd (gen_temp_password e w))" by (simp add: admin_row_def)
  show "admin_row d (snd (create_local e p c w))"
    unfolding create_local_def Let_def
    by (rule admin_attempt [OF a], rule admin_attempt [OF a])
      (use a g in \<open>auto intro!: admin_attempt insert_local_admin split: sum.split prod.split\<close>)
  show "admin_row d (snd (create_mtls e p c w))"
    unfolding create_mtls_def Let_def
    by (rule admin_attempt [OF a]) (use a in \<open>auto split: sum.split option.split intro: insert_user_admin\<close>)
qed

lemma delete_user_spares:
  fixes e :: "'h env"
  shows "spares_caller (delete_user_body e)"
  unfolding spares_caller_def
proof (intro allI impI)
  fix c :: ctx and w :: "'h world" and u
  assume a: "c_user c = Some u" "admin_row (u_dn u) w"
  then show "admin_row (u_dn u) (snd (delete_user_body e c w))"
    unfolding delete_user_body_def Let_def
    by (intro admin_payload admin_attempt) (auto simp: admin_row_def users.lookup_remove split: option.split)
qed


lemma keeps_guard:
  assumes "\<And>c w. keeps_admins w (snd (h c w))" "c_user c = load_user (me c) w"
  shows "keeps_admins w (snd (guard_user e name h c w))"
proof -
  from guarded_admin [OF assms(2), of e name h] show ?thesis
  proof (elim disjE exE conjE)
    fix u c' w' assume "keeps_admins w w'" "guard_user e name h c w = h c' w'"
    then show ?thesis using assms(1) keeps_trans by metis
  qed
qed

lemma keeps_admin_only:
  assumes "\<And>c w. keeps_admins w (snd (h c w))" "c_user c = load_user (me c) w"
  shows "keeps_admins w (snd (require_admin e name h c w))"
  unfolding require_admin_def by (rule keeps_guard [OF _ assms(2)]) (simp add: assms(1) keeps_same)

lemma keeps_csrf: "(\<And>c w. keeps_admins w (snd (h c w))) \<Longrightarrow> keeps_admins w (snd (require_csrf e name h c w))"
  by (simp add: require_csrf_def keeps_same)

lemma session_users [simp]: "w_users (snd (create_local_session e c dn w)) = w_users w"
  by (simp add: create_local_session_def Let_def tick_def split: option.split)

lemma issue_session_admin:
  assumes "\<And>w. admin_row d w \<Longrightarrow> admin_row d (after w)" "admin_row d w"
  shows "admin_row d (snd (issue_session e c dn ans after w))"
proof -
  obtain r w1 where s: "create_local_session e c dn w = (r, w1)" by fastforce
  then have "admin_row d w1" using assms(2) session_users [of e c dn w] by (simp add: admin_row_def)
  then show ?thesis using assms(1) by (cases r) (simp_all add: issue_session_def s admin_row_def)
qed

lemma update_user_admin:
  "admin_row d w \<Longrightarrow> (\<And>u. u_dn (f u) = u_dn u) \<Longrightarrow>
     (\<And>u. u_is_admin u \<Longrightarrow> u_is_active u \<Longrightarrow> u_is_admin (f u) \<and> u_is_active (f u)) \<Longrightarrow>
     admin_row d (update_user k f w)"
  by (rule admin_modify [where f = f and k = k]) (simp_all add: update_user_def)

lemma log_admin: "admin_row d (log_event c a r x w) \<longleftrightarrow> admin_row d w"
  by (simp add: admin_row_def)

lemma login_admin: "admin_row d w \<Longrightarrow> admin_row d (snd (auth_login e c w))"
proof -
  assume a: "admin_row d w"
  obtain mode w1 where m: "auth_mode e w = (mode, w1)" by fastforce
  then have a1: "admin_row d w1" using a auth_mode_users [of e w] by (simp add: admin_row_def)
  have "admin_row d (snd (login_user e n pw u c w1))" for n pw u
    using a1 by (auto simp: login_user_def login_failed_def Let_def log_admin intro!: update_user_admin issue_session_admin)
  then show ?thesis
    unfolding auth_login_def Let_def m prod.case using a a1
    by (intro admin_payload admin_attempt) (auto simp: log_admin split: option.split)
qed

lemma register_admin: "admin_row d w \<Longrightarrow> admin_row d (snd (auth_register e c w))"
proof -
  assume a: "admin_row d w"
  obtain mode w1 where m: "auth_mode e w = (mode, w1)" by fastforce
  then have a1: "admin_row d w1" using a auth_mode_users [of e w] by (simp add: admin_row_def)
  have ins: "insert_registration n e c ap h r us = Some (u, us') \<Longrightarrow> \<exists>v. us' = us @ [v]" for n ap h r us u us'
    by (induction n) (auto simp: Let_def insert_user_def insert_row_def split: if_splits option.splits)
  have ap: "admin_row d w3" if "admin_row d w2" "w_users w3 = w_users w2 @ us" for us and w2 w3 :: "'a world"
    using keeps_append [OF that(2)] that(1) by (simp add: keeps_admins_def)
  have reg: "admin_row d (snd (register_user e r c w1))" for r
    using a1 by (auto simp: register_user_def Let_def log_admin split: option.split
      intro!: issue_session_admin dest!: ins intro: ap)
  have "admin_row d (snd (register_checked e ds f l m pw c w1))" for ds f l m pw
    using a1 reg by (cases pw) (simp_all add: register_checked_def Let_def log_admin, simp_all add: admin_row_def)
  then show ?thesis
    unfolding auth_register_def Let_def m prod.case using a1
    by (auto intro!: admin_payload admin_attempt)
qed

text \<open>Every request that can reach the account table, each run in the context the server gives it.\<close>

datatype user_request = ListUsers | EditUser | SetPassword | CreateUser | DeleteUser | ApproveUser string
  | Login | Register

fun serve_user :: "'h env \<Rightarrow> user_request \<Rightarrow> 'h handler" where
  "serve_user e ListUsers = admin_list_users e"
| "serve_user e EditUser = admin_update_user e"
| "serve_user e SetPassword = admin_set_password e"
| "serve_user e CreateUser = admin_create_user e"
| "serve_user e DeleteUser = admin_delete_user e"
| "serve_user e (ApproveUser dn) = admin_approve_user e dn"
| "serve_user e Login = auth_login e"
| "serve_user e Register = auth_register e"

inductive user_history :: "'h env \<Rightarrow> 'h world \<Rightarrow> 'h world \<Rightarrow> bool" for e w where
  start: "user_history e w w"
| request: "user_history e w v \<Longrightarrow> before_request e c0 v = (c, v1) \<Longrightarrow> user_history e w (snd (serve_user e r c v1))"
| elsewhere: "user_history e w v \<Longrightarrow> keeps_admins v v' \<Longrightarrow> user_history e w v'"

lemma local_identity_users [simp]: "w_users (snd (local_identity c w)) = w_users w"
  by (simp add: local_identity_def session_user_dn_def Let_def split: prod.split option.split)

lemma resolve_users [simp]: "w_users (snd (resolve_identity e c w)) = w_users w"
proof -
  obtain mode w1 where m: "auth_mode e w = (mode, w1)" by fastforce
  obtain i w2 where l: "local_identity c w1 = (i, w2)" by fastforce
  have "w_users w1 = w_users w" "w_users w2 = w_users w1"
    using auth_mode_users [of e w] local_identity_users [of c w1] by (simp_all only: m l snd_conv)
  then show ?thesis by (cases i) (simp_all add: resolve_identity_def m l Let_def)
qed

lemma before_request_user:
  assumes "before_request e c0 v = (c, w)"
  shows "c_user c = load_user (me c) w" "w_users w = w_users v"
proof -
  obtain i w1 where r: "resolve_identity e c0 v = (i, w1)" by fastforce
  then have "w_users w1 = w_users v" using resolve_users [of e c0 v] by (simp only: r snd_conv)
  with assms show "c_user c = load_user (me c) w" "w_users w = w_users v"
    by (auto simp: before_request_def r me_def)
qed

lemma serve_user_admin:
  assumes "c_user c = load_user (me c) w" "admin_row d w"
  shows "\<exists>d. admin_row d (snd (serve_user e r c w))"
proof -
  have create: "spares_caller (\<lambda>c w. with_payload e c w (\<lambda>p.
      case auth_mode e w of (mode, w1) \<Rightarrow> if mode = ''local'' then create_local e p c w1 else create_mtls e p c w1))"
  proof (rule spares_keeps)
    fix c w
    have "admin_row d (snd (with_payload e c w (\<lambda>p. case auth_mode e w of
        (mode, w1) \<Rightarrow> if mode = ''local'' then create_local e p c w1 else create_mtls e p c w1)))" if "admin_row d w" for d
    proof -
      obtain mode w1 where m: "auth_mode e w = (mode, w1)" by fastforce
      then have "admin_row d w1" using that auth_mode_users [of e w] by (simp add: admin_row_def)
      then show ?thesis using that create_user_admin [of d w1] unfolding m prod.case by (intro admin_payload) simp_all
    qed
    then show "keeps_admins w (snd (with_payload e c w (\<lambda>p. case auth_mode e w of
        (mode, w1) \<Rightarrow> if mode = ''local'' then create_local e p c w1 else create_mtls e p c w1)))"
      by (simp add: keeps_admins_def)
  qed
  have approve: "spares_caller (\<lambda>c w. if row_by u_dn dn (w_users w) = None then refuse 404 ''user not found'' w
      else (ok_reply [(''ok'', JBool True)], log_event c ''admin_user_approve'' ''ok'' [(''target_dn'', take 128 dn)]
        (update_user dn (\<lambda>u. u\<lparr>u_auth_status := ''active'', u_is_active := True\<rparr>) w)))" for dn
    by (auto simp: spares_caller_def log_admin intro!: update_user_admin)
  have kept: "\<exists>d. admin_row d w'" if "keeps_admins w w'" for w'
    using assms(2) that by (auto simp: keeps_admins_def)
  note run = admin_endpoint [OF assms(1) _ assms(2)]
  show ?thesis
  proof (cases r)
    case ListUsers
    have "keeps_admins w (snd (admin_list_users e c w))"
      unfolding admin_list_users_def by (rule keeps_admin_only [OF _ assms(1)]) (simp add: keeps_same)
    with ListUsers kept show ?thesis by simp
  next
    case EditUser then show ?thesis using run [OF update_user_spares] by (simp add: admin_update_user_def)
  next
    case SetPassword then show ?thesis using run [OF set_password_spares] by (simp add: admin_set_password_def)
  next
    case CreateUser then show ?thesis using run [OF create] by (simp add: admin_create_user_def)
  next
    case DeleteUser then show ?thesis using run [OF delete_user_spares] by (simp add: admin_delete_user_def)
  next
    case (ApproveUser dn) then show ?thesis using run [OF approve] by (simp add: admin_approve_user_def)
  next
    case Login then show ?thesis using login_admin [OF assms(2)] by auto
  next
    case Register then show ?thesis using register_admin [OF assms(2)] by auto
  qed
qed

text \<open>
  C4: nobody can lock the administrators out. Once the instance has an active administrator it has one
  after any history of account requests by anyone: editing, demoting, deactivating, deleting, approving
  and creating users, passwords, logins and registrations.
\<close>
theorem admin_remains:
  assumes "users_ok (w_users w)" "some_admin w" "user_history e w w'"
  shows "some_admin w'"
proof -
  from assms(1,2) have "\<exists>d. admin_row d w" by (simp add: some_admin_row)
  with assms(3) have "\<exists>d. admin_row d w'"
  proof (induction rule: user_history.induct)
    case (request v c0 c v1 r)
    then obtain d where "admin_row d v1" by (auto simp: admin_row_def before_request_user(2))
    with serve_user_admin [OF before_request_user(1) [OF request(2)]] show ?case by blast
  qed (auto simp: keeps_admins_def)
  then show ?thesis by (auto simp: admin_row_def some_admin_def dest: row_by_SomeD)
qed


definition admin_world :: "unit world" where
  "admin_world = sample_world\<lparr>w_users := [(new_user ''CN=ADA'' ''ADA'' 0)\<lparr>u_is_admin := True\<rparr>]\<rparr>"

theorem admin_remains_witness:
  "some_admin (snd (serve_user sample_env DeleteUser
     (fst (before_request sample_env sample_ctx admin_world)) (snd (before_request sample_env sample_ctx admin_world))))"
proof -
  have ok: "users_ok (w_users admin_world)" by (simp add: admin_world_def users_ok_def unique_key_def new_user_def)
  have adm: "some_admin admin_world" by (simp add: admin_world_def some_admin_def new_user_def)
  have h: "user_history sample_env admin_world (snd (serve_user sample_env DeleteUser
     (fst (before_request sample_env sample_ctx admin_world)) (snd (before_request sample_env sample_ctx admin_world))))"
    by (rule user_history.request [OF user_history.start]) simp
  show ?thesis by (rule admin_remains [OF ok adm h])
qed

subsection \<open>Group membership of an edit\<close>

lemma sync_groups_props:
  "set (map m_gid (filter (\<lambda>m. m_dn m = dn) (sync_groups c dn gids ms)))
     = set gids \<union> m_gid ` set (filter (\<lambda>m. m_dn m = dn \<and> m_role m = Owner) ms)"
  "filter (\<lambda>m. m_dn m \<noteq> dn) (sync_groups c dn gids ms) = filter (\<lambda>m. m_dn m \<noteq> dn) ms"
  "filter (\<lambda>m. m_role m = Owner) (sync_groups c dn gids ms) = filter (\<lambda>m. m_role m = Owner) ms"
proof -
  show "set (map m_gid (filter (\<lambda>m. m_dn m = dn) (sync_groups c dn gids ms)))
     = set gids \<union> m_gid ` set (filter (\<lambda>m. m_dn m = dn \<and> m_role m = Owner) ms)"
    by (auto simp: sync_groups_def Let_def image_iff)
  show "filter (\<lambda>m. m_dn m \<noteq> dn) (sync_groups c dn gids ms) = filter (\<lambda>m. m_dn m \<noteq> dn) ms"
    by (auto simp: sync_groups_def Let_def filter_map o_def intro!: filter_cong)
  show "filter (\<lambda>m. m_role m = Owner) (sync_groups c dn gids ms) = filter (\<lambda>m. m_role m = Owner) ms"
    by (auto simp: sync_groups_def Let_def filter_map o_def intro!: filter_cong)
qed

lemma save_user_effect:
  assumes "status_code (fst (save_user e c dn chs gids w)) = 200"
  shows "w_members (snd (save_user e c dn chs gids w)) = (case gids of None \<Rightarrow> w_members w | Some is \<Rightarrow> sync_groups c dn is (w_members w))"
    and "w_users (snd (save_user e c dn chs gids w)) = modify_row u_dn dn (fold apply_change chs) (w_users w)"
  using assms by (auto simp: save_user_def Let_def split: if_splits)

text \<open>
  Saving a user with a list of groups makes the list their membership. Every listed group exists and has them
  as a member, every other membership is gone except the groups they own, no ownership anywhere changes,
  nobody else's memberships change, and a refused request changes nothing.
\<close>
theorem edit_sets_groups:
  "if status_code (fst (edit_user e dn chs f l (Some is) c w)) = 200
   then set (map m_gid (memberships dn (snd (edit_user e dn chs f l (Some is) c w))))
          = set is \<union> m_gid ` set (filter (\<lambda>m. m_role m = Owner) (memberships dn w))
     \<and> filter (\<lambda>m. m_role m = Owner) (w_members (snd (edit_user e dn chs f l (Some is) c w)))
          = filter (\<lambda>m. m_role m = Owner) (w_members w)
     \<and> filter (\<lambda>m. m_dn m \<noteq> dn) (w_members (snd (edit_user e dn chs f l (Some is) c w)))
          = filter (\<lambda>m. m_dn m \<noteq> dn) (w_members w)
     \<and> set is \<subseteq> g_id ` set (w_groups w)
   else w_members (snd (edit_user e dn chs f l (Some is) c w)) = w_members w
     \<and> w_users (snd (edit_user e dn chs f l (Some is) c w)) = w_users w"
proof (cases "row_by u_dn dn (w_users w)")
  case None
  then show ?thesis by (simp add: edit_user_def)
next
  case (Some u)
  show ?thesis
  proof (cases "List.find (\<lambda>g. row_by g_id g (w_groups w) = None) is")
    case miss: (Some g)
    with Some show ?thesis by (simp add: edit_user_def)
  next
    case None
    let ?chs = "chs @ (if f = None \<and> l = None then [] else renamed e u f l (w_users w))"
    have run: "edit_user e dn chs f l (Some is) c w = save_user e c dn ?chs (Some is) w"
      using Some None by (simp add: edit_user_def)
    have ex: "set is \<subseteq> g_id ` set (w_groups w)"
      using None by (auto simp: find_None_iff_all row_by_None_iff)
    show ?thesis
    proof (cases "status_code (fst (save_user e c dn ?chs (Some is) w)) = 200")
      case True
      have eff: "w_members (snd (save_user e c dn ?chs (Some is) w)) = sync_groups c dn is (w_members w)"
        using save_user_effect(1) [OF True] by simp
      have "set (map m_gid (memberships dn (snd (save_user e c dn ?chs (Some is) w))))
          = set is \<union> m_gid ` set (filter (\<lambda>m. m_role m = Owner) (memberships dn w))"
        unfolding memberships_def eff filter_filter by (rule sync_groups_props(1))
      with True ex show ?thesis unfolding run by (simp only: eff sync_groups_props simp_thms if_True)
    next
      case False
      then have "w_members (snd (save_user e c dn ?chs (Some is) w)) = w_members w
          \<and> w_users (snd (save_user e c dn ?chs (Some is) w)) = w_users w"
        by (auto simp: save_user_def Let_def)
      with False show ?thesis unfolding run by simp
    qed
  qed
qed

subsection \<open>User names of an edit\<close>

lemma numbered_suffix: "numbered base (base @ nat_str n)"
  using nat_str_digits [of n] by (simp add: numbered_def at_end_def)

lemma renamed_cases:
  "renamed e u (Some f) (Some l) us = [] \<or>
   renamed e u (Some f) (Some l) us = [SetUsername (derive_username e f l us)]"
  by (auto simp: renamed_def Let_def)

text \<open>
  User names are stable and unique. Saving the same names twice never changes the user name twice, for
  names whose normalized form fits in sixty characters: the second save keeps what the first one chose. And the
  name a save chooses is never the name of another account, so the save cannot break on the unique index.
\<close>
theorem rename_stable:
  assumes "length (name_base f l) \<le> 60"
  shows "renamed e (fold apply_change (renamed e u (Some f) (Some l) us) u) (Some f) (Some l) us2 = []
    \<and> \<not> name_clash dn (renamed e u (Some f) (Some l) us) us"
proof (cases "renamed e u (Some f) (Some l) us = []")
  case True
  then have "renamed e u (Some f) (Some l) us2 = []" by (auto simp: renamed_def Let_def split: if_splits)
  with True show ?thesis by (simp add: name_clash_def)
next
  case False
  let ?n = "derive_username e f l us"
  have r: "renamed e u (Some f) (Some l) us = [SetUsername ?n]" using False renamed_cases by blast
  have "name_base f l \<noteq> []"
    using False by (auto simp: renamed_def name_base_def Let_def split: if_splits)
  then have b: "username_base f l = name_base f l"
    using assms by (simp add: username_base_def name_base_def Let_def)
  have "?n = name_base f l \<or> (\<exists>m. ?n = name_base f l @ nat_str m)"
    using derive_username_cases [of e f l us] unfolding b by cases auto
  then have "?n \<noteq> [] \<and> (?n = name_base f l \<or> numbered (name_base f l) ?n)"
    using numbered_suffix \<open>name_base f l \<noteq> []\<close> by auto
  moreover have "\<not> name_clash dn [SetUsername ?n] us"
    using derive_username_free [of _ us e f l] by (auto simp: name_clash_def list_ex_iff)
  ultimately show ?thesis unfolding r by (simp add: renamed_def Let_def)
qed

theorem rename_stable_witness:
  "renamed sample_env (fold apply_change (renamed sample_env (new_user ''CN=x'' ''x'' 0) (Some ''John'') (Some ''Smith'') [])
     (new_user ''CN=x'' ''x'' 0)) (Some ''John'') (Some ''Smith'') [] = []"
proof -
  have b: "name_base ''John'' ''Smith'' = ''john.smith''" by code_simp
  show ?thesis using rename_stable [of "''John''" "''Smith''" sample_env "new_user ''CN=x'' ''x'' 0" "[]" "[]"] by (simp add: b)
qed

text \<open>
  Beyond sixty characters the stored name is cut, no longer matches its base, and every save picks another one.
\<close>

lemma long_name_flips:
  fixes a :: string
  defines "a \<equiv> replicate 60 (CHR ''a'')"
  shows "renamed sample_env ((new_user ''CN=x'' ''x'' 0)\<lparr>u_username := Some a\<rparr>) (Some (a @ ''b'')) (Some [])
    [(new_user ''CN=x'' ''x'' 0)\<lparr>u_username := Some a\<rparr>] = [SetUsername (a @ ''2'')]"
proof -
  have n: "normalize_name_part (a @ ''b'') = a @ ''b''" unfolding a_def by code_simp
  have e: "normalize_name_part [] = []" by code_simp
  have len: "length a = 60" by (simp add: a_def)
  have base: "name_base (a @ ''b'') [] = a @ ''b''" by (simp add: name_base_def n e)
  have ub: "username_base (a @ ''b'') [] = a" by (simp add: username_base_def n e len)
  have "\<not> numbered (a @ ''b'') a"
    by (auto simp: numbered_def at_end_def starts_with_def len dest!: arg_cong [where f = length])
  moreover have "taken_names sample_env a [(new_user ''CN=x'' ''x'' 0)\<lparr>u_username := Some a\<rparr>] = [a]"
    using len by (auto simp: taken_names_def new_user_def set_opt_def Let_def)
  moreover have "nat_str 2 = ''2''" by code_simp
  ultimately show ?thesis using len
    by (auto simp: renamed_def Let_def base n e derive_username_def ub suffix_search.simps [of _ _ 2])
qed

subsection \<open>Created accounts\<close>

lemma fallback_policy: "11 \<le> length s \<Longrightarrow> password_policy_errors (''Aa1!'' @ s) = []"
proof -
  assume s: "11 \<le> length s"
  have c: "is_upper (CHR ''A'')" "is_lower (CHR ''a'')" "is_digit (CHR ''1'')" "\<not> is_alnum (CHR ''!'')"
    by (simp_all add: is_upper_def is_lower_def is_digit_def is_alnum_def is_alpha_def cp_def)
  show ?thesis using s c by (simp add: password_policy_errors_def PWPOLICY_MIN_LEN_def)
qed

lemma temp_tries_policy:
  "\<forall>n. 11 \<le> length (rand e n) \<Longrightarrow> password_policy_errors (fst (temp_tries k n e w)) = []"
proof (induction k arbitrary: w)
  case 0
  then show ?case using fallback_policy [of "drawn e w"] by (simp add: drawn_def)
qed (simp add: Let_def)

lemma gen_temp_policy: "\<forall>n. 11 \<le> length (rand e n) \<Longrightarrow> password_policy_errors (fst (gen_temp_password e w)) = []"
  unfolding gen_temp_password_def by (rule temp_tries_policy)

lemma local_row_insert:
  "insert_user (local_row e c f l m adm h us) us = Some (us @ [local_row e c f l m adm h us])"
proof (rule insert_user_fresh)
  show "\<forall>u'\<in>set us. u_username (local_row e c f l m adm h us) = None \<or>
      u_username u' \<noteq> u_username (local_row e c f l m adm h us)"
    using derive_username_free [of _ us e f l] by (auto simp: local_row_def Let_def)
  show "row_by u_dn (u_dn (local_row e c f l m adm h us)) us = None"
    using derive_username_free [of _ us e f l] by (fastforce simp: local_row_def new_user_def Let_def row_by_None_iff)
qed

lemma local_row_found:
  "user_by_name (derive_username e f l us) (us @ [local_row e c f l m adm h us]) = Some (local_row e c f l m adm h us)"
proof -
  have "List.find (\<lambda>u. u_username u = Some (derive_username e f l us)) us = None"
    using derive_username_free [of _ us e f l] by (auto simp: find_None_iff_all)
  moreover have "List.find P (us @ [x]) = Some x" if "List.find P us = None" "P x" for P and x :: user
    using that by (induction us) (auto split: if_splits)
  ultimately show ?thesis by (simp add: user_by_name_def local_row_def Let_def)
qed

text \<open>
  C13: a created account can log in. An administrator's request with acceptable names and no password
  always succeeds in local mode: it adds one active account under a user name nobody else has, returns a
  generated password once, that password passes the policy and is the one the stored hash verifies, and the
  account has the administrator role exactly when the request says so.
\<close>
theorem created_account_ready:
  assumes "users_ok (w_users w)" "\<forall>n. 11 \<le> length (rand e n)"
    and "str_or_empty (jget ''first_name'' p) = Inr f" "NAME_RE (strip f)"
    and "str_or_empty (jget ''last_name'' p) = Inr l" "NAME_RE (strip l)"
    and "validate_email (jget ''email'' p) = Inr m"
    and "str_or_empty (jget ''password'' p) = Inr given" "strip given = []"
  shows "\<exists>u name pw.
     fst (create_local e p c w) = ok_reply [(''ok'', JBool True), (''mode'', JStr ''local''),
       (''username'', JStr name), (''temp_password'', JStr pw)]
   \<and> w_users (snd (create_local e p c w)) = w_users w @ [u]
   \<and> users_ok (w_users (snd (create_local e p c w)))
   \<and> user_by_name name (w_users (snd (create_local e p c w))) = Some u
   \<and> u_is_active u \<and> u_auth_status u = ''active'' \<and> u_is_admin u = truthy (jget ''is_admin'' p)
   \<and> password_policy_errors pw = [] \<and> verify_password e pw (u_password_hash u)"
proof -
  obtain pw w1 where g: "gen_temp_password e w = (pw, w1)" by fastforce
  have pol: "password_policy_errors pw = []" and us: "w_users w1 = w_users w"
    using gen_temp_policy [OF assms(2), of w] gen_temp_users [of e w] by (simp_all only: g fst_conv snd_conv)
  let ?h = "hash_password e (drawn e w1) pw"
  let ?u = "local_row e c (strip f) (strip l) m (truthy (jget ''is_admin'' p)) ?h (w_users w)"
  let ?n = "derive_username e (strip f) (strip l) (w_users w)"
  have run: "create_local e p c w = insert_local e (strip f) (strip l) m (truthy (jget ''is_admin'' p)) pw True c w1"
    using assms(3-9) by (simp add: create_local_def Let_def g pol)
  have name: "u_username ?u = Some ?n" by (simp add: local_row_def Let_def)
  have fields: "u_is_active ?u" "u_auth_status ?u = ''active''" "u_is_admin ?u = truthy (jget ''is_admin'' p)"
    "u_password_hash ?u = Some ?h"
    by (simp_all add: local_row_def new_user_def Let_def)
  have "fst (create_local e p c w) = ok_reply [(''ok'', JBool True), (''mode'', JStr ''local''),
      (''username'', JStr ?n), (''temp_password'', JStr pw)]"
    and users: "w_users (snd (create_local e p c w)) = w_users w @ [?u]"
    using local_row_insert [of e c "strip f" "strip l" m "truthy (jget ''is_admin'' p)" ?h "w_users w"]
    by (simp_all add: run insert_local_def us name jopt_def Let_def)
  moreover have "users_ok (w_users w @ [?u])" by (rule insert_user_ok [OF assms(1) local_row_insert])
  ultimately show ?thesis
    using local_row_found [of e "strip f" "strip l" "w_users w" c m "truthy (jget ''is_admin'' p)" ?h] fields pol
    by (intro exI [of _ ?u] exI [of _ ?n] exI [of _ pw]) (simp add: verify_hash)
qed

theorem created_account_ready_witness:
  "\<exists>name pw. fst (create_local (quiet_env\<lparr>rand := (\<lambda>n. ''ABCDEFGHIJKLMNOPQRS'')\<rparr>)
       (JObj [(''first_name'', JStr ''Ada''), (''last_name'', JStr ''King'')]) sample_ctx sample_world)
     = ok_reply [(''ok'', JBool True), (''mode'', JStr ''local''), (''username'', JStr name), (''temp_password'', JStr pw)]
     \<and> password_policy_errors pw = []"
proof -
  let ?e = "(quiet_env :: unit env)\<lparr>rand := (\<lambda>n. ''ABCDEFGHIJKLMNOPQRS'')\<rparr>"
  let ?p = "JObj [(''first_name'', JStr ''Ada''), (''last_name'', JStr ''King'')]"
  have n: "NAME_RE (strip ''Ada'')" "NAME_RE (strip ''King'')" "strip [] = []" by code_simp+
  have ok: "users_ok (w_users sample_world)" by (simp add: sample_world_def)
  have f: "str_or_empty (jget ''first_name'' ?p) = Inr ''Ada''" "str_or_empty (jget ''last_name'' ?p) = Inr ''King''"
    "str_or_empty (jget ''password'' ?p) = Inr []" "validate_email (jget ''email'' ?p) = Inr None"
    by (simp_all add: str_or_empty_def validate_email_def)
  have r: "\<forall>n. 11 \<le> length (rand ?e n)" by simp
  from created_account_ready [OF ok r f(1) n(1) f(2) n(2) f(4) f(3) n(3), of sample_ctx] show ?thesis by blast
qed

subsection \<open>Deletion and live sessions\<close>

lemma delete_user_effect:
  assumes "payload_of (c_body c) = Inr p" "edit_target p = Inr dn" "status_code (fst (delete_user_body e c w)) = 200"
  shows "w_users (snd (delete_user_body e c w)) = remove_row u_dn dn (w_users w)
    \<and> w_sessions (snd (delete_user_body e c w)) = w_sessions w \<and> w_settings (snd (delete_user_body e c w)) = w_settings w"
  using assms by (auto simp: delete_user_body_def with_payload_def Let_def split: if_splits option.splits)

lemma stored_mode: "get_setting w ''auth_mode'' = Some m \<Longrightarrow> m \<noteq> [] \<Longrightarrow> auth_mode e w = (m, w)"
  by (simp add: auth_mode_def)

text \<open>
  Deleting a local account does not end its sessions. Whoever holds an unexpired session of the deleted account
  is still served, and that request puts an active account for the same name back into the table.
\<close>
theorem deleted_user_returns:
  assumes "payload_of (c_body c) = Inr p" "edit_target p = Inr dn" "status_code (fst (delete_user_body e c w)) = 200"
    and "get_setting w ''auth_mode'' = Some ''local''" "dn \<noteq> []"
    and "c_cookies c2 ''csr_session'' = Some tok" "tok \<noteq> []"
    and "row_by s_token tok (w_sessions w) = Some s" "s_dn s = dn" "c_now c2 \<le> s_expires_at s"
    and "before_request e c2 (snd (delete_user_body e c w)) = (c3, w2)"
  shows "row_by u_dn dn (w_users w2) = None
    \<and> fst (whoami e c3 w2) = ok_reply [(''dn'', JStr dn)]
    \<and> (\<exists>u. row_by u_dn dn (w_users (snd (whoami e c3 w2))) = Some u \<and> u_is_active u)"
proof -
  let ?w1 = "snd (delete_user_body e c w)"
  note eff = delete_user_effect [OF assms(1-3)]
  have mode: "auth_mode e ?w1 = (''local'', ?w1)"
    by (rule stored_mode) (use assms(4) eff in \<open>simp_all add: get_setting_def\<close>)
  let ?i = "\<lparr>id_dn = dn, id_serial = ''-'', id_via = ''local''\<rparr>"
  have sess: "session_user_dn c2 tok ?w1 = (Some dn, ?w1)"
    using assms(7-10) eff by (auto simp: session_user_dn_def)
  have "resolve_identity e c2 ?w1 = (?i, ?w1)"
    using assms(5,6) by (simp add: resolve_identity_def mode local_identity_def sess set_opt_def)
  moreover have gone: "row_by u_dn dn (w_users ?w1) = None" using eff by (simp add: users.lookup_remove)
  ultimately have c3: "c3 = c2\<lparr>c_identity := Some ?i, c_user := None\<rparr>" "w2 = ?w1"
    using assms(5,11) by (auto simp: before_request_def load_user_def)
  obtain w3 where up: "upsert_user e c3 dn ?w1 = (Inr (Some (first_contact e c3 dn (w_users ?w1))), w3)"
    using upsert_new(1) [OF assms(5) gone, of e c3] by (metis prod.collapse)
  have w3: "w_users w3 = w_users ?w1 @ [first_contact e c3 dn (w_users ?w1)]"
    using upsert_new(2) [OF assms(5) gone, of e c3] by (simp add: up)
  have "whoami e c3 w2 = (ok_reply [(''dn'', JStr dn)],
      log_event (c3\<lparr>c_user := Some (first_contact e c3 dn (w_users ?w1))\<rparr>) ''whoami'' ''ok'' [] w3)"
    using up by (simp add: whoami_def require_auth_def guard_user_def c3 mode ensure_user_def me_def)
  then show ?thesis using gone gone [unfolded row_by_None_iff] w3 c3(2) by (simp add: row_by_snoc)
qed

definition two_users :: "unit world" where
  "two_users = sample_world\<lparr>
     w_users := [(new_user ''CN=ADA'' ''ADA'' 0)\<lparr>u_is_admin := True\<rparr>, new_user ''local:bob'' ''Bob'' 0],
     w_sessions := [\<lparr>s_token = ''t'', s_dn = ''local:bob'', s_created_at = 0, s_expires_at = 5000\<rparr>],
     w_settings := [''auth_mode'' \<mapsto> ''local'']\<rparr>"

definition delete_bob :: ctx where
  "delete_bob = sample_ctx\<lparr>c_user := Some ((new_user ''CN=ADA'' ''ADA'' 0)\<lparr>u_is_admin := True\<rparr>),
     c_body := Some (JObj [(''dn'', JStr ''local:bob'')])\<rparr>"

definition bob_again :: ctx where
  "bob_again = sample_ctx\<lparr>c_identity := None, c_cookies := [''csr_session'' \<mapsto> ''t'']\<rparr>"

theorem deleted_user_returns_witness:
  "row_by u_dn ''local:bob'' (w_users (snd (delete_user_body sample_env delete_bob two_users))) = None
   \<and> fst (whoami sample_env (fst (before_request sample_env bob_again (snd (delete_user_body sample_env delete_bob two_users))))
        (snd (before_request sample_env bob_again (snd (delete_user_body sample_env delete_bob two_users)))))
      = ok_reply [(''dn'', JStr ''local:bob'')]"
proof -
  let ?p = "JObj [(''dn'', JStr ''local:bob'')]"
  have p: "payload_of (c_body delete_bob) = Inr ?p" by (simp add: delete_bob_def payload_of_def)
  have "strip ''local:bob'' = ''local:bob''" by code_simp
  then have t: "edit_target ?p = Inr ''local:bob''" by (simp add: edit_target_def str_or_empty_def)
  have rows: "w_users two_users = [(new_user ''CN=ADA'' ''ADA'' 0)\<lparr>u_is_admin := True\<rparr>, new_user ''local:bob'' ''Bob'' 0]"
    by (simp add: two_users_def)
  have ok: "status_code (fst (delete_user_body sample_env delete_bob two_users)) = 200"
    using p t by (simp add: delete_user_body_def with_payload_def Let_def rows)
      (simp add: delete_bob_def new_user_def Let_def)
  have m: "get_setting two_users ''auth_mode'' = Some ''local''" by (simp add: two_users_def get_setting_def)
  obtain c3 w2 where b: "before_request sample_env bob_again (snd (delete_user_body sample_env delete_bob two_users)) = (c3, w2)"
    by fastforce
  have s: "row_by s_token ''t'' (w_sessions two_users)
      = Some \<lparr>s_token = ''t'', s_dn = ''local:bob'', s_created_at = 0, s_expires_at = 5000\<rparr>" by (simp add: two_users_def)
  have "w_users w2 = w_users (snd (delete_user_body sample_env delete_bob two_users))" by (rule before_request_user(2) [OF b])
  with deleted_user_returns [OF p t ok m _ _ _ s _ _ b] b show ?thesis
    by (simp add: bob_again_def sample_ctx_def)
qed

end
