(* ===== verification/AdminJobs.thy ===== *)
theory AdminJobs
  imports Requests
begin

text \<open>
  Job and key clean-up by administrators (\<^verbatim>\<open>backend/routes_admin.py\<close>): deleting jobs one by one or
  by criteria, with or without their files, keys and certificates no job refers to, and the sweep that moves
  keys from the host into the vault. What the directory of issued certificates holds (name, size, time as
  text and number) is the argument \<open>dir\<close>: the root helper deletes from it.
\<close>

subsection \<open>Deleting jobs\<close>

text \<open>One helper call, counted when it succeeds.\<close>

definition helper_remove :: "'h env \<Rightarrow> string list \<Rightarrow> nat \<times> 'h world \<Rightarrow> nat \<times> 'h world" where
  "helper_remove e args nw =
     (case nw of (n, w) \<Rightarrow>
        case run_helper e args [] w of ((rc, _, _), w1) \<Rightarrow> (if rc = 0 then Suc n else n, w1))"

fun delete_job_files :: "'h env \<Rightarrow> job list \<Rightarrow> nat \<times> 'h world \<Rightarrow> nat \<times> 'h world" where
  "delete_job_files e [] nw = nw"
| "delete_job_files e (j # js) nw =
     (let nw1 = (if j_has_local_key j \<and> set_opt (j_local_key_name j)
                 then helper_remove e [''delete-key'', or_empty (j_local_key_name j)] nw else nw);
          nw2 = (if j_status j = Issued
                 then helper_remove e [''delete-issued'', j_target_host j @ ''.cer''] nw1 else nw1)
      in delete_job_files e js nw2)"

definition delete_job_body :: "'h env \<Rightarrow> string \<Rightarrow> 'h handler" where
  "delete_job_body e job_id c w =
     (if \<not> JOB_ID_RE job_id then abort e c 400 w
      else case row_by j_id job_id (w_jobs w) of
        None \<Rightarrow> refuse 404 ''not found'' w
      | Some j \<Rightarrow>
          let files = (lower (case c_args c ''delete_files'' of None \<Rightarrow> ''false'' | Some s \<Rightarrow> s) = ''true'') in
          (case (if files then delete_job_files e [j] (0, w) else (0, w)) of
             (n, w1) \<Rightarrow>
               (ok_reply [(''ok'', JBool True), (''files_removed'', JInt (int n))],
                log_event c ''admin_delete_job'' ''ok''
                  [(''job_id'', job_id), (''target'', j_target_host j), (''files_removed'', nat_str n)]
                  (w1\<lparr>w_jobs := remove_row j_id job_id (w_jobs w1)\<rparr>))))"

definition admin_delete_job :: "'h env \<Rightarrow> string \<Rightarrow> 'h handler" where
  "admin_delete_job e job_id =
     require_admin e ''admin_delete_job'' (require_csrf e ''admin_delete_job'' (delete_job_body e job_id))"

subsection \<open>Deleting by criteria\<close>

record job_filter =
  jf_ids :: "string list option"
  jf_status :: "status option"
  jf_source :: "string option"
  jf_before :: "time option"

definition cleanup_status :: "json \<Rightarrow> status option" where
  "cleanup_status v =
     (case v of
        JStr s \<Rightarrow> List.find (\<lambda>st. status_str st = s) [Pending, Issued, Failed, Cancelled, Expired]
      | _ \<Rightarrow> None)"

definition matches :: "job_filter \<Rightarrow> job \<Rightarrow> bool" where
  "matches f j =
     ((case jf_ids f of None \<Rightarrow> True | Some is \<Rightarrow> j_id j \<in> set is)
      \<and> (case jf_status f of None \<Rightarrow> True | Some s \<Rightarrow> j_status j = s)
      \<and> (case jf_source f of None \<Rightarrow> True | Some s \<Rightarrow> j_source j = s)
      \<and> (case jf_before f of None \<Rightarrow> True | Some t \<Rightarrow> j_created_at j < t))"

definition filter_ids :: "json \<Rightarrow> string + string list option" where
  "filter_ids v =
     (if \<not> truthy v then Inr None
      else case v of
        JArr xs \<Rightarrow> (case id_strings xs of None \<Rightarrow> Inl ''invalid ids'' | Some is \<Rightarrow> Inr (Some is))
      | _ \<Rightarrow> Inl ''invalid ids'')"

definition filter_status :: "string list option \<Rightarrow> json \<Rightarrow> string + status option" where
  "filter_status ids v =
     (if \<not> truthy v
      then (if ids = None then Inl ''status filter is required for bulk cleanup'' else Inr None)
      else case cleanup_status v of None \<Rightarrow> Inl ''invalid status'' | Some s \<Rightarrow> Inr (Some s))"

definition filter_source :: "json \<Rightarrow> string + string option" where
  "filter_source v =
     (if \<not> truthy v then Inr None
      else if v = JStr ''rhel'' then Inr (Some ''rhel'')
      else if v = JStr ''external'' then Inr (Some ''external'') else Inl ''invalid source'')"

definition filter_age :: "time \<Rightarrow> json \<Rightarrow> string + time option" where
  "filter_age now v =
     (if \<not> truthy v then Inr None
      else case int_of_json v of Inl _ \<Rightarrow> Inl ''invalid older_than_days'' | Inr d \<Rightarrow> Inr (Some (now - d * 86400)))"

definition bulk_filter :: "time \<Rightarrow> json \<Rightarrow> string + job_filter" where
  "bulk_filter now p =
     (case filter_ids (jget ''ids'' p) of
        Inl msg \<Rightarrow> Inl msg
      | Inr ids \<Rightarrow>
          (case filter_status ids (jget ''status'' p) of
             Inl msg \<Rightarrow> Inl msg
           | Inr st \<Rightarrow>
               (case filter_source (jget ''source'' p) of
                  Inl msg \<Rightarrow> Inl msg
                | Inr src \<Rightarrow>
                    (case filter_age now (jget ''older_than_days'' p) of
                       Inl msg \<Rightarrow> Inl msg
                     | Inr t \<Rightarrow> Inr \<lparr>jf_ids = ids, jf_status = st, jf_source = src, jf_before = t\<rparr>))))"

definition preview_json :: "job \<Rightarrow> json" where
  "preview_json j =
     JObj [(''id'', JStr (j_id j)), (''target_host'', JStr (j_target_host j)),
       (''status'', JStr (status_str (j_status j))), (''source'', JStr (j_source j)),
       (''created_at'', JInt (j_created_at j)),
       (''requester_display'', JStr (or_else (or_empty (j_requester_email j))
          (or_else (cn_from_dn (j_requester_dn j)) (j_requester_dn j))))]"

definition payload_keys :: "json \<Rightarrow> string list" where
  "payload_keys p = (case p of JObj kvs \<Rightarrow> map fst kvs | _ \<Rightarrow> [])"

definition bulk_delete_body :: "'h env \<Rightarrow> 'h handler" where
  "bulk_delete_body e c w =
     with_payload e c w (\<lambda>p.
       case bulk_filter (c_now c) p of
         Inl msg \<Rightarrow> refuse 400 msg w
       | Inr f \<Rightarrow>
           let rows = sort_key (\<lambda>j. - j_created_at j) (filter (matches f) (w_jobs w)) in
           if truthy (jget ''preview'' p)
           then (ok_reply [(''preview'', JBool True), (''total'', JInt (int (length rows))),
                    (''truncated'', JBool (500 < length rows)), (''jobs'', JArr (map preview_json (take 500 rows)))],
                 log_event c ''admin_bulk_delete'' ''preview'' [(''matched'', nat_str (length rows))] w)
           else if rows = []
           then (ok_reply [(''ok'', JBool True), (''deleted'', JInt 0), (''files_removed'', JInt 0)], w)
           else
             (case (if truthy (jget ''delete_files'' p) then delete_job_files e rows (0, w) else (0, w)) of
                (n, w1) \<Rightarrow>
                  let deleted = rowcount (matches f) (w_jobs w1) in
                  (ok_reply [(''ok'', JBool True), (''deleted'', JInt (int deleted)), (''files_removed'', JInt (int n))],
                   log_event c ''admin_bulk_delete'' ''ok''
                     [(''deleted'', nat_str deleted), (''files_removed'', nat_str n),
                      (''filters'', take 128 (join '','' (payload_keys p)))]
                     (w1\<lparr>w_jobs := delete_where (matches f) (w_jobs w1)\<rparr>))))"

definition admin_bulk_delete_jobs :: "'h env \<Rightarrow> 'h handler" where
  "admin_bulk_delete_jobs e =
     require_admin e ''admin_bulk_delete_jobs'' (require_csrf e ''admin_bulk_delete_jobs'' (bulk_delete_body e))"

subsection \<open>Orphans\<close>

definition listing_json :: "listing \<Rightarrow> json" where
  "listing_json l =
     JObj ([(''name'', JStr (l_name l)), (''size'', JInt (l_size l)), (''mtime'', JStr (l_mtime l))]
       @ (case l_epoch l of None \<Rightarrow> [] | Some t \<Rightarrow> [(''mtime_epoch'', JInt t)]))"

definition key_referenced :: "string \<Rightarrow> 'h world \<Rightarrow> bool" where
  "key_referenced name w = list_ex (\<lambda>j. j_has_local_key j \<and> j_local_key_name j = Some name) (w_jobs w)"

definition admin_list_orphan_keys :: "'h env \<Rightarrow> 'h handler" where
  "admin_list_orphan_keys e = require_admin e ''admin_list_orphan_keys'' (\<lambda>c w.
     case run_helper e [''list-keys''] [] w of ((rc, out, _), w1) \<Rightarrow>
       let all_keys = (if rc = 0 then parse_helper_listing out else []);
           orphans = filter (\<lambda>k. \<not> key_referenced (l_name k) w1) all_keys in
       (ok_reply [(''keys'', JArr (map listing_json orphans)), (''total'', JInt (int (length all_keys))),
                  (''orphan_count'', JInt (int (length orphans)))],
        log_event c ''admin_list_orphan_keys'' ''ok''
          [(''total'', nat_str (length all_keys)), (''orphans'', nat_str (length orphans))] w1))"

definition helper_delete :: "'h env \<Rightarrow> string \<Rightarrow> string \<Rightarrow> string \<Rightarrow> 'h handler" where
  "helper_delete e subcmd action name c w =
     (case run_helper e [subcmd, name] [] w of ((rc, _, _), w1) \<Rightarrow>
        if rc \<noteq> 0 then refuse 500 ''delete failed'' (log_event c action ''error'' [(''name'', name), (''rc'', int_str rc)] w1)
        else (ok_json, log_event c action ''ok'' [(''name'', name)] w1))"

definition delete_orphan_body :: "'h env \<Rightarrow> string \<Rightarrow> 'h handler" where
  "delete_orphan_body e name c w =
     (if \<not> KEY_NAME_RE name then abort e c 400 w
      else if list_ex (\<lambda>j. j_local_key_name j = Some name) (w_jobs w)
      then refuse 409 ''key is still referenced by a job'' w
      else helper_delete e ''delete-key'' ''admin_delete_orphan_key'' name c w)"

definition admin_delete_orphan_key :: "'h env \<Rightarrow> string \<Rightarrow> 'h handler" where
  "admin_delete_orphan_key e name =
     require_admin e ''admin_delete_orphan_key'' (require_csrf e ''admin_delete_orphan_key'' (delete_orphan_body e name))"

definition admin_migrate_keys_to_vault :: "'h env \<Rightarrow> 'h handler" where
  "admin_migrate_keys_to_vault e =
     require_admin e ''admin_migrate_keys_to_vault'' (require_csrf e ''admin_migrate_keys_to_vault'' (\<lambda>c w.
       case migrate_host_keys e c 1000 w of (r, w1) \<Rightarrow>
         (ok_reply r, log_event c ''admin_migrate_keys'' ''ok''
            ((''actor'', take 128 (me c))
             # List.map_filter (\<lambda>(k, v). case v of JInt i \<Rightarrow> Some (k, int_str i) | _ \<Rightarrow> None) r) w1)))"

definition issued_json :: "string \<times> int \<times> string \<times> time \<Rightarrow> json" where
  "issued_json f =
     (case f of (name, bytes, mtime, epoch) \<Rightarrow>
        JObj [(''name'', JStr name), (''size'', JInt bytes), (''mtime'', JStr mtime), (''mtime_epoch'', JInt epoch)])"

definition admin_list_orphan_certs :: "('h world \<Rightarrow> (string \<times> int \<times> string \<times> time) list) \<Rightarrow> 'h env \<Rightarrow> 'h handler" where
  "admin_list_orphan_certs dir e = require_admin e ''admin_list_orphan_certs'' (\<lambda>c w.
     let all_certs = filter (\<lambda>f. ends_with ''.cer'' (fst f)) (dir w);
         referenced = map (\<lambda>j. j_target_host j @ ''.cer'') (filter (\<lambda>j. j_status j = Issued) (w_jobs w));
         orphans = filter (\<lambda>f. fst f \<notin> set referenced) all_certs in
     (ok_reply [(''certs'', JArr (map issued_json orphans)), (''total'', JInt (int (length all_certs))),
                (''orphan_count'', JInt (int (length orphans)))],
      log_event c ''admin_list_orphan_certs'' ''ok''
        [(''total'', nat_str (length all_certs)), (''orphans'', nat_str (length orphans))] w))"

definition CERT_FILE_RE :: "string \<Rightarrow> bool" where
  "CERT_FILE_RE = at_end (\<lambda>s. ends_with ''.cer'' s \<and> 4 < length s \<and> list_all file_char s)"

definition admin_delete_orphan_cert :: "'h env \<Rightarrow> string \<Rightarrow> 'h handler" where
  "admin_delete_orphan_cert e name =
     require_admin e ''admin_delete_orphan_cert'' (require_csrf e ''admin_delete_orphan_cert'' (\<lambda>c w.
       if \<not> CERT_FILE_RE name then abort e c 400 w
       else helper_delete e ''delete-issued'' ''admin_delete_orphan_cert'' name c w))"

subsection \<open>What a clean-up deletes\<close>

lemma helper_remove_jobs [simp]: "w_jobs (snd (helper_remove e args nw)) = w_jobs (snd nw)"
  by (cases nw) (simp add: helper_remove_def run_helper_def split: prod.split)

lemma delete_job_files_jobs [simp]: "w_jobs (snd (delete_job_files e js nw)) = w_jobs (snd nw)"
  by (induction e js nw rule: delete_job_files.induct) (simp_all add: Let_def)

lemma cleanup_not_revoked: "cleanup_status v = Some s \<Longrightarrow> s \<noteq> Revoked"
  by (cases v) (auto simp: cleanup_status_def split: if_splits)

lemma bulk_filter_status:
  assumes "bulk_filter now p = Inr f" "jf_ids f = None"
  shows "\<exists>s. jf_status f = Some s \<and> s \<noteq> Revoked"
proof -
  from assms have "filter_status None (jget ''status'' p) = Inr (jf_status f)"
    by (auto simp: bulk_filter_def split: sum.splits)
  then obtain s where "cleanup_status (jget ''status'' p) = Some s" "jf_status f = Some s"
    by (auto simp: filter_status_def split: if_splits option.splits)
  with cleanup_not_revoked show ?thesis by blast
qed

text \<open>
  C20: the preview of a clean-up shows what the clean-up deletes. For requests that parse to the same criteria, the
  preview changes no job; the deletion removes exactly the rows counted by the preview, newest first in its
  list, reports that number, and keeps every other job; criteria without an explicit list of jobs
  select a single status, never revoked jobs.
\<close>
theorem preview_exact:
  assumes "payload_of (c_body c) = Inr p" "bulk_filter (c_now c) p = Inr f" "truthy (jget ''preview'' p)"
    and "payload_of (c_body d) = Inr q" "bulk_filter (c_now d) q = Inr f" "\<not> truthy (jget ''preview'' q)"
  shows "\<exists>rows.
     body (fst (bulk_delete_body e c w)) =
       JObj [(''preview'', JBool True), (''total'', JInt (int (length rows))),
             (''truncated'', JBool (500 < length rows)), (''jobs'', JArr (map preview_json (take 500 rows)))]
   \<and> w_jobs (snd (bulk_delete_body e c w)) = w_jobs w
   \<and> jget ''deleted'' (body (fst (bulk_delete_body e d w))) = JInt (int (length rows))
   \<and> w_jobs (snd (bulk_delete_body e d w)) = filter (\<lambda>j. \<not> matches f j) (w_jobs w)
   \<and> mset (w_jobs w) = mset rows + mset (w_jobs (snd (bulk_delete_body e d w)))
   \<and> sorted (map (\<lambda>j. - j_created_at j) rows)
   \<and> (jf_ids f \<noteq> None \<or> (\<exists>s. s \<noteq> Revoked \<and> list_all (\<lambda>j. j_status j = s) rows))"
proof -
  let ?rows = "sort_key (\<lambda>j. - j_created_at j) (filter (matches f) (w_jobs w))"
  have pre: "fst (bulk_delete_body e c w) = ok_reply [(''preview'', JBool True), (''total'', JInt (int (length ?rows))),
        (''truncated'', JBool (500 < length ?rows)), (''jobs'', JArr (map preview_json (take 500 ?rows)))]"
    "w_jobs (snd (bulk_delete_body e c w)) = w_jobs w"
    using assms(1-3) by (simp_all add: bulk_delete_body_def with_payload_def Let_def)
  have del: "jget ''deleted'' (body (fst (bulk_delete_body e d w))) = JInt (int (length ?rows))
      \<and> w_jobs (snd (bulk_delete_body e d w)) = filter (\<lambda>j. \<not> matches f j) (w_jobs w)"
  proof (cases "filter (matches f) (w_jobs w) = []")
    case True
    then have "filter (\<lambda>j. \<not> matches f j) (w_jobs w) = w_jobs w" by (simp add: filter_empty_conv)
    with True assms(4-6) show ?thesis by (simp add: bulk_delete_body_def with_payload_def Let_def)
  next
    case False
    obtain n w1 where r: "(if truthy (jget ''delete_files'' q) then delete_job_files e ?rows (0, w) else (0, w)) = (n, w1)"
      by fastforce
    then have "w_jobs w1 = w_jobs w"
      using delete_job_files_jobs [of e ?rows "(0, w)"] by (metis snd_conv)
    moreover have "?rows \<noteq> []" using False by (metis length_0_conv length_sort)
    ultimately show ?thesis using assms(4-6) r
      by (simp add: bulk_delete_body_def with_payload_def Let_def delete_where_def rowcount_def)
  qed
  have "jf_ids f \<noteq> None \<or> (\<exists>s. s \<noteq> Revoked \<and> list_all (\<lambda>j. j_status j = s) ?rows)"
  proof (cases "jf_ids f = None")
    case True
    with bulk_filter_status [OF assms(2)] obtain s where "jf_status f = Some s" "s \<noteq> Revoked" by blast
    then show ?thesis by (auto simp: list_all_iff matches_def)
  qed simp
  moreover have "mset (w_jobs w) = mset ?rows + mset (filter (\<lambda>j. \<not> matches f j) (w_jobs w))" by simp
  ultimately show ?thesis using pre del by (intro exI [of _ ?rows]) simp
qed

text \<open>A preview, then the deletion, of the pending requests of one job table.\<close>

definition cleanup_ctx :: "bool \<Rightarrow> ctx" where
  "cleanup_ctx preview =
     sample_ctx\<lparr>c_body := Some (JObj [(''status'', JStr ''pending''), (''preview'', JBool preview)])\<rparr>"

definition one_pending :: "unit world" where
  "one_pending = sample_world\<lparr>w_jobs := [sample_job\<lparr>j_status := Pending\<rparr>]\<rparr>"

theorem preview_exact_witness:
  "w_jobs (snd (bulk_delete_body sample_env (cleanup_ctx True) one_pending)) = w_jobs one_pending
   \<and> w_jobs (snd (bulk_delete_body sample_env (cleanup_ctx False) one_pending)) = []"
proof -
  let ?p = "\<lambda>b. JObj [(''status'', JStr ''pending''), (''preview'', JBool b)]"
  let ?f = "\<lparr>jf_ids = None, jf_status = Some Pending, jf_source = None, jf_before = None\<rparr>"
  have b: "payload_of (c_body (cleanup_ctx x)) = Inr (?p x)" for x by (simp add: cleanup_ctx_def payload_of_def)
  have f: "bulk_filter now (?p x) = Inr ?f" for now x
    by (simp add: bulk_filter_def filter_ids_def filter_status_def cleanup_status_def filter_source_def filter_age_def)
  have m: "filter (\<lambda>j. \<not> matches ?f j) (w_jobs one_pending) = []"
    by (simp add: one_pending_def matches_def)
  from preview_exact [OF b f _ b f, of True False sample_env one_pending] show ?thesis
    by (auto simp: m)
qed

subsection \<open>Keys\<close>

definition keeps_host :: "'h world \<Rightarrow> 'h world \<Rightarrow> bool" where
  "keeps_host w w' \<longleftrightarrow> w_host w' = w_host w \<and> w_jobs w' = w_jobs w"

lemma keeps_host_simps [simp]:
  "keeps_host w w" "keeps_host w (log_event c a r x w') = keeps_host w w'"
  "keeps_host w (snd (abort e c n w')) = keeps_host w w'" "keeps_host w (snd (crash e c err w')) = keeps_host w w'"
  "keeps_host w (snd (deny e c name why x w')) = keeps_host w w'"
  by (simp_all add: keeps_host_def abort_def crash_def deny_def)

lemma keeps_host_guard:
  "keeps_host w (snd (auth_mode e w))" "keeps_host w (snd (ensure_user e c i w))"
  by (simp_all add: keeps_host_def auth_mode_def Let_def set_setting_def ensure_user_def upsert_user_def
      log_event_in_tx_def split: option.split)

lemma guarded_host:
  assumes "\<And>c w'. keeps_host w w' \<Longrightarrow> keeps_host w (snd (h c w'))"
  shows "keeps_host w (snd (guard_user e name h c w))"
proof (cases "c_identity c")
  case None then show ?thesis by (simp add: guard_user_def)
next
  case (Some i)
  obtain mode w1 where a: "auth_mode e w = (mode, w1)" by fastforce
  obtain r w2 where u: "ensure_user e c i w1 = (r, w2)" by fastforce
  have "keeps_host w w1" "keeps_host w1 w2"
    using keeps_host_guard(1) [of w e] keeps_host_guard(2) [of w1 e c i] by (simp_all only: a u snd_conv)
  then have "keeps_host w w1" "keeps_host w w2" by (simp_all add: keeps_host_def)
  with assms show ?thesis by (cases r) (auto simp: guard_user_def Some a u)
qed

text \<open>
  Deleting an orphan never touches the key of a job. While any job, whatever its state, names the key file, the
  request leaves the host and the jobs as they were, whoever asks; the listed orphans are all files no job
  still holds a key in.
\<close>
theorem orphan_delete_spares_jobs:
  assumes "list_ex (\<lambda>j. j_local_key_name j = Some name) (w_jobs w)"
  shows "keeps_host w (snd (admin_delete_orphan_key e name c w))"
proof -
  have "keeps_host w (snd (delete_orphan_body e name c w'))" if "keeps_host w w'" for c w'
  proof -
    from that assms have "list_ex (\<lambda>j. j_local_key_name j = Some name) (w_jobs w')" by (simp add: keeps_host_def)
    with that show ?thesis by (simp add: delete_orphan_body_def)
  qed
  then show ?thesis
    unfolding admin_delete_orphan_key_def require_admin_def by (intro guarded_host) (simp add: require_csrf_def)
qed

theorem orphan_delete_spares_jobs_witness:
  "keeps_host one_pending (snd (admin_delete_orphan_key sample_env ''a.key'' sample_ctx one_pending))"
  by (rule orphan_delete_spares_jobs) (simp add: one_pending_def sample_job_def)

text \<open>
  Deleting a job leaves its key in the vault. No way of deleting a job contacts the vault, files included: the
  outcome does not depend on any answer of the HTTP services, so a key stored there stays readable at its
  path after the job that owned it is gone.
\<close>
theorem delete_skips_vault:
  "delete_job_body (e\<lparr>http := f\<rparr>) job_id c w = delete_job_body e job_id c w
   \<and> bulk_delete_body (e\<lparr>http := f\<rparr>) c w = bulk_delete_body e c w"
proof -
  have r: "run_helper (e\<lparr>http := f\<rparr>) = run_helper e" by (simp add: run_helper_def fun_eq_iff)
  have h: "helper_remove (e\<lparr>http := f\<rparr>) args nw = helper_remove e args nw" for args nw
    by (simp add: helper_remove_def r)
  have d: "delete_job_files (e\<lparr>http := f\<rparr>) js nw = delete_job_files e js nw" for js nw
    by (induction js arbitrary: nw) (simp_all add: h Let_def)
  have a: "abort (e\<lparr>http := f\<rparr>) c n = abort e c n" "crash (e\<lparr>http := f\<rparr>) c err = crash e c err" for n err
    by (simp_all add: abort_def crash_def failure_def fun_eq_iff)
  show ?thesis unfolding delete_job_body_def bulk_delete_body_def with_payload_def attempt_def d a by (intro conjI refl)
qed

end
