(* ===== verification/Templates.thy ===== *)
theory Templates
  imports Requests
begin

text \<open>
  Certificate templates (\<^verbatim>\<open>backend/routes_admin.py\<close>): who sees, creates and deletes which, the signing
  policy an administrator attaches to one, and the built-in templates the application seeds when it
  starts (\<^verbatim>\<open>backend/app.py\<close>). The delivery module is not part of the repository: the import fails and
  delivery must be \<open>none\<close>.
\<close>

subsection \<open>Scope\<close>

definition global_template :: "template \<Rightarrow> bool" where
  "global_template t = (t_group_id t = None \<and> t_owner_dn t = None)"

definition personal_template :: "template \<Rightarrow> bool" where
  "personal_template t = (t_group_id t = None \<and> t_owner_dn t \<noteq> None)"

definition in_group :: "ctx \<Rightarrow> template \<Rightarrow> 'h world \<Rightarrow> bool" where
  "in_group c t w = (case t_group_id t of None \<Rightarrow> False | Some g \<Rightarrow> g \<in> set (user_group_ids (me c) w))"

definition template_visible :: "ctx \<Rightarrow> 'h world \<Rightarrow> template \<Rightarrow> bool" where
  "template_visible c w t =
     (if global_template t then True
      else if personal_template t then t_owner_dn t = Some (me c)
      else is_admin c \<or> in_group c t w)"

definition can_edit :: "ctx \<Rightarrow> template \<Rightarrow> bool" where
  "can_edit c t =
     ((personal_template t \<and> t_owner_dn t = Some (me c))
      \<or> (\<not> global_template t \<and> \<not> personal_template t \<and> t_created_by_dn t = me c))"

definition can_use :: "ctx \<Rightarrow> 'h world \<Rightarrow> template \<Rightarrow> bool" where
  "can_use c w t = (global_template t \<or> personal_template t \<or> in_group c t w \<or> is_admin c)"

definition template_scope :: "template \<Rightarrow> string" where
  "template_scope t = (if global_template t then ''builtin'' else if personal_template t then ''personal'' else ''group'')"

definition as_flag :: "bool \<Rightarrow> json" where
  "as_flag b = JInt (if b then 1 else 0)"

definition template_json :: "ctx \<Rightarrow> 'h world \<Rightarrow> template \<Rightarrow> json" where
  "template_json c w t =
     JObj [(''id'', JInt (t_id t)), (''name'', JStr (t_name t)), (''description'', jopt (t_description t)),
       (''cert_types'', JStr (t_cert_types t)), (''group_id'', jint_opt (t_group_id t)),
       (''created_at'', JInt (t_created_at t)), (''created_by_dn'', JStr (t_created_by_dn t)),
       (''signer_backend'', JStr (t_signer_backend t)), (''openbao_role'', jopt (t_openbao_role t)),
       (''max_ttl'', jint_opt (t_max_ttl t)), (''auto_sign'', as_flag (t_auto_sign t)),
       (''auto_renew'', as_flag (t_auto_renew t)), (''renew_before_days'', jint_opt (t_renew_before_days t)),
       (''delivery_backend'', JStr (t_delivery_backend t)), (''key_mode'', JStr (t_key_mode t)),
       (''delivery_target'', jopt (t_delivery_target t)), (''delivery_reload'', jopt (t_delivery_reload t)),
       (''key_storage'', jopt (t_key_storage t)),
       (''group_name'', jopt (map_option g_name (group_by_id (t_group_id t) w))),
       (''scope'', JStr (template_scope t)), (''can_edit'', JBool (can_edit c t)),
       (''can_use'', JBool (can_use c w t))]"

definition list_templates :: "'h env \<Rightarrow> 'h handler" where
  "list_templates e = require_auth e ''list_templates'' (\<lambda>c w.
     (ok_reply [(''templates'', JArr (map (template_json c w)
        (filter (template_visible c w) (sort_key (\<lambda>t. nocase (t_name t)) (w_templates w)))))], w))"

definition get_my_groups :: "'h env \<Rightarrow> 'h handler" where
  "get_my_groups e = require_auth e ''get_my_groups'' (\<lambda>c w.
     (ok_reply [(''groups'', JArr (map (\<lambda>g. JObj [(''id'', JInt (g_id g)), (''name'', JStr (g_name g)),
        (''description'', jopt (g_description g))]) (user_groups (me c) w)))], w))"

subsection \<open>Creating\<close>

datatype scope = Global | Group int | Personal

definition chosen_scope :: "ctx \<Rightarrow> string \<Rightarrow> json \<Rightarrow> 'h world \<Rightarrow> (nat \<times> string) + scope" where
  "chosen_scope c scope v w =
     (if scope = ''global''
      then (if \<not> is_admin c then Inl (403, ''only admins can create instance-wide templates'')
            else if v \<noteq> JNull then Inl (400, ''global scope and group_id are mutually exclusive'')
            else Inr Global)
      else if v = JNull then Inr Personal
      else case int_of_json v of
        Inl _ \<Rightarrow> Inl (400, ''invalid group_id'')
      | Inr g \<Rightarrow>
          if group_by_id (Some g) w = None then Inl (400, ''group does not exist'')
          else if \<not> is_admin c \<and> group_role (me c) g w \<noteq> Some Owner
          then Inl (403, ''only the group owner or an admin can create '' @ ''group templates'')
          else Inr (Group g))"

definition scope_owner :: "ctx \<Rightarrow> scope \<Rightarrow> string option" where
  "scope_owner c s = (if s = Personal then Some (me c) else None)"

definition scope_group :: "scope \<Rightarrow> int option" where
  "scope_group s = (case s of Group g \<Rightarrow> Some g | _ \<Rightarrow> None)"

definition same_scope :: "ctx \<Rightarrow> scope \<Rightarrow> template \<Rightarrow> bool" where
  "same_scope c s t =
     (case s of
        Global \<Rightarrow> global_template t
      | Group g \<Rightarrow> t_group_id t = Some g
      | Personal \<Rightarrow> t_owner_dn t = Some (me c))"

definition new_template ::
  "int \<Rightarrow> string \<Rightarrow> string option \<Rightarrow> string \<Rightarrow> string option \<Rightarrow> int option \<Rightarrow> time \<Rightarrow> string \<Rightarrow> template" where
  "new_template i name description types owner gid now creator =
    \<lparr>t_id = i, t_name = name, t_description = description, t_cert_types = types, t_owner_dn = owner,
     t_group_id = gid, t_created_at = now, t_created_by_dn = creator, t_signer_backend = ''manual'',
     t_openbao_role = None, t_max_ttl = None, t_auto_sign = False, t_auto_renew = False, t_renew_before_days = None,
     t_delivery_backend = ''none'', t_key_mode = ''destination'', t_delivery_target = None,
     t_delivery_reload = None, t_key_storage = None\<rparr>"

definition add_template ::
  "ctx \<Rightarrow> string \<Rightarrow> string option \<Rightarrow> string \<Rightarrow> scope \<Rightarrow> 'h world \<Rightarrow> response \<times> 'h world" where
  "add_template c name description types s w =
     (if list_ex (\<lambda>t. same_scope c s t \<and> nocase (t_name t) = nocase name) (w_templates w)
      then refuse 409 ''a template with that name already exists in this scope'' w
      else
        let i = w_tid_seq w + 1;
            t = new_template i name description types (scope_owner c s) (scope_group s) (c_now c) (me c)
        in (ok_reply [(''ok'', JBool True), (''id'', JInt i), (''cert_types'', JStr types)],
            log_event c ''template_create'' ''ok''
              [(''template_id'', int_str i), (''name'', name),
               (''scope'', case s of Global \<Rightarrow> ''global'' | Group g \<Rightarrow> ''group:'' @ int_str g | Personal \<Rightarrow> ''personal''),
               (''cert_types'', types)]
              (w\<lparr>w_templates := w_templates w @ [t], w_tid_seq := i\<rparr>)))"

definition create_template_body :: "'h env \<Rightarrow> 'h handler" where
  "create_template_body e c w =
     with_payload e c w (\<lambda>p.
     attempt e c (str_or_empty (jget ''name'' p)) w (\<lambda>n.
     attempt e c (str_or_empty (jget ''description'' p)) w (\<lambda>d.
     let name = strip n; description = nonempty (strip d) in
     if name = [] \<or> 64 < length name then refuse 400 ''name is required (max 64 chars)'' w
     else if 256 < length (or_empty description) then refuse 400 ''description too long (max 256 chars)'' w
     else case normalize_cert_types e (jget ''cert_types'' p) of
       Inl err \<Rightarrow> refuse 400 err w
     | Inr types \<Rightarrow>
         if \<not> set_opt types then refuse 400 ''cert_types is required'' w
         else attempt e c (str_or_empty (jget ''scope'' p)) w (\<lambda>s.
           case chosen_scope c (lower (strip s)) (jget ''group_id'' p) w of
             Inl (code, msg) \<Rightarrow> refuse code msg w
           | Inr scope \<Rightarrow> add_template c name description (or_empty types) scope w))))"

definition create_template :: "'h env \<Rightarrow> 'h handler" where
  "create_template e = require_auth e ''create_template'' (require_csrf e ''create_template'' (create_template_body e))"

subsection \<open>The signing policy of a template\<close>

record signing_choice =
  sc_backend :: string
  sc_role :: "string option"
  sc_ttl :: "int option"
  sc_auto_sign :: bool
  sc_auto_renew :: bool
  sc_renew_days :: "int option"
  sc_delivery :: string
  sc_target :: "string option"
  sc_reload :: "string option"
  sc_key_storage :: "string option"

definition policy_ttl :: "json \<Rightarrow> string + int option" where
  "policy_ttl v =
     (if v = JNull \<or> v = JStr [] then Inr None
      else case int_of_json v of
        Inl _ \<Rightarrow> Inl ''max_ttl must be a positive integer (seconds)''
      | Inr n \<Rightarrow> if n \<le> 0 then Inl ''max_ttl must be a positive integer (seconds)'' else Inr (Some n))"

definition policy_days :: "json \<Rightarrow> string + int option" where
  "policy_days v =
     (if v = JNull \<or> v = JStr [] then Inr None
      else case int_of_json v of
        Inl _ \<Rightarrow> Inl ''renew_before_days must be 1-365''
      | Inr n \<Rightarrow> Inr (Some (max 1 (min n 365))))"

definition stripped :: "'h env \<Rightarrow> ctx \<Rightarrow> string \<Rightarrow> json \<Rightarrow> 'h world \<Rightarrow> (string \<Rightarrow> response \<times> 'h world) \<Rightarrow> response \<times> 'h world" where
  "stripped e c k p w f = attempt e c (str_or_empty (jget k p)) w (\<lambda>s. f (strip s))"

definition apply_policy :: "signing_choice \<Rightarrow> template \<Rightarrow> template" where
  "apply_policy s t =
     t\<lparr>t_signer_backend := sc_backend s, t_openbao_role := sc_role s, t_max_ttl := sc_ttl s,
       t_auto_sign := sc_auto_sign s, t_auto_renew := sc_auto_renew s, t_renew_before_days := sc_renew_days s,
       t_delivery_backend := sc_delivery s, t_key_mode := ''destination'', t_delivery_target := sc_target s,
       t_delivery_reload := sc_reload s, t_key_storage := sc_key_storage s\<rparr>"

definition store_policy :: "ctx \<Rightarrow> int \<Rightarrow> signing_choice \<Rightarrow> 'h world \<Rightarrow> response \<times> 'h world" where
  "store_policy c tid s w =
     (if row_by t_id tid (w_templates w) = None then refuse 404 ''template not found'' w
      else
        let storage = or_else (or_empty (sc_key_storage s)) ''default'' in
        (ok_reply [(''ok'', JBool True), (''template_id'', JInt tid), (''signer_backend'', JStr (sc_backend s)),
           (''openbao_role'', jopt (sc_role s)), (''max_ttl'', jint_opt (sc_ttl s)),
           (''auto_sign'', JBool (sc_auto_sign s)), (''auto_renew'', JBool (sc_auto_renew s)),
           (''renew_before_days'', jint_opt (sc_renew_days s)), (''delivery_backend'', JStr (sc_delivery s)),
           (''key_mode'', JStr ''destination''), (''delivery_target'', jopt (sc_target s)),
           (''delivery_reload'', jopt (sc_reload s)), (''key_storage'', JStr storage)],
         log_event c ''template_signing'' ''update''
           [(''template_id'', int_str tid), (''backend'', sc_backend s),
            (''auto_sign'', if sc_auto_sign s then ''1'' else ''0''), (''auto_renew'', if sc_auto_renew s then ''1'' else ''0''),
            (''delivery'', sc_delivery s), (''key_mode'', ''destination''), (''key_storage'', storage),
            (''actor'', take 128 (me c))]
           (w\<lparr>w_templates := modify_row t_id tid (apply_policy s) (w_templates w)\<rparr>)))"

definition template_signing_body :: "'h env \<Rightarrow> int \<Rightarrow> 'h handler" where
  "template_signing_body e tid c w =
     with_payload e c w (\<lambda>p.
     stripped e c ''signer_backend'' p w (\<lambda>b.
     let backend = (if truthy (jget ''signer_backend'' p) then b else ''manual'') in
     if backend \<notin> set BACKENDS then refuse 400 (''signer_backend must be one of '' @ py_repr e (strs BACKENDS)) w
     else stripped e c ''openbao_role'' p w (\<lambda>role.
     case policy_ttl (jget ''max_ttl'' p) of
       Inl err \<Rightarrow> refuse 400 err w
     | Inr ttl \<Rightarrow>
     (case policy_days (jget ''renew_before_days'' p) of
       Inl err \<Rightarrow> refuse 400 err w
     | Inr days \<Rightarrow>
     stripped e c ''delivery_backend'' p w (\<lambda>db.
     let delivery = (if truthy (jget ''delivery_backend'' p) then db else ''none'') in
     if delivery \<noteq> ''none'' then refuse 403 ''automated delivery requires a Certheim license'' w
     else
     stripped e c ''delivery_target'' p w (\<lambda>target.
     stripped e c ''delivery_reload'' p w (\<lambda>reload.
     stripped e c ''key_storage'' p w (\<lambda>ks.
     if ks \<notin> set ([] # ''default'' # KEY_STORAGE_MODES)
     then refuse 400 (''key_storage must be one of '' @ py_repr e (strs (''default'' # KEY_STORAGE_MODES))) w
     else store_policy c tid
       \<lparr>sc_backend = backend, sc_role = nonempty role, sc_ttl = ttl, sc_auto_sign = truthy (jget ''auto_sign'' p),
        sc_auto_renew = truthy (jget ''auto_renew'' p), sc_renew_days = days, sc_delivery = delivery,
        sc_target = nonempty target, sc_reload = nonempty reload,
        sc_key_storage = (if ks = [] \<or> ks = ''default'' then None else Some ks)\<rparr> w))))))))"

definition admin_set_template_signing :: "'h env \<Rightarrow> int \<Rightarrow> 'h handler" where
  "admin_set_template_signing e tid =
     require_admin e ''admin_set_template_signing'' (require_csrf e ''admin_set_template_signing''
       (template_signing_body e tid))"

subsection \<open>Deleting\<close>

definition drop_template :: "int \<Rightarrow> 'h world \<Rightarrow> 'h world" where
  "drop_template tid w = w\<lparr>w_templates := remove_row t_id tid (w_templates w)\<rparr>"

definition delete_template_body :: "'h env \<Rightarrow> int \<Rightarrow> 'h handler" where
  "delete_template_body e tid c w =
     (case row_by t_id tid (w_templates w) of
        None \<Rightarrow> refuse 404 ''template not found'' w
      | Some t \<Rightarrow>
          if global_template t
          then refuse 403 (''instance-wide templates are managed from '' @ ''the admin panel'') w
          else if \<not> ((personal_template t \<and> t_owner_dn t = Some (me c))
                     \<or> (\<not> personal_template t \<and> t_created_by_dn t = me c))
          then refuse 403 (''only the template'' @ [CHR 0x27] @ ''s creator can delete it '' @ ''(admins: use the admin panel)'')
                 (log_event c ''template_delete'' ''deny_not_authorized'' [(''template_id'', int_str tid)] w)
          else (ok_json, log_event c ''template_delete'' ''ok'' [(''template_id'', int_str tid), (''name'', t_name t)]
                 (drop_template tid w)))"

definition delete_template :: "'h env \<Rightarrow> int \<Rightarrow> 'h handler" where
  "delete_template e tid =
     require_auth e ''delete_template'' (require_csrf e ''delete_template'' (delete_template_body e tid))"

definition admin_delete_body :: "int \<Rightarrow> 'h handler" where
  "admin_delete_body tid c w =
     (case row_by t_id tid (w_templates w) of
        None \<Rightarrow> refuse 404 ''template not found'' w
      | Some t \<Rightarrow>
          (ok_json, log_event c ''admin_template_delete'' ''ok''
             [(''template_id'', int_str tid), (''name'', t_name t),
              (''scope'', if global_template t then ''global''
                 else case t_group_id t of None \<Rightarrow> ''personal'' | Some g \<Rightarrow> ''group:'' @ int_str g)]
             (drop_template tid w)))"

definition admin_delete_template :: "'h env \<Rightarrow> int \<Rightarrow> 'h handler" where
  "admin_delete_template e tid =
     require_admin e ''admin_delete_template'' (require_csrf e ''admin_delete_template'' (admin_delete_body tid))"

subsection \<open>Built-in templates\<close>

definition BUILTIN_TEMPLATES :: "(string \<times> string \<times> string) list" where
  "BUILTIN_TEMPLATES =
    [(''Web Server'', ''web'', ''TLS server certificate (Windows '' @ [CHR 0x27] @ ''Web Server'' @ [CHR 0x27] @ '' template equivalent)''),
     (''Computer'', ''client,web'', ''Machine identity: server + client auth (Windows '' @ [CHR 0x27] @ ''Computer'' @ [CHR 0x27] @ '' template equivalent)''),
     (''Workstation Authentication'', ''client'', ''Client authentication only (Windows '' @ [CHR 0x27] @ ''Workstation Authentication'' @ [CHR 0x27] @ '' equivalent)''),
     (''User'', ''client,email'', ''User identity: client auth + S/MIME email (Windows '' @ [CHR 0x27] @ ''User'' @ [CHR 0x27] @ '' template equivalent)''),
     (''RAS and IAS Server'', ''client,web'', ''Network access server: server + client auth (Windows '' @ [CHR 0x27] @ ''RAS and IAS Server'' @ [CHR 0x27] @ '' equivalent)''),
     (''Code Signing'', ''codesign'', ''Code signing (Windows '' @ [CHR 0x27] @ ''Code Signing'' @ [CHR 0x27] @ '' template equivalent)''),
     (''OCSP Response Signing'', ''ocsp'', ''OCSP responder signing (Windows '' @ [CHR 0x27] @ ''OCSP Response Signing'' @ [CHR 0x27] @ '' equivalent)''),
     (''IPSec'', ''ipsec'', ''IPSec/IKE endpoint (Windows '' @ [CHR 0x27] @ ''IPSec'' @ [CHR 0x27] @ '' template equivalent)'')]"

fun add_builtins :: "time \<Rightarrow> (string \<times> string \<times> string) list \<Rightarrow> 'h world \<Rightarrow> 'h world" where
  "add_builtins now [] w = w"
| "add_builtins now ((name, types, about) # bs) w =
     (let i = w_tid_seq w + 1 in
      add_builtins now bs (w\<lparr>w_templates := w_templates w @ [new_template i name (Some about) types None None now ''system''],
                             w_tid_seq := i\<rparr>))"

definition seed_templates :: "time \<Rightarrow> 'h world \<Rightarrow> 'h world" where
  "seed_templates now w =
     (if rowcount (\<lambda>t. t_created_by_dn t = ''system'') (w_templates w) = 0
      then add_builtins now BUILTIN_TEMPLATES w else w)"

subsection \<open>Properties\<close>

text \<open>
  The edit flag of the template list tells the truth. A caller may delete a template on their own account
  exactly when its entry says they can edit it; then that template and no other is gone, otherwise
  the table is as it was.
\<close>
theorem edit_flag_truthful:
  assumes "row_by t_id tid (w_templates w) = Some t"
  shows "(status_code (fst (delete_template_body e tid c w)) = 200 \<longleftrightarrow> can_edit c t)
    \<and> w_templates (snd (delete_template_body e tid c w)) =
        (if can_edit c t then remove_row t_id tid (w_templates w) else w_templates w)"
  using assms
  by (auto simp: delete_template_body_def can_edit_def drop_template_def ok_json_def global_template_def personal_template_def)

definition group_template :: template where
  "group_template = new_template 7 ''Shared'' None ''web'' None (Some 3) 0 ''CN=BOB''"

theorem edit_flag_truthful_witness:
  "status_code (fst (delete_template_body sample_env 7 sample_ctx (sample_world\<lparr>w_templates := [group_template]\<rparr>))) \<noteq> 200"
proof -
  have "row_by t_id 7 (w_templates (sample_world\<lparr>w_templates := [group_template]\<rparr>)) = Some group_template"
    by (simp add: group_template_def new_template_def)
  from edit_flag_truthful [OF this, of sample_env sample_ctx] show ?thesis
    by (simp add: can_edit_def group_template_def new_template_def personal_template_def sample_ctx_def me_def)
qed

text \<open>Within a scope names are unique, up to case, and no template belongs to a person and a group.\<close>

definition template_key :: "template \<Rightarrow> (int option \<times> string option) \<times> string" where
  "template_key t = ((t_group_id t, t_owner_dn t), nocase (t_name t))"

definition templates_ok :: "'h world \<Rightarrow> bool" where
  "templates_ok w \<longleftrightarrow> unique_key template_key (w_templates w) \<and> unique_key t_id (w_templates w)
     \<and> (\<forall>t\<in>set (w_templates w). (t_group_id t = None \<or> t_owner_dn t = None) \<and> t_id t \<le> w_tid_seq w)"

lemma templates_ok_cong:
  "w_templates w' = w_templates w \<Longrightarrow> w_tid_seq w' = w_tid_seq w \<Longrightarrow> templates_ok w' = templates_ok w"
  by (simp add: templates_ok_def)

lemma templates_ok_log [simp]:
  "templates_ok (log_event c a r x w) = templates_ok w" "templates_ok (snd (crash e c err w)) = templates_ok w"
  by (simp_all add: templates_ok_def log_event_def crash_def)

lemma templates_ok_drop: "templates_ok w \<Longrightarrow> templates_ok (drop_template tid w)"
  using unique_key_delete [of template_key "w_templates w"] unique_key_delete [of t_id "w_templates w"]
  by (simp add: templates_ok_def drop_template_def remove_row_def) (simp add: delete_where_def)

lemma templates_ok_add:
  assumes "templates_ok w"
  shows "templates_ok (snd (add_template c name description types s w))"
proof (cases "list_ex (\<lambda>t. same_scope c s t \<and> nocase (t_name t) = nocase name) (w_templates w)")
  case False
  let ?t = "new_template (w_tid_seq w + 1) name description types (scope_owner c s) (scope_group s) (c_now c) (me c)"
  have "same_scope c s t" if "t \<in> set (w_templates w)" "t_group_id t = scope_group s" "t_owner_dn t = scope_owner c s" for t
    using that assms by (cases s) (auto simp: same_scope_def scope_group_def scope_owner_def global_template_def)
  then have "template_key ?t \<notin> template_key ` set (w_templates w)"
    using False by (auto simp: template_key_def new_template_def list_ex_iff)
  moreover have "t_id ?t \<notin> t_id ` set (w_templates w)" using assms by (force simp: templates_ok_def new_template_def)
  moreover have "t_group_id ?t = None \<or> t_owner_dn ?t = None"
    by (cases s) (simp_all add: new_template_def scope_group_def scope_owner_def)
  ultimately show ?thesis using False assms
    by (auto simp: add_template_def Let_def templates_ok_def unique_key_def new_template_def)
qed (use assms in \<open>simp add: add_template_def\<close>)

lemma templates_ok_attempt:
  "templates_ok w \<Longrightarrow> (\<And>x. r = Inr x \<Longrightarrow> templates_ok (snd (k x))) \<Longrightarrow> templates_ok (snd (attempt e c r w k))"
  by (cases r) simp_all

lemma templates_ok_stripped:
  "templates_ok w \<Longrightarrow> (\<And>s. templates_ok (snd (f s))) \<Longrightarrow> templates_ok (snd (stripped e c k p w f))"
  by (simp add: stripped_def templates_ok_attempt)

lemma templates_ok_modify:
  assumes "templates_ok w" "w_templates w' = modify_row t_id tid f (w_templates w)" "w_tid_seq w' = w_tid_seq w"
    and "\<And>t. t_id (f t) = t_id t \<and> template_key (f t) = template_key t"
  shows "templates_ok w'"
proof -
  have k: "t_group_id (f t) = t_group_id t" "t_owner_dn (f t) = t_owner_dn t" for t
    using assms(4) [of t] by (simp_all add: template_key_def)
  show ?thesis using assms k by (auto simp: templates_ok_def modify_row_def unique_key_update) (auto simp: update_where_def)
qed

lemma templates_ok_store: "templates_ok w \<Longrightarrow> templates_ok (snd (store_policy c tid s w))"
proof (cases "row_by t_id tid (w_templates w) = None")
  case False
  assume "templates_ok w"
  then show ?thesis
    by (rule templates_ok_modify [where f = "apply_policy s" and tid = tid])
      (use False in \<open>auto simp: store_policy_def Let_def apply_policy_def template_key_def\<close>)
qed (simp add: store_policy_def)

text \<open>
  Template names stay unique within their scope. Whatever a caller creates, deletes or configures, no two
  instance-wide templates, no two of one group and no two of one person share a name up to case, identifiers
  are unique, and no template belongs to a person and a group at once.
\<close>
theorem template_names_unique:
  assumes "templates_ok w"
  shows "templates_ok (snd (create_template_body e c w)) \<and> templates_ok (snd (template_signing_body e tid c w))
    \<and> templates_ok (snd (delete_template_body e tid c w)) \<and> templates_ok (snd (admin_delete_body tid c w))"
proof (intro conjI)
  show "templates_ok (snd (create_template_body e c w))"
    unfolding create_template_body_def with_payload_def Let_def using assms
    by (auto intro!: templates_ok_attempt templates_ok_add split: sum.split)
  show "templates_ok (snd (template_signing_body e tid c w))"
    unfolding template_signing_body_def with_payload_def Let_def using assms
    by (auto intro!: templates_ok_attempt templates_ok_stripped templates_ok_store split: sum.split)
  show "templates_ok (snd (delete_template_body e tid c w))"
    using assms by (auto simp: delete_template_body_def templates_ok_drop split: option.split)
  show "templates_ok (snd (admin_delete_body tid c w))"
    using assms by (auto simp: admin_delete_body_def templates_ok_drop split: option.split)
qed

theorem template_names_unique_witness:
  "templates_ok (snd (admin_delete_body 7 sample_ctx (sample_world\<lparr>w_templates := [group_template], w_tid_seq := 7\<rparr>)))"
proof -
  have "templates_ok (sample_world\<lparr>w_templates := [group_template], w_tid_seq := 7\<rparr>)"
    by (simp add: templates_ok_def unique_key_def group_template_def new_template_def)
  from template_names_unique [OF this] show ?thesis by blast
qed

text \<open>
  The scope of a template does not limit its use. A request may name the template of a group its caller cannot
  even see: the identifier is accepted, and the signing policy of the request is that template's, automatic
  signing included.
\<close>
theorem hidden_template_applies:
  assumes "row_by t_id tid (w_templates w) = Some t" "tid \<noteq> 0" "\<not> template_visible c w t"
    and "t_signer_backend t \<notin> {[], ''manual''}" "unique_key t_id (w_templates w)"
  shows "tid \<notin> t_id ` set (filter (template_visible c w) (w_templates w))
    \<and> coerce_template_id (JInt tid) w = Some tid
    \<and> p_backend (resolve_signing_policy (Some tid) w) = t_signer_backend t
    \<and> p_auto_sign (resolve_signing_policy (Some tid) w) = t_auto_sign t"
proof -
  have "x = t" if "x \<in> set (w_templates w)" "t_id x = tid" for x
    using that assms(1) row_by_unique [OF assms(5)] by fastforce
  then have "tid \<notin> t_id ` set (filter (template_visible c w) (w_templates w))" using assms(3) by auto
  then show ?thesis using assms(1,2,4)
    by (simp add: coerce_template_id_def int_of_json_def resolve_signing_policy_def template_row_def or_else_def)
qed

definition secret_template :: template where
  "secret_template = group_template\<lparr>t_signer_backend := ''openbao'', t_auto_sign := True\<rparr>"

theorem hidden_template_applies_witness:
  "coerce_template_id (JInt 7) (sample_world\<lparr>w_templates := [secret_template]\<rparr>) = Some 7
   \<and> p_auto_sign (resolve_signing_policy (Some 7) (sample_world\<lparr>w_templates := [secret_template]\<rparr>))"
proof -
  let ?w = "sample_world\<lparr>w_templates := [secret_template]\<rparr>"
  have t: "row_by t_id 7 (w_templates ?w) = Some secret_template" "t_signer_backend secret_template \<notin> {[], ''manual''}"
    by (simp_all add: secret_template_def group_template_def new_template_def)
  have v: "\<not> template_visible sample_ctx ?w secret_template"
    by (simp add: template_visible_def global_template_def personal_template_def in_group_def secret_template_def
        group_template_def new_template_def is_admin_def sample_ctx_def user_group_ids_def memberships_def sample_world_def)
  have u: "unique_key t_id (w_templates ?w)" by (simp add: unique_key_def)
  from hidden_template_applies [OF t(1) _ v t(2) u] show ?thesis by (simp add: secret_template_def)
qed

text \<open>
  Deleting the built-in templates does not stick. Once an administrator has deleted the last of them, the next
  start of the application puts all of them back.
\<close>
theorem builtins_return:
  assumes "row_by t_id tid (w_templates w) = Some t" "filter (\<lambda>t. t_created_by_dn t = ''system'') (w_templates w) = [t]"
  shows "filter (\<lambda>t. t_created_by_dn t = ''system'') (w_templates (snd (admin_delete_body tid c w))) = []
    \<and> map t_name (filter (\<lambda>t. t_created_by_dn t = ''system'') (w_templates (seed_templates now (snd (admin_delete_body tid c w)))))
        = map fst BUILTIN_TEMPLATES"
proof -
  have add: "map t_name (filter (\<lambda>t. t_created_by_dn t = ''system'') (w_templates (add_builtins now bs v)))
      = map t_name (filter (\<lambda>t. t_created_by_dn t = ''system'') (w_templates v)) @ map fst bs" for bs and v :: "'a world"
    by (induction now bs v rule: add_builtins.induct) (simp_all add: Let_def new_template_def)
  have "t_id t = tid" using assms(1) by (auto dest: row_by_SomeD)
  have "filter (\<lambda>x. t_created_by_dn x = ''system'') (filter (\<lambda>x. t_id x \<noteq> tid) (w_templates w))
      = filter (\<lambda>x. t_id x \<noteq> tid) (filter (\<lambda>x. t_created_by_dn x = ''system'') (w_templates w))"
    by (simp add: conj_commute)
  also have "\<dots> = []" using \<open>t_id t = tid\<close> by (simp add: assms(2))
  finally have gone: "filter (\<lambda>t. t_created_by_dn t = ''system'') (w_templates (snd (admin_delete_body tid c w))) = []"
    using assms(1) by (simp add: admin_delete_body_def drop_template_def remove_row_def delete_where_def)
  then show ?thesis by (simp add: seed_templates_def rowcount_def add)
qed

theorem builtins_return_witness:
  "map t_name (filter (\<lambda>t. t_created_by_dn t = ''system'') (w_templates (seed_templates 5
     (snd (admin_delete_body 1 sample_ctx (sample_world\<lparr>w_templates := [sample_template]\<rparr>)))))) = map fst BUILTIN_TEMPLATES"
proof -
  have "row_by t_id 1 (w_templates (sample_world\<lparr>w_templates := [sample_template]\<rparr>)) = Some sample_template"
    "filter (\<lambda>t. t_created_by_dn t = ''system'') (w_templates (sample_world\<lparr>w_templates := [sample_template]\<rparr>)) = [sample_template]"
    by (simp_all add: sample_template_def)
  from builtins_return [OF this] show ?thesis by blast
qed

end
