(* ===== verification/Expiry.thy ===== *)
theory Expiry
  imports Requests
begin

text \<open>
  Watching certificates (\<^verbatim>\<open>backend/routes_admin.py\<close>): the tiered expiry warnings for issued jobs and for
  certificates found in the fleet, the automatic renewal trigger, the list of fleet certificates and the
  audit viewer. The alerting and renewal modules of the licensed builds are not in the repository: their import
  fails. The clock of \<^verbatim>\<open>last_expiry_warn_at\<close> is stored in whole seconds. The number of an audit row is
  its position: nothing ever deletes one.
\<close>

subsection \<open>Tiers\<close>

definition EXPIRY_WARN_THRESHOLDS :: "int list" where
  "EXPIRY_WARN_THRESHOLDS = [30, 14, 7]"

definition warn_horizon :: "time \<Rightarrow> time" where
  "warn_horizon now = now + 30 * 86400"

definition expires_soon :: "time \<Rightarrow> time option \<Rightarrow> bool" where
  "expires_soon now exp = (case exp of None \<Rightarrow> False | Some t \<Rightarrow> now < t \<and> t \<le> warn_horizon now)"

definition days_left :: "time \<Rightarrow> time option \<Rightarrow> int" where
  "days_left now exp = ((case exp of None \<Rightarrow> 0 | Some t \<Rightarrow> t) - now) div 86400"

definition warn_level :: "int \<Rightarrow> int option" where
  "warn_level days =
     (case filter (\<lambda>t. days \<le> t) EXPIRY_WARN_THRESHOLDS of [] \<Rightarrow> None | ts \<Rightarrow> Some (Min (set ts)))"

text \<open>Already warned at this tier or a closer one.\<close>

definition warned_at :: "int \<Rightarrow> int \<Rightarrow> bool" where
  "warned_at level warned = (warned \<noteq> 0 \<and> warned \<le> level)"

subsection \<open>Issued jobs\<close>

definition set_warned :: "string \<Rightarrow> int \<Rightarrow> 'h world \<Rightarrow> 'h world" where
  "set_warned i level w = set_job i (\<lambda>j. j\<lparr>j_expiry_warned := level\<rparr>) w"

definition job_warning :: "ctx \<Rightarrow> job \<Rightarrow> 'h world \<Rightarrow> (string \<times> json) list" where
  "job_warning c j w =
     [(''id'', JStr (j_id j)), (''target_host'', JStr (j_target_host j)), (''requester_email'', jopt (j_requester_email j)),
      (''expires_at'', jint_opt (j_expires_at j)), (''days_left'', JInt (days_left (c_now c) (j_expires_at j))),
      (''group_email'', strs (filter (\<lambda>m. m \<noteq> [])
         (or_empty (group_email (j_group_id j) w) # group_owner_emails (j_group_id j) w)))]"

definition warn_job :: "'h env \<Rightarrow> ctx \<Rightarrow> job \<Rightarrow> (nat \<times> nat) \<times> 'h world \<Rightarrow> (nat \<times> nat) \<times> 'h world" where
  "warn_job e c j acc =
     (case acc of ((sent, errors), w) \<Rightarrow>
        case warn_level (days_left (c_now c) (j_expires_at j)) of
          None \<Rightarrow> acc
        | Some level \<Rightarrow>
            if warned_at level (j_expiry_warned j) then acc
            else
              let mail = job_warning c j w; w1 = w\<lparr>w_mail := w_mail w @ [(''expiry_warning'', mail)]\<rparr> in
              case send_mail e ''expiry_warning'' mail of
                Inl err \<Rightarrow> ((sent, Suc errors), w1)
              | Inr (ok, _) \<Rightarrow>
                  ((if ok then Suc sent else sent, errors),
                   fire_webhooks e c ''job.expiring''
                     [(''job_id'', JStr (j_id j)), (''target_host'', JStr (j_target_host j)),
                      (''days_left'', JInt (days_left (c_now c) (j_expires_at j))),
                      (''expires_at'', jint_opt (j_expires_at j)), (''requester_email'', jopt (j_requester_email j))]
                     (if ok then set_warned (j_id j) level w1 else w1)))"

definition expiring_jobs :: "time \<Rightarrow> 'h world \<Rightarrow> job list" where
  "expiring_jobs now w = filter (\<lambda>j. j_status j = Issued \<and> expires_soon now (j_expires_at j)) (w_jobs w)"

subsection \<open>The fleet\<close>

fun firsts :: "string list \<Rightarrow> string list \<Rightarrow> string list" where
  "firsts seen [] = []"
| "firsts seen (x # xs) = (if x \<in> set seen then firsts seen xs else x # firsts (x # seen) xs)"

definition fleet_recipient :: "fleet_cert list \<Rightarrow> 'h world \<Rightarrow> string" where
  "fleet_recipient rows w =
     (case filter (\<lambda>m. m \<noteq> []) (map (\<lambda>f. strip (or_empty (f_notify_email f))) rows) of
        m # _ \<Rightarrow> m
      | [] \<Rightarrow> (case signer_recipients w of [] \<Rightarrow> [] | m # _ \<Rightarrow> m))"

definition location :: "fleet_cert \<Rightarrow> string" where
  "location f = f_host f @ '':'' @ f_path f"

definition fleet_label :: "string \<Rightarrow> string list \<Rightarrow> fleet_cert \<Rightarrow> string" where
  "fleet_label cn locations f =
     (if 1 < length locations then cn @ '' ('' @ nat_str (length locations) @ '' locations)''
      else cn @ '' on '' @ f_host f)"

definition warn_group ::
  "'h env \<Rightarrow> ctx \<Rightarrow> fleet_cert \<Rightarrow> fleet_cert list \<Rightarrow> (nat \<times> nat) \<times> 'h world \<Rightarrow> (nat \<times> nat) \<times> 'h world" where
  "warn_group e c f rows acc =
     (case acc of ((sent, errors), w) \<Rightarrow>
        let days = days_left (c_now c) (f_expires_at f) in
        case warn_level days of
          None \<Rightarrow> acc
        | Some level \<Rightarrow>
            if list_all (\<lambda>r. warned_at level (f_expiry_warned r)) rows then acc
            else
              let recipient = fleet_recipient rows w in
              if recipient = [] then acc
              else
                let locations = sort (remdups (map location rows));
                    cn = or_else (or_empty (f_cn f)) (hd locations);
                    mail = [(''id'', JStr (''fleet-'' @ take 12 (f_fingerprint f))),
                            (''target_host'', JStr (fleet_label cn locations f)), (''requester_email'', JStr recipient),
                            (''expires_at'', jint_opt (f_expires_at f)), (''locations'', strs locations),
                            (''days_left'', JInt days)];
                    w1 = w\<lparr>w_mail := w_mail w @ [(''expiry_warning'', mail)]\<rparr> in
                case send_mail e ''expiry_warning'' mail of
                  Inl err \<Rightarrow> ((sent, Suc errors), w1)
                | Inr (ok, _) \<Rightarrow>
                    ((if ok then Suc sent else sent, errors),
                     fire_webhooks e c ''fleet_cert.expiring''
                       [(''fingerprint'', JStr (f_fingerprint f)), (''cn'', JStr cn), (''locations'', strs locations),
                        (''days_left'', JInt days), (''expires_at'', jint_opt (f_expires_at f))]
                       (if ok then w1\<lparr>w_fleet := update_where (\<lambda>x. f_id x \<in> f_id ` set rows)
                                      (\<lambda>x. x\<lparr>f_expiry_warned := level\<rparr>) (w_fleet w1)\<rparr>
                        else w1)))"

definition warn_fingerprint ::
  "'h env \<Rightarrow> ctx \<Rightarrow> fleet_cert list \<Rightarrow> string \<Rightarrow> (nat \<times> nat) \<times> 'h world \<Rightarrow> (nat \<times> nat) \<times> 'h world" where
  "warn_fingerprint e c frows fp acc =
     (case filter (\<lambda>f. f_fingerprint f = fp) frows of [] \<Rightarrow> acc | f # fs \<Rightarrow> warn_group e c f (f # fs) acc)"

definition warn_fleet :: "'h env \<Rightarrow> ctx \<Rightarrow> (nat \<times> nat) \<times> 'h world \<Rightarrow> (nat \<times> nat) \<times> 'h world" where
  "warn_fleet e c acc =
     (let frows = filter (\<lambda>f. expires_soon (c_now c) (f_expires_at f)) (w_fleet (snd acc)) in
      fold (warn_fingerprint e c frows) (firsts [] (map f_fingerprint frows)) acc)"

definition run_expiry_warnings :: "'h env \<Rightarrow> ctx \<Rightarrow> 'h world \<Rightarrow> (nat \<times> nat) \<times> 'h world" where
  "run_expiry_warnings e c w =
     (let w1 = set_setting ''last_expiry_warn_at'' (int_str (c_now c)) w in
      warn_fleet e c (fold (warn_job e c) (expiring_jobs (c_now c) w1) ((0, 0), w1)))"

definition admin_run_expiry_warnings :: "'h env \<Rightarrow> 'h handler" where
  "admin_run_expiry_warnings e =
     require_admin e ''admin_run_expiry_warnings'' (require_csrf e ''admin_run_expiry_warnings'' (\<lambda>c w.
       case run_expiry_warnings e c w of ((sent, errors), w1) \<Rightarrow>
         (ok_reply [(''ok'', JBool True), (''sent'', JInt (int sent)), (''errors'', JInt (int errors))],
          log_event c ''expiry_warnings'' ''ok'' [(''sent'', nat_str sent), (''errors'', nat_str errors)] w1)))"

definition admin_run_auto_renew :: "'h env \<Rightarrow> 'h handler" where
  "admin_run_auto_renew e =
     require_admin e ''admin_run_auto_renew'' (require_csrf e ''admin_run_auto_renew'' (\<lambda>c w.
       refuse 403 ''automated renewal requires a Certheim license'' w))"

subsection \<open>The audit viewer\<close>

definition page_args :: "ctx \<Rightarrow> int \<Rightarrow> int \<Rightarrow> int \<times> int" where
  "page_args c default_limit cap =
     (case (case c_args c ''limit'' of None \<Rightarrow> Some default_limit | Some s \<Rightarrow> int_of s,
            case c_args c ''offset'' of None \<Rightarrow> Some 0 | Some s \<Rightarrow> int_of s) of
        (Some l, Some off) \<Rightarrow> (min l cap, max off 0)
      | _ \<Rightarrow> (default_limit, 0))"

definition detail_json :: "audit_row \<Rightarrow> json" where
  "detail_json r = JObj (map (\<lambda>(k, v). (k, JStr v)) (a_detail r))"

definition has_part_opt :: "'h env \<Rightarrow> string \<Rightarrow> string option \<Rightarrow> bool" where
  "has_part_opt e q s = (case s of None \<Rightarrow> False | Some t \<Rightarrow> has_part e q t)"

definition audit_conds :: "'h env \<Rightarrow> ctx \<Rightarrow> (audit_row \<Rightarrow> bool) list" where
  "audit_conds e c =
     (let action = strip (arg c ''action''); actor = strip (arg c ''actor''); q = strip (arg c ''q'') in
      (if action \<noteq> [] then [\<lambda>r. has_part e action (a_action r)] else [])
      @ (if actor \<noteq> [] then [\<lambda>r. has_part_opt e actor (a_actor r)] else [])
      @ (if q \<noteq> [] then [\<lambda>r. has_part e q (json_dumps e (detail_json r)) \<or> has_part e q (a_result r)] else []))"

definition audit_json :: "nat \<times> audit_row \<Rightarrow> json" where
  "audit_json nr =
     (case nr of (n, r) \<Rightarrow>
        JObj [(''id'', JInt (int n + 1)), (''ts'', JInt (a_ts r)), (''actor'', jopt (a_actor r)),
          (''action'', JStr (a_action r)), (''result'', JStr (a_result r)), (''detail'', detail_json r)])"

definition admin_audit :: "'h env \<Rightarrow> 'h handler" where
  "admin_audit e = require_admin e ''admin_audit'' (\<lambda>c w.
     let rows = filter (\<lambda>nr. list_all (\<lambda>p. p (snd nr)) (audit_conds e c)) (enumerate 0 (w_audit w));
         (limit, offset) = page_args c 100 500 in
     attempt e c (page e limit offset (sort_key (\<lambda>nr. - a_ts (snd nr)) rows)) w (\<lambda>shown.
       (ok_reply [(''total'', JInt (int (length rows))), (''events'', JArr (map audit_json shown))], w)))"

subsection \<open>Fleet certificates\<close>

definition fleet_conds :: "'h env \<Rightarrow> ctx \<Rightarrow> string + (fleet_cert \<Rightarrow> bool) list" where
  "fleet_conds e c =
     (let host = strip (arg c ''host''); q = strip (arg c ''q''); ew = arg c ''expiring_within'';
          base = (if host \<noteq> [] then [\<lambda>f. has_part e host (f_host f)] else [])
            @ (if q \<noteq> [] then [\<lambda>f. has_part_opt e q (f_cn f) \<or> has_part e q (f_path f) \<or> has_part e q (f_host f)
                                 \<or> has_part_opt e q (f_issuer f)] else []) in
      if ew = [] then Inr base
      else case int_of ew of
        None \<Rightarrow> Inl ''invalid expiring_within''
      | Some d \<Rightarrow> Inr (base @ [\<lambda>f. case f_expires_at f of None \<Rightarrow> False
                                  | Some t \<Rightarrow> t \<le> c_now c + max 1 (min d 365) * 86400]))"

text \<open>\<open>ORDER BY expires_at IS NULL, expires_at ASC\<close>\<close>

definition soonest_first :: "fleet_cert list \<Rightarrow> fleet_cert list" where
  "soonest_first fs =
     sort_key (\<lambda>f. case f_expires_at f of None \<Rightarrow> 0 | Some t \<Rightarrow> t) (filter (\<lambda>f. f_expires_at f \<noteq> None) fs)
     @ filter (\<lambda>f. f_expires_at f = None) fs"

definition fleet_json :: "time \<Rightarrow> fleet_cert list \<Rightarrow> fleet_cert \<Rightarrow> json" where
  "fleet_json now places f =
     JObj [(''id'', JInt (f_id f)), (''host'', JStr (f_host f)), (''path'', JStr (f_path f)),
       (''fingerprint'', JStr (f_fingerprint f)), (''cn'', jopt (f_cn f)), (''sans'', strs (f_sans f)),
       (''issuer'', jopt (f_issuer f)), (''not_before'', jint_opt (f_not_before f)),
       (''expires_at'', jint_opt (f_expires_at f)), (''cert_types'', jopt (f_cert_types f)),
       (''notify_email'', jopt (f_notify_email f)), (''first_seen'', JInt (f_first_seen f)),
       (''last_seen'', JInt (f_last_seen f)),
       (''expired'', JBool (case f_expires_at f of None \<Rightarrow> False | Some t \<Rightarrow> t \<noteq> 0 \<and> t \<le> now)),
       (''location_count'', JInt (int (length places))), (''locations'', JStr (join [nl] (map location places)))]"

definition same_cert :: "fleet_cert list \<Rightarrow> fleet_cert \<Rightarrow> fleet_cert list" where
  "same_cert fs f = filter (\<lambda>g. f_fingerprint g = f_fingerprint f) fs"

text \<open>One row per fingerprint: the one of the lowest identifier.\<close>

definition representatives :: "fleet_cert list \<Rightarrow> fleet_cert list" where
  "representatives fs = filter (\<lambda>f. list_all (\<lambda>g. f_id f \<le> f_id g) (same_cert fs f)) fs"

definition list_fleet_certs :: "'h env \<Rightarrow> 'h handler" where
  "list_fleet_certs e = require_auth e ''list_fleet_certs'' (\<lambda>c w.
     case fleet_conds e c of
       Inl msg \<Rightarrow> refuse 400 msg w
     | Inr conds \<Rightarrow>
         let rows = filter (\<lambda>f. list_all (\<lambda>p. p f) conds) (w_fleet w);
             dedupe = (arg c ''dedupe'' \<in> set [''1'', ''true'']);
             shown = (if dedupe then representatives rows else rows);
             places = (\<lambda>f. if dedupe then same_cert rows f else [f]);
             (limit, offset) = page_args c 200 1000 in
         attempt e c (page e limit offset (soonest_first shown)) w (\<lambda>fs.
           (ok_reply [(''total'', JInt (int (length shown))),
                      (''certs'', JArr (map (\<lambda>f. fleet_json (c_now c) (places f) f) fs))], w)))"

definition delete_fleet_cert :: "'h env \<Rightarrow> int \<Rightarrow> 'h handler" where
  "delete_fleet_cert e i =
     require_admin e ''delete_fleet_cert'' (require_csrf e ''delete_fleet_cert'' (\<lambda>c w.
       case row_by f_id i (w_fleet w) of
         None \<Rightarrow> refuse 404 ''not found'' w
       | Some f \<Rightarrow> (ok_json, log_event c ''fleet_cert_delete'' ''ok''
             [(''cert_id'', int_str i), (''host'', f_host f), (''path'', f_path f)]
             (w\<lparr>w_fleet := remove_row f_id i (w_fleet w)\<rparr>))))"

subsection \<open>Every tier once\<close>

text \<open>The tiers a job can still be warned at, and the warnings sent about it.\<close>

definition tiers_left :: "int \<Rightarrow> nat" where
  "tiers_left warned = (if warned = 0 then 3 else length (filter (\<lambda>t. t < warned) EXPIRY_WARN_THRESHOLDS))"

definition tiers_of :: "string \<Rightarrow> 'h world \<Rightarrow> nat" where
  "tiers_of i w = (case row_by j_id i (w_jobs w) of None \<Rightarrow> 0 | Some j \<Rightarrow> tiers_left (j_expiry_warned j))"

definition warnings_of :: "string \<Rightarrow> 'h world \<Rightarrow> nat" where
  "warnings_of i w = length (filter (\<lambda>m. fst m = ''expiry_warning'' \<and> (''id'', JStr i) \<in> set (snd m)) (w_mail w))"

definition spent_tiers :: "string \<Rightarrow> 'h world \<Rightarrow> nat" where
  "spent_tiers i w = warnings_of i w + tiers_of i w"

definition delivers :: "'h env \<Rightarrow> bool" where
  "delivers e = (\<forall>kind mail. \<exists>reason. send_mail e kind mail = Inr (True, reason))"

lemma warn_level_cases:
  "warn_level d = None \<or> warn_level d = Some 30 \<or> warn_level d = Some 14 \<or> warn_level d = Some 7"
  by (simp add: warn_level_def EXPIRY_WARN_THRESHOLDS_def)

lemma warn_level_spends:
  assumes "warn_level d = Some level" "\<not> warned_at level warned"
  shows "tiers_left level < tiers_left warned"
  using warn_level_cases [of d] assms
  by (auto simp: tiers_left_def warned_at_def EXPIRY_WARN_THRESHOLDS_def split: if_splits)

lemma tiers_left_bound: "tiers_left v \<le> 3"
  by (simp add: tiers_left_def EXPIRY_WARN_THRESHOLDS_def)

lemma fire_webhooks_mail [simp]: "w_mail (fire_webhooks e c v d w) = w_mail w"
  by (simp add: fire_webhooks_def)

lemma set_warned_row:
  "row_by j_id i (w_jobs (set_warned k level w)) =
     map_option (\<lambda>j. if j_id j = k then j\<lparr>j_expiry_warned := level\<rparr> else j) (row_by j_id i (w_jobs w))"
  by (simp add: set_warned_def set_job_def modify_row_def row_by_update_where)

lemma set_warned_frame [simp]:
  "w_mail (set_warned k level w) = w_mail w" "w_fleet (set_warned k level w) = w_fleet w"
  "unique_key j_id (w_jobs (set_warned k level w)) = unique_key j_id (w_jobs w)"
  by (simp_all add: set_warned_def set_job_def modify_row_def unique_key_update)

lemma job_warning_id: "(''id'', JStr i) \<in> set (job_warning c j w) \<longleftrightarrow> i = j_id j"
  by (auto simp: job_warning_def)

lemma warn_job_rows:
  assumes "i \<noteq> j_id j"
  shows "row_by j_id i (w_jobs (snd (warn_job e c j acc))) = row_by j_id i (w_jobs (snd acc))"
  using assms
  by (cases acc; cases "row_by j_id i (w_jobs (snd acc))")
     (auto simp: warn_job_def Let_def set_warned_row dest: row_by_SomeD split: option.splits sum.splits)

lemma warn_job_spends:
  fixes acc :: "(nat \<times> nat) \<times> 'h world"
  assumes sent: "delivers e" and row: "row_by j_id (j_id j) (w_jobs (snd acc)) = Some j"
  shows "spent_tiers i (snd (warn_job e c j acc)) \<le> spent_tiers i (snd acc)"
proof (cases "warn_level (days_left (c_now c) (j_expires_at j))")
  case None
  then show ?thesis by (cases acc) (simp add: warn_job_def)
next
  case (Some level)
  obtain counts w where acc: "acc = (counts, w)" by (cases acc)
  obtain reason where ok: "send_mail e ''expiry_warning'' (job_warning c j w) = Inr (True, reason)"
    using sent by (auto simp: delivers_def)
  show ?thesis
  proof (cases "warned_at level (j_expiry_warned j)")
    case True
    then show ?thesis using Some by (cases acc) (simp add: warn_job_def)
  next
    case False
    let ?w = "snd (warn_job e c j acc)"
    have mails: "w_mail ?w = w_mail w @ [(''expiry_warning'', job_warning c j w)]"
      using Some False ok by (simp add: acc warn_job_def Let_def split: prod.split)
    have rows: "row_by j_id (j_id j) (w_jobs ?w) = Some (j\<lparr>j_expiry_warned := level\<rparr>)"
      using Some False ok row by (simp add: acc warn_job_def Let_def set_warned_row split: prod.split)
    show ?thesis
    proof (cases "i = j_id j")
      case True
      then show ?thesis using mails rows row warn_level_spends [OF Some False]
        by (simp add: spent_tiers_def warnings_of_def tiers_of_def job_warning_id acc)
    next
      case False
      then show ?thesis using mails warn_job_rows [OF False, of e c acc]
        by (simp add: spent_tiers_def warnings_of_def tiers_of_def job_warning_id acc)
    qed
  qed
qed

lemma warn_jobs_spend:
  fixes acc :: "(nat \<times> nat) \<times> 'h world"
  assumes "delivers e" "distinct (map j_id js)"
    "\<And>j. j \<in> set js \<Longrightarrow> row_by j_id (j_id j) (w_jobs (snd acc)) = Some j"
  shows "spent_tiers i (snd (fold (warn_job e c) js acc)) \<le> spent_tiers i (snd acc)"
  using assms(2,3)
proof (induction js arbitrary: acc)
  case Nil
  then show ?case by simp
next
  case (Cons j js)
  have step: "spent_tiers i (snd (warn_job e c j acc)) \<le> spent_tiers i (snd acc)"
    using warn_job_spends assms(1) Cons.prems by (metis list.set_intros(1))
  have "row_by j_id (j_id k) (w_jobs (snd (warn_job e c j acc))) = Some k" if k: "k \<in> set js" for k
    using warn_job_rows [of "j_id k" j e c acc] Cons.prems k by (metis distinct.simps(2) image_eqI list.map(2)
        list.set_intros(2) list.set_map)
  then show ?case using Cons.IH [of "warn_job e c j acc"] Cons.prems step by fastforce
qed

lemma warn_group_frame [simp]:
  "w_jobs (snd (warn_group e c f rows acc)) = w_jobs (snd acc)"
  "take 6 i \<noteq> ''fleet-'' \<Longrightarrow> warnings_of i (snd (warn_group e c f rows acc)) = warnings_of i (snd acc)"
  by (cases acc, auto simp: warn_group_def warnings_of_def Let_def split: option.splits sum.splits prod.splits)

lemma warn_fingerprint_spends:
  assumes "take 6 i \<noteq> ''fleet-''"
  shows "spent_tiers i (snd (warn_fingerprint e c frows fp acc)) = spent_tiers i (snd acc)"
  using assms
  by (auto simp: warn_fingerprint_def spent_tiers_def tiers_of_def split: list.split)

lemma warn_fleet_spends:
  assumes "take 6 i \<noteq> ''fleet-''"
  shows "spent_tiers i (snd (warn_fleet e c acc)) = spent_tiers i (snd acc)"
proof -
  have "spent_tiers i (snd (fold (warn_fingerprint e c frows) fps acc)) = spent_tiers i (snd acc)" for frows fps
    by (induction fps arbitrary: acc) (simp_all add: warn_fingerprint_spends assms)
  then show ?thesis by (simp add: warn_fleet_def Let_def)
qed

lemma expiring_jobs_rows:
  assumes "unique_key j_id (w_jobs w)"
  shows "distinct (map j_id (expiring_jobs now w))"
    "j \<in> set (expiring_jobs now w) \<Longrightarrow> row_by j_id (j_id j) (w_jobs w) = Some j"
  using assms by (auto simp: expiring_jobs_def unique_key_def row_by_unique intro: distinct_map_filter)

lemma set_setting_mail [simp]: "w_mail (set_setting k v w) = w_mail w" "w_fleet (set_setting k v w) = w_fleet w"
  by (simp_all add: set_setting_def)

lemma pass_spends:
  assumes "delivers e" "unique_key j_id (w_jobs w)" "take 6 i \<noteq> ''fleet-''"
  shows "spent_tiers i (snd (run_expiry_warnings e c w)) \<le> spent_tiers i w"
proof -
  let ?w = "set_setting ''last_expiry_warn_at'' (int_str (c_now c)) w"
  have "unique_key j_id (w_jobs ?w)" using assms(2) by simp
  from warn_jobs_spend [OF assms(1) expiring_jobs_rows(1) [OF this], where acc = "((0, 0), ?w)" and c = c]
    expiring_jobs_rows(2) [OF this]
  have "spent_tiers i (snd (fold (warn_job e c) (expiring_jobs (c_now c) ?w) ((0, 0), ?w))) \<le> spent_tiers i ?w"
    by (metis snd_conv)
  moreover have "spent_tiers i ?w = spent_tiers i w"
    by (simp add: spent_tiers_def warnings_of_def tiers_of_def)
  ultimately show ?thesis
    by (simp add: run_expiry_warnings_def Let_def warn_fleet_spends assms(3))
qed

lemma pass_keeps_ids: "map j_id (w_jobs (snd (run_expiry_warnings e c w))) = map j_id (w_jobs w)"
proof -
  have job: "map j_id (w_jobs (snd (warn_job e c j acc))) = map j_id (w_jobs (snd acc))" for j acc
    by (cases acc) (auto simp: warn_job_def set_warned_def set_job_def modify_row_def update_where_def Let_def
        split: option.splits sum.splits)
  have jobs: "map j_id (w_jobs (snd (fold (warn_job e c) js acc))) = map j_id (w_jobs (snd acc))" for js acc
    by (induction js arbitrary: acc) (simp_all add: job)
  have "w_jobs (snd (warn_fingerprint e c frows fp acc)) = w_jobs (snd acc)" for frows fp acc
    by (simp add: warn_fingerprint_def split: list.split)
  then have "w_jobs (snd (fold (warn_fingerprint e c frows) fps acc)) = w_jobs (snd acc)" for frows fps acc
    by (induction fps arbitrary: acc) simp_all
  then show ?thesis by (simp add: run_expiry_warnings_def Let_def warn_fleet_def jobs)
qed

text \<open>The passes of the timer: each at its own time.\<close>

definition passes :: "'h env \<Rightarrow> ctx list \<Rightarrow> 'h world \<Rightarrow> 'h world" where
  "passes e cs w = fold (\<lambda>c w. snd (run_expiry_warnings e c w)) cs w"

lemma passes_spend:
  assumes "delivers e" "take 6 i \<noteq> ''fleet-''" "unique_key j_id (w_jobs w)"
  shows "spent_tiers i (passes e cs w) \<le> spent_tiers i w"
  using assms(3)
proof (induction cs arbitrary: w)
  case Nil
  then show ?case by (simp add: passes_def)
next
  case (Cons c cs)
  have "unique_key j_id (w_jobs (snd (run_expiry_warnings e c w)))"
    using Cons.prems by (simp add: unique_key_def pass_keeps_ids)
  from Cons.IH [OF this] pass_spends [OF assms(1) Cons.prems assms(2), of c] show ?case
    by (simp add: passes_def)
qed

text \<open>
  C19: However often and at whatever times the expiry pass runs, while mail can be delivered a job is warned about
  at most three times, once per tier (30, 14 and 7 days): the passes of a dense timer do not repeat a warning.
\<close>

theorem three_warnings_per_job:
  assumes "delivers e" "unique_key j_id (w_jobs w)" "take 6 i \<noteq> ''fleet-''"
  shows "warnings_of i (passes e cs w) \<le> warnings_of i w + 3"
proof -
  have "tiers_of i w \<le> 3" by (simp add: tiers_of_def tiers_left_bound split: option.split)
  then show ?thesis using passes_spend [OF assms(1,3,2), of cs] by (simp add: spent_tiers_def)
qed

text \<open>A certificate that expires on day 31, with passes on days 2, 3, 12, 18, 25 and 28.\<close>

definition ageing :: "unit world" where
  "ageing = sample_world\<lparr>w_jobs := [sample_job\<lparr>j_status := Issued, j_expires_at := Some (31 * 86400)\<rparr>]\<rparr>"

definition timer_days :: "ctx list" where
  "timer_days = map (\<lambda>d. sample_ctx\<lparr>c_now := d * 86400\<rparr>) [2, 3, 12, 18, 25, 28]"

theorem three_warnings_per_job_witness:
  "warnings_of (j_id sample_job) (passes sample_env timer_days ageing) \<le> warnings_of (j_id sample_job) ageing + 3"
proof (rule three_warnings_per_job)
  show "delivers sample_env" by (simp add: delivers_def sample_env_def)
  show "unique_key j_id (w_jobs ageing)" by (simp add: ageing_def unique_key_def)
  show "take 6 (j_id sample_job) \<noteq> ''fleet-''" by (simp add: sample_job_def)
qed

subsection \<open>Without mail\<close>

definition mute :: "'h env \<Rightarrow> bool" where
  "mute e = (\<forall>kind mail. \<exists>reason. send_mail e kind mail = Inr (False, reason))"

text \<open>A step that only hands over \<open>new\<close> deliveries, whatever is queued already.\<close>

definition with_queues ::
  "(string \<times> (string \<times> json) list) list \<Rightarrow> (int \<times> string \<times> json \<times> json) list \<Rightarrow> 'h world \<Rightarrow> 'h world" where
  "with_queues m f w = w\<lparr>w_mail := m, w_fired := f\<rparr>"

definition hands_over ::
  "((nat \<times> nat) \<times> 'h world \<Rightarrow> (nat \<times> nat) \<times> 'h world) \<Rightarrow> 'h world \<Rightarrow> (int \<times> string \<times> json \<times> json) list \<Rightarrow> bool" where
  "hands_over step w new \<longleftrightarrow> (\<forall>counts m f. \<exists>counts' m'.
     step (counts, with_queues m f w) = (counts', with_queues m' (f @ new) w))"

definition job_due :: "time \<Rightarrow> job \<Rightarrow> bool" where
  "job_due now j = (case warn_level (days_left now (j_expires_at j)) of None \<Rightarrow> False
     | Some level \<Rightarrow> \<not> warned_at level (j_expiry_warned j))"

definition job_news :: "'h env \<Rightarrow> ctx \<Rightarrow> 'h world \<Rightarrow> job \<Rightarrow> (int \<times> string \<times> json \<times> json) list" where
  "job_news e c w j =
     (if job_due (c_now c) j
      then map (\<lambda>h. (h_id h, ''job.expiring'',
              JObj [(''job_id'', JStr (j_id j)), (''target_host'', JStr (j_target_host j)),
                    (''days_left'', JInt (days_left (c_now c) (j_expires_at j))),
                    (''expires_at'', jint_opt (j_expires_at j)), (''requester_email'', jopt (j_requester_email j))],
              hook_headers e h))
             (filter (hook_wants e c w ''job.expiring'') (w_webhooks w))
      else [])"

lemma with_queues_frame [simp]:
  "w_jobs (with_queues m f w) = w_jobs w" "w_fleet (with_queues m f w) = w_fleet w"
  "w_groups (with_queues m f w) = w_groups w" "w_members (with_queues m f w) = w_members w"
  "w_users (with_queues m f w) = w_users w" "w_settings (with_queues m f w) = w_settings w"
  "w_envcaps (with_queues m f w) = w_envcaps w" "w_webhooks (with_queues m f w) = w_webhooks w"
  "w_mail (with_queues m f w) = m" "w_fired (with_queues m f w) = f"
  "(with_queues m f w)\<lparr>w_mail := m'\<rparr> = with_queues m' f w" "(with_queues m f w)\<lparr>w_fired := f'\<rparr> = with_queues m f' w"
  "with_queues (w_mail w) (w_fired w) w = w"
  by (simp_all add: with_queues_def)

lemma hook_wants_queues [simp]: "hook_wants e c (with_queues m f w) = hook_wants e c w"
  by (intro ext) (simp add: hook_wants_def hook_allowed_def available_in_def license_in_def get_setting_cong [of "with_queues m f w" w])

lemma fire_webhooks_queues [simp]:
  "fire_webhooks e c v d (with_queues m f w) =
     with_queues m (f @ (if v \<in> set WEBHOOK_EVENTS
        then map (\<lambda>h. (h_id h, v, JObj d, hook_headers e h)) (filter (hook_wants e c w v) (w_webhooks w)) else [])) w"
  by (simp add: fire_webhooks_def)

lemma fleet_recipient_queues [simp]: "fleet_recipient rows (with_queues m f w) = fleet_recipient rows w"
  by (simp add: fleet_recipient_def signer_recipients_def signer_group_def cong: list.case_cong)

lemma expiring_event: "''job.expiring'' \<in> set WEBHOOK_EVENTS"
  by (simp add: WEBHOOK_EVENTS_def)

lemma mute_job:
  assumes "mute e"
  shows "hands_over (warn_job e c j) w (job_news e c w j)"
proof (cases "job_due (c_now c) j")
  case False
  then show ?thesis
    by (auto simp: hands_over_def warn_job_def job_news_def job_due_def split: option.splits)
next
  case True
  then obtain level where level: "warn_level (days_left (c_now c) (j_expires_at j)) = Some level"
    "\<not> warned_at level (j_expiry_warned j)"
    by (auto simp: job_due_def split: option.splits)
  have "\<exists>counts' m'. warn_job e c j (counts, with_queues m f w) =
      (counts', with_queues m' (f @ job_news e c w j) w)" for counts m f
  proof -
    obtain sent errors where counts: "counts = (sent, errors)" by (cases counts)
    obtain reason where "send_mail e ''expiry_warning'' (job_warning c j (with_queues m f w)) = Inr (False, reason)"
      using assms by (auto simp: mute_def)
    with level True show ?thesis
      by (auto simp: warn_job_def counts job_news_def expiring_event Let_def)
  qed
  then show ?thesis by (simp add: hands_over_def)
qed

lemma hands_over_comp:
  "hands_over s w n \<Longrightarrow> hands_over t w n' \<Longrightarrow> hands_over (\<lambda>a. t (s a)) w (n @ n')"
  unfolding hands_over_def by (metis append_assoc)

lemma hands_over_fold:
  assumes "\<And>x. x \<in> set xs \<Longrightarrow> hands_over (step x) w (news x)"
  shows "hands_over (fold step xs) w (concat (map news xs))"
  using assms
proof (induction xs)
  case Nil
  then show ?case by (auto simp: hands_over_def)
next
  case (Cons x xs)
  then have "hands_over (\<lambda>a. fold step xs (step x a)) w (news x @ concat (map news xs))"
    by (intro hands_over_comp) auto
  then show ?case by (simp add: comp_def)
qed

lemma mute_group:
  assumes "mute e"
  shows "\<exists>new. hands_over (warn_group e c f rows) w new"
proof (cases "\<exists>level. warn_level (days_left (c_now c) (f_expires_at f)) = Some level
    \<and> \<not> list_all (\<lambda>r. warned_at level (f_expiry_warned r)) rows \<and> fleet_recipient rows w \<noteq> []")
  case False
  then show ?thesis
    by (intro exI [of _ "[]"]) (auto simp: hands_over_def warn_group_def Let_def split: option.split)
next
  case True
  then obtain level where level: "warn_level (days_left (c_now c) (f_expires_at f)) = Some level"
    "\<not> list_all (\<lambda>r. warned_at level (f_expiry_warned r)) rows" "fleet_recipient rows w \<noteq> []" by blast
  have "\<exists>reason. send_mail e ''expiry_warning'' mail = Inr (False, reason)" for mail
    using assms by (simp add: mute_def)
  then obtain reason where "send_mail e ''expiry_warning'' mail = Inr (False, reason mail)" for mail
    by metis
  with level show ?thesis
    unfolding hands_over_def by (simp add: warn_group_def Let_def split_paired_All split del: if_split) blast
qed

lemma mute_fleet:
  assumes "mute e"
  shows "\<exists>new. hands_over (warn_fleet e c) w new"
proof -
  let ?rows = "filter (\<lambda>f. expires_soon (c_now c) (f_expires_at f)) (w_fleet w)"
  have "\<exists>new. hands_over (warn_fingerprint e c ?rows fp) w new" for fp
  proof (cases "filter (\<lambda>f. f_fingerprint f = fp) ?rows")
    case Nil
    have "hands_over (warn_fingerprint e c ?rows fp) w []"
      unfolding hands_over_def warn_fingerprint_def Nil by auto
    then show ?thesis ..
  next
    case (Cons f fs)
    show ?thesis using mute_group [OF assms, of c f "f # fs" w]
      by (simp only: hands_over_def warn_fingerprint_def Cons list.case)
  qed
  then obtain news where "hands_over (warn_fingerprint e c ?rows fp) w (news fp)" for fp by metis
  then have "hands_over (fold (warn_fingerprint e c ?rows) (firsts [] (map f_fingerprint ?rows))) w
      (concat (map news (firsts [] (map f_fingerprint ?rows))))"
    by (intro hands_over_fold)
  then show ?thesis by (auto simp: hands_over_def warn_fleet_def Let_def)
qed

text \<open>The deliveries of a pass about jobs, in the world the pass starts in.\<close>

definition stamped :: "ctx \<Rightarrow> 'h world \<Rightarrow> 'h world" where
  "stamped c w = set_setting ''last_expiry_warn_at'' (int_str (c_now c)) w"

lemma stamped_queues [simp]:
  "stamped c (with_queues m f w) = with_queues m f (stamped c w)" "stamped c (stamped c w) = stamped c w"
  "w_mail (stamped c w) = w_mail w" "w_fired (stamped c w) = w_fired w" "w_jobs (stamped c w) = w_jobs w"
  by (simp_all add: stamped_def set_setting_def with_queues_def)

lemma silent_pass:
  assumes "mute e"
  shows "\<exists>new. \<forall>m f. \<exists>m'. snd (run_expiry_warnings e c (with_queues m f (stamped c w))) =
     with_queues m' (f @ concat (map (job_news e c (stamped c w)) (expiring_jobs (c_now c) w)) @ new) (stamped c w)"
proof -
  let ?w = "stamped c w" and ?js = "expiring_jobs (c_now c) w"
  have jobs: "hands_over (fold (warn_job e c) ?js) ?w (concat (map (job_news e c ?w) ?js))"
    by (rule hands_over_fold) (rule mute_job [OF assms])
  obtain new where "hands_over (warn_fleet e c) ?w new" using mute_fleet [OF assms] by blast
  from hands_over_comp [OF jobs this]
  have "\<exists>m'. snd (warn_fleet e c (fold (warn_job e c) ?js ((0, 0), with_queues m f ?w))) =
      with_queues m' (f @ concat (map (job_news e c ?w) ?js) @ new) ?w" for m f
    unfolding hands_over_def by (metis snd_conv)
  moreover have "set_setting ''last_expiry_warn_at'' (int_str (c_now c)) (with_queues m f ?w) = with_queues m f ?w" for m f
    by (metis stamped_def stamped_queues(1,2))
  ultimately show ?thesis
    by (intro exI [of _ new]) (simp add: run_expiry_warnings_def Let_def expiring_jobs_def)
qed

lemma first_pass: "snd (run_expiry_warnings e c w) = snd (run_expiry_warnings e c (with_queues (w_mail w) (w_fired w) (stamped c w)))"
  by (metis (mono_tags) run_expiry_warnings_def stamped_def stamped_queues(2) stamped_queues(3) stamped_queues(4) with_queues_frame(13))

lemma silent_passes:
  assumes "\<And>m f. \<exists>m'. snd (run_expiry_warnings e c (with_queues m f v)) = with_queues m' (f @ new) v"
  shows "\<exists>m'. passes e (replicate n c) (with_queues m f v) = with_queues m' (f @ concat (replicate n new)) v"
proof (induction n arbitrary: m f)
  case 0
  then show ?case by (auto simp: passes_def)
next
  case (Suc n)
  obtain m' where "snd (run_expiry_warnings e c (with_queues m f v)) = with_queues m' (f @ new) v"
    using assms by blast
  with Suc [of m' "f @ new"] show ?case by (simp add: passes_def)
qed

lemma count_replicate: "count_list (concat (replicate n xs)) x = n * count_list xs x"
  by (induction n) simp_all

text \<open>The delivery about a job to a webhook.\<close>

definition expiry_event :: "'h env \<Rightarrow> ctx \<Rightarrow> job \<Rightarrow> webhook \<Rightarrow> int \<times> string \<times> json \<times> json" where
  "expiry_event e c j h = (h_id h, ''job.expiring'',
     JObj [(''job_id'', JStr (j_id j)), (''target_host'', JStr (j_target_host j)),
           (''days_left'', JInt (days_left (c_now c) (j_expires_at j))),
           (''expires_at'', jint_opt (j_expires_at j)), (''requester_email'', jopt (j_requester_email j))],
     hook_headers e h)"

text \<open>
  While mail cannot be delivered the tier of a job is not recorded, so every pass hands the webhooks the event of a due job again:
  after \<open>n\<close> passes a subscribed webhook has had it at least \<open>n\<close> times, not once per threshold.
\<close>

theorem undelivered_warning_repeats:
  assumes "mute e" "j \<in> set (expiring_jobs (c_now c) w)" "job_due (c_now c) j"
    "h \<in> set (w_webhooks w)" "hook_wants e c (stamped c w) ''job.expiring'' h"
  shows "n \<le> count_list (w_fired (passes e (replicate n c) w)) (expiry_event e c j h)"
proof (cases n)
  case 0
  then show ?thesis by simp
next
  case (Suc k)
  let ?v = "stamped c w" and ?js = "expiring_jobs (c_now c) w"
  obtain fleet where pass: "\<And>m f. \<exists>m'. snd (run_expiry_warnings e c (with_queues m f ?v)) =
      with_queues m' (f @ concat (map (job_news e c ?v) ?js) @ fleet) ?v"
    using silent_pass [OF assms(1), of c w] by blast
  let ?new = "concat (map (job_news e c ?v) ?js) @ fleet"
  have start: "passes e (replicate n c) w = passes e (replicate n c) (with_queues (w_mail w) (w_fired w) ?v)"
    using first_pass [of e c w] by (simp only: passes_def Suc replicate_Suc fold_Cons o_apply)
  obtain m' where "passes e (replicate n c) (with_queues (w_mail w) (w_fired w) ?v) =
      with_queues m' (w_fired w @ concat (replicate n ?new)) ?v"
    using silent_passes [OF pass] by blast
  with start have fired: "w_fired (passes e (replicate n c) w) = w_fired w @ concat (replicate n ?new)"
    by (simp only: with_queues_frame)
  have "w_webhooks ?v = w_webhooks w" by (simp add: stamped_def set_setting_def)
  then have "expiry_event e c j h \<in> set (job_news e c ?v j)"
    using assms(3-5) by (auto simp: job_news_def expiry_event_def)
  with assms(2) have "expiry_event e c j h \<in> set ?new" by auto
  then have "Suc 0 \<le> count_list ?new (expiry_event e c j h)"
    by (metis count_list_0_iff not_less_eq_eq le_zero_eq)
  from mult_le_mono2 [OF this, of n] have "n \<le> n * count_list ?new (expiry_event e c j h)"
    by (simp only: mult_Suc_right mult_0_right add_0_right)
  also have "\<dots> \<le> count_list (w_fired (passes e (replicate n c) w)) (expiry_event e c j h)"
    by (simp only: fired count_list_append count_replicate)
  finally show ?thesis .
qed

text \<open>A certificate that expires in five days, no mail, and a webhook that wants the event.\<close>

definition mute_env :: "unit env" where
  "mute_env = sample_env\<lparr>send_mail := (\<lambda>k d. Inr (False, ''disabled'')), json_loads := (\<lambda>s. Some (JArr [JStr ''job.expiring'']))\<rparr>"

definition pager :: webhook where
  "pager = \<lparr>h_id = 1, h_name = ''pager'', h_url = ''https://pager'', h_events = ''[]'', h_headers = None, h_enabled = True,
     h_type = ''generic'', h_created_at = 0, h_created_by_dn = None, h_last_called = None, h_last_status = None,
     h_last_error = None, h_calls = 0\<rparr>"

definition last_week :: ctx where
  "last_week = sample_ctx\<lparr>c_now := 26 * 86400\<rparr>"

definition silent_world :: "unit world" where
  "silent_world = ageing\<lparr>w_webhooks := [pager]\<rparr>"

theorem undelivered_warning_repeats_witness:
  "\<exists>j. j_id j = j_id sample_job \<and>
     3 \<le> count_list (w_fired (passes mute_env (replicate 3 last_week) silent_world)) (expiry_event mute_env last_week j pager)"
proof -
  let ?j = "sample_job\<lparr>j_status := Issued, j_expires_at := Some (31 * 86400)\<rparr>"
  have "mute mute_env" by (simp add: mute_def mute_env_def)
  moreover have "?j \<in> set (expiring_jobs (c_now last_week) silent_world)"
    by (simp add: expiring_jobs_def expires_soon_def warn_horizon_def silent_world_def ageing_def last_week_def)
  moreover have "job_due (c_now last_week) ?j"
    by (simp add: job_due_def warn_level_def days_left_def EXPIRY_WARN_THRESHOLDS_def warned_at_def last_week_def
        sample_job_def)
  moreover have "hook_wants mute_env last_week (stamped last_week silent_world) ''job.expiring'' pager"
    by (simp add: hook_wants_def hook_subscribed_def hook_allowed_def pager_def mute_env_def or_else_def)
  moreover have "pager \<in> set (w_webhooks silent_world)" by (simp add: silent_world_def)
  ultimately have "3 \<le> count_list (w_fired (passes mute_env (replicate 3 last_week) silent_world))
      (expiry_event mute_env last_week ?j pager)"
    using undelivered_warning_repeats by blast
  then show ?thesis by (intro exI [of _ ?j]) simp
qed

end
