(* ===== verification/Guarded.thy ===== *)
theory Guarded
  imports GroupRoutes
begin

text \<open>
  What an endpoint's guards do to an invariant of the database. The decorators \<^verbatim>\<open>require_auth\<close>,
  \<^verbatim>\<open>require_admin\<close> and \<^verbatim>\<open>require_csrf\<close> of \<^verbatim>\<open>backend/app.py\<close> log, settle the login mode and may
  record the caller's first visit; an invariant that reads none of that is carried from the handler's body to the
  endpoint, and from there over every history of requests. The admin components interpret the locale on their
  own invariants.
\<close>

locale world_invariant =
  fixes I :: "'h world \<Rightarrow> bool"
  assumes log: "I (log_event c a r x w) = I w"
    and log_in_tx: "I (log_event_in_tx e c a r x w) = I w"
    and users: "I (w\<lparr>w_users := us\<rparr>) = I w"
    and mode: "I (set_setting ''auth_mode'' v w) = I w"
begin

definition keeps :: "'h handler \<Rightarrow> bool" where
  "keeps h \<longleftrightarrow> (\<forall>c w. I w \<longrightarrow> I (snd (h c w)))"

lemma keepsI: "(\<And>c w. I w \<Longrightarrow> I (snd (h c w))) \<Longrightarrow> keeps h"
  by (simp add: keeps_def)

lemma keepsD: "keeps h \<Longrightarrow> I w \<Longrightarrow> I (snd (h c w))"
  by (simp add: keeps_def)

lemma failures: "I (snd (refuse n m w)) = I w" "I (snd (crash e c err w)) = I w" "I (snd (abort e c n w)) = I w"
  "I (snd (deny e c nm res x w)) = I w"
  by (simp_all add: refuse_def crash_def abort_def deny_def log)

lemma attempt: "I w \<Longrightarrow> (\<And>x. r = Inr x \<Longrightarrow> I (snd (k x))) \<Longrightarrow> I (snd (attempt e c r w k))"
  by (cases r) (simp_all add: failures)

lemma payload: "I w \<Longrightarrow> (\<And>p. I (snd (k p))) \<Longrightarrow> I (snd (with_payload e c w k))"
  unfolding with_payload_def by (rule attempt)

lemma settled: "I (snd (auth_mode e w)) = I w"
  by (simp add: auth_mode_def Let_def mode split: option.split)

lemma visited: "I (snd (ensure_user e c i w)) = I w"
  by (simp add: ensure_user_def upsert_user_def Let_def users log log_in_tx split: option.split)

lemma guard: "keeps h \<Longrightarrow> keeps (guard_user e name h)"
proof (rule keepsI)
  fix c and w :: "'h world"
  assume h: "keeps h" and w: "I w"
  show "I (snd (guard_user e name h c w))"
  proof (cases "c_identity c")
    case None
    then show ?thesis using w by (simp add: guard_user_def failures)
  next
    case (Some i)
    obtain m w1 where a: "auth_mode e w = (m, w1)" by fastforce
    obtain r w2 where u: "ensure_user e c i w1 = (r, w2)" by fastforce
    have "I w1" using settled [of e w] w by (simp add: a)
    moreover have "I w2" using visited [of e c i w1] \<open>I w1\<close> by (simp add: u)
    ultimately show ?thesis
      using keepsD [OF h] by (simp add: guard_user_def Some a u failures split: sum.split option.split)
  qed
qed

lemma csrf: "keeps h \<Longrightarrow> keeps (require_csrf e name h)"
  by (simp add: keeps_def require_csrf_def failures)

lemma auth: "keeps h \<Longrightarrow> keeps (require_auth e name h)"
  unfolding require_auth_def by (rule guard)

lemma admin: "keeps h \<Longrightarrow> keeps (require_admin e name h)"
  unfolding require_admin_def by (rule guard) (simp add: keeps_def failures)

lemmas guarded = admin auth csrf

lemma history: "list_all keeps hs \<Longrightarrow> I w \<Longrightarrow> I (fold (\<lambda>(h, c) w. snd (h c w)) (zip hs cs) w)"
proof (induction hs arbitrary: cs w)
  case Nil
  then show ?case by simp
next
  case (Cons h hs)
  then show ?case by (cases cs) (simp_all add: keepsD)
qed

end

end
