(* ===== verification/AdminGroups.thy ===== *)
theory AdminGroups
  imports Guarded Requests
begin

text \<open>
  Group administration (\<^verbatim>\<open>backend/routes_admin.py\<close>): creating, changing and deleting groups and their
  memberships, and the test e-mail. The name is unique in the table; the identifier comes from a sequence that is
  never reused.
\<close>

subsection \<open>Listing and creating\<close>

definition GROUP_NAME_RE :: "string \<Rightarrow> bool" where
  "GROUP_NAME_RE = at_end (\<lambda>s. s \<noteq> [] \<and> is_alpha (hd s) \<and> length s \<le> 64 \<and> list_all file_char (tl s))"

definition group_row_json :: "'h world \<Rightarrow> grp \<Rightarrow> json" where
  "group_row_json w g =
     JObj [(''id'', JInt (g_id g)), (''name'', JStr (g_name g)), (''description'', jopt (g_description g)),
       (''email'', jopt (g_email g)), (''notify_on_new'', JInt (if g_notify g then 1 else 0)),
       (''created_at'', JInt (g_created_at g)),
       (''member_count'', JInt (int (rowcount (\<lambda>m. m_gid m = g_id g) (w_members w)))),
       (''job_count'', JInt (int (rowcount (\<lambda>j. j_group_id j = Some (g_id g)) (w_jobs w))))]"

definition admin_list_groups :: "'h env \<Rightarrow> 'h handler" where
  "admin_list_groups e = require_admin e ''admin_list_groups'' (\<lambda>c w.
     (ok_reply [(''groups'', JArr (map (group_row_json w) (sort_key g_name (w_groups w))))],
      log_event c ''admin_list_groups'' ''ok'' [(''count'', nat_str (length (w_groups w)))] w))"

definition stripped_str :: "json \<Rightarrow> string option" where
  "stripped_str v = (case v of JStr s \<Rightarrow> nonempty (strip s) | _ \<Rightarrow> None)"

definition email_refusal :: "string option \<Rightarrow> string option" where
  "email_refusal m =
     (case m of None \<Rightarrow> None
      | Some a \<Rightarrow> (case validate_email (JStr a) of Inl err \<Rightarrow> Some (''invalid group email: '' @ err) | Inr _ \<Rightarrow> None))"

definition insert_group :: "string \<Rightarrow> string option \<Rightarrow> string option \<Rightarrow> bool \<Rightarrow> 'h handler" where
  "insert_group name about email notify c w =
     (if name \<in> g_name ` set (w_groups w) then refuse 409 ''group name already exists'' w
      else
        let gid = w_gid_seq w + 1;
            g = \<lparr>g_id = gid, g_name = name, g_description = about, g_email = email, g_notify = notify,
                 g_created_at = c_now c\<rparr>
        in (ok_reply [(''ok'', JBool True), (''id'', JInt gid), (''name'', JStr name), (''description'', jopt about),
                      (''email'', jopt email), (''notify_on_new'', JBool notify)],
            log_event c ''admin_group_create'' ''ok''
              [(''group_id'', int_str gid), (''name'', name), (''email'', if email = None then ''none'' else ''set''),
               (''notify_on_new'', if notify then ''1'' else ''0'')]
              (w\<lparr>w_groups := w_groups w @ [g], w_gid_seq := gid\<rparr>)))"

definition create_group_body :: "'h env \<Rightarrow> 'h handler" where
  "create_group_body e c w =
     with_payload e c w (\<lambda>p.
     attempt e c (str_or_empty (jget ''name'' p)) w (\<lambda>n.
     attempt e c (str_or_empty (jget ''description'' p)) w (\<lambda>d.
     let name = strip n; about = nonempty (strip d); email = stripped_str (jget ''email'' p) in
     if \<not> GROUP_NAME_RE name
     then refuse 400 (''group name must start with a letter and contain '' @ ''only [A-Za-z0-9._-], max 64 chars'') w
     else if 512 < length (or_empty about) then refuse 400 ''description too long (max 512 chars)'' w
     else case email_refusal email of
       Some msg \<Rightarrow> refuse 400 msg w
     | None \<Rightarrow> insert_group name about email (truthy (jget ''notify_on_new'' p)) c w)))"

definition admin_create_group :: "'h env \<Rightarrow> 'h handler" where
  "admin_create_group e =
     require_admin e ''admin_create_group'' (require_csrf e ''admin_create_group'' (create_group_body e))"

subsection \<open>Changing\<close>

text \<open>
  Here the payload is only searched with \<open>in\<close> and indexed: a list or a text that contains the word has it, and
  fails when it is indexed.
\<close>

definition raw_payload :: "json option \<Rightarrow> json" where
  "raw_payload b = (case b of None \<Rightarrow> JObj [] | Some j \<Rightarrow> if truthy j then j else JObj [])"

definition py_in :: "string \<Rightarrow> json \<Rightarrow> bool result" where
  "py_in k p =
     (case p of
        JObj kvs \<Rightarrow> Inr (map_of kvs k \<noteq> None)
      | JArr xs \<Rightarrow> Inr (JStr k \<in> set xs)
      | JStr s \<Rightarrow> Inr (contains k s)
      | _ \<Rightarrow> Inl TypeError)"

definition py_index :: "string \<Rightarrow> json \<Rightarrow> json result" where
  "py_index k p = (case p of JObj kvs \<Rightarrow> Inr (jget k p) | _ \<Rightarrow> Inl TypeError)"

text \<open>What a field of the request changes: a refusal, or the columns it sets.\<close>

type_synonym columns = "string + (grp \<Rightarrow> grp) list"

definition name_column :: "json \<Rightarrow> columns result" where
  "name_column v =
     (case str_or_empty v of
        Inl err \<Rightarrow> Inl err
      | Inr s \<Rightarrow> Inr (if GROUP_NAME_RE (strip s) then Inr [\<lambda>g. g\<lparr>g_name := strip s\<rparr>] else Inl ''invalid group name''))"

definition description_column :: "json \<Rightarrow> columns result" where
  "description_column v =
     Inr (case v of
            JNull \<Rightarrow> Inr [\<lambda>g. g\<lparr>g_description := None\<rparr>]
          | JStr s \<Rightarrow> if 512 < length s then Inl ''description too long'' else Inr [\<lambda>g. g\<lparr>g_description := Some s\<rparr>]
          | _ \<Rightarrow> Inl ''description must be string'')"

definition email_column :: "json \<Rightarrow> columns result" where
  "email_column v =
     Inr (case v of
            JNull \<Rightarrow> Inr [\<lambda>g. g\<lparr>g_email := None\<rparr>]
          | JStr s \<Rightarrow> (case email_refusal (nonempty (strip s)) of
                Some msg \<Rightarrow> Inl msg | None \<Rightarrow> Inr [\<lambda>g. g\<lparr>g_email := nonempty (strip s)\<rparr>])
          | _ \<Rightarrow> Inl ''email must be string or null'')"

definition notify_column :: "json \<Rightarrow> columns result" where
  "notify_column v = Inr (Inr [\<lambda>g. g\<lparr>g_notify := truthy v\<rparr>])"

definition field_columns :: "json \<Rightarrow> string \<Rightarrow> (json \<Rightarrow> columns result) \<Rightarrow> columns result" where
  "field_columns p k f =
     (case py_in k p of
        Inl err \<Rightarrow> Inl err
      | Inr False \<Rightarrow> Inr (Inr [])
      | Inr True \<Rightarrow> (case py_index k p of Inl err \<Rightarrow> Inl err | Inr v \<Rightarrow> f v))"

fun gather :: "columns result list \<Rightarrow> columns result" where
  "gather [] = Inr (Inr [])"
| "gather (r # rs) =
     (case r of
        Inr (Inr fs) \<Rightarrow> (case gather rs of Inr (Inr gs) \<Rightarrow> Inr (Inr (fs @ gs)) | other \<Rightarrow> other)
      | _ \<Rightarrow> r)"

definition group_columns :: "json \<Rightarrow> columns result" where
  "group_columns p =
     gather [field_columns p ''name'' name_column, field_columns p ''description'' description_column,
             field_columns p ''email'' email_column, field_columns p ''notify_on_new'' notify_column]"

definition apply_columns :: "(grp \<Rightarrow> grp) list \<Rightarrow> grp \<Rightarrow> grp" where
  "apply_columns fs g = fold (\<lambda>f. f) fs g"

definition update_group_body :: "'h env \<Rightarrow> int \<Rightarrow> 'h handler" where
  "update_group_body e gid c w =
     attempt e c (group_columns (raw_payload (c_body c))) w (\<lambda>cols.
       case cols of
         Inl msg \<Rightarrow> refuse 400 msg w
       | Inr [] \<Rightarrow> refuse 400 ''no fields to update'' w
       | Inr fs \<Rightarrow>
           let gs = modify_row g_id gid (apply_columns fs) (w_groups w) in
           if row_by g_id gid (w_groups w) = None then refuse 404 ''group not found'' w
           else if \<not> unique_key g_name gs then refuse 409 ''group name already exists'' w
           else (ok_json, log_event c ''admin_group_update'' ''ok'' [(''group_id'', int_str gid)] (w\<lparr>w_groups := gs\<rparr>)))"

definition admin_update_group :: "'h env \<Rightarrow> int \<Rightarrow> 'h handler" where
  "admin_update_group e gid =
     require_admin e ''admin_update_group'' (require_csrf e ''admin_update_group'' (update_group_body e gid))"

subsection \<open>Deleting\<close>

definition delete_group_body :: "'h env \<Rightarrow> int \<Rightarrow> 'h handler" where
  "delete_group_body e gid c w =
     (case row_by g_id gid (w_groups w) of
        None \<Rightarrow> refuse 404 ''group not found'' w
      | Some g \<Rightarrow>
          (ok_json, log_event c ''admin_group_delete'' ''ok'' [(''group_id'', int_str gid), (''name'', g_name g)]
             (w\<lparr>w_jobs := update_where (\<lambda>j. j_group_id j = Some gid) (\<lambda>j. j\<lparr>j_group_id := None\<rparr>) (w_jobs w),
                w_members := delete_where (\<lambda>m. m_gid m = gid) (w_members w),
                w_groups := remove_row g_id gid (w_groups w)\<rparr>)))"

definition admin_delete_group :: "'h env \<Rightarrow> int \<Rightarrow> 'h handler" where
  "admin_delete_group e gid =
     require_admin e ''admin_delete_group'' (require_csrf e ''admin_delete_group'' (delete_group_body e gid))"

subsection \<open>Members\<close>

definition admin_member_json :: "member \<times> user \<Rightarrow> json" where
  "admin_member_json mu =
     (case mu of (m, u) \<Rightarrow>
        JObj [(''dn'', JStr (u_dn u)), (''cn'', JStr (u_cn u)), (''email'', jopt (u_email u)),
          (''is_admin'', JBool (u_is_admin u)), (''is_active'', JBool (u_is_active u)),
          (''added_at'', JInt (m_added_at m)), (''role'', JStr (role_str (m_role m)))])"

definition member_users :: "int \<Rightarrow> 'h world \<Rightarrow> (member \<times> user) list" where
  "member_users gid w =
     (let rows = sort_key (\<lambda>(m, u). nocase (u_cn u))
            (concat (map (\<lambda>m. map (Pair m) (filter (\<lambda>u. u_dn u = m_dn m) (w_users w)))
               (filter (\<lambda>m. m_gid m = gid) (w_members w))))
      in filter (\<lambda>(m, u). m_role m = Owner) rows @ filter (\<lambda>(m, u). m_role m \<noteq> Owner) rows)"

definition admin_group_members :: "'h env \<Rightarrow> int \<Rightarrow> 'h handler" where
  "admin_group_members e gid = require_admin e ''admin_group_members'' (\<lambda>c w.
     if row_by g_id gid (w_groups w) = None then refuse 404 ''group not found'' w
     else (ok_reply [(''members'', JArr (map admin_member_json (member_users gid w)))], w))"

definition admin_add_member_body :: "'h env \<Rightarrow> int \<Rightarrow> 'h handler" where
  "admin_add_member_body e gid c w =
     with_payload e c w (\<lambda>p.
     attempt e c (str_or_empty (jget ''dn'' p)) w (\<lambda>d.
     let dn = strip d in
     if dn = [] \<or> 512 < length dn then refuse 400 ''invalid dn'' w
     else if row_by g_id gid (w_groups w) = None then refuse 404 ''group not found'' w
     else if row_by u_dn dn (w_users w) = None
     then refuse 404 (''user not found (they must log in once '' @ ''before being added)'') w
     else case insert_row member_key \<lparr>m_dn = dn, m_gid = gid, m_added_at = c_now c, m_role = Member\<rparr> (w_members w) of
       None \<Rightarrow> refuse 409 ''user is already in this group'' w
     | Some ms \<Rightarrow> (ok_json, log_event c ''admin_group_add_member'' ''ok''
           [(''group_id'', int_str gid), (''target_dn'', take 128 dn)] (w\<lparr>w_members := ms\<rparr>))))"

definition admin_group_add_member :: "'h env \<Rightarrow> int \<Rightarrow> 'h handler" where
  "admin_group_add_member e gid =
     require_admin e ''admin_group_add_member'' (require_csrf e ''admin_group_add_member'' (admin_add_member_body e gid))"

definition admin_remove_member_body :: "'h env \<Rightarrow> int \<Rightarrow> 'h handler" where
  "admin_remove_member_body e gid c w =
     with_payload e c w (\<lambda>p.
     attempt e c (str_or_empty (jget ''dn'' p)) w (\<lambda>d.
     let dn = strip d in
     if dn = [] then refuse 400 ''missing dn'' w
     else if rowcount (is_member_row dn gid) (w_members w) = 0 then refuse 404 ''membership not found'' w
     else (ok_json, log_event c ''admin_group_remove_member'' ''ok''
             [(''group_id'', int_str gid), (''target_dn'', take 128 dn)] (drop_member dn gid w))))"

definition admin_group_remove_member :: "'h env \<Rightarrow> int \<Rightarrow> 'h handler" where
  "admin_group_remove_member e gid =
     require_admin e ''admin_group_remove_member''
       (require_csrf e ''admin_group_remove_member'' (admin_remove_member_body e gid))"

subsection \<open>Test e-mail\<close>

text \<open>\<open>disabled\<close> is the reason why the mail module is off, None when it is on.\<close>

definition test_email_body :: "'h env \<Rightarrow> string option \<Rightarrow> 'h handler" where
  "test_email_body e disabled c w =
     with_payload e c w (\<lambda>p.
     attempt e c (str_or_empty (jget ''to'' p)) w (\<lambda>d.
     let recipient = or_else (strip d) (or_empty (my_email c)) in
     if recipient = []
     then refuse 400 (''no recipient: set your email in Settings, or pass {'' @ [CHR 0x22] @ ''to'' @ [CHR 0x22] @ '':''
            @ [CHR 0x22] @ ''...'' @ [CHR 0x22] @ ''}'') w
     else case disabled of
       Some why \<Rightarrow> refuse 503 (''notify disabled: '' @ why) w
     | None \<Rightarrow>
         let job = ''TEST-'' @ take 8 (drawn e w);
             mail = [(''id'', JStr job), (''target_host'', JStr ''test.example.com''), (''requester_email'', JStr recipient),
                     (''signer'', JStr (me c))];
             w1 = (tick w)\<lparr>w_mail := w_mail w @ [(''cert_issued'', mail)]\<rparr> in
         case send_mail e ''cert_issued'' mail of
           Inl err \<Rightarrow> crash e c (PyError err) w1
         | Inr (sent, reason) \<Rightarrow>
             let w2 = log_event c ''admin_test_email'' (if sent then ''ok'' else ''fail'')
                        [(''recipient'', recipient), (''reason'', reason)] w1 in
             (if sent then (ok_reply [(''ok'', JBool True), (''sent_to'', JStr recipient), (''reason'', JStr reason)], w2)
              else (reply 502 (JObj [(''error'', JStr reason), (''sent_to'', JStr recipient)]), w2))))"

definition admin_test_email :: "'h env \<Rightarrow> string option \<Rightarrow> 'h handler" where
  "admin_test_email e disabled =
     require_admin e ''admin_test_email'' (require_csrf e ''admin_test_email'' (test_email_body e disabled))"

subsection \<open>Referential integrity\<close>

text \<open>
  Identifiers and names of groups are unique and well-formed, and no membership and no job refers to a group
  that does not exist.
\<close>

definition group_ids :: "'h world \<Rightarrow> int set" where
  "group_ids w = g_id ` set (w_groups w)"

definition groups_sound :: "'h world \<Rightarrow> bool" where
  "groups_sound w \<longleftrightarrow>
     unique_key g_id (w_groups w) \<and> unique_key g_name (w_groups w)
     \<and> list_all (\<lambda>g. g_id g \<le> w_gid_seq w \<and> GROUP_NAME_RE (g_name g)) (w_groups w)
     \<and> members_ok w \<and> m_gid ` set (w_members w) \<subseteq> group_ids w
     \<and> (\<forall>j\<in>set (w_jobs w). \<forall>g. j_group_id j = Some g \<longrightarrow> g \<in> group_ids w)"

lemma groups_sound_cong:
  "w_groups w' = w_groups w \<Longrightarrow> w_members w' = w_members w \<Longrightarrow> w_jobs w' = w_jobs w \<Longrightarrow> w_gid_seq w' = w_gid_seq w \<Longrightarrow>
     groups_sound w' = groups_sound w"
  by (simp add: groups_sound_def group_ids_def members_ok_def)

interpretation sound: world_invariant groups_sound
  by unfold_locales (simp_all add: groups_sound_def group_ids_def members_ok_def log_event_def log_event_in_tx_def set_setting_def)

lemma sound_members:
  assumes "groups_sound w" "unique_key member_key ms" "m_gid ` set ms \<subseteq> group_ids w"
  shows "groups_sound (w\<lparr>w_members := ms\<rparr>)"
  using assms by (simp add: groups_sound_def members_ok_def group_ids_def)

lemma sound_insert:
  assumes "groups_sound w" "GROUP_NAME_RE name"
  shows "groups_sound (snd (insert_group name about email notify c w))"
proof (cases "name \<in> g_name ` set (w_groups w)")
  case True
  then show ?thesis using assms by (simp add: insert_group_def)
next
  case False
  have "w_gid_seq w + 1 \<notin> g_id ` set (w_groups w)"
    using assms(1) by (force simp: groups_sound_def list_all_iff)
  then show ?thesis using False assms
    by (auto simp: insert_group_def Let_def sound.log groups_sound_def unique_key_def group_ids_def members_ok_def list_all_iff)
qed

text \<open>Every column a request sets keeps the identifier and a well-formed name.\<close>

definition safe_column :: "(grp \<Rightarrow> grp) \<Rightarrow> bool" where
  "safe_column f \<longleftrightarrow> (\<forall>g. g_id (f g) = g_id g \<and> (GROUP_NAME_RE (g_name g) \<longrightarrow> GROUP_NAME_RE (g_name (f g))))"

definition safe_columns :: "columns result \<Rightarrow> bool" where
  "safe_columns r \<longleftrightarrow> (\<forall>fs. r = Inr (Inr fs) \<longrightarrow> list_all safe_column fs)"

lemma columns_safe:
  "safe_columns (name_column v)" "safe_columns (description_column v)" "safe_columns (email_column v)"
  "safe_columns (notify_column v)"
  by (auto simp: name_column_def description_column_def email_column_def notify_column_def safe_columns_def safe_column_def
      split: sum.splits if_splits json.splits option.splits)

lemma field_safe: "(\<And>v. safe_columns (f v)) \<Longrightarrow> safe_columns (field_columns p k f)"
  by (auto simp: safe_columns_def field_columns_def split: sum.splits bool.splits)

lemma gather_safe: "list_all safe_columns rs \<Longrightarrow> safe_columns (gather rs)"
  by (induction rs) (auto simp: safe_columns_def split: sum.splits)

lemma group_columns_safe: "safe_columns (group_columns p)"
  unfolding group_columns_def
  by (rule gather_safe) (simp add: field_safe columns_safe)

lemma apply_columns_safe:
  "list_all safe_column fs \<Longrightarrow> g_id (apply_columns fs g) = g_id g
     \<and> (GROUP_NAME_RE (g_name g) \<longrightarrow> GROUP_NAME_RE (g_name (apply_columns fs g)))"
  unfolding apply_columns_def
  by (induction fs arbitrary: g) (auto simp: safe_column_def)

lemma sound_update:
  assumes "groups_sound w" "list_all safe_column fs"
    "unique_key g_name (modify_row g_id gid (apply_columns fs) (w_groups w))"
  shows "groups_sound (w\<lparr>w_groups := modify_row g_id gid (apply_columns fs) (w_groups w)\<rparr>)"
proof -
  note same = apply_columns_safe [OF assms(2)]
  have "unique_key g_id (modify_row g_id gid (apply_columns fs) (w_groups w)) = unique_key g_id (w_groups w)"
    using same by (simp add: modify_row_def unique_key_update)
  moreover have "g_id ` set (modify_row g_id gid (apply_columns fs) (w_groups w)) = g_id ` set (w_groups w)"
    using map_key_update_where [of g_id "apply_columns fs" "\<lambda>g. g_id g = gid" "w_groups w"] same
    unfolding modify_row_def by (metis list.set_map)
  moreover have "\<forall>g\<in>set (w_groups w). g_id (apply_columns fs g) \<le> w_gid_seq w \<and> GROUP_NAME_RE (g_name (apply_columns fs g))"
    using assms(1) same by (auto simp: groups_sound_def list_all_iff)
  then have "list_all (\<lambda>g. g_id g \<le> w_gid_seq w \<and> GROUP_NAME_RE (g_name g)) (modify_row g_id gid (apply_columns fs) (w_groups w))"
    using assms(1) by (auto simp: groups_sound_def list_all_iff modify_row_def update_where_def)
  ultimately show ?thesis using assms(1,3)
    by (simp add: groups_sound_def group_ids_def members_ok_def)
qed

lemma sound_delete:
  assumes "groups_sound w"
  shows "groups_sound (snd (delete_group_body e gid c w))"
proof (cases "row_by g_id gid (w_groups w)")
  case None
  then show ?thesis using assms by (simp add: delete_group_body_def)
next
  case (Some g)
  let ?gs = "remove_row g_id gid (w_groups w)"
  have "unique_key g_id ?gs" "unique_key g_name ?gs"
    "unique_key member_key (delete_where (\<lambda>m. m_gid m = gid) (w_members w))"
    using assms unique_key_delete by (auto simp: groups_sound_def members_ok_def remove_row_def)
  moreover have "g_id ` set ?gs = group_ids w - {gid}"
    by (auto simp: remove_row_def delete_where_def group_ids_def)
  moreover have "list_all (\<lambda>g. g_id g \<le> w_gid_seq w \<and> GROUP_NAME_RE (g_name g)) ?gs"
    using assms by (auto simp: groups_sound_def list_all_iff remove_row_def delete_where_def)
  moreover have "m_gid ` set (delete_where (\<lambda>m. m_gid m = gid) (w_members w)) \<subseteq> group_ids w - {gid}"
    using assms by (auto simp: groups_sound_def delete_where_def)
  moreover have "\<forall>j\<in>set (update_where (\<lambda>j. j_group_id j = Some gid) (\<lambda>j. j\<lparr>j_group_id := None\<rparr>) (w_jobs w)).
      \<forall>g. j_group_id j = Some g \<longrightarrow> g \<in> group_ids w - {gid}"
    using assms by (auto simp: groups_sound_def update_where_def)
  ultimately show ?thesis
    unfolding delete_group_body_def Some by (simp add: sound.log) (simp add: groups_sound_def members_ok_def group_ids_def)
qed

lemma group_exists: "row_by g_id gid (w_groups w) = Some g \<Longrightarrow> gid \<in> group_ids w"
  by (auto simp: group_ids_def dest: row_by_SomeD)

lemma sound_append_member:
  assumes "groups_sound w" "row_by g_id gid (w_groups w) = Some g" "(dn, gid) \<notin> member_key ` set (w_members w)"
  shows "groups_sound (w\<lparr>w_members := w_members w @ [\<lparr>m_dn = dn, m_gid = gid, m_added_at = t, m_role = r\<rparr>]\<rparr>)"
  using assms group_exists by (intro sound_members) (auto simp: groups_sound_def members_ok_def unique_key_def member_key_def)

lemma sound_drop: "groups_sound w \<Longrightarrow> groups_sound (drop_member dn gid w)"
  unfolding drop_member_def
  by (rule sound_members) (auto simp: groups_sound_def members_ok_def unique_key_delete, auto simp: delete_where_def)

lemma sound_role: "groups_sound w \<Longrightarrow> groups_sound (set_role dn gid r w)"
  unfolding set_role_def
  by (rule sound_members) (auto simp: groups_sound_def members_ok_def unique_key_update member_key_def, auto simp: update_where_def)

lemmas body_rules = sound.payload sound.attempt sound.failures sound.log sound_drop sound_role

lemma keeps_update:
  fixes e :: "'a env"
  shows "sound.keeps (update_group_body e gid)"
proof (rule sound.keepsI)
  fix c and w :: "'a world" assume "groups_sound w"
  then show "groups_sound (snd (update_group_body e gid c w))"
    unfolding update_group_body_def
    using group_columns_safe [of "raw_payload (c_body c)"]
    by (intro sound.attempt) (auto simp: Let_def body_rules safe_columns_def sound_update split: sum.split list.split)
qed

lemma keeps_create: "sound.keeps (create_group_body e)"
  by (rule sound.keepsI, unfold create_group_body_def Let_def)
    (intro sound.payload sound.attempt, simp_all add: body_rules sound_insert split: option.split)

lemma keeps_add: "sound.keeps (admin_add_member_body e gid)"
  by (rule sound.keepsI, unfold admin_add_member_body_def Let_def)
    (auto intro!: sound.payload sound.attempt sound_append_member simp: body_rules insert_row_def member_key_def
       split: option.split)

lemma keeps_remove: "sound.keeps (admin_remove_member_body e gid)"
  by (rule sound.keepsI, unfold admin_remove_member_body_def Let_def)
    (intro sound.payload sound.attempt, simp_all add: body_rules)

lemma keeps_owner_add: "sound.keeps (add_member_body e gid)"
proof -
  have none: "List.find (is_member_row dn gid) ms = None \<longleftrightarrow> (dn, gid) \<notin> member_key ` set ms" for dn ms
    by (simp add: row_by_None_iff [symmetric] row_by_def member_row_key)
  show ?thesis
    by (rule sound.keepsI, unfold add_member_body_def Let_def)
      (auto intro!: sound.payload sound.attempt sound_append_member simp: body_rules none group_by_id_def
         split: option.split)
qed

lemma keeps_owner_remove: "sound.keeps (remove_member_body e gid)"
  by (rule sound.keepsI, unfold remove_member_body_def Let_def)
    (auto intro!: sound.payload sound.attempt simp: body_rules split: option.split)

lemma keeps_owner_role: "sound.keeps (set_role_body e gid)"
  by (rule sound.keepsI, unfold set_role_body_def Let_def)
    (auto intro!: sound.payload sound.attempt simp: body_rules ok_json_def split: option.split)

subsection \<open>Every request keeps it\<close>

datatype group_request =
    CreateGroup | UpdateGroup int | DeleteGroup int | AddTo int | RemoveFrom int | RoleIn int | ByMember group_op

fun serve_group :: "'h env \<Rightarrow> group_request \<Rightarrow> 'h handler" where
  "serve_group e CreateGroup = admin_create_group e"
| "serve_group e (UpdateGroup gid) = admin_update_group e gid"
| "serve_group e (DeleteGroup gid) = admin_delete_group e gid"
| "serve_group e (AddTo gid) = admin_group_add_member e gid"
| "serve_group e (RemoveFrom gid) = admin_group_remove_member e gid"
| "serve_group e (RoleIn gid) = admin_set_member_role e gid"
| "serve_group e (ByMember q) = group_endpoint e q"

lemma keeps_delete: "sound.keeps (delete_group_body e gid)"
  by (simp add: sound.keeps_def sound_delete)

lemma keeps_role: "sound.keeps (admin_set_member_role e gid)"
  unfolding admin_set_member_role_def Let_def
  by (intro sound.guarded sound.keepsI) (auto intro!: sound.payload sound.attempt simp: body_rules split: option.split)

lemmas group_keeps = keeps_create keeps_update keeps_delete keeps_add keeps_remove keeps_owner_add
  keeps_owner_remove keeps_owner_role

lemma keeps_served: "sound.keeps (serve_group e q)"
proof (cases q)
  case (ByMember r)
  then show ?thesis
    by (cases r) (simp_all add: group_owner_add_member_def group_owner_remove_member_def
        group_owner_set_member_role_def sound.guarded group_keeps)
qed (simp_all add: admin_create_group_def admin_update_group_def admin_delete_group_def admin_group_add_member_def
      admin_group_remove_member_def sound.guarded group_keeps keeps_role)

inductive group_requests :: "'h env \<Rightarrow> 'h world \<Rightarrow> 'h world \<Rightarrow> bool" for e where
  idle: "group_requests e w w"
| served: "group_requests e w w1 \<Longrightarrow> group_requests e w (snd (serve_group e q c w1))"

inductive_cases group_requestsE: "group_requests e w w'"


definition root_ctx :: ctx where
  "root_ctx = sample_ctx\<lparr>c_user := Some ((new_user ''CN=ADA'' ''ADA'' 0)\<lparr>u_is_admin := True\<rparr>),
     c_headers := (\<lambda>h. Some ''certheim''),
     c_body := Some (JObj [(''name'', JStr ''web'')])\<rparr>"

lemma group_created:
  "map g_name (w_groups (snd (serve_group sample_env CreateGroup root_ctx (sample_world\<lparr>w_settings := [''auth_mode'' \<mapsto> ''mtls'']\<rparr>)))) = [''web'']"
proof -
  have "strip ''web'' = ''web''" "strip [] = []" "GROUP_NAME_RE ''web''" by code_simp+
  then show ?thesis
    by (simp add: admin_create_group_def require_admin_def guard_user_def root_ctx_def sample_ctx_def auth_mode_def
      get_setting_def sample_world_def ensure_user_def new_user_def is_admin_def require_csrf_def create_group_body_def
      with_payload_def payload_of_def str_or_empty_def stripped_str_def email_refusal_def insert_group_def Let_def
      nonempty_def)
qed


end
