(* ===== verification/Subjects.thy ===== *)
theory Subjects
  imports Guarded CsrSubject Requests "HOL-Library.Countable"
begin

text \<open>
  Administration of the CSR subject (\<^verbatim>\<open>backend/routes_admin.py\<close>): the single subject kept in the
  \<open>subject_*\<close> settings and in the root helper's \<^verbatim>\<open>subject.conf\<close>, and the named profiles kept as a JSON list
  in the setting \<open>subject_profiles\<close>, one of which, the default, is mirrored to the single subject. A
  profile is a JSON object; the JSON codec is the runtime's.
\<close>

subsection \<open>The configuration as JSON\<close>

text \<open>\<open>for x in (value or [])\<close>\<close>

definition py_iter :: "json \<Rightarrow> json list result" where
  "py_iter v =
     (if \<not> truthy v then Inr []
      else case v of
        JArr xs \<Rightarrow> Inr xs
      | JStr s \<Rightarrow> Inr (map (\<lambda>ch. JStr [ch]) s)
      | JObj kvs \<Rightarrow> Inr (map (\<lambda>kv. JStr (fst kv)) kvs)
      | _ \<Rightarrow> Inl TypeError)"

text \<open>A value on its way into \<open>sanitize\<close>: None stays None, anything else becomes text.\<close>

definition value_text :: "'h env \<Rightarrow> json \<Rightarrow> string option" where
  "value_text e v = (if v = JNull then None else Some (str_of e v))"

definition dn_item :: "'h env \<Rightarrow> json \<Rightarrow> (string option \<times> string option) result" where
  "dn_item e v =
     (case (if truthy v then v else JObj []) of
        JObj kvs \<Rightarrow> Inr (value_text e (jget ''field'' (JObj kvs)), value_text e (jget ''value'' (JObj kvs)))
      | _ \<Rightarrow> Inl AttributeError)"

fun all_items :: "('a \<Rightarrow> 'b result) \<Rightarrow> 'a list \<Rightarrow> 'b list result" where
  "all_items f [] = Inr []"
| "all_items f (x # xs) =
     (case f x of Inl err \<Rightarrow> Inl err
      | Inr y \<Rightarrow> (case all_items f xs of Inl err \<Rightarrow> Inl err | Inr ys \<Rightarrow> Inr (y # ys)))"

definition then_do :: "'a result \<Rightarrow> ('a \<Rightarrow> 'b result) \<Rightarrow> 'b result" where
  "then_do r k = (case r of Inl err \<Rightarrow> Inl err | Inr x \<Rightarrow> k x)"

text \<open>\<open>cfg or {}\<close> and its fields, in the order \<open>clean_config\<close> reads them.\<close>

definition raw_config :: "'h env \<Rightarrow> json \<Rightarrow> raw_cfg result" where
  "raw_config e v =
     (case (if truthy v then v else JObj []) of
        JObj kvs \<Rightarrow>
          let field = (\<lambda>k. jget k (JObj kvs)) in
          then_do (py_iter (field ''ous'')) (\<lambda>ou_items.
          then_do (then_do (py_iter (field ''custom_dn'')) (all_items (dn_item e))) (\<lambda>dn_items.
          then_do (py_iter (field ''extra_sans'')) (\<lambda>san_items.
          then_do (py_iter (field ''domain_suffixes'')) (\<lambda>suffix_items.
          Inr \<lparr>rc_country = value_text e (field ''country''), rc_state = value_text e (field ''state''),
               rc_locality = value_text e (field ''locality''), rc_org = value_text e (field ''org''),
               rc_ous = map (value_text e) ou_items, rc_domain_suffix = value_text e (field ''domain_suffix''),
               rc_domain_suffixes = map (value_text e) suffix_items, rc_custom_dn = dn_items,
               rc_extra_sans = map (value_text e) san_items\<rparr>))))
      | _ \<Rightarrow> Inl AttributeError)"

definition dn_json :: "string \<times> string \<Rightarrow> json" where
  "dn_json fv = JObj [(''field'', JStr (fst fv)), (''value'', JStr (snd fv))]"

definition cfg_json :: "subject_cfg \<Rightarrow> json" where
  "cfg_json c =
     JObj [(''country'', JStr (country c)), (''state'', JStr (state c)), (''locality'', JStr (locality c)),
       (''org'', JStr (org c)), (''ous'', strs (ous c)), (''domain_suffix'', JStr (domain_suffix c)),
       (''domain_suffixes'', strs (domain_suffixes c)), (''custom_dn'', JArr (map dn_json (custom_dn c))),
       (''extra_sans'', strs (extra_sans c))]"

subsection \<open>The single subject\<close>

definition jlist :: "'h env \<Rightarrow> 'h world \<Rightarrow> string \<Rightarrow> json list" where
  "jlist e w key =
     (case json_loads e (or_else (or_empty (get_setting w key)) ''[]'') of Some (JArr xs) \<Rightarrow> xs | _ \<Rightarrow> [])"

definition subject_config :: "'h env \<Rightarrow> 'h world \<Rightarrow> json" where
  "subject_config e w =
     (let s = (\<lambda>k. JStr (or_empty (get_setting w k))) in
      JObj [(''country'', s ''subject_country''), (''state'', s ''subject_state''), (''locality'', s ''subject_locality''),
        (''org'', s ''subject_org''), (''ous'', JArr (jlist e w ''subject_ous'')),
        (''domain_suffix'', s ''subject_domain_suffix''), (''domain_suffixes'', JArr (jlist e w ''subject_domain_suffixes'')),
        (''custom_dn'', JArr (jlist e w ''subject_custom_dn'')), (''extra_sans'', JArr (jlist e w ''subject_extra_sans''))])"

definition store_subject :: "'h env \<Rightarrow> subject_cfg \<Rightarrow> 'h world \<Rightarrow> 'h world" where
  "store_subject e c w =
     fold (\<lambda>(k, v). set_setting k v)
       [(''subject_country'', country c), (''subject_state'', state c), (''subject_locality'', locality c),
        (''subject_org'', org c), (''subject_ous'', json_dumps e (strs (ous c))),
        (''subject_domain_suffix'', domain_suffix c),
        (''subject_domain_suffixes'', json_dumps e (strs (domain_suffixes c))),
        (''subject_custom_dn'', json_dumps e (JArr (map dn_json (custom_dn c)))),
        (''subject_extra_sans'', json_dumps e (strs (extra_sans c)))] w"

text \<open>A cleaned configuration as an argument: rendering and preview clean it once more.\<close>

definition as_raw :: "subject_cfg \<Rightarrow> raw_cfg" where
  "as_raw c =
     \<lparr>rc_country = Some (country c), rc_state = Some (state c), rc_locality = Some (locality c), rc_org = Some (org c),
      rc_ous = map Some (ous c), rc_domain_suffix = Some (domain_suffix c),
      rc_domain_suffixes = map Some (domain_suffixes c),
      rc_custom_dn = map (\<lambda>(f, v). (Some f, Some v)) (custom_dn c), rc_extra_sans = map Some (extra_sans c)\<rparr>"

definition put_subject_body :: "'h env \<Rightarrow> 'h handler" where
  "put_subject_body e c w =
     attempt e c (raw_config e (case c_body c of None \<Rightarrow> JNull | Some j \<Rightarrow> j)) w (\<lambda>raw.
       let cfg = clean_config raw in
       case run_helper e [''write-subject''] (render_conf (as_raw cfg)) w of ((rc, _, err), w1) \<Rightarrow>
         if rc \<noteq> 0
         then refuse 502 (''the signing helper rejected the subject: '' @ take 200 (strip err))
                (log_event c ''csr_subject'' ''write_fail'' [(''rc'', int_str rc), (''err'', take 160 (strip err))] w1)
         else
           (ok_reply [(''ok'', JBool True), (''config'', cfg_json cfg), (''configured'', JBool True),
                      (''preview'', JStr (preview_dn (as_raw cfg)))],
            log_event c ''csr_subject'' ''update''
              [(''actor'', take 128 (me c)), (''org'', take 64 (org cfg)), (''ous'', nat_str (length (ous cfg)))]
              (set_setting ''subject_configured'' ''1'' (store_subject e cfg w1))))"

definition put_csr_subject :: "'h env \<Rightarrow> 'h handler" where
  "put_csr_subject e = require_admin e ''put_csr_subject'' (require_csrf e ''put_csr_subject'' (put_subject_body e))"

subsection \<open>Named profiles\<close>

definition load_subject_profiles :: "'h env \<Rightarrow> 'h world \<Rightarrow> json list" where
  "load_subject_profiles e w = jlist e w ''subject_profiles''"

definition profile :: "string \<Rightarrow> string \<Rightarrow> bool \<Rightarrow> json \<Rightarrow> json" where
  "profile slug name default_one conf =
     JObj [(''slug'', JStr slug), (''name'', JStr name), (''is_default'', JBool default_one), (''config'', conf)]"

definition profiles_with_default_fallback :: "'h env \<Rightarrow> 'h world \<Rightarrow> json list" where
  "profiles_with_default_fallback e w =
     (let profs = load_subject_profiles e w in
      if profs = [] \<and> get_setting w ''subject_configured'' = Some ''1''
      then [profile ''default'' ''Default'' True (subject_config e w)] else profs)"

definition is_obj :: "json \<Rightarrow> bool" where
  "is_obj v = (case v of JObj kvs \<Rightarrow> True | _ \<Rightarrow> False)"

text \<open>\<open>p[k] = v\<close>, and the loops over the profiles: \<open>p.get\<close> fails on anything but an object.\<close>

fun jset :: "string \<Rightarrow> json \<Rightarrow> json \<Rightarrow> json" where
  "jset k v (JObj kvs) = JObj (if map_of kvs k = None then kvs @ [(k, v)] else map (\<lambda>(a, b). (a, if a = k then v else b)) kvs)"
| "jset k v j = j"

definition objects :: "json list \<Rightarrow> json list result" where
  "objects ps = (if list_all is_obj ps then Inr ps else Inl AttributeError)"

definition is_default :: "json \<Rightarrow> bool" where
  "is_default p = truthy (jget ''is_default'' p)"

definition has_slug :: "string \<Rightarrow> json \<Rightarrow> bool" where
  "has_slug slug p = (jget ''slug'' p = JStr slug)"

definition head_default :: "json list \<Rightarrow> json list" where
  "head_default ps = (case ps of [] \<Rightarrow> [] | p # qs \<Rightarrow> jset ''is_default'' (JBool True) p # qs)"

definition default_profile :: "json list \<Rightarrow> json option" where
  "default_profile ps =
     (case List.find is_default ps of Some p \<Rightarrow> Some p | None \<Rightarrow> (case ps of [] \<Rightarrow> None | p # qs \<Rightarrow> Some p))"

text \<open>The answer of the helper is not looked at.\<close>

definition apply_default_profile :: "'h env \<Rightarrow> json list \<Rightarrow> 'h world \<Rightarrow> unit result \<times> 'h world" where
  "apply_default_profile e ps w =
     (case default_profile ps of
        None \<Rightarrow> (Inr (), w)
      | Some p \<Rightarrow>
          (case raw_config e (jget ''config'' p) of
             Inl err \<Rightarrow> (Inl err, w)
           | Inr raw \<Rightarrow>
               let cfg = clean_config raw in
               (Inr (), store_subject e cfg (snd (run_helper e [''write-subject''] (render_conf (as_raw cfg)) w)))))"

definition with_profile :: "json list \<Rightarrow> string \<Rightarrow> string \<Rightarrow> bool \<Rightarrow> json \<Rightarrow> json list" where
  "with_profile saved slug name default_one conf =
     (let rest = filter (\<lambda>p. \<not> has_slug slug p) saved;
          rest = (if default_one then map (jset ''is_default'' (JBool False)) rest else rest);
          profs = rest @ [profile slug name default_one conf]
      in if list_ex is_default profs then profs else head_default profs)"

definition put_profile_body :: "'h env \<Rightarrow> 'h handler" where
  "put_profile_body e c w =
     with_payload e c w (\<lambda>p.
     attempt e c (str_or_empty (jget ''name'' p)) w (\<lambda>n.
     let name = strip n; slug = slugify (Some name); default_one = truthy (jget ''is_default'' p) in
     if name = [] then refuse 400 ''profile name is required'' w
     else attempt e c (raw_config e (jget ''config'' p)) w (\<lambda>raw.
       let cfg = clean_config raw in
       case run_helper e [''write-subject'', slug] (render_conf (as_raw cfg)) w of ((rc, _, err), w1) \<Rightarrow>
         if rc \<noteq> 0
         then refuse 502 (''the signing helper rejected the subject: '' @ take 200 (strip err))
                (log_event c ''csr_subject'' ''profile_write_fail''
                  [(''slug'', slug), (''rc'', int_str rc), (''err'', take 160 (strip err))] w1)
         else attempt e c (objects (profiles_with_default_fallback e w1)) w1 (\<lambda>saved.
           let profs = with_profile saved slug name default_one (cfg_json cfg) in
           case apply_default_profile e profs w1 of
             (Inl err, w2) \<Rightarrow> crash e c err w2
           | (Inr _, w2) \<Rightarrow>
               (ok_reply [(''ok'', JBool True), (''slug'', JStr slug), (''profiles'', JArr profs),
                          (''preview'', JStr (preview_dn (as_raw cfg)))],
                log_event c ''csr_subject'' ''profile_save''
                  [(''actor'', take 128 (me c)), (''slug'', slug), (''default'', if default_one then ''True'' else ''False'')]
                  (set_setting ''subject_configured'' ''1''
                    (set_setting ''subject_profiles'' (json_dumps e (JArr profs)) w2)))))))"

definition put_csr_subject_profile :: "'h env \<Rightarrow> 'h handler" where
  "put_csr_subject_profile e =
     require_admin e ''put_csr_subject_profile'' (require_csrf e ''put_csr_subject_profile'' (put_profile_body e))"

definition without_profile :: "json list \<Rightarrow> string \<Rightarrow> json list" where
  "without_profile saved slug =
     (let rest = filter (\<lambda>p. \<not> has_slug slug p) saved in
      if list_ex (\<lambda>p. has_slug slug p \<and> is_default p) saved then head_default rest else rest)"

definition delete_profile_body :: "'h env \<Rightarrow> string \<Rightarrow> 'h handler" where
  "delete_profile_body e given c w =
     (let slug = slugify (Some given); saved = profiles_with_default_fallback e w in
      if length saved \<le> 1 then refuse 400 ''cannot delete the only subject profile'' w
      else attempt e c (objects saved) w (\<lambda>ps.
        let profs = without_profile ps slug; w1 = snd (run_helper e [''delete-subject-profile'', slug] [] w) in
        case apply_default_profile e profs w1 of
          (Inl err, w2) \<Rightarrow> crash e c err w2
        | (Inr _, w2) \<Rightarrow>
            (ok_reply [(''ok'', JBool True), (''profiles'', JArr profs)],
             log_event c ''csr_subject'' ''profile_delete'' [(''actor'', take 128 (me c)), (''slug'', slug)]
               (set_setting ''subject_profiles'' (json_dumps e (JArr profs)) w2))))"

definition delete_csr_subject_profile :: "'h env \<Rightarrow> string \<Rightarrow> 'h handler" where
  "delete_csr_subject_profile e slug =
     require_admin e ''delete_csr_subject_profile''
       (require_csrf e ''delete_csr_subject_profile'' (delete_profile_body e slug))"

subsection \<open>Reading it back\<close>

definition org_profile_json :: "org_profile \<Rightarrow> json" where
  "org_profile_json p =
     JObj [(''key'', JStr (p_key p)), (''label'', JStr (p_label p)), (''country'', JStr (p_country p)),
       (''state'', JStr (p_state p)), (''locality'', JStr (p_locality p)), (''org'', JStr (p_org p)),
       (''ous'', strs (p_ous p)), (''domain_suffix'', JStr (p_domain_suffix p))]"

definition get_csr_subject :: "'h env \<Rightarrow> 'h handler" where
  "get_csr_subject e = require_admin e ''get_csr_subject'' (\<lambda>c w.
     let cfg = subject_config e w; gov = available_in e c w ''profiles.public_sector'' in
     attempt e c (raw_config e cfg) w (\<lambda>raw.
       (ok_reply [(''config'', cfg), (''configured'', JBool (get_setting w ''subject_configured'' = Some ''1'')),
          (''profiles'', JArr (map org_profile_json (org_profiles gov))), (''suggested_ous'', strs (suggested_ous gov)),
          (''preview'', JStr (preview_dn raw)), (''subject_profiles'', JArr (profiles_with_default_fallback e w))], w)))"

subsection \<open>Saving and loading\<close>

text \<open>The JSON codec reads back what it wrote.\<close>

definition faithful_json :: "'h env \<Rightarrow> bool" where
  "faithful_json e \<longleftrightarrow> (\<forall>j. json_dumps e j \<noteq> [] \<and> json_loads e (json_dumps e j) = Some j)"

lemma store_subject_settings:
  "get_setting (store_subject e c w) k =
     (case map_of [(''subject_country'', country c), (''subject_state'', state c), (''subject_locality'', locality c),
        (''subject_org'', org c), (''subject_ous'', json_dumps e (strs (ous c))),
        (''subject_domain_suffix'', domain_suffix c),
        (''subject_domain_suffixes'', json_dumps e (strs (domain_suffixes c))),
        (''subject_custom_dn'', json_dumps e (JArr (map dn_json (custom_dn c)))),
        (''subject_extra_sans'', json_dumps e (strs (extra_sans c)))] k of None \<Rightarrow> get_setting w k | Some v \<Rightarrow> Some v)"
  by (simp add: store_subject_def)

lemma jlist_stored:
  "faithful_json e \<Longrightarrow> get_setting w key = Some (json_dumps e (JArr xs)) \<Longrightarrow> jlist e w key = xs"
  by (simp add: jlist_def faithful_json_def or_else_def)

lemma jlist_strs: "faithful_json e \<Longrightarrow> get_setting w key = Some (json_dumps e (strs ss)) \<Longrightarrow> JArr (jlist e w key) = strs ss"
  by (simp add: strs_def jlist_stored)

lemma subject_config_stored:
  assumes "faithful_json e"
  shows "subject_config e (store_subject e c w) = cfg_json c"
  using assms
  by (simp add: subject_config_def cfg_json_def store_subject_settings jlist_strs jlist_stored Let_def)

lemma subject_config_cong:
  "(\<And>k. k \<notin> {''subject_profiles'', ''subject_configured''} \<Longrightarrow> get_setting w' k = get_setting w k) \<Longrightarrow>
     subject_config e w' = subject_config e w"
  by (simp add: subject_config_def jlist_def)

lemma profiles_cong:
  "get_setting w' ''subject_profiles'' = get_setting w ''subject_profiles'' \<Longrightarrow>
     load_subject_profiles e w' = load_subject_profiles e w"
  by (simp add: load_subject_profiles_def jlist_def)

lemma store_keeps_profiles [simp]: "load_subject_profiles e (store_subject e c w) = load_subject_profiles e w"
  by (rule profiles_cong) (simp add: store_subject_settings)

subsection \<open>Exactly one default\<close>

definition slug_of :: "json \<Rightarrow> json" where
  "slug_of p = jget ''slug'' p"

definition profiles_ok :: "json list \<Rightarrow> bool" where
  "profiles_ok ps \<longleftrightarrow> list_all is_obj ps \<and> distinct (map slug_of ps) \<and> length (filter is_default ps) = 1"

lemma jget_jset: "is_obj p \<Longrightarrow> jget k' (jset k v p) = (if k' = k then v else jget k' p)"
proof (cases p)
  case (JObj kvs)
  have "map_of (map (\<lambda>(a, b). (a, if a = k then v else b)) kvs) k' =
      (if k' = k then map_option (\<lambda>_. v) (map_of kvs k) else map_of kvs k')"
    by (induction kvs) auto
  then show ?thesis by (auto simp: JObj map_add_def split: option.split)
qed (simp_all add: is_obj_def)

lemma jset_obj [simp]: "is_obj (jset k v p) = is_obj p"
  by (cases p) (simp_all add: is_obj_def)

lemma jset_default:
  assumes "is_obj p"
  shows "slug_of (jset ''is_default'' v p) = slug_of p" "is_default (jset ''is_default'' v p) = truthy v"
  using assms by (simp_all add: slug_of_def is_default_def jget_jset)

lemma profile_facts [simp]:
  "is_obj (profile slug name b conf)" "slug_of (profile slug name b conf) = JStr slug"
  "is_default (profile slug name b conf) = b" "has_slug s (profile slug name b conf) \<longleftrightarrow> s = slug"
  by (auto simp: profile_def is_obj_def slug_of_def is_default_def has_slug_def)

lemma has_slug_of: "has_slug s p \<longleftrightarrow> slug_of p = JStr s"
  by (simp add: has_slug_def slug_of_def)

lemma no_default: "\<not> list_ex is_default ps \<longleftrightarrow> filter is_default ps = []"
  by (simp add: list_ex_iff filter_empty_conv)

lemma head_default_ok:
  assumes "ps \<noteq> []" "list_all is_obj ps" "distinct (map slug_of ps)" "filter is_default ps = []"
  shows "profiles_ok (head_default ps)"
  using assms by (cases ps) (auto simp: profiles_ok_def head_default_def jset_default split: if_splits)

lemma one_default_filter: "length (filter is_default (filter P ps)) \<le> length (filter is_default ps)"
  by (induction ps) simp_all

lemma with_profile_ok:
  assumes saved: "saved = [] \<or> profiles_ok saved"
  shows "profiles_ok (with_profile saved slug name b conf)"
proof -
  define rest where "rest = filter (\<lambda>p. \<not> has_slug slug p) saved"
  have obj: "list_all is_obj rest" and dist: "distinct (map slug_of rest)"
    and few: "length (filter is_default rest) \<le> 1" and other: "JStr slug \<notin> slug_of ` set rest"
    using saved one_default_filter [of "\<lambda>p. \<not> has_slug slug p" saved]
    by (auto simp: rest_def profiles_ok_def list_all_iff distinct_map_filter has_slug_of)
  show ?thesis
  proof (cases b)
    case True
    let ?rest = "map (jset ''is_default'' (JBool False)) rest"
    have same: "map slug_of ?rest = map slug_of rest" "filter is_default ?rest = []" "list_all is_obj ?rest"
      using obj by (auto simp: list_all_iff jset_default filter_empty_conv)
    then have "profiles_ok (?rest @ [profile slug name b conf])"
      unfolding profiles_ok_def map_append filter_append same using dist other True by simp
    then show ?thesis using True by (simp add: with_profile_def rest_def [symmetric])
  next
    case False
    let ?ps = "rest @ [profile slug name b conf]"
    have ps: "?ps \<noteq> []" "list_all is_obj ?ps" "distinct (map slug_of ?ps)" using obj dist other by simp_all
    show ?thesis
    proof (cases "list_ex is_default ?ps")
      case True
      then have "filter is_default rest \<noteq> []" using False by (auto simp: filter_empty_conv list_ex_iff)
      then have "length (filter is_default rest) = 1" using few by (cases "filter is_default rest") auto
      then have "profiles_ok ?ps" using ps False by (simp add: profiles_ok_def)
      with True show ?thesis using False by (simp add: with_profile_def rest_def [symmetric])
    next
      case none: False
      then have "profiles_ok (head_default ?ps)" using ps by (intro head_default_ok) (simp_all add: no_default [symmetric])
      with none show ?thesis using False by (simp add: with_profile_def rest_def [symmetric])
    qed
  qed
qed

lemma without_profile_ok:
  assumes saved: "profiles_ok saved" and two: "1 < length saved"
  shows "profiles_ok (without_profile saved slug)"
proof -
  define rest where "rest = filter (\<lambda>p. \<not> has_slug slug p) saved"
  have obj: "list_all is_obj rest" and dist: "distinct (map slug_of rest)"
    using saved by (auto simp: rest_def profiles_ok_def list_all_iff distinct_map_filter)
  obtain d where d: "filter is_default saved = [d]"
    using saved by (cases "filter is_default saved") (auto simp: profiles_ok_def)
  then have ds: "{x \<in> set saved. is_default x} = {d}" by (metis list.set(1) list.set(2) set_filter)
  have dm: "d \<in> set saved" "is_default d" using ds by blast+
  have only: "x = d" if "x \<in> set saved" "is_default x" for x using ds that by blast
  have ne: "rest \<noteq> []"
  proof
    assume "rest = []"
    then have "set (map slug_of saved) \<subseteq> {JStr slug}" by (auto simp: rest_def filter_empty_conv has_slug_of)
    from card_mono [OF _ this] have "card (set (map slug_of saved)) \<le> 1" by simp
    moreover have "card (set (map slug_of saved)) = length saved"
      using saved distinct_card [of "map slug_of saved"] by (simp only: profiles_ok_def length_map)
    ultimately show False using two by simp
  qed
  show ?thesis
  proof (cases "has_slug slug d")
    case True
    then have "filter is_default rest = []" using only by (auto simp: rest_def filter_empty_conv)
    then have "profiles_ok (head_default rest)" using ne obj dist by (intro head_default_ok)
    then show ?thesis using True dm by (auto simp: without_profile_def rest_def [symmetric] list_ex_iff)
  next
    case False
    have "filter is_default rest = filter (\<lambda>p. \<not> has_slug slug p) (filter is_default saved)"
      by (simp add: rest_def conj_commute)
    then have "profiles_ok rest" using obj dist False d by (simp add: profiles_ok_def)
    then show ?thesis using False only by (auto simp: without_profile_def rest_def [symmetric] list_ex_iff)
  qed
qed

subsection \<open>Every request keeps the profiles in order\<close>

definition profiles_sound :: "'h env \<Rightarrow> 'h world \<Rightarrow> bool" where
  "profiles_sound e w \<longleftrightarrow> load_subject_profiles e w = [] \<or> profiles_ok (load_subject_profiles e w)"

lemma profiles_sound_cong:
  "get_setting w' ''subject_profiles'' = get_setting w ''subject_profiles'' \<Longrightarrow> profiles_sound e w' = profiles_sound e w"
  by (simp add: profiles_sound_def profiles_cong [of w' w])

interpretation profs: world_invariant "profiles_sound e" for e
  by unfold_locales (rule profiles_sound_cong, simp add: get_setting_def log_event_def log_event_in_tx_def set_setting_def)+

lemma run_helper_settings [simp]: "get_setting (snd (run_helper e args input w)) = get_setting w"
  by (rule get_setting_cong) (simp add: run_helper_def split: prod.split)

lemma run_helper_settings' : "run_helper e args input w = (r, w1) \<Longrightarrow> get_setting w1 = get_setting w"
  by (metis run_helper_settings snd_conv)

lemma applied_profiles:
  "apply_default_profile e ps w = (r, w2) \<Longrightarrow> get_setting w2 ''subject_profiles'' = get_setting w ''subject_profiles''"
  by (auto simp: apply_default_profile_def Let_def store_subject_settings split: option.splits sum.splits)

lemma other_settings [simp]:
  "profiles_sound e (set_setting ''subject_configured'' v w) = profiles_sound e w"
  "profiles_sound e (store_subject e c w) = profiles_sound e w"
  by (rule profiles_sound_cong, simp add: store_subject_settings)+

lemma fallback_ok:
  "profiles_sound e w \<Longrightarrow> profiles_with_default_fallback e w = [] \<or> profiles_ok (profiles_with_default_fallback e w)"
  by (auto simp: profiles_with_default_fallback_def profiles_sound_def profiles_ok_def Let_def)

lemma stored_sound:
  assumes "faithful_json e" "profiles_ok ps"
  shows "profiles_sound e (set_setting ''subject_profiles'' (json_dumps e (JArr ps)) w)"
  using assms jlist_stored [of e _ "''subject_profiles''" ps]
  by (simp add: profiles_sound_def load_subject_profiles_def)

lemma put_profile_sound:
  fixes e :: "'h env"
  assumes "faithful_json e"
  shows "profs.keeps e (put_profile_body e)"
proof (rule profs.keepsI)
  fix c and w :: "'h world"
  assume w: "profiles_sound e w"
  have same: "profiles_sound e w1" if "run_helper e args input w = (r, w1)" for args input r w1
    using w run_helper_settings' [OF that] profiles_sound_cong [of w1 w] by simp
  have applied: "profiles_sound e w2" if "profiles_sound e w1" "apply_default_profile e ps w1 = (r, w2)" for ps r w1 w2
    using that profiles_sound_cong applied_profiles by metis
  have stored: "profiles_sound e
      (set_setting ''subject_profiles'' (json_dumps e (JArr (with_profile saved slug name b conf))) w2)"
    if "objects (profiles_with_default_fallback e w1) = Inr saved" "profiles_sound e w1" for saved slug name b conf w1 w2
  proof -
    have "saved = profiles_with_default_fallback e w1" using that(1) by (simp add: objects_def split: if_splits)
    then have "profiles_ok (with_profile saved slug name b conf)"
      using fallback_ok [OF that(2)] by (intro with_profile_ok) simp
    from stored_sound [OF assms this, of w2] show ?thesis by simp
  qed
  show "profiles_sound e (snd (put_profile_body e c w))"
    unfolding put_profile_body_def Let_def
    by (auto intro!: profs.payload profs.attempt w simp: profs.failures profs.log split: prod.split sum.split)
      (erule same | (rule applied, erule same, assumption) | (rule stored, assumption, erule same))+
qed

lemma put_subject_sound:
  fixes e :: "'h env"
  shows "profs.keeps e (put_subject_body e)"
proof (rule profs.keepsI)
  fix c and w :: "'h world"
  assume w: "profiles_sound e w"
  have "profiles_sound e w1" if "run_helper e args input w = (r, w1)" for args input r w1
    using w run_helper_settings' [OF that] profiles_sound_cong [of w1 w] by simp
  then show "profiles_sound e (snd (put_subject_body e c w))"
    unfolding put_subject_body_def Let_def
    by (auto intro!: profs.attempt w simp: profs.failures profs.log split: prod.split)
qed

lemma delete_profile_sound:
  fixes e :: "'h env"
  assumes "faithful_json e"
  shows "profs.keeps e (delete_profile_body e slug)"
proof (rule profs.keepsI)
  fix c and w :: "'h world"
  assume w: "profiles_sound e w"
  let ?s = "slugify (Some slug)"
  have applied: "profiles_sound e w2"
    if "apply_default_profile e ps (snd (run_helper e args input w)) = (r, w2)" for ps args input r w2
    using w applied_profiles [OF that] profiles_sound_cong [of w2 w] by simp
  have stored: "profiles_sound e (set_setting ''subject_profiles'' (json_dumps e (JArr (without_profile saved ?s))) w2)"
    if "objects (profiles_with_default_fallback e w) = Inr saved" "\<not> length (profiles_with_default_fallback e w) \<le> Suc 0"
    for saved w2
  proof -
    have "saved = profiles_with_default_fallback e w" using that(1) by (simp add: objects_def split: if_splits)
    then have "profiles_ok (without_profile saved ?s)"
      using fallback_ok [OF w] that(2) by (intro without_profile_ok) auto
    then show ?thesis by (rule stored_sound [OF assms])
  qed
  show "profiles_sound e (snd (delete_profile_body e slug c w))"
    unfolding delete_profile_body_def Let_def
    by (auto intro!: profs.attempt w stored simp: profs.failures profs.log applied w split: prod.split sum.split)
qed

datatype subject_request = PutSubject | PutProfile | DeleteProfile string | GetSubject

fun serve_subject :: "'h env \<Rightarrow> subject_request \<Rightarrow> 'h handler" where
  "serve_subject e PutSubject = put_csr_subject e"
| "serve_subject e PutProfile = put_csr_subject_profile e"
| "serve_subject e (DeleteProfile slug) = delete_csr_subject_profile e slug"
| "serve_subject e GetSubject = get_csr_subject e"

lemma get_subject_sound: "profs.keeps e (get_csr_subject e)"
  unfolding get_csr_subject_def Let_def
  by (intro profs.guarded profs.keepsI profs.attempt) simp_all

lemma serve_subject_sound: "faithful_json e \<Longrightarrow> profs.keeps e (serve_subject e q)"
  by (cases q) (simp_all add: put_csr_subject_def put_csr_subject_profile_def delete_csr_subject_profile_def
      profs.guarded put_subject_sound put_profile_sound delete_profile_sound get_subject_sound)

text \<open>The state after a list of requests, each with its own context.\<close>

definition subject_history :: "'h env \<Rightarrow> (subject_request \<times> ctx) list \<Rightarrow> 'h world \<Rightarrow> 'h world" where
  "subject_history e qs w = fold (\<lambda>(q, c) w. snd (serve_subject e q c w)) qs w"

text \<open>
  C18: over any history of subject requests, with any payloads and whatever the helper answers, the saved profiles are objects with distinct
  slugs and, as soon as there are any, exactly one of them is the default.
\<close>

theorem one_default_profile:
  assumes "faithful_json e" "profiles_sound e w"
  shows "load_subject_profiles e (subject_history e qs w) = []
    \<or> profiles_ok (load_subject_profiles e (subject_history e qs w))"
proof -
  have "profiles_sound e (subject_history e qs w)"
    using assms(2)
  proof (induction qs arbitrary: w)
    case (Cons qc qs)
    then show ?case using profs.keepsD [OF serve_subject_sound [OF assms(1)]]
      by (cases qc) (simp add: subject_history_def)
  qed (simp add: subject_history_def)
  then show ?thesis by (simp add: profiles_sound_def)
qed

text \<open>A codec that numbers the JSON values.\<close>

instance json :: countable
  by countable_datatype

definition numbering_env :: "unit env" where
  "numbering_env = sample_env\<lparr>json_dumps := (\<lambda>j. replicate (Suc (to_nat j)) CHR ''x''),
     json_loads := (\<lambda>s. Some (from_nat (length s - 1)))\<rparr>"

lemma numbering_faithful: "faithful_json numbering_env"
  by (simp add: faithful_json_def numbering_env_def)

definition profile_ctx :: ctx where
  "profile_ctx = sample_ctx\<lparr>c_user := Some ((new_user ''CN=ADA'' ''ADA'' 0)\<lparr>u_is_admin := True\<rparr>),
     c_headers := (\<lambda>h. Some ''certheim''),
     c_body := Some (JObj [(''name'', JStr ''Web'')])\<rparr>"

definition no_profiles :: "unit world" where
  "no_profiles = set_setting ''subject_profiles'' (json_dumps numbering_env (JArr [])) sample_world"

lemma no_profiles_loaded: "load_subject_profiles numbering_env no_profiles = []"
  unfolding load_subject_profiles_def
  by (rule jlist_stored [OF numbering_faithful]) (simp add: no_profiles_def)

theorem one_default_profile_witness:
  "load_subject_profiles numbering_env (subject_history numbering_env [(PutProfile, profile_ctx), (DeleteProfile ''web'', profile_ctx)]
       no_profiles) = []
   \<or> profiles_ok (load_subject_profiles numbering_env
       (subject_history numbering_env [(PutProfile, profile_ctx), (DeleteProfile ''web'', profile_ctx)] no_profiles))"
  by (rule one_default_profile) (simp_all add: numbering_faithful profiles_sound_def no_profiles_loaded)

subsection \<open>Two ways to set the subject\<close>

lemma find_filter: "List.find P xs = (case filter P xs of [] \<Rightarrow> None | x # ys \<Rightarrow> Some x)"
  by (induction xs) simp_all

lemma default_kept_append: "List.find is_default ps = Some d \<Longrightarrow> List.find is_default (ps @ qs) = Some d"
  by (induction ps) (auto split: if_splits)

lemma default_kept:
  assumes "profiles_ok ps" "default_profile ps = Some d" "\<not> has_slug slug d"
  shows "default_profile (with_profile ps slug name False conf) = Some d" "d \<in> set ps"
proof -
  obtain x where x: "filter is_default ps = [x]"
    using assms(1) by (cases "filter is_default ps") (auto simp: profiles_ok_def)
  then have find: "List.find is_default ps = Some x" by (simp add: find_filter)
  then have d: "x = d" using assms(2) by (simp add: default_profile_def)
  show mem: "d \<in> set ps" using find d by (auto dest: find_Some_mem)
  let ?rest = "filter (\<lambda>p. \<not> has_slug slug p) ps"
  have "filter is_default ?rest = filter (\<lambda>p. \<not> has_slug slug p) (filter is_default ps)"
    by (induction ps) simp_all
  then have one: "filter is_default ?rest = [d]" using x d assms(3) by simp
  then have "list_ex is_default ?rest" by (metis list.distinct(1) no_default)
  moreover have "List.find is_default ?rest = Some d" unfolding find_filter one by simp
  ultimately show "default_profile (with_profile ps slug name False conf) = Some d"
    by (simp add: with_profile_def default_profile_def default_kept_append)
qed

lemma logged_settings [simp]: "get_setting (log_event c a r x w) = get_setting w"
  by (rule get_setting_cong) (simp add: log_event_def)

lemma put_subject_profiles:
  "load_subject_profiles e (snd (put_subject_body e c w)) = load_subject_profiles e w"
proof (rule profiles_cong, cases "raw_config e (case c_body c of None \<Rightarrow> JNull | Some j \<Rightarrow> j)")
  case (Inr raw)
  then show "get_setting (snd (put_subject_body e c w)) ''subject_profiles'' = get_setting w ''subject_profiles''"
    by (auto simp: put_subject_body_def Let_def store_subject_settings refuse_def run_helper_settings' split: prod.split)
qed (simp add: put_subject_body_def crash_def)

text \<open>
  The single subject and the default profile are not one. When profiles exist, an administrator's change of
  the single subject is accepted and answered with 200, and the next time any other, non-default profile is saved, the
  subject goes back to what the default profile says: the change is lost without a word.
\<close>

theorem subject_change_reverted:
  assumes faithful: "faithful_json e"
    and ps: "profiles_ok (load_subject_profiles e w)"
    and d: "default_profile (load_subject_profiles e w) = Some d" "raw_config e (jget ''config'' d) = Inr old"
    and changed: "status_code (fst (put_subject_body e a w)) = 200" "w1 = snd (put_subject_body e a w)"
    and saved: "c_body b = Some (JObj kvs)" "jget ''name'' (JObj kvs) = JStr name" "strip name \<noteq> []"
      "raw_config e (jget ''config'' (JObj kvs)) = Inr raw"
      "\<not> truthy (jget ''is_default'' (JObj kvs))" "\<not> has_slug (slugify (Some (strip name))) d"
      "status_code (fst (put_profile_body e b w1)) = 200"
  shows "subject_config e (snd (put_profile_body e b w1)) = cfg_json (clean_config old)"
proof -
  let ?slug = "slugify (Some (strip name))" and ?cfg = "clean_config raw"
  have name: "str_or_empty (jget ''name'' (JObj kvs)) = Inr name" using saved(2) by (auto simp: str_or_empty_def)
  have payload: "payload_of (c_body b) = Inr (JObj kvs)"
    using saved(1,2) by (auto simp: payload_of_def)
  obtain rc out err w2 where h: "run_helper e [''write-subject'', ?slug] (render_conf (as_raw ?cfg)) w1 = ((rc, out, err), w2)"
    by (metis prod.exhaust)
  have zero: "rc = 0"
    using saved(3,4,7) name by (cases "rc = 0") (simp_all add: put_profile_body_def with_payload_def payload h Let_def refuse_def)
  have load: "load_subject_profiles e w2 = load_subject_profiles e w"
    using put_subject_profiles [of e a w] run_helper_settings' [OF h] profiles_cong [of w2 w1] changed(2) by simp
  then have ne: "profiles_with_default_fallback e w2 = load_subject_profiles e w"
    using ps by (auto simp: profiles_with_default_fallback_def profiles_ok_def Let_def)
  let ?ps = "with_profile (load_subject_profiles e w) ?slug (strip name) False (cfg_json ?cfg)"
  have "objects (load_subject_profiles e w) = Inr (load_subject_profiles e w)"
    using ps by (simp add: objects_def profiles_ok_def)
  moreover have "default_profile ?ps = Some d" by (rule default_kept [OF ps d(1) saved(6)])
  ultimately have "\<exists>w3 w4. snd (put_profile_body e b w1) = log_event b ''csr_subject'' ''profile_save'' w4
      (set_setting ''subject_configured'' ''1''
        (set_setting ''subject_profiles'' (json_dumps e (JArr ?ps)) (store_subject e (clean_config old) w3)))"
    using saved(3,4,5) name h zero ne d(2)
    by (simp add: put_profile_body_def with_payload_def payload Let_def apply_default_profile_def) blast
  then obtain w3 w4 where final: "snd (put_profile_body e b w1) = log_event b ''csr_subject'' ''profile_save'' w4
      (set_setting ''subject_configured'' ''1''
        (set_setting ''subject_profiles'' (json_dumps e (JArr ?ps)) (store_subject e (clean_config old) w3)))"
    by blast
  have "subject_config e (snd (put_profile_body e b w1)) = subject_config e (store_subject e (clean_config old) w3)"
    unfolding final by (rule subject_config_cong) simp
  then show ?thesis by (simp add: subject_config_stored [OF faithful])
qed

definition house :: json where
  "house = profile ''default'' ''Default'' True (JObj [(''org'', JStr ''Old'')])"

definition housed :: "unit world" where
  "housed = set_setting ''subject_profiles'' (json_dumps numbering_env (JArr [house])) sample_world"

definition moved_in :: ctx where
  "moved_in = sample_ctx\<lparr>c_body := Some (JObj [(''org'', JStr ''New'')])\<rparr>"

lemma housed_profiles: "load_subject_profiles numbering_env housed = [house]"
  unfolding load_subject_profiles_def by (rule jlist_stored [OF numbering_faithful]) (simp add: housed_def)

lemma config_read:
  "raw_config e (JObj [(''org'', JStr s)]) = Inr \<lparr>rc_country = None, rc_state = None, rc_locality = None, rc_org = Some s,
     rc_ous = [], rc_domain_suffix = None, rc_domain_suffixes = [], rc_custom_dn = [], rc_extra_sans = []\<rparr>"
  "raw_config e JNull = Inr \<lparr>rc_country = None, rc_state = None, rc_locality = None, rc_org = None,
     rc_ous = [], rc_domain_suffix = None, rc_domain_suffixes = [], rc_custom_dn = [], rc_extra_sans = []\<rparr>"
  by (simp_all add: raw_config_def then_do_def py_iter_def value_text_def Let_def)

lemma helper_quiet [simp]: "run_helper numbering_env args input w = ((0, [], []), w)"
  by (cases w) (simp add: run_helper_def numbering_env_def sample_env_def)

theorem subject_change_reverted_witness:
  "\<exists>old. raw_config numbering_env (jget ''config'' house) = Inr old \<and>
     subject_config numbering_env (snd (put_profile_body numbering_env profile_ctx
       (snd (put_subject_body numbering_env moved_in housed)))) = cfg_json (clean_config old)"
proof -
  obtain old where old: "raw_config numbering_env (jget ''config'' house) = Inr old"
    by (simp add: house_def profile_def config_read)
  have ok: "profiles_ok [house]" by (simp add: house_def profiles_ok_def)
  have slug: "strip ''Web'' = ''Web''" "slugify (Some ''Web'') = ''web''" by code_simp+
  have found: "default_profile [house] = Some house" by (simp add: default_profile_def house_def)
  let ?w1 = "snd (put_subject_body numbering_env moved_in housed)"
  have a: "status_code (fst (put_subject_body numbering_env moved_in housed)) = 200"
    by (simp add: put_subject_body_def moved_in_def config_read Let_def)
  have load: "profiles_with_default_fallback numbering_env ?w1 = [house]"
    using put_subject_profiles [of numbering_env moved_in housed]
    by (simp add: profiles_with_default_fallback_def housed_profiles Let_def)
  have kept: "default_profile (with_profile [house] ''web'' ''Web'' False conf) = Some house" for conf
    by (rule default_kept [OF ok found]) (simp add: house_def)
  have b: "status_code (fst (put_profile_body numbering_env profile_ctx ?w1)) = 200"
    by (simp add: put_profile_body_def with_payload_def payload_of_def profile_ctx_def str_or_empty_def slug config_read
        Let_def load objects_def apply_default_profile_def kept old ok [unfolded profiles_ok_def, simplified])
  from subject_change_reverted [OF numbering_faithful _ _ old a refl, of profile_ctx "[(''name'', JStr ''Web'')]" "''Web''"]
  show ?thesis using ok found b old slug
    by (intro exI [of _ old]) (simp add: housed_profiles profile_ctx_def config_read house_def)
qed

end
