(* ===== verification/LicenseAdmin.thy ===== *)
theory LicenseAdmin
  imports Guarded Requests
begin

text \<open>
  Installing and removing the license (\<^verbatim>\<open>backend/routes_admin.py\<close>): the view the admin page shows and the
  endpoints that change the stored blob. What the license grants is decided in the theories of licensing and
  capabilities.
\<close>

subsection \<open>The view\<close>

text \<open>Python's \<open>sorted\<close> of a set: texts or numbers sort, a mixture of them does not.\<close>

definition number_key :: "json \<Rightarrow> int option" where
  "number_key v = (case v of JInt i \<Rightarrow> Some i | JBool b \<Rightarrow> Some (if b then 1 else 0) | _ \<Rightarrow> None)"

definition is_text :: "json \<Rightarrow> bool" where
  "is_text v = (case v of JStr s \<Rightarrow> True | _ \<Rightarrow> False)"

fun distinct_numbers :: "int list \<Rightarrow> json list \<Rightarrow> json list" where
  "distinct_numbers seen [] = []"
| "distinct_numbers seen (v # vs) =
     (if the (number_key v) \<in> set seen then distinct_numbers seen vs
      else v # distinct_numbers (the (number_key v) # seen) vs)"

definition sorted_set :: "json list \<Rightarrow> json list result" where
  "sorted_set xs =
     (if list_all is_text xs
      then Inr (map JStr (sort (remdups (map (\<lambda>v. case v of JStr s \<Rightarrow> s | _ \<Rightarrow> []) xs))))
      else if list_all (\<lambda>v. number_key v \<noteq> None) xs
      then Inr (sort_key (\<lambda>v. the (number_key v)) (distinct_numbers [] xs))
      else if length (remdups xs) = 1 then Inr (remdups xs) else Inl TypeError)"

definition license_fields :: "license_info \<Rightarrow> (string \<times> json) list" where
  "license_fields i =
     (if li_valid i
      then [(''valid'', JBool True), (''licensed'', JBool True), (''reason'', JStr ''ok''), (''customer'', li_customer i),
            (''edition'', JStr (li_edition i)), (''build_edition'', JStr (li_build_edition i)),
            (''edition_mismatch'', jopt (li_edition_mismatch i)), (''entitlements'', JArr (li_entitlements i)),
            (''issued'', li_issued i), (''expires'', li_expires i), (''expired'', JBool False),
            (''max_domains'', JInt (li_max_domains i)), (''bind_host'', li_bind_host i), (''warnings'', strs (li_warnings i))]
      else [(''valid'', JBool False), (''licensed'', JBool False), (''edition'', JStr (li_edition i)),
            (''build_edition'', JStr (li_build_edition i)), (''edition_mismatch'', JNull), (''reason'', JStr (li_reason i)),
            (''entitlements'', JArr []), (''expired'', JBool False), (''max_domains'', JInt 0)])"

definition license_view :: "license_info \<Rightarrow> (string \<times> json) list result" where
  "license_view i =
     (if \<not> list_all hashable (li_entitlements i) then Inl TypeError
      else case (if li_valid i then sorted_set (map JStr (edition_capabilities (li_edition i)) @ li_entitlements i) else Inr []) of
        Inl err \<Rightarrow> Inl err
      | Inr eff \<Rightarrow>
          Inr (license_fields i @ [(''effective_entitlements'', JArr eff), (''gateable'', strs (sort LICENSED_CAPABILITIES)),
                 (''editions'', strs EDITIONS)]))"

definition current_view :: "'h env \<Rightarrow> ctx \<Rightarrow> 'h world \<Rightarrow> (string \<times> json) list result" where
  "current_view e c w = (case license_in e c w of Inl err \<Rightarrow> Inl err | Inr i \<Rightarrow> license_view i)"

definition get_license :: "'h env \<Rightarrow> 'h handler" where
  "get_license e = require_admin e ''get_license'' (\<lambda>c w.
     attempt e c (current_view e c w) w (\<lambda>view. (ok_reply view, w)))"

subsection \<open>Installing and removing\<close>

definition put_license_body :: "'h env \<Rightarrow> 'h handler" where
  "put_license_body e c w =
     with_payload e c w (\<lambda>p.
     attempt e c (str_or_empty (jget ''license'' p)) w (\<lambda>given.
     let blob = strip given in
     if blob = [] then refuse 400 ''no license provided'' w
     else
       let w1 = set_setting ''license_blob'' blob w in
       attempt e c (license_in e c w1) w1 (\<lambda>i.
       if \<not> li_valid i
       then let w2 = log_event c ''license'' ''install_invalid'' [(''reason'', take 120 (li_reason i))] w1 in
            attempt e c (current_view e c w2) w2 (\<lambda>view.
              (reply 400 (JObj ((''error'', JStr (''license not valid: '' @ li_reason i)) # view)), w2))
       else let w2 = log_event c ''license'' ''installed''
                  [(''customer'', take 64 (str_of e (li_customer i))), (''edition'', take 32 (li_edition i)),
                   (''actor'', take 128 (me c))] w1 in
            attempt e c (current_view e c w2) w2 (\<lambda>view. (ok_reply ((''ok'', JBool True) # view), w2)))))"

definition put_license :: "'h env \<Rightarrow> 'h handler" where
  "put_license e = require_admin e ''put_license'' (require_csrf e ''put_license'' (put_license_body e))"

definition delete_license :: "'h env \<Rightarrow> 'h handler" where
  "delete_license e = require_admin e ''delete_license'' (require_csrf e ''delete_license'' (\<lambda>c w.
     let w1 = log_event c ''license'' ''removed'' [(''actor'', take 128 (me c))] (set_setting ''license_blob'' [] w) in
     attempt e c (current_view e c w1) w1 (\<lambda>view. (ok_reply ((''ok'', JBool True) # view), w1))))"

subsection \<open>A rejected license is installed\<close>

lemma license_in_stored [simp]:
  "license_in e c (log_event c' a r x w) = license_in e c w"
  "license_in e c (set_setting ''license_blob'' blob w) = license_now e (Some blob) (c_now c)"
  by (simp_all add: license_in_def get_setting_cong [of "log_event c' a r x w" w])

lemma licensed_needs_valid:
  assumes "key \<in> set LICENSED_CAPABILITIES" "entitled_in e c w key" "license_in e c w = Inr i" "\<not> li_valid i"
  shows "dev_overrides_allowed e"
proof -
  have "resolve_key key = key" using assms(1) by (rule licensed_keys_fixed)
  then show ?thesis using assms
    by (auto simp: entitled_in_def is_entitled_def license_grants_def Let_def split: if_splits)
qed

lemma put_license_stores:
  assumes "c_body c = Some (JObj kvs)" "jget ''license'' (JObj kvs) = JStr s" "strip s \<noteq> []"
  shows "get_setting (snd (put_license_body e c w)) ''license_blob'' = Some (strip s)"
    "license_in e c (snd (put_license_body e c w)) = license_now e (Some (strip s)) (c_now c)"
proof -
  let ?w1 = "set_setting ''license_blob'' (strip s) w"
  have "payload_of (c_body c) = Inr (JObj kvs)" using assms(1,2) by (auto simp: payload_of_def)
  moreover have "s \<noteq> []" using assms(3) by (auto simp: strip_def rdrop_while_def)
  ultimately have same: "w_settings (snd (put_license_body e c w)) = w_settings ?w1"
    using assms(2,3)
    by (simp add: put_license_body_def with_payload_def str_or_empty_def Let_def
        attempt_split [of "\<lambda>r. w_settings (snd r) = w_settings (set_setting ''license_blob'' (strip s) w)"])
  then show "get_setting (snd (put_license_body e c w)) ''license_blob'' = Some (strip s)"
    using get_setting_cong [OF same] by simp
  then show "license_in e c (snd (put_license_body e c w)) = license_now e (Some (strip s)) (c_now c)"
    by (simp add: license_in_def)
qed

text \<open>
  A license the endpoint rejects is installed all the same. Whatever was installed before, the pasted text is now the
  stored license; if it is not valid the answer is never 200, and from then on no licensed capability is granted
  any more, save by a development override.
\<close>

theorem rejected_license_installed:
  assumes "c_body c = Some (JObj kvs)" "jget ''license'' (JObj kvs) = JStr s" "strip s \<noteq> []"
    "license_now e (Some (strip s)) (c_now c) = Inr i" "\<not> li_valid i"
  shows "status_code (fst (put_license_body e c w)) \<noteq> 200
    \<and> get_setting (snd (put_license_body e c w)) ''license_blob'' = Some (strip s)
    \<and> (key \<in> set LICENSED_CAPABILITIES \<longrightarrow> entitled_in e c (snd (put_license_body e c w)) key \<longrightarrow> dev_overrides_allowed e)"
proof (intro conjI impI)
  have "payload_of (c_body c) = Inr (JObj kvs)" using assms(1,2) by (auto simp: payload_of_def)
  moreover have "s \<noteq> []" using assms(3) by (auto simp: strip_def rdrop_while_def)
  ultimately show "status_code (fst (put_license_body e c w)) \<noteq> 200"
    using assms(2-5)
    by (cases "license_view i") (simp_all add: put_license_body_def with_payload_def str_or_empty_def current_view_def Let_def)
  show "get_setting (snd (put_license_body e c w)) ''license_blob'' = Some (strip s)"
    by (rule put_license_stores [OF assms(1-3)])
next
  assume "key \<in> set LICENSED_CAPABILITIES" "entitled_in e c (snd (put_license_body e c w)) key"
  then show "dev_overrides_allowed e"
    using licensed_needs_valid put_license_stores(2) [OF assms(1-3), of e w] assms(4,5) by metis
qed

definition released_env :: "unit env" where
  "released_env = sample_env\<lparr>stamp := \<lparr>EDITION = ''government'', RELEASE_BUILD = True\<rparr>\<rparr>"

definition bad_paste :: ctx where
  "bad_paste = sample_ctx\<lparr>c_body := Some (JObj [(''license'', JStr ''x'')])\<rparr>"

theorem rejected_license_installed_witness:
  "get_setting (snd (put_license_body released_env bad_paste (set_setting ''license_blob'' ''.'' sample_world))) ''license_blob''
     = Some ''x''"
proof -
  have s: "strip ''x'' = ''x''" "strip [] = []" by code_simp+
  have "has_error_key (payload_fresh released_env ''x'') = Inr True"
    by (simp add: payload_fresh_def verify_license_def split_once_def has_error_key_def)
  then obtain i where "license_now released_env (Some ''x'') (c_now bad_paste) = Inr i" "\<not> li_valid i"
    by (simp add: license_now_def raw_license_def getenv_def released_env_def sample_env_def s info_of_payload_def
        community_def)
  with rejected_license_installed [of bad_paste "[(''license'', JStr ''x'')]" "''x''" released_env i]
  show ?thesis by (simp add: bad_paste_def s)
qed

end
