(* ===== verification/MailConf.thy ===== *)
theory MailConf
  imports Guarded Requests
begin

text \<open>
  The e-mail configuration (\<^verbatim>\<open>backend/notify.py\<close>: loading, reading out and saving; \<^verbatim>\<open>routes_admin.py\<close>: the
  e-mail settings endpoint). The file is what Python's \<open>configparser\<close> makes of it: sections of keys
  and values, with a section of defaults and \<open>%\<close>-interpolation when a value is read. Values are taken to have no
  line breaks, so that a file that was written is read back as it was.
\<close>

subsection \<open>Configuration files\<close>

type_synonym conf = "(string \<times> (string \<times> string) list) list"

definition has_section :: "conf \<Rightarrow> string \<Rightarrow> bool" where
  "has_section cf s = (s \<noteq> ''DEFAULT'' \<and> map_of cf s \<noteq> None)"

definition section_keys :: "conf \<Rightarrow> string \<Rightarrow> string \<Rightarrow> string option" where
  "section_keys cf s k =
     (case map_of (case map_of cf s of None \<Rightarrow> [] | Some kvs \<Rightarrow> kvs) k of
        Some v \<Rightarrow> Some v
      | None \<Rightarrow> map_of (case map_of cf ''DEFAULT'' of None \<Rightarrow> [] | Some kvs \<Rightarrow> kvs) k)"

definition add_section :: "string \<Rightarrow> conf \<Rightarrow> conf" where
  "add_section s cf = (if has_section cf s then cf else cf @ [(s, [])])"

definition put_key :: "string \<Rightarrow> string \<Rightarrow> (string \<times> string) list \<Rightarrow> (string \<times> string) list" where
  "put_key k v kvs = (if map_of kvs k = None then kvs @ [(k, v)] else map (\<lambda>(a, b). (a, if a = k then v else b)) kvs)"

text \<open>
  Interpolation: \<open>%%\<close> is a percent sign, \<open>%(name)s\<close> the value of another key of the section, up to ten levels deep,
  and any other percent sign an error.
\<close>

definition reference :: "string \<Rightarrow> (string \<times> string) option" where
  "reference s =
     (let name = takeWhile (\<lambda>c. c \<noteq> CHR '')'') s; after = dropWhile (\<lambda>c. c \<noteq> CHR '')'') s in
      if name \<noteq> [] \<and> starts_with '')s'' after then Some (name, drop 2 after) else None)"

lemma reference_shorter: "reference s = Some (name, rest) \<Longrightarrow> length rest < length s"
proof -
  let ?h = "takeWhile (\<lambda>c. c \<noteq> CHR '')'') s" and ?t = "dropWhile (\<lambda>c. c \<noteq> CHR '')'') s"
  assume "reference s = Some (name, rest)"
  then have "rest = drop 2 ?t" "?h \<noteq> []"
    by (auto simp: reference_def Let_def split: if_splits)
  then have "length rest \<le> length ?t" "0 < length ?h" by simp_all
  moreover have "length s = length ?h + length ?t" by (metis length_append takeWhile_dropWhile_id)
  ultimately show ?thesis by linarith
qed

function interpolate :: "(string \<Rightarrow> string option) \<Rightarrow> nat \<Rightarrow> string \<Rightarrow> string option" where
  "interpolate keys 0 s = None"
| "interpolate keys (Suc d) [] = Some []"
| "interpolate keys (Suc d) (c # s) =
     (if c \<noteq> CHR ''%'' then map_option ((#) c) (interpolate keys (Suc d) s)
      else case s of
        [] \<Rightarrow> None
      | c2 # rest \<Rightarrow>
          if c2 = CHR ''%'' then map_option ((#) c) (interpolate keys (Suc d) rest)
          else if c2 = CHR ''('' then
            (case reference rest of
               None \<Rightarrow> None
             | Some (name, after) \<Rightarrow>
                 (case keys (lower name) of
                    None \<Rightarrow> None
                  | Some v \<Rightarrow>
                      (case (if CHR ''%'' \<in> set v then interpolate keys d v else Some v) of
                         None \<Rightarrow> None
                       | Some x \<Rightarrow> map_option ((@) x) (interpolate keys (Suc d) after))))
          else None)"
  by pat_completeness auto
termination
  by (relation "measures [\<lambda>(keys, d, s). d, \<lambda>(keys, d, s). length s]") (auto dest: reference_shorter)

text \<open>\<open>get\<close> with and without a fallback; None is an interpolation error.\<close>

datatype conf_error = NoSection string | NoOption string string | BadValue string string

definition expand :: "conf \<Rightarrow> string \<Rightarrow> string \<Rightarrow> string \<Rightarrow> conf_error + string" where
  "expand cf s k v = (case interpolate (section_keys cf s) 10 v of None \<Rightarrow> Inl (BadValue s k) | Some x \<Rightarrow> Inr x)"

definition get_or :: "conf \<Rightarrow> string \<Rightarrow> string \<Rightarrow> string \<Rightarrow> conf_error + string" where
  "get_or cf s k fallback =
     (if map_of cf s = None then Inr fallback
      else case section_keys cf s k of None \<Rightarrow> Inr fallback | Some v \<Rightarrow> expand cf s k v)"

definition get_key :: "conf \<Rightarrow> string \<Rightarrow> string \<Rightarrow> conf_error + string" where
  "get_key cf s k =
     (if map_of cf s = None then Inl (NoSection s)
      else case section_keys cf s k of None \<Rightarrow> Inl (NoOption k s) | Some v \<Rightarrow> expand cf s k v)"

text \<open>\<open>set\<close> refuses a value with a percent sign that could not be read back.\<close>

fun drop_references :: "string \<Rightarrow> nat \<Rightarrow> string" where
  "drop_references s 0 = s"
| "drop_references [] (Suc n) = []"
| "drop_references (c # s) (Suc n) =
     (if c = CHR ''%'' \<and> s \<noteq> [] \<and> hd s = CHR ''(''
      then (case reference (tl s) of Some (name, after) \<Rightarrow> drop_references after n | None \<Rightarrow> c # drop_references s n)
      else c # drop_references s n)"

fun drop_doubled :: "string \<Rightarrow> string" where
  "drop_doubled (a # b # s) = (if a = CHR ''%'' \<and> b = CHR ''%'' then drop_doubled s else a # drop_doubled (b # s))"
| "drop_doubled s = s"

definition settable :: "string \<Rightarrow> bool" where
  "settable v = (CHR ''%'' \<notin> set (drop_references (drop_doubled v) (length v)))"

definition set_key :: "string \<Rightarrow> string \<Rightarrow> string \<Rightarrow> conf \<Rightarrow> py_error + conf" where
  "set_key s k v cf =
     (if \<not> settable v then Inl ValueError
      else Inr (map (\<lambda>(n, kvs). (n, if n = s then put_key k v kvs else kvs)) cf))"

subsection \<open>Methods and the module's state\<close>

definition EMAIL_METHODS :: "(string \<times> string list) list" where
  "EMAIL_METHODS =
    [(''smg'', [''host'', ''port'', ''timeout'']),
     (''smtp'', [''host'', ''port'', ''timeout'', ''security'', ''username'', ''password'']),
     (''mailgun'', [''api_key'', ''domain'', ''region'']),
     (''sendgrid'', [''api_key''])]"

definition METHOD_SECTION :: "(string \<times> string) list" where
  "METHOD_SECTION = [(''smg'', ''smg''), (''smtp'', ''smtp_auth''), (''mailgun'', ''mailgun''), (''sendgrid'', ''sendgrid'')]"

definition SECRET_FIELDS :: "string list" where
  "SECRET_FIELDS = [''password'', ''api_key'']"

definition method_section :: "string \<Rightarrow> string" where
  "method_section m = (case map_of METHOD_SECTION m of None \<Rightarrow> m | Some s \<Rightarrow> s)"

text \<open>The file: missing, or what was read of it with the error that stopped the parser.\<close>

datatype conf_file = Missing | ConfFile (parse_error: "string option") (contents: conf)

record mail_state =
  mail_file :: conf_file
  mail_config :: "conf option"
  mail_enabled :: bool
  mail_reason :: string

definition read_conf_file :: "conf_file \<Rightarrow> conf" where
  "read_conf_file f = (case f of Missing \<Rightarrow> [] | ConfFile err cf \<Rightarrow> cf)"

definition try_conf :: "conf_error + 'a \<Rightarrow> (conf_error \<Rightarrow> 'b) \<Rightarrow> ('a \<Rightarrow> 'b) \<Rightarrow> 'b" where
  "try_conf r bad good = (case r of Inl err \<Rightarrow> bad err | Inr x \<Rightarrow> good x)"

definition disabled :: "string \<Rightarrow> mail_state \<Rightarrow> conf_error option \<times> mail_state" where
  "disabled why m = (None, m\<lparr>mail_enabled := False, mail_reason := why\<rparr>)"

definition method_name :: "string \<Rightarrow> string" where
  "method_name s = lower (strip (or_else s ''smg''))"

text \<open>Whether the method has the connection fields it needs, and what to say if not.\<close>

definition connection :: "conf \<Rightarrow> string \<Rightarrow> conf_error + bool \<times> string" where
  "connection cf method =
     (if method = ''mailgun'' then
        try_conf (get_or cf ''mailgun'' ''api_key'' []) Inl (\<lambda>k.
          if strip k = [] then Inr (False, ''mailgun api_key/domain not set'')
          else try_conf (get_or cf ''mailgun'' ''domain'' []) Inl (\<lambda>d.
            Inr (strip d \<noteq> [], ''mailgun api_key/domain not set'')))
      else if method = ''sendgrid'' then
        try_conf (get_or cf ''sendgrid'' ''api_key'' []) Inl (\<lambda>k. Inr (strip k \<noteq> [], ''sendgrid api_key not set''))
      else if method = ''smtp'' then
        try_conf (get_or cf ''smtp_auth'' ''host'' []) Inl (\<lambda>h. Inr (strip h \<noteq> [], ''smtp host not set''))
      else
        try_conf (get_or cf ''smg'' ''host'' []) Inl (\<lambda>h0.
          try_conf (if h0 \<noteq> [] then Inr h0 else get_or cf ''smtp'' ''host'' []) Inl (\<lambda>h.
            Inr (strip h \<noteq> [] \<and> \<not> starts_with ''REPLACE'' (strip h), ''smg host is empty or placeholder''))))"

text \<open>\<open>say\<close> is the text of a parser error; a value that cannot be interpolated among the connection fields raises.\<close>

definition load_config :: "(conf_error \<Rightarrow> string) \<Rightarrow> mail_state \<Rightarrow> conf_error option \<times> mail_state" where
  "load_config say m =
     (case mail_file m of
        Missing \<Rightarrow> disabled ''/var/opt/certheim/email.conf not found'' m
      | ConfFile (Some err) cf \<Rightarrow> disabled (''config parse error: '' @ err) m
      | ConfFile None cf \<Rightarrow>
          try_conf (get_or cf ''email'' ''method'' ''smg'') (\<lambda>err. disabled (''missing required section: '' @ say err) m) (\<lambda>mt.
          try_conf (get_or cf ''from'' ''address'' []) (\<lambda>err. disabled (''missing required section: '' @ say err) m) (\<lambda>fa.
          let method = method_name mt; from_addr = strip fa in
          if method = ''none'' then disabled ''email delivery disabled'' m
          else try_conf (connection cf method) (\<lambda>err. (Some err, m)) (\<lambda>(ok_conn, why).
            if \<not> ok_conn then disabled why m
            else if from_addr = [] \<or> starts_with ''REPLACE'' from_addr
            then disabled ''from address is empty or placeholder'' m
            else (None, m\<lparr>mail_config := Some cf, mail_enabled := True, mail_reason := []\<rparr>)))))"

subsection \<open>What the administrator sees\<close>

definition method_field :: "conf \<Rightarrow> string \<Rightarrow> string \<Rightarrow> conf_error + string" where
  "method_field cf m key =
     try_conf (get_or cf (method_section m) key []) Inl (\<lambda>v.
       if v = [] \<and> m = ''smg'' \<and> key \<in> set [''host'', ''port'', ''timeout''] then get_or cf ''smtp'' key [] else Inr v)"

definition field_default :: "string \<Rightarrow> string \<Rightarrow> string" where
  "field_default m f =
     (if f = ''port'' \<and> m = ''smtp'' then ''587''
      else or_empty (map_of [(''port'', ''25''), (''timeout'', ''10''), (''security'', ''starttls''), (''region'', ''us'')] f))"

text \<open>A secret is only reported as set or not.\<close>

definition mail_field_json :: "conf \<Rightarrow> string \<Rightarrow> string \<Rightarrow> conf_error + (string \<times> json) list" where
  "mail_field_json cf m f =
     try_conf (method_field cf m f) Inl (\<lambda>v.
       Inr (if f \<in> set SECRET_FIELDS then [(f, JStr []), (f @ ''_set'', JBool (v \<noteq> []))]
            else [(f, JStr (or_else v (field_default m f)))]))"

fun conf_all :: "(conf_error + 'a) list \<Rightarrow> conf_error + 'a list" where
  "conf_all [] = Inr []"
| "conf_all (r # rs) = try_conf r Inl (\<lambda>x. try_conf (conf_all rs) Inl (\<lambda>xs. Inr (x # xs)))"

definition method_json :: "conf \<Rightarrow> string \<times> string list \<Rightarrow> conf_error + string \<times> json" where
  "method_json cf mf =
     (case mf of (m, fs) \<Rightarrow>
        try_conf (conf_all (map (mail_field_json cf m) fs)) Inl (\<lambda>vals. Inr (m, JObj (concat vals))))"

definition method_labels :: "(string \<times> string) list" where
  "method_labels =
    [(''none'', ''None (email disabled)''), (''smg'', ''SMG relay (plain SMTP)''),
     (''smtp'', ''SMTP (authenticated / TLS)''), (''mailgun'', ''Mailgun (HTTP API)''), (''sendgrid'', ''SendGrid (HTTP API)'')]"

definition get_settings :: "mail_state \<Rightarrow> conf_error + (string \<times> json) list" where
  "get_settings m =
     (let cf = read_conf_file (mail_file m) in
      try_conf (get_or cf ''email'' ''method'' ''smg'') Inl (\<lambda>mt.
      let method = (if method_name mt = ''none'' \<or> method_name mt \<in> fst ` set EMAIL_METHODS then method_name mt else ''smg'') in
      try_conf (conf_all (map (method_json cf) EMAIL_METHODS)) Inl (\<lambda>methods.
      try_conf (get_or cf ''from'' ''address'' []) Inl (\<lambda>fa.
      try_conf (get_or cf ''recipients'' ''cc'' []) Inl (\<lambda>cc.
      try_conf (get_or cf ''content'' ''dashboard_url'' ''https://csr.example.com/'') Inl (\<lambda>url.
        Inr [(''method'', JStr method), (''methods'', JObj methods),
             (''available_methods'', JArr (map (\<lambda>(k, l). JObj [(''key'', JStr k), (''label'', JStr l)]) method_labels)),
             (''from_address'', JStr fa), (''cc'', JStr cc), (''dashboard_url'', JStr url),
             (''enabled'', JBool (mail_enabled m)), (''disabled_reason'', JStr (mail_reason m)),
             (''config_path'', JStr ''/var/opt/certheim/email.conf'')]))))))"

subsection \<open>Saving\<close>

record mail_request =
  mq_method :: string
  mq_fields :: "(string \<times> json) list"
  mq_from :: string
  mq_cc :: string
  mq_url :: string

definition field_text :: "'h env \<Rightarrow> json \<Rightarrow> string" where
  "field_text e v = (if v = JNull then [] else strip (str_of e v))"

definition store_field :: "'h env \<Rightarrow> string \<Rightarrow> (string \<times> json) list \<Rightarrow> string \<Rightarrow> conf \<Rightarrow> py_error + conf" where
  "store_field e sec incoming f cf =
     (let v = field_text e (jget f (JObj incoming)) in
      if f \<in> set SECRET_FIELDS
      then (if v \<noteq> [] \<and> v \<noteq> ''********'' then set_key sec f v cf else Inr cf)
      else set_key sec f v cf)"

fun store_all :: "(conf \<Rightarrow> py_error + conf) list \<Rightarrow> conf \<Rightarrow> py_error + conf" where
  "store_all [] cf = Inr cf"
| "store_all (f # fs) cf = (case f cf of Inl err \<Rightarrow> Inl err | Inr cf' \<Rightarrow> store_all fs cf')"

definition common_key :: "string \<Rightarrow> string \<Rightarrow> string \<Rightarrow> conf \<Rightarrow> py_error + conf" where
  "common_key s k v cf = set_key s k (strip v) (add_section s cf)"

definition merged_conf :: "'h env \<Rightarrow> mail_request \<Rightarrow> conf \<Rightarrow> py_error + conf" where
  "merged_conf e q cf =
     (let method = mq_method q; sec = method_section method in
      store_all
        ((\<lambda>cf. set_key ''email'' ''method'' method (add_section ''email'' cf))
         # (if method = ''none'' then []
            else (\<lambda>cf. Inr (add_section sec cf))
                 # map (store_field e sec (mq_fields q)) (case map_of EMAIL_METHODS method of None \<Rightarrow> [] | Some fs \<Rightarrow> fs))
         @ [common_key ''from'' ''address'' (mq_from q), common_key ''recipients'' ''cc'' (mq_cc q),
            common_key ''content'' ''dashboard_url'' (mq_url q)]) cf)"

text \<open>\<open>write_error\<close> is the operating system's refusal to write the file.\<close>

definition save_settings ::
  "'h env \<Rightarrow> (conf_error \<Rightarrow> string) \<Rightarrow> string option \<Rightarrow> mail_request \<Rightarrow> mail_state \<Rightarrow> (py_error + bool \<times> string) \<times> mail_state" where
  "save_settings e say write_error q0 m =
     (let q = q0\<lparr>mq_method := method_name (mq_method q0)\<rparr> in
      if mq_method q \<noteq> ''none'' \<and> mq_method q \<notin> fst ` set EMAIL_METHODS
      then (Inr (False, ''unknown email method: '' @ mq_method q), m)
      else case merged_conf e q (read_conf_file (mail_file m)) of
        Inl err \<Rightarrow> (Inl err, m)
      | Inr cf \<Rightarrow>
          (case write_error of
             Some err \<Rightarrow> (Inr (False, ''could not write /var/opt/certheim/email.conf: '' @ err), m)
           | None \<Rightarrow>
               (case load_config say (m\<lparr>mail_file := ConfFile None cf\<rparr>) of
                  (Some bad, m1) \<Rightarrow> (Inl (PyError (say bad)), m1)
                | (None, m1) \<Rightarrow>
                    (Inr (True, if mail_enabled m1 then ''saved and reloaded''
                                else ''saved, but notifications disabled: '' @ mail_reason m1), m1))))"

subsection \<open>The endpoint\<close>

text \<open>Where the host keeps the mail module's state, and how it answers.\<close>

record 'h mail_env =
  mail_of :: "'h \<Rightarrow> mail_state"
  mail_to :: "mail_state \<Rightarrow> 'h \<Rightarrow> 'h"
  say_conf :: "conf_error \<Rightarrow> string"
  write_refused :: "string option"

definition mail_in :: "'h mail_env \<Rightarrow> 'h world \<Rightarrow> mail_state" where
  "mail_in mx w = mail_of mx (w_host w)"

definition settings_reply ::
  "'h env \<Rightarrow> 'h mail_env \<Rightarrow> ctx \<Rightarrow> (string \<times> json) list \<Rightarrow> 'h handler" where
  "settings_reply e mx c extra c' w =
     (case get_settings (mail_in mx w) of
        Inl bad \<Rightarrow> crash e c (PyError (say_conf mx bad)) w
      | Inr kvs \<Rightarrow> (ok_reply (extra @ kvs), w))"

definition admin_get_email_config :: "'h env \<Rightarrow> 'h mail_env \<Rightarrow> 'h handler" where
  "admin_get_email_config e mx = require_admin e ''admin_get_email_config'' (\<lambda>c w. settings_reply e mx c [] c w)"

definition host_text :: "string \<Rightarrow> bool" where
  "host_text = at_end (\<lambda>s. s \<noteq> [] \<and> list_all (\<lambda>c. is_alnum c \<or> c \<in> set ''._-'') s)"

definition domain_text :: "string \<Rightarrow> bool" where
  "domain_text = at_end (\<lambda>s. s \<noteq> [] \<and> list_all (\<lambda>c. is_alnum c \<or> c \<in> set ''.-'') s)"

definition bad_cc :: "string \<Rightarrow> string option" where
  "bad_cc cc = List.find (\<lambda>a. \<not> EMAIL_RE a) (filter (\<lambda>a. a \<noteq> []) (map strip (split_on (CHR '','') cc)))"

definition bad_number :: "json \<Rightarrow> string \<Rightarrow> int \<Rightarrow> int \<Rightarrow> string \<Rightarrow> string option" where
  "bad_number v k lo hi outside =
     (if v = JNull \<or> v = JStr [] then None
      else case int_of_json v of
        Inl _ \<Rightarrow> Some (k @ '' must be an integer'')
      | Inr i \<Rightarrow> if lo \<le> i \<and> i \<le> hi then None else Some outside)"

text \<open>The checks before saving, in the code's order: a refusal, or nothing.\<close>

definition first_refusal :: "string option list \<Rightarrow> string option" where
  "first_refusal rs = (case List.find (\<lambda>r. r \<noteq> None) rs of None \<Rightarrow> None | Some r \<Rightarrow> r)"

definition common_refusal :: "ctx \<Rightarrow> mail_request \<Rightarrow> string option" where
  "common_refusal c q =
     first_refusal
       [if mq_from q = [] then Some ''from address is required''
        else (case validate_email (JStr (mq_from q)) of
                Inl err \<Rightarrow> Some (''invalid from address: '' @ err) | Inr _ \<Rightarrow> None),
        map_option (\<lambda>a. ''invalid cc address: '' @ a) (bad_cc (mq_cc q)),
        if mq_url q \<noteq> [] \<and> \<not> starts_with ''https://'' (mq_url q) then Some ''dashboard_url must start with https://'' else None,
        bad_number (jget ''port'' (JObj (mq_fields q))) ''port'' 1 65535 ''port out of range'',
        bad_number (jget ''timeout'' (JObj (mq_fields q))) ''timeout'' 1 120 ''timeout out of range (1-120s)'']"

definition method_refusal :: "'h env \<Rightarrow> ctx \<Rightarrow> 'h world \<Rightarrow> mail_request \<Rightarrow> string option result" where
  "method_refusal e c w q =
     (let field = (\<lambda>k. str_or_empty (jget k (JObj (mq_fields q)))) in
      if mq_method q \<in> set [''mailgun'', ''sendgrid''] \<and> \<not> available_in e c w ''notify.email.api''
      then Inr (Some (''HTTP email providers (Mailgun/SendGrid) are not available in this deployment ''
             @ ''(no outbound internet). Use an SMTP/SMG relay instead.''))
      else if mq_method q \<in> set [''smg'', ''smtp'']
      then (case field ''host'' of Inl err \<Rightarrow> Inl err
            | Inr h \<Rightarrow> Inr (if host_text (strip h) then None else Some ''host is required (hostname or IP)''))
      else if mq_method q = ''mailgun''
      then (case field ''domain'' of Inl err \<Rightarrow> Inl err
            | Inr d \<Rightarrow> Inr (if domain_text (strip d) then None else Some ''mailgun sending domain is required''))
      else Inr None)"

definition save_mail ::
  "'h env \<Rightarrow> 'h mail_env \<Rightarrow> mail_request \<Rightarrow> (string \<Rightarrow> 'h world \<Rightarrow> 'h world) \<Rightarrow> 'h handler" where
  "save_mail e mx q on_fail c w =
     (case save_settings e (say_conf mx) (write_refused mx) q (mail_in mx w) of (r, m) \<Rightarrow>
        let w1 = w\<lparr>w_host := mail_to mx m (w_host w)\<rparr> in
        (case r of
           Inl err \<Rightarrow> crash e c err w1
         | Inr (False, reason) \<Rightarrow> refuse 500 reason (on_fail reason w1)
         | Inr (True, reason) \<Rightarrow>
             settings_reply e mx c [(''ok'', JBool True), (''reason'', JStr reason)] c
               (log_event c ''admin_email_config'' ''ok'' [(''method'', mq_method q)] w1)))"

definition method_given :: "json \<Rightarrow> string result" where
  "method_given v = (if \<not> truthy v then Inr ''smg'' else case v of JStr s \<Rightarrow> Inr (lower (strip s)) | _ \<Rightarrow> Inl AttributeError)"

definition put_email_body :: "'h env \<Rightarrow> 'h mail_env \<Rightarrow> 'h handler" where
  "put_email_body e mx c w =
     with_payload e c w (\<lambda>p.
     attempt e c (method_given (jget ''method'' p)) w (\<lambda>method.
     if method \<noteq> ''none'' \<and> method \<notin> fst ` set EMAIL_METHODS then refuse 400 ''unknown email method'' w
     else case (if truthy (jget ''fields'' p) then jget ''fields'' p else JObj []) of
       JObj given \<Rightarrow>
         attempt e c (str_or_empty (jget ''from_address'' p)) w (\<lambda>fa.
         attempt e c (str_or_empty (jget ''dashboard_url'' p)) w (\<lambda>url.
         attempt e c (str_or_empty (jget ''cc'' p)) w (\<lambda>cc.
         let q = \<lparr>mq_method = method, mq_fields = given, mq_from = strip fa, mq_cc = strip cc, mq_url = strip url\<rparr> in
         if method = ''none'' then save_mail e mx (q\<lparr>mq_fields := []\<rparr>) (\<lambda>reason w. w) c w
         else case common_refusal c q of
           Some msg \<Rightarrow> refuse 400 msg w
         | None \<Rightarrow>
             attempt e c (method_refusal e c w q) w (\<lambda>no.
               case no of
                 Some msg \<Rightarrow> refuse 400 msg w
               | None \<Rightarrow> save_mail e mx q
                   (\<lambda>reason. log_event c ''admin_email_config'' ''error'' [(''reason'', take 128 reason)]) c w))))
     | _ \<Rightarrow> refuse 400 ''fields must be an object'' w))"

definition admin_put_email_config :: "'h env \<Rightarrow> 'h mail_env \<Rightarrow> 'h handler" where
  "admin_put_email_config e mx =
     require_admin e ''admin_put_email_config'' (require_csrf e ''admin_put_email_config'' (put_email_body e mx))"

subsection \<open>Secrets stay in the file\<close>

text \<open>The configuration with every stored secret replaced by the same text.\<close>

definition mask :: "string \<Rightarrow> string \<Rightarrow> string" where
  "mask k v = (if k \<in> set SECRET_FIELDS \<and> v \<noteq> [] then ''x'' else v)"

definition masked :: "conf \<Rightarrow> conf" where
  "masked cf = map (\<lambda>(s, kvs). (s, map (\<lambda>(k, v). (k, mask k v)) kvs)) cf"

definition plain :: "conf \<Rightarrow> bool" where
  "plain cf \<longleftrightarrow> list_all (\<lambda>(s, kvs). list_all (\<lambda>(k, v). CHR ''%'' \<notin> set v) kvs) cf"

lemma map_of_masked: "map_of (masked cf) s = map_option (map (\<lambda>(k, v). (k, mask k v))) (map_of cf s)"
  unfolding masked_def by (induction cf) auto

lemma map_of_mask: "map_of (map (\<lambda>(k, v). (k, mask k v)) kvs) k = map_option (mask k) (map_of kvs k)"
  by (induction kvs) auto

lemma section_keys_masked: "section_keys (masked cf) s k = map_option (mask k) (section_keys cf s k)"
  by (simp add: section_keys_def map_of_masked map_of_mask split: option.split)

lemma interpolate_plain: "CHR ''%'' \<notin> set v \<Longrightarrow> interpolate keys (Suc d) v = Some v"
  by (induction v) auto

lemma plain_value:
  assumes "plain cf" "section_keys cf s k = Some v"
  shows "CHR ''%'' \<notin> set v"
proof -
  from assms(2) obtain t kvs where "map_of cf t = Some kvs" "map_of kvs k = Some v"
    by (auto simp: section_keys_def split: option.splits)
  then have "(t, kvs) \<in> set cf" "(k, v) \<in> set kvs" by (auto dest: map_of_SomeD)
  then show ?thesis using assms(1) by (fastforce simp: plain_def list_all_iff)
qed

lemma expand_plain: "CHR ''%'' \<notin> set v \<Longrightarrow> expand cf s k v = Inr v"
  by (simp add: expand_def numeral_eq_Suc interpolate_plain)

lemma mask_plain: "CHR ''%'' \<notin> set v \<Longrightarrow> CHR ''%'' \<notin> set (mask k v)"
  by (simp add: mask_def)

lemma get_or_masked:
  assumes "plain cf" "mask k fb = fb"
  shows "get_or (masked cf) s k fb = (case get_or cf s k fb of Inl err \<Rightarrow> Inl err | Inr v \<Rightarrow> Inr (mask k v))"
  using assms(2) plain_value [OF assms(1), of s k]
  by (auto simp: get_or_def map_of_masked section_keys_masked expand_plain mask_plain split: option.split)

lemma get_or_plain: "plain cf \<Longrightarrow> \<exists>v. get_or cf s k fb = Inr v"
  using plain_value [of cf s k] by (auto simp: get_or_def expand_plain split: option.split)

lemma mask_simps: "mask k [] = []" "k \<notin> set SECRET_FIELDS \<Longrightarrow> mask k v = v" "mask k v = [] \<longleftrightarrow> v = []"
  by (simp_all add: mask_def)

lemma mail_field_masked:
  assumes "plain cf"
  shows "mail_field_json (masked cf) m f = mail_field_json cf m f"
proof -
  obtain v where v: "get_or cf (method_section m) f [] = Inr v" using get_or_plain [OF assms] by blast
  obtain v' where v': "get_or cf ''smtp'' f [] = Inr v'" using get_or_plain [OF assms] by blast
  have g: "get_or (masked cf) (method_section m) f [] = Inr (mask f v)" "get_or (masked cf) ''smtp'' f [] = Inr (mask f v')"
    by (simp_all add: get_or_masked [OF assms] v v' mask_simps)
  show ?thesis
  proof (cases "f \<in> set SECRET_FIELDS")
    case True
    then have "f \<notin> set [''host'', ''port'', ''timeout'']" by (auto simp: SECRET_FIELDS_def)
    with True show ?thesis by (simp add: mail_field_json_def method_field_def try_conf_def g v mask_simps)
  next
    case False
    then show ?thesis by (auto simp: mail_field_json_def method_field_def try_conf_def g v v' mask_simps)
  qed
qed

text \<open>
  What the settings page is sent does not depend on the stored secrets. As long as no value of the file uses
  interpolation, replacing every non-empty password and API key by any fixed text changes nothing in the answer: only
  whether a secret is set can be learnt from it.
\<close>

theorem secrets_not_disclosed:
  assumes "plain cf"
  shows "get_settings (m\<lparr>mail_file := ConfFile err (masked cf)\<rparr>) = get_settings (m\<lparr>mail_file := ConfFile err cf\<rparr>)"
proof -
  have open_key: "get_or (masked cf) s k fb = get_or cf s k fb" if "k \<notin> set SECRET_FIELDS" for s k fb
    using get_or_masked [OF assms, of k fb s] get_or_plain [OF assms, of s k fb] that by (auto simp: mask_simps)
  have "method_json (masked cf) mf = method_json cf mf" for mf
    by (cases mf) (simp add: method_json_def mail_field_masked [OF assms] fun_eq_iff cong: map_cong)
  then have methods: "map (method_json (masked cf)) EMAIL_METHODS = map (method_json cf) EMAIL_METHODS" by simp
  have keys: "''method'' \<notin> set SECRET_FIELDS" "''address'' \<notin> set SECRET_FIELDS" "''cc'' \<notin> set SECRET_FIELDS"
    "''dashboard_url'' \<notin> set SECRET_FIELDS"
    by (simp_all add: SECRET_FIELDS_def)
  show ?thesis
    by (simp add: get_settings_def read_conf_file_def methods open_key keys)
qed

theorem secrets_not_disclosed_witness:
  "get_settings \<lparr>mail_file = ConfFile None (masked [(''smtp_auth'', [(''password'', ''hunter2'')])]), mail_config = None,
      mail_enabled = False, mail_reason = []\<rparr>
   = get_settings \<lparr>mail_file = ConfFile None [(''smtp_auth'', [(''password'', ''hunter2'')])], mail_config = None,
      mail_enabled = False, mail_reason = []\<rparr>"
proof -
  let ?m = "\<lparr>mail_file = Missing, mail_config = None, mail_enabled = False, mail_reason = []\<rparr>"
  have "plain [(''smtp_auth'', [(''password'', ''hunter2'')])]" by (simp add: plain_def)
  from secrets_not_disclosed [OF this, of None ?m] show ?thesis by simp
qed

end
