(* ===== verification/MailSaving.thy ===== *)
theory MailSaving
  imports MailConf
begin

text \<open>
  What saving the e-mail settings does to the stored file (\<^verbatim>\<open>backend/notify.py\<close>, \<^verbatim>\<open>save_settings\<close>): which
  keys it writes, which it keeps, what is read back, and how interpolation gets in the way.
\<close>

subsection \<open>Raw values\<close>

definition raw_key :: "conf \<Rightarrow> string \<Rightarrow> string \<Rightarrow> string option" where
  "raw_key cf s k = (case map_of cf s of None \<Rightarrow> None | Some kvs \<Rightarrow> map_of kvs k)"

lemma section_keys_raw:
  "section_keys cf s k = (case raw_key cf s k of Some v \<Rightarrow> Some v | None \<Rightarrow> raw_key cf ''DEFAULT'' k)"
  by (simp add: section_keys_def raw_key_def split: option.split)

lemma raw_add_section [simp]: "raw_key (add_section s cf) t k = raw_key cf t k"
  by (auto simp: add_section_def raw_key_def map_of_append map_add_def split: option.split)

lemma map_of_put_key: "map_of (put_key k v kvs) j = (if j = k then Some v else map_of kvs j)"
proof -
  have "map_of (map (\<lambda>(a, b). (a, if a = k then v else b)) kvs) j = (if j = k then map_option (\<lambda>_. v) (map_of kvs k) else map_of kvs j)"
    by (induction kvs) auto
  then show ?thesis by (auto simp: put_key_def map_of_append map_add_def split: option.split)
qed

lemma map_of_sections:
  "map_of (map (\<lambda>(n, kvs). (n, if n = s then put_key k v kvs else kvs)) cf) t
   = (if t = s then map_option (put_key k v) (map_of cf s) else map_of cf t)"
  by (induction cf) auto

lemma raw_set_key:
  assumes "set_key s k v cf = Inr cf'"
  shows "raw_key cf' t j = (if t = s \<and> j = k \<and> map_of cf s \<noteq> None then Some v else raw_key cf t j)"
  using assms by (auto simp: set_key_def raw_key_def map_of_sections map_of_put_key split: if_splits option.splits)

lemma section_set_key: "set_key s k v cf = Inr cf' \<Longrightarrow> map_of cf' t = None \<longleftrightarrow> map_of cf t = None"
  by (auto simp: set_key_def map_of_sections split: if_splits)

lemma section_added: "s \<noteq> ''DEFAULT'' \<Longrightarrow> map_of (add_section s cf) s \<noteq> None"
  by (auto simp: add_section_def has_section_def map_of_append map_add_def split: option.split)

lemma section_kept: "map_of cf t \<noteq> None \<Longrightarrow> map_of (add_section s cf) t \<noteq> None"
  by (auto simp: add_section_def map_of_append map_add_def split: option.split)

lemma plain_settable: "CHR ''%'' \<notin> set v \<Longrightarrow> settable v"
proof -
  have d: "CHR ''%'' \<notin> set v \<Longrightarrow> drop_doubled v = v" for v by (induction v rule: drop_doubled.induct) auto
  have r: "CHR ''%'' \<notin> set v \<Longrightarrow> drop_references v n = v" for v n
    by (induction v n rule: drop_references.induct) auto
  show "CHR ''%'' \<notin> set v \<Longrightarrow> settable v" by (simp add: settable_def d r)
qed

lemma set_key_ok: "settable v \<Longrightarrow> \<exists>cf'. set_key s k v cf = Inr cf'"
  by (simp add: set_key_def)

subsection \<open>Runs of steps\<close>

lemma store_all_append:
  "store_all (fs @ gs) cf = (case store_all fs cf of Inl err \<Rightarrow> Inl err | Inr cf' \<Rightarrow> store_all gs cf')"
  by (induction fs arbitrary: cf) (auto split: sum.split)

lemma store_all_inv:
  assumes "store_all fs cf = Inr cf'" "P cf" "\<And>f c c'. \<lbrakk>f \<in> set fs; f c = Inr c'; P c\<rbrakk> \<Longrightarrow> P c'"
  shows "P cf'"
  using assms
proof (induction fs arbitrary: cf)
  case (Cons f fs)
  then obtain c where c: "f cf = Inr c" "store_all fs c = Inr cf'" by (auto split: sum.splits)
  have "P c" using Cons.prems(3) [of f cf c] Cons.prems(2) c(1) by simp
  then show ?case using Cons.IH [OF c(2)] Cons.prems(3) by (meson list.set_intros(2))
qed simp

lemma store_all_total:
  assumes "\<And>f c. f \<in> set fs \<Longrightarrow> \<exists>c'. f c = Inr c'"
  shows "\<exists>cf'. store_all fs cf = Inr cf'"
  using assms
proof (induction fs arbitrary: cf)
  case (Cons f fs)
  obtain c where "f cf = Inr c" using Cons.prems [of f cf] by auto
  then show ?case using Cons by simp
qed simp

text \<open>The writes a request asks for: section, key and value, in the order they are made.\<close>

definition wanted :: "'h env \<Rightarrow> mail_request \<Rightarrow> string \<Rightarrow> string" where
  "wanted e q f = field_text e (jget f (JObj (mq_fields q)))"

definition keeps_secret :: "'h env \<Rightarrow> mail_request \<Rightarrow> string \<Rightarrow> bool" where
  "keeps_secret e q f \<longleftrightarrow>
     f \<in> set SECRET_FIELDS \<and> wanted e q f \<in> {[], ''********''}"

definition writes :: "'h env \<Rightarrow> mail_request \<Rightarrow> (string \<times> string \<times> string) list" where
  "writes e q =
     (''email'', ''method'', mq_method q)
     # (if mq_method q = ''none'' then []
        else map (\<lambda>f. (method_section (mq_method q), f, wanted e q f))
               (filter (\<lambda>f. \<not> keeps_secret e q f)
                  (case map_of EMAIL_METHODS (mq_method q) of None \<Rightarrow> [] | Some fs \<Rightarrow> fs)))
     @ [(''from'', ''address'', strip (mq_from q)), (''recipients'', ''cc'', strip (mq_cc q)),
        (''content'', ''dashboard_url'', strip (mq_url q))]"

lemma store_field_alt:
  "store_field e sec (mq_fields q) f cf =
     (if keeps_secret e q f then Inr cf else set_key sec f (wanted e q f) cf)"
  by (auto simp: store_field_def keeps_secret_def wanted_def Let_def)


text \<open>All values of a file at once, and the effect of a run of writes on them.\<close>

definition raw :: "conf \<Rightarrow> string \<times> string \<Rightarrow> string option" where
  "raw cf sk = raw_key cf (fst sk) (snd sk)"

fun overlay :: "(string \<times> string \<times> string) list \<Rightarrow> (string \<times> string \<Rightarrow> string option) \<Rightarrow> string \<times> string \<Rightarrow> string option" where
  "overlay [] r = r"
| "overlay ((s, k, v) # ws) r = overlay ws (r((s, k) \<mapsto> v))"

lemma overlay_append: "overlay (xs @ ys) r = overlay ys (overlay xs r)"
  by (induction xs arbitrary: r) auto

lemma overlay_unwritten: "(s, k) \<notin> set (map (\<lambda>(s, k, v). (s, k)) ws) \<Longrightarrow> overlay ws r (s, k) = r (s, k)"
  by (induction ws arbitrary: r) auto

lemma overlay_value: "overlay ws r sk = Some v \<Longrightarrow> r sk = Some v \<or> (fst sk, snd sk, v) \<in> set ws"
  by (induction ws r rule: overlay.induct) (auto split: if_splits)

lemma raw_step:
  assumes "set_key s k v cf = Inr cf'" "map_of cf s \<noteq> None"
  shows "raw cf' = (raw cf)((s, k) \<mapsto> v)"
  using assms by (auto simp: raw_def raw_set_key)

lemma raw_added: "raw (add_section s cf) = raw cf"
  by (simp add: raw_def fun_eq_iff)

lemma raw_common:
  assumes "common_key s k v cf = Inr cf'" "s \<noteq> ''DEFAULT''"
  shows "raw cf' = (raw cf)((s, k) \<mapsto> strip v)"
  using raw_step [of s k "strip v" "add_section s cf"] section_added [OF assms(2), of cf] assms(1)
  by (simp add: common_key_def raw_added)

lemma raw_fields:
  assumes "store_all (map (store_field e sec (mq_fields q)) fs) cf = Inr cf'" "map_of cf sec \<noteq> None"
  shows "raw cf' = overlay (map (\<lambda>f. (sec, f, wanted e q f)) (filter (\<lambda>f. \<not> keeps_secret e q f) fs)) (raw cf)"
  using assms
proof (induction fs arbitrary: cf)
  case (Cons f fs)
  then obtain c where c: "store_field e sec (mq_fields q) f cf = Inr c"
    "store_all (map (store_field e sec (mq_fields q)) fs) c = Inr cf'"
    by (auto split: sum.splits)
  show ?case
  proof (cases "keeps_secret e q f")
    case True
    then show ?thesis using Cons c by (simp add: store_field_alt)
  next
    case False
    with c(1) have set: "set_key sec f (wanted e q f) cf = Inr c" by (simp add: store_field_alt)
    moreover have "map_of c sec \<noteq> None" using section_set_key [OF set, of sec] Cons.prems(2) by simp
    ultimately show ?thesis using Cons.IH [OF c(2)] raw_step [OF set Cons.prems(2)] False by (simp add: fun_upd_def)
  qed
qed simp

lemma method_section_known: "method_section m \<noteq> ''DEFAULT''" if "m \<in> fst ` set EMAIL_METHODS"
  using that by (auto simp: EMAIL_METHODS_def method_section_def METHOD_SECTION_def)

lemma raw_merged:
  assumes "merged_conf e q cf = Inr cf'" "mq_method q = ''none'' \<or> mq_method q \<in> fst ` set EMAIL_METHODS"
  shows "raw cf' = overlay (writes e q) (raw cf)"
proof -
  let ?sec = "method_section (mq_method q)"
  let ?fs = "case map_of EMAIL_METHODS (mq_method q) of None \<Rightarrow> [] | Some fs \<Rightarrow> fs"
  let ?own = "if mq_method q = ''none'' then []
            else (\<lambda>cf. Inr (add_section ?sec cf)) # map (store_field e ?sec (mq_fields q)) ?fs"
  let ?tail = "[common_key ''from'' ''address'' (mq_from q), common_key ''recipients'' ''cc'' (mq_cc q),
            common_key ''content'' ''dashboard_url'' (mq_url q)]"
  from assms(1) obtain c1 c2 where
    c: "set_key ''email'' ''method'' (mq_method q) (add_section ''email'' cf) = Inr c1"
       "store_all ?own c1 = Inr c2" "store_all ?tail c2 = Inr cf'"
    unfolding merged_conf_def Let_def append_Cons store_all.simps store_all_append by (auto split: sum.splits)
  from c(3) obtain c3 c4 where
    t: "common_key ''from'' ''address'' (mq_from q) c2 = Inr c3" "common_key ''recipients'' ''cc'' (mq_cc q) c3 = Inr c4"
       "common_key ''content'' ''dashboard_url'' (mq_url q) c4 = Inr cf'"
    by (auto split: sum.splits)
  have "raw c1 = (raw cf)((''email'', ''method'') \<mapsto> mq_method q)"
    using raw_step [OF c(1)] by (simp add: section_added raw_added)
  moreover have "raw c2 = (if mq_method q = ''none'' then raw c1
      else overlay (map (\<lambda>f. (?sec, f, wanted e q f)) (filter (\<lambda>f. \<not> keeps_secret e q f) ?fs)) (raw c1))"
  proof (cases "mq_method q = ''none''")
    case False
    then have "map_of (add_section ?sec c1) ?sec \<noteq> None"
      using assms(2) by (intro section_added method_section_known) simp
    from raw_fields [OF _ this, of e q ?fs c2] show ?thesis using c(2) False by (simp add: raw_added)
  qed (use c(2) in simp)
  ultimately show ?thesis
    using raw_common [OF t(1)] raw_common [OF t(2)] raw_common [OF t(3)]
    by (simp add: writes_def overlay_append)
qed


text \<open>A step either always succeeds or always raises.\<close>

definition goes :: "(conf \<Rightarrow> py_error + conf) \<Rightarrow> bool \<Rightarrow> bool" where
  "goes f b \<longleftrightarrow> (\<forall>c. if b then \<exists>c'. f c = Inr c' else f c = Inl ValueError)"

lemma goes_set_key: "settable v = b \<Longrightarrow> goes (set_key s k v) b"
  by (auto simp: goes_def set_key_def)

lemma goes_add: "goes (\<lambda>c. Inr (add_section s c)) True"
  by (simp add: goes_def)

lemma goes_common: "settable (strip v) = b \<Longrightarrow> goes (common_key s k v) b"
  by (auto simp: goes_def common_key_def set_key_def)

lemma goes_field:
  "goes (store_field e sec (mq_fields q) f) (keeps_secret e q f \<or> settable (wanted e q f))"
  by (auto simp: goes_def store_field_alt set_key_def)

lemma store_all_goes:
  "list_all2 goes fs bs \<Longrightarrow> if list_all id bs then \<exists>cf'. store_all fs cf = Inr cf' else store_all fs cf = Inl ValueError"
proof (induction fs bs arbitrary: cf rule: list_all2_induct)
  case (Cons f fs b bs)
  then have f: "if b then \<exists>c. f cf = Inr c else f cf = Inl ValueError" by (simp add: goes_def)
  show ?case
  proof (cases b)
    case True
    then obtain c where "f cf = Inr c" using f by auto
    then show ?thesis using Cons.IH [of c] True by simp
  qed (use f in simp)
qed simp

lemma merged_goes:
  assumes "mq_method q = ''none'' \<or> mq_method q \<in> fst ` set EMAIL_METHODS"
  shows "if list_all (\<lambda>(s, k, v). settable v) (writes e q) then \<exists>cf'. merged_conf e q cf = Inr cf'
         else merged_conf e q cf = Inl ValueError"
proof -
  let ?sec = "method_section (mq_method q)"
  let ?fs = "case map_of EMAIL_METHODS (mq_method q) of None \<Rightarrow> [] | Some fs \<Rightarrow> fs"
  let ?own = "if mq_method q = ''none'' then []
            else (\<lambda>cf. Inr (add_section ?sec cf)) # map (store_field e ?sec (mq_fields q)) ?fs"
  let ?bs = "if mq_method q = ''none'' then []
            else True # map (\<lambda>f. keeps_secret e q f \<or> settable (wanted e q f)) ?fs"
  let ?head = "\<lambda>cf. set_key ''email'' ''method'' (mq_method q) (add_section ''email'' cf)"
  let ?tail = "[common_key ''from'' ''address'' (mq_from q), common_key ''recipients'' ''cc'' (mq_cc q),
            common_key ''content'' ''dashboard_url'' (mq_url q)]"
  let ?tb = "[settable (strip (mq_from q)), settable (strip (mq_cc q)), settable (strip (mq_url q))]"
  have own: "list_all2 goes ?own ?bs" by (simp add: goes_add list.rel_map goes_field list_all2_same)
  have "goes ?head (settable (mq_method q))" by (auto simp: goes_def set_key_def)
  then have "list_all2 goes (?head # ?own @ ?tail) (settable (mq_method q) # ?bs @ ?tb)"
    using own by (intro list_all2_Cons [THEN iffD2] conjI list_all2_appendI) (simp_all add: goes_common)
  from store_all_goes [OF this, of cf]
  show ?thesis by (auto simp: merged_conf_def Let_def writes_def list_all_iff split: if_splits)
qed

subsection \<open>What is saved\<close>

definition normal_request :: "mail_request \<Rightarrow> mail_request" where
  "normal_request q = q\<lparr>mq_method := method_name (mq_method q)\<rparr>"

definition known_method :: "mail_request \<Rightarrow> bool" where
  "known_method q \<longleftrightarrow> mq_method (normal_request q) = ''none'' \<or> mq_method (normal_request q) \<in> fst ` set EMAIL_METHODS"

lemma load_config_file: "mail_file (snd (load_config say m)) = mail_file m"
  by (auto simp: load_config_def disabled_def try_conf_def Let_def split: conf_file.splits option.splits sum.splits prod.splits)

lemma save_settings_cases:
  assumes "known_method q"
  shows "save_settings e say None q m =
     (case merged_conf e (normal_request q) (read_conf_file (mail_file m)) of
        Inl err \<Rightarrow> (Inl err, m)
      | Inr cf \<Rightarrow>
          (case load_config say (m\<lparr>mail_file := ConfFile None cf\<rparr>) of
             (Some bad, m1) \<Rightarrow> (Inl (PyError (say bad)), m1)
           | (None, m1) \<Rightarrow>
               (Inr (True, if mail_enabled m1 then ''saved and reloaded''
                           else ''saved, but notifications disabled: '' @ mail_reason m1), m1)))"
  using assms by (auto simp: save_settings_def known_method_def normal_request_def Let_def split: sum.split)

lemma saved_file:
  assumes "save_settings e say we q m = (Inr (True, why), m')"
  shows "\<exists>cf'. mail_file m' = ConfFile None cf' \<and> raw cf' = overlay (writes e (normal_request q)) (raw (read_conf_file (mail_file m)))"
proof -
  have known: "known_method q" and we: "we = None"
    using assms by (auto simp: save_settings_def known_method_def normal_request_def Let_def
        split: if_splits sum.splits option.splits prod.splits)
  then obtain cf' where cf': "merged_conf e (normal_request q) (read_conf_file (mail_file m)) = Inr cf'"
    "m' = snd (load_config say (m\<lparr>mail_file := ConfFile None cf'\<rparr>))"
    using assms by (auto simp: save_settings_cases split: sum.splits prod.splits option.splits)
  show ?thesis
    using raw_merged [OF cf'(1)] known by (simp add: cf'(2) load_config_file known_method_def)
qed


text \<open>
  A percent sign that configparser cannot interpolate makes saving raise. If any value to be written is
  refused by the parser's \<open>set\<close>, the save ends in a ValueError that nothing handles, and nothing has been written.
\<close>

theorem percent_sign_raises:
  assumes "known_method q" "(s, k, v) \<in> set (writes e (normal_request q))" "\<not> settable v"
  shows "save_settings e say write_error q m = (Inl ValueError, m)"
  using merged_goes [of "normal_request q" e "read_conf_file (mail_file m)"] assms
  by (auto simp: save_settings_def known_method_def normal_request_def Let_def list_all_iff split: if_splits)


definition sendgrid_request :: mail_request where
  "sendgrid_request = \<lparr>mq_method = ''sendgrid'', mq_fields = [], mq_from = ''a@b'', mq_cc = [], mq_url = []\<rparr>"

definition two_secrets :: mail_state where
  "two_secrets =
     \<lparr>mail_file = ConfFile None [(''sendgrid'', [(''api_key'', ''k1'')]), (''smtp_auth'', [(''password'', ''p1'')])],
      mail_config = None, mail_enabled = False, mail_reason = []\<rparr>"

lemma two_secrets_run: "fst (save_settings e say None sendgrid_request two_secrets) = Inr (True, ''saved and reloaded'')"
  by code_simp

lemma sendgrid_writes:
  "writes e (normal_request sendgrid_request)
     = [(''email'', ''method'', ''sendgrid''), (''from'', ''address'', ''a@b''), (''recipients'', ''cc'', []), (''content'', ''dashboard_url'', [])]"
  by code_simp


definition percent_request :: mail_request where
  "percent_request =
     \<lparr>mq_method = ''smtp'', mq_fields = [(''host'', JStr ''mx''), (''password'', JStr ''100%'')], mq_from = ''a@b'', mq_cc = [], mq_url = []\<rparr>"

lemma percent_writes: "(''smtp_auth'', ''password'', ''100%'') \<in> set (writes e (normal_request percent_request))"
proof -
  have "method_name ''smtp'' = ''smtp''" "method_section ''smtp'' = ''smtp_auth''" "strip ''100%'' = ''100%''" by code_simp+
  then show ?thesis
    by (simp add: writes_def normal_request_def percent_request_def keeps_secret_def wanted_def field_text_def EMAIL_METHODS_def)
qed

theorem percent_sign_raises_witness:
  "save_settings sample_env (\<lambda>_. []) None percent_request two_secrets = (Inl ValueError, two_secrets)"
proof -
  have "known_method percent_request" "\<not> settable ''100%''" by code_simp+
  then show ?thesis by (intro percent_sign_raises [OF _ percent_writes])
qed

subsection \<open>Reading a secret through another field\<close>

definition readable :: "conf \<Rightarrow> string \<Rightarrow> string \<Rightarrow> bool" where
  "readable cf s k \<longleftrightarrow> (\<forall>fb. \<exists>v. get_or cf s k fb = Inr v)"

lemma readableD: "readable cf s k \<Longrightarrow> \<exists>v. get_or cf s k fb = Inr v"
  by (simp add: readable_def)

lemma readable_plain:
  assumes "\<And>v. raw_key cf s k = Some v \<Longrightarrow> CHR ''%'' \<notin> set v" "\<And>v. raw_key cf ''DEFAULT'' k = Some v \<Longrightarrow> CHR ''%'' \<notin> set v"
  shows "readable cf s k"
  using assms by (auto simp: readable_def get_or_def section_keys_raw expand_plain split: option.split)

lemma conf_all_Inr: "(\<And>r. r \<in> set rs \<Longrightarrow> \<exists>x. r = Inr x) \<Longrightarrow> conf_all rs = Inr (map projr rs)"
proof (induction rs)
  case (Cons r rs)
  obtain x where "r = Inr x" using Cons.prems [of r] by auto
  then show ?case using Cons by (simp add: try_conf_def)
qed simp

lemma field_readable:
  assumes "\<And>s k. readable cf s k"
  shows "\<exists>x. mail_field_json cf m f = Inr x"
proof -
  obtain v where "get_or cf (method_section m) f [] = Inr v" using readableD [OF assms] by blast
  moreover obtain v' where "get_or cf ''smtp'' f [] = Inr v'" using readableD [OF assms] by blast
  ultimately show ?thesis by (simp add: mail_field_json_def method_field_def try_conf_def)
qed

lemma open_field:
  assumes "\<And>s k. readable cf s k" "f \<notin> set SECRET_FIELDS"
  shows "\<exists>v. mail_field_json cf m f = Inr [(f, JStr v)]"
  using field_readable [OF assms(1), of m f] assms(2) by (auto simp: mail_field_json_def try_conf_def split: sum.splits)

lemma methods_readable:
  assumes "\<And>s k. readable cf s k"
  shows "conf_all (map (method_json cf) EMAIL_METHODS)
    = Inr (map (\<lambda>(m, fs). (m, JObj (concat (map (projr \<circ> mail_field_json cf m) fs)))) EMAIL_METHODS)"
proof -
  have one: "method_json cf (m, fs) = Inr (m, JObj (concat (map (projr \<circ> mail_field_json cf m) fs)))" for m fs
    by (subst method_json_def, simp, subst conf_all_Inr) (auto simp: try_conf_def field_readable [OF assms])
  show ?thesis by (subst conf_all_Inr) (auto simp: one)
qed

lemma connection_readable:
  assumes "\<And>s k. readable cf s k"
  shows "\<exists>r. connection cf m = Inr r"
proof -
  have g: "\<exists>v. get_or cf s k [] = Inr v" for s k using readableD [OF assms] .
  then obtain a b c d h i where
    "get_or cf ''mailgun'' ''api_key'' [] = Inr a" "get_or cf ''mailgun'' ''domain'' [] = Inr b"
    "get_or cf ''sendgrid'' ''api_key'' [] = Inr c" "get_or cf ''smtp_auth'' ''host'' [] = Inr d"
    "get_or cf ''smg'' ''host'' [] = Inr h" "get_or cf ''smtp'' ''host'' [] = Inr i"
    by meson
  moreover have "Ex Not" by blast
  ultimately show ?thesis by (simp add: connection_def try_conf_def)
qed

lemma load_readable:
  assumes "\<And>s k. readable cf s k"
  shows "fst (load_config say (m\<lparr>mail_file := ConfFile None cf\<rparr>)) = None"
proof -
  obtain v a where "get_or cf ''email'' ''method'' ''smg'' = Inr v" "get_or cf ''from'' ''address'' [] = Inr a"
    using readableD [OF assms] by meson
  moreover obtain r where "connection cf (method_name v) = Inr r" using connection_readable [OF assms] by blast
  ultimately show ?thesis by (simp add: load_config_def try_conf_def disabled_def Let_def split: prod.split)
qed

definition shown :: "(string \<times> json) list \<Rightarrow> string \<Rightarrow> string \<Rightarrow> json" where
  "shown kvs m f = jget f (jget m (jget ''methods'' (JObj kvs)))"

lemma get_settings_readable:
  assumes "\<And>s k. readable cf s k" "read_conf_file (mail_file m) = cf"
  shows "\<exists>kvs. get_settings m = Inr kvs \<and> jget ''methods'' (JObj kvs)
    = JObj (map (\<lambda>(m, fs). (m, JObj (concat (map (projr \<circ> mail_field_json cf m) fs)))) EMAIL_METHODS)"
proof -
  have g: "\<exists>v. get_or cf s k fb = Inr v" for s k fb using readableD [OF assms(1)] .
  obtain v a c u where "get_or cf ''email'' ''method'' ''smg'' = Inr v" "get_or cf ''from'' ''address'' [] = Inr a"
    "get_or cf ''recipients'' ''cc'' [] = Inr c" "get_or cf ''content'' ''dashboard_url'' ''https://csr.example.com/'' = Inr u"
    using g by meson
  then show ?thesis by (simp add: get_settings_def assms(2) methods_readable [OF assms(1)] try_conf_def Let_def)
qed


text \<open>A request that names the password in the user name and leaves the password blank.\<close>

definition username_probe :: mail_request where
  "username_probe =
     \<lparr>mq_method = ''smtp'', mq_fields = [(''host'', JStr ''mx''), (''username'', JStr ''%(password)s'')],
      mq_from = ''a@b.c'', mq_cc = [], mq_url = []\<rparr>"

lemma probe_writes:
  "writes e (normal_request username_probe)
     = [(''email'', ''method'', ''smtp''), (''smtp_auth'', ''host'', ''mx''), (''smtp_auth'', ''port'', []), (''smtp_auth'', ''timeout'', []),
        (''smtp_auth'', ''security'', []), (''smtp_auth'', ''username'', ''%(password)s''),
        (''from'', ''address'', ''a@b.c''), (''recipients'', ''cc'', []), (''content'', ''dashboard_url'', [])]"
  by code_simp

lemma probe_settable: "list_all (\<lambda>(s, k, v). settable v) (writes e (normal_request username_probe))"
  unfolding probe_writes by code_simp

lemma expand_probe:
  assumes "section_keys cf s ''password'' = Some pw" "CHR ''%'' \<notin> set pw"
  shows "expand cf s k ''%(password)s'' = Inr pw"
proof -
  have "reference ''password)s'' = Some (''password'', [])" "lower ''password'' = ''password''" by code_simp+
  then show ?thesis using assms by (simp add: expand_def numeral_eq_Suc)
qed

lemma plain_raw: "plain cf \<Longrightarrow> raw cf sk = Some v \<Longrightarrow> CHR ''%'' \<notin> set v"
  by (fastforce simp: raw_def raw_key_def plain_def list_all_iff split: option.splits dest: map_of_SomeD)

text \<open>
  C22: a stored SMTP password can be read back through the settings page. Whatever password without a percent sign the
  file holds, saving the user name \<open>%(password)s\<close> with a blank password keeps the stored password, and the settings
  then sent to the browser show it as the user name.
\<close>

theorem secret_disclosed:
  assumes "mail_file m = ConfFile err cf" "plain cf" "raw_key cf ''smtp_auth'' ''password'' = Some pw"
  shows "\<exists>why m' kvs. save_settings e say None username_probe m = (Inr (True, why), m')
    \<and> get_settings m' = Inr kvs \<and> shown kvs ''smtp'' ''username'' = JStr pw"
proof -
  have known: "known_method username_probe" by code_simp
  have old: "read_conf_file (mail_file m) = cf" using assms(1) by (simp add: read_conf_file_def)
  obtain cf' where cf': "merged_conf e (normal_request username_probe) cf = Inr cf'"
    using merged_goes [of "normal_request username_probe" e cf] known probe_settable [of e]
    by (auto simp: known_method_def)
  have raw: "raw cf' = overlay (writes e (normal_request username_probe)) (raw cf)"
    using raw_merged [OF cf'] known by (simp add: known_method_def)
  have user: "raw_key cf' ''smtp_auth'' ''username'' = Some ''%(password)s''"
    and pw: "raw_key cf' ''smtp_auth'' ''password'' = Some pw"
    using fun_cong [OF raw, of "(''smtp_auth'', ''username'')"] fun_cong [OF raw, of "(''smtp_auth'', ''password'')"] assms(3)
    by (simp_all add: probe_writes raw_def)
  have open_value: "CHR ''%'' \<notin> set v" if "raw_key cf' s k = Some v" "(s, k) \<noteq> (''smtp_auth'', ''username'')" for s k v
  proof -
    have "raw cf' (s, k) = Some v" using that by (simp add: raw_def)
    with raw that(2) have "raw cf (s, k) = Some v \<or> v \<in> set [''smtp'', ''mx'', [], ''a@b.c'']"
      using overlay_value [of "writes e (normal_request username_probe)" "raw cf" "(s, k)" v] by (auto simp: probe_writes)
    then show ?thesis using plain_raw [OF assms(2)] by auto
  qed
  have shown_pw: "get_or cf' ''smtp_auth'' ''username'' fb = Inr pw" for fb
  proof -
    obtain kvs where "map_of cf' ''smtp_auth'' = Some kvs" using user by (auto simp: raw_key_def split: option.splits)
    then show ?thesis
      using expand_probe [of cf' "''smtp_auth''" pw "''username''"] open_value [OF pw] by (simp add: get_or_def section_keys_raw user pw)
  qed
  have r: "readable cf' s k" for s k
  proof (cases "(s, k) = (''smtp_auth'', ''username'')")
    case True
    then show ?thesis by (simp add: readable_def shown_pw)
  next
    case False
    then show ?thesis by (intro readable_plain open_value [of s k] open_value [of "''DEFAULT''" k]) auto
  qed
  let ?m = "snd (load_config say (m\<lparr>mail_file := ConfFile None cf'\<rparr>))"
  have saved: "\<exists>why. save_settings e say None username_probe m = (Inr (True, why), ?m)"
    using load_readable [OF r, of say m]
    by (cases "load_config say (m\<lparr>mail_file := ConfFile None cf'\<rparr>)") (simp add: save_settings_cases [OF known] old cf')
  have "read_conf_file (mail_file ?m) = cf'" by (simp add: load_config_file read_conf_file_def)
  from get_settings_readable [OF r this] obtain kvs where kvs: "get_settings ?m = Inr kvs"
    "jget ''methods'' (JObj kvs) = JObj (map (\<lambda>(m, fs). (m, JObj (concat (map (projr \<circ> mail_field_json cf' m) fs)))) EMAIL_METHODS)"
    by blast
  have "mail_field_json cf' ''smtp'' ''username'' = Inr [(''username'', JStr pw)]"
    by (simp add: mail_field_json_def method_field_def try_conf_def method_section_def METHOD_SECTION_def shown_pw SECRET_FIELDS_def
        or_else_def field_default_def)
  then have "shown kvs ''smtp'' ''username'' = JStr pw"
    using open_field [OF r, of "''host''" "''smtp''"] open_field [OF r, of "''port''" "''smtp''"]
      open_field [OF r, of "''timeout''" "''smtp''"] open_field [OF r, of "''security''" "''smtp''"]
    unfolding shown_def kvs(2) by (auto simp: EMAIL_METHODS_def SECRET_FIELDS_def)
  with saved kvs(1) show ?thesis by blast
qed


theorem secret_disclosed_witness:
  "\<exists>why m' kvs. save_settings sample_env (\<lambda>_. []) None username_probe two_secrets = (Inr (True, why), m')
    \<and> get_settings m' = Inr kvs \<and> shown kvs ''smtp'' ''username'' = JStr ''p1''"
proof -
  have "mail_file two_secrets = ConfFile None (read_conf_file (mail_file two_secrets))" "plain (read_conf_file (mail_file two_secrets))"
    "raw_key (read_conf_file (mail_file two_secrets)) ''smtp_auth'' ''password'' = Some ''p1''"
    by (simp_all add: two_secrets_def read_conf_file_def raw_key_def plain_def)
  from secret_disclosed [OF this] show ?thesis .
qed

end
