(* ===== verification/Notify.thy ===== *)
theory Notify
  imports MailConf
begin

text \<open>
  Sending mail (\<^verbatim>\<open>backend/notify.py\<close>): composing a message, choosing its recipients, and what each delivery
  method is asked to do. The network - an SMTP server or a provider's HTTP interface - is the parameter \<open>mr_send\<close>;
  its errors are those the code catches and those it does not. Header values are taken to read back as they were set.
\<close>

subsection \<open>Dates\<close>

definition civil :: "int \<Rightarrow> int \<times> int \<times> int" where
  "civil days =
     (let z = days + 719468; era = z div 146097; doe = z mod 146097;
          yoe = (doe - doe div 1460 + doe div 36524 - doe div 146096) div 365;
          doy = doe - (365 * yoe + yoe div 4 - yoe div 100);
          mp = (5 * doy + 2) div 153;
          d = doy - (153 * mp + 2) div 5 + 1;
          m = (if mp < 10 then mp + 3 else mp - 9)
      in (yoe + era * 400 + (if m \<le> 2 then 1 else 0), m, d))"

definition pad2 :: "int \<Rightarrow> string" where
  "pad2 i = (if i < 10 then CHR ''0'' # int_str i else int_str i)"

definition date_text :: "int \<Rightarrow> string" where
  "date_text t = (case civil (t div 86400) of (y, m, d) \<Rightarrow> int_str y @ ''-'' @ pad2 m @ ''-'' @ pad2 d)"

definition clock_text :: "int \<Rightarrow> string" where
  "clock_text t = pad2 (t mod 86400 div 3600) @ '':'' @ pad2 (t mod 3600 div 60) @ '':'' @ pad2 (t mod 60)"

definition utc_now :: "int \<Rightarrow> string" where
  "utc_now t = date_text t @ '' '' @ clock_text t @ '' UTC''"

definition mail_date :: "int \<Rightarrow> string" where
  "mail_date t =
     (case civil (t div 86400) of (y, m, d) \<Rightarrow>
        [''Sun'', ''Mon'', ''Tue'', ''Wed'', ''Thu'', ''Fri'', ''Sat''] ! nat ((t div 86400 + 4) mod 7) @ '', '' @ pad2 d @ '' ''
        @ [''Jan'', ''Feb'', ''Mar'', ''Apr'', ''May'', ''Jun'', ''Jul'', ''Aug'', ''Sep'', ''Oct'', ''Nov'', ''Dec''] ! nat (m - 1)
        @ '' '' @ int_str y @ '' '' @ clock_text t @ '' +0000'')"

subsection \<open>Messages\<close>

record message =
  m_headers :: "(string \<times> string) list"
  m_text :: string
  m_html :: "string option"

text \<open>The mail library refuses a header value of more than one line.\<close>

definition one_line :: "string \<Rightarrow> bool" where
  "one_line v \<longleftrightarrow> length (splitlines v) \<le> 1"

definition compose :: "(string \<times> string) list \<Rightarrow> string \<Rightarrow> message result" where
  "compose hs inner =
     (if list_all (\<lambda>(_, v). one_line v) hs then Inr \<lparr>m_headers = hs, m_text = inner, m_html = None\<rparr> else Inl ValueError)"

definition header_of :: "string \<Rightarrow> message \<Rightarrow> string" where
  "header_of h msg = or_empty (map_of (m_headers msg) h)"

definition address_list :: "string \<Rightarrow> string list" where
  "address_list s = filter (\<lambda>a. a \<noteq> []) (map strip (split_on (CHR '','') s))"

definition msg_parts :: "message \<Rightarrow> string \<times> string list \<times> string list \<times> string \<times> string \<times> string option" where
  "msg_parts msg =
     (header_of ''From'' msg, address_list (header_of ''To'' msg), address_list (header_of ''Cc'' msg),
      header_of ''Subject'' msg, m_text msg, m_html msg)"

definition attach_html :: "string \<Rightarrow> message \<Rightarrow> message" where
  "attach_html html msg = (if html = [] then msg else msg\<lparr>m_html := Some html\<rparr>)"

subsection \<open>Delivery\<close>

datatype delivery =
    Relay string int int "string list"
  | Submission string int int string "(string \<times> string) option" "string list"
  | Mailgun string "(string \<times> string) list" string
  | Sendgrid json string

text \<open>\<open>Refused\<close> carries the exceptions the code handles, with their type and text.\<close>

datatype outcome = Delivered | Refused string string | Raised py_error

record mailer =
  mr_state :: mail_state
  mr_now :: int
  mr_say :: "conf_error \<Rightarrow> string"
  mr_send :: "message \<Rightarrow> delivery \<Rightarrow> outcome"

definition of_conf :: "mailer \<Rightarrow> conf_error + 'a \<Rightarrow> 'a result" where
  "of_conf mr r = (case r of Inl err \<Rightarrow> Inl (PyError (mr_say mr err)) | Inr x \<Rightarrow> Inr x)"

definition next_with :: "'a result \<Rightarrow> ('a \<Rightarrow> 'b result) \<Rightarrow> 'b result" where
  "next_with r f = (case r of Inl err \<Rightarrow> Inl err | Inr x \<Rightarrow> f x)"

definition method_of :: "conf \<Rightarrow> string" where
  "method_of cf = (case get_or cf ''email'' ''method'' ''smg'' of Inl _ \<Rightarrow> ''smg'' | Inr v \<Rightarrow> method_name v)"

definition field :: "mailer \<Rightarrow> conf \<Rightarrow> string \<Rightarrow> string \<Rightarrow> string \<Rightarrow> string result" where
  "field mr cf m k fallback = of_conf mr (try_conf (method_field cf m k) Inl (\<lambda>v. Inr (or_else v fallback)))"

definition number :: "mailer \<Rightarrow> conf \<Rightarrow> string \<Rightarrow> string \<Rightarrow> string \<Rightarrow> int result" where
  "number mr cf m k fallback = next_with (field mr cf m k fallback) (\<lambda>v. int_of_json (JStr v))"

definition send_smg :: "mailer \<Rightarrow> conf \<Rightarrow> message \<Rightarrow> string list \<Rightarrow> delivery result" where
  "send_smg mr cf msg recipients =
     next_with (field mr cf ''smg'' ''host'' []) (\<lambda>host.
     next_with (number mr cf ''smg'' ''port'' ''25'') (\<lambda>port.
     next_with (number mr cf ''smg'' ''timeout'' ''10'') (\<lambda>timeout.
       Inr (Relay (strip host) port timeout recipients))))"

definition send_smtp :: "mailer \<Rightarrow> conf \<Rightarrow> message \<Rightarrow> string list \<Rightarrow> delivery result" where
  "send_smtp mr cf msg recipients =
     next_with (field mr cf ''smtp'' ''host'' []) (\<lambda>host.
     next_with (number mr cf ''smtp'' ''port'' ''587'') (\<lambda>port.
     next_with (number mr cf ''smtp'' ''timeout'' ''10'') (\<lambda>timeout.
     next_with (field mr cf ''smtp'' ''security'' ''starttls'') (\<lambda>security.
     next_with (field mr cf ''smtp'' ''username'' []) (\<lambda>username.
     next_with (field mr cf ''smtp'' ''password'' []) (\<lambda>password.
       Inr (Submission (strip host) port timeout (lower (strip security))
              (if strip username = [] then None else Some (strip username, password)) recipients)))))))"

definition send_mailgun :: "mailer \<Rightarrow> conf \<Rightarrow> message \<Rightarrow> delivery result" where
  "send_mailgun mr cf msg =
     next_with (field mr cf ''mailgun'' ''api_key'' []) (\<lambda>key.
     next_with (field mr cf ''mailgun'' ''domain'' []) (\<lambda>domain.
     next_with (field mr cf ''mailgun'' ''region'' ''us'') (\<lambda>region.
       case msg_parts msg of (sender, tos, ccs, subject, inner, html) \<Rightarrow>
         Inr (Mailgun
           ((if lower (strip region) = ''eu'' then ''https://api.eu.mailgun.net'' else ''https://api.mailgun.net'')
              @ ''/v3/'' @ strip domain @ ''/messages'')
           ([(''from'', sender), (''subject'', subject), (''text'', inner)]
             @ (case html of None \<Rightarrow> [] | Some h \<Rightarrow> if h = [] then [] else [(''html'', h)])
             @ map (Pair ''to'') tos @ map (Pair ''cc'') ccs)
           key))))"

definition email_objects :: "string list \<Rightarrow> json" where
  "email_objects as = JArr (map (\<lambda>a. JObj [(''email'', JStr a)]) as)"

definition send_sendgrid :: "mailer \<Rightarrow> conf \<Rightarrow> message \<Rightarrow> delivery result" where
  "send_sendgrid mr cf msg =
     next_with (field mr cf ''sendgrid'' ''api_key'' []) (\<lambda>key.
       case msg_parts msg of (sender, tos, ccs, subject, inner, html) \<Rightarrow>
         Inr (Sendgrid
           (JObj [(''personalizations'', JArr [JObj ([(''to'', email_objects tos)]
                     @ (if ccs = [] then [] else [(''cc'', email_objects ccs)]))]),
                  (''from'', JObj [(''email'', JStr sender)]), (''subject'', JStr subject),
                  (''content'', JArr (JObj [(''type'', JStr ''text/plain''), (''value'', JStr inner)]
                     # (case html of None \<Rightarrow> []
                        | Some h \<Rightarrow> if h = [] then [] else [JObj [(''type'', JStr ''text/html''), (''value'', JStr h)]])))])
           key))"

definition send_message :: "mailer \<Rightarrow> conf \<Rightarrow> message \<Rightarrow> string list \<Rightarrow> delivery result" where
  "send_message mr cf msg recipients =
     (if method_of cf = ''mailgun'' then send_mailgun mr cf msg
      else if method_of cf = ''sendgrid'' then send_sendgrid mr cf msg
      else if method_of cf = ''smtp'' then send_smtp mr cf msg recipients
      else send_smg mr cf msg recipients)"

text \<open>The last step of every sender.\<close>

definition dispatch :: "mailer \<Rightarrow> conf \<Rightarrow> message \<Rightarrow> string list \<Rightarrow> (bool \<times> string) result" where
  "dispatch mr cf msg recipients =
     next_with (send_message mr cf msg recipients) (\<lambda>d.
       case mr_send mr msg d of
         Delivered \<Rightarrow> Inr (True, ''sent'')
       | Refused kind why \<Rightarrow> Inr (False, kind @ '': '' @ take 160 why)
       | Raised err \<Rightarrow> Inl err)"

subsection \<open>Recipients\<close>

definition resolve_recipients :: "string option \<Rightarrow> string option \<Rightarrow> string option \<times> string list" where
  "resolve_recipients requester group_mail =
     (let req = strip (or_empty requester); grp = strip (or_empty group_mail) in
      if req \<noteq> [] \<and> grp \<noteq> [] \<and> lower req \<noteq> lower grp then (Some req, [grp])
      else if req \<noteq> [] then (Some req, [])
      else if grp \<noteq> [] then (Some grp, [])
      else (None, []))"

text \<open>The addresses not seen before, each once, without regard to case.\<close>

fun fresh_addresses :: "string list \<Rightarrow> string list \<Rightarrow> string list" where
  "fresh_addresses seen [] = []"
| "fresh_addresses seen (a # as) =
     (if a \<noteq> [] \<and> lower a \<notin> set seen then a # fresh_addresses (lower a # seen) as else fresh_addresses seen as)"

definition off_reason :: "mailer \<Rightarrow> string" where
  "off_reason mr = ''notifications disabled ('' @ mail_reason (mr_state mr) @ '')''"

text \<open>The configuration in force; the module starts without one.\<close>

definition with_config :: "mailer \<Rightarrow> (conf \<Rightarrow> 'a result) \<Rightarrow> 'a result" where
  "with_config mr f = (case mail_config (mr_state mr) of None \<Rightarrow> Inl AttributeError | Some cf \<Rightarrow> f cf)"

definition dashboard_url :: "mailer \<Rightarrow> string result" where
  "dashboard_url mr =
     with_config mr (\<lambda>cf. next_with (of_conf mr (get_or cf ''content'' ''dashboard_url'' ''https://csr.example.com/'')) (\<lambda>v. Inr (strip v)))"

definition conf_read :: "mailer \<Rightarrow> conf_error + 'a \<Rightarrow> ('a \<Rightarrow> (bool \<times> string) result) \<Rightarrow> (bool \<times> string) result" where
  "conf_read mr r f = (case r of Inl err \<Rightarrow> Inr (False, ''config read error: '' @ mr_say mr err) | Inr x \<Rightarrow> f x)"

definition standard_headers :: "mailer \<Rightarrow> string \<Rightarrow> string \<Rightarrow> (string \<times> string) list" where
  "standard_headers mr subject event =
     [(''Subject'', subject), (''Date'', mail_date (mr_now mr)), (''Auto-Submitted'', ''auto-generated''),
      (''X-CSR-Dashboard-Event'', event)]"

definition cc_header :: "string list \<Rightarrow> (string \<times> string) list" where
  "cc_header ccs = (if ccs = [] then [] else [(''Cc'', join '', '' ccs)])"

definition prepared ::
  "mailer \<Rightarrow> string \<Rightarrow> string \<Rightarrow> string option \<Rightarrow> string list \<Rightarrow> string \<Rightarrow> string
     \<Rightarrow> (bool \<times> string) result + conf \<times> message \<times> string list" where
  "prepared mr subject inner to_addr cc_addrs event job_id =
     (if \<not> mail_enabled (mr_state mr) then Inl (Inr (False, off_reason mr))
      else case to_addr of
        None \<Rightarrow> Inl (Inr (False, ''no recipient''))
      | Some to \<Rightarrow>
          (case mail_config (mr_state mr) of
             None \<Rightarrow> Inl (Inl AttributeError)
           | Some cf \<Rightarrow>
               try_conf (get_key cf ''from'' ''address'') (\<lambda>err. Inl (Inr (False, ''config read error: '' @ mr_say mr err))) (\<lambda>fa.
               try_conf (get_or cf ''recipients'' ''cc'' []) (\<lambda>err. Inl (Inr (False, ''config read error: '' @ mr_say mr err))) (\<lambda>cc_raw.
                 let ccs = fresh_addresses [lower to] (map strip cc_addrs @ address_list (strip cc_raw)) in
                 case compose ([(''From'', strip fa), (''To'', to)] @ cc_header ccs @ standard_headers mr subject event
                        @ [(''X-CSR-Dashboard-Job-Id'', job_id)]) inner of
                   Inl err \<Rightarrow> Inl (Inl err)
                 | Inr msg \<Rightarrow> Inr (cf, msg, to # ccs)))))"

definition compose_and_send ::
  "mailer \<Rightarrow> string \<Rightarrow> string \<Rightarrow> string option \<Rightarrow> string list \<Rightarrow> string \<Rightarrow> string \<Rightarrow> (bool \<times> string) result" where
  "compose_and_send mr subject inner to_addr cc_addrs event job_id =
     (case prepared mr subject inner to_addr cc_addrs event job_id of
        Inl answer \<Rightarrow> answer
      | Inr (cf, msg, recipients) \<Rightarrow> dispatch mr cf msg recipients)"

subsection \<open>The messages about a job\<close>

definition unlines :: "string list \<Rightarrow> string" where
  "unlines ls = concat (map (\<lambda>l. l @ [nl]) ls)"

definition notify_cn :: "string \<Rightarrow> string" where
  "notify_cn dn = (if dn = [] then ''(unknown)'' else cn_from_dn dn)"

definition signature_lines :: "string list" where
  "signature_lines = [[], ''This is an automated message from the Certheim.'', ''Do not reply to this address.'']"

record mail_job =
  mj_id :: string
  mj_target :: string
  mj_requester :: "string option"
  mj_expires :: "int option"
  mj_locations :: "string list"

text \<open>What the three job events have in common: the reason line differs.\<close>

definition job_event ::
  "mailer \<Rightarrow> mail_job \<Rightarrow> string option \<Rightarrow> string \<Rightarrow> string \<Rightarrow> (string \<Rightarrow> string list) \<Rightarrow> (bool \<times> string) result" where
  "job_event mr j group_mail subject event text_of =
     (case resolve_recipients (mj_requester j) group_mail of
        (None, cc) \<Rightarrow> Inr (False, ''no recipient (no requester_email and no group_email)'')
      | (Some to, cc) \<Rightarrow>
          next_with (dashboard_url mr) (\<lambda>url.
            compose_and_send mr (subject @ mj_target j) (unlines (text_of url @ signature_lines)) (Some to) cc event (mj_id j)))"

definition send_cert_issued :: "mailer \<Rightarrow> mail_job \<Rightarrow> string \<Rightarrow> string option \<Rightarrow> (bool \<times> string) result" where
  "send_cert_issued mr j uploader group_mail =
     job_event mr j group_mail ''[Certheim] Certificate issued for '' ''cert_issued'' (\<lambda>url.
       [''A signed certificate has been uploaded for your CSR request.'', [],
        ''Target host:  '' @ mj_target j, ''Job ID:       '' @ mj_id j, ''Uploaded by:  '' @ notify_cn uploader,
        ''Timestamp:    '' @ utc_now (mr_now mr), [],
        ''View the job and download the certificate:'', ''  '' @ url])"

definition send_cancelled :: "mailer \<Rightarrow> mail_job \<Rightarrow> string \<Rightarrow> string \<Rightarrow> string option \<Rightarrow> (bool \<times> string) result" where
  "send_cancelled mr j canceller reason group_mail =
     job_event mr j group_mail ''[Certheim] Request cancelled for '' ''cancelled'' (\<lambda>url.
       [''A CSR request has been cancelled.'', [],
        ''Target host:  '' @ mj_target j, ''Job ID:       '' @ mj_id j, ''Cancelled by: '' @ notify_cn canceller,
        ''Reason:       '' @ or_else (strip reason) ''(no reason given)'',
        ''Timestamp:    '' @ utc_now (mr_now mr), [],
        ''View the job in the dashboard:'', ''  '' @ url])"

definition send_failed :: "mailer \<Rightarrow> mail_job \<Rightarrow> string \<Rightarrow> string \<Rightarrow> string option \<Rightarrow> (bool \<times> string) result" where
  "send_failed mr j marker err group_mail =
     job_event mr j group_mail ''[Certheim] Request failed for '' ''failed'' (\<lambda>url.
       [''A CSR request has been marked failed.'', [],
        ''Target host:  '' @ mj_target j, ''Job ID:       '' @ mj_id j, ''Marked by:    '' @ notify_cn marker,
        ''Error:        '' @ or_else (strip err) ''(no error message provided)'',
        ''Timestamp:    '' @ utc_now (mr_now mr), [],
        ''View the job in the dashboard:'', ''  '' @ url])"

subsection \<open>Messages to several people\<close>

definition send_feedback_received ::
  "mailer \<Rightarrow> int \<Rightarrow> string \<Rightarrow> string \<Rightarrow> string list \<Rightarrow> string \<Rightarrow> string option \<Rightarrow> (bool \<times> string) result" where
  "send_feedback_received mr fid category inner admins cn email =
     (if \<not> mail_enabled (mr_state mr) then Inr (False, off_reason mr)
      else if admins = [] then Inr (False, ''no admin recipients with email'')
      else with_config mr (\<lambda>cf. conf_read mr (get_key cf ''from'' ''address'') (\<lambda>fa.
        let from_line = (if or_empty email = [] then cn else cn @ '' <'' @ or_empty email @ ''>'') in
        next_with (dashboard_url mr) (\<lambda>url.
        next_with (compose ([(''From'', strip fa), (''To'', join '', '' admins)]
              @ standard_headers mr (''[Certheim] New '' @ category @ '' feedback from '' @ cn) ''feedback_received''
              @ [(''X-CSR-Dashboard-Feedback-Id'', int_str fid)])
            (unlines ([''A user has submitted feedback in the Certheim.'', [], ''From:        '' @ from_line,
               ''Category:    '' @ category, ''Submitted:   '' @ utc_now (mr_now mr), ''Feedback ID: #'' @ int_str fid, [],
               ''Message:'', ''---'', inner, ''---'', [], ''Review and respond in the admin dashboard:'', ''  '' @ url @ ''#admin'']
               @ signature_lines))) (\<lambda>msg.
          dispatch mr cf msg admins)))))"

definition plural :: "int \<Rightarrow> string" where
  "plural n = (if n \<noteq> 1 then ''s'' else [])"

definition send_csrs_created ::
  "mailer \<Rightarrow> string list \<Rightarrow> string \<Rightarrow> string \<Rightarrow> string option \<Rightarrow> string list \<Rightarrow> (bool \<times> string) result" where
  "send_csrs_created mr targets ctype creator email recipients =
     (if \<not> mail_enabled (mr_state mr) then Inr (False, off_reason mr)
      else if recipients = [] then Inr (False, ''no signer recipients'')
      else if targets = [] then Inr (False, ''no targets'')
      else with_config mr (\<lambda>cf. conf_read mr (get_key cf ''from'' ''address'') (\<lambda>fa.
        let n = int (length targets);
            creator_line = or_else creator ''(unknown)'' @ (if or_empty email = [] then [] else '' <'' @ or_empty email @ ''>'') in
        next_with (dashboard_url mr) (\<lambda>url.
        next_with (compose ([(''From'', strip fa), (''To'', join '', '' recipients)]
              @ standard_headers mr (''[Certheim] '' @ int_str n @ '' new CSR'' @ plural n @ '' awaiting signing'') ''csrs_created'')
            (unlines ([int_str n @ '' new certificate signing request'' @ plural n @ '' ha'' @ (if n \<noteq> 1 then ''ve'' else ''s'')
                @ '' been created and are awaiting signing.'', [], ''Requested by: '' @ creator_line,
               ''Cert type(s): '' @ or_else ctype ''unspecified'', ''Timestamp:    '' @ utc_now (mr_now mr), [],
               ''Target host'' @ plural n @ '':'', join [nl] (map (\<lambda>t. ''  - '' @ t) targets), [],
               ''Review and download the CSRs for signing:'', ''  '' @ url] @ signature_lines))) (\<lambda>msg.
          dispatch mr cf msg recipients)))))"

subsection \<open>HTML\<close>

fun html_escape :: "string \<Rightarrow> string" where
  "html_escape [] = []"
| "html_escape (c # s) =
     (if c = CHR ''&'' then ''&amp;'' else if c = CHR ''<'' then ''&lt;'' else if c = CHR ''>'' then ''&gt;''
      else if c = CHR 0x22 then ''&quot;'' else if c = CHR 0x27 then ''&#x27;'' else [c]) @ html_escape s"

definition attr :: "string \<Rightarrow> string \<Rightarrow> string" where
  "attr k v = '' '' @ k @ ''='' @ [CHR 0x22] @ v @ [CHR 0x22]"

definition tag :: "string \<Rightarrow> string \<Rightarrow> string \<Rightarrow> string" where
  "tag name attrs inner = ''<'' @ name @ attrs @ ''>'' @ inner @ ''</'' @ name @ ''>''"

text \<open>A line break with the indentation that follows it; the dashes and the ellipsis as UTF-8.\<close>

definition indent :: "nat \<Rightarrow> string" where
  "indent n = nl # replicate n CHR '' ''"

definition em_dash :: string where "em_dash = [CHR 0xE2, CHR 0x80, CHR 0x94]"
definition ellipsis :: string where "ellipsis = [CHR 0xE2, CHR 0x80, CHR 0xA6]"

definition SEVERITY_COLORS :: "(string \<times> string \<times> string) list" where
  "SEVERITY_COLORS =
    [(''critical'', ''#fef2f2'', ''#dc2626''), (''high'', ''#fff7ed'', ''#ea580c''), (''medium'', ''#fffbeb'', ''#b45309''),
     (''low'', ''#f1f5f9'', ''#475569''), (''ok'', ''#f0fdf4'', ''#16a34a'')]"

definition severity_chip :: "string \<Rightarrow> string" where
  "severity_chip level0 =
     (let level = lower (or_else level0 ''ok'') in
      case (case map_of SEVERITY_COLORS level of Some x \<Rightarrow> x | None \<Rightarrow> (''#f1f5f9'', ''#475569'')) of (bg, fg) \<Rightarrow>
        tag ''span'' (attr ''style''
           (''display:inline-block;padding:2px 8px;border-radius:9px;''
            @ ''font-size:11px;font-weight:600;letter-spacing:.4px;text-transform:uppercase;''
            @ ''background:'' @ bg @ '';color:'' @ fg @ '';''))
          (html_escape level))"

definition html_shell :: "string \<Rightarrow> string \<Rightarrow> string \<Rightarrow> string" where
  "html_shell heading inner footer =
     ''<!DOCTYPE html>'' @ indent 0 @
     tag ''html'' [] (tag ''body'' (attr ''style'' ''margin:0;padding:0;background:#f1f5f9;'') (indent 0 @
     tag ''table'' (attr ''role'' ''presentation'' @ attr ''width'' ''100%'' @ attr ''cellpadding'' ''0'' @ attr ''cellspacing'' ''0''
         @ attr ''style'' ''background:#f1f5f9;'') (indent 0 @
     tag ''tr'' [] (tag ''td'' (attr ''align'' ''center'' @ attr ''style'' ''padding:24px 12px;'') (indent 0 @
     tag ''table'' (attr ''role'' ''presentation'' @ attr ''width'' ''600'' @ attr ''cellpadding'' ''0'' @ attr ''cellspacing'' ''0''
         @ indent 6 @ attr ''style'' (''max-width:600px;width:100%;background:#ffffff;border-radius:8px;overflow:hidden;'' @ indent 14
             @ ''border:1px solid #e2e8f0;font-family:-apple-system,'' @ [CHR 0x27] @ ''Segoe UI'' @ [CHR 0x27]
             @ '',Roboto,Helvetica,Arial,sans-serif;'')) (indent 2 @
       tag ''tr'' [] (tag ''td'' (attr ''style'' ''background:#0f172a;padding:16px 24px;'') (indent 4 @
         tag ''span'' (attr ''style'' ''color:#ffffff;font-size:17px;font-weight:700;letter-spacing:.3px;'') ''Certheim'' @ indent 4 @
         tag ''span'' (attr ''style'' ''color:#94a3b8;font-size:12px;padding-left:10px;'') (html_escape heading) @ indent 2)) @ indent 2 @
       tag ''tr'' [] (tag ''td'' (attr ''style'' ''padding:24px;'') inner) @ indent 2 @
       tag ''tr'' [] (tag ''td'' (attr ''style'' (''padding:14px 24px;background:#f8fafc;border-top:1px solid #e2e8f0;'' @ indent 15
             @ ''color:#94a3b8;font-size:11px;'')) (html_escape footer)) @ indent 0) @ indent 0))) @ indent 0))"

subsection \<open>Expiry warnings\<close>

definition days_text :: "int \<Rightarrow> string" where
  "days_text n = int_str n @ '' day'' @ plural n"

definition loc_block :: "string list \<Rightarrow> string" where
  "loc_block ls =
     (if ls = [] then []
      else [nl] @ unlines [''This certificate was found at:''] @ concat (map (\<lambda>l. ''  - '' @ l @ [nl]) (take 25 ls))
        @ (if 25 < length ls then ''  ... and '' @ nat_str (length ls - 25) @ '' more'' @ [nl] else []))"

definition loc_html :: "string list \<Rightarrow> string" where
  "loc_html ls =
     (if ls = [] then []
      else tag ''p'' (attr ''style'' (''margin:16px 0 4px;color:#0f172a;font-size:13px;'' @ ''font-weight:600;'')) ''Found at''
        @ tag ''ul'' (attr ''style'' ''margin:0;padding-left:18px;'')
            (concat (map (\<lambda>l. tag ''li'' (attr ''style'' ''padding:2px 0;color:#475569;font-size:13px;'')
                (tag ''code'' (attr ''style'' ''font-size:12px;'') (html_escape l))) (take 25 ls))
             @ (if 25 < length ls then tag ''li'' (attr ''style'' ''color:#94a3b8;font-size:12px;'')
                  (ellipsis @ '' and '' @ nat_str (length ls - 25) @ '' more'') else [])))"

definition urgency :: "int \<Rightarrow> string" where
  "urgency days = (if days \<le> 7 then ''critical'' else if days \<le> 14 then ''high'' else ''medium'')"

definition warning_html :: "mail_job \<Rightarrow> int \<Rightarrow> string \<Rightarrow> string \<Rightarrow> string" where
  "warning_html j days exp_str url =
     html_shell ''certificate expiry warning''
       (tag ''p'' (attr ''style'' ''margin:0 0 6px;font-size:15px;color:#0f172a;'') (html_escape ''Certificate expiring'')
        @ tag ''p'' (attr ''style'' ''margin:0 0 16px;font-size:22px;font-weight:700;color:#0f172a;'')
            (html_escape (mj_target j)
             @ tag ''span'' (attr ''style'' ''padding-left:10px;vertical-align:middle;'') (severity_chip (urgency days)))
        @ tag ''p'' (attr ''style'' ''margin:0;color:#475569;font-size:14px;'')
            (''Expires '' @ tag ''strong'' [] (html_escape exp_str) @ '' '' @ em_dash @ '' '' @ days_text days @ '' from now.'')
        @ loc_html (mj_locations j)
        @ tag ''p'' (attr ''style'' ''margin:20px 0 0;color:#475569;font-size:14px;'')
            (''To renew, open the job in the ''
             @ tag ''a'' (attr ''href'' (html_escape url) @ attr ''style'' ''color:#2563eb;'') ''dashboard'' @ '' and use ''
             @ tag ''strong'' [] ''Renew'' @ '' '' @ em_dash @ '' it generates a fresh key and CSR with the same names ''
             @ ''and usages, ready for signing.'')
        @ tag ''p'' (attr ''style'' ''margin:14px 0 0;color:#94a3b8;font-size:12px;'') (''Job ID: '' @ html_escape (mj_id j)))
       (''Automated message from Certheim '' @ em_dash @ '' do not reply.'')"

definition warning_text :: "mail_job \<Rightarrow> int \<Rightarrow> string \<Rightarrow> string \<Rightarrow> string" where
  "warning_text j days exp_str url =
     unlines [''The certificate for '' @ mj_target j @ '' expires on '' @ exp_str @ '' ('' @ days_text days @ '' from now).'']
     @ loc_block (mj_locations j)
     @ unlines ([[], ''To renew: open the job in the dashboard and use the Renew button.'',
          ''It generates a fresh key and CSR with the same names and usages,'', ''ready for signing.'', [],
          ''  '' @ url, [], ''Job ID: '' @ mj_id j] @ signature_lines)"

definition warning_recipients :: "string option \<Rightarrow> string list \<Rightarrow> (string \<times> string list) option" where
  "warning_recipients requester group_mails =
     (let r = strip (or_empty requester);
          cc = fresh_addresses (if r = [] then [] else [lower r]) (map strip group_mails) in
      if r \<noteq> [] then Some (r, cc) else case cc of [] \<Rightarrow> None | a # rest \<Rightarrow> Some (a, rest))"

definition send_expiry_warning :: "mailer \<Rightarrow> mail_job \<Rightarrow> int \<Rightarrow> string list \<Rightarrow> (bool \<times> string) result" where
  "send_expiry_warning mr j days group_mails =
     (if \<not> mail_enabled (mr_state mr) then Inr (False, off_reason mr)
      else case warning_recipients (mj_requester j) group_mails of
        None \<Rightarrow> Inr (False, ''no recipient'')
      | Some (to, cc) \<Rightarrow>
          with_config mr (\<lambda>cf. conf_read mr (get_key cf ''from'' ''address'') (\<lambda>fa.
            let exp_str = date_text (case mj_expires j of None \<Rightarrow> 0 | Some t \<Rightarrow> t) in
            next_with (dashboard_url mr) (\<lambda>url.
            next_with (compose ([(''From'', strip fa), (''To'', to)] @ cc_header cc
                @ standard_headers mr (''[Certheim] Certificate for '' @ mj_target j @ '' expires in '' @ days_text days) ''expiry_warning'')
              (warning_text j days exp_str url)) (\<lambda>msg.
              dispatch mr cf (attach_html (warning_html j days exp_str url) msg) (to # cc))))))"

subsection \<open>Who is written to\<close>

lemma fresh_addresses_props:
  "distinct (map lower (fresh_addresses seen as))" "set (map lower (fresh_addresses seen as)) \<inter> set seen = {}"
  "[] \<notin> set (fresh_addresses seen as)" "set (fresh_addresses seen as) \<subseteq> set as"
proof (induction seen as rule: fresh_addresses.induct)
  case (2 seen a as)
  { case 1 then show ?case using 2 by auto }
  { case 2 then show ?case using "2.IH" by auto }
  { case 3 then show ?case using "2.IH" by auto }
  { case 4 then show ?case using "2.IH" by auto }
qed auto

lemma fresh_addresses_complete: "a \<in> set as \<Longrightarrow> a \<noteq> [] \<Longrightarrow> lower a \<in> set seen \<union> set (map lower (fresh_addresses seen as))"
  by (induction seen as rule: fresh_addresses.induct) auto


lemma strip_Nil: "strip [] = []"
  by (simp add: strip_def rdrop_while_def)

lemma strip_idem: "strip (strip s) = strip s"
proof (cases "strip s = []")
  case False
  let ?t = "dropWhile is_space s"
  have parts: "strip s @ rev (takeWhile is_space (rev ?t)) = ?t"
    by (simp add: strip_def rdrop_while_def flip: rev_append)
  have "?t \<noteq> []" using parts False by (metis append_is_Nil_conv)
  then have "\<not> is_space (hd ?t)" by (rule hd_dropWhile)
  moreover have "hd ?t = hd (strip s)" using parts False by (metis hd_append2)
  moreover have "\<not> is_space (last (strip s))"
    using False by (simp add: strip_def rdrop_while_def last_rev hd_dropWhile)
  ultimately show ?thesis using False by (simp add: strip_fixed)
qed (simp add: strip_Nil)

lemma address_list_join:
  assumes "list_all (\<lambda>a. a \<noteq> [] \<and> strip a = a \<and> CHR '','' \<notin> set a) as"
  shows "address_list (join '', '' as) = as"
proof -
  have sp: "strip (CHR '' '' # a) = strip a" for a by (simp add: strip_def is_space_def cp_def)
  have "split_on (CHR '','') (join '', '' as) = (case as of [] \<Rightarrow> [[]] | a # rest \<Rightarrow> a # map (Cons (CHR '' '')) rest)"
    using assms
  proof (induction as rule: induct_list012)
    case (3 x y zs)
    have "CHR '','' \<notin> set x" using "3.prems" by simp
    then show ?case using 3 by (simp add: split_on_append_sep)
  qed (simp_all add: split_on_no_sep)
  then show ?thesis using assms
    by (cases as) (auto simp: address_list_def sp strip_Nil list_all_iff filter_map comp_def intro!: map_idI filter_True)
qed

lemma address_list_pieces: "a \<in> set (address_list s) \<Longrightarrow> a \<noteq> [] \<and> strip a = a \<and> CHR '','' \<notin> set a"
  using set_strip by (fastforce simp: address_list_def strip_idem dest: split_on_pieces)

lemma fresh_addresses_all: "list_all Q as \<Longrightarrow> list_all Q (fresh_addresses seen as)"
  by (induction seen as rule: fresh_addresses.induct) auto

text \<open>
  A message goes to each recipient once, the requester first, whichever way it is delivered. The envelope given to
  SMTP starts with the requester and names nobody twice, however the cases differ, and the providers' interfaces, which
  read the recipients back from the message's headers, are given the same people in the same order.
\<close>

theorem recipients_agree:
  assumes "prepared mr subject inner (Some to) ccs event job_id = Inr (cf, msg, recipients)"
    and "to \<noteq> []" "strip to = to" "CHR '','' \<notin> set to" "list_all (\<lambda>a. CHR '','' \<notin> set a) ccs"
  shows "hd recipients = to \<and> distinct (map lower recipients)
    \<and> (case msg_parts msg of (_, tos, cc_list, _) \<Rightarrow> tos @ cc_list = recipients)"
proof -
  obtain fa raw where r: "recipients = to # fresh_addresses [lower to] (map strip ccs @ address_list raw)"
    and msg: "compose ([(''From'', fa), (''To'', to)] @ cc_header (tl recipients) @ standard_headers mr subject event
                        @ [(''X-CSR-Dashboard-Job-Id'', job_id)]) inner = Inr msg"
    using assms(1) by (auto simp: prepared_def try_conf_def Let_def split: if_splits option.splits sum.splits)
  let ?ccs = "fresh_addresses [lower to] (map strip ccs @ address_list raw)"
  have distinct: "distinct (map lower recipients)"
    using fresh_addresses_props(1,2) [of "[lower to]" "map strip ccs @ address_list raw"] by (simp add: r)
  have "list_all (\<lambda>a. strip a = a \<and> CHR '','' \<notin> set a) (map strip ccs @ address_list raw)"
    using assms(5) set_strip address_list_pieces [of _ raw] by (fastforce simp: list_all_iff strip_idem)
  from fresh_addresses_all [OF this]
  have ok: "list_all (\<lambda>a. a \<noteq> [] \<and> strip a = a \<and> CHR '','' \<notin> set a) ?ccs"
    using fresh_addresses_props(3) by (fastforce simp: list_all_iff)
  have "address_list (header_of ''To'' msg) = [to]"
    using msg address_list_join [of "[to]"] assms(2-4) by (auto simp: compose_def header_of_def split: if_splits)
  moreover have "address_list (header_of ''Cc'' msg) = ?ccs"
    using msg address_list_join [OF ok]
    by (auto simp: compose_def header_of_def cc_header_def r standard_headers_def address_list_def strip_Nil split: if_splits)
  ultimately show ?thesis using distinct by (simp add: msg_parts_def r)
qed

definition relay_conf :: conf where
  "relay_conf = [(''smg'', [(''host'', ''mx'')]), (''from'', [(''address'', ''ca@x.y'')]), (''recipients'', [(''cc'', ''Ops@x.y, A@x.y, ops@x.y'')])]"

definition relay_mailer :: "(message \<Rightarrow> delivery \<Rightarrow> outcome) \<Rightarrow> mailer" where
  "relay_mailer net =
     \<lparr>mr_state = \<lparr>mail_file = ConfFile None relay_conf, mail_config = Some relay_conf, mail_enabled = True, mail_reason = []\<rparr>,
      mr_now = 1700000000, mr_say = (\<lambda>_. []), mr_send = net\<rparr>"

definition relay_message :: message where
  "relay_message =
     \<lparr>m_headers = [(''From'', ''ca@x.y''), (''To'', ''a@x.y''), (''Cc'', ''team@x.y, Ops@x.y''), (''Subject'', ''s''),
        (''Date'', ''Tue, 14 Nov 2023 22:13:20 +0000''), (''Auto-Submitted'', ''auto-generated''), (''X-CSR-Dashboard-Event'', ''failed''),
        (''X-CSR-Dashboard-Job-Id'', ''j1'')], m_text = ''b'', m_html = None\<rparr>"

lemma relay_prepared:
  "prepared (relay_mailer net) ''s'' ''b'' (Some ''a@x.y'') [''team@x.y''] ''failed'' ''j1''
     = Inr (relay_conf, relay_message, [''a@x.y'', ''team@x.y'', ''Ops@x.y''])"
  by code_simp

theorem recipients_agree_witness:
  "hd [''a@x.y'', ''team@x.y'', ''Ops@x.y''] = ''a@x.y'' \<and> distinct (map lower [''a@x.y'', ''team@x.y'', ''Ops@x.y''])
    \<and> (case msg_parts relay_message of (_, tos, cc_list, _) \<Rightarrow> tos @ cc_list = [''a@x.y'', ''team@x.y'', ''Ops@x.y''])"
proof -
  have "strip ''a@x.y'' = ''a@x.y''" by code_simp
  then show ?thesis
    by (intro recipients_agree [OF relay_prepared [of "\<lambda>_ _. Delivered"]]) simp_all
qed

subsection \<open>Without a configuration\<close>

text \<open>
  Until e-mail is configured every notice about a job with a recipient raises. The documentation of the module
  says its functions never raise and answer that notifications are disabled; the three job notices build the message
  first, and its link to the dashboard reads the configuration that does not exist.
\<close>

theorem unconfigured_notice_raises:
  assumes "mail_config (mr_state mr) = None" "strip (or_empty (mj_requester j)) \<noteq> [] \<or> strip (or_empty grp) \<noteq> []"
  shows "send_cert_issued mr j who grp = Inl AttributeError \<and> send_cancelled mr j who why grp = Inl AttributeError
    \<and> send_failed mr j who why grp = Inl AttributeError"
proof -
  have "fst (resolve_recipients (mj_requester j) grp) \<noteq> None"
    using assms(2) by (auto simp: resolve_recipients_def Let_def)
  then obtain to cc where "resolve_recipients (mj_requester j) grp = (Some to, cc)"
    by (cases "resolve_recipients (mj_requester j) grp") auto
  moreover have "dashboard_url mr = Inl AttributeError" using assms(1) by (simp add: dashboard_url_def with_config_def)
  ultimately have "job_event mr j grp s ev text_of = Inl AttributeError" for s ev text_of
    by (simp add: job_event_def next_with_def)
  then show ?thesis by (simp add: send_cert_issued_def send_cancelled_def send_failed_def)
qed

definition fresh_start :: mailer where
  "fresh_start =
     \<lparr>mr_state = \<lparr>mail_file = Missing, mail_config = None, mail_enabled = False, mail_reason = ''/var/opt/certheim/email.conf not found''\<rparr>,
      mr_now = 0, mr_say = (\<lambda>_. []), mr_send = (\<lambda>_ _. Delivered)\<rparr>"

definition web_job :: mail_job where
  "web_job = \<lparr>mj_id = ''j1'', mj_target = ''www.x.y'', mj_requester = Some ''a@x.y'', mj_expires = None, mj_locations = []\<rparr>"

theorem unconfigured_notice_raises_witness:
  "send_cert_issued fresh_start web_job ''CN=u'' None = Inl AttributeError
   \<and> send_cancelled fresh_start web_job ''CN=u'' [] None = Inl AttributeError
   \<and> send_failed fresh_start web_job ''CN=u'' [] None = Inl AttributeError"
proof -
  have "strip ''a@x.y'' \<noteq> []" by code_simp
  then show ?thesis by (intro unconfigured_notice_raises) (simp_all add: fresh_start_def web_job_def)
qed

subsection \<open>Markup\<close>

text \<open>The characters with a meaning in HTML, in order.\<close>

definition markup :: "string \<Rightarrow> string" where
  "markup s = filter (\<lambda>c. c \<in> {CHR ''<'', CHR ''>'', CHR 0x22, CHR 0x27}) s"

lemma markup_append: "markup (s @ t) = markup s @ markup t"
  by (simp add: markup_def)

lemma markup_escape: "markup (html_escape s) = []"
  by (induction s) (auto simp: markup_def)

lemma markup_digits: "list_all is_digit s \<Longrightarrow> markup s = []"
  by (auto simp: markup_def list_all_iff is_digit_def cp_def filter_empty_conv)

lemma markup_int: "markup (int_str i) = []" "markup (nat_str n) = []"
  using markup_digits [OF nat_str_digits] by (simp_all add: int_str_def markup_append) (simp add: markup_def)

lemma markup_concat: "markup (concat ss) = concat (map markup ss)"
  by (induction ss) (simp_all add: markup_def)

lemma markup_days: "markup (days_text n) = []"
  by (simp add: days_text_def plural_def markup_append markup_int) (simp add: markup_def)

lemmas markup_simps = markup_append markup_escape markup_int markup_days markup_concat

lemma markup_colors:
  assumes "map_of SEVERITY_COLORS l = Some (bg, fg)"
  shows "markup bg = []" "markup fg = []"
  using map_of_SomeD [OF assms] by (auto simp: SEVERITY_COLORS_def markup_def)

lemma chip_colors:
  "\<exists>bg fg. (case map_of SEVERITY_COLORS l of Some x \<Rightarrow> x | None \<Rightarrow> (''#f1f5f9'', ''#475569'')) = (bg, fg) \<and> markup bg = [] \<and> markup fg = []"
  using markup_colors [of l] by (cases "map_of SEVERITY_COLORS l") (auto simp: markup_def)

lemma markup_chip: "\<exists>m. \<forall>l. markup (severity_chip l) = m"
proof -
  have "markup (severity_chip l) = markup (severity_chip [])" for l
  proof -
    obtain bg fg where c: "(case map_of SEVERITY_COLORS (lower (or_else l ''ok'')) of Some x \<Rightarrow> x | None \<Rightarrow> (''#f1f5f9'', ''#475569'')) = (bg, fg)"
      "markup bg = []" "markup fg = []" using chip_colors by blast
    obtain bg' fg' where c': "(case map_of SEVERITY_COLORS (lower (or_else [] ''ok'')) of Some x \<Rightarrow> x | None \<Rightarrow> (''#f1f5f9'', ''#475569'')) = (bg', fg')"
      "markup bg' = []" "markup fg' = []" using chip_colors by blast
    show ?thesis
      unfolding severity_chip_def Let_def c(1) c'(1) prod.case tag_def attr_def markup_append c(2,3) c'(2,3) markup_escape ..
  qed
  then show ?thesis by blast
qed

lemma markup_locations:
  assumes "length ls = length ls'"
  shows "markup (loc_html ls) = markup (loc_html ls')"
proof -
  have nil: "ls = [] \<longleftrightarrow> ls' = []" using assms by (metis length_0_conv)
  have items: "concat (map (markup \<circ> (\<lambda>l. tag ''li'' x (tag ''code'' y (html_escape l)))) (take 25 ls))
      = concat (map (markup \<circ> (\<lambda>l. tag ''li'' x (tag ''code'' y (html_escape l)))) (take 25 ls'))" for x y
    by (simp only: tag_def markup_simps comp_def map_replicate_const length_take assms)
  show ?thesis
    unfolding loc_html_def nil tag_def [of "''p''"] tag_def [of "''ul''"]
    by (simp only: markup_append markup_concat map_map items assms if_distrib [of markup] tag_def [of _ _ "_ @ _"] markup_int)
qed

text \<open>
  C27: the data of a job cannot put markup into the HTML of an expiry warning. Two warnings for jobs that are listed at
  equally many places have the same markup characters in the same order, whatever the host names, identifiers,
  locations, dates and the dashboard's address contain.
\<close>

theorem html_injection_free:
  assumes "length (mj_locations j) = length (mj_locations j')"
  shows "markup (warning_html j days exp_str url) = markup (warning_html j' days' exp_str' url')"
proof -
  obtain m where chip: "\<And>l. markup (severity_chip l) = m" using markup_chip by blast
  show ?thesis
    unfolding warning_html_def html_shell_def tag_def attr_def
    by (simp only: markup_simps chip markup_locations [OF assms])
qed

theorem html_injection_free_witness:
  "markup (warning_html (web_job\<lparr>mj_target := ''<script>'', mj_locations := [''<b>'']\<rparr>) 3 ''2024-01-01'' ''https://x/'')
   = markup (warning_html (web_job\<lparr>mj_locations := [''h:443'']\<rparr>) 20 ''2024-02-01'' ''https://y/'')"
  by (rule html_injection_free) simp

end
