(* ===== verification/AcmeClient.thy ===== *)
theory AcmeClient
  imports Certs Licensing
begin

text \<open>
  The ACME client (\<^verbatim>\<open>backend/acme_client.py\<close>): signed requests with one-time nonces, the account, challenge solvers,
  polling, and the order flow. The certificate authority, the DNS update tool, the file system and the clock act on a
  host state of type \<open>'h\<close> through the fields of \<open>acme_net\<close>. \<open>as_used\<close> records the nonces sent; no code reads it.
\<close>

subsection \<open>State and effects\<close>

datatype acme_error = AcmeError string | Escaped py_error

datatype acme_answer = Answer int "(string \<times> string) list" string | Unreachable string | Broken py_error

text \<open>
  \<open>an_http\<close>: method, URL, body. \<open>an_compact\<close> is \<^verbatim>\<open>json.dumps\<close> without spaces, \<open>an_digest\<close> and \<open>an_hmac\<close> are raw
  SHA-256 and HMAC-SHA-256, \<open>an_bytes\<close> is how bytes print in a message. \<open>an_write\<close> creates a file and its directories,
  \<open>an_remove\<close> deletes one if it can, \<open>an_nsupdate\<close> runs the DNS update tool: exit code and error text.
\<close>

record 'h acme_net =
  an_env :: "'h env"
  an_http :: "string \<Rightarrow> string \<Rightarrow> string option \<Rightarrow> 'h \<Rightarrow> acme_answer \<times> 'h"
  an_compact :: "json \<Rightarrow> string"
  an_digest :: "string \<Rightarrow> string"
  an_hmac :: "string \<Rightarrow> string \<Rightarrow> string"
  an_bytes :: "string \<Rightarrow> string"
  an_write :: "string \<Rightarrow> string \<Rightarrow> 'h \<Rightarrow> py_error option \<times> 'h"
  an_remove :: "string \<Rightarrow> 'h \<Rightarrow> 'h"
  an_nsupdate :: "string \<Rightarrow> string \<Rightarrow> 'h \<Rightarrow> (int \<times> string) option \<times> 'h"
  an_sleep :: "int \<Rightarrow> 'h \<Rightarrow> 'h"

record acme_client =
  ac_directory_url :: string
  ac_account_key :: string
  ac_contact_email :: string
  ac_eab_kid :: string
  ac_eab_hmac :: string
  ac_jwk :: json

text \<open>The client's and the solver's attributes, the host, and the nonces sent.\<close>

record 'h acme_state =
  as_host :: 'h
  as_dir :: "json option"
  as_nonce :: "string option"
  as_kid :: "string option"
  as_files :: "string list"
  as_records :: "(string \<times> string) list"
  as_used :: "string list"

type_synonym ('h, 'a) acme = "'h acme_state \<Rightarrow> (acme_error + 'a) \<times> 'h acme_state"

definition give :: "'a \<Rightarrow> ('h, 'a) acme" where
  "give x s = (Inr x, s)"

definition fail :: "string \<Rightarrow> ('h, 'a) acme" where
  "fail msg s = (Inl (AcmeError msg), s)"

definition escape :: "py_error \<Rightarrow> ('h, 'a) acme" where
  "escape err s = (Inl (Escaped err), s)"

definition bind :: "('h, 'a) acme \<Rightarrow> ('a \<Rightarrow> ('h, 'b) acme) \<Rightarrow> ('h, 'b) acme" where
  "bind m f s = (case m s of (Inl err, s') \<Rightarrow> (Inl err, s') | (Inr x, s') \<Rightarrow> f x s')"

definition modify :: "('h acme_state \<Rightarrow> 'h acme_state) \<Rightarrow> ('h, unit) acme" where
  "modify f s = (Inr (), f s)"

definition from_state :: "('h acme_state \<Rightarrow> ('h, 'a) acme) \<Rightarrow> ('h, 'a) acme" where
  "from_state f s = f s s"

fun each :: "('x \<Rightarrow> ('h, unit) acme) \<Rightarrow> 'x list \<Rightarrow> ('h, unit) acme" where
  "each f [] = give ()"
| "each f (x # xs) = bind (f x) (\<lambda>_. each f xs)"

text \<open>
  \<^verbatim>\<open>d[k]\<close>, \<^verbatim>\<open>d.get(k)\<close> on parsed JSON, and the parser. A URL that is not text is refused where it is read.
\<close>

definition item :: "string \<Rightarrow> json \<Rightarrow> ('h, json) acme" where
  "item k j = (case j of JObj kvs \<Rightarrow> (case map_of kvs k of None \<Rightarrow> escape (PyError ''KeyError'') | Some v \<Rightarrow> give v) | _ \<Rightarrow> escape TypeError)"

definition get_item :: "string \<Rightarrow> json \<Rightarrow> ('h, json) acme" where
  "get_item k j = (case j of JObj _ \<Rightarrow> give (jget k j) | _ \<Rightarrow> escape AttributeError)"

definition as_text :: "json \<Rightarrow> ('h, string) acme" where
  "as_text j = (case j of JStr s \<Rightarrow> give s | _ \<Rightarrow> escape ValueError)"

definition parse_json :: "'h acme_net \<Rightarrow> string \<Rightarrow> ('h, json) acme" where
  "parse_json x s = (case json_loads (an_env x) s of None \<Rightarrow> escape ValueError | Some j \<Rightarrow> give j)"

subsection \<open>Keys and encodings\<close>

definition run_openssl :: "'h acme_net \<Rightarrow> string list \<Rightarrow> string \<Rightarrow> ('h, string) acme" where
  "run_openssl x args input =
     (case openssl (an_env x) args input of
        None \<Rightarrow> escape (PyError ''FileNotFoundError'')
      | Some (rc, out, err) \<Rightarrow> if rc \<noteq> 0 then fail (''openssl '' @ hd args @ '' failed: '' @ take 200 err) else give out)"

definition new_account_key_pem :: "'h acme_net \<Rightarrow> ('h, string) acme" where
  "new_account_key_pem x = run_openssl x [''genrsa'', ''2048''] []"

definition is_hex :: "char \<Rightarrow> bool" where
  "is_hex c = (is_digit c \<or> c \<in> set ''abcdefABCDEF'')"

definition hex_val :: "char \<Rightarrow> nat" where
  "hex_val c = (if is_digit c then digit_val c else if is_upper c then cp c - 55 else cp c - 87)"

fun from_hex :: "string \<Rightarrow> string option" where
  "from_hex [] = Some []"
| "from_hex [c] = None"
| "from_hex (a # b # s) = map_option ((#) (char_of (16 * hex_val a + hex_val b))) (from_hex s)"

fun big_endian :: "nat \<Rightarrow> string" where
  "big_endian n = (if n = 0 then [] else big_endian (n div 256) @ [char_of (n mod 256)])"

declare big_endian.simps [simp del]

definition modulus_at :: "string \<Rightarrow> string option" where
  "modulus_at s =
     (if starts_with ''Modulus='' s then (case takeWhile is_hex (drop 8 s) of [] \<Rightarrow> None | h \<Rightarrow> Some h) else None)"

definition exponent_at :: "string \<Rightarrow> string option" where
  "exponent_at s =
     (if starts_with ''publicExponent:'' s
      then (case takeWhile is_digit (dropWhile is_space (drop 15 s)) of [] \<Rightarrow> None | d \<Rightarrow> Some d) else None)"

definition rsa_jwk :: "'h acme_net \<Rightarrow> string \<Rightarrow> ('h, json) acme" where
  "rsa_jwk x key =
     bind (run_openssl x [''rsa'', ''-noout'', ''-modulus''] key) (\<lambda>md.
     case search_at modulus_at md of
       None \<Rightarrow> fail ''could not read account key modulus''
     | Some h \<Rightarrow>
         (case from_hex h of
            None \<Rightarrow> escape ValueError
          | Some n \<Rightarrow>
              bind (run_openssl x [''rsa'', ''-noout'', ''-text''] key) (\<lambda>txt.
                let e = (case search_at exponent_at txt of None \<Rightarrow> 65537 | Some d \<Rightarrow> digits_val d) in
                give (JObj [(''e'', JStr (b64u (big_endian e))), (''kty'', JStr ''RSA''), (''n'', JStr (b64u n))]))))"

text \<open>The members of the key are already in the order RFC 7638 asks for.\<close>

definition jwk_thumbprint :: "'h acme_net \<Rightarrow> json \<Rightarrow> string" where
  "jwk_thumbprint x jwk = b64u (an_digest x (an_compact x jwk))"

definition sign_rs256 :: "'h acme_net \<Rightarrow> string \<Rightarrow> string \<Rightarrow> ('h, string) acme" where
  "sign_rs256 x key input =
     bind (run_openssl x [''dgst'', ''-sha256'', ''-sign'', ''key.pem''] (join [CHR 0x00] [key, input])) (\<lambda>sig. give (b64u sig))"

definition csr_pem_to_der_b64u :: "'h acme_net \<Rightarrow> string \<Rightarrow> ('h, string) acme" where
  "csr_pem_to_der_b64u x csr =
     bind (run_openssl x [''req'', ''-inform'', ''PEM'', ''-outform'', ''DER''] csr) (\<lambda>der. give (b64u der))"

definition cert_pem_to_der_b64u :: "'h acme_net \<Rightarrow> string \<Rightarrow> ('h, string) acme" where
  "cert_pem_to_der_b64u x cert =
     bind (run_openssl x [''x509'', ''-inform'', ''PEM'', ''-outform'', ''DER''] cert) (\<lambda>der. give (b64u der))"

text \<open>The line after the heading of the subject alternative names.\<close>

definition alt_name_line :: "string \<Rightarrow> string option" where
  "alt_name_line txt =
     search_at (\<lambda>s. if \<not> starts_with ''Subject Alternative Name:'' s then None
       else let rest = drop 25 s in
         if nl \<notin> set (takeWhile is_space rest) then None
         else (case takeWhile (\<lambda>c. c \<noteq> nl) (dropWhile is_space rest) of [] \<Rightarrow> None | l \<Rightarrow> Some l)) txt"

definition san_names :: "string \<Rightarrow> string list" where
  "san_names line =
     map (\<lambda>p. strip (drop 4 p)) (filter (\<lambda>p. starts_with ''dns:'' (lower p)) (map strip (split_on (CHR '','') line)))"

definition csr_identifiers :: "'h acme_net \<Rightarrow> string \<Rightarrow> ('h, string list) acme" where
  "csr_identifiers x csr =
     bind (run_openssl x [''req'', ''-noout'', ''-text''] csr) (\<lambda>txt.
       let sans = (case alt_name_line txt of None \<Rightarrow> [] | Some l \<Rightarrow> san_names l);
           cn = (case search_subject_cn txt of None \<Rightarrow> []
                 | Some c \<Rightarrow> if CHR ''.'' \<in> set c \<and> CHR '' '' \<notin> set c then [c] else []);
           names = dedup_key id [] (sans @ cn) in
       if names = [] then fail ''CSR has no DNS name to request an ACME cert for'' else give names)"

subsection \<open>Challenge solvers\<close>

datatype solver =
    Http01Webroot string
  | Dns01Rfc2136 string int string string string int

definition challenge_type :: "solver \<Rightarrow> string" where
  "challenge_type sv = (case sv of Http01Webroot _ \<Rightarrow> ''http-01'' | Dns01Rfc2136 _ _ _ _ _ _ \<Rightarrow> ''dns-01'')"

text \<open>\<^verbatim>\<open>os.path.join\<close> of two parts.\<close>

definition path_join :: "string \<Rightarrow> string \<Rightarrow> string" where
  "path_join a b =
     (if starts_with ''/'' b then b else if a = [] \<or> last a = CHR ''/'' then a @ b else a @ ''/'' @ b)"

definition webroot_setup :: "'h acme_net \<Rightarrow> string \<Rightarrow> string \<Rightarrow> string \<Rightarrow> ('h, unit) acme" where
  "webroot_setup x webroot token key_authorization s =
     (let path = path_join (path_join (path_join webroot ''.well-known'') ''acme-challenge'') token in
      case an_write x path key_authorization (as_host s) of
        (Some err, h) \<Rightarrow> (Inl (Escaped err), s\<lparr>as_host := h\<rparr>)
      | (None, h) \<Rightarrow> (Inr (), s\<lparr>as_host := h, as_files := as_files s @ [path]\<rparr>))"

definition webroot_cleanup :: "'h acme_net \<Rightarrow> ('h, unit) acme" where
  "webroot_cleanup x s = (Inr (), s\<lparr>as_host := fold (an_remove x) (as_files s) (as_host s), as_files := []\<rparr>)"

definition nsupdate :: "'h acme_net \<Rightarrow> string \<Rightarrow> int \<Rightarrow> string \<Rightarrow> string \<Rightarrow> string \<Rightarrow> string list \<Rightarrow> ('h, unit) acme" where
  "nsupdate x server port tsig_name tsig_secret algo lines s =
     (let script = ''server '' @ server @ '' '' @ int_str port @ [nl] @ join [nl] lines @ [nl] @ ''send'' @ [nl];
          yflag = algo @ '':'' @ tsig_name @ '':'' @ tsig_secret in
      case an_nsupdate x yflag script (as_host s) of
        (None, h) \<Rightarrow> (Inl (Escaped (PyError ''FileNotFoundError'')), s\<lparr>as_host := h\<rparr>)
      | (Some (rc, err), h) \<Rightarrow>
          (if rc \<noteq> 0 then Inl (AcmeError (''nsupdate failed: '' @ take 200 err)) else Inr (), s\<lparr>as_host := h\<rparr>))"

definition quoted :: "string \<Rightarrow> string" where
  "quoted v = [CHR 0x22] @ v @ [CHR 0x22]"

definition txt_value :: "'h acme_net \<Rightarrow> string \<Rightarrow> string" where
  "txt_value x key_authorization = b64u (an_digest x key_authorization)"

definition rr_name :: "string \<Rightarrow> string" where
  "rr_name domain = ''_acme-challenge.'' @ domain @ ''.''"

text \<open>The update tool with the solver's parameters.\<close>

definition dns_update :: "'h acme_net \<Rightarrow> solver \<Rightarrow> string list \<Rightarrow> ('h, unit) acme" where
  "dns_update x sv lines =
     (case sv of
        Http01Webroot _ \<Rightarrow> give ()
      | Dns01Rfc2136 server port name secret algo _ \<Rightarrow> nsupdate x server port name secret algo lines)"

definition propagation_wait :: "solver \<Rightarrow> int" where
  "propagation_wait sv = (case sv of Http01Webroot _ \<Rightarrow> 0 | Dns01Rfc2136 _ _ _ _ _ wait \<Rightarrow> wait)"

definition dns_setup :: "'h acme_net \<Rightarrow> solver \<Rightarrow> string \<Rightarrow> string \<Rightarrow> ('h, unit) acme" where
  "dns_setup x sv domain key_authorization =
     (let rr = rr_name domain; v = txt_value x key_authorization in
      bind (dns_update x sv [''update add '' @ rr @ '' 60 IN TXT '' @ quoted v]) (\<lambda>_.
        modify (\<lambda>s. s\<lparr>as_records := as_records s @ [(rr, v)],
          as_host := (if propagation_wait sv = 0 then as_host s else an_sleep x (propagation_wait sv) (as_host s))\<rparr>)))"

text \<open>One deletion; a failure of the update tool is ignored, another exception is not.\<close>

definition dns_delete :: "'h acme_net \<Rightarrow> solver \<Rightarrow> string \<times> string \<Rightarrow> ('h, unit) acme" where
  "dns_delete x sv rec s =
     (case rec of (rr, v) \<Rightarrow>
        (case dns_update x sv [''update delete '' @ rr @ '' TXT '' @ quoted v] s of
           (Inl (AcmeError _), s') \<Rightarrow> (Inr (), s')
         | other \<Rightarrow> other))"

definition dns_cleanup :: "'h acme_net \<Rightarrow> solver \<Rightarrow> ('h, unit) acme" where
  "dns_cleanup x sv =
     bind (from_state (\<lambda>s. each (dns_delete x sv) (as_records s))) (\<lambda>_. modify (\<lambda>s. s\<lparr>as_records := []\<rparr>))"

definition solver_setup :: "'h acme_net \<Rightarrow> solver \<Rightarrow> string \<Rightarrow> string \<Rightarrow> string \<Rightarrow> ('h, unit) acme" where
  "solver_setup x sv domain token key_authorization =
     (case sv of
        Http01Webroot webroot \<Rightarrow> webroot_setup x webroot token key_authorization
      | Dns01Rfc2136 _ _ _ _ _ _ \<Rightarrow> dns_setup x sv domain key_authorization)"

definition solver_cleanup :: "'h acme_net \<Rightarrow> solver \<Rightarrow> ('h, unit) acme" where
  "solver_cleanup x sv =
     (case sv of Http01Webroot _ \<Rightarrow> webroot_cleanup x | Dns01Rfc2136 _ _ _ _ _ _ \<Rightarrow> dns_cleanup x sv)"

subsection \<open>Requests\<close>

definition acme_raw :: "'h acme_net \<Rightarrow> string \<Rightarrow> string \<Rightarrow> string option \<Rightarrow> ('h, int \<times> (string \<times> string) list \<times> string) acme" where
  "acme_raw x url meth data s =
     (case an_http x meth url data (as_host s) of
        (Answer st hdrs ans, h) \<Rightarrow> (Inr (st, hdrs, ans), s\<lparr>as_host := h\<rparr>)
      | (Unreachable why, h) \<Rightarrow> (Inl (AcmeError (''ACME CA unreachable at '' @ url @ '': '' @ why)), s\<lparr>as_host := h\<rparr>)
      | (Broken err, h) \<Rightarrow> (Inl (Escaped err), s\<lparr>as_host := h\<rparr>))"

definition directory :: "'h acme_net \<Rightarrow> acme_client \<Rightarrow> ('h, json) acme" where
  "directory x c =
     from_state (\<lambda>s. case as_dir s of
        Some d \<Rightarrow> give d
      | None \<Rightarrow>
          bind (acme_raw x (ac_directory_url c) ''GET'' None) (\<lambda>(st, _, ans).
          if st \<noteq> 200 then fail (''ACME directory HTTP '' @ int_str st @ '' at '' @ ac_directory_url c)
          else bind (parse_json x ans) (\<lambda>d. bind (modify (\<lambda>s. s\<lparr>as_dir := Some d\<rparr>)) (\<lambda>_. give d))))"

definition endpoint :: "'h acme_net \<Rightarrow> acme_client \<Rightarrow> string \<Rightarrow> ('h, string) acme" where
  "endpoint x c name = bind (directory x c) (\<lambda>d. bind (item name d) as_text)"

definition get_nonce :: "'h acme_net \<Rightarrow> acme_client \<Rightarrow> ('h, string) acme" where
  "get_nonce x c =
     from_state (\<lambda>s. if set_opt (as_nonce s)
       then bind (modify (\<lambda>s. s\<lparr>as_nonce := None\<rparr>)) (\<lambda>_. give (or_empty (as_nonce s)))
       else bind (endpoint x c ''newNonce'') (\<lambda>url.
            bind (acme_raw x url ''HEAD'' None) (\<lambda>(_, hdrs, _).
            let n = or_empty (map_of hdrs ''Replay-Nonce'') in
            if n = [] then fail ''CA did not return a Replay-Nonce'' else give n)))"

definition jws :: "'h acme_net \<Rightarrow> acme_client \<Rightarrow> string option \<Rightarrow> string \<Rightarrow> string \<Rightarrow> json option \<Rightarrow> bool \<Rightarrow> ('h, string) acme" where
  "jws x c kid nonce url payload use_jwk =
     (let protected = JObj [(''alg'', JStr ''RS256''), (''nonce'', JStr nonce), (''url'', JStr url),
                            if use_jwk then (''jwk'', ac_jwk c) else (''kid'', jopt kid)];
          p64 = b64u (an_compact x protected);
          y64 = (case payload of None \<Rightarrow> [] | Some p \<Rightarrow> b64u (an_compact x p)) in
      bind (sign_rs256 x (ac_account_key c) (p64 @ ''.'' @ y64)) (\<lambda>sig.
        give (json_dumps (an_env x) (JObj [(''protected'', JStr p64), (''payload'', JStr y64), (''signature'', JStr sig)]))))"

text \<open>The CA's problem document, and the error made of it.\<close>

definition problem_of :: "'h acme_net \<Rightarrow> string \<Rightarrow> json" where
  "problem_of x ans = (case json_loads (an_env x) ans of None \<Rightarrow> JObj [] | Some j \<Rightarrow> j)"

definition shown_or :: "'h acme_net \<Rightarrow> string \<Rightarrow> json \<Rightarrow> string \<Rightarrow> string" where
  "shown_or x k j other = (if jhas k j then str_of (an_env x) (jget k j) else other)"

definition problem_text :: "'h acme_net \<Rightarrow> int \<Rightarrow> string \<Rightarrow> string \<Rightarrow> json \<Rightarrow> string" where
  "problem_text x st url ans prob =
     ''ACME '' @ shown_or x ''type'' prob ''error'' @ '' ('' @ int_str st @ '') for '' @ url @ '': ''
       @ shown_or x ''detail'' prob (an_bytes x (take 200 ans))"

definition problem_type :: "json \<Rightarrow> ('h, string) acme" where
  "problem_type prob =
     (case prob of
        JObj _ \<Rightarrow> if jhas ''type'' prob then (case jget ''type'' prob of JStr t \<Rightarrow> give t | _ \<Rightarrow> escape AttributeError) else give []
      | _ \<Rightarrow> escape AttributeError)"

definition remember_nonce :: "(string \<times> string) list \<Rightarrow> ('h, unit) acme" where
  "remember_nonce hdrs =
     modify (\<lambda>s. s\<lparr>as_nonce := (if set_opt (map_of hdrs ''Replay-Nonce'') then map_of hdrs ''Replay-Nonce'' else as_nonce s)\<rparr>)"

function signed_post ::
  "'h acme_net \<Rightarrow> acme_client \<Rightarrow> string \<Rightarrow> json option \<Rightarrow> bool \<Rightarrow> bool \<Rightarrow> ('h, int \<times> (string \<times> string) list \<times> string) acme" where
  "signed_post x c url payload use_jwk retry =
     bind (get_nonce x c) (\<lambda>nonce.
     bind (from_state (\<lambda>s. jws x c (as_kid s) nonce url payload use_jwk)) (\<lambda>data.
     bind (modify (\<lambda>s. s\<lparr>as_used := as_used s @ [nonce]\<rparr>)) (\<lambda>_.
     bind (acme_raw x url ''POST'' (Some data)) (\<lambda>(st, hdrs, ans).
     bind (remember_nonce hdrs) (\<lambda>_.
       if st < 400 then give (st, hdrs, ans)
       else
         let prob = problem_of x ans in
         if retry then
           bind (problem_type prob) (\<lambda>t.
             if ends_with '':badNonce'' t then signed_post x c url payload use_jwk False
             else fail (problem_text x st url ans prob))
         else bind (get_item ''type'' prob) (\<lambda>_. fail (problem_text x st url ans prob)))))))"
  by pat_completeness auto
termination
  by (relation "measure (\<lambda>(x, c, url, payload, use_jwk, retry). if retry then 1 else 0)") auto

declare signed_post.simps [simp del]

definition post_as_get :: "'h acme_net \<Rightarrow> acme_client \<Rightarrow> string \<Rightarrow> ('h, string) acme" where
  "post_as_get x c url = bind (signed_post x c url None False True) (\<lambda>(_, _, ans). give ans)"

subsection \<open>The account\<close>

definition eab :: "'h acme_net \<Rightarrow> acme_client \<Rightarrow> string \<Rightarrow> ('h, json) acme" where
  "eab x c url =
     (let eprot = b64u (an_compact x (JObj [(''alg'', JStr ''HS256''), (''kid'', JStr (ac_eab_kid c)), (''url'', JStr url)]));
          epay = b64u (an_compact x (ac_jwk c)) in
      case b64u_decode (ac_eab_hmac c) of
        None \<Rightarrow> escape (PyError ''Error'')
      | Some key \<Rightarrow>
          give (JObj [(''protected'', JStr eprot), (''payload'', JStr epay),
                      (''signature'', JStr (b64u (an_hmac x key (eprot @ ''.'' @ epay))))]))"

definition register :: "'h acme_net \<Rightarrow> acme_client \<Rightarrow> ('h, string) acme" where
  "register x c =
     bind (endpoint x c ''newAccount'') (\<lambda>url.
     bind (if ac_eab_kid c \<noteq> [] \<and> ac_eab_hmac c \<noteq> []
           then bind (eab x c url) (\<lambda>b. give [(''externalAccountBinding'', b)]) else give []) (\<lambda>binding.
     bind (signed_post x c url
             (Some (JObj ([(''termsOfServiceAgreed'', JBool True)]
                @ (if ac_contact_email c \<noteq> [] then [(''contact'', JArr [JStr (''mailto:'' @ ac_contact_email c)])] else [])
                @ binding))) True True) (\<lambda>(st, hdrs, _).
     if st \<notin> {200, 201} then fail (''newAccount returned HTTP '' @ int_str st)
     else
       bind (modify (\<lambda>s. s\<lparr>as_kid := map_of hdrs ''Location''\<rparr>)) (\<lambda>_.
         if set_opt (map_of hdrs ''Location'') then give (or_empty (map_of hdrs ''Location''))
         else fail ''newAccount did not return an account URL''))))"

definition ensure_account :: "'h acme_net \<Rightarrow> acme_client \<Rightarrow> ('h, unit) acme" where
  "ensure_account x c = from_state (\<lambda>s. if set_opt (as_kid s) then give () else bind (register x c) (\<lambda>_. give ()))"

subsection \<open>Issuance\<close>

definition POLL_TRIES :: nat where "POLL_TRIES = 20"
definition POLL_DELAY :: int where "POLL_DELAY = 2"

fun poll :: "'h acme_net \<Rightarrow> acme_client \<Rightarrow> string \<Rightarrow> string list \<Rightarrow> nat \<Rightarrow> ('h, json) acme" where
  "poll x c url want 0 = fail (''timed out waiting for '' @ url @ '' to reach '' @ str_of (an_env x) (JArr (map JStr want)))"
| "poll x c url want (Suc tries) =
     bind (post_as_get x c url) (\<lambda>ans.
     bind (parse_json x ans) (\<lambda>obj.
     bind (get_item ''status'' obj) (\<lambda>status.
       if status \<in> JStr ` set want then give obj
       else if status = JStr ''invalid'' then fail (''ACME object became invalid: '' @ an_bytes x (take 300 ans))
       else bind (modify (\<lambda>s. s\<lparr>as_host := an_sleep x POLL_DELAY (as_host s)\<rparr>)) (\<lambda>_. poll x c url want tries))))"

definition poll_valid :: "'h acme_net \<Rightarrow> acme_client \<Rightarrow> string \<Rightarrow> ('h, json) acme" where
  "poll_valid x c url = poll x c url [''valid''] POLL_TRIES"

definition new_order :: "'h acme_net \<Rightarrow> acme_client \<Rightarrow> string list \<Rightarrow> ('h, string option \<times> json) acme" where
  "new_order x c domains =
     bind (endpoint x c ''newOrder'') (\<lambda>url.
     bind (signed_post x c url
             (Some (JObj [(''identifiers'', JArr (map (\<lambda>d. JObj [(''type'', JStr ''dns''), (''value'', JStr d)]) domains))])) False True)
       (\<lambda>(st, hdrs, ans).
       if st \<notin> {200, 201} then fail (''newOrder HTTP '' @ int_str st @ '': '' @ an_bytes x (take 200 ans))
       else bind (parse_json x ans) (\<lambda>order. give (map_of hdrs ''Location'', order))))"

text \<open>The first challenge of the solver's type among those offered.\<close>

fun find_challenge :: "string \<Rightarrow> json list \<Rightarrow> ('h, json option) acme" where
  "find_challenge kind [] = give None"
| "find_challenge kind (ch # chs) =
     bind (item ''type'' ch) (\<lambda>t. if t = JStr kind then give (Some ch) else find_challenge kind chs)"

definition do_authz :: "'h acme_net \<Rightarrow> acme_client \<Rightarrow> solver \<Rightarrow> string \<Rightarrow> string \<Rightarrow> ('h, unit) acme" where
  "do_authz x c sv thumb url =
     bind (post_as_get x c url) (\<lambda>ans.
     bind (parse_json x ans) (\<lambda>authz.
     bind (get_item ''status'' authz) (\<lambda>status.
       if status = JStr ''valid'' then give ()
       else
         bind (item ''identifier'' authz) (\<lambda>ident. bind (item ''value'' ident) (\<lambda>v. bind (as_text v) (\<lambda>domain.
         bind (item ''challenges'' authz) (\<lambda>chs.
         bind (case chs of JArr xs \<Rightarrow> find_challenge (challenge_type sv) xs | _ \<Rightarrow> escape TypeError) (\<lambda>found.
           case found of
             None \<Rightarrow> fail (''CA offers no '' @ challenge_type sv @ '' challenge for '' @ domain)
           | Some ch \<Rightarrow>
               if \<not> truthy ch then fail (''CA offers no '' @ challenge_type sv @ '' challenge for '' @ domain)
               else
               bind (item ''token'' ch) (\<lambda>tok. bind (as_text tok) (\<lambda>token.
               bind (solver_setup x sv domain token (token @ ''.'' @ thumb)) (\<lambda>_.
               bind (item ''url'' ch) (\<lambda>u. bind (as_text u) (\<lambda>ch_url.
               bind (signed_post x c ch_url (Some (JObj [])) False True) (\<lambda>_.
               bind (poll_valid x c url) (\<lambda>_. give ())))))))))))))))"

text \<open>\<^verbatim>\<open>try ... finally\<close>\<close>

definition ensuring :: "('h, 'a) acme \<Rightarrow> ('h, unit) acme \<Rightarrow> ('h, 'a) acme" where
  "ensuring m after s =
     (case m s of (r, s1) \<Rightarrow> (case after s1 of (Inl err, s2) \<Rightarrow> (Inl err, s2) | (Inr _, s2) \<Rightarrow> (r, s2)))"

definition acme_split_chain :: "string \<Rightarrow> ('h, string \<times> string) acme" where
  "acme_split_chain pem =
     (case pem_blocks pem of
        [] \<Rightarrow> fail ''ACME certificate response had no PEM certificate''
      | b # bs \<Rightarrow> give (b @ [nl], if bs = [] then [] else join [nl] bs @ [nl]))"

definition authorize_all :: "'h acme_net \<Rightarrow> acme_client \<Rightarrow> solver \<Rightarrow> string \<Rightarrow> json \<Rightarrow> ('h, unit) acme" where
  "authorize_all x c sv thumb order =
     bind (item ''authorizations'' order) (\<lambda>as.
       case as of JArr urls \<Rightarrow> each (\<lambda>u. bind (as_text u) (do_authz x c sv thumb)) urls | _ \<Rightarrow> escape TypeError)"

definition issue :: "'h acme_net \<Rightarrow> acme_client \<Rightarrow> string \<Rightarrow> solver \<Rightarrow> ('h, string \<times> string) acme" where
  "issue x c csr sv =
     bind (ensure_account x c) (\<lambda>_.
     bind (csr_identifiers x csr) (\<lambda>domains.
     bind (new_order x c domains) (\<lambda>(order_url, order).
     bind (ensuring (authorize_all x c sv (jwk_thumbprint x (ac_jwk c)) order) (solver_cleanup x sv)) (\<lambda>_.
     bind (item ''finalize'' order) (\<lambda>f. bind (as_text f) (\<lambda>finalize_url.
     bind (csr_pem_to_der_b64u x csr) (\<lambda>der.
     bind (signed_post x c finalize_url (Some (JObj [(''csr'', JStr der)])) False True) (\<lambda>_.
     bind (as_text (jopt order_url)) (\<lambda>ourl.
     bind (poll_valid x c ourl) (\<lambda>final.
     bind (get_item ''certificate'' final) (\<lambda>cu.
       if \<not> truthy cu then fail ''order valid but no certificate URL''
       else bind (as_text cu) (\<lambda>cert_url. bind (post_as_get x c cert_url) acme_split_chain))))))))))))"

definition revoke :: "'h acme_net \<Rightarrow> acme_client \<Rightarrow> string \<Rightarrow> int \<Rightarrow> ('h, unit) acme" where
  "revoke x c cert reason =
     bind (ensure_account x c) (\<lambda>_.
     bind (directory x c) (\<lambda>d. bind (get_item ''revokeCert'' d) (\<lambda>u.
       if \<not> truthy u then fail ''CA directory has no revokeCert endpoint''
       else bind (as_text u) (\<lambda>url.
         bind (cert_pem_to_der_b64u x cert) (\<lambda>der.
         bind (signed_post x c url (Some (JObj [(''certificate'', JStr der), (''reason'', JInt reason)])) False True)
           (\<lambda>_. give ()))))))"

definition test :: "'h acme_net \<Rightarrow> acme_client \<Rightarrow> ('h, json) acme" where
  "test x c =
     bind (directory x c) (\<lambda>d.
     bind (ensure_account x c) (\<lambda>_.
       from_state (\<lambda>s. case d of
         JObj kvs \<Rightarrow> give (JObj [(''ok'', JBool True), (''directory'', JStr (ac_directory_url c)), (''account'', jopt (as_kid s)),
             (''endpoints'', strs (sort (remdups (map fst (filter (\<lambda>(k, v). (case v of JStr _ \<Rightarrow> True | _ \<Rightarrow> False)) kvs)))))])
       | _ \<Rightarrow> escape TypeError)))"

text \<open>The constructor: what the attributes are, or why there is no client.\<close>

definition make_client :: "'h acme_net \<Rightarrow> string \<Rightarrow> string \<Rightarrow> string \<Rightarrow> string \<Rightarrow> string \<Rightarrow> ('h, acme_client) acme" where
  "make_client x url key contact kid hmac =
     bind (rsa_jwk x key) (\<lambda>jwk.
       give \<lparr>ac_directory_url = strip url, ac_account_key = key, ac_contact_email = strip contact,
             ac_eab_kid = strip kid, ac_eab_hmac = strip hmac, ac_jwk = jwk\<rparr>)"

end
