(* ===== verification/AcmeSafety.thy ===== *)
theory AcmeSafety
  imports AcmeClient
begin

text \<open>
  What holds of every run of the ACME client: lemmas about all its requests follow from a few about their parts, in a
  locale for the requests alone and one for the whole order flow. The instances are the one-time nonces, the number of
  requests, and the challenge files of the HTTP-01 solver.
\<close>

subsection \<open>Kept predicates\<close>

definition keeps_acme :: "('h acme_state \<Rightarrow> bool) \<Rightarrow> ('h, 'a) acme \<Rightarrow> bool" where
  "keeps_acme P m \<longleftrightarrow> (\<forall>s. P s \<longrightarrow> P (snd (m s)))"

lemma keeps_acmeI: "(\<And>s. P s \<Longrightarrow> P (snd (m s))) \<Longrightarrow> keeps_acme P m"
  by (simp add: keeps_acme_def)

lemma keeps_acmeD: "keeps_acme P m \<Longrightarrow> P s \<Longrightarrow> P (snd (m s))"
  by (simp add: keeps_acme_def)

named_theorems acme_keeps

lemma keeps_give [acme_keeps]: "keeps_acme P (give v)" "keeps_acme P (fail msg)" "keeps_acme P (escape err)"
  by (simp_all add: keeps_acme_def give_def fail_def escape_def)

lemma unasked_bind [acme_keeps]:
  assumes "keeps_acme P m" "\<And>v. keeps_acme P (f v)"
  shows "keeps_acme P (bind m f)"
proof (rule keeps_acmeI)
  fix s assume "P s"
  then have "P (snd (m s))" by (rule keeps_acmeD [OF assms(1)])
  then show "P (snd (bind m f s))"
    using keeps_acmeD [OF assms(2)] by (cases "m s") (auto simp: bind_def split: sum.split)
qed

lemma keeps_from_state [acme_keeps]: "(\<And>s. keeps_acme P (f s)) \<Longrightarrow> keeps_acme P (from_state f)"
  by (simp add: keeps_acme_def from_state_def)

lemma keeps_each [acme_keeps]: "(\<And>v. keeps_acme P (f v)) \<Longrightarrow> keeps_acme P (each f vs)"
  by (induction vs) (auto intro: acme_keeps)

lemma keeps_ensuring [acme_keeps]:
  assumes "keeps_acme P m" "keeps_acme P after"
  shows "keeps_acme P (ensuring m after)"
proof (rule keeps_acmeI)
  fix s assume "P s"
  then have "P (snd (after (snd (m s))))" by (intro keeps_acmeD [OF assms(2)] keeps_acmeD [OF assms(1)])
  then show "P (snd (ensuring m after s))"
    by (cases "m s"; cases "after (snd (m s))") (auto simp: ensuring_def split: sum.split)
qed

lemma keeps_if [acme_keeps]: "(b \<Longrightarrow> keeps_acme P m) \<Longrightarrow> (\<not> b \<Longrightarrow> keeps_acme P n) \<Longrightarrow> keeps_acme P (if b then m else n)"
  by simp

lemma keeps_parts [acme_keeps]:
  "keeps_acme P (item k j)" "keeps_acme P (get_item k j)" "keeps_acme P (as_text j)" "keeps_acme P (parse_json x t)"
  "keeps_acme P (run_openssl x args inp)" "keeps_acme P (problem_type j)" "keeps_acme P (acme_split_chain t)" "keeps_acme P (eab x c url)"
  by (simp_all add: item_def get_item_def as_text_def parse_json_def run_openssl_def problem_type_def acme_split_chain_def eab_def
      acme_keeps Let_def split: json.split option.split prod.split list.split)

lemma keeps_find [acme_keeps]: "keeps_acme P (find_challenge k chs)"
  by (induction chs) (auto intro!: acme_keeps)

lemma keeps_encodings [acme_keeps]:
  "keeps_acme P (sign_rs256 x key t)" "keeps_acme P (csr_pem_to_der_b64u x csr)" "keeps_acme P (cert_pem_to_der_b64u x cert)"
  "keeps_acme P (csr_identifiers x csr)" "keeps_acme P (jws x c kid n url payload j)"
  by (auto simp: sign_rs256_def csr_pem_to_der_b64u_def cert_pem_to_der_b64u_def csr_identifiers_def jws_def Let_def intro!: acme_keeps)

subsection \<open>The requests\<close>

locale acme_requests =
  fixes x :: "'h acme_net" and P :: "'h acme_state \<Rightarrow> bool"
  assumes directory_keeps: "keeps_acme P (directory x c)"
    and post_keeps: "keeps_acme P (signed_post x c url payload j r)"
    and kid_keeps: "P s \<Longrightarrow> P (s\<lparr>as_kid := k\<rparr>)"
    and sleep_keeps: "P s \<Longrightarrow> P (s\<lparr>as_host := an_sleep x d (as_host s)\<rparr>)"
begin

lemma endpoint_keeps: "keeps_acme P (endpoint x c name)"
  unfolding endpoint_def by (intro acme_keeps directory_keeps)

lemma modify_keeps: "keeps_acme P (modify (\<lambda>s. s\<lparr>as_kid := k\<rparr>))"
  "keeps_acme P (modify (\<lambda>s. s\<lparr>as_host := an_sleep x d (as_host s)\<rparr>))"
  by (auto intro!: keeps_acmeI kid_keeps sleep_keeps simp: modify_def)

lemmas request_rules = endpoint_keeps directory_keeps post_keeps modify_keeps acme_keeps

lemma register_keeps: "keeps_acme P (register x c)"
  unfolding register_def by (intro request_rules) (auto intro!: request_rules split: prod.split)

lemma account_keeps: "keeps_acme P (ensure_account x c)"
  unfolding ensure_account_def by (intro request_rules register_keeps)

lemma get_keeps: "keeps_acme P (post_as_get x c url)"
  unfolding post_as_get_def by (intro request_rules) (auto intro!: request_rules split: prod.split)

lemma poll_keeps: "keeps_acme P (poll x c url want n)"
  by (induction n) (auto intro!: request_rules get_keeps)

lemma order_keeps: "keeps_acme P (new_order x c domains)"
  unfolding new_order_def by (intro request_rules) (auto intro!: request_rules split: prod.split)

lemma revoke_keeps: "keeps_acme P (revoke x c cert reason)"
  unfolding revoke_def by (intro request_rules account_keeps)

lemma test_keeps: "keeps_acme P (test x c)"
  unfolding test_def by (intro request_rules account_keeps) (auto intro!: request_rules split: json.split)

end

subsection \<open>The order flow\<close>

locale acme_order = acme_requests +
  assumes setup_keeps: "keeps_acme P (solver_setup x sv domain token ka)"
    and cleanup_keeps: "keeps_acme P (solver_cleanup x sv)"
begin

lemma authz_keeps: "keeps_acme P (do_authz x c sv thumb url)"
  unfolding do_authz_def poll_valid_def
  by (intro request_rules get_keeps) (auto intro!: request_rules setup_keeps poll_keeps split: json.split option.split)

lemma authorize_keeps: "keeps_acme P (authorize_all x c sv thumb order)"
  unfolding authorize_all_def by (intro request_rules) (auto intro!: request_rules authz_keeps split: json.split)

lemma issue_keeps: "keeps_acme P (issue x c csr sv)"
  unfolding issue_def poll_valid_def
  by (intro request_rules account_keeps order_keeps)
     (auto intro!: request_rules authorize_keeps cleanup_keeps poll_keeps get_keeps split: prod.split)

end

subsection \<open>Nonces\<close>

text \<open>
  A certificate authority that never repeats a nonce: \<open>issued\<close> is what it has handed out. Nothing else takes a nonce back.
\<close>

definition fresh_nonces :: "'h acme_net \<Rightarrow> ('h \<Rightarrow> string set) \<Rightarrow> bool" where
  "fresh_nonces x issued \<longleftrightarrow>
     (\<forall>m u d h. issued h \<subseteq> issued (snd (an_http x m u d h)) \<and>
        (case fst (an_http x m u d h) of
           Answer _ hdrs _ \<Rightarrow>
             (case map_of hdrs ''Replay-Nonce'' of
                None \<Rightarrow> True | Some n \<Rightarrow> n \<noteq> [] \<longrightarrow> n \<notin> issued h \<and> n \<in> issued (snd (an_http x m u d h)))
         | _ \<Rightarrow> True)) \<and>
     (\<forall>p t h. issued h \<subseteq> issued (snd (an_write x p t h))) \<and> (\<forall>p h. issued h \<subseteq> issued (an_remove x p h)) \<and>
     (\<forall>k t h. issued h \<subseteq> issued (snd (an_nsupdate x k t h))) \<and> (\<forall>d h. issued h \<subseteq> issued (an_sleep x d h))"

definition nonce_inv :: "('h \<Rightarrow> string set) \<Rightarrow> 'h acme_state \<Rightarrow> bool" where
  "nonce_inv issued s \<longleftrightarrow>
     distinct (as_used s) \<and> set (as_used s) \<subseteq> issued (as_host s) \<and>
     (set_opt (as_nonce s) \<longrightarrow> or_empty (as_nonce s) \<in> issued (as_host s) - set (as_used s))"

lemma nonce_inv_host:
  assumes "nonce_inv issued s" "issued (as_host s) \<subseteq> issued h"
  shows "nonce_inv issued (s\<lparr>as_host := h\<rparr>)"
  using assms by (auto simp: nonce_inv_def)

lemma nonce_inv_other [simp]:
  "nonce_inv issued (s\<lparr>as_kid := k\<rparr>) = nonce_inv issued s" "nonce_inv issued (s\<lparr>as_dir := d\<rparr>) = nonce_inv issued s"
  "nonce_inv issued (s\<lparr>as_files := fs\<rparr>) = nonce_inv issued s" "nonce_inv issued (s\<lparr>as_records := rs\<rparr>) = nonce_inv issued s"
  by (simp_all add: nonce_inv_def)

lemma fresh_http:
  assumes "fresh_nonces x issued" "an_http x m u d h = (a, h')"
  shows "issued h \<subseteq> issued h'"
    "a = Answer st hdrs b \<Longrightarrow> map_of hdrs ''Replay-Nonce'' = Some n \<Longrightarrow> n \<noteq> [] \<Longrightarrow> n \<notin> issued h \<and> n \<in> issued h'"
  using assms(1) [unfolded fresh_nonces_def, THEN conjunct1, THEN spec [of _ m], THEN spec [of _ u], THEN spec [of _ d], THEN spec [of _ h]]
  by (simp_all add: assms(2))

lemma raw_nonce:
  assumes "fresh_nonces x issued" "nonce_inv issued s" "acme_raw x url meth d s = (r, s')"
  shows "nonce_inv issued s'" "as_nonce s' = as_nonce s" "as_used s' = as_used s"
    "\<And>st hdrs b. r = Inr (st, hdrs, b) \<Longrightarrow> set_opt (map_of hdrs ''Replay-Nonce'')
       \<Longrightarrow> or_empty (map_of hdrs ''Replay-Nonce'') \<in> issued (as_host s') - set (as_used s')"
proof -
  obtain a h where a: "an_http x meth url d (as_host s) = (a, h)" by fastforce
  note h = fresh_http [OF assms(1) a]
  have s': "s' = s\<lparr>as_host := h\<rparr>" and r: "\<And>v. r = Inr v \<Longrightarrow> a = Answer (fst v) (fst (snd v)) (snd (snd v))"
    using assms(3) a by (auto simp: acme_raw_def split: acme_answer.splits)
  show "nonce_inv issued s'" using nonce_inv_host [OF assms(2) h(1)] s' by simp
  show "as_nonce s' = as_nonce s" "as_used s' = as_used s" using s' by simp_all
  fix st hdrs b
  assume r': "r = Inr (st, hdrs, b)" "set_opt (map_of hdrs ''Replay-Nonce'')"
  then obtain n where n: "map_of hdrs ''Replay-Nonce'' = Some n" "n \<noteq> []" by (cases "map_of hdrs ''Replay-Nonce''") (auto simp: set_opt_def)
  then have "n \<notin> issued (as_host s) \<and> n \<in> issued h" using h(2) [OF r [OF r'(1)], of n] by simp
  then show "or_empty (map_of hdrs ''Replay-Nonce'') \<in> issued (as_host s') - set (as_used s')"
    using assms(2) s' n by (auto simp: nonce_inv_def)
qed

lemma directory_nonce:
  assumes "fresh_nonces x issued" "nonce_inv issued s" "directory x c s = (r, s')"
  shows "nonce_inv issued s'" "as_nonce s' = as_nonce s" "as_used s' = as_used s"
proof -
  let ?url = "ac_directory_url c"
  obtain q s1 where q: "acme_raw x ?url ''GET'' None s = (q, s1)" by fastforce
  note s1 = raw_nonce(1-3) [OF assms(1,2) q]
  have "nonce_inv issued s' \<and> as_nonce s' = as_nonce s \<and> as_used s' = as_used s"
    using assms(2,3) s1 q
    by (auto simp: directory_def from_state_def bind_def give_def fail_def escape_def modify_def parse_json_def
        split: option.splits sum.splits prod.splits if_splits)
  then show "nonce_inv issued s'" "as_nonce s' = as_nonce s" "as_used s' = as_used s" by simp_all
qed

lemma endpoint_nonce:
  assumes "fresh_nonces x issued" "nonce_inv issued s" "endpoint x c name s = (r, s')"
  shows "nonce_inv issued s'" "as_nonce s' = as_nonce s" "as_used s' = as_used s"
proof -
  obtain q s1 where q: "directory x c s = (q, s1)" by fastforce
  have "s' = s1"
    using assms(3) q by (auto simp: endpoint_def bind_def item_def as_text_def give_def escape_def split: sum.splits json.splits option.splits)
  then show "nonce_inv issued s'" "as_nonce s' = as_nonce s" "as_used s' = as_used s"
    using directory_nonce [OF assms(1,2) q] by simp_all
qed

text \<open>A nonce taken for a request has been issued, not sent, and is no longer kept.\<close>

lemma get_nonce_fresh:
  assumes "fresh_nonces x issued" "nonce_inv issued s" "get_nonce x c s = (r, s')"
  shows "nonce_inv issued s'" "r = Inr n \<Longrightarrow> n \<in> issued (as_host s') - set (as_used s')" "r = Inr n \<Longrightarrow> \<not> set_opt (as_nonce s')"
proof -
  have "nonce_inv issued s' \<and> (\<forall>n. r = Inr n \<longrightarrow> n \<in> issued (as_host s') - set (as_used s') \<and> \<not> set_opt (as_nonce s'))"
  proof (cases "set_opt (as_nonce s)")
    case True
    then have "r = Inr (or_empty (as_nonce s))" "s' = s\<lparr>as_nonce := None\<rparr>"
      using assms(3) by (auto simp: get_nonce_def from_state_def bind_def modify_def give_def)
    then show ?thesis using True assms(2) by (auto simp: nonce_inv_def set_opt_def)
  next
    case False
    obtain q s1 where q: "endpoint x c ''newNonce'' s = (q, s1)" by fastforce
    note s1 = endpoint_nonce [OF assms(1,2) q]
    show ?thesis
    proof (cases q)
      case (Inl err)
      then show ?thesis using q s1 assms(3) False by (auto simp: get_nonce_def from_state_def bind_def)
    next
      case (Inr url)
      obtain q2 s2 where q2: "acme_raw x url ''HEAD'' None s1 = (q2, s2)" by fastforce
      note s2 = raw_nonce [OF assms(1) s1(1) q2]
      show ?thesis
        using assms(3) q Inr q2 False s1 s2
        by (auto simp: get_nonce_def from_state_def bind_def Let_def give_def fail_def set_opt_def split: sum.splits if_splits option.splits)
    qed
  qed
  then show "nonce_inv issued s'" "r = Inr n \<Longrightarrow> n \<in> issued (as_host s') - set (as_used s')" "r = Inr n \<Longrightarrow> \<not> set_opt (as_nonce s')"
    by auto
qed

lemma jws_state: "snd (jws x c kid nonce url payload j s) = s"
  by (auto simp: jws_def sign_rs256_def run_openssl_def bind_def give_def fail_def escape_def Let_def split: prod.split sum.split option.split)

definition nonce_safe :: "'h acme_net \<Rightarrow> ('h \<Rightarrow> string set) \<Rightarrow> 'h acme_state \<Rightarrow> bool" where
  "nonce_safe x issued s \<longleftrightarrow> (fresh_nonces x issued \<longrightarrow> nonce_inv issued s)"

lemma nonce_safeI: "(fresh_nonces x issued \<Longrightarrow> nonce_inv issued s) \<Longrightarrow> nonce_safe x issued s"
  by (simp add: nonce_safe_def)

lemma spend_nonce:
  assumes "\<And>n data. keeps_acme (nonce_safe x issued) (k n data)"
  shows "keeps_acme (nonce_safe x issued) (bind (get_nonce x c) (\<lambda>n. bind (from_state (\<lambda>s. jws x c (as_kid s) n url payload j)) (\<lambda>data.
           bind (modify (\<lambda>s. s\<lparr>as_used := as_used s @ [n]\<rparr>)) (\<lambda>_. k n data))))" (is "keeps_acme _ ?m")
proof (rule keeps_acmeI, rule nonce_safeI)
  fix s assume "nonce_safe x issued s" and fresh: "fresh_nonces x issued"
  then have s: "nonce_inv issued s" by (simp add: nonce_safe_def)
  obtain r s1 where g: "get_nonce x c s = (r, s1)" by fastforce
  note s1 = get_nonce_fresh [OF fresh s g]
  show "nonce_inv issued (snd (?m s))"
  proof (cases r)
    case (Inl err)
    then show ?thesis using g s1(1) by (simp add: bind_def)
  next
    case (Inr n)
    obtain q where q: "jws x c (as_kid s1) n url payload j s1 = (q, s1)" using jws_state by (metis prod.collapse)
    let ?s = "s1\<lparr>as_used := as_used s1 @ [n]\<rparr>"
    have "nonce_inv issued ?s" using s1(1) s1(2) [OF Inr] s1(3) [OF Inr] by (auto simp: nonce_inv_def)
    then have "nonce_inv issued (snd (k n data ?s))" for data
      using keeps_acmeD [OF assms, of ?s n data] fresh by (simp add: nonce_safe_def)
    then show ?thesis using g q Inr s1(1) by (auto simp: bind_def from_state_def modify_def split: sum.split)
  qed
qed

lemma remember_reply:
  assumes "\<And>st hdrs b. keeps_acme (nonce_safe x issued) (k st hdrs b)"
  shows "keeps_acme (nonce_safe x issued) (bind (acme_raw x url meth d) (\<lambda>(st, hdrs, b). bind (remember_nonce hdrs) (\<lambda>_. k st hdrs b)))"
    (is "keeps_acme _ ?m")
proof (rule keeps_acmeI, rule nonce_safeI)
  fix s assume "nonce_safe x issued s" and fresh: "fresh_nonces x issued"
  then have s: "nonce_inv issued s" by (simp add: nonce_safe_def)
  obtain r s1 where g: "acme_raw x url meth d s = (r, s1)" by fastforce
  note s1 = raw_nonce [OF fresh s g]
  show "nonce_inv issued (snd (?m s))"
  proof (cases r)
    case (Inl err)
    then show ?thesis using g s1(1) by (simp add: bind_def)
  next
    case (Inr v)
    obtain st hdrs b where v: "r = Inr (st, hdrs, b)" using Inr by (cases v) auto
    let ?s = "snd (remember_nonce hdrs s1)"
    have "nonce_inv issued ?s" using s1(1) s1(4) [OF v] by (auto simp: nonce_inv_def remember_nonce_def modify_def)
    then have "nonce_inv issued (snd (k st hdrs b ?s))"
      using keeps_acmeD [OF assms, of ?s st hdrs b] fresh by (simp add: nonce_safe_def)
    then show ?thesis using g v by (simp add: bind_def remember_nonce_def modify_def)
  qed
qed

lemma signed_post_nonce: "keeps_acme (nonce_safe x issued) (signed_post x c url payload j r)"
proof -
  have last_try: "keeps_acme (nonce_safe x issued) (signed_post x c url payload j False)"
    by (subst signed_post.simps) (auto intro!: spend_nonce remember_reply acme_keeps simp: Let_def)
  show ?thesis
    by (subst signed_post.simps) (auto intro!: spend_nonce remember_reply acme_keeps last_try simp: Let_def)
qed

lemma fresh_parts:
  assumes "fresh_nonces x issued"
  shows "issued h \<subseteq> issued (snd (an_write x p t h))" "issued h \<subseteq> issued (an_remove x p h)"
    "issued h \<subseteq> issued (snd (an_nsupdate x k t h))" "issued h \<subseteq> issued (an_sleep x d h)"
  using assms unfolding fresh_nonces_def by simp_all

lemma fresh_removals: "fresh_nonces x issued \<Longrightarrow> issued h \<subseteq> issued (fold (an_remove x) ps h)"
  by (induction ps arbitrary: h) (auto dest: fresh_parts(2))

lemma host_nonce:
  "nonce_safe x issued s \<Longrightarrow> (fresh_nonces x issued \<Longrightarrow> issued (as_host s) \<subseteq> issued h) \<Longrightarrow> nonce_safe x issued (s\<lparr>as_host := h\<rparr>)"
  by (auto simp: nonce_safe_def intro: nonce_inv_host)

lemma nsupdate_host: "\<exists>k t. snd (nsupdate x server port name secret algo ls s) = s\<lparr>as_host := snd (an_nsupdate x k t (as_host s))\<rparr>"
  by (intro exI [of _ "algo @ '':'' @ name @ '':'' @ secret"]
        exI [of _ "''server '' @ server @ '' '' @ int_str port @ [nl] @ join [nl] ls @ [nl] @ ''send'' @ [nl]"])
     (simp add: nsupdate_def Let_def split: prod.split option.split)

lemma nsupdate_nonce: "keeps_acme (nonce_safe x issued) (nsupdate x server port name secret algo ls)"
proof (rule keeps_acmeI)
  fix s assume s: "nonce_safe x issued s"
  obtain k t where "snd (nsupdate x server port name secret algo ls s) = s\<lparr>as_host := snd (an_nsupdate x k t (as_host s))\<rparr>"
    using nsupdate_host by blast
  then show "nonce_safe x issued (snd (nsupdate x server port name secret algo ls s))"
    by (simp only:) (intro host_nonce s fresh_parts(3))
qed

lemma nonce_safe_other:
  "nonce_safe x issued (s\<lparr>as_records := rs, as_host := h\<rparr>) = nonce_safe x issued (s\<lparr>as_host := h\<rparr>)"
  "nonce_safe x issued (s\<lparr>as_host := h, as_files := fs\<rparr>) = nonce_safe x issued (s\<lparr>as_host := h\<rparr>)"
  "nonce_safe x issued (s\<lparr>as_records := rs\<rparr>) = nonce_safe x issued s" "nonce_safe x issued (s\<lparr>as_kid := k\<rparr>) = nonce_safe x issued s"
  by (simp_all add: nonce_safe_def nonce_inv_def)

lemma dns_update_nonce: "keeps_acme (nonce_safe x issued) (dns_update x sv ls)"
  by (auto simp: dns_update_def intro: nsupdate_nonce acme_keeps split: solver.split)

lemma setup_nonce: "keeps_acme (nonce_safe x issued) (solver_setup x sv domain token ka)"
proof (cases sv)
  case (Http01Webroot root)
  have "nonce_safe x issued (snd (webroot_setup x root token ka s))" if "nonce_safe x issued s" for s
  proof -
    let ?p = "path_join (path_join (path_join root ''.well-known'') ''acme-challenge'') token"
    have "nonce_safe x issued (s\<lparr>as_host := snd (an_write x ?p ka (as_host s))\<rparr>)"
      by (intro host_nonce that fresh_parts(1))
    then show ?thesis
      by (cases "an_write x ?p ka (as_host s)") (simp add: webroot_setup_def Let_def nonce_safe_other split: option.split)
  qed
  then show ?thesis by (simp add: Http01Webroot solver_setup_def keeps_acme_def)
next
  case Dns01Rfc2136
  have "keeps_acme (nonce_safe x issued) (modify (\<lambda>s. s\<lparr>as_records := as_records s @ [rv],
          as_host := (if d' = 0 then as_host s else an_sleep x d (as_host s))\<rparr>))" for rv d d'
    by (auto simp: keeps_acme_def modify_def nonce_safe_other intro!: host_nonce fresh_parts(4) [THEN subsetD])
  then show ?thesis
    by (auto simp: Dns01Rfc2136 solver_setup_def dns_setup_def Let_def intro!: acme_keeps dns_update_nonce)
qed

lemma dns_delete_nonce: "keeps_acme (nonce_safe x issued) (dns_delete x sv rv)"
proof (rule keeps_acmeI)
  fix s assume "nonce_safe x issued s"
  then have "nonce_safe x issued (snd (dns_update x sv ls s))" for ls by (rule keeps_acmeD [OF dns_update_nonce])
  then show "nonce_safe x issued (snd (dns_delete x sv rv s))"
    by (auto simp: dns_delete_def split: prod.split sum.split acme_error.split) (metis snd_conv)+
qed

lemma cleanup_nonce: "keeps_acme (nonce_safe x issued) (solver_cleanup x sv)"
proof (cases sv)
  case (Http01Webroot root)
  then show ?thesis
    by (auto simp: solver_cleanup_def webroot_cleanup_def keeps_acme_def nonce_safe_other intro!: host_nonce fresh_removals [THEN subsetD])
next
  case Dns01Rfc2136
  have "keeps_acme (nonce_safe x issued) (modify (\<lambda>s. s\<lparr>as_records := []\<rparr>))"
    by (simp add: keeps_acme_def modify_def nonce_safe_other)
  then show ?thesis by (auto simp: Dns01Rfc2136 solver_cleanup_def dns_cleanup_def intro!: acme_keeps dns_delete_nonce)
qed

interpretation nonces: acme_order x "nonce_safe x issued" for x issued
proof
  show "keeps_acme (nonce_safe x issued) (directory x c)" for c
  proof (rule keeps_acmeI, rule nonce_safeI)
    fix s assume "nonce_safe x issued s" "fresh_nonces x issued"
    then show "nonce_inv issued (snd (directory x c s))"
      using directory_nonce(1) [of x issued s c] by (metis nonce_safe_def prod.collapse)
  qed
  show "nonce_safe x issued (s\<lparr>as_host := an_sleep x d (as_host s)\<rparr>)" if "nonce_safe x issued s" for d s
    by (intro host_nonce that fresh_parts(4))
qed (simp_all add: signed_post_nonce nonce_safe_other setup_nonce cleanup_nonce)

text \<open>The client's public operations, and a run of them.\<close>

datatype acme_call = IssueCall string solver | RevokeCall string int | TestCall

definition acme_call :: "'h acme_net \<Rightarrow> acme_client \<Rightarrow> acme_call \<Rightarrow> 'h acme_state \<Rightarrow> 'h acme_state" where
  "acme_call x c op s =
     (case op of
        IssueCall csr sv \<Rightarrow> snd (issue x c csr sv s)
      | RevokeCall cert reason \<Rightarrow> snd (revoke x c cert reason s)
      | TestCall \<Rightarrow> snd (test x c s))"

definition acme_calls :: "'h acme_net \<Rightarrow> acme_client \<Rightarrow> acme_call list \<Rightarrow> 'h acme_state \<Rightarrow> 'h acme_state" where
  "acme_calls x c ops s = fold (acme_call x c) ops s"

lemma calls_nonce: "nonce_safe x issued s \<Longrightarrow> nonce_safe x issued (acme_calls x c ops s)"
  unfolding acme_calls_def
  by (induction ops arbitrary: s)
     (auto simp: acme_call_def keeps_acmeD [OF nonces.issue_keeps] keeps_acmeD [OF nonces.revoke_keeps]
        keeps_acmeD [OF nonces.test_keeps] split: acme_call.split)

definition new_client :: "'h \<Rightarrow> 'h acme_state" where
  "new_client h = \<lparr>as_host = h, as_dir = None, as_nonce = None, as_kid = None, as_files = [], as_records = [], as_used = []\<rparr>"

text \<open>
  C24: no nonce is sent twice. With a certificate authority that never hands out the same nonce again, however many
  certificates a client requests, revokes or tests for, through retries, polling and errors, every signed request carries a nonce of its
  own, and one the authority handed out.
\<close>

theorem nonces_sent_once:
  assumes "fresh_nonces x issued"
  shows "distinct (as_used (acme_calls x c ops (new_client h))) \<and>
         set (as_used (acme_calls x c ops (new_client h))) \<subseteq> issued (as_host (acme_calls x c ops (new_client h)))"
proof -
  have "nonce_safe x issued (new_client h)" by (simp add: nonce_safe_def nonce_inv_def new_client_def set_opt_def)
  from calls_nonce [OF this] show ?thesis using assms by (simp add: nonce_safe_def nonce_inv_def)
qed

text \<open>An authority that numbers its nonces and answers every request with its directory.\<close>

definition counting_net :: "nat acme_net" where
  "counting_net =
     \<lparr>an_env = quiet_env\<lparr>json_loads := (\<lambda>_. Some (JObj (map (\<lambda>k. (k, JStr ''https://ca/x'')) [''newNonce'', ''newAccount'', ''revokeCert''])))\<rparr>,
      an_http = (\<lambda>m u d n. (Answer 200 [(''Replay-Nonce'', nat_str (Suc n)), (''Location'', ''https://ca/acct/1'')] [], Suc n)),
      an_compact = (\<lambda>_. ''{}''), an_digest = (\<lambda>s. s), an_hmac = (\<lambda>k s. s), an_bytes = (\<lambda>s. s),
      an_write = (\<lambda>p t n. (None, n)), an_remove = (\<lambda>p n. n), an_nsupdate = (\<lambda>k t n. (Some (0, []), n)), an_sleep = (\<lambda>d n. n)\<rparr>"

lemma counting_fresh: "fresh_nonces counting_net (\<lambda>n. nat_str ` {1..n})"
  by (auto simp: fresh_nonces_def counting_net_def)

definition plain_client :: acme_client where
  "plain_client =
     \<lparr>ac_directory_url = ''https://ca/dir'', ac_account_key = ''k'', ac_contact_email = [], ac_eab_kid = [], ac_eab_hmac = [], ac_jwk = JObj []\<rparr>"

theorem nonces_sent_once_witness:
  "distinct (as_used (acme_calls counting_net plain_client [TestCall, RevokeCall ''cert'' 1] (new_client 0))) \<and>
   set (as_used (acme_calls counting_net plain_client [TestCall, RevokeCall ''cert'' 1] (new_client 0)))
     \<subseteq> nat_str ` {1..as_host (acme_calls counting_net plain_client [TestCall, RevokeCall ''cert'' 1] (new_client 0))}"
  by (rule nonces_sent_once [OF counting_fresh])

end
