(* ===== verification/AcmeOrder.thy ===== *)
theory AcmeOrder
  imports AcmeSafety
begin

text \<open>
  More of what holds of the ACME client's runs: a bound on the signed requests, the removal of challenge files, and two
  ways in which what the authority sends decides more than it should.
\<close>

subsection \<open>How many requests\<close>

definition posts :: "nat \<Rightarrow> ('h, 'a) acme \<Rightarrow> bool" where
  "posts k m \<longleftrightarrow> (\<forall>s. length (as_used (snd (m s))) \<le> length (as_used s) + k)"

named_theorems post_rules

lemma posts_mono: "posts k m \<Longrightarrow> k \<le> n \<Longrightarrow> posts n m"
  unfolding posts_def by (meson add_left_mono order_trans)

lemma posts_none: "(\<And>s. as_used (snd (m s)) = as_used s) \<Longrightarrow> posts 0 m"
  by (simp add: posts_def)

lemma posts_bind:
  assumes "posts a m" "\<And>v. posts b (f v)"
  shows "posts (a + b) (bind m f)"
proof -
  have "length (as_used (snd (bind m f s))) \<le> length (as_used s) + (a + b)" for s
  proof (cases "m s")
    case (Pair r s1)
    have a: "length (as_used s1) \<le> length (as_used s) + a" using assms(1) Pair by (metis posts_def snd_conv)
    have b: "length (as_used (snd (f v s1))) \<le> length (as_used s1) + b" for v using assms(2) by (simp add: posts_def)
    have "length (as_used (snd (f v s1))) \<le> length (as_used s) + (a + b)" for v using a b [of v] by linarith
    then show ?thesis using Pair a by (auto simp: bind_def split: sum.split)
  qed
  then show ?thesis by (simp add: posts_def)
qed

lemma posts_bind0: "posts 0 m \<Longrightarrow> (\<And>v. posts b (f v)) \<Longrightarrow> posts b (bind m f)"
  using posts_bind [of 0 m b f] by simp

lemma posts_if: "posts k m \<Longrightarrow> posts k n \<Longrightarrow> posts k (if b then m else n)"
  by simp

lemma posts_give: "posts k (give v)" "posts k (fail msg)" "posts k (escape err)"
  by (simp_all add: posts_def give_def fail_def escape_def)

lemma posts_from_state: "(\<And>s. posts k (f s)) \<Longrightarrow> posts k (from_state f)"
  by (simp add: posts_def from_state_def)

lemma used_kept: "keeps_acme (\<lambda>s. as_used s = u) m \<Longrightarrow> as_used s = u \<Longrightarrow> as_used (snd (m s)) = u"
  by (rule keeps_acmeD)

lemma posts_keeps: "(\<And>u. keeps_acme (\<lambda>s. as_used s = u) m) \<Longrightarrow> posts k m"
  by (auto simp: posts_def keeps_acme_def)

lemma raw_used: "keeps_acme (\<lambda>s. as_used s = u) (acme_raw x url meth d)"
  by (auto simp: keeps_acme_def acme_raw_def split: prod.split acme_answer.split)

lemma modify_used: "(\<And>s. as_used (f s) = as_used s) \<Longrightarrow> keeps_acme (\<lambda>s. as_used s = u) (modify f)"
  by (simp add: keeps_acme_def modify_def)

lemma directory_used: "keeps_acme (\<lambda>s. as_used s = u) (directory x c)"
  unfolding directory_def
  by (intro acme_keeps) (auto intro!: acme_keeps raw_used modify_used split: option.split prod.split)

lemma endpoint_used: "keeps_acme (\<lambda>s. as_used s = u) (endpoint x c name)"
  unfolding endpoint_def by (intro acme_keeps directory_used)

lemma get_nonce_used: "keeps_acme (\<lambda>s. as_used s = u) (get_nonce x c)"
  unfolding get_nonce_def
  by (intro acme_keeps endpoint_used modify_used) (auto intro!: acme_keeps raw_used modify_used endpoint_used simp: Let_def split: prod.split)

lemma posts_spend: "posts 1 (modify (\<lambda>s. s\<lparr>as_used := as_used s @ [n]\<rparr>))"
  by (simp add: posts_def modify_def)

lemma posts_case_prod: "(\<And>a b. posts k (f a b)) \<Longrightarrow> posts k (case v of (a, b) \<Rightarrow> f a b)"
  by (cases v) simp

lemma quiet_posts:
  "posts k (get_nonce x c)" "posts k (acme_raw x url meth d)" "posts k (remember_nonce hdrs)" "posts k (from_state (\<lambda>s. jws x c (as_kid s) n url payload j))"
  "posts k (problem_type prob)" "posts k (get_item key prob)" "posts k (endpoint x c name)" "posts k (directory x c)" "posts k (item key prob)"
  "posts k (parse_json x t)" "posts k (as_text prob)" "posts k (eab x c url)" "posts k (find_challenge kind chs)" "posts k (csr_identifiers x csr)"
  "posts k (csr_pem_to_der_b64u x csr)" "posts k (cert_pem_to_der_b64u x csr)" "posts k (acme_split_chain t)"
  by (auto intro!: posts_keeps acme_keeps get_nonce_used raw_used modify_used endpoint_used directory_used simp: remember_nonce_def)

lemma posts_modify: "(\<And>s. as_used (f s) = as_used s) \<Longrightarrow> posts k (modify f)"
  by (rule posts_keeps) (rule modify_used)

lemmas posts_intros = posts_bind posts_case_prod posts_if posts_give quiet_posts posts_from_state

lemma posts_last_try: "posts (0 + (0 + (1 + (0 + (0 + 0))))) (signed_post x c url payload j False)"
  by (subst signed_post.simps) (intro posts_bind posts_case_prod quiet_posts posts_spend posts_if posts_give, simp add: Let_def posts_bind0 quiet_posts posts_give)

lemma posts_signed: "posts 2 (signed_post x c url payload j r)"
proof -
  have last_try: "posts 1 (signed_post x c url payload j False)" using posts_last_try by simp
  have "posts (0 + (0 + (1 + (0 + (0 + (0 + 1)))))) (signed_post x c url payload j r)"
    by (subst signed_post.simps, unfold Let_def, intro posts_bind posts_case_prod quiet_posts posts_spend posts_if posts_give last_try)
  then show ?thesis by (simp add: numeral_2_eq_2)
qed

lemma posts_get: "posts 2 (post_as_get x c url)"
proof -
  have "posts (2 + 0) (post_as_get x c url)"
    unfolding post_as_get_def by (intro posts_bind posts_signed posts_case_prod posts_give)
  then show ?thesis by simp
qed

lemma posts_poll: "posts (2 * n) (poll x c url want n)"
proof (induction n)
  case (Suc n)
  have "posts (2 + (0 + (0 + (0 + 2 * n)))) (poll x c url want (Suc n))"
    unfolding poll.simps
    by (intro posts_bind posts_get quiet_posts posts_if posts_give posts_modify Suc.IH) simp
  then show ?case by simp
qed (simp add: posts_give)

lemma posts_poll_valid: "posts 40 (poll_valid x c url)"
  using posts_poll [of POLL_TRIES x c url "[''valid'']"] by (simp add: poll_valid_def POLL_TRIES_def)

lemma posts_register: "posts 2 (register x c)"
proof -
  have "posts (0 + (0 + (2 + 0))) (register x c)"
    unfolding register_def
    by (intro posts_bind posts_signed posts_case_prod posts_if posts_give quiet_posts posts_modify)
       (auto intro!: posts_bind0 quiet_posts posts_give posts_modify)
  then show ?thesis by (simp add: numeral_2_eq_2)
qed

lemma posts_account: "posts 2 (ensure_account x c)"
proof -
  have "posts (2 + 0) (ensure_account x c)"
    unfolding ensure_account_def by (intro posts_from_state posts_if posts_bind posts_register posts_give)
  then show ?thesis by simp
qed

lemma posts_order: "posts 2 (new_order x c domains)"
proof -
  have "posts (0 + (2 + (0 + 0))) (new_order x c domains)"
    unfolding new_order_def
    by (intro posts_bind posts_signed posts_case_prod posts_if posts_give quiet_posts)
  then show ?thesis by (simp add: numeral_2_eq_2)
qed

lemma dns_update_used: "keeps_acme (\<lambda>s. as_used s = u) (dns_update x sv ls)"
  by (auto simp: keeps_acme_def dns_update_def nsupdate_def give_def Let_def split: solver.split prod.split option.split)

lemma posts_setup: "posts k (solver_setup x sv domain token ka)"
  by (rule posts_keeps, cases sv)
     (auto simp: solver_setup_def dns_setup_def webroot_setup_def keeps_acme_def Let_def split: prod.split option.split
       intro!: keeps_acmeD [OF unasked_bind [OF dns_update_used modify_used]])

lemma posts_cleanup: "posts k (solver_cleanup x sv)"
proof (rule posts_keeps)
  fix u
  have "keeps_acme (\<lambda>s. as_used s = u) (dns_delete x sv rv)" for rv
  proof (rule keeps_acmeI)
    fix s :: "'a acme_state" assume "as_used s = u"
    then have "as_used (snd (dns_update x sv ls s)) = u" for ls by (rule keeps_acmeD [OF dns_update_used])
    then show "as_used (snd (dns_delete x sv rv s)) = u"
      by (auto simp: dns_delete_def split: prod.split sum.split acme_error.split) (metis snd_conv)+
  qed
  then show "keeps_acme (\<lambda>s. as_used s = u) (solver_cleanup x sv)"
    by (cases sv) (auto simp: solver_cleanup_def dns_cleanup_def webroot_cleanup_def intro!: acme_keeps modify_used simp: keeps_acme_def [of _ "webroot_cleanup x"])
qed

lemma posts_option: "posts k m \<Longrightarrow> (\<And>v. posts k (f v)) \<Longrightarrow> posts k (case q of None \<Rightarrow> m | Some v \<Rightarrow> f v)"
  by (cases q) simp_all

lemma posts_array: "posts k m \<Longrightarrow> (\<And>vs. posts k (f vs)) \<Longrightarrow> posts k (case q of JArr vs \<Rightarrow> f vs | _ \<Rightarrow> m)"
  by (cases q) simp_all

lemma posts_authz: "posts 44 (do_authz x c sv thumb url)"
proof -
  have "posts (2 + (0 + (0 + (0 + (0 + (0 + (0 + (0 + (0 + (0 + (0 + (0 + (0 + (2 + (40 + 0))))))))))))))) (do_authz x c sv thumb url)"
    unfolding do_authz_def
    by (intro posts_bind posts_get quiet_posts posts_if posts_give posts_option posts_array posts_setup posts_signed posts_poll_valid)
  then show ?thesis by simp
qed

lemma posts_each: "(\<And>v. v \<in> set vs \<Longrightarrow> posts k (f v)) \<Longrightarrow> posts (length vs * k) (each f vs)"
proof (induction vs)
  case (Cons v vs)
  have "posts (k + length vs * k) (each f (v # vs))"
    unfolding each.simps using Cons by (intro posts_bind) auto
  then show ?case by simp
qed (simp add: posts_give)

lemma posts_ensuring: "posts k m \<Longrightarrow> (\<And>n. posts n after) \<Longrightarrow> posts k (ensuring m after)"
  unfolding posts_def ensuring_def
  by (auto split: prod.split sum.split) (metis add.right_neutral le_trans snd_conv)+

text \<open>How many authorizations an order asks for, and the longest list in any answer of the authority.\<close>

definition short_orders :: "'h acme_net \<Rightarrow> nat \<Rightarrow> bool" where
  "short_orders x n \<longleftrightarrow>
     (\<forall>t j. json_loads (an_env x) t = Some j \<longrightarrow> (case jget ''authorizations'' j of JArr urls \<Rightarrow> length urls \<le> n | _ \<Rightarrow> True))"

lemma bind_give: "bind (give v) f = f v"
  by (simp add: bind_def give_def fun_eq_iff)

lemma posts_authorize:
  assumes "case jget ''authorizations'' order of JArr urls \<Rightarrow> length urls \<le> n | _ \<Rightarrow> True"
  shows "posts (44 * n) (authorize_all x c sv thumb order)"
proof (cases "\<exists>kvs urls. order = JObj kvs \<and> map_of kvs ''authorizations'' = Some (JArr urls)")
  case True
  then obtain kvs urls where o: "order = JObj kvs" "map_of kvs ''authorizations'' = Some (JArr urls)" by blast
  have "posts (0 + 44) (bind (as_text u) (do_authz x c sv thumb))" for u by (intro posts_bind quiet_posts posts_authz)
  then have all: "posts (length urls * 44) (each (\<lambda>u. bind (as_text u) (do_authz x c sv thumb)) urls)"
    by (intro posts_each) simp
  have "length urls * 44 \<le> 44 * n" using assms o by simp
  from posts_mono [OF all this]
  have "posts (44 * n) (each (\<lambda>u. bind (as_text u) (do_authz x c sv thumb)) urls)" .
  then show ?thesis by (simp only: authorize_all_def item_def o json.case option.case bind_give)
next
  case False
  then have "posts 0 (authorize_all x c sv thumb order)"
    by (auto simp: authorize_all_def item_def posts_def bind_def escape_def give_def split: json.split option.split)
  then show ?thesis by (rule posts_mono) simp
qed

lemma order_parsed: "new_order x c ds s = (Inr (u, order), s') \<Longrightarrow> \<exists>t. json_loads (an_env x) t = Some order"
  by (auto simp: new_order_def bind_def parse_json_def give_def fail_def escape_def split: sum.splits prod.splits if_splits option.splits)

lemma posts_bind_result:
  assumes "posts a m" "\<And>s v s'. m s = (Inr v, s') \<Longrightarrow> posts b (f v)"
  shows "posts (a + b) (bind m f)"
proof -
  have "length (as_used (snd (bind m f s))) \<le> length (as_used s) + (a + b)" for s
  proof (cases "m s")
    case (Pair r s1)
    have a: "length (as_used s1) \<le> length (as_used s) + a" using assms(1) Pair by (metis posts_def snd_conv)
    show ?thesis
    proof (cases r)
      case (Inr v)
      then have "length (as_used (snd (f v s1))) \<le> length (as_used s1) + b" using assms(2) Pair by (simp add: posts_def)
      then show ?thesis using Pair Inr a by (simp add: bind_def)
    qed (use Pair a in \<open>simp add: bind_def\<close>)
  qed
  then show ?thesis by (simp add: posts_def)
qed


lemma counting_orders: "short_orders counting_net 0"
  by (simp add: short_orders_def counting_net_def)


subsection \<open>Challenge files\<close>

text \<open>
  Which files exist: writing a file adds that file or, when it fails, nothing; removing one removes it; requests, DNS
  updates and waiting touch none.
\<close>

definition file_laws :: "'h acme_net \<Rightarrow> ('h \<Rightarrow> string set) \<Rightarrow> bool" where
  "file_laws x files \<longleftrightarrow>
     (\<forall>m u d h. files (snd (an_http x m u d h)) = files h) \<and> (\<forall>k t h. files (snd (an_nsupdate x k t h)) = files h) \<and>
     (\<forall>d h. files (an_sleep x d h) = files h) \<and> (\<forall>p h. files (an_remove x p h) = files h - {p}) \<and>
     (\<forall>p t h. files (snd (an_write x p t h)) \<subseteq> (if fst (an_write x p t h) = None then insert p (files h) else files h))"

text \<open>No file but the old ones and those the solver remembers.\<close>

definition remembered :: "'h acme_net \<Rightarrow> ('h \<Rightarrow> string set) \<Rightarrow> string set \<Rightarrow> 'h acme_state \<Rightarrow> bool" where
  "remembered x files old s \<longleftrightarrow> (file_laws x files \<longrightarrow> files (as_host s) \<subseteq> old \<union> set (as_files s))"

definition tidy :: "'h acme_net \<Rightarrow> ('h \<Rightarrow> string set) \<Rightarrow> string set \<Rightarrow> 'h acme_state \<Rightarrow> bool" where
  "tidy x files old s \<longleftrightarrow> remembered x files old s \<and> as_files s = []"

text \<open>What the requests do not touch: the remembered files, and the files there are.\<close>

definition same_files :: "'h acme_net \<Rightarrow> ('h \<Rightarrow> string set) \<Rightarrow> string list \<Rightarrow> string set \<Rightarrow> 'h acme_state \<Rightarrow> bool" where
  "same_files x files fs now s \<longleftrightarrow> as_files s = fs \<and> (file_laws x files \<longrightarrow> files (as_host s) = now)"

lemma same_host:
  "same_files x files fs now s \<Longrightarrow> (file_laws x files \<Longrightarrow> files h = files (as_host s)) \<Longrightarrow> same_files x files fs now (s\<lparr>as_host := h\<rparr>)"
  by (simp add: same_files_def)

lemma file_parts:
  assumes "file_laws x files"
  shows "files (snd (an_http x m u d h)) = files h" "files (snd (an_nsupdate x k t h)) = files h" "files (an_sleep x w h) = files h"
    "files (an_remove x p h) = files h - {p}"
  using assms by (simp_all add: file_laws_def)

lemma file_written:
  assumes "file_laws x files"
  shows "fst (an_write x p t h) = None \<Longrightarrow> files (snd (an_write x p t h)) \<subseteq> insert p (files h)"
    "fst (an_write x p t h) \<noteq> None \<Longrightarrow> files (snd (an_write x p t h)) \<subseteq> files h"
proof -
  have "files (snd (an_write x p t h)) \<subseteq> (if fst (an_write x p t h) = None then insert p (files h) else files h)"
    using assms unfolding file_laws_def by blast
  then show "fst (an_write x p t h) = None \<Longrightarrow> files (snd (an_write x p t h)) \<subseteq> insert p (files h)"
    "fst (an_write x p t h) \<noteq> None \<Longrightarrow> files (snd (an_write x p t h)) \<subseteq> files h"
    by (simp_all only: if_True if_False refl simp_thms)
qed

lemma raw_same: "keeps_acme (same_files x files fs now) (acme_raw x url meth d)"
proof (rule keeps_acmeI)
  fix s assume s: "same_files x files fs now s"
  have "snd (acme_raw x url meth d s) = s\<lparr>as_host := snd (an_http x meth url d (as_host s))\<rparr>"
    by (simp add: acme_raw_def split: prod.split acme_answer.split)
  then show "same_files x files fs now (snd (acme_raw x url meth d s))" by (simp add: same_host [OF s] file_parts)
qed

lemma modify_same: "(\<And>s. as_files (f s) = as_files s \<and> as_host (f s) = as_host s) \<Longrightarrow> keeps_acme (same_files x files fs now) (modify f)"
  by (simp add: keeps_acme_def modify_def same_files_def)

lemma directory_same: "keeps_acme (same_files x files fs now) (directory x c)"
  unfolding directory_def
  by (intro acme_keeps) (auto intro!: acme_keeps raw_same modify_same split: option.split prod.split)

lemma get_nonce_same: "keeps_acme (same_files x files fs now) (get_nonce x c)"
  unfolding get_nonce_def endpoint_def
  by (intro acme_keeps directory_same modify_same) (auto intro!: acme_keeps raw_same modify_same directory_same simp: Let_def split: prod.split)

lemma signed_same: "keeps_acme (same_files x files fs now) (signed_post x c url payload j r)"
proof -
  have last_try: "keeps_acme (same_files x files fs now) (signed_post x c url payload j False)"
    by (subst signed_post.simps) (auto intro!: acme_keeps get_nonce_same raw_same modify_same simp: Let_def remember_nonce_def)
  show ?thesis
    by (subst signed_post.simps) (auto intro!: acme_keeps get_nonce_same raw_same modify_same last_try simp: Let_def remember_nonce_def)
qed

interpretation same: acme_requests x "same_files x files fs now" for x files fs now
proof
  show "same_files x files fs now (s\<lparr>as_host := an_sleep x d (as_host s)\<rparr>)" if "same_files x files fs now s" for s d
    by (intro same_host that file_parts)
qed (simp_all add: directory_same signed_same, simp add: same_files_def)

lemma same_keeps:
  assumes "\<And>fs now. keeps_acme (same_files x files fs now) m"
  shows "keeps_acme (remembered x files old) m" "keeps_acme (tidy x files old) m"
proof -
  have same: "same_files x files (as_files s) (files (as_host s)) (snd (m s))" for s
    by (rule keeps_acmeD [OF assms]) (simp add: same_files_def)
  show "keeps_acme (remembered x files old) m" "keeps_acme (tidy x files old) m"
    using same unfolding keeps_acme_def remembered_def tidy_def same_files_def by auto
qed

lemma remembered_host:
  "remembered x files old s \<Longrightarrow> (file_laws x files \<Longrightarrow> files h \<subseteq> files (as_host s)) \<Longrightarrow> remembered x files old (s\<lparr>as_host := h\<rparr>)"
  by (fastforce simp: remembered_def)

lemma nsupdate_remembered: "keeps_acme (remembered x files old) (nsupdate x server port name secret algo ls)"
proof (rule keeps_acmeI)
  fix s assume s: "remembered x files old s"
  obtain k t where "snd (nsupdate x server port name secret algo ls s) = s\<lparr>as_host := snd (an_nsupdate x k t (as_host s))\<rparr>"
    using nsupdate_host by blast
  then show "remembered x files old (snd (nsupdate x server port name secret algo ls s))"
    by (simp add: remembered_host [OF s] file_parts)
qed

lemma removed_files: "file_laws x files \<Longrightarrow> files (fold (an_remove x) ps h) = files h - set ps"
  by (induction ps arbitrary: h) (auto simp: file_parts(4))

lemma webroot_cleanup_tidy: "remembered x files old s \<Longrightarrow> tidy x files old (snd (webroot_cleanup x s))"
  by (auto simp: webroot_cleanup_def tidy_def remembered_def removed_files)

lemma webroot_setup_remembered: "keeps_acme (remembered x files old) (webroot_setup x root token ka)"
proof (rule keeps_acmeI)
  fix s assume s: "remembered x files old s"
  define p where "p = path_join (path_join (path_join root ''.well-known'') ''acme-challenge'') token"
  obtain r h where w: "an_write x p ka (as_host s) = (r, h)" by fastforce
  show "remembered x files old (snd (webroot_setup x root token ka s))"
    using s file_written [of x files p ka "as_host s"] w
    by (cases r) (auto simp: webroot_setup_def Let_def remembered_def simp flip: p_def)
qed

lemma dns_remembered:
  "keeps_acme (remembered x files old) (dns_setup x sv domain ka)" "keeps_acme (remembered x files old) (dns_cleanup x sv)"
proof -
  have u: "keeps_acme (remembered x files old) (dns_update x sv ls)" for ls
    by (auto simp: dns_update_def intro: nsupdate_remembered acme_keeps split: solver.split)
  have m: "keeps_acme (remembered x files old) (modify (\<lambda>s. s\<lparr>as_records := f s, as_host := (if d' = 0 then as_host s else an_sleep x d (as_host s))\<rparr>))"
    "keeps_acme (remembered x files old) (modify (\<lambda>s. s\<lparr>as_records := []\<rparr>))" for f d d'
    by (auto simp: keeps_acme_def modify_def remembered_def file_parts)
  have "keeps_acme (remembered x files old) (dns_delete x sv rv)" for rv
  proof (rule keeps_acmeI)
    fix s assume "remembered x files old s"
    then have "remembered x files old (snd (dns_update x sv ls s))" for ls by (rule keeps_acmeD [OF u])
    then show "remembered x files old (snd (dns_delete x sv rv s))"
      by (auto simp: dns_delete_def split: prod.split sum.split acme_error.split) (metis snd_conv)+
  qed
  then show "keeps_acme (remembered x files old) (dns_setup x sv domain ka)" "keeps_acme (remembered x files old) (dns_cleanup x sv)"
    by (auto simp: dns_setup_def dns_cleanup_def Let_def intro!: acme_keeps u m)
qed

interpretation files: acme_order x "remembered x files old" for x files old
proof
  show "remembered x files old (s\<lparr>as_host := an_sleep x d (as_host s)\<rparr>)" if "remembered x files old s" for s d
    by (intro remembered_host that) (simp add: file_parts)
  show "keeps_acme (remembered x files old) (solver_setup x sv domain token ka)" for sv domain token ka
    by (cases sv) (simp_all add: solver_setup_def webroot_setup_remembered dns_remembered)
  show "keeps_acme (remembered x files old) (solver_cleanup x sv)" for sv
    using webroot_cleanup_tidy keeps_acmeD [OF dns_remembered(2)]
    by (intro keeps_acmeI, cases sv) (auto simp: solver_cleanup_def tidy_def)
qed (simp_all add: same_keeps [OF directory_same] same_keeps [OF signed_same], simp add: remembered_def)

lemma authorize_tidy: "keeps_acme (tidy x files old) (ensuring (authorize_all x c (Http01Webroot root) thumb order) (solver_cleanup x (Http01Webroot root)))"
proof (rule keeps_acmeI)
  fix s assume "tidy x files old s"
  then have "remembered x files old (snd (authorize_all x c (Http01Webroot root) thumb order s))"
    by (intro keeps_acmeD [OF files.authorize_keeps]) (simp add: tidy_def)
  from webroot_cleanup_tidy [OF this]
  show "tidy x files old (snd (ensuring (authorize_all x c (Http01Webroot root) thumb order) (solver_cleanup x (Http01Webroot root)) s))"
    by (auto simp: ensuring_def solver_cleanup_def webroot_cleanup_def split: prod.split)
qed

lemma issue_tidy: "keeps_acme (tidy x files old) (issue x c csr (Http01Webroot root))"
  unfolding issue_def poll_valid_def
  by (intro acme_keeps same_keeps(2) [OF same.account_keeps] same_keeps(2) [OF same.order_keeps])
     (auto intro!: acme_keeps authorize_tidy same_keeps(2) [OF signed_same] same_keeps(2) [OF same.poll_keeps] same_keeps(2) [OF same.get_keeps]
       split: prod.split)


text \<open>A host whose state is the set of its files, and an authority that offers an HTTP challenge.\<close>

definition file_net :: "string set acme_net" where
  "file_net =
     \<lparr>an_env = quiet_env, an_http = (\<lambda>m u d h. (Answer 200 [] [], h)), an_compact = (\<lambda>_. []), an_digest = (\<lambda>s. s),
      an_hmac = (\<lambda>k s. s), an_bytes = (\<lambda>s. s), an_write = (\<lambda>p t h. (None, insert p h)), an_remove = (\<lambda>p h. h - {p}),
      an_nsupdate = (\<lambda>k t h. (Some (0, []), h)), an_sleep = (\<lambda>d h. h)\<rparr>"

lemma file_net_laws: "file_laws file_net id"
  by (auto simp: file_laws_def file_net_def)


subsection \<open>What the authority decides\<close>

text \<open>
  An authority that spells its header names in lower case cannot be used. Header names are case-insensitive, but
  the client looks \<open>Replay-Nonce\<close> up in a plain dictionary: whatever nonce arrives as \<open>replay-nonce\<close>, the first signed
  request ends in an error without having been sent.
\<close>

theorem lower_case_headers_refused:
  assumes "as_dir s = Some (JObj kvs)" "map_of kvs ''newNonce'' = Some (JStr nn)" "\<not> set_opt (as_nonce s)"
    "an_http x ''HEAD'' nn None (as_host s) = (Answer st [(''replay-nonce'', n), (''content-type'', ct)] b, h)"
  shows "signed_post x c url payload j r s = (Inl (AcmeError ''CA did not return a Replay-Nonce''), s\<lparr>as_host := h\<rparr>)"
proof -
  have "get_nonce x c s = (Inl (AcmeError ''CA did not return a Replay-Nonce''), s\<lparr>as_host := h\<rparr>)"
    using assms by (simp add: get_nonce_def from_state_def endpoint_def directory_def bind_def give_def item_def as_text_def
        acme_raw_def fail_def Let_def)
  then show ?thesis by (subst signed_post.simps) (simp add: bind_def)
qed

definition lower_net :: "string set acme_net" where
  "lower_net = file_net\<lparr>an_http := (\<lambda>m u d h. (Answer 200 [(''replay-nonce'', ''n1''), (''content-type'', ''text/plain'')] [], h))\<rparr>"

definition known_directory :: "string set acme_state" where
  "known_directory = (new_client {})\<lparr>as_dir := Some (JObj [(''newNonce'', JStr ''https://ca/nonce'')])\<rparr>"

theorem lower_case_headers_refused_witness:
  "signed_post lower_net plain_client ''https://ca/x'' None False True known_directory
     = (Inl (AcmeError ''CA did not return a Replay-Nonce''), known_directory\<lparr>as_host := {}\<rparr>)"
  by (rule lower_case_headers_refused [where nn = "''https://ca/nonce''" and kvs = "[(''newNonce'', JStr ''https://ca/nonce'')]"])
     (simp_all add: known_directory_def lower_net_def new_client_def set_opt_def)

text \<open>
  The authority chooses which file the webroot solver writes. A challenge token is joined to the directory
  unchecked, so a token that starts with a slash is the path written to.
\<close>

theorem token_escapes_webroot:
  assumes "starts_with ''/'' token" "an_write x token ka (as_host s) = (None, h)"
  shows "solver_setup x (Http01Webroot root) domain token ka s = (Inr (), s\<lparr>as_host := h, as_files := as_files s @ [token]\<rparr>)"
  using assms by (simp add: solver_setup_def webroot_setup_def path_join_def)

theorem token_escapes_webroot_witness:
  "as_host (snd (solver_setup file_net (Http01Webroot ''/w'') ''x.y'' ''/etc/cron.d/x'' ''/etc/cron.d/x.abc'' (new_client {})))
     = {''/etc/cron.d/x''}"
proof -
  have "an_write file_net ''/etc/cron.d/x'' ''/etc/cron.d/x.abc'' (as_host (new_client {})) = (None, {''/etc/cron.d/x''})"
    by (simp add: file_net_def new_client_def)
  from token_escapes_webroot [OF _ this] show ?thesis by (simp add: starts_with_def)
qed

end
