(* ===== verification/Providers.thy ===== *)
theory Providers
  imports AcmeClient Signer
begin

text \<open>
  The signing backends that \<^verbatim>\<open>backend/sign.py\<close> drives itself besides OpenBao: a Windows certificate authority over SSH, and
  any ACME authority through the ACME client, with the client and the challenge solver built from the configuration. The
  SSH run is the parameter \<open>pn_ssh\<close>; the cloud DNS solvers are a licensed module that is not in the repository.
\<close>

datatype ssh_result = SshDone int string string | SshTimeout | SshFailed string

record 'h provider_net =
  pn_acme :: "'h acme_net"
  pn_ssh :: "string list \<Rightarrow> 'h \<Rightarrow> ssh_result \<times> 'h"
  pn_is_file :: "string \<Rightarrow> bool"

definition pn_env :: "'h provider_net \<Rightarrow> 'h env" where
  "pn_env x = an_env (pn_acme x)"

subsection \<open>Windows certificate authority\<close>

record winca_cfg =
  wc_host :: string
  wc_config :: string
  wc_user :: string
  wc_template :: string
  wc_key :: string
  wc_known_hosts :: string

definition winca_cfg :: "'h env \<Rightarrow> getter \<Rightarrow> winca_cfg" where
  "winca_cfg e get =
     \<lparr>wc_host = cfg e get ''winca_host'' ''CERTHEIM_WINCA_HOST'' [],
      wc_config = cfg e get ''winca_config'' ''CERTHEIM_WINCA_CONFIG'' [],
      wc_user = cfg e get ''winca_ssh_user'' ''CERTHEIM_WINCA_SSH_USER'' ''Administrator'',
      wc_template = cfg e get ''winca_template'' ''CERTHEIM_WINCA_TEMPLATE'' [],
      wc_key = strip (getenv e ''CERTHEIM_WINCA_SSH_KEY'' []),
      wc_known_hosts = strip (getenv e ''CERTHEIM_WINCA_KNOWN_HOSTS'' [])\<rparr>"

text \<open>Base64 with the standard alphabet, and UTF-16 of text within Latin-1.\<close>

definition b64_standard :: "string \<Rightarrow> string" where
  "b64_standard s = map (\<lambda>c. if c = CHR ''-'' then CHR ''+'' else if c = CHR ''_'' then CHR ''/'' else c) (b64_encode s)"

definition utf16_le :: "string \<Rightarrow> string" where
  "utf16_le s = concat (map (\<lambda>c. [c, CHR 0x00]) s)"

definition ssh_command :: "winca_cfg \<Rightarrow> string \<Rightarrow> string list" where
  "ssh_command c ps_script =
     [''ssh'', ''-i'', wc_key c, ''-o'', ''IdentitiesOnly=yes'', ''-o'', ''BatchMode=yes'', ''-o'', ''ConnectTimeout=20'']
     @ (if wc_known_hosts c \<noteq> []
        then [''-o'', ''StrictHostKeyChecking=yes'', ''-o'', ''UserKnownHostsFile='' @ wc_known_hosts c]
        else [''-o'', ''StrictHostKeyChecking=accept-new''])
     @ [wc_user c @ ''@'' @ wc_host c,
        ''powershell -NoProfile -NonInteractive -EncodedCommand '' @ b64_standard (utf16_le ps_script)]"

definition winca_run_ps :: "'h provider_net \<Rightarrow> getter \<Rightarrow> string \<Rightarrow> 'h \<Rightarrow> string sign_result \<times> 'h" where
  "winca_run_ps x get ps_script h =
     (let c = winca_cfg (pn_env x) get in
      if wc_host c = [] then (Inl (Refused ''Windows CA host not configured''), h)
      else if wc_key c = [] \<or> \<not> pn_is_file x (wc_key c)
      then (Inl (Refused ''Windows CA SSH key not configured (CERTHEIM_WINCA_SSH_KEY)''), h)
      else case pn_ssh x (ssh_command c ps_script) h of
        (SshTimeout, h1) \<Rightarrow> (Inl (Refused ''Windows CA SSH timed out''), h1)
      | (SshFailed why, h1) \<Rightarrow> (Inl (Refused (''Windows CA SSH failed: '' @ why)), h1)
      | (SshDone rc out0 err, h1) \<Rightarrow>
          (let out = filter (\<lambda>c. c \<noteq> cr) out0 in
           if rc \<noteq> 0 \<and> out = [] then Inl (Refused (''Windows CA SSH error: '' @ take 200 (strip err))) else Inr out, h1))"

definition extract_pem_cert :: "string \<Rightarrow> string option" where
  "extract_pem_cert text =
     (case cut BEGIN_CERT text of
        None \<Rightarrow> None
      | Some (_, rest) \<Rightarrow>
          Some (BEGIN_CERT @ (case cut END_CERT rest of None \<Rightarrow> rest | Some (b, _) \<Rightarrow> b) @ END_CERT @ [nl]))"

definition sq :: "string \<Rightarrow> string" where
  "sq s = [CHR 0x27] @ s @ [CHR 0x27]"

definition dq :: "string \<Rightarrow> string" where
  "dq s = [CHR 0x22] @ s @ [CHR 0x22]"

definition bs :: string where "bs = [CHR 0x5C]"

text \<open>The template name is reduced to characters that cannot end its quotes.\<close>

definition safe_template :: "string \<Rightarrow> string" where
  "safe_template t = filter (\<lambda>ch. is_alnum ch \<or> ch \<in> set ''-_ '') t"

definition template_attrib :: "string \<Rightarrow> string" where
  "template_attrib t = (if safe_template t = [] then [] else '' -attrib '' @ sq (''CertificateTemplate:'' @ safe_template t))"

definition winca_script :: "winca_cfg \<Rightarrow> string \<Rightarrow> string" where
  "winca_script c csr =
     ''$ErrorActionPreference='' @ sq ''Stop'' @ [nl]
     @ ''$d=Join-Path $env:TEMP ('' @ sq ''csrd_'' @ ''+[guid]::NewGuid().ToString('' @ sq ''N'' @ ''))'' @ [nl]
     @ ''New-Item -ItemType Directory -Force -Path $d | Out-Null'' @ [nl]
     @ ''[IO.File]::WriteAllBytes('' @ dq (''$d'' @ bs @ ''r.csr'') @ '',[Convert]::FromBase64String('' @ sq (b64_standard csr) @ ''))'' @ [nl]
     @ ''$o = certreq -submit -config '' @ sq (wc_config c) @ template_attrib (wc_template c) @ '' ''
     @ dq (''$d'' @ bs @ ''r.csr'') @ '' '' @ dq (''$d'' @ bs @ ''c.cer'') @ '' 2>&1 | Out-String'' @ [nl]
     @ ''if(Test-Path '' @ dq (''$d'' @ bs @ ''c.cer'') @ ''){ Get-Content '' @ dq (''$d'' @ bs @ ''c.cer'') @ '' -Raw } else { ''
     @ sq ''WINCA_ERR: '' @ ''+$o }'' @ [nl]
     @ ''Remove-Item -Recurse -Force $d -ErrorAction SilentlyContinue'' @ [nl]"

definition last_chars :: "nat \<Rightarrow> string \<Rightarrow> string" where
  "last_chars n s = drop (length s - n) s"

definition sign_windows_ca :: "'h provider_net \<Rightarrow> getter \<Rightarrow> string \<Rightarrow> 'h \<Rightarrow> (string \<times> string) sign_result \<times> 'h" where
  "sign_windows_ca x get csr h =
     (let c = winca_cfg (pn_env x) get in
      if wc_config c = [] then (Inl (Refused (''Windows CA config string not set (e.g. '' @ sq (''HOST'' @ bs @ ''CA Common Name'') @ '')'')), h)
      else bind_sign (winca_run_ps x get (winca_script c (utf8 csr)) h) (\<lambda>out h1.
        (case extract_pem_cert out of
           None \<Rightarrow> Inl (Refused (''Windows CA did not issue a certificate: '' @ last_chars 300 (strip out)))
         | Some cert \<Rightarrow> Inr (cert, []), h1)))"

definition revoke_windows_ca :: "'h provider_net \<Rightarrow> getter \<Rightarrow> string \<Rightarrow> 'h \<Rightarrow> unit sign_result \<times> 'h" where
  "revoke_windows_ca x get serial0 h =
     (let c = winca_cfg (pn_env x) get; serial = filter (\<lambda>ch. ch \<noteq> CHR '':'') serial0 in
      bind_sign (winca_run_ps x get (''$o = certutil -config '' @ sq (wc_config c) @ '' -revoke '' @ serial
                  @ '' 2>&1 | Out-String; $o'' @ [nl]) h) (\<lambda>out h1.
        (if contains ''completed successfully'' (lower out) \<or> contains ''revoked successfully'' (lower out) then Inr ()
         else Inl (Refused (''Windows CA revoke failed: '' @ last_chars 200 (strip out))), h1)))"

definition test_windows_ca :: "'h provider_net \<Rightarrow> getter \<Rightarrow> 'h \<Rightarrow> json sign_result \<times> 'h" where
  "test_windows_ca x get h =
     (let c = winca_cfg (pn_env x) get in
      bind_sign (winca_run_ps x get (''(whoami); '' @ sq ''---'' @ ''; (certutil -config '' @ sq (wc_config c)
                  @ '' -ping 2>&1 | Out-String)'') h) (\<lambda>out h1.
        (if contains ''interface is alive'' (lower out) \<or> contains ''command completed successfully'' (lower out)
            \<or> contains (lower (wc_user c)) (lower out)
         then Inr (JObj [(''ok'', JBool True), (''addr'', JStr (wc_host c)), (''mount'', JStr (wc_config c))])
         else Inl (Refused (''Windows CA reachability check inconclusive: '' @ last_chars 200 (strip out))), h1)))"

subsection \<open>ACME\<close>

text \<open>
  An ACME operation run for the signer: its protocol errors become refusals, other exceptions stay what they are. The
  account key is a setting, so the world is threaded through.
\<close>

definition lift_acme :: "acme_error \<Rightarrow> sign_error" where
  "lift_acme err = (case err of AcmeError msg \<Rightarrow> Refused msg | Escaped e \<Rightarrow> Raised e)"

definition fresh_client :: "'h \<Rightarrow> 'h acme_state" where
  "fresh_client h = \<lparr>as_host = h, as_dir = None, as_nonce = None, as_kid = None, as_files = [], as_records = [], as_used = []\<rparr>"

definition run_acme :: "('h, 'a) acme \<Rightarrow> 'h \<Rightarrow> (acme_error + 'a) \<times> 'h" where
  "run_acme m h = (case m (fresh_client h) of (r, s) \<Rightarrow> (r, as_host s))"

definition on_world :: "'h world \<Rightarrow> (acme_error + 'a) \<times> 'h \<Rightarrow> (acme_error + 'a) \<times> 'h world" where
  "on_world w r = (fst r, w\<lparr>w_host := snd r\<rparr>)"

definition acme_account_key :: "'h provider_net \<Rightarrow> 'h world \<Rightarrow> (acme_error + string) \<times> 'h world" where
  "acme_account_key x w =
     (let key = or_empty (get_setting w ''acme_account_key'') in
      if contains ''PRIVATE KEY'' key then (Inr key, w)
      else case on_world w (run_acme (new_account_key_pem (pn_acme x)) (w_host w)) of
        (Inl err, w1) \<Rightarrow> (Inl err, w1)
      | (Inr k, w1) \<Rightarrow> (Inr k, set_setting ''acme_account_key'' k w1))"

text \<open>An error in building the client is not inside the code's handler for protocol errors.\<close>

definition unhandled :: "acme_error \<Rightarrow> sign_error" where
  "unhandled err = (case err of AcmeError msg \<Rightarrow> Raised (PyError msg) | Escaped e \<Rightarrow> Raised e)"

definition acme_client_for ::
  "'h provider_net \<Rightarrow> (acme_error \<Rightarrow> sign_error) \<Rightarrow> 'h world \<Rightarrow> acme_client sign_result \<times> 'h world" where
  "acme_client_for x lift w =
     (let e = pn_env x; get = get_setting w; dir = cfg e get ''acme_directory_url'' ''CERTHEIM_ACME_DIRECTORY_URL'' [] in
      if dir = [] then (Inl (Refused ''ACME directory URL is not configured''), w)
      else case acme_account_key x w of
        (Inl err, w1) \<Rightarrow> (Inl (lift err), w1)
      | (Inr key, w1) \<Rightarrow>
          (case on_world w1 (run_acme (make_client (pn_acme x) dir key
                  (cfg e (get_setting w1) ''acme_account_email'' ''CERTHEIM_ACME_ACCOUNT_EMAIL'' [])
                  (cfg e (get_setting w1) ''acme_eab_kid'' ''CERTHEIM_ACME_EAB_KID'' [])
                  (strip (getenv e ''CERTHEIM_ACME_EAB_HMAC'' []))) (w_host w1)) of
             (Inl err, w2) \<Rightarrow> (Inl (lift err), w2)
           | (Inr cl, w2) \<Rightarrow> (Inr cl, w2)))"

definition chosen :: "'h env \<Rightarrow> getter \<Rightarrow> string \<Rightarrow> string \<Rightarrow> string \<Rightarrow> string" where
  "chosen e get k v dflt = lower (strip (or_else (cfg e get k v []) dflt))"

definition acme_solver :: "'h env \<Rightarrow> getter \<Rightarrow> solver sign_result" where
  "acme_solver e get =
     (let kind = chosen e get ''acme_challenge_type'' ''CERTHEIM_ACME_CHALLENGE_TYPE'' ''dns-01'' in
      if kind = ''http-01'' then
        (let webroot = cfg e get ''acme_http_webroot'' ''CERTHEIM_ACME_HTTP_WEBROOT'' [] in
         if webroot = [] then Inl (Refused (''HTTP-01 selected but no webroot is configured '' @ ''(acme_http_webroot)''))
         else Inr (Http01Webroot webroot))
      else if chosen e get ''acme_dns_provider'' ''CERTHEIM_ACME_DNS_PROVIDER'' ''rfc2136'' \<in> set [''cloudflare'', ''route53'', ''azure'']
      then Inl (Refused (''Cloud DNS-01 solvers (Cloudflare / Route53 / Azure) require a ''
             @ ''Commercial license. Use HTTP-01 or internal DNS-01 (rfc2136).''))
      else
        let server = cfg e get ''acme_dns_server'' ''CERTHEIM_ACME_DNS_SERVER'' [];
            tsig_name = cfg e get ''acme_dns_tsig_name'' ''CERTHEIM_ACME_DNS_TSIG_NAME'' [];
            tsig_secret = strip (getenv e ''CERTHEIM_ACME_DNS_TSIG_SECRET'' []);
            algo = or_else (cfg e get ''acme_dns_tsig_algo'' ''CERTHEIM_ACME_DNS_TSIG_ALGO'' []) ''hmac-sha256'';
            port = or_else (cfg e get ''acme_dns_port'' ''CERTHEIM_ACME_DNS_PORT'' []) ''53'' in
        if server = [] \<or> tsig_name = [] \<or> tsig_secret = []
        then Inl (Refused (''DNS-01 (rfc2136) requires acme_dns_server + ''
               @ ''acme_dns_tsig_name + CERTHEIM_ACME_DNS_TSIG_SECRET (service env)''))
        else case int_of port of
          None \<Rightarrow> Inl (Raised ValueError)
        | Some p \<Rightarrow> Inr (Dns01Rfc2136 server (if p = 0 then 53 else p) tsig_name tsig_secret algo 10))"

definition sign_acme :: "'h provider_net \<Rightarrow> string \<Rightarrow> 'h world \<Rightarrow> (string \<times> string) sign_result \<times> 'h world" where
  "sign_acme x csr w =
     (case acme_client_for x unhandled w of
        (Inl err, w1) \<Rightarrow> (Inl err, w1)
      | (Inr cl, w1) \<Rightarrow>
          (case acme_solver (pn_env x) (get_setting w1) of
             Inl err \<Rightarrow> (Inl err, w1)
           | Inr sv \<Rightarrow>
               (case on_world w1 (run_acme (issue (pn_acme x) cl csr sv) (w_host w1)) of
                  (Inl err, w2) \<Rightarrow> (Inl (lift_acme err), w2)
                | (Inr cc, w2) \<Rightarrow> (Inr cc, w2))))"

definition test_acme :: "'h provider_net \<Rightarrow> 'h world \<Rightarrow> json sign_result \<times> 'h world" where
  "test_acme x w =
     (case acme_client_for x lift_acme w of
        (Inl err, w1) \<Rightarrow> (Inl err, w1)
      | (Inr cl, w1) \<Rightarrow>
          (case on_world w1 (run_acme (test (pn_acme x) cl) (w_host w1)) of
             (Inl err, w2) \<Rightarrow> (Inl (lift_acme err), w2)
           | (Inr j, w2) \<Rightarrow> (Inr j, w2)))"

end
