(* ===== verification/Webhooks.thy ===== *)
theory Webhooks
  imports Notify SigningRoutes Guarded "HOL-Library.AList"
begin

text \<open>
  Outbound webhooks: the formats of \<^verbatim>\<open>backend/app.py\<close> (\<open>_format_webhook\<close> and what it is made of), their
  delivery, and the endpoints of \<^verbatim>\<open>backend/routes_integrations.py\<close> that list, create, change, delete and test them.
  The receiver is \<open>post_hook\<close> of the environment; the e-mail settings, which hold the dashboard's address,
  are an argument. Then the invariant of the table: whatever the endpoints are sent, a stored
  webhook has an http(s) address, known events, a known type and headers without line breaks.
\<close>

subsection \<open>The message\<close>

definition WEBHOOK_TYPES :: "string list" where
  "WEBHOOK_TYPES = [''generic'', ''slack'', ''teams'', ''discord'']"

definition DASHBOARD_URL_FALLBACK :: string where
  "DASHBOARD_URL_FALLBACK = ''https://csr.example.com/''"

definition dashboard_base :: "mail_state \<Rightarrow> string" where
  "dashboard_base ms =
     (case MailConf.get_settings ms of
        Inl _ \<Rightarrow> DASHBOARD_URL_FALLBACK
      | Inr kvs \<Rightarrow> (case jget ''dashboard_url'' (JObj kvs) of JStr u \<Rightarrow> or_else u DASHBOARD_URL_FALLBACK | _ \<Rightarrow> DASHBOARD_URL_FALLBACK))"

definition job_link :: "'h env \<Rightarrow> mail_state \<Rightarrow> json \<Rightarrow> string option" where
  "job_link e ms job_id =
     (if \<not> truthy job_id then None
      else let base = dashboard_base ms in
           Some ((if ends_with ''/'' base then base else base @ ''/'') @ ''#job-'' @ str_of e job_id))"

definition webhook_payload :: "time \<Rightarrow> string \<Rightarrow> json \<Rightarrow> json" where
  "webhook_payload now event data =
     JObj [(''event'', JStr event), (''timestamp'', JStr (date_text now @ ''T'' @ clock_text now @ ''Z'')),
           (''dashboard_url'', JStr DASHBOARD_URL_FALLBACK), (''data'', data)]"

definition hook_titles :: "(string \<times> string) list" where
  "hook_titles =
    [(''job.created'', ''New CSR request''), (''job.issued'', ''Certificate issued''),
     (''job.cancelled'', ''CSR request cancelled''), (''job.failed'', ''CSR request failed''),
     (''job.expired'', ''Certificate expiring soon''), (''feedback.submitted'', ''Feedback submitted''),
     (''test'', ''Test notification from Certheim'')]"

definition bullet :: string where
  "bullet = ''  '' @ [CHR 0xE2, CHR 0x80, CHR 0xA2] @ ''  ''"

definition who_acted :: "json \<Rightarrow> json" where
  "who_acted d =
     (case List.find truthy (map (\<lambda>k. jget k d) [''requester_email'', ''submitter_email'', ''completed_by_dn'']) of
        Some v \<Rightarrow> v | None \<Rightarrow> jget ''cancelled_by_dn'' d)"

definition group_named :: "json \<Rightarrow> 'h world \<Rightarrow> grp option" where
  "group_named v w = (case v of JInt i \<Rightarrow> group_by_id (Some i) w | _ \<Rightarrow> None)"

definition webhook_summary :: "'h env \<Rightarrow> string \<Rightarrow> json \<Rightarrow> 'h world \<Rightarrow> string \<times> string" where
  "webhook_summary e event d w =
     ((case map_of hook_titles event of Some t \<Rightarrow> t | None \<Rightarrow> event),
      join bullet
       ((if truthy (jget ''target_host'' d) then [''host: '' @ str_of e (jget ''target_host'' d)] else [])
        @ (if truthy (jget ''cert_type'' d) then [''type: '' @ str_of e (jget ''cert_type'' d)] else [])
        @ (case group_named (jget ''group_id'' d) w of Some g \<Rightarrow> [''group: '' @ g_name g] | None \<Rightarrow> [])
        @ (if truthy (jget ''job_id'' d) then [''job: '' @ str_of e (jget ''job_id'' d)] else [])
        @ (let who = str_of e (who_acted d) in
           if truthy (who_acted d) then [''by: '' @ (if contains ''CN='' who then cn_from_dn who else who)] else [])))"

definition slack_group_options :: "'h world \<Rightarrow> json list" where
  "slack_group_options w =
     map (\<lambda>g. JObj [(''text'', JObj [(''type'', JStr ''plain_text''), (''text'', JStr (take 75 (g_name g)))]),
                    (''value'', JStr (int_str (g_id g)))])
       (take 24 (sort_key (\<lambda>g. nocase (g_name g)) (w_groups w)))"

definition slack_interactive_ready :: "'h env \<Rightarrow> ctx \<Rightarrow> 'h world \<Rightarrow> bool" where
  "slack_interactive_ready e c w =
     (get_setting w ''slack_interactive'' = Some ''1'' \<and> available_in e c w ''integrations.slack.interactive''
      \<and> (if or_else (or_empty (get_setting w ''slack_interactive_mode'')) ''http'' = ''socket''
         then set_opt (get_setting w ''slack_app_token'') else set_opt (get_setting w ''slack_signing_secret'')))"

definition slack_message :: "'h env \<Rightarrow> ctx \<Rightarrow> string \<Rightarrow> string \<Rightarrow> string option \<Rightarrow> json \<Rightarrow> 'h world \<Rightarrow> json" where
  "slack_message e c heading detail link jid w =
     (let text = '':bell: *'' @ heading @ ''*'' @ (if detail = [] then [] else [nl] @ detail);
          opts = slack_group_options w;
          elements =
            (case link of None \<Rightarrow> [] | Some u \<Rightarrow>
               [JObj [(''type'', JStr ''button''), (''url'', JStr u),
                      (''text'', JObj [(''type'', JStr ''plain_text''), (''text'', JStr ''Open job'')])]])
            @ (if truthy jid \<and> slack_interactive_ready e c w \<and> opts \<noteq> []
               then [JObj [(''type'', JStr ''static_select''), (''action_id'', JStr ''assign_group''),
                           (''placeholder'', JObj [(''type'', JStr ''plain_text''), (''text'', JStr ''Assign to group'')]),
                           (''options'', JArr opts)]]
               else [])
      in JObj [(''text'', JStr text),
               (''blocks'', JArr (JObj [(''type'', JStr ''section''), (''text'', JObj [(''type'', JStr ''mrkdwn''), (''text'', JStr text)])]
                  # (if elements = [] then []
                     else [JObj [(''type'', JStr ''actions''),
                                 (''block_id'', JStr (if truthy jid then ''job_'' @ str_of e jid else ''noop'')),
                                 (''elements'', JArr elements)]])))])"

definition discord_message :: "string \<Rightarrow> string \<Rightarrow> string option \<Rightarrow> json" where
  "discord_message heading detail link =
     JObj [(''embeds'', JArr [JObj ([(''title'', JStr heading), (''color'', JInt 1973492)]
        @ (if detail = [] then [] else [(''description'', JStr detail)])
        @ (case link of None \<Rightarrow> [] | Some u \<Rightarrow> [(''url'', JStr u)]))])]"

definition teams_message :: "string \<Rightarrow> string \<Rightarrow> string option \<Rightarrow> json" where
  "teams_message heading detail link =
     JObj ([(''@type'', JStr ''MessageCard''), (''@context'', JStr ''http://schema.org/extensions''),
            (''summary'', JStr heading), (''themeColor'', JStr ''0076D7''), (''title'', JStr heading),
            (''text'', JStr (or_else detail heading))]
       @ (case link of None \<Rightarrow> [] | Some u \<Rightarrow>
            [(''potentialAction'', JArr [JObj [(''@type'', JStr ''OpenUri''), (''name'', JStr ''Open job''),
               (''targets'', JArr [JObj [(''os'', JStr ''default''), (''uri'', JStr u)]])]])]))"

definition format_webhook :: "'h env \<Rightarrow> mail_state \<Rightarrow> ctx \<Rightarrow> string \<Rightarrow> string \<Rightarrow> json \<Rightarrow> 'h world \<Rightarrow> json" where
  "format_webhook e ms c wtype event d w =
     (if wtype \<notin> set [''slack'', ''teams'', ''discord''] then webhook_payload (c_now c) event d
      else case webhook_summary e event d w of (heading, detail) \<Rightarrow>
        let link = job_link e ms (jget ''job_id'' d) in
        if wtype = ''slack'' then slack_message e c heading detail link (jget ''job_id'' d) w
        else if wtype = ''discord'' then discord_message heading detail link
        else teams_message heading detail link)"

subsection \<open>Delivery\<close>

text \<open>The request's headers: the two standard ones, then those of the webhook, which may replace them.\<close>

definition hook_request_headers :: "'h env \<Rightarrow> json \<Rightarrow> (string \<times> string) list" where
  "hook_request_headers e headers =
     (case headers of
        JObj kvs \<Rightarrow> fold (\<lambda>(k, v) hs. if k \<noteq> [] \<and> v \<noteq> JNull then AList.update k (str_of e v) hs else hs) kvs
      | _ \<Rightarrow> id) [(''Content-Type'', ''application/json''), (''User-Agent'', ''certheim/2.2'')]"

definition post_outcome :: "post_result \<Rightarrow> int \<times> string option" where
  "post_outcome r =
     (case r of
        Posted code \<Rightarrow> (code, None)
      | PostStatus code reason \<Rightarrow> (code, Some (take 200 (''HTTP '' @ int_str code @ '': '' @ reason)))
      | PostUrlError reason \<Rightarrow> (0, Some (take 200 (''URLError: '' @ reason)))
      | PostBroken kind msg \<Rightarrow> (0, Some (kind @ '': '' @ take 160 msg)))"

definition send_webhook_sync :: "'h env \<Rightarrow> string \<Rightarrow> json \<Rightarrow> json \<Rightarrow> 'h world \<Rightarrow> (int \<times> string option) \<times> 'h world" where
  "send_webhook_sync e url payload headers w =
     (case post_hook e url (json_dumps e payload) (hook_request_headers e headers) (w_host w) of
        (r, h) \<Rightarrow> (post_outcome r, w\<lparr>w_host := h\<rparr>))"

definition delivered_ok :: "int \<Rightarrow> string option \<Rightarrow> bool" where
  "delivered_ok code err = (200 \<le> code \<and> code < 300 \<and> \<not> set_opt err)"

definition count_call :: "time \<Rightarrow> int \<Rightarrow> string option \<Rightarrow> webhook \<Rightarrow> webhook" where
  "count_call now code err h =
     h\<lparr>h_last_called := Some now, h_last_status := Some code, h_last_error := err, h_calls := h_calls h + 1\<rparr>"

definition record_call :: "time \<Rightarrow> int \<Rightarrow> int \<Rightarrow> string option \<Rightarrow> 'h world \<Rightarrow> 'h world" where
  "record_call now wid code err w = w\<lparr>w_webhooks := modify_row h_id wid (count_call now code err) (w_webhooks w)\<rparr>"

text \<open>A line written to the audit stream only, outside any request.\<close>

definition stream_line :: "string \<Rightarrow> string \<Rightarrow> string \<Rightarrow> (string \<times> string) list \<Rightarrow> 'h world \<Rightarrow> 'h world" where
  "stream_line req action result extra w =
     w\<lparr>w_log := w_log w @ [\<lparr>e_req = req, e_src = [], e_user = [], e_serial = [],
                            e_action = action, e_result = result, e_extra = extra\<rparr>]\<rparr>"

definition dispatch_webhook_worker ::
  "'h env \<Rightarrow> mail_state \<Rightarrow> ctx \<Rightarrow> int \<Rightarrow> string \<Rightarrow> string \<Rightarrow> string \<Rightarrow> json \<Rightarrow> json \<Rightarrow> string \<Rightarrow> 'h world \<Rightarrow> 'h world" where
  "dispatch_webhook_worker e ms c wid name url event d headers wtype w =
     (case send_webhook_sync e url (format_webhook e ms c wtype event d w) headers w of
        ((code, err), w1) \<Rightarrow>
          stream_line ''webhook-bg'' ''webhook_dispatch'' (if delivered_ok code err then ''ok'' else ''fail'')
            [(''webhook_id'', int_str wid), (''name'', py_repr e (JStr name)), (''event'', event), (''status'', int_str code),
             (''error'', or_else (or_empty err) ''-'')]
            (record_call (c_now c) wid code err w1))"

subsection \<open>What a webhook may be\<close>

definition header_char :: "char \<Rightarrow> bool" where
  "header_char ch = (is_alnum ch \<or> ch \<in> set ''!#$%&*+-.^_`|~'' \<or> ch = CHR 0x27)"

definition HEADER_NAME_RE :: "string \<Rightarrow> bool" where
  "HEADER_NAME_RE = at_end (\<lambda>s. s \<noteq> [] \<and> list_all header_char s)"

text \<open>Each check gives the message of the refusal, or the normalized value.\<close>

definition validate_webhook_url :: "json \<Rightarrow> string + string" where
  "validate_webhook_url v =
     (case v of
        JStr s \<Rightarrow>
          (let u = strip s in
           if u = [] then Inl ''url is required''
           else if 2048 < length u then Inl ''url too long''
           else if \<not> (starts_with ''http://'' u \<or> starts_with ''https://'' u)
           then Inl ''url must start with http:// or https://''
           else Inr u)
      | _ \<Rightarrow> Inl ''url is required'')"

definition text_of :: "json \<Rightarrow> string result" where
  "text_of v = (case v of JStr s \<Rightarrow> Inr s | _ \<Rightarrow> Inl TypeError)"

fun texts :: "json list \<Rightarrow> string list result" where
  "texts [] = Inr []"
| "texts (v # vs) =
     (case text_of v of Inl err \<Rightarrow> Inl err
      | Inr s \<Rightarrow> (case texts vs of Inl err \<Rightarrow> Inl err | Inr ss \<Rightarrow> Inr (s # ss)))"

definition validate_webhook_events :: "json \<Rightarrow> (string + string list) result" where
  "validate_webhook_events v =
     (case v of
        JArr xs \<Rightarrow>
          if xs = [] then Inr (Inl ''events must be a non-empty array'')
          else (case filter (\<lambda>x. x \<notin> JStr ` set WEBHOOK_EVENTS) xs of
                  [] \<Rightarrow> (case texts xs of Inl err \<Rightarrow> Inl err | Inr evs \<Rightarrow> Inr (Inr (sort (remdups evs))))
                | bad \<Rightarrow> (case texts bad of Inl err \<Rightarrow> Inl err
                          | Inr ss \<Rightarrow> Inr (Inl (''unknown events: '' @ join '', '' ss))))
      | _ \<Rightarrow> Inr (Inl ''events must be a non-empty array''))"

fun check_headers :: "(string \<times> json) list \<Rightarrow> string + (string \<times> string) list" where
  "check_headers [] = Inr []"
| "check_headers ((k, v) # kvs) =
     (case v of
        JStr s \<Rightarrow>
          (if \<not> HEADER_NAME_RE k then Inl (''invalid header name: '' @ k)
           else if cr \<in> set s \<or> nl \<in> set s then Inl ''header value contains control characters''
           else if 2048 < length s then Inl ''header value too long''
           else (case check_headers kvs of Inl msg \<Rightarrow> Inl msg | Inr hs \<Rightarrow> Inr ((k, s) # hs)))
      | _ \<Rightarrow> Inl ''header names and values must be strings'')"

definition validate_webhook_headers :: "json \<Rightarrow> string + (string \<times> string) list" where
  "validate_webhook_headers v =
     (if v = JNull \<or> v = JStr [] then Inr []
      else case v of
        JObj kvs \<Rightarrow> if 20 < length kvs then Inl ''too many headers (max 20)'' else check_headers kvs
      | _ \<Rightarrow> Inl ''headers must be a JSON object'')"

definition headers_text :: "'h env \<Rightarrow> (string \<times> string) list \<Rightarrow> string option" where
  "headers_text e hs = (if hs = [] then None else Some (json_dumps e (JObj (map (\<lambda>(k, v). (k, JStr v)) hs))))"

definition webhook_type :: "json \<Rightarrow> (string + string) result" where
  "webhook_type v =
     (case (if truthy v then str_or_empty v else Inr ''generic'') of
        Inl err \<Rightarrow> Inl err
      | Inr s \<Rightarrow> (let t = lower (strip s) in
                  Inr (if t \<in> set WEBHOOK_TYPES then Inr t else Inl ''invalid integration type'')))"

subsection \<open>The endpoints\<close>

definition parsed_or :: "'h env \<Rightarrow> string \<Rightarrow> json \<Rightarrow> json" where
  "parsed_or e s other = (case json_loads e s of Some j \<Rightarrow> j | None \<Rightarrow> other)"

definition hook_json :: "'h env \<Rightarrow> webhook \<Rightarrow> json" where
  "hook_json e h =
     JObj [(''id'', JInt (h_id h)), (''name'', JStr (h_name h)), (''url'', JStr (h_url h)),
       (''events'', parsed_or e (or_else (h_events h) ''[]'') (JArr [])),
       (''headers'', if set_opt (h_headers h) then parsed_or e (or_empty (h_headers h)) (JObj []) else JObj []),
       (''enabled'', JBool (h_enabled h)), (''type'', JStr (or_else (h_type h) ''generic'')),
       (''created_at'', JInt (h_created_at h)), (''created_by_dn'', jopt (h_created_by_dn h)),
       (''last_called_at'', jint_opt (h_last_called h)), (''last_status_code'', jint_opt (h_last_status h)),
       (''last_error'', jopt (h_last_error h)), (''call_count'', JInt (int (h_calls h)))]"

definition admin_list_webhooks :: "'h env \<Rightarrow> 'h handler" where
  "admin_list_webhooks e = require_admin e ''admin_list_webhooks'' (\<lambda>c w.
     (ok_reply [(''webhooks'', JArr (map (hook_json e) (sort_key (\<lambda>h. nocase (h_name h)) (w_webhooks w)))),
                (''available_events'', strs WEBHOOK_EVENTS), (''available_types'', strs WEBHOOK_TYPES)], w))"

text \<open>A check whose refusal is answered with 400.\<close>

definition checked :: "'h world \<Rightarrow> string + 'a \<Rightarrow> ('a \<Rightarrow> response \<times> 'h world) \<Rightarrow> response \<times> 'h world" where
  "checked w r k = (case r of Inl msg \<Rightarrow> refuse 400 msg w | Inr x \<Rightarrow> k x)"

definition new_webhook ::
  "int \<Rightarrow> string \<Rightarrow> string \<Rightarrow> string \<Rightarrow> string option \<Rightarrow> bool \<Rightarrow> time \<Rightarrow> string \<Rightarrow> string \<Rightarrow> webhook" where
  "new_webhook wid name url events headers enabled now dn wtype =
     \<lparr>h_id = wid, h_name = name, h_url = url, h_events = events, h_headers = headers, h_enabled = enabled,
      h_type = wtype, h_created_at = now, h_created_by_dn = Some dn, h_last_called = None, h_last_status = None,
      h_last_error = None, h_calls = 0\<rparr>"

definition create_webhook_body :: "'h env \<Rightarrow> 'h handler" where
  "create_webhook_body e c w =
     with_payload e c w (\<lambda>p.
     attempt e c (str_or_empty (jget ''name'' p)) w (\<lambda>n.
     let name = strip n in
     if name = [] \<or> 128 < length name then refuse 400 ''name is required (max 128 chars)'' w
     else checked w (validate_webhook_url (jget ''url'' p)) (\<lambda>url.
     attempt e c (validate_webhook_events (jget ''events'' p)) w (\<lambda>r.
     checked w r (\<lambda>events.
     checked w (validate_webhook_headers (jget ''headers'' p)) (\<lambda>headers.
     attempt e c (webhook_type (jget ''type'' p)) w (\<lambda>r.
     checked w r (\<lambda>wtype.
       let enabled = (if jhas ''enabled'' p then truthy (jget ''enabled'' p) else True);
           wid = w_hid_seq w + 1;
           h = new_webhook wid name url (json_dumps e (strs events)) (headers_text e headers) enabled (c_now c) (me c) wtype
       in (ok_reply [(''ok'', JBool True), (''id'', JInt wid)],
           log_event c ''admin_webhook_create'' ''ok''
             [(''webhook_id'', int_str wid), (''name'', name), (''events'', join '','' events)]
             (w\<lparr>w_webhooks := w_webhooks w @ [h], w_hid_seq := wid\<rparr>))))))))))"

text \<open>A changed column of \<open>admin_update_webhook\<close>: an exception, a refusal, or a change of the row.\<close>

type_synonym column = "(string + (webhook \<Rightarrow> webhook)) result"

definition new_hook_name :: "json \<Rightarrow> column" where
  "new_hook_name v =
     (case str_or_empty v of
        Inl err \<Rightarrow> Inl err
      | Inr n \<Rightarrow> (let name = strip n in
          Inr (if name = [] \<or> 128 < length name then Inl ''invalid name'' else Inr (h_name_update (\<lambda>_. name)))))"

definition new_url :: "json \<Rightarrow> column" where
  "new_url v = Inr (map_sum id (\<lambda>u. h_url_update (\<lambda>_. u)) (validate_webhook_url v))"

definition new_events :: "'h env \<Rightarrow> json \<Rightarrow> column" where
  "new_events e v =
     map_sum id (map_sum id (\<lambda>evs. h_events_update (\<lambda>_. json_dumps e (strs evs)))) (validate_webhook_events v)"

definition new_headers :: "'h env \<Rightarrow> json \<Rightarrow> column" where
  "new_headers e v = Inr (map_sum id (\<lambda>hs. h_headers_update (\<lambda>_. headers_text e hs)) (validate_webhook_headers v))"

definition new_type :: "json \<Rightarrow> column" where
  "new_type v = map_sum id (map_sum id (\<lambda>t. h_type_update (\<lambda>_. t))) (webhook_type v)"

definition new_enabled :: "json \<Rightarrow> column" where
  "new_enabled v = Inr (Inr (h_enabled_update (\<lambda>_. truthy v)))"

definition hook_columns :: "'h env \<Rightarrow> (string \<times> (json \<Rightarrow> column)) list" where
  "hook_columns e =
    [(''name'', new_hook_name), (''url'', new_url), (''events'', new_events e), (''headers'', new_headers e),
     (''type'', new_type), (''enabled'', new_enabled)]"

fun changed_columns :: "json \<Rightarrow> (string \<times> (json \<Rightarrow> column)) list \<Rightarrow> (string + (webhook \<Rightarrow> webhook) list) result" where
  "changed_columns p [] = Inr (Inr [])"
| "changed_columns p ((k, col) # cols) =
     (if jhas k p
      then case col (jget k p) of
             Inl err \<Rightarrow> Inl err
           | Inr (Inl msg) \<Rightarrow> Inr (Inl msg)
           | Inr (Inr f) \<Rightarrow> map_sum id (map_sum id ((#) f)) (changed_columns p cols)
      else changed_columns p cols)"

definition update_webhook_body :: "'h env \<Rightarrow> int \<Rightarrow> 'h handler" where
  "update_webhook_body e wid c w =
     with_payload e c w (\<lambda>p.
     attempt e c (changed_columns p (hook_columns e)) w (\<lambda>r.
     checked w r (\<lambda>fs.
       if fs = [] then refuse 400 ''no fields to update'' w
       else if rowcount (\<lambda>h. h_id h = wid) (w_webhooks w) = 0 then refuse 404 ''webhook not found'' w
       else (ok_json, log_event c ''admin_webhook_update'' ''ok'' [(''webhook_id'', int_str wid)]
               (w\<lparr>w_webhooks := modify_row h_id wid (fold (\<lambda>f. f) fs) (w_webhooks w)\<rparr>)))))"

definition delete_webhook_body :: "'h env \<Rightarrow> int \<Rightarrow> 'h handler" where
  "delete_webhook_body e wid c w =
     (if rowcount (\<lambda>h. h_id h = wid) (w_webhooks w) = 0 then refuse 404 ''webhook not found'' w
      else (ok_json, log_event c ''admin_webhook_delete'' ''ok'' [(''webhook_id'', int_str wid)]
              (w\<lparr>w_webhooks := remove_row h_id wid (w_webhooks w)\<rparr>)))"

definition test_webhook_body :: "'h env \<Rightarrow> mail_state \<Rightarrow> int \<Rightarrow> 'h handler" where
  "test_webhook_body e ms wid c w =
     (case row_by h_id wid (w_webhooks w) of
        None \<Rightarrow> refuse 404 ''webhook not found'' w
      | Some h \<Rightarrow>
          (let d = JObj [(''message'', JStr ''This is a test from the Certheim admin panel.''),
                         (''triggered_by'', JStr (cn_from_dn (me c))), (''target_host'', JStr ''example.test'')];
               msg = format_webhook e ms c (or_else (h_type h) ''generic'') ''test'' d w
           in case send_webhook_sync e (h_url h) msg (hook_headers e h) w of
                ((code, err), w1) \<Rightarrow>
                  (ok_reply [(''ok'', JBool (delivered_ok code err)), (''status_code'', JInt code), (''error'', jopt err)],
                   log_event c ''admin_webhook_test'' (if delivered_ok code err then ''ok'' else ''fail'')
                     [(''webhook_id'', int_str wid), (''status'', int_str code), (''error'', take 96 (or_else (or_empty err) ''-''))]
                     (record_call (c_now c) wid code err w1))))"

definition admin_create_webhook :: "'h env \<Rightarrow> 'h handler" where
  "admin_create_webhook e = require_admin e ''admin_create_webhook'' (require_csrf e ''admin_create_webhook'' (create_webhook_body e))"

definition admin_update_webhook :: "'h env \<Rightarrow> int \<Rightarrow> 'h handler" where
  "admin_update_webhook e wid =
     require_admin e ''admin_update_webhook'' (require_csrf e ''admin_update_webhook'' (update_webhook_body e wid))"

definition admin_delete_webhook :: "'h env \<Rightarrow> int \<Rightarrow> 'h handler" where
  "admin_delete_webhook e wid =
     require_admin e ''admin_delete_webhook'' (require_csrf e ''admin_delete_webhook'' (delete_webhook_body e wid))"

definition admin_test_webhook :: "'h env \<Rightarrow> mail_state \<Rightarrow> int \<Rightarrow> 'h handler" where
  "admin_test_webhook e ms wid =
     require_admin e ''admin_test_webhook'' (require_csrf e ''admin_test_webhook'' (test_webhook_body e ms wid))"

definition env_json :: "env_state \<Rightarrow> json" where
  "env_json s =
     JObj (map (\<lambda>(k, b). (k, JBool b)) (es_flags s)
       @ [(''openssl_fips_provider'', case es_provider s of None \<Rightarrow> JNull
             | Some p \<Rightarrow> JObj [(''name'', JStr (fp_name p)), (''version'', JStr (fp_version p))]),
          (''openssl_major'', jint_opt (es_major s))])"

definition admin_capabilities :: "'h env \<Rightarrow> 'h handler" where
  "admin_capabilities e = require_admin e ''admin_capabilities'' (\<lambda>c w.
     (ok_reply [(''capabilities'', JObj (map (\<lambda>(s, about). (cs_key s,
            JObj [(''key'', JStr (cs_key s)), (''available'', JBool (cs_available s)), (''reason'', JStr (cs_reason s)),
                  (''upgrade'', JBool (cs_upgrade s)), (''desc'', JStr about)]))
          (all_status e (license_in e c w) (env_in e w)))),
        (''environment'', env_json (env_in e w)), (''fips'', fips_json e w)], w))"

end
