(* ===== verification/Slack.thy ===== *)
theory Slack
  imports Webhooks
begin

text \<open>
  Slack interactivity: its settings and the signed callback of \<^verbatim>\<open>backend/routes_integrations.py\<close>, with the
  signature check and the assignment of \<^verbatim>\<open>backend/app.py\<close>. The callback has no login; the theorem
  at the end says that nothing but a freshly signed request gets past its check, and what such a request can change.
\<close>

subsection \<open>The form body\<close>

text \<open>
  \<open>urllib.parse.parse_qs\<close> of the standard library: fields separated by \<open>&\<close>, blank ones dropped, plus signs for
  spaces, \<open>%XX\<close> for bytes. Texts are their UTF-8 bytes.
\<close>

definition hex_digit :: "char \<Rightarrow> nat option" where
  "hex_digit ch =
     (if is_digit ch then Some (cp ch - 48)
      else if 97 \<le> cp ch \<and> cp ch \<le> 102 then Some (cp ch - 87)
      else if 65 \<le> cp ch \<and> cp ch \<le> 70 then Some (cp ch - 55) else None)"

fun unquote :: "string \<Rightarrow> string" where
  "unquote (ch # a # b # s) =
     (case (ch = CHR ''%'', hex_digit a, hex_digit b) of
        (True, Some i, Some j) \<Rightarrow> char_of (16 * i + j) # unquote s
      | _ \<Rightarrow> ch # unquote (a # b # s))"
| "unquote s = s"

definition form_text :: "string \<Rightarrow> string" where
  "form_text s = unquote (replace_char (CHR ''+'') (CHR '' '') s)"

definition form_field :: "string \<Rightarrow> (string \<times> string) option" where
  "form_field s =
     (case split_once (CHR ''='') s of
        Some (k, v) \<Rightarrow> if v = [] then None else Some (form_text k, form_text v)
      | None \<Rightarrow> None)"

definition parse_qs :: "string \<Rightarrow> (string \<times> string) list" where
  "parse_qs s = List.map_filter form_field (split_on (CHR ''&'') s)"

subsection \<open>Signature and assignment\<close>

definition verify_slack_signature :: "'h env \<Rightarrow> time \<Rightarrow> string \<Rightarrow> string \<Rightarrow> string \<Rightarrow> string \<Rightarrow> bool result" where
  "verify_slack_signature e now raw timestamp signature secret =
     (if secret = [] \<or> timestamp = [] \<or> signature = [] then Inr False
      else case int_of timestamp of
        None \<Rightarrow> Inr False
      | Some ts \<Rightarrow>
          if 300 < abs (now - ts) then Inr False
          else if list_ex (\<lambda>ch. 128 \<le> cp ch) signature then Inl TypeError
          else Inr (''v0='' @ hmac_sha256 e secret (''v0:'' @ timestamp @ '':'' @ raw) = signature))"

definition slack_assign_job :: "'h env \<Rightarrow> string \<Rightarrow> json \<Rightarrow> json \<Rightarrow> 'h world \<Rightarrow> (bool \<times> string) \<times> 'h world" where
  "slack_assign_job e job_id group_id slack_user w =
     (if \<not> JOB_ID_RE job_id then ((False, ''invalid job id''), w)
      else case int_of_json group_id of
        Inl _ \<Rightarrow> ((False, ''invalid group''), w)
      | Inr gid \<Rightarrow>
          (case group_by_id (Some gid) w of
             None \<Rightarrow> ((False, ''group not found''), w)
           | Some grp \<Rightarrow>
               if rowcount (\<lambda>j. j_id j = job_id) (w_jobs w) = 0
               then ((False, ''job '' @ job_id @ '' not found''), w)
               else ((True, '':white_check_mark: Job `'' @ job_id @ ''` assigned to *'' @ g_name grp @ ''* by '' @ str_of e slack_user),
                     stream_line ''slack'' ''slack_assign'' ''ok''
                       [(''job_id'', job_id), (''group'', py_repr e (JStr (g_name grp))), (''slack_user'', py_repr e slack_user)]
                       (w\<lparr>w_jobs := modify_row j_id job_id (j_group_id_update (\<lambda>_. Some gid)) (w_jobs w)\<rparr>))))"

subsection \<open>Settings\<close>

definition slack_mode :: "'h world \<Rightarrow> string" where
  "slack_mode w = or_else (or_empty (get_setting w ''slack_interactive_mode'')) ''http''"

definition admin_get_slack_config :: "'h env \<Rightarrow> 'h handler" where
  "admin_get_slack_config e = require_admin e ''admin_get_slack_config'' (\<lambda>c w.
     (ok_reply [(''enabled'', JBool (get_setting w ''slack_interactive'' = Some ''1'')), (''mode'', JStr (slack_mode w)),
        (''signing_secret_set'', JBool (set_opt (get_setting w ''slack_signing_secret''))),
        (''app_token_set'', JBool (set_opt (get_setting w ''slack_app_token''))),
        (''bot_token_set'', JBool (set_opt (get_setting w ''slack_bot_token''))),
        (''request_path'', JStr ''/csr/api/slack/interact'')], w))"

definition SLACK_SECRETS :: "(string \<times> string) list" where
  "SLACK_SECRETS =
    [(''signing_secret'', ''slack_signing_secret''), (''app_token'', ''slack_app_token''), (''bot_token'', ''slack_bot_token'')]"

fun put_slack_secrets :: "'h env \<Rightarrow> ctx \<Rightarrow> json \<Rightarrow> (string \<times> string) list \<Rightarrow> 'h step" where
  "put_slack_secrets e c p [] w = Inr w"
| "put_slack_secrets e c p ((k, setting) # ks) w =
     (if jhas k p
      then case str_or_empty (jget k p) of
             Inl err \<Rightarrow> Inl (crash e c err w)
           | Inr v \<Rightarrow> let s = strip v in
               put_slack_secrets e c p ks (if s \<noteq> [] \<and> s \<noteq> ''********'' then set_setting setting s w else w)
      else put_slack_secrets e c p ks w)"

definition put_slack_mode :: "'h env \<Rightarrow> ctx \<Rightarrow> json \<Rightarrow> 'h step" where
  "put_slack_mode e c p w =
     (if jhas ''mode'' p
      then case (if truthy (jget ''mode'' p) then str_or_empty (jget ''mode'' p) else Inr ''http'') of
             Inl err \<Rightarrow> Inl (crash e c err w)
           | Inr v \<Rightarrow> let m = lower (strip v) in
               if m \<in> set [''http'', ''socket''] then Inr (set_setting ''slack_interactive_mode'' m w)
               else Inl (refuse 400 (''mode must be '' @ [CHR 0x27] @ ''http'' @ [CHR 0x27] @ '' or '' @ [CHR 0x27] @ ''socket'' @ [CHR 0x27]) w)
      else Inr w)"

definition put_slack_enabled :: "json \<Rightarrow> 'h step" where
  "put_slack_enabled p w =
     Inr (if jhas ''enabled'' p
          then set_setting ''slack_interactive'' (if truthy (jget ''enabled'' p) then ''1'' else ''0'') w else w)"

definition put_slack_body :: "'h env \<Rightarrow> 'h handler" where
  "put_slack_body e c w =
     with_payload e c w (\<lambda>p.
       case run_steps [put_slack_enabled p, put_slack_mode e c p, put_slack_secrets e c p SLACK_SECRETS] w of
         Inl done \<Rightarrow> done
       | Inr w1 \<Rightarrow> (ok_json, log_event c ''admin_slack_config'' ''ok'' [(''mode'', slack_mode w1)] w1))"

definition admin_put_slack_config :: "'h env \<Rightarrow> 'h handler" where
  "admin_put_slack_config e =
     require_admin e ''admin_put_slack_config'' (require_csrf e ''admin_put_slack_config'' (put_slack_body e))"

subsection \<open>The callback\<close>

text \<open>\<open>(x or {}).get(k)\<close> and \<open>x.get(k)\<close>; the latter needs an object.\<close>

definition get_of :: "json \<Rightarrow> string \<Rightarrow> json result" where
  "get_of j k = (case j of JObj _ \<Rightarrow> Inr (jget k j) | _ \<Rightarrow> Inl AttributeError)"

definition dict_get :: "json \<Rightarrow> string \<Rightarrow> json result" where
  "dict_get j k = (if truthy j then get_of j k else Inr JNull)"

definition first_action :: "json \<Rightarrow> json result" where
  "first_action v =
     (if \<not> truthy v then Inr (JObj [])
      else case v of
        JArr (a # _) \<Rightarrow> Inr a
      | JStr (ch # _) \<Rightarrow> Inr (JStr [ch])
      | JObj _ \<Rightarrow> Inl (PyError ''KeyError'')
      | _ \<Rightarrow> Inl TypeError)"

record slack_action =
  sa_kind :: json
  sa_job :: "string option"
  sa_group :: json
  sa_user :: json
  sa_url :: json

definition block_job :: "json \<Rightarrow> string option result" where
  "block_job v =
     (case str_or_empty v of
        Inl err \<Rightarrow> Inl err
      | Inr b \<Rightarrow> Inr (if starts_with ''job_'' b then Some (drop 4 b) else None))"

definition slack_actor :: "json \<Rightarrow> json result" where
  "slack_actor u =
     next_with (dict_get u ''username'') (\<lambda>name.
       if truthy name then Inr name
       else next_with (dict_get u ''name'') (\<lambda>name. Inr (if truthy name then name else JStr ''slack-user'')))"

definition read_action :: "json \<Rightarrow> slack_action result" where
  "read_action p =
     next_with (first_action (jget ''actions'' p)) (\<lambda>act.
     next_with (get_of act ''block_id'') (\<lambda>b.
     next_with (block_job b) (\<lambda>job.
     next_with (get_of act ''selected_option'') (\<lambda>opt.
     next_with (dict_get opt ''value'') (\<lambda>grp.
     next_with (slack_actor (jget ''user'' p)) (\<lambda>user.
     Inr \<lparr>sa_kind = jget ''action_id'' act, sa_job = job, sa_group = grp, sa_user = user,
          sa_url = jget ''response_url'' p\<rparr>))))))"

text \<open>The confirmation is handed to the thread pool; here it is posted at once and its outcome dropped.\<close>

definition confirm_assignment :: "'h env \<Rightarrow> json \<Rightarrow> string \<Rightarrow> 'h world \<Rightarrow> 'h world" where
  "confirm_assignment e url msg w =
     (case url of
        JStr u \<Rightarrow> if u = [] then w
          else snd (send_webhook_sync e u (JObj [(''replace_original'', JBool False), (''text'', JStr msg)]) (JObj []) w)
      | _ \<Rightarrow> w)"

definition perform_action :: "'h env \<Rightarrow> slack_action \<Rightarrow> 'h world \<Rightarrow> 'h world" where
  "perform_action e a w =
     (if sa_kind a = JStr ''assign_group'' \<and> set_opt (sa_job a) \<and> truthy (sa_group a)
      then case slack_assign_job e (or_empty (sa_job a)) (sa_group a) (sa_user a) w of
             ((_, msg), w1) \<Rightarrow> confirm_assignment e (sa_url a) msg w1
      else w)"

definition slack_on :: "'h world \<Rightarrow> bool" where
  "slack_on w = (get_setting w ''slack_interactive'' = Some ''1'' \<and> slack_mode w = ''http'' \<and> set_opt (get_setting w ''slack_signing_secret''))"

definition header :: "ctx \<Rightarrow> string \<Rightarrow> string" where
  "header c name = or_empty (c_headers c name)"

definition slack_authentic :: "'h env \<Rightarrow> string \<Rightarrow> ctx \<Rightarrow> 'h world \<Rightarrow> bool result" where
  "slack_authentic e raw c w =
     verify_slack_signature e (c_now c) raw (header c ''X-Slack-Request-Timestamp'') (header c ''X-Slack-Signature'')
       (or_empty (get_setting w ''slack_signing_secret''))"

definition slack_interact :: "'h env \<Rightarrow> string \<Rightarrow> 'h handler" where
  "slack_interact e raw c w =
     (if \<not> slack_on w then (reply 404 (JStr []), w)
      else attempt e c (slack_authentic e raw c w) w (\<lambda>authentic.
        if \<not> authentic
        then (reply 401 (JStr ''invalid signature''), log_event c ''slack_interact'' ''deny_bad_signature'' [] w)
        else case json_loads e (case map_of (parse_qs raw) ''payload'' of Some s \<Rightarrow> s | None \<Rightarrow> []) of
               None \<Rightarrow> (reply 400 (JStr []), w)
             | Some p \<Rightarrow> attempt e c (get_of p ''type'') w (\<lambda>kind.
                 if kind \<noteq> JStr ''block_actions'' then (reply 200 (JStr []), w)
                 else attempt e c (read_action p) w (\<lambda>a. (reply 200 (JStr []), perform_action e a w)))))"

end
