(* ===== verification/HookSafety.thy ===== *)
theory HookSafety
  imports Slack Subjects
begin

text \<open>
  What the integrations keep. The webhook table stays well-formed over any history of requests, so that no stored header
  can carry a line break into a delivery; and the Slack callback, which has no login, does nothing for a request that is
  not signed and fresh, and for a signed one moves a job to an existing group at most.
\<close>

subsection \<open>Webhooks that may be stored\<close>

definition header_line :: "string \<times> string \<Rightarrow> bool" where
  "header_line = (\<lambda>(k, v). HEADER_NAME_RE k \<and> cr \<notin> set v \<and> nl \<notin> set v)"

definition hook_ok :: "'h env \<Rightarrow> webhook \<Rightarrow> bool" where
  "hook_ok e h \<longleftrightarrow>
     h_name h \<noteq> [] \<and> (starts_with ''http://'' (h_url h) \<or> starts_with ''https://'' (h_url h))
     \<and> (\<exists>evs. h_events h = json_dumps e (strs evs) \<and> evs \<noteq> [] \<and> sorted evs \<and> distinct evs \<and> set evs \<subseteq> set WEBHOOK_EVENTS)
     \<and> (\<exists>hs. h_headers h = headers_text e hs \<and> list_all header_line hs)
     \<and> h_type h \<in> set WEBHOOK_TYPES"

definition hooks_ok :: "'h env \<Rightarrow> 'h world \<Rightarrow> bool" where
  "hooks_ok e w \<longleftrightarrow> unique_key h_id (w_webhooks w) \<and> (\<forall>h\<in>set (w_webhooks w). h_id h \<le> w_hid_seq w \<and> hook_ok e h)"

lemma hooks_okI [intro]:
  assumes "unique_key h_id (w_webhooks w)" "\<And>h. h \<in> set (w_webhooks w) \<Longrightarrow> h_id h \<le> w_hid_seq w \<and> hook_ok e h"
  shows "hooks_ok e w"
  using assms by (simp add: hooks_ok_def)

interpretation hooks: world_invariant "hooks_ok e" for e
  by unfold_locales (simp_all add: hooks_ok_def log_event_def log_event_in_tx_def set_setting_def)

subsection \<open>The checks\<close>

lemma url_checked: "validate_webhook_url v = Inr u \<Longrightarrow> starts_with ''http://'' u \<or> starts_with ''https://'' u"
  by (auto simp: validate_webhook_url_def Let_def split: json.splits if_splits)

lemma texts_strs: "texts vs = Inr ss \<Longrightarrow> vs = map JStr ss"
  by (induction vs arbitrary: ss) (auto simp: text_of_def split: json.splits sum.splits)

lemma events_checked:
  assumes "validate_webhook_events v = Inr (Inr evs)"
  shows "evs \<noteq> [] \<and> sorted evs \<and> distinct evs \<and> set evs \<subseteq> set WEBHOOK_EVENTS"
proof -
  from assms obtain xs ss where xs: "xs \<noteq> []" "filter (\<lambda>x. x \<notin> JStr ` set WEBHOOK_EVENTS) xs = []"
      "texts xs = Inr ss" "evs = sort (remdups ss)"
    by (auto simp: validate_webhook_events_def split: json.splits if_splits list.splits sum.splits)
  have "xs = map JStr ss" by (rule texts_strs) (rule xs)
  then have "ss \<noteq> []" "set ss \<subseteq> set WEBHOOK_EVENTS" using xs(1,2) by (auto simp: filter_empty_conv)
  moreover from this(1) have "sort (remdups ss) \<noteq> []" by (metis length_0_conv length_sort remdups_eq_nil_iff)
  ultimately show ?thesis by (simp add: xs(4))
qed

lemma headers_checked: "check_headers kvs = Inr hs \<Longrightarrow> list_all header_line hs"
  by (induction kvs arbitrary: hs rule: check_headers.induct)
     (auto simp: header_line_def split: json.splits if_splits sum.splits)

lemma headers_validated: "validate_webhook_headers v = Inr hs \<Longrightarrow> list_all header_line hs"
  by (auto simp: validate_webhook_headers_def headers_checked split: json.splits if_splits)

lemma type_checked: "webhook_type v = Inr (Inr t) \<Longrightarrow> t \<in> set WEBHOOK_TYPES"
  by (auto simp: webhook_type_def Let_def split: sum.splits if_splits)

text \<open>A checked column keeps the row well-formed and its identifier.\<close>

definition keeps_row :: "'h env \<Rightarrow> (webhook \<Rightarrow> webhook) \<Rightarrow> bool" where
  "keeps_row e f \<longleftrightarrow> (\<forall>h. h_id (f h) = h_id h \<and> (hook_ok e h \<longrightarrow> hook_ok e (f h)))"

lemma column_keeps:
  "new_hook_name v = Inr (Inr f) \<Longrightarrow> keeps_row e f" "new_url v = Inr (Inr f) \<Longrightarrow> keeps_row e f"
  "new_events e v = Inr (Inr f) \<Longrightarrow> keeps_row e f" "new_headers e v = Inr (Inr f) \<Longrightarrow> keeps_row e f"
  "new_type v = Inr (Inr f) \<Longrightarrow> keeps_row e f" "new_enabled v = Inr (Inr f) \<Longrightarrow> keeps_row e f"
proof -
  show "new_hook_name v = Inr (Inr f) \<Longrightarrow> keeps_row e f"
    by (auto simp: new_hook_name_def keeps_row_def hook_ok_def Let_def split: sum.splits if_splits)
  show "new_url v = Inr (Inr f) \<Longrightarrow> keeps_row e f"
    using url_checked [of v] by (cases "validate_webhook_url v") (auto simp: new_url_def keeps_row_def hook_ok_def)
  show "new_headers e v = Inr (Inr f) \<Longrightarrow> keeps_row e f"
    using headers_validated [of v]
    by (cases "validate_webhook_headers v") (auto simp: new_headers_def keeps_row_def hook_ok_def)
  show "new_enabled v = Inr (Inr f) \<Longrightarrow> keeps_row e f"
    by (auto simp: new_enabled_def keeps_row_def hook_ok_def)
  show "keeps_row e f" if "new_events e v = Inr (Inr f)"
  proof -
    from that obtain evs where "validate_webhook_events v = Inr (Inr evs)" "f = h_events_update (\<lambda>_. json_dumps e (strs evs))"
      by (auto simp: new_events_def map_sum_def split: sum.splits)
    with events_checked [OF this(1)] show ?thesis by (simp add: keeps_row_def hook_ok_def) blast
  qed
  show "keeps_row e f" if "new_type v = Inr (Inr f)"
  proof -
    from that obtain t where "webhook_type v = Inr (Inr t)" "f = h_type_update (\<lambda>_. t)"
      by (auto simp: new_type_def map_sum_def split: sum.splits)
    with type_checked [OF this(1)] show ?thesis by (simp add: keeps_row_def hook_ok_def)
  qed
qed

lemma columns_keep: "(k, col) \<in> set (hook_columns e) \<Longrightarrow> col v = Inr (Inr f) \<Longrightarrow> keeps_row e f"
  by (auto simp: hook_columns_def dest: column_keeps)

lemma changes_keep:
  "changed_columns p cols = Inr (Inr fs) \<Longrightarrow> set cols \<subseteq> set (hook_columns e) \<Longrightarrow> list_all (keeps_row e) fs"
proof (induction p cols arbitrary: fs rule: changed_columns.induct)
  case (2 p k col cols)
  then show ?case
    using columns_keep [of k col e "jget k p"]
    by (fastforce simp: map_sum_def split: if_splits sum.splits)
qed simp

lemma fold_keeps: "list_all (keeps_row e) fs \<Longrightarrow> keeps_row e (fold (\<lambda>f. f) fs)"
  by (induction fs) (simp_all add: keeps_row_def)

lemma counted_keeps: "keeps_row e (count_call now code err)"
  by (simp add: keeps_row_def count_call_def hook_ok_def)

lemma modified_ok:
  assumes "hooks_ok e w" "keeps_row e f"
  shows "hooks_ok e (w\<lparr>w_webhooks := modify_row h_id wid f (w_webhooks w)\<rparr>)"
proof
  let ?w' = "w\<lparr>w_webhooks := modify_row h_id wid f (w_webhooks w)\<rparr>"
  have "map h_id (w_webhooks ?w') = map h_id (w_webhooks w)"
    using assms(2) by (auto simp: modify_row_def update_where_def keeps_row_def)
  then show "unique_key h_id (w_webhooks ?w')" using assms(1) by (simp add: hooks_ok_def unique_key_def)
  show "h_id h \<le> w_hid_seq ?w' \<and> hook_ok e h" if "h \<in> set (w_webhooks ?w')" for h
    using that assms by (auto simp: modify_row_def update_where_def hooks_ok_def keeps_row_def split: if_splits)
qed

lemma sent_frame [simp]:
  "w_webhooks (snd (send_webhook_sync e u p hs w)) = w_webhooks w" "w_hid_seq (snd (send_webhook_sync e u p hs w)) = w_hid_seq w"
  "w_jobs (snd (send_webhook_sync e u p hs w)) = w_jobs w" "w_settings (snd (send_webhook_sync e u p hs w)) = w_settings w"
  "w_groups (snd (send_webhook_sync e u p hs w)) = w_groups w"
  by (simp_all add: send_webhook_sync_def split: prod.split)

lemma hooks_ok_frame: "w_webhooks w' = w_webhooks w \<Longrightarrow> w_hid_seq w' = w_hid_seq w \<Longrightarrow> hooks_ok e w' = hooks_ok e w"
  by (simp add: hooks_ok_def)

lemma stream_ok [simp]: "hooks_ok e (stream_line r a b x w) = hooks_ok e w"
  by (rule hooks_ok_frame) (simp_all add: stream_line_def)

lemma recorded_ok: "hooks_ok e w \<Longrightarrow> hooks_ok e (record_call now wid code err w)"
  unfolding record_call_def by (rule modified_ok [OF _ counted_keeps])

subsection \<open>The endpoints\<close>

lemma checked_ok: "hooks_ok e w \<Longrightarrow> (\<And>x. r = Inr x \<Longrightarrow> hooks_ok e (snd (k x))) \<Longrightarrow> hooks_ok e (snd (checked w r k))"
  by (cases r) (simp_all add: checked_def)

lemma appended_ok:
  assumes "hooks_ok e w" "hook_ok e h" "h_id h = w_hid_seq w + 1"
  shows "hooks_ok e (w\<lparr>w_webhooks := w_webhooks w @ [h], w_hid_seq := w_hid_seq w + 1\<rparr>)"
  using assms by (fastforce simp: hooks_ok_def unique_key_def)

lemma created_ok:
  assumes "name \<noteq> []" "validate_webhook_url u = Inr url" "validate_webhook_events v = Inr (Inr evs)"
    "validate_webhook_headers h = Inr hs" "webhook_type t = Inr (Inr wtype)"
  shows "hook_ok e (new_webhook wid name url (json_dumps e (strs evs)) (headers_text e hs) enabled now dn wtype)"
  using assms(1) url_checked [OF assms(2)] events_checked [OF assms(3)] headers_validated [OF assms(4)] type_checked [OF assms(5)]
  by (auto simp: hook_ok_def new_webhook_def)

lemma new_webhook_id: "h_id (new_webhook wid name url evs hs enabled now dn wtype) = wid"
  by (simp add: new_webhook_def)

lemma hooks_create: "hooks.keeps e (create_webhook_body e)"
  unfolding create_webhook_body_def Let_def
  by (rule hooks.keepsI)
     (auto simp: hooks.log hooks.failures new_webhook_id
       intro!: hooks.payload checked_ok hooks.attempt appended_ok created_ok)

lemma hooks_update: "hooks.keeps e (update_webhook_body e wid)"
  unfolding update_webhook_body_def
  by (rule hooks.keepsI, rule hooks.payload, assumption, rule hooks.attempt, assumption)
     (auto simp: hooks.log intro!: checked_ok modified_ok fold_keeps changes_keep)

lemma removed_ok: "hooks_ok e w \<Longrightarrow> hooks_ok e (w\<lparr>w_webhooks := remove_row h_id wid (w_webhooks w)\<rparr>)"
  by (auto simp: hooks_ok_def remove_row_def delete_where_def unique_key_def distinct_map_filter)

lemma hooks_delete: "hooks.keeps e (delete_webhook_body e wid)"
  by (rule hooks.keepsI) (simp add: delete_webhook_body_def hooks.log removed_ok)

lemma sent_ok: "hooks_ok e w \<Longrightarrow> send_webhook_sync e u p hs w = (r, w1) \<Longrightarrow> hooks_ok e w1"
  using sent_frame(1,2) [of e u p hs w] by (simp add: hooks_ok_def)

lemma keeps_test: "hooks.keeps e (test_webhook_body e ms wid)"
  by (rule hooks.keepsI)
     (auto simp: test_webhook_body_def Let_def hooks.log hooks.failures intro: recorded_ok sent_ok split: option.split prod.split)

datatype hook_request = CreateHook | UpdateHook int | DeleteHook int | TestHook mail_state int

fun serve_hook :: "'h env \<Rightarrow> hook_request \<Rightarrow> 'h handler" where
  "serve_hook e CreateHook = admin_create_webhook e"
| "serve_hook e (UpdateHook i) = admin_update_webhook e i"
| "serve_hook e (DeleteHook i) = admin_delete_webhook e i"
| "serve_hook e (TestHook ms i) = admin_test_webhook e ms i"

lemma hooks_served: "hooks.keeps e (serve_hook e q)"
  by (cases q) (simp_all add: admin_create_webhook_def admin_update_webhook_def admin_delete_webhook_def
      admin_test_webhook_def hooks.guarded hooks_create hooks_update hooks_delete keeps_test)

lemma keeps_dispatch: "hooks_ok e w \<Longrightarrow> hooks_ok e (dispatch_webhook_worker e ms c wid name url event d hs wtype w)"
proof -
  assume w: "hooks_ok e w"
  obtain r w1 where s: "send_webhook_sync e url (format_webhook e ms c wtype event d w) hs w = (r, w1)" by fastforce
  then have "hooks_ok e w1" by (rule sent_ok [OF w])
  then show ?thesis by (cases r) (simp add: dispatch_webhook_worker_def s recorded_ok)
qed

text \<open>Requests of administrators or anybody else, and deliveries from the thread pool, in any order.\<close>

inductive hook_history :: "'h env \<Rightarrow> 'h world \<Rightarrow> 'h world \<Rightarrow> bool" for e where
  idle: "hook_history e w w"
| served: "hook_history e w w1 \<Longrightarrow> hook_history e w (snd (serve_hook e q c w1))"
| delivered: "hook_history e w w1 \<Longrightarrow> hook_history e w (dispatch_webhook_worker e ms c wid name url event d hs wtype w1)"

lemma history_ok: "hook_history e w w' \<Longrightarrow> hooks_ok e w \<Longrightarrow> hooks_ok e w'"
  by (induction rule: hook_history.induct) (simp_all add: hooks.keepsD [OF hooks_served] keeps_dispatch)

subsection \<open>The headers that are sent\<close>

lemma update_subset: "set (AList.update k v kvs) \<subseteq> insert (k, v) (set kvs)"
  by (induction kvs) auto

lemma hook_request_headers_list:
  assumes "list_all header_line hs" "list_all header_line init"
  shows "list_all header_line (fold (\<lambda>(k, v) acc. if k \<noteq> [] \<and> v \<noteq> JNull then AList.update k (str_of e v) acc else acc)
           (map (\<lambda>(k, v). (k, JStr v)) hs) init)"
  using assms
proof (induction hs arbitrary: init)
  case (Cons kv hs)
  obtain k v where kv: "kv = (k, v)" by fastforce
  have "list_all header_line (AList.update k v init)"
    using Cons.prems update_subset [of k v init] by (auto simp: kv list_all_iff)
  then show ?case using Cons by (simp add: kv)
qed simp

lemma standard_lines:
  "list_all header_line [(''Content-Type'', ''application/json''), (''User-Agent'', ''certheim/2.2'')]"
  by code_simp

lemma stored_headers:
  assumes "faithful_json e" "hook_ok e h"
  obtains hs where "hook_headers e h = JObj (map (\<lambda>(k, v). (k, JStr v)) hs)" "list_all header_line hs"
proof -
  from assms(2) obtain hs where hs: "h_headers h = headers_text e hs" "list_all header_line hs"
    by (auto simp: hook_ok_def)
  then have "hook_headers e h = JObj (map (\<lambda>(k, v). (k, JStr v)) hs)"
    using assms(1) by (auto simp: hook_headers_def headers_text_def set_opt_def faithful_json_def)
  then show ?thesis using that hs(2) by blast
qed


definition hook_payload :: json where
  "hook_payload = JObj [(''name'', JStr ''Chat''), (''url'', JStr ''https://chat/x''), (''events'', JArr [JStr ''job.issued'']),
     (''headers'', JObj [(''X-Token'', JStr ''t'')]), (''type'', JStr ''slack'')]"

definition hook_ctx :: ctx where
  "hook_ctx = profile_ctx\<lparr>c_body := Some hook_payload\<rparr>"

definition mtls_world :: "unit world" where
  "mtls_world = sample_world\<lparr>w_settings := [''auth_mode'' \<mapsto> ''mtls'']\<rparr>"

lemma hook_created: "map h_name (w_webhooks (snd (serve_hook numbering_env CreateHook hook_ctx mtls_world))) = [''Chat'']"
proof -
  have "strip ''Chat'' = ''Chat''" "validate_webhook_url (JStr ''https://chat/x'') = Inr ''https://chat/x''"
    "validate_webhook_events (JArr [JStr ''job.issued'']) = Inr (Inr [''job.issued''])"
    "validate_webhook_headers (JObj [(''X-Token'', JStr ''t'')]) = Inr [(''X-Token'', ''t'')]"
    "webhook_type (JStr ''slack'') = Inr (Inr ''slack'')" by code_simp+
  then show ?thesis
    by (simp add: admin_create_webhook_def require_admin_def guard_user_def hook_ctx_def profile_ctx_def sample_ctx_def auth_mode_def
      get_setting_def sample_world_def mtls_world_def ensure_user_def new_user_def is_admin_def require_csrf_def create_webhook_body_def
      with_payload_def payload_of_def str_or_empty_def hook_payload_def checked_def new_webhook_def Let_def)
qed


subsection \<open>The callback\<close>

lemma assigned:
  assumes "slack_assign_job e k v u w = (r, w1)"
  shows "\<exists>js ls. w1 = w\<lparr>w_jobs := js, w_log := ls\<rparr>
    \<and> (js = w_jobs w \<or> (\<exists>gid. group_by_id (Some gid) w \<noteq> None
         \<and> js = modify_row j_id k (j_group_id_update (\<lambda>_. Some gid)) (w_jobs w)))"
proof -
  have "w1 = w \<or> (\<exists>gid x. group_by_id (Some gid) w \<noteq> None
      \<and> w1 = stream_line ''slack'' ''slack_assign'' ''ok'' x
               (w\<lparr>w_jobs := modify_row j_id k (j_group_id_update (\<lambda>_. Some gid)) (w_jobs w)\<rparr>))"
    using assms by (auto simp: slack_assign_job_def split: if_splits sum.splits option.splits)
  then show ?thesis
  proof
    assume "w1 = w"
    then show ?thesis by (intro exI [of _ "w_jobs w"] exI [of _ "w_log w"]) simp
  qed (auto simp: stream_line_def)
qed

text \<open>What an accepted action can do to the state.\<close>

definition slack_effect :: "'h world \<Rightarrow> 'h world \<Rightarrow> bool" where
  "slack_effect w w' \<longleftrightarrow>
     (\<exists>js h ls. w' = w\<lparr>w_jobs := js, w_host := h, w_log := ls\<rparr>
       \<and> (js = w_jobs w \<or> (\<exists>k gid. group_by_id (Some gid) w \<noteq> None
            \<and> js = modify_row j_id k (j_group_id_update (\<lambda>_. Some gid)) (w_jobs w))))"

lemma confirmed: "\<exists>h. confirm_assignment e u msg w = w\<lparr>w_host := h\<rparr>"
proof -
  have "confirm_assignment e u msg w = w\<lparr>w_host := w_host (confirm_assignment e u msg w)\<rparr>"
    by (cases u) (simp_all add: confirm_assignment_def send_webhook_sync_def split: prod.split)
  then show ?thesis by (rule exI)
qed

lemma performed: "slack_effect w (perform_action e a w)"
proof (cases "sa_kind a = JStr ''assign_group'' \<and> set_opt (sa_job a) \<and> truthy (sa_group a)")
  case True
  obtain ok msg w1 where r: "slack_assign_job e (or_empty (sa_job a)) (sa_group a) (sa_user a) w = ((ok, msg), w1)"
    by (metis surj_pair)
  obtain h where h: "confirm_assignment e (sa_url a) msg w1 = w1\<lparr>w_host := h\<rparr>" using confirmed [of e "sa_url a" msg w1] by (rule exE)
  from assigned [OF r] obtain js ls where w1: "w1 = w\<lparr>w_jobs := js, w_log := ls\<rparr>"
    and js: "js = w_jobs w \<or> (\<exists>gid. group_by_id (Some gid) w \<noteq> None
         \<and> js = modify_row j_id (or_empty (sa_job a)) (j_group_id_update (\<lambda>_. Some gid)) (w_jobs w))" by blast
  have "perform_action e a w = w\<lparr>w_jobs := js, w_host := h, w_log := ls\<rparr>"
    using True h by (simp add: perform_action_def r w1)
  then show ?thesis using js unfolding slack_effect_def by blast
next
  case False
  then have "perform_action e a w = w\<lparr>w_jobs := w_jobs w, w_host := w_host w, w_log := w_log w\<rparr>"
    by (simp only: perform_action_def if_False) simp
  then show ?thesis unfolding slack_effect_def by blast
qed

definition slack_signed :: "'h env \<Rightarrow> string \<Rightarrow> ctx \<Rightarrow> 'h world \<Rightarrow> bool" where
  "slack_signed e raw c w \<longleftrightarrow>
     (\<exists>secret ts. get_setting w ''slack_signing_secret'' = Some secret \<and> secret \<noteq> []
       \<and> int_of (header c ''X-Slack-Request-Timestamp'') = Some ts \<and> abs (c_now c - ts) \<le> 300
       \<and> header c ''X-Slack-Signature''
         = ''v0='' @ hmac_sha256 e secret (''v0:'' @ header c ''X-Slack-Request-Timestamp'' @ '':'' @ raw))"

lemma authentic_signed: "slack_on w \<Longrightarrow> slack_authentic e raw c w = Inr True \<Longrightarrow> slack_signed e raw c w"
  by (cases "get_setting w ''slack_signing_secret''")
     (auto simp: slack_on_def slack_authentic_def verify_slack_signature_def slack_signed_def set_opt_def
       split: if_splits option.splits)

definition only_audited :: "'h world \<Rightarrow> 'h world \<Rightarrow> bool" where
  "only_audited w w' \<longleftrightarrow> (\<exists>ls rows. w' = w\<lparr>w_log := ls, w_audit := rows\<rparr>)"

lemma audited: "only_audited w w" "only_audited w (log_event c a r x w)" "only_audited w (snd (crash e c err w))"
proof -
  have "w = w\<lparr>w_log := w_log w, w_audit := w_audit w\<rparr>" by simp
  then show "only_audited w w" unfolding only_audited_def by blast
  show "only_audited w (log_event c a r x w)" "only_audited w (snd (crash e c err w))"
    unfolding only_audited_def log_event_def crash_def by auto
qed

text \<open>
  C28: the Slack callback, which has no login, obeys signed requests only. Whatever is sent to it, either nothing changes
  but the audit, or interactivity is on, the request carries the HMAC of its own body under the stored secret with a
  time stamp at most five minutes off, and the only change besides the log and the posted confirmation is that one job
  identifier's group becomes an existing group.
\<close>
theorem slack_needs_signature:
  "only_audited w (snd (slack_interact e raw c w))
   \<or> (slack_on w \<and> slack_signed e raw c w \<and> slack_effect w (snd (slack_interact e raw c w)))"
proof (cases "slack_on w")
  case on: True
  show ?thesis
  proof (cases "slack_authentic e raw c w")
    case (Inr b)
    have "only_audited w (snd (slack_interact e raw c w)) \<or> (b \<and> slack_effect w (snd (slack_interact e raw c w)))"
      by (auto simp: slack_interact_def on Inr audited performed attempt_def split: option.split sum.split)
    with authentic_signed [OF on, of e raw c] Inr on show ?thesis by (cases b) auto
  qed (simp add: slack_interact_def on audited)
qed (simp add: slack_interact_def audited)

end
