(* ===== verification/Feedback.thy ===== *)
theory Feedback
  imports Subjects LicenseAdmin
begin

text \<open>
  User feedback (\<^verbatim>\<open>backend/routes_feedback.py\<close>) and the caller's own profile (\<^verbatim>\<open>backend/routes_me.py\<close>):
  submitting, listing, triage and deletion of feedback; the profile readout with the subject profiles and
  domain suffixes offered to a requester; the two preferences a user may change. Then: the triage marks of a row
  agree with its status over any history, a submission is kept whatever the mail does, and the preferences
  endpoint touches nothing but the caller's own address and tutorial flag.
\<close>

subsection \<open>Feedback\<close>

definition FEEDBACK_CATEGORIES :: "string list" where
  "FEEDBACK_CATEGORIES = [''bug'', ''feature'', ''general'']"

definition new_feedback :: "int \<Rightarrow> string \<Rightarrow> time \<Rightarrow> string \<Rightarrow> string \<Rightarrow> feedback" where
  "new_feedback fid dn now category message =
     \<lparr>fb_id = fid, fb_user_dn = dn, fb_submitted_at = now, fb_category = category, fb_message = message,
      fb_status = ''new'', fb_read_at = None, fb_read_by_dn = None, fb_resolved_at = None, fb_resolved_by_dn = None,
      fb_notes = None\<rparr>"

definition admin_addresses :: "'h world \<Rightarrow> string list" where
  "admin_addresses w =
     map (\<lambda>u. strip (or_empty (u_email u)))
       (filter (\<lambda>u. u_is_admin u \<and> u_is_active u \<and> \<not> sql_blank (u_email u)) (w_users w))"

definition mail_admins :: "'h env \<Rightarrow> ctx \<Rightarrow> int \<Rightarrow> string \<Rightarrow> string \<Rightarrow> 'h world \<Rightarrow> 'h world" where
  "mail_admins e c fid category message w =
     (let to = admin_addresses w;
          tags = [(''event'', ''feedback_received''), (''feedback_id'', int_str fid)] in
      if to = [] then log_event c ''email_notify'' ''skip'' (tags @ [(''reason'', ''no admins with email set'')]) w
      else
        let mail = [(''id'', JInt fid), (''category'', JStr category), (''message'', JStr message), (''to'', strs to),
                    (''submitter_cn'', JStr (or_else (cn_from_dn (me c)) ''(unknown)'')), (''submitter_email'', jopt (my_email c))];
            w1 = w\<lparr>w_mail := w_mail w @ [(''feedback_received'', mail)]\<rparr>
        in case send_mail e ''feedback_received'' mail of
             Inl err \<Rightarrow> log_event c ''email_notify'' ''exception'' (tags @ [(''error'', take 128 err)]) w1
           | Inr (sent, reason) \<Rightarrow>
               log_event c ''email_notify'' (if sent then ''ok'' else ''skip'')
                 (tags @ [(''admin_count'', nat_str (length to)), (''reason'', take 96 reason)]) w1)"

definition insert_feedback :: "ctx \<Rightarrow> string \<Rightarrow> string \<Rightarrow> 'h world \<Rightarrow> int \<times> 'h world" where
  "insert_feedback c category message w =
     (let fid = w_fid_seq w + 1 in
      (fid, w\<lparr>w_feedback := w_feedback w @ [new_feedback fid (me c) (c_now c) category message], w_fid_seq := fid\<rparr>))"

definition submit_feedback_body :: "'h env \<Rightarrow> 'h handler" where
  "submit_feedback_body e c w =
     with_payload e c w (\<lambda>p.
     attempt e c (str_or_empty (jget ''category'' p)) w (\<lambda>cat.
     attempt e c (str_or_empty (jget ''message'' p)) w (\<lambda>msg.
       let category = lower (strip cat); message = strip msg in
       if category \<notin> set FEEDBACK_CATEGORIES
       then refuse 400 (''category must be one of: '' @ join '', '' FEEDBACK_CATEGORIES) w
       else if message = [] then refuse 400 ''message is required'' w
       else if 4000 < length message then refuse 400 ''message too long (max 4000 chars)'' w
       else case insert_feedback c category message w of
         (fid, w1) \<Rightarrow>
           (ok_reply [(''ok'', JBool True), (''id'', JInt fid)],
            mail_admins e c fid category message
              (fire_webhooks e c ''feedback.submitted''
                 [(''feedback_id'', JInt fid), (''category'', JStr category), (''message'', JStr message),
                  (''submitter_dn'', JStr (me c)), (''submitter_cn'', JStr (cn_from_dn (me c))), (''submitter_email'', jopt (my_email c))]
                 (log_event c ''feedback_submit'' ''ok''
                    [(''feedback_id'', int_str fid), (''category'', category), (''length'', nat_str (length message))] w1))))))"

definition submit_feedback :: "'h env \<Rightarrow> 'h handler" where
  "submit_feedback e = require_auth e ''submit_feedback'' (require_csrf e ''submit_feedback'' (submit_feedback_body e))"

definition feedback_json :: "'h world \<Rightarrow> feedback \<Rightarrow> json" where
  "feedback_json w f =
     (let by = (\<lambda>dn. row_by u_dn dn (w_users w)) in
      JObj [(''id'', JInt (fb_id f)), (''user_dn'', JStr (fb_user_dn f)), (''submitted_at'', JInt (fb_submitted_at f)),
        (''category'', JStr (fb_category f)), (''message'', JStr (fb_message f)), (''status'', JStr (fb_status f)),
        (''read_at'', jint_opt (fb_read_at f)), (''read_by_dn'', jopt (fb_read_by_dn f)),
        (''resolved_at'', jint_opt (fb_resolved_at f)), (''resolved_by_dn'', jopt (fb_resolved_by_dn f)),
        (''resolution_notes'', jopt (fb_notes f)),
        (''user_cn'', jopt (map_option u_cn (by (fb_user_dn f)))),
        (''user_email'', jopt (Option.bind (by (fb_user_dn f)) u_email)),
        (''resolved_by_cn'', jopt (map_option u_cn (Option.bind (fb_resolved_by_dn f) by)))])"

definition admin_list_feedback :: "'h env \<Rightarrow> 'h handler" where
  "admin_list_feedback e = require_admin e ''admin_list_feedback'' (\<lambda>c w.
     let status = lower (or_else (or_empty (c_args c ''status'')) ''all'');
         rows = sort_key (\<lambda>f. - fb_submitted_at f)
                  (if status \<in> set [''new'', ''read'', ''resolved''] then filter (\<lambda>f. fb_status f = status) (w_feedback w) else w_feedback w)
     in (ok_reply [(''feedback'', JArr (map (feedback_json w) rows))],
         log_event c ''admin_list_feedback'' ''ok'' [(''status'', status), (''count'', nat_str (length rows))] w))"

definition triaged :: "ctx \<Rightarrow> string \<Rightarrow> feedback \<Rightarrow> feedback" where
  "triaged c status f =
     (let f = f\<lparr>fb_status := status\<rparr> in
      if status = ''read'' then f\<lparr>fb_read_at := Some (c_now c), fb_read_by_dn := Some (me c)\<rparr>
      else if status = ''resolved'' then f\<lparr>fb_resolved_at := Some (c_now c), fb_resolved_by_dn := Some (me c)\<rparr>
      else f)"

text \<open>The columns to set, in order; a refusal, an exception, or the changes.\<close>

definition status_change :: "ctx \<Rightarrow> json \<Rightarrow> (string + (feedback \<Rightarrow> feedback) list) result" where
  "status_change c p =
     (if jhas ''status'' p
      then case str_or_empty (jget ''status'' p) of
             Inl err \<Rightarrow> Inl err
           | Inr v \<Rightarrow> let s = lower (strip v) in
               Inr (if s \<in> set [''new'', ''read'', ''resolved''] then Inr [triaged c s]
                    else Inl ''status must be new, read, or resolved'')
      else Inr (Inr []))"

definition notes_change :: "json \<Rightarrow> string + (feedback \<Rightarrow> feedback) list" where
  "notes_change p =
     (if jhas ''resolution_notes'' p
      then case jget ''resolution_notes'' p of
             JNull \<Rightarrow> Inr [fb_notes_update (\<lambda>_. None)]
           | JStr s \<Rightarrow> if 2000 < length s then Inl ''resolution_notes too long'' else Inr [fb_notes_update (\<lambda>_. Some s)]
           | _ \<Rightarrow> Inl ''resolution_notes must be string or null''
      else Inr [])"

definition update_feedback_body :: "'h env \<Rightarrow> int \<Rightarrow> 'h handler" where
  "update_feedback_body e fid c w =
     with_payload e c w (\<lambda>p.
     attempt e c (status_change c p) w (\<lambda>r.
       case r of Inl msg \<Rightarrow> refuse 400 msg w
       | Inr fs \<Rightarrow>
           (case notes_change p of Inl msg \<Rightarrow> refuse 400 msg w
            | Inr gs \<Rightarrow>
                if fs @ gs = [] then refuse 400 ''no fields to update'' w
                else if rowcount (\<lambda>f. fb_id f = fid) (w_feedback w) = 0 then refuse 404 ''feedback not found'' w
                else (ok_json, log_event c ''admin_feedback_update'' ''ok'' [(''feedback_id'', int_str fid)]
                       (w\<lparr>w_feedback := modify_row fb_id fid (fold (\<lambda>f. f) (fs @ gs)) (w_feedback w)\<rparr>)))))"

definition delete_feedback_body :: "int \<Rightarrow> 'h handler" where
  "delete_feedback_body fid c w =
     (if rowcount (\<lambda>f. fb_id f = fid) (w_feedback w) = 0 then refuse 404 ''feedback not found'' w
      else (ok_json, log_event c ''admin_feedback_delete'' ''ok'' [(''feedback_id'', int_str fid)]
             (w\<lparr>w_feedback := remove_row fb_id fid (w_feedback w)\<rparr>)))"

definition admin_update_feedback :: "'h env \<Rightarrow> int \<Rightarrow> 'h handler" where
  "admin_update_feedback e fid =
     require_admin e ''admin_update_feedback'' (require_csrf e ''admin_update_feedback'' (update_feedback_body e fid))"

definition admin_delete_feedback :: "'h env \<Rightarrow> int \<Rightarrow> 'h handler" where
  "admin_delete_feedback e fid =
     require_admin e ''admin_delete_feedback'' (require_csrf e ''admin_delete_feedback'' (delete_feedback_body fid))"

subsection \<open>The caller's profile\<close>

definition public_profile :: "json \<Rightarrow> json" where
  "public_profile p =
     JObj [(''slug'', jget ''slug'' p), (''name'', jget ''name'' p), (''is_default'', JBool (truthy (jget ''is_default'' p)))]"

definition is_object :: "json \<Rightarrow> bool" where
  "is_object j = (case j of JObj _ \<Rightarrow> True | _ \<Rightarrow> False)"

definition subject_profiles_public :: "'h env \<Rightarrow> 'h world \<Rightarrow> json list result" where
  "subject_profiles_public e w =
     (let saved = jlist e w ''subject_profiles'';
          profs = (if saved = [] \<and> get_setting w ''subject_configured'' = Some ''1''
                   then [JObj [(''slug'', JStr ''default''), (''name'', JStr ''Default''), (''is_default'', JBool True)]] else saved)
      in if list_all is_object profs
         then Inr (map public_profile (filter (\<lambda>p. truthy (jget ''slug'' p)) profs)) else Inl AttributeError)"

text \<open>Python's equality of scalars: True is 1 and False is 0.\<close>

definition same_value :: "json \<Rightarrow> json \<Rightarrow> bool" where
  "same_value a b = (a = b \<or> (number_key a \<noteq> None \<and> number_key a = number_key b))"

fun keep_new :: "json list \<Rightarrow> json list \<Rightarrow> json list result" where
  "keep_new seen [] = Inr []"
| "keep_new seen (d # ds) =
     (if \<not> truthy d then keep_new seen ds
      else if \<not> hashable d then Inl TypeError
      else if list_ex (same_value d) seen then keep_new seen ds
      else map_sum id ((#) d) (keep_new (d # seen) ds))"

definition selectable_domain_suffixes :: "'h env \<Rightarrow> 'h world \<Rightarrow> json list result" where
  "selectable_domain_suffixes e w =
     keep_new [] (JStr (or_empty (get_setting w ''subject_domain_suffix'')) # jlist e w ''subject_domain_suffixes'')"

definition notice_json :: "notice option \<Rightarrow> json" where
  "notice_json n =
     (case n of None \<Rightarrow> JNull
      | Some n \<Rightarrow> JObj [(''days_left'', JInt (days_left n)), (''expires'', JInt (n_expires n)),
                        (''edition'', JStr (n_edition n)), (''customer'', n_customer n)])"

definition me_json ::
  "string \<Rightarrow> user \<Rightarrow> ctx \<Rightarrow> license_info \<Rightarrow> notice option \<Rightarrow> json list \<Rightarrow> json list \<Rightarrow> 'h world \<Rightarrow> (string \<times> json) list" where
  "me_json version u c li notice suffixes profs w =
     [(''dn'', JStr (u_dn u)), (''cn'', JStr (u_cn u)), (''username'', jopt (u_username u)), (''email'', jopt (u_email u)),
      (''is_admin'', JBool (u_is_admin u)), (''is_active'', JBool (u_is_active u)), (''is_signer'', JBool (is_signer (u_dn u) w)),
      (''tutorial_dismissed'', JBool (u_tutorial_dismissed u)), (''created_at'', JInt (u_created_at u)),
      (''last_seen_at'', JInt (u_last_seen_at u)),
      (''via'', JStr (case c_identity c of None \<Rightarrow> ''none'' | Some i \<Rightarrow> id_via i)),
      (''license_notice'', notice_json notice),
      (''edition'', JStr (or_else (li_edition li) ''community'')),
      (''build_edition'', JStr (or_else (li_build_edition li) ''community'')),
      (''edition_mismatch'', jget ''edition_mismatch'' (JObj (license_fields li))),
      (''licensed_to'', if li_valid li then li_customer li else JNull),
      (''license_warnings'', if li_valid li then strs (li_warnings li) else JArr []),
      (''version'', JStr version),
      (''domain_suffix'', JStr (or_empty (get_setting w ''subject_domain_suffix''))),
      (''domain_suffixes'', JArr suffixes), (''subject_profiles'', JArr profs)]"

definition get_me :: "'h env \<Rightarrow> string \<Rightarrow> 'h handler" where
  "get_me e version = require_auth e ''get_me'' (\<lambda>c w.
     case c_user c of
       None \<Rightarrow> crash e c TypeError w
     | Some u \<Rightarrow>
         attempt e c (license_in e c w) w (\<lambda>li.
         attempt e c (expiry_notice li (c_now c) (if u_is_admin u then 60 else 30)) w (\<lambda>notice.
         attempt e c (selectable_domain_suffixes e w) w (\<lambda>suffixes.
         attempt e c (subject_profiles_public e w) w (\<lambda>profs.
           (ok_reply (me_json version u c li notice suffixes profs w), w))))))"

subsection \<open>Preferences\<close>

definition email_pref :: "json \<Rightarrow> string + string option" where
  "email_pref p =
     (if jhas ''email'' p
      then case validate_email (jget ''email'' p) of
             Inl msg \<Rightarrow> Inl msg
           | Inr a \<Rightarrow> if set_opt a then Inr a else Inl ''email is required and cannot be cleared''
      else Inr None)"

definition tutorial_pref :: "json \<Rightarrow> bool option" where
  "tutorial_pref p = (if jhas ''tutorial_dismissed'' p then Some (truthy (jget ''tutorial_dismissed'' p)) else None)"

definition with_prefs :: "string option \<Rightarrow> bool option \<Rightarrow> user \<Rightarrow> user" where
  "with_prefs email td u =
     u\<lparr>u_email := (if email = None then u_email u else email),
       u_tutorial_dismissed := (case td of None \<Rightarrow> u_tutorial_dismissed u | Some b \<Rightarrow> b)\<rparr>"

definition put_me_prefs_body :: "'h env \<Rightarrow> 'h handler" where
  "put_me_prefs_body e c w =
     with_payload e c w (\<lambda>p.
       case email_pref p of Inl msg \<Rightarrow> refuse 400 msg w
       | Inr email \<Rightarrow>
           (case (tutorial_pref p, c_user c) of
              (td, Some u) \<Rightarrow>
                if email = None \<and> td = None then refuse 400 ''no fields to update'' w
                else (ok_reply ((''ok'', JBool True) # (if email = None then [] else [(''email'', jopt email)])),
                      log_event c ''me_prefs_update'' ''ok''
                        ((if email = None then [] else [(''email'', ''set'')])
                         @ (case td of None \<Rightarrow> [] | Some b \<Rightarrow> [(''tutorial_dismissed'', str_of e (JBool b))]))
                        (w\<lparr>w_users := modify_row u_dn (u_dn u) (with_prefs email td) (w_users w)\<rparr>))
            | (td, None) \<Rightarrow>
                if email = None \<and> td = None then refuse 400 ''no fields to update'' w else crash e c TypeError w))"

definition put_me_prefs :: "'h env \<Rightarrow> 'h handler" where
  "put_me_prefs e = require_auth e ''put_me_prefs'' (require_csrf e ''put_me_prefs'' (put_me_prefs_body e))"

subsection \<open>Triage keeps its marks\<close>

definition marked :: "feedback \<Rightarrow> bool" where
  "marked f \<longleftrightarrow>
     fb_status f \<in> {''new'', ''read'', ''resolved''}
     \<and> (fb_status f = ''read'' \<longrightarrow> fb_read_at f \<noteq> None \<and> fb_read_by_dn f \<noteq> None)
     \<and> (fb_status f = ''resolved'' \<longrightarrow> fb_resolved_at f \<noteq> None \<and> fb_resolved_by_dn f \<noteq> None)
     \<and> fb_category f \<in> set FEEDBACK_CATEGORIES \<and> fb_message f \<noteq> [] \<and> length (fb_message f) \<le> 4000"

definition feedback_ok :: "'h world \<Rightarrow> bool" where
  "feedback_ok w \<longleftrightarrow>
     unique_key fb_id (w_feedback w) \<and> (\<forall>f\<in>set (w_feedback w). fb_id f \<le> w_fid_seq w \<and> marked f)"

interpretation fb: world_invariant feedback_ok
  by unfold_locales (simp_all add: feedback_ok_def log_event_def log_event_in_tx_def set_setting_def)

definition keeps_feedback :: "(feedback \<Rightarrow> feedback) \<Rightarrow> bool" where
  "keeps_feedback g \<longleftrightarrow> (\<forall>f. fb_id (g f) = fb_id f \<and> (marked f \<longrightarrow> marked (g f)))"

lemma status_keeps: "status_change c p = Inr (Inr fs) \<Longrightarrow> list_all keeps_feedback fs"
  by (auto simp: status_change_def Let_def keeps_feedback_def triaged_def marked_def split: if_splits sum.splits)

lemma notes_keep: "notes_change p = Inr fs \<Longrightarrow> list_all keeps_feedback fs"
  by (auto simp: notes_change_def keeps_feedback_def marked_def split: if_splits json.splits)

lemma changes_kept: "list_all keeps_feedback fs \<Longrightarrow> keeps_feedback (fold (\<lambda>f. f) fs)"
  by (induction fs) (simp_all add: keeps_feedback_def)

lemma columns_kept:
  assumes "status_change c p = Inr (Inr fs)" "notes_change p = Inr gs"
  shows "keeps_feedback (fold (\<lambda>f. f) (fs @ gs))"
  by (rule changes_kept) (simp add: status_keeps [OF assms(1)] notes_keep [OF assms(2)])

lemma feedback_modified:
  assumes "feedback_ok w" "keeps_feedback g"
  shows "feedback_ok (w\<lparr>w_feedback := modify_row fb_id fid g (w_feedback w)\<rparr>)"
proof -
  have "unique_key fb_id (modify_row fb_id fid g (w_feedback w))"
    using assms by (simp add: feedback_ok_def unique_key_def modify_row_def map_key_update_where keeps_feedback_def)
  moreover have "\<forall>f\<in>set (modify_row fb_id fid g (w_feedback w)). fb_id f \<le> w_fid_seq w \<and> marked f"
    using assms by (auto simp: feedback_ok_def modify_row_def update_where_def keeps_feedback_def)
  ultimately show ?thesis by (simp add: feedback_ok_def)
qed

lemma feedback_ok_frame: "w_feedback w' = w_feedback w \<Longrightarrow> w_fid_seq w' = w_fid_seq w \<Longrightarrow> feedback_ok w' = feedback_ok w"
  by (simp add: feedback_ok_def)

lemma mail_admins_rows [simp]:
  "w_feedback (mail_admins e c fid cat msg w) = w_feedback w" "w_fid_seq (mail_admins e c fid cat msg w) = w_fid_seq w"
  by (auto simp: mail_admins_def Let_def log_event_def split: sum.split)

lemma submission_tail:
  "w_feedback (mail_admins e c fid cat msg (fire_webhooks e c ev d (log_event c a r x w))) = w_feedback w"
  "w_fid_seq (mail_admins e c fid cat msg (fire_webhooks e c ev d (log_event c a r x w))) = w_fid_seq w"
  by (simp_all add: fire_webhooks_def log_event_def)

lemma inserted_ok:
  assumes "feedback_ok w" "category \<in> set FEEDBACK_CATEGORIES" "message \<noteq> []" "length message \<le> 4000"
  shows "feedback_ok (snd (insert_feedback c category message w))"
proof -
  have "fb_id f \<noteq> w_fid_seq w + 1" "fb_id f \<le> w_fid_seq w + 1" if "f \<in> set (w_feedback w)" for f
    using that assms(1) by (force simp: feedback_ok_def)+
  with assms show ?thesis
    by (auto simp: feedback_ok_def unique_key_def insert_feedback_def Let_def new_feedback_def marked_def)
qed

lemma keeps_submit: "fb.keeps (submit_feedback_body e)"
proof (rule fb.keepsI)
  fix c and w :: "'a world"
  assume w: "feedback_ok w"
  have "feedback_ok (mail_admins e c fid cat msg (fire_webhooks e c ev d (log_event c a r x w1)))"
    if "insert_feedback c cat msg w = (fid, w1)" "cat \<in> set FEEDBACK_CATEGORIES" "msg \<noteq> []" "length msg \<le> 4000"
    for fid cat msg ev d a r x w1
    using inserted_ok [OF w that(2-4), of c] that(1)
      feedback_ok_frame [OF submission_tail] by (metis snd_conv)
  then show "feedback_ok (snd (submit_feedback_body e c w))"
    using w unfolding submit_feedback_body_def
    by (auto intro!: fb.payload fb.attempt simp: Let_def fb.failures split: prod.split)
qed

lemma keeps_feedback_update: "fb.keeps (update_feedback_body e fid)"
  by (rule fb.keepsI)
     (auto simp: update_feedback_body_def fb.failures fb.log simp del: fold_append
       intro!: fb.payload fb.attempt feedback_modified columns_kept split: sum.split)

lemma keeps_feedback_delete: "fb.keeps (delete_feedback_body fid)"
proof (rule fb.keepsI)
  fix c and w :: "'a world"
  assume "feedback_ok w"
  then have "feedback_ok (w\<lparr>w_feedback := remove_row fb_id fid (w_feedback w)\<rparr>)"
    by (auto simp: feedback_ok_def remove_row_def delete_where_def unique_key_def distinct_map_filter)
  then show "feedback_ok (snd (delete_feedback_body fid c w))"
    using \<open>feedback_ok w\<close> by (simp add: delete_feedback_body_def fb.log fb.failures)
qed

datatype feedback_request = SubmitFeedback | UpdateFeedback int | DeleteFeedback int

fun serve_feedback :: "'h env \<Rightarrow> feedback_request \<Rightarrow> 'h handler" where
  "serve_feedback e SubmitFeedback = submit_feedback e"
| "serve_feedback e (UpdateFeedback i) = admin_update_feedback e i"
| "serve_feedback e (DeleteFeedback i) = admin_delete_feedback e i"

lemma keeps_feedback_served: "fb.keeps (serve_feedback e q)"
  by (cases q) (simp_all add: submit_feedback_def admin_update_feedback_def admin_delete_feedback_def fb.guarded
      keeps_submit keeps_feedback_update keeps_feedback_delete)

definition feedback_history :: "'h env \<Rightarrow> (feedback_request \<times> ctx) list \<Rightarrow> 'h world \<Rightarrow> 'h world" where
  "feedback_history e qs w = fold (\<lambda>(q, c) w. snd (serve_feedback e q c w)) qs w"

text \<open>
  Over any history of feedback requests, by anybody and with any payload, every entry has a known category and
  status and a message of 1 to 4000 characters, a read or resolved entry says when and by whom, and identifiers stay unique.
\<close>
theorem feedback_stays_sound:
  assumes "feedback_ok w"
  shows "feedback_ok (feedback_history e qs w)"
  using assms
proof (induction qs arbitrary: w)
  case (Cons qc qs)
  then show ?case using Cons.IH [OF fb.keepsD [OF keeps_feedback_served Cons.prems]]
    by (cases qc) (simp add: feedback_history_def)
qed (simp add: feedback_history_def)

theorem feedback_stays_sound_witness:
  "feedback_ok (feedback_history sample_env [(SubmitFeedback, profile_ctx), (UpdateFeedback 1, profile_ctx)] sample_world)"
  by (rule feedback_stays_sound) (simp add: feedback_ok_def unique_key_def sample_world_def)

text \<open>
  A mail or webhook problem never costs a submission. Whatever the mail system and the subscribers do, feedback with a
  known category and a message of at most 4000 characters is answered with success and is the new last row of the table.
\<close>
theorem feedback_survives_mail:
  assumes "c_body c = Some (JObj [(''category'', JStr cat), (''message'', JStr msg)])"
    and "lower (strip cat) \<in> set FEEDBACK_CATEGORIES" "strip msg \<noteq> []" "length (strip msg) \<le> 4000"
  shows "status_code (fst (submit_feedback_body e c w)) = 200
    \<and> w_feedback (snd (submit_feedback_body e c w))
      = w_feedback w @ [new_feedback (w_fid_seq w + 1) (me c) (c_now c) (lower (strip cat)) (strip msg)]"
proof -
  have "lower [] = []" "[] \<notin> set FEEDBACK_CATEGORIES" "strip [] = []" by code_simp+
  then have ne: "cat \<noteq> []" "msg \<noteq> []" using assms(2,3) by (auto simp: lower_def)
  then show ?thesis
    using assms by (simp add: submit_feedback_body_def with_payload_def payload_of_def str_or_empty_def Let_def
        insert_feedback_def fire_webhooks_def log_event_def)
qed

theorem feedback_survives_mail_witness:
  "let e = sample_env\<lparr>send_mail := (\<lambda>k d. Inl ''SMTP down'')\<rparr>;
       c = sample_ctx\<lparr>c_body := Some (JObj [(''category'', JStr ''Bug''), (''message'', JStr '' broken '')])\<rparr>
   in length (w_feedback (snd (submit_feedback_body e c sample_world))) = 1"
proof -
  have "lower (strip ''Bug'') \<in> set FEEDBACK_CATEGORIES" "strip '' broken '' \<noteq> []" "length (strip '' broken '') \<le> 4000"
    by code_simp+
  from feedback_survives_mail [OF _ this, of "sample_ctx\<lparr>c_body := Some (JObj [(''category'', JStr ''Bug''), (''message'', JStr '' broken '')])\<rparr>"
      "sample_env\<lparr>send_mail := (\<lambda>k d. Inl ''SMTP down'')\<rparr>" sample_world]
  show ?thesis by (simp add: Let_def sample_world_def)
qed

subsection \<open>Preferences change two fields\<close>

lemma with_prefs_none [simp]: "with_prefs None None u = u"
  by (simp add: with_prefs_def)

lemma email_pref_set: "email_pref p = Inr (Some a) \<Longrightarrow> a \<noteq> []"
  by (auto simp: email_pref_def set_opt_def split: if_splits sum.splits)

text \<open>
  Through its preferences a user changes nothing but its own e-mail address and tutorial flag, and cannot clear the
  address. Every row of the table is left as it was, or is the caller's own with those two fields changed, and an address
  that was set stays set.
\<close>
theorem prefs_change_own_fields:
  assumes "c_user c = Some me_row"
  shows "\<exists>email td. w_users (snd (put_me_prefs_body e c w)) = modify_row u_dn (u_dn me_row) (with_prefs email td) (w_users w)
    \<and> email \<noteq> Some []"
proof -
  have same: "w_users w = modify_row u_dn (u_dn me_row) (with_prefs None None) (w_users w)"
    unfolding modify_row_def update_where_def by (rule sym, rule map_idI) simp
  show ?thesis
  proof (cases "payload_of (c_body c)")
    case (Inl err)
    then show ?thesis using same by (auto simp: put_me_prefs_body_def with_payload_def)
  next
    case (Inr p)
    note body = put_me_prefs_body_def with_payload_def Inr assms
    show ?thesis
    proof (cases "email_pref p")
      case (Inl msg)
      then show ?thesis using same by (auto simp: body)
    next
      case (Inr email)
      then have "email \<noteq> Some []" using email_pref_set by blast
      then show ?thesis using same Inr by (cases "email = None \<and> tutorial_pref p = None") (auto simp: body)
    qed
  qed
qed

definition prefs_ctx :: ctx where
  "prefs_ctx = sample_ctx\<lparr>c_user := Some (new_user ''CN=ADA'' ''ADA'' 0),
     c_body := Some (JObj [(''is_admin'', JBool True), (''tutorial_dismissed'', JBool True)])\<rparr>"

theorem prefs_change_own_fields_witness:
  "\<exists>email td. w_users (snd (put_me_prefs_body sample_env prefs_ctx (sample_world\<lparr>w_users := [new_user ''CN=ADA'' ''ADA'' 0]\<rparr>)))
     = modify_row u_dn ''CN=ADA'' (with_prefs email td) [new_user ''CN=ADA'' ''ADA'' 0] \<and> email \<noteq> Some []"
  using prefs_change_own_fields [of prefs_ctx "new_user ''CN=ADA'' ''ADA'' 0" sample_env "sample_world\<lparr>w_users := [new_user ''CN=ADA'' ''ADA'' 0]\<rparr>"]
  by (simp add: prefs_ctx_def new_user_def)

end
