(* ===== verification/Dialect.thy ===== *)
theory Dialect
  imports AdminUsers "HOL-Library.AList"
begin

text \<open>
  The database layer of \<^verbatim>\<open>backend/db.py\<close>: which backend the environment selects, the translation of statements and
  schema to PostgreSQL, the row type of the compatibility shim; and the database page of \<^verbatim>\<open>backend/routes_admin.py\<close>,
  which shows where the data is. The drivers themselves are not modelled; what the translation
  relies on of their parameter binding is stated where it is used.
\<close>

subsection \<open>Which backend\<close>

record db_config =
  dc_backend :: "string option"
  dc_dsn :: "string option"
  dc_path :: "string option"

definition unset_config :: db_config where
  "unset_config = \<lparr>dc_backend = None, dc_dsn = None, dc_path = None\<rparr>"

definition configure :: "string option \<Rightarrow> string option \<Rightarrow> string option \<Rightarrow> db_config \<Rightarrow> db_config" where
  "configure be dsn path d =
     \<lparr>dc_backend = (if set_opt be then be else dc_backend d), dc_dsn = (if set_opt dsn then dsn else dc_dsn d),
      dc_path = (if set_opt path then path else dc_path d)\<rparr>"

definition dsn_parts :: "(string \<times> string) list" where
  "dsn_parts =
    [(''host'', ''CERTHEIM_DB_HOST''), (''port'', ''CERTHEIM_DB_PORT''), (''dbname'', ''CERTHEIM_DB_NAME''),
     (''user'', ''CERTHEIM_DB_USER''), (''password'', ''CERTHEIM_DB_PASSWORD''), (''sslmode'', ''CERTHEIM_DB_SSLMODE'')]"

definition dsn_from_parts :: "'h env \<Rightarrow> string" where
  "dsn_from_parts e =
     join '' '' (map (\<lambda>(k, v). k @ ''='' @ v)
       (filter (\<lambda>(k, v). v \<noteq> []) (map (\<lambda>(k, var). (k, strip (getenv e var []))) dsn_parts)))"

definition resolve :: "'h env \<Rightarrow> db_config \<Rightarrow> db_config" where
  "resolve e d =
     (if set_opt (dc_backend d) then d
      else
        let url = strip (getenv e ''CERTHEIM_DB_URL'' []);
            be = lower (strip (getenv e ''CERTHEIM_DB_BACKEND'' []));
            be = (if url \<noteq> [] \<and> be = [] then ''postgres'' else be);
            d = (if be \<in> set [''postgres'', ''postgresql'']
                 then d\<lparr>dc_backend := Some ''postgres'',
                        dc_dsn := (if set_opt (dc_dsn d) then dc_dsn d else Some (or_else url (dsn_from_parts e)))\<rparr>
                 else d\<lparr>dc_backend := Some ''sqlite''\<rparr>)
        in if set_opt (dc_path d) then d
           else d\<lparr>dc_path := Some (getenv e ''CERTHEIM_DB_PATH'' ''/var/lib/certheim/jobs.db'')\<rparr>)"

definition db_backend :: "'h env \<Rightarrow> db_config \<Rightarrow> string \<times> db_config" where
  "db_backend e d = (let d = resolve e d in (or_empty (dc_backend d), d))"

definition is_postgres :: "'h env \<Rightarrow> db_config \<Rightarrow> bool" where
  "is_postgres e d = (fst (db_backend e d) = ''postgres'')"

definition sqlite_path :: "'h env \<Rightarrow> db_config \<Rightarrow> string option" where
  "sqlite_path e d = dc_path (resolve e d)"

definition dsn :: "'h env \<Rightarrow> db_config \<Rightarrow> string option" where
  "dsn e d = dc_dsn (resolve e d)"

text \<open>Where a connection goes; a PostgreSQL connection without an address is an error.\<close>

datatype db_connection = Sqlite "string option" | Postgres string

definition connect :: "'h env \<Rightarrow> db_config \<Rightarrow> db_connection result" where
  "connect e d =
     (if is_postgres e d
      then if set_opt (dsn e d) then Inr (Postgres (or_empty (dsn e d))) else Inl (PyError ''RuntimeError'')
      else Inr (Sqlite (sqlite_path e d)))"

subsection \<open>Schema and statements\<close>

text \<open>
  \<open>re.sub\<close> for the patterns of this module: a matcher sees the character before the position and the text from it on,
  and gives the length of the match, never 0.
\<close>

function re_sub :: "(char option \<Rightarrow> string \<Rightarrow> nat option) \<Rightarrow> (string \<Rightarrow> string) \<Rightarrow> char option \<Rightarrow> string \<Rightarrow> string" where
  "re_sub m r prev [] = []"
| "re_sub m r prev (c # s) =
     (case m prev (c # s) of
        Some (Suc n) \<Rightarrow> r (c # take n s) @ re_sub m r (Some ((c # s) ! n)) (drop n s)
      | _ \<Rightarrow> c # re_sub m r (Some c) s)"
  by pat_completeness auto

termination
  by (relation "measure (\<lambda>(m, r, prev, s). length s)") auto

definition word_char :: "char \<Rightarrow> bool" where
  "word_char ch = (is_alnum ch \<or> ch = CHR ''_'')"

definition prefix_nocase :: "string \<Rightarrow> string \<Rightarrow> bool" where
  "prefix_nocase w s = (length w \<le> length s \<and> nocase (take (length w) s) = nocase w)"

lemma prefix_nocase_code [code]:
  "prefix_nocase [] s = True" "prefix_nocase (a # w) [] = False"
  "prefix_nocase (a # w) (c # s) = (if ascii_fold a = ascii_fold c then prefix_nocase w s else False)"
  by (auto simp: prefix_nocase_def nocase_def)

definition match_word :: "string \<Rightarrow> char option \<Rightarrow> string \<Rightarrow> nat option" where
  "match_word w prev s =
     (if prefix_nocase w s \<and> \<not> (\<exists>c\<in>set_option prev. word_char c)
         \<and> (case drop (length w) s of [] \<Rightarrow> True | c # _ \<Rightarrow> \<not> word_char c)
      then Some (length w) else None)"

text \<open>Words separated by blanks, as in \<^verbatim>\<open>INTEGER\s+PRIMARY\s+KEY\s+AUTOINCREMENT\<close>.\<close>

fun match_words :: "string list \<Rightarrow> string \<Rightarrow> nat option" where
  "match_words [] s = Some 0"
| "match_words [w] s = (if prefix_nocase w s then Some (length w) else None)"
| "match_words (w # ws) s =
     (if \<not> prefix_nocase w s then None
      else let after = drop (length w) s; gap = length (takeWhile is_space after) in
        if gap = 0 then None
        else map_option (\<lambda>n. length w + gap + n) (match_words ws (drop gap after)))"

definition ddl :: "bool \<Rightarrow> string \<Rightarrow> string" where
  "ddl postgres sql =
     (if \<not> postgres then sql
      else
        let out = re_sub (\<lambda>_. match_words [''INTEGER'', ''PRIMARY'', ''KEY'', ''AUTOINCREMENT''])
                    (\<lambda>_. ''BIGINT GENERATED BY DEFAULT AS IDENTITY PRIMARY KEY'') None sql;
            out = re_sub (match_word ''AUTOINCREMENT'') (\<lambda>_. []) None out
        in re_sub (match_word ''REAL'') (\<lambda>_. ''DOUBLE PRECISION'') None out)"

definition returning_id :: "string \<Rightarrow> string" where
  "returning_id sql = rstrip_char (CHR '';'') (rdrop_while is_space sql) @ '' RETURNING id''"

text \<open>\<^verbatim>\<open>_translate\<close>: percent signs are doubled first, then placeholders replaced.\<close>

definition double_percent :: "string \<Rightarrow> string" where
  "double_percent s = concat (map (\<lambda>c. if c = CHR ''%'' then ''%%'' else [c]) s)"

definition translate :: "string \<Rightarrow> string" where
  "translate sql = concat (map (\<lambda>c. if c = CHR ''?'' then ''%s'' else [c]) (double_percent sql))"

definition is_pragma :: "string \<Rightarrow> bool" where
  "is_pragma sql = (map upper_char (take 6 (dropWhile is_space sql)) = ''PRAGMA'')"

text \<open>What the shim hands to the PostgreSQL driver: nothing for a PRAGMA.\<close>

definition pg_execute :: "string \<Rightarrow> 'v list \<Rightarrow> (string \<times> 'v list) option" where
  "pg_execute sql params = (if is_pragma sql then None else Some (translate sql, params))"

subsection \<open>Rows\<close>

text \<open>The shim's index is a dictionary filled from the left, so the last of equal column names wins.\<close>

definition row_index :: "string list \<Rightarrow> (string \<times> nat) list" where
  "row_index cols = fold (\<lambda>(i, c) ix. AList.update c i ix) (zip [0..<length cols] cols) []"

definition row_get :: "string list \<Rightarrow> 'v list \<Rightarrow> string \<Rightarrow> 'v option" where
  "row_get cols vals key = map_option (\<lambda>i. vals ! i) (map_of (row_index cols) key)"

text \<open>\<open>row["col"]\<close> of \<open>sqlite3.Row\<close>: the first column of that name.\<close>

definition sqlite_row_get :: "string list \<Rightarrow> 'v list \<Rightarrow> string \<Rightarrow> 'v option" where
  "sqlite_row_get cols vals key = map_of (zip (map nocase cols) vals) (nocase key)"

subsection \<open>The database page\<close>

text \<open>\<open>://user:password@\<close> with a user name free of colon, slash and at-sign.\<close>

definition match_userinfo :: "char option \<Rightarrow> string \<Rightarrow> nat option" where
  "match_userinfo prev s =
     (if \<not> starts_with ''://'' s then None
      else let rest = drop 3 s; user = takeWhile (\<lambda>c. c \<notin> set '':/@'') rest in
        case drop (length user) rest of
          c # pw \<Rightarrow>
            (let secret = takeWhile (\<lambda>c. c \<noteq> CHR ''@'') pw in
             if user \<noteq> [] \<and> c = CHR '':'' \<and> secret \<noteq> [] \<and> length secret < length pw
             then Some (3 + length user + 1 + length secret + 1) else None)
        | [] \<Rightarrow> None)"

definition mask_userinfo :: "string \<Rightarrow> string" where
  "mask_userinfo matched = ''://'' @ takeWhile (\<lambda>c. c \<notin> set '':/@'') (drop 3 matched) @ '':***@''"

definition redact_dsn :: "string option \<Rightarrow> string" where
  "redact_dsn s = re_sub match_userinfo mask_userinfo None (or_empty s)"

definition admin_get_database :: "'h env \<Rightarrow> db_config \<Rightarrow> bool \<Rightarrow> 'h handler" where
  "admin_get_database e d driver = require_admin e ''admin_get_database'' (\<lambda>c w.
     let be = fst (db_backend e d);
         location = (if be = ''postgres'' then JStr (redact_dsn (dsn e d)) else jopt (sqlite_path e d))
     in (ok_reply [(''backend'', JStr be), (''location'', location), (''postgres_driver'', JBool driver)], w))"

text \<open>\<open>probe\<close> connects to an address and asks for the server's version: the text of an exception, or the answer.\<close>

definition test_database_body :: "'h env \<Rightarrow> bool \<Rightarrow> (string \<Rightarrow> string + string) \<Rightarrow> 'h handler" where
  "test_database_body e driver probe c w =
     with_payload e c w (\<lambda>p.
     attempt e c (str_or_empty (jget ''dsn'' p)) w (\<lambda>v.
       let target = strip v in
       if target = [] then (reply 400 (JObj [(''ok'', JBool False), (''error'', JStr ''dsn is required'')]), w)
       else if \<not> driver
       then (ok_reply [(''ok'', JBool False), (''error'', JStr (''the postgres driver (psycopg) is not ''
               @ ''installed; add requirements-postgres.txt to this deployment''))], w)
       else case probe target of
              Inl err \<Rightarrow> (ok_reply [(''ok'', JBool False), (''error'', JStr (take 300 err))], w)
            | Inr version \<Rightarrow>
                (ok_reply [(''ok'', JBool True),
                   (''server'', JStr (case cut '' on '' version of Some (before, _) \<Rightarrow> before | None \<Rightarrow> version))], w)))"

definition admin_test_database :: "'h env \<Rightarrow> bool \<Rightarrow> (string \<Rightarrow> string + string) \<Rightarrow> 'h handler" where
  "admin_test_database e driver probe =
     require_admin e ''admin_test_database'' (require_csrf e ''admin_test_database'' (test_database_body e driver probe))"

subsection \<open>Placeholders\<close>

text \<open>A statement with its parameters in place, every question mark being a placeholder.\<close>

fun bound :: "string \<Rightarrow> 'v list \<Rightarrow> (char + 'v) list option" where
  "bound [] [] = Some []"
| "bound [] (v # vs) = None"
| "bound (c # s) vs =
     (if c = CHR ''?'' then case vs of [] \<Rightarrow> None | v # vs \<Rightarrow> map_option ((#) (Inr v)) (bound s vs)
      else map_option ((#) (Inl c)) (bound s vs))"

lemma translate_simps [simp]:
  "translate [] = []" "translate (CHR ''?'' # s) = ''%s'' @ translate s" "translate (CHR ''%'' # s) = ''%%'' @ translate s"
  "c \<noteq> CHR ''?'' \<Longrightarrow> c \<noteq> CHR ''%'' \<Longrightarrow> translate (c # s) = c # translate s"
  by (simp_all add: translate_def double_percent_def)

text \<open>
  Translated statements bind the same values in the same places. For a driver that reads
  \<open>%s\<close> as the next parameter, \<open>%%\<close> as a percent sign, any other character as itself, and that
  refuses a wrong number of parameters, the translation of a statement is bound as the original: percent signs of the text
  stay percent signs, and no text is taken for a placeholder.
\<close>
theorem placeholders_agree:
  assumes "pg [] [] = Some []" "\<And>v vs. pg [] (v # vs) = None"
    and "\<And>s v vs. pg (''%s'' @ s) (v # vs) = map_option ((#) (Inr v)) (pg s vs)" "\<And>s. pg (''%s'' @ s) [] = None"
    and "\<And>s vs. pg (''%%'' @ s) vs = map_option ((#) (Inl (CHR ''%''))) (pg s vs)"
    and "\<And>c s vs. c \<noteq> CHR ''%'' \<Longrightarrow> pg (c # s) vs = map_option ((#) (Inl c)) (pg s vs)"
  shows "pg (translate sql) params = bound sql params"
proof (induction sql params rule: bound.induct)
  case (3 c s vs)
  show ?case
  proof (cases "c = CHR ''?''")
    case True
    then show ?thesis using assms(3) [of "translate s"] assms(4) [of "translate s"] 3(1) [OF True]
      by (cases vs) simp_all
  next
    case False
    then show ?thesis using assms(5) [of "translate s"] assms(6) [of c "translate s"] 3(2) [OF False]
      by (cases "c = CHR ''%''") simp_all
  qed
qed (simp_all add: assms(1,2))

text \<open>A driver with these laws.\<close>

function format_bind :: "string \<Rightarrow> 'v list \<Rightarrow> (char + 'v) list option" where
  "format_bind [] [] = Some []"
| "format_bind [] (v # vs) = None"
| "format_bind (c # s) vs =
     (if c \<noteq> CHR ''%'' then map_option ((#) (Inl c)) (format_bind s vs)
      else case s of
        [] \<Rightarrow> None
      | d # s' \<Rightarrow>
          if d = CHR ''%'' then map_option ((#) (Inl d)) (format_bind s' vs)
          else if d = CHR ''s'' then (case vs of [] \<Rightarrow> None | v # vs' \<Rightarrow> map_option ((#) (Inr v)) (format_bind s' vs'))
          else None)"
  by pat_completeness auto

termination
  by (relation "measure (\<lambda>(s, vs). length s)") auto

theorem placeholders_agree_witness:
  "format_bind (translate ''LIKE 'x%' AND id = ?'') [7 :: int] = bound ''LIKE 'x%' AND id = ?'' [7]"
  by (rule placeholders_agree) simp_all

subsection \<open>Rows\<close>

lemma row_index_map:
  assumes "distinct cols"
  shows "map_of (fold (\<lambda>(i, c) ix. AList.update c i ix) (zip is cols) ix) k
    = (case map_of (zip cols is) k of None \<Rightarrow> map_of ix k | Some i \<Rightarrow> Some i)"
  using assms
proof (induction cols arbitrary: "is" ix)
  case (Cons c cs)
  show ?case
  proof (cases "is")
    case (Cons i js)
    have "map_of (zip cs js) c = None" using Cons.prems by (auto simp: map_of_eq_None_iff dest: set_zip_leftD)
    then show ?thesis using Cons.IH [of js "AList.update c i ix"] Cons.prems
      by (auto simp: Cons update_conv' split: option.split)
  qed simp
qed simp

lemma zip_index: "length cols = length vals \<Longrightarrow> distinct cols \<Longrightarrow> map_of (zip cols [n..<n + length cols]) k
    = map_option (\<lambda>i. i + n) (map_of (zip cols [0..<length cols]) k)"
proof (induction cols arbitrary: vals n)
  case (Cons c cs)
  obtain v vs where vs: "vals = v # vs" "length cs = length vs" using Cons.prems(1) by (cases vals) auto
  have "[n..<n + length (c # cs)] = n # [Suc n..<Suc n + length cs]" for n by (subst upt_rec) simp
  from this [of n] this [of 0] show ?case
    using Cons.IH [of vs "Suc n"] Cons.IH [of vs "Suc 0"] vs(2) Cons.prems(2) by (auto simp: option.map_comp o_def)
qed simp

lemma indexed_lookup:
  assumes "length cols = length vals" "distinct cols"
  shows "map_option (\<lambda>i. vals ! i) (map_of (zip cols [0..<length cols]) k) = map_of (zip cols vals) k"
  using assms
proof (induction cols arbitrary: vals)
  case (Cons c cs)
  obtain v vs where vs: "vals = v # vs" "length cs = length vs" using Cons.prems(1) by (cases vals) auto
  have "[0..<length (c # cs)] = 0 # [Suc 0..<Suc 0 + length cs]" by (subst upt_rec) simp
  then show ?case
    using Cons.IH [of vs] zip_index [of cs vs "Suc 0" k] vs Cons.prems(2)
    by (auto simp: option.map_comp o_def)
qed simp

lemma nocase_lookup:
  assumes "length cols = length vals" "distinct (map nocase cols)" "k \<in> set cols"
  shows "map_of (zip (map nocase cols) vals) (nocase k) = map_of (zip cols vals) k"
  using assms
proof (induction cols arbitrary: vals)
  case (Cons c cs)
  then obtain v vs where vs: "vals = v # vs" by (cases vals) auto
  then show ?case using Cons by (cases "k = c") (auto simp: image_iff)
qed simp

text \<open>
  A row reads the same on both backends when its column names differ in more than case. A lookup by the name of a
  column gives the value SQLite's row gives, and a row of the shim unpacks to the same values.
\<close>
theorem rows_agree:
  assumes "length cols = length vals" "distinct (map nocase cols)" "k \<in> set cols"
  shows "row_get cols vals k = sqlite_row_get cols vals k \<and> row_get cols vals k \<noteq> None"
proof -
  have d: "distinct cols" using assms(2) by (simp add: distinct_map)
  have "map_of (row_index cols) k = map_of (zip cols [0..<length cols]) k"
    using row_index_map [OF d, of "[0..<length cols]" "[]" k]
    unfolding row_index_def by (simp del: map_of_zip_is_None split: option.split)
  then have "row_get cols vals k = map_of (zip cols vals) k"
    by (simp add: row_get_def indexed_lookup [OF assms(1) d])
  moreover have "map_of (zip cols vals) k \<noteq> None"
    using assms(1,3) by simp
  ultimately show ?thesis by (simp add: sqlite_row_get_def nocase_lookup [OF assms])
qed

theorem rows_agree_witness:
  "row_get [''id'', ''name''] [1, 2 :: int] ''name'' = sqlite_row_get [''id'', ''name''] [1, 2] ''name''"
proof -
  have "distinct (map nocase [''id'', ''name''])" by code_simp
  from rows_agree [OF _ this, of "[1, 2 :: int]" "''name''"] show ?thesis by simp
qed

text \<open>
  Two columns of one name, as in a join that selects both identifiers, are read differently: the shim gives the last,
  SQLite the first.
\<close>
lemma rows_differ: "row_get [''id'', ''id''] [1, 2 :: int] ''id'' = Some 2 \<and> sqlite_row_get [''id'', ''id''] [1, 2 :: int] ''id'' = Some 1"
  by (simp add: row_get_def row_index_def sqlite_row_get_def upt_rec)

subsection \<open>What the database page shows\<close>

lemma no_userinfo: "\<not> contains ''://'' s \<Longrightarrow> re_sub match_userinfo mask_userinfo prev s = s"
proof (induction s arbitrary: prev)
  case (Cons c s)
  have "\<not> starts_with ''://'' (c # s)" "\<not> contains ''://'' s" using Cons.prems by simp_all
  then show ?case using Cons.IH by (simp add: match_userinfo_def)
qed simp

text \<open>
  The password is shown when the database is configured by its parts. With a host, user and password in their own
  variables and no URL, the page of the administrator gives the connection text unchanged: the mask
  recognizes only the URL form.
\<close>
theorem password_shown:
  assumes "environ e ''CERTHEIM_DB_BACKEND'' = Some ''postgres''" "environ e ''CERTHEIM_DB_URL'' = None"
    and "environ e ''CERTHEIM_DB_PASSWORD'' = Some pw" "strip pw = pw" "pw \<noteq> []" "\<not> contains ''://'' (dsn_from_parts e)"
  shows "\<exists>before after. redact_dsn (dsn e unset_config) = before @ ''password='' @ pw @ after"
proof -
  have "lower (strip ''postgres'') = ''postgres''" by code_simp
  moreover have "strip [] = []" by (simp add: strip_def rdrop_while_def)
  moreover have joined: "\<exists>before after. join '' '' (xs @ x # ys) = before @ x @ after" for xs ys and x :: string
  proof (induction xs)
    case Nil
    then show ?case by (cases ys) (auto intro: exI [of _ "[]"])
  next
    case (Cons y xs)
    then obtain b a where "join '' '' (xs @ x # ys) = b @ x @ a" by blast
    then have "join '' '' ((y # xs) @ x # ys) = (y @ '' '' @ b) @ x @ a" by (cases xs) auto
    then show ?case by blast
  qed
  ultimately have "dsn_from_parts e \<noteq> []" "\<exists>before after. dsn_from_parts e = before @ ''password='' @ pw @ after"
  proof -
    let ?f = "\<lambda>(k, v). k @ ''='' @ (v :: string)" and ?P = "\<lambda>(k :: string, v). v \<noteq> ([] :: string)"
      and ?g = "\<lambda>(k :: string, var). (k, strip (getenv e var []))"
    obtain as bs where parts: "dsn_parts = as @ (''password'', ''CERTHEIM_DB_PASSWORD'') # bs"
      by (rule that [of "take 4 dsn_parts" "drop 5 dsn_parts"]) (simp add: dsn_parts_def)
    have "dsn_from_parts e = join '' '' (map ?f (filter ?P (map ?g as)) @ (''password='' @ pw) # map ?f (filter ?P (map ?g bs)))"
      using assms(3-5) unfolding dsn_from_parts_def parts by (simp add: getenv_def)
    then show "\<exists>before after. dsn_from_parts e = before @ ''password='' @ pw @ after"
      using joined [of "map ?f (filter ?P (map ?g as))" "''password='' @ pw" "map ?f (filter ?P (map ?g bs))"] by auto
    then show "dsn_from_parts e \<noteq> []" by auto
  qed
  moreover have "dsn e unset_config = Some (dsn_from_parts e)"
    using assms(1,2) \<open>lower (strip ''postgres'') = ''postgres''\<close> \<open>strip [] = []\<close>
    by (simp add: dsn_def resolve_def unset_config_def getenv_def set_opt_def or_else_def Let_def)
  ultimately show ?thesis using no_userinfo [OF assms(6)] by (simp add: redact_dsn_def)
qed

definition parts_env :: "unit env" where
  "parts_env = sample_env\<lparr>environ := [''CERTHEIM_DB_BACKEND'' \<mapsto> ''postgres'', ''CERTHEIM_DB_HOST'' \<mapsto> ''pg'',
     ''CERTHEIM_DB_PASSWORD'' \<mapsto> ''hunter2'']\<rparr>"

lemma parts_env_dsn: "dsn_from_parts parts_env = ''host=pg password=hunter2''"
proof -
  have "strip [] = []" "strip ''pg'' = ''pg''" "strip ''hunter2'' = ''hunter2''" by code_simp+
  then show ?thesis by (simp add: dsn_from_parts_def dsn_parts_def getenv_def parts_env_def sample_env_def)
qed

theorem password_shown_witness:
  "\<exists>before after. redact_dsn (dsn parts_env unset_config) = before @ ''password='' @ ''hunter2'' @ after"
proof (rule password_shown)
  show "strip ''hunter2'' = ''hunter2''" "\<not> contains ''://'' (dsn_from_parts parts_env)"
    by (code_simp, simp add: parts_env_dsn)
qed (simp_all add: parts_env_def sample_env_def)

end
