(* ===== verification/SupportBundle.thy ===== *)
theory SupportBundle
  imports Diagnostics
begin

text \<open>
  The support bundle of \<^verbatim>\<open>backend/support_bundle.py\<close>: which setting values are masked, the files of the bundle and the
  endpoint. A bundle is the list of its files with their texts; the zip container around them is not modelled. What the
  bundle reads of the platform is the record \<open>platform\<close>.
\<close>

subsection \<open>Masking\<close>

text \<open>The alternatives of \<open>_SECRET_KEY_RE\<close>, those with an optional separator written out.\<close>

definition SECRET_WORDS :: "string list" where
  "SECRET_WORDS =
    [''secret'', ''password'', ''passwd'', ''token'', ''apikey'', ''api-key'', ''api_key'', ''privatekey'', ''private-key'',
     ''private_key'', ''signingkey'', ''signing-key'', ''signing_key'', ''credential'', ''sharedsecret'', ''shared-secret'',
     ''shared_secret'', ''license'', ''clientsecret'', ''client-secret'', ''client_secret'', ''bindpw'', ''bind-pw'', ''bind_pw'',
     ''pulltoken'', ''pull-token'', ''pull_token'', ''hmac'', ''eab'', ''key_pem'', ''key_ref'', ''passphrase'']"

definition ends_word :: "string \<Rightarrow> bool" where
  "ends_word s = (case s of [] \<Rightarrow> True | ch # _ \<Rightarrow> \<not> word_char ch)"

fun anywhere :: "(string \<Rightarrow> bool) \<Rightarrow> string \<Rightarrow> bool" where
  "anywhere P [] = P []"
| "anywhere P (ch # s) = (P (ch # s) \<or> anywhere P s)"

definition secret_key :: "string \<Rightarrow> bool" where
  "secret_key key =
     anywhere (\<lambda>s. list_ex (\<lambda>v. prefix_nocase v s) SECRET_WORDS
         \<or> (prefix_nocase ''_pin'' s \<and> ends_word (drop 4 s)) \<or> (prefix_nocase ''_pw'' s \<and> ends_word (drop 3 s))) key"

definition token_char :: "char \<Rightarrow> bool" where
  "token_char ch = (is_alnum ch \<or> ch \<in> set ''_-'')"

definition secret_value :: "string \<Rightarrow> bool" where
  "secret_value v =
     anywhere (\<lambda>s. prefix_nocase ''-----begin'' s \<or> prefix_nocase ''glpat-'' s
         \<or> list_ex (\<lambda>ch. prefix_nocase (''xox'' @ [ch] @ ''-'') s) ''baprs''
         \<or> (prefix_nocase ''akia'' s \<and> 16 \<le> length (takeWhile is_alnum (drop 4 s)))
         \<or> (prefix_nocase ''eyj'' s \<and> 10 \<le> length (takeWhile token_char (drop 3 s)))) v"

definition redact_value :: "string \<Rightarrow> string \<Rightarrow> string" where
  "redact_value key v =
     (if secret_key key then ''<redacted:'' @ nat_str (length v) @ '' chars>''
      else if secret_value v then ''<redacted:credential-shaped value>''
      else v)"

subsection \<open>The files\<close>

record platform =
  pl_python :: string
  pl_openssl :: string
  pl_system :: string
  pl_release :: string
  pl_machine :: string
  pl_node :: string
  pl_pretty :: "json \<Rightarrow> string"
  pl_tables :: "(string \<times> nat option) list"

text \<open>The rows of the settings table in the order of their keys; None where the column is NULL.\<close>

definition setting_line :: "string \<times> string option \<Rightarrow> string" where
  "setting_line = (\<lambda>(k, v). k @ '' = '' @ (case v of None \<Rightarrow> ''None'' | Some v \<Rightarrow> redact_value k v))"

definition settings_text :: "(string \<times> string option) list \<Rightarrow> string" where
  "settings_text rows = join [nl] (map setting_line rows) @ [nl]"

definition schema_json :: "(string \<times> nat option) list \<Rightarrow> json" where
  "schema_json ts =
     JObj (map (\<lambda>(t, n). (t, case n of None \<Rightarrow> JNull | Some n \<Rightarrow> JInt (int n)))
       (filter (\<lambda>(t, n). at_end (\<lambda>s. s \<noteq> [] \<and> list_all word_char s) t) ts))"

definition audit_line :: "('d \<Rightarrow> string) \<Rightarrow> time \<times> string option \<times> string \<times> string \<times> 'd \<Rightarrow> string" where
  "audit_line show = (\<lambda>(ts, actor, action, res, detail).
     join [CHR 0x09] [iso_now ts, or_else (or_empty actor) ''-'', action, res, take 300 (show detail)])"

definition audit_text :: "((string \<times> string) list \<Rightarrow> string) \<Rightarrow> audit_row list \<Rightarrow> string" where
  "audit_text show rows =
     join [nl] (map (\<lambda>r. audit_line show (a_ts r, a_actor r, a_action r, a_result r, a_detail r))
       (drop (length rows - 200) rows)) @ [nl]"

definition info_json :: "'h env \<Rightarrow> platform \<Rightarrow> ctx \<Rightarrow> string \<Rightarrow> 'h world \<Rightarrow> json" where
  "info_json e pl c version w =
     JObj [(''generated_at'', JStr (iso_now (c_now c))), (''product'', JStr ''Certheim''), (''version'', JStr version),
       (''edition'', JStr (EDITION (stamp e))), (''python'', JStr (pl_python pl)), (''openssl'', JStr (pl_openssl pl)),
       (''platform'', JObj [(''system'', JStr (pl_system pl)), (''release'', JStr (pl_release pl)), (''machine'', JStr (pl_machine pl))]),
       (''hostname'', JStr (pl_node pl)),
       (''auth_mode'', JStr (or_else (or_empty (get_setting w ''auth_mode'')) ''mtls'')),
       (''db_backend'', JStr (or_else (or_empty (get_setting w ''db_backend'')) (getenv e ''CERTHEIM_DB_BACKEND'' ''sqlite'')))]"

definition capabilities_json :: "'h env \<Rightarrow> ctx \<Rightarrow> 'h world \<Rightarrow> json" where
  "capabilities_json e c w =
     JObj (map (\<lambda>(s, about). (cs_key s,
         JObj [(''key'', JStr (cs_key s)), (''available'', JBool (cs_available s)), (''reason'', JStr (cs_reason s)),
               (''upgrade'', JBool (cs_upgrade s)), (''desc'', JStr about)]))
       (all_status e (license_in e c w) (env_in e w)))"

definition readme :: "string \<Rightarrow> string \<Rightarrow> string \<Rightarrow> string" where
  "readme at version edition =
     join [nl]
      [''Certheim support bundle'', ''Generated: '' @ at, ''Version:   '' @ version, ''Edition:   '' @ edition, [],
       ''Contents:'',
       ''  info.json          product/version/environment'',
       ''  capabilities.json  what this deployment can do (license + environment)'',
       ''  fips.json          FIPS posture (module + policy)'',
       ''  schema.json        DB table names + row COUNTS (no row data)'',
       ''  settings.txt       app settings with all secret VALUES redacted'',
       ''  audit-tail.txt     recent audit events'',
       ''  diagnostics.txt    configuration self-check results (start here)'',
       ''  diagnostics.json   the same checks, machine-readable'', [],
       ''What this bundle does NOT contain: private keys, the sealed keystore contents,'',
       ''the license blob, passwords, API tokens, or CSR/certificate material. It is safe'',
       ''to attach to a support ticket. Review settings.txt before sharing if your'',
       ''deployment stores non-standard settings.'', []]"

definition rows_of :: "string list \<Rightarrow> 'h world \<Rightarrow> (string \<times> string option) list" where
  "rows_of keys w = map (\<lambda>k. (k, w_settings w k)) keys"

definition build_support ::
  "'h env \<Rightarrow> platform \<Rightarrow> probes \<Rightarrow> mail_state \<Rightarrow> ((string \<times> string) list \<Rightarrow> string) \<Rightarrow> string list \<Rightarrow> string
     \<Rightarrow> ctx \<Rightarrow> 'h world \<Rightarrow> (string \<times> string) list" where
  "build_support e pl x ms show keys version c w =
     (let at = iso_now (c_now c); diag = run_all e x ms c w; pretty = pl_pretty pl in
      [(''info.json'', pretty (info_json e pl c version w)),
       (''capabilities.json'', pretty (capabilities_json e c w)),
       (''fips.json'', pretty (fips_json e w)),
       (''schema.json'', pretty (schema_json (pl_tables pl))),
       (''settings.txt'', ''# app_settings '' @ [CHR 0xE2, CHR 0x80, CHR 0x94] @ '' secret values are redacted.'' @ [nl]
          @ ''# Generated '' @ at @ [nl, nl] @ settings_text (rows_of keys w)),
       (''audit-tail.txt'', ''# Last audit events (oldest first).'' @ [nl, nl] @ audit_text show (w_audit w)),
       (''diagnostics.json'', pretty (report_json diag)),
       (''diagnostics.txt'', to_text diag),
       (''README.txt'', readme at version (EDITION (stamp e)))])"

definition bundle_name :: "'h env \<Rightarrow> time \<Rightarrow> string" where
  "bundle_name e now =
     ''certheim-support-'' @ EDITION (stamp e) @ ''-''
       @ filter (\<lambda>ch. ch \<noteq> CHR ''-'') (date_text now) @ ''-'' @ filter (\<lambda>ch. ch \<noteq> CHR '':'') (clock_text now) @ ''.zip''"

text \<open>The answer carries the files; \<open>pack\<close> is the zip container.\<close>

definition admin_support_bundle ::
  "'h env \<Rightarrow> platform \<Rightarrow> probes \<Rightarrow> mail_state \<Rightarrow> ((string \<times> string) list \<Rightarrow> string) \<Rightarrow> string list \<Rightarrow> string
     \<Rightarrow> ((string \<times> string) list \<Rightarrow> string) \<Rightarrow> 'h handler" where
  "admin_support_bundle e pl x ms show keys version pack = require_admin e ''admin_support_bundle'' (\<lambda>c w.
     (content_reply (pack (build_support e pl x ms show keys version c w)),
      log_event c ''support_bundle'' ''generated'' [(''version'', version), (''edition'', EDITION (stamp e))] (probed x w)))"

subsection \<open>What a bundle cannot show\<close>

text \<open>The settings that decide what a bundle says of capabilities, FIPS mode and the deployment.\<close>

definition OPEN_SETTINGS :: "string list" where
  "OPEN_SETTINGS =
    [''auth_mode'', ''db_backend'', ''fips_required'', ''cap_egress_internet'', ''cap_openbao'', ''cap_winca'', ''cap_acme'',
     ''cap_ejbca'', ''cap_venafi'', ''cap_aws_pca'', ''cap_acme_server'']"

lemma open_settings_open: "list_all (\<lambda>k. \<not> secret_key k) OPEN_SETTINGS"
  by code_simp

text \<open>Two states that differ in secrets of equal length, and in what the self-checks do not read.\<close>

definition secrets_differ :: "'h world \<Rightarrow> 'h world \<Rightarrow> bool" where
  "secrets_differ w w' \<longleftrightarrow>
     alike w w' \<and> w_envcaps w' = w_envcaps w \<and> w_audit w' = w_audit w
     \<and> (\<forall>k. w_settings w' k = w_settings w k
          \<or> (secret_key k \<and> (\<exists>v v'. w_settings w k = Some v \<and> w_settings w' k = Some v' \<and> length v' = length v)))"

lemma same_line:
  "secrets_differ w w' \<Longrightarrow> setting_line (k, w_settings w' k) = setting_line (k, w_settings w k)"
  unfolding secrets_differ_def setting_line_def
  by (elim conjE allE [of _ k]) (auto simp: redact_value_def)

lemma same_open:
  assumes "secrets_differ w w'" "k \<in> set OPEN_SETTINGS"
  shows "get_setting w' k = get_setting w k"
proof -
  have "\<not> secret_key k" using open_settings_open assms(2) by (simp add: list_all_iff)
  then have "w_settings w' k = w_settings w k" using assms(1) unfolding secrets_differ_def by blast
  then show ?thesis by (simp add: get_setting_def)
qed

lemma same_flag:
  "secrets_differ w w' \<Longrightarrow> ''cap_'' @ n \<in> set OPEN_SETTINGS \<Longrightarrow> flag e (get_setting w') n d = flag e (get_setting w) n d"
  unfolding flag_def by (simp only: same_open)

lemma open_flags:
  "n \<in> set [''egress_internet'', ''openbao'', ''winca'', ''acme'', ''ejbca'', ''venafi'', ''aws_pca'', ''acme_server'']
     \<Longrightarrow> ''cap_'' @ n \<in> set OPEN_SETTINGS"
  by (auto simp: OPEN_SETTINGS_def)

lemma same_env:
  assumes "secrets_differ w w'"
  shows "env_in e w' = env_in e w"
proof -
  let ?ns = "[''openbao'', ''winca'', ''acme'', ''ejbca'', ''venafi'', ''aws_pca'', ''acme_server'']"
  have flag: "flag e (get_setting w') n d = flag e (get_setting w) n d"
    if "n \<in> set (''egress_internet'' # ?ns)" for n d
    using that by (intro same_flag [OF assms] open_flags)
  have flags: "map (\<lambda>n. (n, flag e (get_setting w') n False)) ?ns = map (\<lambda>n. (n, flag e (get_setting w) n False)) ?ns"
    by (rule map_cong [OF refl]) (simp only: flag set_simps insert_iff simp_thms)
  have egress: "get_setting w' ''cap_egress_internet'' = get_setting w ''cap_egress_internet''"
    by (rule same_open [OF assms]) (simp add: OPEN_SETTINGS_def)
  have "flag e (get_setting w') ''egress_internet'' False = flag e (get_setting w) ''egress_internet'' False"
    by (rule flag) simp
  then have "detect_env e (get_setting w') = detect_env e (get_setting w)"
    unfolding detect_env_def flags egress by (simp only:)
  then show ?thesis using assms by (simp add: env_in_def env_caps_def secrets_differ_def split: option.split)
qed

lemma same_posture:
  assumes "secrets_differ w w'"
  shows "info_json e pl c version w' = info_json e pl c version w" "capabilities_json e c w' = capabilities_json e c w"
    "fips_json e w' = fips_json e w"
proof -
  note open_same = same_open [OF assms]
  have o: "get_setting w' ''auth_mode'' = get_setting w ''auth_mode''" "get_setting w' ''db_backend'' = get_setting w ''db_backend''"
    "get_setting w' ''fips_required'' = get_setting w ''fips_required''"
    by (rule open_same, simp add: OPEN_SETTINGS_def)+
  show "info_json e pl c version w' = info_json e pl c version w" by (simp add: info_json_def o)
  have "license_in e c w' = license_in e c w" using assms by (intro alike_read(6)) (simp add: secrets_differ_def)
  then show "capabilities_json e c w' = capabilities_json e c w" by (simp add: capabilities_json_def same_env [OF assms])
  show "fips_json e w' = fips_json e w" by (simp add: fips_json_def fips_status_def same_env [OF assms] o)
qed


definition slack_world :: "string \<Rightarrow> string \<Rightarrow> unit world" where
  "slack_world token hash = sample_world\<lparr>w_settings := [''slack_bot_token'' \<mapsto> token, ''login_banner'' \<mapsto> ''none''],
     w_users := [(new_user ''CN=ADA'' ''ADA'' 0)\<lparr>u_password_hash := Some hash\<rparr>]\<rparr>"


end
