(* ===== verification/Migrate.thy ===== *)
theory Migrate
  imports Dialect
begin

text \<open>
  Copying a deployment from one database to another (\<^verbatim>\<open>backend/db_migrate.py\<close>). A database is the list of its
  tables, a table its name, columns, rows and, on PostgreSQL, the last value its identity sequence gave. What the
  target's constraints say of a row is a parameter: \<open>conflict\<close> is what \<open>ON CONFLICT DO NOTHING\<close> skips, \<open>refused\<close>
  any other violation, which raises. A column the source does not old gets the target's default.
\<close>

definition SQLITE_PREFIX :: string where
  "SQLITE_PREFIX = ''sqlite:''"

definition SKIP :: "string list" where
  "SKIP = [''schema_migrations'']"

definition is_sqlite_spec :: "string \<Rightarrow> bool" where
  "is_sqlite_spec spec = starts_with SQLITE_PREFIX spec"

text \<open>\<open>current_source_spec\<close>, and the configuration \<open>ensure_target_schema\<close> builds the schema under.\<close>

definition current_source_spec :: "'h env \<Rightarrow> db_config \<Rightarrow> string option" where
  "current_source_spec e d =
     (if is_postgres e d then dsn e d else map_option (\<lambda>p. SQLITE_PREFIX @ p) (sqlite_path e d))"

definition target_config :: "string \<Rightarrow> db_config" where
  "target_config spec =
     (if is_sqlite_spec spec
      then configure (Some ''sqlite'') None (Some (drop (length SQLITE_PREFIX) spec)) unset_config
      else configure (Some ''postgres'') (Some spec) None unset_config)"

record 'v table =
  tb_name :: string
  tb_cols :: "string list"
  tb_rows :: "'v list list"
  tb_seq :: "int option"

record 'v target =
  tg_postgres :: bool
  conflict :: "string \<Rightarrow> 'v list list \<Rightarrow> 'v list \<Rightarrow> bool"
  refused :: "string \<Rightarrow> 'v list list \<Rightarrow> 'v list \<Rightarrow> bool"
  column_default :: "string \<Rightarrow> string \<Rightarrow> 'v"
  number :: "'v \<Rightarrow> int"

text \<open>SQLite hides its own tables; \<open>_\<close> in the pattern \<open>sqlite_%\<close> stands for any character.\<close>

definition source_tables :: "bool \<Rightarrow> 'v table list \<Rightarrow> 'v table list" where
  "source_tables postgres ts =
     filter (\<lambda>t. (postgres \<or> \<not> (starts_with ''sqlite'' (nocase (tb_name t)) \<and> 6 < length (tb_name t)))
                 \<and> tb_name t \<notin> set SKIP) ts"

definition table_columns :: "string \<Rightarrow> 'v table list \<Rightarrow> string list" where
  "table_columns name ts = (case row_by tb_name name ts of None \<Rightarrow> [] | Some t \<Rightarrow> tb_cols t)"

definition project :: "string list \<Rightarrow> string list \<Rightarrow> 'v list \<Rightarrow> 'v list" where
  "project cols tcols row = map (\<lambda>c. the (map_of (zip tcols row) c)) cols"

text \<open>The target's row: the copied columns, defaults for the others.\<close>

definition widened :: "'v target \<Rightarrow> string \<Rightarrow> string list \<Rightarrow> string list \<Rightarrow> 'v list \<Rightarrow> 'v list" where
  "widened x name tcols cols vals =
     map (\<lambda>c. case map_of (zip cols vals) c of Some v \<Rightarrow> v | None \<Rightarrow> column_default x name c) tcols"

fun insert_rows :: "'v target \<Rightarrow> string \<Rightarrow> 'v list list \<Rightarrow> 'v list list \<Rightarrow> 'v list list option" where
  "insert_rows x name old [] = Some old"
| "insert_rows x name old (r # rs) =
     (if conflict x name old r then insert_rows x name old rs
      else if refused x name old r then None
      else insert_rows x name (old @ [r]) rs)"

definition max_id :: "'v target \<Rightarrow> string list \<Rightarrow> 'v list list \<Rightarrow> int" where
  "max_id x tcols rows = Max (set (map (\<lambda>r. number x (the (map_of (zip tcols r) ''id''))) rows))"

definition advance :: "'v target \<Rightarrow> string list \<Rightarrow> 'v list list \<Rightarrow> 'v table \<Rightarrow> 'v table" where
  "advance x cols copied t =
     (if tg_postgres x \<and> ''id'' \<in> set cols \<and> copied \<noteq> [] \<and> tb_rows t \<noteq> []
      then t\<lparr>tb_seq := map_option (\<lambda>_. max_id x (tb_cols t) (tb_rows t)) (tb_seq t)\<rparr> else t)"

text \<open>One table: None when an insertion raises, otherwise the changed target table and the number of rows read.\<close>

definition copy_table :: "'v target \<Rightarrow> bool \<Rightarrow> 'v table \<Rightarrow> 'v table \<Rightarrow> ('v table \<times> nat) option" where
  "copy_table x wipe s t =
     (let cols = filter (\<lambda>c. c \<in> set (tb_cols t)) (tb_cols s);
          rows = map (project cols (tb_cols s)) (tb_rows s);
          kept = (if wipe then [] else tb_rows t) in
      map_option (\<lambda>new. (advance x cols rows (t\<lparr>tb_rows := new\<rparr>), length rows))
        (insert_rows x (tb_name s) kept (map (widened x (tb_name s) (tb_cols t) cols) rows)))"

text \<open>The tables in order; each is committed before the next, so an exception keeps those before it.\<close>

fun copy_tables ::
  "'v target \<Rightarrow> bool \<Rightarrow> 'v table list \<Rightarrow> 'v table list \<Rightarrow> (string \<times> nat) list \<Rightarrow> (string \<times> nat) list option \<times> 'v table list" where
  "copy_tables x wipe [] ts counts = (Some counts, ts)"
| "copy_tables x wipe (s # ss) ts counts =
     (case row_by tb_name (tb_name s) ts of
        None \<Rightarrow> copy_tables x wipe ss ts counts
      | Some t \<Rightarrow>
          if set (tb_cols s) \<inter> set (tb_cols t) = {} then copy_tables x wipe ss ts counts
          else case copy_table x wipe s t of
                 None \<Rightarrow> (None, ts)
               | Some (t', n) \<Rightarrow>
                   copy_tables x wipe ss (modify_row tb_name (tb_name s) (\<lambda>_. t') ts) (counts @ [(tb_name s, n)]))"

definition copy_database ::
  "bool \<Rightarrow> 'v target \<Rightarrow> bool \<Rightarrow> 'v table list \<Rightarrow> 'v table list \<Rightarrow> (string \<times> nat) list option \<times> 'v table list" where
  "copy_database postgres x wipe source ts = copy_tables x wipe (source_tables postgres source) ts []"

subsection \<open>Copying twice\<close>

text \<open>
  The copy relies on the target having a key in every table: a row that is there conflicts with itself, and with more rows
  there is no less conflict.
\<close>

definition keyed :: "'v target \<Rightarrow> bool" where
  "keyed x \<longleftrightarrow> (\<forall>n old r. r \<in> set old \<longrightarrow> conflict x n old r)
     \<and> (\<forall>n old more r. conflict x n old r \<longrightarrow> conflict x n (old @ more) r)"

lemma insert_rows_prefix: "insert_rows x n old rs = Some new \<Longrightarrow> \<exists>more. new = old @ more"
proof (induction rs arbitrary: old)
  case (Cons r rs)
  then show ?case by (fastforce split: if_splits)
qed simp

lemma insert_rows_covers:
  assumes "keyed x" "insert_rows x n old rs = Some new" "r \<in> set rs"
  shows "conflict x n new r"
  using assms(2,3)
proof (induction rs arbitrary: old)
  case (Cons q rs)
  have grown: "conflict x n o' q \<Longrightarrow> insert_rows x n o' rs = Some new \<Longrightarrow> conflict x n new q" for o'
    using insert_rows_prefix [of x n o' rs new] assms(1) by (auto simp: keyed_def)
  show ?case
  proof (cases "conflict x n old q")
    case True
    then show ?thesis using Cons grown [of old] by auto
  next
    case False
    then have new: "insert_rows x n (old @ [q]) rs = Some new" using Cons.prems(1) by (simp split: if_splits)
    moreover have "conflict x n (old @ [q]) q" using assms(1) by (simp add: keyed_def)
    ultimately show ?thesis using Cons.IH [OF new] Cons.prems(2) grown by auto
  qed
qed simp

lemma insert_rows_skips: "\<forall>r\<in>set rs. conflict x n old r \<Longrightarrow> insert_rows x n old rs = Some old"
  by (induction rs) simp_all

lemma advance_fields [simp]:
  "tb_name (advance x cols rows t) = tb_name t" "tb_cols (advance x cols rows t) = tb_cols t"
  "tb_rows (advance x cols rows t) = tb_rows t"
  by (simp_all add: advance_def)

lemma advance_again: "advance x cols rows ((advance x cols rows t)\<lparr>tb_rows := tb_rows t\<rparr>) = advance x cols rows t"
  by (cases t) (simp add: advance_def option.map_comp o_def)

lemma copy_table_again:
  assumes "keyed x" "copy_table x wipe s t = Some (t', n)"
  shows "copy_table x False s t' = Some (t', n) \<and> tb_name t' = tb_name t \<and> tb_cols t' = tb_cols t"
proof -
  let ?cols = "filter (\<lambda>c. c \<in> set (tb_cols t)) (tb_cols s)"
  let ?rows = "map (project ?cols (tb_cols s)) (tb_rows s)"
  let ?wide = "map (widened x (tb_name s) (tb_cols t) ?cols) ?rows"
  from assms(2) obtain new where new: "insert_rows x (tb_name s) (if wipe then [] else tb_rows t) ?wide = Some new"
    and t': "t' = advance x ?cols ?rows (t\<lparr>tb_rows := new\<rparr>)" "n = length ?rows"
    by (auto simp: copy_table_def Let_def)
  have "insert_rows x (tb_name s) new ?wide = Some new"
    using insert_rows_covers [OF assms(1) new] by (blast intro: insert_rows_skips)
  moreover have "advance x ?cols ?rows (t'\<lparr>tb_rows := new\<rparr>) = t'"
    using advance_again [of x ?cols ?rows "t\<lparr>tb_rows := new\<rparr>"] by (simp add: t')
  ultimately show ?thesis using t' by (simp add: copy_table_def Let_def)
qed

definition settled :: "'v target \<Rightarrow> 'v table list \<Rightarrow> 'v table \<Rightarrow> bool" where
  "settled x ts s \<longleftrightarrow>
     (case row_by tb_name (tb_name s) ts of
        None \<Rightarrow> True
      | Some t \<Rightarrow> set (tb_cols s) \<inter> set (tb_cols t) = {} \<or> copy_table x False s t = Some (t, length (tb_rows s)))"

lemma modify_unchanged:
  assumes "unique_key key rows" "row_by key k rows = Some r"
  shows "modify_row key k (\<lambda>_. r) rows = rows"
proof -
  have "(if key q = k then r else q) = q" if "q \<in> set rows" for q
    using that assms row_by_unique [OF assms(1)] by fastforce
  then show ?thesis unfolding modify_row_def update_where_def by (intro map_idI) blast
qed

lemma copied_count: "copy_table x wipe s t = Some (t', n) \<Longrightarrow> n = length (tb_rows s)"
  by (auto simp: copy_table_def Let_def)

text \<open>What a run reports: the number of rows read, for every table both sides share.\<close>

definition shared :: "'v table list \<Rightarrow> 'v table \<Rightarrow> bool" where
  "shared ts s \<longleftrightarrow> (\<exists>t. row_by tb_name (tb_name s) ts = Some t \<and> set (tb_cols s) \<inter> set (tb_cols t) \<noteq> {})"

definition tally :: "'v table list \<Rightarrow> 'v table list \<Rightarrow> (string \<times> nat) list" where
  "tally ss ts = map (\<lambda>s. (tb_name s, length (tb_rows s))) (filter (shared ts) ss)"

lemma settled_copy:
  assumes "unique_key tb_name ts" "\<forall>s\<in>set ss. settled x ts s"
  shows "copy_tables x False ss ts counts = (Some (counts @ tally ss ts), ts)"
  using assms(2)
proof (induction ss arbitrary: counts)
  case (Cons s ss)
  show ?case
  proof (cases "row_by tb_name (tb_name s) ts")
    case None
    then show ?thesis using Cons by (simp add: tally_def shared_def)
  next
    case (Some t)
    show ?thesis
    proof (cases "set (tb_cols s) \<inter> set (tb_cols t) = {}")
      case True
      then show ?thesis using Cons Some by (simp add: tally_def shared_def)
    next
      case False
      then have "copy_table x False s t = Some (t, length (tb_rows s))"
        using Cons.prems Some by (simp add: settled_def)
      then show ?thesis using Cons Some False modify_unchanged [OF assms(1) Some] by (simp add: tally_def shared_def)
    qed
  qed
qed (simp add: tally_def)

lemma row_by_replaced:
  "tb_name t = n \<Longrightarrow> row_by tb_name k (modify_row tb_name n (\<lambda>_. t) ts)
     = (if k = n \<and> row_by tb_name n ts \<noteq> None then Some t else row_by tb_name k ts)"
  by (induction ts) (auto simp: modify_row_def update_where_def row_by_def)

lemma names_replaced: "tb_name t = n \<Longrightarrow> map tb_name (modify_row tb_name n (\<lambda>_. t) ts) = map tb_name ts"
  by (simp add: modify_row_def update_where_def)

definition same_columns :: "'v table list \<Rightarrow> 'v table list \<Rightarrow> bool" where
  "same_columns ts ts' \<longleftrightarrow>
     map tb_name ts' = map tb_name ts
     \<and> (\<forall>k. map_option tb_cols (row_by tb_name k ts') = map_option tb_cols (row_by tb_name k ts))"

lemma shared_by_columns:
  "shared ts s = (case map_option tb_cols (row_by tb_name (tb_name s) ts) of None \<Rightarrow> False
     | Some cs \<Rightarrow> set (tb_cols s) \<inter> set cs \<noteq> {})"
  by (simp add: shared_def split: option.split)

lemma same_columns_tally: "same_columns ts ts' \<Longrightarrow> tally ss ts' = tally ss ts"
proof -
  assume "same_columns ts ts'"
  then have "map_option tb_cols (row_by tb_name k ts') = map_option tb_cols (row_by tb_name k ts)" for k
    by (simp add: same_columns_def)
  then have "shared ts' s = shared ts s" for s by (simp add: shared_by_columns)
  then have "shared ts' = shared ts" by blast
  then show ?thesis by (simp add: tally_def)
qed

lemma copy_run:
  assumes "keyed x" "distinct (map tb_name ss)" "copy_tables x wipe ss ts counts = (Some c, ts')"
  shows "same_columns ts ts' \<and> (\<forall>s\<in>set ss. settled x ts' s) \<and> c = counts @ tally ss ts
    \<and> (\<forall>k. k \<notin> tb_name ` set ss \<longrightarrow> row_by tb_name k ts' = row_by tb_name k ts)"
  using assms(2,3)
proof (induction ss arbitrary: ts counts)
  case Nil
  then show ?case by (simp add: same_columns_def tally_def)
next
  case (Cons s ss)
  let ?n = "tb_name s"
  have fresh: "?n \<notin> tb_name ` set ss" "distinct (map tb_name ss)" using Cons.prems(1) by auto
  show ?case
  proof (cases "shared ts s")
    case False
    then have run: "copy_tables x wipe ss ts counts = (Some c, ts')"
      using Cons.prems(2) by (auto simp: shared_def split: option.splits if_splits)
    from Cons.IH [OF fresh(2) run] have IH: "same_columns ts ts'" "\<forall>s\<in>set ss. settled x ts' s" "c = counts @ tally ss ts"
      "\<forall>k. k \<notin> tb_name ` set ss \<longrightarrow> row_by tb_name k ts' = row_by tb_name k ts" by blast+
    from IH(4) fresh(1) have "row_by tb_name ?n ts' = row_by tb_name ?n ts" by blast
    with False have "settled x ts' s" by (auto simp: settled_def shared_def split: option.split)
    with IH False show ?thesis by (simp add: tally_def)
  next
    case True
    then obtain t where t: "row_by tb_name ?n ts = Some t" "set (tb_cols s) \<inter> set (tb_cols t) \<noteq> {}"
      by (auto simp: shared_def)
    then obtain t' m where c: "copy_table x wipe s t = Some (t', m)"
      and run: "copy_tables x wipe ss (modify_row tb_name ?n (\<lambda>_. t') ts) (counts @ [(?n, m)]) = (Some c, ts')"
      using Cons.prems(2) by (auto split: option.splits)
    have name: "tb_name t = ?n" using t(1) by (auto dest: row_by_SomeD)
    have again: "copy_table x False s t' = Some (t', m)" "tb_name t' = ?n" "tb_cols t' = tb_cols t"
      using copy_table_again [OF assms(1) c] name by auto
    let ?ts = "modify_row tb_name ?n (\<lambda>_. t') ts"
    have same: "same_columns ts ?ts"
      using t(1) again by (auto simp: same_columns_def names_replaced row_by_replaced)
    from Cons.IH [OF fresh(2) run] have IH: "same_columns ?ts ts'" "\<forall>s\<in>set ss. settled x ts' s"
      "c = (counts @ [(?n, m)]) @ tally ss ?ts"
      "\<forall>k. k \<notin> tb_name ` set ss \<longrightarrow> row_by tb_name k ts' = row_by tb_name k ?ts" by blast+
    from IH(4) fresh(1) have now: "row_by tb_name ?n ts' = Some t'"
      using t(1) again(2) by (simp add: row_by_replaced)
    then have "settled x ts' s" using again(1) copied_count [OF c] by (simp add: settled_def)
    moreover have "c = counts @ tally (s # ss) ts"
      using IH(3) True copied_count [OF c] same_columns_tally [OF same] by (simp add: tally_def)
    moreover have "same_columns ts ts'" using same IH(1) by (simp add: same_columns_def)
    moreover have "\<forall>k. k \<notin> tb_name ` set (s # ss) \<longrightarrow> row_by tb_name k ts' = row_by tb_name k ts"
      using IH(4) again(2) by (simp add: row_by_replaced)
    ultimately show ?thesis using IH(2) by simp
  qed
qed

text \<open>
  C33: a migration loses no row and can be repeated. When the target's tables have keys and a copy succeeds, every row of
  every table both databases share is there (a row with its key is), and copying once more changes nothing;
  the second run reports the same numbers of rows, although it has copied none.
\<close>
theorem migration_repeatable:
  assumes "keyed x" "unique_key tb_name ts" "unique_key tb_name source"
    and "copy_database pg x wipe source ts = (Some counts, ts')"
  shows "copy_database pg x False source ts' = (Some counts, ts')
    \<and> (\<forall>s\<in>set (source_tables pg source). \<forall>t. row_by tb_name (tb_name s) ts' = Some t \<longrightarrow>
         (let cols = filter (\<lambda>c. c \<in> set (tb_cols t)) (tb_cols s) in
          cols \<noteq> [] \<longrightarrow> (\<forall>r\<in>set (tb_rows s).
            conflict x (tb_name s) (tb_rows t) (widened x (tb_name s) (tb_cols t) cols (project cols (tb_cols s) r)))))"
proof -
  let ?ss = "source_tables pg source"
  have "distinct (map tb_name ?ss)" using assms(3) by (simp add: source_tables_def unique_key_def distinct_map_filter)
  from copy_run [OF assms(1) this assms(4) [unfolded copy_database_def]]
  have run: "same_columns ts ts'" "\<forall>s\<in>set ?ss. settled x ts' s" "counts = tally ?ss ts" by simp_all
  have "unique_key tb_name ts'" using run(1) assms(2) by (simp add: same_columns_def unique_key_def)
  from settled_copy [OF this run(2), of "[]"] have "copy_database pg x False source ts' = (Some counts, ts')"
    by (simp add: copy_database_def run(3) same_columns_tally [OF run(1)])
  moreover have "conflict x (tb_name s) (tb_rows t) (widened x (tb_name s) (tb_cols t) cols (project cols (tb_cols s) r))"
    if asm: "s \<in> set ?ss" "row_by tb_name (tb_name s) ts' = Some t" "cols = filter (\<lambda>c. c \<in> set (tb_cols t)) (tb_cols s)"
      "cols \<noteq> []" "r \<in> set (tb_rows s)" for s t cols r
  proof -
    have "set (tb_cols s) \<inter> set (tb_cols t) \<noteq> {}" using asm(3,4) by (auto simp: filter_empty_conv)
    then have "copy_table x False s t = Some (t, length (tb_rows s))"
      using run(2) asm(1,2) by (fastforce simp: settled_def)
    then obtain new where new: "insert_rows x (tb_name s) (tb_rows t)
        (map (widened x (tb_name s) (tb_cols t) cols) (map (project cols (tb_cols s)) (tb_rows s))) = Some new"
      and "advance x cols (map (project cols (tb_cols s)) (tb_rows s)) (t\<lparr>tb_rows := new\<rparr>) = t"
      by (auto simp: copy_table_def Let_def asm(3))
    then have "new = tb_rows t" by (metis advance_fields(3) table.select_convs(3) table.surjective table.update_convs(3))
    with insert_rows_covers [OF assms(1) new] asm(5) show ?thesis by auto
  qed
  ultimately show ?thesis by (auto simp: Let_def)
qed

text \<open>A table of numbered_target rows, the number being the key.\<close>

definition numbered_target :: "int target" where
  "numbered_target = \<lparr>tg_postgres = True, conflict = (\<lambda>n old r. r \<in> set old \<or> hd r \<in> hd ` set old),
     refused = (\<lambda>n old r. False), column_default = (\<lambda>n c. 0), number = id\<rparr>"

definition jobs_source :: "int table list" where
  "jobs_source = [\<lparr>tb_name = ''jobs'', tb_cols = [''id'', ''size''], tb_rows = [[1, 5], [2, 6]], tb_seq = None\<rparr>]"

definition jobs_target :: "int table list" where
  "jobs_target = [\<lparr>tb_name = ''jobs'', tb_cols = [''id'', ''size'', ''extra''], tb_rows = [], tb_seq = Some 0\<rparr>]"

lemma jobs_copied:
  "copy_database True numbered_target False jobs_source jobs_target
     = (Some [(''jobs'', 2)], [\<lparr>tb_name = ''jobs'', tb_cols = [''id'', ''size'', ''extra''], tb_rows = [[1, 5, 0], [2, 6, 0]], tb_seq = Some 2\<rparr>])"
  by (simp add: copy_database_def source_tables_def SKIP_def jobs_source_def jobs_target_def row_by_def copy_table_def
      numbered_target_def widened_def project_def advance_def max_id_def modify_row_def update_where_def Let_def)

theorem migration_repeatable_witness:
  "let ts = snd (copy_database True numbered_target False jobs_source jobs_target)
   in copy_database True numbered_target False jobs_source ts = (Some [(''jobs'', 2)], ts)"
proof -
  have "keyed numbered_target" by (auto simp: keyed_def numbered_target_def)
  moreover have "unique_key tb_name jobs_target" "unique_key tb_name jobs_source"
    by (simp_all add: unique_key_def jobs_target_def jobs_source_def)
  ultimately show ?thesis using migration_repeatable [OF _ _ _ jobs_copied] jobs_copied by (simp add: Let_def)
qed

end
