(* ===== verification/FleetImport.thy ===== *)
theory FleetImport
  imports Certs
begin

text \<open>
  The import of scanned certificates, \<^verbatim>\<open>main\<close> of \<^verbatim>\<open>backend/import_certs.py\<close>: a JSON file of host, path and PEM text
  is read into the fleet table, which is keyed on host and path; then the rows of the hosts named on the command line
  that the file did not show are deleted. The messages on the standard error stream are not modelled, the counters are.
\<close>

subsection \<open>One record\<close>

record import_args =
  ia_notify_email :: string
  ia_include_ca :: bool
  ia_prune :: "string list"

record import_counts =
  n_added :: nat
  n_updated :: nat
  n_renewed :: nat
  n_skipped_ca :: nat
  n_skipped_bad :: nat
  n_mismatches :: nat
  n_pruned :: nat

definition no_counts :: import_counts where
  "no_counts = \<lparr>n_added = 0, n_updated = 0, n_renewed = 0, n_skipped_ca = 0, n_skipped_bad = 0, n_mismatches = 0, n_pruned = 0\<rparr>"

text \<open>\<open>"BEGIN CERTIFICATE" in pem\<close> for whatever the JSON holds: text, list and object answer, other values raise.\<close>

definition mentions_cert :: "json \<Rightarrow> bool result" where
  "mentions_cert pem =
     (if \<not> truthy pem then Inr False
      else case pem of
        JStr s \<Rightarrow> Inr (contains ''BEGIN CERTIFICATE'' s)
      | JArr xs \<Rightarrow> Inr (JStr ''BEGIN CERTIFICATE'' \<in> set xs)
      | JObj kvs \<Rightarrow> Inr (jhas ''BEGIN CERTIFICATE'' pem)
      | _ \<Rightarrow> Inl TypeError)"

definition text_field :: "string \<Rightarrow> json \<Rightarrow> string result" where
  "text_field k rec = (case str_or_empty (jget k rec) of Inl err \<Rightarrow> Inl err | Inr s \<Rightarrow> Inr (strip s))"

text \<open>What a record is found to be. Only the last case reaches the table.\<close>

datatype scanned = Bad | CaSkipped | Found string string cert_facts

definition classify :: "import_args \<Rightarrow> string \<Rightarrow> string \<Rightarrow> cert_facts option \<Rightarrow> scanned" where
  "classify args host path found =
     (case found of
        None \<Rightarrow> Bad
      | Some x \<Rightarrow> if \<not> set_opt (x_fingerprint x) then Bad
                  else if x_is_ca x \<and> \<not> ia_include_ca args then CaSkipped
                  else Found host path x)"

definition scan_record :: "'h env \<Rightarrow> import_args \<Rightarrow> json \<Rightarrow> scanned result" where
  "scan_record e args rec =
     (case rec of
        JObj kvs \<Rightarrow>
          (case text_field ''host'' rec of Inl err \<Rightarrow> Inl err | Inr host \<Rightarrow>
           case text_field ''path'' rec of Inl err \<Rightarrow> Inl err | Inr path \<Rightarrow>
             if host = [] \<or> path = [] then Inr Bad
             else case mentions_cert (jget ''pem'' rec) of
                    Inl err \<Rightarrow> Inl err
                  | Inr False \<Rightarrow> Inr Bad
                  | Inr True \<Rightarrow>
                      (case jget ''pem'' rec of
                         JStr pem \<Rightarrow>
                           (case parse_cert e pem of Inl err \<Rightarrow> Inl err | Inr found \<Rightarrow> Inr (classify args host path found))
                       | _ \<Rightarrow> Inl TypeError))
      | _ \<Rightarrow> Inl AttributeError)"

text \<open>A file named after a host should hold a certificate of that name.\<close>

definition file_base :: "string \<Rightarrow> string" where
  "file_base path =
     (let f = last (split_on (CHR ''/'') path) in
      if list_ex (\<lambda>suffix. ends_with suffix (lower f)) [''.crt'', ''.cer'', ''.pem''] then take (length f - 4) f else f)"

definition name_mismatch :: "string \<Rightarrow> cert_facts \<Rightarrow> bool" where
  "name_mismatch path x =
     (let base = file_base path in
      CHR ''.'' \<in> set base \<and> lower base \<notin> set (lower (or_empty (x_cn x)) # map lower (x_sans x)))"

definition types_text :: "cert_facts \<Rightarrow> string option" where
  "types_text x = (let s = join '','' (sort (x_types x)) in if s = [] then None else Some s)"

definition scanned_row :: "import_args \<Rightarrow> int \<Rightarrow> string \<Rightarrow> string \<Rightarrow> time \<Rightarrow> cert_facts \<Rightarrow> fleet_cert" where
  "scanned_row args i host path now x =
    \<lparr>f_id = i, f_host = host, f_path = path, f_fingerprint = or_empty (x_fingerprint x), f_cn = x_cn x, f_sans = x_sans x,
     f_issuer = x_issuer x, f_serial = x_serial x, f_not_before = x_not_before x, f_expires_at = x_expires_at x,
     f_cert_types = types_text x,
     f_notify_email = (if ia_notify_email args = [] then None else Some (ia_notify_email args)),
     f_first_seen = now, f_last_seen = now, f_expiry_warned = 0, f_pem = Some (x_pem x)\<rparr>"

definition rescanned :: "time \<Rightarrow> cert_facts \<Rightarrow> fleet_cert \<Rightarrow> fleet_cert" where
  "rescanned now x f =
     f\<lparr>f_fingerprint := or_empty (x_fingerprint x), f_cn := x_cn x, f_sans := x_sans x, f_issuer := x_issuer x,
       f_serial := x_serial x, f_not_before := x_not_before x, f_expires_at := x_expires_at x, f_cert_types := types_text x,
       f_last_seen := now,
       f_expiry_warned := (if Some (f_fingerprint f) \<noteq> x_fingerprint x then 0 else f_expiry_warned f),
       f_pem := Some (x_pem x)\<rparr>"

subsection \<open>The run\<close>

record import_state =
  is_fleet :: "fleet_cert list"
  is_seq :: int
  is_seen :: "(string \<times> string) list"
  is_counts :: import_counts

definition counted :: "(import_counts \<Rightarrow> import_counts) \<Rightarrow> import_state \<Rightarrow> import_state" where
  "counted f s = s\<lparr>is_counts := f (is_counts s)\<rparr>"

definition store_found :: "import_args \<Rightarrow> time \<Rightarrow> string \<Rightarrow> string \<Rightarrow> cert_facts \<Rightarrow> import_state \<Rightarrow> import_state" where
  "store_found args now host path x s =
     (let s = (if name_mismatch path x then counted (\<lambda>n. n\<lparr>n_mismatches := n_mismatches n + 1\<rparr>) s else s);
          s = s\<lparr>is_seen := (host, path) # is_seen s\<rparr> in
      case row_by fleet_key (host, path) (is_fleet s) of
        None \<Rightarrow>
          counted (\<lambda>n. n\<lparr>n_added := n_added n + 1\<rparr>)
            (s\<lparr>is_fleet := is_fleet s @ [scanned_row args (is_seq s + 1) host path now x], is_seq := is_seq s + 1\<rparr>)
      | Some f \<Rightarrow>
          counted (if Some (f_fingerprint f) \<noteq> x_fingerprint x then (\<lambda>n. n\<lparr>n_renewed := n_renewed n + 1\<rparr>)
                   else (\<lambda>n. n\<lparr>n_updated := n_updated n + 1\<rparr>))
            (s\<lparr>is_fleet := modify_row f_id (f_id f) (rescanned now x) (is_fleet s)\<rparr>))"

definition store_scanned :: "import_args \<Rightarrow> time \<Rightarrow> scanned \<Rightarrow> import_state \<Rightarrow> import_state" where
  "store_scanned args now sc s =
     (case sc of
        Bad \<Rightarrow> counted (\<lambda>n. n\<lparr>n_skipped_bad := n_skipped_bad n + 1\<rparr>) s
      | CaSkipped \<Rightarrow> counted (\<lambda>n. n\<lparr>n_skipped_ca := n_skipped_ca n + 1\<rparr>) s
      | Found host path x \<Rightarrow> store_found args now host path x s)"

fun import_records :: "'h env \<Rightarrow> import_args \<Rightarrow> time \<Rightarrow> json list \<Rightarrow> import_state \<Rightarrow> import_state result" where
  "import_records e args now [] s = Inr s"
| "import_records e args now (rec # recs) s =
     (case scan_record e args rec of
        Inl err \<Rightarrow> Inl err
      | Inr sc \<Rightarrow> import_records e args now recs (store_scanned args now sc s))"

text \<open>The rows of a pruned host that the run did not meet are deleted one by one.\<close>

definition prune_host :: "string \<Rightarrow> import_state \<Rightarrow> import_state" where
  "prune_host host s =
     (let gone = filter (\<lambda>f. f_host f = host \<and> (host, f_path f) \<notin> set (is_seen s)) (is_fleet s) in
      counted (\<lambda>n. n\<lparr>n_pruned := n_pruned n + length gone\<rparr>)
        (s\<lparr>is_fleet := fold (\<lambda>f. remove_row f_id (f_id f)) gone (is_fleet s)\<rparr>))"

text \<open>
  \<open>main\<close>: the exit code and what is committed. An exception ends the run before the commit, so the table is as before.
\<close>

definition import_main ::
  "'h env \<Rightarrow> import_args \<Rightarrow> json \<Rightarrow> time \<Rightarrow> 'h world \<Rightarrow> (int \<times> import_counts) result \<times> 'h world" where
  "import_main e args file now w =
     (case file of
        JArr recs \<Rightarrow>
          (case import_records e args now recs
                  \<lparr>is_fleet = w_fleet w, is_seq = w_fleet_seq w, is_seen = [], is_counts = no_counts\<rparr> of
             Inl err \<Rightarrow> (Inl err, w)
           | Inr s \<Rightarrow> let s = fold prune_host (ia_prune args) s in
               (Inr (0, is_counts s), w\<lparr>w_fleet := is_fleet s, w_fleet_seq := is_seq s\<rparr>))
      | _ \<Rightarrow> (Inr (2, no_counts), w))"

subsection \<open>What one record does to the table\<close>

definition fleet_sound :: "fleet_cert list \<Rightarrow> int \<Rightarrow> bool" where
  "fleet_sound fs n \<longleftrightarrow> unique_key fleet_key fs \<and> unique_key f_id fs \<and> (\<forall>f\<in>set fs. f_id f \<le> n)"

text \<open>
  The same row after a scan: identity and recipient stay, and a warning tier that was not reset belongs to the certificate
  it was reached for.
\<close>

definition carries :: "fleet_cert \<Rightarrow> fleet_cert \<Rightarrow> bool" where
  "carries f g \<longleftrightarrow>
     f_id g = f_id f \<and> fleet_key g = fleet_key f \<and> f_notify_email g = f_notify_email f \<and> f_first_seen g = f_first_seen f
     \<and> (f_expiry_warned g = 0 \<or> (f_expiry_warned g = f_expiry_warned f \<and> f_fingerprint g = f_fingerprint f))"

definition new_row :: "import_args \<Rightarrow> int \<Rightarrow> fleet_cert \<Rightarrow> bool" where
  "new_row args n f \<longleftrightarrow>
     n < f_id f \<and> f_expiry_warned f = 0 \<and> or_empty (f_notify_email f) = ia_notify_email args"

lemma carries_refl: "carries f f"
  by (simp add: carries_def)

lemma carries_trans: "carries f g \<Longrightarrow> carries g h \<Longrightarrow> carries f h"
  by (auto simp: carries_def)

lemma carries_rescanned: "set_opt (x_fingerprint x) \<Longrightarrow> carries f (rescanned now x f)"
  by (cases "x_fingerprint x") (auto simp: carries_def rescanned_def fleet_key_def)

lemma new_rescanned: "new_row args n f \<Longrightarrow> new_row args n (rescanned now x f)"
  by (simp add: new_row_def rescanned_def)

lemma new_scanned: "n < i \<Longrightarrow> new_row args n (scanned_row args i host path now x)"
  by (simp add: new_row_def scanned_row_def)

lemma rescanned_keys [simp]: "fleet_key (rescanned now x f) = fleet_key f" "f_id (rescanned now x f) = f_id f"
  by (simp_all add: rescanned_def fleet_key_def)

lemma scanned_keys [simp]:
  "fleet_key (scanned_row args i host path now x) = (host, path)" "f_id (scanned_row args i host path now x) = i"
  by (simp_all add: scanned_row_def fleet_key_def)

text \<open>What relates the table after some records to the table before, and to what was met.\<close>

definition grown :: "import_args \<Rightarrow> fleet_cert list \<Rightarrow> int \<Rightarrow> fleet_cert list \<Rightarrow> int \<Rightarrow> bool" where
  "grown args fs n gs m \<longleftrightarrow>
     fleet_sound gs m \<and> n \<le> m
     \<and> (\<forall>g\<in>set gs. new_row args n g \<or> (\<exists>f\<in>set fs. carries f g))
     \<and> (\<forall>f\<in>set fs. \<exists>g\<in>set gs. carries f g)"

lemma grown_refl: "fleet_sound fs n \<Longrightarrow> grown args fs n fs n"
  using carries_refl by (auto simp: grown_def)

lemma grown_added:
  assumes "grown args fs n gs m" "row_by fleet_key (host, path) gs = None"
  shows "grown args fs n (gs @ [scanned_row args (m + 1) host path now x]) (m + 1)"
proof -
  have "fleet_sound (gs @ [scanned_row args (m + 1) host path now x]) (m + 1)"
    using assms by (fastforce simp: grown_def fleet_sound_def unique_key_def table_simps image_iff)
  moreover have "new_row args n (scanned_row args (m + 1) host path now x)"
    using assms(1) by (intro new_scanned) (simp add: grown_def)
  ultimately show ?thesis using assms(1) unfolding grown_def by force
qed

lemma grown_rescanned:
  assumes "grown args fs n gs m" "set_opt (x_fingerprint x)"
  shows "grown args fs n (modify_row f_id i (rescanned now x) gs) m"
proof -
  let ?g = "\<lambda>g. if f_id g = i then rescanned now x g else g"
  have gs: "modify_row f_id i (rescanned now x) gs = map ?g gs" by (simp add: modify_row_def update_where_def)
  have keys: "map fleet_key (map ?g gs) = map fleet_key gs" "map f_id (map ?g gs) = map f_id gs" by simp_all
  have sound: "fleet_sound (map ?g gs) m"
    using assms(1) unfolding grown_def fleet_sound_def unique_key_def keys by (auto split: if_splits)
  have c: "carries g (?g g)" for g using carries_refl carries_rescanned [OF assms(2)] by simp
  have old: "new_row args n (?g g) \<or> (\<exists>f\<in>set fs. carries f (?g g))" if "g \<in> set gs" for g
    using that assms(1) new_rescanned carries_trans [OF _ c [of g]] unfolding grown_def by fastforce
  have stays: "\<exists>g\<in>set gs. carries f (?g g)" if "f \<in> set fs" for f
    using that assms(1) carries_trans [OF _ c] unfolding grown_def by blast
  show ?thesis using assms(1) sound old stays unfolding gs grown_def set_map ball_simps bex_simps by (intro conjI ballI) blast+
qed

subsection \<open>What the records of a file do\<close>

definition handled :: "import_counts \<Rightarrow> nat" where
  "handled n = n_added n + n_updated n + n_renewed n + n_skipped_ca n + n_skipped_bad n"

definition found_key :: "'h env \<Rightarrow> import_args \<Rightarrow> json \<Rightarrow> (string \<times> string) option" where
  "found_key e args rec = (case scan_record e args rec of Inr (Found host path x) \<Rightarrow> Some (host, path) | _ \<Rightarrow> None)"

lemma scan_fingerprint: "scan_record e args rec = Inr (Found host path x) \<Longrightarrow> set_opt (x_fingerprint x)"
  by (auto simp: scan_record_def classify_def Let_def split: json.splits sum.splits option.splits if_splits bool.splits)

definition progress :: "import_args \<Rightarrow> fleet_cert list \<Rightarrow> int \<Rightarrow> nat \<Rightarrow> (string \<times> string) set \<Rightarrow> import_state \<Rightarrow> bool" where
  "progress args fs n k met s \<longleftrightarrow>
     grown args fs n (is_fleet s) (is_seq s) \<and> handled (is_counts s) = k \<and> n_pruned (is_counts s) = 0
     \<and> length (is_fleet s) = length fs + n_added (is_counts s)
     \<and> set (is_seen s) = met \<and> fleet_key ` set (is_fleet s) = fleet_key ` set fs \<union> met"

lemma modify_keys: "fleet_key ` set (modify_row f_id i (rescanned now x) gs) = fleet_key ` set gs"
  unfolding set_map [symmetric] modify_row_def by (simp add: map_key_update_where)

lemma progress_found:
  assumes "progress args fs n k met s" "set_opt (x_fingerprint x)"
  shows "progress args fs n (k + 1) (insert (host, path) met) (store_found args now host path x s)"
proof (cases "row_by fleet_key (host, path) (is_fleet s)")
  case None
  then show ?thesis using assms grown_added [of args fs n "is_fleet s" "is_seq s" host path now x]
    by (auto simp: progress_def store_found_def counted_def handled_def)
next
  case (Some f)
  then have "(host, path) \<in> fleet_key ` set (is_fleet s)" by (force dest: row_by_SomeD)
  then show ?thesis using assms Some grown_rescanned [of args fs n "is_fleet s" "is_seq s" x "f_id f" now]
    by (auto simp: progress_def store_found_def counted_def handled_def modify_keys)
       (auto simp: modify_row_def update_where_def)
qed

lemma progress_stored:
  assumes "progress args fs n k met s" "scan_record e args rec = Inr sc"
  shows "progress args fs n (k + 1) (met \<union> set_option (found_key e args rec)) (store_scanned args now sc s)"
proof (cases sc)
  case (Found host path x)
  then show ?thesis using progress_found [OF assms(1) scan_fingerprint] assms(2)
    by (simp add: store_scanned_def found_key_def)
qed (use assms in \<open>auto simp: store_scanned_def found_key_def progress_def counted_def handled_def\<close>)

lemma progress_records:
  assumes "progress args fs n k met s" "import_records e args now recs s = Inr s'"
  shows "progress args fs n (k + length recs) (met \<union> (\<Union>rec\<in>set recs. set_option (found_key e args rec))) s'"
  using assms
proof (induction recs arbitrary: k met s)
  case (Cons rec recs)
  then obtain sc where sc: "scan_record e args rec = Inr sc" "import_records e args now recs (store_scanned args now sc s) = Inr s'"
    by (auto split: sum.splits)
  show ?case using Cons.IH [OF progress_stored [OF Cons.prems(1) sc(1)] sc(2)] by (simp add: Un_assoc)
qed simp

subsection \<open>Pruning\<close>

definition kept :: "string list \<Rightarrow> (string \<times> string) list \<Rightarrow> fleet_cert \<Rightarrow> bool" where
  "kept hosts seen f \<longleftrightarrow> f_host f \<in> set hosts \<longrightarrow> fleet_key f \<in> set seen"

lemma remove_all: "fold (\<lambda>f. remove_row f_id (f_id f)) gone fs = filter (\<lambda>f. f_id f \<notin> f_id ` set gone) fs"
  by (induction gone arbitrary: fs) (auto simp: remove_row_def delete_where_def intro: filter_cong)

lemma remove_chosen:
  assumes "unique_key f_id fs"
  shows "fold (\<lambda>f. remove_row f_id (f_id f)) (filter P fs) fs = filter (\<lambda>f. \<not> P f) fs"
proof -
  have "f_id f \<in> f_id ` set (filter P fs) \<longleftrightarrow> P f" if "f \<in> set fs" for f
    using that assms by (auto simp: unique_key_def distinct_map dest: inj_onD)
  then show ?thesis by (simp add: remove_all cong: filter_cong)
qed

lemma prune_fields [simp]: "is_seen (prune_host h s) = is_seen s" "is_seq (prune_host h s) = is_seq s"
  "handled (is_counts (prune_host h s)) = handled (is_counts s)" "n_added (is_counts (prune_host h s)) = n_added (is_counts s)"
  by (simp_all add: prune_host_def counted_def handled_def Let_def)

lemma prune_fleet:
  assumes "unique_key f_id (is_fleet s)"
  shows "is_fleet (prune_host h s) = filter (kept [h] (is_seen s)) (is_fleet s)"
proof -
  let ?gone = "\<lambda>f. f_host f = h \<and> (h, f_path f) \<notin> set (is_seen s)"
  have "kept [h] (is_seen s) = (\<lambda>f. \<not> ?gone f)" by (auto simp: kept_def fleet_key_def)
  then show ?thesis using remove_chosen [OF assms, of ?gone] by (simp add: prune_host_def counted_def Let_def)
qed

lemma prune_counts:
  "length (is_fleet (prune_host h s)) + n_pruned (is_counts (prune_host h s))
     = length (is_fleet s) + n_pruned (is_counts s)" if "unique_key f_id (is_fleet s)"
proof -
  let ?gone = "\<lambda>f. f_host f = h \<and> (h, f_path f) \<notin> set (is_seen s)"
  have "length (filter (\<lambda>f. \<not> ?gone f) (is_fleet s)) + length (filter ?gone (is_fleet s)) = length (is_fleet s)"
    using sum_length_filter_compl [of ?gone "is_fleet s"] by (simp add: add.commute)
  then show ?thesis using remove_chosen [OF that, of ?gone] by (simp add: prune_host_def counted_def Let_def)
qed

lemma pruned_all:
  assumes "unique_key f_id (is_fleet s)"
  shows "is_fleet (fold prune_host hs s) = filter (kept hs (is_seen s)) (is_fleet s)
    \<and> is_seen (fold prune_host hs s) = is_seen s \<and> is_seq (fold prune_host hs s) = is_seq s
    \<and> handled (is_counts (fold prune_host hs s)) = handled (is_counts s)
    \<and> n_added (is_counts (fold prune_host hs s)) = n_added (is_counts s)
    \<and> length (is_fleet (fold prune_host hs s)) + n_pruned (is_counts (fold prune_host hs s))
        = length (is_fleet s) + n_pruned (is_counts s)"
  using assms
proof (induction hs arbitrary: s)
  case (Cons h hs)
  have u: "unique_key f_id (is_fleet (prune_host h s))"
    using Cons.prems by (simp add: prune_fleet unique_key_def distinct_map_filter)
  have "kept hs (is_seen s) f \<and> kept [h] (is_seen s) f \<longleftrightarrow> kept (h # hs) (is_seen s) f" for f by (auto simp: kept_def)
  then have two: "filter (kept hs (is_seen s)) (filter (kept [h] (is_seen s)) xs) = filter (kept (h # hs) (is_seen s)) xs" for xs
    by (simp add: conj_commute)
  from Cons.IH [OF u] prune_counts [OF Cons.prems, of h] show ?case
    unfolding fold_simps o_apply prune_fields prune_fleet [OF Cons.prems] two by (elim conjE) simp
qed (simp add: kept_def)

lemma sound_filter: "fleet_sound fs n \<Longrightarrow> fleet_sound (filter P fs) n"
  by (auto simp: fleet_sound_def unique_key_def intro: distinct_map_filter)

lemma import_run:
  assumes "fleet_sound (w_fleet w) (w_fleet_seq w)" "import_main e args (JArr recs) now w = (Inr (code, n), w')"
  obtains s where "progress args (w_fleet w) (w_fleet_seq w) (length recs) (\<Union>rec\<in>set recs. set_option (found_key e args rec)) s"
    and "code = 0" "w_fleet w' = filter (kept (ia_prune args) (is_seen s)) (is_fleet s)" "w_fleet_seq w' = is_seq s"
    and "handled n = length recs" "length (w_fleet w') + n_pruned n = length (is_fleet s)" "n_added n = n_added (is_counts s)"
proof -
  let ?s0 = "\<lparr>is_fleet = w_fleet w, is_seq = w_fleet_seq w, is_seen = [], is_counts = no_counts\<rparr>"
  from assms(2) obtain s where s: "import_records e args now recs ?s0 = Inr s" and out: "code = 0"
      "n = is_counts (fold prune_host (ia_prune args) s)" "w_fleet w' = is_fleet (fold prune_host (ia_prune args) s)"
      "w_fleet_seq w' = is_seq (fold prune_host (ia_prune args) s)"
    by (auto simp: import_main_def Let_def split: sum.splits)
  have "progress args (w_fleet w) (w_fleet_seq w) 0 {} ?s0"
    using grown_refl [OF assms(1)] by (simp add: progress_def no_counts_def handled_def)
  from progress_records [OF this s]
  have p: "progress args (w_fleet w) (w_fleet_seq w) (length recs) (\<Union>rec\<in>set recs. set_option (found_key e args rec)) s"
    by simp
  then have "unique_key f_id (is_fleet s)" by (simp add: progress_def grown_def fleet_sound_def)
  from pruned_all [OF this, of "ia_prune args"] have q:
      "w_fleet w' = filter (kept (ia_prune args) (is_seen s)) (is_fleet s)" "w_fleet_seq w' = is_seq s"
      "handled n = handled (is_counts s)" "n_added n = n_added (is_counts s)"
      "length (w_fleet w') + n_pruned n = length (is_fleet s) + n_pruned (is_counts s)"
    unfolding out by blast+
  have "handled (is_counts s) = length recs" "n_pruned (is_counts s) = 0" using p by (simp_all add: progress_def)
  with q show ?thesis using out(1) by (intro that [OF p]) simp_all
qed

subsection \<open>What an import leaves\<close>


text \<open>
  Pruning keeps exactly what the file showed. After a finished run the rows of a pruned host are those of the paths of
  that host with an accepted record; a path whose record could not be read, or held a CA certificate, is not
  among them although it was in the file.
\<close>
theorem pruned_host_exact:
  assumes "fleet_sound (w_fleet w) (w_fleet_seq w)" "import_main e args (JArr recs) now w = (Inr (code, n), w')"
    and "host \<in> set (ia_prune args)"
  shows "f_path ` {f \<in> set (w_fleet w'). f_host f = host} = {path. \<exists>rec\<in>set recs. found_key e args rec = Some (host, path)}"
proof (rule import_run [OF assms(1,2)])
  fix s
  assume p: "progress args (w_fleet w) (w_fleet_seq w) (length recs) (\<Union>rec\<in>set recs. set_option (found_key e args rec)) s"
    and o: "w_fleet w' = filter (kept (ia_prune args) (is_seen s)) (is_fleet s)"
  let ?met = "\<Union>rec\<in>set recs. set_option (found_key e args rec)"
  have met: "set (is_seen s) = ?met" and keys: "?met \<subseteq> fleet_key ` set (is_fleet s)"
    using p by (simp_all add: progress_def)
  have "path \<in> f_path ` {f \<in> set (w_fleet w'). f_host f = host} \<longleftrightarrow> (host, path) \<in> ?met" for path
  proof
    assume "path \<in> f_path ` {f \<in> set (w_fleet w'). f_host f = host}"
    then obtain f where "f \<in> set (w_fleet w')" "fleet_key f = (host, path)" "f_host f = host" by (auto simp: fleet_key_def)
    then show "(host, path) \<in> ?met" using assms(3) unfolding o met [symmetric] by (simp add: kept_def)
  next
    assume k: "(host, path) \<in> ?met"
    then obtain f where "f \<in> set (is_fleet s)" "fleet_key f = (host, path)" using keys by force
    then have "f \<in> set (w_fleet w')" "f_path f = path" "f_host f = host"
      using k unfolding o met [symmetric] by (auto simp: kept_def fleet_key_def)
    then show "path \<in> f_path ` {f \<in> set (w_fleet w'). f_host f = host}" by blast
  qed
  then show ?thesis by (auto simp: set_eq_iff)
qed

subsection \<open>A file\<close>

text \<open>A scan of a host whose only file has become unreadable.\<close>

definition broken_record :: json where
  "broken_record = JObj [(''host'', JStr ''web01''), (''path'', JStr ''/etc/a.pem''), (''pem'', JStr ''garbled'')]"

definition known_file :: fleet_cert where
  "known_file =
    \<lparr>f_id = 1, f_host = ''web01'', f_path = ''/etc/a.pem'', f_fingerprint = ''ab'', f_cn = None, f_sans = [], f_issuer = None,
     f_serial = None, f_not_before = None, f_expires_at = None, f_cert_types = None, f_notify_email = None, f_first_seen = 5,
     f_last_seen = 5, f_expiry_warned = 30, f_pem = None\<rparr>"

definition fleet_world :: "unit world" where
  "fleet_world = sample_world\<lparr>w_fleet := [known_file], w_fleet_seq := 1\<rparr>"

definition pruning :: "string list \<Rightarrow> import_args" where
  "pruning hosts = \<lparr>ia_notify_email = [], ia_include_ca = False, ia_prune = hosts\<rparr>"

lemma fleet_world_sound: "fleet_sound (w_fleet fleet_world) (w_fleet_seq fleet_world)"
  by (simp add: fleet_sound_def unique_key_def fleet_world_def known_file_def)

lemma broken_scanned: "scan_record sample_env args broken_record = Inr Bad"
proof -
  have "strip ''web01'' = ''web01''" "strip ''/etc/a.pem'' = ''/etc/a.pem''" "\<not> contains ''BEGIN CERTIFICATE'' ''garbled''"
    by code_simp+
  then show ?thesis by (simp add: broken_record_def scan_record_def text_field_def str_or_empty_def mentions_cert_def)
qed

lemma broken_import: "\<exists>n w'. import_main sample_env args (JArr [broken_record]) 9 fleet_world = (Inr (0, n), w')"
  by (simp add: import_main_def broken_scanned Let_def)


theorem pruned_host_exact_witness:
  "\<exists>n w'. import_main sample_env (pruning [''web01'']) (JArr [broken_record]) 9 fleet_world = (Inr (0, n), w')
     \<and> f_path ` {f \<in> set (w_fleet w'). f_host f = ''web01''} = {}"
proof -
  obtain n w' where run: "import_main sample_env (pruning [''web01'']) (JArr [broken_record]) 9 fleet_world = (Inr (0, n), w')"
    using broken_import by blast
  have "f_path ` {f \<in> set (w_fleet w'). f_host f = ''web01''} = {}"
    by (subst pruned_host_exact [OF fleet_world_sound run]) (simp_all add: pruning_def found_key_def broken_scanned)
  with run show ?thesis by blast
qed

end
