(* ===== verification/Reports.thy ===== *)
theory Reports
  imports Feedback Notify
begin

text \<open>
  The spreadsheet export of \<^verbatim>\<open>backend/routes_jobs.py\<close> and the service statistics of \<^verbatim>\<open>backend/routes_admin.py\<close>.
  \<^verbatim>\<open>csv.writer\<close> of the standard library is written out for its default dialect; a reader
  for that dialect is the reference the export is checked against.
\<close>

subsection \<open>Writing CSV\<close>

definition special :: "char \<Rightarrow> bool" where
  "special ch = (ch \<in> {CHR '','', CHR 0x22, cr, nl})"

definition double_quotes :: "string \<Rightarrow> string" where
  "double_quotes s = concat (map (\<lambda>ch. if ch = CHR 0x22 then [CHR 0x22, CHR 0x22] else [ch]) s)"

definition csv_quoted :: "string \<Rightarrow> string" where
  "csv_quoted s = [CHR 0x22] @ double_quotes s @ [CHR 0x22]"

definition csv_field :: "string \<Rightarrow> string" where
  "csv_field s = (if list_ex special s then csv_quoted s else s)"

definition csv_row :: "string list \<Rightarrow> string" where
  "csv_row fs = (if fs = [[]] then csv_quoted [] else join '','' (map csv_field fs)) @ [cr, nl]"

definition csv_text :: "string list list \<Rightarrow> string" where
  "csv_text rows = concat (map csv_row rows)"

subsection \<open>The export\<close>

definition EXPORT_COLUMNS :: "string list" where
  "EXPORT_COLUMNS =
    [''id'', ''created_utc'', ''target_host'', ''sans'', ''cert_type'', ''key_algo'', ''status'', ''source'', ''requester_dn'',
     ''requester_email'', ''group'', ''expires_utc'', ''completed_utc'', ''renewed_from'']"

definition iso_time :: "time option \<Rightarrow> string" where
  "iso_time t = (case t of None \<Rightarrow> [] | Some t \<Rightarrow> if t = 0 then [] else date_text t @ '' '' @ clock_text t)"

definition export_group :: "'h world \<Rightarrow> job \<Rightarrow> string" where
  "export_group w j =
     (if j_group_id j \<in> {None, Some 0} then []
      else case group_by_id (j_group_id j) w of Some g \<Rightarrow> g_name g | None \<Rightarrow> [])"

definition export_row :: "'h world \<Rightarrow> job \<Rightarrow> string list" where
  "export_row w j =
    [j_id j, iso_time (Some (j_created_at j)), j_target_host j, join '' '' (j_sans j), or_empty (j_cert_type j),
     or_empty (j_key_algo j), status_str (j_status j), j_source j, j_requester_dn j, or_empty (j_requester_email j),
     export_group w j, iso_time (j_expires_at j), iso_time (j_completed_at j), or_empty (j_renewed_from j)]"

text \<open>
  Unknown filter values are passed over. A number of days that cannot be read leaves a placeholder without its
  parameter in the statement, which the database driver refuses.
\<close>

definition export_conds :: "ctx \<Rightarrow> (job \<Rightarrow> bool) list result" where
  "export_conds c =
     (if arg c ''expiring_within'' \<noteq> [] \<and> int_of (arg c ''expiring_within'') = None then Inl (PyError ''ProgrammingError'')
      else Inr (
        (if arg c ''status'' \<in> set JOB_STATUSES then [\<lambda>j. status_str (j_status j) = arg c ''status''] else [])
        @ (if arg c ''source'' \<in> set [''rhel'', ''external''] then [\<lambda>j. j_source j = arg c ''source''] else [])
        @ (case int_of (arg c ''expiring_within'') of
             Some d \<Rightarrow> if arg c ''expiring_within'' = [] then [] else [expiring_by (c_now c) d] | None \<Rightarrow> [])))"

definition export_body :: "'h env \<Rightarrow> 'h handler" where
  "export_body e c w0 =
     (let w = sweep_expired e c w0 in
      attempt e c (export_conds c) w (\<lambda>conds.
        let rows = take 10000 (newest_first (select_jobs (conds @ visibility_sql c w) w)) in
        (content_reply (csv_text (EXPORT_COLUMNS # map (export_row w) rows)),
         log_event c ''export_csv'' ''ok'' [(''rows'', nat_str (length rows))] w)))"

definition export_jobs_csv :: "'h env \<Rightarrow> 'h handler" where
  "export_jobs_csv e = require_auth e ''export_jobs_csv'' (export_body e)"

subsection \<open>Statistics\<close>

text \<open>\<^verbatim>\<open>SELECT k, COUNT(*) ... GROUP BY k\<close>\<close>

definition grouped :: "('r \<Rightarrow> string) \<Rightarrow> 'r list \<Rightarrow> (string \<times> nat) list" where
  "grouped key rows = map (\<lambda>k. (k, rowcount (\<lambda>r. key r = k) rows)) (sort (remdups (map key rows)))"

definition counts_json :: "(string \<times> nat) list \<Rightarrow> json" where
  "counts_json ks = JObj (map (\<lambda>(k, n). (k, JInt (int n))) ks)"

definition total_of :: "(string \<times> nat) list \<Rightarrow> nat" where
  "total_of ks = sum_list (map snd ks)"

definition soon :: "time \<Rightarrow> time option \<Rightarrow> bool" where
  "soon now t = (case t of None \<Rightarrow> False | Some t \<Rightarrow> t \<le> now + 60 * 86400)"

definition stats_json :: "string \<Rightarrow> nat option \<Rightarrow> mail_state \<Rightarrow> time \<Rightarrow> 'h world \<Rightarrow> (string \<times> json) list" where
  "stats_json db_path db_size ms now w =
     (let by_status = grouped (\<lambda>j. status_str (j_status j)) (w_jobs w);
          by_source = grouped j_source (w_jobs w);
          feedback = grouped fb_status (w_feedback w);
          count = (\<lambda>n. JInt (int n)) in
      [(''jobs'', JObj [(''by_status'', counts_json by_status), (''by_source'', counts_json by_source),
          (''total'', count (total_of by_status)),
          (''expiring_60d'', count (rowcount (\<lambda>j. j_status j = Issued \<and> soon now (j_expires_at j)) (w_jobs w)))]),
       (''fleet'', JObj [(''total'', count (length (w_fleet w))),
          (''expiring_60d'', count (rowcount (\<lambda>f. soon now (f_expires_at f)) (w_fleet w)))]),
       (''users'', JObj [(''total'', count (length (w_users w))), (''admin'', count (rowcount u_is_admin (w_users w))),
          (''active'', count (rowcount u_is_active (w_users w)))]),
       (''db'', JObj [(''path'', JStr db_path), (''size_bytes'', count (case db_size of None \<Rightarrow> 0 | Some n \<Rightarrow> n))]),
       (''feedback'', JObj [(''by_status'', counts_json feedback), (''total'', count (total_of feedback)),
          (''new'', count (case map_of feedback ''new'' of None \<Rightarrow> 0 | Some n \<Rightarrow> n))]),
       (''email'', JObj [(''enabled'', JBool (mail_enabled ms)), (''reason'', JStr (or_else (mail_reason ms) ''ok''))])])"

definition admin_stats :: "'h env \<Rightarrow> string \<Rightarrow> nat option \<Rightarrow> mail_state \<Rightarrow> 'h handler" where
  "admin_stats e db_path db_size ms = require_admin e ''admin_stats'' (\<lambda>c w.
     (ok_reply (stats_json db_path db_size ms (c_now c) w), w))"

subsection \<open>Reading CSV\<close>

text \<open>A reader of the dialect: a state, the current field, the fields of the current row, the rest of the text.\<close>

datatype csv_state = Begin | Plain | Quoted | Closing | Newline

fun read_csv :: "csv_state \<Rightarrow> string \<Rightarrow> string list \<Rightarrow> string \<Rightarrow> string list list" where
  "read_csv st f row [] = (if row = [] \<and> f = [] \<and> st \<in> {Begin, Newline} then [] else [row @ [f]])"
| "read_csv Newline f row (ch # s) = (if ch = nl then read_csv Begin [] [] s else [])"
| "read_csv Quoted f row (ch # s) =
     (if ch = CHR 0x22 then read_csv Closing f row s else read_csv Quoted (f @ [ch]) row s)"
| "read_csv st f row (ch # s) =
     (if ch = CHR '','' then read_csv Begin [] (row @ [f]) s
      else if ch = cr then (row @ [f]) # read_csv Newline [] [] s
      else if ch = CHR 0x22 \<and> st = Begin then read_csv Quoted [] row s
      else if ch = CHR 0x22 \<and> st = Closing then read_csv Quoted (f @ [ch]) row s
      else read_csv Plain (f @ [ch]) row s)"

definition parse_csv :: "string \<Rightarrow> string list list" where
  "parse_csv s = read_csv Begin [] [] s"

lemma read_plain:
  "\<not> list_ex special s \<Longrightarrow> st \<in> {Begin, Plain} \<Longrightarrow> s \<noteq> [] \<Longrightarrow> read_csv st f row (s @ r) = read_csv Plain (f @ s) row r"
proof (induction s arbitrary: st f)
  case (Cons ch s)
  then have "read_csv st f row ((ch # s) @ r) = read_csv Plain (f @ [ch]) row (s @ r)" by (auto simp: special_def)
  then show ?case using Cons.IH [of Plain "f @ [ch]"] Cons.prems by (cases "s = []") auto
qed simp

lemma line_chars: "cr \<noteq> CHR '',''" "CHR '','' \<noteq> cr" "cr \<noteq> CHR 0x22" "CHR 0x22 \<noteq> cr" "nl \<noteq> cr"
  by code_simp+

lemma read_quoted:
  "read_csv Quoted f row (double_quotes s @ CHR 0x22 # r) = read_csv Closing (f @ s) row r"
  by (induction s arbitrary: f) (auto simp: double_quotes_def line_chars)

text \<open>After a field comes a comma or the end of the row.\<close>

lemma read_end:
  assumes "st \<in> {Begin, Plain, Closing}" "d \<in> {CHR '','', cr}"
  shows "read_csv st f row (d # r)
    = (if d = CHR '','' then read_csv Begin [] (row @ [f]) r else (row @ [f]) # read_csv Newline [] [] r)"
  using assms by (auto simp: line_chars)

lemma read_field:
  assumes "d \<in> {CHR '','', cr}"
  shows "read_csv Begin [] row (csv_field f @ d # r)
    = (if d = CHR '','' then read_csv Begin [] (row @ [f]) r else (row @ [f]) # read_csv Newline [] [] r)"
proof (cases "list_ex special f")
  case True
  have "read_csv Begin [] row (csv_quoted f @ d # r) = read_csv Closing f row (d # r)"
    using read_quoted [of "[]" row f "d # r"] by (simp add: csv_quoted_def line_chars)
  then show ?thesis using True by (simp add: csv_field_def read_end [OF _ assms] del: read_csv.simps)
next
  case False
  have "read_csv Begin [] row (f @ d # r) = (if f = [] then read_csv Begin [] row (d # r) else read_csv Plain f row (d # r))"
    using read_plain [OF False, of Begin "[]" row "d # r"] by simp
  also have "\<dots> = (if d = CHR '','' then read_csv Begin [] (row @ [f]) r else (row @ [f]) # read_csv Newline [] [] r)"
    using read_end [OF _ assms, of Begin] read_end [OF _ assms, of Plain] by (cases "f = []") (simp_all del: read_csv.simps)
  finally show ?thesis using False by (simp add: csv_field_def del: read_csv.simps)
qed

lemma read_row:
  "fs \<noteq> [] \<Longrightarrow> read_csv Begin [] row (join '','' (map csv_field fs) @ [cr, nl] @ r) = (row @ fs) # read_csv Begin [] [] r"
proof (induction fs arbitrary: row)
  case (Cons f fs)
  show ?case
  proof (cases fs)
    case Nil
    then show ?thesis using read_field [of cr row f "nl # r"] by (simp add: line_chars)
  next
    case (Cons g gs)
    then have "join '','' (map csv_field (f # fs)) = csv_field f @ CHR '','' # join '','' (map csv_field fs)" by simp
    then show ?thesis using read_field [of "CHR '',''" row f "join '','' (map csv_field fs) @ [cr, nl] @ r"]
        Cons.IH [of "row @ [f]"] Cons by simp
  qed
qed simp

lemma read_single: "read_csv Begin [] row (csv_quoted [] @ [cr, nl] @ r) = (row @ [[]]) # read_csv Begin [] [] r"
  by (simp add: csv_quoted_def double_quotes_def line_chars)

lemma csv_roundtrip: "[] \<notin> set rows \<Longrightarrow> parse_csv (csv_text rows) = rows"
proof (induction rows)
  case (Cons fs rows)
  then have "read_csv Begin [] [] (csv_row fs @ csv_text rows) = fs # read_csv Begin [] [] (csv_text rows)"
    using read_row [of fs "[]"] read_single [of "[]"] by (auto simp: csv_row_def simp del: read_csv.simps)
  then show ?case using Cons by (simp add: parse_csv_def csv_text_def)
qed (simp add: parse_csv_def csv_text_def)

subsection \<open>What the export and the statistics say\<close>

lemma attempt_ok: "attempt e c (Inr x) w k = k x"
  by (simp add: attempt_def)

text \<open>
  C30: the export shows what the caller may read, and reads back. Read as CSV, the answer to a request whose number of days is
  absent or a number is the header and one row of fourteen fields for each of the newest ten thousand jobs
  that satisfy the filters and are visible to the caller; commas, quotes and line breaks in the data stay data. Any
  other number of days ends in an internal error.
\<close>
theorem export_reads_back:
  "case export_conds c of
     Inl err \<Rightarrow> arg c ''expiring_within'' \<noteq> [] \<and> int_of (arg c ''expiring_within'') = None
       \<and> export_body e c w = crash e c err (sweep_expired e c w)
   | Inr conds \<Rightarrow>
       (let w' = sweep_expired e c w;
            jobs = take 10000 (newest_first (filter (\<lambda>j. list_all (\<lambda>p. p j) conds \<and> visible c w' j) (w_jobs w'))) in
        \<exists>text. fst (export_body e c w) = content_reply text
          \<and> parse_csv text = EXPORT_COLUMNS # map (export_row w') jobs
          \<and> w_jobs (snd (export_body e c w)) = w_jobs w')"
proof (cases "export_conds c")
  case (Inl err)
  then show ?thesis by (auto simp: export_body_def attempt_def export_conds_def split: if_splits)
next
  case (Inr conds)
  have "[] \<notin> set (EXPORT_COLUMNS # map (export_row w') js)" for w' js by (auto simp: EXPORT_COLUMNS_def export_row_def)
  note again = csv_roundtrip [OF this]
  show ?thesis
    by (simp add: Inr export_body_def attempt_ok Let_def select_jobs_def visibility_conds)
      (rule exI, rule conjI, rule refl, rule again)
qed

lemma grouped_total: "total_of (grouped key rows) = length rows"
proof -
  have "total_of (grouped key rows) = sum_list (map (\<lambda>k. length (filter (\<lambda>r. key r = k) rows)) (sort (remdups (map key rows))))"
    by (simp add: total_of_def grouped_def o_def rowcount_def)
  also have "\<dots> = (\<Sum>k\<in>set (map key rows). length (filter (\<lambda>r. key r = k) rows))"
    by (subst sum_list_distinct_conv_sum_set) simp_all
  also have "\<dots> = (\<Sum>k\<in>set (map key rows). count_list (map key rows) k)"
    by (simp add: count_list_eq_length_filter filter_map o_def eq_commute)
  also have "\<dots> = length rows"
    using sum_count_set [of "map key rows" "set (map key rows)"] by simp
  finally show ?thesis .
qed

end
