(* ===== verification/Startup.thy ===== *)
theory Startup
  imports Dialect Notify
begin

text \<open>
  What \<^verbatim>\<open>backend/app.py\<close> does once when it is loaded: the configuration from the environment file, the version text and
  the license announcement; and the headers every response leaves with. Whether the environment file can be decoded
  is not modelled.
\<close>

subsection \<open>Configuration\<close>

definition ENV_DEFAULTS :: "(string \<times> string) list" where
  "ENV_DEFAULTS =
    [(''CERTHEIM_HELPER_PATH'', ''/opt/certheim/helper/certheim_helper.sh''), (''CERTHEIM_DB_PATH'', ''/var/lib/certheim/jobs.db''),
     (''CERTHEIM_ISSUED_DIR'', ''/var/opt/certheim/issued''), (''CERTHEIM_SESSION_TTL'', ''28800''),
     (''CERTHEIM_MAX_CERTLIST_BYTES'', ''65536''), (''CERTHEIM_MAX_CSR_BYTES'', ''32768''),
     (''CERTHEIM_MAX_CERT_BYTES'', ''65536''), (''CERTHEIM_BOOTSTRAP_FIRST_ADMIN'', ''1''), (''CERTHEIM_CONTAINER'', ''0'')]"

text \<open>The lines of a file; blank pieces do no harm, they are skipped.\<close>

definition file_lines :: "string \<Rightarrow> string list" where
  "file_lines text = concat (map (split_on cr) (split_on nl text))"

definition env_line :: "string \<Rightarrow> (string \<times> string) option" where
  "env_line raw =
     (let line = strip raw in
      if line = [] \<or> starts_with ''#'' line then None
      else map_option (\<lambda>(k, v). (strip k, strip_chars [CHR 0x27] (strip_chars [CHR 0x22] (strip v)))) (split_once (CHR ''='') line))"

definition assign_line :: "string \<Rightarrow> (string \<rightharpoonup> string) \<Rightarrow> (string \<rightharpoonup> string)" where
  "assign_line raw m = (case env_line raw of None \<Rightarrow> m | Some (k, v) \<Rightarrow> m(k \<mapsto> v))"

definition load_env_file :: "'h env \<Rightarrow> (string \<rightharpoonup> string)" where
  "load_env_file e =
     (let values = (case read_file e (getenv e ''CERTHEIM_ENV'' ''/etc/certheim/certheim.env'') of
                      None \<Rightarrow> map_of ENV_DEFAULTS
                    | Some text \<Rightarrow> fold assign_line (file_lines text) (map_of ENV_DEFAULTS))
      in (\<lambda>k. case values k of
            None \<Rightarrow> None
          | Some v \<Rightarrow> Some (case environ e k of Some real \<Rightarrow> real | None \<Rightarrow> v)))"

text \<open>\<open>_env_int\<close> raises for a key without a default, so its keys are those of the table above.\<close>

definition env_int :: "'h env \<Rightarrow> string \<Rightarrow> int result" where
  "env_int e key =
     (case Option.bind (load_env_file e key) int_of of
        Some i \<Rightarrow> Inr i
      | None \<Rightarrow> (case map_of ENV_DEFAULTS key of
                   None \<Rightarrow> Inl (PyError ''KeyError'')
                 | Some d \<Rightarrow> (case int_of d of Some i \<Rightarrow> Inr i | None \<Rightarrow> Inl ValueError)))"

definition env_bool :: "'h env \<Rightarrow> string \<Rightarrow> bool" where
  "env_bool e key =
     (lower (strip (case load_env_file e key of
          Some v \<Rightarrow> v
        | None \<Rightarrow> (case map_of ENV_DEFAULTS key of Some d \<Rightarrow> d | None \<Rightarrow> ''0'')))
      \<in> set [''1'', ''true'', ''yes'', ''on''])"

definition helper_cmd :: "'h env \<Rightarrow> bool \<Rightarrow> string list" where
  "helper_cmd e container_mode =
     (let path = or_empty (load_env_file e ''CERTHEIM_HELPER_PATH'') in
      if container_mode then [path] else [''sudo'', ''-n'', path])"

definition db_path :: "'h env \<Rightarrow> string" where
  "db_path e = or_empty (load_env_file e ''CERTHEIM_DB_PATH'')"

subsection \<open>Version\<close>

definition version_files :: "'h env \<Rightarrow> string \<Rightarrow> string list" where
  "version_files e here =
     (let edition = EDITION (stamp e) in
      [here @ ''/editions/'' @ edition @ ''.version'', here @ ''/../editions/'' @ edition @ ''.version'',
       here @ ''/VERSION'', here @ ''/../VERSION''])"

fun first_text :: "(string \<Rightarrow> string option) \<Rightarrow> string list \<Rightarrow> string option" where
  "first_text file [] = None"
| "first_text file (path # paths) =
     (case file path of
        None \<Rightarrow> first_text file paths
      | Some s \<Rightarrow> if strip s \<noteq> [] then Some (strip s) else first_text file paths)"

definition read_version :: "'h env \<Rightarrow> string \<Rightarrow> string" where
  "read_version e here = (case first_text (read_file e) (version_files e here) of Some v \<Rightarrow> v | None \<Rightarrow> ''unknown'')"

subsection \<open>Announcement\<close>

datatype level = Info | Warning

definition license_line :: "'h env \<Rightarrow> license_info \<Rightarrow> (level \<times> string) result" where
  "license_line e i =
     (if \<not> li_valid i
      then Inr (Warning, ''running UNLICENSED ('' @ capitalize (EDITION (stamp e)) @ '' build) - premium features require a license [''
                   @ li_reason i @ '']'')
      else
        let customer = (if truthy (li_customer i) then str_of e (li_customer i) else ''(unnamed)'');
            edition = capitalize (or_else (li_edition i) ''commercial'');
            expires = (if \<not> truthy (li_expires i) then Inr ''perpetual'' else map_sum (\<lambda>err. err) date_text (int_of_json (li_expires i)))
        in case expires of
             Inl err \<Rightarrow> Inl err
           | Inr when \<Rightarrow>
               let licensed = ''licensed to '' @ customer @ '' (expires '' @ when @ '')'' in
               if set_opt (li_edition_mismatch i)
               then Inr (Warning, edition @ '' license on the '' @ capitalize (EDITION (stamp e)) @ '' build - '' @ edition
                      @ '' features INACTIVE (redeploy with the '' @ edition @ '' image to upgrade); '' @ licensed)
               else Inr (Info, edition @ '' edition - '' @ licensed))"

definition override_lines :: "'h env \<Rightarrow> (level \<times> string) list" where
  "override_lines e =
     (if is_release e then []
      else map (\<lambda>var. (Warning, ''DEV OVERRIDE ACTIVE: '' @ var @ '' is set and honored (development build) - it would be ''
                   @ ''IGNORED in a release build''))
             (filter (\<lambda>var. set_opt (environ e var)) [''CERTHEIM_ENTITLEMENTS'', ''CERTHEIM_LICENSE_PUBKEY'']))"

text \<open>
  The lines of the announcement in order. An exception on the way ends it: what was said before stays, and one more
  line tells of the failure.
\<close>

definition startup_license_banner :: "'h env \<Rightarrow> (py_error \<Rightarrow> string) \<Rightarrow> string \<Rightarrow> license_info result \<Rightarrow> (level \<times> string) list" where
  "startup_license_banner e err_text version found =
     (let failed = (\<lambda>err. [(Warning, ''license banner failed: '' @ err_text err)]) in
      case found of
        Inl err \<Rightarrow> failed err
      | Inr i \<Rightarrow>
          (Info, ''Certheim '' @ version @ '' starting - '' @ describe_build e @ '' build'')
          # (case license_line e i of
               Inl err \<Rightarrow> failed err
             | Inr line \<Rightarrow> line # (if li_valid i then map (\<lambda>t. (Warning, ''LICENSE WARNING: '' @ t)) (li_warnings i) else [])
                            @ override_lines e))"

subsection \<open>Every response\<close>

definition harden :: "string \<Rightarrow> (string \<rightharpoonup> string) \<Rightarrow> (string \<rightharpoonup> string)" where
  "harden req_id headers =
     headers(''X-Content-Type-Options'' \<mapsto> ''nosniff'', ''X-Frame-Options'' \<mapsto> ''DENY'', ''Cache-Control'' \<mapsto> ''no-store'',
             ''X-Request-Id'' \<mapsto> or_else req_id ''-'')"

subsection \<open>Which value wins\<close>

text \<open>The last assignment to a key in a file.\<close>

definition file_value :: "string \<Rightarrow> string \<Rightarrow> string option" where
  "file_value text k = map_of (rev (List.map_filter env_line (file_lines text))) k"

lemma fold_assign:
  "fold assign_line ls m k = (case map_of (rev (List.map_filter env_line ls)) k of Some v \<Rightarrow> Some v | None \<Rightarrow> m k)"
proof (induction ls arbitrary: m)
  case (Cons l ls)
  then show ?case
    by (cases "env_line l") (auto simp: assign_line_def map_filter_simps map_of_append map_add_def split: option.split)
qed (simp add: map_filter_simps)

text \<open>
  The environment wins over the file, the file over the defaults. The value of a setting is that of the process
  environment if it has one, else the last assignment in the file, else the default; a name that
  neither the file nor the defaults know has no value even if the environment sets it.
\<close>
theorem configuration_precedence:
  "load_env_file e k =
     (case Option.bind (read_file e (getenv e ''CERTHEIM_ENV'' ''/etc/certheim/certheim.env'')) (\<lambda>text. file_value text k) of
        Some v \<Rightarrow> Some (case environ e k of Some real \<Rightarrow> real | None \<Rightarrow> v)
      | None \<Rightarrow> map_option (\<lambda>v. case environ e k of Some real \<Rightarrow> real | None \<Rightarrow> v) (map_of ENV_DEFAULTS k))"
  by (auto simp: load_env_file_def fold_assign file_value_def split: option.split)

text \<open>
  The file names one database and the connection opens another. With SQLite and a path that only the environment file
  sets, the application's own path is that of the file while the database layer, which reads the process
  environment alone, opens the default path.
\<close>
theorem database_path_split:
  assumes "environ e ''CERTHEIM_DB_PATH'' = None" "environ e ''CERTHEIM_DB_URL'' = None" "environ e ''CERTHEIM_DB_BACKEND'' = None"
    and "read_file e (getenv e ''CERTHEIM_ENV'' ''/etc/certheim/certheim.env'') = Some text"
    and "file_value text ''CERTHEIM_DB_PATH'' = Some path"
  shows "db_path e = path \<and> connect e unset_config = Inr (Sqlite (Some ''/var/lib/certheim/jobs.db''))"
proof
  show "db_path e = path" using assms by (simp add: db_path_def configuration_precedence)
  have "strip [] = []" by code_simp
  then show "connect e unset_config = Inr (Sqlite (Some ''/var/lib/certheim/jobs.db''))"
    using assms(1-3)
    by (simp add: connect_def is_postgres_def db_backend_def sqlite_path_def resolve_def unset_config_def getenv_def set_opt_def lower_def Let_def)
qed

text \<open>An installation with the path in its file only.\<close>

definition file_env :: "unit env" where
  "file_env = sample_env\<lparr>read_file := (\<lambda>p. Some (''# paths'' @ [nl] @ ''CERTHEIM_DB_PATH='' @ [CHR 0x22] @ ''/srv/jobs.db'' @ [CHR 0x22, nl]))\<rparr>"

theorem database_path_split_witness:
  "db_path file_env = ''/srv/jobs.db'' \<and> connect file_env unset_config = Inr (Sqlite (Some ''/var/lib/certheim/jobs.db''))"
proof (rule database_path_split)
  show "file_value (''# paths'' @ [nl] @ ''CERTHEIM_DB_PATH='' @ [CHR 0x22] @ ''/srv/jobs.db'' @ [CHR 0x22, nl]) ''CERTHEIM_DB_PATH''
      = Some ''/srv/jobs.db''" by code_simp
qed (simp_all add: file_env_def quiet_env_def)

end
