(* ===== verification/Sessions.thy ===== *)
theory Sessions
  imports SupportBundle
begin

text \<open>
  Code that runs several statements in one transaction: the context manager \<^verbatim>\<open>db\<close> of \<^verbatim>\<open>backend/app.py\<close>, the
  schema helpers of \<^verbatim>\<open>backend/db.py\<close>, and the two places that try SQLite's catalogue first and
  PostgreSQL's second (\<^verbatim>\<open>_table_exists\<close> of \<^verbatim>\<open>backend/diagnostics.py\<close> and \<^verbatim>\<open>_schema\<close> of
  \<^verbatim>\<open>backend/support_bundle.py\<close>). The driver is an argument: it runs a statement with its parameters in a state of the
  connection and gives rows of texts or an exception.
\<close>

type_synonym 's driver = "string \<Rightarrow> string list \<Rightarrow> 's \<Rightarrow> string list list result \<times> 's"

subsection \<open>Transactions and schema helpers\<close>

definition with_conn :: "('s \<Rightarrow> 's) \<Rightarrow> ('s \<Rightarrow> 's) \<Rightarrow> ('s \<Rightarrow> 'a result \<times> 's) \<Rightarrow> 's \<Rightarrow> 'a result \<times> 's" where
  "with_conn commit rollback run s =
     (case run s of (Inr x, s1) \<Rightarrow> (Inr x, commit s1) | (Inl err, s1) \<Rightarrow> (Inl err, rollback s1))"

text \<open>\<open>try: a except Exception: b\<close>\<close>

definition otherwise :: "('s \<Rightarrow> 'a result \<times> 's) \<Rightarrow> ('s \<Rightarrow> 'a result \<times> 's) \<Rightarrow> 's \<Rightarrow> 'a result \<times> 's" where
  "otherwise a b s = (case a s of (Inr x, s1) \<Rightarrow> (Inr x, s1) | (Inl _, s1) \<Rightarrow> b s1)"

definition schema_execute :: "'s driver \<Rightarrow> bool \<Rightarrow> 's driver" where
  "schema_execute run postgres sql params = run (ddl postgres sql) params"

definition prepare_backend :: "'s driver \<Rightarrow> bool \<Rightarrow> 's \<Rightarrow> 's" where
  "prepare_backend run postgres s =
     (if \<not> postgres then s
      else snd (run (''CREATE COLLATION IF NOT EXISTS nocase ''
                     @ ''(provider = icu, locale = 'und-u-ks-level2', deterministic = false)'') [] s))"

text \<open>A row too short for the index it is read at is an error.\<close>

fun nth_fields :: "nat \<Rightarrow> string list list \<Rightarrow> string list result" where
  "nth_fields i [] = Inr []"
| "nth_fields i (r # rs) =
     (if i < length r then map_sum id ((#) (r ! i)) (nth_fields i rs) else Inl (PyError ''IndexError''))"

definition existing_columns :: "'s driver \<Rightarrow> bool \<Rightarrow> string \<Rightarrow> 's \<Rightarrow> string list result \<times> 's" where
  "existing_columns run postgres name s =
     (if postgres
      then case run (''SELECT column_name FROM information_schema.columns '' @ ''WHERE table_name = ?'') [name] s of
             (Inl err, s1) \<Rightarrow> (Inl err, s1) | (Inr rows, s1) \<Rightarrow> (nth_fields 0 rows, s1)
      else case run (''PRAGMA table_info('' @ name @ '')'') [] s of
             (Inl err, s1) \<Rightarrow> (Inl err, s1) | (Inr rows, s1) \<Rightarrow> (nth_fields 1 rows, s1))"

text \<open>The new identifier: asked for in the statement on PostgreSQL, the connection's \<open>lastrowid\<close> on SQLite.\<close>

definition insert_returning :: "'s driver \<Rightarrow> ('s \<Rightarrow> string) \<Rightarrow> bool \<Rightarrow> string \<Rightarrow> string list \<Rightarrow> 's \<Rightarrow> string result \<times> 's" where
  "insert_returning run lastrowid postgres sql params s =
     (case run (if postgres then returning_id sql else sql) params s of
        (Inl err, s1) \<Rightarrow> (Inl err, s1)
      | (Inr rows, s1) \<Rightarrow>
          if \<not> postgres then (Inr (lastrowid s1), s1)
          else case rows of
                 [] \<Rightarrow> (Inl TypeError, s1)
               | [] # rs \<Rightarrow> (Inl (PyError ''IndexError''), s1)
               | (i # fs) # rs \<Rightarrow> (Inr i, s1))"

subsection \<open>One catalogue or the other\<close>

definition SQLITE_TABLE :: string where
  "SQLITE_TABLE = ''SELECT name FROM sqlite_master WHERE type='table' AND name=?''"

definition POSTGRES_TABLE :: string where
  "POSTGRES_TABLE = ''SELECT tablename FROM pg_tables WHERE schemaname='public' '' @ ''AND tablename=?''"

text \<open>\<open>_table_exists\<close>, and the state of the connection it leaves.\<close>

definition table_exists :: "'s driver \<Rightarrow> ('s \<Rightarrow> 's) \<Rightarrow> ('s \<Rightarrow> 's) \<Rightarrow> string \<Rightarrow> 's \<Rightarrow> bool" where
  "table_exists run commit rollback name s =
     (case with_conn commit rollback (otherwise (run SQLITE_TABLE [name]) (run POSTGRES_TABLE [name])) s of
        (Inl err, _) \<Rightarrow> False | (Inr rows, _) \<Rightarrow> rows \<noteq> [])"

definition SQLITE_TABLES :: string where
  "SQLITE_TABLES = ''SELECT name FROM sqlite_master WHERE type='table' '' @ ''ORDER BY name''"

definition POSTGRES_TABLES :: string where
  "POSTGRES_TABLES = ''SELECT tablename FROM pg_tables WHERE schemaname='public' '' @ ''ORDER BY tablename''"

text \<open>The count of one table; an exception, also one of reading the answer, leaves the table without a count.\<close>

definition count_rows :: "'s driver \<Rightarrow> string \<Rightarrow> 's \<Rightarrow> nat option \<times> 's" where
  "count_rows run t s =
     (case run (''SELECT COUNT(*) FROM '' @ t) [] s of
        (Inr ((n # _) # _), s1) \<Rightarrow> (map_option nat (int_of n), s1)
      | (_, s1) \<Rightarrow> (None, s1))"

fun count_tables :: "'s driver \<Rightarrow> string list \<Rightarrow> 's \<Rightarrow> (string \<times> nat option) list \<times> 's" where
  "count_tables run [] s = ([], s)"
| "count_tables run (t # ts) s =
     (if at_end (\<lambda>s. s \<noteq> [] \<and> list_all word_char s) t
      then case count_rows run t s of (n, s1) \<Rightarrow>
           case count_tables run ts s1 of (rest, s2) \<Rightarrow> ((t, n) # rest, s2)
      else count_tables run ts s)"

text \<open>\<open>_safe(_schema, {})\<close>: what the bundle says of the tables, nothing if the collection raises.\<close>

definition schema_shape :: "'s driver \<Rightarrow> ('s \<Rightarrow> 's) \<Rightarrow> ('s \<Rightarrow> 's) \<Rightarrow> 's \<Rightarrow> (string \<times> nat option) list" where
  "schema_shape run commit rollback s =
     (case with_conn commit rollback (\<lambda>s.
        case otherwise (run SQLITE_TABLES []) (run POSTGRES_TABLES []) s of
          (Inl err, s1) \<Rightarrow> (Inl err, s1)
        | (Inr rows, s1) \<Rightarrow>
            (case nth_fields 0 rows of
               Inl err \<Rightarrow> (Inl err, s1)
             | Inr names \<Rightarrow> (case count_tables run names s1 of (out, s2) \<Rightarrow> (Inr out, s2)))) s of
        (Inl err, _) \<Rightarrow> [] | (Inr out, _) \<Rightarrow> out)"

subsection \<open>PostgreSQL\<close>

text \<open>
  What PostgreSQL documents of a transaction: after a statement has failed, every further statement of the transaction
  fails until it is rolled back; and its catalogue has no \<^verbatim>\<open>sqlite_master\<close>.
\<close>

definition aborts :: "'s driver \<Rightarrow> ('s \<Rightarrow> bool) \<Rightarrow> bool" where
  "aborts run failed \<longleftrightarrow>
     (\<forall>sql params s. failed s \<longrightarrow> (\<exists>err. fst (run sql params s) = Inl err))
     \<and> (\<forall>sql params s err. fst (run sql params s) = Inl err \<longrightarrow> failed (snd (run sql params s)))"

definition no_sqlite_catalogue :: "'s driver \<Rightarrow> bool" where
  "no_sqlite_catalogue run \<longleftrightarrow>
     (\<forall>params s. (\<exists>err. fst (run SQLITE_TABLE params s) = Inl err) \<and> (\<exists>err. fst (run SQLITE_TABLES params s) = Inl err))"

lemma second_fails:
  assumes "aborts run failed" "\<exists>err. fst (run sql params s) = Inl err"
  shows "\<exists>err s1. otherwise (run sql params) (run sql' params') s = (Inl err, s1)"
proof -
  obtain err s1 where 1: "run sql params s = (Inl err, s1)" using assms(2) by (metis prod.collapse)
  then have "failed s1" using assms(1) unfolding aborts_def by (metis fst_conv snd_conv)
  then obtain err' where "fst (run sql' params' s1) = Inl err'" using assms(1) unfolding aborts_def by blast
  then obtain s2 where "run sql' params' s1 = (Inl err', s2)" by (metis prod.collapse)
  then show ?thesis by (simp add: otherwise_def 1)
qed

text \<open>
  On PostgreSQL the probes of both catalogues find nothing. The first query fails and aborts the transaction, so the
  second, which is the one for PostgreSQL, fails too: every table is reported absent, the checks of deliveries and of
  the fleet scan are skipped whatever these tables hold, and the support bundle shows no table at all.
\<close>
theorem postgres_catalogue_unread:
  assumes "aborts run failed" "no_sqlite_catalogue run"
  shows "\<not> table_exists run commit rollback name s \<and> schema_shape run commit rollback s = []
    \<and> check_fleet_scan e (x\<lparr>has_table := \<lambda>t. table_exists run commit rollback t s\<rparr>) ms c w
        = Inr (make_result ''fleet-scan'' ''visibility'' ''skip'' ''fleet inventory not present in this edition'' [])
    \<and> check_deliveries e (x\<lparr>has_table := \<lambda>t. table_exists run commit rollback t s\<rparr>) ms c w
        = Inr (make_result ''deliveries'' ''delivery'' ''skip'' ''delivery engine not present in this edition'' [])"
proof -
  have n: "\<exists>err. fst (run SQLITE_TABLE params s) = Inl err" "\<exists>err. fst (run SQLITE_TABLES params s) = Inl err" for params
    using assms(2) unfolding no_sqlite_catalogue_def by blast+
  have absent: "\<not> table_exists run commit rollback t s" for t
    using second_fails [OF assms(1) n(1), of "[t]" POSTGRES_TABLE "[t]"]
    by (auto simp: table_exists_def with_conn_def)
  moreover have "schema_shape run commit rollback s = []"
    using second_fails [OF assms(1) n(2), of "[]" POSTGRES_TABLES "[]"]
    by (auto simp: schema_shape_def with_conn_def)
  ultimately show ?thesis by (simp add: check_fleet_scan_def check_deliveries_def Let_def)
qed

text \<open>A driver with these laws: a connection that knows whether it has failed, and one table of the catalogue.\<close>

definition pg_run :: "bool driver" where
  "pg_run sql params failed =
     (if failed then (Inl (PyError ''InFailedSqlTransaction''), True)
      else if sql \<in> {SQLITE_TABLE, SQLITE_TABLES} then (Inl (PyError ''UndefinedTable''), True)
      else (Inr [[''fleet_certs'']], False))"

lemma pg_run_laws: "aborts pg_run (\<lambda>s. s)" "no_sqlite_catalogue pg_run"
  by (simp_all add: aborts_def no_sqlite_catalogue_def pg_run_def)

theorem postgres_catalogue_unread_witness:
  "fst (pg_run POSTGRES_TABLE [''fleet_certs''] False) = Inr [[''fleet_certs'']]
   \<and> \<not> table_exists pg_run (\<lambda>s. s) (\<lambda>s. False) ''fleet_certs'' False"
proof
  show "\<not> table_exists pg_run (\<lambda>s. s) (\<lambda>s. False) ''fleet_certs'' False"
    using postgres_catalogue_unread [OF pg_run_laws, of "\<lambda>s. s" "\<lambda>s. False" "''fleet_certs''" False] by blast
  have "POSTGRES_TABLE \<notin> {SQLITE_TABLE, SQLITE_TABLES}" by code_simp
  then show "fst (pg_run POSTGRES_TABLE [''fleet_certs''] False) = Inr [[''fleet_certs'']]" by (simp add: pg_run_def)
qed

end
