(* ===== verification/Schema.thy ===== *)
theory Schema
  imports Templates
begin

text \<open>
  \<^verbatim>\<open>init_db\<close> of \<^verbatim>\<open>backend/app.py\<close>, which runs at every start: it creates the tables and indices that are missing,
  adds the columns an older database lacks, seeds the built-in templates and fills in expiry dates. The tables are lists of
  columns with their declarations; what the rows hold is the state of the other theories. A statement the
  database refuses (a duplicate column, an index on a column that is not there, a mandatory column without a
  default) raises and ends the start.
\<close>

subsection \<open>Statements\<close>

type_synonym table_column = "string \<times> string"

record schema =
  sc_tables :: "(string \<times> table_column list) list"
  sc_indices :: "string list"

text \<open>
  \<open>Create\<close> is \<^verbatim>\<open>CREATE TABLE IF NOT EXISTS\<close> with the columns and the constraints, \<open>Add\<close> reads the columns of a table
  once and adds those of the list that are missing, \<open>Index\<close> is \<^verbatim>\<open>CREATE INDEX IF NOT EXISTS\<close> on one column; that the index
  of the user names is unique and leaves out the accounts without one is part of the account table of the other theories.
\<close>

datatype ddl_step = Create string "table_column list" "string list" | Add string "table_column list" | Index string string string

definition columns_of :: "schema \<Rightarrow> string \<Rightarrow> string list" where
  "columns_of s t = (case map_of (sc_tables s) t of None \<Rightarrow> [] | Some cs \<Rightarrow> map fst cs)"

definition addable :: "string \<Rightarrow> bool" where
  "addable decl =
     ((\<not> contains ''NOT NULL'' decl \<or> contains ''DEFAULT'' decl) \<and> \<not> contains ''PRIMARY KEY'' decl \<and> \<not> contains ''UNIQUE'' decl)"

definition add_column :: "string \<Rightarrow> table_column \<Rightarrow> schema \<Rightarrow> schema option" where
  "add_column t col s =
     (if t \<notin> fst ` set (sc_tables s) \<or> fst col \<in> set (columns_of s t) \<or> \<not> addable (snd col) then None
      else Some (s\<lparr>sc_tables := map (\<lambda>(n, cs). (n, if n = t then cs @ [col] else cs)) (sc_tables s)\<rparr>))"

fun add_missing :: "string list \<Rightarrow> string \<Rightarrow> table_column list \<Rightarrow> schema \<Rightarrow> schema option" where
  "add_missing existing t [] s = Some s"
| "add_missing existing t (col # cols) s =
     (if fst col \<in> set existing then add_missing existing t cols s
      else Option.bind (add_column t col s) (add_missing existing t cols))"

fun apply_step :: "ddl_step \<Rightarrow> schema \<Rightarrow> schema option" where
  "apply_step (Create t cols constraints) s =
     Some (if t \<in> fst ` set (sc_tables s) then s else s\<lparr>sc_tables := sc_tables s @ [(t, cols)]\<rparr>)"
| "apply_step (Add t cols) s = add_missing (columns_of s t) t cols s"
| "apply_step (Index name t col) s =
     (if name \<in> set (sc_indices s) then Some s
      else if col \<notin> set (columns_of s t) then None
      else Some (s\<lparr>sc_indices := sc_indices s @ [name]\<rparr>))"

fun run_schema :: "ddl_step list \<Rightarrow> schema \<Rightarrow> schema option" where
  "run_schema [] s = Some s"
| "run_schema (p # ps) s = Option.bind (apply_step p s) (run_schema ps)"

subsection \<open>The tables\<close>

definition text_default :: "string \<Rightarrow> string" where
  "text_default v = ''TEXT NOT NULL DEFAULT '' @ [CHR 0x27] @ v @ [CHR 0x27]"

definition jobs_and_accounts :: "ddl_step list" where
  "jobs_and_accounts =
    [Create ''jobs''
      [(''id'', ''TEXT PRIMARY KEY''),
       (''created_at'', ''REAL NOT NULL''),
       (''requester_dn'', ''TEXT NOT NULL''),
       (''requester_serial'', ''TEXT''),
       (''requester_ip'', ''TEXT''),
       (''requester_email'', ''TEXT''),
       (''target_host'', ''TEXT NOT NULL''),
       (''sans_json'', text_default ''[]''),
       (''csr_pem'', ''TEXT NOT NULL''),
       (''cert_pem'', ''TEXT''),
       (''status'', ''TEXT NOT NULL''),
       (''completed_at'', ''REAL''),
       (''completed_by_dn'', ''TEXT''),
       (''error'', ''TEXT''),
       (''has_local_key'', ''INTEGER NOT NULL DEFAULT 0''),
       (''local_key_name'', ''TEXT''),
       (''source'', text_default ''rhel'')] [],
     Add ''jobs''
      [(''requester_email'', ''TEXT''), (''auto_renewed_at'', ''REAL'')],
     Index ''idx_jobs_status'' ''jobs'' ''status'',
     Index ''idx_jobs_requester_dn'' ''jobs'' ''requester_dn'',
     Index ''idx_jobs_target_host'' ''jobs'' ''target_host'',
     Index ''idx_jobs_created_at'' ''jobs'' ''created_at'',
     Create ''users''
      [(''dn'', ''TEXT PRIMARY KEY''), (''cn'', ''TEXT''), (''email'', ''TEXT''),
       (''is_admin'', ''INTEGER NOT NULL DEFAULT 0''), (''is_active'', ''INTEGER NOT NULL DEFAULT 1''),
       (''tutorial_dismissed'', ''INTEGER NOT NULL DEFAULT 0''), (''created_at'', ''REAL NOT NULL''),
       (''last_seen_at'', ''REAL NOT NULL''), (''notes'', ''TEXT'')] [],
     Add ''users''
      [(''tutorial_dismissed'', ''INTEGER NOT NULL DEFAULT 0''), (''username'', ''TEXT''),
       (''password_hash'', ''TEXT''), (''auth_status'', text_default ''active''),
       (''failed_attempts'', ''INTEGER NOT NULL DEFAULT 0''), (''locked_until'', ''REAL NOT NULL DEFAULT 0''),
       (''first_name'', ''TEXT''), (''last_name'', ''TEXT'')],
     Index ''idx_users_email'' ''users'' ''email'',
     Index ''idx_users_admin'' ''users'' ''is_admin'',
     Index ''idx_users_username'' ''users'' ''username'',
     Create ''app_settings''
      [(''key'', ''TEXT PRIMARY KEY''), (''value'', ''TEXT'')] [],
     Create ''local_sessions''
      [(''token'', ''TEXT PRIMARY KEY''), (''user_dn'', ''TEXT NOT NULL''), (''created_at'', ''REAL NOT NULL''),
       (''expires_at'', ''REAL NOT NULL'')] [],
     Index ''idx_localsess_exp'' ''local_sessions'' ''expires_at'']"

definition feedback_and_templates :: "ddl_step list" where
  "feedback_and_templates =
    [Create ''feedback''
      [(''id'', ''INTEGER PRIMARY KEY AUTOINCREMENT''), (''user_dn'', ''TEXT NOT NULL''),
       (''submitted_at'', ''REAL NOT NULL''), (''category'', ''TEXT NOT NULL''), (''message'', ''TEXT NOT NULL''),
       (''status'', text_default ''new''), (''read_at'', ''REAL''), (''read_by_dn'', ''TEXT''),
       (''resolved_at'', ''REAL''), (''resolved_by_dn'', ''TEXT''), (''resolution_notes'', ''TEXT'')] [],
     Index ''idx_feedback_status'' ''feedback'' ''status'',
     Index ''idx_feedback_submitted'' ''feedback'' ''submitted_at'',
     Create ''cert_templates''
      [(''id'', ''INTEGER PRIMARY KEY AUTOINCREMENT''), (''name'', ''TEXT NOT NULL''), (''description'', ''TEXT''),
       (''cert_types'', ''TEXT NOT NULL''), (''owner_dn'', ''TEXT''), (''group_id'', ''INTEGER''),
       (''created_at'', ''REAL NOT NULL''), (''created_by_dn'', ''TEXT NOT NULL'')] [],
     Index ''idx_templates_owner'' ''cert_templates'' ''owner_dn'',
     Index ''idx_templates_group'' ''cert_templates'' ''group_id'',
     Add ''cert_templates''
      [(''signer_backend'', text_default ''manual''), (''openbao_role'', ''TEXT''), (''max_ttl'', ''INTEGER''),
       (''auto_sign'', ''INTEGER NOT NULL DEFAULT 0''), (''auto_renew'', ''INTEGER NOT NULL DEFAULT 0''),
       (''renew_before_days'', ''INTEGER''), (''delivery_backend'', text_default ''none''),
       (''key_mode'', text_default ''destination''), (''delivery_target'', ''TEXT''), (''delivery_reload'', ''TEXT''),
       (''key_storage'', ''TEXT'')]]"

definition hooks_and_groups :: "ddl_step list" where
  "hooks_and_groups =
    [Create ''webhooks''
      [(''id'', ''INTEGER PRIMARY KEY AUTOINCREMENT''), (''name'', ''TEXT NOT NULL''), (''url'', ''TEXT NOT NULL''),
       (''events'', ''TEXT NOT NULL''), (''headers'', ''TEXT''), (''enabled'', ''INTEGER NOT NULL DEFAULT 1''),
       (''created_at'', ''REAL NOT NULL''), (''created_by_dn'', ''TEXT''), (''last_called_at'', ''REAL''),
       (''last_status_code'', ''INTEGER''), (''last_error'', ''TEXT''),
       (''call_count'', ''INTEGER NOT NULL DEFAULT 0'')] [],
     Index ''idx_webhooks_enabled'' ''webhooks'' ''enabled'',
     Add ''webhooks''
      [(''type'', text_default ''generic'')],
     Create ''groups''
      [(''id'', ''INTEGER PRIMARY KEY AUTOINCREMENT''), (''name'', ''TEXT NOT NULL UNIQUE''),
       (''description'', ''TEXT''), (''email'', ''TEXT''), (''created_at'', ''REAL NOT NULL'')] [],
     Add ''groups''
      [(''email'', ''TEXT''), (''notify_on_new'', ''INTEGER NOT NULL DEFAULT 0'')],
     Create ''user_groups''
      [(''user_dn'', ''TEXT NOT NULL''), (''group_id'', ''INTEGER NOT NULL''), (''added_at'', ''REAL NOT NULL'')]
      [''PRIMARY KEY (user_dn, group_id)''],
     Index ''idx_user_groups_dn'' ''user_groups'' ''user_dn'',
     Add ''user_groups''
      [(''role'', text_default ''member'')],
     Index ''idx_user_groups_gid'' ''user_groups'' ''group_id'']"

definition job_additions :: "ddl_step list" where
  "job_additions =
    [Add ''jobs''
      [(''group_id'', ''INTEGER''), (''cert_type'', ''TEXT''), (''expires_at'', ''REAL''), (''renewed_from'', ''TEXT''),
       (''key_algo'', ''TEXT''), (''expiry_warned'', ''INTEGER NOT NULL DEFAULT 0''), (''approved_by_dn'', ''TEXT''),
       (''approved_at'', ''REAL''), (''signed_via'', ''TEXT''), (''template_id'', ''INTEGER''),
       (''revoked_at'', ''REAL''), (''revoked_by_dn'', ''TEXT''), (''delivery_status'', ''TEXT''),
       (''delivery_detail'', ''TEXT''), (''delivered_at'', ''REAL''),
       (''delivery_attempts'', ''INTEGER NOT NULL DEFAULT 0''), (''delivery_next_attempt'', ''REAL''),
       (''key_vault_path'', ''TEXT''), (''key_storage'', ''TEXT''), (''chain_pem'', ''TEXT'')],
     Index ''idx_jobs_group_id'' ''jobs'' ''group_id'',
     Index ''idx_jobs_cert_type'' ''jobs'' ''cert_type'',
     Index ''idx_jobs_expires'' ''jobs'' ''expires_at'',
     Index ''idx_jobs_renewed_from'' ''jobs'' ''renewed_from'',
     Create ''delivery_pulls''
      [(''token'', ''TEXT PRIMARY KEY''), (''job_id'', ''INTEGER''), (''target_host'', ''TEXT''),
       (''certificate'', ''TEXT NOT NULL''), (''private_key'', ''TEXT''), (''created_at'', ''REAL NOT NULL''),
       (''expires_at'', ''REAL NOT NULL''), (''max_uses'', ''INTEGER NOT NULL DEFAULT 1''),
       (''uses'', ''INTEGER NOT NULL DEFAULT 0''), (''last_pull_at'', ''REAL''), (''last_pull_ip'', ''TEXT'')] [],
     Index ''idx_delivery_pulls_exp'' ''delivery_pulls'' ''expires_at'']"

definition audit_and_fleet :: "ddl_step list" where
  "audit_and_fleet =
    [Create ''audit_log''
      [(''id'', ''INTEGER PRIMARY KEY AUTOINCREMENT''), (''ts'', ''REAL NOT NULL''), (''actor'', ''TEXT''),
       (''action'', ''TEXT NOT NULL''), (''result'', ''TEXT NOT NULL''), (''detail'', ''TEXT'')] [],
     Index ''idx_audit_ts'' ''audit_log'' ''ts'',
     Index ''idx_audit_action'' ''audit_log'' ''action'',
     Create ''fleet_certs''
      [(''id'', ''INTEGER PRIMARY KEY AUTOINCREMENT''), (''host'', ''TEXT NOT NULL''), (''path'', ''TEXT NOT NULL''),
       (''fingerprint'', ''TEXT NOT NULL''), (''cn'', ''TEXT''), (''sans_json'', ''TEXT''), (''issuer'', ''TEXT''),
       (''serial'', ''TEXT''), (''not_before'', ''REAL''), (''expires_at'', ''REAL''), (''cert_types'', ''TEXT''),
       (''notify_email'', ''TEXT''), (''first_seen'', ''REAL NOT NULL''), (''last_seen'', ''REAL NOT NULL''),
       (''expiry_warned'', ''INTEGER NOT NULL DEFAULT 0''), (''pem'', ''TEXT'')]
      [''UNIQUE(host, path)''],
     Index ''idx_fleet_expires'' ''fleet_certs'' ''expires_at'',
     Index ''idx_fleet_host'' ''fleet_certs'' ''host'']"

definition acme_tables :: "ddl_step list" where
  "acme_tables =
    [Create ''acme_accounts''
      [(''id'', ''TEXT PRIMARY KEY''), (''thumbprint'', ''TEXT UNIQUE NOT NULL''), (''jwk_json'', ''TEXT NOT NULL''),
       (''contact'', ''TEXT''), (''status'', text_default ''valid''), (''created_at'', ''REAL NOT NULL'')] [],
     Create ''acme_orders''
      [(''id'', ''TEXT PRIMARY KEY''), (''account_id'', ''TEXT NOT NULL''), (''status'', text_default ''pending''),
       (''identifiers_json'', ''TEXT NOT NULL''), (''csr_pem'', ''TEXT''), (''cert_id'', ''TEXT''),
       (''error'', ''TEXT''), (''created_at'', ''REAL NOT NULL''), (''expires_at'', ''REAL'')] [],
     Create ''acme_authzs''
      [(''id'', ''TEXT PRIMARY KEY''), (''order_id'', ''TEXT NOT NULL''), (''identifier'', ''TEXT NOT NULL''),
       (''status'', text_default ''pending'')] [],
     Create ''acme_challenges''
      [(''id'', ''TEXT PRIMARY KEY''), (''authz_id'', ''TEXT NOT NULL''), (''token'', ''TEXT NOT NULL''),
       (''status'', text_default ''pending''), (''error'', ''TEXT'')] [],
     Create ''acme_certs''
      [(''id'', ''TEXT PRIMARY KEY''), (''account_id'', ''TEXT NOT NULL''), (''pem'', ''TEXT NOT NULL'')] [],
     Create ''acme_nonces''
      [(''nonce'', ''TEXT PRIMARY KEY''), (''created_at'', ''REAL NOT NULL'')] [],
     Index ''idx_acme_authz_order'' ''acme_authzs'' ''order_id'',
     Index ''idx_acme_chal_authz'' ''acme_challenges'' ''authz_id'',
     Add ''acme_challenges''
      [(''type'', text_default ''http-01'')],
     Add ''acme_certs''
      [(''serial'', ''TEXT''), (''revoked'', ''INTEGER NOT NULL DEFAULT 0'')]]"

definition trust_tables :: "ddl_step list" where
  "trust_tables =
    [Create ''trust_certs''
      [(''id'', ''INTEGER PRIMARY KEY AUTOINCREMENT''), (''name'', ''TEXT NOT NULL''),
       (''fingerprint'', ''TEXT NOT NULL UNIQUE''), (''pem'', ''TEXT NOT NULL''),
       (''role'', text_default ''intermediate''), (''subject'', ''TEXT''), (''issuer'', ''TEXT''),
       (''serial'', ''TEXT''), (''not_before'', ''REAL''), (''expires_at'', ''REAL''),
       (''enabled'', ''INTEGER NOT NULL DEFAULT 1''), (''created_at'', ''REAL NOT NULL''), (''created_by'', ''TEXT''),
       (''notes'', ''TEXT'')] [],
     Index ''idx_trust_certs_exp'' ''trust_certs'' ''expires_at'',
     Create ''trust_targets''
      [(''id'', ''INTEGER PRIMARY KEY AUTOINCREMENT''), (''host'', ''TEXT NOT NULL UNIQUE''), (''label'', ''TEXT''),
       (''enabled'', ''INTEGER NOT NULL DEFAULT 1''), (''last_status'', ''TEXT''), (''last_pushed_at'', ''REAL''),
       (''last_detail'', ''TEXT''), (''created_at'', ''REAL NOT NULL''), (''created_by'', ''TEXT'')] [],
     Create ''trust_pulls''
      [(''token'', ''TEXT PRIMARY KEY''), (''created_at'', ''REAL NOT NULL''), (''expires_at'', ''REAL NOT NULL''),
       (''max_uses'', ''INTEGER NOT NULL DEFAULT 0''), (''uses'', ''INTEGER NOT NULL DEFAULT 0''),
       (''last_pull_at'', ''REAL''), (''last_pull_ip'', ''TEXT'')] [],
     Index ''idx_trust_pulls_exp'' ''trust_pulls'' ''expires_at'']"

definition INIT_STEPS :: "ddl_step list" where
  "INIT_STEPS =
     jobs_and_accounts @ feedback_and_templates @ hooks_and_groups @ job_additions @ audit_and_fleet @ acme_tables @ trust_tables"

subsection \<open>Start\<close>

text \<open>The expiry dates of certificates issued before that column existed.\<close>

definition backfilled :: "'h env \<Rightarrow> job \<Rightarrow> job" where
  "backfilled e j =
     (if j_status j = Issued \<and> j_expires_at j = None
      then case j_cert_pem j of
             None \<Rightarrow> j
           | Some pem \<Rightarrow> (case cert_expiry e pem of None \<Rightarrow> j | Some t \<Rightarrow> if t = 0 then j else j\<lparr>j_expires_at := Some t\<rparr>)
      else j)"

definition init_db :: "'h env \<Rightarrow> time \<Rightarrow> schema \<times> 'h world \<Rightarrow> (schema \<times> 'h world) option" where
  "init_db e now = (\<lambda>(s, w).
     map_option (\<lambda>s'. (s', (let w = seed_templates now w in w\<lparr>w_jobs := map (backfilled e) (w_jobs w)\<rparr>)))
       (run_schema INIT_STEPS s))"

subsection \<open>Tables and columns only grow\<close>

definition table_in :: "schema \<Rightarrow> string \<Rightarrow> bool" where
  "table_in s t \<longleftrightarrow> t \<in> fst ` set (sc_tables s)"

definition grows :: "schema \<Rightarrow> schema \<Rightarrow> bool" where
  "grows s s' \<longleftrightarrow>
     (\<forall>t. set (columns_of s t) \<subseteq> set (columns_of s' t)) \<and> fst ` set (sc_tables s) \<subseteq> fst ` set (sc_tables s')
     \<and> set (sc_indices s) \<subseteq> set (sc_indices s')"

lemma grows_refl [intro]: "grows s s"
  by (simp add: grows_def)

lemma grows_trans [trans]: "grows s s' \<Longrightarrow> grows s' s'' \<Longrightarrow> grows s s''"
  unfolding grows_def by (meson subset_trans)

lemma map_of_appended:
  "map_of (map (\<lambda>(n, cs). (n, if n = t then cs @ [col] else cs)) ts) k
     = map_option (\<lambda>cs. if k = t then cs @ [col] else cs) (map_of ts k)"
  by (induction ts) auto

lemma names_appended: "fst ` set (map (\<lambda>(n, cs). (n, if n = t then cs @ [col] else cs)) ts) = fst ` set ts"
  by (simp add: image_image case_prod_beta)

lemma columns_none: "t \<notin> fst ` set (sc_tables s) \<longleftrightarrow> map_of (sc_tables s) t = None"
  by (simp add: map_of_eq_None_iff)

lemma added_column:
  assumes "add_column t col s = Some s'"
  shows "grows s s'" "fst col \<in> set (columns_of s' t)" "\<And>k. k \<noteq> t \<Longrightarrow> columns_of s' k = columns_of s k"
    "columns_of s' t = columns_of s t @ [fst col]" "\<And>k. table_in s' k \<Longrightarrow> table_in s k"
proof -
  have s': "s' = s\<lparr>sc_tables := map (\<lambda>(n, cs). (n, if n = t then cs @ [col] else cs)) (sc_tables s)\<rparr>" and t: "map_of (sc_tables s) t \<noteq> None"
    using assms by (auto simp: add_column_def columns_none split: if_splits)
  have cols: "columns_of s' k = columns_of s k @ (if k = t then [fst col] else [])" for k
    using t by (auto simp: s' columns_of_def map_of_appended split: option.split)
  then show "fst col \<in> set (columns_of s' t)" "\<And>k. k \<noteq> t \<Longrightarrow> columns_of s' k = columns_of s k"
    "columns_of s' t = columns_of s t @ [fst col]" by simp_all
  have "fst ` set (sc_tables s') = fst ` set (sc_tables s)" "sc_indices s' = sc_indices s"
    unfolding s' by (simp_all add: names_appended del: set_map)
  then show "grows s s'" "\<And>k. table_in s' k \<Longrightarrow> table_in s k" unfolding grows_def table_in_def using cols by auto
qed

lemma add_missing_runs:
  assumes "table_in s t" "distinct (map fst cols)" "list_all (\<lambda>c. addable (snd c)) cols"
    and "set existing \<subseteq> set (columns_of s t)" "\<forall>c\<in>set cols. fst c \<in> set (columns_of s t) \<longrightarrow> fst c \<in> set existing"
  shows "\<exists>s'. add_missing existing t cols s = Some s' \<and> grows s s' \<and> (\<forall>c\<in>set cols. fst c \<in> set (columns_of s' t))
    \<and> (\<forall>k. table_in s' k \<longrightarrow> table_in s k)"
  using assms
proof (induction cols arbitrary: s)
  case (Cons c cols)
  show ?case
  proof (cases "fst c \<in> set existing")
    case True
    with Cons.prems(4) have "fst c \<in> set (columns_of s t)" by blast
    with Cons True show ?thesis unfolding grows_def by fastforce
  next
    case False
    then have "fst c \<notin> set (columns_of s t)" using Cons.prems(5) by simp
    then obtain s1 where s1: "add_column t c s = Some s1" using Cons.prems(1,3) by (auto simp: add_column_def table_in_def)
    note a = added_column [OF s1]
    have "table_in s1 t" using a(1) Cons.prems(1) unfolding grows_def table_in_def by blast
    moreover have "set existing \<subseteq> set (columns_of s1 t)" using Cons.prems(4) a(4) by auto
    moreover have "\<forall>d\<in>set cols. fst d \<in> set (columns_of s1 t) \<longrightarrow> fst d \<in> set existing"
      using Cons.prems(2,5) a(4) by (auto simp: image_iff)
    ultimately obtain s' where s': "add_missing existing t cols s1 = Some s'" "grows s1 s'" "\<forall>d\<in>set cols. fst d \<in> set (columns_of s' t)"
        "\<forall>k. table_in s' k \<longrightarrow> table_in s1 k"
      using Cons.IH [of s1] Cons.prems(2,3) by auto
    have "fst c \<in> set (columns_of s' t)" using a(2) s'(2) unfolding grows_def by blast
    then show ?thesis using s' False s1 grows_trans [OF a(1) s'(2)] a(5) s'(4) by auto
  qed
qed auto

subsection \<open>A program that suits every earlier database\<close>

text \<open>
  The columns a program adds, and of a table it creates those it does not add later: an earlier version of the program has
  created the table with at least these.
\<close>

fun adds_of :: "string \<Rightarrow> ddl_step \<Rightarrow> string list" where
  "adds_of t (Add n cols) = (if n = t then map fst cols else [])"
| "adds_of t p = []"

definition adds :: "ddl_step list \<Rightarrow> string \<Rightarrow> string list" where
  "adds P t = concat (map (adds_of t) P)"

definition base :: "ddl_step list \<Rightarrow> string \<Rightarrow> table_column list \<Rightarrow> string list" where
  "base P t cols = (let later = adds P t in filter (\<lambda>c. c \<notin> set later) (map fst cols))"

fun created :: "ddl_step list \<Rightarrow> (string \<times> table_column list) list" where
  "created [] = []"
| "created (Create t cols constraints # ps) = (t, cols) # created ps"
| "created (p # ps) = created ps"

definition earlier :: "ddl_step list \<Rightarrow> schema \<Rightarrow> bool" where
  "earlier P s \<longleftrightarrow> (\<forall>(t, cols)\<in>set (created P). table_in s t \<longrightarrow> set (base P t cols) \<subseteq> set (columns_of s t))"

lemma created_mem: "Create t cols constraints \<in> set P \<Longrightarrow> (t, cols) \<in> set (created P)"
  by (induction P rule: created.induct) auto

text \<open>Every column a step relies on was created or added before it; \<open>K\<close> are those known to be there.\<close>

fun well_ordered :: "ddl_step list \<Rightarrow> (string \<times> string) list \<Rightarrow> ddl_step list \<Rightarrow> bool" where
  "well_ordered P K [] = True"
| "well_ordered P K (Create t cols constraints # ps) = (cols \<noteq> [] \<and> base P t cols \<noteq> [] \<and> well_ordered P (map (Pair t) (base P t cols) @ K) ps)"
| "well_ordered P K (Add t cols # ps) =
     (t \<in> set (map fst K) \<and> distinct (map fst cols) \<and> list_all (\<lambda>c. addable (snd c)) cols
      \<and> well_ordered P (map (\<lambda>c. (t, fst c)) cols @ K) ps)"
| "well_ordered P K (Index name t col # ps) = ((t, col) \<in> set K \<and> well_ordered P K ps)"

definition holds_all :: "schema \<Rightarrow> (string \<times> string) list \<Rightarrow> bool" where
  "holds_all s K \<longleftrightarrow> (\<forall>(t, c)\<in>set K. table_in s t \<and> c \<in> set (columns_of s t))"

lemma grows_holds: "grows s s' \<Longrightarrow> holds_all s K \<Longrightarrow> holds_all s' K"
  unfolding grows_def holds_all_def table_in_def by fast

text \<open>What a finished step leaves, whatever comes after it.\<close>

fun done_in :: "schema \<Rightarrow> ddl_step \<Rightarrow> bool" where
  "done_in s (Create t cols constraints) = table_in s t"
| "done_in s (Add t cols) = (\<forall>c\<in>set cols. fst c \<in> set (columns_of s t))"
| "done_in s (Index name t col) = (name \<in> set (sc_indices s))"

lemma done_grows: "grows s s' \<Longrightarrow> done_in s p \<Longrightarrow> done_in s' p"
  unfolding grows_def table_in_def by (cases p) (auto simp: table_in_def)

lemma done_add: "\<forall>c\<in>set cols. fst c \<in> set existing \<Longrightarrow> add_missing existing t cols s = Some s"
  by (induction cols) auto

lemma done_idle: "done_in s p \<Longrightarrow> apply_step p s = Some s"
  by (cases p) (simp_all add: table_in_def done_add)

lemma all_done_idle: "\<forall>p\<in>set ps. done_in s p \<Longrightarrow> run_schema ps s = Some s"
  by (induction ps) (simp_all add: done_idle)

lemma created_table:
  assumes "t \<notin> fst ` set (sc_tables s)"
  shows "columns_of (s\<lparr>sc_tables := sc_tables s @ [(t, cols)]\<rparr>) k = (if k = t then map fst cols else columns_of s k)"
proof -
  have "map_of (sc_tables s) t = None" using assms by (simp add: columns_none)
  then show ?thesis by (auto simp: columns_of_def map_add_def split: option.split)
qed

lemma earlier_grows:
  assumes "grows s s'" "earlier P s" "\<And>t. table_in s' t \<Longrightarrow> table_in s t"
  shows "earlier P s'"
  using assms unfolding grows_def earlier_def by fast

lemma create_runs:
  assumes "distinct (map fst (created P))" "(t, cols) \<in> set (created P)" "earlier P s"
  shows "\<exists>s'. apply_step (Create t cols constraints) s = Some s' \<and> grows s s' \<and> earlier P s' \<and> table_in s' t
    \<and> set (base P t cols) \<subseteq> set (columns_of s' t)"
proof (cases "table_in s t")
  case True
  then have "set (base P t cols) \<subseteq> set (columns_of s t)" using assms(2,3) unfolding earlier_def by fast
  then show ?thesis using True assms(3) by (auto simp: table_in_def)
next
  case False
  let ?s = "s\<lparr>sc_tables := sc_tables s @ [(t, cols)]\<rparr>"
  note c = created_table [OF False [unfolded table_in_def], of cols]
  have none: "columns_of s t = []" using False by (simp add: columns_of_def columns_none table_in_def)
  have g: "grows s ?s" unfolding grows_def by (auto simp: c none)
  have sub: "set (base P t cs) \<subseteq> set (map fst cs)" for cs by (auto simp: base_def Let_def)
  have "cs = cols" if "(t, cs) \<in> set (created P)" for cs
    using that assms(1,2) by (meson eq_key_imp_eq_value)
  then have "set (base P k cs) \<subseteq> set (columns_of ?s k)" if "(k, cs) \<in> set (created P)" "table_in ?s k" for k cs
    using that assms(3) sub [of cols] unfolding earlier_def by (cases "k = t") (fastforce simp: table_in_def c)+
  then have "earlier P ?s" unfolding earlier_def by fast
  then show ?thesis using False g sub by (auto simp: table_in_def c)
qed

lemma step_runs:
  assumes "distinct (map fst (created P))" "well_ordered P K (p # ps)" "holds_all s K" "p \<in> set P" "earlier P s"
  shows "\<exists>s' K'. apply_step p s = Some s' \<and> grows s s' \<and> earlier P s' \<and> done_in s' p \<and> holds_all s' K' \<and> well_ordered P K' ps"
proof (cases p)
  case (Create t cols constraints)
  from create_runs [OF assms(1) _ assms(5)] created_mem assms(4) Create obtain s' where
    s': "apply_step p s = Some s'" "grows s s'" "earlier P s'" "table_in s' t" "set (base P t cols) \<subseteq> set (columns_of s' t)"
    by blast
  then have "holds_all s' (map (Pair t) (base P t cols) @ K)"
    using grows_holds [OF s'(2) assms(3)] by (auto simp: holds_all_def)
  then show ?thesis using s' assms(2) Create by auto
next
  case (Add t cols)
  then have t: "table_in s t" using assms(2,3) by (auto simp: holds_all_def)
  with Add assms(2) obtain s' where s': "apply_step p s = Some s'" "grows s s'" "\<forall>c\<in>set cols. fst c \<in> set (columns_of s' t)"
      "\<And>k. table_in s' k \<Longrightarrow> table_in s k"
    using add_missing_runs [of s t cols "columns_of s t"] by auto
  have "table_in s' t" using s'(2) t unfolding grows_def table_in_def by blast
  then have "holds_all s' (map (\<lambda>c. (t, fst c)) cols @ K)"
    using grows_holds [OF s'(2) assms(3)] s'(3) by (auto simp: holds_all_def)
  then show ?thesis using s' Add assms(2) earlier_grows [OF s'(2) assms(5) s'(4)] by auto
next
  case (Index name t col)
  let ?s = "if name \<in> set (sc_indices s) then s else s\<lparr>sc_indices := sc_indices s @ [name]\<rparr>"
  have "col \<in> set (columns_of s t)" using Index assms(2,3) by (auto simp: holds_all_def)
  then have "apply_step p s = Some ?s" using Index by simp
  moreover have g: "grows s ?s" by (auto simp: grows_def columns_of_def)
  moreover have "earlier P ?s" by (rule earlier_grows [OF g assms(5)]) (auto simp: table_in_def split: if_splits)
  ultimately show ?thesis using grows_holds [OF g assms(3)] Index assms(2) by auto
qed

lemma steps_run:
  assumes "distinct (map fst (created P))" "well_ordered P K ps" "holds_all s K" "set ps \<subseteq> set P" "earlier P s"
  shows "\<exists>s'. run_schema ps s = Some s' \<and> grows s s' \<and> earlier P s' \<and> (\<forall>p\<in>set ps. done_in s' p)"
  using assms(2-)
proof (induction ps arbitrary: s K)
  case (Cons p ps)
  then obtain s1 K' where s1: "apply_step p s = Some s1" "grows s s1" "earlier P s1" "done_in s1 p" "holds_all s1 K'" "well_ordered P K' ps"
    using step_runs [OF assms(1), of K p ps s] by auto
  then obtain s' where s': "run_schema ps s1 = Some s'" "grows s1 s'" "earlier P s'" "\<forall>p\<in>set ps. done_in s' p"
    using Cons.IH [OF s1(6,5)] Cons.prems(3) by auto
  have "done_in s' p" using done_grows [OF s'(2) s1(4)] .
  moreover have "grows s s'" using grows_trans [OF s1(2) s'(2)] .
  ultimately show ?case using s1(1) s' by simp
qed auto

subsection \<open>This program\<close>

lemma steps_suit: "distinct (map fst (created INIT_STEPS))" "well_ordered INIT_STEPS [] INIT_STEPS"
  by code_simp+

text \<open>The columns the program's tables are to have.\<close>

fun step_columns :: "ddl_step \<Rightarrow> (string \<times> string) list" where
  "step_columns (Create t cols constraints) = map (\<lambda>c. (t, fst c)) cols"
| "step_columns (Add t cols) = map (\<lambda>c. (t, fst c)) cols"
| "step_columns (Index name t col) = []"

definition declared :: "ddl_step list \<Rightarrow> (string \<times> string) list" where
  "declared P = concat (map step_columns P)"

lemma adds_cases: "c \<in> set (adds P t) \<Longrightarrow> \<exists>cols. Add t cols \<in> set P \<and> c \<in> fst ` set cols"
proof -
  assume "c \<in> set (adds P t)"
  then obtain p where p: "p \<in> set P" "c \<in> set (adds_of t p)" by (auto simp: adds_def)
  show ?thesis
  proof (cases p)
    case (Add n cols)
    then show ?thesis using p by (auto split: if_splits)
  qed (use p in simp_all)
qed

lemma all_declared:
  assumes "earlier P s" "\<forall>p\<in>set P. done_in s p" "(t, c) \<in> set (declared P)"
  shows "c \<in> set (columns_of s t)"
proof -
  have add: "c \<in> set (columns_of s t)" if "Add t cols \<in> set P" "c \<in> fst ` set cols" for cols
    using that(2) bspec [OF assms(2) that(1)] by auto
  obtain p where p: "p \<in> set P" "(t, c) \<in> set (step_columns p)" using assms(3) by (auto simp: declared_def)
  show ?thesis
  proof (cases p)
    case (Create n cols constraints)
    then have c: "n = t" "c \<in> fst ` set cols" "(t, cols) \<in> set (created P)" using p created_mem by auto
    then have "table_in s t" using bspec [OF assms(2) p(1)] Create by simp
    then have b: "set (base P t cols) \<subseteq> set (columns_of s t)" using assms(1) c(3) unfolding earlier_def by fast
    show ?thesis
    proof (cases "c \<in> set (adds P t)")
      case True
      then show ?thesis using adds_cases add by blast
    next
      case False
      then show ?thesis using b c(2) by (auto simp: base_def Let_def)
    qed
  next
    case (Add n cols)
    then show ?thesis using p add by auto
  qed (use p in simp)
qed

lemma backfilled_twice: "backfilled e (backfilled e j) = backfilled e j"
  by (auto simp: backfilled_def split: option.splits)

lemma builtins_append: "\<exists>more. w_templates (add_builtins now bs w) = w_templates w @ more"
  by (induction now bs w rule: add_builtins.induct) (auto simp: Let_def)

lemma builtins_seeded: "rowcount (\<lambda>t. t_created_by_dn t = ''system'') (w_templates (seed_templates now w)) \<noteq> 0"
proof (cases "rowcount (\<lambda>t. t_created_by_dn t = ''system'') (w_templates w) = 0")
  case True
  obtain name types about bs where b: "BUILTIN_TEMPLATES = (name, types, about) # bs" by (simp add: BUILTIN_TEMPLATES_def)
  let ?t = "new_template (w_tid_seq w + 1) name (Some about) types None None now ''system''"
  obtain more where "w_templates (seed_templates now w) = (w_templates w @ [?t]) @ more"
    using builtins_append [of now bs "w\<lparr>w_templates := w_templates w @ [?t], w_tid_seq := w_tid_seq w + 1\<rparr>"] True
    by (auto simp: seed_templates_def b Let_def)
  then show ?thesis by (simp add: rowcount_def new_template_def)
qed (simp add: seed_templates_def)

lemma builtins_jobs: "w_jobs (add_builtins now bs w) = w_jobs w"
  by (induction now bs w rule: add_builtins.induct) (simp_all add: Let_def)

lemma seed_idle: "w_templates w = w_templates (seed_templates now v) \<Longrightarrow> seed_templates now' w = w"
  using builtins_seeded [of now v] by (simp add: seed_templates_def)

text \<open>
  C31: a start upgrades the database of any earlier version, and a second start changes nothing. If every table that is there
  has the columns the program does not add later, no statement of the start is refused; afterwards every declared
  column of every table is there, no table, column or index is lost, jobs differ only in an expiry date that was
  missing, and another start leaves tables, templates and jobs as they are.
\<close>
theorem start_upgrades:
  assumes "earlier INIT_STEPS s"
  shows "\<exists>s' w'. init_db e now (s, w) = Some (s', w') \<and> grows s s' \<and> (\<forall>(t, c)\<in>set (declared INIT_STEPS). c \<in> set (columns_of s' t))
    \<and> w_jobs w' = map (backfilled e) (w_jobs w) \<and> init_db e now' (s', w') = Some (s', w')"
proof -
  obtain s' where s': "run_schema INIT_STEPS s = Some s'" "grows s s'" "earlier INIT_STEPS s'" "\<forall>p\<in>set INIT_STEPS. done_in s' p"
    using steps_run [OF steps_suit(1,2) _ _ assms] by (auto simp: holds_all_def)
  let ?w = "(seed_templates now w)\<lparr>w_jobs := map (backfilled e) (w_jobs (seed_templates now w))\<rparr>"
  have "init_db e now (s, w) = Some (s', ?w)" using s'(1) by (simp add: init_db_def Let_def)
  moreover have "\<forall>(t, c)\<in>set (declared INIT_STEPS). c \<in> set (columns_of s' t)" using all_declared [OF s'(3,4)] by blast
  moreover have "w_jobs ?w = map (backfilled e) (w_jobs w)" by (simp add: seed_templates_def builtins_jobs)
  moreover have "seed_templates now' ?w = ?w" by (rule seed_idle [of _ now w]) simp
  then have "init_db e now' (s', ?w) = Some (s', ?w)"
    using all_done_idle [OF s'(4)] by (simp add: init_db_def Let_def backfilled_twice)
  ultimately show ?thesis using s'(2) by blast
qed

text \<open>A database of an early version: two tables, without the columns and tables that came later.\<close>

definition first_schema :: schema where
  "first_schema =
    \<lparr>sc_tables = [(''jobs'', map (\<lambda>c. (c, ''TEXT'')) [''id'', ''created_at'', ''requester_dn'', ''requester_serial'', ''requester_ip'',
        ''target_host'', ''sans_json'', ''csr_pem'', ''cert_pem'', ''status'', ''completed_at'', ''completed_by_dn'', ''error'',
        ''has_local_key'', ''local_key_name'', ''source'']),
      (''app_settings'', [(''key'', ''TEXT PRIMARY KEY''), (''value'', ''TEXT'')])],
     sc_indices = []\<rparr>"

lemma first_schema_earlier: "earlier INIT_STEPS first_schema"
  unfolding earlier_def by code_simp

theorem start_upgrades_witness:
  "\<exists>s' w'. init_db sample_env 9 (first_schema, sample_world) = Some (s', w') \<and> ''key_vault_path'' \<in> set (columns_of s' ''jobs'')"
proof -
  have "(''jobs'', ''key_vault_path'') \<in> set (declared INIT_STEPS)" by code_simp
  then show ?thesis using start_upgrades [OF first_schema_earlier, of sample_env 9 sample_world 9] by fast
qed

end
