(* ===== verification/TrustPush.thy ===== *)
theory TrustPush
  imports Truststore
begin

text \<open>
  \<^verbatim>\<open>push_ssh\<close> of \<^verbatim>\<open>backend/truststore.py\<close> in an edition that has the licensed delivery module: the credential of the
  host is read from the vault, the key is written to a temporary file, and one command installs the bundle.
  The delivery module, the SSH client and the name of the temporary file are arguments. Without the module the
  function is the refusal of the theory \<^theory_text>\<open>Truststore\<close>.
\<close>

text \<open>
  \<open>kv_read\<close> gives the secret of a path or the text of a delivery error; \<open>ssh_run\<close> runs a command with an input while
  the key file has the given content, and gives code, output and error output, or raises.
\<close>

record 'h push_world =
  kv_read :: "string \<Rightarrow> string + json"
  ssh_run :: "string list \<Rightarrow> string \<Rightarrow> string \<Rightarrow> (int \<times> string \<times> string) result"
  temp_name :: string
  raised_text :: "py_error \<Rightarrow> string"

type_synonym files = "(string \<times> string) list"

definition remote_install :: string where
  "remote_install =
     ''set -e; T=\"$(mktemp /tmp/certheim-trust.XXXXXX)\"; '' @ ''umask 077; cat > \"$T\"; '' @ install_body ''\"$T\"''"

definition ssh_argv :: "string \<Rightarrow> string \<Rightarrow> string \<Rightarrow> string \<Rightarrow> string list" where
  "ssh_argv keyfile port user host =
     [''ssh'', ''-i'', keyfile, ''-p'', port, ''-o'', ''StrictHostKeyChecking=accept-new'',
      ''-o'', ''UserKnownHostsFile=/dev/null'', ''-o'', ''BatchMode=yes'', ''-o'', ''ConnectTimeout=10'', user @ ''@'' @ host]"

definition ensure_newline :: "string \<Rightarrow> string" where
  "ensure_newline key = (if ends_with [nl] key then key else key @ [nl])"

text \<open>The part between the creation of the key file and its removal.\<close>

definition push_with_key ::
  "'h push_world \<Rightarrow> string \<Rightarrow> string \<Rightarrow> string \<Rightarrow> string \<Rightarrow> json \<Rightarrow> files \<Rightarrow> (string + string) \<times> files" where
  "push_with_key x host bundle user port key fs =
     (case key of
        JStr k \<Rightarrow>
          let fs = (temp_name x, ensure_newline k) # fs;
              sudo = (if user = ''root'' then [] else ''sudo -n '') in
          (case ssh_run x (ssh_argv (temp_name x) port user host @ [sudo @ ''bash -c '' @ shquote remote_install])
                  bundle (ensure_newline k) of
             Inl err \<Rightarrow> (Inl (raised_text x err), fs)
           | Inr (rc, out, err) \<Rightarrow>
               if rc \<noteq> 0 then (Inl (''trust update on '' @ host @ '' failed: '' @ take 200 (or_else err out)), fs)
               else (Inr (''installed on '' @ user @ ''@'' @ host), fs))
      | _ \<Rightarrow> (Inl (raised_text x AttributeError), (temp_name x, []) # fs))"

definition push_ssh_licensed ::
  "'h env \<Rightarrow> 'h push_world \<Rightarrow> string \<Rightarrow> 'h world \<Rightarrow> files \<Rightarrow> (string + string) \<times> files" where
  "push_ssh_licensed e x raw w fs =
     (let host = strip raw; bundle = build_bundle True w in
      if \<not> HOST_RE host then (Inl (''invalid host: '' @ py_repr e (JStr host)), fs)
      else if strip bundle = [] then (Inl ''trust store is empty - nothing to push'', fs)
      else case kv_read x (''csr-delivery-ssh/'' @ host) of
        Inl msg \<Rightarrow> (Inl msg, fs)
      | Inr cred \<Rightarrow>
          let key = jget ''private_key'' cred;
              port = strip (let p = jget ''port'' cred in if truthy p then str_of e p else ''22'') in
          if \<not> truthy key then (Inl (''no SSH credential at secret/csr-delivery-ssh/'' @ host), fs)
          else case str_or_empty (jget ''username'' cred) of
            Inl err \<Rightarrow> (Inl (raised_text x err), fs)
          | Inr name \<Rightarrow>
              let (r, fs1) = push_with_key x host bundle (strip (or_else name ''root'')) port key fs in
              (r, remove_row fst (temp_name x) fs1))"

text \<open>The function of the repository: with the module or without it.\<close>

definition push_ssh_any ::
  "'h push_world option \<Rightarrow> 'h env \<Rightarrow> string \<Rightarrow> 'h world \<Rightarrow> files \<Rightarrow> (string + string) \<times> files" where
  "push_ssh_any delivery e raw w fs =
     (case delivery of
        None \<Rightarrow> (fst (push_ssh raw w), fs)
      | Some x \<Rightarrow> push_ssh_licensed e x raw w fs)"

lemma key_file_only: "\<exists>text. snd (push_with_key x host bundle user port key fs) = (temp_name x, text) # fs"
  by (auto simp: push_with_key_def Let_def split: json.split sum.split prod.split)

lemma remove_fresh: "name \<notin> fst ` set fs \<Longrightarrow> remove_row fst name ((name, text) # fs) = fs"
  by (auto simp: remove_row_def delete_where_def filter_id_conv)


definition failing_push :: "unit push_world" where
  "failing_push = \<lparr>kv_read = (\<lambda>p. Inr (JObj [(''private_key'', JStr ''KEY'')])),
     ssh_run = (\<lambda>argv input key. Inl (PyError ''TimeoutExpired'')), temp_name = ''/tmp/k.key'', raised_text = err_name\<rparr>"


end
