(* ===== verification/Cursors.thy ===== *)
theory Cursors
  imports Sessions
begin

text \<open>
  The objects of \<^verbatim>\<open>backend/db.py\<close> that make a PostgreSQL connection look like one of SQLite: the row, the result
  of a statement, the empty result of a PRAGMA and the connection itself. The driver's cursor is the list of the tuples
  it has not given out yet, with the column names of the statement if it has any.
\<close>

subsection \<open>Rows\<close>

record 'v pg_row =
  row_cols :: "string list"
  row_vals :: "'v list"

datatype row_key = ByIndex int | ByName string

definition row_item :: "'v pg_row \<Rightarrow> row_key \<Rightarrow> 'v result" where
  "row_item r k =
     (case k of
        ByIndex i \<Rightarrow>
          (let n = int (length (row_vals r)); j = (if i < 0 then i + n else i) in
           if 0 \<le> j \<and> j < n then Inr (row_vals r ! nat j) else Inl (PyError ''IndexError''))
      | ByName name \<Rightarrow>
          (case map_of (row_index (row_cols r)) name of
             None \<Rightarrow> Inl (PyError ''KeyError'')
           | Some i \<Rightarrow> if i < length (row_vals r) then Inr (row_vals r ! i) else Inl (PyError ''IndexError'')))"

definition row_get_or :: "'v pg_row \<Rightarrow> string \<Rightarrow> 'v \<Rightarrow> 'v" where
  "row_get_or r name other = (case row_get (row_cols r) (row_vals r) name of Some v \<Rightarrow> v | None \<Rightarrow> other)"

definition row_has :: "'v pg_row \<Rightarrow> string \<Rightarrow> bool" where
  "row_has r name = (map_of (row_index (row_cols r)) name \<noteq> None)"

definition row_len :: "'v pg_row \<Rightarrow> nat" where
  "row_len r = length (row_vals r)"

text \<open>\<open>dict(row)\<close>: the keys in order, each with what the row gives for it.\<close>

definition row_dict :: "'v pg_row \<Rightarrow> (string \<times> 'v result) list" where
  "row_dict r = map (\<lambda>k. (k, row_item r (ByName k))) (row_cols r)"

subsection \<open>Results and connections\<close>

record 'v cursor =
  cur_names :: "string list option"
  cur_left :: "'v list list"
  cur_count :: int

datatype 'v pg_result = PgResult "'v cursor" | Noop

definition result_cols :: "'v cursor \<Rightarrow> string list" where
  "result_cols c = (case cur_names c of None \<Rightarrow> [] | Some ns \<Rightarrow> ns)"

definition as_row :: "'v cursor \<Rightarrow> 'v list \<Rightarrow> 'v pg_row" where
  "as_row c vs = \<lparr>row_cols = result_cols c, row_vals = vs\<rparr>"

fun fetchone :: "'v pg_result \<Rightarrow> 'v pg_row option \<times> 'v pg_result" where
  "fetchone Noop = (None, Noop)"
| "fetchone (PgResult c) =
     (case cur_left c of
        [] \<Rightarrow> (None, PgResult c)
      | vs # rest \<Rightarrow> (Some (as_row c vs), PgResult (c\<lparr>cur_left := rest\<rparr>)))"

fun fetchall :: "'v pg_result \<Rightarrow> 'v pg_row list \<times> 'v pg_result" where
  "fetchall Noop = ([], Noop)"
| "fetchall (PgResult c) = (map (as_row c) (cur_left c), PgResult (c\<lparr>cur_left := []\<rparr>))"

fun rowcount_of :: "'v pg_result \<Rightarrow> int" where
  "rowcount_of Noop = 0"
| "rowcount_of (PgResult c) = cur_count c"

definition lastrowid_of :: "'v pg_result \<Rightarrow> int option" where
  "lastrowid_of r = None"

text \<open>\<open>pg_open\<close> is the driver's \<open>connect\<close>, \<open>pg_cursor\<close> a new cursor running one statement.\<close>

definition pg_connect :: "(string \<Rightarrow> 'c result) \<Rightarrow> string option \<Rightarrow> 'c result" where
  "pg_connect pg_open address =
     (if \<not> set_opt address
      then Inl (PyError ''RuntimeError'') else pg_open (or_empty address))"

definition pg_conn_execute ::
  "(string \<Rightarrow> 'v list \<Rightarrow> 's \<Rightarrow> 'v cursor result \<times> 's) \<Rightarrow> string \<Rightarrow> 'v list \<Rightarrow> 's \<Rightarrow> 'v pg_result result \<times> 's" where
  "pg_conn_execute pg_cursor sql params s =
     (case pg_execute sql params of
        None \<Rightarrow> (Inr Noop, s)
      | Some (text, ps) \<Rightarrow> (case pg_cursor text ps s of (Inl err, s1) \<Rightarrow> (Inl err, s1) | (Inr c, s1) \<Rightarrow> (Inr (PgResult c), s1)))"

text \<open>\<open>executemany\<close> looks at no PRAGMA; the statement is run for every tuple, the result is that of the last run.\<close>

fun pg_executemany ::
  "(string \<Rightarrow> 'v list \<Rightarrow> 's \<Rightarrow> 'v cursor result \<times> 's) \<Rightarrow> string \<Rightarrow> 'v list list \<Rightarrow> 'v cursor \<Rightarrow> 's \<Rightarrow> 'v pg_result result \<times> 's" where
  "pg_executemany pg_cursor sql [] c s = (Inr (PgResult c), s)"
| "pg_executemany pg_cursor sql (ps # rest) c s =
     (case pg_cursor (translate sql) ps s of
        (Inl err, s1) \<Rightarrow> (Inl err, s1)
      | (Inr c1, s1) \<Rightarrow> pg_executemany pg_cursor sql rest c1 s1)"

subsection \<open>Reading results\<close>

text \<open>Fetching one row and then the others is fetching all.\<close>

lemma fetch_first:
  "case fetchone r of
     (None, r1) \<Rightarrow> fetchall r = ([], r1)
   | (Some row, r1) \<Rightarrow> fst (fetchall r) = row # fst (fetchall r1) \<and> snd (fetchall r) = snd (fetchall r1)"
proof (cases r)
  case (PgResult c)
  have "as_row (c\<lparr>cur_left := x\<rparr>) = as_row c" for x by (rule ext) (simp add: as_row_def result_cols_def)
  then show ?thesis using PgResult by (auto split: list.split)
qed simp

lemma row_index_nth: "distinct cols \<Longrightarrow> i < length cols \<Longrightarrow> map_of (row_index cols) (cols ! i) = Some i"
  using row_index_map [of cols "[0..<length cols]" "[]" "cols ! i"] map_of_zip_nth [of cols "[0..<length cols]" i]
  by (simp add: row_index_def)

text \<open>In a row with distinct names \<open>dict(row)\<close> pairs every name with its value.\<close>

lemma row_dict_pairs:
  "distinct (row_cols r) \<Longrightarrow> length (row_cols r) = length (row_vals r) \<Longrightarrow> row_dict r = zip (row_cols r) (map Inr (row_vals r))"
  by (rule nth_equalityI) (simp_all add: row_dict_def row_item_def row_index_nth)

end
