(* ===== verification/Gitlab.thy ===== *)
theory Gitlab
  imports MailSaving Slack
begin

text \<open>
  \<^verbatim>\<open>backend/gitlab_integration.py\<close>: signing requests as issues of a GitLab project. An issue carries the CSR, its
  comments bring back the certificate, a webhook with a shared token announces them. The settings are a section of a file
  of \<open>configparser\<close>, as modelled in \<^theory_text>\<open>MailConf\<close>; texts are their UTF-8 bytes; the GitLab server is an argument.
\<close>

unbundle bit_operations_syntax

subsection \<open>Settings of the module\<close>

definition conf_raised :: "conf_error + 'a \<Rightarrow> 'a result" where
  "conf_raised r = (case r of Inl bad \<Rightarrow> Inl (PyError ''InterpolationError'') | Inr x \<Rightarrow> Inr x)"

definition gl_get :: "conf \<Rightarrow> string \<Rightarrow> string \<Rightarrow> string result" where
  "gl_get cf k fallback = map_sum id strip (conf_raised (get_or cf ''gitlab'' k fallback))"

definition gl_enabled :: "conf \<Rightarrow> bool result" where
  "gl_enabled cf = map_sum id (\<lambda>v. lower v \<in> set [''1'', ''true'', ''yes'', ''on'']) (gl_get cf ''enabled'' ''false'')"

text \<open>\<open>a.then b\<close> of results.\<close>

definition and_then :: "'a result \<Rightarrow> ('a \<Rightarrow> 'b result) \<Rightarrow> 'b result" where
  "and_then r k = (case r of Inl err \<Rightarrow> Inl err | Inr x \<Rightarrow> k x)"

subsection \<open>Encoding\<close>

definition hex_upper :: "nat \<Rightarrow> char" where
  "hex_upper n = ''0123456789ABCDEF'' ! n"

definition unreserved :: "char \<Rightarrow> bool" where
  "unreserved ch = (is_alnum ch \<or> ch \<in> set ''_.-~'')"

definition quote_char :: "char \<Rightarrow> string" where
  "quote_char ch = (if unreserved ch then [ch] else [CHR ''%'', hex_upper (cp ch div 16), hex_upper (cp ch mod 16)])"

definition url_quote :: "string \<Rightarrow> string" where
  "url_quote s = concat (map quote_char s)"

definition quote_plus :: "string \<Rightarrow> string" where
  "quote_plus s = concat (map (\<lambda>ch. if ch = CHR '' '' then ''+'' else quote_char ch) s)"

definition urlencode :: "(string \<times> string) list \<Rightarrow> string" where
  "urlencode form = join ''&'' (map (\<lambda>(k, v). quote_plus k @ ''='' @ quote_plus v) form)"

subsection \<open>Calls\<close>

text \<open>What the server, or the way to it, answers: status and body, a refusal with body and reason, or an exception.\<close>

datatype gl_answer = GlOk nat string | GlStatus nat string string | GlUnreachable string | GlBroken string string

text \<open>Method, URL, token and body of a call; a body is a form.\<close>

type_synonym 's gl_server = "string \<Rightarrow> string \<Rightarrow> string \<Rightarrow> string option \<Rightarrow> 's \<Rightarrow> gl_answer \<times> 's"

definition answer :: "gl_answer \<Rightarrow> nat \<times> string \<times> string option" where
  "answer a =
     (case a of
        GlOk n text \<Rightarrow> (n, text, None)
      | GlStatus n text reason \<Rightarrow> (n, take 500 text, Some (''HTTP '' @ nat_str n @ '': '' @ reason))
      | GlUnreachable reason \<Rightarrow> (0, [], Some (''unreachable: '' @ reason))
      | GlBroken name msg \<Rightarrow> (0, [], Some (name @ '': '' @ take 160 msg)))"

text \<open>Reading the settings can raise, before anything is sent.\<close>

definition gl_api ::
  "'s gl_server \<Rightarrow> conf \<Rightarrow> string \<Rightarrow> string \<Rightarrow> (string \<times> string) list \<Rightarrow> string option \<Rightarrow> 's \<Rightarrow> (nat \<times> string \<times> string option) result \<times> 's" where
  "gl_api srv cf method path form full_url s =
     (case and_then (gl_get cf ''base_url'' []) (\<lambda>base. and_then (gl_get cf ''api_token'' []) (\<lambda>tok.
             Inr (case full_url of Some u \<Rightarrow> u | None \<Rightarrow> rstrip_char (CHR ''/'') base @ ''/api/v4'' @ path, tok))) of
        Inl err \<Rightarrow> (Inl err, s)
      | Inr (url, tok) \<Rightarrow>
          case srv method url tok (if form = [] then None else Some (urlencode form)) s of
            (a, s1) \<Rightarrow> (Inr (answer a), s1))"

definition project_path :: "conf \<Rightarrow> string result" where
  "project_path cf = map_sum id (\<lambda>p. ''/projects/'' @ url_quote p) (gl_get cf ''project'' [])"

subsection \<open>The webhook's token\<close>

fun differences :: "string \<Rightarrow> string \<Rightarrow> nat" where
  "differences (x # xs) (y # ys) = (cp x XOR cp y) OR differences xs ys"
| "differences xs ys = 0"

definition verify_webhook_token :: "conf \<Rightarrow> string option \<Rightarrow> bool result" where
  "verify_webhook_token cf token =
     (case gl_get cf ''webhook_secret'' [] of
        Inl err \<Rightarrow> Inl err
      | Inr secret \<Rightarrow>
          if secret = [] then Inr False
          else if length (or_empty token) \<noteq> length secret then Inr False
          else Inr (differences (or_empty token) secret = 0))"

subsection \<open>Issues\<close>

definition test_connection :: "'h env \<Rightarrow> 's gl_server \<Rightarrow> conf \<Rightarrow> 's \<Rightarrow> (bool \<times> string) result \<times> 's" where
  "test_connection e srv cf s =
     (case and_then (gl_get cf ''base_url'' []) (\<lambda>b. if b = [] then Inr None else
             and_then (gl_get cf ''api_token'' []) (\<lambda>t. if t = [] then Inr None else
             and_then (gl_get cf ''project'' []) (\<lambda>p. Inr (if p = [] then None else Some p)))) of
        Inl err \<Rightarrow> (Inl err, s)
      | Inr None \<Rightarrow> (Inr (False, ''base_url, api_token and project are all required''), s)
      | Inr (Some p) \<Rightarrow>
          (case gl_api srv cf ''GET'' (''/projects/'' @ url_quote p) [] None s of
             (Inl err, s1) \<Rightarrow> (Inl err, s1)
           | (Inr (n, text, Some err), s1) \<Rightarrow> (Inr (False, err), s1)
           | (Inr (n, text, None), s1) \<Rightarrow>
               (case json_loads e text of
                  Some (JObj kvs) \<Rightarrow>
                    (Inr (True, ''connected to project ''
                       @ str_of e (if jhas ''path_with_namespace'' (JObj kvs) then jget ''path_with_namespace'' (JObj kvs) else JStr p)
                       @ '' (id '' @ str_of e (jget ''id'' (JObj kvs)) @ '')''), s1)
                | _ \<Rightarrow> (Inr (False, ''unexpected response from GitLab''), s1))))"

record gl_job =
  ij_id :: string
  ij_host :: string
  ij_sans :: "string list"
  ij_csr :: string
  ij_cn :: string
  ij_email :: string
  ij_group :: string

definition dash :: string where
  "dash = [CHR 0xE2, CHR 0x80, CHR 0x94]"

definition issue_text :: "gl_job \<Rightarrow> string" where
  "issue_text j =
     (let tick = [CHR 0x60] in
      ''A certificate signing request awaits signing from the Certheim.'' @ [nl, nl]
      @ ''- **Target host:** '' @ tick @ ij_host j @ tick @ [nl]
      @ ''- **Job ID:** '' @ tick @ ij_id j @ tick @ [nl]
      @ ''- **Requested by:** '' @ or_else (ij_cn j) dash
      @ '' '' @ (if ij_email j = [] then [] else ''<'' @ ij_email j @ ''>'') @ [nl]
      @ ''- **Dashboard group:** '' @ or_else (ij_group j) dash @ [nl, nl]
      @ ''**SANs:**'' @ [nl]
      @ or_else (join [nl] (map (\<lambda>san. ''- '' @ tick @ san @ tick) (ij_sans j))) ''_none_'' @ [nl, nl]
      @ ''**CSR (PEM):**'' @ [nl, nl] @ tick @ tick @ tick @ [nl]
      @ strip (ij_csr j) @ [nl]
      @ tick @ tick @ tick @ [nl, nl]
      @ ''---'' @ [nl]
      @ ''**Signers:** sign this CSR, then paste the signed certificate PEM in a ''
      @ ''comment **or** attach the '' @ tick @ ''.crt'' @ tick @ ''/'' @ tick @ ''.pem'' @ tick @ '' file. The dashboard will attach ''
      @ ''it to the job automatically. Close this issue when done.'' @ [nl])"

definition issue_fields :: "gl_job \<Rightarrow> string \<Rightarrow> string \<Rightarrow> (string \<times> string) list" where
  "issue_fields j labels assignees =
     [(''title'', ''CSR signing: '' @ ij_host j @ '' ('' @ ij_id j @ '')''), (''description'', issue_text j)]
     @ (if labels = [] then [] else [(''labels'', labels)])
     @ map (\<lambda>a. (''assignee_ids[]'', a)) (filter (\<lambda>a. a \<noteq> []) (map strip (split_on (CHR '','') assignees)))"

text \<open>The answer: success, the number and address of the issue, and a reason.\<close>

definition create_issue ::
  "'h env \<Rightarrow> 's gl_server \<Rightarrow> conf \<Rightarrow> gl_job \<Rightarrow> 's \<Rightarrow> (bool \<times> json \<times> json \<times> string) result \<times> 's" where
  "create_issue e srv cf j s =
     (let no = (\<lambda>why. Inr (False, JNull, JNull, why)) in
      case gl_enabled cf of Inl err \<Rightarrow> (Inl err, s) | Inr on \<Rightarrow>
      if \<not> on then (no ''gitlab integration disabled'', s)
      else case and_then (gl_get cf ''project'' []) (\<lambda>p. if p = [] then Inr False else
                  and_then (gl_get cf ''api_token'' []) (\<lambda>t. Inr (t \<noteq> []))) of
        Inl err \<Rightarrow> (Inl err, s)
      | Inr False \<Rightarrow> (no ''project/api_token not configured'', s)
      | Inr True \<Rightarrow>
          case and_then (gl_get cf ''labels'' []) (\<lambda>l. and_then (gl_get cf ''assignee_ids'' []) (\<lambda>a.
                 and_then (project_path cf) (\<lambda>path. Inr (issue_fields j l a, path @ ''/issues'')))) of
            Inl err \<Rightarrow> (Inl err, s)
          | Inr (form, path) \<Rightarrow>
              case gl_api srv cf ''POST'' path form None s of
                (Inl err, s1) \<Rightarrow> (Inl err, s1)
              | (Inr (n, text, Some err), s1) \<Rightarrow> (no err, s1)
              | (Inr (n, text, None), s1) \<Rightarrow>
                  (case json_loads e text of
                     Some (JObj kvs) \<Rightarrow> (Inr (True, jget ''iid'' (JObj kvs), jget ''web_url'' (JObj kvs), ''issue created''), s1)
                   | _ \<Rightarrow> (no ''unexpected response creating issue'', s1)))"

definition issue_call ::
  "'s gl_server \<Rightarrow> conf \<Rightarrow> string \<Rightarrow> json \<Rightarrow> string \<Rightarrow> string \<times> string \<Rightarrow> string \<Rightarrow> 's \<Rightarrow> (bool \<times> string) result \<times> 's" where
  "issue_call srv cf method iid suffix entry good s =
     (case and_then (project_path cf) (\<lambda>path. and_then (int_of_json iid) (\<lambda>i. Inr (path @ ''/issues/'' @ int_str i @ suffix))) of
        Inl err \<Rightarrow> (Inl err, s)
      | Inr path \<Rightarrow>
          case gl_api srv cf method path [entry] None s of
            (Inl err, s1) \<Rightarrow> (Inl err, s1)
          | (Inr (n, text, err), s1) \<Rightarrow> (Inr (err = None, if set_opt err then or_empty err else good), s1))"

definition comment_issue :: "'s gl_server \<Rightarrow> conf \<Rightarrow> json \<Rightarrow> string \<Rightarrow> 's \<Rightarrow> (bool \<times> string) result \<times> 's" where
  "comment_issue srv cf iid text s =
     (case gl_enabled cf of
        Inl err \<Rightarrow> (Inl err, s)
      | Inr on \<Rightarrow>
          if \<not> on \<or> \<not> truthy iid then (Inr (False, ''disabled or no iid''), s)
          else issue_call srv cf ''POST'' iid ''/notes'' (''body'', text) ''commented'' s)"

definition close_issue :: "'s gl_server \<Rightarrow> conf \<Rightarrow> json \<Rightarrow> 's \<Rightarrow> (bool \<times> string) result \<times> 's" where
  "close_issue srv cf iid s = issue_call srv cf ''PUT'' iid [] (''state_event'', ''close'') ''closed'' s"

subsection \<open>The certificate of a comment\<close>

text \<open>\<^verbatim>\<open>_PEM_RE\<close>: the first block with at least one character between its lines.\<close>

definition pem_at :: "string \<Rightarrow> string option" where
  "pem_at s =
     (if \<not> starts_with BEGIN_CERT s then None
      else case drop (length BEGIN_CERT) s of
        [] \<Rightarrow> None
      | ch # rest \<Rightarrow> (case cut END_CERT rest of None \<Rightarrow> None | Some (inner, _) \<Rightarrow> Some (BEGIN_CERT @ ch # inner @ END_CERT)))"

definition find_pem :: "string \<Rightarrow> string option" where
  "find_pem = search_at pem_at"

text \<open>\<^verbatim>\<open>_UPLOAD_RE\<close>: a link in parentheses to an uploaded file with one of five endings, in any case.\<close>

definition upload_at :: "string \<Rightarrow> string option" where
  "upload_at s =
     (case s of
        [] \<Rightarrow> None
      | ch # rest \<Rightarrow>
          let t = takeWhile (\<lambda>c. c \<noteq> CHR '')'') rest; low = lower t; name = drop 42 low in
          if ch = CHR ''('' \<and> length t < length rest \<and> starts_with ''/uploads/'' low \<and> length (take 32 (drop 9 low)) = 32
             \<and> list_all (\<lambda>c. hex_digit c \<noteq> None) (take 32 (drop 9 low)) \<and> starts_with ''/'' (drop 41 low)
             \<and> list_ex (\<lambda>x. ends_with x name \<and> length x < length name) [''.crt'', ''.cer'', ''.pem'', ''.txt'', ''.key'']
          then Some t else None)"

definition find_upload :: "string \<Rightarrow> string option" where
  "find_upload = search_at upload_at"

definition extract_cert_from_note ::
  "'s gl_server \<Rightarrow> conf \<Rightarrow> string \<Rightarrow> string \<Rightarrow> 's \<Rightarrow> (string option \<times> string) result \<times> 's" where
  "extract_cert_from_note srv cf note_body project_url s =
     (if note_body = [] then (Inr (None, ''empty note''), s)
      else case find_pem note_body of
        Some b \<Rightarrow> (Inr (Some (strip b @ [nl]), ''inline PEM''), s)
      | None \<Rightarrow>
          (case (if project_url = [] then None else find_upload note_body) of
             None \<Rightarrow> (Inr (None, ''no certificate found in comment''), s)
           | Some path \<Rightarrow>
               (case gl_api srv cf ''GET'' [] [] (Some (rstrip_char (CHR ''/'') project_url @ path)) s of
                  (Inl err, s1) \<Rightarrow> (Inl err, s1)
                | (Inr (n, text, Some err), s1) \<Rightarrow> (Inr (None, ''attachment download failed: '' @ err), s1)
                | (Inr (n, text, None), s1) \<Rightarrow>
                    (case find_pem text of
                       Some b \<Rightarrow> (Inr (Some (strip b @ [nl]), ''attached file''), s1)
                     | None \<Rightarrow> (Inr (None, ''attachment had no PEM certificate''), s1)))))"

subsection \<open>Reading and saving the settings\<close>

definition gl_settings :: "conf \<Rightarrow> (string \<times> json) list result" where
  "gl_settings cf =
     and_then (gl_enabled cf) (\<lambda>on. and_then (gl_get cf ''base_url'' []) (\<lambda>base. and_then (gl_get cf ''project'' []) (\<lambda>project.
     and_then (gl_get cf ''assignee_ids'' []) (\<lambda>assignees. and_then (gl_get cf ''labels'' []) (\<lambda>labels.
     and_then (gl_get cf ''api_token'' []) (\<lambda>token. and_then (gl_get cf ''webhook_secret'' []) (\<lambda>secret.
       Inr [(''enabled'', JBool on), (''base_url'', JStr (or_else base ''https://gitlab.com'')), (''project'', JStr project),
            (''assignee_ids'', JStr assignees), (''labels'', JStr labels), (''api_token_set'', JBool (token \<noteq> [])),
            (''webhook_secret_set'', JBool (secret \<noteq> [])), (''config_path'', JStr ''/var/opt/certheim/integrations.conf'')])))))))"

definition kept_secret :: "conf \<Rightarrow> string \<Rightarrow> json \<Rightarrow> string result" where
  "kept_secret existing k incoming =
     and_then (str_or_empty incoming) (\<lambda>v. if strip v \<noteq> [] then Inr (strip v) else conf_raised (get_or existing ''gitlab'' k []))"

definition new_section :: "conf \<Rightarrow> json \<Rightarrow> (string \<times> string) list result" where
  "new_section existing d =
     (let plain = (\<lambda>k. map_sum id strip (str_or_empty (jget k d))) in
      and_then (plain ''base_url'') (\<lambda>base. and_then (plain ''project'') (\<lambda>project.
      and_then (plain ''assignee_ids'') (\<lambda>assignees. and_then (plain ''labels'') (\<lambda>labels.
      and_then (kept_secret existing ''api_token'' (jget ''api_token'' d)) (\<lambda>token.
      and_then (kept_secret existing ''webhook_secret'' (jget ''webhook_secret'' d)) (\<lambda>secret.
        Inr [(''enabled'', if truthy (jget ''enabled'' d) then ''true'' else ''false''),
             (''base_url'', rstrip_char (CHR ''/'') base), (''project'', project), (''assignee_ids'', assignees),
             (''labels'', labels), (''api_token'', token), (''webhook_secret'', secret)])))))))"

definition section_conf :: "(string \<times> string) list \<Rightarrow> py_error + conf" where
  "section_conf kvs = store_all (map (\<lambda>(k, v). set_key ''gitlab'' k v) kvs) [(''gitlab'', [])]"

text \<open>The file's content before and after; \<open>write_error\<close> is the refusal of the operating system to write it.\<close>

definition gl_save :: "string option \<Rightarrow> json \<Rightarrow> conf \<Rightarrow> (bool \<times> string) result \<times> conf" where
  "gl_save write_error d existing =
     (case and_then (new_section existing d) section_conf of
        Inl err \<Rightarrow> (Inl err, existing)
      | Inr cf \<Rightarrow>
          (case write_error of
             Some err \<Rightarrow> (Inr (False, ''could not write /var/opt/certheim/integrations.conf: '' @ err), existing)
           | None \<Rightarrow> (Inr (True, ''saved''), cf)))"

subsection \<open>Nothing of a job leaks into the form\<close>

lemma hex_upper_read: "n < 16 \<Longrightarrow> hex_digit (hex_upper n) = Some n \<and> hex_upper n \<notin> set ''&=+%''"
proof -
  have "list_all (\<lambda>n. hex_digit (hex_upper n) = Some n \<and> hex_upper n \<notin> set ''&=+%'') [0..<16]" by code_simp
  then show "n < 16 \<Longrightarrow> hex_digit (hex_upper n) = Some n \<and> hex_upper n \<notin> set ''&=+%''" by (simp add: list_all_iff)
qed

lemma hex_halves: "cp ch div 16 < 16" "cp ch mod 16 < 16" "char_of (16 * (cp ch div 16) + cp ch mod 16) = ch"
proof -
  show "cp ch div 16 < 16" using cp_bound [of ch] by (intro less_mult_imp_div_less) simp
  show "char_of (16 * (cp ch div 16) + cp ch mod 16) = ch" by (simp add: cp_def)
qed simp

lemma unreserved_plain: "unreserved ch \<Longrightarrow> ch \<notin> set ''&=+% ''"
  by (auto simp: unreserved_def is_alnum_def is_alpha_def is_digit_def is_upper_def is_lower_def cp_def)

lemma unquote_plain: "ch \<noteq> CHR ''%'' \<Longrightarrow> unquote (ch # s) = ch # unquote s"
  by (cases s; cases "tl s") auto

lemma quote_char_safe: "set (quote_char ch) \<inter> set ''&=+'' = {}"
  using hex_upper_read [OF hex_halves(1), of ch] hex_upper_read [OF hex_halves(2), of ch] unreserved_plain [of ch]
  by (auto simp: quote_char_def)

lemma quote_char_read: "unquote (quote_char ch @ s) = ch # unquote s"
  using hex_upper_read [OF hex_halves(1), of ch] hex_upper_read [OF hex_halves(2), of ch] unreserved_plain [of ch]
  by (auto simp: quote_char_def unquote_plain hex_halves(3))

lemma unquote_quote: "unquote (url_quote s) = s"
  by (induction s) (simp_all add: url_quote_def quote_char_read)

lemma replace_char_append: "replace_char a b (s @ t) = replace_char a b s @ replace_char a b t"
  by (simp add: replace_char_def)

lemma replace_char_absent: "a \<notin> set s \<Longrightarrow> replace_char a b s = s"
  by (induction s) (auto simp: replace_char_def)

lemma form_text_quote: "form_text (quote_plus s) = s"
proof -
  have "unquote (replace_char (CHR ''+'') (CHR '' '') (quote_plus s)) = s"
  proof (induction s)
    case (Cons ch s)
    have "replace_char (CHR ''+'') (CHR '' '') (quote_char ch) = quote_char ch"
      using quote_char_safe [of ch] by (intro replace_char_absent) auto
    then show ?case
      using Cons by (cases "ch = CHR '' ''")
        (simp_all add: quote_plus_def replace_char_append quote_char_read, simp add: replace_char_def unquote_plain)
  qed (simp add: quote_plus_def replace_char_def)
  then show ?thesis by (simp add: form_text_def)
qed

lemma quote_plus_safe: "set (quote_plus s) \<inter> {CHR ''&'', CHR ''=''} = {}"
proof (induction s)
  case (Cons ch s)
  then show ?case using quote_char_safe [of ch] by (auto simp: quote_plus_def)
qed (simp add: quote_plus_def)

lemma quote_plus_Nil: "quote_plus s = [] \<longleftrightarrow> s = []"
  by (cases s) (auto simp: quote_plus_def quote_char_def)

lemma form_field_quoted:
  "form_field (quote_plus k @ ''='' @ quote_plus v) = (if v = [] then None else Some (k, v))"
proof -
  have "split_once (CHR ''='') (quote_plus k @ CHR ''='' # quote_plus v) = Some (quote_plus k, quote_plus v)"
    using quote_plus_safe [of k] by (intro split_once_append) auto
  then show ?thesis by (simp add: form_field_def form_text_quote quote_plus_Nil)
qed

lemma urlencode_read: "parse_qs (urlencode form) = filter (\<lambda>(k, v). v \<noteq> []) form"
proof (cases "form = []")
  case False
  let ?enc = "\<lambda>(k, v). quote_plus k @ ''='' @ quote_plus v"
  have "\<forall>x\<in>set (map ?enc form). CHR ''&'' \<notin> set x" using quote_plus_safe by fastforce
  with False have "split_on (CHR ''&'') (urlencode form) = map ?enc form"
    unfolding urlencode_def by (intro split_on_join) simp_all
  moreover have "List.map_filter form_field (map ?enc kvs) = filter (\<lambda>(k, v). v \<noteq> []) kvs" for kvs
    by (induction kvs) (auto simp: form_field_quoted [simplified] split: prod.split)
  ultimately show ?thesis by (simp add: parse_qs_def)
qed (simp add: urlencode_def parse_qs_def form_field_def split_once_def)

text \<open>
  What a job carries cannot change the form of the request that opens its issue. A server that reads the form gets the
  title, the description, the labels of the settings and one field per assignee of the settings, in this order, whatever
  the host, the names, the addresses and the CSR of the job contain.
\<close>

theorem issue_form_exact:
  "parse_qs (urlencode (issue_fields j labels assignees)) = issue_fields j labels assignees"
proof -
  have "\<forall>(k, v)\<in>set (issue_fields j labels assignees). v \<noteq> []"
    by (auto simp: issue_fields_def issue_text_def Let_def)
  then show ?thesis unfolding urlencode_read by (intro filter_True) auto
qed

subsection \<open>The shared token\<close>

lemma differences_zero: "length xs = length ys \<Longrightarrow> differences xs ys = 0 \<longleftrightarrow> xs = ys"
proof (induction xs ys rule: list_induct2)
  case (Cons x xs y ys)
  have "(cp x XOR cp y) = 0 \<Longrightarrow> cp x = cp y" by (metis xor.assoc xor.left_neutral xor.right_neutral xor_self_eq)
  then have "(cp x XOR cp y) = 0 \<longleftrightarrow> x = y" by auto
  then show ?case using Cons by (simp add: or_eq_0_iff)
qed simp

text \<open>
  A GitLab webhook is believed exactly when its token is the configured secret. The check answers yes if and only if
  the secret can be read, is not empty, and equals the token octet for octet; without a secret every call is refused.
\<close>

theorem webhook_token_exact:
  "verify_webhook_token cf token = Inr True \<longleftrightarrow>
     (\<exists>secret. gl_get cf ''webhook_secret'' [] = Inr secret \<and> secret \<noteq> [] \<and> token = Some secret)"
  by (cases token) (auto simp: verify_webhook_token_def differences_zero split: sum.splits)

subsection \<open>Saving\<close>

lemma and_then_Inr: "and_then r k = Inr y \<longleftrightarrow> (\<exists>x. r = Inr x \<and> k x = Inr y)"
  by (cases r) (simp_all add: and_then_def)

lemma store_all_section:
  "store_all (map (\<lambda>(k, v). set_key s k v) kvs) cf = Inr cf' \<Longrightarrow> map_of cf s \<noteq> None \<Longrightarrow>
   raw_key cf' s j = (case map_of (rev kvs) j of Some v \<Rightarrow> Some v | None \<Rightarrow> raw_key cf s j)"
proof (induction kvs arbitrary: cf)
  case (Cons kv kvs)
  obtain k v where kv: "kv = (k, v)" by (cases kv) auto
  from Cons.prems(1) obtain cf1 where 1: "set_key s k v cf = Inr cf1" "store_all (map (\<lambda>(k, v). set_key s k v) kvs) cf1 = Inr cf'"
    by (auto simp: kv split: sum.splits)
  have "map_of cf1 s \<noteq> None" using section_set_key [OF 1(1), of s] Cons.prems(2) by simp
  from Cons.IH [OF 1(2) this] show ?case
    using Cons.prems(2) by (auto simp: kv raw_set_key [OF 1(1)] map_add_def split: option.splits)
qed simp

lemma section_conf_raw: "section_conf kvs = Inr cf \<Longrightarrow> raw_key cf ''gitlab'' k = map_of (rev kvs) k"
  unfolding section_conf_def by (drule store_all_section [where j = k]) (auto simp: raw_key_def split: option.split)

lemma section_refused: "(k, v) \<in> set kvs \<Longrightarrow> \<not> settable v \<Longrightarrow> store_all (map (\<lambda>(k, v). set_key s k v) kvs) cf = Inl ValueError"
proof (induction kvs arbitrary: cf)
  case (Cons kv kvs)
  then show ?case by (cases "settable (snd kv)") (auto simp: set_key_def split: prod.splits)
qed simp

text \<open>
  A secret field left blank keeps the stored secret, as far as percent signs allow: what a save that succeeds stores is the
  stored value after interpolation, the same text if it has no percent signs.
\<close>

lemma blank_keeps_secret:
  assumes "get_or existing ''gitlab'' ''webhook_secret'' [] = Inr v" "str_or_empty (jget ''webhook_secret'' d) = Inr text" "strip text = []"
    and "gl_save None d existing = (Inr (True, msg), cf)"
  shows "raw_key cf ''gitlab'' ''webhook_secret'' = Some v"
proof -
  from assms(4) obtain kvs where k: "new_section existing d = Inr kvs" "section_conf kvs = Inr cf"
    by (auto simp: gl_save_def and_then_Inr split: sum.splits)
  from k(1) assms(1-3) have "map_of (rev kvs) ''webhook_secret'' = Some v"
    by (auto simp: new_section_def Let_def and_then_Inr kept_secret_def conf_raised_def)
  with section_conf_raw [OF k(2)] show ?thesis by simp
qed

text \<open>
  A secret that was written by hand with a doubled percent sign is read as one with a single one, which cannot be stored:
  with it in the file, every save that leaves the secret blank raises.
\<close>

definition doubled_secret :: conf where
  "doubled_secret = [(''gitlab'', [(''webhook_secret'', ''a%%b'')])]"

lemma doubled_secret_stuck:
  "verify_webhook_token doubled_secret (Some ''a%b'') = Inr True
   \<and> gl_save None (JObj []) doubled_secret = (Inl ValueError, doubled_secret)"
  by code_simp

subsection \<open>Certificates from comments\<close>

lemma search_at_SomeD: "search_at f s = Some v \<Longrightarrow> \<exists>a b. s = a @ b \<and> f b = Some v"
proof (induction s)
  case (Cons c s)
  show ?case
  proof (cases "f (c # s)")
    case None
    with Cons obtain a b where "s = a @ b" "f b = Some v" by auto
    then have "c # s = (c # a) @ b \<and> f b = Some v" by simp
    then show ?thesis by blast
  next
    case (Some u)
    with Cons.prems have "c # s = [] @ (c # s) \<and> f (c # s) = Some v" by simp
    then show ?thesis by blast
  qed
qed auto

lemma find_pem_block: "find_pem s = Some b \<Longrightarrow> \<exists>inner. inner \<noteq> [] \<and> b = BEGIN_CERT @ inner @ END_CERT"
  by (auto simp: find_pem_def pem_at_def dest!: search_at_SomeD split: if_splits list.splits option.splits)

text \<open>
  Whatever a comment or an attachment contains, what is taken from it is one block from a begin line to an end line with
  something in between, and a line break; and only a comment with no such block is looked at for an attachment.
\<close>

lemma certificate_of_comment:
  "extract_cert_from_note srv cf note_body url s = (Inr (Some c, why), s') \<Longrightarrow>
   \<exists>inner. inner \<noteq> [] \<and> c = BEGIN_CERT @ inner @ END_CERT @ [nl]"
proof -
  have fixed: "strip (BEGIN_CERT @ inner @ END_CERT) = BEGIN_CERT @ inner @ END_CERT" for inner
    by (intro strip_fixed) (simp_all add: BEGIN_CERT_def END_CERT_def is_space_code cpi_def)
  assume "extract_cert_from_note srv cf note_body url s = (Inr (Some c, why), s')"
  then have "(\<exists>t b. find_pem t = Some b \<and> c = strip b @ [nl])"
    by (auto simp: extract_cert_from_note_def split: if_splits option.splits prod.splits sum.splits)
  then show ?thesis by (auto dest!: find_pem_block simp: fixed)
qed

text \<open>A module that is switched off sends nothing, and neither does one without a project or a token.\<close>

lemma disabled_sends_nothing: "gl_enabled cf = Inr False \<Longrightarrow> snd (create_issue e srv cf j s) = s \<and> snd (comment_issue srv cf iid text s) = s"
  by (simp add: create_issue_def comment_issue_def Let_def)

end
