(* ===== verification/Api.thy ===== *)
theory Api
  imports Truststore AdminUsers AdminJobs Templates Expiry AdminGroups Subjects LicenseAdmin MailConf Slack Feedback
    SupportBundle Reports SigningRoutes JobActions Requests
begin

text \<open>
  The web application as a whole: the ten blueprints that \<^verbatim>\<open>backend/app.py\<close> registers, the dispatch of a
  request by its method and path, and what \<^verbatim>\<open>before_request\<close> does first. Matching of URL rules is that of Flask's
  router: converters for a segment, a number and a rest of the path, static rules before those with converters, 404
  without a rule, 405 without one for the method, HEAD as GET. The two licensed blueprints are not in the repository. The
  theorems say who gets past the decorators, for every path.
\<close>

subsection \<open>What the handlers are given besides the environment\<close>

record 'h site =
  site_mail :: "'h mail_env"
  site_version :: string
  site_raw :: string
  site_certs :: "'h world \<Rightarrow> (string \<times> int \<times> string \<times> time) list"
  site_probes :: probes
  site_db :: db_config
  site_driver :: bool
  site_db_probe :: "string \<Rightarrow> string + string"
  site_db_path :: string
  site_db_size :: "nat option"
  site_ca_probe :: "string \<Rightarrow> 'h \<Rightarrow> (string + (string \<times> json) list) \<times> 'h"
  site_platform :: platform
  site_show :: "(string \<times> string) list \<Rightarrow> string"
  site_keys :: "string list"
  site_zip :: "(string \<times> string) list \<Rightarrow> string"

definition site_mails :: "'h site \<Rightarrow> 'h world \<Rightarrow> mail_state" where
  "site_mails x w = mail_in (site_mail x) w"

definition mail_off :: "'h site \<Rightarrow> 'h world \<Rightarrow> string option" where
  "mail_off x w = (if mail_enabled (site_mails x w) then None else Some (mail_reason (site_mails x w)))"

definition health :: "string \<Rightarrow> 'h handler" where
  "health version c w = (ok_reply [(''ok'', JBool True), (''version'', JStr version)], w)"

subsection \<open>The rules of the blueprints\<close>

text \<open>Method, rule and view; a view takes the texts its rule captures.\<close>

type_synonym 'h route = "string \<times> string \<times> (string list \<Rightarrow> 'h handler)"

definition url_number :: "string list \<Rightarrow> int" where
  "url_number a = int (digits_val (hd a))"

definition integrations_routes :: "'h env \<Rightarrow> 'h site \<Rightarrow> 'h route list" where
  "integrations_routes e x =
    [(''GET'', ''/api/admin/webhooks'', \<lambda>a. admin_list_webhooks e),
     (''POST'', ''/api/admin/webhooks'', \<lambda>a. admin_create_webhook e),
     (''PUT'', ''/api/admin/webhooks/<int:webhook_id>'', \<lambda>a. admin_update_webhook e (url_number a)),
     (''DELETE'', ''/api/admin/webhooks/<int:webhook_id>'', \<lambda>a. admin_delete_webhook e (url_number a)),
     (''POST'', ''/api/admin/webhooks/<int:webhook_id>/test'', \<lambda>a c w. admin_test_webhook e (site_mails x w) (url_number a) c w),
     (''GET'', ''/api/admin/slack-config'', \<lambda>a. admin_get_slack_config e),
     (''PUT'', ''/api/admin/slack-config'', \<lambda>a. admin_put_slack_config e),
     (''GET'', ''/api/admin/capabilities'', \<lambda>a. admin_capabilities e),
     (''POST'', ''/api/slack/interact'', \<lambda>a. slack_interact e (site_raw x))]"

definition feedback_routes :: "'h env \<Rightarrow> 'h site \<Rightarrow> 'h route list" where
  "feedback_routes e x =
    [(''POST'', ''/api/feedback'', \<lambda>a. submit_feedback e),
     (''GET'', ''/api/admin/feedback'', \<lambda>a. admin_list_feedback e),
     (''PUT'', ''/api/admin/feedback/<int:feedback_id>'', \<lambda>a. admin_update_feedback e (url_number a)),
     (''DELETE'', ''/api/admin/feedback/<int:feedback_id>'', \<lambda>a. admin_delete_feedback e (url_number a))]"

definition auth_routes :: "'h env \<Rightarrow> 'h site \<Rightarrow> 'h route list" where
  "auth_routes e x =
    [(''GET'', ''/api/health'', \<lambda>a. health (site_version x)),
     (''GET'', ''/api/auth/info'', \<lambda>a. auth_info e),
     (''POST'', ''/api/auth/login'', \<lambda>a. auth_login e),
     (''POST'', ''/api/auth/logout'', \<lambda>a. auth_logout),
     (''POST'', ''/api/auth/register'', \<lambda>a. auth_register e),
     (''GET'', ''/api/admin/auth-settings'', \<lambda>a. admin_get_auth_settings e),
     (''PUT'', ''/api/admin/auth-settings'', \<lambda>a. admin_set_auth_settings e),
     (''POST'', ''/api/admin/users/<path:user_dn>/approve'', \<lambda>a. admin_approve_user e (hd a)),
     (''GET'', ''/api/whoami'', \<lambda>a. whoami e),
     (''GET'', ''/api/session'', \<lambda>a. session_info e),
     (''POST'', ''/api/session/end'', \<lambda>a. session_end e)]"

definition jobs_routes :: "'h env \<Rightarrow> 'h site \<Rightarrow> 'h route list" where
  "jobs_routes e x =
    [(''GET'', ''/api/jobs/hosts'', \<lambda>a. list_job_hosts e),
     (''GET'', ''/api/jobs'', \<lambda>a. list_jobs e),
     (''GET'', ''/api/jobs/<job_id>'', \<lambda>a. get_job e (hd a)),
     (''GET'', ''/api/jobs/<job_id>/csr'', \<lambda>a. get_job_csr e (hd a)),
     (''GET'', ''/api/jobs/<job_id>/cert'', \<lambda>a. get_job_cert e (hd a)),
     (''POST'', ''/api/jobs/<job_id>/cert.p12'', \<lambda>a. get_job_cert_p12 e (hd a)),
     (''PUT'', ''/api/jobs/<job_id>/group'', \<lambda>a. update_job_group e (hd a)),
     (''GET'', ''/api/jobs/<job_id>/key'', \<lambda>a. get_job_key e (hd a)),
     (''POST'', ''/api/jobs/<job_id>/upload-cert'', \<lambda>a. upload_cert e (hd a)),
     (''POST'', ''/api/jobs/<job_id>/cancel'', \<lambda>a. cancel_job e (hd a)),
     (''POST'', ''/api/jobs/<job_id>/renew'', \<lambda>a. renew_job e (hd a)),
     (''GET'', ''/api/jobs/export.csv'', \<lambda>a. export_jobs_csv e),
     (''GET'', ''/api/signing-queue/csrs.zip'', \<lambda>a. signing_queue_zip e (site_zip x)),
     (''POST'', ''/api/jobs/bulk-cancel'', \<lambda>a. bulk_cancel_jobs e),
     (''POST'', ''/api/jobs/<job_id>/mark-failed'', \<lambda>a. mark_failed e (hd a)),
     (''GET'', ''/api/jobs/<job_id>/csr-info'', \<lambda>a. get_job_csr_info e (hd a)),
     (''GET'', ''/api/jobs/<job_id>/cert-info'', \<lambda>a. get_job_cert_info e (hd a))]"

definition requests_routes :: "'h env \<Rightarrow> 'h site \<Rightarrow> 'h route list" where
  "requests_routes e x =
    [(''GET'', ''/api/rhel/certlist'', \<lambda>a. get_certlist_rhel e),
     (''POST'', ''/api/rhel/certlist'', \<lambda>a. put_certlist_rhel e),
     (''POST'', ''/api/rhel/generate'', \<lambda>a. generate_rhel e),
     (''POST'', ''/api/external/submit'', \<lambda>a. submit_external e),
     (''GET'', ''/api/rhel/keys'', \<lambda>a. list_session_keys e),
     (''GET'', ''/api/rhel/keys/<name>'', \<lambda>a. fetch_key e (hd a))]"

definition groups_routes :: "'h env \<Rightarrow> 'h site \<Rightarrow> 'h route list" where
  "groups_routes e x =
    [(''PUT'', ''/api/admin/groups/<int:group_id>/members/role'', \<lambda>a. admin_set_member_role e (url_number a)),
     (''GET'', ''/api/my-groups'', \<lambda>a. my_groups e),
     (''POST'', ''/api/groups/<int:group_id>/members'', \<lambda>a. group_owner_add_member e (url_number a)),
     (''DELETE'', ''/api/groups/<int:group_id>/members'', \<lambda>a. group_owner_remove_member e (url_number a)),
     (''PUT'', ''/api/groups/<int:group_id>/members/role'', \<lambda>a. group_owner_set_member_role e (url_number a))]"

definition me_routes :: "'h env \<Rightarrow> 'h site \<Rightarrow> 'h route list" where
  "me_routes e x =
    [(''GET'', ''/api/me'', \<lambda>a. get_me e (site_version x)),
     (''PUT'', ''/api/me/prefs'', \<lambda>a. put_me_prefs e)]"

definition admin_routes :: "'h env \<Rightarrow> 'h site \<Rightarrow> 'h route list" where
  "admin_routes e x =
    [(''GET'', ''/api/admin/users'', \<lambda>a. admin_list_users e),
     (''PUT'', ''/api/admin/users'', \<lambda>a. admin_update_user e),
     (''POST'', ''/api/admin/users/set-password'', \<lambda>a. admin_set_password e),
     (''POST'', ''/api/admin/users'', \<lambda>a. admin_create_user e),
     (''DELETE'', ''/api/admin/users'', \<lambda>a. admin_delete_user e),
     (''DELETE'', ''/api/admin/jobs/<job_id>'', \<lambda>a. admin_delete_job e (hd a)),
     (''POST'', ''/api/admin/jobs/bulk-delete'', \<lambda>a. admin_bulk_delete_jobs e),
     (''GET'', ''/api/admin/orphans/keys'', \<lambda>a. admin_list_orphan_keys e),
     (''DELETE'', ''/api/admin/orphans/keys/<name>'', \<lambda>a. admin_delete_orphan_key e (hd a)),
     (''POST'', ''/api/admin/keys/migrate-to-vault'', \<lambda>a. admin_migrate_keys_to_vault e),
     (''GET'', ''/api/admin/orphans/certs'', \<lambda>a. admin_list_orphan_certs (site_certs x) e),
     (''DELETE'', ''/api/admin/orphans/certs/<name>'', \<lambda>a. admin_delete_orphan_cert e (hd a)),
     (''GET'', ''/api/admin/stats'', \<lambda>a c w. admin_stats e (site_db_path x) (site_db_size x) (site_mails x w) c w),
     (''GET'', ''/api/me/groups'', \<lambda>a. get_my_groups e),
     (''GET'', ''/api/templates'', \<lambda>a. list_templates e),
     (''POST'', ''/api/templates'', \<lambda>a. create_template e),
     (''PUT'', ''/api/admin/templates/<int:template_id>/signing'', \<lambda>a. admin_set_template_signing e (url_number a)),
     (''GET'', ''/api/admin/csr-subject'', \<lambda>a. get_csr_subject e),
     (''PUT'', ''/api/admin/csr-subject'', \<lambda>a. put_csr_subject e),
     (''PUT'', ''/api/admin/csr-subject/profile'', \<lambda>a. put_csr_subject_profile e),
     (''DELETE'', ''/api/admin/csr-subject/profile/<slug>'', \<lambda>a. delete_csr_subject_profile e (hd a)),
     (''GET'', ''/api/admin/license'', \<lambda>a. get_license e),
     (''PUT'', ''/api/admin/license'', \<lambda>a. put_license e),
     (''DELETE'', ''/api/admin/license'', \<lambda>a. delete_license e),
     (''DELETE'', ''/api/templates/<int:template_id>'', \<lambda>a. delete_template e (url_number a)),
     (''DELETE'', ''/api/admin/templates/<int:template_id>'', \<lambda>a. admin_delete_template e (url_number a)),
     (''POST'', ''/api/admin/run-expiry-warnings'', \<lambda>a. admin_run_expiry_warnings e),
     (''POST'', ''/api/admin/run-auto-renew'', \<lambda>a. admin_run_auto_renew e),
     (''GET'', ''/api/admin/audit'', \<lambda>a. admin_audit e),
     (''GET'', ''/api/fleet-certs'', \<lambda>a. list_fleet_certs e),
     (''DELETE'', ''/api/fleet-certs/<int:cert_id>'', \<lambda>a. delete_fleet_cert e (url_number a)),
     (''GET'', ''/api/admin/database'', \<lambda>a. admin_get_database e (site_db x) (site_driver x)),
     (''POST'', ''/api/admin/database/test'', \<lambda>a. admin_test_database e (site_driver x) (site_db_probe x)),
     (''GET'', ''/api/admin/email-config'', \<lambda>a. admin_get_email_config e (site_mail x)),
     (''PUT'', ''/api/admin/email-config'', \<lambda>a. admin_put_email_config e (site_mail x)),
     (''GET'', ''/api/admin/groups'', \<lambda>a. admin_list_groups e),
     (''POST'', ''/api/admin/groups'', \<lambda>a. admin_create_group e),
     (''PUT'', ''/api/admin/groups/<int:group_id>'', \<lambda>a. admin_update_group e (url_number a)),
     (''DELETE'', ''/api/admin/groups/<int:group_id>'', \<lambda>a. admin_delete_group e (url_number a)),
     (''GET'', ''/api/admin/groups/<int:group_id>/members'', \<lambda>a. admin_group_members e (url_number a)),
     (''POST'', ''/api/admin/groups/<int:group_id>/members'', \<lambda>a. admin_group_add_member e (url_number a)),
     (''DELETE'', ''/api/admin/groups/<int:group_id>/members'', \<lambda>a. admin_group_remove_member e (url_number a)),
     (''POST'', ''/api/admin/test-email'', \<lambda>a c w. admin_test_email e (mail_off x w) c w),
     (''GET'', ''/api/admin/diagnostics'', \<lambda>a c w. admin_diagnostics e (site_probes x) (site_mails x w) c w),
     (''GET'', ''/api/admin/support-bundle'', \<lambda>a c w. admin_support_bundle e (site_platform x) (site_probes x) (site_mails x w) (site_show x) (site_keys x) (site_version x) (site_zip x) c w)]"

definition signing_routes :: "'h env \<Rightarrow> 'h site \<Rightarrow> 'h route list" where
  "signing_routes e x =
    [(''POST'', ''/api/jobs/<job_id>/sign'', \<lambda>a. sign_job e (hd a)),
     (''GET'', ''/api/jobs/<job_id>/sign-options'', \<lambda>a. sign_options e (hd a)),
     (''POST'', ''/api/jobs/<job_id>/revoke'', \<lambda>a. revoke_job e (hd a)),
     (''GET'', ''/api/admin/signing-config'', \<lambda>a. get_signing_config e),
     (''PUT'', ''/api/admin/signing-config'', \<lambda>a. put_signing_config e),
     (''POST'', ''/api/admin/signing-config/test'', \<lambda>a. test_signing_config e (site_ca_probe x))]"

definition truststore_routes :: "'h env \<Rightarrow> 'h site \<Rightarrow> 'h route list" where
  "truststore_routes e x =
    [(''GET'', ''/api/admin/truststore'', \<lambda>a. ts_list e),
     (''POST'', ''/api/admin/truststore/upload'', \<lambda>a. ts_upload e),
     (''POST'', ''/api/admin/truststore/<int:cert_id>/enabled'', \<lambda>a. ts_set_enabled e (url_number a)),
     (''DELETE'', ''/api/admin/truststore/<int:cert_id>'', \<lambda>a. ts_delete e (url_number a)),
     (''GET'', ''/api/admin/truststore/bundle'', \<lambda>a. ts_download_bundle e),
     (''POST'', ''/api/admin/truststore/install-local'', \<lambda>a. ts_install_local e),
     (''POST'', ''/api/admin/truststore/targets'', \<lambda>a. ts_add_target e),
     (''DELETE'', ''/api/admin/truststore/targets/<int:target_id>'', \<lambda>a. ts_del_target e (url_number a)),
     (''POST'', ''/api/admin/truststore/push'', \<lambda>a. ts_push e),
     (''POST'', ''/api/admin/truststore/pull-token'', \<lambda>a. ts_pull_token e),
     (''GET'', ''/api/truststore/bundle/<token>'', \<lambda>a. ts_pull_bundle e (hd a))]"

text \<open>In the order of registration.\<close>

definition api_routes :: "'h env \<Rightarrow> 'h site \<Rightarrow> 'h route list" where
  "api_routes e x =
     integrations_routes e x @ feedback_routes e x @ auth_routes e x @ jobs_routes e x @ requests_routes e x
     @ groups_routes e x @ me_routes e x @ admin_routes e x @ signing_routes e x @ truststore_routes e x"

subsection \<open>Rules and paths\<close>

datatype piece = Lit string | Seg | Num | Rest

definition piece_of :: "string \<Rightarrow> piece" where
  "piece_of t =
     (if starts_with ''<int:'' t then Num else if starts_with ''<path:'' t then Rest
      else if starts_with ''<'' t then Seg else Lit t)"

definition pieces :: "string \<Rightarrow> piece list" where
  "pieces rule = map piece_of (split_on (CHR ''/'') rule)"

fun first_of :: "('a \<Rightarrow> 'b option) \<Rightarrow> 'a list \<Rightarrow> 'b option" where
  "first_of f [] = None"
| "first_of f (x # xs) = (case f x of Some y \<Rightarrow> Some y | None \<Rightarrow> first_of f xs)"

text \<open>What a rule captures of a path, if it fits.\<close>

fun fits :: "piece list \<Rightarrow> string list \<Rightarrow> string list option" where
  "fits [] [] = Some []"
| "fits (Lit s # ps) (t # ts) = (if s = t then fits ps ts else None)"
| "fits (Seg # ps) (t # ts) = (if t = [] then None else map_option ((#) t) (fits ps ts))"
| "fits (Num # ps) (t # ts) = (if t = [] \<or> \<not> list_all is_digit t then None else map_option ((#) t) (fits ps ts))"
| "fits (Rest # ps) (t # ts) =
     (if t = [] then None
      else first_of (\<lambda>n. map_option ((#) (join ''/'' (t # take n ts))) (fits ps (drop n ts))) [0..<Suc (length ts)])"
| "fits ps ts = None"

definition rule_fits :: "string \<Rightarrow> string \<Rightarrow> string list option" where
  "rule_fits rule path = fits (pieces rule) (split_on (CHR ''/'') path)"

fun literal :: "piece \<Rightarrow> bool" where
  "literal (Lit s) = True"
| "literal p = False"

definition static_rule :: "string \<Rightarrow> bool" where
  "static_rule rule = list_all literal (pieces rule)"

definition route_for :: "'h route list \<Rightarrow> string \<Rightarrow> string \<Rightarrow> 'h handler option" where
  "route_for rs verb path =
     (let ms = filter (\<lambda>(v, rule, view). v = verb \<and> rule_fits rule path \<noteq> None) rs in
      case filter (\<lambda>(v, rule, view). static_rule rule) ms @ ms of
        [] \<Rightarrow> None
      | (v, rule, view) # _ \<Rightarrow> Some (view (the (rule_fits rule path))))"

definition serve_request :: "'h env \<Rightarrow> 'h site \<Rightarrow> string \<Rightarrow> 'h handler" where
  "serve_request e x path c w =
     (case route_for (api_routes e x) (if c_method c = ''HEAD'' then ''GET'' else c_method c) path of
        Some view \<Rightarrow> view c w
      | None \<Rightarrow>
          if list_all (\<lambda>(v, rule, view). rule_fits rule path = None) (api_routes e x) then abort e c 404 w
          else if c_method c = ''OPTIONS'' then (reply 200 JNull, w)
          else abort e c 405 w)"

definition wsgi :: "'h env \<Rightarrow> 'h site \<Rightarrow> string \<Rightarrow> 'h handler" where
  "wsgi e x path c w = (case before_request e c w of (c1, w1) \<Rightarrow> serve_request e x path c1 w1)"

subsection \<open>What a guard lets through\<close>

definition refused :: "'h world \<Rightarrow> response \<times> 'h world \<Rightarrow> bool" where
  "refused w r \<longleftrightarrow> status_code (fst r) \<in> {403, 500} \<and> untouched w (snd r)"

definition user_answer :: "'h env \<Rightarrow> ctx \<Rightarrow> 'h world \<Rightarrow> response \<times> 'h world \<Rightarrow> bool" where
  "user_answer e c w r \<longleftrightarrow> (\<exists>c' w'. passed e c w c' w') \<or> refused w r"

definition admin_answer :: "'h env \<Rightarrow> ctx \<Rightarrow> 'h world \<Rightarrow> response \<times> 'h world \<Rightarrow> bool" where
  "admin_answer e c w r \<longleftrightarrow> (\<exists>c' w'. passed e c w c' w' \<and> is_admin c') \<or> refused w r"

definition same_site :: "ctx \<Rightarrow> bool" where
  "same_site c \<longleftrightarrow>
     c_method c \<notin> {''POST'', ''PUT'', ''DELETE'', ''PATCH''} \<or> c_headers c ''X-Requested-With'' = Some ''certheim''"

definition csrf_answer :: "ctx \<Rightarrow> 'h world \<Rightarrow> response \<times> 'h world \<Rightarrow> bool" where
  "csrf_answer c w r \<longleftrightarrow> same_site c \<or> refused w r"

lemma passed_frame: "passed e c w c' w' \<Longrightarrow> untouched w w' \<and> same_site c' = same_site c"
  by (auto simp: passed_def untouched_def same_site_def)

lemma refused_deny: "untouched w w' \<Longrightarrow> refused w (deny e c n why x w')"
  by (simp add: refused_def untouched_def)

lemma guard_answer: "(\<exists>c' w'. passed e c w c' w' \<and> guard_user e n k c w = k c' w') \<or> refused w (guard_user e n k c w)"
  unfolding refused_def by (rule guard_user_cases)

lemma user_answerI: "h = require_auth e n k \<Longrightarrow> user_answer e c w (h c w)"
  using guard_answer [of e c w n k] by (auto simp: user_answer_def require_auth_def)

lemma admin_answerI:
  assumes "h = require_admin e n k"
  shows "admin_answer e c w (h c w)"
proof -
  let ?k = "\<lambda>c w. if is_admin c then k c w else deny e c n ''deny_not_admin'' [(''dn'', take 128 (me c))] w"
  have h: "h c w = guard_user e n ?k c w" by (simp add: assms require_admin_def)
  from guard_answer [of e c w n ?k] show ?thesis
  proof (elim disjE exE conjE)
    fix c' w' assume p: "passed e c w c' w'" and r: "guard_user e n ?k c w = ?k c' w'"
    have "\<not> is_admin c' \<Longrightarrow> refused w (h c w)"
      using passed_frame [OF p] by (simp add: h r refused_deny)
    then show ?thesis using p by (auto simp: admin_answer_def)
  qed (simp add: admin_answer_def h)
qed

lemma admin_answer_user: "admin_answer e c w r \<Longrightarrow> user_answer e c w r"
  by (auto simp: admin_answer_def user_answer_def)

lemma csrf_deny: "\<not> same_site c \<Longrightarrow> untouched w w' \<Longrightarrow> refused w (require_csrf e m k c w')"
  using refused_deny by (auto simp: require_csrf_def same_site_def)

lemma csrf_passed: "passed e c w c' w' \<Longrightarrow> same_site c \<or> refused w (require_csrf e m k c' w')"
  using passed_frame csrf_deny by metis

lemma csrf_userI:
  assumes "h = require_auth e n (require_csrf e m k)"
  shows "csrf_answer c w (h c w)"
proof -
  have "h c w = guard_user e n (require_csrf e m k) c w" by (simp add: assms require_auth_def)
  with guard_answer [of e c w n "require_csrf e m k"] csrf_passed [of e c w] show ?thesis
    unfolding csrf_answer_def by metis
qed

lemma csrf_adminI:
  assumes "h = require_admin e n (require_csrf e m k)"
  shows "csrf_answer c w (h c w)"
proof -
  let ?k = "\<lambda>c w. if is_admin c then require_csrf e m k c w else deny e c n ''deny_not_admin'' [(''dn'', take 128 (me c))] w"
  have h: "h c w = guard_user e n ?k c w" by (simp add: assms require_admin_def)
  have "same_site c \<or> refused w (?k c' w')" if "passed e c w c' w'" for c' w'
    using csrf_passed [OF that] passed_frame [OF that] by (auto simp: refused_deny)
  with guard_answer [of e c w n ?k] show ?thesis
    unfolding csrf_answer_def h by (elim disjE exE conjE) (simp_all only: HOL.simp_thms)
qed

lemmas admin_readers =
  admin_list_webhooks_def admin_get_slack_config_def admin_capabilities_def admin_list_feedback_def
  admin_get_auth_settings_def admin_list_users_def admin_list_orphan_keys_def admin_list_orphan_certs_def
  admin_stats_def get_csr_subject_def get_license_def admin_audit_def admin_get_database_def
  admin_get_email_config_def admin_list_groups_def admin_group_members_def admin_diagnostics_def
  admin_support_bundle_def get_signing_config_def ts_list_def ts_download_bundle_def

lemmas admin_writers =
  admin_create_webhook_def admin_update_webhook_def admin_delete_webhook_def admin_test_webhook_def
  admin_put_slack_config_def admin_update_feedback_def admin_delete_feedback_def admin_set_auth_settings_def
  admin_approve_user_def admin_set_member_role_def admin_update_user_def admin_set_password_def
  admin_create_user_def admin_delete_user_def admin_delete_job_def admin_bulk_delete_jobs_def
  admin_delete_orphan_key_def admin_migrate_keys_to_vault_def admin_delete_orphan_cert_def
  admin_set_template_signing_def put_csr_subject_def put_csr_subject_profile_def delete_csr_subject_profile_def
  put_license_def delete_license_def admin_delete_template_def admin_run_expiry_warnings_def
  admin_run_auto_renew_def delete_fleet_cert_def admin_test_database_def admin_put_email_config_def
  admin_create_group_def admin_update_group_def admin_delete_group_def admin_group_add_member_def
  admin_group_remove_member_def admin_test_email_def put_signing_config_def test_signing_config_def ts_upload_def
  ts_set_enabled_def ts_delete_def ts_install_local_def ts_add_target_def ts_del_target_def ts_push_def
  ts_pull_token_def

lemmas user_readers =
  whoami_def session_info_def list_job_hosts_def list_jobs_def get_job_def get_job_csr_def get_job_cert_def
  get_job_key_def export_jobs_csv_def signing_queue_zip_def get_job_csr_info_def get_job_cert_info_def
  get_certlist_rhel_def list_session_keys_def fetch_key_def my_groups_def get_me_def get_my_groups_def
  list_templates_def list_fleet_certs_def sign_options_def

lemmas user_writers =
  submit_feedback_def session_end_def get_job_cert_p12_def update_job_group_def upload_cert_def cancel_job_def
  renew_job_def bulk_cancel_jobs_def mark_failed_def put_certlist_rhel_def generate_rhel_def submit_external_def
  group_owner_add_member_def group_owner_remove_member_def group_owner_set_member_role_def put_me_prefs_def
  create_template_def delete_template_def sign_job_def revoke_job_def


lemmas admin_answers = admin_readers [THEN admin_answerI] admin_writers [THEN admin_answerI]
lemmas user_answers = user_readers [THEN user_answerI] user_writers [THEN user_answerI]
lemmas csrf_answers = admin_writers [THEN csrf_adminI] user_writers [THEN csrf_userI]

subsection \<open>Every rule has its guards\<close>

definition OPEN_RULES :: "string list" where
  "OPEN_RULES =
    [''/api/health'', ''/api/auth/info'', ''/api/auth/login'', ''/api/auth/logout'', ''/api/auth/register'',
     ''/api/slack/interact'', ''/api/truststore/bundle/<token>'']"

definition admin_area :: "string \<Rightarrow> bool" where
  "admin_area rule \<longleftrightarrow> take 3 (pieces rule) = [Lit [], Lit ''api'', Lit ''admin'']"

definition guarded_route :: "'h env \<Rightarrow> 'h route \<Rightarrow> bool" where
  "guarded_route e r \<longleftrightarrow>
     (case r of (v, rule, view) \<Rightarrow>
        (admin_area rule \<longrightarrow> (\<forall>a c w. admin_answer e c w (view a c w)))
        \<and> (rule \<notin> set OPEN_RULES \<longrightarrow> (\<forall>a c w. user_answer e c w (view a c w)))
        \<and> (v \<noteq> ''GET'' \<and> rule \<notin> set OPEN_RULES \<longrightarrow> (\<forall>a c w. csrf_answer c w (view a c w))))"

lemma admin_reader:
  "(\<And>a c w. admin_answer e c w (view a c w)) \<Longrightarrow> guarded_route e (''GET'', rule, view)"
  by (simp add: guarded_route_def admin_answer_user)

lemma admin_writer:
  "(\<And>a c w. admin_answer e c w (view a c w)) \<Longrightarrow> (\<And>a c w. csrf_answer c w (view a c w)) \<Longrightarrow> guarded_route e (v, rule, view)"
  by (simp add: guarded_route_def admin_answer_user)

lemma user_reader:
  "\<not> admin_area rule \<Longrightarrow> (\<And>a c w. user_answer e c w (view a c w)) \<Longrightarrow> guarded_route e (''GET'', rule, view)"
  by (simp add: guarded_route_def)

lemma user_writer:
  "\<not> admin_area rule \<Longrightarrow> (\<And>a c w. user_answer e c w (view a c w)) \<Longrightarrow> (\<And>a c w. csrf_answer c w (view a c w)) \<Longrightarrow>
   guarded_route e (v, rule, view)"
  by (simp add: guarded_route_def)

lemma open_route: "\<not> admin_area rule \<Longrightarrow> rule \<in> set OPEN_RULES \<Longrightarrow> guarded_route e (v, rule, view)"
  by (simp add: guarded_route_def)

lemmas blueprints =
  integrations_routes_def feedback_routes_def auth_routes_def jobs_routes_def requests_routes_def groups_routes_def
  me_routes_def admin_routes_def signing_routes_def truststore_routes_def

lemma api_guarded: "list_all (guarded_route e) (api_routes e x)"
  unfolding api_routes_def blueprints append.simps list.pred_inject
  by (intro conjI list.pred_inject(1);
      ((rule admin_reader, rule admin_answers) | (rule admin_writer, rule admin_answers, rule csrf_answers)
       | (rule user_reader, code_simp, rule user_answers) | (rule user_writer, code_simp, rule user_answers, rule csrf_answers)
       | (rule open_route, code_simp, code_simp)))

lemma api_literal: "list_all (\<lambda>(v, rule, view). list_all literal (take 3 (pieces rule)) \<and> 3 \<le> length (pieces rule)) (api_routes e x)"
  unfolding api_routes_def blueprints append.simps list.pred_inject prod.case
  by (intro conjI list.pred_inject(1); code_simp)

subsection \<open>From rules to requests\<close>

lemma route_for_SomeD:
  "route_for rs verb path = Some h \<Longrightarrow> \<exists>rule view a. (verb, rule, view) \<in> set rs \<and> rule_fits rule path = Some a \<and> h = view a"
proof -
  let ?ms = "filter (\<lambda>(v, rule, view). v = verb \<and> rule_fits rule path \<noteq> None) rs"
  let ?picked = "filter (\<lambda>(v, rule, view). static_rule rule) ?ms @ ?ms"
  assume "route_for rs verb path = Some h"
  then obtain v rule view rest where "?picked = (v, rule, view) # rest" "h = view (the (rule_fits rule path))"
    by (auto simp: route_for_def Let_def split: list.splits)
  then have "(v, rule, view) \<in> set ?picked" by (simp only: list.set_intros)
  then have "(v, rule, view) \<in> set ?ms" by auto
  then have "(verb, rule, view) \<in> set rs \<and> rule_fits rule path = Some (the (rule_fits rule path)) \<and> h = view (the (rule_fits rule path))"
    using \<open>h = view (the (rule_fits rule path))\<close> by auto
  then show ?thesis by blast
qed

lemma fits_literal:
  "fits ps ts = Some a \<Longrightarrow> n \<le> length ps \<Longrightarrow> list_all literal (take n ps) \<Longrightarrow> take n ps = map Lit (take n ts)"
proof (induction n arbitrary: ps ts)
  case (Suc n)
  then obtain s ps' where ps: "ps = Lit s # ps'" by (cases ps; cases "hd ps") auto
  with Suc.prems obtain ts' where ts: "ts = s # ts'" "fits ps' ts' = Some a"
    by (cases ts) (auto split: if_splits)
  then show ?case using Suc.prems Suc.IH [OF ts(2)] by (simp add: ps)
qed simp

lemma admin_path: "starts_with ''/api/admin/'' path \<Longrightarrow> take 3 (split_on (CHR ''/'') path) = [[], ''api'', ''admin'']"
proof -
  assume "starts_with ''/api/admin/'' path"
  then obtain rest where "path = ''/api/admin/'' @ rest" by (auto simp: starts_with_iff)
  then have "path = [] @ CHR ''/'' # ''api'' @ CHR ''/'' # ''admin'' @ CHR ''/'' # rest" by simp
  then show ?thesis by (simp only: split_on_append_sep) simp
qed

text \<open>What a request ends in: a guarded view, or an answer of the router.\<close>

definition unrouted :: "ctx \<Rightarrow> 'h world \<Rightarrow> response \<times> 'h world \<Rightarrow> bool" where
  "unrouted c w r \<longleftrightarrow> (status_code (fst r) \<in> {404, 405} \<or> c_method c = ''OPTIONS'') \<and> untouched w (snd r)"

lemma served_cases:
  obtains (view) rule view a where "guarded_route e (if c_method c = ''HEAD'' then ''GET'' else c_method c, rule, view)"
      "rule_fits rule path = Some a" "serve_request e x path c w = view a c w"
      "starts_with ''/api/admin/'' path \<longrightarrow> admin_area rule"
  | (none) "unrouted c w (serve_request e x path c w)"
proof (cases "route_for (api_routes e x) (if c_method c = ''HEAD'' then ''GET'' else c_method c) path")
  case None
  then show ?thesis by (intro none) (simp add: serve_request_def unrouted_def untouched_def abort_def failure_def)
next
  case (Some h)
  from route_for_SomeD [OF Some] obtain rule view a where
    r: "(if c_method c = ''HEAD'' then ''GET'' else c_method c, rule, view) \<in> set (api_routes e x)" "rule_fits rule path = Some a" "h = view a"
    by blast
  have "starts_with ''/api/admin/'' path \<longrightarrow> admin_area rule"
    using fits_literal [of "pieces rule" _ a 3] r api_literal [of e x] admin_path [of path]
    by (fastforce simp: rule_fits_def list_all_iff admin_area_def)
  moreover have "serve_request e x path c w = view a c w" by (simp add: serve_request_def Some r(3))
  ultimately show ?thesis using api_guarded [of e x] r by (intro view) (auto simp: list_all_iff)
qed

text \<open>
  C5: the administration area is closed, for every path and method. Whatever a request for a path below \<open>/api/admin/\<close>
  says, either its caller was resolved to an active administrator (in local mode through a password session), or the answer
  is 403, 404, 405 or 500 (or that to OPTIONS), and jobs, groups, memberships and both kinds of sessions are what they were
  when the caller had been resolved.
\<close>

theorem admin_area_closed:
  assumes "starts_with ''/api/admin/'' path" "before_request e c w = (c1, w1)"
  shows "(\<exists>c' w'. passed e c1 w1 c' w' \<and> is_admin c') \<or> refused w1 (wsgi e x path c w) \<or> unrouted c w1 (wsgi e x path c w)"
proof -
  have r: "wsgi e x path c w = serve_request e x path c1 w1" by (simp add: wsgi_def assms(2))
  have m: "c_method c1 = c_method c" using assms(2) by (auto simp: before_request_def split: prod.splits)
  show ?thesis
  proof (cases rule: served_cases [of e c1 path x w1])
    case (view rule view a)
    then have "admin_answer e c1 w1 (view a c1 w1)" using assms(1) by (simp add: guarded_route_def)
    then show ?thesis by (auto simp: r view(3) admin_answer_def)
  next
    case none
    then show ?thesis by (simp add: r unrouted_def m)
  qed
qed

definition local_world :: "unit world" where
  "local_world = set_setting ''auth_mode'' ''local'' sample_world"

lemma local_world_mode: "auth_mode e local_world = (''local'', local_world)"
  by (simp add: auth_mode_def local_world_def Let_def)

lemma stranger: "before_request e sample_ctx local_world = (sample_ctx\<lparr>c_identity := Some (anonymous sample_ctx), c_user := None\<rparr>, local_world)"
  by (simp add: before_request_def resolve_identity_def local_world_mode local_identity_def session_user_dn_def load_user_def
      sample_ctx_def anonymous_def set_opt_def) (simp add: local_world_def sample_world_def set_setting_def row_by_def)

lemma stranger_stays_out: "\<not> passed e (sample_ctx\<lparr>c_identity := Some (anonymous sample_ctx), c_user := None\<rparr>) local_world c' w'"
  by (simp add: passed_def local_world_mode anonymous_def)

theorem admin_area_closed_witness:
  "\<forall>x. refused local_world (wsgi sample_env x ''/api/admin/users'' sample_ctx local_world)
     \<or> unrouted sample_ctx local_world (wsgi sample_env x ''/api/admin/users'' sample_ctx local_world)"
  using admin_area_closed [of "''/api/admin/users''", OF _ stranger [of sample_env]] stranger_stays_out by auto

text \<open>The paths that need no login.\<close>

definition open_path :: "string \<Rightarrow> bool" where
  "open_path path = list_ex (\<lambda>rule. rule_fits rule path \<noteq> None) OPEN_RULES"

text \<open>
  C6: nothing but seven rules is open, and no other takes a changing request without the anti-forgery header. A request for
  any other path is answered for an active user, with that header if its method is a changing one, or else it is refused (or
  the router's own answer) and jobs, groups, memberships and sessions are untouched.
\<close>

theorem open_paths_only:
  assumes "\<not> open_path path" "before_request e c w = (c1, w1)"
  shows "((\<exists>c' w'. passed e c1 w1 c' w') \<and> same_site c)
     \<or> refused w1 (wsgi e x path c w) \<or> unrouted c w1 (wsgi e x path c w)"
proof -
  have r: "wsgi e x path c w = serve_request e x path c1 w1" by (simp add: wsgi_def assms(2))
  have m: "c_method c1 = c_method c" "c_headers c1 = c_headers c"
    using assms(2) by (auto simp: before_request_def split: prod.splits)
  show ?thesis
  proof (cases rule: served_cases [of e c1 path x w1])
    case (view rule view a)
    then have closed: "rule \<notin> set OPEN_RULES" using assms(1) by (auto simp: open_path_def list_ex_iff)
    have "csrf_answer c1 w1 (view a c1 w1)"
    proof (cases "c_method c1 \<in> {''GET'', ''HEAD''}")
      case True
      then have "same_site c1" by (auto simp: same_site_def)
      then show ?thesis by (simp add: csrf_answer_def)
    next
      case False
      then show ?thesis using view(1) closed by (simp add: guarded_route_def)
    qed
    moreover have "user_answer e c1 w1 (view a c1 w1)" using view(1) closed by (simp add: guarded_route_def)
    moreover have "same_site c1 = same_site c" by (simp add: same_site_def m)
    ultimately show ?thesis by (auto simp: r view(3) user_answer_def csrf_answer_def)
  next
    case none
    then show ?thesis by (simp add: r unrouted_def m)
  qed
qed

theorem open_paths_only_witness:
  "\<forall>x. refused local_world (wsgi sample_env x ''/api/jobs'' sample_ctx local_world)
     \<or> unrouted sample_ctx local_world (wsgi sample_env x ''/api/jobs'' sample_ctx local_world)"
proof -
  have "\<not> open_path ''/api/jobs''" by code_simp
  from open_paths_only [OF this stranger [of sample_env]] stranger_stays_out show ?thesis by blast
qed

subsection \<open>Fixed names before captured ones\<close>

text \<open>
  The rules with a fixed last part win over the one that takes any job identifier there, although they are not registered in
  that order.
\<close>

lemma no_capture:
  assumes "c_method c = ''GET''"
  shows "serve_request e x ''/api/jobs/export.csv'' c w = export_jobs_csv e c w"
proof -
  let ?path = "''/api/jobs/export.csv''"
  have "filter (\<lambda>(v, rule, view). v = ''GET'' \<and> rule_fits rule ?path \<noteq> None) (api_routes e x)
    = [(''GET'', ''/api/jobs/<job_id>'', \<lambda>a. get_job e (hd a)), (''GET'', ''/api/jobs/export.csv'', \<lambda>a. export_jobs_csv e)]"
    unfolding api_routes_def blueprints append.simps
    by (simp add: rule_fits_def pieces_def piece_of_def)
  then show ?thesis using assms
    by (simp add: serve_request_def route_for_def static_rule_def pieces_def piece_of_def)
qed

end
