(* ===== verification/Probes.thy ===== *)
theory Probes
  imports Migrate SupportBundle Startup SigningRoutes
begin

text \<open>
  The edges of the back-end, where it asks its surroundings and has an answer for each way of failing: the settings
  reader handed to a module, a service's state and the way to the internet (\<^verbatim>\<open>capabilities.py\<close>), the trust of a
  TLS connection and the connection fields of a CA (\<^verbatim>\<open>sign.py\<close>), reachability of a URL (\<^verbatim>\<open>diagnostics.py\<close>), the
  parts of the support bundle that may fail, the driver of PostgreSQL (\<^verbatim>\<open>db.py\<close>), the migration's connections and the
  configuration it borrows (\<^verbatim>\<open>db_migrate.py\<close>), the sink of the audit log and the passes of licensed modules that are
  not there (\<^verbatim>\<open>app.py\<close>).
\<close>

subsection \<open>Readers and services\<close>

text \<open>\<^verbatim>\<open>_setting\<close>: no reader configured, an unset key and a failing reader all give the default.\<close>

definition setting_given :: "(string \<Rightarrow> string option result) option \<Rightarrow> string \<Rightarrow> string option \<Rightarrow> string option" where
  "setting_given get k other =
     (case get of
        None \<Rightarrow> other
      | Some g \<Rightarrow> (case g k of Inr (Some v) \<Rightarrow> Some v | _ \<Rightarrow> other))"

text \<open>The result is the return code of the command that asks for the unit's state, or an exception.\<close>

definition unit_active :: "int result \<Rightarrow> bool" where
  "unit_active r = (case r of Inl err \<Rightarrow> False | Inr code \<Rightarrow> code = 0)"

definition EGRESS_HOSTS :: "string list" where
  "EGRESS_HOSTS = [''1.1.1.1'', ''api.slack.com'', ''8.8.8.8'']"

text \<open>Hosts in turn until one connects; also the hosts that were tried.\<close>

fun try_hosts :: "(string \<Rightarrow> bool) \<Rightarrow> string list \<Rightarrow> bool \<times> string list" where
  "try_hosts opens [] = (False, [])"
| "try_hosts opens (h # hs) =
     (if opens h then (True, [h]) else (case try_hosts opens hs of (r, tried) \<Rightarrow> (r, h # tried)))"

definition probe_egress :: "(string \<Rightarrow> bool) \<Rightarrow> bool" where
  "probe_egress opens = fst (try_hosts opens EGRESS_HOSTS)"

lemma try_hosts_result: "fst (try_hosts opens hs) = list_ex opens hs"
  by (induction hs) (auto split: prod.split)

text \<open>No host is tried after one that connected.\<close>

lemma try_hosts_tried: "try_hosts opens hs = (r, tried) \<Longrightarrow> tried = takeWhile (\<lambda>h. \<not> opens h) hs @ take 1 (dropWhile (\<lambda>h. \<not> opens h) hs)"
  by (induction hs arbitrary: tried r) (auto split: if_splits prod.splits)

subsection \<open>Connections\<close>

datatype tls_trust = SystemStore | CaFile string

definition ssl_context :: "'h env \<Rightarrow> getter \<Rightarrow> (string \<Rightarrow> bool) \<Rightarrow> tls_trust" where
  "ssl_context e get is_file =
     (let f = cfg e get ''openbao_ca_file'' ''CERTHEIM_OPENBAO_CA_FILE'' [] in
      if f \<noteq> [] \<and> is_file f then CaFile f else SystemStore)"

definition provider_settings :: "(string \<Rightarrow> string option) option \<Rightarrow> string \<Rightarrow> (string \<times> string) list" where
  "provider_settings get backend =
     map (\<lambda>f. (pf_key f, case get of None \<Rightarrow> [] | Some g \<Rightarrow> or_empty (g (pf_setting f)))) (provider_fields backend)"

text \<open>The managed-DNS options go when their module cannot be imported.\<close>

definition without_cloud_dns :: "bool \<Rightarrow> provider_field \<Rightarrow> provider_field" where
  "without_cloud_dns present f =
     (if \<not> present \<and> pf_key f = ''dns_provider''
      then f\<lparr>pf_options := map_option (filter (\<lambda>opt. opt \<notin> set [''cloudflare'', ''route53'', ''azure''])) (pf_options f)\<rparr>
      else f)"

datatype probe_answer = HttpStatus nat | HttpRefused nat | ProbeFailed string

definition reachable_of :: "probe_answer \<Rightarrow> bool \<times> string" where
  "reachable_of a =
     (case a of
        HttpStatus n \<Rightarrow> (True, ''HTTP '' @ nat_str n)
      | HttpRefused n \<Rightarrow> (True, ''HTTP '' @ nat_str n)
      | ProbeFailed msg \<Rightarrow> (False, take 120 msg))"

subsection \<open>Parts of a bundle\<close>

definition openssl_version :: "'h env \<Rightarrow> string" where
  "openssl_version e = (case openssl e [''version''] [] of None \<Rightarrow> [] | Some (rc, out, err) \<Rightarrow> strip out)"

definition safe_part :: "(string + json) \<Rightarrow> json option \<Rightarrow> json" where
  "safe_part r other =
     (case r of
        Inr v \<Rightarrow> v
      | Inl msg \<Rightarrow> (case other of None \<Rightarrow> JObj [(''error'', JStr (take 200 msg))] | Some d \<Rightarrow> d))"

subsection \<open>Drivers and specifications\<close>

text \<open>What \<open>except\<close> catches under the names of the module, with and without the driver.\<close>

definition error_classes :: "bool \<Rightarrow> string \<Rightarrow> string list" where
  "error_classes driver name = (''sqlite3.'' @ name) # (if driver then [''psycopg.'' @ name] else [])"

definition psycopg_present :: "unit result \<Rightarrow> bool" where
  "psycopg_present loaded = (case loaded of Inl err \<Rightarrow> False | Inr _ \<Rightarrow> True)"

text \<open>Kind, what is connected to, and placeholder.\<close>

definition open_spec :: "string \<Rightarrow> string \<times> string \<times> string" where
  "open_spec spec =
     (if is_sqlite_spec spec then (''sqlite'', drop (length SQLITE_PREFIX) spec, ''?'') else (''postgres'', spec, ''%s''))"

text \<open>
  The schema of the target is created under its own configuration, which also \<open>init\<close> may change, and the old one is put
  back in any case.
\<close>

definition ensure_target_schema ::
  "(db_config \<Rightarrow> 's \<Rightarrow> unit result \<times> db_config \<times> 's) \<Rightarrow> string \<Rightarrow> db_config \<Rightarrow> 's \<Rightarrow> unit result \<times> db_config \<times> 's" where
  "ensure_target_schema init spec saved s = (case init (target_config spec) s of (r, changed, s1) \<Rightarrow> (r, saved, s1))"

subsection \<open>Logging and passes\<close>

datatype audit_sink = Syslog | Stderr

text \<open>With the socket the handler of the log is opened, which may fail.\<close>

definition audit_sink_of :: "bool \<Rightarrow> unit result \<Rightarrow> audit_sink \<times> string" where
  "audit_sink_of socket opened =
     (if socket \<and> (case opened of Inl err \<Rightarrow> False | Inr _ \<Rightarrow> True) then (Syslog, ''certheim[%(process)d]: %(message)s'')
      else (Stderr, ''certheim-audit: %(message)s''))"

definition skipped_pass :: "ctx \<Rightarrow> string \<Rightarrow> 'h world \<Rightarrow> (nat \<times> nat \<times> nat) \<times> 'h world" where
  "skipped_pass c name w = ((0, 0, 0), log_event c name ''skipped_community_build'' [] w)"

text \<open>A pass that is run for a module which is not there changes no job and counts nothing.\<close>

lemma skipped_pass_idle: "fst (skipped_pass c name w) = (0, 0, 0) \<and> w_jobs (snd (skipped_pass c name w)) = w_jobs w"
  by (simp add: skipped_pass_def)

text \<open>Without the managed-DNS module the form offers the internal update only.\<close>

lemma offered_solvers:
  "pf_key f = ''dns_provider'' \<Longrightarrow> pf_options f = Some [''rfc2136'', ''cloudflare'', ''route53'', ''azure''] \<Longrightarrow>
   pf_options (without_cloud_dns False f) = Some [''rfc2136''] \<and> without_cloud_dns True f = f"
  by (simp add: without_cloud_dns_def)

lemma target_schema_restores: "fst (snd (ensure_target_schema init spec saved s)) = saved"
  by (simp add: ensure_target_schema_def split: prod.split)

end
