(* ===== verification/Whole.thy ===== *)
theory Whole
  imports Api JobMachine HookSafety
begin

text \<open>
  The web application over any history of requests: every view of every blueprint, reached through dispatch, keeps the
  certificates of the job table bound to the keys that asked for them. The endpoints of jobs are those of
  \<^theory_text>\<open>JobMachine\<close>; the others leave the job table alone, or change columns that the invariant does not read, or
  delete rows.
\<close>

subsection \<open>The invariant\<close>

definition jobs_ok :: "'h env \<Rightarrow> 'h world \<Rightarrow> bool" where
  "jobs_ok e w \<longleftrightarrow> unique_key j_id (w_jobs w) \<and> (\<forall>j\<in>set (w_jobs w). certified e j)"

interpretation jobinv: world_invariant "jobs_ok e" for e
  by unfold_locales (simp_all add: jobs_ok_def log_event_def log_event_in_tx_def set_setting_def)

lemma steady_keeps: "steady e h \<Longrightarrow> jobinv.keeps e h"
  by (rule jobinv.keepsI) (use moves_certified steadyD moves_refl in \<open>unfold jobs_ok_def, blast\<close>)

definition same_jobs :: "'h handler \<Rightarrow> bool" where
  "same_jobs h \<longleftrightarrow> (\<forall>c w. w_jobs (snd (h c w)) = w_jobs w)"

lemma same_jobsI: "(\<And>c w. w_jobs (snd (h c w)) = w_jobs w) \<Longrightarrow> same_jobs h"
  by (simp add: same_jobs_def)

lemma same_jobsD: "same_jobs h \<Longrightarrow> w_jobs (snd (h c w)) = w_jobs w"
  by (simp add: same_jobs_def)

lemma same_jobs_keeps: "same_jobs h \<Longrightarrow> jobinv.keeps e h"
  by (rule jobinv.keepsI) (simp add: jobs_ok_def same_jobsD)

lemma same_guard: "same_jobs h \<Longrightarrow> same_jobs (guard_user e n h)"
  by (auto simp: same_jobs_def guard_user_def case_prod_beta split: option.split sum.split)

lemma same_auth: "same_jobs h \<Longrightarrow> same_jobs (require_auth e n h)"
  by (simp add: require_auth_def [abs_def] same_guard)

lemma same_admin: "same_jobs h \<Longrightarrow> same_jobs (require_admin e n h)"
  by (unfold require_admin_def, rule same_guard) (simp add: same_jobs_def)

lemma same_csrf: "same_jobs h \<Longrightarrow> same_jobs (require_csrf e n h)"
  by (simp add: same_jobs_def require_csrf_def)

lemmas same_guarded = same_auth same_admin same_csrf

lemma same_attempt [simp]:
  "(\<And>x. w_jobs (snd (k x)) = w_jobs w) \<Longrightarrow> w_jobs (snd (attempt e c r w k)) = w_jobs w"
  by (simp add: attempt_def split: sum.split)

lemma same_payload [simp]:
  "(\<And>x. w_jobs (snd (k x)) = w_jobs w) \<Longrightarrow> w_jobs (snd (with_payload e c w k)) = w_jobs w"
  by (simp add: with_payload_def)

subsection \<open>Helpers that leave the job table alone\<close>

named_theorems job_free \<open>helpers that leave the job table alone\<close>

lemmas job_free_defs = attempt_def with_payload_def refuse_def Let_def case_prod_beta

lemma temp_tries_jobs [job_free]: "w_jobs (snd (temp_tries k n e w)) = w_jobs w"
  by (induction k n e w rule: temp_tries.induct) (simp_all add: Let_def)

lemma gen_temp_jobs [job_free]: "w_jobs (snd (gen_temp_password e w)) = w_jobs w"
  by (simp add: gen_temp_password_def job_free)

lemma store_certs_jobs [job_free]: "w_jobs (snd (store_certs c n t ps r w)) = w_jobs w"
  by (induction c n t ps r w rule: store_certs.induct) (simp_all add: Let_def)

lemma push_ssh_jobs [job_free]: "w_jobs (snd (push_ssh h w)) = w_jobs w"
  by (simp add: push_ssh_def Let_def)

lemma push_all_jobs [job_free]: "w_jobs (snd (push_all now hs r w)) = w_jobs w"
  by (induction now hs r w rule: push_all.induct) (simp, simp add: push_ssh_def Let_def split: if_splits prod.splits)

lemma put_fields_jobs [job_free]: "w_jobs (put_fields e b kvs w) = w_jobs w"
  by (induction e b kvs w rule: put_fields.induct) (simp_all split: option.split)

lemma add_certs_jobs [job_free]: "w_jobs (snd (add_certs e c text n t w)) = w_jobs w"
  by (simp add: add_certs_def Let_def case_prod_beta job_free split: sum.split)

lemma push_targets_jobs [job_free]: "w_jobs (snd (push_targets c h w)) = w_jobs w"
  by (simp add: push_targets_def job_free)

text \<open>Steps end in a response with a state or go on with a state; neither has another job table.\<close>

fun step_jobs :: "(response \<times> 'h world) + 'h world \<Rightarrow> job list" where
  "step_jobs (Inl out) = w_jobs (snd out)"
| "step_jobs (Inr v) = w_jobs v"

definition step_free :: "'h step \<Rightarrow> bool" where
  "step_free s \<longleftrightarrow> (\<forall>w. step_jobs (s w) = w_jobs w)"

lemma steps_free: "list_all step_free ss \<Longrightarrow> step_free (run_steps ss)"
proof (induction ss)
  case (Cons s ss)
  have "step_jobs (run_steps (s # ss) w) = w_jobs w" for w
    using Cons by (cases "s w") (auto simp: step_free_def dest: spec [of _ w])
  then show ?case by (simp add: step_free_def)
qed (simp add: step_free_def)

lemma step_case:
  "step_free s \<Longrightarrow> (\<And>v. w_jobs (snd (k v)) = w_jobs v) \<Longrightarrow>
   w_jobs (snd (case s w of Inl out \<Rightarrow> out | Inr v \<Rightarrow> k v)) = w_jobs w"
  unfolding step_free_def by (drule spec [of _ w]) (cases "s w"; simp)

lemma slack_steps: "step_free (put_slack_enabled p)" "step_free (put_slack_mode e c p)" "step_free (put_slack_secrets e c p ks)"
proof -
  show "step_free (put_slack_enabled p)" by (simp add: step_free_def put_slack_enabled_def)
  have "step_jobs (put_slack_mode e c p w) = w_jobs w" for w
    unfolding put_slack_mode_def by (cases "str_or_empty (jget ''mode'' p)") (simp_all add: Let_def refuse_def)
  then show "step_free (put_slack_mode e c p)" by (simp add: step_free_def)
  have "step_jobs (put_slack_secrets e c p ks w) = w_jobs w" for w
  proof (induction ks arbitrary: w)
    case (Cons kv ks)
    then show ?case by (cases kv; cases "str_or_empty (jget (fst kv) p)") (simp_all add: Let_def)
  qed simp
  then show "step_free (put_slack_secrets e c p ks)" by (simp add: step_free_def)
qed

lemma config_step_free:
  "step_free (put_flag k p)" "step_free (put_provider e b p)" "step_free (put_renew_days p)"
  "step_free (put_key_storage e c p)" "step_free (put_return_once p)" "step_free (put_base_url e c p)"
proof -
  show "step_free (put_flag k p)" "step_free (put_provider e b p)"
    by (simp_all add: step_free_def put_flag_def put_provider_def job_free split: json.split)
  show "step_free (put_renew_days p)"
    unfolding step_free_def put_renew_days_def by (cases "int_of_json (jget ''auto_renew_before_days'' p)") (simp_all add: refuse_def)
  show "step_free (put_key_storage e c p)"
    unfolding step_free_def put_key_storage_def by (cases "str_or_empty (jget ''key_storage'' p)") (simp_all add: Let_def refuse_def)
  show "step_free (put_return_once p)"
    unfolding step_free_def put_return_once_def
    by (cases "int_of_json (jget ''key_return_once_max_ttl'' p)") (simp_all add: Let_def refuse_def)
  show "step_free (put_base_url e c p)"
    unfolding step_free_def put_base_url_def by (cases "str_or_empty (jget ''acme_server_base_url'' p)") simp_all
qed

lemma config_steps: "list_all step_free (put_steps e c b p)"
  by (simp add: put_steps_def config_step_free)

text \<open>The stages of the login settings also carry what they changed.\<close>

fun stage_jobs :: "'h staged \<Rightarrow> job list" where
  "stage_jobs (Inl out) = w_jobs (snd out)"
| "stage_jobs (Inr z) = w_jobs (snd z)"

lemma next_stage_jobs: "stage_jobs r = w_jobs w \<Longrightarrow> (\<And>ch v. stage_jobs (k ch v) = w_jobs v) \<Longrightarrow> stage_jobs (next_stage r k) = w_jobs w"
  by (cases r) (simp_all add: next_stage_def case_prod_beta)

lemma stage_jobs_free [job_free]:
  "stage_jobs (stage_auth_mode e c p ch w) = w_jobs w" "stage_jobs (apply_mtls e m q ch w) = w_jobs w"
  "stage_jobs (stage_domains e p ch w) = w_jobs w" "stage_jobs (stage_flag k p ch w) = w_jobs w"
  by (simp_all add: stage_auth_mode_def apply_mtls_def stage_domains_def stage_flag_def Let_def refuse_def case_prod_beta)

lemma stage_texts_free [job_free]:
  "stage_jobs (stage_banner e c p ch w) = w_jobs w" "stage_jobs (stage_banner_title e c p ch w) = w_jobs w"
  "stage_jobs (stage_banner_text p ch w) = w_jobs w"
  unfolding stage_banner_def stage_banner_title_def stage_banner_text_def
  by (cases "str_or_empty (jget ''login_banner'' p)", simp_all add: Let_def refuse_def)
     (cases "str_or_empty (jget ''login_banner_custom_title'' p)", simp_all add: Let_def split: json.split)

lemma stage_mtls_free [job_free]: "stage_jobs (stage_mtls_mode e c p ch w) = w_jobs w"
  unfolding stage_mtls_mode_def
  by (cases "str_or_empty (jget ''mtls_mode'' p)"; cases "str_or_empty (jget ''mtls_ca_bundle_path'' p)")
     (simp_all add: Let_def refuse_def job_free)

lemma auth_stages_free: "stage_jobs (auth_stages e c p w) = w_jobs w"
  unfolding auth_stages_def by (intro next_stage_jobs stage_jobs_free stage_texts_free stage_mtls_free)

lemma stage_case:
  "stage_jobs r = w_jobs w \<Longrightarrow> (\<And>ch v. w_jobs (snd (k (ch, v))) = w_jobs v) \<Longrightarrow>
   w_jobs (snd (case r of Inl out \<Rightarrow> out | Inr z \<Rightarrow> k z)) = w_jobs w"
  by (cases r) auto

subsection \<open>Views that leave the job table alone\<close>

lemma same_staged: "same_jobs (admin_set_auth_settings e)"
  unfolding admin_set_auth_settings_def with_payload_def
  by (intro same_guarded same_jobsI same_attempt stage_case auth_stages_free) simp_all

lemma same_stepped: "same_jobs (admin_put_slack_config e)" "same_jobs (put_signing_config e)"
proof -
  show "same_jobs (admin_put_slack_config e)"
    unfolding admin_put_slack_config_def put_slack_body_def [abs_def] with_payload_def
    by (intro same_guarded same_jobsI same_attempt step_case steps_free) (simp_all add: slack_steps)
  have "w_jobs (snd (put_config_body e p c w)) = w_jobs w" for p c w
  proof -
    have "w_jobs (snd (case run_steps (put_steps e c b p) (set_setting k x (set_setting k' x' w)) of Inl out \<Rightarrow> out | Inr v \<Rightarrow> f v)) = w_jobs w"
      if "\<And>v. w_jobs (snd (f v)) = w_jobs v" for b k x k' x' and f :: "'a world \<Rightarrow> response \<times> 'a world"
      using step_case [OF steps_free [OF config_steps] that] by simp
    then show ?thesis by (simp add: put_config_body_def attempt_def Let_def refuse_def split: sum.split option.split)
  qed
  then show "same_jobs (put_signing_config e)"
    unfolding put_signing_config_def with_payload_def by (intro same_guarded same_jobsI same_attempt) simp
qed

lemma save_mail_jobs: "w_jobs (snd (save_mail e mx q f c w)) = w_jobs w"
  if "\<And>x v. w_jobs (f x v) = w_jobs v"
proof -
  obtain r m where s: "save_settings e (say_conf mx) (write_refused mx) q (mail_in mx w) = (r, m)" by force
  show ?thesis
  proof (cases r)
    case (Inr ok)
    then show ?thesis
      by (cases ok; cases "fst ok")
         (simp_all add: save_mail_def s settings_reply_def refuse_def Let_def that log_event_def split: sum.split)
  qed (simp add: save_mail_def s Let_def)
qed

lemma put_email_jobs: "w_jobs (snd (put_email_body e mx c w)) = w_jobs w"
  unfolding put_email_body_def Let_def
  by (intro same_payload same_attempt)
     (simp add: refuse_def save_mail_jobs split: json.split option.split)

lemma same_MailConf:
  "same_jobs (admin_get_email_config e mx)" "same_jobs (admin_put_email_config e mx)"
  unfolding admin_get_email_config_def admin_put_email_config_def
  by (intro same_guarded same_jobsI; simp add: settings_reply_def put_email_jobs split: sum.split)+

lemma test_connection_jobs: "w_jobs (snd (test_connection e probe c b w)) = w_jobs w"
  by (simp add: test_connection_def case_prod_beta split: sum.split)

lemma same_SigningRoutes: "same_jobs (get_signing_config e)" "same_jobs (test_signing_config e probe)"
  unfolding get_signing_config_def test_signing_config_def Let_def
  by (intro same_guarded same_jobsI same_payload same_attempt;
      simp add: case_prod_beta test_connection_jobs split: sum.split sign_error.split)+

lemma same_Webhooks:
    "same_jobs (admin_list_webhooks e)" "same_jobs (admin_create_webhook e)" "same_jobs (admin_update_webhook e i)"
  "same_jobs (admin_delete_webhook e i)" "same_jobs (admin_test_webhook e m i)" "same_jobs (admin_capabilities e)"
  unfolding
    admin_list_webhooks_def admin_create_webhook_def admin_update_webhook_def admin_delete_webhook_def
    admin_test_webhook_def admin_capabilities_def
  by ((intro same_guarded same_jobsI,
      simp add: job_free job_free_defs
        create_webhook_body_def checked_def update_webhook_body_def delete_webhook_body_def
        test_webhook_body_def record_call_def
      split: sum.split option.split json.split list.split)[])+

lemma same_Slack:
    "same_jobs (admin_get_slack_config e)"
  unfolding
    admin_get_slack_config_def
  by ((intro same_guarded same_jobsI,
      simp add: job_free job_free_defs

      split: sum.split option.split json.split list.split)[])+

lemma same_Feedback:
    "same_jobs (submit_feedback e)" "same_jobs (admin_list_feedback e)" "same_jobs (admin_update_feedback e i)"
  "same_jobs (admin_delete_feedback e i)" "same_jobs (get_me e (site_version x))" "same_jobs (put_me_prefs e)"
  unfolding
    submit_feedback_def admin_list_feedback_def admin_update_feedback_def admin_delete_feedback_def get_me_def
    put_me_prefs_def
  by ((intro same_guarded same_jobsI,
      simp add: job_free job_free_defs
        submit_feedback_body_def insert_feedback_def mail_admins_def update_feedback_body_def
        delete_feedback_body_def put_me_prefs_body_def
      split: sum.split option.split json.split list.split)[])+

lemma same_Api:
    "same_jobs (health (site_version x))"
  unfolding
    health_def
  by ((intro same_guarded same_jobsI,
      simp add: job_free job_free_defs

      split: sum.split option.split json.split list.split)[])+

lemma same_AuthRoutes:
    "same_jobs (auth_info e)" "same_jobs (auth_login e)" "same_jobs (auth_logout)"
  "same_jobs (auth_register e)" "same_jobs (admin_get_auth_settings e)" "same_jobs (admin_approve_user e t)"
  "same_jobs (whoami e)" "same_jobs (session_info e)" "same_jobs (session_end e)"
  unfolding
    auth_info_def auth_login_def auth_logout_def auth_register_def admin_get_auth_settings_def
    admin_approve_user_def whoami_def session_info_def session_end_def
  by ((intro same_guarded same_jobsI,
      simp add: job_free with_payload_def refuse_def Let_def case_prod_beta
        login_user_def issue_session_def login_failed_def create_local_session_def destroy_local_session_def
        register_checked_def checked_def register_user_def
      split: sum.split option.split json.split list.split)[])+

lemma same_GroupRoutes:
    "same_jobs (admin_set_member_role e i)" "same_jobs (my_groups e)" "same_jobs (group_owner_add_member e i)"
  "same_jobs (group_owner_remove_member e i)" "same_jobs (group_owner_set_member_role e i)"
  unfolding
    admin_set_member_role_def my_groups_def group_owner_add_member_def group_owner_remove_member_def
    group_owner_set_member_role_def
  by ((intro same_guarded same_jobsI,
      simp add: job_free job_free_defs
        set_role_def add_member_body_def remove_member_body_def drop_member_def set_role_body_def
      split: sum.split option.split json.split list.split)[])+

lemma same_AdminUsers:
    "same_jobs (admin_list_users e)" "same_jobs (admin_update_user e)" "same_jobs (admin_set_password e)"
  "same_jobs (admin_create_user e)" "same_jobs (admin_delete_user e)"
  unfolding
    admin_list_users_def admin_update_user_def admin_set_password_def admin_create_user_def
    admin_delete_user_def
  by ((intro same_guarded same_jobsI,
      simp add: job_free with_payload_def refuse_def Let_def case_prod_beta
        update_user_body_def edit_user_def save_user_def set_password_body_def create_local_def create_mtls_def
        insert_local_def delete_user_body_def
      split: sum.split option.split json.split list.split)[])+

lemma same_AdminJobs:
    "same_jobs (admin_list_orphan_keys e)" "same_jobs (admin_delete_orphan_key e t)" "same_jobs (admin_list_orphan_certs (site_certs x) e)"
  "same_jobs (admin_delete_orphan_cert e t)"
  unfolding
    admin_list_orphan_keys_def admin_delete_orphan_key_def admin_list_orphan_certs_def
    admin_delete_orphan_cert_def
  by ((intro same_guarded same_jobsI,
      simp add: job_free job_free_defs
        delete_orphan_body_def helper_delete_def
      split: sum.split option.split json.split list.split)[])+

lemma same_Reports:
    "same_jobs (admin_stats e (site_db_path x) (site_db_size x) m)"
  unfolding
    admin_stats_def
  by ((intro same_guarded same_jobsI,
      simp add: job_free job_free_defs

      split: sum.split option.split json.split list.split)[])+

lemma same_Templates:
    "same_jobs (get_my_groups e)" "same_jobs (list_templates e)" "same_jobs (create_template e)"
  "same_jobs (admin_set_template_signing e i)" "same_jobs (delete_template e i)" "same_jobs (admin_delete_template e i)"
  unfolding
    get_my_groups_def list_templates_def create_template_def admin_set_template_signing_def delete_template_def
    admin_delete_template_def
  by ((intro same_guarded same_jobsI,
      simp add: job_free with_payload_def refuse_def Let_def case_prod_beta
        create_template_body_def add_template_def template_signing_body_def store_policy_def stripped_def
        delete_template_body_def drop_template_def admin_delete_body_def
      split: sum.split option.split json.split list.split)[])+

lemma same_Subjects:
    "same_jobs (get_csr_subject e)" "same_jobs (put_csr_subject e)" "same_jobs (put_csr_subject_profile e)"
  "same_jobs (delete_csr_subject_profile e t)"
  unfolding
    get_csr_subject_def put_csr_subject_def put_csr_subject_profile_def delete_csr_subject_profile_def
  by ((intro same_guarded same_jobsI,
      simp add: job_free job_free_defs
        put_subject_body_def store_subject_def put_profile_body_def apply_default_profile_def
        delete_profile_body_def
      split: sum.split option.split json.split list.split)[])+

lemma same_LicenseAdmin:
    "same_jobs (get_license e)" "same_jobs (put_license e)" "same_jobs (delete_license e)"
  unfolding
    get_license_def put_license_def delete_license_def
  by ((intro same_guarded same_jobsI,
      simp add: job_free job_free_defs
        put_license_body_def
      split: sum.split option.split json.split list.split)[])+

lemma same_Expiry:
    "same_jobs (admin_run_auto_renew e)" "same_jobs (admin_audit e)" "same_jobs (list_fleet_certs e)"
  "same_jobs (delete_fleet_cert e i)"
  unfolding
    admin_run_auto_renew_def admin_audit_def list_fleet_certs_def delete_fleet_cert_def
  by ((intro same_guarded same_jobsI,
      simp add: job_free job_free_defs

      split: sum.split option.split json.split list.split)[])+

lemma same_Dialect:
    "same_jobs (admin_get_database e (site_db x) (site_driver x))" "same_jobs (admin_test_database e (site_driver x) (site_db_probe x))"
  unfolding
    admin_get_database_def admin_test_database_def
  by ((intro same_guarded same_jobsI,
      simp add: job_free job_free_defs
        test_database_body_def
      split: sum.split option.split json.split list.split)[])+

lemma same_AdminGroups:
    "same_jobs (admin_list_groups e)" "same_jobs (admin_create_group e)" "same_jobs (admin_update_group e i)"
  "same_jobs (admin_group_members e i)" "same_jobs (admin_group_add_member e i)" "same_jobs (admin_group_remove_member e i)"
  "same_jobs (admin_test_email e off)"
  unfolding
    admin_list_groups_def admin_create_group_def admin_update_group_def admin_group_members_def
    admin_group_add_member_def admin_group_remove_member_def admin_test_email_def
  by ((intro same_guarded same_jobsI,
      simp add: job_free job_free_defs
        create_group_body_def insert_group_def update_group_body_def admin_add_member_body_def
        admin_remove_member_body_def drop_member_def test_email_body_def
      split: sum.split option.split json.split list.split)[])+

lemma same_Diagnostics:
    "same_jobs (admin_diagnostics e (site_probes x) m)"
  unfolding
    admin_diagnostics_def
  by ((intro same_guarded same_jobsI,
      simp add: job_free job_free_defs
        probed_def
      split: sum.split option.split json.split list.split)[])+

lemma same_SupportBundle:
    "same_jobs (admin_support_bundle e (site_platform x) (site_probes x) m (site_show x) (site_keys x) (site_version x) (site_zip x))"
  unfolding
    admin_support_bundle_def
  by ((intro same_guarded same_jobsI,
      simp add: job_free job_free_defs
        probed_def
      split: sum.split option.split json.split list.split)[])+

lemma same_Truststore:
    "same_jobs (ts_list e)" "same_jobs (ts_upload e)" "same_jobs (ts_set_enabled e i)"
  "same_jobs (ts_delete e i)" "same_jobs (ts_download_bundle e)" "same_jobs (ts_install_local e)"
  "same_jobs (ts_add_target e)" "same_jobs (ts_del_target e i)" "same_jobs (ts_push e)"
  "same_jobs (ts_pull_token e)" "same_jobs (ts_pull_bundle e t)"
  unfolding
    ts_list_def ts_upload_def ts_set_enabled_def ts_delete_def ts_download_bundle_def ts_install_local_def
    ts_add_target_def ts_del_target_def ts_push_def ts_pull_token_def ts_pull_bundle_def
  by ((intro same_guarded same_jobsI,
      simp add: job_free job_free_defs
        upload_pem_def set_enabled_def remove_cert_def install_local_def add_target_def remove_target_def
        mint_pull_token_def consume_pull_def
      split: sum.split option.split json.split list.split)[])+

subsection \<open>Views that change jobs otherwise\<close>

lemma jobs_ok_update:
  assumes "jobs_ok e w" "\<And>j. j_id (f j) = j_id j" "\<And>j. certified e (f j) = certified e j"
    and "w_jobs v = update_where P f (w_jobs w)"
  shows "jobs_ok e v"
  using assms by (simp add: jobs_ok_def unique_key_update) (auto simp: update_where_def)

lemmas jobs_ok_modify = jobs_ok_update [where P = "\<lambda>r. j_id r = k" for k, folded modify_row_def]

lemma jobs_ok_delete: "jobs_ok e w \<Longrightarrow> w_jobs v = delete_where P (w_jobs w) \<Longrightarrow> jobs_ok e v"
  by (auto simp: jobs_ok_def unique_key_delete) (auto simp: delete_where_def)

lemma jobs_ok_same: "jobs_ok e w \<Longrightarrow> w_jobs v = w_jobs w \<Longrightarrow> jobs_ok e v"
  by (simp add: jobs_ok_def)

lemma keeps_delete_job: "jobinv.keeps e (admin_delete_job e i)"
  unfolding admin_delete_job_def
proof (intro jobinv.guarded jobinv.keepsI)
  fix c and w :: "'a world" assume ok: "jobs_ok e w"
  have d: "jobs_ok e (log_event c a r x (w1\<lparr>w_jobs := remove_row j_id i (w_jobs w)\<rparr>))" for w1 :: "'a world" and a r x
    using ok by (rule jobs_ok_delete) (simp add: remove_row_def)
  have f: "w_jobs (snd (if b then delete_job_files e js (0, w) else (0, w))) = w_jobs w" for b js by simp
  show "jobs_ok e (snd (delete_job_body e i c w))"
  proof (cases "row_by j_id i (w_jobs w)")
    case None
    then show ?thesis using ok by (simp add: delete_job_body_def jobinv.failures)
  next
    case (Some j)
    then show ?thesis using ok
      by (simp add: delete_job_body_def jobinv.failures Let_def case_prod_beta d f del: delete_job_files.simps)
  qed
qed

lemma keeps_bulk_delete: "jobinv.keeps e (admin_bulk_delete_jobs e)"
  unfolding admin_bulk_delete_jobs_def
proof (intro jobinv.guarded jobinv.keepsI)
  fix c and w :: "'a world" assume ok: "jobs_ok e w"
  have d: "jobs_ok e (w1\<lparr>w_jobs := delete_where P (w_jobs w)\<rparr>)" for w1 :: "'a world" and P
    using ok by (rule jobs_ok_delete) simp
  have f: "w_jobs (snd (if b then delete_job_files e js (0, w) else (0, w))) = w_jobs w" for b js by simp
  show "jobs_ok e (snd (bulk_delete_body e c w))"
    unfolding bulk_delete_body_def
    by (rule jobinv.payload [OF ok])
       (simp add: ok jobinv.failures jobinv.log Let_def case_prod_beta d split: sum.split)
qed

lemma sweep_keys_ok: "jobs_ok e w \<Longrightarrow> jobs_ok e (snd (sweep_keys e' c js n w))"
proof (induction e' c js n w rule: sweep_keys.induct)
  case (2 e' c j js migrated failed w)
  have off: "jobs_ok e (set_job i (\<lambda>j. j\<lparr>j_has_local_key := False\<rparr>) v)"
    and moved: "jobs_ok e (set_job i (\<lambda>k. k\<lparr>j_key_vault_path := p, j_key_storage := s\<rparr>) v)"
    if "w_jobs v = w_jobs w" for v :: "'a world" and i p s
    by (rule jobs_ok_modify [OF "2.prems"]; simp add: certified_def that)+
  obtain rc pem x w1 where g: "run_helper e' [''get-key'', or_empty (j_local_key_name j)] [] w = ((rc, pem, x), w1)"
    by (metis surj_pair)
  obtain r w2 where p: "Keystore.put_key e' (j_id j) pem w1 = (r, w2)" by fastforce
  have w1: "w_jobs w1 = w_jobs w" using run_helper_frame(3) [of e' "[''get-key'', or_empty (j_local_key_name j)]" "[]" w] by (simp add: g)
  have w2: "w_jobs w2 = w_jobs w" using Keystore.put_key_frame(1) [of e' "j_id j" pem w1] by (simp add: p w1)
  show ?case
  proof (cases "rc \<noteq> 0 \<or> strip pem = []")
    case True
    then show ?thesis using "2.IH"(1) [OF refl g [symmetric] refl refl True off] by (simp add: g w1 Let_def)
  next
    case False
    show ?thesis
    proof (cases r)
      case (Inl err)
      have "jobs_ok e (log_event c a b y w2)" for a b y using "2.prems" by (rule jobs_ok_same) (simp add: w2)
      then show ?thesis using "2.IH" g p False Inl by (auto simp: Let_def)
    next
      case (Inr u)
      then show ?thesis using "2.IH" g p False moved [of "snd (run_helper e' a i w2)" for a i] by (auto simp: Let_def w2)
    qed
  qed
qed simp

lemma keeps_migrate_keys: "jobinv.keeps e (admin_migrate_keys_to_vault e)"
proof -
  have "jobs_ok e (snd (migrate_host_keys e c n w))" if "jobs_ok e w" for c n and w :: "'a world"
    using that sweep_keys_ok [OF that] by (simp add: migrate_host_keys_def Let_def case_prod_beta jobinv.log)
  then show ?thesis
    unfolding admin_migrate_keys_to_vault_def
    by (intro jobinv.guarded jobinv.keepsI) (simp add: case_prod_beta jobinv.log)
qed

lemma keeps_interact: "jobinv.keeps e (slack_interact e raw)"
proof (rule jobinv.keepsI)
  fix c and w :: "'a world" assume ok: "jobs_ok e w"
  have "jobs_ok e (perform_action e a w)" for a
  proof -
    from performed [of w e a] obtain js h ls where w': "perform_action e a w = w\<lparr>w_jobs := js, w_host := h, w_log := ls\<rparr>"
      and js: "js = w_jobs w \<or> (\<exists>k gid. js = modify_row j_id k (j_group_id_update (\<lambda>_. Some gid)) (w_jobs w))"
      unfolding slack_effect_def by blast
    from js show ?thesis
    proof (elim disjE exE)
      assume "js = w_jobs w"
      then show ?thesis by (intro jobs_ok_same [OF ok]) (simp add: w')
    next
      fix k gid assume "js = modify_row j_id k (j_group_id_update (\<lambda>_. Some gid)) (w_jobs w)"
      then show ?thesis by (intro jobs_ok_modify [OF ok]) (simp_all add: w' certified_def)
    qed
  qed
  then show "jobs_ok e (snd (slack_interact e raw c w))"
    unfolding slack_interact_def
    by (simp add: ok jobinv.log jobinv.attempt split: option.split)
qed

lemma keeps_delete_group: "jobinv.keeps e (admin_delete_group e g)"
  unfolding admin_delete_group_def
proof (intro jobinv.guarded jobinv.keepsI)
  fix c and w :: "'a world" assume ok: "jobs_ok e w"
  have "jobs_ok e (log_event c a r x (w\<lparr>w_jobs := update_where P (\<lambda>j. j\<lparr>j_group_id := None\<rparr>) (w_jobs w), w_members := ms, w_groups := gs\<rparr>))"
    for a r x P ms gs
    by (rule jobs_ok_update [OF ok]) (simp_all add: certified_def)
  then show "jobs_ok e (snd (delete_group_body e g c w))"
    using ok by (simp add: delete_group_body_def jobinv.failures split: option.split)
qed

lemma warn_job_ok: "jobs_ok e (snd acc) \<Longrightarrow> jobs_ok e (snd (warn_job e' c j acc))"
proof -
  assume ok: "jobs_ok e (snd acc)"
  have "w_jobs (snd (warn_job e' c j acc)) = w_jobs (snd acc)
    \<or> (\<exists>n. w_jobs (snd (warn_job e' c j acc)) = modify_row j_id (j_id j) (\<lambda>j. j\<lparr>j_expiry_warned := n\<rparr>) (w_jobs (snd acc)))"
    by (cases acc, auto simp: warn_job_def Let_def set_warned_def split: option.split sum.split) metis
  then show ?thesis
    by (elim disjE exE; intro jobs_ok_same [OF ok] jobs_ok_modify [OF ok]) (simp_all add: certified_def)
qed

lemma warn_group_jobs: "w_jobs (snd (warn_group e c f rows acc)) = w_jobs (snd acc)"
  by (cases acc; cases "fst acc") (simp add: warn_group_def Let_def split: option.split sum.split)

lemma warn_fleet_jobs: "w_jobs (snd (warn_fleet e c acc)) = w_jobs (snd acc)"
proof -
  have "w_jobs (snd (fold (warn_fingerprint e c rows) fs acc)) = w_jobs (snd acc)" for rows fs
    by (induction fs arbitrary: acc) (simp_all add: warn_fingerprint_def warn_group_jobs split: list.split)
  then show ?thesis by (simp add: warn_fleet_def Let_def)
qed

lemma run_warnings_ok:
  fixes w :: "'h world"
  assumes ok: "jobs_ok e w"
  shows "jobs_ok e (snd (run_expiry_warnings e' c w))"
proof -
  have f: "jobs_ok e (snd acc) \<Longrightarrow> jobs_ok e (snd (fold (warn_job e' c) js acc))" for js and acc :: "(nat \<times> nat) \<times> 'h world"
    by (induction js arbitrary: acc) (simp_all add: warn_job_ok)
  show ?thesis
    unfolding run_expiry_warnings_def Let_def by (rule jobs_ok_same [OF f warn_fleet_jobs]) (simp, rule jobs_ok_same [OF ok], simp)
qed

lemma keeps_expiry_warnings: "jobinv.keeps e (admin_run_expiry_warnings e)"
  unfolding admin_run_expiry_warnings_def
  by (intro jobinv.guarded jobinv.keepsI) (simp add: run_warnings_ok case_prod_beta jobinv.log)

lemma steady_export: "steady e (export_jobs_csv e)"
  unfolding export_jobs_csv_def export_body_def [abs_def] Let_def
  by (intro steady_auth steadyI moves_attempt) (simp_all add: moves_sweep)

lemmas keeps_other = keeps_delete_job keeps_bulk_delete keeps_migrate_keys keeps_interact keeps_delete_group
  keeps_expiry_warnings steady_keeps [OF steady_export]

subsection \<open>Every route\<close>

definition route_keeps :: "'h env \<Rightarrow> 'h route \<Rightarrow> bool" where
  "route_keeps e r \<longleftrightarrow> (case r of (v, rule, view) \<Rightarrow> \<forall>a. jobinv.keeps e (view a))"

lemma route_keepsI: "(\<And>a. jobinv.keeps e (view a)) \<Longrightarrow> route_keeps e (v, rule, view)"
  by (simp add: route_keeps_def)

text \<open>Some views read the mail settings of the moment.\<close>

lemma same_now:
  "same_jobs (\<lambda>c w. admin_test_webhook e (f w) i c w)" "same_jobs (\<lambda>c w. admin_stats e (site_db_path x) (site_db_size x) (f w) c w)"
  "same_jobs (\<lambda>c w. admin_test_email e (g w) c w)" "same_jobs (\<lambda>c w. admin_diagnostics e (site_probes x) (f w) c w)"
  "same_jobs (\<lambda>c w. admin_support_bundle e (site_platform x) (site_probes x) (f w) (site_show x) (site_keys x)
     (site_version x) (site_zip x) c w)"
  by (rule same_jobsI; rule same_jobsD;
      rule same_Webhooks same_Reports same_AdminGroups same_Diagnostics same_SupportBundle)+

lemmas same_views = same_staged same_stepped same_now same_MailConf same_SigningRoutes
  same_Webhooks same_Slack same_Feedback same_Api same_AuthRoutes same_GroupRoutes same_AdminUsers same_AdminJobs same_Reports same_Templates same_Subjects same_LicenseAdmin same_Expiry same_Dialect same_AdminGroups same_Diagnostics same_SupportBundle same_Truststore

lemma api_keeps: "list_all (route_keeps e) (api_routes e x)"
  unfolding api_routes_def blueprints append.simps list.pred_inject
  by (intro conjI list.pred_inject(1) route_keepsI;
      ((rule same_jobs_keeps, rule same_views) | rule keeps_other | (rule steady_keeps, rule steady_endpoints)))

text \<open>
  Requests through dispatch, in any number and order, from any callers, each with its own view of the machine (the record
  \<open>x\<close>), and runs of the timer that sends expiry warnings; between them the state may change elsewhere, but for the jobs.
\<close>

inductive site_history :: "'h env \<Rightarrow> 'h world \<Rightarrow> 'h world \<Rightarrow> bool" for e w where
  start: "site_history e w w"
| request: "site_history e w v \<Longrightarrow> site_history e w (snd (wsgi e x path c v))"
| warnings: "site_history e w v \<Longrightarrow> site_history e w (snd (run_expiry_warnings e c v))"
| elsewhere: "site_history e w v \<Longrightarrow> w_jobs v' = w_jobs v \<Longrightarrow> site_history e w v'"

lemma identity_jobs: "w_jobs (snd (resolve_identity e c w)) = w_jobs w"
proof -
  have "w_jobs (snd (local_identity c v)) = w_jobs v" for v :: "'a world"
    by (simp add: local_identity_def session_user_dn_def Let_def split: option.split)
  then show ?thesis by (simp add: resolve_identity_def Let_def case_prod_beta split: option.split)
qed

lemma wsgi_keeps: "jobs_ok e w \<Longrightarrow> jobs_ok e (snd (wsgi e x path c w))"
proof -
  assume ok: "jobs_ok e w"
  obtain c1 w1 where b: "before_request e c w = (c1, w1)" by fastforce
  have "w_jobs w1 = w_jobs w" using b identity_jobs [of e c w] by (auto simp: before_request_def split: prod.splits)
  with ok have ok1: "jobs_ok e w1" by (rule jobs_ok_same)
  let ?verb = "if c_method c1 = ''HEAD'' then ''GET'' else c_method c1"
  have "jobs_ok e (snd (serve_request e x path c1 w1))"
  proof (cases "route_for (api_routes e x) ?verb path")
    case None
    then show ?thesis using ok1 by (simp add: serve_request_def jobinv.failures)
  next
    case (Some h)
    from route_for_SomeD [OF Some] obtain rule view a where r: "(?verb, rule, view) \<in> set (api_routes e x)" "h = view a" by blast
    have "route_keeps e (?verb, rule, view)" using api_keeps [of e x] r(1) unfolding list_all_iff by (rule bspec)
    then have "jobinv.keeps e h" by (simp add: route_keeps_def r(2))
    then show ?thesis using ok1 by (simp add: serve_request_def Some jobinv.keepsD)
  qed
  then show ?thesis by (simp add: wsgi_def b)
qed

text \<open>
  C1: no request of any kind puts a wrong certificate into the queue. If every issued, expired or revoked job holds a
  certificate that matches its own CSR, and every other job none, and identifiers are unique, then this is still so
  after any history of requests to any path of the application and of runs of the expiry timer: requests, signatures,
  uploads, revocations and renewals, but also clean-ups, key migrations, group and account administration, Slack callbacks
  and everything else that is routed.
\<close>

theorem requests_keep_certified:
  assumes "site_history e w w'"
    and "unique_key j_id (w_jobs w)" "\<forall>j \<in> set (w_jobs w). certified e j"
  shows "unique_key j_id (w_jobs w') \<and> (\<forall>j \<in> set (w_jobs w'). certified e j)"
proof -
  from assms(1) have "jobs_ok e w'"
  proof (induction rule: site_history.induct)
    case start
    show ?case using assms(2,3) by (simp add: jobs_ok_def)
  next
    case (request v x path c)
    then show ?case by (intro wsgi_keeps request.IH)
  next
    case (warnings v c)
    then show ?case by (intro run_warnings_ok warnings.IH)
  next
    case (elsewhere v v')
    show ?case by (rule jobs_ok_same [OF elsewhere.IH elsewhere.hyps(2)])
  qed
  then show ?thesis by (simp add: jobs_ok_def)
qed

theorem requests_keep_certified_witness:
  "\<forall>x. list_all (certified signed_env)
     (w_jobs (snd (wsgi signed_env x (''/api/jobs/'' @ j_id sample_job @ ''/upload-cert'') (ada_ctx\<lparr>c_method := ''POST''\<rparr>) one_job)))"
proof
  fix x :: "unit site"
  let ?w = "snd (wsgi signed_env x (''/api/jobs/'' @ j_id sample_job @ ''/upload-cert'') (ada_ctx\<lparr>c_method := ''POST''\<rparr>) one_job)"
  have h: "site_history signed_env one_job ?w" by (intro site_history.intros)
  have "unique_key j_id (w_jobs one_job)" by (simp add: one_job_def unique_key_def)
  moreover have "\<forall>j \<in> set (w_jobs one_job). certified signed_env j" by (simp add: one_job_def certified_def sample_job_def)
  ultimately have "\<forall>j \<in> set (w_jobs ?w). certified signed_env j" using requests_keep_certified [OF h] by blast
  then show "list_all (certified signed_env) (w_jobs ?w)" by (simp only: list_all_iff)
qed

end
