(* ===== verification/Spec2Isabelle.thy ===== *)
theory Spec2Isabelle
  imports
    JobMachine Truststore AdminUsers AdminJobs Templates Expiry AdminGroups Subjects LicenseAdmin
    MailSaving Notify AcmeOrder Providers HookSafety Feedback SupportBundle Migrate FleetImport Reports
    Startup Sessions Schema TrustPush Cursors Gitlab Api Probes Whole
begin

text \<open>
  Certheim, a service for certificate signing requests: users ask for certificates, the service makes keys and CSRs or takes
  them in, signers approve, a certificate authority signs, the service watches what was issued. The code is the Python
  back-end under \<^verbatim>\<open>src/backend\<close>: a Flask application over SQLite or PostgreSQL. This development models that
  back-end and states what makes it correct.

  \<^bold>\<open>How the model is made.\<close>
  A request handler is a function from a request context (\<open>ctx\<close>: identity, user, method, headers, cookies, arguments, JSON
  body, clock) and a state (\<open>world\<close>) to a response and a state. \<open>world\<close> (theory World) has one list of records per database
  table, the settings, the sequences, the two session stores of the process, both audit trails, the webhooks fired and the
  mails sent, and a component \<open>w_host\<close> of any type for what lies behind the program: files, OpenBao, authorities. Everything
  that is not in the repository is a field of \<open>env\<close> (theory Runtime) or an argument: the process environment, \<open>openssl\<close>, the
  root helper, random tokens, JSON text, hashes, HTTP. Exceptions are values (\<open>py_error\<close> on the left of a sum, or of
  \<open>result\<close>), turned into responses by \<open>attempt\<close>, \<open>crash\<close> and \<open>abort\<close>, as \<^verbatim>\<open>_err\<close> of \<^verbatim>\<open>app.py\<close> does. A text
  is a list of characters below 256; where the code works with bytes, it is their UTF-8 form.

  \<^bold>\<open>Theories and sources.\<close>
  \<^item> Prelude, PyText, Runtime, World, Guarded: keyed tables, text functions of Python, JSON, errors, responses, the state,
    settings and audit (\<^verbatim>\<open>app.py\<close>); Guarded is the locale of the invariants that guards preserve.
  \<^item> Base64, Licensing, Capabilities, LicenseAdmin: \<^verbatim>\<open>build_mode.py\<close>, \<^verbatim>\<open>licensing.py\<close>, \<^verbatim>\<open>capabilities.py\<close>, and the
    license endpoints of \<^verbatim>\<open>routes_admin.py\<close>.
  \<^item> Domains, CsrSubject, Subjects: \<^verbatim>\<open>domains.py\<close>, \<^verbatim>\<open>csr_subject.py\<close>, and the subject profiles of \<^verbatim>\<open>routes_admin.py\<close>.
  \<^item> Identity, AuthRoutes, AdminUsers: identities, passwords, sessions and the guards of \<^verbatim>\<open>app.py\<close>, \<^verbatim>\<open>routes_auth.py\<close>, the
    user endpoints of \<^verbatim>\<open>routes_admin.py\<close>.
  \<^item> GroupRoutes, AdminGroups, Templates, Feedback: \<^verbatim>\<open>routes_groups.py\<close>, groups and templates of \<^verbatim>\<open>routes_admin.py\<close>,
    \<^verbatim>\<open>routes_feedback.py\<close>, \<^verbatim>\<open>routes_me.py\<close>.
  \<^item> JobCore, JobViews, JobActions, Requests, SigningRoutes, AdminJobs, Reports, JobMachine: the helpers of jobs in
    \<^verbatim>\<open>app.py\<close>, \<^verbatim>\<open>routes_jobs.py\<close>, \<^verbatim>\<open>routes_requests.py\<close>, \<^verbatim>\<open>routes_signing.py\<close>, the clean-up of \<^verbatim>\<open>routes_admin.py\<close>; JobMachine
    puts their writes together as the steps of one machine.
  \<^item> Certs, Keystore, Signer, Providers, AcmeClient, AcmeSafety, AcmeOrder: \<^verbatim>\<open>cert_formats.py\<close> and what is read from
    \<open>openssl\<close>, \<^verbatim>\<open>keystore.py\<close>, \<^verbatim>\<open>sign.py\<close> with its backends, \<^verbatim>\<open>acme_client.py\<close>.
  \<^item> Truststore, TrustPush: \<^verbatim>\<open>truststore.py\<close>, \<^verbatim>\<open>routes_truststore.py\<close>.
  \<^item> Notices, Webhooks, Slack, HookSafety, MailConf, MailSaving, Notify, Gitlab: what leaves the service; events and webhooks of
    \<^verbatim>\<open>app.py\<close>, \<^verbatim>\<open>routes_integrations.py\<close>, \<^verbatim>\<open>notify.py\<close>, \<^verbatim>\<open>gitlab_integration.py\<close> (which no other module imports).
  \<^item> Expiry, FleetImport, Diagnostics, SupportBundle, Probes: expiry warnings, the audit viewer and the fleet list of
    \<^verbatim>\<open>routes_admin.py\<close>, \<^verbatim>\<open>import_certs.py\<close>, \<^verbatim>\<open>diagnostics.py\<close>, \<^verbatim>\<open>support_bundle.py\<close>.
  \<^item> Dialect, Sessions, Cursors, Schema, Migrate, Startup: \<^verbatim>\<open>db.py\<close>, the transactions and \<^verbatim>\<open>init_db\<close> of \<^verbatim>\<open>app.py\<close>,
    \<^verbatim>\<open>db_migrate.py\<close>, what \<^verbatim>\<open>app.py\<close> does when it is loaded.
  \<^item> Api, Whole: the rules of the ten blueprints, dispatch, and the request hook before it; Whole goes through every view of
    every rule.

  \<^bold>\<open>What is shown.\<close>
  \<^item> Jobs (JobMachine, Whole): every job endpoint is a sequence of steps of the life of a job; closed jobs stay closed, the
    abstract queue is refined by every endpoint, an accepted upload completes; a certificate is attached only where the key
    matches, and no request to any path of the application changes that.
  \<^item> Access (Api, Identity, JobViews, SigningRoutes, AdminUsers, GroupRoutes): nothing below \<^verbatim>\<open>/api/admin/\<close> runs without an
    active administrator, nothing outside seven open rules without an active user and, for a changing method, the
    anti-forgery header; who may fetch a key, see a job and approve one; an administrator and an owner of each group remain.
  \<^item> Keys and secrets (Keystore, Truststore, TrustPush, SupportBundle, MailSaving): a key is in one place at least, is handed
    out once under the return-once policy, temporary key files go away; bundles and settings pages are read against what they
    must not show, and the places where they show it are theorems too.
  \<^item> Licensing and signing (Licensing, Capabilities, Signer, Domains): features fail closed; what a signature needs; the
    quota over any history.
  \<^item> Text formats (CsrSubject, Truststore, Reports, MailConf, Webhooks, Notify): what is written is read back as it was, and
    no input breaks out of its field.
  \<^item> Background work (Expiry, AcmeOrder, FleetImport, Migrate, Schema): at most three warnings per job, a bound on the
    requests of an order, imports and migrations that can be repeated, upgrades of every earlier schema.
  Where the code does not do what its text says, the model follows the code, and the theorem says so.

  \<^bold>\<open>Interfaces.\<close>
  Locales state what several components share: \<open>keyed_store\<close> (Prelude), what a table keyed by a field promises, interpreted
  on users, sessions, key sessions, memberships, jobs and pull tokens; \<open>sanitizer\<close> (Prelude), interpreted on the four filters
  of CSR subjects; \<open>world_invariant\<close> (Guarded), what the decorators keep, interpreted on the invariants of jobs, groups,
  subject profiles, webhooks and feedback; \<open>acme_requests\<close> and \<open>acme_order\<close> (AcmeSafety), interpreted on nonces, files and their
  contents. Step relations are inductive, with inversion rules; their invariants are proved by rule induction.

  \<^bold>\<open>Bounds.\<close>
  Interpolation of configuration values ends at ten levels, as \<open>configparser\<close>'s does; ACME polling makes 20 tries, as
  \<^verbatim>\<open>_poll\<close> does, and an order of \<open>n\<close> authorizations sends at most \<open>48 + 44 * n\<close> signed requests; every other loop is
  structural recursion or has a termination proof with a measure. Clocks, counters and identifiers are Python's unbounded
  integers; nothing in the back-end depends on a machine width but characters.

  \<^bold>\<open>Not modelled.\<close>
  The licensed modules \<^verbatim>\<open>deliver\<close>, \<^verbatim>\<open>renew\<close>, \<^verbatim>\<open>acme_dns\<close>, \<^verbatim>\<open>ca_providers\<close>, \<^verbatim>\<open>routes_acme\<close> and \<^verbatim>\<open>routes_deliver\<close> are
  not in the repository: they are arguments where the code calls them, and absent where it copes without them. Flask, the
  drivers, \<open>openssl\<close>, SSH, SMTP and HTTP peers are arguments. Requests are served one after the other: interleavings of two
  requests within one handler, and the threads that deliver webhooks, are steps of their own only where a theory says so. The
  wiring of modules when they are loaded (imports, the \<open>configure\<close> functions that hand over the settings reader), the text of
  messages printed on the console, the browser's code, the shell helper, the packaging and the tests are left out: they
  hold no state of the service.
\<close>

end
